(* ===== verification/Prelude.thy ===== *)
theory Prelude
  imports Main "HOL-Library.Sublist"
begin

text \<open>
  What every component of the model shares: the collections that carry the automation, results
  with an error, time, the dictionary operations of Python on association lists, and counting
  lemmas on lists.

  A function that may raise returns \<open>'e + 'a\<close>: \<open>Inl e\<close> is the exception, \<open>Inr x\<close> the returned
  value. Where the source mutates state before it raises, the state is returned beside that sum.
  A \<open>datetime\<close> is an instant in microseconds, a \<open>timedelta\<close> a number of microseconds, which is
  the resolution of both Python types.
\<close>

named_theorems dict_simps "rewrite rules for dictionaries kept as association lists"
named_theorems inv_intros "one-step preservation lemmas of the component invariants"

section \<open>Results\<close>

text \<open>Sequencing: run the second step on the value of the first, or pass its error on.\<close>

definition res_bind :: "'e + 'a \<Rightarrow> ('a \<Rightarrow> 'e + 'b) \<Rightarrow> 'e + 'b" where
  "res_bind r f = (case r of Inl e \<Rightarrow> Inl e | Inr x \<Rightarrow> f x)"

text \<open>\<open>if cond: raise e\<close>.\<close>

definition raise_if :: "bool \<Rightarrow> 'e \<Rightarrow> 'e + unit" where
  "raise_if b e = (if b then Inl e else Inr ())"

lemma res_bind_simps [simp]:
  "res_bind (Inl e) f = Inl e"
  "res_bind (Inr x) f = f x"
  by (simp_all add: res_bind_def)

lemma raise_if_simps [simp]:
  "raise_if True e = Inl e"
  "raise_if False e = Inr ()"
  by (simp_all add: raise_if_def)

lemma res_bind_Inr: "res_bind r f = Inr y \<longleftrightarrow> (\<exists>x. r = Inr x \<and> f x = Inr y)"
  by (cases r) auto

lemma res_bind_Inl: "res_bind r f = Inl e \<longleftrightarrow> r = Inl e \<or> (\<exists>x. r = Inr x \<and> f x = Inl e)"
  by (cases r) auto

lemma raise_if_Inr [simp]: "raise_if b e = Inr u \<longleftrightarrow> \<not> b"
  by (cases b) auto

lemma raise_if_Inl [simp]: "raise_if b e = Inl e' \<longleftrightarrow> b \<and> e' = e"
  by (cases b) auto

lemma map_error_Inr: "map_sum g id r = Inr x \<longleftrightarrow> r = Inr x"
  by (cases r) auto

lemma case_option_Inr:
  "(case x of None \<Rightarrow> Inl e | Some t \<Rightarrow> f t) = Inr y \<longleftrightarrow> (\<exists>t. x = Some t \<and> f t = Inr y)"
  by (cases x) auto

lemmas result_iffs = res_bind_Inr res_bind_Inl raise_if_Inr raise_if_Inl

section \<open>Time\<close>

type_synonym datetime = int
type_synonym timedelta = int

definition seconds :: "int \<Rightarrow> timedelta" where "seconds n = n * 1000000"
definition hours :: "int \<Rightarrow> timedelta" where "hours n = seconds (3600 * n)"
definition days :: "int \<Rightarrow> timedelta" where "days n = seconds (86400 * n)"

lemma seconds_le [simp]: "seconds a \<le> seconds b \<longleftrightarrow> a \<le> b"
  by (simp add: seconds_def)

lemma seconds_less [simp]: "seconds a < seconds b \<longleftrightarrow> a < b"
  by (simp add: seconds_def)

lemmas time_defs = seconds_def hours_def days_def

section \<open>Dictionaries in insertion order\<close>

text \<open>
  A Python \<open>dict\<close> (and an \<open>OrderedDict\<close>) iterates in insertion order: an association list whose
  keys are distinct. Storing an existing key keeps its position; \<open>move_to_end\<close> and \<open>popitem\<close> are
  those of \<open>OrderedDict\<close>.
\<close>

type_synonym ('k, 'v) dict = "('k \<times> 'v) list"

definition dget :: "('k, 'v) dict \<Rightarrow> 'k \<Rightarrow> 'v option" where
  "dget d k = map_of d k"

fun dput :: "'k \<Rightarrow> 'v \<Rightarrow> ('k, 'v) dict \<Rightarrow> ('k, 'v) dict" where
  "dput k v [] = [(k, v)]"
| "dput k v ((k', v') # d) = (if k = k' then (k, v) # d else (k', v') # dput k v d)"

definition ddel :: "'k \<Rightarrow> ('k, 'v) dict \<Rightarrow> ('k, 'v) dict" where
  "ddel k d = filter (\<lambda>p. fst p \<noteq> k) d"

definition move_to_end :: "'k \<Rightarrow> ('k, 'v) dict \<Rightarrow> ('k, 'v) dict" where
  "move_to_end k d = filter (\<lambda>p. fst p \<noteq> k) d @ filter (\<lambda>p. fst p = k) d"

definition dkeys :: "('k, 'v) dict \<Rightarrow> 'k list" where
  "dkeys d = map fst d"

definition dict_ok :: "('k, 'v) dict \<Rightarrow> bool" where
  "dict_ok d \<longleftrightarrow> distinct (map fst d)"

lemma dget_dput [dict_simps]: "dget (dput k v d) k' = (if k' = k then Some v else dget d k')"
  unfolding dget_def by (induction k v d rule: dput.induct) auto

lemma dget_ddel [dict_simps]: "dget (ddel k d) k' = (if k' = k then None else dget d k')"
  unfolding dget_def ddel_def by (induction d) auto

lemma set_keys_dput [dict_simps]: "fst ` set (dput k v d) = insert k (fst ` set d)"
  by (induction k v d rule: dput.induct) auto

lemma dget_None [dict_simps]: "dget d k = None \<longleftrightarrow> k \<notin> fst ` set d"
  by (simp add: dget_def map_of_eq_None_iff)

lemma dget_Some_key: "dget d k = Some v \<Longrightarrow> k \<in> fst ` set d"
  by (metis dget_None option.distinct(1))

lemma dict_ok_Nil [simp]: "dict_ok []"
  by (simp add: dict_ok_def)

lemma dict_ok_dput [intro]: "dict_ok d \<Longrightarrow> dict_ok (dput k v d)"
proof (induction k v d rule: dput.induct)
  case (2 k v k' v' d)
  then show ?case using set_keys_dput [of k v d] by (auto simp: dict_ok_def)
qed (simp add: dict_ok_def)

lemma dict_ok_ddel [intro]: "dict_ok d \<Longrightarrow> dict_ok (ddel k d)"
  by (auto simp: dict_ok_def ddel_def distinct_map inj_on_def)

lemma map_of_append_notin: "k \<notin> fst ` set xs \<Longrightarrow> map_of (xs @ ys) k = map_of ys k"
  by (auto simp: map_add_def split: option.splits dest: map_of_SomeD
      intro: rev_image_eqI)

lemma map_of_filter_key:
  "map_of (filter (\<lambda>p. fst p \<noteq> k) d) k' = (if k' = k then None else map_of d k')"
  "map_of (filter (\<lambda>p. fst p = k) d) k' = (if k' = k then map_of d k else None)"
  by (induction d) auto

lemma dget_move_to_end [dict_simps]: "dget (move_to_end k d) k' = dget d k'"
  by (simp add: dget_def move_to_end_def map_add_def map_of_filter_key split: option.splits)

lemma set_keys_move_to_end [dict_simps]: "fst ` set (move_to_end k d) = fst ` set d"
  by (auto simp: move_to_end_def)

lemma set_move_to_end [simp]: "set (move_to_end k d) = set d"
  by (auto simp: move_to_end_def)

lemma length_move_to_end [simp]: "length (move_to_end k d) = length d"
  unfolding move_to_end_def by (induction d) auto

lemma dict_ok_move_to_end [intro]: "dict_ok d \<Longrightarrow> dict_ok (move_to_end k d)"
  unfolding dict_ok_def move_to_end_def
  by (induction d) (auto simp: image_iff split: prod.splits)

lemma length_dput: "length (dput k v d) = (if k \<in> fst ` set d then length d else Suc (length d))"
  by (induction k v d rule: dput.induct) auto

lemma dict_ok_tl [intro]: "dict_ok d \<Longrightarrow> dict_ok (tl d)"
  unfolding dict_ok_def by (cases d) auto

lemma move_to_end_new: "k \<notin> fst ` set d \<Longrightarrow> move_to_end k (dput k v d) = d @ [(k, v)]"
proof -
  assume new: "k \<notin> fst ` set d"
  then have "dput k v d = d @ [(k, v)]"
    by (induction k v d rule: dput.induct) auto
  moreover from new have "filter (\<lambda>p. fst p \<noteq> k) d = d" "filter (\<lambda>p. fst p = k) d = []"
    by (auto simp: filter_id_conv filter_empty_conv)
  ultimately show ?thesis by (simp add: move_to_end_def)
qed

lemma dget_map_value: "dget (map (\<lambda>(i, a). (i, f i a)) d) k = map_option (f k) (dget d k)"
  unfolding dget_def by (induction d) auto

lemma dput_as_map: "dict_ok d \<Longrightarrow> dget d k = Some r \<Longrightarrow> dput k v d = map (\<lambda>(i, a). (i, if i = k then v else a)) d"
proof (induction k v d rule: dput.induct)
  case (2 k v k' v' d)
  show ?case
  proof (cases "k = k'")
    case True
    with 2(2) have "\<forall>(i, a) \<in> set d. i \<noteq> k" by (auto simp: dict_ok_def image_iff)
    then have "map (\<lambda>(i, a). (i, if i = k then v else a)) d = d" by (intro map_idI) auto
    with True show ?thesis by simp
  next
    case False
    with 2 show ?thesis by (simp add: dget_def dict_ok_def)
  qed
qed (simp add: dget_def)

lemma set_dput_subset: "set (dput k v d) \<subseteq> insert (k, v) (set d)"
  by (induction k v d rule: dput.induct) auto

lemma dput_new: "k \<notin> fst ` set d \<Longrightarrow> dput k v d = d @ [(k, v)]"
  by (induction k v d rule: dput.induct) auto

lemma dput_same: "dict_ok d \<Longrightarrow> dget d k = Some v \<Longrightarrow> dput k v d = d"
  by (induction k v d rule: dput.induct) (auto simp: dict_ok_def dget_def dest: map_of_SomeD split: if_splits)

section \<open>Lists\<close>

text \<open>\<open>dict.fromkeys(xs)\<close>: the first occurrence of each element, in order.\<close>

definition first_seen :: "'a list \<Rightarrow> 'a list" where
  "first_seen xs = rev (remdups (rev xs))"

lemma set_first_seen [simp]: "set (first_seen xs) = set xs"
  by (simp add: first_seen_def)

lemma distinct_first_seen [simp]: "distinct (first_seen xs)"
  by (simp add: first_seen_def)

lemma length_first_seen: "length (first_seen xs) = card (set xs)"
  by (simp add: first_seen_def length_remdups_card_conv)

text \<open>\<open>next((x for x in xs if p(x)), None)\<close>.\<close>

definition first_where :: "('a \<Rightarrow> bool) \<Rightarrow> 'a list \<Rightarrow> 'a option" where
  "first_where p xs = find p xs"

lemma find_holds: "find p xs = Some x \<Longrightarrow> x \<in> set xs \<and> p x"
  by (auto simp: find_Some_iff)

lemma first_where_Some: "first_where p xs = Some x \<Longrightarrow> x \<in> set xs \<and> p x"
  by (auto simp: first_where_def find_Some_iff)

lemma first_where_None: "first_where p xs = None \<longleftrightarrow> (\<forall>x \<in> set xs. \<not> p x)"
  by (auto simp: first_where_def find_None_iff)

end
