(* ===== verification/PyStr.thy ===== *)
theory PyStr
  imports Prelude "HOL-Library.Char_ord" "HOL-Library.List_Lexorder"
begin

text \<open>
  The operations of Python's \<open>str\<close> and \<open>bytes\<close> that the program uses, on \<open>string\<close>.

  A character stands for one code point, and the text the model speaks about is ASCII: case mapping
  moves the letters A to Z and a to z and leaves every other character alone, and white space is
  what \<open>str.strip()\<close> and \<open>str.split()\<close> take for it below code point 128 (tab to carriage return,
  the separators 28 to 31, and the blank). The same type carries \<open>bytes\<close>, whose \<open>strip()\<close> knows
  six white-space bytes only. Strings compare lexicographically by code point, as in Python.
\<close>

type_synonym str = string

text \<open>A \<open>UUID\<close> is its canonical text.\<close>

type_synonym uuid = str

definition is_space :: "char \<Rightarrow> bool" where
  "is_space c \<longleftrightarrow> (let n = (of_char c :: nat) in (9 \<le> n \<and> n \<le> 13) \<or> (28 \<le> n \<and> n \<le> 32))"

definition is_bspace :: "char \<Rightarrow> bool" where
  "is_bspace c \<longleftrightarrow> (let n = (of_char c :: nat) in (9 \<le> n \<and> n \<le> 13) \<or> n = 32)"

definition strip_by :: "(char \<Rightarrow> bool) \<Rightarrow> str \<Rightarrow> str" where
  "strip_by p s = rev (dropWhile p (rev (dropWhile p s)))"

definition strip :: "str \<Rightarrow> str" where "strip s = strip_by is_space s"
definition bstrip :: "str \<Rightarrow> str" where "bstrip s = strip_by is_bspace s"

definition lower_char :: "char \<Rightarrow> char" where
  "lower_char c = (let n = (of_char c :: nat) in if 65 \<le> n \<and> n \<le> 90 then char_of (n + 32) else c)"

definition upper_char :: "char \<Rightarrow> char" where
  "upper_char c = (let n = (of_char c :: nat) in if 97 \<le> n \<and> n \<le> 122 then char_of (n - 32) else c)"

definition lower :: "str \<Rightarrow> str" where "lower s = map lower_char s"
definition upper :: "str \<Rightarrow> str" where "upper s = map upper_char s"

text \<open>\<open>s.capitalize()\<close>.\<close>

definition capitalize :: "str \<Rightarrow> str" where
  "capitalize s = (case s of [] \<Rightarrow> [] | c # cs \<Rightarrow> upper_char c # lower cs)"

definition is_digit :: "char \<Rightarrow> bool" where
  "is_digit c \<longleftrightarrow> (let n = (of_char c :: nat) in 48 \<le> n \<and> n \<le> 57)"

definition is_lower_alpha :: "char \<Rightarrow> bool" where
  "is_lower_alpha c \<longleftrightarrow> (let n = (of_char c :: nat) in 97 \<le> n \<and> n \<le> 122)"

definition is_upper_alpha :: "char \<Rightarrow> bool" where
  "is_upper_alpha c \<longleftrightarrow> (let n = (of_char c :: nat) in 65 \<le> n \<and> n \<le> 90)"

definition is_alnum :: "char \<Rightarrow> bool" where
  "is_alnum c \<longleftrightarrow> is_digit c \<or> is_lower_alpha c \<or> is_upper_alpha c"

definition startswith :: "str \<Rightarrow> str \<Rightarrow> bool" where
  "startswith s p \<longleftrightarrow> take (length p) s = p"

definition removeprefix :: "str \<Rightarrow> str \<Rightarrow> str" where
  "removeprefix p s = (if startswith s p then drop (length p) s else s)"

text \<open>\<open>sub in s\<close>.\<close>

fun contains :: "str \<Rightarrow> str \<Rightarrow> bool" where
  "contains sub [] = (sub = [])"
| "contains sub (c # s) = (startswith (c # s) sub \<or> contains sub s)"

text \<open>\<open>sep.join(parts)\<close>.\<close>

fun join :: "str \<Rightarrow> str list \<Rightarrow> str" where
  "join sep [] = []"
| "join sep [x] = x"
| "join sep (x # y # xs) = x @ sep @ join sep (y # xs)"

text \<open>\<open>s.split(c)\<close> for a single-character separator.\<close>

fun split_on :: "char \<Rightarrow> str \<Rightarrow> str list" where
  "split_on c [] = [[]]"
| "split_on c (d # s) =
     (if d = c then [] # split_on c s
      else (case split_on c s of [] \<Rightarrow> [[d]] | w # ws \<Rightarrow> (d # w) # ws))"

text \<open>\<open>s.split()\<close>: the maximal runs of characters that are not white space.\<close>

fun split_ws_acc :: "str \<Rightarrow> str \<Rightarrow> str list" where
  "split_ws_acc w [] = (if w = [] then [] else [rev w])"
| "split_ws_acc w (c # s) =
     (if is_space c then (if w = [] then split_ws_acc [] s else rev w # split_ws_acc [] s)
      else split_ws_acc (c # w) s)"

definition split_ws :: "str \<Rightarrow> str list" where
  "split_ws s = split_ws_acc [] s"

text \<open>\<open>s.replace(c, r)\<close> for a single character.\<close>

definition replace_char :: "char \<Rightarrow> str \<Rightarrow> str \<Rightarrow> str" where
  "replace_char c r s = concat (map (\<lambda>d. if d = c then r else [d]) s)"

text \<open>\<open>s.partition(c)\<close> for a single character: before, separator found, after.\<close>

definition partition_char :: "char \<Rightarrow> str \<Rightarrow> str \<times> str \<times> str" where
  "partition_char c s =
     (let a = takeWhile (\<lambda>d. d \<noteq> c) s; b = dropWhile (\<lambda>d. d \<noteq> c) s
      in (a, take 1 b, drop 1 b))"

text \<open>\<open>str(n)\<close> for an integer.\<close>

fun nat_digits :: "nat \<Rightarrow> str" where
  "nat_digits n =
     (if n < 10 then [char_of (48 + n)] else nat_digits (n div 10) @ [char_of (48 + n mod 10)])"

declare nat_digits.simps [simp del]

definition int_str :: "int \<Rightarrow> str" where
  "int_str i = (if i < 0 then CHR ''-'' # nat_digits (nat (- i)) else nat_digits (nat i))"

text \<open>
  \<open>int(s)\<close>: surrounding white space, an optional sign, digits with single underscores between
  them. None is the \<open>ValueError\<close>. (ASCII digits; the limit of 4300 digits is not modelled.)
\<close>

definition digit_val :: "char \<Rightarrow> nat" where "digit_val c = of_char c - 48"

fun digits_acc :: "nat \<Rightarrow> str \<Rightarrow> nat option" where
  "digits_acc n [] = Some n"
| "digits_acc n (c # s) =
     (if is_digit c then digits_acc (10 * n + digit_val c) s
      else if c = CHR ''_'' \<and> s \<noteq> [] \<and> is_digit (hd s) then digits_acc n s
      else None)"

definition unsigned_int :: "str \<Rightarrow> nat option" where
  "unsigned_int s = (if s \<noteq> [] \<and> is_digit (hd s) then digits_acc 0 s else None)"

definition py_int :: "str \<Rightarrow> int option" where
  "py_int s =
     (case strip s of
        [] \<Rightarrow> None
      | c # u \<Rightarrow>
          if c = CHR ''-'' then map_option (\<lambda>n. - int n) (unsigned_int u)
          else if c = CHR ''+'' then map_option int (unsigned_int u)
          else map_option int (unsigned_int (c # u)))"

text \<open>\<open>s.replace(old, new)\<close> for a non-empty \<open>old\<close>, from the left and without overlap.\<close>

function replace_str :: "str \<Rightarrow> str \<Rightarrow> str \<Rightarrow> str" where
  "replace_str old new s =
     (case s of
        [] \<Rightarrow> []
      | c # s' \<Rightarrow>
          if old \<noteq> [] \<and> startswith s old then new @ replace_str old new (drop (length old) s)
          else c # replace_str old new s')"
  by pat_completeness auto

termination
  by (relation "measure (\<lambda>(old, new, s). length s)") auto

declare replace_str.simps [simp del]

text \<open>\<open>int(s, 16)\<close> without a sign other than plus.\<close>

definition hex_val :: "char \<Rightarrow> nat option" where
  "hex_val c =
     (let n = (of_char c :: nat) in
      if 48 \<le> n \<and> n \<le> 57 then Some (n - 48)
      else if 97 \<le> n \<and> n \<le> 102 then Some (n - 87)
      else if 65 \<le> n \<and> n \<le> 70 then Some (n - 55) else None)"

fun hex_acc :: "nat \<Rightarrow> str \<Rightarrow> nat option" where
  "hex_acc n [] = Some n"
| "hex_acc n (c # s) =
     (case hex_val c of
        Some d \<Rightarrow> hex_acc (16 * n + d) s
      | None \<Rightarrow> if c = CHR ''_'' \<and> s \<noteq> [] \<and> hex_val (hd s) \<noteq> None then hex_acc n s else None)"

definition hex_int :: "str \<Rightarrow> nat option" where
  "hex_int s =
     (let t = strip s;
          u = (case t of c # t' \<Rightarrow> if c = CHR ''+'' then t' else t | [] \<Rightarrow> []);
          v = (if startswith (lower u) ''0x'' then removeprefix ''_'' (drop 2 u) else u)
      in if v \<noteq> [] \<and> hex_val (hd v) \<noteq> None then hex_acc 0 v else None)"

text \<open>\<open>UUID(s)\<close> and back by \<open>str\<close>: the canonical lower-case text, None for the \<open>ValueError\<close>.\<close>

definition hex_digit :: "nat \<Rightarrow> char" where
  "hex_digit d = (if d < 10 then char_of (48 + d) else char_of (87 + d))"

fun hex_text :: "nat \<Rightarrow> nat \<Rightarrow> str" where
  "hex_text 0 n = []"
| "hex_text (Suc k) n = hex_text k (n div 16) @ [hex_digit (n mod 16)]"

definition uuid_text :: "nat \<Rightarrow> str" where
  "uuid_text n =
     (let h = hex_text 32 n in
      take 8 h @ ''-'' @ take 4 (drop 8 h) @ ''-'' @ take 4 (drop 12 h) @ ''-'' @ take 4 (drop 16 h)
      @ ''-'' @ drop 20 h)"

definition uuid_of :: "str \<Rightarrow> str option" where
  "uuid_of s =
     (let t = replace_str ''uuid:'' [] (replace_str ''urn:'' [] s);
          h = replace_char (CHR ''-'') [] (strip_by (\<lambda>c. c = CHR 0x7B \<or> c = CHR 0x7D) t)
      in if length h \<noteq> 32 then None else map_option uuid_text (hex_int h))"

section \<open>Facts about stripping and case\<close>

lemma strip_by_set: "set (strip_by p s) \<subseteq> set s"
  by (auto simp: strip_by_def dest!: set_dropWhileD)

lemma strip_by_idem [simp]: "strip_by p (strip_by p s) = strip_by p s"
proof -
  have 1: "dropWhile p (dropWhile p xs) = dropWhile p xs" for xs :: str
    by (induction xs) auto
  have 2: "dropWhile p (rev (dropWhile p (rev xs))) = rev (dropWhile p (rev xs))"
    if "dropWhile p xs = xs" for xs :: str
  proof (cases "rev (dropWhile p (rev xs))")
    case Nil
    then have "dropWhile p (rev xs) = []" by simp
    then show ?thesis by (simp only: rev.simps dropWhile.simps)
  next
    case (Cons y ys)
    have "prefix (rev (dropWhile p (rev xs))) xs"
      by (metis prefix_def rev_append rev_rev_ident takeWhile_dropWhile_id)
    with Cons have "hd xs = y" "xs \<noteq> []" by (auto simp: prefix_def)
    with that have "\<not> p y" by (metis hd_dropWhile)
    with Cons show ?thesis by simp
  qed
  show ?thesis unfolding strip_by_def by (simp add: 1 2)
qed

lemma strip_idem [simp]: "strip (strip s) = strip s"
  by (simp add: strip_def)

lemma strip_Nil [simp]: "strip [] = []"
  by (simp add: strip_def strip_by_def)

lemma strip_set: "set (strip s) \<subseteq> set s"
  by (simp add: strip_def strip_by_set)

lemma length_lower [simp]: "length (lower s) = length s"
  by (simp add: lower_def)

section \<open>Reading back a printed integer\<close>

lemma digit_char:
  assumes "n < 10"
  shows "is_digit (char_of (48 + n))" "digit_val (char_of (48 + n)) = n" "\<not> is_space (char_of (48 + n))"
proof -
  have "(of_char (char_of (48 + n) :: char) :: nat) = 48 + n" using assms by (simp add: of_char_of)
  then show "is_digit (char_of (48 + n))" "digit_val (char_of (48 + n)) = n"
    "\<not> is_space (char_of (48 + n))"
    using assms by (auto simp: is_digit_def digit_val_def is_space_def)
qed

lemma digits_acc_append:
  "(\<forall>c \<in> set s. is_digit c) \<Longrightarrow>
   digits_acc n (s @ t) = digits_acc (foldl (\<lambda>k c. 10 * k + digit_val c) n s) t"
  by (induction s arbitrary: n) auto

lemma nat_digits_spec:
  "nat_digits n \<noteq> [] \<and> (\<forall>c \<in> set (nat_digits n). is_digit c \<and> \<not> is_space c) \<and>
   foldl (\<lambda>k c. 10 * k + digit_val c) 0 (nat_digits n) = n"
proof (induction n rule: nat_digits.induct)
  case (1 n)
  show ?case
  proof (cases "n < 10")
    case True
    then show ?thesis using digit_char [of n] by (subst (1 2 3) nat_digits.simps) simp
  next
    case False
    have "10 * (n div 10) + n mod 10 = n" by simp
    with False 1 digit_char [of "n mod 10"] show ?thesis
      by (subst (1 2 3) nat_digits.simps) auto
  qed
qed

lemma unsigned_int_digits [simp]: "unsigned_int (nat_digits n) = Some n"
  using nat_digits_spec [of n] digits_acc_append [of "nat_digits n" 0 "[]"]
  by (auto simp: unsigned_int_def)

lemma strip_no_space: "\<forall>c \<in> set s. \<not> is_space c \<Longrightarrow> strip s = s"
proof -
  assume s: "\<forall>c \<in> set s. \<not> is_space c"
  have keep: "dropWhile is_space t = t" if "set t \<subseteq> set s" for t
    using s that by (cases t) auto
  show ?thesis by (simp add: strip_def strip_by_def keep)
qed

lemma py_int_int_str [simp]: "py_int (int_str i) = Some i"
proof -
  have minus: "\<not> is_digit (CHR ''-'')" "\<not> is_digit (CHR ''+'')" "\<not> is_space (CHR ''-'')"
    by (simp_all add: is_digit_def is_space_def)
  have strip: "strip (int_str i) = int_str i"
    using nat_digits_spec minus(3) by (intro strip_no_space) (auto simp: int_str_def)
  show ?thesis
  proof (cases "i < 0")
    case True
    then show ?thesis using strip by (simp add: py_int_def int_str_def)
  next
    case False
    obtain c u where u: "nat_digits (nat i) = c # u" "is_digit c"
      using nat_digits_spec [of "nat i"] by (cases "nat_digits (nat i)") auto
    with False strip minus have "py_int (int_str i) = map_option int (unsigned_int (c # u))"
      by (auto simp: py_int_def int_str_def)
    with u(1) False show ?thesis by (simp flip: u(1))
  qed
qed

end
