(* ===== verification/Json.thy ===== *)
theory Json
  imports PyStr Complex_Main
begin

text \<open>
  Decoded JSON as Python holds it. An object is a dictionary in insertion order; \<open>true\<close> and \<open>1\<close>
  are different values although \<open>bool\<close> is a subclass of \<open>int\<close>, since the program tests for it.
  A float is an exact rational or one of the three special values that \<open>json.loads\<close> also accepts.
  \<open>json.loads\<close> itself is a parameter of the operations that call it: it returns a value, raises
  \<open>JSONDecodeError\<close>, or raises something else (\<open>UnicodeDecodeError\<close> on bytes that are not
  UTF-8, \<open>RecursionError\<close> on deep nesting, \<open>ValueError\<close> on an integer of too many digits).
\<close>

datatype pyfloat = Fin rat | NaN | PosInf | NegInf

datatype json =
    JNull
  | JBool bool
  | JInt int
  | JFloat pyfloat
  | JStr str
  | JList "json list"
  | JObj "(str \<times> json) list"

type_synonym obj = "(str, json) dict"

datatype loaded = Loaded json | JSONDecodeError str | LoadsCrash

text \<open>\<open>raw.get(key)\<close> and \<open>raw.get(key, default)\<close>.\<close>

definition jget :: "obj \<Rightarrow> str \<Rightarrow> json" where
  "jget d k = (case dget d k of None \<Rightarrow> JNull | Some v \<Rightarrow> v)"

definition jget_or :: "obj \<Rightarrow> str \<Rightarrow> json \<Rightarrow> json" where
  "jget_or d k dflt = (case dget d k of None \<Rightarrow> dflt | Some v \<Rightarrow> v)"

text \<open>The truth value of an object, as \<open>x or y\<close> and \<open>if x\<close> read it.\<close>

fun truthy :: "json \<Rightarrow> bool" where
  "truthy JNull = False"
| "truthy (JBool b) = b"
| "truthy (JInt i) = (i \<noteq> 0)"
| "truthy (JFloat f) = (f \<noteq> Fin 0)"
| "truthy (JStr s) = (s \<noteq> [])"
| "truthy (JList xs) = (xs \<noteq> [])"
| "truthy (JObj d) = (d \<noteq> [])"

text \<open>
  \<open>str(x)\<close>. The text of a float and of a container is Python's \<open>repr\<close>, the parameter \<open>rp\<close>.
\<close>

fun py_str :: "(json \<Rightarrow> str) \<Rightarrow> json \<Rightarrow> str" where
  "py_str rp (JStr s) = s"
| "py_str rp JNull = ''None''"
| "py_str rp (JBool b) = (if b then ''True'' else ''False'')"
| "py_str rp (JInt i) = int_str i"
| "py_str rp j = rp j"

text \<open>\<open>str(x or "")\<close>.\<close>

definition str_or_empty :: "(json \<Rightarrow> str) \<Rightarrow> json \<Rightarrow> str" where
  "str_or_empty rp j = (if truthy j then py_str rp j else [])"

text \<open>A \<open>JSONResponse\<close>: status, headers and content.\<close>

record http_response =
  http_status :: int
  http_headers :: "(str, str) dict"
  http_body :: json

lemma str_or_empty_JStr [simp]: "str_or_empty rp (JStr s) = s"
  by (simp add: str_or_empty_def)

lemma str_or_empty_JNull [simp]: "str_or_empty rp JNull = []"
  by (simp add: str_or_empty_def)

lemma jget_or_JNull [simp]: "jget_or d k JNull = jget d k"
  by (simp add: jget_def jget_or_def)

lemma jget_dput [dict_simps]: "jget (dput k v d) k' = (if k' = k then v else jget d k')"
  by (simp add: jget_def dict_simps)

end
