(* ===== verification/GatewayEvents.thy ===== *)
theory GatewayEvents
  imports Json
begin

text \<open>
  The runtime event envelope of the gateway (\<open>apps/gateway/src/aegis_gateway/domain/events.py\<close>):
  the event types, the validated event, and the validation of one decoded JSON value. Every
  \<open>InvalidEventError\<close> is a constructor of \<open>reason\<close>; the line number, which only decorates the
  message, is attached by the caller (\<open>GatewayIngest\<close>).
\<close>

definition MAX_ID_LENGTH :: nat where "MAX_ID_LENGTH = 64"
definition MAX_STRING_LENGTH :: nat where "MAX_STRING_LENGTH = 8192"
definition MAX_ARGUMENT_LENGTH :: nat where "MAX_ARGUMENT_LENGTH = 65536"
definition MAX_STACK_FRAMES :: nat where "MAX_STACK_FRAMES = 64"
definition MAX_RANGES :: nat where "MAX_RANGES = 64"

lemmas event_limits = MAX_ID_LENGTH_def MAX_STRING_LENGTH_def MAX_ARGUMENT_LENGTH_def
  MAX_STACK_FRAMES_def MAX_RANGES_def

section \<open>Event types\<close>

datatype event_type = TAINT_HIT | ATTACK | ROUTE | DEPENDENCY | CONFIG | COVERAGE_GAP

fun type_value :: "event_type \<Rightarrow> str" where
  "type_value TAINT_HIT = ''EVENT_TYPE_TAINT_HIT''"
| "type_value ATTACK = ''EVENT_TYPE_ATTACK''"
| "type_value ROUTE = ''EVENT_TYPE_ROUTE''"
| "type_value DEPENDENCY = ''EVENT_TYPE_DEPENDENCY''"
| "type_value CONFIG = ''EVENT_TYPE_CONFIG''"
| "type_value COVERAGE_GAP = ''EVENT_TYPE_COVERAGE_GAP''"

definition all_event_types :: "event_type list" where
  "all_event_types = [TAINT_HIT, ATTACK, ROUTE, DEPENDENCY, CONFIG, COVERAGE_GAP]"

text \<open>\<open>EventType(type_name)\<close>: None is the \<open>ValueError\<close>.\<close>

definition event_type_of :: "str \<Rightarrow> event_type option" where
  "event_type_of s = find (\<lambda>t. type_value t = s) all_event_types"

fun is_security_signal :: "event_type \<Rightarrow> bool" where
  "is_security_signal TAINT_HIT = True"
| "is_security_signal ATTACK = True"
| "is_security_signal _ = False"

fun payload_key :: "event_type \<Rightarrow> str" where
  "payload_key TAINT_HIT = ''taint_hit''"
| "payload_key ATTACK = ''attack''"
| "payload_key ROUTE = ''route''"
| "payload_key DEPENDENCY = ''dependency''"
| "payload_key CONFIG = ''config_finding''"
| "payload_key COVERAGE_GAP = ''coverage_gap''"

lemma event_type_of_value [simp]: "event_type_of (type_value t) = Some t"
  by (cases t) (simp_all add: event_type_of_def all_event_types_def)

lemma type_value_inject [simp]: "type_value t = type_value t' \<longleftrightarrow> t = t'"
  by (metis event_type_of_value option.inject)

lemma event_type_of_Some: "event_type_of s = Some t \<longleftrightarrow> s = type_value t"
proof
  assume "event_type_of s = Some t"
  then show "s = type_value t" by (auto simp: event_type_of_def find_Some_iff)
qed simp

section \<open>Validation\<close>

datatype reason =
    Not_an_object
  | Missing str
  | Not_a_string str
  | Too_long str nat
  | Not_an_integer str
  | Blank_event_id
  | Unknown_type str
  | Time_not_positive
  | Replayed_not_boolean
  | Missing_payload event_type
  | Payload_not_object event_type
  | Ranges_not_list
  | Too_many_ranges
  | Range_not_object
  | Bad_range_start
  | Bad_range_length
  | Stack_not_list
  | Too_many_frames
  | Malformed_JSON str
  | Batch_event_limit

record runtime_event =
  event_id :: str
  ev_type :: event_type
  occurred_at_ms :: int
  monotonic_nanos :: int
  trace_id :: str
  replayed :: bool
  payload :: obj

definition partition_key :: "runtime_event \<Rightarrow> str" where
  "partition_key e = (if trace_id e \<noteq> [] then trace_id e else event_id e)"

definition require_str :: "obj \<Rightarrow> str \<Rightarrow> nat \<Rightarrow> bool \<Rightarrow> reason + str" where
  "require_str raw key max_length required =
     (case jget raw key of
        JNull \<Rightarrow> if required then Inl (Missing key) else Inr []
      | JStr v \<Rightarrow> if length v > max_length then Inl (Too_long key max_length) else Inr v
      | _ \<Rightarrow> Inl (Not_a_string key))"

definition require_int :: "obj \<Rightarrow> str \<Rightarrow> int option \<Rightarrow> reason + int" where
  "require_int raw key dflt =
     (case jget_or raw key (case dflt of None \<Rightarrow> JNull | Some i \<Rightarrow> JInt i) of
        JNull \<Rightarrow> Inl (Missing key)
      | JInt i \<Rightarrow> Inr i
      | _ \<Rightarrow> Inl (Not_an_integer key))"

text \<open>The loop over \<open>ranges\<close>: the first bad entry raises.\<close>

fun check_ranges :: "json list \<Rightarrow> reason + unit" where
  "check_ranges [] = Inr ()"
| "check_ranges (JObj e # rest) =
     (case jget e ''start'' of
        JInt s \<Rightarrow>
          if s < 0 then Inl Bad_range_start
          else (case jget e ''length'' of
                  JInt l \<Rightarrow> if l \<le> 0 then Inl Bad_range_length else check_ranges rest
                | _ \<Rightarrow> Inl Bad_range_length)
      | _ \<Rightarrow> Inl Bad_range_start)"
| "check_ranges (_ # rest) = Inl Range_not_object"

definition validate_taint_hit :: "obj \<Rightarrow> reason + unit" where
  "validate_taint_hit p =
     res_bind (require_str p ''rule_key'' MAX_ID_LENGTH True) (\<lambda>_.
     res_bind (require_str p ''sink_signature'' MAX_STRING_LENGTH True) (\<lambda>_.
     res_bind (require_str p ''stack_fingerprint'' MAX_ID_LENGTH True) (\<lambda>_.
     res_bind (require_str p ''sink_argument'' MAX_ARGUMENT_LENGTH False) (\<lambda>_.
       case jget_or p ''ranges'' (JList []) of
         JList rs \<Rightarrow>
           res_bind (raise_if (length rs > MAX_RANGES) Too_many_ranges) (\<lambda>_.
           res_bind (check_ranges rs) (\<lambda>_.
             case jget_or p ''stack'' (JList []) of
               JList fs \<Rightarrow> raise_if (length fs > MAX_STACK_FRAMES) Too_many_frames
             | _ \<Rightarrow> Inl Stack_not_list))
       | _ \<Rightarrow> Inl Ranges_not_list))))"

definition extract_payload :: "obj \<Rightarrow> event_type \<Rightarrow> reason + obj" where
  "extract_payload raw t =
     (case jget raw (payload_key t) of
        JNull \<Rightarrow> Inl (Missing_payload t)
      | JObj p \<Rightarrow>
          if t = TAINT_HIT then res_bind (validate_taint_hit p) (\<lambda>_. Inr p) else Inr p
      | _ \<Rightarrow> Inl (Payload_not_object t))"

definition parse_fields :: "obj \<Rightarrow> reason + runtime_event" where
  "parse_fields raw =
     res_bind (require_str raw ''event_id'' MAX_ID_LENGTH True) (\<lambda>eid.
     res_bind (raise_if (strip eid = []) Blank_event_id) (\<lambda>_.
     res_bind (require_str raw ''type'' MAX_ID_LENGTH True) (\<lambda>type_name.
     case event_type_of type_name of
       None \<Rightarrow> Inl (Unknown_type type_name)
     | Some t \<Rightarrow>
       res_bind (require_int raw ''occurred_at_ms'' None) (\<lambda>occurred.
       res_bind (raise_if (occurred \<le> 0) Time_not_positive) (\<lambda>_.
       res_bind (require_int raw ''monotonic_nanos'' (Some 0)) (\<lambda>mono.
       res_bind (require_str raw ''trace_id'' MAX_ID_LENGTH False) (\<lambda>trace.
       case jget_or raw ''replayed'' (JBool False) of
         JBool r \<Rightarrow>
           res_bind (extract_payload raw t) (\<lambda>p.
             Inr \<lparr>event_id = eid, ev_type = t, occurred_at_ms = occurred, monotonic_nanos = mono,
                  trace_id = trace, replayed = r, payload = p\<rparr>)
       | _ \<Rightarrow> Inl Replayed_not_boolean)))))))"

definition parse_event :: "json \<Rightarrow> reason + runtime_event" where
  "parse_event raw = (case raw of JObj d \<Rightarrow> parse_fields d | _ \<Rightarrow> Inl Not_an_object)"

section \<open>The wire schema, stated declaratively\<close>

text \<open>
  What an agent has to send, field by field, without the order of the checks: the specification
  that \<open>parse_event\<close> implements.
\<close>

definition str_field :: "obj \<Rightarrow> str \<Rightarrow> nat \<Rightarrow> bool" where
  "str_field d k n \<longleftrightarrow> (\<exists>s. jget d k = JStr s \<and> length s \<le> n)"

definition opt_str_field :: "obj \<Rightarrow> str \<Rightarrow> nat \<Rightarrow> bool" where
  "opt_str_field d k n \<longleftrightarrow> jget d k = JNull \<or> str_field d k n"

definition range_ok :: "json \<Rightarrow> bool" where
  "range_ok j \<longleftrightarrow> (\<exists>e s l. j = JObj e \<and> jget e ''start'' = JInt s \<and> 0 \<le> s \<and>
                            jget e ''length'' = JInt l \<and> 0 < l)"

definition taint_hit_schema :: "obj \<Rightarrow> bool" where
  "taint_hit_schema p \<longleftrightarrow>
     str_field p ''rule_key'' 64 \<and> str_field p ''sink_signature'' 8192 \<and>
     str_field p ''stack_fingerprint'' 64 \<and> opt_str_field p ''sink_argument'' 65536 \<and>
     (\<exists>rs. jget_or p ''ranges'' (JList []) = JList rs \<and> length rs \<le> 64 \<and>
           (\<forall>r \<in> set rs. range_ok r)) \<and>
     (\<exists>fs. jget_or p ''stack'' (JList []) = JList fs \<and> length fs \<le> 64)"

definition wire_schema :: "json \<Rightarrow> bool" where
  "wire_schema j \<longleftrightarrow> (\<exists>d t p.
     j = JObj d \<and> str_field d ''event_id'' 64 \<and>
     (\<forall>s. jget d ''event_id'' = JStr s \<longrightarrow> strip s \<noteq> []) \<and>
     jget d ''type'' = JStr (type_value t) \<and>
     (\<exists>ms. jget d ''occurred_at_ms'' = JInt ms \<and> 0 < ms) \<and>
     (\<exists>n. jget_or d ''monotonic_nanos'' (JInt 0) = JInt n) \<and>
     opt_str_field d ''trace_id'' 64 \<and>
     (\<exists>b. jget_or d ''replayed'' (JBool False) = JBool b) \<and>
     jget d (payload_key t) = JObj p \<and> (t = TAINT_HIT \<longrightarrow> taint_hit_schema p))"

section \<open>The checks, characterised\<close>

lemma unit_Inr_iff: "(\<exists>u. r = Inr u) \<longleftrightarrow> r = Inr ()" for r :: "'e + unit"
  by auto

lemma require_str_Inr:
  "require_str d k n req = Inr v \<longleftrightarrow>
     (jget d k = JStr v \<and> length v \<le> n) \<or> (\<not> req \<and> jget d k = JNull \<and> v = [])"
  by (auto simp: require_str_def split: json.splits)

lemma require_int_Inr:
  "require_int d k dflt = Inr i \<longleftrightarrow>
     jget_or d k (case dflt of None \<Rightarrow> JNull | Some i \<Rightarrow> JInt i) = JInt i"
  by (auto simp: require_int_def split: json.splits)

lemma check_ranges_Inr: "check_ranges rs = Inr u \<longleftrightarrow> (\<forall>r \<in> set rs. range_ok r)"
  by (induction rs rule: check_ranges.induct)
    (auto simp: range_ok_def not_less not_le split: json.splits)

lemmas check_iffs = require_str_Inr require_int_Inr check_ranges_Inr

lemma require_str_accepts:
  "(\<exists>v. require_str d k n True = Inr v) \<longleftrightarrow> str_field d k n"
  "(\<exists>v. require_str d k n False = Inr v) \<longleftrightarrow> opt_str_field d k n"
  by (auto simp: require_str_Inr str_field_def opt_str_field_def)

lemma case_list_Inr:
  "(case j of JList xs \<Rightarrow> f xs | _ \<Rightarrow> Inl e) = Inr y \<longleftrightarrow> (\<exists>xs. j = JList xs \<and> f xs = Inr y)"
  by (cases j) auto

lemma case_obj_Inr:
  "(case j of JNull \<Rightarrow> Inl e0 | JObj d \<Rightarrow> f d | _ \<Rightarrow> Inl e) = Inr y \<longleftrightarrow>
     (\<exists>d. j = JObj d \<and> f d = Inr y)"
  by (cases j) auto

lemma case_bool_Inr:
  "(case j of JBool b \<Rightarrow> f b | _ \<Rightarrow> Inl e) = Inr y \<longleftrightarrow> (\<exists>b. j = JBool b \<and> f b = Inr y)"
  by (cases j) auto

lemma validate_taint_hit_Inr: "validate_taint_hit p = Inr u \<longleftrightarrow> taint_hit_schema p"
proof -
  have "validate_taint_hit p = Inr u \<longleftrightarrow>
      (\<exists>v. require_str p ''rule_key'' 64 True = Inr v) \<and>
      (\<exists>v. require_str p ''sink_signature'' 8192 True = Inr v) \<and>
      (\<exists>v. require_str p ''stack_fingerprint'' 64 True = Inr v) \<and>
      (\<exists>v. require_str p ''sink_argument'' 65536 False = Inr v) \<and>
      (\<exists>rs. jget_or p ''ranges'' (JList []) = JList rs \<and> length rs \<le> 64 \<and>
            (\<forall>r \<in> set rs. range_ok r)) \<and>
      (\<exists>fs. jget_or p ''stack'' (JList []) = JList fs \<and> length fs \<le> 64)"
    unfolding validate_taint_hit_def event_limits
    by (auto simp: result_iffs case_list_Inr check_ranges_Inr not_less)
  then show ?thesis by (simp add: require_str_accepts taint_hit_schema_def)
qed

lemma extract_payload_Inr:
  "extract_payload raw t = Inr p \<longleftrightarrow>
     jget raw (payload_key t) = JObj p \<and> (t = TAINT_HIT \<longrightarrow> taint_hit_schema p)"
  by (auto simp: extract_payload_def case_obj_Inr result_iffs validate_taint_hit_Inr
      split: if_splits)

lemma parse_fields_Inr:
  "parse_fields d = Inr e \<longleftrightarrow>
     jget d ''event_id'' = JStr (event_id e) \<and> length (event_id e) \<le> 64 \<and>
     strip (event_id e) \<noteq> [] \<and>
     jget d ''type'' = JStr (type_value (ev_type e)) \<and>
     jget d ''occurred_at_ms'' = JInt (occurred_at_ms e) \<and> 0 < occurred_at_ms e \<and>
     jget_or d ''monotonic_nanos'' (JInt 0) = JInt (monotonic_nanos e) \<and>
     (jget d ''trace_id'' = JStr (trace_id e) \<and> length (trace_id e) \<le> 64 \<or>
      jget d ''trace_id'' = JNull \<and> trace_id e = []) \<and>
     jget_or d ''replayed'' (JBool False) = JBool (replayed e) \<and>
     jget d (payload_key (ev_type e)) = JObj (payload e) \<and>
     (ev_type e = TAINT_HIT \<longrightarrow> taint_hit_schema (payload e)) \<and> more e = ()"
proof -
  have len: "length (type_value t) \<le> 64" for t by (cases t) simp_all
  have "parse_fields d = Inr e \<longleftrightarrow> (\<exists>eid tn t ms n tr r p.
      require_str d ''event_id'' 64 True = Inr eid \<and> strip eid \<noteq> [] \<and>
      require_str d ''type'' 64 True = Inr tn \<and> event_type_of tn = Some t \<and>
      require_int d ''occurred_at_ms'' None = Inr ms \<and> \<not> ms \<le> 0 \<and>
      require_int d ''monotonic_nanos'' (Some 0) = Inr n \<and>
      require_str d ''trace_id'' 64 False = Inr tr \<and>
      jget_or d ''replayed'' (JBool False) = JBool r \<and> extract_payload d t = Inr p \<and>
      \<lparr>event_id = eid, ev_type = t, occurred_at_ms = ms, monotonic_nanos = n,
       trace_id = tr, replayed = r, payload = p\<rparr> = e)"
    unfolding parse_fields_def event_limits
    by (simp only: result_iffs case_bool_Inr case_option_Inr sum.inject) blast
  also have "\<dots> \<longleftrightarrow> (\<exists>eid t ms n tr r p.
      jget d ''event_id'' = JStr eid \<and> length eid \<le> 64 \<and> strip eid \<noteq> [] \<and>
      jget d ''type'' = JStr (type_value t) \<and> jget d ''occurred_at_ms'' = JInt ms \<and> 0 < ms \<and>
      jget_or d ''monotonic_nanos'' (JInt 0) = JInt n \<and>
      (jget d ''trace_id'' = JStr tr \<and> length tr \<le> 64 \<or> jget d ''trace_id'' = JNull \<and> tr = []) \<and>
      jget_or d ''replayed'' (JBool False) = JBool r \<and>
      jget d (payload_key t) = JObj p \<and> (t = TAINT_HIT \<longrightarrow> taint_hit_schema p) \<and>
      \<lparr>event_id = eid, ev_type = t, occurred_at_ms = ms, monotonic_nanos = n,
       trace_id = tr, replayed = r, payload = p\<rparr> = e)"
    by (auto simp: check_iffs extract_payload_Inr event_type_of_Some len not_le)
  finally show ?thesis by (cases e) auto
qed

lemma parse_event_Inr: "parse_event j = Inr e \<longleftrightarrow> (\<exists>d. j = JObj d \<and> parse_fields d = Inr e)"
  by (cases j) (auto simp: parse_event_def)

text \<open>
  The gateway's edge validation accepts a decoded JSON value exactly when it satisfies the wire
  schema: no malformed event passes, and no well-formed event is refused, whatever the order of
  the checks in the code.
\<close>

theorem parse_event_accepts_iff_schema: "(\<exists>e. parse_event j = Inr e) \<longleftrightarrow> wire_schema j"
proof
  assume "\<exists>e. parse_event j = Inr e"
  then show "wire_schema j"
    by (auto simp: parse_event_Inr parse_fields_Inr wire_schema_def str_field_def opt_str_field_def)
next
  assume "wire_schema j"
  then obtain d t p eid ms n b where d: "j = JObj d" "jget d ''event_id'' = JStr eid"
      "length eid \<le> 64" "strip eid \<noteq> []" "jget d ''type'' = JStr (type_value t)"
      "jget d ''occurred_at_ms'' = JInt ms" "0 < ms" "opt_str_field d ''trace_id'' 64"
      "jget_or d ''monotonic_nanos'' (JInt 0) = JInt n"
      "jget_or d ''replayed'' (JBool False) = JBool b"
      "jget d (payload_key t) = JObj p" "t = TAINT_HIT \<longrightarrow> taint_hit_schema p"
    by (auto simp: wire_schema_def str_field_def)
  obtain tr where "jget d ''trace_id'' = JStr tr \<and> length tr \<le> 64 \<or>
      jget d ''trace_id'' = JNull \<and> tr = []"
    using d(8) by (auto simp: opt_str_field_def str_field_def)
  with d show "\<exists>e. parse_event j = Inr e"
    by (intro exI [of _ "\<lparr>event_id = eid, ev_type = t, occurred_at_ms = ms, monotonic_nanos = n,
          trace_id = tr, replayed = b, payload = p\<rparr>"]) (simp add: parse_event_Inr parse_fields_Inr)
qed

end
