(* ===== verification/GatewayPorts.thy ===== *)
theory GatewayPorts
  imports GatewayEvents
begin

text \<open>
  The ports of the gateway (\<open>domain/ports.py\<close>): who produced a batch, and the contracts of the
  quota limiter, the deduplication cache and the event sink. The ingest use case takes the
  operations as arguments and its lemmas rest on these laws only; the adapters
  (\<open>GatewayQuota\<close>, \<open>GatewayDedup\<close>, \<open>GatewaySinks\<close>) interpret the locales.
\<close>

record stream_origin =
  so_organization_id :: str
  so_agent_id :: str
  so_environment_id :: str

section \<open>Quota\<close>

locale quota_limiter =
  fixes check :: "'q \<Rightarrow> str \<Rightarrow> rat \<Rightarrow> bool \<times> 'q"
    and remaining_fraction :: "'q \<Rightarrow> str \<Rightarrow> rat \<times> 'q"
    and retry_after :: "'q \<Rightarrow> str \<Rightarrow> rat \<Rightarrow> int \<times> 'q"
    and q_inv :: "'q \<Rightarrow> bool"
  assumes check_inv: "q_inv q \<Longrightarrow> 0 \<le> cost \<Longrightarrow> q_inv (snd (check q org cost))"
    and remaining_inv: "q_inv q \<Longrightarrow> q_inv (snd (remaining_fraction q org))"
    and retry_inv: "q_inv q \<Longrightarrow> q_inv (snd (retry_after q org cost))"
    and remaining_range:
      "q_inv q \<Longrightarrow> 0 \<le> fst (remaining_fraction q org) \<and> fst (remaining_fraction q org) \<le> 1"
    and retry_nonneg: "q_inv q \<Longrightarrow> 0 \<le> fst (retry_after q org cost)"

section \<open>Deduplication\<close>

text \<open>
  The cache is specified by the list of remembered ids in recency order, the least recent first:
  looking an id up makes it the most recent, remembering one appends it and drops the oldest
  ids beyond the capacity.
\<close>

definition touch :: "'a \<Rightarrow> 'a list \<Rightarrow> 'a list" where
  "touch x xs = removeAll x xs @ [x]"

definition keep_last :: "nat \<Rightarrow> 'a list \<Rightarrow> 'a list" where
  "keep_last n xs = drop (length xs - n) xs"

locale dedup_cache =
  fixes seen :: "'d \<Rightarrow> str \<Rightarrow> bool \<times> 'd"
    and remember :: "'d \<Rightarrow> str \<Rightarrow> 'd"
    and recency :: "'d \<Rightarrow> str list"
    and capacity :: "'d \<Rightarrow> nat"
    and d_inv :: "'d \<Rightarrow> bool"
  assumes seen_answer: "d_inv d \<Longrightarrow> fst (seen d x) \<longleftrightarrow> x \<in> set (recency d)"
    and seen_recency: "d_inv d \<Longrightarrow>
      recency (snd (seen d x)) = (if x \<in> set (recency d) then touch x (recency d) else recency d)"
    and seen_inv: "d_inv d \<Longrightarrow> d_inv (snd (seen d x))"
    and seen_capacity: "capacity (snd (seen d x)) = capacity d"
    and remember_recency: "d_inv d \<Longrightarrow>
      recency (remember d x) = keep_last (capacity d) (touch x (recency d))"
    and remember_inv: "d_inv d \<Longrightarrow> d_inv (remember d x)"
    and remember_capacity: "capacity (remember d x) = capacity d"
    and inv_distinct: "d_inv d \<Longrightarrow> distinct (recency d)"

lemma set_touch [simp]: "set (touch x xs) = insert x (set xs)"
  by (auto simp: touch_def)

lemma distinct_touch [simp]: "distinct xs \<Longrightarrow> distinct (touch x xs)"
  by (auto simp: touch_def distinct_removeAll)

lemma set_keep_last: "set (keep_last n xs) \<subseteq> set xs"
  by (simp add: keep_last_def set_drop_subset)

lemma keep_last_suffix: "length ys \<le> n \<Longrightarrow> set ys \<subseteq> set (keep_last n (xs @ ys))"
  by (auto simp: keep_last_def)

lemma length_keep_last: "length (keep_last n xs) \<le> n"
  by (simp add: keep_last_def)

text \<open>
  The most recent ids survive: if the ids of \<open>ys\<close> are the tail of the recency list and one more is
  remembered, all of them are kept as long as they fit.
\<close>

lemma touch_suffix: "\<exists>xs'. touch x (xs @ ys) = xs' @ touch x ys"
proof -
  have "touch x (xs @ ys) = removeAll x xs @ touch x ys" by (simp add: touch_def)
  then show ?thesis by blast
qed

lemma length_touch: "distinct ys \<Longrightarrow> length (touch x ys) = card (insert x (set ys))"
  by (metis distinct_card distinct_touch set_touch)

lemma keep_last_append: "length ys \<le> n \<Longrightarrow> \<exists>xs'. keep_last n (xs @ ys) = xs' @ ys"
  by (simp add: keep_last_def)

context dedup_cache
begin

lemma remember_subset: "d_inv d \<Longrightarrow> set (recency (remember d x)) \<subseteq> insert x (set (recency d))"
  using set_keep_last [of "capacity d" "touch x (recency d)"] by (simp add: remember_recency)

lemma seen_set: "d_inv d \<Longrightarrow> set (recency (snd (seen d x))) = set (recency d)"
  by (auto simp: seen_recency)

text \<open>Looking up or remembering an id makes it the tail of the recency list.\<close>

lemma remember_tail:
  assumes "d_inv d" "recency d = xs @ ys" "card (insert x (set ys)) \<le> capacity d"
  shows "\<exists>xs'. recency (remember d x) = xs' @ touch x ys"
proof -
  have dist: "distinct (xs @ ys)" using inv_distinct [OF assms(1)] assms(2) by simp
  obtain xs1 where 1: "touch x (xs @ ys) = xs1 @ touch x ys" 
    using touch_suffix [of x xs ys] by (rule exE)
  have "length (touch x ys) \<le> capacity d"
    using assms(3) dist length_touch [of ys x] by simp
  then obtain xs2 where "keep_last (capacity d) (xs1 @ touch x ys) = xs2 @ touch x ys"
    using keep_last_append [of "touch x ys" "capacity d" xs1] by blast
  then have "recency (remember d x) = xs2 @ touch x ys"
    by (simp only: remember_recency [OF assms(1)] assms(2) 1)
  then show ?thesis by (rule exI)
qed

lemma seen_tail:
  assumes "d_inv d" "recency d = xs @ ys"
  shows "\<exists>xs'. recency (snd (seen d x)) = xs' @ (if x \<in> set (recency d) then touch x ys else ys)"
proof (cases "x \<in> set (recency d)")
  case True
  obtain xs1 where "touch x (xs @ ys) = xs1 @ touch x ys"
    using touch_suffix [of x xs ys] by (rule exE)
  then have "recency (snd (seen d x)) = xs1 @ (if x \<in> set (recency d) then touch x ys else ys)"
    using True by (simp only: seen_recency [OF assms(1)] if_True assms(2))
  then show ?thesis by (rule exI)
next
  case False
  then have "recency (snd (seen d x)) = xs @ (if x \<in> set (recency d) then touch x ys else ys)"
    by (simp only: seen_recency [OF assms(1)] if_False assms(2))
  then show ?thesis by (rule exI)
qed

end

section \<open>Sink\<close>

text \<open>
  \<open>publish\<close> returns (the batch is durably accepted), raises \<open>SinkUnavailableError\<close>, or raises
  something the caller does not expect. A sink that fails may have written a prefix of the batch
  (Kafka sends the events one by one). Its log pairs every event with the organization it was
  stamped with.
\<close>

datatype publish_result = Published | Sink_unavailable | Sink_crash

locale event_sink =
  fixes publish :: "'s \<Rightarrow> stream_origin \<Rightarrow> runtime_event list \<Rightarrow> publish_result \<times> 's"
    and sink_log :: "'s \<Rightarrow> (str \<times> runtime_event) list"
  assumes publish_accepted: "fst (publish s org es) = Published \<Longrightarrow>
      sink_log (snd (publish s org es)) = sink_log s @ map (Pair (so_organization_id org)) es"
    and publish_refused: "fst (publish s org es) \<noteq> Published \<Longrightarrow>
      \<exists>k. sink_log (snd (publish s org es)) = sink_log s @ map (Pair (so_organization_id org)) (take k es)"

end
