(* ===== verification/GatewayQuota.thy ===== *)
theory GatewayQuota
  imports GatewayPorts
begin

text \<open>
  Admission control of the gateway: the token bucket and the shedding policy
  (\<open>domain/quota.py\<close>) and the per-tenant limiter of one replica (\<open>infrastructure/limits.py\<close>).

  Token counts, rates and clock readings are Python floats; the model computes them exactly, as
  rationals. The clock is a function from the number of readings taken so far to the reading, so
  every call of \<open>monotonic()\<close> in the source is one tick of the model's state.
\<close>

section \<open>Token bucket\<close>

record token_bucket =
  capacity :: rat
  refill_per_second :: rat
  tokens :: rat
  updated_at :: rat

definition bucket_create :: "rat \<Rightarrow> rat \<Rightarrow> rat \<Rightarrow> token_bucket" where
  "bucket_create cap rate now =
     \<lparr>capacity = cap, refill_per_second = rate, tokens = cap, updated_at = now\<rparr>"

definition refill :: "token_bucket \<Rightarrow> rat \<Rightarrow> token_bucket" where
  "refill b now =
     (let elapsed = max 0 (now - updated_at b) in
      if elapsed > 0
      then b\<lparr>tokens := min (capacity b) (tokens b + elapsed * refill_per_second b),
             updated_at := now\<rparr>
      else b)"

definition try_consume :: "token_bucket \<Rightarrow> rat \<Rightarrow> rat \<Rightarrow> bool \<times> token_bucket" where
  "try_consume b amount now =
     (let b' = refill b now in
      if tokens b' \<ge> amount then (True, b'\<lparr>tokens := tokens b' - amount\<rparr>) else (False, b'))"

text \<open>\<open>int(x) + 1\<close> of a non-negative quotient: \<open>int\<close> truncates, here towards the floor.\<close>

definition retry_after_seconds :: "token_bucket \<Rightarrow> rat \<Rightarrow> rat \<Rightarrow> int \<times> token_bucket" where
  "retry_after_seconds b amount now =
     (let b' = refill b now in
      if tokens b' \<ge> amount then (0, b')
      else if refill_per_second b' \<le> 0 then (3600, b')
      else (max 1 (\<lfloor>(amount - tokens b') / refill_per_second b'\<rfloor> + 1), b'))"

definition bucket_ok :: "token_bucket \<Rightarrow> bool" where
  "bucket_ok b \<longleftrightarrow> 0 \<le> tokens b \<and> tokens b \<le> capacity b \<and> 0 \<le> refill_per_second b"

lemma refill_frame [simp]:
  "capacity (refill b now) = capacity b"
  "refill_per_second (refill b now) = refill_per_second b"
  by (simp_all add: refill_def Let_def)

lemma refill_updated: "updated_at b \<le> now \<Longrightarrow> updated_at (refill b now) = now"
  by (auto simp: refill_def Let_def max_def)

lemma refill_ok [inv_intros]: "bucket_ok b \<Longrightarrow> bucket_ok (refill b now)"
  by (auto simp: bucket_ok_def refill_def Let_def)

lemma refill_tokens_le:
  assumes "bucket_ok b" "updated_at b \<le> now"
  shows "tokens (refill b now) \<le> tokens b + (now - updated_at b) * refill_per_second b"
  using assms by (auto simp: refill_def Let_def max_def bucket_ok_def)

lemma try_consume_ok [inv_intros]:
  "bucket_ok b \<Longrightarrow> 0 \<le> amount \<Longrightarrow> bucket_ok (snd (try_consume b amount now))"
  using refill_ok [of b now] by (auto simp: bucket_ok_def try_consume_def Let_def)

lemma retry_after_ok [inv_intros]: "bucket_ok b \<Longrightarrow> bucket_ok (snd (retry_after_seconds b a now))"
  by (auto simp: retry_after_seconds_def Let_def intro: refill_ok)

lemma try_consume_frame [simp]:
  "capacity (snd (try_consume b a now)) = capacity b"
  "refill_per_second (snd (try_consume b a now)) = refill_per_second b"
  by (simp_all add: try_consume_def Let_def)

lemma retry_after_frame [simp]:
  "capacity (snd (retry_after_seconds b a now)) = capacity b"
  "refill_per_second (snd (retry_after_seconds b a now)) = refill_per_second b"
  by (simp_all add: retry_after_seconds_def Let_def)

text \<open>A sequence of requests, each with its amount and its time: the total granted.\<close>

fun consume_run :: "token_bucket \<Rightarrow> (rat \<times> rat) list \<Rightarrow> rat \<times> token_bucket" where
  "consume_run b [] = (0, b)"
| "consume_run b ((amount, now) # rest) =
     (let (ok, b1) = try_consume b amount now; (total, b2) = consume_run b1 rest
      in ((if ok then amount else 0) + total, b2))"

lemma try_consume_spends:
  assumes "bucket_ok b" "0 \<le> amount" "updated_at b \<le> now"
  shows "(if fst (try_consume b amount now) then amount else 0) + tokens (snd (try_consume b amount now))
           \<le> tokens b + (now - updated_at b) * refill_per_second b"
    and "updated_at (snd (try_consume b amount now)) = now"
  using refill_tokens_le [OF assms(1,3)] refill_updated [OF assms(3)]
  by (auto simp: try_consume_def Let_def)

text \<open>
  C40. The bucket enforces its rate with no window-boundary loophole: over any sequence of
  requests at non-decreasing times, the total amount granted is at most what the bucket held at
  the start plus the refill rate times the elapsed time, however the requests are spread.
\<close>

theorem token_bucket_rate_bound:
  assumes "bucket_ok b" "\<forall>(a, t) \<in> set reqs. 0 \<le> a"
    and "sorted (map snd reqs)" "reqs \<noteq> []" "updated_at b \<le> snd (hd reqs)"
  shows "fst (consume_run b reqs)
           \<le> tokens b + refill_per_second b * (snd (last reqs) - updated_at b)"
  using assms
proof (induction b reqs rule: consume_run.induct)
  case (2 b amount now rest)
  obtain ok b1 where step: "try_consume b amount now = (ok, b1)" by fastforce
  let ?spent = "if ok then amount else 0"
  have b1: "bucket_ok b1" "updated_at b1 = now" "refill_per_second b1 = refill_per_second b"
    "?spent + tokens b1 \<le> tokens b + (now - updated_at b) * refill_per_second b"
    using "2.prems" try_consume_ok [of b amount now] try_consume_spends [of b amount now] step
      try_consume_frame [of b amount now]
    by auto
  show ?case
  proof (cases "rest = []")
    case True
    with b1 step show ?thesis by (auto simp: bucket_ok_def mult.commute)
  next
    case False
    have "fst (consume_run b1 rest)
        \<le> tokens b1 + refill_per_second b1 * (snd (last rest) - updated_at b1)"
      using "2.prems" b1(1,2) False
      by (intro "2.IH" [OF step [symmetric] refl]) (auto simp: sorted_simps(2) neq_Nil_conv)
    with b1 step False show ?thesis by (auto simp: algebra_simps split: prod.splits)
  qed
qed simp

theorem token_bucket_rate_bound_witness:
  "fst (consume_run (bucket_create 10 2 0) [(8, 1), (5, 1), (7, 4)]) \<le> 10 + 2 * (4 - 0)"
  using token_bucket_rate_bound [of "bucket_create 10 2 0" "[(8, 1), (5, 1), (7, 4)]"]
  by (simp add: bucket_create_def bucket_ok_def)

text \<open>
  The Retry-After the bucket quotes is honest: an agent that waits the quoted number of
  seconds, with nobody else spending meanwhile, is admitted, for any amount the bucket can hold.
\<close>

theorem retry_after_is_sufficient:
  assumes "bucket_ok b" "0 < refill_per_second b" "amount \<le> capacity b" "updated_at b \<le> now"
  shows "case retry_after_seconds b amount now of
           (wait, b') \<Rightarrow> 0 \<le> wait \<and> fst (try_consume b' amount (now + of_int wait))"
proof (cases "tokens (refill b now) \<ge> amount")
  case True
  then show ?thesis
    using refill_updated [OF assms(4)]
    by (simp add: retry_after_seconds_def try_consume_def refill_def [of "refill b now"] Let_def)
next
  case False
  let ?b = "refill b now" and ?r = "refill_per_second b"
  define wait where "wait = max 1 (\<lfloor>(amount - tokens ?b) / ?r\<rfloor> + 1)"
  have up: "updated_at ?b = now" by (rule refill_updated [OF assms(4)])
  have "(amount - tokens ?b) / ?r < of_int (\<lfloor>(amount - tokens ?b) / ?r\<rfloor> + 1)" by linarith
  also have "\<dots> \<le> of_int wait" by (simp add: wait_def)
  finally have "amount - tokens ?b \<le> of_int wait * ?r"
    using assms(2) by (simp add: pos_divide_less_eq)
  moreover have "1 \<le> wait" by (simp add: wait_def)
  ultimately have "amount \<le> tokens (refill ?b (now + of_int wait))"
    using up assms(3) by (simp add: refill_def [of ?b] Let_def)
  with False assms(2) \<open>1 \<le> wait\<close> show ?thesis
    by (simp add: retry_after_seconds_def try_consume_def Let_def wait_def)
qed

theorem retry_after_is_sufficient_witness:
  "fst (retry_after_seconds \<lparr>capacity = 10, refill_per_second = 2, tokens = 1, updated_at = 0\<rparr> 8 0)
     = 4 \<and>
   fst (try_consume \<lparr>capacity = 10, refill_per_second = 2, tokens = 1, updated_at = 0\<rparr> 8 4)"
proof -
  have "\<lfloor>7 / 2 :: rat\<rfloor> = 3" by (rule floor_unique) simp_all
  then show ?thesis
    using retry_after_is_sufficient
        [of "\<lparr>capacity = 10, refill_per_second = 2, tokens = 1, updated_at = 0\<rparr>" 8 0]
    by (simp add: bucket_ok_def retry_after_seconds_def refill_def)
qed

section \<open>Per-tenant limiter\<close>

record limiter =
  lim_rate :: rat
  lim_capacity :: rat
  lim_max_tenants :: nat
  lim_buckets :: "(str, token_bucket) dict"
  lim_ticks :: nat

definition limiter_create :: "rat \<Rightarrow> rat \<Rightarrow> nat \<Rightarrow> limiter" where
  "limiter_create events_per_second burst_multiplier max_tenants =
     \<lparr>lim_rate = events_per_second, lim_capacity = events_per_second * burst_multiplier,
      lim_max_tenants = max_tenants, lim_buckets = [], lim_ticks = 0\<rparr>"

text \<open>\<open>self._clock.monotonic()\<close>.\<close>

definition monotonic :: "(nat \<Rightarrow> rat) \<Rightarrow> limiter \<Rightarrow> rat \<times> limiter" where
  "monotonic clk l = (clk (lim_ticks l), l\<lparr>lim_ticks := Suc (lim_ticks l)\<rparr>)"

definition bucket_for :: "(nat \<Rightarrow> rat) \<Rightarrow> limiter \<Rightarrow> str \<Rightarrow> token_bucket \<times> limiter" where
  "bucket_for clk l org =
     (case dget (lim_buckets l) org of
        None \<Rightarrow>
          (let (now, l1) = monotonic clk l;
               b = bucket_create (lim_capacity l) (lim_rate l) now;
               bs = dput org b (lim_buckets l1)
           in (b, l1\<lparr>lim_buckets := (if length bs > lim_max_tenants l then tl bs else bs)\<rparr>))
      | Some b \<Rightarrow> (b, l\<lparr>lim_buckets := move_to_end org (lim_buckets l)\<rparr>))"

text \<open>The bucket is a mutable object: a change shows in the dictionary if it is still there.\<close>

definition write_back :: "str \<Rightarrow> token_bucket \<Rightarrow> limiter \<Rightarrow> limiter" where
  "write_back org b l =
     (if dget (lim_buckets l) org = None then l else l\<lparr>lim_buckets := dput org b (lim_buckets l)\<rparr>)"

definition limiter_check :: "(nat \<Rightarrow> rat) \<Rightarrow> limiter \<Rightarrow> str \<Rightarrow> rat \<Rightarrow> bool \<times> limiter" where
  "limiter_check clk l org cost =
     (let (b, l1) = bucket_for clk l org; (now, l2) = monotonic clk l1;
          (ok, b') = try_consume b cost now
      in (ok, write_back org b' l2))"

definition limiter_remaining :: "(nat \<Rightarrow> rat) \<Rightarrow> limiter \<Rightarrow> str \<Rightarrow> rat \<times> limiter" where
  "limiter_remaining clk l org =
     (let (b, l1) = bucket_for clk l org; (now, l2) = monotonic clk l1;
          (ok, b') = try_consume b 0 now
      in (if capacity b' \<le> 0 then 0 else max 0 (min 1 (tokens b' / capacity b')),
          write_back org b' l2))"

definition limiter_retry :: "(nat \<Rightarrow> rat) \<Rightarrow> limiter \<Rightarrow> str \<Rightarrow> rat \<Rightarrow> int \<times> limiter" where
  "limiter_retry clk l org cost =
     (let (b, l1) = bucket_for clk l org; (now, l2) = monotonic clk l1;
          (wait, b') = retry_after_seconds b cost now
      in (wait, write_back org b' l2))"

definition limiter_ok :: "limiter \<Rightarrow> bool" where
  "limiter_ok l \<longleftrightarrow> 0 \<le> lim_rate l \<and> 0 \<le> lim_capacity l \<and> dict_ok (lim_buckets l) \<and>
     length (lim_buckets l) \<le> lim_max_tenants l \<and>
     (\<forall>(org, b) \<in> set (lim_buckets l). bucket_ok b \<and> capacity b = lim_capacity l)"

lemma set_tl: "set (tl xs) \<subseteq> set xs"
  by (cases xs) auto

lemma monotonic_frame [simp]:
  "lim_buckets (snd (monotonic clk l)) = lim_buckets l"
  "limiter_ok (snd (monotonic clk l)) = limiter_ok l"
  "lim_capacity (snd (monotonic clk l)) = lim_capacity l"
  by (simp_all add: monotonic_def limiter_ok_def)

lemma bucket_for_ok:
  assumes "limiter_ok l"
  shows "limiter_ok (snd (bucket_for clk l org))" "bucket_ok (fst (bucket_for clk l org))"
    "capacity (fst (bucket_for clk l org)) = lim_capacity l"
    "lim_capacity (snd (bucket_for clk l org)) = lim_capacity l"
proof -
  show "limiter_ok (snd (bucket_for clk l org))"
  proof (cases "dget (lim_buckets l) org")
    case None
    let ?b = "bucket_create (lim_capacity l) (lim_rate l) (clk (lim_ticks l))"
    let ?bs = "dput org ?b (lim_buckets l)"
    have len: "length ?bs = Suc (length (lim_buckets l))"
      using None by (simp add: length_dput dict_simps)
    have "\<forall>(org, b) \<in> set ?bs. bucket_ok b \<and> capacity b = lim_capacity l"
      using set_dput_subset [of org ?b "lim_buckets l"] assms
      by (auto simp: limiter_ok_def bucket_create_def bucket_ok_def)
    moreover have "dict_ok ?bs" using assms by (auto simp: limiter_ok_def)
    moreover have "snd (bucket_for clk l org) = l\<lparr>lim_ticks := Suc (lim_ticks l),
        lim_buckets := (if length ?bs > lim_max_tenants l then tl ?bs else ?bs)\<rparr>"
      using None by (simp add: bucket_for_def monotonic_def Let_def)
    ultimately show ?thesis
      using assms len set_tl [of ?bs] by (auto simp: limiter_ok_def)
  next
    case (Some b)
    with assms show ?thesis by (auto simp: bucket_for_def limiter_ok_def)
  qed
  show "bucket_ok (fst (bucket_for clk l org))"
    "capacity (fst (bucket_for clk l org)) = lim_capacity l"
    "lim_capacity (snd (bucket_for clk l org)) = lim_capacity l"
    using assms
    by (auto simp: bucket_for_def monotonic_def limiter_ok_def bucket_create_def bucket_ok_def
        dget_def Let_def split: option.splits dest!: map_of_SomeD)
qed

lemma write_back_ok:
  assumes "limiter_ok l" "bucket_ok b" "capacity b = lim_capacity l"
  shows "limiter_ok (write_back org b l)"
proof (cases "dget (lim_buckets l) org")
  case (Some c)
  then have "org \<in> fst ` set (lim_buckets l)" by (rule dget_Some_key)
  with Some assms set_dput_subset [of org b "lim_buckets l"] show ?thesis
    by (auto simp: write_back_def limiter_ok_def length_dput)
qed (use assms in \<open>simp add: write_back_def\<close>)

lemma limiter_ops_ok [inv_intros]:
  assumes "limiter_ok l"
  shows "0 \<le> cost \<Longrightarrow> limiter_ok (snd (limiter_check clk l org cost))"
    and "limiter_ok (snd (limiter_remaining clk l org))"
    and "limiter_ok (snd (limiter_retry clk l org cost))"
proof -
  obtain b l1 where b: "bucket_for clk l org = (b, l1)" by fastforce
  obtain now l2 where m: "monotonic clk l1 = (now, l2)" by fastforce
  have l2: "limiter_ok l2" "bucket_ok b" "capacity b = lim_capacity l2"
    using bucket_for_ok [OF assms, of clk org] b monotonic_frame [of clk l1] m by auto
  have wb: "limiter_ok (write_back org b' l2)" if "bucket_ok b'" "capacity b' = capacity b" for b'
    using write_back_ok l2 that by simp
  show "0 \<le> cost \<Longrightarrow> limiter_ok (snd (limiter_check clk l org cost))"
    using wb [of "snd (try_consume b cost now)"] try_consume_ok [OF l2(2)] b m
    by (auto simp: limiter_check_def split: prod.splits)
  show "limiter_ok (snd (limiter_remaining clk l org))"
    using wb [of "snd (try_consume b 0 now)"] try_consume_ok [OF l2(2)] b m
    by (auto simp: limiter_remaining_def split: prod.splits)
  show "limiter_ok (snd (limiter_retry clk l org cost))"
    using wb [of "snd (retry_after_seconds b cost now)"] retry_after_ok [OF l2(2)] b m
    by (auto simp: limiter_retry_def split: prod.splits)
qed

text \<open>A tenant's bucket is never touched by another tenant's traffic, only evicted by it.\<close>

lemma limiter_check_other_tenant:
  assumes "limiter_ok l" "other \<noteq> org"
  shows "dget (lim_buckets (snd (limiter_check clk l org cost))) other
           \<in> {dget (lim_buckets l) other, None}"
proof -
  obtain b l1 where b: "bucket_for clk l org = (b, l1)" by fastforce
  have tl: "dget (tl d) other \<in> {dget d other, None}" if "dict_ok d" for d :: "(str, token_bucket) dict"
    using that by (cases d) (auto simp: dget_def dict_ok_def map_of_eq_None_iff)
  have "dget (lim_buckets l1) other \<in> {dget (lim_buckets l) other, None}"
  proof (cases "dget (lim_buckets l) org")
    case None
    let ?bs = "dput org b (lim_buckets l)"
    have "dget (tl ?bs) other \<in> {dget (lim_buckets l) other, None}"
      using tl [of ?bs] assms by (auto simp: limiter_ok_def dict_simps)
    moreover have "lim_buckets l1 = (if length ?bs > lim_max_tenants l then tl ?bs else ?bs)"
      using None b by (auto simp: bucket_for_def monotonic_def Let_def)
    ultimately show ?thesis using assms(2) by (simp add: dget_dput)
  qed (use b in \<open>auto simp: bucket_for_def dict_simps\<close>)
  with b assms(2) show ?thesis
    by (auto simp: limiter_check_def monotonic_def write_back_def dict_simps split: prod.splits)
qed

text \<open>The limiter keeps the contract the ingest use case relies on.\<close>

lemma limiter_remaining_range:
  "0 \<le> fst (limiter_remaining clk l org) \<and> fst (limiter_remaining clk l org) \<le> 1"
  by (auto simp: limiter_remaining_def split: prod.splits)

lemma limiter_retry_nonneg: "0 \<le> fst (limiter_retry clk l org cost)"
  by (auto simp: limiter_retry_def retry_after_seconds_def Let_def split: prod.splits if_splits)

interpretation lim: quota_limiter "limiter_check clk" "limiter_remaining clk" "limiter_retry clk"
    limiter_ok
  for clk
  by unfold_locales (auto simp: limiter_remaining_range limiter_retry_nonneg intro: inv_intros)

section \<open>Shedding\<close>

record shedding_policy = comfortable_fraction :: rat

definition default_shedding :: shedding_policy where
  "default_shedding = \<lparr>comfortable_fraction = 1 / 2\<rparr>"

definition should_accept :: "shedding_policy \<Rightarrow> event_type \<Rightarrow> rat \<Rightarrow> bool" where
  "should_accept p t remaining_fraction =
     (if is_security_signal t then True
      else remaining_fraction \<ge> 1 - comfortable_fraction p)"

definition event_cost :: "event_type \<Rightarrow> rat" where
  "event_cost t = (if is_security_signal t then 1 / 2 else 1)"

lemma event_cost_nonneg [simp]: "0 \<le> event_cost t"
  by (simp add: event_cost_def)

lemma should_accept_security [simp]: "is_security_signal t \<Longrightarrow> should_accept p t r"
  by (simp add: should_accept_def)

end
