(* ===== verification/GatewayDedup.thy ===== *)
theory GatewayDedup
  imports GatewayPorts
begin

text \<open>
  The bounded cache of recently seen event ids (\<open>LruDeduplicationCache\<close> of
  \<open>infrastructure/limits.py\<close>), an \<open>OrderedDict\<close> whose values are all None.
\<close>

record lru_cache =
  lru_capacity :: nat
  lru_seen :: "(str, unit) dict"

definition lru_create :: "nat \<Rightarrow> lru_cache" where
  "lru_create cap = \<lparr>lru_capacity = cap, lru_seen = []\<rparr>"

definition lru_seen_op :: "lru_cache \<Rightarrow> str \<Rightarrow> bool \<times> lru_cache" where
  "lru_seen_op c eid =
     (if dget (lru_seen c) eid \<noteq> None
      then (True, c\<lparr>lru_seen := move_to_end eid (lru_seen c)\<rparr>)
      else (False, c))"

text \<open>\<open>while len(self._seen) > self._capacity: self._seen.popitem(last=False)\<close>.\<close>

fun evict :: "nat \<Rightarrow> (str, unit) dict \<Rightarrow> (str, unit) dict" where
  "evict cap [] = []"
| "evict cap (p # d) = (if length (p # d) > cap then evict cap d else p # d)"

definition lru_remember :: "lru_cache \<Rightarrow> str \<Rightarrow> lru_cache" where
  "lru_remember c eid =
     c\<lparr>lru_seen := evict (lru_capacity c) (move_to_end eid (dput eid () (lru_seen c)))\<rparr>"

definition lru_len :: "lru_cache \<Rightarrow> nat" where "lru_len c = length (lru_seen c)"

definition lru_recency :: "lru_cache \<Rightarrow> str list" where "lru_recency c = dkeys (lru_seen c)"

definition lru_ok :: "lru_cache \<Rightarrow> bool" where
  "lru_ok c \<longleftrightarrow> dict_ok (lru_seen c) \<and> lru_len c \<le> lru_capacity c"

lemma evict_keep_last: "evict cap d = keep_last cap d"
proof (induction d)
  case (Cons p d)
  show ?case
  proof (cases "length (p # d) > cap")
    case True
    then have "length (p # d) - cap = Suc (length d - cap)" by simp
    with True Cons show ?thesis by (simp add: keep_last_def)
  qed (simp add: keep_last_def)
qed (simp add: keep_last_def)

lemma keys_keep_last: "map f (keep_last n xs) = keep_last n (map f xs)"
  by (simp add: keep_last_def drop_map)

lemma keys_move_to_end:
  assumes "dict_ok d" "k \<in> fst ` set d"
  shows "map fst (move_to_end k d) = touch k (map fst d)"
proof -
  have "map fst (filter (\<lambda>p. fst p \<noteq> k) d) = removeAll k (map fst d)"
    by (induction d) auto
  moreover have "map fst (filter (\<lambda>p. fst p = k) d) = [k]"
    using assms
  proof (induction d)
    case (Cons p d)
    then show ?case
      by (cases "fst p = k") (auto simp: dict_ok_def filter_empty_conv image_iff)
  qed simp
  ultimately show ?thesis by (simp add: move_to_end_def touch_def)
qed

lemma touch_dput_keys: "touch k (map fst (dput k v d)) = touch k (map fst d)"
  by (induction k v d rule: dput.induct) (auto simp: touch_def)

lemma lru_remember_recency:
  assumes "lru_ok c"
  shows "lru_recency (lru_remember c x) = keep_last (lru_capacity c) (touch x (lru_recency c))"
proof -
  have "dict_ok (dput x () (lru_seen c))" using assms by (auto simp: lru_ok_def)
  then have "map fst (move_to_end x (dput x () (lru_seen c))) = touch x (map fst (lru_seen c))"
    by (simp add: keys_move_to_end dict_simps touch_dput_keys)
  then show ?thesis
    by (simp add: lru_remember_def lru_recency_def dkeys_def evict_keep_last keys_keep_last)
qed

lemma lru_seen_recency:
  assumes "lru_ok c"
  shows "lru_recency (snd (lru_seen_op c x)) =
    (if x \<in> set (lru_recency c) then touch x (lru_recency c) else lru_recency c)"
proof (cases "dget (lru_seen c) x")
  case None
  then show ?thesis by (simp add: lru_seen_op_def lru_recency_def dkeys_def dict_simps)
next
  case (Some u)
  then have "x \<in> fst ` set (lru_seen c)" by (rule dget_Some_key)
  with Some assms show ?thesis
    by (simp add: lru_seen_op_def lru_recency_def dkeys_def keys_move_to_end lru_ok_def)
qed

lemma lru_seen_capacity [simp]: "lru_capacity (snd (lru_seen_op c x)) = lru_capacity c"
  by (simp add: lru_seen_op_def)

lemma lru_seen_ok: "lru_ok c \<Longrightarrow> lru_ok (snd (lru_seen_op c x))"
  by (auto simp: lru_ok_def lru_len_def lru_seen_op_def)

lemma lru_remember_capacity [simp]: "lru_capacity (lru_remember c x) = lru_capacity c"
  by (simp add: lru_remember_def)

lemma lru_remember_ok: "lru_ok c \<Longrightarrow> lru_ok (lru_remember c x)"
proof -
  assume ok: "lru_ok c"
  then have "distinct (lru_recency c)"
    by (simp add: lru_ok_def dict_ok_def lru_recency_def dkeys_def)
  then have "distinct (lru_recency (lru_remember c x))"
    using ok by (simp add: lru_remember_recency keep_last_def distinct_drop)
  moreover have "length (lru_recency (lru_remember c x)) \<le> lru_capacity c"
    using ok by (simp add: lru_remember_recency length_keep_last)
  ultimately show ?thesis
    by (simp add: lru_ok_def dict_ok_def lru_len_def lru_recency_def dkeys_def lru_remember_def)
qed

interpretation lru: dedup_cache lru_seen_op lru_remember lru_recency lru_capacity lru_ok
proof unfold_locales
  show "fst (lru_seen_op c x) \<longleftrightarrow> x \<in> set (lru_recency c)" if "lru_ok c" for c x
    by (auto simp: lru_seen_op_def lru_recency_def dkeys_def dict_simps)
  show "distinct (lru_recency c)" if "lru_ok c" for c
    using that by (simp add: lru_ok_def lru_recency_def dkeys_def dict_ok_def)
qed (auto simp: lru_seen_recency lru_seen_ok lru_remember_recency lru_remember_ok)

text \<open>A run of remembered ids.\<close>

fun lru_run :: "lru_cache \<Rightarrow> str list \<Rightarrow> lru_cache" where
  "lru_run c [] = c"
| "lru_run c (x # xs) = lru_run (lru_remember c x) xs"

lemma lru_run_tail:
  assumes "lru_ok c" "lru_recency c = old @ ys" "distinct ys"
    and "card (set ys \<union> set xs) \<le> lru_capacity c"
  shows "\<exists>old' ys'. lru_recency (lru_run c xs) = old' @ ys' \<and> set ys' = set ys \<union> set xs"
  using assms
proof (induction xs arbitrary: c old ys)
  case (Cons x xs)
  have le: "card (insert x (set ys)) \<le> card (set ys \<union> set (x # xs))"
    by (intro card_mono) auto
  obtain old1 where old1: "lru_recency (lru_remember c x) = old1 @ touch x ys"
    using lru.remember_tail [OF Cons.prems(1,2), of x] le Cons.prems(4) by fastforce
  have cap: "card (set (touch x ys) \<union> set xs) \<le> lru_capacity (lru_remember c x)"
    using Cons.prems(4) by (simp add: lru_remember_def insert_commute)
  show ?case
    using Cons.IH [OF lru_remember_ok [OF Cons.prems(1)] old1 _ cap] Cons.prems(3) by auto
qed auto

text \<open>
  The deduplication window: after remembering any sequence of event ids with at most
  \<open>capacity\<close> distinct ones, a replay of any of them is recognised, whatever the cache held before,
  and the cache never holds more than its capacity.
\<close>

theorem lru_remembers_last_capacity_ids:
  assumes "lru_ok c" "card (set xs) \<le> lru_capacity c" "x \<in> set xs"
  shows "fst (lru_seen_op (lru_run c xs) x) \<and> lru_len (lru_run c xs) \<le> lru_capacity c"
proof -
  have run_ok: "lru_ok (lru_run c ys) \<and> lru_capacity (lru_run c ys) = lru_capacity c"
    if "lru_ok c" for ys c
    using that by (induction c ys rule: lru_run.induct) (auto simp: lru_remember_ok)
  obtain old' ys' where "lru_recency (lru_run c xs) = old' @ ys'" "set ys' = set xs"
    using lru_run_tail [OF assms(1), of "lru_recency c" "[]" xs] assms(2) by auto
  then show ?thesis
    using run_ok [OF assms(1), of xs] assms(3) by (simp add: lru.seen_answer lru_ok_def)
qed

theorem lru_remembers_last_capacity_ids_witness:
  "fst (lru_seen_op (lru_run (lru_create 2) [''a'', ''b'', ''a'']) ''b'') \<and>
   lru_len (lru_run (lru_create 2) [''a'', ''b'', ''a'']) \<le> 2"
proof -
  have "card (set [''a'', ''b'', ''a'']) \<le> 2" by code_simp
  then show ?thesis
    using lru_remembers_last_capacity_ids [of "lru_create 2" "[''a'', ''b'', ''a'']" "''b''"]
    by (simp add: lru_create_def lru_ok_def lru_len_def)
qed

end
