(* ===== verification/GatewaySinks.thy ===== *)
theory GatewaySinks
  imports GatewayPorts
begin

text \<open>
  The event sinks (\<open>infrastructure/sinks.py\<close>): the envelope the worker consumes, the memory sink,
  the file sink and the Kafka sink. \<open>json.dumps\<close>, the file system's append and the broker client
  are parameters.
\<close>

section \<open>The envelope\<close>

definition envelope :: "stream_origin \<Rightarrow> runtime_event \<Rightarrow> json" where
  "envelope origin e = JObj
     [(''organization_id'', JStr (so_organization_id origin)),
      (''agent_id'', JStr (so_agent_id origin)),
      (''environment_id'', JStr (so_environment_id origin)),
      (''event_id'', JStr (event_id e)),
      (''type'', JStr (type_value (ev_type e))),
      (''occurred_at_ms'', JInt (occurred_at_ms e)),
      (''monotonic_nanos'', JInt (monotonic_nanos e)),
      (''trace_id'', JStr (trace_id e)),
      (''replayed'', JBool (replayed e)),
      (''payload'', JObj (payload e))]"

definition serialize :: "(json \<Rightarrow> str) \<Rightarrow> stream_origin \<Rightarrow> runtime_event \<Rightarrow> str" where
  "serialize dumps origin e = dumps (envelope origin e)"

section \<open>Memory\<close>

record memory_sink =
  ms_published :: "(str \<times> runtime_event) list"
  ms_fail_next :: bool

definition memory_publish ::
    "memory_sink \<Rightarrow> stream_origin \<Rightarrow> runtime_event list \<Rightarrow> publish_result \<times> memory_sink" where
  "memory_publish s origin es =
     (if ms_fail_next s then (Sink_unavailable, s\<lparr>ms_fail_next := False\<rparr>)
      else (Published, s\<lparr>ms_published :=
              ms_published s @ map (\<lambda>e. (so_organization_id origin, e)) es\<rparr>))"

interpretation mem: event_sink memory_publish ms_published
proof unfold_locales
  show "\<exists>k. ms_published (snd (memory_publish s org es)) =
      ms_published s @ map (Pair (so_organization_id org)) (take k es)"
    if "fst (memory_publish s org es) \<noteq> Published" for s org es
    using that by (intro exI [of _ 0]) (auto simp: memory_publish_def split: if_splits)
qed (auto simp: memory_publish_def split: if_splits)

section \<open>File\<close>

text \<open>
  \<open>append data payload\<close> is what opening the file in mode \<open>ab\<close> and writing does to its bytes:
  whether it went through, and the bytes afterwards.
\<close>

definition file_payload :: "(json \<Rightarrow> str) \<Rightarrow> stream_origin \<Rightarrow> runtime_event list \<Rightarrow> str" where
  "file_payload dumps origin es = join [CHR 0x0A] (map (serialize dumps origin) es) @ [CHR 0x0A]"

definition file_publish ::
    "(json \<Rightarrow> str) \<Rightarrow> (str \<Rightarrow> str \<Rightarrow> bool \<times> str) \<Rightarrow> str \<Rightarrow> stream_origin \<Rightarrow> runtime_event list
       \<Rightarrow> publish_result \<times> str" where
  "file_publish dumps append_bytes data origin es =
     (let (ok, data') = append_bytes data (file_payload dumps origin es)
      in (if ok then Published else Sink_unavailable, data'))"

lemma join_lines:
  "xs \<noteq> [] \<Longrightarrow> join sep xs @ sep = concat (map (\<lambda>x. x @ sep) xs)"
  by (induction sep xs rule: join.induct) auto

lemma file_payload_lines:
  "es \<noteq> [] \<Longrightarrow> file_payload dumps origin es
     = concat (map (\<lambda>e. serialize dumps origin e @ [CHR 0x0A]) es)"
  using join_lines [of "map (serialize dumps origin) es" "[CHR 0x0A]"]
  by (simp add: file_payload_def o_def)

section \<open>Kafka\<close>

text \<open>
  The broker client is a parameter: starting it and sending one message each answer whether they
  succeeded. \<open>start()\<close> runs before the \<open>try\<close> block of \<open>publish\<close>, so its failure is not turned
  into \<open>SinkUnavailableError\<close>.
\<close>

record 'b kafka_sink =
  k_started :: bool
  k_broker :: 'b
  k_sent :: "(str \<times> str \<times> runtime_event) list" \<comment> \<open>partition key, organization, event\<close>

definition kafka_start :: "('b \<Rightarrow> bool \<times> 'b) \<Rightarrow> 'b kafka_sink \<Rightarrow> bool \<times> 'b kafka_sink" where
  "kafka_start start s =
     (if k_started s then (True, s)
      else (let (ok, b) = start (k_broker s)
            in (ok, s\<lparr>k_broker := b, k_started := ok\<rparr>)))"

fun kafka_send_all ::
    "('b \<Rightarrow> str \<Rightarrow> str \<Rightarrow> bool \<times> 'b) \<Rightarrow> (json \<Rightarrow> str) \<Rightarrow> stream_origin \<Rightarrow> runtime_event list
       \<Rightarrow> 'b kafka_sink \<Rightarrow> bool \<times> 'b kafka_sink" where
  "kafka_send_all send dumps origin [] s = (True, s)"
| "kafka_send_all send dumps origin (e # es) s =
     (let (ok, b) = send (k_broker s) (partition_key e) (serialize dumps origin e) in
      if ok
      then kafka_send_all send dumps origin es
             (s\<lparr>k_broker := b,
                k_sent := k_sent s @ [(partition_key e, so_organization_id origin, e)]\<rparr>)
      else (False, s\<lparr>k_broker := b\<rparr>))"

definition kafka_publish ::
    "('b \<Rightarrow> bool \<times> 'b) \<Rightarrow> ('b \<Rightarrow> str \<Rightarrow> str \<Rightarrow> bool \<times> 'b) \<Rightarrow> (json \<Rightarrow> str) \<Rightarrow> 'b kafka_sink
       \<Rightarrow> stream_origin \<Rightarrow> runtime_event list \<Rightarrow> publish_result \<times> 'b kafka_sink" where
  "kafka_publish start send dumps s origin es =
     (let (up, s1) = kafka_start start s in
      if \<not> up then (Sink_crash, s1)
      else (let (ok, s2) = kafka_send_all send dumps origin es s1
            in (if ok then Published else Sink_unavailable, s2)))"

definition kafka_log :: "'b kafka_sink \<Rightarrow> (str \<times> runtime_event) list" where
  "kafka_log s = map snd (k_sent s)"

lemma kafka_start_log [simp]: "kafka_log (snd (kafka_start start s)) = kafka_log s"
  by (auto simp: kafka_start_def kafka_log_def split: prod.splits)

lemma kafka_send_all_log:
  "\<exists>k. kafka_log (snd (kafka_send_all send dumps origin es s)) =
         kafka_log s @ map (Pair (so_organization_id origin)) (take k es) \<and>
       (fst (kafka_send_all send dumps origin es s) \<longrightarrow> k = length es)"
proof (induction send dumps origin es s rule: kafka_send_all.induct)
  case (2 send dumps origin e es s)
  obtain ok b where send: "send (k_broker s) (partition_key e) (serialize dumps origin e) = (ok, b)"
    by fastforce
  show ?case
  proof (cases ok)
    case True
    let ?s = "s\<lparr>k_broker := b, k_sent := k_sent s @ [(partition_key e, so_organization_id origin, e)]\<rparr>"
    obtain k where "kafka_log (snd (kafka_send_all send dumps origin es ?s)) =
        kafka_log ?s @ map (Pair (so_organization_id origin)) (take k es)"
      "fst (kafka_send_all send dumps origin es ?s) \<longrightarrow> k = length es"
      using "2.IH" [OF send [symmetric] refl True] by blast
    with send True show ?thesis by (intro exI [of _ "Suc k"]) (simp add: kafka_log_def)
  next
    case False
    with send show ?thesis by (intro exI [of _ 0]) (simp add: kafka_log_def)
  qed
qed simp

interpretation kafka: event_sink "kafka_publish start send dumps" kafka_log
  for start :: "'b \<Rightarrow> bool \<times> 'b" and send dumps
proof unfold_locales
  fix s :: "'b kafka_sink" and org es
  let ?s1 = "snd (kafka_start start s)"
  obtain k where k: "kafka_log (snd (kafka_send_all send dumps org es ?s1)) =
      kafka_log s @ map (Pair (so_organization_id org)) (take k es)"
    "fst (kafka_send_all send dumps org es ?s1) \<longrightarrow> k = length es"
    using kafka_send_all_log [of send dumps org es ?s1] by auto
  show "kafka_log (snd (kafka_publish start send dumps s org es)) =
      kafka_log s @ map (Pair (so_organization_id org)) es"
    if "fst (kafka_publish start send dumps s org es) = Published"
    using that k by (auto simp: kafka_publish_def split: prod.splits if_splits)
  have "kafka_log ?s1 = kafka_log s @ map (Pair (so_organization_id org)) (take 0 es)" by simp
  with k show "\<exists>k. kafka_log (snd (kafka_publish start send dumps s org es)) =
      kafka_log s @ map (Pair (so_organization_id org)) (take k es)"
    by (auto simp only: kafka_publish_def Let_def split_beta fst_conv snd_conv split: if_splits)
qed

section \<open>Choosing a sink\<close>

datatype sink_choice = Memory_sink | Kafka_sink str str | File_sink str

datatype sink_error = No_bootstrap_server | Unsupported_sink | Bad_file_uri

definition DEFAULT_TOPIC :: str where "DEFAULT_TOPIC = ''runtime-events''"

text \<open>\<open>file_path\<close> is \<open>_file_destination_path\<close>, which is \<open>urllib\<close> and \<open>pathlib\<close> throughout.\<close>

definition build_sink :: "(str \<Rightarrow> str option) \<Rightarrow> str \<Rightarrow> sink_error + sink_choice" where
  "build_sink file_path destination =
     (if destination = ''memory://'' then Inr Memory_sink
      else if startswith destination ''kafka://'' then
        (let (servers, _, topic) = partition_char (CHR ''/'') (drop (length ''kafka://'') destination)
         in if servers = [] then Inl No_bootstrap_server
            else Inr (Kafka_sink servers (if topic \<noteq> [] then topic else DEFAULT_TOPIC)))
      else if startswith destination ''file:'' then
        (case file_path destination of None \<Rightarrow> Inl Bad_file_uri | Some p \<Rightarrow> Inr (File_sink p))
      else Inl Unsupported_sink)"

end
