(* ===== verification/GatewayIngest.thy ===== *)
theory GatewayIngest
  imports GatewayQuota GatewayDedup GatewaySinks
begin

text \<open>
  The ingest use case (\<open>application/ingest.py\<close>): validate, admit and publish one NDJSON batch. The
  ports are arguments, collected in a record; \<open>loads\<close> is \<open>json.loads\<close>. The state the ports keep is
  returned also when the use case raises, because what was remembered or spent before the raise
  stays so. The lemmas are proved in a locale over the ports' contracts and used through its
  interpretation on the replica's own limiter and cache with the memory sink.
\<close>

section \<open>State and results\<close>

datatype gateway_error =
    AgentAuthenticationError "str option" \<comment> \<open>a message of its own, if any\<close>
  | AgentDisabledError
  | InvalidEventError reason nat
  | BatchTooLargeError nat
  | QuotaExceededError int
  | SinkUnavailableError

datatype gateway_exn = Gateway gateway_error | Unhandled

record agent_principal =
  ap_agent_id :: str
  ap_organization_id :: str
  ap_environment_id :: str

record rejection =
  rej_line :: nat
  rej_reason :: reason

record ingest_result =
  accepted :: nat
  duplicates :: nat
  shed :: nat
  rejected :: nat
  rejections :: "rejection list"
  ack_cursor :: str
  credit :: int

definition empty_result :: ingest_result where
  "empty_result = \<lparr>accepted = 0, duplicates = 0, shed = 0, rejected = 0, rejections = [],
     ack_cursor = [], credit = 0\<rparr>"

definition processed :: "ingest_result \<Rightarrow> nat" where
  "processed r = accepted r + duplicates r + shed r + rejected r"

record ingest_config =
  max_batch_bytes :: nat
  max_batch_events :: nat
  ic_shedding :: shedding_policy
  reject_batch_on_invalid :: bool

record ('q, 'd, 's) ports =
  p_check :: "'q \<Rightarrow> str \<Rightarrow> rat \<Rightarrow> bool \<times> 'q"
  p_remaining :: "'q \<Rightarrow> str \<Rightarrow> rat \<times> 'q"
  p_retry :: "'q \<Rightarrow> str \<Rightarrow> rat \<Rightarrow> int \<times> 'q"
  p_seen :: "'d \<Rightarrow> str \<Rightarrow> bool \<times> 'd"
  p_remember :: "'d \<Rightarrow> str \<Rightarrow> 'd"
  p_publish :: "'s \<Rightarrow> stream_origin \<Rightarrow> runtime_event list \<Rightarrow> publish_result \<times> 's"

record ('q, 'd, 's) gw_state =
  gw_quota :: 'q
  gw_dedup :: 'd
  gw_sink :: 's

record ('q, 'd) ingest_loop =
  lp_result :: ingest_result
  lp_publishable :: "runtime_event list"
  lp_seen :: nat
  lp_quota :: 'q
  lp_dedup :: 'd

section \<open>One event\<close>

definition record_rejection :: "ingest_result \<Rightarrow> nat \<Rightarrow> reason \<Rightarrow> ingest_result" where
  "record_rejection r line reason =
     r\<lparr>rejected := rejected r + 1,
       rejections := (if length (rejections r) < 20
                      then rejections r @ [\<lparr>rej_line = line, rej_reason = reason\<rparr>]
                      else rejections r)\<rparr>"

definition admit ::
    "('q, 'd, 's) ports \<Rightarrow> ingest_config \<Rightarrow> agent_principal \<Rightarrow> runtime_event
       \<Rightarrow> ('q, 'd) ingest_loop \<Rightarrow> gateway_exn option \<times> ('q, 'd) ingest_loop" where
  "admit P cfg prin e lp =
     (let org = ap_organization_id prin; r = lp_result lp;
          (dup, d1) = p_seen P (lp_dedup lp) (event_id e)
      in if dup then
           (None, lp\<lparr>lp_dedup := d1,
                     lp_result := r\<lparr>duplicates := duplicates r + 1, ack_cursor := event_id e\<rparr>\<rparr>)
         else
           (let cost = event_cost (ev_type e); (rem, q1) = p_remaining P (lp_quota lp) org in
            if \<not> should_accept (ic_shedding cfg) (ev_type e) rem then
              (None, lp\<lparr>lp_dedup := d1, lp_quota := q1, lp_result := r\<lparr>shed := shed r + 1\<rparr>\<rparr>)
            else
              (let (ok, q2) = p_check P q1 org cost in
               if \<not> ok then
                 (if is_security_signal (ev_type e) then
                    (let (wait, q3) = p_retry P q2 org cost in
                     (Some (Gateway (QuotaExceededError wait)), lp\<lparr>lp_dedup := d1, lp_quota := q3\<rparr>))
                  else
                    (None, lp\<lparr>lp_dedup := d1, lp_quota := q2,
                              lp_result := r\<lparr>shed := shed r + 1\<rparr>\<rparr>))
               else
                 (None, lp\<lparr>lp_quota := q2, lp_dedup := p_remember P d1 (event_id e),
                           lp_publishable := lp_publishable lp @ [e]\<rparr>))))"

section \<open>The loop over the lines\<close>

text \<open>
  \<open>bytes.splitlines()\<close>: lines end at LF, CR or CR LF, and a final line break adds no line. The
  flag says that the last character was a CR, whose LF ends no further line.
\<close>

fun splitlines_acc :: "bool \<Rightarrow> str \<Rightarrow> str \<Rightarrow> str list" where
  "splitlines_acc cr w [] = (if w = [] then [] else [rev w])"
| "splitlines_acc cr w (c # s) =
     (if c = CHR 0x0A
      then (if cr then splitlines_acc False [] s else rev w # splitlines_acc False [] s)
      else if c = CHR 0x0D then rev w # splitlines_acc True [] s
      else splitlines_acc False (c # w) s)"

definition splitlines :: "str \<Rightarrow> str list" where "splitlines s = splitlines_acc False [] s"

text \<open>The body of the loop for one non-blank line within the batch limit.\<close>

definition ingest_line ::
    "('q, 'd, 's) ports \<Rightarrow> (str \<Rightarrow> loaded) \<Rightarrow> ingest_config \<Rightarrow> agent_principal
       \<Rightarrow> nat \<Rightarrow> str \<Rightarrow> ('q, 'd) ingest_loop \<Rightarrow> gateway_exn option \<times> ('q, 'd) ingest_loop" where
  "ingest_line P loads cfg prin n stripped lp =
     (case loads stripped of
        LoadsCrash \<Rightarrow> (Some Unhandled, lp)
      | JSONDecodeError msg \<Rightarrow>
          (None, lp\<lparr>lp_result := record_rejection (lp_result lp) n (Malformed_JSON msg)\<rparr>)
      | Loaded j \<Rightarrow>
          (case parse_event j of
             Inl why \<Rightarrow> (None, lp\<lparr>lp_result := record_rejection (lp_result lp) n why\<rparr>)
           | Inr e \<Rightarrow> admit P cfg prin e lp))"

fun ingest_lines ::
    "('q, 'd, 's) ports \<Rightarrow> (str \<Rightarrow> loaded) \<Rightarrow> ingest_config \<Rightarrow> agent_principal
       \<Rightarrow> (nat \<times> str) list \<Rightarrow> ('q, 'd) ingest_loop
       \<Rightarrow> gateway_exn option \<times> ('q, 'd) ingest_loop" where
  "ingest_lines P loads cfg prin [] lp = (None, lp)"
| "ingest_lines P loads cfg prin ((n, raw) # rest) lp =
     (let stripped = bstrip raw; r = lp_result lp in
      if stripped = [] then ingest_lines P loads cfg prin rest lp
      else if lp_seen lp \<ge> max_batch_events cfg then
        (None, lp\<lparr>lp_result := r\<lparr>rejected := rejected r + 1,
           rejections := rejections r @ [\<lparr>rej_line = n, rej_reason = Batch_event_limit\<rparr>]\<rparr>\<rparr>)
      else
        (case ingest_line P loads cfg prin n stripped (lp\<lparr>lp_seen := lp_seen lp + 1\<rparr>) of
           (Some x, lp') \<Rightarrow> (Some x, lp')
         | (None, lp') \<Rightarrow> ingest_lines P loads cfg prin rest lp'))"

section \<open>The use case\<close>

definition origin_of :: "agent_principal \<Rightarrow> stream_origin" where
  "origin_of prin = \<lparr>so_organization_id = ap_organization_id prin, so_agent_id = ap_agent_id prin,
     so_environment_id = ap_environment_id prin\<rparr>"

definition credit_for ::
    "('q, 'd, 's) ports \<Rightarrow> ingest_config \<Rightarrow> agent_principal \<Rightarrow> 'q \<Rightarrow> int \<times> 'q" where
  "credit_for P cfg prin q =
     (let (rem, q') = p_remaining P q (ap_organization_id prin)
      in (max 1 \<lfloor>of_nat (max_batch_events cfg) * rem\<rfloor>, q'))"

definition start_loop :: "('q, 'd, 's) gw_state \<Rightarrow> ('q, 'd) ingest_loop" where
  "start_loop st = \<lparr>lp_result = empty_result, lp_publishable = [], lp_seen = 0,
     lp_quota = gw_quota st, lp_dedup = gw_dedup st\<rparr>"

definition run_loop ::
    "('q, 'd, 's) ports \<Rightarrow> (str \<Rightarrow> loaded) \<Rightarrow> ingest_config \<Rightarrow> agent_principal \<Rightarrow> str
       \<Rightarrow> ('q, 'd, 's) gw_state \<Rightarrow> gateway_exn option \<times> ('q, 'd) ingest_loop" where
  "run_loop P loads cfg prin body st =
     ingest_lines P loads cfg prin (enumerate 1 (splitlines body)) (start_loop st)"

definition ingest_execute ::
    "('q, 'd, 's) ports \<Rightarrow> (str \<Rightarrow> loaded) \<Rightarrow> ingest_config \<Rightarrow> agent_principal \<Rightarrow> str
       \<Rightarrow> ('q, 'd, 's) gw_state \<Rightarrow> (gateway_exn + ingest_result) \<times> ('q, 'd, 's) gw_state" where
  "ingest_execute P loads cfg prin body st =
     (if length body > max_batch_bytes cfg then (Inl (Gateway (BatchTooLargeError (max_batch_bytes cfg))), st)
      else
        (let (exn, lp) = run_loop P loads cfg prin body st; r = lp_result lp;
             st1 = st\<lparr>gw_quota := lp_quota lp, gw_dedup := lp_dedup lp\<rparr>
         in case exn of
              Some x \<Rightarrow> (Inl x, st1)
            | None \<Rightarrow>
                if reject_batch_on_invalid cfg \<and> rejections r \<noteq> [] then
                  (Inl (Gateway (InvalidEventError (rej_reason (hd (rejections r)))
                                                   (rej_line (hd (rejections r))))), st1)
                else if lp_publishable lp \<noteq> [] then
                  (case p_publish P (gw_sink st) (origin_of prin) (lp_publishable lp) of
                     (Published, s) \<Rightarrow>
                       (let (c, q) = credit_for P cfg prin (lp_quota lp)
                        in (Inr (r\<lparr>accepted := length (lp_publishable lp),
                                   ack_cursor := event_id (last (lp_publishable lp)),
                                   credit := c\<rparr>),
                            st1\<lparr>gw_sink := s, gw_quota := q\<rparr>))
                   | (Sink_unavailable, s) \<Rightarrow> (Inl (Gateway SinkUnavailableError), st1\<lparr>gw_sink := s\<rparr>)
                   | (Sink_crash, s) \<Rightarrow> (Inl Unhandled, st1\<lparr>gw_sink := s\<rparr>))
                else
                  (let (c, q) = credit_for P cfg prin (lp_quota lp)
                   in (Inr (r\<lparr>credit := c\<rparr>), st1\<lparr>gw_quota := q\<rparr>))))"

text \<open>\<open>summarize_types\<close>: per-type counts of a list of events.\<close>

definition summarize_types :: "runtime_event list \<Rightarrow> (str, nat) dict" where
  "summarize_types es =
     fold (\<lambda>e counts. dput (type_value (ev_type e))
             ((case dget counts (type_value (ev_type e)) of None \<Rightarrow> 0 | Some n \<Rightarrow> n) + 1) counts) es []"

end
