(* ===== verification/GatewayIngestProps.thy ===== *)
theory GatewayIngestProps
  imports GatewayIngest
begin

text \<open>
  What the ingest use case guarantees: every examined line is accounted for, security signal is
  never shed, a replayed batch publishes nothing twice, and every published event carries the
  verified organization. The last part shows the price of remembering an event before it is
  published: a batch refused with a retryable error is swallowed by its own retry.
\<close>

section \<open>Vocabulary of the specifications\<close>

definition parsed :: "(str \<Rightarrow> loaded) \<Rightarrow> nat \<times> str \<Rightarrow> runtime_event option" where
  "parsed loads line =
     (case loads (bstrip (snd line)) of
        Loaded j \<Rightarrow> (case parse_event j of Inr e \<Rightarrow> Some e | Inl _ \<Rightarrow> None)
      | _ \<Rightarrow> None)"

definition non_blank :: "(nat \<times> str) list \<Rightarrow> (nat \<times> str) list" where
  "non_blank lines = filter (\<lambda>l. bstrip (snd l) \<noteq> []) lines"

definition batch_lines :: "str \<Rightarrow> (nat \<times> str) list" where
  "batch_lines body = non_blank (enumerate 1 (splitlines body))"

definition batch_ids :: "(str \<Rightarrow> loaded) \<Rightarrow> str \<Rightarrow> str set" where
  "batch_ids loads body =
     event_id ` set (List.map_filter (parsed loads) (batch_lines body))"

definition ids :: "runtime_event list \<Rightarrow> str set" where
  "ids es = event_id ` set es"

definition lp_total :: "('q, 'd) ingest_loop \<Rightarrow> nat" where
  "lp_total lp = duplicates (lp_result lp) + shed (lp_result lp) + rejected (lp_result lp)
                 + length (lp_publishable lp)"

lemma ids_simps [simp]: "ids [] = {}" "ids (xs @ ys) = ids xs \<union> ids ys" "ids [e] = {event_id e}"
  by (auto simp: ids_def)

lemma batch_idsI: "l \<in> set (batch_lines body) \<Longrightarrow> parsed loads l = Some e \<Longrightarrow> event_id e \<in> batch_ids loads body"
  by (force simp: batch_ids_def List.map_filter_def)

lemma finite_batch_ids [simp]: "finite (batch_ids loads body)"
  by (simp add: batch_ids_def)

lemma non_blank_Cons [simp]:
  "non_blank ((n, raw) # rest) = (if bstrip raw = [] then non_blank rest else (n, raw) # non_blank rest)"
  "non_blank [] = []"
  by (simp_all add: non_blank_def)

definition examined :: "(str \<Rightarrow> loaded) \<Rightarrow> nat \<Rightarrow> (nat \<times> str) list \<Rightarrow> runtime_event list" where
  "examined loads k lines = List.map_filter (parsed loads) (take k (non_blank lines))"

lemma examined_Nil [simp]: "examined loads k [] = []" "examined loads 0 lines = []"
  by (simp_all add: examined_def List.map_filter_def)

lemma examined_Cons [simp]:
  "bstrip raw \<noteq> [] \<Longrightarrow> examined loads (Suc k) ((n, raw) # rest) =
     (case parsed loads (n, raw) of None \<Rightarrow> [] | Some e \<Rightarrow> [e]) @ examined loads k rest"
  "bstrip raw = [] \<Longrightarrow> examined loads k ((n, raw) # rest) = examined loads k rest"
  by (auto simp: examined_def List.map_filter_def split: option.splits)

definition batch_events :: "(str \<Rightarrow> loaded) \<Rightarrow> ingest_config \<Rightarrow> str \<Rightarrow> runtime_event list" where
  "batch_events loads cfg body =
     examined loads (max_batch_events cfg) (enumerate 1 (splitlines body))"

text \<open>A sequence of requests, whatever each of them answers.\<close>

fun ingest_batches ::
    "('q, 'd, 's) ports \<Rightarrow> (str \<Rightarrow> loaded) \<Rightarrow> ingest_config \<Rightarrow> (agent_principal \<times> str) list
       \<Rightarrow> ('q, 'd, 's) gw_state \<Rightarrow> ('q, 'd, 's) gw_state" where
  "ingest_batches P loads cfg [] st = st"
| "ingest_batches P loads cfg ((prin, body) # bs) st =
     ingest_batches P loads cfg bs (snd (ingest_execute P loads cfg prin body st))"

locale gateway_ports =
  quota_limiter "p_check P" "p_remaining P" "p_retry P" q_inv +
  dedup_cache "p_seen P" "p_remember P" recency dcap d_inv +
  event_sink "p_publish P" sink_log
  for P :: "('q, 'd, 's) ports" and q_inv and recency and dcap and d_inv and sink_log
begin

definition loop_ok :: "('q, 'd) ingest_loop \<Rightarrow> bool" where
  "loop_ok lp \<longleftrightarrow> q_inv (lp_quota lp) \<and> d_inv (lp_dedup lp)"

definition state_ok :: "('q, 'd, 's) gw_state \<Rightarrow> bool" where
  "state_ok st \<longleftrightarrow> q_inv (gw_quota st) \<and> d_inv (gw_dedup st)"

section \<open>One line\<close>

lemma admit_cases:
  assumes "loop_ok lp" "admit P cfg prin e lp = (x, lp')"
  defines "d1 \<equiv> snd (p_seen P (lp_dedup lp) (event_id e))"
  obtains
    (duplicate) "event_id e \<in> set (recency (lp_dedup lp))" "x = None" "lp_dedup lp' = d1"
      "lp_publishable lp' = lp_publishable lp" "lp_total lp' = Suc (lp_total lp)"
      "rejections (lp_result lp') = rejections (lp_result lp)" "lp_seen lp' = lp_seen lp"
      "accepted (lp_result lp') = accepted (lp_result lp)"
  | (shed) "event_id e \<notin> set (recency (lp_dedup lp))" "x = None" "lp_dedup lp' = d1"
      "\<not> is_security_signal (ev_type e)"
      "lp_publishable lp' = lp_publishable lp" "lp_total lp' = Suc (lp_total lp)"
      "rejections (lp_result lp') = rejections (lp_result lp)" "lp_seen lp' = lp_seen lp"
      "accepted (lp_result lp') = accepted (lp_result lp)"
  | (refused) n where "event_id e \<notin> set (recency (lp_dedup lp))"
      "x = Some (Gateway (QuotaExceededError n))" "lp_dedup lp' = d1" "0 \<le> n"
      "is_security_signal (ev_type e)"
      "lp_publishable lp' = lp_publishable lp" "lp_seen lp' = lp_seen lp"
  | (admitted) "event_id e \<notin> set (recency (lp_dedup lp))" "x = None"
      "lp_dedup lp' = p_remember P d1 (event_id e)"
      "lp_publishable lp' = lp_publishable lp @ [e]" "lp_total lp' = Suc (lp_total lp)"
      "rejections (lp_result lp') = rejections (lp_result lp)" "lp_seen lp' = lp_seen lp"
      "accepted (lp_result lp') = accepted (lp_result lp)"
proof -
  have q: "q_inv (lp_quota lp)" and d: "d_inv (lp_dedup lp)" using assms(1) by (auto simp: loop_ok_def)
  obtain dup d1' where seen: "p_seen P (lp_dedup lp) (event_id e) = (dup, d1')" by fastforce
  have dup: "dup \<longleftrightarrow> event_id e \<in> set (recency (lp_dedup lp))" using seen_answer [OF d] seen by (metis fst_conv)
  obtain rem q1 where rem: "p_remaining P (lp_quota lp) (ap_organization_id prin) = (rem, q1)" by fastforce
  obtain ok q2 where chk: "p_check P q1 (ap_organization_id prin) (event_cost (ev_type e)) = (ok, q2)"
    by fastforce
  obtain wait q3 where retry: "p_retry P q2 (ap_organization_id prin) (event_cost (ev_type e)) = (wait, q3)"
    by fastforce
  have "q_inv q1" using remaining_inv [OF q] rem by (metis snd_conv)
  then have "q_inv q2" using check_inv chk event_cost_nonneg by (metis snd_conv)
  then have "0 \<le> wait" using retry_nonneg retry by (metis fst_conv)
  with assms(2) dup seen rem chk retry show thesis
    by (cases dup; cases "should_accept (ic_shedding cfg) (ev_type e) rem"; cases ok;
        cases "is_security_signal (ev_type e)")
      (auto simp: admit_def Let_def lp_total_def d1_def intro: duplicate shed refused admitted)
qed

lemma admit_ok:
  assumes "loop_ok lp" "admit P cfg prin e lp = (x, lp')"
  shows "loop_ok lp'" "dcap (lp_dedup lp') = dcap (lp_dedup lp)"
proof -
  have q: "q_inv (lp_quota lp)" and d: "d_inv (lp_dedup lp)" using assms(1) by (auto simp: loop_ok_def)
  let ?q1 = "snd (p_remaining P (lp_quota lp) (ap_organization_id prin))"
  let ?c = "event_cost (ev_type e)"
  let ?q2 = "snd (p_check P ?q1 (ap_organization_id prin) ?c)"
  have 1: "q_inv ?q1" by (rule remaining_inv [OF q])
  have 2: "q_inv ?q2" by (rule check_inv [OF 1 event_cost_nonneg])
  have 3: "q_inv (snd (p_retry P ?q2 (ap_organization_id prin) ?c))" by (rule retry_inv [OF 2])
  have 4: "d_inv (snd (p_seen P (lp_dedup lp) (event_id e)))" by (rule seen_inv [OF d])
  show "loop_ok lp'"
    using assms(2) q 1 2 3 4 remember_inv [OF 4]
    by (auto simp: admit_def Let_def split_beta loop_ok_def split: if_splits)
  show "dcap (lp_dedup lp') = dcap (lp_dedup lp)"
    using assms(2)
    by (auto simp: admit_def Let_def split_beta seen_capacity remember_capacity split: if_splits)
qed

lemma ingest_line_cases:
  assumes "ingest_line P loads cfg prin n (bstrip raw) lp = (x, lp')"
  obtains
    (crash) "x = Some Unhandled" "lp' = lp"
  | (reject) why where "x = None" "parsed loads (n, raw) = None"
      "lp' = lp\<lparr>lp_result := record_rejection (lp_result lp) n why\<rparr>"
  | (event) e where "parsed loads (n, raw) = Some e" "admit P cfg prin e lp = (x, lp')"
  using assms
  by (auto simp: ingest_line_def parsed_def split: loaded.splits sum.splits)


lemma ingest_line_ok:
  assumes "loop_ok lp" "ingest_line P loads cfg prin n (bstrip raw) lp = (x, lp')"
  shows "loop_ok lp' \<and> dcap (lp_dedup lp') = dcap (lp_dedup lp) \<and> lp_seen lp' = lp_seen lp \<and>
         accepted (lp_result lp') = accepted (lp_result lp) \<and>
         length (rejections (lp_result lp')) \<le> max 20 (length (rejections (lp_result lp))) \<and>
         (x = None \<longrightarrow> lp_total lp' = Suc (lp_total lp))"
  using assms(2)
proof (cases rule: ingest_line_cases)
  case (event e)
  then show ?thesis
    using admit_ok [OF assms(1) event(2)]
    by (cases rule: admit_cases [OF assms(1) event(2)])
      (auto simp: admit_def Let_def split_beta split: if_splits)
qed (use assms(1) in \<open>auto simp: record_rejection_def loop_ok_def lp_total_def\<close>)

section \<open>The loop\<close>

text \<open>How the loop unfolds on a list of lines: blank, beyond the limit, raising, or one step.\<close>

lemma ingest_lines_cases:
  assumes "ingest_lines P loads cfg prin ((n, raw) # rest) lp = (x, lp')"
  obtains
    (blank) "bstrip raw = []" "ingest_lines P loads cfg prin rest lp = (x, lp')"
  | (limit) "bstrip raw \<noteq> []" "lp_seen lp \<ge> max_batch_events cfg" "x = None"
      "lp' = lp\<lparr>lp_result := lp_result lp\<lparr>rejected := rejected (lp_result lp) + 1,
           rejections := rejections (lp_result lp) @ [\<lparr>rej_line = n, rej_reason = Batch_event_limit\<rparr>]\<rparr>\<rparr>"
  | (raised) exn where "bstrip raw \<noteq> []" "lp_seen lp < max_batch_events cfg" "x = Some exn"
      "ingest_line P loads cfg prin n (bstrip raw) (lp\<lparr>lp_seen := lp_seen lp + 1\<rparr>) = (Some exn, lp')"
  | (step) lp1 where "bstrip raw \<noteq> []" "lp_seen lp < max_batch_events cfg"
      "ingest_line P loads cfg prin n (bstrip raw) (lp\<lparr>lp_seen := lp_seen lp + 1\<rparr>) = (None, lp1)"
      "ingest_lines P loads cfg prin rest lp1 = (x, lp')"
  using assms by (auto simp: Let_def split: if_splits prod.splits option.splits)

lemma seen_frame [simp]:
  "loop_ok (lp\<lparr>lp_seen := n\<rparr>) = loop_ok lp"
  "lp_total (lp\<lparr>lp_seen := n\<rparr>) = lp_total lp"
  by (simp_all add: loop_ok_def lp_total_def)

lemma ingest_lines_ok:
  assumes "loop_ok lp" "ingest_lines P loads cfg prin lines lp = (x, lp')"
  shows "loop_ok lp' \<and> dcap (lp_dedup lp') = dcap (lp_dedup lp) \<and>
         accepted (lp_result lp') = accepted (lp_result lp) \<and>
         (length (rejections (lp_result lp)) \<le> 20 \<longrightarrow> length (rejections (lp_result lp')) \<le> 21)"
  using assms
proof (induction lines arbitrary: lp)
  case (Cons l rest)
  obtain n raw where l: "l = (n, raw)" by fastforce
  show ?case
    using Cons.prems(2) [unfolded l]
  proof (cases rule: ingest_lines_cases)
    case (step lp1)
    have "loop_ok lp1 \<and> dcap (lp_dedup lp1) = dcap (lp_dedup lp) \<and>
        accepted (lp_result lp1) = accepted (lp_result lp) \<and>
        length (rejections (lp_result lp1)) \<le> max 20 (length (rejections (lp_result lp)))"
      using ingest_line_ok [OF _ step(3)] Cons.prems(1) by auto
    then show ?thesis using Cons.IH [OF _ step(4)] by auto
  next
    case (raised exn)
    then show ?thesis using ingest_line_ok [OF _ raised(4)] Cons.prems(1) by auto
  qed (use Cons in \<open>auto simp: loop_ok_def\<close>)
qed simp

text \<open>Every line examined is counted once.\<close>

lemma ingest_lines_total:
  assumes "loop_ok lp" "ingest_lines P loads cfg prin lines lp = (None, lp')"
    and "lp_seen lp \<le> max_batch_events cfg"
  shows "lp_total lp' + lp_seen lp =
         lp_total lp + min (Suc (max_batch_events cfg)) (lp_seen lp + length (non_blank lines))"
  using assms
proof (induction lines arbitrary: lp)
  case (Cons l rest)
  obtain n raw where l: "l = (n, raw)" by fastforce
  show ?case
    using Cons.prems(2) [unfolded l]
  proof (cases rule: ingest_lines_cases)
    case (step lp1)
    have "loop_ok lp1" "lp_seen lp1 = lp_seen lp + 1" "lp_total lp1 = Suc (lp_total lp)"
      using ingest_line_ok [OF _ step(3)] Cons.prems(1) by auto
    then show ?thesis using Cons.IH [OF _ step(4)] step(1,2) l by simp
  next
    case limit
    then show ?thesis using l Cons.prems(3) by (auto simp: lp_total_def)
  qed (use Cons l in auto)
qed simp

text \<open>
  What the loop may publish: a subsequence of the well-formed events, none of them known before;
  and every well-formed event is remembered, published or shed.
\<close>

lemma admit_publishes:
  assumes "loop_ok lp" "admit P cfg prin e lp = (x, lp')"
  shows "\<exists>new. lp_publishable lp' = lp_publishable lp @ new \<and> subseq new [e] \<and>
           set (recency (lp_dedup lp')) \<subseteq> set (recency (lp_dedup lp)) \<union> ids new \<and>
           (x = None \<longrightarrow> is_security_signal (ev_type e) \<longrightarrow>
              event_id e \<in> set (recency (lp_dedup lp)) \<union> ids new)"
  using assms
proof (cases rule: admit_cases)
  case admitted
  have d: "d_inv (lp_dedup lp)" using assms(1) by (simp add: loop_ok_def)
  with admitted remember_subset [OF seen_inv [OF d]] seen_set [OF d] show ?thesis
    by (intro exI [of _ "[e]"]) auto
qed (use assms(1) in \<open>auto simp: loop_ok_def seen_set\<close>)


lemma ingest_line_publishes:
  assumes "loop_ok lp" "ingest_line P loads cfg prin n (bstrip raw) lp = (x, lp')"
  shows "\<exists>new. lp_publishable lp' = lp_publishable lp @ new \<and>
           subseq new (case parsed loads (n, raw) of None \<Rightarrow> [] | Some e \<Rightarrow> [e]) \<and>
           set (recency (lp_dedup lp')) \<subseteq> set (recency (lp_dedup lp)) \<union> ids new \<and>
           (x = None \<longrightarrow> (\<forall>e. parsed loads (n, raw) = Some e \<longrightarrow> is_security_signal (ev_type e) \<longrightarrow>
              event_id e \<in> set (recency (lp_dedup lp)) \<union> ids new))"
  using assms(2)
proof (cases rule: ingest_line_cases)
  case (event e)
  then show ?thesis using admit_publishes [OF assms(1) event(2)] by simp
qed auto

lemma ingest_lines_publishes:
  assumes "loop_ok lp" "ingest_lines P loads cfg prin lines lp = (x, lp')"
  defines "k \<equiv> max_batch_events cfg - lp_seen lp"
  shows "\<exists>new. lp_publishable lp' = lp_publishable lp @ new \<and>
           subseq new (examined loads k lines) \<and>
           set (recency (lp_dedup lp')) \<subseteq> set (recency (lp_dedup lp)) \<union> ids new \<and>
           (x = None \<longrightarrow> (\<forall>e \<in> set (examined loads k lines). is_security_signal (ev_type e) \<longrightarrow>
              event_id e \<in> set (recency (lp_dedup lp)) \<union> ids new))"
  using assms(1,2) unfolding k_def
proof (induction lines arbitrary: lp)
  case (Cons l rest)
  obtain n raw where l: "l = (n, raw)" by fastforce
  show ?case
    using Cons.prems(2) [unfolded l]
  proof (cases rule: ingest_lines_cases)
    case (step lp1)
    let ?k = "max_batch_events cfg - lp_seen lp1"
    let ?hd = "case parsed loads (n, raw) of None \<Rightarrow> [] | Some e \<Rightarrow> [e]"
    have lp1: "loop_ok lp1" "lp_seen lp1 = lp_seen lp + 1"
      using ingest_line_ok [OF _ step(3)] Cons.prems(1) by auto
    obtain n1 where n1: "lp_publishable lp1 = lp_publishable lp @ n1" "subseq n1 ?hd"
      "set (recency (lp_dedup lp1)) \<subseteq> set (recency (lp_dedup lp)) \<union> ids n1"
      "\<forall>e. parsed loads (n, raw) = Some e \<longrightarrow> is_security_signal (ev_type e) \<longrightarrow>
           event_id e \<in> set (recency (lp_dedup lp)) \<union> ids n1"
      using ingest_line_publishes [OF _ step(3)] Cons.prems(1) by auto
    obtain n2 where n2: "lp_publishable lp' = lp_publishable lp1 @ n2"
      "subseq n2 (examined loads ?k rest)"
      "set (recency (lp_dedup lp')) \<subseteq> set (recency (lp_dedup lp1)) \<union> ids n2"
      "x = None \<longrightarrow> (\<forall>e \<in> set (examined loads ?k rest). is_security_signal (ev_type e) \<longrightarrow>
           event_id e \<in> set (recency (lp_dedup lp1)) \<union> ids n2)"
      using Cons.IH [OF lp1(1) step(4)] by blast
    have ex: "examined loads (max_batch_events cfg - lp_seen lp) (l # rest)
        = ?hd @ examined loads ?k rest"
      using step(1,2) lp1(2) l by (simp flip: Suc_diff_Suc)
    have "subseq (n1 @ n2) (?hd @ examined loads ?k rest)"
      using n1(2) n2(2) by (rule list_emb_append_mono)
    moreover have "x = None \<longrightarrow> (\<forall>e \<in> set (?hd @ examined loads ?k rest).
        is_security_signal (ev_type e) \<longrightarrow> event_id e \<in> set (recency (lp_dedup lp)) \<union> ids (n1 @ n2))"
      using n1(3,4) n2(4) by (cases "parsed loads (n, raw)") auto
    ultimately show ?thesis
      unfolding ex using n1(1,3) n2(1,3) by (intro exI [of _ "n1 @ n2"]) auto
  next
    case (raised exn)
    have ex: "examined loads (max_batch_events cfg - lp_seen lp) (l # rest)
        = (case parsed loads (n, raw) of None \<Rightarrow> [] | Some e \<Rightarrow> [e])
          @ examined loads (max_batch_events cfg - lp_seen lp - 1) rest"
      using raised(1,2) l by (simp flip: Suc_diff_Suc)
    obtain n1 where "lp_publishable lp' = lp_publishable lp @ n1"
      "subseq n1 (case parsed loads (n, raw) of None \<Rightarrow> [] | Some e \<Rightarrow> [e])"
      "set (recency (lp_dedup lp')) \<subseteq> set (recency (lp_dedup lp)) \<union> ids n1"
      using ingest_line_publishes [OF _ raised(4)] Cons.prems(1) by auto
    then show ?thesis
      unfolding ex using raised(3)
      by (intro exI [of _ n1]) (auto intro: list_emb_append_mono [of _ _ _ "[]", simplified])
  next
    case limit
    then show ?thesis by (intro exI [of _ "[]"]) auto
  next
    case blank
    then show ?thesis using Cons.IH [OF Cons.prems(1) blank(2)] l by simp
  qed
qed simp

section \<open>The deduplication window\<close>

text \<open>
  The ids of a set \<open>U\<close> that fits the cache, once remembered, stay the tail of the recency list as
  long as only ids of \<open>U\<close> arrive; none of them is published again.
\<close>

lemma admit_window:
  assumes "loop_ok lp" "admit P cfg prin e lp = (x, lp')"
    and "recency (lp_dedup lp) = xs @ ys" "set ys \<subseteq> U" "finite U" "card U \<le> dcap (lp_dedup lp)"
    and "event_id e \<in> U"
  shows "\<exists>xs' ys' new. recency (lp_dedup lp') = xs' @ ys' \<and> set ys \<subseteq> set ys' \<and> set ys' \<subseteq> U \<and>
           lp_publishable lp' = lp_publishable lp @ new \<and> ids new \<subseteq> set ys' - set ys \<and>
           distinct (map event_id new)"
proof -
  let ?d1 = "snd (p_seen P (lp_dedup lp) (event_id e))"
  have d: "d_inv (lp_dedup lp)" using assms(1) by (simp add: loop_ok_def)
  obtain xs1 where tail: "recency ?d1 = xs1 @ (if event_id e \<in> set (recency (lp_dedup lp))
      then touch (event_id e) ys else ys)"
    using seen_tail [OF d assms(3)] by blast
  show ?thesis
    using assms(1,2)
  proof (cases rule: admit_cases)
    case admitted
    have new: "event_id e \<notin> set ys" using admitted(1) assms(3) by simp
    have r1: "recency ?d1 = xs1 @ ys" using tail admitted(1) by simp
    have "card (insert (event_id e) (set ys)) \<le> card U"
      using assms(4,5,7) by (intro card_mono) auto
    then have "card (insert (event_id e) (set ys)) \<le> dcap ?d1"
      using assms(6) by (simp add: seen_capacity)
    then obtain xs2 where "recency (lp_dedup lp') = xs2 @ touch (event_id e) ys"
      using remember_tail [OF seen_inv [OF d] r1] admitted(3) by auto
    with admitted new assms(4,7) show ?thesis
      by (intro exI [of _ xs2] exI [of _ "touch (event_id e) ys"] exI [of _ "[e]"]) auto
  next
    case duplicate
    have "recency (lp_dedup lp') = xs1 @ touch (event_id e) ys" using tail duplicate(1,3) by simp
    with duplicate assms(4,7) show ?thesis
      by (intro exI [of _ xs1] exI [of _ "touch (event_id e) ys"] exI [of _ "[]"]) auto
  next
    case shed
    have "recency (lp_dedup lp') = xs1 @ ys" using tail shed(1,3) by simp
    with shed assms(4) show ?thesis
      by (intro exI [of _ xs1] exI [of _ ys] exI [of _ "[]"]) auto
  next
    case refused
    have "recency (lp_dedup lp') = xs1 @ ys" using tail refused(1,3) by simp
    with refused assms(4) show ?thesis
      by (intro exI [of _ xs1] exI [of _ ys] exI [of _ "[]"]) auto
  qed
qed


lemma ingest_lines_window:
  assumes "loop_ok lp" "ingest_lines P loads cfg prin lines lp = (x, lp')"
    and "recency (lp_dedup lp) = xs @ ys" "set ys \<subseteq> U" "finite U" "card U \<le> dcap (lp_dedup lp)"
    and "ids (List.map_filter (parsed loads) (non_blank lines)) \<subseteq> U"
  shows "\<exists>xs' ys' new. recency (lp_dedup lp') = xs' @ ys' \<and> set ys \<subseteq> set ys' \<and> set ys' \<subseteq> U \<and>
           lp_publishable lp' = lp_publishable lp @ new \<and> ids new \<subseteq> set ys' - set ys \<and>
           distinct (map event_id new)"
  using assms(1-4,6,7)
proof (induction lines arbitrary: lp xs ys)
  case Nil
  then show ?case by (intro exI [of _ xs] exI [of _ ys] exI [of _ "[]"]) auto
next
  case (Cons l rest)
  obtain n raw where l: "l = (n, raw)" by fastforce
  have rest: "ids (List.map_filter (parsed loads) (non_blank rest)) \<subseteq> U"
    using Cons.prems(6) l by (auto simp: ids_def List.map_filter_def split: if_splits)
  have event: "event_id e \<in> U" if "parsed loads (n, raw) = Some e" "bstrip raw \<noteq> []" for e
    using Cons.prems(6) that l by (auto simp: ids_def List.map_filter_def)
  have line: "\<exists>xs' ys' new. recency (lp_dedup lp1) = xs' @ ys' \<and> set ys \<subseteq> set ys' \<and> set ys' \<subseteq> U \<and>
           lp_publishable lp1 = lp_publishable lp @ new \<and> ids new \<subseteq> set ys' - set ys \<and>
           distinct (map event_id new)"
    if "bstrip raw \<noteq> []" and
       "ingest_line P loads cfg prin n (bstrip raw) (lp\<lparr>lp_seen := lp_seen lp + 1\<rparr>) = (y, lp1)" for y lp1
    using that(2)
  proof (cases rule: ingest_line_cases)
    case (event e)
    then show ?thesis
      using admit_window [OF _ event(2), of xs ys U] Cons.prems(1,3,4,5) assms(5)
        \<open>\<And>e. \<lbrakk>parsed loads (n, raw) = Some e; bstrip raw \<noteq> []\<rbrakk> \<Longrightarrow> event_id e \<in> U\<close> that(1)
      by simp
  next
    case crash
    with Cons.prems(3,4) show ?thesis by (intro exI [of _ xs] exI [of _ ys] exI [of _ "[]"]) auto
  next
    case reject
    with Cons.prems(3,4) show ?thesis by (intro exI [of _ xs] exI [of _ ys] exI [of _ "[]"]) auto
  qed
  show ?case
    using Cons.prems(2) [unfolded l]
  proof (cases rule: ingest_lines_cases)
    case (step lp1)
    obtain xs1 ys1 n1 where n1: "recency (lp_dedup lp1) = xs1 @ ys1" "set ys \<subseteq> set ys1" "set ys1 \<subseteq> U"
      "lp_publishable lp1 = lp_publishable lp @ n1" "ids n1 \<subseteq> set ys1 - set ys"
      "distinct (map event_id n1)"
      using line [OF step(1,3)] by blast
    have lp1: "loop_ok lp1" "dcap (lp_dedup lp1) = dcap (lp_dedup lp)"
      using ingest_line_ok [OF _ step(3)] Cons.prems(1) by auto
    obtain xs2 ys2 n2 where n2: "recency (lp_dedup lp') = xs2 @ ys2" "set ys1 \<subseteq> set ys2" "set ys2 \<subseteq> U"
      "lp_publishable lp' = lp_publishable lp1 @ n2" "ids n2 \<subseteq> set ys2 - set ys1"
      "distinct (map event_id n2)"
      using Cons.IH [OF lp1(1) step(4) n1(1,3) _ rest] lp1(2) Cons.prems(5) by auto
    have "set (map event_id n1) \<inter> set (map event_id n2) = {}"
      using n1(5) n2(5) by (auto simp: ids_def)
    with n1 n2 show ?thesis
      by (intro exI [of _ xs2] exI [of _ ys2] exI [of _ "n1 @ n2"]) auto
  next
    case blank
    then show ?thesis using Cons.IH [OF Cons.prems(1) blank(2) Cons.prems(3,4,5) rest] by simp
  next
    case limit
    then show ?thesis
      using Cons.prems(3,4) by (intro exI [of _ xs] exI [of _ ys] exI [of _ "[]"]) auto
  next
    case (raised exn)
    then show ?thesis using line [OF raised(1,4)] by simp
  qed
qed


section \<open>The use case\<close>

lemma run_loop_ok:
  assumes "state_ok st" "run_loop P loads cfg prin body st = (x, lp)"
  shows "loop_ok (start_loop st) \<and> loop_ok lp \<and> dcap (lp_dedup lp) = dcap (gw_dedup st) \<and>
         length (rejections (lp_result lp)) \<le> 21 \<and> accepted (lp_result lp) = 0"
  using ingest_lines_ok [OF _ assms(2) [unfolded run_loop_def]] assms(1)
  by (auto simp: loop_ok_def state_ok_def start_loop_def empty_result_def)

lemma credit_for_ok:
  assumes "q_inv q"
  shows "q_inv (snd (credit_for P cfg prin q))"
    and "1 \<le> fst (credit_for P cfg prin q) \<and>
         fst (credit_for P cfg prin q) \<le> max 1 (int (max_batch_events cfg))"
proof -
  obtain f q' where f: "p_remaining P q (ap_organization_id prin) = (f, q')" by fastforce
  have "q_inv q'" "f \<le> 1"
    using remaining_inv [OF assms, of "ap_organization_id prin"]
      remaining_range [OF assms, of "ap_organization_id prin"] f by auto
  then have "of_nat (max_batch_events cfg) * f \<le> (of_nat (max_batch_events cfg) :: rat)"
    by (simp add: mult_left_le)
  then have "\<lfloor>of_nat (max_batch_events cfg) * f\<rfloor> \<le> int (max_batch_events cfg)"
    by (metis floor_mono floor_of_nat)
  with f \<open>q_inv q'\<close> show "q_inv (snd (credit_for P cfg prin q))"
    "1 \<le> fst (credit_for P cfg prin q) \<and>
     fst (credit_for P cfg prin q) \<le> max 1 (int (max_batch_events cfg))"
    by (auto simp: credit_for_def)
qed

lemma publish_cases:
  obtains (published) s' where "p_publish P s (origin_of prin) es = (Published, s')"
      "sink_log s' = sink_log s @ map (Pair (ap_organization_id prin)) es"
  | (failed) res s' k where "p_publish P s (origin_of prin) es = (res, s')" "res \<noteq> Published"
      "sink_log s' = sink_log s @ map (Pair (ap_organization_id prin)) (take k es)"
proof -
  obtain res s' where eq: "p_publish P s (origin_of prin) es = (res, s')" by fastforce
  show thesis
  proof (cases "res = Published")
    case True
    then show thesis using published publish_accepted [of s "origin_of prin" es] eq
      by (simp add: origin_of_def)
  next
    case False
    then show thesis using failed publish_refused [of s "origin_of prin" es] eq
      by (auto simp: origin_of_def)
  qed
qed

text \<open>Every outcome of the use case: the batch is too large, or the loop ran.\<close>

lemma execute_cases:
  assumes "state_ok st" "ingest_execute P loads cfg prin body st = (res, st')"
  obtains (too_large) "length body > max_batch_bytes cfg" "res = Inl (Gateway (BatchTooLargeError (max_batch_bytes cfg)))" "st' = st"
  | (ran) x lp k where "run_loop P loads cfg prin body st = (x, lp)" "state_ok st'"
      "gw_dedup st' = lp_dedup lp"
      "sink_log (gw_sink st') =
         sink_log (gw_sink st) @ map (Pair (ap_organization_id prin)) (take k (lp_publishable lp))"
      "\<And>r. res = Inr r \<Longrightarrow> x = None \<and> k = length (lp_publishable lp) \<and> accepted r = k \<and>
         processed r = lp_total lp \<and> rejections r = rejections (lp_result lp) \<and>
         1 \<le> credit r \<and> credit r \<le> max 1 (int (max_batch_events cfg))"
proof (cases "length body > max_batch_bytes cfg")
  case True
  then show thesis using too_large assms(2) by (simp add: ingest_execute_def)
next
  case False
  obtain x lp where run: "run_loop P loads cfg prin body st = (x, lp)" by fastforce
  note ok = run_loop_ok [OF assms(1) run]
  obtain c q where credit: "credit_for P cfg prin (lp_quota lp) = (c, q)" by fastforce
  have q: "q_inv q" "q_inv (lp_quota lp)" "d_inv (lp_dedup lp)"
    "1 \<le> c" "c \<le> max 1 (int (max_batch_events cfg))"
    using credit_for_ok [of "lp_quota lp" cfg prin] credit ok by (auto simp: loop_ok_def)
  let ?pub = "lp_publishable lp" and ?r = "lp_result lp"
  let ?st1 = "st\<lparr>gw_quota := lp_quota lp, gw_dedup := lp_dedup lp\<rparr>"
  have refused: thesis if "res = Inl e" "gw_dedup st' = lp_dedup lp" "gw_quota st' = lp_quota lp"
    "sink_log (gw_sink st') =
       sink_log (gw_sink st) @ map (Pair (ap_organization_id prin)) (take k ?pub)" for e k
    using ran [OF run, of k] that q by (simp add: state_ok_def)
  have exec: "ingest_execute P loads cfg prin body st =
    (case x of
       Some e \<Rightarrow> (Inl e, ?st1)
     | None \<Rightarrow>
        if reject_batch_on_invalid cfg \<and> rejections ?r \<noteq> [] then
          (Inl (Gateway (InvalidEventError (rej_reason (hd (rejections ?r)))
                                           (rej_line (hd (rejections ?r))))), ?st1)
        else if ?pub \<noteq> [] then
          (case p_publish P (gw_sink st) (origin_of prin) ?pub of
             (Published, s) \<Rightarrow>
               (Inr (?r\<lparr>accepted := length ?pub, ack_cursor := event_id (last ?pub), credit := c\<rparr>),
                ?st1\<lparr>gw_sink := s, gw_quota := q\<rparr>)
           | (Sink_unavailable, s) \<Rightarrow> (Inl (Gateway SinkUnavailableError), ?st1\<lparr>gw_sink := s\<rparr>)
           | (Sink_crash, s) \<Rightarrow> (Inl Unhandled, ?st1\<lparr>gw_sink := s\<rparr>))
        else (Inr (?r\<lparr>credit := c\<rparr>), ?st1\<lparr>gw_quota := q\<rparr>))"
    using False unfolding ingest_execute_def run credit Let_def prod.case by simp
  show thesis
  proof (cases x)
    case (Some e)
    with exec assms(2) show thesis by (intro refused [of e 0]) auto
  next
    case None
    note exec' = exec [unfolded None, simplified] assms(2)
    consider (strict) "reject_batch_on_invalid cfg \<and> rejections ?r \<noteq> []"
      | (idle) "\<not> (reject_batch_on_invalid cfg \<and> rejections ?r \<noteq> [])" "?pub = []"
      | (publish) "\<not> (reject_batch_on_invalid cfg \<and> rejections ?r \<noteq> [])" "?pub \<noteq> []"
      by blast
    then show thesis
    proof cases
      case strict
      with exec' show thesis by (intro refused [of _ 0]) auto
    next
      case idle
      with exec' have "res = Inr (?r\<lparr>credit := c\<rparr>)" "st' = ?st1\<lparr>gw_quota := q\<rparr>" by auto
      then show thesis
        using ran [OF run, of 0] q ok None idle(2)
        by (simp add: state_ok_def processed_def lp_total_def)
    next
      case publish
      show thesis
        using publish_cases [of "gw_sink st" prin ?pub]
      proof cases
        case (published s')
        with publish exec'
        have "res = Inr (?r\<lparr>accepted := length ?pub, ack_cursor := event_id (last ?pub), credit := c\<rparr>)"
          "st' = ?st1\<lparr>gw_sink := s', gw_quota := q\<rparr>" by auto
        then show thesis
          using ran [OF run, of "length ?pub"] q ok None published(2)
          by (simp add: state_ok_def processed_def lp_total_def)
      next
        case (failed r s' k)
        with publish exec' show thesis by (cases r) (auto intro!: refused [of _ k])
      qed
    qed
  qed
qed


lemma start_loop_simps [simp]:
  "lp_seen (start_loop st) = 0" "lp_total (start_loop st) = 0" "lp_publishable (start_loop st) = []"
  "lp_dedup (start_loop st) = gw_dedup st"
  by (simp_all add: start_loop_def lp_total_def empty_result_def)

text \<open>A successful batch: counters, published events, and the answer's bounds.\<close>

lemma execute_accounts:
  assumes "state_ok st" "ingest_execute P loads cfg prin body st = (Inr r, st')"
  shows "processed r = min (Suc (max_batch_events cfg)) (length (batch_lines body)) \<and>
         length (rejections r) \<le> 21 \<and> 1 \<le> credit r \<and> credit r \<le> max 1 (int (max_batch_events cfg)) \<and>
         (\<exists>new. sink_log (gw_sink st') = sink_log (gw_sink st) @ map (Pair (ap_organization_id prin)) new \<and>
                length new = accepted r \<and> subseq new (batch_events loads cfg body) \<and>
                (\<forall>e \<in> set (batch_events loads cfg body). is_security_signal (ev_type e) \<longrightarrow>
                   event_id e \<in> set (recency (gw_dedup st)) \<union> ids new))"
  using assms
proof (cases rule: execute_cases)
  case (ran x lp k)
  note r = ran(5) [OF refl]
  note ok = run_loop_ok [OF assms(1) ran(1)]
  have run: "ingest_lines P loads cfg prin (enumerate 1 (splitlines body)) (start_loop st) = (None, lp)"
    using ran(1) r by (simp add: run_loop_def)
  have "lp_total lp = min (Suc (max_batch_events cfg)) (length (batch_lines body))"
    using ingest_lines_total [OF _ run] ok by (simp add: batch_lines_def)
  moreover have "\<exists>new. lp_publishable lp = new \<and> subseq new (batch_events loads cfg body) \<and>
      (\<forall>e \<in> set (batch_events loads cfg body). is_security_signal (ev_type e) \<longrightarrow>
         event_id e \<in> set (recency (gw_dedup st)) \<union> ids new)"
    using ingest_lines_publishes [OF _ run] ok by (fastforce simp: batch_events_def)
  ultimately show ?thesis using r ok ran(4) by auto
qed auto

text \<open>Any outcome: the window of the deduplication cache moves on, and so does the log.\<close>

lemma execute_window:
  assumes "state_ok st" "ingest_execute P loads cfg prin body st = (res, st')"
    and "recency (gw_dedup st) = xs @ ys" "set ys \<subseteq> U" "finite U" "card U \<le> dcap (gw_dedup st)"
    and "batch_ids loads body \<subseteq> U"
  shows "\<exists>xs' ys' new. state_ok st' \<and> dcap (gw_dedup st') = dcap (gw_dedup st) \<and>
           recency (gw_dedup st') = xs' @ ys' \<and> set ys \<subseteq> set ys' \<and> set ys' \<subseteq> U \<and>
           sink_log (gw_sink st') = sink_log (gw_sink st) @ map (Pair (ap_organization_id prin)) new \<and>
           ids new \<subseteq> set ys' - set ys \<and> distinct (map event_id new)"
  using assms(1,2)
proof (cases rule: execute_cases)
  case too_large
  with assms show ?thesis by (intro exI [of _ xs] exI [of _ ys] exI [of _ "[]"]) auto
next
  case (ran x lp k)
  note ok = run_loop_ok [OF assms(1) ran(1)]
  obtain xs' ys' where w: "recency (lp_dedup lp) = xs' @ ys'" "set ys \<subseteq> set ys'" "set ys' \<subseteq> U"
    "ids (lp_publishable lp) \<subseteq> set ys' - set ys" "distinct (map event_id (lp_publishable lp))"
    using ingest_lines_window [OF _ ran(1) [unfolded run_loop_def], of xs ys U] ok assms(3-7)
    by (auto simp: batch_ids_def batch_lines_def ids_def)
  have "ids (take k (lp_publishable lp)) \<subseteq> ids (lp_publishable lp)"
    by (auto simp: ids_def dest: in_set_takeD)
  moreover have "distinct (map event_id (take k (lp_publishable lp)))"
    using w(5) by (simp add: distinct_take flip: take_map)
  ultimately show ?thesis
    using w ran ok
    by (intro exI [of _ xs'] exI [of _ ys'] exI [of _ "take k (lp_publishable lp)"]) auto
qed

lemma batches_window:
  assumes "state_ok st" "recency (gw_dedup st) = xs @ ys" "set ys \<subseteq> U" "finite U"
    and "card U \<le> dcap (gw_dedup st)" "\<forall>b \<in> set bs. batch_ids loads (snd b) \<subseteq> U"
  shows "\<exists>new. sink_log (gw_sink (ingest_batches P loads cfg bs st)) = sink_log (gw_sink st) @ new \<and>
           event_id ` snd ` set new \<subseteq> U - set ys \<and> distinct (map (event_id \<circ> snd) new)"
  using assms(1-3,5,6)
proof (induction bs arbitrary: st xs ys)
  case (Cons b bs)
  obtain prin body where b: "b = (prin, body)" by fastforce
  obtain res st1 where ex: "ingest_execute P loads cfg prin body st = (res, st1)" by fastforce
  obtain xs1 ys1 n1 where n1: "state_ok st1" "dcap (gw_dedup st1) = dcap (gw_dedup st)"
    "recency (gw_dedup st1) = xs1 @ ys1" "set ys \<subseteq> set ys1" "set ys1 \<subseteq> U"
    "sink_log (gw_sink st1) = sink_log (gw_sink st) @ map (Pair (ap_organization_id prin)) n1"
    "ids n1 \<subseteq> set ys1 - set ys" "distinct (map event_id n1)"
    using execute_window [OF Cons.prems(1) ex Cons.prems(2,3) assms(4) Cons.prems(4)] Cons.prems(5) b
    by auto
  obtain n2 where n2: "sink_log (gw_sink (ingest_batches P loads cfg bs st1)) = sink_log (gw_sink st1) @ n2"
    "event_id ` snd ` set n2 \<subseteq> U - set ys1" "distinct (map (event_id \<circ> snd) n2)"
    using Cons.IH [OF n1(1,3,5)] n1(2) Cons.prems(4,5) by (auto simp: o_def)
  let ?n1 = "map (Pair (ap_organization_id prin)) n1"
  have n1_ids: "event_id ` snd ` set ?n1 = ids n1" by (force simp: ids_def)
  have d1: "distinct (map (event_id \<circ> snd) ?n1)" using n1(8) by (simp add: o_def)
  have "event_id ` snd ` set ?n1 \<inter> event_id ` snd ` set n2 = {}"
    using n1(7) n2(2) unfolding n1_ids by blast
  with d1 n2(3) have "distinct (map (event_id \<circ> snd) (?n1 @ n2))"
    by (simp add: image_image)
  moreover have "event_id ` snd ` set (?n1 @ n2) \<subseteq> U - set ys"
    using n1(4,5,7) n2(2) n1_ids by (simp add: image_Un) blast
  ultimately show ?case
    using b ex n1(6) n2(1) by (intro exI [of _ "?n1 @ n2"]) (simp add: o_def)
qed auto

lemma batches_at_most_once:
  assumes "state_ok st" "finite U" "card U \<le> dcap (gw_dedup st)"
    and "\<forall>b \<in> set bs. batch_ids loads (snd b) \<subseteq> U"
  shows "\<exists>new. sink_log (gw_sink (ingest_batches P loads cfg bs st)) = sink_log (gw_sink st) @ new \<and>
           distinct (map (event_id \<circ> snd) new)"
  using batches_window [of st "recency (gw_dedup st)" "[]" U bs loads cfg] assms by auto

text \<open>The events admitted by a batch that failed are never published by its retries.\<close>

lemma retry_loses_admitted:
  assumes "state_ok st" "finite U" "card U \<le> dcap (gw_dedup st)" "batch_ids loads body \<subseteq> U"
    and "run_loop P loads cfg prin body st = (x, lp)" "length body \<le> max_batch_bytes cfg"
    and "\<forall>b \<in> set bs. batch_ids loads (snd b) \<subseteq> U"
  defines "st1 \<equiv> snd (ingest_execute P loads cfg prin body st)"
  shows "\<exists>new. sink_log (gw_sink (ingest_batches P loads cfg bs st1)) = sink_log (gw_sink st1) @ new \<and>
           (\<forall>e \<in> set (lp_publishable lp). event_id e \<notin> event_id ` snd ` set new)"
proof -
  obtain res where ex: "ingest_execute P loads cfg prin body st = (res, st1)"
    by (metis prod.collapse st1_def)
  note ok = run_loop_ok [OF assms(1,5)]
  obtain xs' ys' where w: "recency (lp_dedup lp) = xs' @ ys'" "set ys' \<subseteq> U"
    "ids (lp_publishable lp) \<subseteq> set ys'"
    using ingest_lines_window [OF _ assms(5) [unfolded run_loop_def], of "recency (gw_dedup st)" "[]" U]
      ok assms(2-4)
    by (auto simp: batch_ids_def batch_lines_def ids_def)
  show ?thesis
    using assms(1) ex
  proof (cases rule: execute_cases)
    case too_large
    with assms(6) show ?thesis by simp
  next
    case (ran y lp2 k)
    with assms(5) have st1: "recency (gw_dedup st1) = xs' @ ys'" "dcap (gw_dedup st1) = dcap (gw_dedup st)"
      using w ok by auto
    show ?thesis
      using batches_window [OF ran(2) st1(1) w(2) assms(2) _ assms(7), of cfg] st1(2) assms(3) w(3)
      by (fastforce simp: ids_def)
  qed
qed

text \<open>The errors the use case can end with.\<close>

definition ingest_exn_ok :: "gateway_exn \<Rightarrow> bool" where
  "ingest_exn_ok x \<longleftrightarrow> x = Unhandled \<or> (\<exists>n \<ge> 0. x = Gateway (QuotaExceededError n))"

lemma ingest_line_exn:
  assumes "loop_ok lp" "ingest_line P loads cfg prin n (bstrip raw) lp = (Some x, lp')"
  shows "ingest_exn_ok x"
  using assms(2)
proof (cases rule: ingest_line_cases)
  case (event e)
  show ?thesis using assms(1) event(2) by (cases rule: admit_cases) (auto simp: ingest_exn_ok_def)
qed (auto simp: ingest_exn_ok_def)

lemma ingest_lines_exn:
  "loop_ok lp \<Longrightarrow> ingest_lines P loads cfg prin lines lp = (Some x, lp') \<Longrightarrow> ingest_exn_ok x"
proof (induction lines arbitrary: lp)
  case (Cons l rest)
  obtain n raw where l: "l = (n, raw)" by fastforce
  show ?case
    using Cons.prems(2) [unfolded l]
  proof (cases rule: ingest_lines_cases)
    case (step lp1)
    then show ?thesis
      using Cons.IH [OF _ step(4)] ingest_line_ok [OF _ step(3)] Cons.prems(1) by simp
  next
    case (raised exn)
    then show ?thesis using ingest_line_exn [OF _ raised(4)] Cons.prems(1) by simp
  qed (use Cons in auto)
qed simp

lemma execute_errors:
  assumes "state_ok st" "ingest_execute P loads cfg prin body st = (Inl x, st')"
  shows "x = Unhandled \<or> (\<exists>e. x = Gateway e \<and> (\<forall>n. e = QuotaExceededError n \<longrightarrow> 0 \<le> n) \<and>
           e \<noteq> AgentDisabledError \<and> (\<forall>m. e \<noteq> AgentAuthenticationError m))"
proof -
  obtain y lp where run: "run_loop P loads cfg prin body st = (y, lp)" by fastforce
  have "\<And>z. y = Some z \<Longrightarrow> ingest_exn_ok z"
    using ingest_lines_exn [OF conjunct1 [OF run_loop_ok [OF assms(1) run]]] run
    by (auto simp: run_loop_def)
  with run assms(2) show ?thesis
    by (cases y; auto simp: ingest_execute_def Let_def ingest_exn_ok_def
        split: if_splits prod.splits publish_result.splits)
qed

end

end
