(* ===== verification/GatewayReplica.thy ===== *)
theory GatewayReplica
  imports GatewayIngestProps
begin

text \<open>
  One gateway replica as \<open>build_container\<close> wires it: the ingest use case on the in-memory quota
  limiter and the LRU deduplication cache, with the sink chosen by the settings. The ports'
  contracts are interpreted here, and the guarantees of the use case become facts about the
  replica.
\<close>

definition replica_ports ::
    "(nat \<Rightarrow> rat) \<Rightarrow> ('s \<Rightarrow> stream_origin \<Rightarrow> runtime_event list \<Rightarrow> publish_result \<times> 's)
       \<Rightarrow> (limiter, lru_cache, 's) ports" where
  "replica_ports clk publish =
     \<lparr>p_check = limiter_check clk, p_remaining = limiter_remaining clk, p_retry = limiter_retry clk,
      p_seen = lru_seen_op, p_remember = lru_remember, p_publish = publish\<rparr>"

lemma replica_ports_simps [simp]:
  "p_check (replica_ports clk publish) = limiter_check clk"
  "p_remaining (replica_ports clk publish) = limiter_remaining clk"
  "p_retry (replica_ports clk publish) = limiter_retry clk"
  "p_seen (replica_ports clk publish) = lru_seen_op"
  "p_remember (replica_ports clk publish) = lru_remember"
  "p_publish (replica_ports clk publish) = publish"
  by (simp_all add: replica_ports_def)

definition replica_start :: "rat \<Rightarrow> rat \<Rightarrow> nat \<Rightarrow> nat \<Rightarrow> 's \<Rightarrow> (limiter, lru_cache, 's) gw_state" where
  "replica_start events_per_second burst_multiplier max_tenants dedup_cache_size sink =
     \<lparr>gw_quota = limiter_create events_per_second burst_multiplier max_tenants,
      gw_dedup = lru_create dedup_cache_size, gw_sink = sink\<rparr>"

definition replica_ok :: "(limiter, lru_cache, 's) gw_state \<Rightarrow> bool" where
  "replica_ok st \<longleftrightarrow> limiter_ok (gw_quota st) \<and> lru_ok (gw_dedup st)"

lemma replica_start_ok: "0 \<le> r \<Longrightarrow> 0 \<le> b \<Longrightarrow> replica_ok (replica_start r b mt cap s)"
  by (simp add: replica_ok_def replica_start_def limiter_ok_def limiter_create_def lru_ok_def
      lru_create_def lru_len_def)

interpretation kafka_gw: gateway_ports "replica_ports clk (kafka_publish start send dumps)"
    limiter_ok lru_recency lru_capacity lru_ok kafka_log
  for clk and start :: "'b \<Rightarrow> bool \<times> 'b" and send dumps
  unfolding gateway_ports_def replica_ports_simps
  by (intro conjI lim.quota_limiter_axioms lru.dedup_cache_axioms kafka.event_sink_axioms)

interpretation memory_gw: gateway_ports "replica_ports clk memory_publish"
    limiter_ok lru_recency lru_capacity lru_ok ms_published
  for clk
  unfolding gateway_ports_def replica_ports_simps
  by (intro conjI lim.quota_limiter_axioms lru.dedup_cache_axioms mem.event_sink_axioms)

lemma kafka_state_ok [simp]: "kafka_gw.state_ok st = replica_ok st"
  by (simp add: kafka_gw.state_ok_def replica_ok_def)

lemma memory_state_ok [simp]: "memory_gw.state_ok st = replica_ok st"
  by (simp add: memory_gw.state_ok_def replica_ok_def)

section \<open>A small batch for the witnesses\<close>

definition sample_config :: ingest_config where
  "sample_config = \<lparr>max_batch_bytes = 100, max_batch_events = 3, ic_shedding = default_shedding,
     reject_batch_on_invalid = False\<rparr>"

definition sample_principal :: agent_principal where
  "sample_principal = \<lparr>ap_agent_id = ''a1'', ap_organization_id = ''org'', ap_environment_id = ''e1''\<rparr>"

definition sample_event :: "str \<Rightarrow> json" where
  "sample_event eid = JObj
     [(''event_id'', JStr eid), (''type'', JStr ''EVENT_TYPE_ATTACK''),
      (''occurred_at_ms'', JInt 1), (''attack'', JObj [])]"

text \<open>A line starting with an asterisk decodes to an event whose id is the rest; others are malformed.\<close>

definition sample_loads :: "str \<Rightarrow> loaded" where
  "sample_loads s = (case s of c # cs \<Rightarrow>
     if c = CHR ''*'' then Loaded (sample_event cs) else JSONDecodeError [] | [] \<Rightarrow> JSONDecodeError [])"

definition sample_start :: "'s \<Rightarrow> (limiter, lru_cache, 's) gw_state" where
  "sample_start s = replica_start 10 2 5 4 s"

lemma sample_start_ok [simp]: "replica_ok (sample_start s)"
  by (simp add: sample_start_def replica_start_ok)

definition sample_body :: str where
  "sample_body = ''*x'' @ [CHR 0x0A] @ ''?'' @ [CHR 0x0A, CHR 0x0A] @ ''*x''"

definition sample_kafka :: "unit kafka_sink" where
  "sample_kafka = \<lparr>k_started = False, k_broker = (), k_sent = []\<rparr>"

abbreviation sample_ports :: "(limiter, lru_cache, unit kafka_sink) ports" where
  "sample_ports \<equiv> replica_ports (\<lambda>n. of_nat n)
     (kafka_publish (\<lambda>b. (True, b)) (\<lambda>b k v. (True, b)) (\<lambda>j. []))"

lemma sample_run:
  "\<exists>r st'. ingest_execute sample_ports sample_loads sample_config sample_principal sample_body
             (sample_start sample_kafka) = (Inr r, st') \<and> accepted r = 1 \<and> duplicates r = 1 \<and> rejected r = 1"
proof -
  let ?x = "ingest_execute sample_ports sample_loads sample_config sample_principal sample_body
      (sample_start sample_kafka)"
  have "case fst ?x of Inl _ \<Rightarrow> False | Inr r \<Rightarrow> accepted r = 1 \<and> duplicates r = 1 \<and> rejected r = 1"
    by code_simp
  then show ?thesis by (cases ?x) (auto split: sum.splits)
qed

section \<open>Guarantees of the replica\<close>

text \<open>
  Accounting of a successful batch on the Kafka sink, for any clock, broker and JSON decoder:
  every non-blank line examined (one beyond the limit included) is counted exactly once among
  accepted, duplicate, shed and rejected; what was appended to the topic is exactly the accepted
  events, stamped with the verified organization, in batch order and drawn from the well-formed
  lines; the rejection list holds at most 21 entries; and the credit handed back is between 1 and
  the batch limit.
\<close>

theorem batch_accounting:
  assumes "replica_ok st"
    and "ingest_execute (replica_ports clk (kafka_publish start send dumps)) loads cfg prin body st
           = (Inr r, st')"
  shows "processed r = min (Suc (max_batch_events cfg)) (length (batch_lines body)) \<and>
         length (rejections r) \<le> 21 \<and> 1 \<le> credit r \<and> credit r \<le> max 1 (int (max_batch_events cfg)) \<and>
         (\<exists>new. kafka_log (gw_sink st') = kafka_log (gw_sink st) @ map (Pair (ap_organization_id prin)) new \<and>
                length new = accepted r \<and> subseq new (batch_events loads cfg body))"
  using kafka_gw.execute_accounts [OF _ assms(2)] assms(1) by auto

theorem batch_accounting_witness:
  "\<exists>r st'. ingest_execute sample_ports sample_loads sample_config sample_principal sample_body
             (sample_start sample_kafka) = (Inr r, st') \<and>
           processed r = min 4 (length (batch_lines sample_body)) \<and> length (rejections r) \<le> 21"
proof -
  obtain r st' where run: "ingest_execute sample_ports sample_loads sample_config sample_principal
      sample_body (sample_start sample_kafka) = (Inr r, st')"
    using sample_run by blast
  show ?thesis
    using batch_accounting [OF _ run] run by (auto simp: sample_config_def)
qed

text \<open>
  C16. Security signal is never shed: when a batch is accepted, every well-formed security event
  among the lines within the limit is on the topic under the tenant's organization (or an event
  with its id is, from the same batch), unless the cache already knew its id. Load shedding and
  an exhausted quota never drop it.
\<close>

theorem security_never_shed:
  assumes "replica_ok st"
    and "ingest_execute (replica_ports clk (kafka_publish start send dumps)) loads cfg prin body st
           = (Inr r, st')"
    and "e \<in> set (batch_events loads cfg body)" "is_security_signal (ev_type e)"
    and "event_id e \<notin> set (lru_recency (gw_dedup st))"
  shows "\<exists>e'. event_id e' = event_id e \<and>
           (ap_organization_id prin, e') \<in> set (drop (length (kafka_log (gw_sink st))) (kafka_log (gw_sink st')))"
proof -
  obtain new where "kafka_log (gw_sink st') = kafka_log (gw_sink st) @ map (Pair (ap_organization_id prin)) new"
    "event_id e \<in> set (lru_recency (gw_dedup st)) \<union> ids new"
    using kafka_gw.execute_accounts [OF _ assms(2)] assms(1,3,4) by auto
  with assms(5) show ?thesis by (auto simp: ids_def)
qed

theorem security_never_shed_witness:
  "\<exists>r st' e'. ingest_execute sample_ports sample_loads sample_config sample_principal sample_body
             (sample_start sample_kafka) = (Inr r, st') \<and>
           event_id e' = ''x'' \<and> (''org'', e') \<in> set (kafka_log (gw_sink st'))"
proof -
  obtain r st' where run: "ingest_execute sample_ports sample_loads sample_config sample_principal
      sample_body (sample_start sample_kafka) = (Inr r, st')"
    using sample_run by blast
  have "list_ex (\<lambda>e. is_security_signal (ev_type e) \<and> event_id e = ''x'')
      (batch_events sample_loads sample_config sample_body)" by code_simp
  then obtain e where e: "e \<in> set (batch_events sample_loads sample_config sample_body)"
    "is_security_signal (ev_type e)" "event_id e = ''x''" by (auto simp: list_ex_iff)
  have new: "''x'' \<notin> set (lru_recency (gw_dedup (sample_start sample_kafka)))"
    and "kafka_log (gw_sink (sample_start sample_kafka)) = []"
    and "ap_organization_id sample_principal = ''org''" by code_simp+
  then show ?thesis
    using security_never_shed [OF sample_start_ok run e(1,2)] run e(3) by auto
qed

text \<open>
  C17. At most once, per deduplication window: whatever sequence of requests a replica receives
  (retries after any error, replayed buffers, several agents, a broker that fails half way), no
  event id is appended to the topic twice as long as the distinct ids of the sequence fit the
  deduplication cache.
\<close>

theorem at_most_once:
  assumes "replica_ok st"
    and "card (\<Union>b \<in> set bs. batch_ids loads (snd b)) \<le> lru_capacity (gw_dedup st)"
  shows "\<exists>new. kafka_log (gw_sink (ingest_batches (replica_ports clk (kafka_publish start send dumps))
                  loads cfg bs st)) = kafka_log (gw_sink st) @ new \<and>
               distinct (map (event_id \<circ> snd) new)"
  by (rule kafka_gw.batches_at_most_once [where U = "\<Union>b \<in> set bs. batch_ids loads (snd b)"])
    (use assms in auto)

theorem at_most_once_witness:
  "\<exists>new. kafka_log (gw_sink (ingest_batches sample_ports sample_loads sample_config
      [(sample_principal, sample_body), (sample_principal, sample_body)] (sample_start sample_kafka)))
        = kafka_log (gw_sink (sample_start sample_kafka)) @ new \<and>
    distinct (map (event_id \<circ> snd) new)"
proof -
  let ?bs = "[(sample_principal, sample_body), (sample_principal, sample_body)]"
  have "batch_ids sample_loads sample_body = {''x''}" by code_simp
  then have "card (\<Union>b \<in> set ?bs. batch_ids sample_loads (snd b)) \<le>
      lru_capacity (gw_dedup (sample_start sample_kafka))"
    by (simp add: sample_start_def replica_start_def lru_create_def)
  then show ?thesis
    using at_most_once [where st = "sample_start sample_kafka" and bs = ?bs and loads = sample_loads]
    by simp
qed

text \<open>
  The price of remembering before publishing: when the sink is unavailable for a batch, the
  events the batch admitted are already in the deduplication cache, so no later request whose ids
  still fit the cache (the retry the 503 asks for, first of all) ever publishes them.
\<close>

theorem refused_batch_is_never_published:
  assumes "replica_ok st" "ms_fail_next (gw_sink st)" "length body \<le> max_batch_bytes cfg"
    and "run_loop (replica_ports clk memory_publish) loads cfg prin body st = (None, lp)"
    and "e \<in> set (lp_publishable lp)" "\<not> reject_batch_on_invalid cfg"
    and "card (batch_ids loads body) \<le> lru_capacity (gw_dedup st)"
  shows "\<exists>st1. ingest_execute (replica_ports clk memory_publish) loads cfg prin body st
                 = (Inl (Gateway SinkUnavailableError), st1) \<and>
           (\<forall>n. \<exists>new. ms_published (gw_sink (ingest_batches (replica_ports clk memory_publish) loads cfg
                   (replicate n (prin, body)) st1)) = ms_published (gw_sink st) @ new \<and>
                 event_id e \<notin> event_id ` snd ` set new)"
proof -
  obtain res st1 where ex: "ingest_execute (replica_ports clk memory_publish) loads cfg prin body st = (res, st1)"
    by fastforce
  have "lp_publishable lp \<noteq> []" using assms(5) by auto
  then have "res = Inl (Gateway SinkUnavailableError) \<and> ms_published (gw_sink st1) = ms_published (gw_sink st)"
    using ex assms(2-4,6) by (auto simp: ingest_execute_def memory_publish_def Let_def)
  moreover have "\<exists>new. ms_published (gw_sink (ingest_batches (replica_ports clk memory_publish) loads cfg
      (replicate n (prin, body)) st1)) = ms_published (gw_sink st1) @ new \<and>
      (\<forall>e \<in> set (lp_publishable lp). event_id e \<notin> event_id ` snd ` set new)" for n
    using memory_gw.retry_loses_admitted [OF _ finite_batch_ids _ subset_refl assms(4,3),
        of "replicate n (prin, body)"] assms(1,7) ex
    by simp
  ultimately show ?thesis using ex assms(5) by metis
qed

theorem refused_batch_is_never_published_witness:
  "\<exists>st1. ingest_execute (replica_ports (\<lambda>n. of_nat n) memory_publish) sample_loads sample_config
           sample_principal sample_body (sample_start \<lparr>ms_published = [], ms_fail_next = True\<rparr>)
           = (Inl (Gateway SinkUnavailableError), st1) \<and>
     (\<forall>n. \<exists>new. ms_published (gw_sink (ingest_batches (replica_ports (\<lambda>n. of_nat n) memory_publish)
         sample_loads sample_config (replicate n (sample_principal, sample_body)) st1)) = new \<and>
         ''x'' \<notin> event_id ` snd ` set new)"
proof -
  let ?P = "replica_ports (\<lambda>n. of_nat n) memory_publish"
  let ?st = "sample_start \<lparr>ms_published = [], ms_fail_next = True\<rparr>"
  let ?run = "run_loop ?P sample_loads sample_config sample_principal sample_body ?st"
  have "fst ?run = None \<and> map event_id (lp_publishable (snd ?run)) = [''x'']" by code_simp
  then obtain lp e where run: "?run = (None, lp)" "e \<in> set (lp_publishable lp)" "event_id e = ''x''"
    by (cases ?run) (auto simp: map_eq_Cons_conv)
  have hyps: "ms_fail_next (gw_sink ?st)" "length sample_body \<le> max_batch_bytes sample_config"
    "\<not> reject_batch_on_invalid sample_config"
    "card (batch_ids sample_loads sample_body) \<le> lru_capacity (gw_dedup ?st)"
    and "ms_published (gw_sink ?st) = []" by code_simp+
  then show ?thesis
    using refused_batch_is_never_published [OF sample_start_ok hyps(1,2) run(1,2) hyps(3,4)] run(3)
    by simp
qed

end
