(* ===== verification/GatewayHttp.thy ===== *)
theory GatewayHttp
  imports GatewayReplica
begin

text \<open>
  The edge of the gateway: verifying an agent's credential (\<open>infrastructure/auth.py\<close>), the secrets
  check of the settings (\<open>config.py\<close>), and the ingest endpoint with its problem documents
  (\<open>interfaces/http\<close>). \<open>jwt.decode\<close> is a parameter: the claims it accepts, None when it raises
  \<open>InvalidTokenError\<close>. Python's \<open>repr\<close> of a string and \<open>str\<close> of a container are parameters too.
\<close>

section \<open>Credentials\<close>

definition AGENT_AUDIENCE :: str where "AGENT_AUDIENCE = ''aegis:agent''"

type_synonym jwt_decoder = "str \<Rightarrow> str \<Rightarrow> str \<Rightarrow> str \<Rightarrow> str \<Rightarrow> int \<Rightarrow> obj option"

record authenticator =
  au_algorithm :: str
  au_issuer :: str
  au_key :: str
  au_leeway :: int

definition authenticator_create :: "str \<Rightarrow> str \<Rightarrow> str \<Rightarrow> str option \<Rightarrow> authenticator" where
  "authenticator_create secret algorithm issuer public_key =
     \<lparr>au_algorithm = algorithm, au_issuer = issuer,
      au_key = (case public_key of
                  Some k \<Rightarrow> if k \<noteq> [] \<and> \<not> startswith algorithm ''HS'' then k else secret
                | None \<Rightarrow> secret),
      au_leeway = 30\<rparr>"

text \<open>\<open>_strip_scheme\<close>; None is \<open>AgentAuthenticationError\<close>. The error of \<open>authenticate\<close> is its own message.\<close>

definition strip_scheme :: "str \<Rightarrow> str option" where
  "strip_scheme credential =
     (let v = strip credential in
      if v = [] then None
      else if startswith (lower v) ''bearer '' then Some (strip (drop 7 v))
      else Some v)"

definition authenticate ::
    "jwt_decoder \<Rightarrow> (json \<Rightarrow> str) \<Rightarrow> authenticator \<Rightarrow> str \<Rightarrow> str option + agent_principal" where
  "authenticate decode rp a credential =
     (case strip_scheme credential of
        None \<Rightarrow> Inl None
      | Some token \<Rightarrow>
          (case decode token (au_key a) (au_algorithm a) AGENT_AUDIENCE (au_issuer a) (au_leeway a) of
             None \<Rightarrow> Inl None
           | Some claims \<Rightarrow>
               if jget claims ''purpose'' \<noteq> JStr ''agent''
               then Inl (Some ''This token is not an agent credential.'')
               else
                 (let agent_id = py_str rp (jget_or claims ''sub'' (JStr []));
                      organization_id = py_str rp (jget_or claims ''org'' (JStr []))
                  in if agent_id = [] \<or> organization_id = [] then Inl None
                     else Inr \<lparr>ap_agent_id = agent_id, ap_organization_id = organization_id,
                               ap_environment_id = py_str rp (jget_or claims ''env'' (JStr []))\<rparr>)))"

definition header_principal ::
    "jwt_decoder \<Rightarrow> (json \<Rightarrow> str) \<Rightarrow> authenticator \<Rightarrow> str option \<Rightarrow> str option + agent_principal" where
  "header_principal decode rp a authorization =
     (case authorization of
        None \<Rightarrow> Inl None
      | Some h \<Rightarrow> if h = [] then Inl None else authenticate decode rp a h)"

section \<open>Settings\<close>

datatype environment = LOCAL | TEST | DEVELOPMENT | STAGING | PRODUCTION

fun is_production_like :: "environment \<Rightarrow> bool" where
  "is_production_like STAGING = True"
| "is_production_like PRODUCTION = True"
| "is_production_like _ = False"

definition INSECURE_DEFAULTS :: "str list" where
  "INSECURE_DEFAULTS =
     ['''', ''change-me'', ''changeme'', ''secret'',
      ''change-me-a-64-byte-random-value-for-local-development-only'']"

record gateway_settings =
  gs_environment :: environment
  gs_jwt_secret :: str
  gs_jwt_algorithm :: str
  gs_jwt_public_key :: "str option"
  gs_event_sink :: str

datatype settings_error = Secret_not_set | Secret_too_short | No_public_key | Memory_sink_forbidden

text \<open>\<open>_validate_secrets\<close>; \<open>fresh\<close> is the value of \<open>secrets.token_urlsafe(64)\<close>.\<close>

definition validate_secrets :: "str \<Rightarrow> gateway_settings \<Rightarrow> settings_error + gateway_settings" where
  "validate_secrets fresh s =
     (let weak = lower (strip (gs_jwt_secret s)) \<in> set INSECURE_DEFAULTS in
      if is_production_like (gs_environment s) then
        res_bind
          (if startswith (gs_jwt_algorithm s) ''HS'' then
             res_bind (raise_if weak Secret_not_set) (\<lambda>_.
               raise_if (length (gs_jwt_secret s) < 32) Secret_too_short)
           else raise_if (gs_jwt_public_key s = None \<or> gs_jwt_public_key s = Some []) No_public_key)
          (\<lambda>_. res_bind (raise_if (startswith (gs_event_sink s) ''memory://'') Memory_sink_forbidden)
          (\<lambda>_. Inr s))
      else if weak then Inr (s\<lparr>gs_jwt_secret := fresh\<rparr>)
      else Inr s)"

section \<open>Problem documents\<close>

definition py_bool_str :: "bool \<Rightarrow> str" where
  "py_bool_str b = (if b then ''True'' else ''False'')"

fun reason_text :: "(str \<Rightarrow> str) \<Rightarrow> reason \<Rightarrow> str" where
  "reason_text rep Not_an_object = ''event must be a JSON object''"
| "reason_text rep (Missing k) = ''missing '' @ rep k"
| "reason_text rep (Not_a_string k) = rep k @ '' must be a string''"
| "reason_text rep (Too_long k n) = rep k @ '' exceeds '' @ int_str (int n) @ '' characters''"
| "reason_text rep (Not_an_integer k) = rep k @ '' must be an integer''"
| "reason_text rep Blank_event_id = [CHR 0x27] @ ''event_id'' @ [CHR 0x27] @ '' must not be blank''"
| "reason_text rep (Unknown_type t) = ''unknown event type '' @ rep t"
| "reason_text rep Time_not_positive = [CHR 0x27] @ ''occurred_at_ms'' @ [CHR 0x27] @ '' must be positive''"
| "reason_text rep Replayed_not_boolean = [CHR 0x27] @ ''replayed'' @ [CHR 0x27] @ '' must be a boolean''"
| "reason_text rep (Missing_payload t) =
     ''missing '' @ rep (payload_key t) @ '' payload for '' @ type_value t"
| "reason_text rep (Payload_not_object t) = rep (payload_key t) @ '' must be an object''"
| "reason_text rep Ranges_not_list = [CHR 0x27] @ ''ranges'' @ [CHR 0x27] @ '' must be a list''"
| "reason_text rep Too_many_ranges = [CHR 0x27] @ ''ranges'' @ [CHR 0x27] @ '' exceeds 64 entries''"
| "reason_text rep Range_not_object = ''each range must be an object''"
| "reason_text rep Bad_range_start = ''range '' @ [CHR 0x27] @ ''start'' @ [CHR 0x27] @ '' must be a non-negative integer''"
| "reason_text rep Bad_range_length = ''range '' @ [CHR 0x27] @ ''length'' @ [CHR 0x27] @ '' must be a positive integer''"
| "reason_text rep Stack_not_list = [CHR 0x27] @ ''stack'' @ [CHR 0x27] @ '' must be a list''"
| "reason_text rep Too_many_frames = [CHR 0x27] @ ''stack'' @ [CHR 0x27] @ '' exceeds 64 frames''"
| "reason_text rep (Malformed_JSON msg) = ''malformed JSON: '' @ msg"
| "reason_text rep Batch_event_limit = ''batch event limit exceeded''"

fun error_code :: "gateway_error \<Rightarrow> str" where
  "error_code (AgentAuthenticationError m) = ''invalid_agent_credential''"
| "error_code AgentDisabledError = ''agent_disabled''"
| "error_code (InvalidEventError why line) = ''invalid_event''"
| "error_code (BatchTooLargeError n) = ''batch_too_large''"
| "error_code (QuotaExceededError n) = ''quota_exceeded''"
| "error_code SinkUnavailableError = ''sink_unavailable''"

fun error_message :: "(str \<Rightarrow> str) \<Rightarrow> gateway_error \<Rightarrow> str" where
  "error_message rep (AgentAuthenticationError m) =
     (case m of None \<Rightarrow> ''A valid agent credential is required.''
      | Some t \<Rightarrow> if t \<noteq> [] then t else ''A valid agent credential is required.'')"
| "error_message rep AgentDisabledError = ''This agent has been disabled.''"
| "error_message rep (InvalidEventError why line) =
     ''line '' @ int_str (int line) @ '': '' @ reason_text rep why"
| "error_message rep (BatchTooLargeError n) = ''Batches may be at most '' @ int_str (int n) @ '' bytes.''"
| "error_message rep (QuotaExceededError n) = ''Ingest quota exceeded.''"
| "error_message rep SinkUnavailableError = ''The event stream is temporarily unavailable.''"

fun status_for :: "gateway_error \<Rightarrow> int" where
  "status_for (AgentAuthenticationError m) = 401"
| "status_for AgentDisabledError = 403"
| "status_for (InvalidEventError why line) = 422"
| "status_for (BatchTooLargeError n) = 413"
| "status_for (QuotaExceededError n) = 429"
| "status_for SinkUnavailableError = 503"

definition DOC_BASE :: str where "DOC_BASE = ''https://docs.aegis.dev/errors''"

definition gateway_error_handler ::
    "(str \<Rightarrow> str) \<Rightarrow> str \<Rightarrow> str \<Rightarrow> gateway_error \<Rightarrow> http_response" where
  "gateway_error_handler rep path request_id e =
     \<lparr>http_status = status_for e,
      http_headers =
        (case e of
           QuotaExceededError n \<Rightarrow> [(''Retry-After'', int_str n)]
         | SinkUnavailableError \<Rightarrow> [(''Retry-After'', ''5'')]
         | AgentAuthenticationError m \<Rightarrow>
             [(''WWW-Authenticate'', ''Bearer realm='' @ [CHR 0x22] @ ''aegis-ingest'' @ [CHR 0x22])]
         | _ \<Rightarrow> []),
      http_body = JObj
        [(''type'', JStr (DOC_BASE @ ''/'' @ replace_char (CHR ''_'') ''-'' (error_code e))),
         (''title'', JStr (capitalize (replace_char (CHR ''_'') '' '' (error_code e)))),
         (''status'', JInt (status_for e)),
         (''detail'', JStr (error_message rep e)),
         (''instance'', JStr path),
         (''code'', JStr (error_code e)),
         (''request_id'', JStr request_id)]\<rparr>"

definition unhandled_error_handler :: "str \<Rightarrow> str \<Rightarrow> http_response" where
  "unhandled_error_handler path request_id =
     \<lparr>http_status = 500, http_headers = [],
      http_body = JObj
        [(''type'', JStr (DOC_BASE @ ''/internal-error'')),
         (''title'', JStr ''Internal server error''),
         (''status'', JInt 500),
         (''detail'', JStr ''An unexpected error occurred.''),
         (''instance'', JStr path),
         (''code'', JStr ''internal_error''),
         (''request_id'', JStr request_id)]\<rparr>"

section \<open>The endpoint\<close>

definition rejection_dict :: "(str \<Rightarrow> str) \<Rightarrow> rejection \<Rightarrow> json" where
  "rejection_dict rep r = JObj [(''line'', JInt (int (rej_line r))), (''reason'', JStr (reason_text rep (rej_reason r)))]"

definition accepted_response :: "(str \<Rightarrow> str) \<Rightarrow> ingest_result \<Rightarrow> http_response" where
  "accepted_response rep r =
     \<lparr>http_status = 200, http_headers = [(''X-Aegis-Credit'', int_str (credit r))],
      http_body = JObj
        [(''accepted'', JInt (int (accepted r))),
         (''duplicates'', JInt (int (duplicates r))),
         (''shed'', JInt (int (shed r))),
         (''rejected'', JInt (int (rejected r))),
         (''rejections'', JList (map (rejection_dict rep) (rejections r))),
         (''ack_cursor'', JStr (ack_cursor r)),
         (''credit'', JInt (credit r))]\<rparr>"

definition ingest_events ::
    "jwt_decoder \<Rightarrow> (json \<Rightarrow> str) \<Rightarrow> (str \<Rightarrow> str) \<Rightarrow> authenticator \<Rightarrow> ('q, 'd, 's) ports \<Rightarrow> (str \<Rightarrow> loaded)
       \<Rightarrow> ingest_config \<Rightarrow> str \<Rightarrow> str \<Rightarrow> str option \<Rightarrow> str \<Rightarrow> ('q, 'd, 's) gw_state
       \<Rightarrow> http_response \<times> ('q, 'd, 's) gw_state" where
  "ingest_events decode rp rep a P loads cfg path request_id authorization body st =
     (case header_principal decode rp a authorization of
        Inl m \<Rightarrow> (gateway_error_handler rep path request_id (AgentAuthenticationError m), st)
      | Inr prin \<Rightarrow>
          (case ingest_execute P loads cfg prin body st of
             (Inr r, st') \<Rightarrow> (accepted_response rep r, st')
           | (Inl (Gateway e), st') \<Rightarrow> (gateway_error_handler rep path request_id e, st')
           | (Inl Unhandled, st') \<Rightarrow> (unhandled_error_handler path request_id, st')))"

section \<open>What the edge guarantees\<close>

text \<open>The claims a principal stands for.\<close>

definition verified_org ::
    "jwt_decoder \<Rightarrow> (json \<Rightarrow> str) \<Rightarrow> authenticator \<Rightarrow> str option \<Rightarrow> str \<Rightarrow> bool" where
  "verified_org decode rp a authorization org \<longleftrightarrow>
     (\<exists>h token claims. authorization = Some h \<and> strip_scheme h = Some token \<and>
        decode token (au_key a) (au_algorithm a) AGENT_AUDIENCE (au_issuer a) (au_leeway a) = Some claims \<and>
        jget claims ''purpose'' = JStr ''agent'' \<and>
        org = py_str rp (jget_or claims ''org'' (JStr [])) \<and> org \<noteq> [])"

lemma header_principal_verified:
  "header_principal decode rp a authorization = Inr prin \<Longrightarrow>
   verified_org decode rp a authorization (ap_organization_id prin)"
  by (auto simp: header_principal_def authenticate_def verified_org_def Let_def
      split: option.splits if_splits)



text \<open>
  The retry contract of the ingest endpoint: an answer asks for a retry (429 or 503) exactly
  when it has a \<open>Retry-After\<close> header, whose value is a non-negative decimal number; it has a credit
  exactly when it is 200; it is 401 only if nothing changed; and no other status is ever used.
\<close>

theorem retry_contract:
  assumes "replica_ok st"
    and "ingest_events decode rp rep a (replica_ports clk (kafka_publish start send dumps)) loads cfg
           path request_id authorization body st = (resp, st')"
  shows "http_status resp \<in> {200, 401, 413, 422, 429, 500, 503} \<and>
         (http_status resp \<in> {429, 503} \<longleftrightarrow> dget (http_headers resp) ''Retry-After'' \<noteq> None) \<and>
         (\<forall>v. dget (http_headers resp) ''Retry-After'' = Some v \<longrightarrow> (\<exists>n \<ge> 0. py_int v = Some n)) \<and>
         (http_status resp = 200 \<longleftrightarrow> dget (http_headers resp) ''X-Aegis-Credit'' \<noteq> None) \<and>
         (http_status resp = 401 \<longrightarrow> st' = st)"
proof (cases "header_principal decode rp a authorization")
  case (Inl m)
  with assms(2) show ?thesis
    by (auto simp: ingest_events_def gateway_error_handler_def dget_def)
next
  case (Inr prin)
  obtain res st1 where ex: "ingest_execute (replica_ports clk (kafka_publish start send dumps)) loads cfg
      prin body st = (res, st1)" by fastforce
  have five: "py_int ''5'' = Some 5" by code_simp
  show ?thesis
  proof (cases res)
    case (Inr r)
    with ex assms(2) \<open>header_principal _ _ _ _ = _\<close> show ?thesis
      by (auto simp: ingest_events_def accepted_response_def dget_def)
  next
    case (Inl x)
    have "kafka_gw.state_ok st" using assms(1) by simp
    from kafka_gw.execute_errors [OF this ex [unfolded Inl]]
    have "x = Unhandled \<or> (\<exists>e. x = Gateway e \<and> (\<forall>n. e = QuotaExceededError n \<longrightarrow> 0 \<le> n) \<and>
        e \<noteq> AgentDisabledError \<and> (\<forall>m. e \<noteq> AgentAuthenticationError m))" .
    then show ?thesis
    proof (elim disjE exE conjE)
      assume "x = Unhandled"
      with ex Inl assms(2) \<open>header_principal _ _ _ _ = _\<close> show ?thesis
        by (auto simp: ingest_events_def unhandled_error_handler_def dget_def)
    next
      fix e assume e: "x = Gateway e" "\<forall>n. e = QuotaExceededError n \<longrightarrow> 0 \<le> n"
        "e \<noteq> AgentDisabledError" "\<forall>m. e \<noteq> AgentAuthenticationError m"
      with ex Inl assms(2) \<open>header_principal _ _ _ _ = _\<close>
      have "resp = gateway_error_handler rep path request_id e" by (auto simp: ingest_events_def)
      with e five show ?thesis by (cases e) (auto simp: gateway_error_handler_def dget_def)
    qed
  qed
qed

theorem retry_contract_witness:
  "\<exists>resp st'. ingest_events (\<lambda>t k al au i l. None) (\<lambda>j. []) id (authenticator_create ''k'' ''HS256'' ''i'' None)
       sample_ports sample_loads sample_config ''/'' ''r'' None sample_body
       (sample_start sample_kafka) = (resp, st') \<and>
     http_status resp \<in> {200, 401, 413, 422, 429, 500, 503} \<and> dget (http_headers resp) ''Retry-After'' = None"
proof -
  obtain resp st' where run: "ingest_events (\<lambda>t k al au i l. None) (\<lambda>j. []) id
      (authenticator_create ''k'' ''HS256'' ''i'' None) sample_ports sample_loads sample_config ''/'' ''r''
      None sample_body (sample_start sample_kafka) = (resp, st')"
    by fastforce
  then have "http_status resp = 401"
    by (auto simp: ingest_events_def header_principal_def gateway_error_handler_def)
  then show ?thesis using retry_contract [OF sample_start_ok run] run by auto
qed

text \<open>
  Strong keys: in a production-like environment the settings are accepted exactly when the
  event sink is not the volatile one and the key is strong, and then the key the authenticator
  verifies tokens with is the configured secret of at least 32 characters that is not a known
  default (for HS algorithms) or the configured public key, never an empty or fallback secret.
\<close>

theorem production_key_is_strong:
  assumes "is_production_like (gs_environment s)"
  shows "validate_secrets fresh s \<in> {Inl Secret_not_set, Inl Secret_too_short, Inl No_public_key,
           Inl Memory_sink_forbidden, Inr s} \<and>
         (validate_secrets fresh s = Inr s \<longrightarrow>
            \<not> startswith (gs_event_sink s) ''memory://'' \<and>
            (let key = au_key (authenticator_create (gs_jwt_secret s) (gs_jwt_algorithm s) issuer
                                 (gs_jwt_public_key s))
             in if startswith (gs_jwt_algorithm s) ''HS''
                then key = gs_jwt_secret s \<and> 32 \<le> length key \<and>
                     lower (strip key) \<notin> set INSECURE_DEFAULTS
                else gs_jwt_public_key s = Some key \<and> key \<noteq> []))"
  using assms
  by (auto simp: validate_secrets_def authenticator_create_def Let_def raise_if_def res_bind_def
      split: option.splits if_splits)

definition sample_settings :: gateway_settings where
  "sample_settings = \<lparr>gs_environment = PRODUCTION, gs_jwt_secret = replicate 40 (CHR ''k''),
     gs_jwt_algorithm = ''HS256'', gs_jwt_public_key = None, gs_event_sink = ''kafka://b/t''\<rparr>"

theorem production_key_is_strong_witness:
  "32 \<le> length (au_key (authenticator_create (gs_jwt_secret sample_settings)
     (gs_jwt_algorithm sample_settings) ''i'' (gs_jwt_public_key sample_settings)))"
proof -
  have facts: "is_production_like (gs_environment sample_settings)"
    "validate_secrets [] sample_settings = Inr sample_settings"
    "startswith (gs_jwt_algorithm sample_settings) ''HS''" by code_simp+
  then show ?thesis
    using production_key_is_strong [OF facts(1), of "[]" "''i''"] by (auto simp: Let_def)
qed

end
