(* ===== verification/WorkerSource.thy ===== *)
theory WorkerSource
  imports PyStr
begin

text \<open>
  Where the worker's records come from (\<open>apps/worker/src/aegis_worker/cursor.py\<close> and
  \<open>consumer.py\<close>): the file cursor, the source that tails an NDJSON file, and the Kafka source.
  Files are their bytes; decoding UTF-8 strictly (\<open>read_text\<close>) and with replacement characters
  are parameters.
\<close>

section \<open>The cursor file\<close>

text \<open>The directory holding the cursor: the cursor file and the temporary file beside it.\<close>

record cursor_dir =
  cd_main :: "str option"
  cd_tmp :: "str option"

text \<open>
  \<open>FileCursor.read\<close>. None is the \<open>UnicodeDecodeError\<close> of \<open>read_text\<close>, which no handler catches.
\<close>

definition cursor_read :: "(str \<Rightarrow> str option) \<Rightarrow> str option \<Rightarrow> nat option" where
  "cursor_read utf8 content =
     (case content of
        None \<Rightarrow> Some 0
      | Some bytes \<Rightarrow>
          (case utf8 bytes of
             None \<Rightarrow> None
           | Some text \<Rightarrow>
               (let raw = strip text in
                if raw = [] then Some 0
                else (case py_int raw of None \<Rightarrow> Some 0 | Some offset \<Rightarrow> Some (nat (max offset 0))))))"

text \<open>
  \<open>FileCursor.advance\<close>, as the file system performs it: bytes reach the temporary file, then one
  atomic rename. A crash may fall between any two of these steps.
\<close>

datatype fs_step = Write_tmp str | Replace

fun fs_apply :: "fs_step \<Rightarrow> cursor_dir \<Rightarrow> cursor_dir" where
  "fs_apply (Write_tmp bytes) d = d\<lparr>cd_tmp := Some bytes\<rparr>"
| "fs_apply Replace d =
     (case cd_tmp d of None \<Rightarrow> d | Some bytes \<Rightarrow> d\<lparr>cd_main := Some bytes, cd_tmp := None\<rparr>)"

definition advance_steps :: "nat \<Rightarrow> fs_step list" where
  "advance_steps offset =
     map (\<lambda>k. Write_tmp (take k (int_str (int offset)))) [0 ..< Suc (length (int_str (int offset)))]
     @ [Replace]"

definition cursor_advance :: "nat \<Rightarrow> cursor_dir \<Rightarrow> cursor_dir" where
  "cursor_advance offset d = fold fs_apply (advance_steps offset) d"

lemma fold_writes:
  "fold fs_apply (map (\<lambda>k. Write_tmp (f k)) ks) d =
     (if ks = [] then d else d\<lparr>cd_tmp := Some (f (last ks))\<rparr>)"
  by (induction ks arbitrary: d) auto

lemma cursor_advance_main [simp]:
  "cursor_advance offset d = d\<lparr>cd_main := Some (int_str (int offset)), cd_tmp := None\<rparr>"
  by (simp add: cursor_advance_def advance_steps_def fold_writes del: upt_Suc)

lemma int_str_strip [simp]: "strip (int_str (int n)) = int_str (int n)" "int_str (int n) \<noteq> []"
proof -
  show "strip (int_str (int n)) = int_str (int n)"
    using nat_digits_spec [of n] by (intro strip_no_space) (auto simp: int_str_def)
  show "int_str (int n) \<noteq> []" using nat_digits_spec [of n] by (auto simp: int_str_def)
qed

lemma cursor_read_int_str [simp]:
  "utf8 (int_str (int n)) = Some (int_str (int n)) \<Longrightarrow>
   cursor_read utf8 (Some (int_str (int n))) = Some n"
  by (simp add: cursor_read_def Let_def)

text \<open>
  Advancing the cursor is atomic: whatever prefix of its file-system steps a crash lets
  through (the write of the temporary file torn at any byte included), a restarted worker reads
  either the old offset or the new one; when all steps are done it reads the new one.
\<close>

theorem cursor_advance_atomic:
  assumes "utf8 (int_str (int offset)) = Some (int_str (int offset))"
  shows "cursor_read utf8 (cd_main (fold fs_apply (take n (advance_steps offset)) d))
           \<in> {cursor_read utf8 (cd_main d), Some offset} \<and>
         cursor_read utf8 (cd_main (cursor_advance offset d)) = Some offset"
proof -
  let ?ks = "[0 ..< Suc (length (int_str (int offset)))]"
  let ?ws = "map (\<lambda>k. Write_tmp (take k (int_str (int offset)))) ?ks"
  have "fold fs_apply (take n (advance_steps offset)) d = cursor_advance offset d \<or>
        cd_main (fold fs_apply (take n (advance_steps offset)) d) = cd_main d"
  proof (cases "n \<le> length ?ws")
    case True
    then have "take n (advance_steps offset) =
        map (\<lambda>k. Write_tmp (take k (int_str (int offset)))) (take n ?ks)"
      unfolding advance_steps_def by (simp add: take_map del: upt_Suc)
    then have "cd_main (fold fs_apply (take n (advance_steps offset)) d) = cd_main d"
      by (simp add: fold_writes del: upt_Suc)
    then show ?thesis ..
  next
    case False
    then have "take n (advance_steps offset) = advance_steps offset"
      unfolding advance_steps_def by (intro take_all) (simp del: upt_Suc)
    then show ?thesis by (simp only: cursor_advance_def simp_thms)
  qed
  then show ?thesis using assms by auto
qed

theorem cursor_advance_atomic_witness:
  "cursor_read Some (cd_main (fold fs_apply (take 2 (advance_steps 120)) \<lparr>cd_main = Some ''7'', cd_tmp = None\<rparr>))
     \<in> {Some 7, Some 120}"
proof -
  have "cursor_read Some (Some ''7'') = Some 7" by code_simp
  then show ?thesis
    using cursor_advance_atomic [of Some 120 2 "\<lparr>cd_main = Some ''7'', cd_tmp = None\<rparr>"] by simp
qed

section \<open>Tailing a file\<close>

record tail_source =
  ts_committed :: nat
  ts_pending :: "nat option"
  ts_records :: "str list"

definition tail_open :: "nat \<Rightarrow> tail_source" where
  "tail_open offset = \<lparr>ts_committed = offset, ts_pending = None, ts_records = []\<rparr>"

text \<open>\<open>handle.readline()\<close>: up to and including the next line feed, or what is left; and the rest.\<close>

definition readline :: "str \<Rightarrow> str \<times> str" where
  "readline s =
     (let a = takeWhile (\<lambda>c. c \<noteq> CHR 0x0A) s; b = dropWhile (\<lambda>c. c \<noteq> CHR 0x0A) s
      in (a @ take 1 b, drop 1 b))"

definition ends_line :: "str \<Rightarrow> bool" where
  "ends_line s \<longleftrightarrow> s \<noteq> [] \<and> last s = CHR 0x0A"

lemma readline_append: "fst (readline s) @ snd (readline s) = s"
  by (simp add: readline_def Let_def)

text \<open>The loop of \<open>_read_batch\<close>; \<open>rest\<close> are the bytes after the offset.\<close>

function read_loop ::
    "(str \<Rightarrow> str) \<Rightarrow> nat \<Rightarrow> str \<Rightarrow> nat \<Rightarrow> str list \<Rightarrow> str list \<times> nat" where
  "read_loop decode batch_size rest offset records =
     (if length records \<ge> batch_size then (records, offset)
      else
        (let (line, rest') = readline rest in
         if \<not> ends_line line then (records, offset)
         else
           (let stripped = bstrip line
            in read_loop decode batch_size rest' (offset + length line)
                 (if stripped \<noteq> [] then records @ [decode stripped] else records))))"
  by pat_completeness auto

termination
proof (relation "measure (\<lambda>(decode, batch_size, rest, offset, records). length rest)")
  fix rest line rest' :: str and x
  assume "x = readline rest" "(line, rest') = x" "\<not> \<not> ends_line line"
  then show "((decode, batch_size, rest', offset', records'), decode, batch_size, rest, offset, records)
      \<in> measure (\<lambda>(decode, batch_size, rest, offset, records). length rest)"
    for decode batch_size offset offset' records records'
    using arg_cong [OF readline_append [of rest], of length]
    by (cases "readline rest"; cases line) (auto simp: ends_line_def)
qed simp

declare read_loop.simps [simp del]

definition read_batch :: "(str \<Rightarrow> str) \<Rightarrow> str option \<Rightarrow> nat \<Rightarrow> nat \<Rightarrow> str list \<times> nat" where
  "read_batch decode file committed batch_size =
     (case file of
        None \<Rightarrow> ([], committed)
      | Some data \<Rightarrow> read_loop decode batch_size (drop committed data) committed [])"

definition tail_poll ::
    "(str \<Rightarrow> str) \<Rightarrow> str option \<Rightarrow> nat \<Rightarrow> tail_source \<Rightarrow> str list \<times> tail_source" where
  "tail_poll decode file batch_size s =
     (case ts_pending s of
        Some _ \<Rightarrow> (ts_records s, s)
      | None \<Rightarrow>
          (let (records, new_offset) = read_batch decode file (ts_committed s) batch_size
           in (records,
               if records \<noteq> [] then s\<lparr>ts_pending := Some new_offset, ts_records := records\<rparr> else s)))"

definition tail_commit :: "tail_source \<Rightarrow> cursor_dir \<Rightarrow> tail_source \<times> cursor_dir" where
  "tail_commit s d =
     (case ts_pending s of
        None \<Rightarrow> (s, d)
      | Some offset \<Rightarrow>
          (s\<lparr>ts_committed := offset, ts_pending := None, ts_records := []\<rparr>, cursor_advance offset d))"

section \<open>What the file holds\<close>

text \<open>The lines of a file that are complete, that is ended by a line feed, without an order of reads.\<close>

fun terminated_acc :: "str \<Rightarrow> str \<Rightarrow> str list" where
  "terminated_acc w [] = []"
| "terminated_acc w (c # s) =
     (if c = CHR 0x0A then rev (c # w) # terminated_acc [] s else terminated_acc (c # w) s)"

definition records_of :: "(str \<Rightarrow> str) \<Rightarrow> str \<Rightarrow> str list" where
  "records_of decode data =
     map decode (filter (\<lambda>s. s \<noteq> []) (map bstrip (terminated_acc [] data)))"

definition at_line_end :: "str \<Rightarrow> bool" where
  "at_line_end s \<longleftrightarrow> s = [] \<or> last s = CHR 0x0A"

lemma at_line_end_append: "at_line_end s \<Longrightarrow> at_line_end t \<Longrightarrow> at_line_end (s @ t)"
  by (cases "t = []") (auto simp: at_line_end_def)

lemma terminated_append:
  "s \<noteq> [] \<Longrightarrow> last s = CHR 0x0A \<Longrightarrow> terminated_acc w (s @ t) = terminated_acc w s @ terminated_acc [] t"
  by (induction w s rule: terminated_acc.induct) (auto split: if_splits)

lemma records_of_append:
  "at_line_end s \<Longrightarrow> records_of decode (s @ t) = records_of decode s @ records_of decode t"
  by (cases "s = []") (auto simp: records_of_def at_line_end_def terminated_append)

lemma terminated_line: "CHR 0x0A \<notin> set w \<Longrightarrow> terminated_acc v (w @ [CHR 0x0A]) = [rev v @ w @ [CHR 0x0A]]"
  by (induction w arbitrary: v) auto

lemma terminated_partial: "CHR 0x0A \<notin> set w \<Longrightarrow> terminated_acc v w = []"
  by (induction w arbitrary: v) auto

lemma readline_line:
  assumes "readline s = (line, rest)" "ends_line line"
  shows "s = line @ rest" "at_line_end line"
    "records_of decode line = (if bstrip line = [] then [] else [decode (bstrip line)])"
proof -
  show "s = line @ rest" using readline_append [of s] assms(1) by simp
  show "at_line_end line" using assms(2) by (simp add: at_line_end_def ends_line_def)
  define w where "w = takeWhile (\<lambda>c. c \<noteq> CHR 0x0A) s"
  have w: "CHR 0x0A \<notin> set w" by (auto simp: w_def dest: set_takeWhileD)
  have "line = w @ take 1 (dropWhile (\<lambda>c. c \<noteq> CHR 0x0A) s)"
    using assms(1) by (simp add: readline_def w_def Let_def)
  moreover have "dropWhile (\<lambda>c. c \<noteq> CHR 0x0A) s = [] \<Longrightarrow> line = w" using calculation by simp
  moreover have "line \<noteq> w" using assms(2) w by (metis ends_line_def last_in_set)
  ultimately obtain c cs where c: "dropWhile (\<lambda>c. c \<noteq> CHR 0x0A) s = c # cs" "line = w @ [c]"
    by (cases "dropWhile (\<lambda>c. c \<noteq> CHR 0x0A) s") auto
  then have "line = w @ [CHR 0x0A]" by (simp add: dropWhile_eq_Cons_conv)
  then show "records_of decode line = (if bstrip line = [] then [] else [decode (bstrip line)])"
    using w by (simp add: records_of_def terminated_line)
qed

lemma readline_partial:
  assumes "readline s = (line, rest)" "\<not> ends_line line"
  shows "records_of decode s = []"
proof -
  have "CHR 0x0A \<notin> set s"
  proof
    assume "CHR 0x0A \<in> set s"
    then obtain c cs where "dropWhile (\<lambda>c. c \<noteq> CHR 0x0A) s = c # cs"
      by (cases "dropWhile (\<lambda>c. c \<noteq> CHR 0x0A) s") auto
    moreover from this have "c = CHR 0x0A" by (simp add: dropWhile_eq_Cons_conv)
    ultimately show False using assms by (auto simp: readline_def ends_line_def)
  qed
  then show ?thesis by (simp add: records_of_def terminated_partial)
qed

text \<open>One batch is the next records of the file, up to a line boundary.\<close>

lemma read_loop_spec:
  assumes "read_loop decode n rest offset records = (records', offset')"
  shows "\<exists>pre post. rest = pre @ post \<and> at_line_end pre \<and> offset' = offset + length pre \<and>
           records' = records @ records_of decode pre \<and>
           (length records' < n \<longrightarrow> records_of decode post = [])"
  using assms
proof (induction decode n rest offset records rule: read_loop.induct)
  case (1 decode n rest offset records)
  obtain line rest' where rl: "readline rest = (line, rest')" by fastforce
  consider (full) "length records \<ge> n" | (partial) "length records < n" "\<not> ends_line line"
    | (line) "length records < n" "ends_line line" by linarith
  then show ?case
  proof cases
    case full
    with 1(2) show ?thesis
      by (intro exI [of _ "[]"] exI [of _ rest])
        (simp add: read_loop.simps at_line_end_def records_of_def)
  next
    case partial
    with 1(2) rl readline_partial [OF rl] show ?thesis
      by (intro exI [of _ "[]"] exI [of _ rest])
        (simp add: read_loop.simps [of decode n rest] at_line_end_def records_of_def)
  next
    case line
    let ?recs = "if bstrip line \<noteq> [] then records @ [decode (bstrip line)] else records"
    have "read_loop decode n rest' (offset + length line) ?recs = (records', offset')"
      using 1(2) line rl by (simp add: read_loop.simps [of decode n rest] Let_def)
    then obtain pre post where pp: "rest' = pre @ post" "at_line_end pre"
      "offset' = offset + length line + length pre" "records' = ?recs @ records_of decode pre"
      "length records' < n \<longrightarrow> records_of decode post = []"
      using 1(1) [OF _ rl [symmetric] refl _ refl] line by auto
    note l = readline_line [OF rl line(2)]
    have "at_line_end (line @ pre)" by (rule at_line_end_append [OF l(2) pp(2)])
    moreover have "records_of decode (line @ pre) = records_of decode line @ records_of decode pre"
      by (rule records_of_append [OF l(2)])
    ultimately show ?thesis
      using pp l(1,3) by (intro exI [of _ "line @ pre"] exI [of _ post]) auto
  qed
qed

section \<open>The life of a worker on a file\<close>

text \<open>
  The gateway appends bytes, the worker polls and commits, and processes crash: before the
  rename of a commit, right after it, or anywhere else. \<open>tw_done\<close> collects, for the theorems only,
  the batches whose commit reached the disk.
\<close>

record tail_world =
  tw_file :: "str option"
  tw_dir :: cursor_dir
  tw_source :: tail_source
  tw_done :: "str list"

datatype tail_op = Append str | Poll nat | Commit | Crash | Crash_before_rename | Crash_after_rename

definition tail_restart :: "(str \<Rightarrow> str option) \<Rightarrow> tail_world \<Rightarrow> tail_world" where
  "tail_restart utf8 w =
     (case cursor_read utf8 (cd_main (tw_dir w)) of
        None \<Rightarrow> w | Some offset \<Rightarrow> w\<lparr>tw_source := tail_open offset\<rparr>)"

fun tail_step :: "(str \<Rightarrow> str option) \<Rightarrow> (str \<Rightarrow> str) \<Rightarrow> tail_op \<Rightarrow> tail_world \<Rightarrow> tail_world" where
  "tail_step utf8 decode (Append bytes) w =
     w\<lparr>tw_file := Some (case tw_file w of None \<Rightarrow> bytes | Some data \<Rightarrow> data @ bytes)\<rparr>"
| "tail_step utf8 decode (Poll n) w =
     w\<lparr>tw_source := snd (tail_poll decode (tw_file w) n (tw_source w))\<rparr>"
| "tail_step utf8 decode Commit w =
     (let (s, d) = tail_commit (tw_source w) (tw_dir w)
      in w\<lparr>tw_source := s, tw_dir := d, tw_done := tw_done w @ ts_records (tw_source w)\<rparr>)"
| "tail_step utf8 decode Crash w = tail_restart utf8 w"
| "tail_step utf8 decode Crash_before_rename w = tail_restart utf8 w"
| "tail_step utf8 decode Crash_after_rename w =
     (let (s, d) = tail_commit (tw_source w) (tw_dir w)
      in tail_restart utf8 (w\<lparr>tw_dir := d, tw_done := tw_done w @ ts_records (tw_source w)\<rparr>))"

definition tail_run ::
    "(str \<Rightarrow> str option) \<Rightarrow> (str \<Rightarrow> str) \<Rightarrow> tail_op list \<Rightarrow> tail_world \<Rightarrow> tail_world" where
  "tail_run utf8 decode ops w = fold (tail_step utf8 decode) ops w"

definition file_bytes :: "tail_world \<Rightarrow> str" where
  "file_bytes w = (case tw_file w of None \<Rightarrow> [] | Some data \<Rightarrow> data)"

text \<open>The offsets split the file at line boundaries; what is before was committed or is pending.\<close>

definition tail_ok :: "(str \<Rightarrow> str option) \<Rightarrow> (str \<Rightarrow> str) \<Rightarrow> tail_world \<Rightarrow> bool" where
  "tail_ok utf8 decode w \<longleftrightarrow>
     (let s = tw_source w; data = file_bytes w in
      cursor_read utf8 (cd_main (tw_dir w)) = Some (ts_committed s) \<and>
      ts_committed s \<le> length data \<and> at_line_end (take (ts_committed s) data) \<and>
      tw_done w = records_of decode (take (ts_committed s) data) \<and>
      (case ts_pending s of
         None \<Rightarrow> ts_records s = []
       | Some p \<Rightarrow> ts_committed s \<le> p \<and> p \<le> length data \<and> at_line_end (take p data) \<and>
           records_of decode (take p data) = tw_done w @ ts_records s))"

definition tail_start :: tail_world where
  "tail_start = \<lparr>tw_file = None, tw_dir = \<lparr>cd_main = None, cd_tmp = None\<rparr>,
     tw_source = tail_open 0, tw_done = []\<rparr>"

lemma tail_ok_start [simp]: "tail_ok utf8 decode tail_start"
  by (simp add: tail_ok_def tail_start_def file_bytes_def tail_open_def cursor_read_def
      at_line_end_def records_of_def)

lemma tail_ok_poll:
  assumes "tail_ok utf8 decode w"
  shows "tail_ok utf8 decode (w\<lparr>tw_source := snd (tail_poll decode (tw_file w) n (tw_source w))\<rparr>)"
proof (cases "ts_pending (tw_source w) = None \<and> tw_file w \<noteq> None")
  case True
  then obtain data where data: "tw_file w = Some data" "file_bytes w = data"
    by (auto simp: file_bytes_def)
  let ?c = "ts_committed (tw_source w)"
  obtain recs off where rl: "read_loop decode n (drop ?c data) ?c [] = (recs, off)" by fastforce
  obtain pre post where pp: "drop ?c data = pre @ post" "at_line_end pre" "off = ?c + length pre"
    "recs = records_of decode pre"
    using read_loop_spec [OF rl] by auto
  have c: "?c \<le> length data" "at_line_end (take ?c data)" "tw_done w = records_of decode (take ?c data)"
    using assms data by (auto simp: tail_ok_def Let_def)
  have "data = take ?c data @ pre @ post" using pp(1) by (metis append_take_drop_id)
  then have off: "take off data = take ?c data @ pre" "off \<le> length data"
    using pp(3) c(1) by (metis append.assoc append_eq_conv_conj length_append length_take min.absorb2,
        metis add_le_cancel_left append_take_drop_id length_append length_take min.absorb2 le_add1 add.assoc)
  have "at_line_end (take ?c data @ pre)" by (rule at_line_end_append [OF c(2) pp(2)])
  with True data c off pp(3,4) rl assms show ?thesis
    by (auto simp: tail_poll_def read_batch_def tail_ok_def Let_def file_bytes_def records_of_append)
next
  case False
  then have "snd (tail_poll decode (tw_file w) n (tw_source w)) = tw_source w"
    by (auto simp: tail_poll_def read_batch_def split: option.splits)
  with assms show ?thesis by simp
qed

text \<open>A commit, whether the process survives it (\<open>s\<close> is kept) or restarts from the cursor.\<close>

lemma tail_ok_commit:
  assumes "tail_ok utf8 decode w" "\<And>n. utf8 (int_str (int n)) = Some (int_str (int n))"
  shows "tail_ok utf8 decode (tail_step utf8 decode Commit w)"
    "tail_ok utf8 decode (tail_step utf8 decode Crash_after_rename w)"
proof -
  have "tail_ok utf8 decode (tail_step utf8 decode Commit w) \<and>
        tail_ok utf8 decode (tail_step utf8 decode Crash_after_rename w)"
  proof (cases "ts_pending (tw_source w)")
    case None
    with assms(1) show ?thesis
      by (simp add: tail_ok_def tail_commit_def tail_restart_def tail_open_def file_bytes_def Let_def)
  next
    case (Some p)
    with assms show ?thesis
      by (simp add: tail_ok_def tail_commit_def tail_restart_def tail_open_def file_bytes_def Let_def)
  qed
  then show "tail_ok utf8 decode (tail_step utf8 decode Commit w)"
    "tail_ok utf8 decode (tail_step utf8 decode Crash_after_rename w)" by simp_all
qed

lemma tail_ok_append:
  assumes "tail_ok utf8 decode w"
  shows "tail_ok utf8 decode (tail_step utf8 decode (Append bytes) w)"
proof -
  have "file_bytes (tail_step utf8 decode (Append bytes) w) = file_bytes w @ bytes"
    by (simp add: file_bytes_def split: option.split)
  with assms show ?thesis by (auto simp: tail_ok_def Let_def split: option.splits)
qed

lemma tail_ok_step [inv_intros]:
  assumes "tail_ok utf8 decode w" "\<And>n. utf8 (int_str (int n)) = Some (int_str (int n))"
  shows "tail_ok utf8 decode (tail_step utf8 decode op w)"
proof (cases op)
  case (Poll n)
  with tail_ok_poll [OF assms(1)] show ?thesis by simp
next
  case Commit
  with tail_ok_commit [OF assms] show ?thesis by simp
next
  case Crash_after_rename
  with tail_ok_commit [OF assms] show ?thesis by simp
next
  case (Append bytes)
  with tail_ok_append [OF assms(1)] show ?thesis by simp
qed (use assms(1) in \<open>auto simp: tail_ok_def tail_restart_def tail_open_def file_bytes_def Let_def
      split: option.splits\<close>)

lemma tail_ok_run:
  assumes "\<And>n. utf8 (int_str (int n)) = Some (int_str (int n))"
  shows "tail_ok utf8 decode w \<Longrightarrow> tail_ok utf8 decode (tail_run utf8 decode ops w)"
  unfolding tail_run_def by (induction ops arbitrary: w) (auto intro: tail_ok_step assms)

text \<open>
  C10. The file source delivers every record exactly once and in order: after any interleaving of
  appends (torn mid-line or not), polls of any size, commits and crashes, the records committed so
  far followed by the records after the committed offset are exactly the complete, non-blank lines
  of the file; and if a batch is pending, polling again returns that same batch.
\<close>

theorem tail_exactly_once:
  assumes "\<forall>n. utf8 (int_str (int n)) = Some (int_str (int n))"
    and "w = tail_run utf8 decode ops tail_start"
  shows "records_of decode (file_bytes w) =
           tw_done w @ records_of decode (drop (ts_committed (tw_source w)) (file_bytes w)) \<and>
         (ts_pending (tw_source w) \<noteq> None \<longrightarrow>
            tail_poll decode (tw_file w) n (tw_source w) = (ts_records (tw_source w), tw_source w))"
proof -
  have "tail_ok utf8 decode w"
    unfolding assms(2) by (rule tail_ok_run) (use assms(1) in auto)
  then have "at_line_end (take (ts_committed (tw_source w)) (file_bytes w))"
    "tw_done w = records_of decode (take (ts_committed (tw_source w)) (file_bytes w))"
    by (auto simp: tail_ok_def Let_def)
  then show ?thesis
    using records_of_append [of "take (ts_committed (tw_source w)) (file_bytes w)" decode
        "drop (ts_committed (tw_source w)) (file_bytes w)"]
    by (auto simp: tail_poll_def)
qed

theorem tail_exactly_once_witness:
  "let ops = [Append (''a'' @ [CHR 0x0A] @ ''b''), Poll 5, Crash_before_rename, Poll 5, Crash_after_rename,
              Append [CHR 0x0A], Poll 1];
       w = tail_run Some id ops tail_start
   in tw_done w = [''a''] \<and> ts_records (tw_source w) = [''b''] \<and>
      records_of id (file_bytes w) =
        tw_done w @ records_of id (drop (ts_committed (tw_source w)) (file_bytes w))"
proof -
  let ?ops = "[Append (''a'' @ [CHR 0x0A] @ ''b''), Poll 5, Crash_before_rename, Poll 5, Crash_after_rename,
              Append [CHR 0x0A], Poll 1]"
  have "tw_done (tail_run Some id ?ops tail_start) = [''a''] \<and>
        ts_records (tw_source (tail_run Some id ?ops tail_start)) = [''b'']" by code_simp
  then show ?thesis
    using tail_exactly_once [of Some "tail_run Some id ?ops tail_start" id ?ops 1] by (simp add: Let_def)
qed

end
