(* ===== verification/WorkerLoop.thy ===== *)
theory WorkerLoop
  imports WorkerSource Json
begin

text \<open>
  The worker's loop (\<open>apps/worker/src/aegis_worker/main.py\<close>), the Kafka source and the choice of a
  source (\<open>consumer.py\<close>). The source's \<open>poll\<close> and \<open>commit\<close>, the pipeline's \<open>execute\<close> and
  \<open>json.loads\<close> are arguments; the shutdown flag is a function of the number of times the loop has
  looked at it. The loop runs until shutdown, so it takes fuel; None is running out of it.
\<close>

section \<open>Kafka source\<close>

text \<open>The broker client is a parameter: each call answers None when it raises.\<close>

record 'c kafka_source =
  ks_client :: 'c
  ks_started :: bool
  ks_pending :: bool

definition kafka_ensure_started :: "('c \<Rightarrow> 'c option) \<Rightarrow> 'c kafka_source \<Rightarrow> 'c kafka_source option" where
  "kafka_ensure_started start s =
     (if ks_started s then Some s
      else map_option (\<lambda>c. s\<lparr>ks_client := c, ks_started := True\<rparr>) (start (ks_client s)))"

definition kafka_poll ::
    "('c \<Rightarrow> 'c option) \<Rightarrow> (nat \<Rightarrow> 'c \<Rightarrow> (str list list \<times> 'c) option) \<Rightarrow> (str \<Rightarrow> str) \<Rightarrow> nat
       \<Rightarrow> 'c kafka_source \<Rightarrow> (str list \<times> 'c kafka_source) option" where
  "kafka_poll start getmany decode batch_size s =
     (if ks_pending s then Some ([], s)
      else Option.bind (kafka_ensure_started start s) (\<lambda>s1.
           Option.bind (getmany batch_size (ks_client s1)) (\<lambda>(partitions, c).
             let records = map decode (concat partitions)
             in Some (records, s1\<lparr>ks_client := c, ks_pending := (ks_pending s1 \<or> records \<noteq> [])\<rparr>))))"

definition kafka_commit :: "('c \<Rightarrow> 'c option) \<Rightarrow> 'c kafka_source \<Rightarrow> 'c kafka_source option" where
  "kafka_commit commit s =
     (if \<not> ks_pending s then Some s
      else map_option (\<lambda>c. s\<lparr>ks_client := c, ks_pending := False\<rparr>) (commit (ks_client s)))"

definition kafka_close :: "('c \<Rightarrow> 'c option) \<Rightarrow> 'c kafka_source \<Rightarrow> 'c kafka_source option" where
  "kafka_close stop s =
     (if ks_started s
      then map_option (\<lambda>c. s\<lparr>ks_client := c, ks_started := False\<rparr>) (stop (ks_client s)) else Some s)"

text \<open>
  Between a Kafka poll that returned records and the commit, the broker is not asked for more:
  every further poll answers the empty list and leaves the client alone. (The \<open>EventSource\<close>
  protocol promises the same records instead.)
\<close>

theorem kafka_poll_waits_for_commit:
  assumes "kafka_poll start getmany decode n s = Some (records, s')" "records \<noteq> []"
  shows "kafka_poll start getmany decode m s' = Some ([], s') \<and>
         (\<forall>commit c. commit (ks_client s') = Some c \<longrightarrow>
            (\<exists>s''. kafka_commit commit s' = Some s'' \<and> \<not> ks_pending s'' \<and> ks_client s'' = c))"
proof -
  have "ks_pending s'"
    using assms by (auto simp: kafka_poll_def Let_def bind_eq_Some_conv split: if_splits)
  then show ?thesis by (simp add: kafka_poll_def kafka_commit_def)
qed

theorem kafka_poll_waits_for_commit_witness:
  "\<exists>s'. kafka_poll Some (\<lambda>n c. Some ([[''a'']], c)) id 5 \<lparr>ks_client = (), ks_started = False, ks_pending = False\<rparr>
          = Some ([''a''], s') \<and>
        kafka_poll Some (\<lambda>n c. Some ([[''a'']], c)) id 5 s' = Some ([], s')"
proof -
  let ?s = "\<lparr>ks_client = (), ks_started = False, ks_pending = False\<rparr>"
  have run: "kafka_poll Some (\<lambda>n c. Some ([[''a'']], c)) id 5 ?s
      = Some ([''a''], \<lparr>ks_client = (), ks_started = True, ks_pending = True\<rparr>)"
    by (simp add: kafka_poll_def kafka_ensure_started_def)
  then show ?thesis using kafka_poll_waits_for_commit [OF run] by blast
qed

section \<open>Choosing a source\<close>

datatype source_choice = Kafka_from str str str | File_from str str

text \<open>None is the \<open>ValueError\<close>; the second field of \<open>File_from\<close> is the cursor override.\<close>

definition build_source :: "str \<Rightarrow> str \<Rightarrow> str \<Rightarrow> source_choice option" where
  "build_source uri consumer_group cursor_override =
     (if startswith uri ''kafka://'' then
        (let (servers, _, topic) = partition_char (CHR ''/'') (drop (length ''kafka://'') uri)
         in Some (Kafka_from servers (if topic \<noteq> [] then topic else ''runtime-events'') consumer_group))
      else if startswith uri ''file:'' then
        Some (File_from (dropWhile (\<lambda>c. c = CHR ''/'') (drop (length ''file:'') uri)) cursor_override)
      else None)"

section \<open>The loop\<close>

datatype worker_event =
    Polled "str list"
  | Batch_failed "json list" rat
  | Batch_folded "json list"
  | Batch_committed "str list"

record ('s, 'p) worker =
  wk_source :: 's
  wk_pipeline :: 'p
  wk_looks :: nat
  wk_trace :: "worker_event list"

datatype worker_exit = Stopped | Crashed

definition MAX_BACKOFF_SECONDS :: rat where "MAX_BACKOFF_SECONDS = 30"

text \<open>\<open>shutdown.requested\<close>, looked at once more.\<close>

definition requested :: "(nat \<Rightarrow> bool) \<Rightarrow> ('s, 'p) worker \<Rightarrow> bool \<times> ('s, 'p) worker" where
  "requested shut w = (shut (wk_looks w), w\<lparr>wk_looks := Suc (wk_looks w)\<rparr>)"

definition log_event :: "worker_event \<Rightarrow> ('s, 'p) worker \<Rightarrow> ('s, 'p) worker" where
  "log_event e w = w\<lparr>wk_trace := wk_trace w @ [e]\<rparr>"

text \<open>
  \<open>_process_with_retry\<close>: True when the batch was folded, False when shutdown came first. \<open>execute\<close>
  returns whether it succeeded, and the pipeline's state.
\<close>

fun process_with_retry ::
    "('p \<Rightarrow> json list \<Rightarrow> bool \<times> 'p) \<Rightarrow> (nat \<Rightarrow> bool) \<Rightarrow> nat \<Rightarrow> json list \<Rightarrow> rat
       \<Rightarrow> ('s, 'p) worker \<Rightarrow> (bool \<times> ('s, 'p) worker) option" where
  "process_with_retry execute shut 0 records backoff w = None"
| "process_with_retry execute shut (Suc fuel) records backoff w =
     (let (ok, p) = execute (wk_pipeline w) records; w1 = w\<lparr>wk_pipeline := p\<rparr> in
      if ok then Some (True, log_event (Batch_folded records) w1)
      else
        (let (stop, w2) = requested shut (log_event (Batch_failed records backoff) w1) in
         if stop then Some (False, w2)
         else process_with_retry execute shut fuel records (min (backoff * 2) MAX_BACKOFF_SECONDS) w2))"

text \<open>The records of the lines that decode; None when a line raises something unexpected.\<close>

fun decode_lines :: "(str \<Rightarrow> loaded) \<Rightarrow> str list \<Rightarrow> json list option" where
  "decode_lines loads [] = Some []"
| "decode_lines loads (l # ls) =
     (case loads l of
        Loaded j \<Rightarrow> map_option (\<lambda>js. j # js) (decode_lines loads ls)
      | JSONDecodeError _ \<Rightarrow> decode_lines loads ls
      | LoadsCrash \<Rightarrow> None)"

text \<open>
  One turn of the loop after the look at the flag: poll, decode, fold, commit. The exit is None
  when the loop goes on.
\<close>

definition worker_turn ::
    "(nat \<Rightarrow> 's \<Rightarrow> (str list \<times> 's) option) \<Rightarrow> ('s \<Rightarrow> 's option) \<Rightarrow> (str \<Rightarrow> loaded)
       \<Rightarrow> ('p \<Rightarrow> json list \<Rightarrow> bool \<times> 'p) \<Rightarrow> (nat \<Rightarrow> bool) \<Rightarrow> nat \<Rightarrow> nat
       \<Rightarrow> ('s, 'p) worker \<Rightarrow> (worker_exit option \<times> ('s, 'p) worker) option" where
  "worker_turn poll commit loads execute shut batch_size fuel w =
     (case poll batch_size (wk_source w) of
        None \<Rightarrow> Some (Some Crashed, w)
      | Some (lines, s) \<Rightarrow>
          (let w1 = log_event (Polled lines) (w\<lparr>wk_source := s\<rparr>) in
           if lines = [] then Some (None, w1)
           else
             (case decode_lines loads lines of
                None \<Rightarrow> Some (Some Crashed, w1)
              | Some records \<Rightarrow>
                  (case (if records \<noteq> [] then process_with_retry execute shut fuel records 1 w1
                         else Some (True, w1)) of
                     None \<Rightarrow> None
                   | Some (ok, w2) \<Rightarrow>
                       if \<not> ok then Some (Some Stopped, w2)
                       else (case commit (wk_source w2) of
                               None \<Rightarrow> Some (Some Crashed, w2)
                             | Some s' \<Rightarrow>
                                 Some (None, log_event (Batch_committed lines) (w2\<lparr>wk_source := s'\<rparr>)))))))"

fun worker_loop ::
    "(nat \<Rightarrow> 's \<Rightarrow> (str list \<times> 's) option) \<Rightarrow> ('s \<Rightarrow> 's option) \<Rightarrow> (str \<Rightarrow> loaded)
       \<Rightarrow> ('p \<Rightarrow> json list \<Rightarrow> bool \<times> 'p) \<Rightarrow> (nat \<Rightarrow> bool) \<Rightarrow> nat \<Rightarrow> nat
       \<Rightarrow> ('s, 'p) worker \<Rightarrow> (worker_exit \<times> ('s, 'p) worker) option" where
  "worker_loop poll commit loads execute shut batch_size 0 w = None"
| "worker_loop poll commit loads execute shut batch_size (Suc fuel) w =
     (let (stop, w0) = requested shut w in
      if stop then Some (Stopped, w0)
      else
        (case worker_turn poll commit loads execute shut batch_size fuel w0 of
           None \<Rightarrow> None
         | Some (Some exit, w') \<Rightarrow> Some (exit, w')
         | Some (None, w') \<Rightarrow> worker_loop poll commit loads execute shut batch_size fuel w'))"

section \<open>Commit only after folding\<close>

text \<open>
  A trace is safe when every commit follows, without anything in between but failed attempts, the
  poll of the committed lines, and directly the successful fold of all records they decode to.
\<close>

definition safe_trace :: "(str \<Rightarrow> loaded) \<Rightarrow> worker_event list \<Rightarrow> bool" where
  "safe_trace loads tr \<longleftrightarrow>
     (\<forall>pre lines post. tr = pre @ Batch_committed lines # post \<longrightarrow>
        (\<exists>records. decode_lines loads lines = Some records \<and>
           (if records = [] then \<exists>pre'. pre = pre' @ [Polled lines]
            else \<exists>pre' tries. pre = pre' @ Polled lines # map (Batch_failed records) tries @ [Batch_folded records])))"

lemma safe_trace_Nil [simp]: "safe_trace loads []"
  by (simp add: safe_trace_def)

lemma safe_trace_snoc:
  assumes "safe_trace loads tr" "\<And>lines. e \<noteq> Batch_committed lines"
  shows "safe_trace loads (tr @ [e])"
  unfolding safe_trace_def
proof (intro allI impI)
  fix pre lines post
  assume eq: "tr @ [e] = pre @ Batch_committed lines # post"
  with assms(2) have "post \<noteq> []" by (auto simp: append_eq_append_conv2 append_eq_Cons_conv)
  with eq have "tr = pre @ Batch_committed lines # butlast post"
    by (metis butlast.simps(2) butlast_append butlast_snoc list.distinct(1))
  with assms(1) show "\<exists>records. decode_lines loads lines = Some records \<and>
      (if records = [] then \<exists>pre'. pre = pre' @ [Polled lines]
       else \<exists>pre' tries. pre = pre' @ Polled lines # map (Batch_failed records) tries @ [Batch_folded records])"
    unfolding safe_trace_def by blast
qed

lemma safe_trace_committed:
  assumes "safe_trace loads tr" "decode_lines loads lines = Some records"
    and "if records = [] then \<exists>pre'. tr = pre' @ [Polled lines]
         else \<exists>pre' tries. tr = pre' @ Polled lines # map (Batch_failed records) tries @ [Batch_folded records]"
  shows "safe_trace loads (tr @ [Batch_committed lines])"
  unfolding safe_trace_def
proof (intro allI impI)
  fix pre ls post
  assume eq: "tr @ [Batch_committed lines] = pre @ Batch_committed ls # post"
  show "\<exists>records. decode_lines loads ls = Some records \<and>
      (if records = [] then \<exists>pre'. pre = pre' @ [Polled ls]
       else \<exists>pre' tries. pre = pre' @ Polled ls # map (Batch_failed records) tries @ [Batch_folded records])"
  proof (cases "post = []")
    case True
    with eq have "pre = tr" "ls = lines" by auto
    with assms(2,3) show ?thesis by auto
  next
    case False
    with eq have "tr = pre @ Batch_committed ls # butlast post"
      by (metis butlast.simps(2) butlast_append butlast_snoc list.distinct(1))
    with assms(1) show ?thesis unfolding safe_trace_def by blast
  qed
qed

lemma process_with_retry_trace:
  assumes "process_with_retry execute shut fuel records backoff w = Some (ok, w')"
  shows "\<exists>tries. wk_trace w' = wk_trace w @ map (Batch_failed records) tries
                   @ (if ok then [Batch_folded records] else []) \<and>
           wk_source w' = wk_source w \<and>
           (backoff \<le> MAX_BACKOFF_SECONDS \<longrightarrow> (\<forall>t \<in> set tries. t \<le> MAX_BACKOFF_SECONDS))"
  using assms
proof (induction execute shut fuel records backoff w rule: process_with_retry.induct)
  case (2 execute shut fuel records backoff w)
  obtain ok1 p where ex: "execute (wk_pipeline w) records = (ok1, p)" by fastforce
  show ?case
  proof (cases ok1)
    case True
    with 2(2) ex show ?thesis by (intro exI [of _ "[]"]) (auto simp: log_event_def)
  next
    case False
    obtain stop w2 where st: "requested shut (log_event (Batch_failed records backoff) (w\<lparr>wk_pipeline := p\<rparr>))
        = (stop, w2)" by fastforce
    then have w2: "wk_trace w2 = wk_trace w @ [Batch_failed records backoff]" "wk_source w2 = wk_source w"
      by (auto simp: requested_def log_event_def)
    show ?thesis
    proof (cases stop)
      case True
      with 2(2) ex st False w2 show ?thesis by (intro exI [of _ "[backoff]"]) (auto simp: Let_def)
    next
      case go: False
      with 2(2) ex st False
      have "process_with_retry execute shut fuel records (min (backoff * 2) MAX_BACKOFF_SECONDS) w2 = Some (ok, w')"
        by (simp add: Let_def)
      then obtain tries where "wk_trace w' = wk_trace w2 @ map (Batch_failed records) tries
          @ (if ok then [Batch_folded records] else [])" "wk_source w' = wk_source w2"
        "\<forall>t \<in> set tries. t \<le> MAX_BACKOFF_SECONDS"
        using "2.IH" [OF refl ex [symmetric] refl False refl st [symmetric] go] by auto
      with w2 show ?thesis by (intro exI [of _ "backoff # tries"]) auto
    qed
  qed
qed simp

lemma safe_trace_failures:
  "safe_trace loads tr \<Longrightarrow> safe_trace loads (tr @ map (Batch_failed records) ts)"
proof (induction ts rule: rev_induct)
  case (snoc t ts)
  then show ?case
    using safe_trace_snoc [of loads "tr @ map (Batch_failed records) ts" "Batch_failed records t"] by simp
qed simp

text \<open>The trace a batch leaves before its commit.\<close>

lemma fold_batch_trace:
  assumes "(if records \<noteq> [] then process_with_retry execute shut fuel records 1 w1 else Some (True, w1))
             = Some (ok, w2)"
    and "wk_trace w1 = tr @ [Polled lines]" "safe_trace loads tr"
  shows "safe_trace loads (wk_trace w2) \<and> wk_source w2 = wk_source w1 \<and> (ok \<longrightarrow>
           (if records = [] then wk_trace w2 = tr @ [Polled lines]
            else \<exists>tries. wk_trace w2 = tr @ Polled lines # map (Batch_failed records) tries @ [Batch_folded records]))"
proof (cases "records = []")
  case True
  with assms safe_trace_snoc [OF assms(3), of "Polled lines"] show ?thesis by auto
next
  case False
  then obtain tries where w2: "wk_trace w2 = wk_trace w1 @ map (Batch_failed records) tries
      @ (if ok then [Batch_folded records] else [])" "wk_source w2 = wk_source w1"
    using assms(1) process_with_retry_trace [of execute shut fuel records 1 w1 ok w2] by auto
  have "safe_trace loads (wk_trace w1)"
    unfolding assms(2) by (rule safe_trace_snoc [OF assms(3)]) simp
  note f = safe_trace_failures [OF this, of records tries]
  have "safe_trace loads (wk_trace w2)"
    using f safe_trace_snoc [OF f, of "Batch_folded records"] w2(1) by (cases ok) auto
  with False w2 assms(2) show ?thesis by auto
qed

lemma worker_turn_trace:
  assumes "worker_turn poll commit loads execute shut n fuel w = Some (x, w')"
    and "safe_trace loads (wk_trace w)"
  shows "safe_trace loads (wk_trace w')"
proof (cases "poll n (wk_source w)")
  case None
  with assms show ?thesis by (simp add: worker_turn_def)
next
  case (Some a)
  then obtain lines s where poll: "poll n (wk_source w) = Some (lines, s)" by (cases a) auto
  define w1 where "w1 = log_event (Polled lines) (w\<lparr>wk_source := s\<rparr>)"
  have w1: "wk_trace w1 = wk_trace w @ [Polled lines]" by (simp add: w1_def log_event_def)
  have safe1: "safe_trace loads (wk_trace w1)"
    unfolding w1 by (rule safe_trace_snoc [OF assms(2)]) simp
  show ?thesis
  proof (cases "lines = [] \<or> decode_lines loads lines = None")
    case True
    with assms(1) poll safe1 show ?thesis
      by (auto simp: worker_turn_def w1_def Let_def split: if_splits)
  next
    case False
    then obtain records where rec: "lines \<noteq> []" "decode_lines loads lines = Some records" by auto
    obtain ok w2 where pr: "(if records \<noteq> [] then process_with_retry execute shut fuel records 1 w1
        else Some (True, w1)) = Some (ok, w2)"
      using assms(1) poll rec by (auto simp: worker_turn_def w1_def Let_def split: option.splits if_splits)
    note f = fold_batch_trace [OF pr w1 assms(2)]
    have exit: "(if \<not> ok then Some (Some Stopped, w2)
       else (case commit (wk_source w2) of None \<Rightarrow> Some (Some Crashed, w2)
             | Some s' \<Rightarrow> Some (None, log_event (Batch_committed lines) (w2\<lparr>wk_source := s'\<rparr>)))) = Some (x, w')"
      using assms(1) poll rec pr unfolding worker_turn_def w1_def Let_def by simp
    have "safe_trace loads (wk_trace w2 @ [Batch_committed lines])" if ok
      by (rule safe_trace_committed [OF _ rec(2)]) (use f that in auto)
    with exit f show ?thesis by (auto simp: log_event_def split: if_splits option.splits)
  qed
qed

lemma worker_loop_trace:
  assumes "worker_loop poll commit loads execute shut n fuel w = Some (exit, w')"
    and "safe_trace loads (wk_trace w)"
  shows "safe_trace loads (wk_trace w')"
  using assms
proof (induction fuel arbitrary: w)
  case (Suc fuel)
  obtain stop w0 where st: "requested shut w = (stop, w0)" by fastforce
  then have w0: "wk_trace w0 = wk_trace w" by (auto simp: requested_def)
  show ?case
  proof (cases "\<not> stop")
    case True
    with Suc.prems(1) st obtain x w1 where
      turn: "worker_turn poll commit loads execute shut n fuel w0 = Some (x, w1)"
      by (auto split: option.splits)
    have safe1: "safe_trace loads (wk_trace w1)"
      by (rule worker_turn_trace [OF turn]) (simp add: w0 Suc.prems(2))
    show ?thesis
      using Suc.prems(1) st True turn safe1 Suc.IH by (cases x) auto
  qed (use Suc.prems st w0 in auto)
qed simp

section \<open>Termination\<close>

lemma process_with_retry_stops:
  assumes "\<forall>t \<ge> T. shut t" "T - wk_looks w < fuel"
  shows "\<exists>ok w'. process_with_retry execute shut fuel records backoff w = Some (ok, w') \<and>
           wk_looks w \<le> wk_looks w'"
  using assms(2)
proof (induction fuel arbitrary: backoff w)
  case (Suc fuel)
  obtain ok p where ex: "execute (wk_pipeline w) records = (ok, p)" by fastforce
  let ?w2 = "log_event (Batch_failed records backoff) (w\<lparr>wk_pipeline := p\<rparr>)
      \<lparr>wk_looks := Suc (wk_looks w)\<rparr>"
  show ?case
  proof (cases "ok \<or> shut (wk_looks w)")
    case True
    with ex show ?thesis by (auto simp: requested_def log_event_def Let_def)
  next
    case False
    with assms(1) have "wk_looks w < T" by (meson not_less)
    then have "T - wk_looks ?w2 < fuel" using Suc.prems by simp
    from Suc.IH [OF this] False ex show ?thesis
      by (fastforce simp: requested_def log_event_def Let_def)
  qed
qed simp

lemma worker_turn_stops:
  assumes "\<forall>t \<ge> T. shut t" "T - wk_looks w < fuel"
  shows "\<exists>x w'. worker_turn poll commit loads execute shut n fuel w = Some (x, w') \<and> wk_looks w \<le> wk_looks w'"
proof -
  have pr: "\<exists>ok w2. (if records \<noteq> [] then process_with_retry execute shut fuel records 1 w1
      else Some (True, w1)) = Some (ok, w2) \<and> wk_looks w \<le> wk_looks w2"
    if "wk_looks w1 = wk_looks w" for records and w1
    using process_with_retry_stops [OF assms(1), where w = w1 and fuel = fuel and backoff = 1] assms(2) that by auto
  show ?thesis
  proof (cases "poll n (wk_source w)")
    case (Some a)
    then obtain lines s where poll: "poll n (wk_source w) = Some (lines, s)" by (cases a) auto
    define w1 where "w1 = log_event (Polled lines) (w\<lparr>wk_source := s\<rparr>)"
    have "wk_looks w1 = wk_looks w" by (simp add: w1_def log_event_def)
    note pr = pr [OF this]
    show ?thesis
    proof (cases "decode_lines loads lines")
      case None
      with poll \<open>wk_looks w1 = wk_looks w\<close> show ?thesis by (simp add: worker_turn_def Let_def log_event_def)
    next
      case (Some records)
      obtain ok w2 where pr: "(if records \<noteq> [] then process_with_retry execute shut fuel records 1 w1
          else Some (True, w1)) = Some (ok, w2)" and le: "wk_looks w \<le> wk_looks w2"
        using pr [of records] by blast
      have turn: "worker_turn poll commit loads execute shut n fuel w =
        (if lines = [] then Some (None, w1)
         else if \<not> ok then Some (Some Stopped, w2)
         else (case commit (wk_source w2) of None \<Rightarrow> Some (Some Crashed, w2)
               | Some s' \<Rightarrow> Some (None, log_event (Batch_committed lines) (w2\<lparr>wk_source := s'\<rparr>))))"
        unfolding worker_turn_def poll Let_def w1_def [symmetric] option.case prod.case Some pr by simp
      show ?thesis
        unfolding turn using le \<open>wk_looks w1 = wk_looks w\<close>
        by (cases "commit (wk_source w2)") (simp_all add: log_event_def)
    qed
  qed (simp add: worker_turn_def)
qed

lemma worker_loop_stops:
  assumes "\<forall>t \<ge> T. shut t" "T - wk_looks w < fuel"
  shows "\<exists>exit w'. worker_loop poll commit loads execute shut n fuel w = Some (exit, w')"
  using assms(2)
proof (induction fuel arbitrary: w)
  case (Suc fuel)
  let ?w0 = "w\<lparr>wk_looks := Suc (wk_looks w)\<rparr>"
  show ?case
  proof (cases "shut (wk_looks w)")
    case False
    with assms(1) have "wk_looks w < T" by (meson not_less)
    then have less: "T - wk_looks ?w0 < fuel" using Suc.prems by simp
    then obtain x w1 where turn: "worker_turn poll commit loads execute shut n fuel ?w0 = Some (x, w1)"
      and "wk_looks ?w0 \<le> wk_looks w1"
      using worker_turn_stops [OF assms(1) less] by blast
    then have "T - wk_looks w1 < fuel" using less by simp
    from Suc.IH [OF this] turn False show ?thesis by (cases x) (auto simp: requested_def)
  qed (simp add: requested_def)
qed simp

text \<open>
  C36. The worker's loop, on any source and any pipeline: a batch is committed only directly after
  the pipeline folded all the records its lines decode to (or when they decode to none), with
  nothing but failed attempts at that same batch since it was polled; and once the shutdown flag
  is set for good, \<open>T\<close> looks at it are enough for the loop to return.
\<close>

theorem worker_commits_only_folded_batches:
  assumes "\<forall>t \<ge> T. shut t" "T < fuel" "wk_trace w = []" "wk_looks w = 0"
  shows "\<exists>exit w'. worker_loop poll commit loads execute shut batch_size fuel w = Some (exit, w') \<and>
           safe_trace loads (wk_trace w')"
proof -
  obtain exit w' where run: "worker_loop poll commit loads execute shut batch_size fuel w = Some (exit, w')"
    using worker_loop_stops [OF assms(1), of w fuel poll commit loads execute batch_size] assms(2,4)
    by auto
  moreover have "safe_trace loads (wk_trace w')"
    by (rule worker_loop_trace [OF run]) (simp add: assms(3))
  ultimately show ?thesis by blast
qed

definition sample_worker :: "(str list, nat) worker" where
  "sample_worker = \<lparr>wk_source = [''a'', ''b''], wk_pipeline = 0, wk_looks = 0, wk_trace = []\<rparr>"

theorem worker_commits_only_folded_batches_witness:
  "\<exists>exit w'. worker_loop (\<lambda>n s. Some (take n s, s)) (\<lambda>s. Some (drop 1 s)) (\<lambda>s. Loaded (JStr s))
     (\<lambda>p rs. (p > 0, p + 1)) (\<lambda>t. t \<ge> 6) 1 7 sample_worker = Some (exit, w') \<and>
     safe_trace (\<lambda>s. Loaded (JStr s)) (wk_trace w') \<and> Batch_committed [''b''] \<in> set (wk_trace w')"
proof -
  let ?run = "worker_loop (\<lambda>n s. Some (take n s, s)) (\<lambda>s. Some (drop 1 s)) (\<lambda>s. Loaded (JStr s))
     (\<lambda>p rs. (p > 0, p + 1)) (\<lambda>t. t \<ge> 6) 1 7 sample_worker"
  have "case ?run of Some (exit, w') \<Rightarrow> Batch_committed [''b''] \<in> set (wk_trace w') | None \<Rightarrow> False"
    by code_simp
  then show ?thesis
    using worker_commits_only_folded_batches [of 6 "\<lambda>t. t \<ge> 6" 7 sample_worker "\<lambda>n s. Some (take n s, s)"
        "\<lambda>s. Some (drop 1 s)" "\<lambda>s. Loaded (JStr s)" "\<lambda>p rs. (p > 0, p + 1)" 1]
    by (auto simp: sample_worker_def split: option.splits)
qed

end
