(* ===== verification/FindingEntity.thy ===== *)
theory FindingEntity
  imports PyStr Complex_Main
begin

text \<open>
  Findings (\<open>domain/entities/findings.py\<close>): the lifecycle of a finding, what repeat sightings do
  to it, and its risk score. UUIDs are their text, floats are exact rationals, and SHA-256 is a
  parameter (used in \<open>FindingIdentity\<close>).
\<close>


section \<open>Enumerations\<close>

datatype finding_status = OPEN | CONFIRMED | REMEDIATED | FALSE_POSITIVE | ACCEPTED_RISK

fun status_value :: "finding_status \<Rightarrow> str" where
  "status_value OPEN = ''OPEN''"
| "status_value CONFIRMED = ''CONFIRMED''"
| "status_value REMEDIATED = ''REMEDIATED''"
| "status_value FALSE_POSITIVE = ''FALSE_POSITIVE''"
| "status_value ACCEPTED_RISK = ''ACCEPTED_RISK''"

definition is_suppressed :: "finding_status \<Rightarrow> bool" where
  "is_suppressed s \<longleftrightarrow> s \<in> {FALSE_POSITIVE, ACCEPTED_RISK}"

definition is_actionable :: "finding_status \<Rightarrow> bool" where
  "is_actionable s \<longleftrightarrow> s \<in> {OPEN, CONFIRMED}"

datatype severity = INFO | LOW | MEDIUM | HIGH | CRITICAL

fun severity_value :: "severity \<Rightarrow> str" where
  "severity_value INFO = ''INFO''"
| "severity_value LOW = ''LOW''"
| "severity_value MEDIUM = ''MEDIUM''"
| "severity_value HIGH = ''HIGH''"
| "severity_value CRITICAL = ''CRITICAL''"

fun base_score :: "severity \<Rightarrow> rat" where
  "base_score INFO = 1"
| "base_score LOW = 3"
| "base_score MEDIUM = 5"
| "base_score HIGH = 15 / 2"
| "base_score CRITICAL = 9"

datatype confidence = SUSPECTED | CONFIRMED_FLOW | EXPLOITED

fun confidence_value :: "confidence \<Rightarrow> str" where
  "confidence_value SUSPECTED = ''SUSPECTED''"
| "confidence_value CONFIRMED_FLOW = ''CONFIRMED''"
| "confidence_value EXPLOITED = ''EXPLOITED''"

fun multiplier :: "confidence \<Rightarrow> rat" where
  "multiplier SUSPECTED = 7 / 10"
| "multiplier CONFIRMED_FLOW = 1"
| "multiplier EXPLOITED = 6 / 5"

fun allowed_transitions :: "finding_status \<Rightarrow> finding_status set" where
  "allowed_transitions OPEN = {CONFIRMED, REMEDIATED, FALSE_POSITIVE, ACCEPTED_RISK}"
| "allowed_transitions CONFIRMED = {REMEDIATED, FALSE_POSITIVE, ACCEPTED_RISK}"
| "allowed_transitions REMEDIATED = {OPEN, CONFIRMED}"
| "allowed_transitions FALSE_POSITIVE = {OPEN}"
| "allowed_transitions ACCEPTED_RISK = {OPEN}"

section \<open>Risk score\<close>

text \<open>\<open>round(x, 2)\<close> and \<open>f"{x:.2f}"\<close>: to the nearest hundredth, ties to the even one.\<close>

definition round_even :: "rat \<Rightarrow> int" where
  "round_even x =
     (let f = \<lfloor>x\<rfloor>; d = x - of_int f in
      if d < 1 / 2 then f else if d > 1 / 2 then f + 1 else if even f then f else f + 1)"

definition round2 :: "rat \<Rightarrow> rat" where "round2 x = of_int (round_even (100 * x)) / 100"

definition fmt2 :: "rat \<Rightarrow> str" where
  "fmt2 x =
     (let h = round_even (100 * x); a = nat \<bar>h\<bar>; frac = a mod 100 in
      (if x < 0 then ''-'' else []) @ nat_digits (a div 100) @ ''.'' @
      (if frac < 10 then ''0'' else []) @ nat_digits frac)"

type_synonym factor = "str \<times> rat \<times> str"

record risk_score =
  rs_value :: rat
  rs_factors :: "factor list"

definition band :: "risk_score \<Rightarrow> severity" where
  "band s =
     (if rs_value s \<ge> 9 then CRITICAL else if rs_value s \<ge> 7 then HIGH
      else if rs_value s \<ge> 4 then MEDIUM else if rs_value s \<ge> 1 then LOW else INFO)"

fun bit_length :: "nat \<Rightarrow> nat" where
  "bit_length n = (if n = 0 then 0 else Suc (bit_length (n div 2)))"

declare bit_length.simps [simp del]

fun confidence_reason :: "confidence \<Rightarrow> str" where
  "confidence_reason EXPLOITED = ''EXPLOITED: an attack payload reached the sink''"
| "confidence_reason CONFIRMED_FLOW = ''CONFIRMED: dataflow confirmed from source to sink''"
| "confidence_reason SUSPECTED = ''SUSPECTED: dataflow incomplete or imprecise''"

definition recurrence_bonus :: "nat \<Rightarrow> rat" where
  "recurrence_bonus n = (if n > 1 then min (1 / 2) (1 / 10 * of_nat (bit_length n - 1)) else 0)"

definition score_finding ::
    "severity \<Rightarrow> confidence \<Rightarrow> rat \<Rightarrow> rat \<Rightarrow> bool \<Rightarrow> nat \<Rightarrow> risk_score" where
  "score_finding sev conf exposure_weight criticality_weight attack_observed occurrence_count =
     (let base = base_score sev;
          s1 = base * multiplier conf;
          s2 = s1 * exposure_weight;
          s3 = s2 * criticality_weight;
          s4 = (if attack_observed then s3 + 1 else s3);
          s5 = s4 + recurrence_bonus occurrence_count
      in \<lparr>rs_value = round2 (min s5 10),
          rs_factors =
            [(''severity'', base, severity_value sev @ '' rule class''),
             (''confidence'', s1 - base, confidence_reason conf),
             (''exposure'', s2 - s1, ''environment weight '' @ fmt2 exposure_weight),
             (''business criticality'', s3 - s2, ''application weight '' @ fmt2 criticality_weight)]
            @ (if attack_observed then [(''active attack'', s4 - s3, ''exploitation attempts observed'')] else [])
            @ (if occurrence_count > 1
               then [(''recurrence'', s5 - s4, nat_digits occurrence_count @ '' occurrences'')] else [])\<rparr>)"

lemma round_even_mono: "x \<le> y \<Longrightarrow> round_even x \<le> round_even y"
proof -
  assume le: "x \<le> y"
  then have f: "\<lfloor>x\<rfloor> \<le> \<lfloor>y\<rfloor>" by (rule floor_mono)
  show ?thesis
  proof (cases "\<lfloor>x\<rfloor> = \<lfloor>y\<rfloor>")
    case True
    with le show ?thesis by (auto simp: round_even_def Let_def)
  next
    case False
    with f have "\<lfloor>x\<rfloor> + 1 \<le> \<lfloor>y\<rfloor>" by simp
    then show ?thesis by (auto simp: round_even_def Let_def)
  qed
qed

lemma round_even_int [simp]: "round_even (of_int i) = i" "round_even 0 = 0" "round_even (numeral k) = numeral k"
  by (simp_all add: round_even_def Let_def)

lemma round_even_near: "\<bar>of_int (round_even x) - x\<bar> \<le> 1 / 2"
proof -
  have "of_int \<lfloor>x\<rfloor> \<le> x" "x < of_int \<lfloor>x\<rfloor> + 1" by linarith+
  then show ?thesis by (auto simp: round_even_def Let_def)
qed

lemma round2_mono: "x \<le> y \<Longrightarrow> round2 x \<le> round2 y"
  by (simp add: round2_def divide_right_mono round_even_mono)

lemma round2_bounds: "0 \<le> x \<Longrightarrow> x \<le> 10 \<Longrightarrow> 0 \<le> round2 x \<and> round2 x \<le> 10"
  using round_even_mono [of 0 "100 * x"] round_even_mono [of "100 * x" 1000]
  by (simp add: round2_def field_simps)

lemma round2_near: "\<bar>round2 x - x\<bar> \<le> 1 / 200"
  using round_even_near [of "100 * x"] by (simp add: round2_def abs_le_iff field_simps)

lemma recurrence_bonus_range: "0 \<le> recurrence_bonus n \<and> recurrence_bonus n \<le> 1 / 2"
  by (auto simp: recurrence_bonus_def min_def)

lemma bit_length_mono: "m \<le> n \<Longrightarrow> bit_length m \<le> bit_length n"
proof (induction n arbitrary: m rule: less_induct)
  case (less n)
  show ?case
  proof (cases "m = 0")
    case False
    with less.prems have "m div 2 \<le> n div 2" "n div 2 < n" by (simp_all add: div_le_mono)
    with less.IH [of "n div 2" "m div 2"] False less.prems show ?thesis
      by (subst (1 2) bit_length.simps) simp
  qed (simp add: bit_length.simps [of 0])
qed

lemma recurrence_bonus_mono: "m \<le> n \<Longrightarrow> recurrence_bonus m \<le> recurrence_bonus n"
  using bit_length_mono [of m n] by (auto simp: recurrence_bonus_def min_def)

text \<open>The score before clamping and rounding.\<close>

definition raw_score :: "severity \<Rightarrow> confidence \<Rightarrow> rat \<Rightarrow> rat \<Rightarrow> bool \<Rightarrow> nat \<Rightarrow> rat" where
  "raw_score sev conf ew cw attack n =
     base_score sev * multiplier conf * ew * cw + (if attack then 1 else 0) + recurrence_bonus n"

lemma score_finding_value:
  "rs_value (score_finding sev conf ew cw attack n) = round2 (min (raw_score sev conf ew cw attack n) 10)"
  by (simp add: score_finding_def Let_def raw_score_def)

lemma base_score_pos: "0 < base_score s" by (cases s) simp_all
lemma multiplier_pos: "0 < multiplier c" by (cases c) simp_all

lemma score_factors_sum:
  "sum_list (map (fst \<circ> snd) (rs_factors (score_finding sev conf ew cw attack n)))
     = raw_score sev conf ew cw attack n"
  by (simp add: score_finding_def Let_def raw_score_def recurrence_bonus_def)

text \<open>
  The risk score, for non-negative weights: it lies between 0 and 10; the recorded factors
  add up to the score before clamping and rounding, so the breakdown explains the number; it never
  falls when severity or confidence rises, when an attack is seen or when there are more
  occurrences; and occurrences alone move it by at most half a point (plus one hundredth of
  rounding), however many there are.
\<close>

theorem risk_score_meaning:
  assumes "0 \<le> ew" "0 \<le> cw"
  shows "0 \<le> rs_value (score_finding sev conf ew cw attack n) \<and>
         rs_value (score_finding sev conf ew cw attack n) \<le> 10 \<and>
         rs_value (score_finding sev conf ew cw attack n) =
           round2 (min (sum_list (map (fst \<circ> snd) (rs_factors (score_finding sev conf ew cw attack n)))) 10) \<and>
         (\<forall>sev' conf' attack' m. base_score sev' \<le> base_score sev \<and> multiplier conf' \<le> multiplier conf \<and>
            (attack' \<longrightarrow> attack) \<and> m \<le> n \<longrightarrow>
            rs_value (score_finding sev' conf' ew cw attack' m) \<le> rs_value (score_finding sev conf ew cw attack n)) \<and>
         rs_value (score_finding sev conf ew cw attack n) \<le> rs_value (score_finding sev conf ew cw attack 0) + 51 / 100"
proof (intro conjI allI impI)
  let ?raw = "raw_score sev conf ew cw attack n"
  have prod: "0 \<le> base_score s * multiplier c * ew * cw" for s c
    using assms base_score_pos [of s] multiplier_pos [of c] by simp
  have nonneg: "0 \<le> ?raw" using prod recurrence_bonus_range [of n] by (auto simp: raw_score_def)
  then show "0 \<le> rs_value (score_finding sev conf ew cw attack n)"
    "rs_value (score_finding sev conf ew cw attack n) \<le> 10"
    using round2_bounds [of "min ?raw 10"] by (simp_all add: score_finding_value)
  show "rs_value (score_finding sev conf ew cw attack n) =
      round2 (min (sum_list (map (fst \<circ> snd) (rs_factors (score_finding sev conf ew cw attack n)))) 10)"
    by (simp only: score_factors_sum score_finding_value)
  show "rs_value (score_finding sev' conf' ew cw attack' m) \<le> rs_value (score_finding sev conf ew cw attack n)"
    if "base_score sev' \<le> base_score sev \<and> multiplier conf' \<le> multiplier conf \<and> (attack' \<longrightarrow> attack) \<and> m \<le> n"
    for sev' conf' attack' m
  proof -
    have "base_score sev' * multiplier conf' \<le> base_score sev * multiplier conf"
      using that base_score_pos [of sev'] base_score_pos [of sev] multiplier_pos [of conf'] by (intro mult_mono) auto
    then have "base_score sev' * multiplier conf' * ew * cw \<le> base_score sev * multiplier conf * ew * cw"
      using assms by (intro mult_right_mono)
    then have "raw_score sev' conf' ew cw attack' m \<le> ?raw"
      using that recurrence_bonus_mono [of m n] by (auto simp: raw_score_def)
    then show ?thesis unfolding score_finding_value by (intro round2_mono min.mono) auto
  qed
  have "?raw \<le> raw_score sev conf ew cw attack 0 + 1 / 2"
    using recurrence_bonus_range [of n] by (simp add: raw_score_def recurrence_bonus_def [of 0])
  then have "min ?raw 10 \<le> min (raw_score sev conf ew cw attack 0) 10 + 1 / 2" by auto
  then show "rs_value (score_finding sev conf ew cw attack n) \<le> rs_value (score_finding sev conf ew cw attack 0) + 51 / 100"
    using round2_near [of "min ?raw 10"] round2_near [of "min (raw_score sev conf ew cw attack 0) 10"]
    unfolding score_finding_value abs_le_iff by linarith
qed

theorem risk_score_meaning_witness:
  "rs_value (score_finding HIGH EXPLOITED (3/2) 1 True 1000) \<le> 10 \<and>
   rs_value (score_finding LOW SUSPECTED 1 1 False 1000000) \<le> rs_value (score_finding LOW SUSPECTED 1 1 False 0) + 51 / 100"
  using risk_score_meaning [of "3/2" 1 HIGH EXPLOITED True 1000]
    risk_score_meaning [of 1 1 LOW SUSPECTED False 1000000]
  by simp

section \<open>The finding\<close>

record finding =
  f_id :: uuid
  f_organization_id :: uuid
  f_application_id :: uuid
  f_identity_hash :: str
  f_rule_key :: str
  f_title :: str
  f_severity :: severity
  f_confidence :: confidence
  f_sink_signature :: str
  f_source_kind :: str
  f_stack_hash :: str
  f_status :: finding_status
  f_risk_score :: rat
  f_risk_factors :: "factor list"
  f_occurrence_count :: nat
  f_suppressed_occurrence_count :: nat
  f_would_block_count :: nat
  f_environments_seen :: "str list"
  f_route_templates :: "str list"
  f_first_seen_at :: "datetime option"
  f_last_seen_at :: "datetime option"
  f_remediated_at :: "datetime option"
  f_regressed :: bool
  f_accepted_until :: "datetime option"
  f_triage_note :: str
  f_triaged_by :: "uuid option"
  f_cwe_id :: "int option"

definition MAX_ROUTES :: nat where "MAX_ROUTES = 20"

datatype finding_error =
    No_title
  | No_identity_hash
  | Illegal_transition finding_status finding_status
  | Reason_required finding_status

text \<open>\<open>Finding(...)\<close> with the defaults of the dataclass, then \<open>__post_init__\<close>.\<close>

definition new_finding ::
    "uuid \<Rightarrow> uuid \<Rightarrow> uuid \<Rightarrow> str \<Rightarrow> str \<Rightarrow> str \<Rightarrow> severity \<Rightarrow> confidence \<Rightarrow> str \<Rightarrow> str \<Rightarrow> str \<Rightarrow> int option
       \<Rightarrow> finding_error + finding" where
  "new_finding fid org app identity rule_key title sev conf sig kind stack cwe =
     (let t = take 200 (strip title) in
      if t = [] then Inl No_title
      else if identity = [] then Inl No_identity_hash
      else Inr \<lparr>f_id = fid, f_organization_id = org, f_application_id = app, f_identity_hash = identity,
        f_rule_key = rule_key, f_title = t, f_severity = sev, f_confidence = conf,
        f_sink_signature = sig, f_source_kind = kind, f_stack_hash = stack, f_status = OPEN,
        f_risk_score = 0, f_risk_factors = [], f_occurrence_count = 0,
        f_suppressed_occurrence_count = 0, f_would_block_count = 0, f_environments_seen = [],
        f_route_templates = [], f_first_seen_at = None, f_last_seen_at = None,
        f_remediated_at = None, f_regressed = False, f_accepted_until = None, f_triage_note = [],
        f_triaged_by = None, f_cwe_id = cwe\<rparr>)"

definition record_would_block :: "finding \<Rightarrow> finding" where
  "record_would_block f = f\<lparr>f_would_block_count := f_would_block_count f + 1\<rparr>"

record sighting =
  si_environment :: str
  si_route :: str
  si_at :: datetime

definition note_sighting :: "sighting \<Rightarrow> finding \<Rightarrow> finding" where
  "note_sighting si f =
     (let f1 = f\<lparr>f_last_seen_at := Some (si_at si),
                 f_first_seen_at := (case f_first_seen_at f of None \<Rightarrow> Some (si_at si) | Some t \<Rightarrow> Some t)\<rparr>;
          f2 = (if si_environment si \<noteq> [] \<and> si_environment si \<notin> set (f_environments_seen f1)
                then f1\<lparr>f_environments_seen := f_environments_seen f1 @ [si_environment si]\<rparr> else f1)
      in (if si_route si \<noteq> [] \<and> si_route si \<notin> set (f_route_templates f2)
          then f2\<lparr>f_route_templates := take MAX_ROUTES (f_route_templates f2 @ [si_route si])\<rparr> else f2))"

text \<open>True when the finding reopened as a regression.\<close>

definition record_occurrence :: "sighting \<Rightarrow> finding \<Rightarrow> bool \<times> finding" where
  "record_occurrence si f =
     (let f1 = note_sighting si f in
      if is_suppressed (f_status f1)
      then (False, f1\<lparr>f_suppressed_occurrence_count := f_suppressed_occurrence_count f1 + 1\<rparr>)
      else
        (let f2 = f1\<lparr>f_occurrence_count := f_occurrence_count f1 + 1\<rparr> in
         if f_status f2 = REMEDIATED
         then (True, f2\<lparr>f_status := OPEN, f_regressed := True, f_remediated_at := None\<rparr>)
         else (False, f2)))"

definition rescore :: "risk_score \<Rightarrow> finding \<Rightarrow> finding" where
  "rescore s f = f\<lparr>f_risk_score := rs_value s, f_risk_factors := rs_factors s\<rparr>"

text \<open>\<open>accepted_for or timedelta(days=90)\<close>: a zero duration counts as not given.\<close>

definition transition ::
    "finding_status \<Rightarrow> uuid \<Rightarrow> datetime \<Rightarrow> str \<Rightarrow> timedelta option \<Rightarrow> finding \<Rightarrow> finding_error + finding" where
  "transition target actor now note accepted_for f =
     (if target = f_status f then Inr f
      else if target \<notin> allowed_transitions (f_status f) then Inl (Illegal_transition (f_status f) target)
      else if is_suppressed target \<and> strip note = [] then Inl (Reason_required target)
      else Inr (f\<lparr>f_status := target, f_triaged_by := Some actor, f_triage_note := take 2000 (strip note),
                  f_remediated_at := (if target = REMEDIATED then Some now else None),
                  f_regressed := (if target = REMEDIATED then False else f_regressed f),
                  f_accepted_until :=
                    (if target = ACCEPTED_RISK
                     then Some (now + (case accepted_for of
                                         None \<Rightarrow> days 90 | Some d \<Rightarrow> if d = 0 then days 90 else d))
                     else None)\<rparr>))"

definition expire_acceptance :: "datetime \<Rightarrow> finding \<Rightarrow> bool \<times> finding" where
  "expire_acceptance now f =
     (case f_accepted_until f of
        Some t \<Rightarrow> if f_status f = ACCEPTED_RISK \<and> t \<le> now
                  then (True, f\<lparr>f_status := OPEN, f_accepted_until := None\<rparr>) else (False, f)
      | None \<Rightarrow> (False, f))"

definition is_open_in_production :: "finding \<Rightarrow> bool" where
  "is_open_in_production f \<longleftrightarrow> is_actionable (f_status f) \<and> ''PRODUCTION'' \<in> set (f_environments_seen f)"

section \<open>The lifecycle as a step relation\<close>

text \<open>Everything that happens to a finding after it was created.\<close>

inductive finding_step :: "finding \<Rightarrow> finding \<Rightarrow> bool" where
  seen: "finding_step f (snd (record_occurrence si f))"
| would_block: "finding_step f (record_would_block f)"
| rescored: "finding_step f (rescore s f)"
| raised_confidence: "finding_step f (f\<lparr>f_confidence := c\<rparr>)"
| triaged: "transition target actor now note accepted_for f = Inr f' \<Longrightarrow> finding_step f f'"
| expired: "finding_step f (snd (expire_acceptance now f))"

inductive_cases finding_stepE: "finding_step f f'"

definition finding_ok :: "finding \<Rightarrow> bool" where
  "finding_ok f \<longleftrightarrow>
     (f_status f = ACCEPTED_RISK \<longleftrightarrow> f_accepted_until f \<noteq> None) \<and>
     (f_status f = REMEDIATED \<longleftrightarrow> f_remediated_at f \<noteq> None) \<and>
     (is_suppressed (f_status f) \<longrightarrow> f_triage_note f \<noteq> [] \<and> f_triaged_by f \<noteq> None) \<and>
     (f_status f = REMEDIATED \<longrightarrow> \<not> f_regressed f) \<and>
     distinct (f_environments_seen f) \<and> [] \<notin> set (f_environments_seen f) \<and>
     distinct (f_route_templates f) \<and> [] \<notin> set (f_route_templates f) \<and>
     length (f_route_templates f) \<le> MAX_ROUTES \<and> f_title f \<noteq> [] \<and> length (f_title f) \<le> 200 \<and>
     f_identity_hash f \<noteq> [] \<and> (f_first_seen_at f = None \<longleftrightarrow> f_last_seen_at f = None) \<and>
     length (f_triage_note f) \<le> 2000"

lemma note_sighting_simps [simp]:
  "f_status (note_sighting si f) = f_status f"
  "f_occurrence_count (note_sighting si f) = f_occurrence_count f"
  "f_suppressed_occurrence_count (note_sighting si f) = f_suppressed_occurrence_count f"
  "f_accepted_until (note_sighting si f) = f_accepted_until f"
  "f_remediated_at (note_sighting si f) = f_remediated_at f"
  "f_regressed (note_sighting si f) = f_regressed f"
  "f_triage_note (note_sighting si f) = f_triage_note f"
  "f_triaged_by (note_sighting si f) = f_triaged_by f"
  "f_identity_hash (note_sighting si f) = f_identity_hash f"
  "f_title (note_sighting si f) = f_title f"
  "f_organization_id (note_sighting si f) = f_organization_id f"
  "f_last_seen_at (note_sighting si f) = Some (si_at si)"
  "f_first_seen_at (note_sighting si f) \<noteq> None"
  by (auto simp: note_sighting_def Let_def split: option.splits)

lemma note_sighting_environments:
  "f_environments_seen (note_sighting si f) =
     (if si_environment si \<noteq> [] \<and> si_environment si \<notin> set (f_environments_seen f)
      then f_environments_seen f @ [si_environment si] else f_environments_seen f)"
  by (simp add: note_sighting_def Let_def)

lemma note_sighting_routes:
  "f_route_templates (note_sighting si f) =
     (if si_route si \<noteq> [] \<and> si_route si \<notin> set (f_route_templates f)
      then take MAX_ROUTES (f_route_templates f @ [si_route si]) else f_route_templates f)"
  by (simp add: note_sighting_def Let_def)

lemma note_sighting_lists:
  assumes "finding_ok f"
  shows "distinct (f_environments_seen (note_sighting si f))" "[] \<notin> set (f_environments_seen (note_sighting si f))"
    "distinct (f_route_templates (note_sighting si f))" "[] \<notin> set (f_route_templates (note_sighting si f))"
    "length (f_route_templates (note_sighting si f)) \<le> MAX_ROUTES"
  unfolding note_sighting_environments note_sighting_routes
  using assms unfolding finding_ok_def by (auto intro!: distinct_take dest: in_set_takeD)

lemma note_sighting_ok: "finding_ok f \<Longrightarrow> finding_ok (note_sighting si f)"
  using note_sighting_lists [of f si] by (simp add: finding_ok_def)

lemma record_occurrence_ok [inv_intros]: "finding_ok f \<Longrightarrow> finding_ok (snd (record_occurrence si f))"
  using note_sighting_ok [of f si]
  by (auto simp: record_occurrence_def Let_def finding_ok_def is_suppressed_def)

lemma transition_ok [inv_intros]:
  assumes "finding_ok f" "transition target actor now note accepted_for f = Inr f'"
  shows "finding_ok f'"
proof (cases "target = f_status f")
  case True
  with assms show ?thesis by (simp add: transition_def)
next
  case False
  with assms(2) have "is_suppressed target \<longrightarrow> take 2000 (strip note) \<noteq> []"
    and f': "f' = f\<lparr>f_status := target, f_triaged_by := Some actor, f_triage_note := take 2000 (strip note),
        f_remediated_at := (if target = REMEDIATED then Some now else None),
        f_regressed := (if target = REMEDIATED then False else f_regressed f),
        f_accepted_until := (if target = ACCEPTED_RISK
           then Some (now + (case accepted_for of None \<Rightarrow> days 90 | Some d \<Rightarrow> if d = 0 then days 90 else d))
           else None)\<rparr>"
    by (auto simp: transition_def split: if_splits)
  with assms(1) show ?thesis by (simp add: finding_ok_def)
qed

lemma finding_step_ok: "finding_step f f' \<Longrightarrow> finding_ok f \<Longrightarrow> finding_ok f'"
proof (induction rule: finding_step.induct)
  case (expired f now)
  then show ?case
    by (cases "f_accepted_until f") (auto simp: expire_acceptance_def finding_ok_def is_suppressed_def)
next
  case (seen f si)
  then show ?case by (rule record_occurrence_ok)
next
  case (triaged target actor now nt accepted_for f f')
  then show ?case by (blast intro: transition_ok)
qed (simp_all add: record_would_block_def rescore_def finding_ok_def)

lemma new_finding_ok: "new_finding fid org app identity rule title sev conf sig kind stack cwe = Inr f \<Longrightarrow> finding_ok f"
  by (auto simp: new_finding_def finding_ok_def is_suppressed_def Let_def split: if_splits)

text \<open>
  C18. The lifecycle invariant: a finding reached from a new one by any sequence of sightings,
  rescorings, accepted triage decisions and expirations is consistent: it has an acceptance
  deadline exactly when its risk is accepted and a remediation date exactly when it is remediated;
  a suppressed finding names who suppressed it and why; a remediated one is not flagged as
  regressed; its environments and routes are distinct and non-empty, at most 20 routes; its title
  and note keep their bounds. And its status only ever moves along the table of allowed
  transitions or back to OPEN.
\<close>

theorem finding_lifecycle_invariant:
  assumes "new_finding fid org app identity rule title sev conf sig kind stack cwe = Inr f0"
    and "finding_step\<^sup>*\<^sup>* f0 f"
  shows "finding_ok f \<and>
         (\<forall>f'. finding_step f f' \<longrightarrow> f_status f' = f_status f \<or> f_status f' \<in> allowed_transitions (f_status f) \<or>
            f_status f' = OPEN)"
proof
  show "finding_ok f"
    using assms(2) by induction (auto intro: finding_step_ok new_finding_ok [OF assms(1)])
  show "\<forall>f'. finding_step f f' \<longrightarrow> f_status f' = f_status f \<or> f_status f' \<in> allowed_transitions (f_status f) \<or>
            f_status f' = OPEN"
    by (auto elim!: finding_stepE simp: record_occurrence_def Let_def record_would_block_def rescore_def
        transition_def expire_acceptance_def split: if_splits option.splits)
qed

definition sample_finding :: finding where
  "sample_finding = (case new_finding ''f'' ''o'' ''a'' ''h'' ''sqli'' ''SQL injection'' HIGH CONFIRMED_FLOW
       ''exec'' ''PARAM'' ''s'' (Some 89) of Inr f \<Rightarrow> f | Inl _ \<Rightarrow> undefined)"

definition sample_sighting :: sighting where
  "sample_sighting = \<lparr>si_environment = ''PRODUCTION'', si_route = ''/x'', si_at = 5\<rparr>"

lemma sample_finding_new: "new_finding ''f'' ''o'' ''a'' ''h'' ''sqli'' ''SQL injection'' HIGH CONFIRMED_FLOW
    ''exec'' ''PARAM'' ''s'' (Some 89) = Inr sample_finding"
proof -
  have "strip ''SQL injection'' = ''SQL injection''" by code_simp
  then show ?thesis by (simp add: sample_finding_def new_finding_def)
qed

theorem finding_lifecycle_invariant_witness:
  "finding_ok (snd (record_occurrence sample_sighting sample_finding))"
proof -
  have "finding_step\<^sup>*\<^sup>* sample_finding (snd (record_occurrence sample_sighting sample_finding))"
    by (intro r_into_rtranclp finding_step.seen)
  from finding_lifecycle_invariant [OF sample_finding_new this] show ?thesis by blast
qed

section \<open>Recurrences\<close>

definition sightings :: "sighting list \<Rightarrow> finding \<Rightarrow> finding" where
  "sightings os f = fold (\<lambda>si f. snd (record_occurrence si f)) os f"

lemma record_occurrence_counts:
  "f_status (snd (record_occurrence si f)) = (if f_status f = REMEDIATED then OPEN else f_status f)"
  "is_suppressed (f_status f) \<Longrightarrow>
     f_suppressed_occurrence_count (snd (record_occurrence si f)) = Suc (f_suppressed_occurrence_count f) \<and>
     f_occurrence_count (snd (record_occurrence si f)) = f_occurrence_count f"
  "\<not> is_suppressed (f_status f) \<Longrightarrow>
     f_occurrence_count (snd (record_occurrence si f)) = Suc (f_occurrence_count f) \<and>
     f_suppressed_occurrence_count (snd (record_occurrence si f)) = f_suppressed_occurrence_count f"
  "f_regressed (snd (record_occurrence si f)) \<longleftrightarrow> f_regressed f \<or> f_status f = REMEDIATED"
  "fst (record_occurrence si f) \<longleftrightarrow> f_status f = REMEDIATED"
  by (auto simp: record_occurrence_def Let_def is_suppressed_def)

text \<open>
  Recurrences: after any number of sightings and nothing else, a suppressed finding is still
  suppressed and has counted every one of them separately; any other finding has counted every
  one as an occurrence, and is open again, flagged as a regression, exactly when it was remediated.
\<close>

theorem suppression_absorbs_recurrences:
  "(is_suppressed (f_status f) \<longrightarrow>
      f_status (sightings os f) = f_status f \<and>
      f_suppressed_occurrence_count (sightings os f) = f_suppressed_occurrence_count f + length os \<and>
      f_occurrence_count (sightings os f) = f_occurrence_count f) \<and>
   (\<not> is_suppressed (f_status f) \<longrightarrow>
      f_occurrence_count (sightings os f) = f_occurrence_count f + length os \<and>
      f_suppressed_occurrence_count (sightings os f) = f_suppressed_occurrence_count f \<and>
      (os \<noteq> [] \<longrightarrow>
         f_status (sightings os f) = (if f_status f = REMEDIATED then OPEN else f_status f) \<and>
         (f_regressed (sightings os f) \<longleftrightarrow> f_regressed f \<or> f_status f = REMEDIATED)))"
proof (induction os arbitrary: f)
  case (Cons si os)
  let ?f1 = "snd (record_occurrence si f)"
  have step: "sightings (si # os) f = sightings os ?f1" by (simp add: sightings_def)
  have "sightings [] ?f1 = ?f1" by (simp add: sightings_def)
  then show ?case
    using Cons [of ?f1] record_occurrence_counts [where si = si and f = f]
    unfolding step by (cases os; cases "f_status f") (simp_all add: is_suppressed_def)
qed (simp add: sightings_def)

theorem suppression_absorbs_recurrences_witness:
  "f_suppressed_occurrence_count (sightings [sample_sighting, sample_sighting]
     (sample_finding\<lparr>f_status := ACCEPTED_RISK\<rparr>)) =
   f_suppressed_occurrence_count (sample_finding\<lparr>f_status := ACCEPTED_RISK\<rparr>) + 2"
  using suppression_absorbs_recurrences [of "sample_finding\<lparr>f_status := ACCEPTED_RISK\<rparr>"
      "[sample_sighting, sample_sighting]"]
  by (simp add: is_suppressed_def)

end
