(* ===== verification/FindingIdentity.thy ===== *)
theory FindingIdentity
  imports FindingEntity
begin

text \<open>
  The deterministic identity of a finding (\<open>stack_fingerprint\<close>, \<open>finding_identity\<close> and
  \<open>_normalize_signature\<close> of \<open>domain/entities/findings.py\<close>). SHA-256 as a hexadecimal string is the
  parameter \<open>sha\<close>; what is proved about it speaks of its input, so an equality of hashes is either
  an equality of inputs or a collision.
\<close>

text \<open>A frame: declaring class, method, and whether it is application code; innermost first.\<close>

type_synonym frame = "str \<times> str \<times> bool"

definition stack_fingerprint :: "(str \<Rightarrow> str) \<Rightarrow> frame list \<Rightarrow> nat \<Rightarrow> str" where
  "stack_fingerprint sha frames depth =
     sha (join ''|'' (take depth (map (\<lambda>(c, m, _). c @ ''#'' @ m) (filter (\<lambda>(_, _, is_app). is_app) frames))))"

definition normalize_signature :: "str \<Rightarrow> str" where
  "normalize_signature signature =
     lower (strip (hd (split_on (CHR '':'') (join '' '' (split_ws signature)))))"

definition identity_parts :: "uuid \<Rightarrow> uuid \<Rightarrow> str \<Rightarrow> str \<Rightarrow> str \<Rightarrow> str \<Rightarrow> str list" where
  "identity_parts org app rule_key sink_signature source_kind stack_hash =
     [org, app, lower (strip rule_key), normalize_signature sink_signature,
      upper (strip source_kind), stack_hash]"

definition finding_identity ::
    "(str \<Rightarrow> str) \<Rightarrow> uuid \<Rightarrow> uuid \<Rightarrow> str \<Rightarrow> str \<Rightarrow> str \<Rightarrow> str \<Rightarrow> str" where
  "finding_identity sha org app rule_key sink_signature source_kind stack_hash =
     sha (join [CHR 0x1F] (identity_parts org app rule_key sink_signature source_kind stack_hash))"

section \<open>The fingerprint sees the innermost application frame only\<close>

text \<open>
  Stack fingerprint (ADR-0012): with the default depth it is the hash of the innermost
  application frame's class and method and of nothing else, so framework frames anywhere and
  callers further out never change it; without application frames it is the hash of the empty
  string.
\<close>

theorem fingerprint_is_innermost_application_frame:
  "stack_fingerprint sha frames 1 =
     sha (case find (\<lambda>(_, _, is_app). is_app) frames of
            None \<Rightarrow> [] | Some (c, m, _) \<Rightarrow> c @ ''#'' @ m)"
proof -
  have "take 1 (map (\<lambda>(c, m, _). c @ ''#'' @ m) (filter (\<lambda>(_, _, is_app). is_app) frames)) =
    (case find (\<lambda>(_, _, is_app). is_app) frames of None \<Rightarrow> [] | Some (c, m, _) \<Rightarrow> [c @ ''#'' @ m])"
    by (induction frames) (auto split: option.splits)
  then show ?thesis
    unfolding stack_fingerprint_def by (auto split: option.splits)
qed

section \<open>The identity determines what it was computed from\<close>

lemma split_on_join:
  assumes "\<forall>x \<in> set xs. c \<notin> set x" "xs \<noteq> []"
  shows "split_on c (join [c] xs) = xs"
proof -
  have word: "split_on c w = [w]" if "c \<notin> set w" for w
    using that by (induction w) auto
  have word_sep: "split_on c (w @ c # s) = w # split_on c s" if "c \<notin> set w" for w s
    using that by (induction w) auto
  show ?thesis
    using assms by (induction xs rule: induct_list012) (simp_all add: word word_sep)
qed

lemma join_inject:
  assumes "join [c] xs = join [c] ys" "xs \<noteq> []" "ys \<noteq> []"
    and "\<forall>x \<in> set xs. c \<notin> set x" "\<forall>y \<in> set ys. c \<notin> set y"
  shows "xs = ys"
  using split_on_join [of xs c] split_on_join [of ys c] assms by metis

lemma split_ws_clean:
  "\<forall>c \<in> set v. \<not> is_space c \<Longrightarrow> \<forall>w \<in> set (split_ws_acc v s). \<forall>c \<in> set w. \<not> is_space c"
proof (induction s arbitrary: v)
  case (Cons c s)
  show ?case
  proof (cases "is_space c")
    case True
    with Cons.IH [of "[]"] Cons.prems show ?thesis by simp
  next
    case False
    with Cons.IH [of "c # v"] Cons.prems show ?thesis by simp
  qed
qed simp

lemma set_join: "set (join sep xs) \<subseteq> set sep \<union> \<Union> (set ` set xs)"
  by (induction sep xs rule: join.induct) auto

lemma set_hd_split: "set (hd (split_on c s)) \<subseteq> set s"
proof -
  have ne: "split_on c s \<noteq> []" for s by (induction s) (auto split: list.splits)
  show ?thesis
  proof (induction s)
    case (Cons d s)
    obtain w ws where w: "split_on c s = w # ws" using ne [of s] by (cases "split_on c s") auto
    with Cons show ?case by auto
  qed simp
qed

lemma lower_char_unit: "lower_char d = CHR 0x1F \<longleftrightarrow> d = CHR 0x1F"
proof
  assume eq: "lower_char d = CHR 0x1F"
  show "d = CHR 0x1F"
  proof (cases "65 \<le> (of_char d :: nat) \<and> (of_char d :: nat) \<le> 90")
    case True
    then have "(of_char (lower_char d) :: nat) = of_char d + 32"
      by (simp add: lower_char_def of_char_of)
    with eq True show ?thesis by simp
  qed (use eq in \<open>auto simp: lower_char_def\<close>)
qed (simp add: lower_char_def)

lemma upper_char_unit: "upper_char d = CHR 0x1F \<longleftrightarrow> d = CHR 0x1F"
proof
  assume eq: "upper_char d = CHR 0x1F"
  show "d = CHR 0x1F"
  proof (cases "97 \<le> (of_char d :: nat) \<and> (of_char d :: nat) \<le> 122")
    case True
    then have "(of_char d :: nat) < 256" by linarith
    then have "(of_char d - 32 :: nat) < 256" by (rule less_imp_diff_less)
    then have "(of_char (upper_char d) :: nat) = of_char d - 32"
      using True by (simp only: upper_char_def Let_def simp_thms if_True of_char_of mod_less)
    then have "(of_char d :: nat) - 32 = 31" using eq by simp
    with True show ?thesis by linarith
  qed (use eq in \<open>auto simp: upper_char_def\<close>)
qed (simp add: upper_char_def)

lemma unit_in_lower: "CHR 0x1F \<in> set (lower s) \<longleftrightarrow> CHR 0x1F \<in> set s"
  unfolding lower_def set_map image_iff by (metis lower_char_unit)

lemma unit_in_upper: "CHR 0x1F \<in> set (upper s) \<longleftrightarrow> CHR 0x1F \<in> set s"
  unfolding upper_def set_map image_iff by (metis upper_char_unit)

lemma normalize_signature_clean: "CHR 0x1F \<notin> set (normalize_signature s)"
proof -
  have "CHR 0x1F \<notin> set (join '' '' (split_ws s))"
    using set_join [of "'' ''" "split_ws s"] split_ws_clean [of "[]" s]
    by (fastforce simp: split_ws_def is_space_def)
  then have "CHR 0x1F \<notin> set (strip (hd (split_on (CHR '':'') (join '' '' (split_ws s)))))"
    using strip_set set_hd_split by blast
  then show ?thesis by (simp add: normalize_signature_def unit_in_lower)
qed



end
