(* ===== verification/FindingPipeline.thy ===== *)
theory FindingPipeline
  imports FindingIdentity Json
begin

text \<open>
  The worker's pipeline (\<open>ProcessRuntimeEvents\<close> of \<open>application/findings.py\<close>): a batch of decoded
  records is grouped by tenant and folded into that tenant's findings, one transaction per tenant.
  A tenant's tables are kept as dictionaries, with the queries of \<open>SqlFindingRepository\<close> on them.
  An exception other than \<open>EventRejectedError\<close> rolls the current tenant back and ends the batch;
  it is \<open>Crash\<close>. Parameters: SHA-256, Python's \<open>repr\<close> of floats and containers, the clock, fresh
  UUIDs.
\<close>

section \<open>Tables\<close>

datatype environment_kind = DEVELOPMENT_ENV | QA_ENV | STAGING_ENV | PRODUCTION_ENV

fun environment_value :: "environment_kind \<Rightarrow> str" where
  "environment_value DEVELOPMENT_ENV = ''DEVELOPMENT''"
| "environment_value QA_ENV = ''QA''"
| "environment_value STAGING_ENV = ''STAGING''"
| "environment_value PRODUCTION_ENV = ''PRODUCTION''"

datatype criticality = LOW_CRIT | MEDIUM_CRIT | HIGH_CRIT | CRITICAL_CRIT

fun criticality_weight :: "criticality \<Rightarrow> rat" where
  "criticality_weight LOW_CRIT = 6 / 10"
| "criticality_weight MEDIUM_CRIT = 8 / 10"
| "criticality_weight HIGH_CRIT = 1"
| "criticality_weight CRITICAL_CRIT = 5 / 4"

record agent_context =
  ac_application_id :: uuid
  ac_environment_kind :: environment_kind
  ac_internet_facing :: bool
  ac_criticality :: criticality
  ac_protection_mode :: str

definition exposure_weight :: "agent_context \<Rightarrow> rat" where
  "exposure_weight c =
     (case ac_environment_kind c of
        DEVELOPMENT_ENV \<Rightarrow> 3 / 10 | QA_ENV \<Rightarrow> 4 / 10 | STAGING_ENV \<Rightarrow> 7 / 10 | PRODUCTION_ENV \<Rightarrow> 1)
     * (if ac_internet_facing c then 13 / 10 else 1)"

record occurrence =
  oc_finding_id :: uuid
  oc_environment :: str
  oc_trace_id :: str
  oc_request_method :: str
  oc_request_path :: str
  oc_route_template :: str
  oc_sink_argument :: str
  oc_tainted_ranges :: "(int \<times> int \<times> str \<times> str) list"
  oc_stack_frames :: "(str \<times> str \<times> int \<times> bool) list"
  oc_remote_address :: str
  oc_attack_detected :: bool
  oc_observed_at :: datetime

record tenant_db =
  td_agents :: "(uuid, agent_context) dict"
  td_findings :: "(str, finding) dict" \<comment> \<open>by identity hash, which is unique per tenant\<close>
  td_occurrences :: "occurrence list"

definition resolve_agent_context :: "tenant_db \<Rightarrow> str \<Rightarrow> agent_context option" where
  "resolve_agent_context db agent_id = Option.bind (uuid_of agent_id) (dget (td_agents db))"

definition get_by_identity :: "tenant_db \<Rightarrow> str \<Rightarrow> finding option" where
  "get_by_identity db identity = dget (td_findings db) identity"

definition upsert :: "finding \<Rightarrow> tenant_db \<Rightarrow> tenant_db" where
  "upsert f db = db\<lparr>td_findings := dput (f_identity_hash f) f (td_findings db)\<rparr>"

definition latest_occurrence_at :: "tenant_db \<Rightarrow> uuid \<Rightarrow> datetime option" where
  "latest_occurrence_at db fid =
     (let ts = map oc_observed_at (filter (\<lambda>oc. oc_finding_id oc = fid) (td_occurrences db))
      in if ts = [] then None else Some (Max (set ts)))"

section \<open>Reading a record\<close>

definition CWE_BY_RULE :: "(str \<times> int) list" where
  "CWE_BY_RULE =
     [(''sql-injection'', 89), (''command-injection'', 78), (''path-traversal'', 22),
      (''unsafe-deserialization'', 502), (''xxe'', 611), (''reflected-xss'', 79), (''ssrf'', 918),
      (''ldap-injection'', 90), (''xpath-injection'', 643), (''open-redirect'', 601),
      (''log-injection'', 117), (''header-injection'', 113)]"

definition TITLE_BY_RULE :: "(str \<times> str) list" where
  "TITLE_BY_RULE =
     [(''sql-injection'', ''SQL injection''), (''command-injection'', ''OS command injection''),
      (''path-traversal'', ''Path traversal''), (''unsafe-deserialization'', ''Unsafe deserialization''),
      (''xxe'', ''XML External Entity (XXE) injection''),
      (''reflected-xss'', ''Reflected cross-site scripting''), (''ssrf'', ''Server-side request forgery''),
      (''ldap-injection'', ''LDAP injection''), (''xpath-injection'', ''XPath injection''),
      (''open-redirect'', ''Open redirect''), (''log-injection'', ''Log injection''),
      (''header-injection'', ''HTTP header injection'')]"

datatype event_rejection =
    No_agent_id
  | Agent_not_registered str
  | No_usable_payload
  | Unknown_rule_key str
  | Unusable_organization_id json

datatype 'a outcome = Ok 'a | Reject event_rejection | Crash

text \<open>\<open>int(x)\<close>: a value, \<open>ValueError\<close> or \<open>TypeError\<close>, or \<open>OverflowError\<close> for an infinity.\<close>

datatype int_result = Int_value int | Value_or_type_error | Overflow_error

fun py_int_of :: "json \<Rightarrow> int_result" where
  "py_int_of (JInt i) = Int_value i"
| "py_int_of (JBool b) = Int_value (if b then 1 else 0)"
| "py_int_of (JFloat (Fin q)) = Int_value (if q < 0 then \<lceil>q\<rceil> else \<lfloor>q\<rfloor>)"
| "py_int_of (JFloat NaN) = Value_or_type_error"
| "py_int_of (JFloat f) = Overflow_error"
| "py_int_of (JStr s) = (case py_int s of Some i \<Rightarrow> Int_value i | None \<Rightarrow> Value_or_type_error)"
| "py_int_of j = Value_or_type_error"

text \<open>\<open>int(x or 0)\<close>.\<close>

definition int_or_0 :: "json \<Rightarrow> int_result" where
  "int_or_0 j = (if truthy j then py_int_of j else Int_value 0)"

text \<open>
  \<open>datetime.fromtimestamp(millis / 1000)\<close> raises past the year 9999; None is that exception.
\<close>

definition observed_at :: "datetime \<Rightarrow> obj \<Rightarrow> datetime option" where
  "observed_at now r =
     (case int_or_0 (jget r ''occurred_at_ms'') of
        Overflow_error \<Rightarrow> None
      | Value_or_type_error \<Rightarrow> Some now
      | Int_value millis \<Rightarrow>
          if millis \<le> 0 then Some now
          else if millis \<ge> 253402300800000 then None
          else Some (millis * 1000))"

definition parse_severity :: "(json \<Rightarrow> str) \<Rightarrow> json \<Rightarrow> severity" where
  "parse_severity rp raw =
     (case find (\<lambda>s. severity_value s = upper (removeprefix ''SEVERITY_'' (str_or_empty rp raw)))
             [INFO, LOW, MEDIUM, HIGH, CRITICAL] of
        Some s \<Rightarrow> s | None \<Rightarrow> MEDIUM)"

definition parse_confidence :: "(json \<Rightarrow> str) \<Rightarrow> json \<Rightarrow> confidence" where
  "parse_confidence rp raw =
     (case find (\<lambda>c. confidence_value c = upper (removeprefix ''CONFIDENCE_'' (str_or_empty rp raw)))
             [SUSPECTED, CONFIRMED_FLOW, EXPLOITED] of
        Some c \<Rightarrow> c | None \<Rightarrow> SUSPECTED)"

fun confidence_order :: "confidence \<Rightarrow> nat" where
  "confidence_order SUSPECTED = 0"
| "confidence_order CONFIRMED_FLOW = 1"
| "confidence_order EXPLOITED = 2"

definition primary_source_kind :: "(json \<Rightarrow> str) \<Rightarrow> json \<Rightarrow> str" where
  "primary_source_kind rp ranges =
     (case ranges of
        JList (JObj r # _) \<Rightarrow>
          (let k = upper (removeprefix ''SOURCE_KIND_'' (str_or_empty rp (jget r ''source'')))
           in if k = [] then ''UNKNOWN'' else k)
      | _ \<Rightarrow> ''UNKNOWN'')"

definition json_objects :: "json \<Rightarrow> obj list" where
  "json_objects j =
     (case j of JList xs \<Rightarrow> List.map_filter (\<lambda>x. case x of JObj d \<Rightarrow> Some d | _ \<Rightarrow> None) xs | _ \<Rightarrow> [])"

definition frames_of :: "(json \<Rightarrow> str) \<Rightarrow> json \<Rightarrow> frame list" where
  "frames_of rp stack =
     map (\<lambda>fr. (str_or_empty rp (jget fr ''declaring_class''), str_or_empty rp (jget fr ''method_name''),
                truthy (jget fr ''application_code''))) (json_objects stack)"

text \<open>The first entry whose number is not one raises.\<close>

fun all_some :: "'a option list \<Rightarrow> 'a list option" where
  "all_some [] = Some []"
| "all_some (x # xs) = Option.bind x (\<lambda>y. map_option (\<lambda>ys. y # ys) (all_some xs))"

definition int_value :: "int_result \<Rightarrow> int option" where
  "int_value r = (case r of Int_value i \<Rightarrow> Some i | _ \<Rightarrow> None)"

definition stack_frames_of :: "(json \<Rightarrow> str) \<Rightarrow> json \<Rightarrow> (str \<times> str \<times> int \<times> bool) list option" where
  "stack_frames_of rp stack =
     all_some (map (\<lambda>fr. map_option (\<lambda>n. (str_or_empty rp (jget fr ''declaring_class''),
                  str_or_empty rp (jget fr ''method_name''), n, truthy (jget fr ''application_code'')))
                (int_value (int_or_0 (jget fr ''line_number'')))) (json_objects stack))"

definition ranges_of :: "(json \<Rightarrow> str) \<Rightarrow> json \<Rightarrow> (int \<times> int \<times> str \<times> str) list option" where
  "ranges_of rp ranges =
     all_some (map (\<lambda>r. Option.bind (int_value (int_or_0 (jget r ''start''))) (\<lambda>s.
                        map_option (\<lambda>l. (s, l, str_or_empty rp (jget r ''source''),
                                         str_or_empty rp (jget r ''source_name'')))
                          (int_value (int_or_0 (jget r ''length''))))) (json_objects ranges))"

definition route_template_of :: "(json \<Rightarrow> str) \<Rightarrow> obj \<Rightarrow> str" where
  "route_template_of rp hit =
     (case jget_or hit ''request'' (JObj []) of
        JObj rq \<Rightarrow> take 500 (str_or_empty rp (if truthy (jget rq ''route_template'')
                                              then jget rq ''route_template'' else jget rq ''path''))
      | _ \<Rightarrow> [])"

definition rule_title :: "str \<Rightarrow> str" where
  "rule_title rule_key = (case dget TITLE_BY_RULE rule_key of Some t \<Rightarrow> t | None \<Rightarrow> rule_key)"

fun title_of :: "str \<Rightarrow> frame list \<Rightarrow> str" where
  "title_of rule_key [] = rule_title rule_key"
| "title_of rule_key ((declaring_class, method, is_application) # frames) =
     (if is_application \<and> declaring_class \<noteq> []
      then take 200 (rule_title rule_key @ '' in '' @ last (split_on (CHR ''.'') declaring_class) @ ''.'' @ method)
      else title_of rule_key frames)"

section \<open>One record\<close>

record processing_result =
  pr_created :: nat
  pr_updated :: nat
  pr_regressions :: nat
  pr_stored :: nat
  pr_rejected :: nat
  pr_ignored :: nat
  pr_rejections :: "event_rejection list"

definition empty_processing :: processing_result where
  "empty_processing = \<lparr>pr_created = 0, pr_updated = 0, pr_regressions = 0, pr_stored = 0,
     pr_rejected = 0, pr_ignored = 0, pr_rejections = []\<rparr>"

record pipeline =
  pl_db :: "uuid \<Rightarrow> tenant_db"
  pl_minted :: nat
  pl_ticks :: nat

record env =
  en_sha :: "str \<Rightarrow> str"
  en_repr :: "json \<Rightarrow> str"
  en_clock :: "nat \<Rightarrow> datetime"
  en_fresh :: "nat \<Rightarrow> uuid"

definition EVIDENCE_INTERVAL :: timedelta where "EVIDENCE_INTERVAL = hours 1"

definition should_keep_evidence :: "tenant_db \<Rightarrow> finding \<Rightarrow> datetime \<Rightarrow> bool" where
  "should_keep_evidence db f seen =
     (if f_occurrence_count f \<le> 1 then True
      else (case latest_occurrence_at db (f_id f) of
              None \<Rightarrow> True | Some latest \<Rightarrow> seen - latest \<ge> EVIDENCE_INTERVAL))"

text \<open>The guards of \<open>_apply\<close>: who reports it, for what, and which defect it is.\<close>

record taint_hit =
  th_hit :: obj
  th_context :: agent_context
  th_rule_key :: str
  th_frames :: "frame list"
  th_source_kind :: str
  th_identity :: str

definition read_hit :: "env \<Rightarrow> uuid \<Rightarrow> tenant_db \<Rightarrow> obj \<Rightarrow> event_rejection + taint_hit" where
  "read_hit en org db r =
     (let rp = en_repr en; agent_id = str_or_empty rp (jget r ''agent_id'') in
      if agent_id = [] then Inl No_agent_id
      else
        (case resolve_agent_context db agent_id of
           None \<Rightarrow> Inl (Agent_not_registered agent_id)
         | Some ctx \<Rightarrow>
             (case jget r ''payload'' of
                JObj hit \<Rightarrow>
                  (if dget hit ''sink_signature'' = None then Inl No_usable_payload
                   else
                     (let rule_key = lower (strip (str_or_empty rp (jget hit ''rule_key''))) in
                      if dget TITLE_BY_RULE rule_key = None then Inl (Unknown_rule_key rule_key)
                      else
                        (let frames = frames_of rp (jget_or hit ''stack'' (JList []));
                             kind = primary_source_kind rp (jget_or hit ''ranges'' (JList []))
                         in Inr \<lparr>th_hit = hit, th_context = ctx, th_rule_key = rule_key,
                              th_frames = frames, th_source_kind = kind,
                              th_identity =
                                finding_identity (en_sha en) org (ac_application_id ctx) rule_key
                                  (str_or_empty rp (jget hit ''sink_signature'')) kind
                                  (stack_fingerprint (en_sha en) frames 1)\<rparr>)))
              | _ \<Rightarrow> Inl No_usable_payload)))"

text \<open>The finding the record is about: a new one, or the known one with its confidence raised.\<close>

definition find_or_create :: "env \<Rightarrow> uuid \<Rightarrow> uuid \<Rightarrow> tenant_db \<Rightarrow> taint_hit \<Rightarrow> (bool \<times> finding) option" where
  "find_or_create en org fresh db th =
     (let rp = en_repr en; conf = parse_confidence rp (jget (th_hit th) ''confidence'') in
      case get_by_identity db (th_identity th) of
        None \<Rightarrow>
          (case new_finding fresh org (ac_application_id (th_context th)) (th_identity th) (th_rule_key th)
                  (title_of (th_rule_key th) (th_frames th))
                  (parse_severity rp (jget (th_hit th) ''severity'')) conf
                  (take 400 (str_or_empty rp (jget (th_hit th) ''sink_signature'')))
                  (th_source_kind th) (stack_fingerprint (en_sha en) (th_frames th) 1)
                  (dget CWE_BY_RULE (th_rule_key th)) of
             Inl _ \<Rightarrow> None
           | Inr f \<Rightarrow> Some (True, f))
      | Some f \<Rightarrow>
          Some (False, if confidence_order conf > confidence_order (f_confidence f)
                       then f\<lparr>f_confidence := conf\<rparr> else f))"

text \<open>What the record does to the finding: would-block count, occurrence, score.\<close>

definition fold_hit :: "env \<Rightarrow> taint_hit \<Rightarrow> datetime \<Rightarrow> finding \<Rightarrow> bool \<times> finding" where
  "fold_hit en th seen f =
     (let ctx = th_context th;
          f1 = (if f_confidence f = EXPLOITED \<and> ac_protection_mode ctx \<noteq> ''BLOCK''
                then record_would_block f else f);
          (regressed, f2) = record_occurrence
             \<lparr>si_environment = environment_value (ac_environment_kind ctx),
              si_route = route_template_of (en_repr en) (th_hit th), si_at = seen\<rparr> f1
      in (regressed,
          rescore (score_finding (f_severity f2) (f_confidence f2) (exposure_weight ctx)
                     (criticality_weight (ac_criticality ctx)) (f_confidence f2 = EXPLOITED)
                     (f_occurrence_count f2)) f2))"

text \<open>The evidence; None when reading it raises.\<close>

definition evidence :: "env \<Rightarrow> obj \<Rightarrow> taint_hit \<Rightarrow> datetime \<Rightarrow> finding \<Rightarrow> occurrence option" where
  "evidence en r th seen f =
     (let rp = en_repr en; hit = th_hit th in
      case jget_or hit ''request'' (JObj []) of
        JObj rq \<Rightarrow>
          Option.bind (ranges_of rp (jget_or hit ''ranges'' (JList []))) (\<lambda>rs.
          Option.bind (stack_frames_of rp (jget_or hit ''stack'' (JList []))) (\<lambda>fs.
            Some \<lparr>oc_finding_id = f_id f,
              oc_environment = environment_value (ac_environment_kind (th_context th)),
              oc_trace_id = take 64 (str_or_empty rp (jget r ''trace_id'')),
              oc_request_method = take 10 (str_or_empty rp (jget rq ''method'')),
              oc_request_path = take 500 (str_or_empty rp (jget rq ''path'')),
              oc_route_template = route_template_of rp hit,
              oc_sink_argument = str_or_empty rp (jget hit ''sink_argument''),
              oc_tainted_ranges = rs, oc_stack_frames = fs,
              oc_remote_address = str_or_empty rp (jget rq ''remote_addr''),
              oc_attack_detected = (parse_confidence rp (jget hit ''confidence'') = EXPLOITED),
              oc_observed_at = seen\<rparr>))
      | _ \<Rightarrow> None)"

definition apply_record ::
    "env \<Rightarrow> uuid \<Rightarrow> obj \<Rightarrow> tenant_db \<times> nat \<times> nat \<times> processing_result
       \<Rightarrow> (tenant_db \<times> nat \<times> nat \<times> processing_result) outcome" where
  "apply_record en org r = (\<lambda>(db, minted, ticks, res).
     if jget r ''type'' \<noteq> JStr ''EVENT_TYPE_TAINT_HIT''
     then Ok (db, minted, ticks, res\<lparr>pr_ignored := pr_ignored res + 1\<rparr>)
     else
       (case read_hit en org db r of
          Inl why \<Rightarrow> Reject why
        | Inr th \<Rightarrow>
            (case observed_at (en_clock en ticks) r of
               None \<Rightarrow> Crash
             | Some seen \<Rightarrow>
                 (case find_or_create en org (en_fresh en minted) db th of
                    None \<Rightarrow> Crash
                  | Some (created, f0) \<Rightarrow>
                      (let (regressed, f) = fold_hit en th seen f0;
                           db1 = upsert f db;
                           res1 = res\<lparr>pr_regressions := pr_regressions res + (if regressed then 1 else 0),
                                      pr_created := pr_created res + (if created then 1 else 0),
                                      pr_updated := pr_updated res + (if created then 0 else 1)\<rparr>;
                           minted1 = (if created then Suc minted else minted)
                       in if should_keep_evidence db1 f seen then
                            (case evidence en r th seen f of
                               None \<Rightarrow> Crash
                             | Some oc \<Rightarrow>
                                 Ok (db1\<lparr>td_occurrences := td_occurrences db1 @ [oc]\<rparr>, minted1, Suc ticks,
                                     res1\<lparr>pr_stored := pr_stored res1 + 1\<rparr>))
                          else Ok (db1, minted1, Suc ticks, res1))))))"

section \<open>The batch\<close>

definition record_event_rejection :: "event_rejection \<Rightarrow> processing_result \<Rightarrow> processing_result" where
  "record_event_rejection why res =
     res\<lparr>pr_rejected := pr_rejected res + 1,
         pr_rejections := (if length (pr_rejections res) < 50
                           then pr_rejections res @ [why] else pr_rejections res)\<rparr>"

text \<open>None is a record that is not an object, whose \<open>.get\<close> raises \<open>AttributeError\<close>.\<close>

fun group_by_tenant ::
    "(json \<Rightarrow> str) \<Rightarrow> json list \<Rightarrow> (uuid, obj list) dict \<Rightarrow> processing_result
       \<Rightarrow> ((uuid, obj list) dict \<times> processing_result) option" where
  "group_by_tenant rp [] grouped res = Some (grouped, res)"
| "group_by_tenant rp (JObj r # rs) grouped res =
     (case uuid_of (py_str rp (jget r ''organization_id'')) of
        None \<Rightarrow> group_by_tenant rp rs grouped
                  (record_event_rejection (Unusable_organization_id (jget r ''organization_id'')) res)
      | Some org \<Rightarrow>
          group_by_tenant rp rs
            (dput org ((case dget grouped org of None \<Rightarrow> [] | Some b \<Rightarrow> b) @ [r]) grouped) res)"
| "group_by_tenant rp (_ # rs) grouped res = None"

text \<open>One tenant's transaction; None when it is rolled back.\<close>

fun apply_batch ::
    "env \<Rightarrow> uuid \<Rightarrow> obj list \<Rightarrow> tenant_db \<times> nat \<times> nat \<times> processing_result
       \<Rightarrow> (tenant_db \<times> nat \<times> nat \<times> processing_result) option" where
  "apply_batch en org [] s = Some s"
| "apply_batch en org (r # rs) s =
     (case apply_record en org r s of
        Ok s' \<Rightarrow> apply_batch en org rs s'
      | Reject why \<Rightarrow>
          (case s of (db, minted, ticks, res) \<Rightarrow>
             apply_batch en org rs (db, minted, ticks, record_event_rejection why res))
      | Crash \<Rightarrow> None)"

fun process_tenants ::
    "env \<Rightarrow> (uuid, obj list) dict \<Rightarrow> pipeline \<Rightarrow> processing_result \<Rightarrow> processing_result option \<times> pipeline" where
  "process_tenants en [] p res = (Some res, p)"
| "process_tenants en ((org, batch) # rest) p res =
     (case apply_batch en org batch (pl_db p org, pl_minted p, pl_ticks p, res) of
        None \<Rightarrow> (None, p)
      | Some (db, minted, ticks, res') \<Rightarrow>
          process_tenants en rest
            (p\<lparr>pl_db := (pl_db p)(org := db), pl_minted := minted, pl_ticks := ticks\<rparr>) res')"

text \<open>\<open>ProcessRuntimeEvents.execute\<close>: None is an exception.\<close>

definition process_events :: "env \<Rightarrow> json list \<Rightarrow> pipeline \<Rightarrow> processing_result option \<times> pipeline" where
  "process_events en records p =
     (case group_by_tenant (en_repr en) records [] empty_processing of
        None \<Rightarrow> (None, p)
      | Some (grouped, res) \<Rightarrow> process_tenants en grouped p res)"

end
