(* ===== verification/FindingPipelineProps.thy ===== *)
theory FindingPipelineProps
  imports FindingPipeline
begin

text \<open>
  What the pipeline guarantees: counters that add up, findings that stay in their tenant and
  consistent, and a replayed stream that creates nothing new. The last part states two places where
  the counters do not mean what they are documented to mean.
\<close>

section \<open>Invariant of a tenant's tables\<close>

definition tenant_ok :: "uuid \<Rightarrow> tenant_db \<Rightarrow> bool" where
  "tenant_ok org db \<longleftrightarrow> dict_ok (td_findings db) \<and>
     (\<forall>(k, f) \<in> set (td_findings db). f_identity_hash f = k \<and> f_organization_id f = org \<and> finding_ok f)"

definition pipeline_ok :: "pipeline \<Rightarrow> bool" where
  "pipeline_ok p \<longleftrightarrow> (\<forall>org. tenant_ok org (pl_db p org))"

text \<open>Findings are kept, with their identifier, and their confidence is never lowered.\<close>

definition findings_kept :: "tenant_db \<Rightarrow> tenant_db \<Rightarrow> bool" where
  "findings_kept db db' \<longleftrightarrow> td_agents db' = td_agents db \<and>
     (\<forall>k f. get_by_identity db k = Some f \<longrightarrow>
        (\<exists>f'. get_by_identity db' k = Some f' \<and> f_id f' = f_id f \<and>
              confidence_order (f_confidence f) \<le> confidence_order (f_confidence f')))"

lemma findings_kept_refl [simp]: "findings_kept db db"
  by (simp add: findings_kept_def)

lemma findings_kept_trans: "findings_kept a b \<Longrightarrow> findings_kept b c \<Longrightarrow> findings_kept a c"
  unfolding findings_kept_def by (fastforce dest: order_trans)

lemma tenant_ok_get: "tenant_ok org db \<Longrightarrow> get_by_identity db k = Some f \<Longrightarrow>
    f_identity_hash f = k \<and> f_organization_id f = org \<and> finding_ok f"
  by (auto simp: tenant_ok_def get_by_identity_def dget_def dest!: map_of_SomeD)

lemma tenant_ok_upsert:
  assumes "tenant_ok org db" "f_organization_id f = org" "finding_ok f"
  shows "tenant_ok org (upsert f db)"
  using assms set_dput_subset [of "f_identity_hash f" f "td_findings db"]
  by (auto simp: tenant_ok_def upsert_def)

lemma tenant_ok_occurrences [simp]:
  "tenant_ok org (db\<lparr>td_occurrences := os\<rparr>) = tenant_ok org db"
  "findings_kept db (db'\<lparr>td_occurrences := os\<rparr>) = findings_kept db db'"
  by (simp_all add: tenant_ok_def findings_kept_def get_by_identity_def)

lemma get_upsert: "get_by_identity (upsert f db) k =
    (if k = f_identity_hash f then Some f else get_by_identity db k)"
  by (simp add: get_by_identity_def upsert_def dict_simps)

lemma upsert_agents [simp]: "td_agents (upsert f db) = td_agents db"
  by (simp add: upsert_def)

section \<open>One record\<close>

lemma rescore_frame [simp]:
  "f_id (rescore s f) = f_id f" "f_organization_id (rescore s f) = f_organization_id f"
  "f_identity_hash (rescore s f) = f_identity_hash f" "f_confidence (rescore s f) = f_confidence f"
  "f_status (rescore s f) = f_status f" "f_occurrence_count (rescore s f) = f_occurrence_count f"
  "f_would_block_count (rescore s f) = f_would_block_count f"
  "finding_ok (rescore s f) = finding_ok f"
  by (simp_all add: rescore_def finding_ok_def)

lemma finding_ok_confidence [simp]: "finding_ok (f\<lparr>f_confidence := c\<rparr>) = finding_ok f"
  by (simp add: finding_ok_def)

lemma would_block_frame [simp]:
  "f_id (record_would_block f) = f_id f" "f_organization_id (record_would_block f) = f_organization_id f"
  "f_identity_hash (record_would_block f) = f_identity_hash f"
  "f_confidence (record_would_block f) = f_confidence f"
  "f_status (record_would_block f) = f_status f"
  "f_occurrence_count (record_would_block f) = f_occurrence_count f"
  "finding_ok (record_would_block f) = finding_ok f"
  by (simp_all add: record_would_block_def finding_ok_def)

lemma note_sighting_frame [simp]:
  "f_id (note_sighting si f) = f_id f" "f_confidence (note_sighting si f) = f_confidence f"
  "f_would_block_count (note_sighting si f) = f_would_block_count f"
  by (simp_all add: note_sighting_def Let_def)

lemma record_occurrence_frame [simp]:
  "f_id (snd (record_occurrence si f)) = f_id f"
  "f_organization_id (snd (record_occurrence si f)) = f_organization_id f"
  "f_identity_hash (snd (record_occurrence si f)) = f_identity_hash f"
  "f_confidence (snd (record_occurrence si f)) = f_confidence f"
  "f_would_block_count (snd (record_occurrence si f)) = f_would_block_count f"
  by (simp_all add: record_occurrence_def Let_def)

lemma fold_hit_frame:
  assumes "fold_hit en th seen f = (regressed, f')"
  shows "f_id f' = f_id f \<and> f_organization_id f' = f_organization_id f \<and>
         f_identity_hash f' = f_identity_hash f \<and> f_confidence f' = f_confidence f \<and>
         (finding_ok f \<longrightarrow> finding_ok f') \<and> (regressed \<longleftrightarrow> f_status f = REMEDIATED)"
proof -
  let ?si = "\<lparr>si_environment = environment_value (ac_environment_kind (th_context th)),
      si_route = route_template_of (en_repr en) (th_hit th), si_at = seen\<rparr>"
  let ?f1 = "if f_confidence f = EXPLOITED \<and> ac_protection_mode (th_context th) \<noteq> ''BLOCK''
      then record_would_block f else f"
  have f1: "f_id ?f1 = f_id f" "f_organization_id ?f1 = f_organization_id f"
    "f_identity_hash ?f1 = f_identity_hash f" "f_confidence ?f1 = f_confidence f"
    "finding_ok ?f1 = finding_ok f" "f_status ?f1 = f_status f" by auto
  obtain rg f2 where occ: "record_occurrence ?si ?f1 = (rg, f2)" by fastforce
  have f2: "f_id f2 = f_id f" "f_organization_id f2 = f_organization_id f"
    "f_identity_hash f2 = f_identity_hash f" "f_confidence f2 = f_confidence f"
    "finding_ok f \<longrightarrow> finding_ok f2" "rg \<longleftrightarrow> f_status f = REMEDIATED"
    using record_occurrence_frame [of ?si ?f1] record_occurrence_ok [of ?f1 ?si]
      record_occurrence_counts(5) [of ?si ?f1]
    unfolding f1 occ by simp_all
  have "regressed = rg" "\<exists>s. f' = rescore s f2"
    using assms occ by (auto simp: fold_hit_def Let_def)
  with f2 show ?thesis by auto
qed

lemma find_or_create_ok:
  assumes "find_or_create en org fresh db th = Some (created, f)" "tenant_ok org db"
  shows "f_organization_id f = org \<and> f_identity_hash f = th_identity th \<and> finding_ok f \<and>
         (created \<longleftrightarrow> get_by_identity db (th_identity th) = None) \<and> (created \<longrightarrow> f_status f = OPEN) \<and>
         (\<forall>f0. get_by_identity db (th_identity th) = Some f0 \<longrightarrow>
            f_id f = f_id f0 \<and> confidence_order (f_confidence f0) \<le> confidence_order (f_confidence f))"
proof (cases "get_by_identity db (th_identity th)")
  case None
  with assms(1) obtain sev conf t sig kind stack cwe where
    new: "new_finding fresh org (ac_application_id (th_context th)) (th_identity th) (th_rule_key th)
      t sev conf sig kind stack cwe = Inr f" and "created"
    by (auto simp: find_or_create_def Let_def split: sum.splits)
  moreover from new have "f_organization_id f = org" "f_identity_hash f = th_identity th" "f_status f = OPEN"
    by (auto simp: new_finding_def Let_def split: if_splits)
  ultimately show ?thesis using None new_finding_ok [OF new] by simp
next
  case (Some f0)
  note ok = tenant_ok_get [OF assms(2) Some]
  with Some assms(1) show ?thesis by (auto simp: find_or_create_def Let_def split: if_splits)
qed

definition pr_total :: "processing_result \<Rightarrow> nat" where
  "pr_total r = pr_created r + pr_updated r + pr_rejected r + pr_ignored r"

definition pr_ok :: "processing_result \<Rightarrow> bool" where
  "pr_ok r \<longleftrightarrow> length (pr_rejections r) \<le> 50 \<and> pr_regressions r \<le> pr_updated r \<and>
     pr_stored r \<le> pr_created r + pr_updated r"

text \<open>A record that goes through: ignored, or folded into the finding of its identity.\<close>

lemma apply_record_cases:
  assumes "apply_record en org r (db, m, t, res) = Ok (db', m', t', res')"
  obtains (ignored) "jget r ''type'' \<noteq> JStr ''EVENT_TYPE_TAINT_HIT''" "db' = db"
      "res' = res\<lparr>pr_ignored := pr_ignored res + 1\<rparr>"
  | (folded) th seen created f0 regressed f os b where "jget r ''type'' = JStr ''EVENT_TYPE_TAINT_HIT''"
      "read_hit en org db r = Inr th"
      "find_or_create en org (en_fresh en m) db th = Some (created, f0)"
      "fold_hit en th seen f0 = (regressed, f)"
      "db' = (upsert f db)\<lparr>td_occurrences := os\<rparr>"
      "pr_created res' = pr_created res + (if created then 1 else 0)"
      "pr_updated res' = pr_updated res + (if created then 0 else 1)"
      "pr_regressions res' = pr_regressions res + (if regressed then 1 else 0)"
      "pr_stored res' = pr_stored res + (if b then 1 else 0)"
      "b \<longleftrightarrow> should_keep_evidence (upsert f db) f seen"
      "pr_rejected res' = pr_rejected res" "pr_ignored res' = pr_ignored res"
      "pr_rejections res' = pr_rejections res"
proof (cases "jget r ''type'' = JStr ''EVENT_TYPE_TAINT_HIT''")
  case False
  with assms ignored show thesis by (simp add: apply_record_def)
next
  case True
  with assms obtain th seen created f0 where
    1: "read_hit en org db r = Inr th" "observed_at (en_clock en t) r = Some seen"
      "find_or_create en org (en_fresh en m) db th = Some (created, f0)"
    by (auto simp: apply_record_def split: sum.splits option.splits)
  obtain regressed f where 2: "fold_hit en th seen f0 = (regressed, f)" by fastforce
  show thesis
  proof (cases "should_keep_evidence (upsert f db) f seen")
    case keep: True
    with assms True 1 2 show thesis
      by (intro folded [OF True 1(1,3) 2, of "td_occurrences db'" True])
        (auto simp: apply_record_def Let_def split: option.splits)
  next
    case skip: False
    with assms True 1 2 show thesis
      by (intro folded [OF True 1(1,3) 2, of "td_occurrences db'" False])
        (auto simp: apply_record_def Let_def split: option.splits)
  qed
qed

lemma read_hit_agents: "td_agents db' = td_agents db \<Longrightarrow> read_hit en org db' r = read_hit en org db r"
proof -
  assume "td_agents db' = td_agents db"
  then have "resolve_agent_context db' a = resolve_agent_context db a" for a
    by (simp add: resolve_agent_context_def)
  then show ?thesis unfolding read_hit_def by (simp only:)
qed

lemma apply_record_ok:
  assumes "apply_record en org r (db, m, t, res) = Ok (db', m', t', res')" "tenant_ok org db"
  shows "tenant_ok org db' \<and> findings_kept db db' \<and> pr_total res' = Suc (pr_total res) \<and>
         (pr_ok res \<longrightarrow> pr_ok res')"
  using assms(1)
proof (cases rule: apply_record_cases)
  case ignored
  with assms(2) show ?thesis by (simp add: pr_total_def pr_ok_def)
next
  case (folded th seen created f0 regressed f os b)
  note fc = find_or_create_ok [OF folded(3) assms(2)]
  note fh = fold_hit_frame [OF folded(4)]
  have "tenant_ok org (upsert f db)" by (rule tenant_ok_upsert [OF assms(2)]) (use fc fh in auto)
  moreover have "findings_kept db (upsert f db)"
    using fc fh by (auto simp: findings_kept_def get_upsert)
  moreover have "created \<Longrightarrow> \<not> regressed" using fc fh by auto
  ultimately show ?thesis
    using folded(5-) by (auto simp: pr_total_def pr_ok_def)
qed

section \<open>The batch\<close>

lemma record_event_rejection_total [simp]:
  "pr_total (record_event_rejection why res) = Suc (pr_total res)"
  "pr_ok res \<Longrightarrow> pr_ok (record_event_rejection why res)"
  by (auto simp: record_event_rejection_def pr_total_def pr_ok_def)

lemma apply_batch_ok:
  assumes "apply_batch en org batch (db, m, t, res) = Some (db', m', t', res')" "tenant_ok org db"
  shows "tenant_ok org db' \<and> findings_kept db db' \<and> pr_total res' = pr_total res + length batch \<and>
         (pr_ok res \<longrightarrow> pr_ok res')"
  using assms
proof (induction batch arbitrary: db m t res)
  case (Cons r rs)
  show ?case
  proof (cases "apply_record en org r (db, m, t, res)")
    case (Ok s)
    obtain db1 m1 t1 res1 where s: "s = (db1, m1, t1, res1)" by (cases s)
    with Cons.prems(1) Ok have "apply_batch en org rs (db1, m1, t1, res1) = Some (db', m', t', res')" by simp
    then show ?thesis
      using Cons.IH [of db1 m1 t1 res1] apply_record_ok [OF Ok [unfolded s] Cons.prems(2)]
      by (auto intro: findings_kept_trans)
  next
    case (Reject why)
    with Cons.prems(1)
    have "apply_batch en org rs (db, m, t, record_event_rejection why res) = Some (db', m', t', res')" by simp
    from Cons.IH [OF this Cons.prems(2)] show ?thesis by simp
  qed (use Cons.prems in simp)
qed simp

definition group_size :: "(uuid, obj list) dict \<Rightarrow> nat" where
  "group_size gs = sum_list (map (\<lambda>g. length (snd g)) gs)"

lemma group_size_simps [simp]:
  "group_size [] = 0" "group_size ((org, b) # gs) = length b + group_size gs"
  by (simp_all add: group_size_def)

lemma process_tenants_ok:
  assumes "process_tenants en gs p res = (out, p')" "pipeline_ok p"
  shows "pipeline_ok p' \<and> (\<forall>org. org \<notin> fst ` set gs \<longrightarrow> pl_db p' org = pl_db p org) \<and>
         (\<forall>org. findings_kept (pl_db p org) (pl_db p' org)) \<and>
         (\<forall>r. out = Some r \<longrightarrow> pr_total r = pr_total res + group_size gs \<and>
            (pr_ok res \<longrightarrow> pr_ok r))"
  using assms
proof (induction en gs p res arbitrary: out p' rule: process_tenants.induct)
  case (2 en org batch rest p res)
  show ?case
  proof (cases "apply_batch en org batch (pl_db p org, pl_minted p, pl_ticks p, res)")
    case None
    with 2 show ?thesis by simp
  next
    case (Some s)
    then obtain db m t res1 where s: "apply_batch en org batch (pl_db p org, pl_minted p, pl_ticks p, res)
        = Some (db, m, t, res1)" by (cases s) auto
    let ?p = "p\<lparr>pl_db := (pl_db p)(org := db), pl_minted := m, pl_ticks := t\<rparr>"
    have b: "tenant_ok org db \<and> findings_kept (pl_db p org) db \<and> pr_total res1 = pr_total res + length batch \<and>
         (pr_ok res \<longrightarrow> pr_ok res1)"
      using apply_batch_ok [OF s] 2(3) by (simp add: pipeline_ok_def)
    have "process_tenants en rest ?p res1 = (out, p')" using 2(2) s by simp
    moreover have "pipeline_ok ?p" using 2(3) b by (simp add: pipeline_ok_def)
    ultimately have IH: "pipeline_ok p'" "\<forall>o'. o' \<notin> fst ` set rest \<longrightarrow> pl_db p' o' = pl_db ?p o'"
      "\<forall>o'. findings_kept (pl_db ?p o') (pl_db p' o')"
      "\<forall>r. out = Some r \<longrightarrow> pr_total r = pr_total res1 + group_size rest \<and>
            (pr_ok res1 \<longrightarrow> pr_ok r)"
      using 2(1) [OF s refl refl refl] by blast+
    have "findings_kept (pl_db p o') (pl_db p' o')" for o'
      using IH(3) [rule_format, of o'] b by (cases "o' = org") (auto intro: findings_kept_trans)
    with IH b show ?thesis by auto
  qed
qed simp

text \<open>Grouping keeps every record once, under the organization its envelope names.\<close>

definition record_org :: "(json \<Rightarrow> str) \<Rightarrow> json \<Rightarrow> uuid option" where
  "record_org rp j = (case j of JObj r \<Rightarrow> uuid_of (py_str rp (jget r ''organization_id'')) | _ \<Rightarrow> None)"

lemma sum_lengths_dput:
  "dict_ok d \<Longrightarrow> group_size ((dput k ((case dget d k of None \<Rightarrow> [] | Some b \<Rightarrow> b) @ [r]) d))
     = Suc (group_size d)"
proof (induction d)
  case (Cons p d)
  obtain k' v where p: "p = (k', v)" by fastforce
  show ?case
  proof (cases "k' = k")
    case False
    have "dict_ok d" using Cons.prems by (simp add: dict_ok_def)
    then show ?thesis using Cons.IH False p by (simp add: dget_def)
  qed (simp add: p dget_def)
qed (simp add: dget_def)

lemma group_by_tenant_spec:
  assumes "group_by_tenant rp records g res = Some (g', res')" "dict_ok g"
  shows "dict_ok g' \<and>
         pr_total res' + group_size g' =
           pr_total res + group_size g + length records \<and>
         (pr_ok res \<longrightarrow> pr_ok res') \<and> pr_created res' = pr_created res \<and>
         (\<forall>org. (case dget g' org of None \<Rightarrow> [] | Some b \<Rightarrow> b) =
            (case dget g org of None \<Rightarrow> [] | Some b \<Rightarrow> b) @
            [r. JObj r \<leftarrow> records, record_org rp (JObj r) = Some org]) \<and>
         fst ` set g' = fst ` set g \<union> set (List.map_filter (record_org rp) records)"
  using assms
proof (induction rp records g res rule: group_by_tenant.induct)
  case (2 rp r rs g res)
  show ?case
  proof (cases "uuid_of (py_str rp (jget r ''organization_id''))")
    case None
    let ?res = "record_event_rejection (Unusable_organization_id (jget r ''organization_id'')) res"
    have "pr_created ?res = pr_created res" by (simp add: record_event_rejection_def)
    moreover have "record_org rp (JObj r) = None" using None by (simp add: record_org_def)
    ultimately show ?thesis
      using 2(1) [OF None] 2(3,4) None by (simp add: List.map_filter_def)
  next
    case (Some org)
    let ?g = "dput org ((case dget g org of None \<Rightarrow> [] | Some b \<Rightarrow> b) @ [r]) g"
    have "group_by_tenant rp rs ?g res = Some (g', res')" using 2(3) Some by simp
    moreover have "dict_ok ?g" using 2(4) by auto
    ultimately have IH: "dict_ok g' \<and>
         pr_total res' + group_size g' =
           pr_total res + group_size ?g + length rs \<and>
         (pr_ok res \<longrightarrow> pr_ok res') \<and> pr_created res' = pr_created res \<and>
         (\<forall>org. (case dget g' org of None \<Rightarrow> [] | Some b \<Rightarrow> b) =
            (case dget ?g org of None \<Rightarrow> [] | Some b \<Rightarrow> b) @
            [r. JObj r \<leftarrow> rs, record_org rp (JObj r) = Some org]) \<and>
         fst ` set g' = fst ` set ?g \<union> set (List.map_filter (record_org rp) rs)"
      by (rule 2(2) [OF Some])
    have "record_org rp (JObj r) = Some org" using Some by (simp add: record_org_def)
    with IH sum_lengths_dput [OF 2(4), of org r] show ?thesis
      by (auto simp: dict_simps List.map_filter_def)
  qed
qed (simp_all add: List.map_filter_def)

text \<open>
  C7. Accounting and consistency: a batch that is processed without an exception counts every
  record exactly once as created, updated, rejected or ignored, keeps at most 50 rejection messages,
  and counts no more regressions than updates and no more evidence than findings touched. The
  findings of every tenant stay consistent (keyed by their own identity, owned by that tenant, and
  satisfying the lifecycle invariant), whether the batch succeeds or not.
\<close>

theorem pipeline_accounting:
  assumes "pipeline_ok p" "process_events en records p = (out, p')"
  shows "pipeline_ok p' \<and>
         (\<forall>res. out = Some res \<longrightarrow>
            pr_created res + pr_updated res + pr_rejected res + pr_ignored res = length records \<and>
            length (pr_rejections res) \<le> 50 \<and> pr_regressions res \<le> pr_updated res \<and>
            pr_stored res \<le> pr_created res + pr_updated res)"
proof (cases "group_by_tenant (en_repr en) records [] empty_processing")
  case None
  with assms show ?thesis by (auto simp: process_events_def)
next
  case (Some g)
  obtain grouped res0 where g: "group_by_tenant (en_repr en) records [] empty_processing = Some (grouped, res0)"
    using Some by (cases g) auto
  have run: "process_tenants en grouped p res0 = (out, p')" using assms(2) g by (simp add: process_events_def)
  have "pr_ok empty_processing" "pr_total empty_processing = 0"
    by (simp_all add: empty_processing_def pr_ok_def pr_total_def)
  then show ?thesis
    using process_tenants_ok [OF run assms(1)] group_by_tenant_spec [OF g]
    by (auto simp: pr_total_def pr_ok_def)
qed

definition sample_agent :: agent_context where
  "sample_agent = \<lparr>ac_application_id = ''app'', ac_environment_kind = PRODUCTION_ENV, ac_internet_facing = True,
     ac_criticality = HIGH_CRIT, ac_protection_mode = ''MONITOR''\<rparr>"

definition sample_org :: uuid where "sample_org = ''00000000-0000-0000-0000-000000000001''"
definition sample_agent_id :: uuid where "sample_agent_id = ''00000000-0000-0000-0000-00000000000a''"

definition sample_pipeline :: pipeline where
  "sample_pipeline = \<lparr>pl_db = (\<lambda>_. \<lparr>td_agents = [(sample_agent_id, sample_agent)], td_findings = [],
     td_occurrences = []\<rparr>), pl_minted = 0, pl_ticks = 0\<rparr>"

definition sample_env :: env where
  "sample_env = \<lparr>en_sha = id, en_repr = (\<lambda>_. []), en_clock = (\<lambda>_. 5), en_fresh = (\<lambda>n. replicate n (CHR ''f''))\<rparr>"

definition hit_record :: "str \<Rightarrow> json \<Rightarrow> json" where
  "hit_record conf request = JObj
     [(''organization_id'', JStr sample_org), (''agent_id'', JStr sample_agent_id),
      (''type'', JStr ''EVENT_TYPE_TAINT_HIT''), (''occurred_at_ms'', JInt 1000),
      (''payload'', JObj [(''rule_key'', JStr ''sql-injection''), (''sink_signature'', JStr ''exec''),
                          (''stack_fingerprint'', JStr ''s''), (''confidence'', JStr conf),
                          (''request'', request)])]"

lemma sample_pipeline_ok [simp]: "pipeline_ok sample_pipeline"
  by (simp add: pipeline_ok_def sample_pipeline_def tenant_ok_def)

theorem pipeline_accounting_witness:
  "\<exists>res p'. process_events sample_env [hit_record ''EXPLOITED'' (JObj []), JObj []] sample_pipeline
      = (Some res, p') \<and> pr_created res = 1 \<and>
     pr_created res + pr_updated res + pr_rejected res + pr_ignored res = 2"
proof -
  let ?run = "process_events sample_env [hit_record ''EXPLOITED'' (JObj []), JObj []] sample_pipeline"
  have "case fst ?run of Some res \<Rightarrow> pr_created res = 1 | None \<Rightarrow> False" by code_simp
  then obtain res p' where run: "?run = (Some res, p')" "pr_created res = 1"
    by (cases ?run) (auto split: option.splits)
  show ?thesis using pipeline_accounting [OF sample_pipeline_ok run(1)] run by simp
qed

text \<open>
  C37. Tenant isolation and monotonicity: whatever the records hold and however the batch ends,
  the tables of an organization that no record's envelope names are untouched; and in every tenant
  no finding disappears, changes its identifier or loses confidence.
\<close>

theorem pipeline_tenant_isolation:
  assumes "pipeline_ok p" "process_events en records p = (out, p')"
  shows "(\<forall>org. (\<forall>j \<in> set records. record_org (en_repr en) j \<noteq> Some org) \<longrightarrow> pl_db p' org = pl_db p org) \<and>
         (\<forall>org k f. get_by_identity (pl_db p org) k = Some f \<longrightarrow>
            (\<exists>f'. get_by_identity (pl_db p' org) k = Some f' \<and> f_id f' = f_id f \<and>
               f_organization_id f' = org \<and>
               confidence_order (f_confidence f) \<le> confidence_order (f_confidence f')))"
proof (cases "group_by_tenant (en_repr en) records [] empty_processing")
  case None
  with assms show ?thesis by (auto simp: process_events_def pipeline_ok_def dest: tenant_ok_get)
next
  case (Some g)
  obtain grouped res0 where g: "group_by_tenant (en_repr en) records [] empty_processing = Some (grouped, res0)"
    using Some by (cases g) auto
  have run: "process_tenants en grouped p res0 = (out, p')" using assms(2) g by (simp add: process_events_def)
  note t = process_tenants_ok [OF run assms(1)]
  have "fst ` set grouped = set (List.map_filter (record_org (en_repr en)) records)"
    using group_by_tenant_spec [OF g] by simp
  then have "org \<notin> fst ` set grouped" if "\<forall>j \<in> set records. record_org (en_repr en) j \<noteq> Some org" for org
    using that by (auto simp: List.map_filter_def)
  moreover have "\<exists>f'. get_by_identity (pl_db p' org) k = Some f' \<and> f_id f' = f_id f \<and>
      f_organization_id f' = org \<and> confidence_order (f_confidence f) \<le> confidence_order (f_confidence f')"
    if f: "get_by_identity (pl_db p org) k = Some f" for org k f
  proof -
    obtain f' where f': "get_by_identity (pl_db p' org) k = Some f'" "f_id f' = f_id f"
      "confidence_order (f_confidence f) \<le> confidence_order (f_confidence f')"
      using t f unfolding findings_kept_def by blast
    with t tenant_ok_get [OF _ f'(1), of org] show ?thesis by (auto simp: pipeline_ok_def)
  qed
  ultimately show ?thesis using t by blast
qed

theorem pipeline_tenant_isolation_witness:
  "pl_db (snd (process_events sample_env [hit_record ''EXPLOITED'' (JObj [])] sample_pipeline)) ''other''
     = pl_db sample_pipeline ''other''"
proof -
  obtain out p' where run: "process_events sample_env [hit_record ''EXPLOITED'' (JObj [])] sample_pipeline = (out, p')"
    by fastforce
  have "record_org (en_repr sample_env) (hit_record ''EXPLOITED'' (JObj [])) \<noteq> Some ''other''" by code_simp
  then show ?thesis
    using pipeline_tenant_isolation [OF sample_pipeline_ok run] run by simp
qed

section \<open>Replay\<close>

text \<open>The identity a record folds into, which depends on the tenant's agents only.\<close>

definition hit_identity :: "env \<Rightarrow> uuid \<Rightarrow> tenant_db \<Rightarrow> obj \<Rightarrow> str option" where
  "hit_identity en org db r =
     (if jget r ''type'' \<noteq> JStr ''EVENT_TYPE_TAINT_HIT'' then None
      else case read_hit en org db r of Inl _ \<Rightarrow> None | Inr th \<Rightarrow> Some (th_identity th))"

definition covered :: "env \<Rightarrow> uuid \<Rightarrow> tenant_db \<Rightarrow> obj \<Rightarrow> bool" where
  "covered en org db r \<longleftrightarrow> (\<forall>k. hit_identity en org db r = Some k \<longrightarrow> get_by_identity db k \<noteq> None)"

lemma covered_kept: "covered en org db r \<Longrightarrow> findings_kept db db' \<Longrightarrow> covered en org db' r"
  using read_hit_agents [of db' db en org r]
  by (fastforce simp: covered_def hit_identity_def findings_kept_def)

lemma apply_record_covered:
  assumes "apply_record en org r (db, m, t, res) = Ok (db', m', t', res')" "tenant_ok org db"
  shows "covered en org db' r \<and> (covered en org db r \<longrightarrow> pr_created res' = pr_created res)"
  using assms(1)
proof (cases rule: apply_record_cases)
  case ignored
  then show ?thesis by (simp add: covered_def hit_identity_def)
next
  case (folded th seen created f0 regressed f os b)
  note fc = find_or_create_ok [OF folded(3) assms(2)]
  have "f_identity_hash f = th_identity th" using fc fold_hit_frame [OF folded(4)] by simp
  then have "get_by_identity db' (th_identity th) \<noteq> None"
    using folded(5) get_upsert [of f db "th_identity th"] by (simp add: get_by_identity_def)
  moreover have "hit_identity en org db' r = Some (th_identity th)"
    "hit_identity en org db r = Some (th_identity th)"
    using folded(1,2,5) read_hit_agents [of db' db en org r] by (simp_all add: hit_identity_def)
  ultimately show ?thesis using fc folded(6) by (auto simp: covered_def)
qed

lemma apply_batch_covered:
  assumes "apply_batch en org batch (db, m, t, res) = Some (db', m', t', res')" "tenant_ok org db"
  shows "(\<forall>r \<in> set batch. covered en org db' r) \<and>
         ((\<forall>r \<in> set batch. covered en org db r) \<longrightarrow> pr_created res' = pr_created res)"
  using assms
proof (induction batch arbitrary: db m t res)
  case (Cons r rs)
  show ?case
  proof (cases "apply_record en org r (db, m, t, res)")
    case (Ok s)
    obtain db1 m1 t1 res1 where s: "s = (db1, m1, t1, res1)" by (cases s)
    with Cons.prems(1) Ok have rest: "apply_batch en org rs (db1, m1, t1, res1) = Some (db', m', t', res')" by simp
    note a = apply_record_ok [OF Ok [unfolded s] Cons.prems(2)]
    note c = apply_record_covered [OF Ok [unfolded s] Cons.prems(2)]
    have "findings_kept db1 db'" using apply_batch_ok [OF rest] a by blast
    then show ?thesis
      using Cons.IH [OF rest] a c covered_kept by fastforce
  next
    case (Reject why)
    with Cons.prems(1)
    have rest: "apply_batch en org rs (db, m, t, record_event_rejection why res) = Some (db', m', t', res')" by simp
    have "hit_identity en org db r = None"
      using Reject by (auto simp: apply_record_def hit_identity_def Let_def split: sum.splits option.splits if_splits prod.splits)
    moreover have "td_agents db' = td_agents db"
      using apply_batch_ok [OF rest Cons.prems(2)] by (simp add: findings_kept_def)
    ultimately have "covered en org db' r" "covered en org db r"
      using read_hit_agents [of db' db en org r] by (auto simp: covered_def hit_identity_def)
    with Cons.IH [OF rest Cons.prems(2)] show ?thesis by (simp add: record_event_rejection_def)
  qed (use Cons.prems in simp)
qed simp

lemma process_tenants_covered:
  assumes "process_tenants en gs p res = (Some res', p')" "pipeline_ok p"
  shows "(\<forall>(org, batch) \<in> set gs. \<forall>r \<in> set batch. covered en org (pl_db p' org) r) \<and>
         ((\<forall>(org, batch) \<in> set gs. \<forall>r \<in> set batch. covered en org (pl_db p org) r) \<longrightarrow>
            pr_created res' = pr_created res)"
  using assms
proof (induction en gs p res rule: process_tenants.induct)
  case (2 en org batch rest p res)
  obtain db m t res1 where s: "apply_batch en org batch (pl_db p org, pl_minted p, pl_ticks p, res)
      = Some (db, m, t, res1)"
    using 2(2) by (auto split: option.splits)
  let ?p = "p\<lparr>pl_db := (pl_db p)(org := db), pl_minted := m, pl_ticks := t\<rparr>"
  have org_ok: "tenant_ok org (pl_db p org)" using 2(3) by (simp add: pipeline_ok_def)
  note b = apply_batch_ok [OF s org_ok] and c = apply_batch_covered [OF s org_ok]
  have run: "process_tenants en rest ?p res1 = (Some res', p')" using 2(2) s by simp
  have ok: "pipeline_ok ?p" using 2(3) b by (simp add: pipeline_ok_def)
  note IH = 2(1) [OF s refl refl refl run ok]
  have "findings_kept (pl_db ?p org) (pl_db p' org)" using process_tenants_ok [OF run ok] by blast
  then have kept: "findings_kept db (pl_db p' org)" by simp
  have cov: "covered en o' (pl_db ?p o') r" if "covered en o' (pl_db p o') r" for o' r
    using covered_kept [OF that, of db] b that by (cases "o' = org") auto
  show ?case
  proof (intro conjI impI)
    show "\<forall>(org', batch') \<in> set ((org, batch) # rest). \<forall>r \<in> set batch'. covered en org' (pl_db p' org') r"
      using IH c covered_kept [OF _ kept] by auto
    assume "\<forall>(org', batch') \<in> set ((org, batch) # rest). \<forall>r \<in> set batch'. covered en org' (pl_db p org') r"
    then show "pr_created res' = pr_created res" using IH c cov by fastforce
  qed
qed simp

lemma group_members:
  assumes "group_by_tenant rp records [] res = Some (g, res')"
  shows "(org, batch) \<in> set g \<Longrightarrow> r \<in> set batch \<Longrightarrow>
           JObj r \<in> set records \<and> record_org rp (JObj r) = Some org"
    and "JObj r \<in> set records \<Longrightarrow> record_org rp (JObj r) = Some org \<Longrightarrow>
           \<exists>batch. (org, batch) \<in> set g \<and> r \<in> set batch"
proof -
  note spec = group_by_tenant_spec [OF assms dict_ok_Nil]
  have dg: "dget g org = Some batch \<longleftrightarrow> (org, batch) \<in> set g" for org batch
    using spec by (simp add: dget_def dict_ok_def)
  have batch_eq: "(case dget g org of None \<Rightarrow> [] | Some b \<Rightarrow> b)
      = [r. JObj r \<leftarrow> records, record_org rp (JObj r) = Some org]" for org
    using spec by (simp add: dget_def)
  have members: "r \<in> set [r. JObj r \<leftarrow> records, record_org rp (JObj r) = Some org] \<longleftrightarrow>
      JObj r \<in> set records \<and> record_org rp (JObj r) = Some org" for r org
    by (force split: json.splits)
  show "(org, batch) \<in> set g \<Longrightarrow> r \<in> set batch \<Longrightarrow>
           JObj r \<in> set records \<and> record_org rp (JObj r) = Some org"
    using batch_eq [of org] dg [of org batch] members [of r org] by simp
  show "\<exists>batch. (org, batch) \<in> set g \<and> r \<in> set batch"
    if "JObj r \<in> set records" "record_org rp (JObj r) = Some org"
  proof -
    have "r \<in> set (case dget g org of None \<Rightarrow> [] | Some b \<Rightarrow> b)"
      unfolding batch_eq members using that by simp
    then show ?thesis by (cases "dget g org") (use dg in \<open>auto simp del: dget_None\<close>)
  qed
qed

text \<open>
  Idempotent identity under replay: once a batch has been processed, processing any records of
  it again, in any order and any number of times, in whatever mixture, creates no finding (it only
  updates the existing ones).
\<close>

theorem replay_creates_nothing:
  assumes "pipeline_ok p" "process_events en records p = (Some res, p')"
    and "set replayed \<subseteq> set records" "process_events en replayed p' = (Some res', p'')"
  shows "pr_created res' = 0"
proof -
  obtain g r0 where g: "group_by_tenant (en_repr en) records [] empty_processing = Some (g, r0)"
    "process_tenants en g p r0 = (Some res, p')"
    using assms(2) by (auto simp: process_events_def split: option.splits)
  obtain h s0 where h: "group_by_tenant (en_repr en) replayed [] empty_processing = Some (h, s0)"
    "process_tenants en h p' s0 = (Some res', p'')"
    using assms(4) by (auto simp: process_events_def split: option.splits)
  note first = process_tenants_covered [OF g(2) assms(1)]
  have ok: "pipeline_ok p'" using process_tenants_ok [OF g(2) assms(1)] by blast
  have "covered en org (pl_db p' org) r" if "(org, batch) \<in> set h" "r \<in> set batch" for org batch r
    using group_members(1) [OF h(1) that] group_members(2) [OF g(1), of r org] assms(3) first by blast
  then have "pr_created res' = pr_created s0"
    using process_tenants_covered [OF h(2) ok] by blast
  also have "pr_created s0 = 0"
    using group_by_tenant_spec [OF h(1) dict_ok_Nil] by (simp add: empty_processing_def)
  finally show ?thesis .
qed

theorem replay_creates_nothing_witness:
  "\<exists>res p' res' p''. process_events sample_env [hit_record ''EXPLOITED'' (JObj [])] sample_pipeline = (Some res, p') \<and>
     process_events sample_env [hit_record ''EXPLOITED'' (JObj []), hit_record ''EXPLOITED'' (JObj [])] p'
       = (Some res', p'') \<and>
     pr_created res = 1 \<and> pr_created res' = 0 \<and> pr_updated res' = 2"
proof -
  let ?r = "hit_record ''EXPLOITED'' (JObj [])"
  let ?one = "process_events sample_env [?r] sample_pipeline"
  let ?two = "process_events sample_env [?r, ?r] (snd ?one)"
  have "(case fst ?one of Some res \<Rightarrow> pr_created res = 1 | None \<Rightarrow> False) \<and>
        (case fst ?two of Some res \<Rightarrow> pr_updated res = 2 | None \<Rightarrow> False)" by code_simp
  then obtain res res' where runs: "?one = (Some res, snd ?one)" "?two = (Some res', snd ?two)"
    "pr_created res = 1" "pr_updated res' = 2"
    by (cases ?one; cases ?two) (auto split: option.splits)
  have "pr_created res' = 0"
    by (rule replay_creates_nothing [OF sample_pipeline_ok runs(1) _ runs(2)]) simp
  with runs show ?thesis by blast
qed

section \<open>Counters that do not mean what they say\<close>

text \<open>
  The would-block count is not a count of attacks: once a finding has been exploited, every
  further hit on it outside blocking mode counts as one blocking would have stopped, also when the
  hit itself carried no attack payload and its evidence says so.
\<close>

theorem would_block_counts_benign_hits:
  assumes "f_confidence f = EXPLOITED" "ac_protection_mode (th_context th) \<noteq> ''BLOCK''"
    and "parse_confidence (en_repr en) (jget (th_hit th) ''confidence'') \<noteq> EXPLOITED"
    and "evidence en r th seen (snd (fold_hit en th seen f)) = Some oc"
  shows "f_would_block_count (snd (fold_hit en th seen f)) = Suc (f_would_block_count f) \<and>
         \<not> oc_attack_detected oc"
proof -
  have "f_would_block_count (snd (fold_hit en th seen f)) = Suc (f_would_block_count f)"
    using assms(1,2) by (simp add: fold_hit_def Let_def split_beta) (simp add: record_would_block_def)
  moreover have "\<not> oc_attack_detected oc"
    using assms(3,4) by (auto simp: evidence_def Let_def bind_eq_Some_conv split: json.splits)
  ultimately show ?thesis ..
qed

definition sample_hit :: taint_hit where
  "sample_hit = \<lparr>th_hit = [(''confidence'', JStr ''SUSPECTED'')], th_context = sample_agent,
     th_rule_key = ''sql-injection'', th_frames = [], th_source_kind = ''UNKNOWN'', th_identity = ''h''\<rparr>"

theorem would_block_counts_benign_hits_witness:
  "f_would_block_count (snd (fold_hit sample_env sample_hit 9 (sample_finding\<lparr>f_confidence := EXPLOITED\<rparr>))) = 1"
proof -
  have hyp: "ac_protection_mode (th_context sample_hit) \<noteq> ''BLOCK''"
    "parse_confidence (en_repr sample_env) (jget (th_hit sample_hit) ''confidence'') \<noteq> EXPLOITED"
    "f_would_block_count (sample_finding\<lparr>f_confidence := EXPLOITED\<rparr>) = 0"
    "evidence sample_env [] sample_hit 9 f \<noteq> None" for f by code_simp+
  then obtain oc where "evidence sample_env [] sample_hit 9
      (snd (fold_hit sample_env sample_hit 9 (sample_finding\<lparr>f_confidence := EXPLOITED\<rparr>))) = Some oc" by blast
  then show ?thesis
    using would_block_counts_benign_hits [OF _ hyp(1,2)] hyp(3) by fastforce
qed

text \<open>
  Evidence of a suppressed finding is not rate-limited: if a finding was suppressed after at
  most one occurrence, then whatever hits follow, and however quickly, each one of them keeps a
  full evidence sample, because suppressed hits do not raise the occurrence count the limit looks at.
\<close>

theorem suppressed_finding_keeps_all_evidence:
  assumes "is_suppressed (f_status f)" "f_occurrence_count f \<le> 1"
  shows "should_keep_evidence db (fold (\<lambda>(th, seen) f. snd (fold_hit en th seen f)) hits f) at_time"
proof -
  have "is_suppressed (f_status f') \<and> f_occurrence_count f' \<le> 1"
    if "f' = fold (\<lambda>(th, seen) f. snd (fold_hit en th seen f)) hits f" for f'
    using assms unfolding that
  proof (induction hits arbitrary: f)
    case (Cons h hits)
    obtain th seen where h: "h = (th, seen)" by fastforce
    let ?f1 = "snd (fold_hit en th seen f)"
    have "f_status ?f1 = f_status f" "f_occurrence_count ?f1 = f_occurrence_count f"
      using Cons.prems by (auto simp: fold_hit_def Let_def split_beta record_occurrence_counts is_suppressed_def)
    with Cons.IH [of ?f1] Cons.prems h show ?case by simp
  qed simp
  then show ?thesis by (simp add: should_keep_evidence_def)
qed

theorem suppressed_finding_keeps_all_evidence_witness:
  "should_keep_evidence (pl_db sample_pipeline ''o'')
     (fold (\<lambda>(th, seen) f. snd (fold_hit sample_env th seen f)) (replicate 100 (sample_hit, 9))
        (sample_finding\<lparr>f_status := FALSE_POSITIVE\<rparr>)) 9"
proof -
  have "f_occurrence_count (sample_finding\<lparr>f_status := FALSE_POSITIVE\<rparr>) \<le> 1" by code_simp
  then show ?thesis
    by (intro suppressed_finding_keeps_all_evidence) (simp_all add: is_suppressed_def)
qed

end
