(* ===== verification/DomainErrors.thy ===== *)
theory DomainErrors
  imports Json
begin

text \<open>
  The errors of the control plane (\<open>domain/errors.py\<close>) and the one place that turns them into
  HTTP answers (\<open>interfaces/http/errors.py\<close>). A constructor carries what the exception's
  constructor takes; the context values that no code reads are left out. The permissions of a
  privilege escalation come out of a set, in no particular order, and stay a set.
\<close>

datatype domain_error =
    ValidationError str "str option" "(str list) option"
  | InvalidEmailError
  | InvalidSlugError "str option" str
  | WeakPasswordError "str list"
  | NotFoundError str
  | ConflictError str
  | InvalidStateError str
  | AuthenticationError "str option"
  | AccountLockedError int
  | AccountDisabledError
  | MfaRequiredError
  | InvalidMfaCodeError
  | TokenError "str option"
  | TokenReuseError
  | PermissionDeniedError "str option"
  | PrivilegeEscalationError "str set"
  | LicenseLimitExceededError str int
  | FeatureNotLicensedError str
  | RateLimitExceededError int

fun domain_error_code :: "domain_error \<Rightarrow> str" where
  "domain_error_code (ValidationError m f orgs) = ''validation_error''"
| "domain_error_code InvalidEmailError = ''invalid_email''"
| "domain_error_code (InvalidSlugError m f) = ''invalid_slug''"
| "domain_error_code (WeakPasswordError fs) = ''weak_password''"
| "domain_error_code (NotFoundError r) = ''not_found''"
| "domain_error_code (ConflictError m) = ''conflict''"
| "domain_error_code (InvalidStateError m) = ''invalid_state''"
| "domain_error_code (AuthenticationError m) = ''invalid_credentials''"
| "domain_error_code (AccountLockedError n) = ''account_locked''"
| "domain_error_code AccountDisabledError = ''account_disabled''"
| "domain_error_code MfaRequiredError = ''mfa_required''"
| "domain_error_code InvalidMfaCodeError = ''invalid_mfa_code''"
| "domain_error_code (TokenError m) = ''invalid_token''"
| "domain_error_code TokenReuseError = ''token_reuse_detected''"
| "domain_error_code (PermissionDeniedError r) = ''permission_denied''"
| "domain_error_code (PrivilegeEscalationError ps) = ''privilege_escalation''"
| "domain_error_code (LicenseLimitExceededError l n) = ''license_limit_exceeded''"
| "domain_error_code (FeatureNotLicensedError f) = ''feature_not_licensed''"
| "domain_error_code (RateLimitExceededError n) = ''rate_limited''"

text \<open>\<open>message or self.message\<close>: an absent or empty message is the one of the class.\<close>

definition or_default :: "str option \<Rightarrow> str \<Rightarrow> str" where
  "or_default m d = (case m of None \<Rightarrow> d | Some t \<Rightarrow> if t = [] then d else t)"

fun domain_error_message :: "domain_error \<Rightarrow> str" where
  "domain_error_message (ValidationError m f orgs) = or_default (Some m) ''The supplied value is not valid.''"
| "domain_error_message InvalidEmailError = ''The email address is not valid.''"
| "domain_error_message (InvalidSlugError m f) =
     or_default m ''The slug may contain only lowercase letters, digits and hyphens.''"
| "domain_error_message (WeakPasswordError fs) = ''The password does not satisfy the password policy.''"
| "domain_error_message (NotFoundError r) = r @ '' not found.''"
| "domain_error_message (ConflictError m) = or_default (Some m) ''The resource conflicts with an existing one.''"
| "domain_error_message (InvalidStateError m) =
     or_default (Some m) ''The operation is not permitted in the current state.''"
| "domain_error_message (AuthenticationError m) = or_default m ''Invalid credentials.''"
| "domain_error_message (AccountLockedError n) =
     ''The account is temporarily locked after repeated failed sign-in attempts.''"
| "domain_error_message AccountDisabledError = ''This account has been disabled.''"
| "domain_error_message MfaRequiredError = ''Multi-factor authentication is required to complete sign-in.''"
| "domain_error_message InvalidMfaCodeError = ''The verification code is not valid.''"
| "domain_error_message (TokenError m) = or_default m ''The token is missing, malformed or expired.''"
| "domain_error_message TokenReuseError = ''This session has been revoked. Please sign in again.''"
| "domain_error_message (PermissionDeniedError r) =
     (if r = None \<or> r = Some [] then ''You do not have permission to perform this action.''
      else ''This action requires the '' @ the r @ '' permission.'')"
| "domain_error_message (PrivilegeEscalationError ps) =
     ''You cannot grant permissions you do not hold: '' @ join '', '' (sorted_list_of_set ps)"
| "domain_error_message (LicenseLimitExceededError l n) =
     ''Your licence permits at most '' @ int_str n @ '' '' @ l @ ''.''"
| "domain_error_message (FeatureNotLicensedError f) = f @ '' is not included in your licence.''"
| "domain_error_message (RateLimitExceededError n) = ''Too many requests.''"

text \<open>\<open>exc.field\<close> of the classes below \<open>ValidationError\<close>.\<close>

fun error_field :: "domain_error \<Rightarrow> str option" where
  "error_field (ValidationError m f orgs) = f"
| "error_field InvalidEmailError = Some ''email''"
| "error_field (InvalidSlugError m f) = Some f"
| "error_field _ = None"

section \<open>HTTP answers\<close>

text \<open>
  \<open>_STATUS_MAP\<close>, keyed by the name of the class, and the method resolution order of each class:
  \<open>status_for\<close> takes the first class of that order that the map lists.
\<close>

definition STATUS_MAP :: "(str, int) dict" where
  "STATUS_MAP =
     [(''ValidationError'', 422), (''WeakPasswordError'', 422), (''NotFoundError'', 404),
      (''ConflictError'', 409), (''InvalidStateError'', 409), (''AuthenticationError'', 401),
      (''TokenError'', 401), (''TokenReuseError'', 401), (''InvalidMfaCodeError'', 401),
      (''AccountDisabledError'', 403), (''AccountLockedError'', 423), (''PermissionDeniedError'', 403),
      (''PrivilegeEscalationError'', 403), (''LicenseLimitExceededError'', 402),
      (''FeatureNotLicensedError'', 402), (''RateLimitExceededError'', 429)]"

fun error_mro :: "domain_error \<Rightarrow> str list" where
  "error_mro (ValidationError m f orgs) = [''ValidationError'', ''DomainError'', ''Exception'']"
| "error_mro InvalidEmailError = [''InvalidEmailError'', ''ValidationError'', ''DomainError'', ''Exception'']"
| "error_mro (InvalidSlugError m f) = [''InvalidSlugError'', ''ValidationError'', ''DomainError'', ''Exception'']"
| "error_mro (WeakPasswordError fs) = [''WeakPasswordError'', ''ValidationError'', ''DomainError'', ''Exception'']"
| "error_mro (NotFoundError r) = [''NotFoundError'', ''DomainError'', ''Exception'']"
| "error_mro (ConflictError m) = [''ConflictError'', ''DomainError'', ''Exception'']"
| "error_mro (InvalidStateError m) = [''InvalidStateError'', ''DomainError'', ''Exception'']"
| "error_mro (AuthenticationError m) = [''AuthenticationError'', ''DomainError'', ''Exception'']"
| "error_mro (AccountLockedError n) = [''AccountLockedError'', ''DomainError'', ''Exception'']"
| "error_mro AccountDisabledError = [''AccountDisabledError'', ''DomainError'', ''Exception'']"
| "error_mro MfaRequiredError = [''MfaRequiredError'', ''DomainError'', ''Exception'']"
| "error_mro InvalidMfaCodeError = [''InvalidMfaCodeError'', ''DomainError'', ''Exception'']"
| "error_mro (TokenError m) = [''TokenError'', ''DomainError'', ''Exception'']"
| "error_mro TokenReuseError = [''TokenReuseError'', ''DomainError'', ''Exception'']"
| "error_mro (PermissionDeniedError r) = [''PermissionDeniedError'', ''DomainError'', ''Exception'']"
| "error_mro (PrivilegeEscalationError ps) =
     [''PrivilegeEscalationError'', ''PermissionDeniedError'', ''DomainError'', ''Exception'']"
| "error_mro (LicenseLimitExceededError l n) = [''LicenseLimitExceededError'', ''DomainError'', ''Exception'']"
| "error_mro (FeatureNotLicensedError f) = [''FeatureNotLicensedError'', ''DomainError'', ''Exception'']"
| "error_mro (RateLimitExceededError n) = [''RateLimitExceededError'', ''DomainError'', ''Exception'']"

fun first_status :: "str list \<Rightarrow> int" where
  "first_status [] = 400"
| "first_status (t # ts) = (case dget STATUS_MAP t of Some n \<Rightarrow> n | None \<Rightarrow> first_status ts)"

definition domain_status_for :: "domain_error \<Rightarrow> int" where
  "domain_status_for e = first_status (error_mro e)"

definition titleize :: "str \<Rightarrow> str" where
  "titleize code = capitalize (replace_char (CHR ''_'') '' '' code)"

text \<open>\<open>body.update(extra)\<close> adds keys the body does not have, at its end.\<close>

definition problem ::
    "int \<Rightarrow> str \<Rightarrow> str \<Rightarrow> str \<Rightarrow> str \<Rightarrow> str \<Rightarrow> json list \<Rightarrow> (str, str) dict \<Rightarrow> obj \<Rightarrow> http_response" where
  "problem status title code detail path request_id errors headers extra =
     \<lparr>http_status = status, http_headers = headers,
      http_body = JObj
        ([(''type'', JStr (''https://docs.aegis.dev/errors/'' @ replace_char (CHR ''_'') ''-'' code)),
          (''title'', JStr title),
          (''status'', JInt status),
          (''detail'', JStr detail),
          (''instance'', JStr path),
          (''code'', JStr code),
          (''request_id'', JStr request_id)]
         @ (if errors \<noteq> [] then [(''errors'', JList errors)] else []) @ extra)\<rparr>"

definition error_entry :: "str \<Rightarrow> str \<Rightarrow> str \<Rightarrow> json" where
  "error_entry field code message =
     JObj [(''field'', JStr field), (''code'', JStr code), (''message'', JStr message)]"

text \<open>
  The order in which \<open>missing_permissions\<close> lists the set is the set's own; \<open>listed\<close> is that order.
\<close>

definition domain_error_handler ::
    "(str set \<Rightarrow> str list) \<Rightarrow> str \<Rightarrow> str \<Rightarrow> domain_error \<Rightarrow> http_response" where
  "domain_error_handler listed path request_id e =
     problem (domain_status_for e) (titleize (domain_error_code e)) (domain_error_code e)
       (domain_error_message e) path request_id
       (case e of
          WeakPasswordError fs \<Rightarrow> map (\<lambda>f. error_entry ''password'' ''policy'' (''Password '' @ f @ ''.'')) fs
        | _ \<Rightarrow> (case error_field e of
                  None \<Rightarrow> []
                | Some f \<Rightarrow> if f = [] then [] else [error_entry f (domain_error_code e) (domain_error_message e)]))
       (case e of
          AccountLockedError n \<Rightarrow> [(''Retry-After'', int_str n)]
        | RateLimitExceededError n \<Rightarrow> [(''Retry-After'', int_str n)]
        | AuthenticationError m \<Rightarrow>
            [(''WWW-Authenticate'', ''Bearer realm='' @ [CHR 0x22] @ ''aegis'' @ [CHR 0x22])]
        | TokenError m \<Rightarrow>
            [(''WWW-Authenticate'', ''Bearer realm='' @ [CHR 0x22] @ ''aegis'' @ [CHR 0x22])]
        | _ \<Rightarrow> [])
       (case e of
          ValidationError m (Some f) (Some orgs) \<Rightarrow>
            if f = [] then [] else [(''organizations'', JList (map JStr orgs))]
        | PrivilegeEscalationError ps \<Rightarrow> [(''missing_permissions'', JList (map JStr (listed ps)))]
        | _ \<Rightarrow> [])"

lemma domain_status_simps [simp]:
  "domain_status_for (ValidationError m f orgs) = 422" "domain_status_for InvalidEmailError = 422"
  "domain_status_for (InvalidSlugError m' g) = 422" "domain_status_for (WeakPasswordError fs) = 422"
  "domain_status_for (NotFoundError r) = 404" "domain_status_for (ConflictError c) = 409"
  "domain_status_for (InvalidStateError c) = 409" "domain_status_for (AuthenticationError a) = 401"
  "domain_status_for (AccountLockedError n) = 423" "domain_status_for AccountDisabledError = 403"
  "domain_status_for MfaRequiredError = 400" "domain_status_for InvalidMfaCodeError = 401"
  "domain_status_for (TokenError a) = 401" "domain_status_for TokenReuseError = 401"
  "domain_status_for (PermissionDeniedError a) = 403" "domain_status_for (PrivilegeEscalationError ps) = 403"
  "domain_status_for (LicenseLimitExceededError l n) = 402" "domain_status_for (FeatureNotLicensedError l) = 402"
  "domain_status_for (RateLimitExceededError n) = 429"
  by (simp_all add: domain_status_for_def STATUS_MAP_def dget_def)

text \<open>
  Every answer for a domain error has a status between 400 and 429 that its class fixes and that
  the body repeats; a Retry-After header appears exactly on the locked (423) and rate limited (429)
  answers; a WWW-Authenticate header appears on 401 answers only, and is missing from two of the four
  kinds of 401 (a wrong verification code and a replayed refresh token).
\<close>

theorem domain_error_answers:
  "let r = domain_error_handler listed path request_id e in
     http_status r \<in> {400, 401, 402, 403, 404, 409, 422, 423, 429}
     \<and> (\<exists>body. http_body r = JObj body \<and> dget body ''status'' = Some (JInt (http_status r))
              \<and> dget body ''code'' = Some (JStr (domain_error_code e)))
     \<and> (''Retry-After'' \<in> fst ` set (http_headers r) \<longleftrightarrow> http_status r \<in> {423, 429})
     \<and> (''WWW-Authenticate'' \<in> fst ` set (http_headers r)
          \<longleftrightarrow> http_status r = 401 \<and> e \<notin> {InvalidMfaCodeError, TokenReuseError})"
proof -
  let ?r = "domain_error_handler listed path request_id e"
  have "http_status ?r \<in> {400, 401, 402, 403, 404, 409, 422, 423, 429}"
    by (cases e) (simp_all add: domain_error_handler_def problem_def)
  moreover have "\<exists>body. http_body ?r = JObj body \<and> dget body ''status'' = Some (JInt (http_status ?r))
              \<and> dget body ''code'' = Some (JStr (domain_error_code e))"
    unfolding domain_error_handler_def problem_def by (simp add: dget_def)
  moreover have "''Retry-After'' \<in> fst ` set (http_headers ?r) \<longleftrightarrow> http_status ?r \<in> {423, 429}"
    by (cases e) (simp_all add: domain_error_handler_def problem_def)
  moreover have "''WWW-Authenticate'' \<in> fst ` set (http_headers ?r)
          \<longleftrightarrow> http_status ?r = 401 \<and> e \<notin> {InvalidMfaCodeError, TokenReuseError}"
    by (cases e) (simp_all add: domain_error_handler_def problem_def)
  ultimately show ?thesis by (simp add: Let_def)
qed

end
