(* ===== verification/ValueObjects.thy ===== *)
theory ValueObjects
  imports DomainErrors "HOL-Library.Word"
begin

text \<open>
  Value objects of the control plane (\<open>domain/value_objects.py\<close>): time-ordered identifiers, email
  addresses, slugs, token hashes, API key prefixes and recovery codes, and the allocation of an
  organization's slug (\<open>application/auth.py\<close>). The tables of Unicode are not part of the program:
  \<open>nfkc\<close> stands for \<open>unicodedata.normalize("NFKC", s)\<close> and \<open>ascii\<close> for the NFKD form without its
  characters beyond ASCII; on ASCII text both are the identity. The clock and the random bits are
  arguments.
\<close>

unbundle bit_operations_syntax

section \<open>UUIDv7\<close>

text \<open>\<open>_LAST_UUID7_MS\<close> and \<open>_UUID7_COUNTER\<close>.\<close>

record id_state =
  last_ms :: nat
  id_counter :: nat

definition initial_ids :: id_state where "initial_ids = \<lparr>last_ms = 0, id_counter = 0\<rparr>"

text \<open>
  \<open>now\<close> is \<open>int(time.time() * 1000)\<close>, \<open>r8\<close> is \<open>secrets.randbelow(0x100)\<close> and \<open>r64\<close> the eight
  bytes of \<open>os.urandom\<close> as a number.
\<close>

definition uuid7_value :: "nat \<Rightarrow> nat \<Rightarrow> nat \<Rightarrow> nat" where
  "uuid7_value ms counter r64 =
     push_bit 80 (ms AND (2 ^ 48 - 1)) OR push_bit 76 7 OR push_bit 64 (counter AND 0xFFF)
       OR push_bit 62 2 OR (r64 AND (2 ^ 62 - 1))"

definition new_id :: "nat \<Rightarrow> nat \<Rightarrow> nat \<Rightarrow> id_state \<Rightarrow> nat \<times> id_state" where
  "new_id now r8 r64 s =
     (if now = last_ms s then
        (let c = (id_counter s + 1) AND 0xFFF in
         if c = 0 then (uuid7_value (now + 1) c r64, \<lparr>last_ms = now + 1, id_counter = c\<rparr>)
         else (uuid7_value now c r64, s\<lparr>id_counter := c\<rparr>))
      else (uuid7_value now r8 r64, \<lparr>last_ms = now, id_counter = r8\<rparr>))"

lemma and_low: "a AND (2 ^ n - 1) = a mod 2 ^ n" for a :: nat
  by (metis mask_eq_exp_minus_1 take_bit_eq_mask take_bit_eq_mod)

lemma uuid7_sum:
  "uuid7_value ms c r = (ms mod 2 ^ 48) * 2 ^ 80 + 7 * 2 ^ 76 + (c mod 2 ^ 12) * 2 ^ 64 + 2 * 2 ^ 62 + r mod 2 ^ 62"
proof -
  have or_add: "push_bit n a OR b = a * 2 ^ n + b" if "b < 2 ^ n" for n and a b :: nat
  proof -
    have "b = take_bit n b" using that by (simp add: take_bit_nat_eq_self)
    then have "\<not> bit (push_bit n a) k \<or> \<not> bit b k" for k
      by (metis bit_push_bit_iff bit_take_bit_iff not_le)
    then have "push_bit n a + b = push_bit n a OR b" by (intro disjunctive_add_eq_or) (simp add: bit_eq_iff bit_simps)
    then show ?thesis by (simp add: push_bit_eq_mult)
  qed
  have masks: "ms AND (2 ^ 48 - 1) = ms mod 2 ^ 48" "c AND 0xFFF = c mod 2 ^ 12" "r AND (2 ^ 62 - 1) = r mod 2 ^ 62"
    using and_low [of c 12] and_low [of ms 48] and_low [of r 62] by simp_all
  have r: "r mod 2 ^ 62 < 2 ^ 62" by simp
  have 1: "push_bit 62 2 OR (r mod 2 ^ 62) = 2 * 2 ^ 62 + r mod 2 ^ 62"
    by (rule or_add [OF r])
  have b1: "2 * 2 ^ 62 + r mod 2 ^ 62 < (2 :: nat) ^ 64" using r by simp
  have 2: "push_bit 64 (c mod 2 ^ 12) OR (2 * 2 ^ 62 + r mod 2 ^ 62)
      = (c mod 2 ^ 12) * 2 ^ 64 + (2 * 2 ^ 62 + r mod 2 ^ 62)"
    by (rule or_add [OF b1])
  have "c mod 2 ^ 12 \<le> 2 ^ 12 - (1 :: nat)" by simp
  then have "(c mod 2 ^ 12) * 2 ^ 64 \<le> (2 ^ 12 - 1) * (2 :: nat) ^ 64" by (rule mult_right_mono) simp
  then have b2: "(c mod 2 ^ 12) * 2 ^ 64 + (2 * 2 ^ 62 + r mod 2 ^ 62) < (2 :: nat) ^ 76"
    using b1 by simp
  have 3: "push_bit 76 7 OR ((c mod 2 ^ 12) * 2 ^ 64 + (2 * 2 ^ 62 + r mod 2 ^ 62))
      = 7 * 2 ^ 76 + ((c mod 2 ^ 12) * 2 ^ 64 + (2 * 2 ^ 62 + r mod 2 ^ 62))"
    by (rule or_add [OF b2])
  have b3: "7 * 2 ^ 76 + ((c mod 2 ^ 12) * 2 ^ 64 + (2 * 2 ^ 62 + r mod 2 ^ 62)) < (2 :: nat) ^ 80"
    using b2 by simp
  show ?thesis
    unfolding uuid7_value_def masks
    by (simp only: or.assoc 1 2 3 or_add [OF b3] add.assoc)
qed

text \<open>Ordering of the values is the ordering of millisecond and counter.\<close>

lemma uuid7_less:
  assumes "ms < 2 ^ 48" "ms' < 2 ^ 48" "c < 2 ^ 12" "c' < 2 ^ 12"
    and "ms < ms' \<or> ms = ms' \<and> c < c'"
  shows "uuid7_value ms c r < uuid7_value ms' c' r'"
proof -
  have low: "2 * 2 ^ 62 + a mod 2 ^ 62 < (2 :: nat) ^ 64" for a by (simp add: less_imp_le mod_less_divisor)
  show ?thesis
  proof (cases "ms < ms'")
    case True
    have "c \<le> 2 ^ 12 - (1 :: nat)" using assms(3) by simp
    then have "c * 2 ^ 64 \<le> (2 ^ 12 - 1) * (2 :: nat) ^ 64" by (rule mult_right_mono) simp
    then have "7 * 2 ^ 76 + c * 2 ^ 64 + (2 * 2 ^ 62 + r mod 2 ^ 62) < (2 :: nat) ^ 80" using low [of r] by simp
    moreover have "(ms + 1) * 2 ^ 80 \<le> ms' * (2 :: nat) ^ 80" using True by (intro mult_right_mono) simp_all
    ultimately show ?thesis using assms(1-4) by (simp add: uuid7_sum)
  next
    case False
    then have "ms = ms'" "(c + 1) * 2 ^ 64 \<le> c' * (2 :: nat) ^ 64"
      using assms(5) by (auto intro!: mult_right_mono)
    with low [of r] assms(1-4) show ?thesis by (simp add: uuid7_sum)
  qed
qed

fun mint :: "(nat \<times> nat \<times> nat) list \<Rightarrow> id_state \<Rightarrow> nat list" where
  "mint [] s = []"
| "mint ((now, r8, r64) # ds) s = (case new_id now r8 r64 s of (v, s') \<Rightarrow> v # mint ds s')"

lemma and_FFF: "n AND 0xFFF = n mod (4096 :: nat)"
  using and_low [of n 12] by simp

lemma mint_sorted:
  assumes "sorted (map fst ds)" "\<forall>(now, r8, r64) \<in> set ds. now < 2 ^ 48 \<and> r8 < 2 ^ 8 \<and> last_ms s \<le> now"
    and "id_counter s + length ds < 2 ^ 12" "2 ^ 8 + length ds \<le> 2 ^ 12"
  shows "sorted_wrt (<) (mint ds s) \<and>
         (last_ms s < 2 ^ 48 \<longrightarrow> (\<forall>v \<in> set (mint ds s). \<forall>r. uuid7_value (last_ms s) (id_counter s) r < v))"
  using assms
proof (induction ds arbitrary: s)
  case (Cons d ds)
  obtain now r8 r64 where d: "d = (now, r8, r64)" by (cases d) auto
  obtain v s' where v: "new_id now r8 r64 s = (v, s')" by fastforce
  let ?c = "if now = last_ms s then id_counter s + 1 else r8"
  have s': "s' = \<lparr>last_ms = now, id_counter = ?c\<rparr>" "v = uuid7_value now ?c r64" "?c < 2 ^ 12"
    using v Cons.prems(2,3) d by (auto simp: new_id_def and_FFF Let_def split: if_splits)
  have bounds: "now < 2 ^ 48" "last_ms s \<le> now" using Cons.prems(2) d by auto
  have "sorted (map fst ds)" "\<forall>(now', r8, r64) \<in> set ds. now' < 2 ^ 48 \<and> r8 < 2 ^ 8 \<and> last_ms s' \<le> now'"
    using Cons.prems(1,2) d s'(1) by auto
  moreover have "id_counter s' + length ds < 2 ^ 12" "2 ^ 8 + length ds \<le> 2 ^ 12"
    using Cons.prems(2-4) d s'(1) by auto
  ultimately have IH: "sorted_wrt (<) (mint ds s')"
    "\<forall>u \<in> set (mint ds s'). \<forall>r. uuid7_value now ?c r < u"
    using Cons.IH [of s'] s'(1) bounds by auto
  have "uuid7_value (last_ms s) (id_counter s) r < uuid7_value now ?c r'" for r r'
    using bounds s'(3) Cons.prems(3) by (intro uuid7_less) auto
  then have "\<forall>u \<in> set (v # mint ds s'). \<forall>r. uuid7_value (last_ms s) (id_counter s) r < u"
    if "last_ms s < 2 ^ 48"
    using IH(2) unfolding s'(2) by (metis less_trans set_ConsD)
  then show ?case using IH s'(2) v d by auto
qed simp

text \<open>
  Time order of identifiers: as long as the clock does not go back and fewer than 3840 ids are
  drawn, every id is strictly greater than the one before, whatever the random bits, and they all
  fit 128 bits.
\<close>

theorem new_ids_increase:
  assumes "sorted (map fst ds)" "\<forall>(now, r8, r64) \<in> set ds. 0 < now \<and> now < 2 ^ 48 \<and> r8 < 2 ^ 8"
    and "length ds < 3840"
  shows "sorted_wrt (<) (mint ds initial_ids)"
proof -
  have "\<forall>(now, r8, r64) \<in> set ds. now < 2 ^ 48 \<and> r8 < 2 ^ 8 \<and> last_ms initial_ids \<le> now"
    using assms(2) by (auto simp: initial_ids_def)
  then show ?thesis using mint_sorted [of ds initial_ids] assms(1,3) by (simp add: initial_ids_def)
qed

theorem new_ids_increase_witness:
  "sorted_wrt (<) (mint [(5, 255, 9), (5, 0, 1), (6, 0, 0)] initial_ids)"
  by (rule new_ids_increase) auto

text \<open>
  The borrowed millisecond is not kept: when the counter wraps within a millisecond, the id
  takes the next millisecond, but the very next id drawn while the clock still shows the old one is
  smaller than it, so the ids are no longer in order.
\<close>

theorem new_id_order_breaks_after_wrap:
  assumes "last_ms s = now" "id_counter s = 0xFFF" "now + 1 < 2 ^ 48" "r8 < 2 ^ 8"
  shows "fst (new_id now r8 r64 (snd (new_id now r8' r64' s))) < fst (new_id now r8' r64' s)"
proof -
  have first: "new_id now r8' r64' s = (uuid7_value (now + 1) 0 r64', \<lparr>last_ms = now + 1, id_counter = 0\<rparr>)"
    using assms(1,2) by (simp add: new_id_def and_FFF)
  have "fst (new_id now r8 r64 \<lparr>last_ms = now + 1, id_counter = 0\<rparr>) = uuid7_value now r8 r64"
    by (simp add: new_id_def)
  moreover have "uuid7_value now r8 r64 < uuid7_value (now + 1) 0 r64'"
    using assms(3,4) by (intro uuid7_less) auto
  ultimately show ?thesis by (simp add: first)
qed

theorem new_id_order_breaks_after_wrap_witness:
  "fst (new_id 7 1 2 (snd (new_id 7 3 4 \<lparr>last_ms = 7, id_counter = 0xFFF\<rparr>)))
     < fst (new_id 7 3 4 \<lparr>last_ms = 7, id_counter = 0xFFF\<rparr>)"
  by (rule new_id_order_breaks_after_wrap) auto

section \<open>Email addresses\<close>

text \<open>
  \<open>_EMAIL_RE\<close>: the part before the first at-sign holds 1 to 64 characters that are not blanks, the
  rest is a domain of at most 253 letters, digits, dots and hyphens that starts and ends with a
  letter or digit.
\<close>

definition is_email :: "str \<Rightarrow> bool" where
  "is_email raw =
     (case partition_char (CHR ''@'') raw of (l, sep, d) \<Rightarrow>
        sep \<noteq> [] \<and> l \<noteq> [] \<and> length l \<le> 64 \<and> (\<forall>c \<in> set l. \<not> is_space c)
        \<and> d \<noteq> [] \<and> length d \<le> 253 \<and> is_alnum (hd d) \<and> is_alnum (last d)
        \<and> (\<forall>c \<in> set d. is_alnum c \<or> c = CHR ''-'' \<or> c = CHR ''.''))"

definition email_domain :: "str \<Rightarrow> str" where
  "email_domain v = snd (snd (partition_char (CHR ''@'') v))"

definition email_local_part :: "str \<Rightarrow> str" where
  "email_local_part v = fst (partition_char (CHR ''@'') v)"

definition email_address :: "(str \<Rightarrow> str) \<Rightarrow> str \<Rightarrow> domain_error + str" where
  "email_address nfkc v =
     (let raw = lower (strip (nfkc v)) in
      if raw = [] \<or> length raw > 254 \<or> \<not> is_email raw then Inl InvalidEmailError
      else if CHR ''.'' \<notin> set (email_domain raw) then Inl InvalidEmailError
      else Inr raw)"

section \<open>Slugs\<close>

definition slug_char :: "char \<Rightarrow> bool" where
  "slug_char c \<longleftrightarrow> is_lower_alpha c \<or> is_digit c"

text \<open>\<open>_SLUG_RE\<close>: groups of lowercase letters and digits, single hyphens between them.\<close>

definition is_slug :: "str \<Rightarrow> bool" where
  "is_slug raw \<longleftrightarrow> (\<forall>w \<in> set (split_on (CHR ''-'') raw). w \<noteq> [] \<and> (\<forall>c \<in> set w. slug_char c))"

definition RESERVED_SLUGS :: "str list" where
  "RESERVED_SLUGS =
     [''api'', ''app'', ''admin'', ''www'', ''auth'', ''login'', ''static'', ''assets'', ''aegis'', ''system'']"

text \<open>The message names the reserved slug in quotes, as \<open>repr\<close> does for a text without quotes.\<close>

definition slug :: "str \<Rightarrow> domain_error + str" where
  "slug v =
     (let raw = lower (strip v) in
      if raw = [] \<or> length raw > 63 \<or> \<not> is_slug raw then Inl (InvalidSlugError None ''slug'')
      else if raw \<in> set RESERVED_SLUGS then
        Inl (InvalidSlugError (Some ([CHR 0x27] @ raw @ [CHR 0x27] @ '' is reserved.'')) ''slug'')
      else Inr raw)"

text \<open>\<open>re.sub(r"[^a-z0-9]+", "-", s)\<close>; the flag says that the run is already replaced.\<close>

fun hyphenate :: "bool \<Rightarrow> str \<Rightarrow> str" where
  "hyphenate in_run [] = []"
| "hyphenate in_run (c # s) =
     (if slug_char c then c # hyphenate False s
      else if in_run then hyphenate True s
      else CHR ''-'' # hyphenate True s)"

definition slug_from_name :: "(str \<Rightarrow> str) \<Rightarrow> str \<Rightarrow> domain_error + str" where
  "slug_from_name ascii name =
     (let hyphen = (\<lambda>c. c = CHR ''-'');
          candidate = strip_by hyphen (take 63 (strip_by hyphen (hyphenate False (lower (ascii name)))))
      in if candidate = [] then
           Inl (InvalidSlugError (Some ''A slug cannot be derived from this name.'') ''name'')
         else slug (if candidate \<in> set RESERVED_SLUGS then candidate @ ''-org'' else candidate))"

text \<open>\<open>RegisterOrganization._allocate_slug\<close>; \<open>taken\<close> is \<open>organizations.slug_exists\<close>.\<close>

fun try_suffixes :: "(str \<Rightarrow> bool) \<Rightarrow> str \<Rightarrow> nat list \<Rightarrow> domain_error + str" where
  "try_suffixes taken base [] =
     Inl (ConflictError ''Unable to allocate an organization slug; please choose another name.'')"
| "try_suffixes taken base (n # ns) =
     res_bind (slug (take 56 base @ ''-'' @ int_str (int n))) (\<lambda>candidate.
       if \<not> taken candidate then Inr candidate else try_suffixes taken base ns)"

definition allocate_slug :: "(str \<Rightarrow> str) \<Rightarrow> (str \<Rightarrow> bool) \<Rightarrow> str \<Rightarrow> domain_error + str" where
  "allocate_slug ascii taken name =
     res_bind (slug_from_name ascii name) (\<lambda>base.
       if \<not> taken base then Inr base else try_suffixes taken base [2..<100])"

section \<open>Secrets\<close>

definition password_hash :: "str \<Rightarrow> domain_error + str" where
  "password_hash v =
     (if v = [] \<or> \<not> startswith v ''$'' then
        Inl (ValidationError ''Not a valid password hash.'' (Some ''password_hash'') None)
      else Inr v)"

definition token_hash :: "str \<Rightarrow> domain_error + str" where
  "token_hash v =
     (if length v \<noteq> 64 \<or> \<not> (\<forall>c \<in> set (lower v). c \<in> set ''0123456789abcdef'') then
        Inl (ValidationError ''Not a valid token hash.'' (Some ''token_hash'') None)
      else Inr (lower v))"

definition api_key_prefix :: "str \<Rightarrow> domain_error + str" where
  "api_key_prefix v =
     (if length v \<noteq> 12 \<or> \<not> (v \<noteq> [] \<and> (\<forall>c \<in> set v. is_alnum c)) then
        Inl (ValidationError ''Not a valid API key prefix.'' (Some ''prefix'') None)
      else Inr v)"

definition normalize_recovery_code :: "str \<Rightarrow> str" where
  "normalize_recovery_code raw =
     upper (replace_char (CHR ''-'') [] (replace_char (CHR '' '') [] (strip raw)))"

definition ip_address :: "str \<Rightarrow> domain_error + str" where
  "ip_address v =
     (let raw = strip v in
      if raw = [] \<or> length raw > 45 then
        Inl (ValidationError ''Not a valid IP address.'' (Some ''ip_address'') None)
      else Inr raw)"

section \<open>Slugs derived from names\<close>

abbreviation no_double :: "char \<Rightarrow> str \<Rightarrow> bool" where
  "no_double c \<equiv> successively (\<lambda>a b. \<not> (a = c \<and> b = c))"

lemma split_on_first: "\<exists>ws. split_on c s = takeWhile (\<lambda>d. d \<noteq> c) s # ws"
  by (induction c s rule: split_on.induct) (auto split: list.splits)

lemma split_on_Nil [simp]: "split_on c s \<noteq> []"
  using split_on_first [of c s] by auto

lemma split_on_words:
  "[] \<notin> set (tl (split_on c s)) \<longleftrightarrow> no_double c s \<and> (s = [] \<or> last s \<noteq> c)"
proof (induction c s rule: split_on.induct)
  case (2 c d s)
  obtain ws where ws: "split_on c s = takeWhile (\<lambda>d. d \<noteq> c) s # ws" using split_on_first by blast
  show ?case
  proof (cases "d = c")
    case True
    have "[] \<notin> set (tl (split_on c (d # s))) \<longleftrightarrow> takeWhile (\<lambda>d. d \<noteq> c) s \<noteq> [] \<and> [] \<notin> set ws"
      using True ws by auto
    also have "\<dots> \<longleftrightarrow> (s \<noteq> [] \<and> hd s \<noteq> c) \<and> no_double c s \<and> (s = [] \<or> last s \<noteq> c)"
      using 2(1) [OF True] ws by (cases s) auto
    finally show ?thesis using True by (cases s) auto
  next
    case False
    then show ?thesis using 2(2) ws by (cases s) auto
  qed
qed simp

lemma split_on_chars: "(\<Union>w \<in> set (split_on c s). set w) = set s - {c}"
proof (induction c s rule: split_on.induct)
  case (2 c d s)
  obtain w ws where ws: "split_on c s = w # ws" using split_on_first by blast
  with 2 show ?case by (cases "d = c") auto
qed simp

lemma is_slug_iff:
  "is_slug s \<longleftrightarrow> s \<noteq> [] \<and> hd s \<noteq> CHR ''-'' \<and> last s \<noteq> CHR ''-'' \<and> no_double (CHR ''-'') s
     \<and> (\<forall>c \<in> set s. c = CHR ''-'' \<or> slug_char c)"
proof -
  obtain ws where ws: "split_on (CHR ''-'') s = takeWhile (\<lambda>d. d \<noteq> CHR ''-'') s # ws"
    using split_on_first by blast
  have no: "\<not> slug_char (CHR ''-'')" by code_simp
  have "is_slug s \<longleftrightarrow> [] \<notin> set (split_on (CHR ''-'') s) \<and> (\<forall>c \<in> \<Union>w \<in> set (split_on (CHR ''-'') s). set w. slug_char c)"
    unfolding is_slug_def by auto
  also have "\<dots> \<longleftrightarrow> [] \<notin> set (split_on (CHR ''-'') s) \<and> (\<forall>c \<in> set s. c = CHR ''-'' \<or> slug_char c)"
    unfolding split_on_chars by auto
  also have "[] \<notin> set (split_on (CHR ''-'') s)
      \<longleftrightarrow> takeWhile (\<lambda>d. d \<noteq> CHR ''-'') s \<noteq> [] \<and> [] \<notin> set (tl (split_on (CHR ''-'') s))"
    unfolding ws by auto
  also have "\<dots> \<longleftrightarrow> s \<noteq> [] \<and> hd s \<noteq> CHR ''-'' \<and> no_double (CHR ''-'') s \<and> last s \<noteq> CHR ''-''"
    unfolding split_on_words by (cases s) auto
  finally show ?thesis by blast
qed

lemma strip_by_split: "\<exists>a b. s = a @ strip_by p s @ b \<and> (\<forall>c \<in> set a \<union> set b. p c)"
proof -
  let ?d = "dropWhile p s"
  have "?d = rev (dropWhile p (rev ?d)) @ rev (takeWhile p (rev ?d))"
    by (metis rev_append rev_rev_ident takeWhile_dropWhile_id)
  then have "s = takeWhile p s @ strip_by p s @ rev (takeWhile p (rev ?d))"
    unfolding strip_by_def by (metis takeWhile_dropWhile_id)
  moreover have "\<forall>c \<in> set (takeWhile p s) \<union> set (rev (takeWhile p (rev ?d))). p c"
    by (auto dest: set_takeWhileD)
  ultimately show ?thesis by blast
qed

lemma strip_by_ends:
  assumes "strip_by p s \<noteq> []" shows "\<not> p (hd (strip_by p s))" "\<not> p (last (strip_by p s))"
proof -
  let ?d = "dropWhile p s"
  have ne: "dropWhile p (rev ?d) \<noteq> []" using assms by (simp add: strip_by_def)
  show "\<not> p (last (strip_by p s))"
    using hd_dropWhile [OF ne] ne by (simp add: strip_by_def last_rev)
  have d: "?d \<noteq> []" using ne by (metis dropWhile.simps(1) rev.simps(1))
  have "?d = strip_by p s @ rev (takeWhile p (rev ?d))"
    unfolding strip_by_def by (metis rev_append rev_rev_ident takeWhile_dropWhile_id)
  then have "hd ?d = hd (strip_by p s)" using assms by (metis hd_append2)
  then show "\<not> p (hd (strip_by p s))" using hd_dropWhile [OF d] by simp
qed

lemma strip_by_no_double: "no_double c s \<Longrightarrow> no_double c (strip_by p s)"
proof -
  assume *: "no_double c s"
  obtain a b where "s = a @ strip_by p s @ b" using strip_by_split by metis
  with * have "no_double c (a @ strip_by p s @ b)" by simp
  then show "no_double c (strip_by p s)" unfolding successively_append_iff by simp
qed

lemma strip_by_empty: "strip_by p s = [] \<longleftrightarrow> (\<forall>c \<in> set s. p c)"
proof
  assume e: "strip_by p s = []"
  obtain a b where "s = a @ strip_by p s @ b" "\<forall>c \<in> set a \<union> set b. p c" using strip_by_split by metis
  with e show "\<forall>c \<in> set s. p c" by (metis Un_iff append_Nil set_append)
next
  assume "\<forall>c \<in> set s. p c"
  then have "dropWhile p s = []" by (metis dropWhile_eq_Nil_conv)
  then show "strip_by p s = []" unfolding strip_by_def by (metis dropWhile.simps(1) rev.simps(1))
qed

lemma hyphenate_no_double: "no_double (CHR ''-'') (hyphenate r s) \<and> (r \<longrightarrow> hyphenate r s = [] \<or> hd (hyphenate r s) \<noteq> CHR ''-'')"
proof (induction r s rule: hyphenate.induct)
  case (2 r c s)
  have no: "\<not> slug_char (CHR ''-'')" by code_simp
  then have "c \<noteq> CHR ''-''" if "slug_char c" using that by auto
  with 2 no show ?case by (cases "slug_char c"; cases r) (simp_all add: successively_Cons)
qed simp

lemma hyphenate_chars: "set (hyphenate r s) \<subseteq> {c. c = CHR ''-'' \<or> slug_char c}"
  by (induction r s rule: hyphenate.induct) auto

lemma hyphenate_keeps: "(\<exists>c \<in> set (hyphenate r s). slug_char c) \<longleftrightarrow> (\<exists>c \<in> set s. slug_char c)"
proof -
  have no: "\<not> slug_char (CHR ''-'')" by code_simp
  show ?thesis by (induction r s rule: hyphenate.induct) (auto simp: no)
qed

lemma slug_char_lower: "slug_char c \<or> c = CHR ''-'' \<Longrightarrow> lower_char c = c \<and> \<not> is_space c"
  by (auto simp: slug_char_def is_lower_alpha_def is_digit_def lower_char_def is_space_def Let_def)

lemma slug_of_slug:
  assumes "is_slug v" "length v \<le> 63"
  shows "slug v = (if v \<in> set RESERVED_SLUGS then
           Inl (InvalidSlugError (Some ([CHR 0x27] @ v @ [CHR 0x27] @ '' is reserved.'')) ''slug'') else Inr v)"
proof -
  have chars: "\<forall>c \<in> set v. slug_char c \<or> c = CHR ''-''" "v \<noteq> []" using assms(1) is_slug_iff by auto
  have "strip v = v" using chars(1) slug_char_lower by (intro strip_no_space) blast
  moreover have "lower v = v" unfolding lower_def using chars(1) slug_char_lower by (intro map_idI) blast
  ultimately show ?thesis using assms chars(2) by (simp add: slug_def)
qed

lemma candidate_is_slug:
  fixes s :: str
  defines "hyphen \<equiv> \<lambda>c. c = CHR ''-''"
  defines "t \<equiv> strip_by hyphen (take 63 (strip_by hyphen (hyphenate False s)))"
  shows "t \<noteq> [] \<longrightarrow> is_slug t" "length t \<le> 63" "t = [] \<longleftrightarrow> (\<forall>c \<in> set s. \<not> slug_char c)"
proof -
  let ?h = "hyphenate False s" and ?u = "strip_by hyphen (hyphenate False s)"
  have "set t \<subseteq> set ?h"
    unfolding t_def using strip_by_set [of hyphen] set_take_subset [of 63 ?u] by blast
  then have chars: "\<forall>c \<in> set t. c = CHR ''-'' \<or> slug_char c" using hyphenate_chars [of False s] by blast
  have "no_double (CHR ''-'') ?u" using hyphenate_no_double strip_by_no_double by blast
  then have "no_double (CHR ''-'') (take 63 ?u)" by (metis append_take_drop_id successively_append_iff)
  then have "no_double (CHR ''-'') t" unfolding t_def by (rule strip_by_no_double)
  with chars show "t \<noteq> [] \<longrightarrow> is_slug t"
    using strip_by_ends [of hyphen "take 63 ?u"] unfolding is_slug_iff t_def hyphen_def by auto
  obtain a b where ab: "take 63 ?u = a @ t @ b" unfolding t_def using strip_by_split by metis
  then have "length t \<le> length (take 63 ?u)" by simp
  then show "length t \<le> 63" by simp
  have no: "\<not> slug_char (CHR ''-'')" by code_simp
  show "t = [] \<longleftrightarrow> (\<forall>c \<in> set s. \<not> slug_char c)"
  proof
    assume "t = []"
    then have all: "\<forall>c \<in> set (take 63 ?u). hyphen c" unfolding t_def by (simp add: strip_by_empty)
    have "?u = []"
    proof (rule ccontr)
      assume "?u \<noteq> []"
      then have "\<not> hyphen (hd ?u)" "hd ?u \<in> set (take 63 ?u)"
        using strip_by_ends(1) by (blast, metis hd_take list.set_sel(1) take_eq_Nil zero_less_numeral less_numeral_extra(3))
      with all show False by blast
    qed
    then have "\<forall>c \<in> set ?h. c = CHR ''-''" by (simp add: strip_by_empty hyphen_def)
    then show "\<forall>c \<in> set s. \<not> slug_char c" using hyphenate_keeps [of False s] no by metis
  next
    assume "\<forall>c \<in> set s. \<not> slug_char c"
    then have "\<forall>c \<in> set t. c = CHR ''-''"
      using chars hyphenate_keeps [of False s] \<open>set t \<subseteq> set ?h\<close> by blast
    then show "t = []" using strip_by_ends(1) [of hyphen "take 63 ?u"] unfolding t_def hyphen_def
      by (metis list.set_sel(1))
  qed
qed

text \<open>
  A slug derived from any name is a valid slug of at most 63 characters that is not reserved
  and that the constructor accepts unchanged; the derivation fails only for a name that has no
  letter or digit left after folding to ASCII.
\<close>

theorem slug_from_name_valid:
  "case slug_from_name ascii name of
     Inr v \<Rightarrow> is_slug v \<and> length v \<le> 63 \<and> v \<notin> set RESERVED_SLUGS \<and> slug v = Inr v
   | Inl e \<Rightarrow> e = InvalidSlugError (Some ''A slug cannot be derived from this name.'') ''name''
       \<and> filter slug_char (lower (ascii name)) = []"
proof -
  define t where "t = strip_by (\<lambda>c. c = CHR ''-'') (take 63 (strip_by (\<lambda>c. c = CHR ''-'') (hyphenate False (lower (ascii name)))))"
  note t = candidate_is_slug [of "lower (ascii name)", folded t_def]
  have eq: "slug_from_name ascii name = (if t = [] then Inl (InvalidSlugError (Some ''A slug cannot be derived from this name.'') ''name'')
         else slug (if t \<in> set RESERVED_SLUGS then t @ ''-org'' else t))"
    unfolding slug_from_name_def Let_def t_def ..
  consider "t = []" | "t \<noteq> []" "t \<in> set RESERVED_SLUGS" | "t \<noteq> []" "t \<notin> set RESERVED_SLUGS" by blast
  then show ?thesis
  proof cases
    case 1 with eq t(3) show ?thesis by simp
  next
    case 2
    have "\<forall>v \<in> set RESERVED_SLUGS. is_slug (v @ ''-org'') \<and> length (v @ ''-org'') \<le> 63
        \<and> v @ ''-org'' \<notin> set RESERVED_SLUGS \<and> slug (v @ ''-org'') = Inr (v @ ''-org'')"
      by code_simp
    with 2 eq show ?thesis by simp
  next
    case 3
    with eq t(1,2) slug_of_slug [of t] show ?thesis by simp
  qed
qed

text \<open>
  Allocation of an organization's slug: an allocated slug is valid and free; but a base slug
  whose 56th character is a hyphen, once taken, makes every numbered candidate malformed (two
  hyphens in a row), and the registration is refused as an invalid slug although names are free.
\<close>

theorem allocate_slug_outcomes:
  "(\<forall>v. allocate_slug ascii taken name = Inr v \<longrightarrow> is_slug v \<and> length v \<le> 63 \<and> \<not> taken v)
   \<and> (\<forall>base. slug_from_name ascii name = Inr base \<and> taken base \<and> length base \<ge> 56 \<and> base ! 55 = CHR ''-''
        \<longrightarrow> allocate_slug ascii taken name = Inl (InvalidSlugError None ''slug''))"
proof (intro conjI allI impI)
  fix v assume v: "allocate_slug ascii taken name = Inr v"
  have good: "is_slug w \<and> length w \<le> 63" if "slug u = Inr w" for u w
    using that unfolding slug_def Let_def by (auto split: if_splits)
  have suffix: "is_slug w \<and> length w \<le> 63 \<and> \<not> taken w" if "try_suffixes taken base ns = Inr w" for base ns w
    using that by (induction ns) (auto simp: res_bind_Inr split: if_splits dest: good)
  obtain base where base: "slug_from_name ascii name = Inr base"
    "(if \<not> taken base then Inr base else try_suffixes taken base [2..<100]) = Inr v"
    using v unfolding allocate_slug_def res_bind_Inr by blast
  have "is_slug v \<and> length v \<le> 63 \<and> \<not> taken v"
  proof (cases "taken base")
    case True
    with base(2) have "try_suffixes taken base [2..<100] = Inr v" by (simp del: upt.simps upt_rec_numeral)
    then show ?thesis by (rule suffix)
  next
    case False
    with base slug_from_name_valid [of ascii name] show ?thesis by simp
  qed
  then show "is_slug v" "length v \<le> 63" "\<not> taken v" by blast+
next
  fix base
  assume b: "slug_from_name ascii name = Inr base \<and> taken base \<and> length base \<ge> 56 \<and> base ! 55 = CHR ''-''"
  then have t56: "take 56 base = take 55 base @ ''-''"
    using take_Suc_conv_app_nth [of 55 base] by (simp add: eval_nat_numeral)
  let ?v = "take 56 base @ ''-'' @ int_str 2"
  have two: "int_str 2 = ''2''" by code_simp
  have "\<forall>c \<in> set base. c = CHR ''-'' \<or> slug_char c" using b slug_from_name_valid [of ascii name] is_slug_iff by auto
  then have chars: "\<forall>c \<in> set ?v. slug_char c \<or> c = CHR ''-''"
    using set_take_subset [of 56 base] by (auto simp: two slug_char_def is_digit_def)
  have "strip ?v = ?v" using chars slug_char_lower by (intro strip_no_space) blast
  moreover have "lower ?v = ?v" unfolding lower_def using chars slug_char_lower by (intro map_idI) blast
  moreover have "\<not> no_double (CHR ''-'') ?v" by (simp add: t56 successively_append_iff)
  ultimately have "slug ?v = Inl (InvalidSlugError None ''slug'')"
    unfolding slug_def Let_def using is_slug_iff [of ?v] by metis
  moreover have "[2..<100] = 2 # [Suc 2..<100]" by (rule upt_conv_Cons) simp
  ultimately have "try_suffixes taken base [2..<100] = Inl (InvalidSlugError None ''slug'')"
    by (simp only: try_suffixes.simps res_bind_simps of_nat_numeral)
  with b show "allocate_slug ascii taken name = Inl (InvalidSlugError None ''slug'')"
    by (simp add: allocate_slug_def)
qed

theorem allocate_slug_outcomes_witness:
  "let base = replicate 55 (CHR ''a'') @ ''-b'' in
     slug_from_name id base = Inr base
     \<and> allocate_slug id (\<lambda>v. v = base) base = Inl (InvalidSlugError None ''slug'')"
proof -
  have base: "slug_from_name id (replicate 55 (CHR ''a'') @ ''-b'') = Inr (replicate 55 (CHR ''a'') @ ''-b'')"
    by code_simp
  have hyphen: "(replicate 55 (CHR ''a'') @ ''-b'') ! 55 = CHR ''-''" by (simp add: nth_append)
  have "length (replicate 55 (CHR ''a'') @ ''-b'') \<ge> 56" by simp
  then have "allocate_slug id (\<lambda>v. v = replicate 55 (CHR ''a'') @ ''-b'') (replicate 55 (CHR ''a'') @ ''-b'')
      = Inl (InvalidSlugError None ''slug'')"
    using conjunct2 [OF allocate_slug_outcomes, rule_format, of id "replicate 55 (CHR ''a'') @ ''-b''"
        "replicate 55 (CHR ''a'') @ ''-b''" "\<lambda>v. v = replicate 55 (CHR ''a'') @ ''-b''"] base hyphen by blast
  then show ?thesis unfolding Let_def using base by blast
qed

end
