(* ===== verification/Policies.thy ===== *)
theory Policies
  imports DomainErrors
begin

text \<open>
  The security policies of the domain (\<open>domain/policies.py\<close>): password rules, the lockout schedule,
  token lifetimes, second-factor parameters and the normal form of inventory tags. Text is ASCII for
  the character classes; the Unicode normal form is the parameter \<open>nfkc\<close>.
\<close>

section \<open>Passwords\<close>

definition COMMON_PASSWORDS :: "str list" where
  "COMMON_PASSWORDS =
     [''password'', ''password1'', ''password123'', ''passw0rd'', ''123456'', ''12345678'', ''123456789'',
      ''1234567890'', ''qwerty'', ''qwerty123'', ''letmein'', ''welcome'', ''welcome1'', ''admin'',
      ''administrator'', ''iloveyou'', ''monkey'', ''dragon'', ''sunshine'', ''princess'', ''football'',
      ''baseball'', ''changeme'', ''secret'', ''abc123'', ''trustno1'', ''master'', ''starwars'', ''aegis'',
      ''aegis123'']"

definition SEQUENTIAL :: "str list" where
  "SEQUENTIAL = [''abcdefghijklmnopqrstuvwxyz'', ''01234567890'', ''qwertyuiop'', ''asdfghjkl'']"

record password_policy =
  pp_min_length :: nat
  pp_max_length :: nat
  pp_require_uppercase :: bool
  pp_require_lowercase :: bool
  pp_require_digit :: bool
  pp_require_symbol :: bool
  pp_forbid_common :: bool
  pp_forbid_sequences :: bool
  pp_min_unique_characters :: nat

definition default_password_policy :: password_policy where
  "default_password_policy =
     \<lparr>pp_min_length = 12, pp_max_length = 256, pp_require_uppercase = False, pp_require_lowercase = False,
      pp_require_digit = False, pp_require_symbol = False, pp_forbid_common = True,
      pp_forbid_sequences = True, pp_min_unique_characters = 6\<rparr>"

text \<open>\<open>_has_sequence\<close> with its default run length of 5.\<close>

definition has_sequence :: "str \<Rightarrow> bool" where
  "has_sequence v \<longleftrightarrow>
     (\<exists>source \<in> set SEQUENTIAL. \<exists>start \<in> set [0..<length source - 4].
        let run = take 5 (drop start source) in contains run v \<or> contains (rev run) v)"

definition password_failures :: "(str \<Rightarrow> str) \<Rightarrow> password_policy \<Rightarrow> str \<Rightarrow> str list \<Rightarrow> str list" where
  "password_failures nfkc p password ctx =
     (let normalized = nfkc password; lowered = lower normalized in
      (if length normalized < pp_min_length p then
         [''must be at least '' @ int_str (int (pp_min_length p)) @ '' characters''] else [])
      @ (if length normalized > pp_max_length p then
           [''must be at most '' @ int_str (int (pp_max_length p)) @ '' characters''] else [])
      @ (if pp_require_uppercase p \<and> \<not> (\<exists>c \<in> set normalized. is_upper_alpha c) then
           [''must contain an uppercase letter''] else [])
      @ (if pp_require_lowercase p \<and> \<not> (\<exists>c \<in> set normalized. is_lower_alpha c) then
           [''must contain a lowercase letter''] else [])
      @ (if pp_require_digit p \<and> \<not> (\<exists>c \<in> set normalized. is_digit c) then [''must contain a digit''] else [])
      @ (if pp_require_symbol p \<and> \<not> (\<exists>c \<in> set normalized. \<not> is_alnum c) then [''must contain a symbol''] else [])
      @ (if pp_forbid_common p \<and> lowered \<in> set COMMON_PASSWORDS then
           [''is among the most commonly used passwords''] else [])
      @ (if pp_forbid_sequences p \<and> has_sequence lowered then
           [''must not contain a long keyboard or alphabet sequence''] else [])
      @ (if length (remdups normalized)
             < min (pp_min_unique_characters p) (if normalized = [] then 1 else length normalized) then
           [''must contain at least '' @ int_str (int (pp_min_unique_characters p)) @ '' distinct characters'']
         else [])
      @ (if \<exists>item \<in> set ctx. length (lower (strip item)) \<ge> 4 \<and> contains (lower (strip item)) lowered then
           [''must not contain your name, email address or organization name''] else []))"

definition password_validate ::
    "(str \<Rightarrow> str) \<Rightarrow> password_policy \<Rightarrow> str \<Rightarrow> str list \<Rightarrow> domain_error + unit" where
  "password_validate nfkc p password ctx =
     (let failures = password_failures nfkc p password ctx in
      raise_if (failures \<noteq> []) (WeakPasswordError failures))"

section \<open>Lockout\<close>

text \<open>\<open>decay_seconds\<close> is a field of the source that no code reads.\<close>

record lockout_policy =
  lk_max_failed_attempts :: nat
  lk_base_seconds :: int
  lk_max_seconds :: int
  lk_decay_seconds :: int

definition default_lockout_policy :: lockout_policy where
  "default_lockout_policy =
     \<lparr>lk_max_failed_attempts = 5, lk_base_seconds = 60, lk_max_seconds = 3600, lk_decay_seconds = 900\<rparr>"

definition lock_duration :: "lockout_policy \<Rightarrow> nat \<Rightarrow> int" where
  "lock_duration p failed_count =
     (if failed_count < lk_max_failed_attempts p then 0
      else min (lk_base_seconds p * 2 ^ (failed_count - lk_max_failed_attempts p)) (lk_max_seconds p))"

section \<open>Tokens and second factors\<close>

record token_policy =
  tp_access_ttl_seconds :: int
  tp_refresh_ttl_seconds :: int
  tp_mfa_challenge_ttl_seconds :: int
  tp_rotation_grace_seconds :: int
  tp_max_sessions_per_user :: nat

definition default_token_policy :: token_policy where
  "default_token_policy =
     \<lparr>tp_access_ttl_seconds = 900, tp_refresh_ttl_seconds = 2592000, tp_mfa_challenge_ttl_seconds = 300,
      tp_rotation_grace_seconds = 10, tp_max_sessions_per_user = 10\<rparr>"

record mfa_policy =
  mp_digits :: nat
  mp_period_seconds :: int
  mp_valid_window :: int
  mp_recovery_code_count :: nat
  mp_recovery_code_bytes :: nat
  mp_require_for_privileged_roles :: bool

definition default_mfa_policy :: mfa_policy where
  "default_mfa_policy =
     \<lparr>mp_digits = 6, mp_period_seconds = 30, mp_valid_window = 1, mp_recovery_code_count = 10,
      mp_recovery_code_bytes = 10, mp_require_for_privileged_roles = False\<rparr>"

section \<open>Tags\<close>

definition tag_edge :: "char \<Rightarrow> bool" where
  "tag_edge c \<longleftrightarrow> is_lower_alpha c \<or> is_digit c"

text \<open>\<open>_ALLOWED_TAG\<close>: 2 to 40 characters, the first and the last a letter or a digit.\<close>

definition allowed_tag :: "str \<Rightarrow> bool" where
  "allowed_tag t \<longleftrightarrow>
     2 \<le> length t \<and> length t \<le> 40 \<and> tag_edge (hd t) \<and> tag_edge (last t)
     \<and> (\<forall>c \<in> set t. tag_edge c \<or> c \<in> set ''_.-'')"

datatype tag_error = Invalid_tag str | Too_many_tags nat

fun collect_tags :: "str list \<Rightarrow> str list \<Rightarrow> tag_error + str list" where
  "collect_tags seen [] = Inr seen"
| "collect_tags seen (tag # tags) =
     (let candidate = lower (strip tag) in
      if candidate = [] then collect_tags seen tags
      else if \<not> allowed_tag candidate then Inl (Invalid_tag tag)
      else collect_tags (if candidate \<in> set seen then seen else seen @ [candidate]) tags)"

definition normalize_tags :: "nat \<Rightarrow> str list \<Rightarrow> tag_error + str list" where
  "normalize_tags max_tags tags =
     res_bind (collect_tags [] tags) (\<lambda>seen.
       if length seen > max_tags then Inl (Too_many_tags max_tags) else Inr seen)"

lemma collect_tags_Inr:
  "collect_tags seen tags = Inr out \<Longrightarrow> distinct seen \<Longrightarrow> \<forall>t \<in> set seen. allowed_tag t \<Longrightarrow>
     distinct out \<and> (\<forall>t \<in> set out. allowed_tag t)
     \<and> set out = set seen \<union> {lower (strip t) |t. t \<in> set tags \<and> strip t \<noteq> []}"
proof (induction seen tags rule: collect_tags.induct)
  case (2 seen tag tags)
  let ?c = "lower (strip tag)"
  have empty: "?c = [] \<longleftrightarrow> strip tag = []" by (simp add: lower_def)
  show ?case
  proof (cases "?c = []")
    case True
    with 2 empty show ?thesis by auto
  next
    case False
    with 2(3) have ok: "allowed_tag ?c" and
      rest: "collect_tags (if ?c \<in> set seen then seen else seen @ [?c]) tags = Inr out"
      by (auto simp: Let_def split: if_splits)
    from False ok 2(4,5) have "distinct out \<and> (\<forall>t \<in> set out. allowed_tag t)
      \<and> set out = set (if ?c \<in> set seen then seen else seen @ [?c]) \<union> {lower (strip t) |t. t \<in> set tags \<and> strip t \<noteq> []}"
      by (intro 2(2) [OF refl _ _ rest]) auto
    with False empty show ?thesis by auto
  qed
qed simp

text \<open>
  Normalised tags are distinct, well-formed, at most as many as the policy allows, and are
  exactly the lowercase trimmed forms of the submitted tags that are not blank.
\<close>

lemma normalize_tags_result:
  assumes "normalize_tags max_tags tags = Inr out"
  shows "distinct out \<and> length out \<le> max_tags \<and> (\<forall>t \<in> set out. allowed_tag t)
         \<and> set out = {lower (strip t) |t. t \<in> set tags \<and> strip t \<noteq> []}"
  using assms collect_tags_Inr [of "[]" tags]
  by (auto simp: normalize_tags_def res_bind_Inr split: if_splits)

end
