(* ===== verification/TenantEntity.thy ===== *)
theory TenantEntity
  imports ValueObjects Policies
begin

text \<open>
  Tenants and people: organizations and licences (\<open>domain/entities/organization.py\<close>), users and
  their second factors (\<open>domain/entities/user.py\<close>). Values the entities hold in value objects
  (\<open>Slug\<close>, \<open>EmailAddress\<close>, \<open>PasswordHash\<close>) are their text. Settings are JSON.
\<close>

section \<open>Licences\<close>

datatype license_tier = TRIAL | TEAM | BUSINESS | ENTERPRISE

fun license_tier_value :: "license_tier \<Rightarrow> str" where
  "license_tier_value TRIAL = ''TRIAL''"
| "license_tier_value TEAM = ''TEAM''"
| "license_tier_value BUSINESS = ''BUSINESS''"
| "license_tier_value ENTERPRISE = ''ENTERPRISE''"

record license =
  li_id :: uuid
  li_organization_id :: uuid
  li_tier :: license_tier
  li_max_applications :: int
  li_max_agents :: int
  li_max_users :: int
  li_ai_enabled :: bool
  li_protection_enabled :: bool
  li_valid_until :: "datetime option"

text \<open>\<open>TIER_ENTITLEMENTS\<close>: applications, agents, users, AI, protection; \<open>-1\<close> is unlimited.\<close>

fun tier_entitlements :: "license_tier \<Rightarrow> int \<times> int \<times> int \<times> bool \<times> bool" where
  "tier_entitlements TRIAL = (3, 5, 5, False, False)"
| "tier_entitlements TEAM = (15, 50, 25, True, False)"
| "tier_entitlements BUSINESS = (100, 500, 200, True, True)"
| "tier_entitlements ENTERPRISE = (- 1, - 1, - 1, True, True)"

definition license_for_tier :: "uuid \<Rightarrow> uuid \<Rightarrow> license_tier \<Rightarrow> datetime option \<Rightarrow> license" where
  "license_for_tier i org tier valid_until =
     (case tier_entitlements tier of (apps, agents, users, ai, protection) \<Rightarrow>
        \<lparr>li_id = i, li_organization_id = org, li_tier = tier, li_max_applications = apps,
         li_max_agents = agents, li_max_users = users, li_ai_enabled = ai,
         li_protection_enabled = protection, li_valid_until = valid_until\<rparr>)"

definition license_valid :: "datetime \<Rightarrow> license \<Rightarrow> bool" where
  "license_valid now l \<longleftrightarrow> (case li_valid_until l of None \<Rightarrow> True | Some t \<Rightarrow> t > now)"

definition check_limit :: "int \<Rightarrow> str \<Rightarrow> nat \<Rightarrow> domain_error + unit" where
  "check_limit maximum what current_count =
     raise_if (maximum \<ge> 0 \<and> int current_count \<ge> maximum) (LicenseLimitExceededError what maximum)"

definition check_applications :: "license \<Rightarrow> nat \<Rightarrow> domain_error + unit" where
  "check_applications l n = check_limit (li_max_applications l) ''applications'' n"
definition check_agents :: "license \<Rightarrow> nat \<Rightarrow> domain_error + unit" where
  "check_agents l n = check_limit (li_max_agents l) ''agents'' n"
definition check_users :: "license \<Rightarrow> nat \<Rightarrow> domain_error + unit" where
  "check_users l n = check_limit (li_max_users l) ''users'' n"

section \<open>Organizations\<close>

datatype organization_status = ORG_ACTIVE | ORG_SUSPENDED | ORG_PENDING_DELETION

record organization =
  og_id :: uuid
  og_name :: str
  og_slug :: str
  og_status :: organization_status
  og_settings :: obj
  og_deletion_scheduled_at :: "datetime option"

definition new_organization :: "uuid \<Rightarrow> str \<Rightarrow> str \<Rightarrow> domain_error + organization" where
  "new_organization i name slug_value =
     (let n = strip name in
      if n = [] then Inl (InvalidStateError ''An organization must have a name.'')
      else if length n > 200 then Inl (InvalidStateError ''An organization name may be at most 200 characters.'')
      else Inr \<lparr>og_id = i, og_name = n, og_slug = slug_value, og_status = ORG_ACTIVE, og_settings = [],
                og_deletion_scheduled_at = None\<rparr>)"

definition organization_active :: "organization \<Rightarrow> bool" where
  "organization_active o1 \<longleftrightarrow> og_status o1 = ORG_ACTIVE"

definition organization_rename :: "str \<Rightarrow> organization \<Rightarrow> domain_error + organization" where
  "organization_rename name o1 =
     (let candidate = strip name in
      if candidate = [] then Inl (InvalidStateError ''An organization must have a name.'')
      else Inr (o1\<lparr>og_name := candidate\<rparr>))"

definition organization_suspend :: "str \<Rightarrow> organization \<Rightarrow> domain_error + organization" where
  "organization_suspend reason o1 =
     (if og_status o1 = ORG_PENDING_DELETION then
        Inl (InvalidStateError ''An organization pending deletion cannot be suspended.'')
      else Inr (o1\<lparr>og_status := ORG_SUSPENDED,
                   og_settings := dput ''suspension_reason'' (JStr reason) (og_settings o1)\<rparr>))"

definition organization_reactivate :: "organization \<Rightarrow> domain_error + organization" where
  "organization_reactivate o1 =
     (if og_status o1 = ORG_PENDING_DELETION then
        Inl (InvalidStateError ''Deletion must be cancelled before the organization can be reactivated.'')
      else Inr (o1\<lparr>og_status := ORG_ACTIVE, og_settings := ddel ''suspension_reason'' (og_settings o1)\<rparr>))"

definition schedule_deletion :: "datetime \<Rightarrow> organization \<Rightarrow> organization" where
  "schedule_deletion at_time o1 =
     o1\<lparr>og_status := ORG_PENDING_DELETION, og_deletion_scheduled_at := Some at_time\<rparr>"

definition cancel_deletion :: "organization \<Rightarrow> domain_error + organization" where
  "cancel_deletion o1 =
     (if og_status o1 \<noteq> ORG_PENDING_DELETION then
        Inl (InvalidStateError ''This organization is not scheduled for deletion.'')
      else Inr (o1\<lparr>og_status := ORG_ACTIVE, og_deletion_scheduled_at := None\<rparr>))"

section \<open>Second factors\<close>

datatype mfa_kind = TOTP | RECOVERY_CODE

record mfa_credential =
  mf_id :: uuid
  mf_user_id :: uuid
  mf_kind :: mfa_kind
  mf_secret_encrypted :: str
  mf_confirmed :: bool
  mf_consumed_at :: "datetime option"
  mf_last_used_at :: "datetime option"

definition mfa_usable :: "mfa_credential \<Rightarrow> bool" where
  "mfa_usable c \<longleftrightarrow> (if mf_kind c = RECOVERY_CODE then mf_consumed_at c = None else mf_confirmed c)"

definition mfa_confirm :: "datetime \<Rightarrow> mfa_credential \<Rightarrow> domain_error + mfa_credential" where
  "mfa_confirm now c =
     (if mf_kind c \<noteq> TOTP then Inl (InvalidStateError ''Only a TOTP credential can be confirmed.'')
      else Inr (c\<lparr>mf_confirmed := True, mf_last_used_at := Some now\<rparr>))"

definition mfa_consume :: "datetime \<Rightarrow> mfa_credential \<Rightarrow> domain_error + mfa_credential" where
  "mfa_consume now c =
     (if mf_kind c \<noteq> RECOVERY_CODE then Inl (InvalidStateError ''Only a recovery code can be consumed.'')
      else if mf_consumed_at c \<noteq> None then Inl (InvalidStateError ''This recovery code has already been used.'')
      else Inr (c\<lparr>mf_consumed_at := Some now, mf_last_used_at := Some now\<rparr>))"

section \<open>Users\<close>

datatype user_status = USER_ACTIVE | USER_INVITED | USER_DISABLED

record user =
  us_id :: uuid
  us_email :: str
  us_password_hash :: "str option"
  us_full_name :: str
  us_status :: user_status
  us_is_platform_admin :: bool
  us_mfa_enabled :: bool
  us_failed_login_count :: nat
  us_locked_until :: "datetime option"
  us_password_changed_at :: "datetime option"
  us_last_login_at :: "datetime option"

definition new_user :: "uuid \<Rightarrow> str \<Rightarrow> str option \<Rightarrow> str \<Rightarrow> user_status \<Rightarrow> datetime option \<Rightarrow> user" where
  "new_user i email pw full_name status changed_at =
     \<lparr>us_id = i, us_email = email, us_password_hash = pw, us_full_name = take 200 (strip full_name),
      us_status = status, us_is_platform_admin = False, us_mfa_enabled = False,
      us_failed_login_count = 0, us_locked_until = None, us_password_changed_at = changed_at,
      us_last_login_at = None\<rparr>"

definition user_active :: "user \<Rightarrow> bool" where
  "user_active u \<longleftrightarrow> us_status u = USER_ACTIVE"

definition user_locked :: "datetime \<Rightarrow> user \<Rightarrow> bool" where
  "user_locked now u \<longleftrightarrow> (case us_locked_until u of None \<Rightarrow> False | Some t \<Rightarrow> t > now)"

text \<open>Whole seconds, rounded down, at least one.\<close>

definition lock_retry_after :: "datetime \<Rightarrow> user \<Rightarrow> int" where
  "lock_retry_after now u =
     (case us_locked_until u of
        None \<Rightarrow> 0
      | Some t \<Rightarrow> if \<not> t > now then 0 else max 1 ((t - now) div 1000000))"

definition assert_can_authenticate :: "datetime \<Rightarrow> user \<Rightarrow> domain_error + unit" where
  "assert_can_authenticate now u =
     (if us_status u = USER_DISABLED then Inl AccountDisabledError
      else if user_locked now u then Inl (AccountLockedError (lock_retry_after now u))
      else Inr ())"

definition record_failed_login :: "datetime \<Rightarrow> lockout_policy \<Rightarrow> user \<Rightarrow> user" where
  "record_failed_login now policy u =
     (let n = us_failed_login_count u + 1; duration = lock_duration policy n in
      if duration \<noteq> 0 then u\<lparr>us_failed_login_count := n, us_locked_until := Some (now + seconds duration)\<rparr>
      else u\<lparr>us_failed_login_count := n\<rparr>)"

definition record_successful_login :: "datetime \<Rightarrow> user \<Rightarrow> user" where
  "record_successful_login now u =
     u\<lparr>us_failed_login_count := 0, us_locked_until := None, us_last_login_at := Some now\<rparr>"

definition set_password :: "str \<Rightarrow> datetime \<Rightarrow> user \<Rightarrow> user" where
  "set_password pw now u =
     u\<lparr>us_password_hash := Some pw, us_password_changed_at := Some now, us_failed_login_count := 0,
       us_locked_until := None,
       us_status := (if us_status u = USER_INVITED then USER_ACTIVE else us_status u)\<rparr>"

definition user_enable_mfa :: "user \<Rightarrow> user" where "user_enable_mfa u = u\<lparr>us_mfa_enabled := True\<rparr>"
definition user_disable_mfa :: "user \<Rightarrow> user" where "user_disable_mfa u = u\<lparr>us_mfa_enabled := False\<rparr>"

definition user_disable :: "user \<Rightarrow> domain_error + user" where
  "user_disable u =
     (if us_is_platform_admin u then Inl (InvalidStateError ''A platform administrator cannot be disabled here.'')
      else Inr (u\<lparr>us_status := USER_DISABLED\<rparr>))"

definition user_reactivate :: "user \<Rightarrow> user" where
  "user_reactivate u = u\<lparr>us_status := USER_ACTIVE, us_failed_login_count := 0, us_locked_until := None\<rparr>"

definition user_rename :: "str \<Rightarrow> user \<Rightarrow> user" where
  "user_rename full_name u = u\<lparr>us_full_name := take 200 (strip full_name)\<rparr>"

text \<open>
  A deletion that is scheduled and cancelled lifts a suspension: the organization is active again
  although nobody reactivated it, and its settings still hold the reason for the suspension.
\<close>

lemma cancelled_deletion_lifts_suspension:
  assumes "organization_suspend reason o1 = Inr o2"
  shows "\<exists>o3. cancel_deletion (schedule_deletion t o2) = Inr o3 \<and> organization_active o3
    \<and> dget (og_settings o3) ''suspension_reason'' = Some (JStr reason)"
  using assms
  by (auto simp: organization_suspend_def cancel_deletion_def schedule_deletion_def organization_active_def
      dict_simps split: if_splits)

end
