(* ===== verification/AccessEntity.thy ===== *)
theory AccessEntity
  imports ValueObjects
begin

text \<open>
  Who may do what in the control plane: the permission catalogue (\<open>domain/permissions.py\<close>), roles,
  memberships, refresh-token sessions and API keys (\<open>domain/entities/access.py\<close>), and the
  authenticated principal (\<open>application/context.py\<close>). A \<open>frozenset\<close> is a set. A method that may
  raise returns the error or the updated object: every caller drops the object when it raises.
  A time without zone is read as UTC by the source, so every time is an instant here.
\<close>

section \<open>Permissions\<close>

datatype permission =
    ORG_READ | ORG_WRITE | ORG_DELETE
  | USER_INVITE | USER_REMOVE | ROLE_WRITE
  | APP_READ | APP_WRITE | APP_DELETE
  | AGENT_READ | AGENT_WRITE
  | FINDING_READ | FINDING_TRIAGE | FINDING_SUPPRESS
  | POLICY_READ | POLICY_WRITE
  | REPORT_READ | REPORT_WRITE
  | AUDIT_READ | SETTINGS_WRITE
  | AI_RUN | AI_APPROVE

fun permission_value :: "permission \<Rightarrow> str" where
  "permission_value ORG_READ = ''org:read''"
| "permission_value ORG_WRITE = ''org:write''"
| "permission_value ORG_DELETE = ''org:delete''"
| "permission_value USER_INVITE = ''user:invite''"
| "permission_value USER_REMOVE = ''user:remove''"
| "permission_value ROLE_WRITE = ''role:write''"
| "permission_value APP_READ = ''app:read''"
| "permission_value APP_WRITE = ''app:write''"
| "permission_value APP_DELETE = ''app:delete''"
| "permission_value AGENT_READ = ''agent:read''"
| "permission_value AGENT_WRITE = ''agent:write''"
| "permission_value FINDING_READ = ''finding:read''"
| "permission_value FINDING_TRIAGE = ''finding:triage''"
| "permission_value FINDING_SUPPRESS = ''finding:suppress''"
| "permission_value POLICY_READ = ''policy:read''"
| "permission_value POLICY_WRITE = ''policy:write''"
| "permission_value REPORT_READ = ''report:read''"
| "permission_value REPORT_WRITE = ''report:write''"
| "permission_value AUDIT_READ = ''audit:read''"
| "permission_value SETTINGS_WRITE = ''settings:write''"
| "permission_value AI_RUN = ''ai:run''"
| "permission_value AI_APPROVE = ''ai:approve''"

definition ALL_PERMISSIONS :: "permission list" where
  "ALL_PERMISSIONS =
     [ORG_READ, ORG_WRITE, ORG_DELETE, USER_INVITE, USER_REMOVE, ROLE_WRITE, APP_READ, APP_WRITE,
      APP_DELETE, AGENT_READ, AGENT_WRITE, FINDING_READ, FINDING_TRIAGE, FINDING_SUPPRESS,
      POLICY_READ, POLICY_WRITE, REPORT_READ, REPORT_WRITE, AUDIT_READ, SETTINGS_WRITE, AI_RUN,
      AI_APPROVE]"

text \<open>\<open>Permission(raw)\<close>: the member with that value; None is the \<open>ValueError\<close>.\<close>

definition parse_permission :: "str \<Rightarrow> permission option" where
  "parse_permission raw = find (\<lambda>p. permission_value p = raw) ALL_PERMISSIONS"

definition PRIVILEGED_PERMISSIONS :: "permission set" where
  "PRIVILEGED_PERMISSIONS = {ROLE_WRITE, USER_INVITE, USER_REMOVE, ORG_DELETE, SETTINGS_WRITE}"

definition OWNER_ONLY_PERMISSIONS :: "permission set" where
  "OWNER_ONLY_PERMISSIONS = {ORG_DELETE}"

definition is_privileged :: "permission set \<Rightarrow> bool" where
  "is_privileged ps \<longleftrightarrow> ps \<inter> PRIVILEGED_PERMISSIONS \<noteq> {}"

datatype system_role = OWNER | ADMIN | SECURITY_ANALYST | DEVELOPER | VIEWER

fun system_role_value :: "system_role \<Rightarrow> str" where
  "system_role_value OWNER = ''Owner''"
| "system_role_value ADMIN = ''Admin''"
| "system_role_value SECURITY_ANALYST = ''Security Analyst''"
| "system_role_value DEVELOPER = ''Developer''"
| "system_role_value VIEWER = ''Viewer''"

definition READ_ONLY :: "permission set" where
  "READ_ONLY = {ORG_READ, APP_READ, AGENT_READ, FINDING_READ, POLICY_READ, REPORT_READ}"

fun system_role_permissions :: "system_role \<Rightarrow> permission set" where
  "system_role_permissions OWNER = set ALL_PERMISSIONS"
| "system_role_permissions ADMIN = set ALL_PERMISSIONS - OWNER_ONLY_PERMISSIONS"
| "system_role_permissions SECURITY_ANALYST =
     READ_ONLY \<union> {FINDING_TRIAGE, FINDING_SUPPRESS, POLICY_WRITE, AGENT_WRITE, REPORT_WRITE, AUDIT_READ,
                   AI_RUN, AI_APPROVE}"
| "system_role_permissions DEVELOPER = READ_ONLY \<union> {APP_WRITE, FINDING_TRIAGE, AI_RUN}"
| "system_role_permissions VIEWER = READ_ONLY"

fun system_role_description :: "system_role \<Rightarrow> str" where
  "system_role_description OWNER =
     ''Full control, including deleting the organization. Assigned to the creator.''"
| "system_role_description ADMIN = ''Full control except deleting the organization.''"
| "system_role_description SECURITY_ANALYST =
     ''Triages findings, tunes protection policy, manages agents and reads the audit log.''"
| "system_role_description DEVELOPER = ''Manages their applications and triages findings against them.''"
| "system_role_description VIEWER = ''Read-only access to inventory, findings and reports.''"

section \<open>Roles\<close>

record role =
  ro_id :: uuid
  ro_organization_id :: uuid
  ro_name :: str
  ro_permissions :: "permission set"
  ro_description :: str
  ro_is_system :: bool

text \<open>\<open>Role(\<dots>)\<close> with \<open>__post_init__\<close>.\<close>

definition new_role :: "uuid \<Rightarrow> uuid \<Rightarrow> str \<Rightarrow> permission set \<Rightarrow> str \<Rightarrow> bool \<Rightarrow> domain_error + role" where
  "new_role i org name permissions description is_system =
     (let n = strip name in
      if n = [] then Inl (InvalidStateError ''A role must have a name.'')
      else if length n > 80 then Inl (InvalidStateError ''A role name may be at most 80 characters.'')
      else Inr \<lparr>ro_id = i, ro_organization_id = org, ro_name = n, ro_permissions = permissions,
                ro_description = description, ro_is_system = is_system\<rparr>)"

definition role_system :: "uuid \<Rightarrow> uuid \<Rightarrow> system_role \<Rightarrow> domain_error + role" where
  "role_system i org r =
     new_role i org (system_role_value r) (system_role_permissions r) (system_role_description r) True"

text \<open>The message shows the name as \<open>repr\<close> does for a text without quotes and control characters.\<close>

definition assert_mutable :: "role \<Rightarrow> domain_error + unit" where
  "assert_mutable r =
     raise_if (ro_is_system r)
       (InvalidStateError ([CHR 0x27] @ ro_name r @ [CHR 0x27]
          @ '' is a system role and cannot be modified or deleted.''))"

definition sorted_values :: "permission set \<Rightarrow> str list" where
  "sorted_values ps = sorted_list_of_set (permission_value ` ps)"

definition role_update ::
    "str option \<Rightarrow> str option \<Rightarrow> permission set option \<Rightarrow> role \<Rightarrow> domain_error + role" where
  "role_update name description permissions r =
     res_bind (assert_mutable r) (\<lambda>_.
     res_bind (case name of None \<Rightarrow> Inr r
       | Some n \<Rightarrow> if strip n = [] then Inl (InvalidStateError ''A role must have a name.'')
                  else Inr (r\<lparr>ro_name := take 80 (strip n)\<rparr>)) (\<lambda>r1.
     let r2 = (case description of None \<Rightarrow> r1 | Some d \<Rightarrow> r1\<lparr>ro_description := take 500 (strip d)\<rparr>) in
     case permissions of None \<Rightarrow> Inr r2
       | Some ps \<Rightarrow>
           let forbidden = ps \<inter> OWNER_ONLY_PERMISSIONS in
           if forbidden \<noteq> {} then
             Inl (InvalidStateError (''These permissions belong exclusively to the Owner role: ''
                    @ join '', '' (sorted_values forbidden)))
           else Inr (r2\<lparr>ro_permissions := ps\<rparr>)))"

section \<open>Memberships\<close>

datatype membership_status = MACTIVE | MINVITED | MSUSPENDED

record membership =
  me_id :: uuid
  me_organization_id :: uuid
  me_user_id :: uuid
  me_roles :: "role list"
  me_status :: membership_status
  me_invited_by :: "uuid option"
  me_joined_at :: "datetime option"

definition foreign_role :: "uuid \<Rightarrow> role list \<Rightarrow> domain_error + unit" where
  "foreign_role org roles =
     raise_if (\<exists>r \<in> set roles. ro_organization_id r \<noteq> org)
       (InvalidStateError ''A membership cannot carry a role belonging to another organization.'')"

definition new_membership ::
    "uuid \<Rightarrow> uuid \<Rightarrow> uuid \<Rightarrow> role list \<Rightarrow> membership_status \<Rightarrow> uuid option \<Rightarrow> datetime option
       \<Rightarrow> domain_error + membership" where
  "new_membership i org user roles status invited_by joined_at =
     res_bind (foreign_role org roles) (\<lambda>_.
       Inr \<lparr>me_id = i, me_organization_id = org, me_user_id = user, me_roles = roles,
            me_status = status, me_invited_by = invited_by, me_joined_at = joined_at\<rparr>)"

definition membership_active :: "membership \<Rightarrow> bool" where
  "membership_active m \<longleftrightarrow> me_status m = MACTIVE"

definition membership_permissions :: "membership \<Rightarrow> permission set" where
  "membership_permissions m =
     (if \<not> membership_active m then {} else \<Union> (ro_permissions ` set (me_roles m)))"

definition is_owner_role :: "role \<Rightarrow> bool" where
  "is_owner_role r \<longleftrightarrow> ro_is_system r \<and> ro_name r = system_role_value OWNER"

definition membership_is_owner :: "membership \<Rightarrow> bool" where
  "membership_is_owner m \<longleftrightarrow> (\<exists>r \<in> set (me_roles m). is_owner_role r)"

definition assign_roles :: "role list \<Rightarrow> membership \<Rightarrow> domain_error + membership" where
  "assign_roles roles m =
     res_bind (foreign_role (me_organization_id m) roles) (\<lambda>_.
     res_bind (raise_if (roles = []) (InvalidStateError ''A membership must retain at least one role.'')) (\<lambda>_.
       Inr (m\<lparr>me_roles := roles\<rparr>)))"

definition membership_activate :: "datetime \<Rightarrow> membership \<Rightarrow> membership" where
  "membership_activate now m =
     m\<lparr>me_status := MACTIVE, me_joined_at := (case me_joined_at m of None \<Rightarrow> Some now | t \<Rightarrow> t)\<rparr>"

definition membership_suspend :: "membership \<Rightarrow> membership" where
  "membership_suspend m = m\<lparr>me_status := MSUSPENDED\<rparr>"

section \<open>Sessions\<close>

record session =
  se_id :: uuid
  se_user_id :: uuid
  se_organization_id :: uuid
  se_family_id :: uuid
  se_refresh_token_hash :: str
  se_expires_at :: datetime
  se_user_agent :: str
  se_ip_address :: "str option"
  se_rotated_at :: "datetime option"
  se_revoked_at :: "datetime option"
  se_revoked_reason :: "str option"
  se_replaced_by_id :: "uuid option"
  se_created_at :: "datetime option"

definition REUSE_REVOCATION_REASON :: str where "REUSE_REVOCATION_REASON = ''token_reuse_detected''"

definition session_start ::
    "uuid \<Rightarrow> uuid \<Rightarrow> uuid \<Rightarrow> str \<Rightarrow> int \<Rightarrow> datetime \<Rightarrow> str \<Rightarrow> str option \<Rightarrow> session" where
  "session_start i user org token ttl_seconds now user_agent ip =
     \<lparr>se_id = i, se_user_id = user, se_organization_id = org, se_family_id = i,
      se_refresh_token_hash = token, se_expires_at = now + seconds ttl_seconds,
      se_user_agent = take 400 user_agent, se_ip_address = ip, se_rotated_at = None,
      se_revoked_at = None, se_revoked_reason = None, se_replaced_by_id = None,
      se_created_at = Some now\<rparr>"

text \<open>\<open>Session.rotate\<close>: the consumed session and its successor with id \<open>i\<close>.\<close>

definition session_rotate ::
    "uuid \<Rightarrow> str \<Rightarrow> datetime \<Rightarrow> datetime \<Rightarrow> str \<Rightarrow> str option \<Rightarrow> session \<Rightarrow> domain_error + session \<times> session" where
  "session_rotate i token now absolute_expiry user_agent ip s =
     (if se_revoked_at s \<noteq> None then Inl (InvalidStateError ''A revoked session cannot be rotated.'')
      else Inr
        (s\<lparr>se_rotated_at := Some now, se_replaced_by_id := Some i\<rparr>,
         \<lparr>se_id = i, se_user_id = se_user_id s, se_organization_id = se_organization_id s,
          se_family_id = se_family_id s, se_refresh_token_hash = token, se_expires_at = absolute_expiry,
          se_user_agent = take 400 (if user_agent = [] then se_user_agent s else user_agent),
          se_ip_address = (case ip of Some a \<Rightarrow> if a = [] then se_ip_address s else ip | None \<Rightarrow> se_ip_address s),
          se_rotated_at = None, se_revoked_at = None, se_revoked_reason = None,
          se_replaced_by_id = None, se_created_at = Some now\<rparr>))"

definition session_rotated :: "session \<Rightarrow> bool" where
  "session_rotated s \<longleftrightarrow> se_rotated_at s \<noteq> None"

definition session_expired :: "datetime \<Rightarrow> session \<Rightarrow> bool" where
  "session_expired now s \<longleftrightarrow> se_expires_at s \<le> now"

definition session_active :: "datetime \<Rightarrow> session \<Rightarrow> bool" where
  "session_active now s \<longleftrightarrow> se_revoked_at s = None \<and> \<not> session_rotated s \<and> \<not> session_expired now s"

definition within_rotation_grace :: "datetime \<Rightarrow> int \<Rightarrow> session \<Rightarrow> bool" where
  "within_rotation_grace now grace_seconds s =
     (case se_rotated_at s of None \<Rightarrow> False | Some t \<Rightarrow> now - t \<le> seconds grace_seconds)"

definition session_revoke :: "datetime \<Rightarrow> str \<Rightarrow> session \<Rightarrow> session" where
  "session_revoke now why s =
     (if se_revoked_at s = None then s\<lparr>se_revoked_at := Some now, se_revoked_reason := Some why\<rparr> else s)"

section \<open>API keys\<close>

record api_key =
  ak_id :: uuid
  ak_organization_id :: uuid
  ak_name :: str
  ak_prefix :: str
  ak_secret_hash :: str
  ak_permissions :: "permission set"
  ak_created_by :: "uuid option"
  ak_expires_at :: "datetime option"
  ak_revoked_at :: "datetime option"
  ak_last_used_at :: "datetime option"
  ak_created_at :: "datetime option"

definition new_api_key ::
    "uuid \<Rightarrow> uuid \<Rightarrow> str \<Rightarrow> str \<Rightarrow> str \<Rightarrow> permission set \<Rightarrow> uuid option \<Rightarrow> datetime option \<Rightarrow> datetime option
       \<Rightarrow> domain_error + api_key" where
  "new_api_key i org name pfx secret_hash permissions created_by expires_at created_at =
     (if strip name = [] then Inl (InvalidStateError ''An API key must have a name.'')
      else Inr \<lparr>ak_id = i, ak_organization_id = org, ak_name = take 120 (strip name), ak_prefix = pfx,
                ak_secret_hash = secret_hash, ak_permissions = permissions, ak_created_by = created_by,
                ak_expires_at = expires_at, ak_revoked_at = None, ak_last_used_at = None, ak_created_at = created_at\<rparr>)"

definition api_key_active :: "datetime \<Rightarrow> api_key \<Rightarrow> bool" where
  "api_key_active now k \<longleftrightarrow>
     ak_revoked_at k = None \<and> (case ak_expires_at k of None \<Rightarrow> True | Some e \<Rightarrow> e > now)"

definition api_key_revoke :: "datetime \<Rightarrow> api_key \<Rightarrow> api_key" where
  "api_key_revoke now k = (if ak_revoked_at k = None then k\<lparr>ak_revoked_at := Some now\<rparr> else k)"

definition api_key_touch :: "datetime \<Rightarrow> api_key \<Rightarrow> api_key" where
  "api_key_touch now k = k\<lparr>ak_last_used_at := Some now\<rparr>"

section \<open>The principal\<close>

datatype actor_type = ACTOR_USER | ACTOR_API_KEY | ACTOR_AGENT | ACTOR_SYSTEM

record request_context =
  rc_request_id :: str
  rc_ip_address :: "str option"
  rc_user_agent :: str

definition empty_context :: request_context where
  "empty_context = \<lparr>rc_request_id = [], rc_ip_address = None, rc_user_agent = []\<rparr>"

record principal =
  pr_kind :: actor_type
  pr_organization_id :: uuid
  pr_permissions :: "permission set"
  pr_user_id :: "uuid option"
  pr_session_id :: "uuid option"
  pr_api_key_id :: "uuid option"
  pr_agent_id :: "uuid option"
  pr_membership_id :: "uuid option"
  pr_label :: str
  pr_mfa_satisfied :: bool
  pr_is_platform_admin :: bool
  pr_is_owner :: bool
  pr_context :: request_context

definition for_membership ::
    "membership \<Rightarrow> uuid option \<Rightarrow> str \<Rightarrow> bool \<Rightarrow> bool \<Rightarrow> request_context \<Rightarrow> principal" where
  "for_membership m session_id label mfa_satisfied is_platform_admin ctx =
     \<lparr>pr_kind = ACTOR_USER, pr_organization_id = me_organization_id m,
      pr_permissions = membership_permissions m, pr_user_id = Some (me_user_id m),
      pr_session_id = session_id, pr_api_key_id = None, pr_agent_id = None,
      pr_membership_id = Some (me_id m), pr_label = label, pr_mfa_satisfied = mfa_satisfied,
      pr_is_platform_admin = is_platform_admin, pr_is_owner = membership_is_owner m, pr_context = ctx\<rparr>"

definition require :: "permission \<Rightarrow> principal \<Rightarrow> domain_error + unit" where
  "require p pr = raise_if (p \<notin> pr_permissions pr) (PermissionDeniedError (Some (permission_value p)))"

definition assert_can_grant :: "permission set \<Rightarrow> principal \<Rightarrow> domain_error + unit" where
  "assert_can_grant ps pr =
     (let missing = ps - pr_permissions pr in
      raise_if (missing \<noteq> {}) (PrivilegeEscalationError (permission_value ` missing)))"

lemma require_Inr [simp]: "require p pr = Inr u \<longleftrightarrow> p \<in> pr_permissions pr"
  by (simp add: require_def)

lemma assert_can_grant_Inr [simp]: "assert_can_grant ps pr = Inr u \<longleftrightarrow> ps \<subseteq> pr_permissions pr"
  by (auto simp: assert_can_grant_def Let_def)

lemma foreign_role_Inr [simp]: "foreign_role org roles = Inr u \<longleftrightarrow> (\<forall>r \<in> set roles. ro_organization_id r = org)"
  by (auto simp: foreign_role_def)

lemma assert_mutable_Inr [simp]: "assert_mutable r = Inr u \<longleftrightarrow> \<not> ro_is_system r"
  by (simp add: assert_mutable_def)

lemma role_update_Inr:
  assumes "role_update name description permissions r = Inr r'"
  shows "\<not> ro_is_system r" "ro_id r' = ro_id r" "ro_organization_id r' = ro_organization_id r"
    "ro_is_system r' = ro_is_system r"
    "ro_permissions r' = (case permissions of None \<Rightarrow> ro_permissions r | Some ps \<Rightarrow> ps)"
    "case permissions of None \<Rightarrow> True | Some ps \<Rightarrow> ps \<inter> OWNER_ONLY_PERMISSIONS = {}"
  using assms
  by (cases name; cases description; cases permissions;
      auto simp: role_update_def res_bind_Inr Let_def split: if_splits)+

lemma permission_value_inj: "permission_value p = permission_value q \<longleftrightarrow> p = q"
  by (cases p; cases q; simp)

lemma parse_permission_value [simp]: "parse_permission (permission_value p) = Some p"
  by (cases p) (simp_all add: parse_permission_def ALL_PERMISSIONS_def)

lemma all_permissions: "set ALL_PERMISSIONS = UNIV"
proof -
  have "p \<in> set ALL_PERMISSIONS" for p by (cases p) (simp_all add: ALL_PERMISSIONS_def)
  then show ?thesis by blast
qed

end
