(* ===== verification/AuditChain.thy ===== *)
theory AuditChain
  imports AccessEntity
begin

text \<open>
  The audit log: an append-only hash chain per organization (\<open>domain/entities/audit.py\<close>), the
  recorder that fills in an entry (\<open>application/audit_recorder.py\<close>) and the repository that seals,
  appends and verifies (\<open>SqlAuditRepository\<close>). The table is a list of rows. Two functions of the
  standard library are parameters: \<open>digest\<close> is SHA-256 of the canonical JSON text of a payload and
  \<open>isotime\<close> the ISO form of a time. The advisory lock serialises appends, so each sees the table that
  the one before left.
\<close>

definition GENESIS_HASH :: str where "GENESIS_HASH = replicate 64 (CHR ''0'')"

datatype audit_outcome = AUDIT_SUCCESS | AUDIT_FAILURE | AUDIT_DENIED

fun audit_outcome_value :: "audit_outcome \<Rightarrow> str" where
  "audit_outcome_value AUDIT_SUCCESS = ''SUCCESS''"
| "audit_outcome_value AUDIT_FAILURE = ''FAILURE''"
| "audit_outcome_value AUDIT_DENIED = ''DENIED''"

fun actor_type_value :: "actor_type \<Rightarrow> str" where
  "actor_type_value ACTOR_USER = ''USER''"
| "actor_type_value ACTOR_API_KEY = ''API_KEY''"
| "actor_type_value ACTOR_AGENT = ''AGENT''"
| "actor_type_value ACTOR_SYSTEM = ''SYSTEM''"

record audit_event =
  ae_id :: uuid
  ae_organization_id :: uuid
  ae_action :: str
  ae_actor_type :: actor_type
  ae_actor_user_id :: "uuid option"
  ae_actor_label :: str
  ae_resource_type :: str
  ae_resource_id :: str
  ae_outcome :: audit_outcome
  ae_ip_address :: "str option"
  ae_user_agent :: str
  ae_request_id :: str
  ae_metadata :: obj
  ae_previous_hash :: str
  ae_entry_hash :: str
  ae_occurred_at :: "datetime option"
  ae_sequence :: int

definition opt_json :: "str option \<Rightarrow> json" where
  "opt_json x = (case x of None \<Rightarrow> JNull | Some t \<Rightarrow> JStr t)"

text \<open>The payload of \<open>compute_hash\<close>.\<close>

definition audit_payload :: "(datetime \<Rightarrow> str) \<Rightarrow> audit_event \<Rightarrow> json" where
  "audit_payload isotime e = JObj
     [(''id'', JStr (ae_id e)),
      (''organization_id'', JStr (ae_organization_id e)),
      (''sequence'', JInt (ae_sequence e)),
      (''action'', JStr (ae_action e)),
      (''actor_type'', JStr (actor_type_value (ae_actor_type e))),
      (''actor_user_id'', opt_json (ae_actor_user_id e)),
      (''resource_type'', JStr (ae_resource_type e)),
      (''resource_id'', JStr (ae_resource_id e)),
      (''outcome'', JStr (audit_outcome_value (ae_outcome e))),
      (''ip_address'', opt_json (ae_ip_address e)),
      (''metadata'', JObj (ae_metadata e)),
      (''occurred_at'', opt_json (map_option isotime (ae_occurred_at e))),
      (''previous_hash'', JStr (ae_previous_hash e))]"

definition compute_hash :: "(json \<Rightarrow> str) \<Rightarrow> (datetime \<Rightarrow> str) \<Rightarrow> audit_event \<Rightarrow> str" where
  "compute_hash digest isotime e = digest (audit_payload isotime e)"

definition seal :: "(json \<Rightarrow> str) \<Rightarrow> (datetime \<Rightarrow> str) \<Rightarrow> str \<Rightarrow> datetime \<Rightarrow> int \<Rightarrow> audit_event \<Rightarrow> audit_event" where
  "seal digest isotime previous_hash occurred_at sequence e =
     (let linked = e\<lparr>ae_previous_hash := previous_hash, ae_occurred_at := Some occurred_at,
                     ae_sequence := sequence\<rparr>
      in linked\<lparr>ae_entry_hash := compute_hash digest isotime linked\<rparr>)"

definition audit_verify :: "(json \<Rightarrow> str) \<Rightarrow> (datetime \<Rightarrow> str) \<Rightarrow> str \<Rightarrow> audit_event \<Rightarrow> bool" where
  "audit_verify digest isotime expected_previous_hash e \<longleftrightarrow>
     ae_previous_hash e = expected_previous_hash \<and> ae_entry_hash e = compute_hash digest isotime e"

section \<open>The recorder\<close>

text \<open>\<open>x or y\<close> on texts and optional texts. (A UUID is always true.)\<close>

definition or_str :: "str \<Rightarrow> str \<Rightarrow> str" where "or_str x y = (if x = [] then y else x)"

definition or_opt :: "str option \<Rightarrow> str option \<Rightarrow> str option" where
  "or_opt x y = (case x of None \<Rightarrow> y | Some t \<Rightarrow> if t = [] then y else x)"

record audit_call =
  ac_principal :: "principal option"
  ac_action :: str
  ac_resource_type :: str
  ac_resource_id :: str
  ac_outcome :: audit_outcome
  ac_organization_id :: "uuid option"
  ac_actor_type :: "actor_type option"
  ac_actor_user_id :: "uuid option"
  ac_actor_label :: str
  ac_metadata :: obj
  ac_ip_address :: "str option"
  ac_user_agent :: str
  ac_request_id :: str

text \<open>The call with a principal and the defaults of the other parameters.\<close>

definition audit_by :: "principal \<Rightarrow> str \<Rightarrow> str \<Rightarrow> str \<Rightarrow> obj \<Rightarrow> audit_call" where
  "audit_by pr action resource_type resource_id metadata =
     \<lparr>ac_principal = Some pr, ac_action = action, ac_resource_type = resource_type,
      ac_resource_id = resource_id, ac_outcome = AUDIT_SUCCESS, ac_organization_id = None,
      ac_actor_type = None, ac_actor_user_id = None, ac_actor_label = [], ac_metadata = metadata,
      ac_ip_address = None, ac_user_agent = [], ac_request_id = []\<rparr>"

text \<open>The call without a principal, for a user of an organization, with what a failed sign-in gives.\<close>

definition audit_for_user ::
    "uuid \<Rightarrow> uuid \<Rightarrow> str \<Rightarrow> str \<Rightarrow> str \<Rightarrow> str \<Rightarrow> audit_outcome \<Rightarrow> str option \<Rightarrow> str \<Rightarrow> str \<Rightarrow> obj \<Rightarrow> audit_call" where
  "audit_for_user org user_id label action resource_type resource_id outcome ip ua rid metadata =
     \<lparr>ac_principal = None, ac_action = action, ac_resource_type = resource_type,
      ac_resource_id = resource_id, ac_outcome = outcome, ac_organization_id = Some org,
      ac_actor_type = Some ACTOR_USER, ac_actor_user_id = Some user_id, ac_actor_label = label,
      ac_metadata = metadata, ac_ip_address = ip, ac_user_agent = ua, ac_request_id = rid\<rparr>"

definition audit_entry :: "uuid \<Rightarrow> uuid \<Rightarrow> audit_call \<Rightarrow> audit_event" where
  "audit_entry i org c =
     (let pr = ac_principal c; ctx = map_option pr_context pr in
      \<lparr>ae_id = i, ae_organization_id = org, ae_action = ac_action c,
       ae_actor_type = (case ac_actor_type c of Some t \<Rightarrow> t
                        | None \<Rightarrow> (case pr of Some p \<Rightarrow> pr_kind p | None \<Rightarrow> ACTOR_SYSTEM)),
       ae_actor_user_id = (case ac_actor_user_id c of Some u \<Rightarrow> Some u | None \<Rightarrow> Option.bind pr pr_user_id),
       ae_actor_label = or_str (ac_actor_label c) (case pr of Some p \<Rightarrow> pr_label p | None \<Rightarrow> []),
       ae_resource_type = ac_resource_type c, ae_resource_id = ac_resource_id c,
       ae_outcome = ac_outcome c,
       ae_ip_address = or_opt (ac_ip_address c) (Option.bind ctx rc_ip_address),
       ae_user_agent = or_str (ac_user_agent c) (case ctx of Some x \<Rightarrow> rc_user_agent x | None \<Rightarrow> []),
       ae_request_id = or_str (ac_request_id c) (case ctx of Some x \<Rightarrow> rc_request_id x | None \<Rightarrow> []),
       ae_metadata = ac_metadata c, ae_previous_hash = GENESIS_HASH, ae_entry_hash = [],
       ae_occurred_at = None, ae_sequence = 0\<rparr>)"

section \<open>The repository\<close>

definition scoped_events :: "uuid \<Rightarrow> audit_event list \<Rightarrow> audit_event list" where
  "scoped_events org rows = sort_key ae_sequence (filter (\<lambda>e. ae_organization_id e = org) rows)"

text \<open>\<open>clock\<close> is \<open>_utcnow()\<close> at the append of an entry with this sequence number.\<close>

definition audit_append ::
    "(json \<Rightarrow> str) \<Rightarrow> (datetime \<Rightarrow> str) \<Rightarrow> (int \<Rightarrow> datetime) \<Rightarrow> uuid \<Rightarrow> audit_event \<Rightarrow> audit_event list
       \<Rightarrow> audit_event list" where
  "audit_append digest isotime clock org e rows =
     (let scoped = scoped_events org rows;
          previous_hash = (if scoped = [] then GENESIS_HASH else ae_entry_hash (last scoped));
          sequence = (if scoped = [] then 1 else ae_sequence (last scoped) + 1);
          occurred_at = (case ae_occurred_at e of Some t \<Rightarrow> t | None \<Rightarrow> clock sequence)
      in rows @ [seal digest isotime previous_hash occurred_at sequence e])"

text \<open>\<open>AuditRecorder.record\<close>; None is the \<open>ValueError\<close> of an entry without organization.\<close>

definition audit_record ::
    "(json \<Rightarrow> str) \<Rightarrow> (datetime \<Rightarrow> str) \<Rightarrow> (int \<Rightarrow> datetime) \<Rightarrow> uuid \<Rightarrow> uuid \<Rightarrow> audit_call \<Rightarrow> audit_event list
       \<Rightarrow> audit_event list option" where
  "audit_record digest isotime clock bound i c rows =
     (case (case ac_organization_id c of Some org \<Rightarrow> Some org
            | None \<Rightarrow> map_option pr_organization_id (ac_principal c)) of
        None \<Rightarrow> None
      | Some org \<Rightarrow> Some (audit_append digest isotime clock bound (audit_entry i org c) rows))"

fun verify_rows ::
    "(json \<Rightarrow> str) \<Rightarrow> (datetime \<Rightarrow> str) \<Rightarrow> str \<Rightarrow> nat \<Rightarrow> audit_event list \<Rightarrow> bool \<times> nat \<times> int option" where
  "verify_rows digest isotime expected_previous checked [] = (True, checked, None)"
| "verify_rows digest isotime expected_previous checked (e # es) =
     (if \<not> audit_verify digest isotime expected_previous e then (False, checked + 1, Some (ae_sequence e))
      else verify_rows digest isotime (ae_entry_hash e) (checked + 1) es)"

definition verify_chain ::
    "(json \<Rightarrow> str) \<Rightarrow> (datetime \<Rightarrow> str) \<Rightarrow> uuid \<Rightarrow> nat option \<Rightarrow> audit_event list \<Rightarrow> bool \<times> nat \<times> int option" where
  "verify_chain digest isotime org limit rows =
     (let records = scoped_events org rows in
      verify_rows digest isotime GENESIS_HASH 0
        (case limit of None \<Rightarrow> records | Some n \<Rightarrow> if n = 0 then records else take n records))"

abbreviation chain_intact :: "(json \<Rightarrow> str) \<Rightarrow> (datetime \<Rightarrow> str) \<Rightarrow> uuid \<Rightarrow> audit_event list \<Rightarrow> bool" where
  "chain_intact digest isotime org rows \<equiv> fst (verify_chain digest isotime org None rows)"

text \<open>The list of links a verified chain is.\<close>

fun linked :: "(json \<Rightarrow> str) \<Rightarrow> (datetime \<Rightarrow> str) \<Rightarrow> str \<Rightarrow> audit_event list \<Rightarrow> bool" where
  "linked digest isotime prev [] = True"
| "linked digest isotime prev (e # es) = (audit_verify digest isotime prev e \<and> linked digest isotime (ae_entry_hash e) es)"

definition head_hash :: "str \<Rightarrow> audit_event list \<Rightarrow> str" where
  "head_hash prev es = (if es = [] then prev else ae_entry_hash (last es))"

lemma verify_rows_linked: "fst (verify_rows digest isotime prev n es) \<longleftrightarrow> linked digest isotime prev es"
  by (induction es arbitrary: prev n) auto

lemma chain_intact_linked: "chain_intact digest isotime org rows \<longleftrightarrow> linked digest isotime GENESIS_HASH (scoped_events org rows)"
  by (simp add: verify_chain_def verify_rows_linked)

lemma linked_snoc:
  "linked digest isotime prev (es @ [e]) \<longleftrightarrow> linked digest isotime prev es \<and> audit_verify digest isotime (head_hash prev es) e"
  by (induction es arbitrary: prev) (auto simp: head_hash_def)

lemma linked_take: "linked digest isotime prev es \<Longrightarrow> linked digest isotime prev (take n es)"
  by (induction es arbitrary: prev n) (auto simp: take_Cons split: nat.splits)

lemma insort_key_snoc: "f y \<le> f x \<Longrightarrow> insort_key f y (zs @ [x]) = insort_key f y zs @ [x]"
  by (induction zs) auto

lemma sort_key_snoc: "\<forall>y \<in> set xs. f y \<le> f x \<Longrightarrow> sort_key f (xs @ [x]) = sort_key f xs @ [x]"
  by (induction xs) (auto simp: insort_key_snoc)

lemma sorted_last: "sorted (map f xs) \<Longrightarrow> y \<in> set xs \<Longrightarrow> f y \<le> f (last xs)"
  by (induction xs) auto

lemma audit_append_scoped:
  assumes "ae_organization_id e = org"
  shows "\<exists>e'. scoped_events org (audit_append digest isotime clock org e rows) = scoped_events org rows @ [e']
    \<and> audit_verify digest isotime (head_hash GENESIS_HASH (scoped_events org rows)) e'
    \<and> ae_action e' = ae_action e \<and> ae_organization_id e' = org"
proof -
  let ?s = "scoped_events org rows"
  let ?seq = "if ?s = [] then 1 else ae_sequence (last ?s) + 1"
  let ?prev = "if ?s = [] then GENESIS_HASH else ae_entry_hash (last ?s)"
  let ?e = "seal digest isotime ?prev (case ae_occurred_at e of Some t \<Rightarrow> t | None \<Rightarrow> clock ?seq) ?seq e"
  have app: "audit_append digest isotime clock org e rows = rows @ [?e]"
    by (simp add: audit_append_def Let_def)
  have fields: "ae_organization_id ?e = org" "ae_sequence ?e = ?seq" "ae_action ?e = ae_action e"
    using assms by (simp_all add: seal_def Let_def)
  have "\<forall>y \<in> set (filter (\<lambda>e. ae_organization_id e = org) rows). ae_sequence y \<le> ae_sequence ?e"
  proof
    fix y assume y: "y \<in> set (filter (\<lambda>e. ae_organization_id e = org) rows)"
    then have "y \<in> set ?s" by (simp add: scoped_events_def)
    moreover have "sorted (map ae_sequence ?s)" by (simp add: scoped_events_def)
    ultimately have "ae_sequence y \<le> ae_sequence (last ?s)" "?s \<noteq> []" using sorted_last by auto
    then show "ae_sequence y \<le> ae_sequence ?e" using fields(2) by simp
  qed
  then have "scoped_events org (rows @ [?e]) = ?s @ [?e]"
    using fields(1) by (simp add: scoped_events_def sort_key_snoc)
  moreover have "audit_verify digest isotime (head_hash GENESIS_HASH ?s) ?e"
    by (simp add: audit_verify_def seal_def Let_def compute_hash_def audit_payload_def head_hash_def)
  ultimately show ?thesis using fields app by metis
qed

lemma audit_append_other:
  "org' \<noteq> ae_organization_id e \<Longrightarrow> scoped_events org' (audit_append digest isotime clock org e rows) = scoped_events org' rows"
  by (simp add: audit_append_def scoped_events_def seal_def Let_def)

lemma audit_append_prefix: "\<exists>e'. audit_append digest isotime clock org e rows = rows @ [e']"
  by (auto simp: audit_append_def Let_def)

text \<open>
  Append keeps the chain: after recording an entry the organization's chain has exactly one
  more entry at its end, and it verifies if and only if it verified before; the chains of all other
  organizations are untouched.
\<close>

theorem audit_append_extends_chain:
  assumes "ae_organization_id e = org"
  shows "let rows' = audit_append digest isotime clock org e rows in
      length (scoped_events org rows') = length (scoped_events org rows) + 1
    \<and> take (length (scoped_events org rows)) (scoped_events org rows') = scoped_events org rows
    \<and> (chain_intact digest isotime org rows' \<longleftrightarrow> chain_intact digest isotime org rows)
    \<and> (\<forall>org'. org' \<noteq> org \<longrightarrow> scoped_events org' rows' = scoped_events org' rows)"
proof -
  define rows' where "rows' = audit_append digest isotime clock org e rows"
  obtain e' where e': "scoped_events org rows' = scoped_events org rows @ [e']"
    "audit_verify digest isotime (head_hash GENESIS_HASH (scoped_events org rows)) e'"
    using audit_append_scoped [OF assms] unfolding rows'_def by blast
  moreover have "\<forall>org'. org' \<noteq> org \<longrightarrow> scoped_events org' rows' = scoped_events org' rows"
    using assms audit_append_other unfolding rows'_def by metis
  ultimately have "length (scoped_events org rows') = length (scoped_events org rows) + 1
    \<and> take (length (scoped_events org rows)) (scoped_events org rows') = scoped_events org rows
    \<and> (chain_intact digest isotime org rows' \<longleftrightarrow> chain_intact digest isotime org rows)
    \<and> (\<forall>org'. org' \<noteq> org \<longrightarrow> scoped_events org' rows' = scoped_events org' rows)"
    by (simp add: chain_intact_linked linked_snoc)
  then show ?thesis unfolding Let_def rows'_def .
qed

definition sample_entry :: audit_event where
  "sample_entry = audit_entry ''e1'' ''o1''
     (audit_for_user ''o1'' ''u1'' ''ann@x.io'' ''auth.login_failed'' ''user'' ''u1'' AUDIT_FAILURE None [] [] [])"

definition sample_rows :: "audit_event list" where
  "sample_rows = audit_append (\<lambda>j. ''h'') (\<lambda>t. ''t'') (\<lambda>n. n) ''o1'' sample_entry []"

theorem audit_append_extends_chain_witness:
  "length (scoped_events ''o1'' (audit_append (\<lambda>j. ''h'') (\<lambda>t. ''t'') (\<lambda>n. n) ''o1'' sample_entry sample_rows)) = 2"
proof -
  have "ae_organization_id sample_entry = ''o1''" by code_simp
  moreover have "length (scoped_events ''o1'' sample_rows) = 1" by code_simp
  ultimately show ?thesis
    using audit_append_extends_chain [of sample_entry "''o1''" "\<lambda>j. ''h''" "\<lambda>t. ''t''" "\<lambda>n. n" sample_rows]
    by (simp add: Let_def)
qed

section \<open>What the head of a chain commits to\<close>

text \<open>A clash among the entries at hand: two contents with one hash, or one that hashes to the genesis value.\<close>

definition clash :: "(json \<Rightarrow> str) \<Rightarrow> (datetime \<Rightarrow> str) \<Rightarrow> audit_event list \<Rightarrow> audit_event list \<Rightarrow> bool" where
  "clash digest isotime es es' \<longleftrightarrow>
     (\<exists>e \<in> set es. \<exists>e' \<in> set es'. audit_payload isotime e \<noteq> audit_payload isotime e'
        \<and> compute_hash digest isotime e = compute_hash digest isotime e')
     \<or> (\<exists>e \<in> set es \<union> set es'. compute_hash digest isotime e = GENESIS_HASH)"

lemma payload_previous: "audit_payload isotime e = audit_payload isotime e' \<Longrightarrow> ae_previous_hash e = ae_previous_hash e'"
  by (simp add: audit_payload_def)

lemma linked_head_unique:
  assumes "linked digest isotime GENESIS_HASH es" "linked digest isotime GENESIS_HASH es'"
    and "head_hash GENESIS_HASH es = head_hash GENESIS_HASH es'" "\<not> clash digest isotime es es'"
  shows "map (audit_payload isotime) es = map (audit_payload isotime) es'"
  using assms
proof (induction es arbitrary: es' rule: rev_induct)
  case Nil
  show ?case
  proof (cases es' rule: rev_cases)
    case (snoc ys y)
    with Nil show ?thesis by (auto simp: head_hash_def linked_snoc audit_verify_def clash_def)
  qed simp
next
  case (snoc e es)
  have v: "linked digest isotime GENESIS_HASH es" "ae_previous_hash e = head_hash GENESIS_HASH es"
    "ae_entry_hash e = compute_hash digest isotime e"
    using snoc.prems(1) by (auto simp: linked_snoc audit_verify_def)
  show ?case
  proof (cases es' rule: rev_cases)
    case Nil
    with snoc.prems(3,4) v(3) show ?thesis by (auto simp: head_hash_def clash_def)
  next
    case [simp]: (snoc ys y)
    have w: "linked digest isotime GENESIS_HASH ys" "ae_previous_hash y = head_hash GENESIS_HASH ys"
      "ae_entry_hash y = compute_hash digest isotime y"
      using snoc.prems(2) by (auto simp: linked_snoc audit_verify_def)
    have "compute_hash digest isotime e = compute_hash digest isotime y"
      using snoc.prems(3) v(3) w(3) by (simp add: head_hash_def)
    then have same: "audit_payload isotime e = audit_payload isotime y"
      using snoc.prems(4) by (simp add: clash_def)
    then have "head_hash GENESIS_HASH es = head_hash GENESIS_HASH ys"
      using payload_previous v(2) w(2) by metis
    moreover have "\<not> clash digest isotime es ys" using snoc.prems(4) by (auto simp: clash_def)
    ultimately show ?thesis using snoc.IH [OF v(1) w(1)] same by simp
  qed
qed

text \<open>
  C15. Tamper evidence: two versions of an organization's audit table that both verify and end in
  the same entry hash have the same hashed content in every entry, in the same order and number,
  unless two entries of the two versions are a collision of the hash (or one hashes to the genesis
  value).
\<close>

theorem audit_head_commits_to_chain:
  assumes "chain_intact digest isotime org rows" "chain_intact digest isotime org rows'"
    and "head_hash GENESIS_HASH (scoped_events org rows) = head_hash GENESIS_HASH (scoped_events org rows')"
    and "\<not> clash digest isotime (scoped_events org rows) (scoped_events org rows')"
  shows "map (audit_payload isotime) (scoped_events org rows) = map (audit_payload isotime) (scoped_events org rows')"
  using linked_head_unique assms unfolding chain_intact_linked by blast

theorem audit_head_commits_to_chain_witness:
  "map (audit_payload (\<lambda>t. ''t'')) (scoped_events ''o1'' sample_rows)
     = map (audit_payload (\<lambda>t. ''t'')) (scoped_events ''o1'' (map (ae_actor_label_update (\<lambda>l. [])) sample_rows))"
  by (rule audit_head_commits_to_chain [of "\<lambda>j. ''h''" _ "''o1''"]) code_simp+

definition relabel :: "audit_event \<Rightarrow> audit_event" where
  "relabel e = e\<lparr>ae_actor_label := [], ae_user_agent := [], ae_request_id := []\<rparr>"

text \<open>
  What verification cannot see: dropping any number of the newest entries of a chain that
  verifies, and rewriting the actor label, the user agent and the request id of its entries, gives
  tables that still verify.
\<close>

theorem audit_verification_gaps:
  assumes "chain_intact digest isotime org rows"
  shows "chain_intact digest isotime org (take n (scoped_events org rows))
    \<and> chain_intact digest isotime org (map relabel rows)"
proof (rule conjI)
  have sub: "set (scoped_events org rows) \<subseteq> {e. ae_organization_id e = org}"
    by (auto simp: scoped_events_def)
  then have "filter (\<lambda>e. ae_organization_id e = org) (take n (scoped_events org rows)) = take n (scoped_events org rows)"
    using set_take_subset by (metis (mono_tags, lifting) filter_True mem_Collect_eq subsetD)
  moreover have "sorted (map ae_sequence (take n (scoped_events org rows)))"
    by (simp add: scoped_events_def take_map [symmetric] sorted_wrt_take)
  ultimately have "scoped_events org (take n (scoped_events org rows)) = take n (scoped_events org rows)"
    by (simp add: scoped_events_def [of org "take n _"] sort_key_id_if_sorted)
  then show "chain_intact digest isotime org (take n (scoped_events org rows))"
    using assms linked_take by (simp add: chain_intact_linked)
next
  have seq: "ae_sequence (relabel e) = ae_sequence e" "ae_organization_id (relabel e) = ae_organization_id e" for e
    by (simp_all add: relabel_def)
  have ins: "insort_key ae_sequence (relabel e) (map relabel es) = map relabel (insort_key ae_sequence e es)" for e es
    by (induction es) (auto simp: seq)
  have srt: "sort_key ae_sequence (map relabel es) = map relabel (sort_key ae_sequence es)" for es
    by (induction es) (auto simp: ins)
  have "scoped_events org (map relabel rows) = map relabel (scoped_events org rows)"
    by (simp add: scoped_events_def filter_map comp_def seq srt)
  moreover have "linked digest isotime prev (map relabel es) = linked digest isotime prev es" for prev es
  proof (induction es arbitrary: prev)
    case (Cons e es)
    have "audit_verify digest isotime prev (relabel e) = audit_verify digest isotime prev e"
      "ae_entry_hash (relabel e) = ae_entry_hash e"
      by (simp_all add: audit_verify_def relabel_def compute_hash_def audit_payload_def)
    with Cons show ?case by simp
  qed simp
  ultimately show "chain_intact digest isotime org (map relabel rows)"
    using assms by (simp add: chain_intact_linked)
qed

theorem audit_verification_gaps_witness:
  "chain_intact (\<lambda>j. ''h'') (\<lambda>t. ''t'') ''o1'' (take 0 (scoped_events ''o1'' sample_rows))
   \<and> chain_intact (\<lambda>j. ''h'') (\<lambda>t. ''t'') ''o1'' (map relabel sample_rows)"
  by (rule audit_verification_gaps) code_simp

end
