(* ===== verification/ControlDb.thy ===== *)
theory ControlDb
  imports AuditChain TenantEntity
begin

text \<open>
  The database of the control plane as its repositories see it (\<open>infrastructure/db/repositories.py\<close>,
  \<open>unit_of_work.py\<close>): one dictionary per table, rows in insertion order, and one definition per
  statement the use cases run. Entities are stored as they are; only a membership keeps the ids of
  its roles (the \<open>membership_roles\<close> table) and is joined with the role table when it is read.
  Row-level security and the mapping of columns are not modelled; the unique constraint on role
  names is, since a rename can run into it. A unit of work that ends without commit, because an
  exception left it, leaves the database as it found it.
\<close>

record membership_row =
  mr_id :: uuid
  mr_organization_id :: uuid
  mr_user_id :: uuid
  mr_role_ids :: "uuid list"
  mr_status :: membership_status
  mr_invited_by :: "uuid option"
  mr_joined_at :: "datetime option"

record control_db =
  db_organizations :: "(uuid, organization) dict"
  db_licenses :: "(uuid, license) dict"
  db_users :: "(uuid, user) dict"
  db_mfa :: "(uuid, mfa_credential) dict"
  db_sessions :: "(uuid, session) dict"
  db_memberships :: "(uuid, membership_row) dict"
  db_roles :: "(uuid, role) dict"
  db_api_keys :: "(uuid, api_key) dict"
  db_audit :: "audit_event list"

definition empty_db :: control_db where
  "empty_db = \<lparr>db_organizations = [], db_licenses = [], db_users = [], db_mfa = [], db_sessions = [],
     db_memberships = [], db_roles = [], db_api_keys = [], db_audit = []\<rparr>"

text \<open>What an operation may raise: an error of the domain, or anything else (answered with 500).\<close>

datatype control_exn = Domain domain_error | Crash

text \<open>
  What surrounds an operation: the clock, the database's own clock, the ids \<open>new_id\<close> will draw in
  this operation, and the library functions the audit chain and the value objects use.
\<close>

record control_env =
  ce_now :: datetime
  ce_db_now :: datetime
  ce_fresh :: "nat \<Rightarrow> uuid"
  ce_digest :: "json \<Rightarrow> str"
  ce_isotime :: "datetime \<Rightarrow> str"
  ce_audit_clock :: "int \<Rightarrow> datetime"
  ce_nfkc :: "str \<Rightarrow> str"
  ce_ascii :: "str \<Rightarrow> str"

definition dom_res :: "domain_error + 'a \<Rightarrow> control_exn + 'a" where
  "dom_res r = (case r of Inl e \<Rightarrow> Inl (Domain e) | Inr x \<Rightarrow> Inr x)"

definition expect :: "domain_error \<Rightarrow> 'a option \<Rightarrow> control_exn + 'a" where
  "expect e x = (case x of None \<Rightarrow> Inl (Domain e) | Some v \<Rightarrow> Inr v)"

text \<open>The unit of work: commit what the body returns, roll back when it raises.\<close>

definition in_transaction ::
    "'d \<Rightarrow> control_exn + 'a \<times> 'd \<Rightarrow> (control_exn + 'a) \<times> 'd" where
  "in_transaction db r = (case r of Inl e \<Rightarrow> (Inl e, db) | Inr (x, db') \<Rightarrow> (Inr x, db'))"

lemma dom_res_Inr [simp]: "dom_res r = Inr x \<longleftrightarrow> r = Inr x"
  by (cases r) (auto simp: dom_res_def)

lemma expect_Inr [simp]: "expect e x = Inr v \<longleftrightarrow> x = Some v"
  by (cases x) (auto simp: expect_def)

lemma in_transaction_simps [simp]:
  "in_transaction db (Inl e) = (Inl e, db)" "in_transaction db (Inr (x, db')) = (Inr x, db')"
  by (simp_all add: in_transaction_def)

lemma in_transaction_rule:
  "P db \<Longrightarrow> (\<And>x db'. r = Inr (x, db') \<Longrightarrow> P db') \<Longrightarrow> P (snd (in_transaction db r))"
  by (cases r) (auto simp: in_transaction_def)

section \<open>Users, organizations, licences\<close>

definition users_get :: "control_db \<Rightarrow> uuid \<Rightarrow> user option" where
  "users_get db i = dget (db_users db) i"

definition users_get_by_email :: "control_db \<Rightarrow> str \<Rightarrow> user option" where
  "users_get_by_email db email = map_option snd (find (\<lambda>(_, u). us_email u = email) (db_users db))"

definition email_exists :: "control_db \<Rightarrow> str \<Rightarrow> bool" where
  "email_exists db email \<longleftrightarrow> (\<exists>(_, u) \<in> set (db_users db). us_email u = email)"

definition users_put :: "user \<Rightarrow> control_db \<Rightarrow> control_db" where
  "users_put u db = db\<lparr>db_users := dput (us_id u) u (db_users db)\<rparr>"

definition organizations_get :: "control_db \<Rightarrow> uuid \<Rightarrow> organization option" where
  "organizations_get db i = dget (db_organizations db) i"

definition organizations_get_by_slug :: "control_db \<Rightarrow> str \<Rightarrow> organization option" where
  "organizations_get_by_slug db s =
     map_option snd (find (\<lambda>(_, o1). og_slug o1 = s) (db_organizations db))"

definition slug_exists :: "control_db \<Rightarrow> str \<Rightarrow> bool" where
  "slug_exists db s \<longleftrightarrow> (\<exists>(_, o1) \<in> set (db_organizations db). og_slug o1 = s)"

definition organizations_put :: "organization \<Rightarrow> control_db \<Rightarrow> control_db" where
  "organizations_put o1 db = db\<lparr>db_organizations := dput (og_id o1) o1 (db_organizations db)\<rparr>"

definition licenses_get_for_organization :: "control_db \<Rightarrow> uuid \<Rightarrow> license option" where
  "licenses_get_for_organization db org =
     map_option snd (find (\<lambda>(_, l). li_organization_id l = org) (db_licenses db))"

definition licenses_add :: "license \<Rightarrow> control_db \<Rightarrow> control_db" where
  "licenses_add l db = db\<lparr>db_licenses := dput (li_id l) l (db_licenses db)\<rparr>"

section \<open>Roles and memberships\<close>

definition roles_get :: "control_db \<Rightarrow> uuid \<Rightarrow> uuid \<Rightarrow> role option" where
  "roles_get db org i =
     (case dget (db_roles db) i of
        Some r \<Rightarrow> if ro_organization_id r = org then Some r else None | None \<Rightarrow> None)"

definition scoped_roles :: "control_db \<Rightarrow> uuid \<Rightarrow> role list" where
  "scoped_roles db org = filter (\<lambda>r. ro_organization_id r = org) (map snd (db_roles db))"

definition roles_get_by_name :: "control_db \<Rightarrow> uuid \<Rightarrow> str \<Rightarrow> role option" where
  "roles_get_by_name db org name = find (\<lambda>r. ro_name r = name) (scoped_roles db org)"

definition roles_get_many :: "control_db \<Rightarrow> uuid \<Rightarrow> uuid list \<Rightarrow> role list" where
  "roles_get_many db org ids =
     (if ids = [] then [] else filter (\<lambda>r. ro_id r \<in> set ids) (scoped_roles db org))"

text \<open>
  Insert and update, under the constraint that names are unique in an organization. (None is the
  \<open>IntegrityError\<close> of the flush.)
\<close>

definition roles_put :: "role \<Rightarrow> control_db \<Rightarrow> control_db option" where
  "roles_put r db =
     (if \<exists>q \<in> set (scoped_roles db (ro_organization_id r)). ro_name q = ro_name r \<and> ro_id q \<noteq> ro_id r then None
      else Some (db\<lparr>db_roles := dput (ro_id r) r (db_roles db)\<rparr>))"

text \<open>Deleting a role deletes its rows of \<open>membership_roles\<close> too (\<open>ON DELETE CASCADE\<close>).\<close>

definition roles_delete :: "uuid \<Rightarrow> uuid \<Rightarrow> control_db \<Rightarrow> control_db" where
  "roles_delete org i db =
     (case roles_get db org i of None \<Rightarrow> db
      | Some _ \<Rightarrow> db\<lparr>db_roles := ddel i (db_roles db),
                     db_memberships := map (\<lambda>(k, m). (k, m\<lparr>mr_role_ids := removeAll i (mr_role_ids m)\<rparr>))
                                         (db_memberships db)\<rparr>)"

definition scoped_memberships :: "control_db \<Rightarrow> uuid \<Rightarrow> membership_row list" where
  "scoped_memberships db org = filter (\<lambda>m. mr_organization_id m = org) (map snd (db_memberships db))"

definition count_memberships_using :: "control_db \<Rightarrow> uuid \<Rightarrow> uuid \<Rightarrow> nat" where
  "count_memberships_using db org i =
     length (filter (\<lambda>m. i \<in> set (mr_role_ids m)) (scoped_memberships db org))"

definition roles_of :: "control_db \<Rightarrow> uuid list \<Rightarrow> role list" where
  "roles_of db ids = sort_key ro_name (filter (\<lambda>r. ro_id r \<in> set ids) (map snd (db_roles db)))"

text \<open>\<open>membership_to_domain\<close>: the roles come ordered by name.\<close>

definition membership_to_domain :: "control_db \<Rightarrow> membership_row \<Rightarrow> membership" where
  "membership_to_domain db m =
     \<lparr>me_id = mr_id m, me_organization_id = mr_organization_id m, me_user_id = mr_user_id m,
      me_roles = roles_of db (mr_role_ids m), me_status = mr_status m,
      me_invited_by = mr_invited_by m, me_joined_at = mr_joined_at m\<rparr>"

definition membership_to_row :: "membership \<Rightarrow> membership_row" where
  "membership_to_row m =
     \<lparr>mr_id = me_id m, mr_organization_id = me_organization_id m, mr_user_id = me_user_id m,
      mr_role_ids = map ro_id (me_roles m), mr_status = me_status m,
      mr_invited_by = me_invited_by m, mr_joined_at = me_joined_at m\<rparr>"

definition memberships_get :: "control_db \<Rightarrow> uuid \<Rightarrow> uuid \<Rightarrow> membership option" where
  "memberships_get db org i =
     (case dget (db_memberships db) i of
        Some m \<Rightarrow> if mr_organization_id m = org then Some (membership_to_domain db m) else None
      | None \<Rightarrow> None)"

definition memberships_get_for_user :: "control_db \<Rightarrow> uuid \<Rightarrow> uuid \<Rightarrow> membership option" where
  "memberships_get_for_user db org user_id =
     map_option (membership_to_domain db) (find (\<lambda>m. mr_user_id m = user_id) (scoped_memberships db org))"

definition memberships_add :: "membership \<Rightarrow> control_db \<Rightarrow> control_db" where
  "memberships_add m db = db\<lparr>db_memberships := dput (me_id m) (membership_to_row m) (db_memberships db)\<rparr>"

text \<open>The update writes the status, the time of joining and the role rows.\<close>

definition memberships_update :: "membership \<Rightarrow> control_db \<Rightarrow> control_db" where
  "memberships_update m db =
     (case dget (db_memberships db) (me_id m) of None \<Rightarrow> db
      | Some row \<Rightarrow> db\<lparr>db_memberships := dput (me_id m)
          (row\<lparr>mr_status := me_status m, mr_joined_at := me_joined_at m,
               mr_role_ids := map ro_id (me_roles m)\<rparr>) (db_memberships db)\<rparr>)"

definition memberships_delete :: "uuid \<Rightarrow> uuid \<Rightarrow> control_db \<Rightarrow> control_db" where
  "memberships_delete org i db =
     (case memberships_get db org i of None \<Rightarrow> db
      | Some _ \<Rightarrow> db\<lparr>db_memberships := ddel i (db_memberships db)\<rparr>)"

definition memberships_count :: "control_db \<Rightarrow> uuid \<Rightarrow> nat" where
  "memberships_count db org = length (scoped_memberships db org)"

definition row_is_owner :: "control_db \<Rightarrow> membership_row \<Rightarrow> bool" where
  "row_is_owner db m \<longleftrightarrow> (\<exists>r \<in> set (map snd (db_roles db)). ro_id r \<in> set (mr_role_ids m) \<and> ro_is_system r \<and> ro_name r = ''Owner'')"

definition count_owners :: "control_db \<Rightarrow> uuid \<Rightarrow> nat" where
  "count_owners db org = length (filter (row_is_owner db) (scoped_memberships db org))"

text \<open>\<open>find_active_organizations_for_user\<close>, ordered by name.\<close>

definition active_organizations_for_user :: "control_db \<Rightarrow> uuid \<Rightarrow> organization list" where
  "active_organizations_for_user db user_id =
     sort_key og_name
       (concat (map (\<lambda>(_, o1). map (\<lambda>_. o1)
                  (filter (\<lambda>m. mr_user_id m = user_id \<and> mr_status m = MACTIVE) (scoped_memberships db (og_id o1))))
          (filter (\<lambda>(_, o1). og_status o1 = ORG_ACTIVE) (db_organizations db))))"

section \<open>Sessions\<close>

definition sessions_get :: "control_db \<Rightarrow> uuid \<Rightarrow> session option" where
  "sessions_get db i = dget (db_sessions db) i"

definition sessions_get_by_token_hash :: "control_db \<Rightarrow> str \<Rightarrow> session option" where
  "sessions_get_by_token_hash db h =
     map_option snd (find (\<lambda>(_, s). se_refresh_token_hash s = h) (db_sessions db))"

text \<open>The time of creation is the database's, not the one the entity carries.\<close>

definition sessions_add :: "datetime \<Rightarrow> session \<Rightarrow> control_db \<Rightarrow> control_db" where
  "sessions_add db_now s db =
     db\<lparr>db_sessions := dput (se_id s) (s\<lparr>se_created_at := Some db_now\<rparr>) (db_sessions db)\<rparr>"

text \<open>\<open>apply_session\<close>: the columns an update writes.\<close>

definition sessions_update :: "session \<Rightarrow> control_db \<Rightarrow> control_db" where
  "sessions_update s db =
     (case dget (db_sessions db) (se_id s) of None \<Rightarrow> db
      | Some row \<Rightarrow> db\<lparr>db_sessions := dput (se_id s)
          (row\<lparr>se_rotated_at := se_rotated_at s, se_revoked_at := se_revoked_at s,
               se_revoked_reason := se_revoked_reason s, se_replaced_by_id := se_replaced_by_id s\<rparr>)
          (db_sessions db)\<rparr>)"

text \<open>A bulk revocation of the sessions that satisfy \<open>p\<close> and are not revoked, and their number.\<close>

definition revoke_where :: "(session \<Rightarrow> bool) \<Rightarrow> datetime \<Rightarrow> str \<Rightarrow> control_db \<Rightarrow> nat \<times> control_db" where
  "revoke_where p now why db =
     (length (filter (\<lambda>(_, s). p s \<and> se_revoked_at s = None) (db_sessions db)),
      db\<lparr>db_sessions := map (\<lambda>(k, s). (k, if p s then session_revoke now why s else s)) (db_sessions db)\<rparr>)"

definition revoke_family :: "uuid \<Rightarrow> datetime \<Rightarrow> str \<Rightarrow> control_db \<Rightarrow> nat \<times> control_db" where
  "revoke_family family now why db = revoke_where (\<lambda>s. se_family_id s = family) now why db"

definition revoke_all_for_user :: "uuid \<Rightarrow> datetime \<Rightarrow> str \<Rightarrow> uuid option \<Rightarrow> control_db \<Rightarrow> nat \<times> control_db" where
  "revoke_all_for_user user_id now why except db =
     revoke_where (\<lambda>s. se_user_id s = user_id \<and> except \<noteq> Some (se_id s)) now why db"

definition list_active_for_user :: "control_db \<Rightarrow> uuid \<Rightarrow> datetime \<Rightarrow> session list" where
  "list_active_for_user db user_id now =
     filter (\<lambda>s. se_user_id s = user_id \<and> se_revoked_at s = None \<and> se_rotated_at s = None \<and> se_expires_at s > now)
       (map snd (db_sessions db))"

section \<open>API keys and second factors\<close>

definition api_keys_get :: "control_db \<Rightarrow> uuid \<Rightarrow> uuid \<Rightarrow> api_key option" where
  "api_keys_get db org i =
     (case dget (db_api_keys db) i of
        Some k \<Rightarrow> if ak_organization_id k = org then Some k else None | None \<Rightarrow> None)"

definition api_keys_get_by_prefix :: "control_db \<Rightarrow> str \<Rightarrow> api_key option" where
  "api_keys_get_by_prefix db p = map_option snd (find (\<lambda>(_, k). ak_prefix k = p) (db_api_keys db))"

definition api_keys_put :: "api_key \<Rightarrow> control_db \<Rightarrow> control_db" where
  "api_keys_put k db = db\<lparr>db_api_keys := dput (ak_id k) k (db_api_keys db)\<rparr>"

definition api_keys_touch :: "uuid \<Rightarrow> datetime \<Rightarrow> control_db \<Rightarrow> control_db" where
  "api_keys_touch i now db =
     db\<lparr>db_api_keys := map (\<lambda>(k, a). (k, if k = i then api_key_touch now a else a)) (db_api_keys db)\<rparr>"

definition get_totp :: "control_db \<Rightarrow> uuid \<Rightarrow> bool option \<Rightarrow> mfa_credential option" where
  "get_totp db user_id confirmed =
     map_option snd (find (\<lambda>(_, c). mf_user_id c = user_id \<and> mf_kind c = TOTP
        \<and> (case confirmed of None \<Rightarrow> True | Some b \<Rightarrow> mf_confirmed c = b)) (db_mfa db))"

definition list_recovery_codes :: "control_db \<Rightarrow> uuid \<Rightarrow> mfa_credential list" where
  "list_recovery_codes db user_id =
     filter (\<lambda>c. mf_user_id c = user_id \<and> mf_kind c = RECOVERY_CODE \<and> mf_consumed_at c = None)
       (map snd (db_mfa db))"

definition mfa_put :: "mfa_credential \<Rightarrow> control_db \<Rightarrow> control_db" where
  "mfa_put c db = db\<lparr>db_mfa := dput (mf_id c) c (db_mfa db)\<rparr>"

definition mfa_delete_for_user :: "uuid \<Rightarrow> control_db \<Rightarrow> control_db" where
  "mfa_delete_for_user user_id db = db\<lparr>db_mfa := filter (\<lambda>(_, c). mf_user_id c \<noteq> user_id) (db_mfa db)\<rparr>"

section \<open>Audit entries\<close>

text \<open>Record an entry in the bound organization's chain; \<open>i\<close> is the id of the entry.\<close>

definition record_audit :: "control_env \<Rightarrow> uuid \<Rightarrow> uuid \<Rightarrow> audit_call \<Rightarrow> control_db \<Rightarrow> control_exn + control_db" where
  "record_audit env bound i c db =
     (case audit_record (ce_digest env) (ce_isotime env) (ce_audit_clock env) bound i c (db_audit db) of
        None \<Rightarrow> Inl Crash
      | Some rows \<Rightarrow> Inr (db\<lparr>db_audit := rows\<rparr>))"

lemma record_audit_Inr:
  "record_audit env bound i c db = Inr db' \<Longrightarrow> \<exists>rows. db' = db\<lparr>db_audit := rows\<rparr>"
  by (auto simp: record_audit_def split: option.splits)

lemma record_audit_by:
  "\<exists>rows. record_audit env bound i (audit_by pr action rt rid md) db = Inr (db\<lparr>db_audit := rows\<rparr>)"
  by (simp add: record_audit_def audit_record_def audit_by_def) (rule exI, rule refl)

end
