(* ===== verification/Rbac.thy ===== *)
theory Rbac
  imports ControlDb "HOL-Library.Product_Lexorder"
begin

text \<open>
  Members and roles of an organization (\<open>application/rbac.py\<close>). Every operation takes the
  surroundings, the calling principal, its arguments and the database, and returns the result beside
  the database: the new one after the commit, the old one when an exception ended the unit of work.
\<close>

section \<open>Summaries\<close>

record role_summary =
  rs_id :: uuid
  rs_name :: str
  rs_description :: str
  rs_is_system :: bool
  rs_permissions :: "str list"

definition summarize_role :: "role \<Rightarrow> role_summary" where
  "summarize_role r =
     \<lparr>rs_id = ro_id r, rs_name = ro_name r, rs_description = ro_description r,
      rs_is_system = ro_is_system r, rs_permissions = sorted_values (ro_permissions r)\<rparr>"

fun membership_status_value :: "membership_status \<Rightarrow> str" where
  "membership_status_value MACTIVE = ''ACTIVE''"
| "membership_status_value MINVITED = ''INVITED''"
| "membership_status_value MSUSPENDED = ''SUSPENDED''"

record member_summary =
  ms_membership_id :: uuid
  ms_user_id :: uuid
  ms_email :: str
  ms_full_name :: str
  ms_status :: str
  ms_roles :: "role_summary list"
  ms_permissions :: "str list"
  ms_joined_at :: "datetime option"
  ms_last_login_at :: "datetime option"

definition summarize_member :: "membership \<Rightarrow> user \<Rightarrow> member_summary" where
  "summarize_member m u =
     \<lparr>ms_membership_id = me_id m, ms_user_id = us_id u, ms_email = us_email u,
      ms_full_name = us_full_name u, ms_status = membership_status_value (me_status m),
      ms_roles = map summarize_role (me_roles m), ms_permissions = sorted_values (membership_permissions m),
      ms_joined_at = me_joined_at m, ms_last_login_at = us_last_login_at u\<rparr>"

text \<open>\<open>parse_permissions\<close>: the unknown texts in order, or the set of permissions.\<close>

definition parse_permissions :: "str list \<Rightarrow> domain_error + permission set" where
  "parse_permissions raw =
     (let unknown = filter (\<lambda>t. parse_permission t = None) raw in
      if unknown \<noteq> [] then
        Inl (ValidationError (''Unknown permissions: '' @ join '', '' (sort unknown)) (Some ''permissions'') None)
      else Inr (set (map (\<lambda>t. the (parse_permission t)) raw)))"

section \<open>Organization\<close>

definition get_organization :: "principal \<Rightarrow> control_db \<Rightarrow> control_exn + organization" where
  "get_organization pr db =
     res_bind (dom_res (require ORG_READ pr)) (\<lambda>_.
       expect (NotFoundError ''Organization'') (organizations_get db (pr_organization_id pr)))"

text \<open>\<open>{**settings, **new}\<close>: existing keys keep their place, new ones follow.\<close>

definition merge_settings :: "obj \<Rightarrow> obj \<Rightarrow> obj" where
  "merge_settings old new = foldl (\<lambda>d (k, v). dput k v d) old new"

definition update_organization ::
    "control_env \<Rightarrow> principal \<Rightarrow> str option \<Rightarrow> obj option \<Rightarrow> control_db
       \<Rightarrow> (control_exn + organization) \<times> control_db" where
  "update_organization env pr name settings db = in_transaction db
     (res_bind (dom_res (require ORG_WRITE pr)) (\<lambda>_.
      res_bind (expect (NotFoundError ''Organization'') (organizations_get db (pr_organization_id pr))) (\<lambda>o0.
      res_bind (case name of None \<Rightarrow> Inr o0 | Some n \<Rightarrow> dom_res (organization_rename n o0)) (\<lambda>o1.
      let o2 = (case settings of None \<Rightarrow> o1 | Some st \<Rightarrow> o1\<lparr>og_settings := merge_settings (og_settings o1) st\<rparr>);
          changed = (case name of None \<Rightarrow> [] | Some _ \<Rightarrow> [(''name'', JStr (og_name o1))])
                    @ (case settings of None \<Rightarrow> []
                       | Some st \<Rightarrow> [(''settings_keys'', JList (map JStr (sort (dkeys st))))])
      in res_bind (record_audit env (pr_organization_id pr) (ce_fresh env 0)
                     (audit_by pr ''org.updated'' ''organization'' (og_id o2) changed)
                     (organizations_put o2 db)) (\<lambda>db'.
         Inr (o2, db'))))))"

section \<open>Members\<close>

definition resolve_roles ::
    "control_db \<Rightarrow> principal \<Rightarrow> uuid list \<Rightarrow> control_exn + role list" where
  "resolve_roles db pr role_ids =
     (if role_ids = [] then
        Inl (Domain (ValidationError ''At least one role must be assigned.'' (Some ''role_ids'') None))
      else let roles = roles_get_many db (pr_organization_id pr) role_ids in
        if length roles \<noteq> card (set role_ids) then Inl (Domain (NotFoundError ''Role''))
        else res_bind (dom_res (assert_can_grant (\<Union> (ro_permissions ` set roles)) pr)) (\<lambda>_. Inr roles))"

text \<open>The account with that address, or a new one that is only invited.\<close>

definition find_or_invite :: "control_env \<Rightarrow> str \<Rightarrow> str \<Rightarrow> control_db \<Rightarrow> user \<times> control_db" where
  "find_or_invite env address full_name db =
     (case users_get_by_email db address of
        Some u \<Rightarrow> (u, db)
      | None \<Rightarrow> let u = new_user (ce_fresh env 0) address None full_name USER_INVITED None in (u, users_put u db))"

definition invite_member ::
    "control_env \<Rightarrow> principal \<Rightarrow> str \<Rightarrow> str \<Rightarrow> uuid list \<Rightarrow> control_db
       \<Rightarrow> (control_exn + member_summary) \<times> control_db" where
  "invite_member env pr email full_name role_ids db = in_transaction db
     (let org = pr_organization_id pr in
      res_bind (dom_res (require USER_INVITE pr)) (\<lambda>_.
      res_bind (dom_res (email_address (ce_nfkc env) email)) (\<lambda>address.
      res_bind (resolve_roles db pr role_ids) (\<lambda>roles.
      res_bind (case licenses_get_for_organization db org of None \<Rightarrow> Inr ()
                | Some l \<Rightarrow> dom_res (check_users l (memberships_count db org))) (\<lambda>_.
      case find_or_invite env address full_name db of (u, db1) \<Rightarrow>
         res_bind (case memberships_get_for_user db1 org (us_id u) of None \<Rightarrow> Inr ()
             | Some _ \<Rightarrow> Inl (Domain (ConflictError ''This person is already a member of the organization.''))) (\<lambda>_.
         res_bind (dom_res (new_membership (ce_fresh env 1) org (us_id u) roles MINVITED (pr_user_id pr) None)) (\<lambda>m.
         res_bind (record_audit env org (ce_fresh env 2)
             (audit_by pr ''member.invited'' ''membership'' (me_id m)
                [(''email'', JStr address), (''roles'', JList (map JStr (sort (map ro_name roles))))])
             (memberships_add m db1)) (\<lambda>db2.
         Inr (summarize_member m u, db2)))))))))"

definition update_member_roles ::
    "control_env \<Rightarrow> principal \<Rightarrow> uuid \<Rightarrow> uuid list \<Rightarrow> control_db
       \<Rightarrow> (control_exn + member_summary) \<times> control_db" where
  "update_member_roles env pr membership_id role_ids db = in_transaction db
     (let org = pr_organization_id pr in
      res_bind (dom_res (require ROLE_WRITE pr)) (\<lambda>_.
      res_bind (expect (NotFoundError ''Membership'') (memberships_get db org membership_id)) (\<lambda>m.
      res_bind (resolve_roles db pr role_ids) (\<lambda>roles.
      res_bind (dom_res (assign_roles roles m)) (\<lambda>m1.
      res_bind (dom_res (raise_if
          (membership_is_owner m \<and> \<not> membership_is_owner m1 \<and> count_owners db org \<le> 1)
          (InvalidStateError ''An organization must retain at least one Owner.''))) (\<lambda>_.
      res_bind (expect (NotFoundError ''User'') (users_get db (me_user_id m1))) (\<lambda>u.
      res_bind (record_audit env org (ce_fresh env 0)
          (audit_by pr ''member.roles_changed'' ''membership'' (me_id m1)
             [(''roles'', JList (map JStr (sort (map ro_name roles)))), (''user_id'', JStr (us_id u))])
          (memberships_update m1 db)) (\<lambda>db1.
      Inr (summarize_member m1 u, db1)))))))))"

definition remove_member ::
    "control_env \<Rightarrow> principal \<Rightarrow> uuid \<Rightarrow> control_db \<Rightarrow> (control_exn + unit) \<times> control_db" where
  "remove_member env pr membership_id db = in_transaction db
     (let org = pr_organization_id pr in
      res_bind (dom_res (require USER_REMOVE pr)) (\<lambda>_.
      res_bind (expect (NotFoundError ''Membership'') (memberships_get db org membership_id)) (\<lambda>m.
      res_bind (dom_res (raise_if (Some (me_user_id m) = pr_user_id pr)
          (InvalidStateError ''You cannot remove your own membership.''))) (\<lambda>_.
      res_bind (dom_res (raise_if (membership_is_owner m \<and> count_owners db org \<le> 1)
          (InvalidStateError ''An organization must retain at least one Owner.''))) (\<lambda>_.
      let db1 = snd (revoke_all_for_user (me_user_id m) (ce_now env) ''membership_removed'' None
                       (memberships_delete org membership_id db))
      in res_bind (record_audit env org (ce_fresh env 0)
            (audit_by pr ''member.removed'' ''membership'' membership_id [(''user_id'', JStr (me_user_id m))])
            db1) (\<lambda>db2.
         Inr ((), db2)))))))"

section \<open>Roles\<close>

definition list_roles :: "principal \<Rightarrow> control_db \<Rightarrow> control_exn + role_summary list" where
  "list_roles pr db =
     res_bind (dom_res (require ORG_READ pr)) (\<lambda>_.
       Inr (map summarize_role
         (sort_key (\<lambda>r. (\<not> ro_is_system r, ro_name r)) (scoped_roles db (pr_organization_id pr)))))"

definition conflict_role :: "str \<Rightarrow> domain_error" where
  "conflict_role name =
     ConflictError (''A role named '' @ [CHR 0x27] @ strip name @ [CHR 0x27] @ '' already exists.'')"

definition create_role ::
    "control_env \<Rightarrow> principal \<Rightarrow> str \<Rightarrow> str \<Rightarrow> str list \<Rightarrow> control_db
       \<Rightarrow> (control_exn + role_summary) \<times> control_db" where
  "create_role env pr name description permissions db = in_transaction db
     (let org = pr_organization_id pr in
      res_bind (dom_res (require ROLE_WRITE pr)) (\<lambda>_.
      res_bind (dom_res (parse_permissions permissions)) (\<lambda>parsed.
      res_bind (dom_res (assert_can_grant parsed pr)) (\<lambda>_.
      res_bind (dom_res (raise_if (roles_get_by_name db org (strip name) \<noteq> None) (conflict_role name))) (\<lambda>_.
      res_bind (dom_res (new_role (ce_fresh env 0) org name {} description False)) (\<lambda>r0.
      res_bind (dom_res (role_update None None (Some parsed) r0)) (\<lambda>r.
      res_bind (case roles_put r db of None \<Rightarrow> Inl Crash | Some db1 \<Rightarrow> Inr db1) (\<lambda>db1.
      res_bind (record_audit env org (ce_fresh env 1)
          (audit_by pr ''role.created'' ''role'' (ro_id r)
             [(''name'', JStr (ro_name r)), (''permissions'', JList (map JStr (sorted_values parsed)))])
          db1) (\<lambda>db2.
      Inr (summarize_role r, db2))))))))))"

definition update_role ::
    "control_env \<Rightarrow> principal \<Rightarrow> uuid \<Rightarrow> str option \<Rightarrow> str option \<Rightarrow> str list option \<Rightarrow> control_db
       \<Rightarrow> (control_exn + role_summary) \<times> control_db" where
  "update_role env pr role_id name description permissions db = in_transaction db
     (let org = pr_organization_id pr in
      res_bind (dom_res (require ROLE_WRITE pr)) (\<lambda>_.
      res_bind (case permissions of None \<Rightarrow> Inr None
                | Some raw \<Rightarrow> dom_res (map_sum id Some (parse_permissions raw))) (\<lambda>parsed.
      res_bind (case parsed of None \<Rightarrow> Inr () | Some ps \<Rightarrow> dom_res (assert_can_grant ps pr)) (\<lambda>_.
      res_bind (expect (NotFoundError ''Role'') (roles_get db org role_id)) (\<lambda>r0.
      res_bind (case name of None \<Rightarrow> Inr ()
                | Some n \<Rightarrow> dom_res (raise_if
                    (strip n \<noteq> ro_name r0 \<and> roles_get_by_name db org (strip n) \<noteq> None) (conflict_role n))) (\<lambda>_.
      res_bind (dom_res (role_update name description parsed r0)) (\<lambda>r.
      res_bind (case roles_put r db of None \<Rightarrow> Inl Crash | Some db1 \<Rightarrow> Inr db1) (\<lambda>db1.
      res_bind (record_audit env org (ce_fresh env 0)
          (audit_by pr ''role.updated'' ''role'' (ro_id r)
             [(''permissions'', JList (map JStr (sorted_values (ro_permissions r))))])
          db1) (\<lambda>db2.
      Inr (summarize_role r, db2))))))))))"

definition delete_role ::
    "control_env \<Rightarrow> principal \<Rightarrow> uuid \<Rightarrow> control_db \<Rightarrow> (control_exn + unit) \<times> control_db" where
  "delete_role env pr role_id db = in_transaction db
     (let org = pr_organization_id pr in
      res_bind (dom_res (require ROLE_WRITE pr)) (\<lambda>_.
      res_bind (expect (NotFoundError ''Role'') (roles_get db org role_id)) (\<lambda>r.
      res_bind (dom_res (assert_mutable r)) (\<lambda>_.
      let in_use = count_memberships_using db org role_id in
      res_bind (dom_res (raise_if (in_use \<noteq> 0)
          (ConflictError (''This role is assigned to '' @ int_str (int in_use)
             @ '' member(s). Reassign them before deleting it.'')))) (\<lambda>_.
      res_bind (record_audit env org (ce_fresh env 0)
          (audit_by pr ''role.deleted'' ''role'' role_id [(''name'', JStr (ro_name r))])
          (roles_delete org role_id db)) (\<lambda>db1.
      Inr ((), db1)))))))"

definition record_denied_action ::
    "control_env \<Rightarrow> principal \<Rightarrow> str \<Rightarrow> str \<Rightarrow> str \<Rightarrow> control_db \<Rightarrow> (control_exn + unit) \<times> control_db" where
  "record_denied_action env pr action resource_type detail db = in_transaction db
     (res_bind (record_audit env (pr_organization_id pr) (ce_fresh env 0)
        ((audit_by pr action resource_type [] [(''detail'', JStr detail)])\<lparr>ac_outcome := AUDIT_DENIED\<rparr>) db) (\<lambda>db1.
      Inr ((), db1)))"

end
