(* ===== verification/RbacProps.thy ===== *)
theory RbacProps
  imports Rbac
begin

text \<open>
  What the operations on members and roles do to the authority of a tenant's members. The abstract
  view of the database maps a membership to its organization and to the permissions its roles grant;
  every operation refines one abstract step, in which authority only grows by what the caller holds.
\<close>

definition rows :: "control_db \<Rightarrow> membership_row set" where
  "rows db = snd ` set (db_memberships db)"

definition role_set :: "control_db \<Rightarrow> role set" where
  "role_set db = snd ` set (db_roles db)"

definition grants :: "control_db \<Rightarrow> membership_row \<Rightarrow> permission set" where
  "grants db m = \<Union> (ro_permissions ` {r \<in> role_set db. ro_id r \<in> set (mr_role_ids m)})"

text \<open>Keys are ids, and the roles of a membership exist and belong to its organization.\<close>

definition access_ok :: "control_db \<Rightarrow> bool" where
  "access_ok db \<longleftrightarrow>
     dict_ok (db_memberships db) \<and> dict_ok (db_roles db)
     \<and> (\<forall>(k, m) \<in> set (db_memberships db). mr_id m = k)
     \<and> (\<forall>(k, r) \<in> set (db_roles db). ro_id r = k)
     \<and> (\<forall>m \<in> rows db. \<forall>i \<in> set (mr_role_ids m).
          case dget (db_roles db) i of None \<Rightarrow> False
          | Some r \<Rightarrow> ro_organization_id r = mr_organization_id m)"

datatype rbac_op =
    InviteMember str str "uuid list"
  | UpdateMemberRoles uuid "uuid list"
  | RemoveMember uuid
  | CreateRole str str "str list"
  | UpdateRole uuid "str option" "str option" "(str list) option"
  | DeleteRole uuid

fun rbac_apply :: "control_env \<Rightarrow> principal \<Rightarrow> rbac_op \<Rightarrow> control_db \<Rightarrow> control_db" where
  "rbac_apply env pr (InviteMember email name ids) db = snd (invite_member env pr email name ids db)"
| "rbac_apply env pr (UpdateMemberRoles m ids) db = snd (update_member_roles env pr m ids db)"
| "rbac_apply env pr (RemoveMember m) db = snd (remove_member env pr m db)"
| "rbac_apply env pr (CreateRole name desc ps) db = snd (create_role env pr name desc ps db)"
| "rbac_apply env pr (UpdateRole i name desc ps) db = snd (update_role env pr i name desc ps db)"
| "rbac_apply env pr (DeleteRole i) db = snd (delete_role env pr i db)"

text \<open>The ids drawn by an operation are new.\<close>

definition ids_new :: "control_env \<Rightarrow> control_db \<Rightarrow> bool" where
  "ids_new env db \<longleftrightarrow>
     (\<forall>n. ce_fresh env n \<notin> fst ` set (db_memberships db) \<and> ce_fresh env n \<notin> fst ` set (db_roles db))"

section \<open>What an operation changes\<close>

text \<open>Both tables of an operation's result, up to the tables that carry no authority.\<close>

inductive table_change :: "uuid \<Rightarrow> permission set \<Rightarrow> control_env \<Rightarrow> control_db \<Rightarrow> control_db \<Rightarrow> bool"
  for org ps env db where
  unchanged: "db_memberships db' = db_memberships db \<Longrightarrow> db_roles db' = db_roles db \<Longrightarrow>
    table_change org ps env db db'"
| granted: "db_memberships db' = dput k row (db_memberships db) \<Longrightarrow> db_roles db' = db_roles db \<Longrightarrow>
    mr_id row = k \<Longrightarrow> mr_organization_id row = org \<Longrightarrow>
    (dget (db_memberships db) k = None \<or>
       (\<exists>old. dget (db_memberships db) k = Some old \<and> mr_organization_id old = org
          \<and> (row_is_owner db old \<and> \<not> row_is_owner db row \<longrightarrow> count_owners db org > 1))) \<Longrightarrow>
    mr_role_ids row = map ro_id rs \<Longrightarrow> set rs \<subseteq> {r \<in> role_set db. ro_organization_id r = org} \<Longrightarrow>
    \<Union> (ro_permissions ` set rs) \<subseteq> ps \<Longrightarrow> table_change org ps env db db'"
| removed: "db_memberships db' = ddel k (db_memberships db) \<Longrightarrow> db_roles db' = db_roles db \<Longrightarrow>
    dget (db_memberships db) k = Some old \<Longrightarrow> mr_organization_id old = org \<Longrightarrow>
    (row_is_owner db old \<longrightarrow> count_owners db org > 1) \<Longrightarrow> table_change org ps env db db'"
| role_stored: "db_memberships db' = db_memberships db \<Longrightarrow> db_roles db' = dput k r (db_roles db) \<Longrightarrow>
    ro_id r = k \<Longrightarrow> ro_organization_id r = org \<Longrightarrow> \<not> ro_is_system r \<Longrightarrow>
    (k = ce_fresh env 0 \<and> ro_permissions r \<subseteq> ps \<or>
       (\<exists>old. dget (db_roles db) k = Some old \<and> ro_organization_id old = org \<and> \<not> ro_is_system old
          \<and> ro_permissions r \<subseteq> ps \<union> ro_permissions old)) \<Longrightarrow> table_change org ps env db db'"
| role_deleted: "dget (db_roles db) k = Some old \<Longrightarrow> ro_organization_id old = org \<Longrightarrow> \<not> ro_is_system old \<Longrightarrow>
    db_roles db' = ddel k (db_roles db) \<Longrightarrow>
    db_memberships db' = map (\<lambda>(i, m). (i, m\<lparr>mr_role_ids := removeAll k (mr_role_ids m)\<rparr>)) (db_memberships db) \<Longrightarrow>
    (\<forall>m \<in> set (scoped_memberships db org). k \<notin> set (mr_role_ids m)) \<Longrightarrow> table_change org ps env db db'"

lemma resolve_roles_Inr:
  assumes "resolve_roles db pr ids = Inr rs"
  shows "set rs \<subseteq> {r \<in> role_set db. ro_organization_id r = pr_organization_id pr}"
    "\<Union> (ro_permissions ` set rs) \<subseteq> pr_permissions pr"
proof -
  have rs: "rs = roles_get_many db (pr_organization_id pr) ids" "ids \<noteq> []"
    "\<Union> (ro_permissions ` set rs) \<subseteq> pr_permissions pr"
    using assms by (auto simp: resolve_roles_def Let_def res_bind_Inr split: if_splits)
  then show "set rs \<subseteq> {r \<in> role_set db. ro_organization_id r = pr_organization_id pr}"
    by (auto simp: roles_get_many_def scoped_roles_def role_set_def)
  show "\<Union> (ro_permissions ` set rs) \<subseteq> pr_permissions pr" by (rule rs(3))
qed

lemma record_audit_tables:
  "record_audit env bound i c db = Inr db' \<Longrightarrow>
     db_memberships db' = db_memberships db \<and> db_roles db' = db_roles db"
  by (auto dest: record_audit_Inr)

lemma set_roles_of: "set (roles_of db ids) = {r \<in> role_set db. ro_id r \<in> set ids}"
  by (auto simp: roles_of_def role_set_def)

lemma row_is_owner_iff:
  "row_is_owner db m \<longleftrightarrow> (\<exists>r \<in> role_set db. ro_id r \<in> set (mr_role_ids m) \<and> is_owner_role r)"
  by (simp add: row_is_owner_def role_set_def is_owner_role_def)

lemma owner_domain: "membership_is_owner (membership_to_domain db m) \<longleftrightarrow> row_is_owner db m"
  by (auto simp: membership_is_owner_def membership_to_domain_def set_roles_of row_is_owner_def role_set_def
      is_owner_role_def)

lemma memberships_get_Some:
  "memberships_get db org i = Some m \<longleftrightarrow>
     (\<exists>row. dget (db_memberships db) i = Some row \<and> mr_organization_id row = org \<and> m = membership_to_domain db row)"
  by (auto simp: memberships_get_def split: option.splits if_splits)

lemma roles_get_Some:
  "roles_get db org i = Some r \<longleftrightarrow> dget (db_roles db) i = Some r \<and> ro_organization_id r = org"
  by (auto simp: roles_get_def split: option.splits if_splits)

lemma invite_change:
  assumes "ids_new env db"
  shows "table_change (pr_organization_id pr) (pr_permissions pr) env db (snd (invite_member env pr email name ids db))"
  unfolding invite_member_def
  apply (rule in_transaction_rule [where P = "table_change (pr_organization_id pr) (pr_permissions pr) env db"])
   apply (simp add: table_change.unchanged)
  subgoal premises body for x db'
  proof -
    let ?org = "pr_organization_id pr"
    obtain address rs m c where
        rs: "resolve_roles db pr ids = Inr rs" and
        m: "new_membership (ce_fresh env 1) ?org (us_id (fst (find_or_invite env address name db))) rs MINVITED
              (pr_user_id pr) None = Inr m" and
        audit: "record_audit env ?org (ce_fresh env 2) c
              (memberships_add m (snd (find_or_invite env address name db))) = Inr db'"
      using body by (auto simp: Let_def res_bind_Inr split_beta)
    have "db_memberships (snd (find_or_invite env address name db)) = db_memberships db"
      "db_roles (snd (find_or_invite env address name db)) = db_roles db"
      by (simp_all add: find_or_invite_def users_put_def Let_def split: option.splits)
    then have tables: "db_memberships db' = dput (me_id m) (membership_to_row m) (db_memberships db)"
      "db_roles db' = db_roles db"
      using record_audit_tables [OF audit] by (simp_all add: memberships_add_def)
    obtain u where m': "m = \<lparr>me_id = ce_fresh env 1, me_organization_id = ?org, me_user_id = u, me_roles = rs,
              me_status = MINVITED, me_invited_by = pr_user_id pr, me_joined_at = None\<rparr>"
      using m by (auto simp: new_membership_def res_bind_Inr)
    show ?thesis
    proof (rule table_change.granted [OF tables])
      show "dget (db_memberships db) (me_id m) = None \<or>
         (\<exists>old. dget (db_memberships db) (me_id m) = Some old \<and> mr_organization_id old = ?org
            \<and> (row_is_owner db old \<and> \<not> row_is_owner db (membership_to_row m) \<longrightarrow> count_owners db ?org > 1))"
        using assms by (simp add: m' ids_new_def dict_simps)
    qed (use resolve_roles_Inr [OF rs] in \<open>simp_all add: m' membership_to_row_def\<close>)
  qed
  done

lemma update_roles_change:
  assumes "access_ok db"
  shows "table_change (pr_organization_id pr) (pr_permissions pr) env db (snd (update_member_roles env pr i ids db))"
  unfolding update_member_roles_def
  apply (rule in_transaction_rule [where P = "table_change (pr_organization_id pr) (pr_permissions pr) env db"])
   apply (simp add: table_change.unchanged)
  subgoal premises body for x db'
  proof -
    let ?org = "pr_organization_id pr"
    obtain m rs m1 c where
        m: "memberships_get db ?org i = Some m" and
        rs: "resolve_roles db pr ids = Inr rs" and
        m1: "assign_roles rs m = Inr m1" and
        owner: "\<not> (membership_is_owner m \<and> \<not> membership_is_owner m1 \<and> count_owners db ?org \<le> 1)" and
        audit: "record_audit env ?org (ce_fresh env 0) c (memberships_update m1 db) = Inr db'"
      using body by (auto simp: Let_def res_bind_Inr)
    obtain row where row: "dget (db_memberships db) i = Some row" "mr_organization_id row = ?org"
        "m = membership_to_domain db row"
      using m memberships_get_Some by metis
    then have i: "mr_id row = i" using assms by (auto simp: access_ok_def dget_def dest: map_of_SomeD)
    have m1': "m1 = m\<lparr>me_roles := rs\<rparr>" using m1 by (auto simp: assign_roles_def res_bind_Inr)
    let ?new = "row\<lparr>mr_role_ids := map ro_id rs\<rparr>"
    have tables: "db_memberships db' = dput i ?new (db_memberships db)" "db_roles db' = db_roles db"
      using record_audit_tables [OF audit] row i
      by (simp_all add: memberships_update_def m1' membership_to_domain_def)
    have "set rs \<subseteq> role_set db" using resolve_roles_Inr(1) [OF rs] by blast
    then have "row_is_owner db ?new" if "membership_is_owner m1"
      using that unfolding row_is_owner_iff by (auto simp: m1' membership_is_owner_def)
    then have "row_is_owner db row \<and> \<not> row_is_owner db ?new \<longrightarrow> count_owners db ?org > 1"
      using owner owner_domain row(3) by auto
    then show ?thesis
      by (intro table_change.granted [OF tables]) (use resolve_roles_Inr [OF rs] row i in auto)
  qed
  done

lemma remove_change:
  "table_change (pr_organization_id pr) (pr_permissions pr) env db (snd (remove_member env pr i db))"
  unfolding remove_member_def
  apply (rule in_transaction_rule [where P = "table_change (pr_organization_id pr) (pr_permissions pr) env db"])
   apply (simp add: table_change.unchanged)
  subgoal premises body for x db'
  proof -
    let ?org = "pr_organization_id pr"
    obtain m c where
        m: "memberships_get db ?org i = Some m" and
        owner: "\<not> (membership_is_owner m \<and> count_owners db ?org \<le> 1)" and
        audit: "record_audit env ?org (ce_fresh env 0) c
           (snd (revoke_all_for_user (me_user_id m) (ce_now env) ''membership_removed'' None
              (memberships_delete ?org i db))) = Inr db'"
      using body by (auto simp: Let_def res_bind_Inr)
    obtain row where row: "dget (db_memberships db) i = Some row" "mr_organization_id row = ?org"
        "m = membership_to_domain db row"
      using m memberships_get_Some by metis
    have tables: "db_memberships db' = ddel i (db_memberships db)" "db_roles db' = db_roles db"
      using record_audit_tables [OF audit] m
      by (simp_all add: revoke_all_for_user_def revoke_where_def memberships_delete_def)
    show ?thesis
      by (rule table_change.removed [OF tables row(1,2)]) (use owner owner_domain row(3) in auto)
  qed
  done

lemma create_change:
  "table_change (pr_organization_id pr) (pr_permissions pr) env db (snd (create_role env pr name desc ps db))"
  unfolding create_role_def
  apply (rule in_transaction_rule [where P = "table_change (pr_organization_id pr) (pr_permissions pr) env db"])
   apply (simp add: table_change.unchanged)
  subgoal premises body for x db'
  proof -
    let ?org = "pr_organization_id pr"
    obtain parsed r0 r db1 c where
        grant: "parsed \<subseteq> pr_permissions pr" and
        r0: "new_role (ce_fresh env 0) ?org name {} desc False = Inr r0" and
        r: "role_update None None (Some parsed) r0 = Inr r" and
        put: "roles_put r db = Some db1" and
        audit: "record_audit env ?org (ce_fresh env 1) c db1 = Inr db'"
      using body by (auto simp: Let_def res_bind_Inr split: option.splits)
    have r0': "ro_id r0 = ce_fresh env 0" "ro_organization_id r0 = ?org" "\<not> ro_is_system r0"
      using r0 by (auto simp: new_role_def Let_def split: if_splits)
    have "db1 = db\<lparr>db_roles := dput (ro_id r) r (db_roles db)\<rparr>"
      using put by (auto simp: roles_put_def split: if_splits)
    then have tables: "db_memberships db' = db_memberships db" "db_roles db' = dput (ro_id r) r (db_roles db)"
      using record_audit_tables [OF audit] by simp_all
    show ?thesis
      by (rule table_change.role_stored [OF tables]) (use role_update_Inr [OF r] r0' grant in auto)
  qed
  done

lemma update_role_change:
  assumes "access_ok db"
  shows "table_change (pr_organization_id pr) (pr_permissions pr) env db (snd (update_role env pr i name desc ps db))"
  unfolding update_role_def
  apply (rule in_transaction_rule [where P = "table_change (pr_organization_id pr) (pr_permissions pr) env db"])
   apply (simp add: table_change.unchanged)
  subgoal premises body for x db'
  proof -
    let ?org = "pr_organization_id pr"
    obtain parsed r0 r db1 c where
        grant: "(case parsed of None \<Rightarrow> Inr () | Some qs \<Rightarrow> dom_res (assert_can_grant qs pr)) = Inr ()" and
        r0: "roles_get db ?org i = Some r0" and
        r: "role_update name desc parsed r0 = Inr r" and
        put: "(case roles_put r db of None \<Rightarrow> Inl Crash | Some d \<Rightarrow> Inr d) = Inr db1" and
        audit: "record_audit env ?org (ce_fresh env 0) c db1 = Inr db'"
      using body unfolding Let_def by (auto simp: res_bind_Inr)
    have r0': "dget (db_roles db) i = Some r0" "ro_organization_id r0 = ?org" using r0 roles_get_Some by auto
    then have "ro_id r0 = i" using assms by (auto simp: access_ok_def dget_def dest: map_of_SomeD)
    have "db1 = db\<lparr>db_roles := dput (ro_id r) r (db_roles db)\<rparr>"
      using put by (auto simp: roles_put_def split: if_splits option.splits)
    then have tables: "db_memberships db' = db_memberships db" "db_roles db' = dput (ro_id r) r (db_roles db)"
      using record_audit_tables [OF audit] by simp_all
    show ?thesis
      by (rule table_change.role_stored [OF tables])
         (use role_update_Inr [OF r] r0' \<open>ro_id r0 = i\<close> grant in \<open>auto split: option.splits\<close>)
  qed
  done

lemma delete_change:
  "table_change (pr_organization_id pr) (pr_permissions pr) env db (snd (delete_role env pr i db))"
  unfolding delete_role_def
  apply (rule in_transaction_rule [where P = "table_change (pr_organization_id pr) (pr_permissions pr) env db"])
   apply (simp add: table_change.unchanged)
  subgoal premises body for x db'
  proof -
    let ?org = "pr_organization_id pr"
    obtain r c where
        r: "roles_get db ?org i = Some r" "\<not> ro_is_system r" and
        unused: "count_memberships_using db ?org i = 0" and
        audit: "record_audit env ?org (ce_fresh env 0) c (roles_delete ?org i db) = Inr db'"
      using body by (auto simp: Let_def res_bind_Inr)
    have r': "dget (db_roles db) i = Some r" "ro_organization_id r = ?org" using r roles_get_Some by auto
    have tables: "db_roles db' = ddel i (db_roles db)"
      "db_memberships db' = map (\<lambda>(k, m). (k, m\<lparr>mr_role_ids := removeAll i (mr_role_ids m)\<rparr>)) (db_memberships db)"
      using record_audit_tables [OF audit] r by (simp_all add: roles_delete_def)
    have "\<forall>m \<in> set (scoped_memberships db ?org). i \<notin> set (mr_role_ids m)"
      using unused by (auto simp: count_memberships_using_def filter_empty_conv)
    then show ?thesis using table_change.role_deleted [OF r' r(2) tables] by blast
  qed
  done

lemma rbac_change:
  assumes "access_ok db" "ids_new env db"
  shows "table_change (pr_organization_id pr) (pr_permissions pr) env db (rbac_apply env pr op db)"
  using assms
  by (cases op) (simp_all add: invite_change update_roles_change remove_change create_change update_role_change delete_change)

section \<open>The tables as maps\<close>

lemma dget_in_set: "dict_ok d \<Longrightarrow> dget d k = Some v \<longleftrightarrow> (k, v) \<in> set d"
  by (simp add: dget_def dict_ok_def)

lemma values_dget: "dict_ok d \<Longrightarrow> (\<forall>v \<in> snd ` set d. Q v) \<longleftrightarrow> (\<forall>k v. dget d k = Some v \<longrightarrow> Q v)"
  using dget_in_set [of d] by auto

lemma pairs_dget: "dict_ok d \<Longrightarrow> (\<forall>(k, v) \<in> set d. Q k v) \<longleftrightarrow> (\<forall>k v. dget d k = Some v \<longrightarrow> Q k v)"
  using dget_in_set [of d] by auto

lemma case_option_ex: "(case x of None \<Rightarrow> False | Some r \<Rightarrow> P r) \<longleftrightarrow> (\<exists>r. x = Some r \<and> P r)"
  by (cases x) auto

lemma access_ok_iff:
  "access_ok db \<longleftrightarrow> dict_ok (db_memberships db) \<and> dict_ok (db_roles db)
     \<and> (\<forall>k m. dget (db_memberships db) k = Some m \<longrightarrow> mr_id m = k)
     \<and> (\<forall>k r. dget (db_roles db) k = Some r \<longrightarrow> ro_id r = k)
     \<and> (\<forall>k m. dget (db_memberships db) k = Some m \<longrightarrow> (\<forall>i \<in> set (mr_role_ids m).
          \<exists>r. dget (db_roles db) i = Some r \<and> ro_organization_id r = mr_organization_id m))"
proof (cases "dict_ok (db_memberships db) \<and> dict_ok (db_roles db)")
  case True
  then have m: "dict_ok (db_memberships db)" and r: "dict_ok (db_roles db)" by blast+
  show ?thesis
    unfolding access_ok_def rows_def case_option_ex values_dget [OF m] pairs_dget [OF m] pairs_dget [OF r] by simp
qed (auto simp: access_ok_def)

lemma roles_by_id:
  assumes "access_ok db"
  shows "(\<exists>r \<in> role_set db. ro_id r \<in> I \<and> P r) \<longleftrightarrow> (\<exists>i \<in> I. \<exists>r. dget (db_roles db) i = Some r \<and> P r)"
proof -
  have d: "dict_ok (db_roles db)" "\<forall>(k, r) \<in> set (db_roles db). ro_id r = k"
    using assms by (simp_all add: access_ok_def)
  have "(\<exists>r \<in> role_set db. ro_id r \<in> I \<and> P r) \<longleftrightarrow> (\<exists>x \<in> set (db_roles db). ro_id (snd x) \<in> I \<and> P (snd x))"
    by (simp add: role_set_def)
  also have "\<dots> \<longleftrightarrow> (\<exists>k r. (k, r) \<in> set (db_roles db) \<and> k \<in> I \<and> P r)"
    using d(2) by (metis (mono_tags, lifting) case_prodD prod.collapse snd_conv)
  finally show ?thesis unfolding dget_in_set [OF d(1)] by blast
qed

lemma role_set_dget: "access_ok db \<Longrightarrow> r \<in> role_set db \<Longrightarrow> dget (db_roles db) (ro_id r) = Some r"
  using roles_by_id [of db "{ro_id r}" "\<lambda>q. q = r"] by auto

lemma in_grants:
  "access_ok db \<Longrightarrow> p \<in> grants db m \<longleftrightarrow>
     (\<exists>i \<in> set (mr_role_ids m). \<exists>r. dget (db_roles db) i = Some r \<and> p \<in> ro_permissions r)"
  unfolding roles_by_id [symmetric] grants_def by auto

lemma row_is_owner_dget:
  "access_ok db \<Longrightarrow> row_is_owner db m \<longleftrightarrow>
     (\<exists>i \<in> set (mr_role_ids m). \<exists>r. dget (db_roles db) i = Some r \<and> is_owner_role r)"
  unfolding roles_by_id [symmetric] row_is_owner_iff ..

lemma dget_map_snd: "dget (map (\<lambda>(i, m). (i, f m)) d) k = map_option f (dget d k)"
  by (induction d) (auto simp: dget_def)

lemma dict_ok_map_snd: "dict_ok (map (\<lambda>(i, m). (i, f m)) d) \<longleftrightarrow> dict_ok d"
proof -
  have "map fst (map (\<lambda>(i, m). (i, f m)) d) = map fst d" by (induction d) auto
  then show ?thesis by (simp only: dict_ok_def)
qed

text \<open>Both consequences of a change are read off the maps.\<close>

lemma change_keeps_ok:
  assumes "table_change org ps env db db'" "access_ok db" "ids_new env db"
  shows "access_ok db'"
  using assms(1)
proof cases
  case unchanged
  with assms(2) show ?thesis by (simp add: access_ok_iff)
next
  case (granted k row rs)
  have "\<exists>r. dget (db_roles db) i = Some r \<and> ro_organization_id r = org" if "i \<in> set (mr_role_ids row)" for i
    using that granted(6,7) role_set_dget [OF assms(2)] by auto
  with assms(2) granted(1-4) show ?thesis
    unfolding access_ok_iff by (auto simp: dict_simps split: if_splits)
next
  case (removed k old)
  with assms(2) show ?thesis unfolding access_ok_iff by (auto simp: dict_simps split: if_splits)
next
  case (role_stored k r)
  have new: "ro_organization_id r = mr_organization_id m" if m: "dget (db_memberships db) i = Some m" and k: "k \<in> set (mr_role_ids m)" for i m
  proof -
    obtain q where q: "dget (db_roles db) k = Some q" "ro_organization_id q = mr_organization_id m"
      using assms(2) m k unfolding access_ok_iff by meson
    then have "k \<noteq> ce_fresh env 0" using assms(3) dget_Some_key unfolding ids_new_def by metis
    with role_stored(4,6) q show ?thesis by auto
  qed
  show ?thesis
    using assms(2) role_stored(1-3) new unfolding access_ok_iff by (auto simp: dict_simps split: if_splits)
next
  case (role_deleted k old)
  have other: "k \<notin> set (mr_role_ids m)" if "dget (db_memberships db) i = Some m" "i' \<in> set (mr_role_ids m)" for i i' m
  proof
    assume k: "k \<in> set (mr_role_ids m)"
    then have "mr_organization_id m = org"
      using assms(2) that role_deleted(1,2) unfolding access_ok_iff by fastforce
    moreover have "m \<in> rows db" using that(1) by (auto simp: rows_def dget_def dest!: map_of_SomeD intro: rev_image_eqI)
    ultimately have "m \<in> set (scoped_memberships db org)" by (auto simp: scoped_memberships_def rows_def)
    with role_deleted(6) k show False by blast
  qed
  show ?thesis
    using assms(2) role_deleted(4,5) unfolding access_ok_iff
    by (auto simp: dict_simps dget_map_snd dict_ok_map_snd split: if_splits)
qed

section \<open>The abstract steps\<close>

text \<open>The organization of a membership and what its roles grant.\<close>

definition authority :: "control_db \<Rightarrow> uuid \<Rightarrow> (uuid \<times> permission set) option" where
  "authority db k = map_option (\<lambda>m. (mr_organization_id m, grants db m)) (dget (db_memberships db) k)"

text \<open>
  What a caller of organization \<open>org\<close> who holds \<open>ps\<close> may do to one membership: members of other
  organizations keep theirs; a member of \<open>org\<close> may lose permissions or gain some of \<open>ps\<close>, or be
  removed; a new member belongs to \<open>org\<close> and has at most \<open>ps\<close>.
\<close>

fun acl_move :: "uuid \<Rightarrow> permission set \<Rightarrow> (uuid \<times> permission set) option \<Rightarrow> (uuid \<times> permission set) option \<Rightarrow> bool" where
  "acl_move org ps (Some (o1, g)) (Some (o2, g')) \<longleftrightarrow> o2 = o1 \<and> (if o1 = org then g' \<subseteq> g \<union> ps else g' = g)"
| "acl_move org ps None (Some (o2, g')) \<longleftrightarrow> o2 = org \<and> g' \<subseteq> ps"
| "acl_move org ps (Some (o1, g)) None \<longleftrightarrow> o1 = org"
| "acl_move org ps None None \<longleftrightarrow> True"

definition acl_step ::
    "uuid \<Rightarrow> permission set \<Rightarrow> (uuid \<Rightarrow> (uuid \<times> permission set) option) \<Rightarrow> (uuid \<Rightarrow> (uuid \<times> permission set) option) \<Rightarrow> bool" where
  "acl_step org ps A A' \<longleftrightarrow> (\<forall>k. acl_move org ps (A k) (A' k))"

lemma acl_move_refl: "acl_move org ps x x"
  by (cases x) auto

lemma grants_cong:
  assumes "access_ok db" "access_ok db'" "mr_role_ids m' = mr_role_ids m"
    and "\<forall>i \<in> set (mr_role_ids m). dget (db_roles db') i = dget (db_roles db) i"
  shows "grants db' m' = grants db m"
  using assms(3,4) by (auto simp: set_eq_iff in_grants [OF assms(1)] in_grants [OF assms(2)])

lemma change_refines:
  assumes "table_change org ps env db db'" "access_ok db" "ids_new env db"
  shows "acl_step org ps (authority db) (authority db')"
  unfolding acl_step_def
proof
  fix k
  have ok': "access_ok db'" by (rule change_keeps_ok [OF assms])
  note in_g = in_grants [OF assms(2)] in_grants [OF ok']
  have same: "acl_move org ps (authority db k) (authority db' k)"
    if "dget (db_memberships db') k = dget (db_memberships db) k" "db_roles db' = db_roles db"
  proof -
    have "authority db' k = authority db k"
      using that grants_cong [OF assms(2) ok'] by (cases "dget (db_memberships db) k") (simp_all add: authority_def)
    then show ?thesis by (simp add: acl_move_refl)
  qed
  show "acl_move org ps (authority db k) (authority db' k)"
    using assms(1)
  proof cases
    case unchanged
    then show ?thesis by (simp add: same)
  next
    case (granted k' row rs)
    show ?thesis
    proof (cases "k = k'")
      case True
      have "p \<in> ps" if p: "p \<in> grants db' row" for p
      proof -
        obtain i r where i: "i \<in> set (mr_role_ids row)" "dget (db_roles db) i = Some r" "p \<in> ro_permissions r"
          using p unfolding in_g granted(2) by blast
        then obtain q where q: "q \<in> set rs" "ro_id q = i" using granted(6) by auto
        then have "dget (db_roles db) i = Some q" using granted(7) role_set_dget [OF assms(2)] by blast
        with i q granted(8) show ?thesis by auto
      qed
      with True granted(1,4,5) show ?thesis
        by (cases "dget (db_memberships db) k'") (auto simp: authority_def dget_dput)
    next
      case False
      with granted(1,2) show ?thesis by (intro same) (simp_all add: dict_simps)
    qed
  next
    case (removed k' old)
    show ?thesis
    proof (cases "k = k'")
      case True
      with removed show ?thesis by (simp add: authority_def dict_simps)
    next
      case False
      with removed(1,2) show ?thesis by (intro same) (simp_all add: dict_simps)
    qed
  next
    case (role_stored k' r)
    show ?thesis
    proof (cases "dget (db_memberships db) k")
      case (Some m)
      have fk: "\<exists>q. dget (db_roles db) i = Some q \<and> ro_organization_id q = mr_organization_id m" if "i \<in> set (mr_role_ids m)" for i
        using assms(2) Some that unfolding access_ok_iff by meson
      have old: "\<exists>q. dget (db_roles db) k' = Some q \<and> ro_organization_id q = org \<and> ro_permissions r \<subseteq> ps \<union> ro_permissions q"
        if "k' \<in> set (mr_role_ids m)"
        using fk [OF that] role_stored(6) assms(3) dget_Some_key unfolding ids_new_def by metis
      have "grants db' m \<subseteq> grants db m \<union> ps"
      proof
        fix p assume "p \<in> grants db' m"
        then obtain i q where q: "i \<in> set (mr_role_ids m)" "dget (db_roles db') i = Some q" "p \<in> ro_permissions q"
          unfolding in_g by blast
        show "p \<in> grants db m \<union> ps"
        proof (cases "i = k'")
          case True
          with q role_stored(2) have "q = r" by (simp add: dict_simps)
          with True q old show ?thesis unfolding Un_iff in_g by fastforce
        next
          case False
          with q role_stored(2) show ?thesis unfolding Un_iff in_g by (auto simp: dict_simps)
        qed
      qed
      moreover have "grants db' m = grants db m" if foreign: "mr_organization_id m \<noteq> org"
      proof (rule grants_cong [OF assms(2) ok' refl], rule)
        fix i assume "i \<in> set (mr_role_ids m)"
        then have "i \<noteq> k'" using old fk foreign by force
        then show "dget (db_roles db') i = dget (db_roles db) i" using role_stored(2) by (simp add: dict_simps)
      qed
      ultimately show ?thesis using Some role_stored(1) by (simp add: authority_def)
    qed (use role_stored(1) in \<open>simp add: authority_def\<close>)
  next
    case (role_deleted k' old)
    show ?thesis
    proof (cases "dget (db_memberships db) k")
      case (Some m)
      have "grants db' (m\<lparr>mr_role_ids := removeAll k' (mr_role_ids m)\<rparr>) \<subseteq> grants db m"
        unfolding subset_iff in_g using role_deleted(4) by (auto simp: dict_simps split: if_splits)
      moreover have "grants db' (m\<lparr>mr_role_ids := removeAll k' (mr_role_ids m)\<rparr>) = grants db m"
        if foreign: "mr_organization_id m \<noteq> org"
      proof -
        have "k' \<notin> set (mr_role_ids m)"
          using assms(2) Some role_deleted(1,2) foreign unfolding access_ok_iff by (metis option.inject)
        then show ?thesis
          by (intro grants_cong [OF assms(2) ok']) (use role_deleted(4) in \<open>auto simp: dict_simps\<close>)
      qed
      ultimately show ?thesis using Some role_deleted(5) by (auto simp: authority_def dget_map_snd)
    qed (use role_deleted(5) in \<open>simp add: authority_def dget_map_snd\<close>)
  qed
qed

text \<open>
  C6. Every operation on members and roles implements one step of the abstract access-control
  specification: whoever calls it, members of other organizations keep exactly what they have, and a
  member of the caller's organization gains nothing the caller does not hold. This covers granting
  through roles, through a role's own permissions, and through invitations, failed calls included.
\<close>

theorem rbac_refines_acl:
  assumes "access_ok db" "ids_new env db"
  shows "acl_step (pr_organization_id pr) (pr_permissions pr) (authority db) (authority (rbac_apply env pr op db))
    \<and> access_ok (rbac_apply env pr op db)"
  using change_refines change_keeps_ok rbac_change assms by blast

section \<open>Sequences of operations\<close>

fun rbac_run :: "(control_env \<times> principal \<times> rbac_op) list \<Rightarrow> control_db \<Rightarrow> control_db" where
  "rbac_run [] db = db"
| "rbac_run ((env, pr, op) # steps) db = rbac_run steps (rbac_apply env pr op db)"

fun run_ids_new :: "(control_env \<times> principal \<times> rbac_op) list \<Rightarrow> control_db \<Rightarrow> bool" where
  "run_ids_new [] db = True"
| "run_ids_new ((env, pr, op) # steps) db = (ids_new env db \<and> run_ids_new steps (rbac_apply env pr op db))"

definition held_in :: "control_db \<Rightarrow> uuid \<Rightarrow> permission set" where
  "held_in db org = \<Union> {g. \<exists>k. authority db k = Some (org, g)}"

lemma acl_step_held:
  assumes "acl_step org' ps (authority db) (authority db')"
  shows "held_in db' org \<subseteq> held_in db org \<union> (if org' = org then ps else {})"
proof
  fix p assume "p \<in> held_in db' org"
  then obtain k g where g: "authority db' k = Some (org, g)" "p \<in> g" by (auto simp: held_in_def)
  with assms have move: "acl_move org' ps (authority db k) (Some (org, g))" unfolding acl_step_def by metis
  show "p \<in> held_in db org \<union> (if org' = org then ps else {})"
  proof (cases "authority db k")
    case None
    with move g(2) show ?thesis by auto
  next
    case (Some x)
    obtain o1 g1 where x: "x = (o1, g1)" by (cases x)
    with move Some have "o1 = org" "p \<in> g1 \<or> org' = org \<and> p \<in> ps" using g(2) by (auto split: if_splits)
    with Some x show ?thesis by (auto simp: held_in_def)
  qed
qed

definition sample_role :: "uuid \<Rightarrow> system_role \<Rightarrow> role" where
  "sample_role i r =
     \<lparr>ro_id = i, ro_organization_id = ''o1'', ro_name = system_role_value r,
      ro_permissions = system_role_permissions r, ro_description = system_role_description r, ro_is_system = True\<rparr>"

definition sample_row :: "uuid \<Rightarrow> uuid \<Rightarrow> uuid list \<Rightarrow> membership_status \<Rightarrow> membership_row" where
  "sample_row i u ids st =
     \<lparr>mr_id = i, mr_organization_id = ''o1'', mr_user_id = u, mr_role_ids = ids, mr_status = st,
      mr_invited_by = None, mr_joined_at = None\<rparr>"

text \<open>An organization with an active owner, an invited owner and an active administrator.\<close>

definition sample_db :: control_db where
  "sample_db = empty_db
     \<lparr>db_users := [(''u1'', new_user ''u1'' ''ann@x.io'' None ''Ann'' USER_ACTIVE None),
                   (''u3'', new_user ''u3'' ''cy@x.io'' None ''Cy'' USER_ACTIVE None)],
      db_roles := [(''r1'', sample_role ''r1'' OWNER), (''r2'', sample_role ''r2'' ADMIN), (''r3'', sample_role ''r3'' VIEWER)],
      db_memberships := [(''m1'', sample_row ''m1'' ''u1'' [''r1''] MACTIVE), (''m2'', sample_row ''m2'' ''u2'' [''r1''] MINVITED),
                         (''m3'', sample_row ''m3'' ''u3'' [''r2''] MACTIVE)]\<rparr>"

definition sample_control_env :: "uuid \<Rightarrow> control_env" where
  "sample_control_env i =
     \<lparr>ce_now = 5, ce_db_now = 5, ce_fresh = (\<lambda>n. i), ce_digest = (\<lambda>j. ''h''), ce_isotime = (\<lambda>t. ''t''),
      ce_audit_clock = (\<lambda>n. n), ce_nfkc = id, ce_ascii = id\<rparr>"

definition sample_admin :: principal where
  "sample_admin = for_membership (membership_to_domain sample_db (sample_row ''m3'' ''u3'' [''r2''] MACTIVE)) None
     ''cy@x.io'' True False empty_context"

theorem rbac_refines_acl_witness:
  "acl_step ''o1'' (pr_permissions sample_admin) (authority sample_db)
     (authority (rbac_apply (sample_control_env ''x'') sample_admin (InviteMember ''bo@x.io'' ''Bo'' [''r2'']) sample_db))
   \<and> access_ok (rbac_apply (sample_control_env ''x'') sample_admin (InviteMember ''bo@x.io'' ''Bo'' [''r2'']) sample_db)"
proof -
  have "pr_organization_id sample_admin = ''o1''" by code_simp
  moreover have "access_ok sample_db" by code_simp
  moreover have "ids_new (sample_control_env ''x'') sample_db"
    by (simp add: ids_new_def sample_control_env_def sample_db_def)
  ultimately show ?thesis using rbac_refines_acl [of sample_db "sample_control_env ''x''" sample_admin] by metis
qed

text \<open>
  C13. No collusion: whatever sequence of member and role operations callers perform, no member of an
  organization ends up with a permission that no member had at the start and no caller of that
  organization held.
\<close>

theorem rbac_collusion_gains_nothing:
  assumes "access_ok db" "run_ids_new steps db"
    and "\<forall>(env, pr, op) \<in> set steps. pr_organization_id pr = org \<longrightarrow> pr_permissions pr \<subseteq> P"
  shows "held_in (rbac_run steps db) org \<subseteq> held_in db org \<union> P"
  using assms
proof (induction steps arbitrary: db)
  case (Cons step steps)
  obtain env pr op where step: "step = (env, pr, op)" by (cases step)
  let ?db' = "rbac_apply env pr op db"
  have "acl_step (pr_organization_id pr) (pr_permissions pr) (authority db) (authority ?db')" "access_ok ?db'"
    using rbac_change [of db env pr op] change_refines change_keeps_ok Cons.prems(1,2) unfolding step by auto
  then have "held_in ?db' org \<subseteq> held_in db org \<union> P"
    using acl_step_held [of "pr_organization_id pr" "pr_permissions pr" db ?db' org] Cons.prems(3) unfolding step
    by (auto split: if_splits)
  moreover have "held_in (rbac_run steps ?db') org \<subseteq> held_in ?db' org \<union> P"
    using Cons.IH [of ?db'] Cons.prems(2,3) \<open>access_ok ?db'\<close> unfolding step by simp
  ultimately show ?case unfolding step rbac_run.simps by blast
qed simp

theorem rbac_collusion_gains_nothing_witness:
  "held_in (rbac_run [(sample_control_env ''x'', sample_admin, InviteMember ''bo@x.io'' ''Bo'' [''r2''])] sample_db) ''o1''
     \<subseteq> held_in sample_db ''o1'' \<union> pr_permissions sample_admin"
proof (rule rbac_collusion_gains_nothing)
  show "access_ok sample_db" by code_simp
  show "run_ids_new [(sample_control_env ''x'', sample_admin, InviteMember ''bo@x.io'' ''Bo'' [''r2''])] sample_db"
    by (simp add: ids_new_def sample_control_env_def sample_db_def)
qed simp

section \<open>Owners\<close>

definition owner_keys :: "control_db \<Rightarrow> uuid \<Rightarrow> uuid set" where
  "owner_keys db org =
     {k. \<exists>m. dget (db_memberships db) k = Some m \<and> mr_organization_id m = org \<and> row_is_owner db m}"

lemma count_owners_card:
  assumes "access_ok db" shows "count_owners db org = card (owner_keys db org)"
proof -
  let ?d = "db_memberships db"
  have ok: "dict_ok ?d" using assms by (simp add: access_ok_def)
  let ?p = "\<lambda>x. mr_organization_id (snd x) = org \<and> row_is_owner db (snd x)"
  have "count_owners db org = length (filter ?p ?d)"
    unfolding count_owners_def scoped_memberships_def by (simp add: filter_map comp_def conj_commute)
  also have "\<dots> = length (map fst (filter ?p ?d))" by simp
  also have "\<dots> = card (set (map fst (filter ?p ?d)))"
    using ok by (intro distinct_card [symmetric]) (simp add: dict_ok_def distinct_map_filter)
  also have "set (map fst (filter ?p ?d)) = owner_keys db org"
    unfolding owner_keys_def dget_in_set [OF ok] by force
  finally show ?thesis .
qed

lemma finite_owner_keys: "finite (owner_keys db org)"
proof -
  have "owner_keys db org \<subseteq> fst ` set (db_memberships db)" by (auto simp: owner_keys_def dest: dget_Some_key)
  then show ?thesis by (rule finite_subset) simp
qed

lemma change_keeps_owner:
  assumes "table_change org' ps env db db'" "access_ok db" "ids_new env db" "owner_keys db org \<noteq> {}"
  shows "owner_keys db' org \<noteq> {}"
proof -
  have ok': "access_ok db'" by (rule change_keeps_ok [OF assms(1-3)])
  note own = row_is_owner_dget [OF assms(2)] row_is_owner_dget [OF ok']
  have another: "\<exists>j \<in> owner_keys db o1. j \<noteq> k" if "count_owners db o1 > 1" for k o1
  proof (rule ccontr)
    assume "\<not> ?thesis"
    then have "owner_keys db o1 \<subseteq> {k}" by blast
    then have "card (owner_keys db o1) \<le> card {k}" by (intro card_mono) simp_all
    with that show False by (simp add: count_owners_card [OF assms(2)])
  qed
  have stays: "j \<in> owner_keys db' org"
    if "j \<in> owner_keys db org" "dget (db_memberships db') j = dget (db_memberships db) j" "db_roles db' = db_roles db" for j
    using that by (auto simp: owner_keys_def own)
  obtain j m where j: "j \<in> owner_keys db org" and
    m: "dget (db_memberships db) j = Some m" "mr_organization_id m = org" "row_is_owner db m"
    using assms(4) by (auto simp: owner_keys_def)
  show ?thesis
    using assms(1)
  proof cases
    case unchanged
    with j stays show ?thesis by fastforce
  next
    case (granted k row rs)
    show ?thesis
    proof (cases "j = k \<and> \<not> row_is_owner db row")
      case True
      then have "count_owners db org > 1" "org' = org" using granted(5) m by auto
      then obtain i where "i \<in> owner_keys db org" "i \<noteq> k" using another by blast
      with stays granted(1,2) show ?thesis by (fastforce simp: dget_dput)
    next
      case False
      show ?thesis
      proof (cases "j = k")
        case True
        with granted m False have "mr_organization_id row = org" "row_is_owner db' row" by (auto simp: own)
        with granted(1) show ?thesis by (auto simp: owner_keys_def dget_dput)
      next
        case False
        with stays j granted(1,2) show ?thesis by (fastforce simp: dget_dput)
      qed
    qed
  next
    case (removed k old)
    obtain i where i: "i \<in> owner_keys db org" "i \<noteq> k"
    proof (cases "j = k")
      case True
      with removed m have "count_owners db org > 1" by auto
      with another show thesis using that by blast
    qed (use j that in blast)
    with stays removed(1,2) show ?thesis by (fastforce simp: dget_ddel)
  next
    case (role_stored k r)
    have "row_is_owner db' m"
    proof -
      obtain i q where i: "i \<in> set (mr_role_ids m)" "dget (db_roles db) i = Some q" "is_owner_role q"
        using m(3) unfolding own by blast
      have "i \<noteq> k"
      proof
        assume "i = k"
        with i(2) have "k \<noteq> ce_fresh env 0" using assms(3) dget_Some_key unfolding ids_new_def by metis
        with role_stored(6) i \<open>i = k\<close> show False by (auto simp: is_owner_role_def)
      qed
      with i role_stored(2) show ?thesis unfolding own by (auto simp: dget_dput)
    qed
    with m role_stored(1) have "j \<in> owner_keys db' org" by (auto simp: owner_keys_def)
    then show ?thesis by blast
  next
    case (role_deleted k old)
    let ?m = "m\<lparr>mr_role_ids := removeAll k (mr_role_ids m)\<rparr>"
    have "row_is_owner db' ?m"
    proof -
      obtain i q where i: "i \<in> set (mr_role_ids m)" "dget (db_roles db) i = Some q" "is_owner_role q"
        using m(3) unfolding own by blast
      with role_deleted(1,3) have "i \<noteq> k" by (auto simp: is_owner_role_def)
      with i role_deleted(4) show ?thesis unfolding own by (auto simp: dget_ddel)
    qed
    with m role_deleted(5) have "j \<in> owner_keys db' org" by (auto simp: owner_keys_def dget_map_snd)
    then show ?thesis by blast
  qed
qed

text \<open>
  C24. An organization that has a member with the Owner role keeps one under every sequence of member
  and role operations, by any callers.
\<close>

theorem organization_keeps_an_owner:
  assumes "access_ok db" "run_ids_new steps db" "count_owners db org \<ge> 1"
  shows "count_owners (rbac_run steps db) org \<ge> 1"
  using assms
proof (induction steps arbitrary: db)
  case (Cons step steps)
  obtain env pr op where step: "step = (env, pr, op)" by (cases step)
  let ?db' = "rbac_apply env pr op db"
  have change: "table_change (pr_organization_id pr) (pr_permissions pr) env db ?db'" and new: "ids_new env db"
    using rbac_change Cons.prems(1,2) unfolding step by auto
  have ok': "access_ok ?db'" by (rule change_keeps_ok [OF change Cons.prems(1) new])
  have "owner_keys db org \<noteq> {}" using Cons.prems(3) count_owners_card [OF Cons.prems(1)] by auto
  then have "owner_keys ?db' org \<noteq> {}" by (rule change_keeps_owner [OF change Cons.prems(1) new])
  then have "count_owners ?db' org \<ge> 1"
    using count_owners_card [OF ok'] finite_owner_keys [of ?db' org] by (simp add: Suc_leI card_gt_0_iff)
  with Cons.IH [of ?db'] ok' Cons.prems(2) show ?case unfolding step by simp
qed simp

theorem organization_keeps_an_owner_witness:
  "count_owners (rbac_run [(sample_control_env ''x'', sample_admin, RemoveMember ''m1''),
     (sample_control_env ''x'', sample_admin, RemoveMember ''m2'')] sample_db) ''o1'' \<ge> 1"
proof (rule organization_keeps_an_owner)
  show "access_ok sample_db" "count_owners sample_db ''o1'' \<ge> 1" by code_simp+
  have "db_memberships (rbac_apply (sample_control_env ''x'') sample_admin (RemoveMember ''m1'') sample_db)
      = tl (db_memberships sample_db)"
    "db_roles (rbac_apply (sample_control_env ''x'') sample_admin (RemoveMember ''m1'') sample_db) = db_roles sample_db"
    by code_simp+
  then show "run_ids_new [(sample_control_env ''x'', sample_admin, RemoveMember ''m1''),
     (sample_control_env ''x'', sample_admin, RemoveMember ''m2'')] sample_db"
    by (simp add: ids_new_def sample_control_env_def sample_db_def)
qed

text \<open>
  The owner guard counts owners who never accepted their invitation: when the only active owner
  is removed while another owner is merely invited, the call succeeds and no owner who can sign in
  remains.
\<close>

theorem last_active_owner_can_be_removed:
  assumes "access_ok db" "USER_REMOVE \<in> pr_permissions pr" "pr_organization_id pr = org"
    and "dget (db_memberships db) i = Some m" "mr_organization_id m = org" "row_is_owner db m"
    and "pr_user_id pr \<noteq> Some (mr_user_id m)"
    and "dget (db_memberships db) j = Some n" "mr_organization_id n = org" "row_is_owner db n" "mr_status n = MINVITED" "j \<noteq> i"
    and "\<forall>k r. dget (db_memberships db) k = Some r \<longrightarrow> mr_organization_id r = org \<longrightarrow> row_is_owner db r
           \<longrightarrow> mr_status r = MACTIVE \<longrightarrow> k = i"
  shows "fst (remove_member env pr i db) = Inr ()
    \<and> (\<forall>m \<in> rows (snd (remove_member env pr i db)). mr_organization_id m = org
         \<longrightarrow> row_is_owner (snd (remove_member env pr i db)) m \<longrightarrow> mr_status m \<noteq> MACTIVE)"
proof -
  have get: "memberships_get db org i = Some (membership_to_domain db m)"
    using assms(4,5) memberships_get_Some by blast
  have ij: "i \<in> owner_keys db org" "j \<in> owner_keys db org" using assms(4-6,8-10) by (auto simp: owner_keys_def)
  then have "{i, j} \<subseteq> owner_keys db org" by blast
  then have "card {i, j} \<le> count_owners db org"
    unfolding count_owners_card [OF assms(1)] by (intro card_mono finite_owner_keys)
  then have two: "\<not> count_owners db org \<le> 1" using assms(12) by simp
  let ?md = "[(''user_id'', JStr (me_user_id (membership_to_domain db m)))]"
  let ?d = "snd (revoke_all_for_user (me_user_id (membership_to_domain db m)) (ce_now env) ''membership_removed'' None
                   (memberships_delete org i db))"
  obtain rs where audit: "record_audit env org (ce_fresh env 0) (audit_by pr ''member.removed'' ''membership'' i ?md) ?d
      = Inr (?d\<lparr>db_audit := rs\<rparr>)" using record_audit_by by blast
  have "remove_member env pr i db = (Inr (), ?d\<lparr>db_audit := rs\<rparr>)"
    unfolding remove_member_def Let_def assms(3) get expect_def option.case
    using assms(2,7) two audit
    by (auto simp: require_def dom_res_def membership_to_domain_def)
  moreover have mem: "db_memberships (?d\<lparr>db_audit := rs\<rparr>) = ddel i (db_memberships db)"
    "db_roles (?d\<lparr>db_audit := rs\<rparr>) = db_roles db"
    by (simp_all add: revoke_all_for_user_def revoke_where_def memberships_delete_def get)
  moreover have "mr_status r \<noteq> MACTIVE"
    if r: "r \<in> snd ` set (ddel i (db_memberships db))" "mr_organization_id r = org" "row_is_owner db r" for r
  proof -
    have ok: "dict_ok (db_memberships db)" using assms(1) by (simp add: access_ok_def)
    obtain k where "(k, r) \<in> set (db_memberships db)" "k \<noteq> i" using r(1) by (auto simp: ddel_def)
    then show ?thesis using assms(13) r(2,3) dget_in_set [OF ok] by blast
  qed
  ultimately show ?thesis by (simp add: rows_def row_is_owner_def)
qed

theorem last_active_owner_can_be_removed_witness:
  "fst (remove_member (sample_control_env ''x'') sample_admin ''m1'' sample_db) = Inr ()"
proof -
  have only: "\<forall>k r. dget (db_memberships sample_db) k = Some r \<longrightarrow> mr_organization_id r = ''o1'' \<longrightarrow> row_is_owner sample_db r
           \<longrightarrow> mr_status r = MACTIVE \<longrightarrow> k = ''m1''"
  proof (intro allI impI)
    fix k r
    assume "dget (db_memberships sample_db) k = Some r" "row_is_owner sample_db r" "mr_status r = MACTIVE"
    moreover have "\<forall>(k, r) \<in> set (db_memberships sample_db). row_is_owner sample_db r \<longrightarrow> mr_status r = MACTIVE \<longrightarrow> k = ''m1''"
      by code_simp
    ultimately show "k = ''m1''" by (auto simp: dget_def dest!: map_of_SomeD)
  qed
  let ?m = "sample_row ''m1'' ''u1'' [''r1''] MACTIVE" and ?n = "sample_row ''m2'' ''u2'' [''r1''] MINVITED"
  have "access_ok sample_db" "USER_REMOVE \<in> pr_permissions sample_admin" "pr_organization_id sample_admin = ''o1''"
    "dget (db_memberships sample_db) ''m1'' = Some ?m" "mr_organization_id ?m = ''o1''" "row_is_owner sample_db ?m"
    "pr_user_id sample_admin \<noteq> Some (mr_user_id ?m)"
    "dget (db_memberships sample_db) ''m2'' = Some ?n" "mr_organization_id ?n = ''o1''" "row_is_owner sample_db ?n"
    "mr_status ?n = MINVITED" "''m2'' \<noteq> ''m1''"
    by code_simp+
  from last_active_owner_can_be_removed [OF this only] show ?thesis by blast
qed

end
