(* ===== verification/Auth.thy ===== *)
theory Auth
  imports ControlDb
begin

text \<open>
  Authentication (\<open>application/auth.py\<close>, \<open>infrastructure/security/tokens.py\<close>): registration, sign-in
  with password and second factor, rotation of refresh tokens with reuse detection, sign-out,
  password change, and the resolution of access tokens and API keys to principals. Argon2, the TOTP
  algorithm, the secret cipher, SHA-256 and the JWT library are functions of a record. Some branches
  commit and then raise: the outcome is the exception beside the committed database.
\<close>

record auth_deps =
  ad_verify :: "str \<Rightarrow> str \<Rightarrow> bool"
  ad_hash :: "str \<Rightarrow> str"
  ad_needs_rehash :: "str \<Rightarrow> bool"
  ad_token_hash :: "str \<Rightarrow> str"
  ad_token :: str
  ad_encode :: "obj \<Rightarrow> str"
  ad_decode :: "str \<Rightarrow> str \<Rightarrow> obj option"
  ad_jti :: str
  ad_issuer :: str
  ad_totp_verify :: "str \<Rightarrow> str \<Rightarrow> datetime \<Rightarrow> bool"
  ad_decrypt :: "str \<Rightarrow> str"
  ad_password_policy :: password_policy
  ad_lockout_policy :: lockout_policy
  ad_token_policy :: token_policy

definition USER_AUDIENCE :: str where "USER_AUDIENCE = ''aegis:user''"
definition MFA_CHALLENGE_AUDIENCE :: str where "MFA_CHALLENGE_AUDIENCE = ''aegis:mfa_challenge''"

type_synonym 'a outcome = "(control_exn + 'a) \<times> control_db"

text \<open>The body of a unit of work whose branches commit by returning an outcome.\<close>

definition with_uow :: "control_db \<Rightarrow> control_exn + 'a outcome \<Rightarrow> 'a outcome" where
  "with_uow db r = (case r of Inl e \<Rightarrow> (Inl e, db) | Inr x \<Rightarrow> x)"

lemma with_uow_simps [simp]: "with_uow db (Inl e) = (Inl e, db)" "with_uow db (Inr x) = x"
  by (simp_all add: with_uow_def)

definition invalid_credentials :: control_exn where
  "invalid_credentials = Domain (AuthenticationError None)"

section \<open>Tokens\<close>

record token_pair =
  tk_access_token :: str
  tk_access_token_expires_at :: datetime
  tk_refresh_token :: str
  tk_refresh_token_expires_at :: datetime
  tk_session_id :: uuid

definition timestamp :: "datetime \<Rightarrow> int" where "timestamp t = t div 1000000"

text \<open>\<open>JwtAccessTokenCodec.issue\<close>: the encoded claims and the time of expiry.\<close>

definition codec_issue ::
    "auth_deps \<Rightarrow> uuid \<Rightarrow> uuid \<Rightarrow> uuid \<Rightarrow> permission set \<Rightarrow> bool \<Rightarrow> int \<Rightarrow> datetime \<Rightarrow> str \<times> datetime" where
  "codec_issue deps subject org session_id permissions mfa ttl_seconds now =
     (let expires_at = now + seconds ttl_seconds in
      (ad_encode deps
         [(''iss'', JStr (ad_issuer deps)), (''aud'', JStr ''aegis:user''), (''sub'', JStr subject),
          (''org'', JStr org), (''sid'', JStr session_id),
          (''perms'', JList (map JStr (sorted_values permissions))), (''mfa'', JBool mfa),
          (''iat'', JInt (timestamp now)), (''exp'', JInt (timestamp expires_at)),
          (''jti'', JStr (ad_jti deps))],
       expires_at))"

text \<open>\<open>issue_challenge\<close> for the purpose \<open>mfa\<close>, the only one the use cases ask for here.\<close>

definition codec_issue_challenge :: "auth_deps \<Rightarrow> uuid \<Rightarrow> uuid \<Rightarrow> int \<Rightarrow> datetime \<Rightarrow> str" where
  "codec_issue_challenge deps subject org ttl_seconds now =
     ad_encode deps
       [(''iss'', JStr (ad_issuer deps)), (''aud'', JStr ''aegis:mfa_challenge''), (''sub'', JStr subject),
        (''org'', JStr org), (''purpose'', JStr ''mfa''), (''iat'', JInt (timestamp now)),
        (''exp'', JInt (timestamp (now + seconds ttl_seconds))), (''jti'', JStr (ad_jti deps))]"

definition codec_decode :: "auth_deps \<Rightarrow> str \<Rightarrow> str \<Rightarrow> control_exn + obj" where
  "codec_decode deps token audience = expect (TokenError None) (ad_decode deps token audience)"

text \<open>
  \<open>UUID(str(claims[k]))\<close>. The text of a float or a container is never that of a UUID; a missing key
  and a malformed text raise errors that nobody handles.
\<close>

definition claim_uuid :: "obj \<Rightarrow> str \<Rightarrow> control_exn + uuid" where
  "claim_uuid claims k =
     (case dget claims k of None \<Rightarrow> Inl Crash
      | Some v \<Rightarrow> (case uuid_of (py_str (\<lambda>_. []) v) of None \<Rightarrow> Inl Crash | Some u \<Rightarrow> Inr u))"

section \<open>Issuing sessions\<close>

text \<open>
  \<open>_enforce_session_cap\<close>: with as many live sessions as the cap allows, revoke the oldest so that one
  more fits.
\<close>

definition enforce_session_cap :: "auth_deps \<Rightarrow> control_env \<Rightarrow> uuid \<Rightarrow> control_db \<Rightarrow> control_db" where
  "enforce_session_cap deps env user_id db =
     (let now = ce_now env; cap = tp_max_sessions_per_user (ad_token_policy deps);
          active = list_active_for_user db user_id now in
      if length active < cap then db
      else foldl (\<lambda>d s. sessions_update (session_revoke now ''session_cap_exceeded'' s) d) db
             (take (length active - cap + 1)
               (sort_key (\<lambda>s. case se_created_at s of Some t \<Rightarrow> t | None \<Rightarrow> now) active)))"

definition session_issue ::
    "auth_deps \<Rightarrow> control_env \<Rightarrow> uuid \<Rightarrow> user \<Rightarrow> membership \<Rightarrow> bool \<Rightarrow> request_context \<Rightarrow> control_db
       \<Rightarrow> token_pair \<times> control_db" where
  "session_issue deps env session_id u m mfa_satisfied ctx db =
     (let now = ce_now env; policy = ad_token_policy deps;
          db1 = enforce_session_cap deps env (us_id u) db;
          s = session_start session_id (us_id u) (me_organization_id m) (ad_token_hash deps (ad_token deps))
                (tp_refresh_ttl_seconds policy) now (rc_user_agent ctx) (rc_ip_address ctx);
          (access, expires) = codec_issue deps (us_id u) (me_organization_id m) session_id
                (membership_permissions m) mfa_satisfied (tp_access_ttl_seconds policy) now
      in (\<lparr>tk_access_token = access, tk_access_token_expires_at = expires,
           tk_refresh_token = ad_token deps, tk_refresh_token_expires_at = se_expires_at s,
           tk_session_id = session_id\<rparr>,
          sessions_add (ce_db_now env) s db1))"

section \<open>Registration\<close>

definition build_system_roles :: "(nat \<Rightarrow> uuid) \<Rightarrow> nat \<Rightarrow> uuid \<Rightarrow> domain_error + role list" where
  "build_system_roles fresh n org =
     res_bind (role_system (fresh n) org OWNER) (\<lambda>r1.
     res_bind (role_system (fresh (n + 1)) org ADMIN) (\<lambda>r2.
     res_bind (role_system (fresh (n + 2)) org SECURITY_ANALYST) (\<lambda>r3.
     res_bind (role_system (fresh (n + 3)) org DEVELOPER) (\<lambda>r4.
     res_bind (role_system (fresh (n + 4)) org VIEWER) (\<lambda>r5.
     Inr [r1, r2, r3, r4, r5])))))"

definition roles_add_many :: "role list \<Rightarrow> control_db \<Rightarrow> control_db" where
  "roles_add_many rs db = db\<lparr>db_roles := foldl (\<lambda>d r. dput (ro_id r) r d) (db_roles db) rs\<rparr>"

record registration_result =
  rr_organization :: organization
  rr_user_id :: uuid
  rr_email :: str
  rr_tokens :: token_pair

definition register_organization ::
    "auth_deps \<Rightarrow> control_env \<Rightarrow> bool \<Rightarrow> str \<Rightarrow> str \<Rightarrow> str \<Rightarrow> str \<Rightarrow> request_context \<Rightarrow> license_tier \<Rightarrow> control_db
       \<Rightarrow> registration_result outcome" where
  "register_organization deps env allow_signup organization_name email password full_name ctx tier db =
     in_transaction db
     (let now = ce_now env; fresh = ce_fresh env in
      res_bind (dom_res (raise_if (\<not> allow_signup)
         (InvalidStateError ''Self-service signup is disabled on this deployment.''))) (\<lambda>_.
      res_bind (dom_res (email_address (ce_nfkc env) email)) (\<lambda>address.
      res_bind (dom_res (password_validate (ce_nfkc env) (ad_password_policy deps) password
         [email_local_part address, organization_name, full_name])) (\<lambda>_.
      res_bind (dom_res (raise_if (email_exists db address)
         (ConflictError ''An account already exists for this email address.''))) (\<lambda>_.
      res_bind (dom_res (allocate_slug (ce_ascii env) (slug_exists db) organization_name)) (\<lambda>slug_value.
      res_bind (dom_res (new_organization (fresh 0) (strip organization_name) slug_value)) (\<lambda>o1.
      res_bind (dom_res (build_system_roles fresh 2 (og_id o1))) (\<lambda>roles.
      res_bind (dom_res (password_hash (ad_hash deps password))) (\<lambda>pw.
      let u = new_user (fresh 7) address (Some pw) full_name USER_ACTIVE (Some now) in
      res_bind (dom_res (new_membership (fresh 8) (og_id o1) (us_id u)
         (take 1 (filter (\<lambda>r. ro_name r = system_role_value OWNER) roles)) MACTIVE None (Some now))) (\<lambda>m.
      let db1 = memberships_add m (users_put u (roles_add_many roles
                  (licenses_add (license_for_tier (fresh 1) (og_id o1) tier None) (organizations_put o1 db))));
          pr = for_membership m None address False False ctx in
      res_bind (record_audit env (og_id o1) (fresh 9)
         (audit_by pr ''org.created'' ''organization'' (og_id o1)
            [(''slug'', JStr slug_value), (''tier'', JStr (license_tier_value tier))]) db1) (\<lambda>db2.
      case session_issue deps env (fresh 10) u m False ctx db2 of (tokens, db3) \<Rightarrow>
      res_bind (record_audit env (og_id o1) (fresh 11)
         (audit_by pr ''auth.login_succeeded'' ''user'' (us_id u) [(''via'', JStr ''registration'')]) db3) (\<lambda>db4.
      Inr (\<lparr>rr_organization = o1, rr_user_id = us_id u, rr_email = address, rr_tokens = tokens\<rparr>, db4)))))))))))))"

section \<open>Sign-in\<close>

record mfa_challenge =
  mc_challenge_token :: str
  mc_expires_at :: datetime
  mc_methods :: "str list"

datatype authentication_result = Tokens token_pair | Challenge mfa_challenge

definition active_membership :: "control_db \<Rightarrow> uuid \<Rightarrow> uuid \<Rightarrow> control_exn + membership" where
  "active_membership db org user_id =
     (case memberships_get_for_user db org user_id of None \<Rightarrow> Inl invalid_credentials
      | Some m \<Rightarrow> if membership_active m then Inr m else Inl invalid_credentials)"

definition resolve_membership ::
    "control_db \<Rightarrow> user \<Rightarrow> str option \<Rightarrow> control_exn + membership \<times> organization" where
  "resolve_membership db u organization_slug =
     (if organization_slug \<noteq> None \<and> organization_slug \<noteq> Some [] then
        res_bind (dom_res (slug (the organization_slug))) (\<lambda>sl.
        case organizations_get_by_slug db sl of None \<Rightarrow> Inl invalid_credentials
        | Some o1 \<Rightarrow> if \<not> organization_active o1 then Inl invalid_credentials
            else res_bind (active_membership db (og_id o1) (us_id u)) (\<lambda>m. Inr (m, o1)))
      else
        (case active_organizations_for_user db (us_id u) of
           [] \<Rightarrow> Inl invalid_credentials
         | [o1] \<Rightarrow> res_bind (active_membership db (og_id o1) (us_id u)) (\<lambda>m. Inr (m, o1))
         | os \<Rightarrow> Inl (Domain (ValidationError ''Specify which organization to sign in to.''
                   (Some ''organization_slug'') (Some (map og_slug os))))))"

definition audit_failure ::
    "control_env \<Rightarrow> user \<Rightarrow> str option \<Rightarrow> request_context \<Rightarrow> control_db \<Rightarrow> control_exn + control_db" where
  "audit_failure env u organization_slug ctx db =
     (let now = ce_now env; all_orgs = active_organizations_for_user db (us_id u);
          orgs = (if organization_slug \<noteq> None \<and> organization_slug \<noteq> Some []
                  then filter (\<lambda>o1. Some (og_slug o1) = organization_slug) all_orgs else all_orgs)
      in case orgs of
           [o1] \<Rightarrow>
             res_bind (record_audit env (og_id o1) (ce_fresh env 0)
               (audit_for_user (og_id o1) (us_id u) (us_email u) ''auth.login_failed'' ''user'' (us_id u)
                  AUDIT_FAILURE (rc_ip_address ctx) (rc_user_agent ctx) (rc_request_id ctx)
                  [(''failed_login_count'', JInt (int (us_failed_login_count u)))]) db) (\<lambda>db1.
             if user_locked now u then
               record_audit env (og_id o1) (ce_fresh env 1)
                 (audit_for_user (og_id o1) (us_id u) (us_email u) ''auth.account_locked'' ''user'' (us_id u)
                    AUDIT_FAILURE (rc_ip_address ctx) [] []
                    [(''retry_after_seconds'', JInt (lock_retry_after now u))]) db1
             else Inr db1)
         | _ \<Rightarrow> Inr db)"

text \<open>The steps of a sign-in once the password is right.\<close>

definition sign_in ::
    "auth_deps \<Rightarrow> control_env \<Rightarrow> user \<Rightarrow> str option \<Rightarrow> request_context \<Rightarrow> control_db
       \<Rightarrow> control_exn + authentication_result outcome" where
  "sign_in deps env u0 organization_slug ctx db =
     (let now = ce_now env in
      res_bind (resolve_membership db u0 organization_slug) (\<lambda>(m, o1).
      let u = record_successful_login now u0; db1 = users_put u db in
      if us_mfa_enabled u then
        Inr (Inr (Challenge \<lparr>mc_challenge_token = codec_issue_challenge deps (us_id u) (og_id o1)
                               (tp_mfa_challenge_ttl_seconds (ad_token_policy deps)) now,
                             mc_expires_at = now + seconds (tp_mfa_challenge_ttl_seconds (ad_token_policy deps)),
                             mc_methods = [''totp'', ''recovery_code'']\<rparr>), db1)
      else
        (case session_issue deps env (ce_fresh env 0) u m False ctx db1 of (tokens, db2) \<Rightarrow>
           res_bind (record_audit env (og_id o1) (ce_fresh env 1)
             (audit_by (for_membership m None (us_email u) False False ctx) ''auth.login_succeeded'' ''user'' (us_id u) [])
             db2) (\<lambda>db3.
           Inr (Inr (Tokens tokens), db3)))))"

definition authenticate_user ::
    "auth_deps \<Rightarrow> control_env \<Rightarrow> str \<Rightarrow> str \<Rightarrow> str option \<Rightarrow> request_context \<Rightarrow> control_db
       \<Rightarrow> authentication_result outcome" where
  "authenticate_user deps env email password organization_slug ctx db =
     (case email_address (ce_nfkc env) email of
        Inl _ \<Rightarrow> (Inl invalid_credentials, db)
      | Inr address \<Rightarrow> with_uow db
          (case users_get_by_email db address of
             None \<Rightarrow> Inl invalid_credentials
           | Some u \<Rightarrow>
               (case us_password_hash u of None \<Rightarrow> Inl invalid_credentials
                | Some pw \<Rightarrow>
                    res_bind (dom_res (assert_can_authenticate (ce_now env) u)) (\<lambda>_.
                    if \<not> ad_verify deps password pw then
                      (let u1 = record_failed_login (ce_now env) (ad_lockout_policy deps) u in
                       res_bind (audit_failure env u1 organization_slug ctx (users_put u1 db)) (\<lambda>db1.
                       Inr (Inl invalid_credentials, db1)))
                    else
                      res_bind (if ad_needs_rehash deps pw
                                then res_bind (dom_res (password_hash (ad_hash deps password))) (\<lambda>h.
                                       Inr (u\<lparr>us_password_hash := Some h\<rparr>))
                                else Inr u) (\<lambda>u0.
                      sign_in deps env u0 organization_slug ctx db)))))"

end
