(* ===== verification/AuthSessions.thy ===== *)
theory AuthSessions
  imports Auth
begin

text \<open>
  The second half of \<open>application/auth.py\<close>: completing a second factor, rotating refresh tokens,
  sign-out, password change, and turning access tokens and API keys (\<open>application/api_keys.py\<close>) into
  principals.
\<close>

section \<open>Second factor\<close>

definition mfa_candidate :: "str \<Rightarrow> str" where
  "mfa_candidate code = replace_char (CHR '' '') [] (strip code)"

text \<open>The recovery codes in order; the first that matches is consumed.\<close>

fun try_recovery_codes ::
    "auth_deps \<Rightarrow> datetime \<Rightarrow> str \<Rightarrow> mfa_credential list \<Rightarrow> control_db \<Rightarrow> control_exn + bool \<times> control_db" where
  "try_recovery_codes deps now candidate [] db = Inr (False, db)"
| "try_recovery_codes deps now candidate (c # cs) db =
     (if mfa_usable c \<and> ad_verify deps (normalize_recovery_code candidate) (mf_secret_encrypted c)
      then res_bind (dom_res (mfa_consume now c)) (\<lambda>c'. Inr (True, mfa_put c' db))
      else try_recovery_codes deps now candidate cs db)"

definition verify_code ::
    "auth_deps \<Rightarrow> datetime \<Rightarrow> uuid \<Rightarrow> str \<Rightarrow> control_db \<Rightarrow> control_exn + bool \<times> control_db" where
  "verify_code deps now user_id code db =
     (let candidate = mfa_candidate code in
      if candidate = [] then Inr (False, db)
      else case get_totp db user_id (Some True) of
          Some c \<Rightarrow>
            if ad_totp_verify deps (ad_decrypt deps (mf_secret_encrypted c)) candidate now
            then Inr (True, mfa_put (c\<lparr>mf_last_used_at := Some now\<rparr>) db)
            else try_recovery_codes deps now candidate (list_recovery_codes db user_id) db
        | None \<Rightarrow> try_recovery_codes deps now candidate (list_recovery_codes db user_id) db)"

text \<open>The steps once the user and the membership are known.\<close>

definition finish_challenge ::
    "auth_deps \<Rightarrow> control_env \<Rightarrow> user \<Rightarrow> membership \<Rightarrow> uuid \<Rightarrow> uuid \<Rightarrow> str \<Rightarrow> request_context \<Rightarrow> control_db
       \<Rightarrow> control_exn + token_pair outcome" where
  "finish_challenge deps env u m user_id org code ctx db =
     (let now = ce_now env in
      res_bind (verify_code deps now user_id code db) (\<lambda>(good, db1).
      if \<not> good then
        (let u1 = record_failed_login now (ad_lockout_policy deps) u in
         res_bind (record_audit env org (ce_fresh env 0)
           (audit_for_user org user_id (us_email u) ''auth.mfa_challenge_failed'' ''user'' user_id
              AUDIT_FAILURE (rc_ip_address ctx) [] [] []) (users_put u1 db1)) (\<lambda>db2.
         Inr (Inl (Domain InvalidMfaCodeError), db2)))
      else
        (let u1 = record_successful_login now u in
         case session_issue deps env (ce_fresh env 0) u1 m True ctx (users_put u1 db1) of (tokens, db2) \<Rightarrow>
         res_bind (record_audit env org (ce_fresh env 1)
           (audit_by (for_membership m None (us_email u) True False ctx) ''auth.login_succeeded'' ''user'' user_id
              [(''mfa'', JBool True)]) db2) (\<lambda>db3.
         Inr (Inr tokens, db3)))))"

definition complete_mfa_challenge ::
    "auth_deps \<Rightarrow> control_env \<Rightarrow> str \<Rightarrow> str \<Rightarrow> request_context \<Rightarrow> control_db \<Rightarrow> token_pair outcome" where
  "complete_mfa_challenge deps env challenge_token code ctx db = with_uow db
     (res_bind (codec_decode deps challenge_token MFA_CHALLENGE_AUDIENCE) (\<lambda>claims.
      res_bind (dom_res (raise_if (jget claims ''purpose'' \<noteq> JStr ''mfa'')
          (TokenError (Some ''This token cannot be used to complete sign-in.'')))) (\<lambda>_.
      res_bind (claim_uuid claims ''sub'') (\<lambda>user_id.
      res_bind (claim_uuid claims ''org'') (\<lambda>org.
      case users_get db user_id of
        None \<Rightarrow> Inl invalid_credentials
      | Some u \<Rightarrow>
          if \<not> user_active u then Inl invalid_credentials
          else
            res_bind (dom_res (assert_can_authenticate (ce_now env) u)) (\<lambda>_.
            res_bind (active_membership db org user_id) (\<lambda>m.
            finish_challenge deps env u m user_id org code ctx db)))))))"

section \<open>Rotation\<close>

definition reissue_from_successor ::
    "auth_deps \<Rightarrow> control_env \<Rightarrow> session \<Rightarrow> control_db \<Rightarrow> control_exn + token_pair outcome" where
  "reissue_from_successor deps env s db =
     (case se_replaced_by_id s of
        None \<Rightarrow> Inl (Domain (TokenError (Some ''This session has been superseded.'')))
      | Some successor \<Rightarrow>
          (case users_get db (se_user_id s) of
             None \<Rightarrow> Inl invalid_credentials
           | Some u \<Rightarrow>
               if \<not> user_active u then Inl invalid_credentials
               else
                 res_bind (active_membership db (se_organization_id s) (se_user_id s)) (\<lambda>m.
                 case codec_issue deps (us_id u) (se_organization_id s) successor (membership_permissions m)
                        (us_mfa_enabled u) (tp_access_ttl_seconds (ad_token_policy deps)) (ce_now env) of
                   (access, expires) \<Rightarrow>
                     Inr (Inr \<lparr>tk_access_token = access, tk_access_token_expires_at = expires,
                               tk_refresh_token = [], tk_refresh_token_expires_at = se_expires_at s,
                               tk_session_id = successor\<rparr>, db))))"

definition handle_reuse ::
    "control_env \<Rightarrow> session \<Rightarrow> request_context \<Rightarrow> control_db \<Rightarrow> control_exn + control_db" where
  "handle_reuse env s ctx db =
     (let (revoked, db1) = revoke_family (se_family_id s) (ce_now env) REUSE_REVOCATION_REASON db in
      record_audit env (se_organization_id s) (ce_fresh env 0)
        (audit_for_user (se_organization_id s) (se_user_id s)
           (case users_get db1 (se_user_id s) of None \<Rightarrow> [] | Some u \<Rightarrow> us_email u)
           ''security.token_reuse'' ''session'' (se_id s) AUDIT_DENIED (rc_ip_address ctx) (rc_user_agent ctx)
           (rc_request_id ctx)
           [(''family_id'', JStr (se_family_id s)), (''sessions_revoked'', JInt (int revoked)),
            (''rotated_at'', opt_json (map_option (ce_isotime env) (se_rotated_at s)))]) db1)"

text \<open>The rotation of a live session.\<close>

definition rotate_session ::
    "auth_deps \<Rightarrow> control_env \<Rightarrow> session \<Rightarrow> request_context \<Rightarrow> control_db \<Rightarrow> control_exn + token_pair outcome" where
  "rotate_session deps env s ctx db =
     (let now = ce_now env in
      case users_get db (se_user_id s) of
        None \<Rightarrow> Inl invalid_credentials
      | Some u \<Rightarrow>
          if \<not> user_active u then Inl invalid_credentials
          else
            res_bind (dom_res (assert_can_authenticate now u)) (\<lambda>_.
            case active_membership db (se_organization_id s) (se_user_id s) of
              Inl _ \<Rightarrow> Inr (Inl invalid_credentials,
                        snd (revoke_family (se_family_id s) now ''membership_revoked'' db))
            | Inr m \<Rightarrow>
                res_bind (dom_res (session_rotate (ce_fresh env 0) (ad_token_hash deps (ad_token deps)) now
                   (se_expires_at s) (rc_user_agent ctx) (rc_ip_address ctx) s)) (\<lambda>(s1, s2).
                let db1 = sessions_add (ce_db_now env) s2 (sessions_update s1 db) in
                case codec_issue deps (us_id u) (me_organization_id m) (se_id s2) (membership_permissions m)
                       (us_mfa_enabled u) (tp_access_ttl_seconds (ad_token_policy deps)) now of
                  (access, expires) \<Rightarrow>
                    Inr (Inr \<lparr>tk_access_token = access, tk_access_token_expires_at = expires,
                              tk_refresh_token = ad_token deps,
                              tk_refresh_token_expires_at = se_expires_at s2, tk_session_id = se_id s2\<rparr>, db1))))"

definition refresh_session ::
    "auth_deps \<Rightarrow> control_env \<Rightarrow> str \<Rightarrow> request_context \<Rightarrow> control_db \<Rightarrow> token_pair outcome" where
  "refresh_session deps env refresh_token ctx db = with_uow db
     (let now = ce_now env in
      case sessions_get_by_token_hash db (ad_token_hash deps refresh_token) of
        None \<Rightarrow> Inl (Domain (TokenError (Some ''This refresh token is not recognized.'')))
      | Some s \<Rightarrow>
          if se_revoked_at s \<noteq> None then Inl (Domain TokenReuseError)
          else if session_rotated s then
            (if within_rotation_grace now (tp_rotation_grace_seconds (ad_token_policy deps)) s
             then reissue_from_successor deps env s db
             else res_bind (handle_reuse env s ctx db) (\<lambda>db1. Inr (Inl (Domain TokenReuseError), db1)))
          else if session_expired now s then
            Inl (Domain (TokenError (Some ''This session has expired. Please sign in again.'')))
          else rotate_session deps env s ctx db)"

section \<open>Sign-out and password change\<close>

definition revoke_session ::
    "control_env \<Rightarrow> principal \<Rightarrow> bool \<Rightarrow> control_db \<Rightarrow> nat outcome" where
  "revoke_session env pr all_sessions db = in_transaction db
     (case pr_user_id pr of
        None \<Rightarrow> Inl (Domain (InvalidStateError ''Only a user session can be revoked.''))
      | Some user_id \<Rightarrow>
          let now = ce_now env;
              (count, db1) =
                (if all_sessions then revoke_all_for_user user_id now ''user_logout_all'' None db
                 else case pr_session_id pr of
                     Some sid \<Rightarrow> (case sessions_get db sid of None \<Rightarrow> (0, db)
                                  | Some s \<Rightarrow> revoke_family (se_family_id s) now ''user_logout'' db)
                   | None \<Rightarrow> (0, db))
          in res_bind (record_audit env (pr_organization_id pr) (ce_fresh env 0)
               (audit_by pr ''auth.logout'' ''user'' user_id
                  [(''sessions_revoked'', JInt (int count)), (''all'', JBool all_sessions)]) db1) (\<lambda>db2.
             Inr (count, db2)))"

definition change_password ::
    "auth_deps \<Rightarrow> control_env \<Rightarrow> principal \<Rightarrow> str \<Rightarrow> str \<Rightarrow> control_db \<Rightarrow> nat outcome" where
  "change_password deps env pr current_password new_password db = in_transaction db
     (let now = ce_now env in
      case pr_user_id pr of
        None \<Rightarrow> Inl (Domain (InvalidStateError ''Only a signed-in user can change a password.''))
      | Some user_id \<Rightarrow>
          res_bind (expect (NotFoundError ''User'') (users_get db user_id)) (\<lambda>u.
          res_bind (expect (NotFoundError ''User'') (us_password_hash u)) (\<lambda>pw.
          res_bind (dom_res (raise_if (\<not> ad_verify deps current_password pw)
             (AuthenticationError (Some ''The current password is incorrect.'')))) (\<lambda>_.
          res_bind (dom_res (password_validate (ce_nfkc env) (ad_password_policy deps) new_password
             [email_local_part (us_email u), us_full_name u])) (\<lambda>_.
          res_bind (dom_res (raise_if (ad_verify deps new_password pw)
             (ValidationError ''The new password must differ from the current one.'' (Some ''new_password'') None))) (\<lambda>_.
          res_bind (dom_res (password_hash (ad_hash deps new_password))) (\<lambda>h.
          let (revoked, db1) = revoke_all_for_user (us_id u) now ''password_changed'' (pr_session_id pr)
                                 (users_put (set_password h now u) db)
          in res_bind (record_audit env (pr_organization_id pr) (ce_fresh env 0)
               (audit_by pr ''auth.password_changed'' ''user'' (us_id u)
                  [(''other_sessions_revoked'', JInt (int revoked))]) db1) (\<lambda>db2.
             Inr (revoked, db2)))))))))"

section \<open>Principals\<close>

definition resolve_user_principal ::
    "auth_deps \<Rightarrow> control_env \<Rightarrow> str \<Rightarrow> request_context \<Rightarrow> control_db \<Rightarrow> control_exn + principal" where
  "resolve_user_principal deps env access_token ctx db =
     res_bind (codec_decode deps access_token USER_AUDIENCE) (\<lambda>claims.
     res_bind (claim_uuid claims ''sub'') (\<lambda>user_id.
     res_bind (claim_uuid claims ''org'') (\<lambda>org.
     res_bind (if truthy (jget claims ''sid'') then map_sum id Some (claim_uuid claims ''sid'') else Inr None) (\<lambda>session_id.
     case users_get db user_id of
       None \<Rightarrow> Inl invalid_credentials
     | Some u \<Rightarrow>
         if \<not> user_active u \<or> user_locked (ce_now env) u then Inl invalid_credentials
         else
           res_bind (case session_id of None \<Rightarrow> Inr ()
             | Some sid \<Rightarrow> (case sessions_get db sid of
                 None \<Rightarrow> Inl (Domain (TokenError (Some ''This session has been revoked.'')))
               | Some s \<Rightarrow> if se_revoked_at s \<noteq> None
                   then Inl (Domain (TokenError (Some ''This session has been revoked.''))) else Inr ())) (\<lambda>_.
           res_bind (case organizations_get db org of None \<Rightarrow> Inl invalid_credentials
             | Some o1 \<Rightarrow> if organization_active o1 then Inr () else Inl invalid_credentials) (\<lambda>_.
           res_bind (active_membership db org user_id) (\<lambda>m.
           Inr (for_membership m session_id (us_email u) (truthy (jget claims ''mfa''))
                  (us_is_platform_admin u) ctx))))))))"

definition split_api_key :: "str \<Rightarrow> str \<times> str \<times> str" where
  "split_api_key presented =
     (let raw = strip presented in
      partition_char (CHR ''.'') (if startswith raw ''ak_'' then drop 3 raw else raw))"

definition resolve_api_key_principal ::
    "auth_deps \<Rightarrow> control_env \<Rightarrow> str \<Rightarrow> request_context \<Rightarrow> control_db \<Rightarrow> principal outcome" where
  "resolve_api_key_principal deps env presented_key ctx db =
     (case split_api_key presented_key of (pfx_text, _, secret) \<Rightarrow>
      case api_key_prefix pfx_text of
        Inl _ \<Rightarrow> (Inl invalid_credentials, db)
      | Inr pfx \<Rightarrow> with_uow db
          (case api_keys_get_by_prefix db pfx of
             None \<Rightarrow> Inl invalid_credentials
           | Some k \<Rightarrow>
               if \<not> api_key_active (ce_now env) k then Inl invalid_credentials
               else if \<not> ad_verify deps secret (ak_secret_hash k) then Inl invalid_credentials
               else
                 (case organizations_get db (ak_organization_id k) of
                    None \<Rightarrow> Inl invalid_credentials
                  | Some o1 \<Rightarrow>
                      if \<not> organization_active o1 then Inl invalid_credentials
                      else Inr (Inr \<lparr>pr_kind = ACTOR_API_KEY, pr_organization_id = ak_organization_id k,
                                     pr_permissions = ak_permissions k, pr_user_id = None, pr_session_id = None,
                                     pr_api_key_id = Some (ak_id k), pr_agent_id = None, pr_membership_id = None,
                                     pr_label = ''api-key:'' @ ak_name k, pr_mfa_satisfied = True,
                                     pr_is_platform_admin = False, pr_is_owner = False, pr_context = ctx\<rparr>,
                                api_keys_touch (ak_id k) (ce_now env) db))))"

end
