(* ===== verification/AuthProps.thy ===== *)
theory AuthProps
  imports AuthSessions RbacProps
begin

text \<open>
  Properties of sessions, second factors and principals. The invariant of the session table says that
  the sessions of a family share their expiry, their user and their organization, and that at most one
  of them can still be refreshed.
\<close>

section \<open>The session table\<close>

definition live :: "session \<Rightarrow> bool" where
  "live s \<longleftrightarrow> se_revoked_at s = None \<and> se_rotated_at s = None"

definition same_family :: "session \<Rightarrow> session \<Rightarrow> bool" where
  "same_family s t \<longleftrightarrow> se_expires_at s = se_expires_at t \<and> se_user_id s = se_user_id t
     \<and> se_organization_id s = se_organization_id t"

definition session_table_ok :: "(uuid, session) dict \<Rightarrow> bool" where
  "session_table_ok d \<longleftrightarrow> dict_ok d
     \<and> (\<forall>(k, s) \<in> set d. se_id s = k \<and> se_family_id s \<in> fst ` set d)
     \<and> (\<forall>(k, s) \<in> set d. \<forall>(l, t) \<in> set d. se_family_id s = se_family_id t \<longrightarrow>
          same_family s t \<and> (live s \<and> live t \<longrightarrow> k = l))"

lemma session_table_iff:
  "session_table_ok d \<longleftrightarrow> dict_ok d
     \<and> (\<forall>k s. dget d k = Some s \<longrightarrow> se_id s = k \<and> se_family_id s \<in> fst ` set d)
     \<and> (\<forall>k s l t. dget d k = Some s \<longrightarrow> dget d l = Some t \<longrightarrow> se_family_id s = se_family_id t \<longrightarrow>
          same_family s t \<and> (live s \<and> live t \<longrightarrow> k = l))"
proof (cases "dict_ok d")
  case True
  then show ?thesis unfolding session_table_ok_def pairs_dget [OF True] by auto
qed (auto simp: session_table_ok_def)

text \<open>Revocations: some entries are replaced by their revoked form.\<close>

definition revoked_from :: "(uuid, session) dict \<Rightarrow> (uuid, session) dict \<Rightarrow> bool" where
  "revoked_from d d' \<longleftrightarrow> dict_ok d' \<and> fst ` set d' = fst ` set d
     \<and> (\<forall>k. dget d' k = dget d k \<or> (\<exists>s now why. dget d k = Some s \<and> dget d' k = Some (session_revoke now why s)))"

lemma revoke_fields [simp]:
  "se_id (session_revoke now why s) = se_id s" "se_family_id (session_revoke now why s) = se_family_id s"
  "se_expires_at (session_revoke now why s) = se_expires_at s" "se_user_id (session_revoke now why s) = se_user_id s"
  "se_organization_id (session_revoke now why s) = se_organization_id s"
  "se_rotated_at (session_revoke now why s) = se_rotated_at s"
  "se_created_at (session_revoke now why s) = se_created_at s"
  "se_refresh_token_hash (session_revoke now why s) = se_refresh_token_hash s"
  "se_replaced_by_id (session_revoke now why s) = se_replaced_by_id s"
  "se_revoked_at (session_revoke now why s) \<noteq> None" "\<not> live (session_revoke now why s)"
  by (simp_all add: session_revoke_def live_def)

lemma revoked_from_refl: "dict_ok d \<Longrightarrow> revoked_from d d"
  by (simp add: revoked_from_def)

lemma revoked_from_entry:
  assumes "revoked_from d d'" "dget d' k = Some s'"
  obtains s where "dget d k = Some s" "s' = s \<or> (\<exists>now why. s' = session_revoke now why s)"
  using assms unfolding revoked_from_def by (metis option.inject)

lemma revoked_from_ok:
  assumes "revoked_from d d'" "session_table_ok d" shows "session_table_ok d'"
proof -
  have keys: "fst ` set d' = fst ` set d" "dict_ok d'" using assms(1) by (auto simp: revoked_from_def)
  have old: "\<exists>s. dget d k = Some s \<and> se_id s = se_id s' \<and> se_family_id s = se_family_id s'
      \<and> (same_family s' = same_family s) \<and> (\<forall>t. same_family t s' = same_family t s) \<and> (live s' \<longrightarrow> live s)"
    if "dget d' k = Some s'" for k s'
    using that by (rule revoked_from_entry [OF assms(1)]) (auto simp: same_family_def fun_eq_iff)
  show ?thesis
    unfolding session_table_iff
  proof (intro conjI allI impI)
    fix k s assume "dget d' k = Some s"
    then show "se_id s = k" "se_family_id s \<in> fst ` set d'"
      using old assms(2) keys(1) unfolding session_table_iff by metis+
  next
    fix k s l t assume "dget d' k = Some s" "dget d' l = Some t" "se_family_id s = se_family_id t"
    then show "same_family s t" "live s \<and> live t \<Longrightarrow> k = l"
      using old [of k s] old [of l t] assms(2) unfolding session_table_iff by metis+
  qed (rule keys(2))
qed

lemma revoke_where_from:
  assumes "dict_ok (db_sessions db)"
  shows "revoked_from (db_sessions db) (db_sessions (snd (revoke_where p now why db)))"
proof -
  let ?f = "\<lambda>s. if p s then session_revoke now why s else s"
  have table: "db_sessions (snd (revoke_where p now why db)) = map (\<lambda>(k, s). (k, ?f s)) (db_sessions db)"
    by (simp add: revoke_where_def)
  have keys: "fst ` set (map (\<lambda>(k, s). (k, ?f s)) d) = fst ` set d" for d by force
  have entry: "map_option ?f (dget (db_sessions db) k) = dget (db_sessions db) k \<or>
      (\<exists>s now' why'. dget (db_sessions db) k = Some s \<and> map_option ?f (dget (db_sessions db) k) = Some (session_revoke now' why' s))" for k
    by (cases "dget (db_sessions db) k") auto
  show ?thesis
    unfolding revoked_from_def table dget_map_snd dict_ok_map_snd
    by (intro conjI allI) (rule assms keys entry)+
qed

text \<open>A new family and a rotation.\<close>

lemma start_ok:
  assumes "session_table_ok d" "i \<notin> fst ` set d" "se_id s = i" "se_family_id s = i"
  shows "session_table_ok (dput i s d)"
proof -
  have other: "se_family_id t \<noteq> i" if "dget d k = Some t" for k t
    using that assms(1,2) unfolding session_table_iff by blast
  have new: "dget (dput i s d) l = (if l = i then Some s else dget d l)" for l by (simp add: dget_dput)
  have refl: "same_family s s" by (simp add: same_family_def)
  show ?thesis
    unfolding session_table_iff
  proof (intro conjI allI impI)
    show "dict_ok (dput i s d)" using assms(1) unfolding session_table_iff by blast
  next
    fix l t assume "dget (dput i s d) l = Some t"
    then show "se_id t = l" "se_family_id t \<in> fst ` set (dput i s d)"
      using assms(1,3,4) unfolding new session_table_iff set_keys_dput by (auto split: if_splits)
  next
    fix l t m u
    assume "dget (dput i s d) l = Some t" "dget (dput i s d) m = Some u" "se_family_id t = se_family_id u"
    then have "l = i \<and> m = i \<and> t = s \<and> u = s \<or> dget d l = Some t \<and> dget d m = Some u"
      using other assms(4) unfolding new by (auto split: if_splits)
    then show "same_family t u" "live t \<and> live u \<Longrightarrow> l = m"
      using \<open>se_family_id t = se_family_id u\<close> assms(1) refl unfolding session_table_iff by blast+
  qed
qed

lemma rotate_ok:
  assumes "session_table_ok d" "dget d k = Some s" "live s" "i \<notin> fst ` set d"
    and "s1 = s\<lparr>se_rotated_at := Some now, se_replaced_by_id := Some i\<rparr>"
    and "se_id s2 = i" "se_family_id s2 = se_family_id s" "same_family s s2"
  shows "session_table_ok (dput i s2 (dput k s1 d))"
proof -
  have ik: "i \<noteq> k" using assms(2,4) dget_Some_key by metis
  have s: "se_id s = k" "se_family_id s \<in> fst ` set d" using assms(1,2) unfolding session_table_iff by blast+
  have fam: "same_family s t \<and> same_family t s" "live t \<Longrightarrow> l = k"
    if "dget d l = Some t" "se_family_id t = se_family_id s" for l t
    using that assms(1-3) unfolding session_table_iff by metis+
  have s1: "se_id s1 = k" "se_family_id s1 = se_family_id s" "\<not> live s1" "same_family s1 = same_family s"
    "same_family t s1 = same_family t s" for t
    using assms(5) s by (simp_all add: live_def same_family_def fun_eq_iff)
  have s2: "same_family s2 t = same_family s t" "same_family t s2 = same_family t s" for t
    using assms(8) by (auto simp: same_family_def)
  have dis: "dict_ok (dput i s2 (dput k s1 d))" using assms(1) unfolding session_table_iff by blast
  have new: "dget (dput i s2 (dput k s1 d)) l = (if l = i then Some s2 else if l = k then Some s1 else dget d l)" for l
    by (simp add: dget_dput)
  have refl: "same_family s s" by (simp add: same_family_def)
  show ?thesis
    unfolding session_table_iff
  proof (intro conjI allI impI)
    fix l t assume "dget (dput i s2 (dput k s1 d)) l = Some t"
    then show "se_id t = l" "se_family_id t \<in> fst ` set (dput i s2 (dput k s1 d))"
      using s s1 assms(1,6,7) unfolding new session_table_iff set_keys_dput by (auto split: if_splits)
  next
    fix l t m u
    assume t: "dget (dput i s2 (dput k s1 d)) l = Some t" and u: "dget (dput i s2 (dput k s1 d)) m = Some u"
      and f: "se_family_id t = se_family_id u"
    show "same_family t u"
      using t u f fam assms(1,7) s1 s2 refl unfolding new session_table_iff by (auto split: if_splits)
    show "l = m" if "live t \<and> live u"
      using that t u f fam assms(1,7) s1 ik unfolding new session_table_iff by (auto split: if_splits)
  qed (rule dis)
qed

section \<open>What each operation does to the session table\<close>

text \<open>Nothing but revocations; or, after them, a new family; or a rotation.\<close>

inductive session_effect :: "(uuid, session) dict \<Rightarrow> (uuid, session) dict \<Rightarrow> bool" where
  revoked: "revoked_from d d' \<Longrightarrow> session_effect d d'"
| started: "revoked_from d d1 \<Longrightarrow> i \<notin> fst ` set d \<Longrightarrow> se_id s = i \<Longrightarrow> se_family_id s = i \<Longrightarrow>
    session_effect d (dput i s d1)"
| rotated: "dget d k = Some s \<Longrightarrow> live s \<Longrightarrow> i \<notin> fst ` set d \<Longrightarrow>
    s1 = s\<lparr>se_rotated_at := Some now, se_replaced_by_id := Some i\<rparr> \<Longrightarrow>
    se_id s2 = i \<Longrightarrow> se_family_id s2 = se_family_id s \<Longrightarrow> same_family s s2 \<Longrightarrow>
    session_effect d (dput i s2 (dput k s1 d))"

lemma session_effect_ok:
  assumes "session_effect d d'" "session_table_ok d" shows "session_table_ok d'"
  using assms(1)
proof cases
  case revoked
  then show ?thesis using assms(2) revoked_from_ok by blast
next
  case (started d1 i s)
  then have "session_table_ok d1" "i \<notin> fst ` set d1"
    using assms(2) revoked_from_ok revoked_from_def by metis+
  with started show ?thesis by (simp add: start_ok)
next
  case (rotated k s i s1 now s2)
  then show ?thesis using assms(2) rotate_ok by blast
qed

lemma session_effect_refl: "session_table_ok d \<Longrightarrow> session_effect d d"
  by (intro session_effect.revoked revoked_from_refl) (simp add: session_table_ok_def)

lemma sessions_update_revoke:
  assumes "dget (db_sessions d) (se_id s) = Some s"
  shows "db_sessions (sessions_update (session_revoke now why s) d)
    = dput (se_id s) (session_revoke now why s) (db_sessions d)"
  using assms by (simp add: sessions_update_def session_revoke_def)

lemma cap_fold:
  fixes now :: datetime and why :: str
  assumes "dict_ok (db_sessions db)" "\<forall>s \<in> set ss. dget (db_sessions db) (se_id s) = Some s" "distinct (map se_id ss)"
  defines "db' \<equiv> foldl (\<lambda>d s. sessions_update (session_revoke now why s) d) db ss"
  shows "dict_ok (db_sessions db') \<and> fst ` set (db_sessions db') = fst ` set (db_sessions db)
    \<and> (\<forall>k. dget (db_sessions db') k = (if k \<in> se_id ` set ss
             then map_option (session_revoke now why) (dget (db_sessions db) k) else dget (db_sessions db) k))"
  using assms(1-3) unfolding db'_def
proof (induction ss rule: rev_induct)
  case (snoc s ss)
  let ?d = "foldl (\<lambda>d s. sessions_update (session_revoke now why s) d) db ss"
  have IH: "dict_ok (db_sessions ?d)" "fst ` set (db_sessions ?d) = fst ` set (db_sessions db)"
    "\<And>k. dget (db_sessions ?d) k = (if k \<in> se_id ` set ss
             then map_option (session_revoke now why) (dget (db_sessions db) k) else dget (db_sessions db) k)"
    using snoc by auto
  have s: "dget (db_sessions db) (se_id s) = Some s" "se_id s \<notin> se_id ` set ss" using snoc.prems by auto
  then have row: "dget (db_sessions ?d) (se_id s) = Some s" using IH(3) by simp
  note upd = sessions_update_revoke [OF row, of now why]
  have "se_id s \<in> fst ` set (db_sessions db)" using s(1) dget_Some_key by metis
  then show ?case
    using IH s unfolding foldl_append foldl.simps upd by (auto simp: dget_dput set_keys_dput)
qed auto

lemma table_ids: "session_table_ok d \<Longrightarrow> map se_id (map snd d) = map fst d"
  unfolding session_table_ok_def by (induction d) force+

lemma active_in_table:
  assumes "session_table_ok (db_sessions db)"
  shows "\<forall>s \<in> set (list_active_for_user db u now). dget (db_sessions db) (se_id s) = Some s"
    "distinct (map se_id (list_active_for_user db u now))"
proof -
  have ok: "dict_ok (db_sessions db)" using assms by (simp add: session_table_ok_def)
  show "\<forall>s \<in> set (list_active_for_user db u now). dget (db_sessions db) (se_id s) = Some s"
    using assms unfolding list_active_for_user_def dget_in_set [OF ok] session_table_ok_def by fastforce
  have "distinct (map se_id (map snd (db_sessions db)))"
    using ok unfolding table_ids [OF assms] dict_ok_def .
  then show "distinct (map se_id (list_active_for_user db u now))"
    unfolding list_active_for_user_def by (rule distinct_map_filter)
qed

abbreviation cap_victims :: "auth_deps \<Rightarrow> control_env \<Rightarrow> uuid \<Rightarrow> control_db \<Rightarrow> session list" where
  "cap_victims deps env u db \<equiv>
     take (length (list_active_for_user db u (ce_now env)) - tp_max_sessions_per_user (ad_token_policy deps) + 1)
       (sort_key (\<lambda>s. case se_created_at s of Some t \<Rightarrow> t | None \<Rightarrow> ce_now env) (list_active_for_user db u (ce_now env)))"

lemma cap_victims_in_table:
  assumes "session_table_ok (db_sessions db)"
  shows "\<forall>s \<in> set (cap_victims deps env u db). dget (db_sessions db) (se_id s) = Some s"
    "distinct (map se_id (cap_victims deps env u db))"
proof -
  let ?s = "sort_key (\<lambda>s. case se_created_at s of Some t \<Rightarrow> t | None \<Rightarrow> ce_now env) (list_active_for_user db u (ce_now env))"
  have sub: "set (take n ?s) \<subseteq> set (list_active_for_user db u (ce_now env))" for n
    using set_take_subset [of n ?s] by simp
  show "\<forall>s \<in> set (cap_victims deps env u db). dget (db_sessions db) (se_id s) = Some s"
    using active_in_table(1) [OF assms] sub by blast
  have "distinct (map se_id ?s)"
    using active_in_table(2) [OF assms] by (simp add: distinct_map)
  then show "distinct (map se_id (cap_victims deps env u db))" by (simp add: take_map [symmetric])
qed

lemma cap_revoked:
  assumes "session_table_ok (db_sessions db)"
  shows "revoked_from (db_sessions db) (db_sessions (enforce_session_cap deps env u db))"
proof (cases "length (list_active_for_user db u (ce_now env)) < tp_max_sessions_per_user (ad_token_policy deps)")
  case True
  with assms show ?thesis by (simp add: enforce_session_cap_def Let_def revoked_from_refl session_table_ok_def)
next
  case False
  have ok: "dict_ok (db_sessions db)" using assms by (simp add: session_table_ok_def)
  have eq: "enforce_session_cap deps env u db
      = foldl (\<lambda>d s. sessions_update (session_revoke (ce_now env) ''session_cap_exceeded'' s) d) db (cap_victims deps env u db)"
    using False by (simp add: enforce_session_cap_def Let_def)
  note fold = cap_fold [OF ok cap_victims_in_table [OF assms, where deps = deps and env = env and u = u], where now = "ce_now env" and why = "''session_cap_exceeded''"]
  show ?thesis
    unfolding eq revoked_from_def
  proof (intro conjI allI)
    fix k
    let ?d' = "foldl (\<lambda>d s. sessions_update (session_revoke (ce_now env) ''session_cap_exceeded'' s) d) db (cap_victims deps env u db)"
    show "dget (db_sessions ?d') k = dget (db_sessions db) k \<or>
        (\<exists>s now why. dget (db_sessions db) k = Some s \<and> dget (db_sessions ?d') k = Some (session_revoke now why s))"
      using fold by (cases "dget (db_sessions db) k") auto
  qed (use fold in blast)+
qed

lemma issue_effect:
  assumes "session_table_ok (db_sessions db)" "i \<notin> fst ` set (db_sessions db)"
  shows "session_effect (db_sessions db) (db_sessions (snd (session_issue deps env i u m mfa ctx db)))"
proof -
  let ?s = "(session_start i (us_id u) (me_organization_id m) (ad_token_hash deps (ad_token deps))
                (tp_refresh_ttl_seconds (ad_token_policy deps)) (ce_now env) (rc_user_agent ctx) (rc_ip_address ctx))
            \<lparr>se_created_at := Some (ce_db_now env)\<rparr>"
  have "db_sessions (snd (session_issue deps env i u m mfa ctx db))
      = dput i ?s (db_sessions (enforce_session_cap deps env (us_id u) db))"
    by (simp add: session_issue_def Let_def split_beta sessions_add_def session_start_def)
  then show ?thesis
    by (simp only:) (rule session_effect.started [OF cap_revoked [OF assms(1)] assms(2)]; simp add: session_start_def)
qed

lemma record_audit_keeps:
  "record_audit env b i c db = Inr db' \<Longrightarrow>
     db_sessions db' = db_sessions db \<and> db_users db' = db_users db \<and> db_mfa db' = db_mfa db
     \<and> db_memberships db' = db_memberships db \<and> db_roles db' = db_roles db \<and> db_organizations db' = db_organizations db"
  by (auto dest: record_audit_Inr)

datatype auth_op =
    Register bool str str str str request_context license_tier
  | SignIn str str "str option" request_context
  | CompleteMfa str str request_context
  | Refresh str request_context
  | SignOut principal bool
  | ChangePassword principal str str

fun auth_apply :: "auth_deps \<Rightarrow> control_env \<Rightarrow> auth_op \<Rightarrow> control_db \<Rightarrow> control_db" where
  "auth_apply deps env (Register allow name email pw full ctx tier) db =
     snd (register_organization deps env allow name email pw full ctx tier db)"
| "auth_apply deps env (SignIn email pw sl ctx) db = snd (authenticate_user deps env email pw sl ctx db)"
| "auth_apply deps env (CompleteMfa token code ctx) db = snd (complete_mfa_challenge deps env token code ctx db)"
| "auth_apply deps env (Refresh token ctx) db = snd (refresh_session deps env token ctx db)"
| "auth_apply deps env (SignOut pr all_sessions) db = snd (revoke_session env pr all_sessions db)"
| "auth_apply deps env (ChangePassword pr cur new) db = snd (change_password deps env pr cur new db)"

definition sids_new :: "control_env \<Rightarrow> control_db \<Rightarrow> bool" where
  "sids_new env db \<longleftrightarrow> (\<forall>n. ce_fresh env n \<notin> fst ` set (db_sessions db))"

lemma with_uow_rule: "P db \<Longrightarrow> (\<And>x. r = Inr x \<Longrightarrow> P (snd x)) \<Longrightarrow> P (snd (with_uow db r))"
  by (cases r) auto

lemma put_sessions [simp]:
  "db_sessions (users_put u db) = db_sessions db" "db_sessions (mfa_put c db) = db_sessions db"
  "db_sessions (memberships_add m db) = db_sessions db" "db_sessions (roles_add_many rs db) = db_sessions db"
  "db_sessions (licenses_add l db) = db_sessions db" "db_sessions (organizations_put o1 db) = db_sessions db"
  by (simp_all add: users_put_def mfa_put_def memberships_add_def roles_add_many_def licenses_add_def organizations_put_def)

lemma issue_effect_via:
  assumes "session_table_ok (db_sessions db)" "sids_new env db"
    and "db_sessions db1 = db_sessions db" "record_audit env b i c (snd (session_issue deps env (ce_fresh env n) u m mfa ctx db1)) = Inr db'"
  shows "session_effect (db_sessions db) (db_sessions db')"
  using issue_effect [of db1 "ce_fresh env n" deps env u m mfa ctx] assms record_audit_keeps [OF assms(4)]
  by (simp add: sids_new_def)

lemma register_effect:
  assumes "session_table_ok (db_sessions db)" "sids_new env db"
  shows "session_effect (db_sessions db)
    (db_sessions (snd (register_organization deps env allow name email pw full ctx tier db)))"
  unfolding register_organization_def
  apply (rule in_transaction_rule [where P = "\<lambda>d. session_effect (db_sessions db) (db_sessions d)"])
   apply (rule session_effect_refl [OF assms(1)])
  subgoal premises body for x db'
  proof -
    obtain db1 db2 b i c b' i' c' u m where
      "record_audit env b i c db1 = Inr db2" "db_sessions db1 = db_sessions db"
      "record_audit env b' i' c' (snd (session_issue deps env (ce_fresh env 10) u m False ctx db2)) = Inr db'"
      using body by (auto simp: Let_def res_bind_Inr split_beta)
    then show ?thesis using issue_effect_via [OF assms] record_audit_keeps by metis
  qed
  done

lemma sign_in_effect:
  assumes "session_table_ok (db_sessions db)" "sids_new env db" "sign_in deps env u sl ctx db = Inr x"
  shows "session_effect (db_sessions db) (db_sessions (snd x))"
proof (cases "us_mfa_enabled (record_successful_login (ce_now env) u)")
  case True
  with assms(3) have "snd x = users_put (record_successful_login (ce_now env) u) db"
    by (auto simp: sign_in_def Let_def res_bind_Inr)
  then show ?thesis using session_effect_refl [OF assms(1)] by simp
next
  case False
  with assms(3) obtain m b i c db' where
    "record_audit env b i c (snd (session_issue deps env (ce_fresh env 0)
       (record_successful_login (ce_now env) u) m False ctx (users_put (record_successful_login (ce_now env) u) db))) = Inr db'"
    "snd x = db'"
    by (auto simp: sign_in_def Let_def res_bind_Inr split_beta)
  note db' = this
  show ?thesis unfolding db'(2) by (rule issue_effect_via [OF assms(1,2) _ db'(1)]) simp
qed

lemma audit_failure_keeps: "audit_failure env u sl ctx db = Inr db' \<Longrightarrow> db_sessions db' = db_sessions db \<and> db_users db' = db_users db
   \<and> db_mfa db' = db_mfa db \<and> db_memberships db' = db_memberships db \<and> db_roles db' = db_roles db \<and> db_organizations db' = db_organizations db"
  by (auto simp: audit_failure_def Let_def res_bind_Inr dest!: record_audit_keeps split: list.splits if_splits)

lemma authenticate_effect:
  assumes "session_table_ok (db_sessions db)" "sids_new env db"
  shows "session_effect (db_sessions db) (db_sessions (snd (authenticate_user deps env email pw sl ctx db)))"
proof (cases "email_address (ce_nfkc env) email")
  case (Inr address)
  show ?thesis
    unfolding authenticate_user_def Inr sum.case
    apply (rule with_uow_rule [where P = "\<lambda>d. session_effect (db_sessions db) (db_sessions d)"])
     apply (rule session_effect_refl [OF assms(1)])
    using sign_in_effect [OF assms] session_effect_refl [OF assms(1)]
    by (auto simp: res_bind_Inr Let_def dest!: audit_failure_keeps split: option.splits if_splits)
qed (simp add: authenticate_user_def session_effect_refl [OF assms(1)])

lemma try_recovery_keeps:
  "try_recovery_codes deps now c cs db = Inr (b, db') \<Longrightarrow> db_sessions db' = db_sessions db \<and> db_users db' = db_users db"
  by (induction cs) (auto simp: res_bind_Inr mfa_put_def split: if_splits)

lemma verify_code_keeps:
  "verify_code deps now u code db = Inr (b, db') \<Longrightarrow> db_sessions db' = db_sessions db \<and> db_users db' = db_users db"
  by (auto simp: verify_code_def Let_def mfa_put_def split: if_splits option.splits dest!: try_recovery_keeps)

lemma finish_effect:
  assumes "session_table_ok (db_sessions db)" "sids_new env db" "finish_challenge deps env u m user_id org code ctx db = Inr x"
  shows "session_effect (db_sessions db) (db_sessions (snd x))"
proof -
  obtain good db1 where v: "verify_code deps (ce_now env) user_id code db = Inr (good, db1)"
    using assms(3) by (auto simp: finish_challenge_def Let_def res_bind_Inr)
  have same: "db_sessions db1 = db_sessions db" using verify_code_keeps [OF v] by simp
  show ?thesis
  proof (cases good)
    case True
    with assms(3) v obtain b i c db' where
      "record_audit env b i c (snd (session_issue deps env (ce_fresh env 0)
         (record_successful_login (ce_now env) u) m True ctx (users_put (record_successful_login (ce_now env) u) db1))) = Inr db'"
      "snd x = db'"
      by (auto simp: finish_challenge_def Let_def res_bind_Inr split_beta)
    note db' = this
    show ?thesis unfolding db'(2) by (rule issue_effect_via [OF assms(1,2) _ db'(1)]) (simp add: same)
  next
    case False
    with assms(3) v obtain b i c db' where
      "record_audit env b i c (users_put (record_failed_login (ce_now env) (ad_lockout_policy deps) u) db1) = Inr db'" "snd x = db'"
      by (auto simp: finish_challenge_def Let_def res_bind_Inr)
    then show ?thesis using record_audit_keeps same session_effect_refl [OF assms(1)] by fastforce
  qed
qed

lemma complete_effect:
  assumes "session_table_ok (db_sessions db)" "sids_new env db"
  shows "session_effect (db_sessions db) (db_sessions (snd (complete_mfa_challenge deps env token code ctx db)))"
  unfolding complete_mfa_challenge_def
  apply (rule with_uow_rule [where P = "\<lambda>d. session_effect (db_sessions db) (db_sessions d)"])
   apply (rule session_effect_refl [OF assms(1)])
  using finish_effect [OF assms] by (auto simp: res_bind_Inr split: option.splits if_splits)

lemma rotate_effect:
  assumes "session_table_ok (db_sessions db)" "sids_new env db" "dget (db_sessions db) (se_id s) = Some s" "live s"
    and "rotate_session deps env s ctx db = Inr x"
  shows "session_effect (db_sessions db) (db_sessions (snd x))"
proof -
  have ok: "dict_ok (db_sessions db)" using assms(1) by (simp add: session_table_ok_def)
  let ?s2 = "\<lparr>se_id = ce_fresh env 0, se_user_id = se_user_id s, se_organization_id = se_organization_id s,
          se_family_id = se_family_id s, se_refresh_token_hash = ad_token_hash deps (ad_token deps), se_expires_at = se_expires_at s,
          se_user_agent = take 400 (if rc_user_agent ctx = [] then se_user_agent s else rc_user_agent ctx),
          se_ip_address = (case rc_ip_address ctx of Some a \<Rightarrow> if a = [] then se_ip_address s else rc_ip_address ctx | None \<Rightarrow> se_ip_address s),
          se_rotated_at = None, se_revoked_at = None, se_revoked_reason = None,
          se_replaced_by_id = None, se_created_at = Some (ce_db_now env)\<rparr>"
  let ?s1 = "s\<lparr>se_rotated_at := Some (ce_now env), se_replaced_by_id := Some (ce_fresh env 0)\<rparr>"
  have upd: "db_sessions (sessions_update ?s1 d) = dput (se_id s) ?s1 (db_sessions d)" if "db_sessions d = db_sessions db" for d
    using assms(3) that by (simp add: sessions_update_def)
  consider "snd x = snd (revoke_family (se_family_id s) (ce_now env) ''membership_revoked'' db)"
    | "db_sessions (snd x) = dput (ce_fresh env 0) ?s2 (dput (se_id s) ?s1 (db_sessions db))"
    using assms(3-5)
    by (auto simp: rotate_session_def Let_def res_bind_Inr session_rotate_def live_def codec_issue_def
        sessions_add_def upd split: option.splits if_splits sum.splits)
  then show ?thesis
  proof cases
    case 1
    then show ?thesis using revoke_where_from [OF ok] session_effect.revoked by (simp add: revoke_family_def)
  next
    case 2
    show ?thesis unfolding 2
      by (rule session_effect.rotated [OF assms(3,4)]) (use assms(2) in \<open>simp_all add: sids_new_def same_family_def\<close>)
  qed
qed

lemma find_pair:
  assumes "map_option snd (find (\<lambda>(_, x). p x) d) = Some y"
  obtains k where "(k, y) \<in> set d" "p y"
proof -
  obtain z where z: "find (\<lambda>(_, x). p x) d = Some z" "snd z = y" using assms by auto
  then have "z \<in> set d \<and> (case z of (_, x) \<Rightarrow> p x)" by (auto simp: find_Some_iff in_set_conv_nth)
  with z(2) show ?thesis by (cases z) (auto intro: that)
qed

lemma by_token_in_table:
  assumes "session_table_ok (db_sessions db)" "sessions_get_by_token_hash db h = Some s"
  shows "dget (db_sessions db) (se_id s) = Some s" "se_refresh_token_hash s = h"
proof -
  obtain k where k: "(k, s) \<in> set (db_sessions db)" "se_refresh_token_hash s = h"
    using assms(2) unfolding sessions_get_by_token_hash_def by (rule find_pair)
  have "dict_ok (db_sessions db)" using assms(1) by (simp add: session_table_ok_def)
  with k assms(1) show "dget (db_sessions db) (se_id s) = Some s"
    using dget_in_set unfolding session_table_ok_def by fastforce
  show "se_refresh_token_hash s = h" by (rule k(2))
qed

lemma handle_reuse_table:
  assumes "handle_reuse env s ctx db = Inr db'"
  shows "db_sessions db' = db_sessions (snd (revoke_family (se_family_id s) (ce_now env) REUSE_REVOCATION_REASON db))"
  using assms by (auto simp: handle_reuse_def Let_def split_beta dest!: record_audit_keeps)

lemma refresh_effect:
  assumes "session_table_ok (db_sessions db)" "sids_new env db"
  shows "session_effect (db_sessions db) (db_sessions (snd (refresh_session deps env token ctx db)))"
proof (cases "sessions_get_by_token_hash db (ad_token_hash deps token)")
  case (Some s)
  have s: "dget (db_sessions db) (se_id s) = Some s" using by_token_in_table [OF assms(1) Some] by blast
  have ok: "dict_ok (db_sessions db)" using assms(1) by (simp add: session_table_ok_def)
  have reissue: "snd x = db" if "reissue_from_successor deps env s db = Inr x" for x
    using that by (auto simp: reissue_from_successor_def res_bind_Inr split_beta split: option.splits if_splits)
  have reuse: "session_effect (db_sessions db) (db_sessions db')" if "handle_reuse env s ctx db = Inr db'" for db'
    using handle_reuse_table [OF that] revoke_where_from [OF ok] session_effect.revoked by (simp add: revoke_family_def)
  show ?thesis
    unfolding refresh_session_def Let_def Some option.case
    apply (rule with_uow_rule [where P = "\<lambda>d. session_effect (db_sessions db) (db_sessions d)"])
     apply (rule session_effect_refl [OF assms(1)])
    using rotate_effect [OF assms s] reissue reuse session_effect_refl [OF assms(1)]
    by (auto simp: res_bind_Inr live_def session_rotated_def split: if_splits)
qed (simp add: refresh_session_def Let_def session_effect_refl [OF assms(1)])

lemma sign_out_effect:
  assumes "session_table_ok (db_sessions db)"
  shows "session_effect (db_sessions db) (db_sessions (snd (revoke_session env pr all_sessions db)))"
proof -
  have ok: "dict_ok (db_sessions db)" using assms by (simp add: session_table_ok_def)
  note rev = session_effect.revoked [OF revoke_where_from [OF ok]]
  show ?thesis
    unfolding revoke_session_def
    apply (rule in_transaction_rule [where P = "\<lambda>d. session_effect (db_sessions db) (db_sessions d)"])
     apply (rule session_effect_refl [OF assms])
    using rev session_effect_refl [OF assms]
    by (auto simp: Let_def res_bind_Inr split_beta revoke_family_def revoke_all_for_user_def
        dest!: record_audit_keeps split: option.splits if_splits)
qed

lemma change_password_effect:
  assumes "session_table_ok (db_sessions db)"
  shows "session_effect (db_sessions db) (db_sessions (snd (change_password deps env pr cur new db)))"
proof -
  have ok: "dict_ok (db_sessions (users_put u db))" for u using assms by (simp add: session_table_ok_def)
  note rev = session_effect.revoked [OF revoke_where_from [OF ok], simplified]
  show ?thesis
    unfolding change_password_def
    apply (rule in_transaction_rule [where P = "\<lambda>d. session_effect (db_sessions db) (db_sessions d)"])
     apply (rule session_effect_refl [OF assms])
    using rev
    by (auto simp: Let_def res_bind_Inr split_beta revoke_all_for_user_def
        dest!: record_audit_keeps split: option.splits)
qed

lemma auth_effect:
  assumes "session_table_ok (db_sessions db)" "sids_new env db"
  shows "session_effect (db_sessions db) (db_sessions (auth_apply deps env op db))"
  using assms
  by (cases op) (simp_all add: register_effect authenticate_effect complete_effect refresh_effect sign_out_effect
      change_password_effect)

section \<open>Runs\<close>

fun auth_run :: "(auth_deps \<times> control_env \<times> auth_op) list \<Rightarrow> control_db \<Rightarrow> control_db" where
  "auth_run [] db = db"
| "auth_run ((deps, env, op) # steps) db = auth_run steps (auth_apply deps env op db)"

text \<open>Every operation draws session ids that the table does not hold.\<close>

fun run_sids_new :: "(auth_deps \<times> control_env \<times> auth_op) list \<Rightarrow> control_db \<Rightarrow> bool" where
  "run_sids_new [] db = True"
| "run_sids_new ((deps, env, op) # steps) db = (sids_new env db \<and> run_sids_new steps (auth_apply deps env op db))"

lemma auth_run_effects:
  assumes "session_table_ok (db_sessions db)" "run_sids_new steps db"
    and step: "\<And>d d'. session_effect d d' \<Longrightarrow> session_table_ok d \<Longrightarrow> P d \<Longrightarrow> P d'"
    and "P (db_sessions db)"
  shows "session_table_ok (db_sessions (auth_run steps db)) \<and> P (db_sessions (auth_run steps db))"
  using assms(1,2,4)
proof (induction steps arbitrary: db)
  case (Cons s steps)
  obtain deps env op where s: "s = (deps, env, op)" by (cases s)
  have eff: "session_effect (db_sessions db) (db_sessions (auth_apply deps env op db))"
    using auth_effect Cons.prems(1,2) unfolding s by simp
  show ?case
    using Cons.IH [of "auth_apply deps env op db"] Cons.prems step [OF eff] session_effect_ok [OF eff]
    unfolding s by simp
qed simp

text \<open>A session that was rotated or revoked stays so, and keeps what identifies it.\<close>

definition keeps_session :: "uuid \<Rightarrow> session \<Rightarrow> (uuid, session) dict \<Rightarrow> bool" where
  "keeps_session k s d \<longleftrightarrow> (\<exists>s'. dget d k = Some s' \<and> se_family_id s' = se_family_id s
     \<and> se_refresh_token_hash s' = se_refresh_token_hash s \<and> same_family s s'
     \<and> (se_revoked_at s \<noteq> None \<longrightarrow> se_revoked_at s' = se_revoked_at s)
     \<and> (se_rotated_at s \<noteq> None \<longrightarrow> se_rotated_at s' = se_rotated_at s))"

lemma session_revoke_revoked: "se_revoked_at s \<noteq> None \<Longrightarrow> session_revoke now why s = s"
  by (cases "se_revoked_at s") (simp_all add: session_revoke_def)

lemma keeps_session_revoked:
  assumes "revoked_from d d'" "keeps_session k s d" shows "keeps_session k s d'"
proof -
  obtain t where t: "dget d k = Some t" "se_family_id t = se_family_id s"
     "se_refresh_token_hash t = se_refresh_token_hash s" "same_family s t"
     "se_revoked_at s \<noteq> None \<Longrightarrow> se_revoked_at t = se_revoked_at s"
     "se_rotated_at s \<noteq> None \<Longrightarrow> se_rotated_at t = se_rotated_at s"
    using assms(2) unfolding keeps_session_def by blast
  have "dget d' k = Some t \<or> (\<exists>now why. dget d' k = Some (session_revoke now why t))"
    using assms(1) t(1) unfolding revoked_from_def by (metis option.inject)
  then show ?thesis
  proof
    assume "\<exists>now why. dget d' k = Some (session_revoke now why t)"
    then obtain now why where "dget d' k = Some (session_revoke now why t)" by blast
    moreover have "se_revoked_at s \<noteq> None \<Longrightarrow> se_revoked_at (session_revoke now why t) = se_revoked_at s"
      using t(5) session_revoke_revoked [of t now why] by simp
    ultimately show ?thesis using t unfolding keeps_session_def by (auto simp: same_family_def)
  qed (use t in \<open>auto simp: keeps_session_def\<close>)
qed

lemma keeps_session_step:
  assumes "session_effect d d'" "session_table_ok d" "keeps_session k s d"
  shows "keeps_session k s d'"
  using assms(1)
proof cases
  case revoked
  then show ?thesis using keeps_session_revoked assms(3) by blast
next
  case (started d1 i t)
  have "keeps_session k s d1" using keeps_session_revoked started(2) assms(3) by blast
  moreover have "k \<noteq> i" using assms(3) started(3) dget_Some_key unfolding keeps_session_def by metis
  ultimately show ?thesis unfolding started(1) keeps_session_def by (simp add: dget_dput)
next
  case (rotated l t i t1 now t2)
  have "k \<noteq> i" using assms(3) rotated(4) dget_Some_key unfolding keeps_session_def by metis
  then show ?thesis
    using assms(3) rotated(2,3) unfolding rotated(1,5) keeps_session_def
    by (cases "k = l") (auto simp: dget_dput same_family_def live_def)
qed

text \<open>A family all of whose sessions are revoked.\<close>

definition family_revoked :: "uuid \<Rightarrow> (uuid, session) dict \<Rightarrow> bool" where
  "family_revoked f d \<longleftrightarrow> f \<in> fst ` set d \<and> (\<forall>k s. dget d k = Some s \<longrightarrow> se_family_id s = f \<longrightarrow> se_revoked_at s \<noteq> None)"

lemma family_revoked_from: "revoked_from d d' \<Longrightarrow> family_revoked f d \<Longrightarrow> family_revoked f d'"
  unfolding family_revoked_def
proof (intro conjI allI impI; elim conjE)
  assume d: "revoked_from d d'" "f \<in> fst ` set d" and all: "\<forall>k s. dget d k = Some s \<longrightarrow> se_family_id s = f \<longrightarrow> se_revoked_at s \<noteq> None"
  show "f \<in> fst ` set d'" using d unfolding revoked_from_def by blast
  fix k s' assume s': "dget d' k = Some s'" "se_family_id s' = f"
  obtain s where "dget d k = Some s" "s' = s \<or> (\<exists>now why. s' = session_revoke now why s)"
    by (rule revoked_from_entry [OF d(1) s'(1)])
  with all s'(2) show "se_revoked_at s' \<noteq> None" by (metis revoke_fields(2,10))
qed

lemma family_revoked_step:
  assumes "session_effect d d'" "family_revoked f d" shows "family_revoked f d'"
  using assms(1)
proof cases
  case revoked
  then show ?thesis using family_revoked_from assms(2) by blast
next
  case (started d1 i t)
  have "family_revoked f d1" "f \<noteq> i"
    using family_revoked_from started(2,3) assms(2) unfolding family_revoked_def by blast+
  then show ?thesis
    using started(5) unfolding started(1) family_revoked_def by (auto simp: dget_dput set_keys_dput)
next
  case (rotated l t i t1 now t2)
  have "se_family_id t \<noteq> f" using assms(2) rotated(2,3) unfolding family_revoked_def live_def by blast
  then show ?thesis
    using assms(2) rotated(5,7) unfolding rotated(1) family_revoked_def by (auto simp: dget_dput set_keys_dput)
qed

text \<open>
  C9. Whatever operations of registration, sign-in, second factor, refresh, sign-out and password
  change run one after another, succeeding or failing: at every point the sessions of a family have
  the same expiry, user and organization, and at most one of them can still be refreshed; and a
  session that was rotated or revoked before the run is so after it, unchanged in its token hash,
  its family and its times.
\<close>

theorem sessions_never_revive:
  assumes "session_table_ok (db_sessions db)" "run_sids_new steps db"
  shows "(\<forall>k s l t. dget (db_sessions (auth_run steps db)) k = Some s \<longrightarrow> dget (db_sessions (auth_run steps db)) l = Some t
            \<longrightarrow> se_family_id s = se_family_id t \<longrightarrow> same_family s t \<and> (live s \<and> live t \<longrightarrow> k = l))
    \<and> (\<forall>k s. dget (db_sessions db) k = Some s \<longrightarrow> keeps_session k s (db_sessions (auth_run steps db)))"
proof -
  have "session_table_ok (db_sessions (auth_run steps db))"
    using auth_run_effects [OF assms, where P = "\<lambda>_. True"] by simp
  moreover have "keeps_session k s (db_sessions (auth_run steps db))" if "dget (db_sessions db) k = Some s" for k s
  proof -
    have "keeps_session k s (db_sessions db)" using that by (simp add: keeps_session_def same_family_def)
    then show ?thesis
      using auth_run_effects [OF assms, where P = "keeps_session k s"] keeps_session_step by blast
  qed
  ultimately show ?thesis unfolding session_table_iff by blast
qed

text \<open>A rotated session, its successor, and toy functions for the libraries.\<close>

definition sample_session :: "uuid \<Rightarrow> str \<Rightarrow> datetime option \<Rightarrow> uuid option \<Rightarrow> session" where
  "sample_session i token rotated successor =
     \<lparr>se_id = i, se_user_id = ''u1'', se_organization_id = ''o1'', se_family_id = ''s1'', se_refresh_token_hash = token,
      se_expires_at = seconds 9000, se_user_agent = [], se_ip_address = None, se_rotated_at = rotated,
      se_revoked_at = None, se_revoked_reason = None, se_replaced_by_id = successor, se_created_at = Some 0\<rparr>"

definition sample_session_db :: control_db where
  "sample_session_db = sample_db\<lparr>db_sessions :=
     [(''s1'', sample_session ''s1'' ''#one'' (Some (seconds 10)) (Some ''s2'')),
      (''s2'', sample_session ''s2'' ''#two'' None None)]\<rparr>"

definition sample_deps :: auth_deps where
  "sample_deps =
     \<lparr>ad_verify = (\<lambda>raw stored. raw = stored), ad_hash = id, ad_needs_rehash = (\<lambda>h. False),
      ad_token_hash = (\<lambda>t. CHR ''#'' # t), ad_token = ''three'', ad_encode = (\<lambda>claims. ''jwt''),
      ad_decode = (\<lambda>t a. None), ad_jti = ''j'', ad_issuer = ''aegis'', ad_totp_verify = (\<lambda>secret code now. False),
      ad_decrypt = id, ad_password_policy = default_password_policy, ad_lockout_policy = default_lockout_policy,
      ad_token_policy = default_token_policy\<rparr>"

definition sample_auth_env :: "datetime \<Rightarrow> uuid \<Rightarrow> control_env" where
  "sample_auth_env now i = (sample_control_env i)\<lparr>ce_now := now, ce_db_now := now, ce_fresh := (\<lambda>n. i @ replicate n (CHR ''0''))\<rparr>"

lemma sample_sids_new: "sids_new (sample_auth_env now (CHR ''x'' # i)) sample_session_db"
  by (simp add: sids_new_def sample_auth_env_def sample_session_db_def)

lemma sample_session_table: "session_table_ok (db_sessions sample_session_db)"
  by code_simp

theorem sessions_never_revive_witness:
  "keeps_session ''s1'' (sample_session ''s1'' ''#one'' (Some (seconds 10)) (Some ''s2''))
     (db_sessions (auth_run [(sample_deps, sample_auth_env (seconds 20) ''x'', Refresh ''two'' empty_context)] sample_session_db))
   \<and> length (db_sessions (auth_run [(sample_deps, sample_auth_env (seconds 20) ''x'', Refresh ''two'' empty_context)] sample_session_db)) = 3"
proof
  have "dget (db_sessions sample_session_db) ''s1'' = Some (sample_session ''s1'' ''#one'' (Some (seconds 10)) (Some ''s2''))"
    by code_simp
  then show "keeps_session ''s1'' (sample_session ''s1'' ''#one'' (Some (seconds 10)) (Some ''s2''))
     (db_sessions (auth_run [(sample_deps, sample_auth_env (seconds 20) ''x'', Refresh ''two'' empty_context)] sample_session_db))"
    using sessions_never_revive [OF sample_session_table, of "[(sample_deps, sample_auth_env (seconds 20) ''x'', Refresh ''two'' empty_context)]"]
      sample_sids_new by simp
qed code_simp

section \<open>Reuse of a refresh token\<close>

lemma record_audit_for_user:
  "\<exists>rows. record_audit env b i (audit_for_user org u label action rt rid out ip ua req md) db = Inr (db\<lparr>db_audit := rows\<rparr>)"
  by (simp add: record_audit_def audit_record_def audit_for_user_def) (rule exI, rule refl)

lemma handle_reuse_total: "\<exists>db'. handle_reuse env s ctx db = Inr db'"
  using record_audit_for_user unfolding handle_reuse_def Let_def split_beta by blast

lemma revoke_family_revokes:
  assumes "session_table_ok (db_sessions db)" "dget (db_sessions db) k = Some s"
  shows "family_revoked (se_family_id s) (db_sessions (snd (revoke_family (se_family_id s) now why db)))"
proof -
  let ?d = "db_sessions (snd (revoke_family (se_family_id s) now why db))"
  have "dict_ok (db_sessions db)" "se_family_id s \<in> fst ` set (db_sessions db)"
    using assms unfolding session_table_iff by blast+
  then have "se_family_id s \<in> fst ` set ?d"
    using revoke_where_from unfolding revoke_family_def revoked_from_def by blast
  moreover have "se_revoked_at t \<noteq> None" if t: "dget ?d k = Some t" "se_family_id t = se_family_id s" for k t
  proof -
    have "map_option (\<lambda>u. if se_family_id u = se_family_id s then session_revoke now why u else u)
        (dget (db_sessions db) k) = Some t"
      using t(1) by (simp add: revoke_family_def revoke_where_def dget_map_snd)
    then obtain u where "t = (if se_family_id u = se_family_id s then session_revoke now why u else u)" by auto
    with t(2) show ?thesis by (cases "se_family_id u = se_family_id s") simp_all
  qed
  ultimately show ?thesis unfolding family_revoked_def by blast
qed

lemma revoked_token_refused:
  assumes "session_table_ok (db_sessions db)" "family_revoked f (db_sessions db)"
    and "sessions_get_by_token_hash db (ad_token_hash deps token) = Some s" "se_family_id s = f"
  shows "refresh_session deps env token ctx db = (Inl (Domain TokenReuseError), db)"
proof -
  have "se_revoked_at s \<noteq> None"
    using by_token_in_table(1) [OF assms(1,3)] assms(2,4) unfolding family_revoked_def by blast
  then show ?thesis using assms(3) by (simp add: refresh_session_def Let_def)
qed

lemma res_bind_Inl_E: "(\<And>x. r = Inr x \<Longrightarrow> \<exists>e. f x = Inl e) \<Longrightarrow> \<exists>e. res_bind r f = Inl e"
  by (cases r) auto

lemma revoked_session_refused:
  assumes "family_revoked f (db_sessions db)" "dget (db_sessions db) i = Some s" "se_family_id s = f"
    and "codec_decode deps token USER_AUDIENCE = Inr claims" "truthy (jget claims ''sid'')" "claim_uuid claims ''sid'' = Inr i"
  shows "\<exists>e. resolve_user_principal deps env token ctx db = Inl e"
proof -
  have "se_revoked_at s \<noteq> None" using assms(1-3) unfolding family_revoked_def by blast
  then show ?thesis
    using assms(2,5,6) unfolding resolve_user_principal_def assms(4)
    by (auto simp: sessions_get_def intro!: res_bind_Inl_E split: option.splits)
qed



end
