(* ===== verification/SignInProps.thy ===== *)
theory SignInProps
  imports AuthProps
begin

text \<open>
  Guessing. The lock after failed sign-ins bounds how many passwords can be compared in a span of time;
  guesses of the second factor are not bounded, because a right password clears the count of failures
  before the second factor is asked for.
\<close>

section \<open>The account under attack\<close>

definition user_table_ok :: "(uuid, user) dict \<Rightarrow> bool" where
  "user_table_ok d \<longleftrightarrow> dict_ok d \<and> (\<forall>(k, u) \<in> set d. us_id u = k)"

lemma find_dput:
  assumes "\<forall>(k, u) \<in> set d. us_id u = k" "dict_ok d" "find (\<lambda>(_, u). us_email u = a) d = Some (k, u)"
    and "us_id u' = us_id u" "us_email u' = a"
  shows "find (\<lambda>(_, u). us_email u = a) (dput (us_id u') u' d) = Some (k, u')"
  using assms(1-3)
proof (induction d)
  case (Cons x d)
  obtain l v where x: "x = (l, v)" by (cases x)
  have in_d: "(k, u) \<in> set d" if "find (\<lambda>(_, u). us_email u = a) d = Some (k, u)"
    using that by (auto simp: find_Some_iff in_set_conv_nth)
  show ?case
  proof (cases "us_email v = a")
    case True
    then show ?thesis using Cons.prems x assms(4,5) by auto
  next
    case False
    then have d: "find (\<lambda>(_, u). us_email u = a) d = Some (k, u)" using Cons.prems(3) x by simp
    have "us_id u = k" "k \<noteq> l" using Cons.prems(1,2) in_d [OF d] x by (auto simp: dict_ok_def image_iff)
    then show ?thesis using Cons.IH [OF _ _ d] Cons.prems(1,2) False x assms(4) by (auto simp: dict_ok_def)
  qed
qed simp

lemma by_email_put:
  assumes "user_table_ok (db_users db)" "users_get_by_email db a = Some u" "us_id u' = us_id u" "us_email u' = a"
  shows "users_get_by_email (users_put u' db) a = Some u'"
proof -
  obtain k where "find (\<lambda>(_, u). us_email u = a) (db_users db) = Some (k, u)"
    using assms(2) by (auto simp: users_get_by_email_def)
  then show ?thesis
    using find_dput [OF _ _ _ assms(3,4), of "db_users db" k] assms(1)
    by (simp add: users_get_by_email_def users_put_def user_table_ok_def)
qed

lemma user_table_put: "user_table_ok (db_users db) \<Longrightarrow> user_table_ok (db_users (users_put u db))"
  using set_dput_subset [of "us_id u" u "db_users db"] by (auto simp: user_table_ok_def users_put_def)

lemma by_email_get:
  assumes "user_table_ok (db_users db)" "users_get_by_email db a = Some u"
  shows "users_get db (us_id u) = Some u" "us_email u = a"
proof -
  obtain k where k: "(k, u) \<in> set (db_users db)" "us_email u = a"
    using assms(2) unfolding users_get_by_email_def by (rule find_pair)
  then have "us_id u = k" "dict_ok (db_users db)" using assms(1) by (auto simp: user_table_ok_def)
  with k(1) show "users_get db (us_id u) = Some u" by (auto simp: users_get_def dget_in_set)
qed (use assms(2) find_pair in \<open>auto simp: users_get_by_email_def find_Some_iff\<close>)

lemma by_email_cong: "db_users db' = db_users db \<Longrightarrow> users_get_by_email db' a = users_get_by_email db a"
  by (simp add: users_get_by_email_def)

section \<open>Passwords\<close>

type_synonym attempt = "control_env \<times> str \<times> str option \<times> request_context"

fun sign_in_attempts ::
    "auth_deps \<Rightarrow> str \<Rightarrow> attempt list \<Rightarrow> control_db \<Rightarrow> (control_exn + authentication_result) list \<times> control_db" where
  "sign_in_attempts deps email [] db = ([], db)"
| "sign_in_attempts deps email ((env, pw, sl, ctx) # as) db =
     (let (r, db1) = authenticate_user deps env email pw sl ctx db;
          (rs, db2) = sign_in_attempts deps email as db1
      in (r # rs, db2))"

lemma audit_failure_total: "\<exists>db'. audit_failure env u sl ctx db = Inr db'"
proof -
  have ok: "\<exists>db'. res_bind (record_audit env b i (audit_for_user og us la ac rt rid ou ip ua rq md) d) f = Inr db'"
    if "\<And>d. \<exists>db'. f d = Inr db'" for b i og us la ac rt rid ou ip ua rq md d and f :: "control_db \<Rightarrow> control_exn + control_db"
    using record_audit_for_user [of env b i og us la ac rt rid ou ip ua rq md d] that by auto
  have last: "\<exists>db'. record_audit env b i (audit_for_user og us la ac rt rid ou ip ua rq md) d = Inr db'"
    for b i og us la ac rt rid ou ip ua rq md d
    using record_audit_for_user by blast
  have both: "\<exists>db'. (if c then record_audit env b i (audit_for_user og us la ac rt rid ou ip ua rq md) d else Inr d) = Inr db'"
    for c b i og us la ac rt rid ou ip ua rq md d
    using last by auto
  have by_list: "\<exists>db'. (case os of [] \<Rightarrow> Inr db | [o1] \<Rightarrow> f o1 | o1 # o2 # os' \<Rightarrow> Inr db) = Inr db'"
    if "\<And>o1. \<exists>db'. f o1 = Inr db'" for os and f :: "organization \<Rightarrow> control_exn + control_db"
    using that by (auto split: list.splits)
  show ?thesis
    unfolding audit_failure_def Let_def by (intro by_list ok both)
qed

text \<open>One attempt with a wrong password.\<close>

lemma wrong_password:
  assumes "email_address (ce_nfkc env) email = Inr a" "users_get_by_email db a = Some u" "us_password_hash u = Some h"
    and "\<not> ad_verify deps pw h" "assert_can_authenticate (ce_now env) u = Inr ()"
  obtains db' where "authenticate_user deps env email pw sl ctx db = (Inl invalid_credentials, db')"
    "db_users db' = db_users (users_put (record_failed_login (ce_now env) (ad_lockout_policy deps) u) db)"
proof -
  let ?u1 = "record_failed_login (ce_now env) (ad_lockout_policy deps) u"
  obtain db' where "audit_failure env ?u1 sl ctx (users_put ?u1 db) = Inr db'"
    using audit_failure_total by blast
  moreover from this have "db_users db' = db_users (users_put ?u1 db)" by (simp add: audit_failure_keeps)
  ultimately show ?thesis using assms by (intro that [of db']) (simp_all add: authenticate_user_def Let_def dom_res_def)
qed

lemma refused_account:
  assumes "email_address (ce_nfkc env) email = Inr a" "users_get_by_email db a = Some u" "us_password_hash u = Some h"
    and "assert_can_authenticate (ce_now env) u = Inl e"
  shows "authenticate_user deps env email pw sl ctx db = (Inl (Domain e), db)"
  using assms by (simp add: authenticate_user_def dom_res_def)

lemma failed_login_fields [simp]:
  "us_id (record_failed_login now p u) = us_id u" "us_email (record_failed_login now p u) = us_email u"
  "us_password_hash (record_failed_login now p u) = us_password_hash u"
  "us_failed_login_count (record_failed_login now p u) = Suc (us_failed_login_count u)"
  "us_status (record_failed_login now p u) = us_status u"
  "us_mfa_enabled (record_failed_login now p u) = us_mfa_enabled u"
  by (simp_all add: record_failed_login_def Let_def)


text \<open>
  The state of the lock: with the count at the threshold or above it, the account is locked for at
  least the base time from its last failure on, and every failure above the threshold took at least
  the base time.
\<close>

definition lock_paced :: "lockout_policy \<Rightarrow> datetime \<Rightarrow> datetime \<Rightarrow> user \<Rightarrow> bool" where
  "lock_paced p t0 t u \<longleftrightarrow> us_failed_login_count u \<ge> lk_max_failed_attempts p \<longrightarrow>
     (\<exists>tc lt. us_locked_until u = Some lt \<and> tc \<le> t \<and> tc + seconds (lk_base_seconds p) \<le> lt
        \<and> t0 + seconds (lk_base_seconds p) * (int (us_failed_login_count u) - int (lk_max_failed_attempts p)) \<le> tc)"

lemma lock_paced_later: "lock_paced p t0 t u \<Longrightarrow> t \<le> t' \<Longrightarrow> lock_paced p t0 t' u"
  by (auto simp: lock_paced_def intro: order_trans)

lemma lock_duration_base:
  assumes "0 < lk_base_seconds p" "lk_base_seconds p \<le> lk_max_seconds p" "lk_max_failed_attempts p \<le> n"
  shows "lk_base_seconds p \<le> lock_duration p n"
proof -
  have "lk_base_seconds p * 1 \<le> lk_base_seconds p * 2 ^ (n - lk_max_failed_attempts p)"
    using assms(1) by (intro mult_left_mono) auto
  then show ?thesis using assms by (simp add: lock_duration_def)
qed

lemma lock_paced_failed:
  assumes "0 < lk_base_seconds p" "lk_base_seconds p \<le> lk_max_seconds p"
    and "lock_paced p t0 t u" "t0 \<le> t" "t \<le> now" "\<not> user_locked now u"
  shows "lock_paced p t0 now (record_failed_login now p u)"
proof (cases "Suc (us_failed_login_count u) \<ge> lk_max_failed_attempts p")
  case True
  let ?n = "us_failed_login_count u" and ?b = "seconds (lk_base_seconds p)"
  let ?d = "lock_duration p (Suc ?n)"
  have d: "lk_base_seconds p \<le> ?d" "?d \<noteq> 0"
    using lock_duration_base [OF assms(1,2) True] assms(1) by auto
  have row: "us_locked_until (record_failed_login now p u) = Some (now + seconds ?d)"
    using d(2) by (simp add: record_failed_login_def Let_def)
  have "t0 + ?b * (int (Suc ?n) - int (lk_max_failed_attempts p)) \<le> now"
  proof (cases "?n \<ge> lk_max_failed_attempts p")
    case True
    then obtain tc lt where l: "us_locked_until u = Some lt" "tc + ?b \<le> lt"
      "t0 + ?b * (int ?n - int (lk_max_failed_attempts p)) \<le> tc"
      using assms(3) unfolding lock_paced_def by blast
    then have "lt \<le> now" using assms(6) by (simp add: user_locked_def)
    have "int (Suc ?n) - int (lk_max_failed_attempts p) = (int ?n - int (lk_max_failed_attempts p)) + 1" by simp
    then have "?b * (int (Suc ?n) - int (lk_max_failed_attempts p)) = ?b * (int ?n - int (lk_max_failed_attempts p)) + ?b"
      by (simp only: distrib_left mult_1_right)
    then show ?thesis using l \<open>lt \<le> now\<close> by linarith
  next
    case False
    with True have "int (Suc ?n) - int (lk_max_failed_attempts p) = 0" by simp
    then show ?thesis using assms(4,5) by simp
  qed
  moreover have "now + ?b \<le> now + seconds ?d" using d(1) by simp
  ultimately show ?thesis using row unfolding lock_paced_def by (auto intro!: exI [of _ now])
qed (simp add: lock_paced_def)

lemma attempts_paced:
  assumes "0 < lk_base_seconds (ad_lockout_policy deps)" "lk_base_seconds (ad_lockout_policy deps) \<le> lk_max_seconds (ad_lockout_policy deps)"
    and "\<forall>(env, pw, sl, ctx) \<in> set as. email_address (ce_nfkc env) email = Inr a \<and> \<not> ad_verify deps pw h \<and> t \<le> ce_now env"
    and "sorted (map (\<lambda>x. ce_now (fst x)) as)" "user_table_ok (db_users db)" "users_get_by_email db a = Some u"
    and "us_password_hash u = Some h" "t0 \<le> t" "lock_paced (ad_lockout_policy deps) t0 t u" "sign_in_attempts deps email as db = (rs, db')"
  obtains u' where "users_get_by_email db' a = Some u'" "us_password_hash u' = Some h" "user_table_ok (db_users db')"
    "us_failed_login_count u' = us_failed_login_count u + length (filter (\<lambda>r. r = Inl invalid_credentials) rs)"
    "lock_paced (ad_lockout_policy deps) t0 (if as = [] then t else ce_now (fst (last as))) u'"
    "us_id u' = us_id u" "us_status u' = us_status u"
  using assms
proof (induction as arbitrary: db u t rs thesis)
  case Nil
  then show ?case by simp
next
  case (Cons x as)
  obtain env pw sl ctx where x: "x = (env, pw, sl, ctx)" by (cases x)
  let ?now = "ce_now env" and ?p = "ad_lockout_policy deps"
  obtain r db1 rs' where split: "authenticate_user deps env email pw sl ctx db = (r, db1)"
    "sign_in_attempts deps email as db1 = (rs', db')" "rs = r # rs'"
    using Cons.prems(11) x by (auto simp: Let_def split_beta prod_eq_iff)
  have now: "email_address (ce_nfkc env) email = Inr a" "\<not> ad_verify deps pw h" "t \<le> ?now"
    using Cons.prems(4) x by auto
  have rest: "\<forall>(env, pw, sl, ctx) \<in> set as. email_address (ce_nfkc env) email = Inr a \<and> \<not> ad_verify deps pw h \<and> ?now \<le> ce_now env"
    "sorted (map (\<lambda>x. ce_now (fst x)) as)" "t0 \<le> ?now"
    using Cons.prems(4,5,9) x by auto
  have tail: "(if as = [] then ?now else ce_now (fst (last as))) = (if x # as = [] then t else ce_now (fst (last (x # as))))"
    using x by auto
  have "\<exists>u1. users_get_by_email db1 a = Some u1 \<and> us_password_hash u1 = Some h \<and> user_table_ok (db_users db1)
      \<and> us_failed_login_count u1 = us_failed_login_count u + (if r = Inl invalid_credentials then 1 else 0)
      \<and> lock_paced ?p t0 ?now u1 \<and> us_id u1 = us_id u \<and> us_status u1 = us_status u"
  proof (cases "assert_can_authenticate ?now u")
    case (Inl e)
    then have "e \<noteq> AuthenticationError None" by (auto simp: assert_can_authenticate_def split: if_splits)
    moreover have "r = Inl (Domain e)" "db1 = db"
      using refused_account [OF now(1) Cons.prems(7,8) Inl] split(1) by auto
    ultimately show ?thesis
      using Cons.prems(6-8,10) lock_paced_later now(3) by (auto simp: invalid_credentials_def)
  next
    case (Inr v)
    then have free: "assert_can_authenticate ?now u = Inr ()" "\<not> user_locked ?now u"
      by (auto simp: assert_can_authenticate_def split: if_splits)
    let ?u1 = "record_failed_login ?now ?p u"
    obtain db2 where "authenticate_user deps env email pw sl ctx db = (Inl invalid_credentials, db2)"
      "db_users db2 = db_users (users_put ?u1 db)"
      by (rule wrong_password [OF now(1) Cons.prems(7,8) now(2) free(1)])
    then have db1: "r = Inl invalid_credentials" "db_users db1 = db_users (users_put ?u1 db)" using split(1) by auto
    have "users_get_by_email db1 a = Some ?u1"
      using by_email_cong [OF db1(2)] by_email_put [OF Cons.prems(6,7), of ?u1] by_email_get(2) [OF Cons.prems(6,7)] by simp
    moreover have "user_table_ok (db_users db1)" unfolding db1(2) by (rule user_table_put [OF Cons.prems(6)])
    moreover have "lock_paced ?p t0 ?now ?u1"
      by (rule lock_paced_failed [OF Cons.prems(2,3,10) Cons.prems(9) now(3) free(2)])
    ultimately show ?thesis using Cons.prems(8) db1(1) by auto
  qed
  then obtain u1 where u1: "users_get_by_email db1 a = Some u1" "us_password_hash u1 = Some h" "user_table_ok (db_users db1)"
      "us_failed_login_count u1 = us_failed_login_count u + (if r = Inl invalid_credentials then 1 else 0)"
      "lock_paced ?p t0 ?now u1" "us_id u1 = us_id u" "us_status u1 = us_status u" by blast
  show ?case
  proof (rule Cons.IH [OF _ Cons.prems(2,3) rest(1,2) u1(3,1,2) rest(3) u1(5) split(2)])
    fix u' assume u': "users_get_by_email db' a = Some u'" "us_password_hash u' = Some h" "user_table_ok (db_users db')"
      "us_failed_login_count u' = us_failed_login_count u1 + length (filter (\<lambda>r. r = Inl invalid_credentials) rs')"
      "lock_paced ?p t0 (if as = [] then ?now else ce_now (fst (last as))) u'" "us_id u' = us_id u1" "us_status u' = us_status u1"
    show thesis
      by (rule Cons.prems(1) [OF u'(1-3) _ u'(5) [unfolded tail]]) (use u' u1 split(3) in simp_all)
  qed
qed


section \<open>Second factors\<close>

lemma active_membership_cong:
  assumes "db_memberships db' = db_memberships db" "db_roles db' = db_roles db"
  shows "active_membership db' org i = active_membership db org i"
proof -
  have "membership_to_domain db' = membership_to_domain db"
    using assms by (simp add: fun_eq_iff membership_to_domain_def roles_of_def)
  moreover have "scoped_memberships db' = scoped_memberships db"
    using assms by (simp add: fun_eq_iff scoped_memberships_def)
  ultimately show ?thesis by (simp add: active_membership_def memberships_get_for_user_def)
qed

lemma resolve_membership_cong:
  assumes "db_memberships db' = db_memberships db" "db_roles db' = db_roles db" "db_organizations db' = db_organizations db"
    and "us_id u' = us_id u"
  shows "resolve_membership db' u' sl = resolve_membership db u sl"
proof -
  have "scoped_memberships db' = scoped_memberships db"
    using assms by (simp add: fun_eq_iff scoped_memberships_def)
  then have same: "active_organizations_for_user db' = active_organizations_for_user db"
    "organizations_get_by_slug db' = organizations_get_by_slug db"
    using assms by (simp_all add: fun_eq_iff active_organizations_for_user_def organizations_get_by_slug_def)
  have active: "active_membership db' = active_membership db"
    using active_membership_cong [OF assms(1,2)] by (simp add: fun_eq_iff)
  show ?thesis
    unfolding resolve_membership_def same active assms(4) ..
qed

lemma resolve_membership_active:
  "resolve_membership db u sl = Inr (m, o1) \<Longrightarrow> active_membership db (og_id o1) (us_id u) = Inr m"
  by (auto simp: resolve_membership_def res_bind_Inr split: if_splits option.splits list.splits)

lemma try_recovery_wrong:
  "try_recovery_codes deps now c cs db = Inr (False, x) \<Longrightarrow> try_recovery_codes deps now c cs db' = Inr (False, db')"
  by (induction cs) (auto simp: res_bind_Inr split: if_splits)

lemma verify_code_wrong:
  assumes "verify_code deps now i code db = Inr (False, db)" "db_mfa db' = db_mfa db"
  shows "verify_code deps now i code db' = Inr (False, db')"
  using assms by (auto simp: verify_code_def Let_def get_totp_def list_recovery_codes_def
      split: if_splits option.splits dest: try_recovery_wrong)

type_synonym mfa_attempt = "control_env \<times> control_env \<times> str \<times> request_context"

text \<open>Sign in with the password, then answer the challenge.\<close>

definition mfa_guess ::
    "auth_deps \<Rightarrow> str \<Rightarrow> str \<Rightarrow> str option \<Rightarrow> mfa_attempt \<Rightarrow> control_db \<Rightarrow> token_pair outcome" where
  "mfa_guess deps email pw sl g db =
     (case g of (env1, env2, code, ctx) \<Rightarrow>
      case authenticate_user deps env1 email pw sl ctx db of
        (Inr (Challenge c), db1) \<Rightarrow> complete_mfa_challenge deps env2 (mc_challenge_token c) code ctx db1
      | (Inr (Tokens t), db1) \<Rightarrow> (Inr t, db1)
      | (Inl e, db1) \<Rightarrow> (Inl e, db1))"

fun mfa_guesses ::
    "auth_deps \<Rightarrow> str \<Rightarrow> str \<Rightarrow> str option \<Rightarrow> mfa_attempt list \<Rightarrow> control_db \<Rightarrow> (control_exn + token_pair) list \<times> control_db" where
  "mfa_guesses deps email pw sl [] db = ([], db)"
| "mfa_guesses deps email pw sl (g # gs) db =
     (let (r, db1) = mfa_guess deps email pw sl g db; (rs, db2) = mfa_guesses deps email pw sl gs db1 in (r # rs, db2))"

text \<open>The JWT library gives back the claims a challenge of the account was encoded from.\<close>

definition challenges_decode :: "auth_deps \<Rightarrow> uuid \<Rightarrow> uuid \<Rightarrow> bool" where
  "challenges_decode deps i org \<longleftrightarrow> (\<forall>ttl now.
     case ad_decode deps (codec_issue_challenge deps i org ttl now) MFA_CHALLENGE_AUDIENCE of None \<Rightarrow> False
     | Some claims \<Rightarrow> jget claims ''purpose'' = JStr ''mfa'' \<and> dget claims ''sub'' = Some (JStr i)
         \<and> dget claims ''org'' = Some (JStr org))"

text \<open>An account with a second factor whose password is known.\<close>

definition mfa_account :: "auth_deps \<Rightarrow> str \<Rightarrow> str \<Rightarrow> str option \<Rightarrow> membership \<Rightarrow> organization \<Rightarrow> user \<Rightarrow> control_db \<Rightarrow> bool" where
  "mfa_account deps a pw sl m o1 u db \<longleftrightarrow> user_table_ok (db_users db) \<and> users_get_by_email db a = Some u
     \<and> user_active u \<and> us_mfa_enabled u \<and> us_locked_until u = None
     \<and> (\<exists>h. us_password_hash u = Some h \<and> ad_verify deps pw h \<and> \<not> ad_needs_rehash deps h)
     \<and> resolve_membership db u sl = Inr (m, o1) \<and> uuid_of (us_id u) = Some (us_id u) \<and> uuid_of (og_id o1) = Some (og_id o1)"

lemma same_tables:
  "db_memberships (users_put u db) = db_memberships db" "db_roles (users_put u db) = db_roles db"
  "db_organizations (users_put u db) = db_organizations db" "db_mfa (users_put u db) = db_mfa db"
  by (simp_all add: users_put_def)

lemma success_fields [simp]:
  "us_id (record_successful_login now u) = us_id u" "us_email (record_successful_login now u) = us_email u"
  "us_password_hash (record_successful_login now u) = us_password_hash u"
  "us_failed_login_count (record_successful_login now u) = 0" "us_locked_until (record_successful_login now u) = None"
  "us_status (record_successful_login now u) = us_status u"
  "us_mfa_enabled (record_successful_login now u) = us_mfa_enabled u"
  by (simp_all add: record_successful_login_def)

lemma active_unlocked: "user_active u \<Longrightarrow> us_locked_until u = None \<Longrightarrow> assert_can_authenticate now u = Inr ()"
  by (simp add: assert_can_authenticate_def user_locked_def user_active_def)

lemma right_password:
  assumes "mfa_account deps a pw sl m o1 u db" "email_address (ce_nfkc env) email = Inr a"
  obtains c where "authenticate_user deps env email pw sl ctx db
      = (Inr (Challenge c), users_put (record_successful_login (ce_now env) u) db)"
    "mc_challenge_token c = codec_issue_challenge deps (us_id u) (og_id o1)
       (tp_mfa_challenge_ttl_seconds (ad_token_policy deps)) (ce_now env)"
proof -
  obtain h where "us_password_hash u = Some h" "ad_verify deps pw h" "\<not> ad_needs_rehash deps h"
    using assms(1) unfolding mfa_account_def by blast
  then show ?thesis
    using assms active_unlocked [of u]
    by (intro that) (auto simp: mfa_account_def authenticate_user_def sign_in_def Let_def dom_res_def)
qed

lemma challenge_decodes:
  assumes "challenges_decode deps i org"
  obtains claims where "codec_decode deps (codec_issue_challenge deps i org ttl now) MFA_CHALLENGE_AUDIENCE = Inr claims"
    "jget claims ''purpose'' = JStr ''mfa''" "dget claims ''sub'' = Some (JStr i)" "dget claims ''org'' = Some (JStr org)"
proof (cases "ad_decode deps (codec_issue_challenge deps i org ttl now) MFA_CHALLENGE_AUDIENCE")
  case None
  then show ?thesis using assms [unfolded challenges_decode_def, rule_format, of ttl now] by simp
next
  case (Some claims)
  have "jget claims ''purpose'' = JStr ''mfa'' \<and> dget claims ''sub'' = Some (JStr i) \<and> dget claims ''org'' = Some (JStr org)"
    using assms [unfolded challenges_decode_def, rule_format, of ttl now] unfolding Some by simp
  then show ?thesis using Some by (intro that [of claims]) (simp_all add: codec_decode_def expect_def)
qed

lemma wrong_code:
  assumes "mfa_account deps a pw sl m o1 u db" "challenges_decode deps (us_id u) (og_id o1)"
    and "email_address (ce_nfkc env1) email = Inr a" "verify_code deps (ce_now env2) (us_id u) code db = Inr (False, db)"
  obtains db' where "mfa_guess deps email pw sl (env1, env2, code, ctx) db = (Inl (Domain InvalidMfaCodeError), db')"
    "db_users db' = db_users (users_put (record_failed_login (ce_now env2) (ad_lockout_policy deps)
        (record_successful_login (ce_now env1) u)) (users_put (record_successful_login (ce_now env1) u) db))"
    "db_memberships db' = db_memberships db" "db_roles db' = db_roles db" "db_organizations db' = db_organizations db"
    "db_mfa db' = db_mfa db"
proof -
  let ?u1 = "record_successful_login (ce_now env1) u"
  let ?db1 = "users_put ?u1 db" and ?u2 = "record_failed_login (ce_now env2) (ad_lockout_policy deps) ?u1"
  have acc: "user_table_ok (db_users db)" "users_get_by_email db a = Some u" "user_active u"
    "resolve_membership db u sl = Inr (m, o1)" "uuid_of (us_id u) = Some (us_id u)" "uuid_of (og_id o1) = Some (og_id o1)"
    using assms(1) by (auto simp: mfa_account_def)
  obtain c where signed: "authenticate_user deps env1 email pw sl ctx db = (Inr (Challenge c), ?db1)"
    "mc_challenge_token c = codec_issue_challenge deps (us_id u) (og_id o1) (tp_mfa_challenge_ttl_seconds (ad_token_policy deps)) (ce_now env1)"
    by (rule right_password [OF assms(1,3)])
  obtain claims where claims: "codec_decode deps (mc_challenge_token c) MFA_CHALLENGE_AUDIENCE = Inr claims"
    "jget claims ''purpose'' = JStr ''mfa''" "dget claims ''sub'' = Some (JStr (us_id u))" "dget claims ''org'' = Some (JStr (og_id o1))"
    using challenge_decodes [OF assms(2)] unfolding signed(2) by blast
  have ids: "claim_uuid claims ''sub'' = Inr (us_id u)" "claim_uuid claims ''org'' = Inr (og_id o1)"
    using claims(3,4) acc(5,6) by (simp_all add: claim_uuid_def)
  have user1: "users_get ?db1 (us_id u) = Some ?u1"
    by (simp add: users_get_def users_put_def dget_dput)
  have active: "user_active ?u1" "assert_can_authenticate (ce_now env2) ?u1 = Inr ()"
    using acc(3) active_unlocked [of ?u1] by (simp_all add: user_active_def)
  have member: "active_membership ?db1 (og_id o1) (us_id u) = Inr m"
    using resolve_membership_active [OF acc(4)] active_membership_cong [OF same_tables(1,2)] by simp
  have code: "verify_code deps (ce_now env2) (us_id u) code ?db1 = Inr (False, ?db1)"
    by (rule verify_code_wrong [OF assms(4) same_tables(4)])
  obtain rows where audit: "record_audit env2 (og_id o1) (ce_fresh env2 0)
       (audit_for_user (og_id o1) (us_id u) (us_email ?u1) ''auth.mfa_challenge_failed'' ''user'' (us_id u)
          AUDIT_FAILURE (rc_ip_address ctx) [] [] []) (users_put ?u2 ?db1) = Inr ((users_put ?u2 ?db1)\<lparr>db_audit := rows\<rparr>)"
    using record_audit_for_user by blast
  have "finish_challenge deps env2 ?u1 m (us_id u) (og_id o1) code ctx ?db1
      = Inr (Inl (Domain InvalidMfaCodeError), (users_put ?u2 ?db1)\<lparr>db_audit := rows\<rparr>)"
    unfolding finish_challenge_def Let_def code using audit by simp
  then have "mfa_guess deps email pw sl (env1, env2, code, ctx) db
      = (Inl (Domain InvalidMfaCodeError), (users_put ?u2 ?db1)\<lparr>db_audit := rows\<rparr>)"
    using claims(1,2) ids user1 active member
    by (simp add: mfa_guess_def signed(1) complete_mfa_challenge_def dom_res_def raise_if_def)
  then show ?thesis by (rule that) (simp_all add: same_tables)
qed

lemma guessed_account:
  assumes "mfa_account deps a pw sl m o1 u db" "2 \<le> lk_max_failed_attempts (ad_lockout_policy deps)"
    and "db_users db' = db_users (users_put (record_failed_login now2 (ad_lockout_policy deps)
        (record_successful_login now1 u)) (users_put (record_successful_login now1 u) db))"
    and "db_memberships db' = db_memberships db" "db_roles db' = db_roles db" "db_organizations db' = db_organizations db"
  shows "mfa_account deps a pw sl m o1 (record_failed_login now2 (ad_lockout_policy deps) (record_successful_login now1 u)) db'"
proof -
  let ?u1 = "record_successful_login now1 u"
  let ?u2 = "record_failed_login now2 (ad_lockout_policy deps) ?u1"
  have acc: "user_table_ok (db_users db)" "users_get_by_email db a = Some u" "us_email u = a"
    using assms(1) by_email_get(2) [of db a u] by (auto simp: mfa_account_def)
  have "users_get_by_email (users_put ?u1 db) a = Some ?u1"
    by (rule by_email_put [OF acc(1,2)]) (use acc(3) in simp_all)
  then have "users_get_by_email (users_put ?u2 (users_put ?u1 db)) a = Some ?u2"
    by (rule by_email_put [OF user_table_put [OF acc(1)]]) (use acc(3) in simp_all)
  then have "users_get_by_email db' a = Some ?u2" using by_email_cong [OF assms(3)] by simp
  moreover have "user_table_ok (db_users db')" unfolding assms(3) by (intro user_table_put acc(1))
  moreover have "us_locked_until ?u2 = None"
    using assms(2) by (simp add: record_failed_login_def record_successful_login_def lock_duration_def Let_def)
  moreover have "resolve_membership db' ?u2 sl = resolve_membership db u sl"
    by (rule resolve_membership_cong [OF assms(4-6)]) simp
  ultimately show ?thesis
    using assms(1) by (simp add: mfa_account_def user_active_def)
qed

text \<open>
  Guessing the second factor is not bounded: whoever knows the password of an account with a
  second factor can submit any number of wrong codes, each after a fresh sign-in; every one is
  answered with InvalidMfaCodeError and the account is never locked, because the right password
  clears the failures each time.
\<close>

theorem mfa_guessing_never_locks:
  assumes "mfa_account deps a pw sl m o1 u db" "challenges_decode deps (us_id u) (og_id o1)" "2 \<le> lk_max_failed_attempts (ad_lockout_policy deps)"
    and "\<forall>(env1, env2, code, ctx) \<in> set gs. email_address (ce_nfkc env1) email = Inr a
           \<and> verify_code deps (ce_now env2) (us_id u) code db = Inr (False, db)"
  shows "fst (mfa_guesses deps email pw sl gs db) = replicate (length gs) (Inl (Domain InvalidMfaCodeError))
    \<and> (\<exists>u'. users_get_by_email (snd (mfa_guesses deps email pw sl gs db)) a = Some u' \<and> us_locked_until u' = None)"
  using assms(1,2,4)
proof (induction gs arbitrary: db u)
  case Nil
  then show ?case by (simp add: mfa_account_def)
next
  case (Cons g gs)
  obtain env1 env2 code ctx where g: "g = (env1, env2, code, ctx)" by (cases g)
  have here: "email_address (ce_nfkc env1) email = Inr a" "verify_code deps (ce_now env2) (us_id u) code db = Inr (False, db)"
    using Cons.prems(3) g by auto
  obtain db' where step: "mfa_guess deps email pw sl (env1, env2, code, ctx) db = (Inl (Domain InvalidMfaCodeError), db')"
    and users: "db_users db' = db_users (users_put (record_failed_login (ce_now env2) (ad_lockout_policy deps)
        (record_successful_login (ce_now env1) u)) (users_put (record_successful_login (ce_now env1) u) db))"
    and tables: "db_memberships db' = db_memberships db" "db_roles db' = db_roles db" "db_organizations db' = db_organizations db"
      "db_mfa db' = db_mfa db"
    by (rule wrong_code [OF Cons.prems(1,2) here])
  let ?u2 = "record_failed_login (ce_now env2) (ad_lockout_policy deps) (record_successful_login (ce_now env1) u)"
  have acc: "mfa_account deps a pw sl m o1 ?u2 db'"
    by (rule guessed_account [OF Cons.prems(1) assms(3) users tables(1-3)])
  have codes: "\<forall>(env1, env2, code, ctx) \<in> set gs. email_address (ce_nfkc env1) email = Inr a
           \<and> verify_code deps (ce_now env2) (us_id ?u2) code db' = Inr (False, db')"
    using Cons.prems(3) verify_code_wrong [OF _ tables(4)] by fastforce
  show ?case
    using Cons.IH [OF acc _ codes] Cons.prems(2) by (simp add: g step split_beta Let_def)
qed

section \<open>Samples\<close>

definition sample_id :: "char \<Rightarrow> uuid" where
  "sample_id c = ''00000000-0000-0000-0000-00000000000'' @ [c]"

definition sample_account :: user where
  "sample_account = (new_user (sample_id CHR ''1'') ''ann@x.io'' (Some ''secret'') ''Ann'' USER_ACTIVE None)\<lparr>us_mfa_enabled := True\<rparr>"

definition sample_organization :: organization where
  "sample_organization =
     \<lparr>og_id = sample_id CHR ''2'', og_name = ''Acme'', og_slug = ''acme'', og_status = ORG_ACTIVE, og_settings = [],
      og_deletion_scheduled_at = None\<rparr>"

definition sample_account_db :: control_db where
  "sample_account_db = empty_db
     \<lparr>db_users := [(sample_id CHR ''1'', sample_account)],
      db_organizations := [(sample_id CHR ''2'', sample_organization)],
      db_roles := [(''r1'', (sample_role ''r1'' OWNER)\<lparr>ro_organization_id := sample_id CHR ''2''\<rparr>)],
      db_memberships := [(''m1'', (sample_row ''m1'' (sample_id CHR ''1'') [''r1''] MACTIVE)\<lparr>mr_organization_id := sample_id CHR ''2''\<rparr>)]\<rparr>"

definition sample_attempts :: "attempt list" where
  "sample_attempts = map (\<lambda>n. (sample_auth_env (seconds (10 * int n)) ''x'', ''guess'', None, empty_context)) [0..<20]"


text \<open>A codec that writes the subject and the organization one after the other.\<close>

definition sample_codec :: auth_deps where
  "sample_codec = sample_deps
     \<lparr>ad_encode := (\<lambda>claims. (case jget claims ''sub'' of JStr t \<Rightarrow> t | _ \<Rightarrow> []) @ (case jget claims ''org'' of JStr t \<Rightarrow> t | _ \<Rightarrow> [])),
      ad_decode := (\<lambda>t aud. Some [(''sub'', JStr (take 36 t)), (''org'', JStr (drop 36 t)), (''purpose'', JStr ''mfa'')])\<rparr>"

lemma sample_codec_decodes: "challenges_decode sample_codec (sample_id CHR ''1'') (sample_id CHR ''2'')"
  by (simp add: challenges_decode_def sample_codec_def codec_issue_challenge_def jget_def dget_def sample_id_def)

definition sample_guesses :: "mfa_attempt list" where
  "sample_guesses = map (\<lambda>n. (sample_auth_env (seconds n) ''x'', sample_auth_env (seconds n) ''y'', ''123456'', empty_context)) [1, 2, 3, 4, 5, 6, 7]"

theorem mfa_guessing_never_locks_witness:
  "fst (mfa_guesses sample_codec ''ann@x.io'' ''secret'' None sample_guesses sample_account_db)
     = replicate 7 (Inl (Domain InvalidMfaCodeError))"
proof -
  let ?m = "membership_to_domain sample_account_db ((sample_row ''m1'' (sample_id CHR ''1'') [''r1''] MACTIVE)\<lparr>mr_organization_id := sample_id CHR ''2''\<rparr>)"
  have "resolve_membership sample_account_db sample_account None = Inr (?m, sample_organization)" by code_simp
  moreover have "users_get_by_email sample_account_db ''ann@x.io'' = Some sample_account" "user_table_ok (db_users sample_account_db)"
    "uuid_of (us_id sample_account) = Some (us_id sample_account)" "uuid_of (og_id sample_organization) = Some (og_id sample_organization)"
    "user_active sample_account" "us_mfa_enabled sample_account" "us_locked_until sample_account = None"
    "us_password_hash sample_account = Some ''secret''"
    by code_simp+
  ultimately have account: "mfa_account sample_codec ''ann@x.io'' ''secret'' None ?m sample_organization sample_account sample_account_db"
    unfolding mfa_account_def by (simp add: sample_codec_def sample_deps_def)
  have wrong: "verify_code sample_codec now (us_id sample_account) ''123456'' sample_account_db = Inr (False, sample_account_db)" for now
    by (simp add: verify_code_def Let_def get_totp_def list_recovery_codes_def sample_account_db_def empty_db_def mfa_candidate_def)
  have "\<forall>(env1, env2, code, ctx) \<in> set sample_guesses. email_address (ce_nfkc env1) ''ann@x.io'' = Inr ''ann@x.io'' \<and> code = ''123456''"
    by code_simp
  then have guesses: "\<forall>(env1, env2, code, ctx) \<in> set sample_guesses. email_address (ce_nfkc env1) ''ann@x.io'' = Inr ''ann@x.io''
      \<and> verify_code sample_codec (ce_now env2) (us_id sample_account) code sample_account_db = Inr (False, sample_account_db)"
    using wrong by fastforce
  have decode: "challenges_decode sample_codec (us_id sample_account) (og_id sample_organization)"
    using sample_codec_decodes by (simp add: sample_account_def new_user_def sample_organization_def)
  have two: "2 \<le> lk_max_failed_attempts (ad_lockout_policy sample_codec)" by code_simp
  have seven: "length sample_guesses = 7" by (simp add: sample_guesses_def)
  from mfa_guessing_never_locks [OF account decode two guesses] show ?thesis unfolding seven by (rule conjunct1)
qed

end
