(* ===== verification/AccessProps.thy ===== *)
theory AccessProps
  imports AuthProps
begin

text \<open>
  Where member management and authentication meet: removing a member takes effect on tokens already
  issued.
\<close>

text \<open>The table's unique constraint on organization and user.\<close>

definition one_membership :: "control_db \<Rightarrow> bool" where
  "one_membership db \<longleftrightarrow> (\<forall>(k, m) \<in> set (db_memberships db). \<forall>(l, n) \<in> set (db_memberships db).
     mr_organization_id m = mr_organization_id n \<longrightarrow> mr_user_id m = mr_user_id n \<longrightarrow> k = l)"

lemma removed_membership:
  assumes "access_ok db" "one_membership db" "dget (db_memberships db) i = Some m" "mr_organization_id m = org"
    and "db_memberships db' = ddel i (db_memberships db)"
  shows "active_membership db' org (mr_user_id m) = Inl invalid_credentials"
proof -
  have ok: "dict_ok (db_memberships db)" using assms(1) by (simp add: access_ok_def)
  have here: "(i, m) \<in> set (db_memberships db)" using assms(3) by (simp add: dget_in_set [OF ok])
  have "mr_user_id n \<noteq> mr_user_id m" if n: "n \<in> set (scoped_memberships db' org)" for n
  proof
    assume same: "mr_user_id n = mr_user_id m"
    obtain l where "(l, n) \<in> set (db_memberships db)" "l \<noteq> i" "mr_organization_id n = org"
      using n assms(5) by (auto simp: scoped_memberships_def ddel_def)
    then show False using here same assms(2,4) unfolding one_membership_def by fastforce
  qed
  then have "find (\<lambda>n. mr_user_id n = mr_user_id m) (scoped_memberships db' org) = None"
    by (simp add: find_None_iff)
  then show ?thesis by (simp add: active_membership_def memberships_get_for_user_def)
qed

lemma no_membership_refused:
  assumes "active_membership db org i = Inl e0"
    and "codec_decode deps token USER_AUDIENCE = Inr claims" "claim_uuid claims ''sub'' = Inr i" "claim_uuid claims ''org'' = Inr org"
  shows "\<exists>e. resolve_user_principal deps env token ctx db = Inl e"
  using assms unfolding resolve_user_principal_def
  by (auto intro!: res_bind_Inl_E split: option.splits)

lemma removal_tables:
  assumes "remove_member env pr i db = (Inr (), db')"
  obtains m where "dget (db_memberships db) i = Some m" "mr_organization_id m = pr_organization_id pr"
    "db_memberships db' = ddel i (db_memberships db)"
    "db_sessions db' = db_sessions (snd (revoke_where (\<lambda>s. se_user_id s = mr_user_id m) (ce_now env) ''membership_removed'' db))"
proof -
  obtain m where m: "memberships_get db (pr_organization_id pr) i = Some m"
    and audit: "record_audit env (pr_organization_id pr) (ce_fresh env 0)
       (audit_by pr ''member.removed'' ''membership'' i [(''user_id'', JStr (me_user_id m))])
       (snd (revoke_all_for_user (me_user_id m) (ce_now env) ''membership_removed'' None
          (memberships_delete (pr_organization_id pr) i db))) = Inr db'"
    using assms by (auto simp: remove_member_def in_transaction_def Let_def res_bind_Inr split: sum.splits)
  obtain row where row: "dget (db_memberships db) i = Some row" "mr_organization_id row = pr_organization_id pr"
    "m = membership_to_domain db row"
    using m by (auto simp: memberships_get_Some)
  show ?thesis
    by (rule that [OF row(1,2)]) (use record_audit_keeps [OF audit] m row(3) in
      \<open>simp_all add: revoke_all_for_user_def revoke_where_def memberships_delete_def membership_to_domain_def\<close>)
qed

text \<open>
  C23. Removing a member takes effect at once: after a successful removal every access token of that
  user for the organization is refused, however long it is still valid, and every refresh token of the
  user is answered with TokenReuseError without effect, also those of other organizations.
\<close>

theorem removed_member_is_locked_out:
  assumes "access_ok db" "one_membership db" "session_table_ok (db_sessions db)"
    and "remove_member env pr i db = (Inr (), db')" "dget (db_memberships db) i = Some m"
  shows "(\<forall>deps env' access ctx claims. codec_decode deps access USER_AUDIENCE = Inr claims \<longrightarrow>
            claim_uuid claims ''sub'' = Inr (mr_user_id m) \<longrightarrow> claim_uuid claims ''org'' = Inr (pr_organization_id pr) \<longrightarrow>
            (\<exists>e. resolve_user_principal deps env' access ctx db' = Inl e))
    \<and> (\<forall>deps env' token ctx s. sessions_get_by_token_hash db' (ad_token_hash deps token) = Some s \<longrightarrow>
            se_user_id s = mr_user_id m \<longrightarrow> refresh_session deps env' token ctx db' = (Inl (Domain TokenReuseError), db'))"
proof -
  have m: "mr_organization_id m = pr_organization_id pr" "db_memberships db' = ddel i (db_memberships db)"
    "db_sessions db' = db_sessions (snd (revoke_where (\<lambda>s. se_user_id s = mr_user_id m) (ce_now env) ''membership_removed'' db))"
    using removal_tables [OF assms(4)] assms(5) by (metis option.inject)+
  have no_member: "active_membership db' (pr_organization_id pr) (mr_user_id m) = Inl invalid_credentials"
    by (rule removed_membership [OF assms(1,2,5) m(1,2)])
  have "dict_ok (db_sessions db)" using assms(3) by (simp add: session_table_ok_def)
  then have ok': "session_table_ok (db_sessions db')"
    using revoked_from_ok [OF _ assms(3)] revoke_where_from unfolding m(3) by blast
  have "se_revoked_at s \<noteq> None"
    if s: "sessions_get_by_token_hash db' h = Some s" "se_user_id s = mr_user_id m" for h s
  proof -
    have "dget (db_sessions db') (se_id s) = Some s" using by_token_in_table(1) [OF ok' s(1)] .
    then obtain t where "s = (if se_user_id t = mr_user_id m then session_revoke (ce_now env) ''membership_removed'' t else t)"
      unfolding m(3) by (auto simp: revoke_where_def dget_map_snd)
    with s(2) show ?thesis by (cases "se_user_id t = mr_user_id m") simp_all
  qed
  then show ?thesis
    using no_membership_refused [OF no_member] by (auto simp: refresh_session_def Let_def)
qed

text \<open>The second owner of the sample is removed by the administrator.\<close>

definition sample_removal_db :: control_db where
  "sample_removal_db = sample_db\<lparr>db_sessions := [(''s1'', (sample_session ''s1'' ''#one'' None None)\<lparr>se_organization_id := ''o2''\<rparr>)]\<rparr>"

theorem removed_member_is_locked_out_witness:
  "refresh_session sample_deps (sample_auth_env 9 ''x'') ''one'' empty_context
       (snd (remove_member (sample_control_env ''x'') sample_admin ''m1'' sample_removal_db))
     = (Inl (Domain TokenReuseError), snd (remove_member (sample_control_env ''x'') sample_admin ''m1'' sample_removal_db))"
proof -
  let ?r = "remove_member (sample_control_env ''x'') sample_admin ''m1'' sample_removal_db"
  have "access_ok sample_removal_db" "one_membership sample_removal_db" "session_table_ok (db_sessions sample_removal_db)" by code_simp+
  moreover have "fst ?r = Inr ()" by code_simp
  then have "?r = (Inr (), snd ?r)" by (simp add: prod_eq_iff)
  moreover have "dget (db_memberships sample_removal_db) ''m1'' = Some (sample_row ''m1'' ''u1'' [''r1''] MACTIVE)" by code_simp
  ultimately have "\<forall>s. sessions_get_by_token_hash (snd ?r) (ad_token_hash sample_deps ''one'') = Some s \<longrightarrow> se_user_id s = ''u1'' \<longrightarrow>
      refresh_session sample_deps (sample_auth_env 9 ''x'') ''one'' empty_context (snd ?r) = (Inl (Domain TokenReuseError), snd ?r)"
    using removed_member_is_locked_out [of sample_removal_db "sample_control_env ''x''" sample_admin "''m1''" "snd ?r" "sample_row ''m1'' ''u1'' [''r1''] MACTIVE"]
    by (auto simp: sample_row_def)
  moreover have "map_option se_user_id (sessions_get_by_token_hash (snd ?r) (ad_token_hash sample_deps ''one'')) = Some ''u1''" by code_simp
  ultimately show ?thesis by auto
qed

end
