(* ===== verification/FindingExport.thy ===== *)
theory FindingExport
  imports FindingPipeline
begin

text \<open>
  Export of findings to a SIEM (\<open>application/siem.py\<close>): CEF lines and OCSF events. A CEF line carries
  text an attacker chose; the escaping is there so that a collector reads back exactly the fields that
  were written. Milliseconds of a timestamp go through a float (\<open>int(t.timestamp() * 1000)\<close>) and are
  a parameter.
\<close>

section \<open>CEF\<close>

abbreviation backslash :: char where "backslash \<equiv> CHR 0x5C"
abbreviation newline :: char where "newline \<equiv> CHR 0x0A"
abbreviation creturn :: char where "creturn \<equiv> CHR 0x0D"

definition cef_header :: "str \<Rightarrow> str" where
  "cef_header v = replace_char (CHR ''|'') [backslash, CHR ''|''] (replace_char backslash [backslash, backslash] v)"

definition cef_value :: "str \<Rightarrow> str" where
  "cef_value v =
     replace_char creturn [backslash, CHR ''n'']
       (replace_char newline [backslash, CHR ''n'']
         (replace_str [creturn, newline] [backslash, CHR ''n'']
           (replace_char (CHR ''='') [backslash, CHR ''='']
             (replace_char backslash [backslash, backslash] v))))"

text \<open>The extension fields in order, their values as text.\<close>

definition cef_extensions ::
    "(datetime \<Rightarrow> int) \<Rightarrow> nat \<Rightarrow> finding \<Rightarrow> occurrence option \<Rightarrow> (str \<times> str) list" where
  "cef_extensions millis max_argument_length f oc =
     [(''externalId'', f_identity_hash f), (''cat'', f_rule_key f),
      (''cs1Label'', ''status''), (''cs1'', status_value (f_status f)),
      (''cs2Label'', ''confidence''), (''cs2'', confidence_value (f_confidence f)),
      (''cs3Label'', ''sink''), (''cs3'', f_sink_signature f),
      (''cs4Label'', ''sourceKind''), (''cs4'', f_source_kind f),
      (''cn1Label'', ''occurrences''), (''cn1'', int_str (int (f_occurrence_count f))),
      (''cn2Label'', ''wouldBlock''), (''cn2'', int_str (int (f_would_block_count f)))]
     @ (case f_cwe_id f of None \<Rightarrow> [] | Some n \<Rightarrow> [(''cs5Label'', ''cwe''), (''cs5'', ''CWE-'' @ int_str n)])
     @ (case f_last_seen_at f of None \<Rightarrow> [] | Some t \<Rightarrow> [(''end'', int_str (millis t))])
     @ (if f_environments_seen f = [] then []
        else [(''deviceCustomString6Label'', ''environments''),
              (''deviceCustomString6'', join '','' (f_environments_seen f))])
     @ (case oc of None \<Rightarrow> []
        | Some o1 \<Rightarrow>
            (if oc_remote_address o1 = [] then [] else [(''src'', oc_remote_address o1)])
            @ (if oc_request_method o1 = [] then [] else [(''requestMethod'', oc_request_method o1)])
            @ (if oc_request_path o1 = [] then [] else [(''request'', oc_request_path o1)])
            @ (if oc_sink_argument o1 = [] then [] else [(''msg'', take max_argument_length (oc_sink_argument o1))]))"

definition cef_fields :: "str \<Rightarrow> finding \<Rightarrow> str list" where
  "cef_fields product_version f =
     [''CEF:0'', ''Aegis'', ''Aegis IAST'', product_version, f_rule_key f, f_title f,
      int_str (round_even (f_risk_score f))]"

definition to_cef ::
    "(datetime \<Rightarrow> int) \<Rightarrow> str \<Rightarrow> nat \<Rightarrow> finding \<Rightarrow> occurrence option \<Rightarrow> str" where
  "to_cef millis product_version max_argument_length f oc =
     join ''|''
       [''CEF:0'', cef_header ''Aegis'', cef_header ''Aegis IAST'', cef_header product_version,
        cef_header (f_rule_key f), cef_header (f_title f), int_str (round_even (f_risk_score f))]
     @ ''|''
     @ join '' '' (map (\<lambda>(k, v). k @ ''='' @ cef_value v) (cef_extensions millis max_argument_length f oc))"

text \<open>How a collector reads a line: the CEF specification's escapes, fields and keys.\<close>

fun read_field :: "str \<Rightarrow> (str \<times> str) option" where
  "read_field [] = None"
| "read_field (c # s) =
     (if c = CHR ''|'' then Some ([], s)
      else if c = backslash then
        (case s of [] \<Rightarrow> None | d # s' \<Rightarrow> map_option (\<lambda>(w, r). (d # w, r)) (read_field s'))
      else map_option (\<lambda>(w, r). (c # w, r)) (read_field s))"

fun read_fields :: "nat \<Rightarrow> str \<Rightarrow> (str list \<times> str) option" where
  "read_fields 0 s = Some ([], s)"
| "read_fields (Suc n) s =
     (case read_field s of None \<Rightarrow> None
      | Some (w, r) \<Rightarrow> map_option (\<lambda>(ws, r'). (w # ws, r')) (read_fields n r))"

text \<open>The extension between unescaped equal signs, with the escapes undone.\<close>

definition put_first :: "char \<Rightarrow> str list \<Rightarrow> str list" where
  "put_first c ss = (case ss of [] \<Rightarrow> [[c]] | w # ws \<Rightarrow> (c # w) # ws)"

fun segments :: "str \<Rightarrow> str list" where
  "segments [] = [[]]"
| "segments (c # s) =
     (if c = CHR ''='' then [] # segments s
      else if c = backslash then
        (case s of [] \<Rightarrow> [[c]] | d # s' \<Rightarrow> put_first (if d = CHR ''n'' then newline else d) (segments s'))
      else put_first c (segments s))"

text \<open>Each inner segment is a value, a space, and the next key.\<close>

definition split_last_space :: "str \<Rightarrow> str \<times> str" where
  "split_last_space s =
     (let k = rev (takeWhile (\<lambda>c. c \<noteq> CHR '' '') (rev s)) in (take (length s - length k - 1) s, k))"

fun pair_up :: "str \<Rightarrow> str list \<Rightarrow> (str \<times> str) list" where
  "pair_up k [] = []"
| "pair_up k [v] = [(k, v)]"
| "pair_up k (v # w # ws) = (let (x, k') = split_last_space v in (k, x) # pair_up k' (w # ws))"

definition parse_extension :: "str \<Rightarrow> (str \<times> str) list" where
  "parse_extension s = (case segments s of [] \<Rightarrow> [] | k # vs \<Rightarrow> pair_up k vs)"

definition parse_cef :: "str \<Rightarrow> (str list \<times> (str \<times> str) list) option" where
  "parse_cef line = map_option (\<lambda>(fs, r). (fs, parse_extension r)) (read_fields 7 line)"

text \<open>Line breaks of any kind are read back as one newline character.\<close>

fun fold_newlines :: "str \<Rightarrow> str" where
  "fold_newlines [] = []"
| "fold_newlines [c] = [if c = creturn then newline else c]"
| "fold_newlines (c # d # s) =
     (if c = creturn \<and> d = newline then newline # fold_newlines s
      else (if c = creturn then newline else c) # fold_newlines (d # s))"

section \<open>Escaping character by character\<close>

definition escape_char :: "char \<Rightarrow> str" where
  "escape_char c =
     (if c = backslash then [backslash, backslash] else if c = CHR ''='' then [backslash, CHR ''='']
      else if c = newline \<or> c = creturn then [backslash, CHR ''n''] else [c])"

fun escape :: "str \<Rightarrow> str" where
  "escape [] = []"
| "escape [c] = escape_char c"
| "escape (c # d # s) =
     (if c = creturn \<and> d = newline then [backslash, CHR ''n''] @ escape s else escape_char c @ escape (d # s))"

lemma replace_char_simps [simp]:
  "replace_char c r [] = []" "replace_char c r (d # s) = (if d = c then r else [d]) @ replace_char c r s"
  "replace_char c r (s @ t) = replace_char c r s @ replace_char c r t"
  by (simp_all add: replace_char_def)

lemma replace_str2:
  "replace_str [a, b] n [] = []" "replace_str [a, b] n [c] = [c]"
  "replace_str [a, b] n (c # d # s) =
     (if c = a \<and> d = b then n @ replace_str [a, b] n s else c # replace_str [a, b] n (d # s))"
  by (subst replace_str.simps; simp add: startswith_def)+

lemma replace_str2_skip: "c \<noteq> a \<Longrightarrow> replace_str [a, b] n (c # s) = c # replace_str [a, b] n s"
  by (cases s) (simp_all add: replace_str2)

abbreviation halved :: "str \<Rightarrow> str" where
  "halved v \<equiv> replace_char (CHR ''='') [backslash, CHR ''=''] (replace_char backslash [backslash, backslash] v)"

lemma cef_value_escape: "cef_value v = escape v"
proof (induction v rule: escape.induct)
  case (2 c)
  then show ?case
    by (simp add: cef_value_def escape_char_def replace_str2 replace_str2_skip)
next
  case (3 c d s)
  have skip: "replace_str [creturn, newline] n (halved (c # t)) = (if c = backslash then [backslash, backslash] else if c = CHR ''='' then [backslash, CHR ''=''] else [c])
      @ replace_str [creturn, newline] n (halved t)" if "c \<noteq> creturn" for n t
    using that by (simp add: replace_str2_skip)
  have cr: "replace_str [creturn, newline] n (halved (creturn # d # s)) = creturn # replace_str [creturn, newline] n (halved (d # s))"
    if "d \<noteq> newline" for n
    using that by (simp add: replace_str2)
  show ?case
  proof (cases "c = creturn \<and> d = newline")
    case True
    with 3(1) show ?thesis by (simp add: cef_value_def replace_str2)
  next
    case False
    consider "c = creturn" "d \<noteq> newline" | "c \<noteq> creturn" using False by blast
    then show ?thesis
    proof cases
      case 1
      then show ?thesis using 3(2) False cr unfolding cef_value_def by (simp add: escape_char_def)
    next
      case 2
      then show ?thesis using 3(2) False skip [OF 2, of _ "d # s"] unfolding cef_value_def by (simp add: escape_char_def)
    qed
  qed
qed (simp add: cef_value_def replace_str2)

lemma put_first_append: "put_first c (w # ws) = (c # w) # ws"
  by (simp add: put_first_def)

lemma segments_escape_char:
  assumes "segments r = w # ws"
  shows "segments (escape_char c @ r) = ((if c = creturn then newline else c) # w) # ws"
  using assms by (simp add: escape_char_def put_first_def)

lemma segments_escape: "segments r = w # ws \<Longrightarrow> segments (escape v @ r) = (fold_newlines v @ w) # ws"
proof (induction v rule: escape.induct)
  case (2 c)
  then show ?case using segments_escape_char by simp
next
  case (3 c d s)
  show ?case
  proof (cases "c = creturn \<and> d = newline")
    case True
    with 3 show ?thesis by (simp add: put_first_def)
  next
    case False
    then have "segments (escape (d # s) @ r) = (fold_newlines (d # s) @ w) # ws" using 3 by blast
    from segments_escape_char [OF this, of c] False show ?thesis by auto
  qed
qed simp

lemma segments_key:
  assumes "\<forall>c \<in> set k. c \<noteq> CHR ''='' \<and> c \<noteq> backslash"
  shows "segments (k @ CHR ''='' # r) = k # segments r"
  using assms by (induction k) (auto simp: put_first_def)

lemma split_last_space_append:
  assumes "CHR '' '' \<notin> set k" shows "split_last_space (v @ CHR '' '' # k) = (v, k)"
proof -
  have "takeWhile (\<lambda>c. c \<noteq> CHR '' '') (rev k @ CHR '' '' # rev v) = rev k"
    using assms by (subst takeWhile_append2) auto
  then show ?thesis by (simp add: split_last_space_def)
qed

definition cef_key :: "str \<Rightarrow> bool" where
  "cef_key k \<longleftrightarrow> (\<forall>c \<in> set k. c \<noteq> CHR ''='' \<and> c \<noteq> backslash \<and> c \<noteq> CHR '' '' \<and> c \<noteq> newline \<and> c \<noteq> creturn)"

abbreviation cef_body :: "(str \<times> str) list \<Rightarrow> str" where
  "cef_body ps \<equiv> join '' '' (map (\<lambda>(k, v). k @ ''='' @ cef_value v) ps)"

lemma segments_body:
  assumes "ps \<noteq> []" "\<forall>(k, v) \<in> set ps. cef_key k"
  shows "\<exists>vs. segments (cef_body ps) = fst (hd ps) # vs \<and> vs \<noteq> [] \<and> pair_up (fst (hd ps)) vs = map (\<lambda>(k, v). (k, fold_newlines v)) ps"
  using assms
proof (induction ps rule: induct_list012)
  case (2 p)
  obtain k v where p: "p = (k, v)" by (cases p)
  have "segments (cef_value v) = [fold_newlines v]"
    using segments_escape [of "[]" "[]" "[]" v] by (simp add: cef_value_escape)
  then show ?case using 2 segments_key [of k "cef_value v"] p by (simp add: cef_key_def)
next
  case (3 p q ps)
  obtain k v where p: "p = (k, v)" by (cases p)
  have "cef_key (fst q)" using 3(4) by (cases q) simp
  then have q: "CHR '' '' \<notin> set (fst q)" unfolding cef_key_def by blast
  have "\<forall>(k, v) \<in> set (q # ps). cef_key k" using 3(4) by auto
  with 3(2) obtain vs where vs: "segments (cef_body (q # ps)) = fst q # vs" "vs \<noteq> []"
    "pair_up (fst q) vs = map (\<lambda>(k, v). (k, fold_newlines v)) (q # ps)" by auto
  have "segments ('' '' @ cef_body (q # ps)) = ('' '' @ fst q) # vs"
    using vs(1) by (simp add: put_first_def del: join.simps list.map)
  then have "segments (cef_value v @ '' '' @ cef_body (q # ps)) = (fold_newlines v @ '' '' @ fst q) # vs"
    unfolding cef_value_escape by (rule segments_escape)
  moreover have "cef_body (p # q # ps) = k @ CHR ''='' # cef_value v @ '' '' @ cef_body (q # ps)" by (simp add: p)
  ultimately have "segments (cef_body (p # q # ps)) = k # (fold_newlines v @ '' '' @ fst q) # vs"
    using 3(4) p segments_key [of k] by (simp add: cef_key_def del: join.simps)
  moreover have "split_last_space (fold_newlines v @ '' '' @ fst q) = (fold_newlines v, fst q)"
    using split_last_space_append [of "fst q" "fold_newlines v"] q by simp
  ultimately show ?case using vs(2,3) p by (cases vs) auto
qed simp

lemma read_header: "read_field (cef_header v @ CHR ''|'' # r) = Some (v, r)"
  by (induction v) (simp_all add: cef_header_def)

lemma read_plain:
  "\<forall>c \<in> set v. c \<noteq> CHR ''|'' \<and> c \<noteq> backslash \<Longrightarrow> read_field (v @ CHR ''|'' # r) = Some (v, r)"
  by (induction v) auto

lemma known_keys [simp]:
  "cef_key ''externalId''" "cef_key ''cat''" "cef_key ''cs1Label''" "cef_key ''cs1''" "cef_key ''cs2Label''" "cef_key ''cs2''"
  "cef_key ''cs3Label''" "cef_key ''cs3''" "cef_key ''cs4Label''" "cef_key ''cs4''" "cef_key ''cn1Label''" "cef_key ''cn1''"
  "cef_key ''cn2Label''" "cef_key ''cn2''" "cef_key ''cs5Label''" "cef_key ''cs5''" "cef_key ''end''"
  "cef_key ''deviceCustomString6Label''" "cef_key ''deviceCustomString6''" "cef_key ''src''" "cef_key ''requestMethod''"
  "cef_key ''request''" "cef_key ''msg''"
  by code_simp+

lemma extension_keys: "\<forall>(k, v) \<in> set (cef_extensions millis n f oc). cef_key k"
proof -
  have "list_all (\<lambda>(k, v). cef_key k) (cef_extensions millis n f oc)"
    unfolding cef_extensions_def list_all_append by (intro conjI) (simp_all split: option.split)
  then show ?thesis by (simp add: list_all_iff)
qed

lemma extension_ne: "cef_extensions millis n f oc \<noteq> []"
  by (simp add: cef_extensions_def)

lemma int_str_chars: "\<forall>c \<in> set (int_str i). c \<noteq> CHR ''|'' \<and> c \<noteq> backslash \<and> c \<noteq> newline \<and> c \<noteq> creturn"
proof -
  have digits: "\<forall>c \<in> set (nat_digits n). is_digit c" for n
    using nat_digits_spec [of n] by auto
  have "is_digit c \<Longrightarrow> c \<noteq> CHR ''|'' \<and> c \<noteq> backslash \<and> c \<noteq> newline \<and> c \<noteq> creturn" for c
    by (auto simp: is_digit_def)
  then show ?thesis using digits by (auto simp: int_str_def)
qed

lemma one_line_escape: "c \<in> set (escape v) \<Longrightarrow> c \<noteq> newline \<and> c \<noteq> creturn"
  by (induction v rule: escape.induct) (auto simp: escape_char_def split: if_splits)

lemma one_line_body:
  "\<forall>(k, v) \<in> set ps. cef_key k \<Longrightarrow> c \<in> set (cef_body ps) \<Longrightarrow> c \<noteq> newline \<and> c \<noteq> creturn"
proof (induction ps rule: induct_list012)
  case (2 p)
  then show ?case by (cases p) (auto simp: cef_key_def cef_value_escape dest: one_line_escape)
next
  case (3 p q ps)
  obtain k v where p: "p = (k, v)" by (cases p)
  have "cef_body (p # q # ps) = k @ CHR ''='' # cef_value v @ CHR '' '' # cef_body (q # ps)" by (simp add: p)
  then have "c \<in> set k \<or> c = CHR ''='' \<or> c \<in> set (escape v) \<or> c = CHR '' '' \<or> c \<in> set (cef_body (q # ps))"
    using 3(4) by (auto simp: cef_value_escape simp del: join.simps)
  moreover have "c \<in> set (cef_body (q # ps)) \<Longrightarrow> c \<noteq> newline \<and> c \<noteq> creturn" using 3(2,3) by auto
  moreover have "cef_key k" using 3(3) p by simp
  ultimately show ?case using one_line_escape [of c v] unfolding cef_key_def by auto
qed simp

lemma set_cef_header: "set (cef_header v) \<subseteq> insert backslash (insert (CHR ''|'') (set v))" "set v \<subseteq> set (cef_header v)"
  by (induction v) (auto simp: cef_header_def)

lemma fixed_text:
  "list_all (\<lambda>c. c \<notin> set ''CEF:0'' \<and> c \<noteq> CHR ''|'' \<and> c \<notin> set (cef_header ''Aegis'') \<and> c \<notin> set (cef_header ''Aegis IAST'')) [newline, creturn]"
  by code_simp

lemma same_on: "(\<And>c. c \<in> N \<Longrightarrow> (c \<in> A) = (c \<in> B)) \<Longrightarrow> (A \<inter> N = {}) = (B \<inter> N = {})"
  by blast

lemma line_chars:
  assumes "c \<notin> set a" "c \<noteq> p" "c \<notin> set b" "c \<notin> set d" "c \<notin> set e" "c \<notin> set g"
  shows "c \<in> set (a @ p # b @ p # d @ p # x @ p # y @ p # z @ p # e @ p # g) \<longleftrightarrow> c \<in> set x \<or> c \<in> set y \<or> c \<in> set z"
  using assms by auto

text \<open>
  C14. Escaping holds against any content: a collector that reads a CEF line back, field by field and
  key by key, gets exactly the header fields, the extension keys and the values that were written, with
  every kind of line break read as a newline; so no text in a finding can forge a field or a severity.
  The line spills over into a second one exactly when the product version, the rule key or the title
  contains a line break, which the header escaping leaves as it is.
\<close>

theorem cef_line_round_trip:
  "parse_cef (to_cef millis pv n f oc)
     = Some (cef_fields pv f, map (\<lambda>(k, v). (k, fold_newlines v)) (cef_extensions millis n f oc))
   \<and> (set (to_cef millis pv n f oc) \<inter> {newline, creturn} = {}) =
      (set (pv @ f_rule_key f @ f_title f) \<inter> {newline, creturn} = {})"
proof
  let ?ps = "cef_extensions millis n f oc" and ?sev = "int_str (round_even (f_risk_score f))"
  have line: "to_cef millis pv n f oc =
     ''CEF:0'' @ CHR ''|'' # cef_header ''Aegis'' @ CHR ''|'' # cef_header ''Aegis IAST'' @ CHR ''|'' # cef_header pv
       @ CHR ''|'' # cef_header (f_rule_key f) @ CHR ''|'' # cef_header (f_title f) @ CHR ''|'' # ?sev @ CHR ''|'' # cef_body ?ps"
    by (simp add: to_cef_def)
  have seven: "(7 :: nat) = Suc (Suc (Suc (Suc (Suc (Suc (Suc 0))))))" by simp
  have cef: "read_field (''CEF:0'' @ CHR ''|'' # r) = Some (''CEF:0'', r)" for r by (rule read_plain) auto
  have sev: "read_field (?sev @ CHR ''|'' # r) = Some (?sev, r)" for r using int_str_chars by (intro read_plain) blast
  have "read_fields 7 (to_cef millis pv n f oc) = Some (cef_fields pv f, cef_body ?ps)"
    unfolding line seven by (simp only: read_fields.simps cef sev read_header option.case prod.case
        option.map cef_fields_def)
  moreover have "parse_extension (cef_body ?ps) = map (\<lambda>(k, v). (k, fold_newlines v)) ?ps"
  proof -
    obtain vs where "segments (cef_body ?ps) = fst (hd ?ps) # vs" "pair_up (fst (hd ?ps)) vs = map (\<lambda>(k, v). (k, fold_newlines v)) ?ps"
      using segments_body [OF extension_ne extension_keys] by blast
    then show ?thesis by (simp add: parse_extension_def)
  qed
  ultimately show "parse_cef (to_cef millis pv n f oc) = Some (cef_fields pv f, map (\<lambda>(k, v). (k, fold_newlines v)) ?ps)"
    by (simp add: parse_cef_def)
  have rest: "c \<notin> set (cef_body ?ps)" "c \<notin> set ?sev" if "c \<in> {newline, creturn}" for c
    using that one_line_body [OF extension_keys] int_str_chars by blast+
  have fixed: "c \<notin> set ''CEF:0''" "c \<noteq> CHR ''|''" "c \<notin> set (cef_header ''Aegis'')" "c \<notin> set (cef_header ''Aegis IAST'')"
    if "c \<in> {newline, creturn}" for c
    using that fixed_text by auto
  have header: "c \<in> set (to_cef millis pv n f oc) \<longleftrightarrow>
      c \<in> set (cef_header pv) \<or> c \<in> set (cef_header (f_rule_key f)) \<or> c \<in> set (cef_header (f_title f))"
    if "c \<in> {newline, creturn}" for c
    unfolding line by (rule line_chars) (use that fixed [of c] rest [of c] in blast)+
  have same: "c \<in> set (cef_header v) \<longleftrightarrow> c \<in> set v" if c: "c \<in> {newline, creturn}" for c v
  proof -
    have "c \<noteq> backslash" "c \<noteq> CHR ''|''" using c by auto
    then show ?thesis using set_cef_header [of v] by blast
  qed
  have "c \<in> set (to_cef millis pv n f oc) \<longleftrightarrow> c \<in> set (pv @ f_rule_key f @ f_title f)"
    if "c \<in> {newline, creturn}" for c
    unfolding set_append Un_iff header [OF that] same [OF that] ..
  then show "(set (to_cef millis pv n f oc) \<inter> {newline, creturn} = {}) =
      (set (pv @ f_rule_key f @ f_title f) \<inter> {newline, creturn} = {})"
    by (rule same_on)
qed

section \<open>OCSF\<close>

definition OCSF_CLASS_UID :: int where "OCSF_CLASS_UID = 2002"

fun ocsf_severity_id :: "severity \<Rightarrow> int" where
  "ocsf_severity_id INFO = 1"
| "ocsf_severity_id LOW = 2"
| "ocsf_severity_id MEDIUM = 3"
| "ocsf_severity_id HIGH = 4"
| "ocsf_severity_id CRITICAL = 5"

fun ocsf_status :: "finding_status \<Rightarrow> int \<times> str" where
  "ocsf_status OPEN = (1, ''New'')"
| "ocsf_status CONFIRMED = (2, ''In Progress'')"
| "ocsf_status REMEDIATED = (3, ''Resolved'')"
| "ocsf_status FALSE_POSITIVE = (4, ''Suppressed'')"
| "ocsf_status ACCEPTED_RISK = (4, ''Suppressed'')"

fun ocsf_confidence_id :: "confidence \<Rightarrow> int" where
  "ocsf_confidence_id SUSPECTED = 1"
| "ocsf_confidence_id CONFIRMED_FLOW = 2"
| "ocsf_confidence_id EXPLOITED = 3"

definition opt_millis :: "(datetime \<Rightarrow> int) \<Rightarrow> datetime option \<Rightarrow> json" where
  "opt_millis millis t = (case t of None \<Rightarrow> JNull | Some u \<Rightarrow> JInt (millis u))"

definition or_none :: "str \<Rightarrow> json" where
  "or_none s = (if s = [] then JNull else JStr s)"

text \<open>The innermost application frame of an occurrence.\<close>

definition application_frame :: "occurrence \<Rightarrow> (str \<times> str \<times> int \<times> bool) option" where
  "application_frame oc = find (\<lambda>(_, _, _, is_application). is_application) (oc_stack_frames oc)"

definition outer_class :: "str \<Rightarrow> str" where
  "outer_class declaring_class = takeWhile (\<lambda>c. c \<noteq> CHR ''$'') declaring_class"

definition affected_code :: "occurrence \<Rightarrow> (str \<times> json) list" where
  "affected_code oc =
     (case application_frame oc of None \<Rightarrow> []
      | Some (declaring_class, _, line, _) \<Rightarrow>
          [(''affected_code'', JList [JObj
             ([(''file'', JObj [(''path'', JStr (replace_char (CHR ''.'') ''/'' (outer_class declaring_class) @ ''.java''))])]
              @ (if line > 0 then [(''start_line'', JInt line)] else []))])])"

definition ocsf_vulnerability :: "(datetime \<Rightarrow> int) \<Rightarrow> finding \<Rightarrow> occurrence option \<Rightarrow> json" where
  "ocsf_vulnerability millis f oc = JObj
     ([(''title'', JStr (f_title f)),
       (''desc'', JStr (lower (f_source_kind f) @ '' data reaches '' @ f_sink_signature f)),
       (''severity'', JStr (capitalize (severity_value (f_severity f)))),
       (''is_exploit_available'', JBool (f_confidence f = EXPLOITED)),
       (''first_seen_time'', opt_millis millis (f_first_seen_at f)),
       (''last_seen_time'', opt_millis millis (f_last_seen_at f))]
      @ (case f_cwe_id f of None \<Rightarrow> []
         | Some n \<Rightarrow> [(''cwe'', JObj [(''uid'', JStr (''CWE-'' @ int_str n)), (''caption'', JStr (rule_title (f_rule_key f)))])])
      @ (case oc of None \<Rightarrow> [] | Some o1 \<Rightarrow> affected_code o1))"

definition to_ocsf :: "(datetime \<Rightarrow> int) \<Rightarrow> str \<Rightarrow> finding \<Rightarrow> occurrence option \<Rightarrow> json" where
  "to_ocsf millis product_version f oc =
     (let (status_id, status) = ocsf_status (f_status f);
          activity_id = (if f_occurrence_count f \<le> 1 then 1 else 2)
      in JObj
       ([(''activity_id'', JInt activity_id), (''category_uid'', JInt 2), (''class_uid'', JInt OCSF_CLASS_UID),
         (''type_uid'', JInt (OCSF_CLASS_UID * 100 + activity_id)),
         (''time'', opt_millis millis (f_last_seen_at f)),
         (''severity_id'', JInt (ocsf_severity_id (f_severity f))),
         (''severity'', JStr (capitalize (severity_value (f_severity f)))),
         (''status_id'', JInt status_id), (''status'', JStr status),
         (''confidence_id'', JInt (ocsf_confidence_id (f_confidence f))),
         (''confidence'', JStr (capitalize (confidence_value (f_confidence f)))),
         (''finding_info'', JObj
            [(''uid'', JStr (f_identity_hash f)), (''title'', JStr (f_title f)),
             (''desc'', JStr (f_title f @ '' observed at runtime.'')),
             (''first_seen_time'', opt_millis millis (f_first_seen_at f)),
             (''last_seen_time'', opt_millis millis (f_last_seen_at f))]),
         (''vulnerabilities'', JList [ocsf_vulnerability millis f oc]),
         (''metadata'', JObj
            [(''version'', JStr ''1.1.0''),
             (''product'', JObj [(''name'', JStr ''Aegis IAST''), (''vendor_name'', JStr ''Aegis''),
                                 (''version'', JStr product_version)])]),
         (''risk_score'', JFloat (Fin (f_risk_score f))),
         (''unmapped'', JObj
            [(''rule_key'', JStr (f_rule_key f)), (''environments'', JList (map JStr (f_environments_seen f))),
             (''occurrence_count'', JInt (int (f_occurrence_count f))),
             (''would_block_count'', JInt (int (f_would_block_count f)))])]
        @ (case oc of None \<Rightarrow> []
           | Some o1 \<Rightarrow>
               [(''src_endpoint'', JObj [(''ip'', or_none (oc_remote_address o1))]),
                (''http_request'', JObj [(''http_method'', or_none (oc_request_method o1)),
                                         (''url'', JObj [(''path'', or_none (oc_request_path o1))])])])))"

end
