(* ===== verification/Keyset.thy ===== *)
theory Keyset
  imports ControlDb "HOL-Library.Multiset" "HOL-Library.Product_Lexorder"
begin

text \<open>
  Keyset pagination, as the repositories do it: rows ordered by a key, a page of at most \<open>limit\<close> rows
  after the position a cursor stands for, and a cursor to the last row of the page when there are more.
  What makes it correct is an interface between the order of the rows and the encoding of cursors; the
  lists of findings, agents and applications are its instances.
\<close>

text \<open>One page of a list method with \<open>_paginate\<close>; an empty cursor counts as none.\<close>

definition keyset_page ::
    "('r \<Rightarrow> 'k :: linorder) \<Rightarrow> ('r \<Rightarrow> str) \<Rightarrow> (str \<Rightarrow> control_exn + ('r \<Rightarrow> bool)) \<Rightarrow> nat \<Rightarrow> 'r list
       \<Rightarrow> str option \<Rightarrow> control_exn + 'r list \<times> str option" where
  "keyset_page key enc dec limit rows cursor =
     res_bind (case cursor of None \<Rightarrow> Inr (\<lambda>_. True) | Some c \<Rightarrow> if c = [] then Inr (\<lambda>_. True) else dec c) (\<lambda>after.
     let found = take (limit + 1) (sort_key key (filter after rows)); page = take limit found in
     Inr (page, if length found > limit \<and> page \<noteq> [] then Some (enc (last page)) else None))"

text \<open>A client that follows the cursors to the end; None when the fuel ends or a page fails.\<close>

fun follow :: "(str option \<Rightarrow> control_exn + 'r list \<times> str option) \<Rightarrow> nat \<Rightarrow> str option \<Rightarrow> 'r list option" where
  "follow page 0 cursor = None"
| "follow page (Suc n) cursor =
     (case page cursor of
        Inl e \<Rightarrow> None
      | Inr (rows, None) \<Rightarrow> Some rows
      | Inr (rows, Some c) \<Rightarrow> map_option ((@) rows) (follow page n (Some c)))"

lemma sorted_distinct_key:
  assumes "distinct (map key xs)"
  shows "sorted_wrt (\<lambda>x y. key x < (key y :: 'k :: linorder)) (sort_key key xs)"
proof -
  have "distinct (map key (sort_key key xs))" using assms by (simp add: distinct_map)
  moreover have "sorted (map key (sort_key key xs))" by (rule sorted_sort_key)
  ultimately have "sorted_wrt (<) (map key (sort_key key xs))" by (simp add: strict_sorted_iff)
  then show ?thesis by (simp add: sorted_wrt_map)
qed

lemma filter_after:
  assumes "sorted_wrt (\<lambda>f g. key f < (key g :: 'k :: linorder)) xs" "k < length xs"
  shows "filter (\<lambda>f. key (xs ! k) < key f) xs = drop (Suc k) xs"
proof -
  have "filter (\<lambda>f. key (xs ! k) < key f) (take (Suc k) xs) = []"
    using assms by (auto simp: filter_empty_conv in_set_conv_nth less_Suc_eq sorted_wrt_iff_nth_less not_less less_imp_le)
  moreover have "filter (\<lambda>f. key (xs ! k) < key f) (drop (Suc k) xs) = drop (Suc k) xs"
    using assms by (auto simp: filter_id_conv in_set_conv_nth sorted_wrt_iff_nth_less)
  ultimately show ?thesis by (metis append_Nil append_take_drop_id filter_append)
qed

locale keyset =
  fixes key :: "'r \<Rightarrow> 'k :: linorder"
    and enc :: "'r \<Rightarrow> str"
    and dec :: "str \<Rightarrow> control_exn + ('r \<Rightarrow> bool)"
    and fits :: "'r \<Rightarrow> bool"
  assumes dec_enc: "fits r \<Longrightarrow> dec (enc r) = Inr (\<lambda>s. key r < key s)"
    and enc_ne: "fits r \<Longrightarrow> enc r \<noteq> []"
begin

text \<open>The cursor that stands for the position after the first \<open>k\<close> rows of \<open>L\<close>.\<close>

definition cursor_at :: "'r list \<Rightarrow> nat \<Rightarrow> str option" where
  "cursor_at L k = (if k = 0 then None else Some (enc (L ! (k - 1))))"

lemma page_after:
  assumes "0 < limit" "distinct (map key rows)" "\<forall>r \<in> set rows. fits r" "k \<le> length rows"
  defines "L \<equiv> sort_key key rows"
  shows "keyset_page key enc dec limit rows (cursor_at L k)
    = Inr (take limit (drop k L), if length L - k > limit then cursor_at L (k + limit) else None)"
proof -
  have len: "length L = length rows" by (simp add: L_def)
  have fits: "fits (L ! j)" if "j < length rows" for j
    using assms(3) nth_mem [of j L] that by (simp add: L_def)
  define after where "after = (if k = 0 then (\<lambda>_. True) else (\<lambda>s. key (L ! (k - 1)) < key s))"
  have start: "(case cursor_at L k of None \<Rightarrow> Inr (\<lambda>_. True) | Some c \<Rightarrow> if c = [] then Inr (\<lambda>_. True) else dec c)
      = (Inr after :: control_exn + _)"
    using assms(4) dec_enc [OF fits] enc_ne [OF fits] by (auto simp: cursor_at_def after_def)
  have rest: "sort_key key (filter after rows) = drop k L"
  proof (cases k)
    case (Suc j)
    have "sort_key key (filter after rows) = filter after L" by (simp add: L_def filter_sort)
    also have "\<dots> = drop (Suc j) L" unfolding after_def Suc
      using filter_after [OF sorted_distinct_key [OF assms(2)], of j] assms(4) by (simp add: Suc L_def)
    finally show ?thesis by (simp add: Suc)
  qed (simp add: after_def L_def)
  have size: "length (filter after rows) = length L - k" by (metis rest length_sort length_drop)
  have pg: "take limit (take (limit + 1) (drop k L)) = take limit (drop k L)" by (simp add: min_def)
  show ?thesis
  proof (cases "length L - k > limit")
    case True
    then have "last (take limit (drop k L)) = L ! (k + limit - 1)" "take limit (drop k L) \<noteq> []"
      using assms(1) by (simp_all add: last_conv_nth nth_append min_def)
    with True assms(1) show ?thesis
      unfolding keyset_page_def start by (simp add: rest pg size Let_def cursor_at_def min_def)
  next
    case False
    then show ?thesis unfolding keyset_page_def start by (simp add: rest pg size Let_def)
  qed
qed

lemma follow_from:
  assumes "0 < limit" "distinct (map key rows)" "\<forall>r \<in> set rows. fits r" "k \<le> length rows" "length rows - k < n"
  shows "follow (keyset_page key enc dec limit rows) n (cursor_at (sort_key key rows) k)
    = Some (drop k (sort_key key rows))"
  using assms(4,5)
proof (induction n arbitrary: k)
  case (Suc n)
  let ?L = "sort_key key rows"
  note page = page_after [OF assms(1-3) Suc.prems(1)]
  show ?case
  proof (cases "length ?L - k > limit")
    case True
    then have "follow (keyset_page key enc dec limit rows) n (cursor_at ?L (k + limit)) = Some (drop (k + limit) ?L)"
      using Suc.prems(2) assms(1) by (intro Suc.IH) auto
    moreover have "take limit (drop k ?L) @ drop (k + limit) ?L = drop k ?L"
      by (metis add.commute append_take_drop_id drop_drop)
    ultimately show ?thesis using True page assms(1) by (simp add: cursor_at_def)
  qed (use page in simp)
qed simp

text \<open>Following the cursors from the first page gives every row once, in order of the keys.\<close>

lemma follow_all:
  assumes "0 < limit" "distinct (map key rows)" "\<forall>r \<in> set rows. fits r" "length rows < n"
  shows "follow (keyset_page key enc dec limit rows) n None = Some (sort_key key rows)"
  using follow_from [OF assms(1-3), of 0 n] assms(4) by (simp add: cursor_at_def)

end

end
