(* ===== verification/Pagination.thy ===== *)
theory Pagination
  imports Keyset FindingPipeline
begin

text \<open>
  Keyset pagination: the cursors of \<open>infrastructure/db/pagination.py\<close> and the findings list of
  \<open>infrastructure/db/repositories.py\<close>. Base64 is modelled as CPython decodes it; the JSON library, the
  conversion of integers and texts to floats and ISO timestamps are functions of a record.
\<close>

section \<open>Base64 with the URL-safe alphabet\<close>

definition b64_char :: "nat \<Rightarrow> char" where
  "b64_char n =
     (if n < 26 then char_of (65 + n) else if n < 52 then char_of (71 + n)
      else if n < 62 then char_of (n - 4) else if n = 62 then CHR ''-'' else CHR ''_'')"

text \<open>The value of a character; the decoder also takes the two characters of the standard alphabet.\<close>

definition b64_val :: "char \<Rightarrow> nat option" where
  "b64_val c =
     (let n = (of_char c :: nat) in
      if is_upper_alpha c then Some (n - 65) else if is_lower_alpha c then Some (n - 71)
      else if is_digit c then Some (n + 4)
      else if c = CHR ''-'' \<or> c = CHR ''+'' then Some 62
      else if c = CHR ''_'' \<or> c = CHR ''/'' then Some 63 else None)"

fun b64_encode :: "nat list \<Rightarrow> str" where
  "b64_encode [] = []"
| "b64_encode [a] = [b64_char (a div 4), b64_char (a mod 4 * 16), CHR ''='', CHR ''='']"
| "b64_encode [a, b] =
     [b64_char (a div 4), b64_char (a mod 4 * 16 + b div 16), b64_char (b mod 16 * 4), CHR ''='']"
| "b64_encode (a # b # c # r) =
     [b64_char (a div 4), b64_char (a mod 4 * 16 + b div 16), b64_char (b mod 16 * 4 + c div 64), b64_char (c mod 64)]
     @ b64_encode r"

text \<open>
  \<open>binascii.a2b_base64\<close>: position in the group of four, bits left over, padding seen. Characters
  outside the alphabet are skipped; None is \<open>binascii.Error\<close>.
\<close>

fun b64_scan :: "nat \<Rightarrow> nat \<Rightarrow> nat \<Rightarrow> str \<Rightarrow> nat list option" where
  "b64_scan q l p [] = (if q = 0 then Some [] else None)"
| "b64_scan q l p (c # s) =
     (if c = CHR ''='' then
        (if q \<ge> 2 then (if q + (p + 1) \<ge> 4 then Some [] else b64_scan q l (p + 1) s) else b64_scan q l p s)
      else (case b64_val c of
          None \<Rightarrow> b64_scan q l p s
        | Some v \<Rightarrow>
            if q = 0 then b64_scan 1 v 0 s
            else if q = 1 then map_option (Cons (l * 4 + v div 16)) (b64_scan 2 (v mod 16) 0 s)
            else if q = 2 then map_option (Cons (l * 16 + v div 4)) (b64_scan 3 (v mod 4) 0 s)
            else map_option (Cons (l * 64 + v)) (b64_scan 0 0 0 s)))"

definition bytes_of :: "str \<Rightarrow> nat list" where "bytes_of s = map of_char s"
definition text_of :: "nat list \<Rightarrow> str" where "text_of bs = map char_of bs"

section \<open>Cursors\<close>

record cursor_env =
  cu_dumps :: "json \<Rightarrow> str"
  cu_loads :: "str \<Rightarrow> loaded" \<comment> \<open>every \<open>ValueError\<close> counts as \<open>JSONDecodeError\<close>\<close>
  cu_float_of_int :: "int \<Rightarrow> pyfloat option" \<comment> \<open>None is \<open>OverflowError\<close>\<close>
  cu_float_of_str :: "str \<Rightarrow> pyfloat option"
  cu_isoformat :: "datetime \<Rightarrow> str"
  cu_fromisoformat :: "str \<Rightarrow> datetime option"
  cu_repr :: "json \<Rightarrow> str"

definition pack :: "cursor_env \<Rightarrow> obj \<Rightarrow> str" where
  "pack cu payload = rev (dropWhile (\<lambda>c. c = CHR ''='') (rev (b64_encode (bytes_of (cu_dumps cu (JObj payload))))))"

definition unpack :: "cursor_env \<Rightarrow> str \<Rightarrow> loaded" where
  "unpack cu cursor =
     (case b64_scan 0 0 0 (cursor @ replicate ((4 - length cursor mod 4) mod 4) (CHR ''='')) of
        None \<Rightarrow> JSONDecodeError []
      | Some bs \<Rightarrow> cu_loads cu (text_of bs))"

definition invalid_cursor :: control_exn where
  "invalid_cursor = Domain (ValidationError ''The pagination cursor is not valid.'' (Some ''cursor'') None)"

definition encode_cursor :: "cursor_env \<Rightarrow> datetime \<Rightarrow> uuid \<Rightarrow> str" where
  "encode_cursor cu created_at row_id =
     pack cu [(''t'', JStr (cu_isoformat cu created_at)), (''i'', JStr row_id)]"

text \<open>\<open>UUID(str(payload["i"]))\<close>.\<close>

definition cursor_row :: "cursor_env \<Rightarrow> obj \<Rightarrow> control_exn + uuid" where
  "cursor_row cu payload =
     (case dget payload ''i'' of None \<Rightarrow> Inl invalid_cursor
      | Some v \<Rightarrow> (case uuid_of (py_str (cu_repr cu) v) of None \<Rightarrow> Inl invalid_cursor | Some i \<Rightarrow> Inr i))"

definition decode_cursor :: "cursor_env \<Rightarrow> str \<Rightarrow> control_exn + datetime \<times> uuid" where
  "decode_cursor cu cursor =
     (case unpack cu cursor of
        LoadsCrash \<Rightarrow> Inl control_exn.Crash
      | JSONDecodeError m \<Rightarrow> Inl invalid_cursor
      | Loaded (JObj payload) \<Rightarrow>
          (case dget payload ''t'' of None \<Rightarrow> Inl invalid_cursor
           | Some v \<Rightarrow> (case cu_fromisoformat cu (py_str (cu_repr cu) v) of None \<Rightarrow> Inl invalid_cursor
               | Some t \<Rightarrow> res_bind (cursor_row cu payload) (\<lambda>i. Inr (t, i))))
      | Loaded _ \<Rightarrow> Inl invalid_cursor)"

definition encode_score_cursor :: "cursor_env \<Rightarrow> rat \<Rightarrow> uuid \<Rightarrow> str" where
  "encode_score_cursor cu score row_id = pack cu [(''s'', JFloat (Fin score)), (''i'', JStr row_id)]"

text \<open>\<open>float(x)\<close>: an \<open>OverflowError\<close> is not among the errors that are caught.\<close>

fun float_value :: "cursor_env \<Rightarrow> json \<Rightarrow> control_exn + pyfloat" where
  "float_value cu (JFloat x) = Inr x"
| "float_value cu (JInt n) = (case cu_float_of_int cu n of None \<Rightarrow> Inl control_exn.Crash | Some x \<Rightarrow> Inr x)"
| "float_value cu (JBool b) = Inr (Fin (if b then 1 else 0))"
| "float_value cu (JStr s) = (case cu_float_of_str cu s of None \<Rightarrow> Inl invalid_cursor | Some x \<Rightarrow> Inr x)"
| "float_value cu _ = Inl invalid_cursor"

definition decode_score_cursor :: "cursor_env \<Rightarrow> str \<Rightarrow> control_exn + pyfloat \<times> uuid" where
  "decode_score_cursor cu cursor =
     (case unpack cu cursor of
        LoadsCrash \<Rightarrow> Inl control_exn.Crash
      | JSONDecodeError m \<Rightarrow> Inl invalid_cursor
      | Loaded (JObj payload) \<Rightarrow>
          (case dget payload ''s'' of None \<Rightarrow> Inl invalid_cursor
           | Some v \<Rightarrow> res_bind (float_value cu v) (\<lambda>x. res_bind (cursor_row cu payload) (\<lambda>i. Inr (x, i))))
      | Loaded _ \<Rightarrow> Inl invalid_cursor)"

definition clamp_limit :: "int option \<Rightarrow> int \<Rightarrow> int \<Rightarrow> domain_error + int" where
  "clamp_limit limit dflt maximum =
     (case limit of None \<Rightarrow> Inr dflt
      | Some n \<Rightarrow> if n < 1 then Inl (ValidationError ''limit must be at least 1.'' (Some ''limit'') None)
          else Inr (min n maximum))"

section \<open>Decoding what was encoded\<close>

lemma of_b64_char:
  "n < 64 \<Longrightarrow> of_char (b64_char n) = (if n < 26 then 65 + n else if n < 52 then 71 + n else if n < 62 then n - 4
     else if n = 62 then 45 else 95 :: nat)"
  by (simp add: b64_char_def)

lemma b64_val_char [simp]: "n < 64 \<Longrightarrow> b64_val (b64_char n) = Some n"
proof -
  assume n: "n < 64"
  consider "n < 26" | "26 \<le> n" "n < 52" | "52 \<le> n" "n < 62" | "n = 62" | "n = 63" using n by linarith
  then show ?thesis
  proof cases
    case 3
    then have "48 \<le> n - 4" "n - 4 \<le> 57" by linarith+
    with 3 show ?thesis by (simp add: b64_val_def is_upper_alpha_def is_lower_alpha_def is_digit_def Let_def of_b64_char)
  next
    case 4 then show ?thesis by (simp add: b64_val_def b64_char_def is_upper_alpha_def is_lower_alpha_def is_digit_def)
  next
    case 5 then show ?thesis by (simp add: b64_val_def b64_char_def is_upper_alpha_def is_lower_alpha_def is_digit_def)
  qed (simp_all add: b64_val_def is_upper_alpha_def is_lower_alpha_def is_digit_def Let_def of_b64_char)
qed

lemma b64_char_eq [simp]: "n < 64 \<Longrightarrow> b64_char n \<noteq> CHR ''=''"
proof
  assume n: "n < 64" and eq: "b64_char n = CHR ''=''"
  have "of_char (b64_char n) = (61 :: nat)" unfolding eq by simp
  with n show False by (auto simp: of_b64_char split: if_splits)
qed

lemma digits_in_base: "y < n \<Longrightarrow> (x * n + y) div n = x" "y < n \<Longrightarrow> (x * n + y) mod n = y" for x y n :: nat
  by simp_all

lemma join_bits:
  fixes a b c :: nat
  assumes "a < 256" "b < 256" "c < 256"
  shows "a div 4 < 64" "a mod 4 * 16 + b div 16 < 64" "b mod 16 * 4 + c div 64 < 64" "c mod 64 < 64"
    "a mod 4 * 16 < 64" "b mod 16 * 4 < 64"
    "a div 4 * 4 + (a mod 4 * 16 + b div 16) div 16 = a"
    "(a mod 4 * 16 + b div 16) mod 16 * 16 + (b mod 16 * 4 + c div 64) div 4 = b"
    "(b mod 16 * 4 + c div 64) mod 4 * 64 + c mod 64 = c"
    "a div 4 * 4 + a mod 4 * 16 div 16 = a"
    "(a mod 4 * 16 + b div 16) mod 16 * 16 + b mod 16 * 4 div 4 = b"
proof -
  have lt: "b div 16 < 16" "c div 64 < 4" using assms by auto
  have m: "a mod 4 < 4" "b mod 16 < 16" by simp_all
  show "a div 4 < 64" "c mod 64 < 64" using assms by auto
  show "a mod 4 * 16 + b div 16 < 64" "b mod 16 * 4 + c div 64 < 64" "a mod 4 * 16 < 64" "b mod 16 * 4 < 64"
    using lt m by linarith+
  note d = digits_in_base [OF lt(1), of "a mod 4"] digits_in_base [OF lt(2), of "b mod 16"]
  show "a div 4 * 4 + (a mod 4 * 16 + b div 16) div 16 = a" "a div 4 * 4 + a mod 4 * 16 div 16 = a"
    "(a mod 4 * 16 + b div 16) mod 16 * 16 + (b mod 16 * 4 + c div 64) div 4 = b"
    "(a mod 4 * 16 + b div 16) mod 16 * 16 + b mod 16 * 4 div 4 = b"
    "(b mod 16 * 4 + c div 64) mod 4 * 64 + c mod 64 = c"
    unfolding d by simp_all
qed

lemma b64_scan_encode:
  assumes "\<forall>x \<in> set bs. x < 256" shows "b64_scan 0 0 0 (b64_encode bs) = Some bs"
  using assms
proof (induction bs rule: b64_encode.induct)
  case (2 a)
  then show ?case using join_bits [of a 0 0] by simp
next
  case (3 a b)
  then show ?case using join_bits [of a b 0] by simp
next
  case (4 a b c r)
  then have "a < 256" "b < 256" "c < 256" "b64_scan 0 0 0 (b64_encode r) = Some r" by auto
  then show ?case using join_bits [of a b c] by simp
qed simp

lemmas b64_eq_char [simp] = b64_char_eq [symmetric]

text \<open>An encoding is a body without padding characters, then as many as fill the last group.\<close>

lemma pads: "length b = 2 \<Longrightarrow> replicate ((4 - length b mod 4) mod 4) c = [c, c]"
  "length b = 3 \<Longrightarrow> replicate ((4 - length b mod 4) mod 4) c = [c]"
  by (simp_all add: numeral_2_eq_2)

lemma b64_encode_shape:
  assumes "\<forall>x \<in> set bs. x < 256"
  shows "\<exists>body. CHR ''='' \<notin> set body \<and> b64_encode bs = body @ replicate ((4 - length body mod 4) mod 4) (CHR ''='')"
  using assms
proof (induction bs rule: b64_encode.induct)
  case (2 a)
  then show ?case using join_bits [of a 0 0]
    by (intro exI [of _ "[b64_char (a div 4), b64_char (a mod 4 * 16)]"]) (subst pads(1), simp, simp)
next
  case (3 a b)
  then show ?case using join_bits [of a b 0]
    by (intro exI [of _ "[b64_char (a div 4), b64_char (a mod 4 * 16 + b div 16), b64_char (b mod 16 * 4)]"])
       (subst pads(2), simp, simp)
next
  case (4 a b c r)
  then obtain body where body: "CHR ''='' \<notin> set body" "b64_encode r = body @ replicate ((4 - length body mod 4) mod 4) (CHR ''='')"
    by auto
  define q where "q = [b64_char (a div 4), b64_char (a mod 4 * 16 + b div 16), b64_char (b mod 16 * 4 + c div 64), b64_char (c mod 64)]"
  have "a < 256" "b < 256" "c < 256" using 4(2) by auto
  then have "CHR ''='' \<notin> set q" using join_bits [of a b c] by (simp add: q_def)
  moreover have "b64_encode (a # b # c # r) = (q @ body) @ replicate ((4 - length body mod 4) mod 4) (CHR ''='')"
    using body(2) by (simp add: q_def)
  moreover have "length (q @ body) mod 4 = length body mod 4" by (simp add: q_def)
  ultimately have "CHR ''='' \<notin> set (q @ body) \<and>
      b64_encode (a # b # c # r) = (q @ body) @ replicate ((4 - length (q @ body) mod 4) mod 4) (CHR ''='')"
    using body(1) by simp
  then show ?case by blast
qed simp

lemma of_char_small: "of_char c < (256 :: nat)"
proof -
  have "of_char c mod 256 < (256 :: nat)" by simp
  then show ?thesis by (simp only: of_char_mod_256)
qed

lemma pack_body:
  obtains body where "pack cu payload = body"
    "b64_encode (bytes_of (cu_dumps cu (JObj payload))) = body @ replicate ((4 - length body mod 4) mod 4) (CHR ''='')"
proof -
  let ?bs = "bytes_of (cu_dumps cu (JObj payload))"
  have "\<forall>x \<in> set ?bs. x < 256" by (auto simp: bytes_of_def of_char_small)
  then obtain body where body: "CHR ''='' \<notin> set body"
    "b64_encode ?bs = body @ replicate ((4 - length body mod 4) mod 4) (CHR ''='')"
    using b64_encode_shape by blast
  have "dropWhile (\<lambda>c. c = CHR ''='') (replicate n (CHR ''='') @ rev body) = rev body" for n
    using body(1) hd_in_set [of "rev body"] by (induction n) (auto simp: dropWhile_eq_self_iff)
  then have "pack cu payload = body" unfolding pack_def body(2) by simp
  then show ?thesis using body(2) by (rule that)
qed

lemma unpack_pack:
  assumes "cu_loads cu (cu_dumps cu (JObj payload)) = Loaded (JObj payload)"
  shows "unpack cu (pack cu payload) = Loaded (JObj payload)"
proof -
  let ?bs = "bytes_of (cu_dumps cu (JObj payload))"
  obtain body where body: "pack cu payload = body" "b64_encode ?bs = body @ replicate ((4 - length body mod 4) mod 4) (CHR ''='')"
    by (rule pack_body)
  have "\<forall>x \<in> set ?bs. x < 256" by (auto simp: bytes_of_def of_char_small)
  from b64_scan_encode [OF this] body have "unpack cu (pack cu payload) = cu_loads cu (text_of ?bs)"
    by (simp add: unpack_def)
  moreover have "text_of ?bs = cu_dumps cu (JObj payload)" by (simp add: text_of_def bytes_of_def o_def)
  ultimately show ?thesis using assms by simp
qed

text \<open>The JSON library reads back what it wrote for this payload, and wrote something.\<close>

definition cursor_reads :: "cursor_env \<Rightarrow> obj \<Rightarrow> bool" where
  "cursor_reads cu payload \<longleftrightarrow>
     cu_loads cu (cu_dumps cu (JObj payload)) = Loaded (JObj payload) \<and> cu_dumps cu (JObj payload) \<noteq> []"

abbreviation time_payload :: "cursor_env \<Rightarrow> datetime \<Rightarrow> uuid \<Rightarrow> obj" where
  "time_payload cu t i \<equiv> [(''t'', JStr (cu_isoformat cu t)), (''i'', JStr i)]"

abbreviation score_payload :: "rat \<Rightarrow> uuid \<Rightarrow> obj" where
  "score_payload x i \<equiv> [(''s'', JFloat (Fin x)), (''i'', JStr i)]"

text \<open>
  Cursors come back as they were given out: when the JSON library reads back what it wrote, the
  ISO parser what it formatted, and the row id is a UUID, decoding an encoded cursor gives its two
  parts; and whatever text a client sends, decoding ends with two parts, with the one validation error
  for cursors, or with an error that is none of those the code catches, which takes a JSON decoder that
  crashes or an integer score too large for a float.
\<close>

theorem cursor_round_trip:
  assumes "cursor_reads cu (time_payload cu t i)" "cursor_reads cu (score_payload x i)"
    and "cu_fromisoformat cu (cu_isoformat cu t) = Some t" "uuid_of i = Some i"
  shows "decode_cursor cu (encode_cursor cu t i) = Inr (t, i)
    \<and> decode_score_cursor cu (encode_score_cursor cu x i) = Inr (Fin x, i)
    \<and> (\<forall>s e. decode_score_cursor cu s = Inl e \<longrightarrow> e = invalid_cursor \<or> e = control_exn.Crash
         \<and> (unpack cu s = LoadsCrash \<or> (\<exists>payload n. unpack cu s = Loaded (JObj payload) \<and> dget payload ''s'' = Some (JInt n)
              \<and> cu_float_of_int cu n = None)))"
proof (intro conjI allI impI)
  show "decode_cursor cu (encode_cursor cu t i) = Inr (t, i)" "decode_score_cursor cu (encode_score_cursor cu x i) = Inr (Fin x, i)"
    using assms by (simp_all add: decode_cursor_def encode_cursor_def decode_score_cursor_def encode_score_cursor_def
        unpack_pack cursor_reads_def dget_def cursor_row_def)
next
  fix s e assume e: "decode_score_cursor cu s = Inl e"
  show "e = invalid_cursor \<or> e = control_exn.Crash \<and> (unpack cu s = LoadsCrash \<or> (\<exists>payload n. unpack cu s = Loaded (JObj payload)
      \<and> dget payload ''s'' = Some (JInt n) \<and> cu_float_of_int cu n = None))"
  proof (cases "unpack cu s")
    case (Loaded j)
    show ?thesis
    proof (cases j)
      case (JObj payload)
      have row: "cursor_row cu payload = Inl e' \<Longrightarrow> e' = invalid_cursor" for e'
        by (auto simp: cursor_row_def split: option.splits)
      have num: "float_value cu v = Inl e' \<Longrightarrow> e' = invalid_cursor \<or> e' = control_exn.Crash \<and> (\<exists>n. v = JInt n \<and> cu_float_of_int cu n = None)" for v e'
        by (cases v) (auto split: option.splits)
      show ?thesis
        using e Loaded JObj row num by (auto simp: decode_score_cursor_def res_bind_Inl split: option.splits)
    qed (use e Loaded in \<open>simp_all add: decode_score_cursor_def\<close>)
  qed (use e in \<open>simp_all add: decode_score_cursor_def\<close>)
qed

section \<open>The findings list\<close>

record finding_query =
  fq_statuses :: "str list"
  fq_severities :: "str list"
  fq_rule_key :: str
  fq_application_id :: "uuid option"
  fq_environment :: str
  fq_search :: str

text \<open>SQL's \<open>LIKE\<close>; a backslash takes the next character literally.\<close>

fun like :: "str \<Rightarrow> str \<Rightarrow> bool" where
  "like [] s = (s = [])"
| "like (c # p) [] = (c = CHR ''%'' \<and> like p [])"
| "like (c # p) (d # s) =
     (if c = CHR ''%'' then like p (d # s) \<or> like (c # p) s
      else if c = CHR ''_'' then like p s
      else if c = CHR 0x5C then (case p of [] \<Rightarrow> False | e # p' \<Rightarrow> e = d \<and> like p' s)
      else c = d \<and> like p s)"

definition query_matches :: "finding_query \<Rightarrow> finding \<Rightarrow> bool" where
  "query_matches q f \<longleftrightarrow>
     (fq_statuses q = [] \<or> status_value (f_status f) \<in> set (fq_statuses q))
     \<and> (fq_severities q = [] \<or> severity_value (f_severity f) \<in> set (fq_severities q))
     \<and> (fq_rule_key q = [] \<or> f_rule_key f = lower (strip (fq_rule_key q)))
     \<and> (case fq_application_id q of None \<Rightarrow> True | Some i \<Rightarrow> f_application_id f = i)
     \<and> (fq_environment q = [] \<or> fq_environment q \<in> set (f_environments_seen f))
     \<and> (fq_search q = [] \<or> like (''%'' @ lower (strip (fq_search q)) @ ''%'') (lower (f_title f)))"

text \<open>The condition after a cursor; PostgreSQL orders NaN above every number.\<close>

fun after_score :: "pyfloat \<times> uuid \<Rightarrow> finding \<Rightarrow> bool" where
  "after_score (Fin x, i) f = (f_risk_score f < x \<or> f_risk_score f = x \<and> i < f_id f)"
| "after_score (NaN, i) f = True"
| "after_score (PosInf, i) f = True"
| "after_score (NegInf, i) f = False"

abbreviation queue_key :: "finding \<Rightarrow> rat \<times> str" where
  "queue_key f \<equiv> (- f_risk_score f, f_id f)"

definition queue :: "(finding \<Rightarrow> bool) \<Rightarrow> tenant_db \<Rightarrow> finding list" where
  "queue p db = sort_key queue_key (filter p (map snd (td_findings db)))"

definition findings_list_all ::
    "cursor_env \<Rightarrow> nat \<Rightarrow> str option \<Rightarrow> finding_query \<Rightarrow> tenant_db \<Rightarrow> control_exn + finding list \<times> str option" where
  "findings_list_all cu limit cursor q db =
     res_bind (case cursor of None \<Rightarrow> Inr (\<lambda>f. True)
               | Some c \<Rightarrow> if c = [] then Inr (\<lambda>f. True) else map_sum id after_score (decode_score_cursor cu c)) (\<lambda>after.
     let rows = take (limit + 1) (queue (\<lambda>f. query_matches q f \<and> after f) db) in
     if length rows > limit then
       (if limit = 0 then Inl control_exn.Crash
        else let page = take limit rows; f = last page in
          Inr (page, Some (encode_score_cursor cu (f_risk_score f) (f_id f))))
     else Inr (rows, None))"

definition list_occurrences :: "uuid \<Rightarrow> nat \<Rightarrow> tenant_db \<Rightarrow> occurrence list" where
  "list_occurrences finding_id limit db =
     take limit (sort_key (\<lambda>oc. - oc_observed_at oc) (filter (\<lambda>oc. oc_finding_id oc = finding_id) (td_occurrences db)))"

text \<open>A client that follows the cursors of the findings list.\<close>

definition all_pages :: "cursor_env \<Rightarrow> nat \<Rightarrow> finding_query \<Rightarrow> tenant_db \<Rightarrow> nat \<Rightarrow> str option \<Rightarrow> finding list option" where
  "all_pages cu limit q db = follow (\<lambda>cursor. findings_list_all cu limit cursor q db)"

lemma after_score_key: "after_score (Fin x, i) = (\<lambda>f. (- x, i) < queue_key f)"
  by (auto simp: fun_eq_iff)

lemma pack_ne:
  assumes "cursor_reads cu payload" shows "pack cu payload \<noteq> []"
proof
  assume e: "pack cu payload = []"
  have "b64_encode (bytes_of (cu_dumps cu (JObj payload))) = []"
    by (rule pack_body [of cu payload]) (use e in simp)
  then have "bytes_of (cu_dumps cu (JObj payload)) = []"
    by (cases "bytes_of (cu_dumps cu (JObj payload))" rule: b64_encode.cases) auto
  then show False using assms by (simp add: cursor_reads_def bytes_of_def)
qed

lemma score_cursor_round_trip:
  assumes "cursor_reads cu (score_payload x i)" "uuid_of i = Some i"
  shows "decode_score_cursor cu (encode_score_cursor cu x i) = Inr (Fin x, i)" "encode_score_cursor cu x i \<noteq> []"
  using assms pack_ne by (simp_all add: decode_score_cursor_def encode_score_cursor_def
        unpack_pack cursor_reads_def dget_def cursor_row_def)

text \<open>The two encodings of cursors are instances of the interface of keyset paging.\<close>

definition finding_cursor :: "cursor_env \<Rightarrow> finding \<Rightarrow> str" where
  "finding_cursor cu f = encode_score_cursor cu (f_risk_score f) (f_id f)"

interpretation finding_pages: keyset queue_key "finding_cursor cu"
  "\<lambda>c. map_sum id after_score (decode_score_cursor cu c)"
  "\<lambda>f. uuid_of (f_id f) = Some (f_id f) \<and> cursor_reads cu (score_payload (f_risk_score f) (f_id f))" for cu
  by unfold_locales (auto simp: finding_cursor_def score_cursor_round_trip after_score_key)

definition time_cursor :: "cursor_env \<Rightarrow> ('r \<Rightarrow> datetime \<times> uuid) \<Rightarrow> 'r \<Rightarrow> str" where
  "time_cursor cu key r = encode_cursor cu (fst (key r)) (snd (key r))"

definition after_time :: "cursor_env \<Rightarrow> ('r \<Rightarrow> datetime \<times> uuid) \<Rightarrow> str \<Rightarrow> control_exn + ('r \<Rightarrow> bool)" where
  "after_time cu key cursor = map_sum id (\<lambda>p r. p < key r) (decode_cursor cu cursor)"

text \<open>What makes a row fit for a time cursor: the two libraries read back what they wrote.\<close>

definition time_fits :: "cursor_env \<Rightarrow> datetime \<times> uuid \<Rightarrow> bool" where
  "time_fits cu p \<longleftrightarrow> uuid_of (snd p) = Some (snd p) \<and> cursor_reads cu (time_payload cu (fst p) (snd p))
     \<and> cu_fromisoformat cu (cu_isoformat cu (fst p)) = Some (fst p)"

lemma time_cursor_round_trip:
  assumes "time_fits cu (t, i)"
  shows "decode_cursor cu (encode_cursor cu t i) = Inr (t, i)" "encode_cursor cu t i \<noteq> []"
  using assms pack_ne by (simp_all add: time_fits_def decode_cursor_def encode_cursor_def
        unpack_pack cursor_reads_def dget_def cursor_row_def)

interpretation time_pages: keyset key "time_cursor cu key" "after_time cu key" "\<lambda>r. time_fits cu (key r)" for cu key
  by unfold_locales (auto simp: time_cursor_def after_time_def time_cursor_round_trip)

lemma findings_page:
  assumes "0 < limit"
  shows "findings_list_all cu limit cursor q db = keyset_page queue_key (finding_cursor cu)
     (\<lambda>c. map_sum id after_score (decode_score_cursor cu c)) limit
     (filter (query_matches q) (map snd (td_findings db))) cursor"
proof -
  have page: "(if length found > limit then
       (if limit = 0 then Inl control_exn.Crash
        else Inr (take limit found, Some (encode_score_cursor cu (f_risk_score (last (take limit found))) (f_id (last (take limit found))))))
     else Inr (found, None))
    = Inr (take limit found, if length found > limit \<and> take limit found \<noteq> [] then Some (finding_cursor cu (last (take limit found))) else None)"
    for found :: "finding list"
    using assms by (auto simp: finding_cursor_def)
  have rows: "queue (\<lambda>f. query_matches q f \<and> after f) db
      = sort_key queue_key (filter after (filter (query_matches q) (map snd (td_findings db))))" for after
    by (simp add: queue_def)
  show ?thesis unfolding findings_list_all_def keyset_page_def Let_def page rows ..
qed

text \<open>
  C19. Paging neither skips nor repeats: following the cursors from the first page of the findings
  list, with any page size of at least one and any filters, ends after at most one page more than there
  are matching findings, and the pages together are exactly the matching findings, each once, highest
  risk first and by id among equals.
\<close>

theorem paging_visits_each_finding_once:
  assumes "0 < limit" "distinct (map (f_id \<circ> snd) (td_findings db))"
    and "\<forall>f \<in> set (map snd (td_findings db)). uuid_of (f_id f) = Some (f_id f)
           \<and> cursor_reads cu (score_payload (f_risk_score f) (f_id f))"
  shows "\<exists>L. (\<forall>n > length (filter (query_matches q) (map snd (td_findings db))). all_pages cu limit q db n None = Some L)
    \<and> mset L = mset (filter (query_matches q) (map snd (td_findings db)))
    \<and> sorted_wrt (\<lambda>f g. f_risk_score f > f_risk_score g \<or> f_risk_score f = f_risk_score g \<and> f_id f < f_id g) L"
proof (intro exI conjI allI impI)
  let ?rows = "filter (query_matches q) (map snd (td_findings db))"
  have "distinct (map f_id (map snd (td_findings db)))" using assms(2) by simp
  then have "distinct (map f_id ?rows)" by (rule distinct_map_filter)
  then have keys: "distinct (map queue_key ?rows)" by (auto simp: distinct_map inj_on_def)
  show "mset (sort_key queue_key ?rows) = mset ?rows" by simp
  show "sorted_wrt (\<lambda>f g. f_risk_score f > f_risk_score g \<or> f_risk_score f = f_risk_score g \<and> f_id f < f_id g)
      (sort_key queue_key ?rows)"
    by (rule sorted_wrt_mono_rel [OF _ sorted_distinct_key [OF keys]]) auto
  fix n assume n: "n > length ?rows"
  have "all_pages cu limit q db n None = follow (keyset_page queue_key (finding_cursor cu)
      (\<lambda>c. map_sum id after_score (decode_score_cursor cu c)) limit ?rows) n None"
    unfolding all_pages_def findings_page [OF assms(1)] ..
  also have "\<dots> = Some (sort_key queue_key ?rows)"
    by (rule finding_pages.follow_all [OF assms(1) keys _ n]) (use assms(3) in auto)
  finally show "all_pages cu limit q db n None = Some (sort_key queue_key ?rows)" .
qed

section \<open>Samples\<close>

definition page_id :: "char \<Rightarrow> uuid" where
  "page_id c = ''00000000-0000-0000-0000-00000000000'' @ [c]"

definition page_finding :: "char \<Rightarrow> rat \<Rightarrow> finding" where
  "page_finding c x = sample_finding\<lparr>f_id := page_id c, f_risk_score := x\<rparr>"

definition page_db :: tenant_db where
  "page_db = \<lparr>td_agents = [], td_findings = map (\<lambda>f. (f_id f, f)) [page_finding CHR ''1'' 2, page_finding CHR ''2'' 7, page_finding CHR ''3'' 7],
     td_occurrences = []\<rparr>"

definition any_query :: finding_query where
  "any_query = \<lparr>fq_statuses = [], fq_severities = [], fq_rule_key = [], fq_application_id = None, fq_environment = [], fq_search = []\<rparr>"

text \<open>A JSON library that writes the row id only and knows the scores of the sample.\<close>

definition page_env :: cursor_env where
  "page_env =
     \<lparr>cu_dumps = (\<lambda>j. case j of JObj payload \<Rightarrow> (case jget payload ''i'' of JStr i \<Rightarrow>
            (if dget payload ''t'' = None then ''s'' else ''t'') @ i | _ \<Rightarrow> []) | _ \<Rightarrow> []),
      cu_loads = (\<lambda>t. if startswith t ''s'' then Loaded (JObj (score_payload (if t = ''s'' @ page_id CHR ''1'' then 2 else 7) (tl t)))
                      else if startswith t ''t'' then Loaded (JObj [(''t'', JStr ''now''), (''i'', JStr (tl t))])
                      else JSONDecodeError ''bad''),
      cu_float_of_int = (\<lambda>n. Some (Fin (of_int n))), cu_float_of_str = (\<lambda>t. None), cu_isoformat = (\<lambda>t. ''now''),
      cu_fromisoformat = (\<lambda>t. Some 9), cu_repr = (\<lambda>j. [])\<rparr>"

lemma page_reads:
  "cursor_reads page_env (score_payload 2 (page_id CHR ''1''))" "cursor_reads page_env (score_payload 7 (page_id CHR ''2''))"
  "cursor_reads page_env (score_payload 7 (page_id CHR ''3''))" "cursor_reads page_env (time_payload page_env 9 (page_id CHR ''2''))"
  by (simp_all add: cursor_reads_def page_env_def jget_def dget_def startswith_def page_id_def)

lemma page_uuid: "uuid_of (page_id CHR ''1'') = Some (page_id CHR ''1'')" "uuid_of (page_id CHR ''2'') = Some (page_id CHR ''2'')"
  "uuid_of (page_id CHR ''3'') = Some (page_id CHR ''3'')"
  by code_simp+

theorem cursor_round_trip_witness:
  "decode_cursor page_env (encode_cursor page_env 9 (page_id CHR ''2'')) = Inr (9, page_id CHR ''2'')
   \<and> decode_score_cursor page_env (encode_score_cursor page_env 7 (page_id CHR ''2'')) = Inr (Fin 7, page_id CHR ''2'')"
proof -
  have "cu_fromisoformat page_env (cu_isoformat page_env 9) = Some 9" by (simp add: page_env_def)
  from cursor_round_trip [OF page_reads(4,2) this page_uuid(2)] show ?thesis by blast
qed

theorem paging_visits_each_finding_once_witness:
  "\<exists>L. all_pages page_env 1 any_query page_db 4 None = Some L \<and> length L = 3"
proof -
  have rows: "map snd (td_findings page_db) = [page_finding CHR ''1'' 2, page_finding CHR ''2'' 7, page_finding CHR ''3'' 7]"
    by (simp add: page_db_def)
  have ids: "distinct (map (f_id \<circ> snd) (td_findings page_db))"
    by (simp add: page_db_def page_finding_def page_id_def)
  have reads: "\<forall>f \<in> set (map snd (td_findings page_db)). uuid_of (f_id f) = Some (f_id f)
      \<and> cursor_reads page_env (score_payload (f_risk_score f) (f_id f))"
    unfolding rows using page_reads page_uuid by (simp add: page_finding_def)
  have three: "length (filter (query_matches any_query) (map snd (td_findings page_db))) = 3"
    by (simp add: rows query_matches_def any_query_def)
  obtain L where "\<forall>n > length (filter (query_matches any_query) (map snd (td_findings page_db))). all_pages page_env 1 any_query page_db n None = Some L"
    and "mset L = mset (filter (query_matches any_query) (map snd (td_findings page_db)))"
    using paging_visits_each_finding_once [OF zero_less_one ids reads, of any_query] by blast
  then have "all_pages page_env 1 any_query page_db 4 None = Some L" "length L = 3"
    unfolding three by (simp, metis size_mset three)
  then show ?thesis by blast
qed

end
