(* ===== verification/SarifExport.thy ===== *)
theory SarifExport
  imports FindingExport Pagination
begin

text \<open>
  SARIF documents (\<open>application/sarif.py\<close>) and the formats of the second exporter
  (\<open>application/export.py\<close>), which the export endpoints serve. The text of a score
  (\<open>f"{x:.1f}"\<close>, \<open>str(x)\<close> of a float) is a parameter.
\<close>

section \<open>SARIF for pull requests\<close>

fun level_by_severity :: "severity \<Rightarrow> str" where
  "level_by_severity CRITICAL = ''error''"
| "level_by_severity HIGH = ''error''"
| "level_by_severity MEDIUM = ''warning''"
| "level_by_severity LOW = ''note''"
| "level_by_severity INFO = ''note''"

fun precision_by_confidence :: "confidence \<Rightarrow> str" where
  "precision_by_confidence EXPLOITED = ''very-high''"
| "precision_by_confidence CONFIRMED_FLOW = ''high''"
| "precision_by_confidence SUSPECTED = ''medium''"

definition artifact_uri :: "str \<Rightarrow> str" where
  "artifact_uri declaring_class =
     (let outer = outer_class declaring_class
      in if outer = [] then ''unknown'' else replace_char (CHR ''.'') ''/'' outer @ ''.java'')"

definition sarif_location :: "occurrence option \<Rightarrow> json list" where
  "sarif_location oc =
     (case oc of None \<Rightarrow> []
      | Some o1 \<Rightarrow>
          (case application_frame o1 of None \<Rightarrow> []
           | Some (declaring_class, _, line, _) \<Rightarrow>
               [JObj [(''physicalLocation'', JObj
                  ([(''artifactLocation'', JObj [(''uri'', JStr (artifact_uri declaring_class))])]
                   @ (if line > 0 then [(''region'', JObj [(''startLine'', JInt line)])] else [])))]]))"

definition sarif_message :: "finding \<Rightarrow> occurrence option \<Rightarrow> str" where
  "sarif_message f oc = join '' ''
     ([rule_title (f_rule_key f) @ '': '' @ lower (f_source_kind f) @ '' data reaches '' @ f_sink_signature f @ ''.'']
      @ (case f_route_templates f of [] \<Rightarrow> [] | r # _ \<Rightarrow> [''Observed on '' @ r @ ''.''])
      @ (if f_environments_seen f = [] then [] else [''Seen in '' @ join '', '' (f_environments_seen f) @ ''.''])
      @ (case oc of None \<Rightarrow> []
         | Some o1 \<Rightarrow> if oc_attack_detected o1 then [''An exploitation attempt reached this sink.''] else []))"

definition sarif_rule :: "str \<Rightarrow> json" where
  "sarif_rule rule_key =
     (let title = rule_title rule_key in JObj
       [(''id'', JStr rule_key), (''name'', JStr (replace_char (CHR '' '') [] title)),
        (''shortDescription'', JObj [(''text'', JStr title)]),
        (''fullDescription'', JObj [(''text'', JStr (title @
            '' confirmed at runtime: untrusted input was observed reaching a security-sensitive operation without adequate neutralization.''))]),
        (''help'', JObj [(''text'', JStr
            ''Aegis observed this by tracking the value from where it entered the application to where it was used. The finding is a real dataflow, not a pattern match.'')]),
        (''properties'', JObj [(''tags'', JList
            ([JStr ''security'', JStr rule_key]
             @ (case dget CWE_BY_RULE rule_key of None \<Rightarrow> [] | Some n \<Rightarrow> [JStr (''external/cwe/cwe-'' @ int_str n)])))])])"

definition sarif_suppression :: "finding \<Rightarrow> json list" where
  "sarif_suppression f =
     (if \<not> is_suppressed (f_status f) then []
      else [JObj
        [(''kind'', JStr ''external''), (''status'', JStr ''accepted''),
         (''justification'', JStr (if f_triage_note f \<noteq> [] then f_triage_note f
            else ''Marked '' @ status_value (f_status f) @ '' in Aegis.'')),
         (''properties'', JObj [(''aegisStatus'', JStr (status_value (f_status f))),
            (''aegisKind'', JStr (if f_status f = FALSE_POSITIVE then ''false-positive'' else ''external''))])]])"

text \<open>\<open>rule_keys.index(k)\<close> of a key that is in the list.\<close>

fun index_of :: "'a \<Rightarrow> 'a list \<Rightarrow> nat" where
  "index_of x [] = 0"
| "index_of x (y # ys) = (if y = x then 0 else Suc (index_of x ys))"

definition sarif_result :: "(rat \<Rightarrow> str) \<Rightarrow> nat \<Rightarrow> finding \<Rightarrow> occurrence option \<Rightarrow> json" where
  "sarif_result fixed1 idx f oc = JObj
     ([(''ruleId'', JStr (f_rule_key f)), (''ruleIndex'', JInt (int idx)),
       (''level'', JStr (level_by_severity (f_severity f))),
       (''message'', JObj [(''text'', JStr (sarif_message f oc))]),
       (''locations'', JList (sarif_location oc)),
       (''partialFingerprints'', JObj [(''aegisIdentityHash/v1'', JStr (f_identity_hash f))]),
       (''properties'', JObj
         ([(''security-severity'', JStr (fixed1 (f_risk_score f))),
           (''precision'', JStr (precision_by_confidence (f_confidence f))),
           (''aegisStatus'', JStr (status_value (f_status f))),
           (''aegisOccurrences'', JInt (int (f_occurrence_count f)))]
          @ (if f_would_block_count f \<noteq> 0 then [(''aegisWouldBlock'', JInt (int (f_would_block_count f)))] else [])))]
      @ (if sarif_suppression f \<noteq> [] then [(''suppressions'', JList (sarif_suppression f))] else []))"

text \<open>The keys seen so far and the results, in the order of the findings.\<close>

fun sarif_results ::
    "(rat \<Rightarrow> str) \<Rightarrow> str list \<Rightarrow> (finding \<times> occurrence option) list \<Rightarrow> str list \<times> json list" where
  "sarif_results fixed1 keys [] = (keys, [])"
| "sarif_results fixed1 keys ((f, oc) # ps) =
     (let keys1 = (if f_rule_key f \<in> set keys then keys else keys @ [f_rule_key f]);
          (keys2, rs) = sarif_results fixed1 keys1 ps
      in (keys2, sarif_result fixed1 (index_of (f_rule_key f) keys1) f oc # rs))"

definition sarif_document :: "str \<Rightarrow> str \<Rightarrow> json list \<Rightarrow> json list \<Rightarrow> json" where
  "sarif_document tool_version tool_uri rules results = JObj
     [(''$schema'', JStr ''https://json.schemastore.org/sarif-2.1.0.json''), (''version'', JStr ''2.1.0''),
      (''runs'', JList [JObj
        [(''tool'', JObj [(''driver'', JObj
            [(''name'', JStr ''Aegis IAST''), (''version'', JStr tool_version), (''informationUri'', JStr tool_uri),
             (''rules'', JList rules)])]),
         (''results'', JList results)]])]"

definition build_sarif :: "(rat \<Rightarrow> str) \<Rightarrow> str \<Rightarrow> str \<Rightarrow> (finding \<times> occurrence option) list \<Rightarrow> json" where
  "build_sarif fixed1 tool_version tool_uri ps =
     (case sarif_results fixed1 [] ps of (keys, results) \<Rightarrow>
        sarif_document tool_version tool_uri (map sarif_rule keys) results)"

lemma index_of_nth: "x \<in> set xs \<Longrightarrow> index_of x xs < length xs \<and> xs ! index_of x xs = x"
  by (induction xs) auto

lemma index_of_append: "x \<in> set xs \<Longrightarrow> index_of x (xs @ ys) = index_of x xs"
  by (induction xs) auto

lemma sarif_results_extend: "\<exists>more. fst (sarif_results fixed1 keys ps) = keys @ more"
  by (induction ps arbitrary: keys) (auto simp: Let_def split_beta, metis append.assoc)

text \<open>The rule index of every result points at the rule whose id the result names.\<close>

lemma sarif_rule_indexes:
  assumes "distinct keys" "sarif_results fixed1 keys ps = (keys', rs)"
  shows "distinct keys' \<and> length rs = length ps \<and>
    (\<forall>i < length ps. \<exists>j < length keys'. rs ! i = sarif_result fixed1 j (fst (ps ! i)) (snd (ps ! i)) \<and> keys' ! j = f_rule_key (fst (ps ! i)))"
  using assms
proof (induction ps arbitrary: keys rs)
  case (Cons p ps)
  obtain f oc where p: "p = (f, oc)" by (cases p)
  define keys1 where "keys1 = (if f_rule_key f \<in> set keys then keys else keys @ [f_rule_key f])"
  obtain rs' where rs': "sarif_results fixed1 keys1 ps = (keys', rs')"
    "rs = sarif_result fixed1 (index_of (f_rule_key f) keys1) f oc # rs'"
    using Cons.prems(2) p by (auto simp: Let_def split_beta keys1_def [symmetric] prod_eq_iff)
  have "distinct keys1" using Cons.prems(1) by (auto simp: keys1_def)
  note IH = Cons.IH [OF this rs'(1)]
  have inn: "f_rule_key f \<in> set keys1" by (auto simp: keys1_def)
  obtain more where more: "keys' = keys1 @ more" using sarif_results_extend [of fixed1 keys1 ps] rs'(1) by auto
  note index_of_nth [OF inn]
  then have "index_of (f_rule_key f) keys1 < length keys' \<and> keys' ! index_of (f_rule_key f) keys1 = f_rule_key f"
    unfolding more by (simp add: nth_append)
  then show ?case using IH rs'(2) p by (auto simp: All_less_Suc2)
qed simp

section \<open>The second exporter\<close>

text \<open>\<open>s.title()\<close>: a letter after a non-letter in upper case, other letters in lower case.\<close>

definition is_letter :: "char \<Rightarrow> bool" where "is_letter c \<longleftrightarrow> is_lower_alpha c \<or> is_upper_alpha c"

fun title_case :: "bool \<Rightarrow> str \<Rightarrow> str" where
  "title_case after_letter [] = []"
| "title_case after_letter (c # s) =
     (if after_letter then lower_char c else upper_char c) # title_case (is_letter c) s"

definition plain_sarif_rule :: "finding \<Rightarrow> json" where
  "plain_sarif_rule f = JObj
     [(''id'', JStr (f_rule_key f)),
      (''name'', JStr (title_case False (replace_char (CHR ''-'') '' '' (f_rule_key f)))),
      (''shortDescription'', JObj [(''text'', JStr (''Vulnerability rule: '' @ f_rule_key f))]),
      (''defaultConfiguration'', JObj [(''level'', JStr (level_by_severity (f_severity f)))])]"

definition plain_sarif_result :: "nat \<Rightarrow> finding \<Rightarrow> json" where
  "plain_sarif_result idx f = JObj
     [(''ruleId'', JStr (f_rule_key f)), (''ruleIndex'', JInt (int idx)),
      (''level'', JStr (level_by_severity (f_severity f))),
      (''message'', JObj [(''text'', JStr (''IAST detected '' @ f_rule_key f @ '' vulnerability at sink '' @ f_sink_signature f))]),
      (''locations'', JList [JObj [(''physicalLocation'', JObj
          [(''artifactLocation'', JObj [(''uri'', JStr (f_sink_signature f))]),
           (''region'', JObj [(''startLine'', JInt 1)])])]]),
      (''properties'', JObj
          [(''finding_id'', JStr (f_id f)), (''status'', JStr (status_value (f_status f))),
           (''confidence'', JStr (confidence_value (f_confidence f))),
           (''risk_score'', JFloat (Fin (f_risk_score f)))])]"

text \<open>The dictionary of rule indices holds the keys in the order of the rules.\<close>

fun plain_sarif_results :: "str list \<Rightarrow> finding list \<Rightarrow> json list \<times> json list" where
  "plain_sarif_results keys [] = ([], [])"
| "plain_sarif_results keys (f # fs) =
     (let keys1 = (if f_rule_key f \<in> set keys then keys else keys @ [f_rule_key f]);
          (rules, rs) = plain_sarif_results keys1 fs
      in ((if f_rule_key f \<in> set keys then rules else plain_sarif_rule f # rules),
          plain_sarif_result (index_of (f_rule_key f) keys1) f # rs))"

definition plain_sarif :: "finding list \<Rightarrow> json" where
  "plain_sarif fs =
     (case plain_sarif_results [] fs of (rules, results) \<Rightarrow>
        sarif_document ''0.2.0'' ''https://aegis.security'' rules results)"

text \<open>\<open>int(t.timestamp())\<close> of a time from 1970 on; a finding's time of creation is a column of its row.\<close>

definition plain_ocsf :: "datetime \<Rightarrow> datetime option \<Rightarrow> finding \<Rightarrow> json" where
  "plain_ocsf now created_at f = JObj
     [(''class_uid'', JInt 2002), (''class_name'', JStr ''Vulnerability Finding''), (''category_uid'', JInt 2),
      (''category_name'', JStr ''Findings''), (''severity_id'', JInt (ocsf_severity_id (f_severity f))),
      (''severity'', JStr (severity_value (f_severity f))), (''time'', JInt (now div 1000000)),
      (''activity_id'', JInt 1), (''activity_name'', JStr ''Create''),
      (''finding_info'', JObj
         [(''uid'', JStr (f_id f)), (''title'', JStr (f_rule_key f @ '' vulnerability in '' @ f_sink_signature f)),
          (''desc'', JStr (''Observed '' @ f_rule_key f @ '' with confidence '' @ confidence_value (f_confidence f))),
          (''created_time'', JInt ((case created_at of Some t \<Rightarrow> t | None \<Rightarrow> now) div 1000000)),
          (''status'', JStr (status_value (f_status f))), (''src_url'', JStr (f_sink_signature f))]),
      (''vulnerabilities'', JList [JObj
         [(''name'', JStr (f_rule_key f)), (''severity'', JStr (severity_value (f_severity f))),
          (''is_exploit_available'', JBool (confidence_value (f_confidence f) = ''EXPLOITED''))]])]"

definition plain_cef :: "(rat \<Rightarrow> str) \<Rightarrow> finding \<Rightarrow> str" where
  "plain_cef float_str f =
     ''CEF:0|Aegis|IAST|0.2.0|'' @ f_rule_key f @ ''|Aegis IAST Finding: '' @ f_rule_key f @ ''|''
     @ int_str (ocsf_severity_id (f_severity f) * 2) @ ''|''
     @ join '' ''
        [''cn1='' @ float_str (f_risk_score f), ''cn1Label=RiskScore'', ''cs1='' @ f_sink_signature f,
         ''cs1Label=SinkSignature'', ''cs2='' @ status_value (f_status f), ''cs2Label=FindingStatus'',
         ''cs3='' @ confidence_value (f_confidence f), ''cs3Label=Confidence'', ''externalId='' @ f_id f]"

text \<open>
  Without escaping, a sink signature that contains a space, a key and an equal sign forges a field: here
  a second risk score, which a collector reads as a field of its own.
\<close>

definition forging_finding :: "finding \<Rightarrow> finding" where
  "forging_finding f = f\<lparr>f_id := ''id1'', f_rule_key := ''xxe'', f_severity := LOW, f_confidence := SUSPECTED,
     f_status := OPEN, f_sink_signature := ''a cn1=0''\<rparr>"

lemma plain_cef_forges_a_field:
  "map_option snd (parse_cef (plain_cef (\<lambda>x. ''9'') (forging_finding f)))
     = Some [(''cn1'', ''9''), (''cn1Label'', ''RiskScore''), (''cs1'', ''a''), (''cn1'', ''0''),
             (''cs1Label'', ''SinkSignature''), (''cs2'', ''OPEN''), (''cs2Label'', ''FindingStatus''),
             (''cs3'', ''SUSPECTED''), (''cs3Label'', ''Confidence''), (''externalId'', ''id1'')]"
proof -
  have four: "int_str 4 = ''4''" by code_simp
  have "plain_cef (\<lambda>x. ''9'') (forging_finding f)
      = ''CEF:0|Aegis|IAST|0.2.0|xxe|Aegis IAST Finding: xxe|4|cn1=9 cn1Label=RiskScore cs1=a cn1=0 cs1Label=SinkSignature cs2=OPEN cs2Label=FindingStatus cs3=SUSPECTED cs3Label=Confidence externalId=id1''"
    using four by (simp add: plain_cef_def forging_finding_def)
  then show "map_option snd (parse_cef (plain_cef (\<lambda>x. ''9'') (forging_finding f)))
     = Some [(''cn1'', ''9''), (''cn1Label'', ''RiskScore''), (''cs1'', ''a''), (''cn1'', ''0''),
             (''cs1Label'', ''SinkSignature''), (''cs2'', ''OPEN''), (''cs2Label'', ''FindingStatus''),
             (''cs3'', ''SUSPECTED''), (''cs3Label'', ''Confidence''), (''externalId'', ''id1'')]"
    by (simp only:) code_simp
qed

section \<open>The use cases\<close>

definition export_query :: "str list \<Rightarrow> uuid option \<Rightarrow> finding_query" where
  "export_query statuses application_id =
     \<lparr>fq_statuses = statuses, fq_severities = [], fq_rule_key = [], fq_application_id = application_id,
      fq_environment = [], fq_search = []\<rparr>"

text \<open>The first findings of the queue, each with its latest occurrence.\<close>

definition export_pairs ::
    "cursor_env \<Rightarrow> nat \<Rightarrow> uuid option \<Rightarrow> tenant_db \<Rightarrow> control_exn + (finding \<times> occurrence option) list" where
  "export_pairs cu limit application_id db =
     res_bind (findings_list_all cu limit None (export_query [] application_id) db) (\<lambda>(fs, _).
       Inr (map (\<lambda>f. (f, case list_occurrences (f_id f) 1 db of [] \<Rightarrow> None | oc # _ \<Rightarrow> Some oc)) fs))"

definition export_for_siem ::
    "cursor_env \<Rightarrow> (datetime \<Rightarrow> int) \<Rightarrow> str \<Rightarrow> principal \<Rightarrow> str \<Rightarrow> uuid option \<Rightarrow> tenant_db
       \<Rightarrow> control_exn + (json + str) \<times> str" where
  "export_for_siem cu millis product_version pr fmt application_id db =
     res_bind (dom_res (require FINDING_READ pr)) (\<lambda>_.
     res_bind (export_pairs cu 5000 application_id db) (\<lambda>ps.
       if fmt = ''cef'' then
         (let lines = map (\<lambda>(f, oc). to_cef millis product_version 1024 f oc) ps
          in Inr (Inr (join [newline] lines @ (if lines = [] then [] else [newline])), ''text/plain; charset=utf-8''))
       else Inr (Inl (JList (map (\<lambda>(f, oc). to_ocsf millis product_version f oc) ps)), ''application/json'')))"

definition export_as_sarif ::
    "cursor_env \<Rightarrow> (rat \<Rightarrow> str) \<Rightarrow> str \<Rightarrow> str \<Rightarrow> principal \<Rightarrow> uuid option \<Rightarrow> tenant_db \<Rightarrow> control_exn + json" where
  "export_as_sarif cu fixed1 tool_version tool_uri pr application_id db =
     res_bind (dom_res (require FINDING_READ pr)) (\<lambda>_.
     res_bind (export_pairs cu 1000 application_id db) (\<lambda>ps.
       Inr (build_sarif fixed1 tool_version tool_uri ps)))"

text \<open>An unknown format is a \<open>ValueError\<close>, which nobody handles.\<close>

definition export_findings ::
    "cursor_env \<Rightarrow> (rat \<Rightarrow> str) \<Rightarrow> (finding \<Rightarrow> datetime option) \<Rightarrow> datetime \<Rightarrow> principal \<Rightarrow> str \<Rightarrow> uuid option \<Rightarrow> tenant_db
       \<Rightarrow> control_exn + (json + str) \<times> str" where
  "export_findings cu float_str created_at now pr fmt application_id db =
     res_bind (dom_res (require FINDING_READ pr)) (\<lambda>_.
     res_bind (findings_list_all cu 1000 None (export_query [''OPEN'', ''CONFIRMED''] application_id) db) (\<lambda>(fs, _).
       if lower fmt = ''sarif'' then Inr (Inl (plain_sarif fs), ''application/sarif+json'')
       else if lower fmt = ''ocsf'' then
         Inr (Inl (JObj [(''ocsf_events'', JList (map (\<lambda>f. plain_ocsf now (created_at f) f) fs))]), ''application/json'')
       else if lower fmt = ''cef'' then Inr (Inr (join [newline] (map (plain_cef float_str) fs)), ''text/plain'')
       else Inl control_exn.Crash))"

text \<open>Every exported CEF line reads back; the document has one line per finding.\<close>

lemma cef_export_lines:
  assumes "export_pairs cu 5000 application_id db = Inr ps" "FINDING_READ \<in> pr_permissions pr"
  shows "export_for_siem cu millis pv pr ''cef'' application_id db =
    Inr (Inr (concat (map (\<lambda>x. to_cef millis pv 1024 (fst x) (snd x) @ [newline]) ps)), ''text/plain; charset=utf-8'')"
proof -
  have joined: "join [newline] ls @ (if ls = [] then [] else [newline]) = concat (map (\<lambda>l. l @ [newline]) ls)" for ls :: "str list"
    by (induction ls rule: induct_list012) auto
  show ?thesis
    using assms joined [of "map (\<lambda>(f, oc). to_cef millis pv 1024 f oc) ps"]
    by (simp add: export_for_siem_def require_def raise_if_def dom_res_def Let_def o_def split_beta)
qed

end
