(* ===== verification/InventoryEntity.thy ===== *)
theory InventoryEntity
  imports ControlDb FindingPipeline
begin

text \<open>
  The inventory (\<open>domain/entities/inventory.py\<close>): applications, the environments they are deployed to
  and the agents that report from them. Environment kinds and criticalities are those the finding
  pipeline reads; slugs are their text.
\<close>

datatype language = JAVA | DOTNET | NODE | PYTHON | GO

fun language_value :: "language \<Rightarrow> str" where
  "language_value JAVA = ''JAVA''"
| "language_value DOTNET = ''DOTNET''"
| "language_value NODE = ''NODE''"
| "language_value PYTHON = ''PYTHON''"
| "language_value GO = ''GO''"

fun criticality_value :: "criticality \<Rightarrow> str" where
  "criticality_value LOW_CRIT = ''LOW''"
| "criticality_value MEDIUM_CRIT = ''MEDIUM''"
| "criticality_value HIGH_CRIT = ''HIGH''"
| "criticality_value CRITICAL_CRIT = ''CRITICAL''"

datatype protection_mode = MODE_OFF | MODE_MONITOR | MODE_BLOCK

fun mode_value :: "protection_mode \<Rightarrow> str" where
  "mode_value MODE_OFF = ''OFF''"
| "mode_value MODE_MONITOR = ''MONITOR''"
| "mode_value MODE_BLOCK = ''BLOCK''"

datatype agent_status = REGISTERED | ONLINE | DEGRADED | OFFLINE | DISABLED

fun agent_status_value :: "agent_status \<Rightarrow> str" where
  "agent_status_value REGISTERED = ''REGISTERED''"
| "agent_status_value ONLINE = ''ONLINE''"
| "agent_status_value DEGRADED = ''DEGRADED''"
| "agent_status_value OFFLINE = ''OFFLINE''"
| "agent_status_value DISABLED = ''DISABLED''"

section \<open>Applications\<close>

record application =
  ap_id :: uuid
  ap_organization_id :: uuid
  ap_name :: str
  ap_slug :: str
  ap_language :: language
  ap_criticality :: criticality
  ap_tags :: "str list"
  ap_repository_url :: "str option"
  ap_description :: str
  ap_created_at :: "datetime option"
  ap_updated_at :: "datetime option"

definition new_application ::
    "uuid \<Rightarrow> uuid \<Rightarrow> str \<Rightarrow> str \<Rightarrow> language \<Rightarrow> criticality \<Rightarrow> str list \<Rightarrow> str option \<Rightarrow> str \<Rightarrow> domain_error + application" where
  "new_application i org name slug_value lang crit tags url description =
     (let n = strip name in
      if n = [] then Inl (InvalidStateError ''An application must have a name.'')
      else if length n > 120 then Inl (InvalidStateError ''An application name may be at most 120 characters.'')
      else Inr \<lparr>ap_id = i, ap_organization_id = org, ap_name = n, ap_slug = slug_value, ap_language = lang,
        ap_criticality = crit, ap_tags = tags, ap_repository_url = url,
        ap_description = take 1000 (strip description), ap_created_at = None, ap_updated_at = None\<rparr>)"

text \<open>
  The two texts \<open>normalize_tags\<close> raises; the tag is shown as \<open>repr\<close> shows a text without quotes and
  control characters. Both callers turn the \<open>ValueError\<close> into a validation error.
\<close>

fun tag_error_message :: "tag_error \<Rightarrow> str" where
  "tag_error_message (Invalid_tag t) =
     ''Invalid tag '' @ [CHR 0x27] @ t @ [CHR 0x27] @ '': use 2-40 lowercase alphanumerics, dot, dash or underscore.''"
| "tag_error_message (Too_many_tags n) = ''At most '' @ nat_digits n @ '' tags are allowed.''"

definition checked_tags :: "nat \<Rightarrow> str list \<Rightarrow> domain_error + str list" where
  "checked_tags max_tags tags =
     map_sum (\<lambda>e. ValidationError (tag_error_message e) (Some ''tags'') None) id (normalize_tags max_tags tags)"

text \<open>\<open>text.strip()[:n] or None\<close>.\<close>

definition trimmed_or_none :: "nat \<Rightarrow> str \<Rightarrow> str option" where
  "trimmed_or_none n t = (let s = take n (strip t) in if s = [] then None else Some s)"

definition application_update ::
    "str option \<Rightarrow> criticality option \<Rightarrow> str list option \<Rightarrow> str option \<Rightarrow> str option \<Rightarrow> nat \<Rightarrow> application
       \<Rightarrow> domain_error + application" where
  "application_update name crit tags url description max_tags a0 =
     res_bind (case name of None \<Rightarrow> Inr a0
               | Some n \<Rightarrow> (if strip n = [] then Inl (InvalidStateError ''An application must have a name.'')
                            else Inr (a0\<lparr>ap_name := take 120 (strip n)\<rparr>))) (\<lambda>a1.
     let a2 = (case crit of None \<Rightarrow> a1 | Some c \<Rightarrow> a1\<lparr>ap_criticality := c\<rparr>) in
     res_bind (case tags of None \<Rightarrow> Inr a2
               | Some ts \<Rightarrow> map_sum id (\<lambda>ns. a2\<lparr>ap_tags := ns\<rparr>) (checked_tags max_tags ts)) (\<lambda>a3.
     let a4 = (case url of None \<Rightarrow> a3 | Some u \<Rightarrow> a3\<lparr>ap_repository_url := trimmed_or_none 500 u\<rparr>) in
     Inr (case description of None \<Rightarrow> a4 | Some d \<Rightarrow> a4\<lparr>ap_description := take 1000 (strip d)\<rparr>)))"

section \<open>Environments\<close>

record app_environment =
  ev_id :: uuid
  ev_organization_id :: uuid
  ev_application_id :: uuid
  ev_kind :: environment_kind
  ev_internet_facing :: bool
  ev_protection_mode :: protection_mode
  ev_soak_completed_at :: "datetime option"
  ev_created_at :: "datetime option"
  ev_updated_at :: "datetime option"

definition new_environment :: "uuid \<Rightarrow> uuid \<Rightarrow> uuid \<Rightarrow> environment_kind \<Rightarrow> bool \<Rightarrow> app_environment" where
  "new_environment i org app kind internet_facing =
     \<lparr>ev_id = i, ev_organization_id = org, ev_application_id = app, ev_kind = kind,
      ev_internet_facing = internet_facing, ev_protection_mode = MODE_MONITOR, ev_soak_completed_at = None,
      ev_created_at = None, ev_updated_at = None\<rparr>"

definition REQUIRED_SOAK_DAYS :: int where "REQUIRED_SOAK_DAYS = 14"

fun kind_weight :: "environment_kind \<Rightarrow> rat" where
  "kind_weight DEVELOPMENT_ENV = 3 / 10"
| "kind_weight QA_ENV = 4 / 10"
| "kind_weight STAGING_ENV = 7 / 10"
| "kind_weight PRODUCTION_ENV = 1"

definition environment_exposure :: "app_environment \<Rightarrow> rat" where
  "environment_exposure e = kind_weight (ev_kind e) * (if ev_internet_facing e then 13 / 10 else 1)"

definition soak_satisfied :: "datetime \<Rightarrow> app_environment \<Rightarrow> bool" where
  "soak_satisfied now e \<longleftrightarrow> (case ev_soak_completed_at e of None \<Rightarrow> False | Some t \<Rightarrow> t \<le> now)"

text \<open>Entering monitor mode from another mode starts the soak clock.\<close>

definition set_protection_mode ::
    "protection_mode \<Rightarrow> datetime \<Rightarrow> app_environment \<Rightarrow> domain_error + app_environment" where
  "set_protection_mode mode now e =
     (if mode = MODE_BLOCK \<and> ev_kind e = PRODUCTION_ENV \<and> \<not> soak_satisfied now e then
        Inl (InvalidStateError (''Blocking requires '' @ int_str REQUIRED_SOAK_DAYS @ '' days in monitor mode first.''))
      else
        let e1 = (if mode = MODE_MONITOR \<and> ev_protection_mode e \<noteq> MODE_MONITOR
                  then e\<lparr>ev_soak_completed_at := Some (now + days REQUIRED_SOAK_DAYS)\<rparr> else e)
        in Inr (e1\<lparr>ev_protection_mode := mode\<rparr>))"

section \<open>Agents\<close>

record agent =
  ag_id :: uuid
  ag_organization_id :: uuid
  ag_environment_id :: uuid
  ag_fingerprint :: str
  ag_hostname :: str
  ag_agent_version :: str
  ag_runtime_version :: str
  ag_language :: language
  ag_status :: agent_status
  ag_config_version :: str
  ag_last_seen_at :: "datetime option"
  ag_cpu_overhead_pct :: "rat option"
  ag_memory_mb :: "int option"
  ag_events_sent :: int
  ag_events_dropped :: int
  ag_health :: obj
  ag_pinned_version :: "str option"
  ag_created_at :: "datetime option"

definition OFFLINE_AFTER_SECONDS :: int where "OFFLINE_AFTER_SECONDS = 90"
definition DEGRADED_OVERHEAD_PCT :: rat where "DEGRADED_OVERHEAD_PCT = 5"

definition new_agent ::
    "uuid \<Rightarrow> uuid \<Rightarrow> uuid \<Rightarrow> str \<Rightarrow> str \<Rightarrow> str \<Rightarrow> str \<Rightarrow> language \<Rightarrow> str \<Rightarrow> datetime option \<Rightarrow> domain_error + agent" where
  "new_agent i org env_id fingerprint hostname agent_version runtime_version lang config_version created =
     (let fp = strip fingerprint in
      if fp = [] then Inl (InvalidStateError ''An agent must present a fingerprint.'')
      else Inr \<lparr>ag_id = i, ag_organization_id = org, ag_environment_id = env_id, ag_fingerprint = fp,
        ag_hostname = take 255 (if hostname = [] then ''unknown'' else hostname),
        ag_agent_version = agent_version, ag_runtime_version = runtime_version, ag_language = lang,
        ag_status = REGISTERED, ag_config_version = config_version, ag_last_seen_at = None,
        ag_cpu_overhead_pct = None, ag_memory_mb = None, ag_events_sent = 0, ag_events_dropped = 0,
        ag_health = [], ag_pinned_version = None, ag_created_at = created\<rparr>)"

record heartbeat =
  hb_cpu_overhead_pct :: "rat option"
  hb_memory_mb :: "int option"
  hb_events_sent :: int
  hb_events_dropped :: int
  hb_health :: "obj option"

definition reports_degraded :: "heartbeat \<Rightarrow> bool" where
  "reports_degraded hb \<longleftrightarrow>
     (case hb_cpu_overhead_pct hb of None \<Rightarrow> False | Some p \<Rightarrow> p > DEGRADED_OVERHEAD_PCT)
     \<or> (case hb_health hb of None \<Rightarrow> False | Some h \<Rightarrow> truthy (jget h ''hooks_disabled''))"

definition agent_heartbeat :: "datetime \<Rightarrow> heartbeat \<Rightarrow> agent \<Rightarrow> domain_error + agent" where
  "agent_heartbeat now hb a =
     (if ag_status a = DISABLED then Inl (InvalidStateError ''A disabled agent may not report.'')
      else Inr (a\<lparr>ag_last_seen_at := Some now, ag_cpu_overhead_pct := hb_cpu_overhead_pct hb,
             ag_memory_mb := hb_memory_mb hb,
             ag_events_sent := ag_events_sent a + max 0 (hb_events_sent hb),
             ag_events_dropped := ag_events_dropped a + max 0 (hb_events_dropped hb),
             ag_health := (case hb_health hb of None \<Rightarrow> ag_health a | Some h \<Rightarrow> h),
             ag_status := (if reports_degraded hb then DEGRADED else ONLINE)\<rparr>))"

definition evaluate_liveness :: "datetime \<Rightarrow> agent \<Rightarrow> agent" where
  "evaluate_liveness now a =
     (if ag_status a = DISABLED then a
      else case ag_last_seen_at a of None \<Rightarrow> a
        | Some t \<Rightarrow> if now - t > seconds OFFLINE_AFTER_SECONDS then a\<lparr>ag_status := OFFLINE\<rparr> else a)"

definition agent_disable :: "agent \<Rightarrow> agent" where "agent_disable a = a\<lparr>ag_status := DISABLED\<rparr>"

definition agent_enable :: "agent \<Rightarrow> agent" where
  "agent_enable a = (if ag_status a = DISABLED then a\<lparr>ag_status := REGISTERED\<rparr> else a)"

definition pin_version :: "str option \<Rightarrow> agent \<Rightarrow> agent" where
  "pin_version v a = a\<lparr>ag_pinned_version := trimmed_or_none 40 (case v of None \<Rightarrow> [] | Some t \<Rightarrow> t)\<rparr>"

definition apply_config :: "str \<Rightarrow> agent \<Rightarrow> agent" where "apply_config v a = a\<lparr>ag_config_version := v\<rparr>"

text \<open>The pipeline's exposure is the one of the environment an event comes from.\<close>

lemma environment_exposure_is_pipeline_weight:
  "environment_exposure e
     = exposure_weight \<lparr>ac_application_id = a, ac_environment_kind = ev_kind e,
         ac_internet_facing = ev_internet_facing e, ac_criticality = c, ac_protection_mode = m\<rparr>"
  by (cases "ev_kind e") (simp_all add: environment_exposure_def exposure_weight_def)

end
