(* ===== verification/Fleet.thy ===== *)
theory Fleet
  imports InventoryEntity Auth Pagination
begin

text \<open>
  The application inventory and the agent fleet (\<open>application/inventory.py\<close>, \<open>application/agents.py\<close>,
  the sweep of \<open>operations.py\<close>) over three more tables beside those of \<open>ControlDb\<close>. Every operation
  returns its result beside the database: the new one after the commit, the old one when an
  exception ended the unit of work.
\<close>

section \<open>Tables\<close>

record fleet_db =
  fd_core :: control_db
  fd_applications :: "(uuid, application) dict"
  fd_environments :: "(uuid, app_environment) dict"
  fd_agents :: "(uuid, agent) dict"

definition scoped_applications :: "fleet_db \<Rightarrow> uuid \<Rightarrow> application list" where
  "scoped_applications db org = filter (\<lambda>a. ap_organization_id a = org) (map snd (fd_applications db))"

definition applications_get :: "fleet_db \<Rightarrow> uuid \<Rightarrow> uuid \<Rightarrow> application option" where
  "applications_get db org i =
     (case dget (fd_applications db) i of
        Some a \<Rightarrow> if ap_organization_id a = org then Some a else None | None \<Rightarrow> None)"

definition applications_get_by_slug :: "fleet_db \<Rightarrow> uuid \<Rightarrow> str \<Rightarrow> application option" where
  "applications_get_by_slug db org s = find (\<lambda>a. ap_slug a = s) (scoped_applications db org)"

definition applications_count :: "fleet_db \<Rightarrow> uuid \<Rightarrow> nat" where
  "applications_count db org = length (scoped_applications db org)"

text \<open>Both times of a new row are the database's.\<close>

definition applications_add :: "datetime \<Rightarrow> application \<Rightarrow> fleet_db \<Rightarrow> fleet_db" where
  "applications_add db_now a db =
     db\<lparr>fd_applications := dput (ap_id a) (a\<lparr>ap_created_at := Some db_now, ap_updated_at := Some db_now\<rparr>)
          (fd_applications db)\<rparr>"

text \<open>
  An update writes some columns of the row, and the time of the update when one of them has changed:
  the mapper issues no statement for a row without changes.
\<close>

definition applications_update :: "datetime \<Rightarrow> application \<Rightarrow> fleet_db \<Rightarrow> fleet_db" where
  "applications_update db_now a db =
     (case dget (fd_applications db) (ap_id a) of None \<Rightarrow> db
      | Some row \<Rightarrow>
          let new = row\<lparr>ap_name := ap_name a, ap_criticality := ap_criticality a, ap_tags := ap_tags a,
                        ap_repository_url := ap_repository_url a, ap_description := ap_description a\<rparr>
          in if new = row then db
             else db\<lparr>fd_applications := dput (ap_id a) (new\<lparr>ap_updated_at := Some db_now\<rparr>) (fd_applications db)\<rparr>)"

text \<open>Deleting an application deletes its environments and their agents (\<open>ON DELETE CASCADE\<close>).\<close>

definition applications_delete :: "uuid \<Rightarrow> uuid \<Rightarrow> fleet_db \<Rightarrow> fleet_db" where
  "applications_delete org i db =
     (case applications_get db org i of None \<Rightarrow> db
      | Some _ \<Rightarrow>
          let gone = filter (\<lambda>(_, e). ev_application_id e = i) (fd_environments db)
          in db\<lparr>fd_applications := ddel i (fd_applications db),
                fd_environments := filter (\<lambda>(_, e). ev_application_id e \<noteq> i) (fd_environments db),
                fd_agents := filter (\<lambda>(_, a). ag_environment_id a \<notin> fst ` set gone) (fd_agents db)\<rparr>)"

definition scoped_environments :: "fleet_db \<Rightarrow> uuid \<Rightarrow> app_environment list" where
  "scoped_environments db org = filter (\<lambda>e. ev_organization_id e = org) (map snd (fd_environments db))"

definition environments_get :: "fleet_db \<Rightarrow> uuid \<Rightarrow> uuid \<Rightarrow> app_environment option" where
  "environments_get db org i =
     (case dget (fd_environments db) i of
        Some e \<Rightarrow> if ev_organization_id e = org then Some e else None | None \<Rightarrow> None)"

definition list_for_application :: "fleet_db \<Rightarrow> uuid \<Rightarrow> uuid \<Rightarrow> app_environment list" where
  "list_for_application db org app =
     sort_key (\<lambda>e. environment_value (ev_kind e)) (filter (\<lambda>e. ev_application_id e = app) (scoped_environments db org))"

definition environments_find :: "fleet_db \<Rightarrow> uuid \<Rightarrow> uuid \<Rightarrow> environment_kind \<Rightarrow> app_environment option" where
  "environments_find db org app kind =
     find (\<lambda>e. ev_application_id e = app \<and> ev_kind e = kind) (scoped_environments db org)"

text \<open>Insert, under the constraint of one environment per application and kind.\<close>

definition environments_add :: "datetime \<Rightarrow> app_environment \<Rightarrow> fleet_db \<Rightarrow> control_exn + fleet_db" where
  "environments_add db_now e db =
     (if \<exists>(_, r) \<in> set (fd_environments db). ev_application_id r = ev_application_id e \<and> ev_kind r = ev_kind e
      then Inl control_exn.Crash
      else Inr (db\<lparr>fd_environments :=
        dput (ev_id e) (e\<lparr>ev_created_at := Some db_now, ev_updated_at := Some db_now\<rparr>) (fd_environments db)\<rparr>))"

definition environments_update :: "datetime \<Rightarrow> app_environment \<Rightarrow> fleet_db \<Rightarrow> fleet_db" where
  "environments_update db_now e db =
     (case dget (fd_environments db) (ev_id e) of None \<Rightarrow> db
      | Some row \<Rightarrow>
          let new = row\<lparr>ev_internet_facing := ev_internet_facing e, ev_protection_mode := ev_protection_mode e,
                        ev_soak_completed_at := ev_soak_completed_at e\<rparr>
          in if new = row then db
             else db\<lparr>fd_environments := dput (ev_id e) (new\<lparr>ev_updated_at := Some db_now\<rparr>) (fd_environments db)\<rparr>)"

definition scoped_agents :: "fleet_db \<Rightarrow> uuid \<Rightarrow> agent list" where
  "scoped_agents db org = filter (\<lambda>a. ag_organization_id a = org) (map snd (fd_agents db))"

definition agents_get :: "fleet_db \<Rightarrow> uuid \<Rightarrow> uuid \<Rightarrow> agent option" where
  "agents_get db org i =
     (case dget (fd_agents db) i of
        Some a \<Rightarrow> if ag_organization_id a = org then Some a else None | None \<Rightarrow> None)"

definition agents_get_by_fingerprint :: "fleet_db \<Rightarrow> uuid \<Rightarrow> str \<Rightarrow> agent option" where
  "agents_get_by_fingerprint db org fp = find (\<lambda>a. ag_fingerprint a = fp) (scoped_agents db org)"

definition agents_count :: "fleet_db \<Rightarrow> uuid \<Rightarrow> nat" where
  "agents_count db org = length (scoped_agents db org)"

text \<open>Insert; the fingerprint column is unique over all organizations.\<close>

definition agents_add :: "datetime \<Rightarrow> agent \<Rightarrow> fleet_db \<Rightarrow> control_exn + fleet_db" where
  "agents_add db_now a db =
     (if \<exists>(_, r) \<in> set (fd_agents db). ag_fingerprint r = ag_fingerprint a then Inl control_exn.Crash
      else Inr (db\<lparr>fd_agents := dput (ag_id a) (a\<lparr>ag_created_at := Some db_now\<rparr>) (fd_agents db)\<rparr>))"

definition agents_update :: "agent \<Rightarrow> fleet_db \<Rightarrow> fleet_db" where
  "agents_update a db =
     (case dget (fd_agents db) (ag_id a) of None \<Rightarrow> db
      | Some row \<Rightarrow> db\<lparr>fd_agents := dput (ag_id a)
          (row\<lparr>ag_environment_id := ag_environment_id a, ag_hostname := ag_hostname a,
               ag_agent_version := ag_agent_version a, ag_runtime_version := ag_runtime_version a,
               ag_status := ag_status a, ag_config_version := ag_config_version a,
               ag_cpu_overhead_pct := ag_cpu_overhead_pct a, ag_memory_mb := ag_memory_mb a,
               ag_events_sent := ag_events_sent a, ag_events_dropped := ag_events_dropped a,
               ag_health := ag_health a, ag_pinned_version := ag_pinned_version a,
               ag_last_seen_at := ag_last_seen_at a\<rparr>) (fd_agents db)\<rparr>)"

text \<open>
  The join through which the finding pipeline resolves the agent of an event
  (\<open>SqlFindingRepository.resolve_agent_context\<close>): the table \<open>td_agents\<close> of a tenant.
\<close>

definition agent_context_of :: "fleet_db \<Rightarrow> uuid \<Rightarrow> uuid \<Rightarrow> agent_context option" where
  "agent_context_of db org i =
     Option.bind (agents_get db org i) (\<lambda>a.
     Option.bind (dget (fd_environments db) (ag_environment_id a)) (\<lambda>e.
     Option.bind (dget (fd_applications db) (ev_application_id e)) (\<lambda>p.
     Some \<lparr>ac_application_id = ap_id p, ac_environment_kind = ev_kind e,
           ac_internet_facing = ev_internet_facing e, ac_criticality = ap_criticality p,
           ac_protection_mode = mode_value (ev_protection_mode e)\<rparr>)))"

definition fleet_audit :: "control_env \<Rightarrow> uuid \<Rightarrow> uuid \<Rightarrow> audit_call \<Rightarrow> fleet_db \<Rightarrow> control_exn + fleet_db" where
  "fleet_audit env bound i c db = map_sum id (\<lambda>core. db\<lparr>fd_core := core\<rparr>) (record_audit env bound i c (fd_core db))"

definition check_license :: "(license \<Rightarrow> domain_error + unit) \<Rightarrow> fleet_db \<Rightarrow> uuid \<Rightarrow> control_exn + unit" where
  "check_license check db org =
     (case licenses_get_for_organization (fd_core db) org of None \<Rightarrow> Inr () | Some l \<Rightarrow> dom_res (check l))"

type_synonym 'a fleet_outcome = "(control_exn + 'a) \<times> fleet_db"

section \<open>Summaries\<close>

record environment_summary =
  es_id :: uuid
  es_application_id :: uuid
  es_kind :: str
  es_internet_facing :: bool
  es_protection_mode :: str
  es_created_at :: "datetime option"

definition summarize_environment :: "app_environment \<Rightarrow> environment_summary" where
  "summarize_environment e =
     \<lparr>es_id = ev_id e, es_application_id = ev_application_id e, es_kind = environment_value (ev_kind e),
      es_internet_facing = ev_internet_facing e, es_protection_mode = mode_value (ev_protection_mode e),
      es_created_at = ev_created_at e\<rparr>"

record application_summary =
  as_id :: uuid
  as_name :: str
  as_slug :: str
  as_language :: str
  as_criticality :: str
  as_tags :: "str list"
  as_repository_url :: "str option"
  as_description :: str
  as_created_at :: "datetime option"
  as_environments :: "environment_summary list"

definition summarize_application :: "application \<Rightarrow> app_environment list \<Rightarrow> application_summary" where
  "summarize_application a envs =
     \<lparr>as_id = ap_id a, as_name = ap_name a, as_slug = ap_slug a, as_language = language_value (ap_language a),
      as_criticality = criticality_value (ap_criticality a), as_tags = ap_tags a,
      as_repository_url = ap_repository_url a, as_description = ap_description a,
      as_created_at = ap_created_at a, as_environments = map summarize_environment envs\<rparr>"

record agent_summary =
  ys_id :: uuid
  ys_environment_id :: uuid
  ys_fingerprint :: str
  ys_hostname :: str
  ys_language :: str
  ys_agent_version :: str
  ys_runtime_version :: str
  ys_status :: str
  ys_config_version :: str
  ys_cpu_overhead_pct :: "rat option"
  ys_memory_mb :: "int option"
  ys_events_sent :: int
  ys_events_dropped :: int
  ys_pinned_version :: "str option"
  ys_last_seen_at :: "datetime option"
  ys_created_at :: "datetime option"

definition summarize_agent :: "agent \<Rightarrow> agent_summary" where
  "summarize_agent a =
     \<lparr>ys_id = ag_id a, ys_environment_id = ag_environment_id a, ys_fingerprint = ag_fingerprint a,
      ys_hostname = ag_hostname a, ys_language = language_value (ag_language a),
      ys_agent_version = ag_agent_version a, ys_runtime_version = ag_runtime_version a,
      ys_status = agent_status_value (ag_status a), ys_config_version = ag_config_version a,
      ys_cpu_overhead_pct = ag_cpu_overhead_pct a, ys_memory_mb = ag_memory_mb a,
      ys_events_sent = ag_events_sent a, ys_events_dropped = ag_events_dropped a,
      ys_pinned_version = ag_pinned_version a, ys_last_seen_at = ag_last_seen_at a,
      ys_created_at = ag_created_at a\<rparr>"

section \<open>Applications and environments\<close>

definition get_application :: "principal \<Rightarrow> uuid \<Rightarrow> fleet_db \<Rightarrow> control_exn + application_summary" where
  "get_application pr i db =
     (let org = pr_organization_id pr in
      res_bind (dom_res (require APP_READ pr)) (\<lambda>_.
      res_bind (expect (NotFoundError ''Application'') (applications_get db org i)) (\<lambda>a.
      Inr (summarize_application a (list_for_application db org i)))))"

definition list_environments :: "principal \<Rightarrow> uuid \<Rightarrow> fleet_db \<Rightarrow> control_exn + environment_summary list" where
  "list_environments pr i db =
     (let org = pr_organization_id pr in
      res_bind (dom_res (require APP_READ pr)) (\<lambda>_.
      res_bind (expect (NotFoundError ''Application'') (applications_get db org i)) (\<lambda>a.
      Inr (map summarize_environment (list_for_application db org i)))))"

text \<open>The environments of a new application; the \<open>n\<close>th gets the id \<open>fresh (k + n)\<close>.\<close>

fun add_environments ::
    "control_env \<Rightarrow> nat \<Rightarrow> uuid \<Rightarrow> uuid \<Rightarrow> (environment_kind \<times> bool) list \<Rightarrow> fleet_db
       \<Rightarrow> control_exn + app_environment list \<times> fleet_db" where
  "add_environments env k org app [] db = Inr ([], db)"
| "add_environments env k org app ((kind, facing) # others) db =
     (let e = new_environment (ce_fresh env k) org app kind facing in
      res_bind (environments_add (ce_db_now env) e db) (\<lambda>db1.
      res_bind (add_environments env (k + 1) org app others db1) (\<lambda>(es, db2).
      Inr (e # es, db2))))"

definition create_application ::
    "control_env \<Rightarrow> nat \<Rightarrow> principal \<Rightarrow> str \<Rightarrow> language \<Rightarrow> criticality \<Rightarrow> str list \<Rightarrow> str option \<Rightarrow> str
       \<Rightarrow> (environment_kind \<times> bool) list \<Rightarrow> fleet_db \<Rightarrow> application_summary fleet_outcome" where
  "create_application env max_tags pr name lang crit tags url description envs db = in_transaction db
     (let org = pr_organization_id pr in
      res_bind (dom_res (require APP_WRITE pr)) (\<lambda>_.
      res_bind (dom_res (checked_tags max_tags tags)) (\<lambda>ts.
      res_bind (check_license (\<lambda>l. check_applications l (applications_count db org)) db org) (\<lambda>_.
      res_bind (dom_res (slug_from_name (ce_ascii env) name)) (\<lambda>sl.
      res_bind (dom_res (raise_if (applications_get_by_slug db org sl \<noteq> None)
         (ConflictError (''An application with the slug '' @ [CHR 0x27] @ sl @ [CHR 0x27] @ '' already exists.'')))) (\<lambda>_.
      res_bind (dom_res (new_application (ce_fresh env 0) org name sl lang crit ts
         (case url of None \<Rightarrow> None | Some u \<Rightarrow> if strip u = [] then None else Some (strip u)) description)) (\<lambda>a.
      res_bind (add_environments env 2 org (ap_id a) (if envs = [] then [(PRODUCTION_ENV, False)] else envs)
         (applications_add (ce_db_now env) a db)) (\<lambda>(created, db1).
      res_bind (fleet_audit env org (ce_fresh env 1)
         (audit_by pr ''application.created'' ''application'' (ap_id a)
            [(''name'', JStr (ap_name a)), (''language'', JStr (language_value lang)),
             (''criticality'', JStr (criticality_value crit)),
             (''environments'', JList (map (\<lambda>e. JStr (environment_value (ev_kind e))) created))]) db1) (\<lambda>db2.
      Inr (summarize_application a created, db2))))))))))"

definition update_application ::
    "control_env \<Rightarrow> nat \<Rightarrow> principal \<Rightarrow> uuid \<Rightarrow> str option \<Rightarrow> criticality option \<Rightarrow> str list option \<Rightarrow> str option
       \<Rightarrow> str option \<Rightarrow> fleet_db \<Rightarrow> application_summary fleet_outcome" where
  "update_application env max_tags pr i name crit tags url description db = in_transaction db
     (let org = pr_organization_id pr in
      res_bind (dom_res (require APP_WRITE pr)) (\<lambda>_.
      res_bind (expect (NotFoundError ''Application'') (applications_get db org i)) (\<lambda>a0.
      res_bind (dom_res (application_update name crit tags url description max_tags a0)) (\<lambda>a.
      res_bind (fleet_audit env org (ce_fresh env 0)
         (audit_by pr ''application.updated'' ''application'' (ap_id a)
            [(''name'', JStr (ap_name a)), (''criticality'', JStr (criticality_value (ap_criticality a)))])
         (applications_update (ce_db_now env) a db)) (\<lambda>db1.
      Inr (summarize_application a (list_for_application db1 org (ap_id a)), db1))))))"

definition delete_application ::
    "control_env \<Rightarrow> principal \<Rightarrow> uuid \<Rightarrow> fleet_db \<Rightarrow> unit fleet_outcome" where
  "delete_application env pr i db = in_transaction db
     (let org = pr_organization_id pr in
      res_bind (dom_res (require APP_DELETE pr)) (\<lambda>_.
      res_bind (expect (NotFoundError ''Application'') (applications_get db org i)) (\<lambda>a.
      res_bind (fleet_audit env org (ce_fresh env 0)
         (audit_by pr ''application.deleted'' ''application'' i
            [(''name'', JStr (ap_name a)), (''slug'', JStr (ap_slug a))])
         (applications_delete org i db)) (\<lambda>db1.
      Inr ((), db1)))))"

definition create_environment ::
    "control_env \<Rightarrow> principal \<Rightarrow> uuid \<Rightarrow> environment_kind \<Rightarrow> bool \<Rightarrow> fleet_db \<Rightarrow> environment_summary fleet_outcome" where
  "create_environment env pr app kind facing db = in_transaction db
     (let org = pr_organization_id pr in
      res_bind (dom_res (require APP_WRITE pr)) (\<lambda>_.
      res_bind (expect (NotFoundError ''Application'') (applications_get db org app)) (\<lambda>_.
      res_bind (dom_res (raise_if (environments_find db org app kind \<noteq> None)
         (ConflictError (''A '' @ environment_value kind @ '' environment already exists for this application.'')))) (\<lambda>_.
      let e = new_environment (ce_fresh env 0) org app kind facing in
      res_bind (environments_add (ce_db_now env) e db) (\<lambda>db1.
      res_bind (fleet_audit env org (ce_fresh env 1)
         (audit_by pr ''environment.created'' ''environment'' (ev_id e)
            [(''application_id'', JStr app), (''kind'', JStr (environment_value kind))]) db1) (\<lambda>db2.
      Inr (summarize_environment e, db2)))))))"

definition change_protection_mode ::
    "control_env \<Rightarrow> principal \<Rightarrow> uuid \<Rightarrow> protection_mode \<Rightarrow> fleet_db \<Rightarrow> environment_summary fleet_outcome" where
  "change_protection_mode env pr i mode db = in_transaction db
     (let org = pr_organization_id pr in
      res_bind (dom_res (require POLICY_WRITE pr)) (\<lambda>_.
      res_bind (expect (NotFoundError ''Environment'') (environments_get db org i)) (\<lambda>e0.
      res_bind (check_license (\<lambda>l. raise_if (mode = MODE_BLOCK \<and> \<not> li_protection_enabled l)
         (FeatureNotLicensedError ''Application Detection & Response blocking'')) db org) (\<lambda>_.
      res_bind (dom_res (set_protection_mode mode (ce_now env) e0)) (\<lambda>e.
      res_bind (fleet_audit env org (ce_fresh env 0)
         (audit_by pr ''environment.protection_mode_changed'' ''environment'' (ev_id e)
            [(''from'', JStr (mode_value (ev_protection_mode e0))), (''to'', JStr (mode_value mode))])
         (environments_update (ce_db_now env) e db)) (\<lambda>db1.
      Inr (summarize_environment e, db1)))))))"

section \<open>Agents\<close>

definition HEARTBEAT_INTERVAL_SECONDS :: int where "HEARTBEAT_INTERVAL_SECONDS = 30"
definition AGENT_TOKEN_TTL_SECONDS :: int where "AGENT_TOKEN_TTL_SECONDS = 86400"
definition AGENT_TOKEN_AUDIENCE :: str where "AGENT_TOKEN_AUDIENCE = ''aegis:agent''"

definition DEFAULT_REDACT_KEYS :: "str list" where
  "DEFAULT_REDACT_KEYS =
     [''password'', ''passwd'', ''secret'', ''token'', ''api_key'', ''apikey'', ''authorization'', ''cookie'',
      ''set-cookie'', ''session'', ''ssn'', ''card'', ''cvv'', ''pan'', ''private_key'']"

definition DEFAULT_ENABLED_RULES :: "str list" where
  "DEFAULT_ENABLED_RULES =
     [''sql-injection'', ''command-injection'', ''path-traversal'', ''unsafe-deserialization'', ''xxe'',
      ''reflected-xss'', ''ssrf'', ''ldap-injection'', ''xpath-injection'', ''open-redirect'',
      ''weak-cryptography'', ''insecure-cookie'', ''missing-security-headers'', ''verbose-error-response'',
      ''hardcoded-credentials'', ''sensitive-data-in-log'']"

text \<open>\<open>issue_challenge\<close> for the purpose \<open>agent\<close>.\<close>

definition codec_issue_agent :: "auth_deps \<Rightarrow> uuid \<Rightarrow> uuid \<Rightarrow> int \<Rightarrow> datetime \<Rightarrow> str" where
  "codec_issue_agent deps subject org ttl_seconds now =
     ad_encode deps
       [(''iss'', JStr (ad_issuer deps)), (''aud'', JStr ''aegis:agent''), (''sub'', JStr subject),
        (''org'', JStr org), (''purpose'', JStr ''agent''), (''iat'', JInt (timestamp now)),
        (''exp'', JInt (timestamp (now + seconds ttl_seconds))), (''jti'', JStr (ad_jti deps))]"

definition config_version :: "app_environment \<Rightarrow> datetime \<Rightarrow> str" where
  "config_version e now =
     (let updated = (case ev_updated_at e of Some t \<Rightarrow> t
                     | None \<Rightarrow> (case ev_created_at e of Some t \<Rightarrow> t | None \<Rightarrow> now))
      in mode_value (ev_protection_mode e) @ ''-'' @ int_str (timestamp updated))"

text \<open>The application of that name, or a new one with the ids \<open>fresh 0\<close> and, for its audit entry, \<open>fresh 1\<close>.\<close>

definition ensure_application ::
    "control_env \<Rightarrow> principal \<Rightarrow> str \<Rightarrow> language \<Rightarrow> fleet_db \<Rightarrow> control_exn + application \<times> fleet_db" where
  "ensure_application env pr name lang db =
     (let org = pr_organization_id pr in
      res_bind (dom_res (slug_from_name (ce_ascii env) name)) (\<lambda>sl.
      case applications_get_by_slug db org sl of
        Some a \<Rightarrow> Inr (a, db)
      | None \<Rightarrow>
          res_bind (check_license (\<lambda>l. check_applications l (applications_count db org)) db org) (\<lambda>_.
          res_bind (dom_res (new_application (ce_fresh env 0) org (strip name) sl lang MEDIUM_CRIT [] None [])) (\<lambda>a.
          res_bind (fleet_audit env org (ce_fresh env 1)
             (audit_by pr ''application.created'' ''application'' (ap_id a)
                [(''name'', JStr (ap_name a)), (''discovered_by'', JStr ''agent'')])
             (applications_add (ce_db_now env) a db)) (\<lambda>db1.
          Inr (a, db1))))))"

definition ensure_environment ::
    "control_env \<Rightarrow> principal \<Rightarrow> application \<Rightarrow> environment_kind \<Rightarrow> fleet_db \<Rightarrow> control_exn + app_environment \<times> fleet_db" where
  "ensure_environment env pr a kind db =
     (case environments_find db (pr_organization_id pr) (ap_id a) kind of
        Some e \<Rightarrow> Inr (e, db)
      | None \<Rightarrow>
          let e = new_environment (ce_fresh env 2) (pr_organization_id pr) (ap_id a) kind False in
          res_bind (environments_add (ce_db_now env) e db) (\<lambda>db1. Inr (e, db1)))"

record agent_registration =
  ar_agent :: agent_summary
  ar_agent_token :: str
  ar_agent_token_expires_at :: datetime
  ar_config_version :: str
  ar_heartbeat_interval_seconds :: int

record agent_facts =
  af_fingerprint :: str
  af_hostname :: str
  af_agent_version :: str
  af_runtime_version :: str
  af_language :: language

text \<open>A fingerprint the organization has not seen gets a row, within the licence.\<close>

definition enrol_agent ::
    "control_env \<Rightarrow> principal \<Rightarrow> application \<Rightarrow> app_environment \<Rightarrow> agent_facts \<Rightarrow> fleet_db \<Rightarrow> control_exn + agent \<times> fleet_db" where
  "enrol_agent env pr app e facts db =
     (let org = pr_organization_id pr in
      res_bind (check_license (\<lambda>l. check_agents l (agents_count db org)) db org) (\<lambda>_.
      res_bind (dom_res (new_agent (ce_fresh env 3) org (ev_id e) (strip (af_fingerprint facts)) (af_hostname facts)
         (af_agent_version facts) (af_runtime_version facts) (af_language facts)
         (config_version e (ce_now env)) (Some (ce_now env)))) (\<lambda>a.
      res_bind (agents_add (ce_db_now env) a db) (\<lambda>db1.
      res_bind (fleet_audit env org (ce_fresh env 4)
         (audit_by pr ''agent.registered'' ''agent'' (ag_id a)
            [(''application'', JStr (ap_name app)), (''environment'', JStr (environment_value (ev_kind e))),
             (''language'', JStr (language_value (af_language facts))),
             (''agent_version'', JStr (af_agent_version facts)), (''hostname'', JStr (ag_hostname a))]) db1) (\<lambda>db2.
      Inr (a, db2))))))"

text \<open>A known one keeps its row.\<close>

definition refresh_agent :: "control_env \<Rightarrow> app_environment \<Rightarrow> agent_facts \<Rightarrow> agent \<Rightarrow> agent" where
  "refresh_agent env e facts a =
     agent_enable (a\<lparr>ag_hostname := take 255 (af_hostname facts), ag_agent_version := af_agent_version facts,
                     ag_runtime_version := af_runtime_version facts, ag_environment_id := ev_id e,
                     ag_config_version := config_version e (ce_now env)\<rparr>)"

definition register_agent ::
    "auth_deps \<Rightarrow> control_env \<Rightarrow> principal \<Rightarrow> str \<Rightarrow> environment_kind \<Rightarrow> agent_facts \<Rightarrow> fleet_db
       \<Rightarrow> agent_registration fleet_outcome" where
  "register_agent deps env pr application_name kind facts db = in_transaction db
     (let org = pr_organization_id pr; now = ce_now env in
      res_bind (dom_res (require AGENT_WRITE pr)) (\<lambda>_.
      res_bind (dom_res (raise_if (strip (af_fingerprint facts) = [])
         (ValidationError ''A fingerprint is required.'' (Some ''fingerprint'') None))) (\<lambda>_.
      res_bind (ensure_application env pr application_name (af_language facts) db) (\<lambda>(app, db1).
      res_bind (ensure_environment env pr app kind db1) (\<lambda>(e, db2).
      res_bind (case agents_get_by_fingerprint db2 org (strip (af_fingerprint facts)) of
          None \<Rightarrow> enrol_agent env pr app e facts db2
        | Some a0 \<Rightarrow> let a = refresh_agent env e facts a0 in Inr (a, agents_update a db2)) (\<lambda>(a, db3).
      Inr (\<lparr>ar_agent = summarize_agent a,
            ar_agent_token = codec_issue_agent deps (ag_id a) org AGENT_TOKEN_TTL_SECONDS now,
            ar_agent_token_expires_at = now + seconds AGENT_TOKEN_TTL_SECONDS,
            ar_config_version = ag_config_version a,
            ar_heartbeat_interval_seconds = HEARTBEAT_INTERVAL_SECONDS\<rparr>, db3)))))))"

text \<open>The agent behind an agent credential.\<close>

definition own_agent :: "str \<Rightarrow> principal \<Rightarrow> fleet_db \<Rightarrow> control_exn + agent" where
  "own_agent refusal pr db =
     (case (pr_kind pr, pr_agent_id pr) of
        (ACTOR_AGENT, Some i) \<Rightarrow> expect (NotFoundError ''Agent'') (agents_get db (pr_organization_id pr) i)
      | _ \<Rightarrow> Inl (Domain (AuthenticationError (Some refusal))))"

definition record_heartbeat ::
    "control_env \<Rightarrow> principal \<Rightarrow> heartbeat \<Rightarrow> fleet_db \<Rightarrow> agent_summary fleet_outcome" where
  "record_heartbeat env pr hb db = in_transaction db
     (res_bind (own_agent ''Only an agent credential may report a heartbeat.'' pr db) (\<lambda>a0.
      res_bind (dom_res (agent_heartbeat (ce_now env) hb a0)) (\<lambda>a1.
      let a = (case environments_get db (pr_organization_id pr) (ag_environment_id a1) of
                 None \<Rightarrow> a1 | Some e \<Rightarrow> apply_config (config_version e (ce_now env)) a1)
      in Inr (summarize_agent a, agents_update a db))))"

text \<open>What Python iterates over: the items, the characters of a text, the keys of an object.\<close>

fun py_iter :: "json \<Rightarrow> json list option" where
  "py_iter (JList xs) = Some xs"
| "py_iter (JStr s) = Some (map (\<lambda>c. JStr [c]) s)"
| "py_iter (JObj d) = Some (map (\<lambda>(k, _). JStr k) d)"
| "py_iter _ = None"

record agent_configuration =
  gc_config_version :: str
  gc_protection_mode :: str
  gc_capture_request_body :: str
  gc_max_value_length :: int
  gc_redact_keys :: "str list"
  gc_cpu_budget_pct :: pyfloat
  gc_enabled_rules :: "json list"
  gc_heartbeat_interval_seconds :: int

definition setting :: "obj \<Rightarrow> str \<Rightarrow> json \<Rightarrow> json" where
  "setting settings k d = (case dget settings k of None \<Rightarrow> d | Some v \<Rightarrow> v)"

text \<open>
  \<open>rp\<close> is \<open>repr\<close> of values that are no texts, \<open>fl\<close> is \<open>float\<close>. A setting of a type the conversions
  refuse raises an error nobody handles.
\<close>

definition get_agent_configuration ::
    "(json \<Rightarrow> str) \<Rightarrow> (json \<Rightarrow> pyfloat option) \<Rightarrow> principal \<Rightarrow> fleet_db \<Rightarrow> control_exn + agent_configuration" where
  "get_agent_configuration rp fl pr db =
     (let org = pr_organization_id pr in
      res_bind (own_agent ''Only an agent credential may fetch agent configuration.'' pr db) (\<lambda>a.
      res_bind (expect (NotFoundError ''Environment'') (environments_get db org (ag_environment_id a))) (\<lambda>e.
      let settings = (case organizations_get (fd_core db) org of None \<Rightarrow> [] | Some o1 \<Rightarrow> og_settings o1) in
      res_bind (case py_iter (setting settings ''redact_keys'' (JList [])) of
          None \<Rightarrow> Inl control_exn.Crash | Some ks \<Rightarrow> Inr (map (\<lambda>k. lower (py_str rp k)) ks)) (\<lambda>extra_keys.
      res_bind (case py_int_of (setting settings ''max_value_length'' (JInt 512)) of
          Int_value n \<Rightarrow> Inr n | _ \<Rightarrow> Inl control_exn.Crash) (\<lambda>max_len.
      res_bind (case fl (setting settings ''cpu_budget_pct'' (JFloat (Fin 5))) of
          None \<Rightarrow> Inl control_exn.Crash | Some x \<Rightarrow> Inr x) (\<lambda>budget.
      res_bind (case py_iter (setting settings ''enabled_rules'' (JList (map JStr DEFAULT_ENABLED_RULES))) of
          None \<Rightarrow> Inl control_exn.Crash | Some rs \<Rightarrow> Inr rs) (\<lambda>rules.
      Inr \<lparr>gc_config_version = ag_config_version a, gc_protection_mode = mode_value (ev_protection_mode e),
           gc_capture_request_body = py_str rp (setting settings ''capture_request_body'' (JStr ''TRUNCATED'')),
           gc_max_value_length = max_len, gc_redact_keys = sort (remdups (DEFAULT_REDACT_KEYS @ extra_keys)),
           gc_cpu_budget_pct = budget, gc_enabled_rules = rules,
           gc_heartbeat_interval_seconds = HEARTBEAT_INTERVAL_SECONDS\<rparr>)))))))"

definition resolve_agent_principal ::
    "auth_deps \<Rightarrow> str \<Rightarrow> request_context \<Rightarrow> fleet_db \<Rightarrow> control_exn + principal" where
  "resolve_agent_principal deps token ctx db =
     res_bind (codec_decode deps token AGENT_TOKEN_AUDIENCE) (\<lambda>claims.
     res_bind (dom_res (raise_if (jget claims ''purpose'' \<noteq> JStr ''agent'')
        (TokenError (Some ''This token is not an agent credential.'')))) (\<lambda>_.
     res_bind (claim_uuid claims ''sub'') (\<lambda>agent_id.
     res_bind (claim_uuid claims ''org'') (\<lambda>org.
     case agents_get db org agent_id of
       None \<Rightarrow> Inl invalid_credentials
     | Some a \<Rightarrow>
         if ag_status a = DISABLED then Inl invalid_credentials
         else Inr \<lparr>pr_kind = ACTOR_AGENT, pr_organization_id = org, pr_permissions = {}, pr_user_id = None,
           pr_session_id = None, pr_api_key_id = None, pr_agent_id = Some agent_id, pr_membership_id = None,
           pr_label = ''agent:'' @ ag_hostname a, pr_mfa_satisfied = True, pr_is_platform_admin = False,
           pr_is_owner = False, pr_context = ctx\<rparr>))))"

definition agent_key :: "agent \<Rightarrow> datetime \<times> uuid" where
  "agent_key a = (case ag_created_at a of None \<Rightarrow> 0 | Some t \<Rightarrow> t, ag_id a)"

definition agents_list_all ::
    "cursor_env \<Rightarrow> nat \<Rightarrow> str option \<Rightarrow> uuid \<Rightarrow> fleet_db \<Rightarrow> str option \<Rightarrow> control_exn + agent list \<times> str option" where
  "agents_list_all cu limit status org db cursor =
     keyset_page agent_key (time_cursor cu agent_key) (after_time cu agent_key) limit
       (filter (\<lambda>a. status = None \<or> status = Some [] \<or> status = Some (agent_status_value (ag_status a)))
          (scoped_agents db org)) cursor"

definition list_agents ::
    "cursor_env \<Rightarrow> principal \<Rightarrow> nat \<Rightarrow> str option \<Rightarrow> str option \<Rightarrow> fleet_db
       \<Rightarrow> control_exn + agent_summary list \<times> str option" where
  "list_agents cu pr limit cursor status db =
     res_bind (dom_res (require AGENT_READ pr)) (\<lambda>_.
     map_sum id (\<lambda>(as, c). (map summarize_agent as, c))
       (agents_list_all cu limit status (pr_organization_id pr) db cursor))"

definition get_agent :: "principal \<Rightarrow> uuid \<Rightarrow> fleet_db \<Rightarrow> control_exn + agent_summary" where
  "get_agent pr i db =
     res_bind (dom_res (require AGENT_READ pr)) (\<lambda>_.
     map_sum id summarize_agent (expect (NotFoundError ''Agent'') (agents_get db (pr_organization_id pr) i)))"

definition update_agent ::
    "control_env \<Rightarrow> principal \<Rightarrow> uuid \<Rightarrow> bool option \<Rightarrow> str option \<Rightarrow> fleet_db \<Rightarrow> agent_summary fleet_outcome" where
  "update_agent env pr i enabled pinned db = in_transaction db
     (let org = pr_organization_id pr in
      res_bind (dom_res (require AGENT_WRITE pr)) (\<lambda>_.
      res_bind (expect (NotFoundError ''Agent'') (agents_get db org i)) (\<lambda>a0.
      let a1 = (case enabled of None \<Rightarrow> a0 | Some b \<Rightarrow> if b then agent_enable a0 else agent_disable a0);
          a = (case pinned of None \<Rightarrow> a1 | Some v \<Rightarrow> pin_version (Some v) a1);
          changed = (case enabled of None \<Rightarrow> [] | Some b \<Rightarrow> [(''enabled'', JBool b)])
            @ (case pinned of None \<Rightarrow> []
               | Some _ \<Rightarrow> [(''pinned_version'', case ag_pinned_version a of None \<Rightarrow> JNull | Some v \<Rightarrow> JStr v)])
      in res_bind (fleet_audit env org (ce_fresh env 0) (audit_by pr ''agent.updated'' ''agent'' (ag_id a) changed)
           (agents_update a db)) (\<lambda>db1.
         Inr (summarize_agent a, db1)))))"

section \<open>The sweep\<close>

definition sweep_agent :: "datetime \<Rightarrow> agent \<Rightarrow> nat \<times> fleet_db \<Rightarrow> nat \<times> fleet_db" where
  "sweep_agent now a = (\<lambda>(demoted, db).
     let b = evaluate_liveness now a in
     if ag_status b \<noteq> ag_status a then (demoted + 1, agents_update b db) else (demoted, db))"

text \<open>The loop over the pages; None when the fuel ends.\<close>

fun sweep_pages ::
    "cursor_env \<Rightarrow> datetime \<Rightarrow> uuid \<Rightarrow> nat \<Rightarrow> str option \<Rightarrow> nat \<times> fleet_db \<Rightarrow> (control_exn + nat \<times> fleet_db) option" where
  "sweep_pages cu now org 0 cursor st = None"
| "sweep_pages cu now org (Suc n) cursor st =
     (case agents_list_all cu 200 None org (snd st) cursor of
        Inl e \<Rightarrow> Some (Inl e)
      | Inr (page, next_cursor) \<Rightarrow>
          let st1 = foldl (\<lambda>s a. sweep_agent now a s) st page in
          (case next_cursor of None \<Rightarrow> Some (Inr st1) | Some c \<Rightarrow> sweep_pages cu now org n (Some c) st1))"

definition sweep_offline_agents ::
    "cursor_env \<Rightarrow> control_env \<Rightarrow> nat \<Rightarrow> str \<Rightarrow> fleet_db \<Rightarrow> nat fleet_outcome option" where
  "sweep_offline_agents cu env fuel organization_slug db =
     (case res_bind (dom_res (slug organization_slug)) (\<lambda>sl.
             expect (NotFoundError ''Organization'') (organizations_get_by_slug (fd_core db) sl)) of
        Inl e \<Rightarrow> Some (Inl e, db)
      | Inr o1 \<Rightarrow> map_option (in_transaction db) (sweep_pages cu (ce_now env) (og_id o1) fuel None (0, db)))"

section \<open>Listing applications\<close>

definition application_key :: "application \<Rightarrow> datetime \<times> uuid" where
  "application_key a = (case ap_created_at a of None \<Rightarrow> 0 | Some t \<Rightarrow> t, ap_id a)"

definition application_matches :: "str \<Rightarrow> str list \<Rightarrow> application \<Rightarrow> bool" where
  "application_matches search tags a \<longleftrightarrow>
     (search = [] \<or> like (''%'' @ lower (strip search) @ ''%'') (lower (ap_name a))
        \<or> like (''%'' @ lower (strip search) @ ''%'') (ap_slug a))
     \<and> set (map lower tags) \<subseteq> set (ap_tags a)"

definition applications_list_all ::
    "cursor_env \<Rightarrow> nat \<Rightarrow> str \<Rightarrow> str list \<Rightarrow> uuid \<Rightarrow> fleet_db \<Rightarrow> str option \<Rightarrow> control_exn + application list \<times> str option" where
  "applications_list_all cu limit search tags org db cursor =
     keyset_page application_key (time_cursor cu application_key) (after_time cu application_key) limit
       (filter (application_matches search tags) (scoped_applications db org)) cursor"

definition list_applications ::
    "cursor_env \<Rightarrow> principal \<Rightarrow> nat \<Rightarrow> str option \<Rightarrow> str \<Rightarrow> str list \<Rightarrow> fleet_db
       \<Rightarrow> control_exn + application_summary list \<times> str option" where
  "list_applications cu pr limit cursor search tags db =
     (let org = pr_organization_id pr in
      res_bind (dom_res (require APP_READ pr)) (\<lambda>_.
      map_sum id (\<lambda>(as, c). (map (\<lambda>a. summarize_application a (list_for_application db org (ap_id a))) as, c))
        (applications_list_all cu limit search tags org db cursor)))"

end
