(* ===== verification/FleetProps.thy ===== *)
theory FleetProps
  imports Fleet RbacProps
begin

text \<open>
  What the inventory and the fleet operations keep. Every operation is a sequence of moves on the
  tables, each with the conditions under which the code makes it; the invariants are proved once per
  move and carried over any run of operations by induction.
\<close>

section \<open>Operations and moves\<close>

datatype fleet_call =
    Create_application principal nat str language criticality "str list" "str option" str "(environment_kind \<times> bool) list"
  | Update_application principal nat uuid "str option" "criticality option" "str list option" "str option" "str option"
  | Delete_application principal uuid
  | Create_environment principal uuid environment_kind bool
  | Change_protection_mode principal uuid protection_mode
  | Register_agent auth_deps principal str environment_kind agent_facts
  | Record_heartbeat principal heartbeat
  | Update_agent principal uuid "bool option" "str option"
  | Sweep_agents cursor_env nat str

fun perform :: "control_env \<Rightarrow> fleet_call \<Rightarrow> fleet_db \<Rightarrow> fleet_db" where
  "perform env (Create_application pr n name lang crit tags url descr envs) db =
     snd (create_application env n pr name lang crit tags url descr envs db)"
| "perform env (Update_application pr n i name crit tags url descr) db =
     snd (update_application env n pr i name crit tags url descr db)"
| "perform env (Delete_application pr i) db = snd (delete_application env pr i db)"
| "perform env (Create_environment pr app kind facing) db = snd (create_environment env pr app kind facing db)"
| "perform env (Change_protection_mode pr i mode) db = snd (change_protection_mode env pr i mode db)"
| "perform env (Register_agent deps pr name kind facts) db = snd (register_agent deps env pr name kind facts db)"
| "perform env (Record_heartbeat pr hb) db = snd (record_heartbeat env pr hb db)"
| "perform env (Update_agent pr i enabled pinned) db = snd (update_agent env pr i enabled pinned db)"
| "perform env (Sweep_agents cu fuel s) db =
     (case sweep_offline_agents cu env fuel s db of None \<Rightarrow> db | Some r \<Rightarrow> snd r)"

text \<open>How an operation may change an agent: out of \<open>DISABLED\<close> by two operations only.\<close>

definition enables :: "fleet_call \<Rightarrow> agent \<Rightarrow> bool" where
  "enables call a \<longleftrightarrow>
     (case call of
        Update_agent pr i enabled pinned \<Rightarrow> i = ag_id a \<and> enabled = Some True
          \<and> pr_organization_id pr = ag_organization_id a \<and> AGENT_WRITE \<in> pr_permissions pr
      | Register_agent deps pr name kind facts \<Rightarrow> strip (af_fingerprint facts) = ag_fingerprint a
          \<and> pr_organization_id pr = ag_organization_id a \<and> AGENT_WRITE \<in> pr_permissions pr
      | _ \<Rightarrow> False)"

text \<open>
  The ids an operation draws are new, and all different. The moves are stated with and without this
  assumption (\<open>fr\<close>), because not every guarantee rests on it.
\<close>

definition fleet_fresh :: "control_env \<Rightarrow> fleet_db \<Rightarrow> bool" where
  "fleet_fresh env db \<longleftrightarrow> inj (ce_fresh env) \<and> range (ce_fresh env) \<inter>
     (fst ` set (fd_applications db) \<union> fst ` set (fd_environments db) \<union> fst ` set (fd_agents db)) = {}"

text \<open>No licence counts as one that includes blocking.\<close>

definition may_block :: "fleet_db \<Rightarrow> uuid \<Rightarrow> bool" where
  "may_block db org \<longleftrightarrow>
     (case licenses_get_for_organization (fd_core db) org of None \<Rightarrow> True | Some l \<Rightarrow> li_protection_enabled l)"

inductive fleet_move :: "bool \<Rightarrow> control_env \<Rightarrow> fleet_call \<Rightarrow> fleet_db \<Rightarrow> fleet_db \<Rightarrow> bool" for fr env call where
  audit: "fleet_audit env org i c db = Inr db' \<Longrightarrow> fleet_move fr env call db db'"
| new_application: "(fr \<Longrightarrow> ap_id a \<notin> fst ` set (fd_applications db)) \<Longrightarrow> applications_get_by_slug db org (ap_slug a) = None \<Longrightarrow> ap_organization_id a = org \<Longrightarrow>
    check_license (\<lambda>l. check_applications l (applications_count db org)) db org = Inr u \<Longrightarrow>
    fleet_move fr env call db (applications_add (ce_db_now env) a db)"
| change_application: "fleet_move fr env call db (applications_update (ce_db_now env) a db)"
| drop_application: "call = Delete_application pr i \<Longrightarrow> APP_DELETE \<in> pr_permissions pr \<Longrightarrow>
    fleet_move fr env call db (applications_delete (pr_organization_id pr) i db)"
| new_environment: "(fr \<Longrightarrow> i \<notin> fst ` set (fd_environments db)) \<Longrightarrow> applications_get db org app = Some a \<Longrightarrow>
    environments_add (ce_db_now env) (new_environment i org app kind facing) db = Inr db' \<Longrightarrow>
    fleet_move fr env call db db'"
| set_mode: "call = Change_protection_mode pr i mode \<Longrightarrow> POLICY_WRITE \<in> pr_permissions pr \<Longrightarrow>
    environments_get db (pr_organization_id pr) i = Some e \<Longrightarrow>
    set_protection_mode mode (ce_now env) e = Inr e' \<Longrightarrow>
    (mode = MODE_BLOCK \<Longrightarrow> may_block db (pr_organization_id pr)) \<Longrightarrow>
    fleet_move fr env call db (environments_update (ce_db_now env) e' db)"
| new_agent: "(fr \<Longrightarrow> ag_id a \<notin> fst ` set (fd_agents db)) \<Longrightarrow> ag_organization_id a = org \<Longrightarrow> ag_id a \<in> range (ce_fresh env) \<Longrightarrow>
    environments_get db org (ag_environment_id a) \<noteq> None \<Longrightarrow>
    check_license (\<lambda>l. check_agents l (agents_count db org)) db org = Inr u \<Longrightarrow>
    agents_add (ce_db_now env) a db = Inr db' \<Longrightarrow> fleet_move fr env call db db'"
| change_agent: "agents_get db org (ag_id b) = Some a \<Longrightarrow>
    (ag_environment_id b \<noteq> ag_environment_id a \<Longrightarrow> environments_get db org (ag_environment_id b) \<noteq> None) \<Longrightarrow>
    (ag_status a = DISABLED \<Longrightarrow> ag_status b \<noteq> DISABLED \<Longrightarrow> enables call a) \<Longrightarrow>
    fleet_move fr env call db (agents_update b db)"

text \<open>Rows are stored under their own ids.\<close>

definition keyed :: "('r \<Rightarrow> uuid) \<Rightarrow> (uuid, 'r) dict \<Rightarrow> bool" where
  "keyed f d \<longleftrightarrow> dict_ok d \<and> (\<forall>(i, r) \<in> set d. f r = i)"

definition fleet_keyed :: "fleet_db \<Rightarrow> bool" where
  "fleet_keyed db \<longleftrightarrow> keyed ap_id (fd_applications db) \<and> keyed ev_id (fd_environments db) \<and> keyed ag_id (fd_agents db)"

lemma dput_row: "x \<in> set (dput k v d) \<Longrightarrow> x = (k, v) \<or> x \<in> set d"
  by (induction k v d rule: dput.induct) (auto split: if_splits)

lemma keyed_dput [intro]: "keyed f d \<Longrightarrow> f v = k \<Longrightarrow> keyed f (dput k v d)"
  by (auto simp: keyed_def dest!: dput_row)

lemma keyed_filter [intro]: "keyed f d \<Longrightarrow> keyed f (filter p d)"
  by (auto simp: keyed_def dict_ok_def distinct_map_filter)

lemma keyed_get: "keyed f d \<Longrightarrow> dget d i = Some r \<Longrightarrow> f r = i \<and> (i, r) \<in> set d"
  by (auto simp: keyed_def dget_def dest: map_of_SomeD)

lemma keyed_update [intro]: "keyed f d \<Longrightarrow> dget d k = Some r \<Longrightarrow> f v = f r \<Longrightarrow> keyed f (dput k v d)"
  using keyed_get [of f d k r] keyed_dput [of f d v k] by simp

lemma keyed_row: "keyed f d \<Longrightarrow> (i, r) \<in> set d \<Longrightarrow> dget d i = Some r \<and> f r = i"
  by (auto simp: keyed_def dget_def dict_ok_def)

lemma fleet_audit_Inr: "fleet_audit env bound i c db = Inr db' \<longleftrightarrow>
    (\<exists>core. record_audit env bound i c (fd_core db) = Inr core \<and> db' = db\<lparr>fd_core := core\<rparr>)"
  by (cases "record_audit env bound i c (fd_core db)") (auto simp: fleet_audit_def)

lemma environments_add_Inr:
  "environments_add t e db = Inr db' \<longleftrightarrow>
     (\<forall>(_, r) \<in> set (fd_environments db). ev_application_id r \<noteq> ev_application_id e \<or> ev_kind r \<noteq> ev_kind e)
     \<and> db' = db\<lparr>fd_environments := dput (ev_id e) (e\<lparr>ev_created_at := Some t, ev_updated_at := Some t\<rparr>) (fd_environments db)\<rparr>"
  by (auto simp: environments_add_def)

lemma agents_add_Inr:
  "agents_add t a db = Inr db' \<longleftrightarrow>
     (\<forall>(_, r) \<in> set (fd_agents db). ag_fingerprint r \<noteq> ag_fingerprint a)
     \<and> db' = db\<lparr>fd_agents := dput (ag_id a) (a\<lparr>ag_created_at := Some t\<rparr>) (fd_agents db)\<rparr>"
  by (auto simp: agents_add_def)

lemmas fleet_table_defs = applications_add_def applications_update_def applications_delete_def
  environments_add_Inr environments_update_def agents_add_Inr agents_update_def fleet_audit_Inr

section \<open>Every operation is a sequence of moves\<close>

abbreviation fleet_moves :: "bool \<Rightarrow> control_env \<Rightarrow> fleet_call \<Rightarrow> fleet_db \<Rightarrow> fleet_db \<Rightarrow> bool" where
  "fleet_moves fr env call \<equiv> (fleet_move fr env call)\<^sup>*\<^sup>*"

lemma moves_refl: "fleet_moves fr env call db db" by simp

lemma moves_step: "fleet_moves fr env call a b \<Longrightarrow> fleet_move fr env call b c \<Longrightarrow> fleet_moves fr env call a c"
  by (rule rtranclp.rtrancl_into_rtrancl)

lemma agents_get_iff: "agents_get db org i = Some a \<longleftrightarrow> dget (fd_agents db) i = Some a \<and> ag_organization_id a = org"
  by (auto simp: agents_get_def split: option.splits)

lemma environments_get_iff: "environments_get db org i = Some e \<longleftrightarrow> dget (fd_environments db) i = Some e \<and> ev_organization_id e = org"
  by (auto simp: environments_get_def split: option.splits)

lemma agents_get_id: "fleet_keyed db \<Longrightarrow> agents_get db org i = Some a \<Longrightarrow> ag_id a = i"
  by (auto simp: agents_get_iff fleet_keyed_def dest: keyed_get)

lemma scoped_agent_row: "fleet_keyed db \<Longrightarrow> a \<in> set (scoped_agents db org) \<Longrightarrow> agents_get db org (ag_id a) = Some a"
  by (auto simp: scoped_agents_def fleet_keyed_def agents_get_iff dest: keyed_row)

lemma by_fingerprint: "fleet_keyed db \<Longrightarrow> agents_get_by_fingerprint db org fp = Some a \<Longrightarrow>
    ag_fingerprint a = fp \<and> agents_get db org (ag_id a) = Some a"
  unfolding agents_get_by_fingerprint_def by (blast dest: find_holds scoped_agent_row)

text \<open>Moves keep the rows under their ids.\<close>

lemma move_keyed: "fleet_move fr env call db db' \<Longrightarrow> fleet_keyed db \<Longrightarrow> fleet_keyed db'"
  by (induction rule: fleet_move.induct)
    (auto simp: fleet_keyed_def fleet_table_defs new_environment_def Let_def ddel_def
      split: option.splits)

lemma moves_keyed: "fleet_moves fr env call db db' \<Longrightarrow> fleet_keyed db \<Longrightarrow> fleet_keyed db'"
  by (induction rule: rtranclp_induct) (auto dest: move_keyed)

lemma transaction_moves:
  "(\<And>x db'. r = Inr (x, db') \<Longrightarrow> fleet_moves fr env call db db') \<Longrightarrow> fleet_moves fr env call db (snd (in_transaction db r))"
  by (rule in_transaction_rule) auto

lemma audit_after: "fleet_audit env org i c db1 = Inr db' \<Longrightarrow> fleet_moves fr env call db db1 \<Longrightarrow> fleet_moves fr env call db db'"
  by (rule moves_step [OF _ audit])

lemmas move_intros = r_into_rtranclp [of "fleet_move fr env call" for fr env call]

lemma update_application_moves: "fleet_moves fr env call db (snd (update_application env n pr i name crit tags url descr db))"
  unfolding update_application_def
  by (rule transaction_moves)
    (auto simp: Let_def res_bind_Inr elim!: audit_after intro: move_intros [OF change_application])

lemma delete_application_moves:
  "call = Delete_application pr i \<Longrightarrow> fleet_moves fr env call db (snd (delete_application env pr i db))"
  unfolding delete_application_def
  by (rule transaction_moves)
    (auto simp: Let_def res_bind_Inr elim!: audit_after intro: move_intros [OF drop_application])

lemma drawn_new: "fleet_fresh env db \<Longrightarrow> ce_fresh env n \<notin> fst ` set (fd_applications db)
    \<and> ce_fresh env n \<notin> fst ` set (fd_environments db) \<and> ce_fresh env n \<notin> fst ` set (fd_agents db)"
  by (auto simp: fleet_fresh_def)

lemma create_environment_moves: "(fr \<Longrightarrow> fleet_fresh env db) \<Longrightarrow> fleet_moves fr env call db (snd (create_environment env pr app kind facing db))"
  unfolding create_environment_def
  by (rule transaction_moves)
    (auto simp: Let_def res_bind_Inr elim!: audit_after intro!: move_intros [OF new_environment]
      dest: drawn_new [of env db 0])

lemma change_mode_moves:
  "call = Change_protection_mode pr i mode \<Longrightarrow> fleet_moves fr env call db (snd (change_protection_mode env pr i mode db))"
  unfolding change_protection_mode_def
  by (rule transaction_moves)
    (auto simp: Let_def res_bind_Inr check_license_def may_block_def elim!: audit_after
      intro!: move_intros [OF set_mode] split: option.splits)

lemma add_environments_moves:
  "add_environments env k org app envs db = Inr (es, db') \<Longrightarrow> applications_get db org app = Some a \<Longrightarrow>
     (fr \<Longrightarrow> inj (ce_fresh env) \<and> (\<forall>j \<ge> k. ce_fresh env j \<notin> fst ` set (fd_environments db))) \<Longrightarrow>
     fleet_moves fr env call db db'"
proof (induction envs arbitrary: k db es)
  case (Cons x envs)
  obtain kind facing where x: "x = (kind, facing)" by (cases x)
  obtain db1 es1 where one: "environments_add (ce_db_now env) (new_environment (ce_fresh env k) org app kind facing) db = Inr db1"
    and more: "add_environments env (k + 1) org app envs db1 = Inr (es1, db')"
    using Cons.prems(1) by (auto simp: x Let_def res_bind_Inr)
  have "applications_get db1 org app = Some a"
    using one Cons.prems(2) by (auto simp: environments_add_Inr applications_get_def)
  moreover have "inj (ce_fresh env) \<and> (\<forall>j \<ge> k + 1. ce_fresh env j \<notin> fst ` set (fd_environments db1))" if fr
    using Cons.prems(3) [OF that] one
    by (auto simp: environments_add_Inr set_keys_dput new_environment_def dest: injD [of "ce_fresh env"])
  ultimately have rest: "fleet_moves fr env call db1 db'" by (rule Cons.IH [OF more])
  have "fleet_move fr env call db db1" using Cons.prems(3) by (intro new_environment [OF _ Cons.prems(2) one]) auto
  then show ?case using rest by (rule converse_rtranclp_into_rtranclp)
qed simp

lemma added_application: "applications_get (applications_add t a db) (ap_organization_id a) (ap_id a) \<noteq> None"
  by (simp add: applications_get_def applications_add_def dict_simps)

lemma new_application_fields: "new_application i org name sl lang crit ts url descr = Inr a \<Longrightarrow>
    ap_id a = i \<and> ap_organization_id a = org \<and> ap_slug a = sl"
  by (auto simp: new_application_def Let_def split: if_splits)

lemma create_application_moves:
  "(fr \<Longrightarrow> fleet_fresh env db) \<Longrightarrow> fleet_moves fr env call db (snd (create_application env n pr name lang crit tags url descr envs db))"
  unfolding create_application_def
  apply (rule transaction_moves)
  subgoal premises prems for x db'
  proof -
    note fresh = prems(1) and body = prems(2)
    let ?org = "pr_organization_id pr" and ?t = "ce_db_now env"
    obtain sl ts url' a es db1 c envs' where
      lic: "check_license (\<lambda>l. check_applications l (applications_count db ?org)) db ?org = Inr ()" and
      free: "applications_get_by_slug db ?org sl = None" and
      a: "new_application (ce_fresh env 0) ?org name sl lang crit ts url' descr = Inr a" and
      envs: "add_environments env 2 ?org (ap_id a) envs' (applications_add ?t a db) = Inr (es, db1)" and
      audit: "fleet_audit env ?org (ce_fresh env 1) c db1 = Inr db'"
      using body by (auto simp: Let_def res_bind_Inr simp del: add_environments.simps)
    note f = new_application_fields [OF a]
    obtain a' where "applications_get (applications_add ?t a db) ?org (ap_id a) = Some a'"
      using added_application [of ?t a db] f by auto
    moreover have "inj (ce_fresh env) \<and> (\<forall>j \<ge> 2. ce_fresh env j \<notin> fst ` set (fd_environments (applications_add ?t a db)))" if fr
      using fresh [OF that] drawn_new by (auto simp: fleet_fresh_def applications_add_def)
    ultimately have more: "fleet_moves fr env call (applications_add ?t a db) db1" by (rule add_environments_moves [OF envs])
    have "fleet_move fr env call db (applications_add ?t a db)"
      by (rule new_application) (use fresh drawn_new free lic f in simp_all)
    from audit_after [OF audit converse_rtranclp_into_rtranclp [OF this more]] show ?thesis .
  qed
  done

text \<open>Registration: the application and the environment are there before the agent.\<close>

lemma ensure_application_moves:
  assumes "ensure_application env pr name lang db = Inr (a, db')" "fleet_keyed db" "fr \<Longrightarrow> fleet_fresh env db"
  shows "fleet_moves fr env call db db' \<and> fd_environments db' = fd_environments db \<and> fd_agents db' = fd_agents db \<and> applications_get db' (pr_organization_id pr) (ap_id a) \<noteq> None"
proof -
  let ?org = "pr_organization_id pr" and ?t = "ce_db_now env"
  obtain sl where sl: "slug_from_name (ce_ascii env) name = Inr sl"
    using assms(1) by (auto simp: ensure_application_def Let_def res_bind_Inr)
  show ?thesis
  proof (cases "applications_get_by_slug db ?org sl")
    case None
    then obtain c where
      lic: "check_license (\<lambda>l. check_applications l (applications_count db ?org)) db ?org = Inr ()" and
      a: "new_application (ce_fresh env 0) ?org (strip name) sl lang MEDIUM_CRIT [] None [] = Inr a" and
      audit: "fleet_audit env ?org (ce_fresh env 1) c (applications_add ?t a db) = Inr db'"
      using assms(1) sl by (auto simp: ensure_application_def Let_def res_bind_Inr)
    note f = new_application_fields [OF a]
    have "fleet_move fr env call db (applications_add ?t a db)" by (rule new_application) (use assms(3) drawn_new None lic f in simp_all)
    then have "fleet_moves fr env call db db'" using audit by (intro audit_after [OF audit]) simp
    moreover have "applications_get db' ?org (ap_id a) \<noteq> None" "fd_environments db' = fd_environments db" "fd_agents db' = fd_agents db"
      using audit added_application [of ?t a db] f by (auto simp: fleet_audit_Inr applications_get_def applications_add_def)
    ultimately show ?thesis by blast
  next
    case (Some a0)
    with assms(1) sl have eq: "a = a0" "db' = db" by (simp_all add: ensure_application_def Let_def dom_res_def)
    have "a0 \<in> set (scoped_applications db ?org)" using Some unfolding applications_get_by_slug_def by (blast dest: find_holds)
    then have "applications_get db ?org (ap_id a0) = Some a0" using assms(2)
      by (auto simp: scoped_applications_def fleet_keyed_def applications_get_def dest: keyed_row)
    then show ?thesis by (simp add: eq)
  qed
qed

lemma ensure_environment_moves:
  assumes "ensure_environment env pr a kind db = Inr (e, db')" "applications_get db (pr_organization_id pr) (ap_id a) \<noteq> None"
    "fleet_keyed db" "fr \<Longrightarrow> ce_fresh env 2 \<notin> fst ` set (fd_environments db)"
  shows "fleet_moves fr env call db db' \<and> fd_agents db' = fd_agents db \<and> environments_get db' (pr_organization_id pr) (ev_id e) \<noteq> None
    \<and> ev_application_id e = ap_id a \<and> ev_kind e = kind"
proof (cases "environments_find db (pr_organization_id pr) (ap_id a) kind")
  case None
  then have e: "e = new_environment (ce_fresh env 2) (pr_organization_id pr) (ap_id a) kind False"
    and add: "environments_add (ce_db_now env) e db = Inr db'"
    using assms(1) by (auto simp: ensure_environment_def Let_def res_bind_Inr)
  have "fleet_move fr env call db db'" using assms(2,4) add unfolding e by (auto intro: new_environment)
  then show ?thesis using add by (auto simp: e environments_add_Inr environments_get_def dict_simps new_environment_def)
next
  case (Some e0)
  with assms(1) have eq: "e = e0" "db' = db" by (simp_all add: ensure_environment_def)
  have "e0 \<in> set (scoped_environments db (pr_organization_id pr)) \<and> ev_application_id e0 = ap_id a \<and> ev_kind e0 = kind"
    using Some unfolding environments_find_def by (blast dest: find_holds)
  then show ?thesis using assms(3)
    by (auto simp: eq scoped_environments_def fleet_keyed_def environments_get_def dest: keyed_row)
qed

lemma new_agent_fields: "new_agent i org env_id fp host v r lang cfg t = Inr a \<Longrightarrow>
    ag_id a = i \<and> ag_organization_id a = org \<and> ag_environment_id a = env_id \<and> ag_fingerprint a = strip fp"
  by (auto simp: new_agent_def Let_def split: if_splits)

lemma enrol_moves:
  assumes "enrol_agent env pr app e facts db = Inr (a, db')" "environments_get db (pr_organization_id pr) (ev_id e) \<noteq> None"
    "fr \<Longrightarrow> ce_fresh env 3 \<notin> fst ` set (fd_agents db)"
  shows "fleet_moves fr env call db db'"
proof -
  let ?org = "pr_organization_id pr"
  obtain v r lang cfg t db1 c where
    lic: "check_license (\<lambda>l. check_agents l (agents_count db ?org)) db ?org = Inr ()" and
    a: "new_agent (ce_fresh env 3) ?org (ev_id e) (strip (af_fingerprint facts)) (af_hostname facts) v r lang cfg t = Inr a" and
    add: "agents_add (ce_db_now env) a db = Inr db1" and
    audit: "fleet_audit env ?org (ce_fresh env 4) c db1 = Inr db'"
    using assms(1) by (auto simp: enrol_agent_def Let_def res_bind_Inr)
  from new_agent_fields [OF a] assms(2,3) have "fleet_move fr env call db db1" by (intro new_agent [OF _ _ _ _ lic add]) simp_all
  from audit_after [OF audit r_into_rtranclp [where r = "fleet_move fr env call", OF this]] show ?thesis .
qed

lemma refresh_agent_fields:
  "ag_id (refresh_agent env e facts a) = ag_id a" "ag_environment_id (refresh_agent env e facts a) = ev_id e" "ag_status (refresh_agent env e facts a) \<noteq> DISABLED"
  by (simp_all add: refresh_agent_def agent_enable_def)

lemma register_agent_moves:
  assumes "call = Register_agent deps pr name kind facts" "fleet_keyed db" "fr \<Longrightarrow> fleet_fresh env db"
  shows "fleet_moves fr env call db (snd (register_agent deps env pr name kind facts db))"
  unfolding register_agent_def
  apply (rule transaction_moves)
  subgoal premises body for x db'
  proof -
    let ?org = "pr_organization_id pr" and ?fp = "strip (af_fingerprint facts)"
    obtain app db1 e db2 a where
      may: "AGENT_WRITE \<in> pr_permissions pr" and
      app: "ensure_application env pr name (af_language facts) db = Inr (app, db1)" and
      e: "ensure_environment env pr app kind db1 = Inr (e, db2)" and
      a: "(case agents_get_by_fingerprint db2 ?org ?fp of
          None \<Rightarrow> enrol_agent env pr app e facts db2
        | Some a0 \<Rightarrow> let a = refresh_agent env e facts a0 in Inr (a, agents_update a db2)) = Inr (a, db')"
      using body by (auto simp: Let_def res_bind_Inr)
    have m1: "fleet_moves fr env call db db1" "applications_get db1 ?org (ap_id app) \<noteq> None"
      "fd_environments db1 = fd_environments db" "fd_agents db1 = fd_agents db"
      using ensure_application_moves [OF app assms(2,3)] by auto
    have m2: "fleet_moves fr env call db1 db2" "environments_get db2 ?org (ev_id e) \<noteq> None" "fd_agents db2 = fd_agents db"
      using ensure_environment_moves [OF e m1(2) moves_keyed [OF m1(1) assms(2)]] drawn_new assms(3) m1(3,4) by auto
    have m: "fleet_moves fr env call db db2" using m1(1) m2(1) by (rule rtranclp_trans)
    have "fleet_moves fr env call db2 db'"
    proof (cases "agents_get_by_fingerprint db2 ?org ?fp")
      case None
      with a have enrol: "enrol_agent env pr app e facts db2 = Inr (a, db')" by simp
      from m2(2) show ?thesis
        by (rule enrol_moves [OF enrol]) (use m2(3) drawn_new [of env db 3] assms(3) in simp)
    next
      case (Some a0)
      from by_fingerprint [OF moves_keyed [OF m assms(2)] Some] have row: "ag_fingerprint a0 = ?fp"
        "agents_get db2 ?org (ag_id a0) = Some a0" by auto
      then have "enables call a0" using may by (simp add: assms(1) enables_def agents_get_iff)
      then have "fleet_move fr env call db2 (agents_update (refresh_agent env e facts a0) db2)"
        using row m2(2) by (intro change_agent) (auto simp: refresh_agent_fields)
      with Some a show ?thesis by (auto simp: Let_def)
    qed
    with m show ?thesis by (rule rtranclp_trans)
  qed
  done

lemma own_agent_Inr:
  "own_agent why pr db = Inr a \<longleftrightarrow>
     pr_kind pr = ACTOR_AGENT \<and> (\<exists>i. pr_agent_id pr = Some i \<and> agents_get db (pr_organization_id pr) i = Some a)"
  by (auto simp: own_agent_def split: actor_type.splits option.splits)

lemma heartbeat_moves: "fleet_keyed db \<Longrightarrow> fleet_moves fr env call db (snd (record_heartbeat env pr hb db))"
  unfolding record_heartbeat_def
  by (rule transaction_moves)
    (auto simp: Let_def res_bind_Inr own_agent_Inr agent_heartbeat_def apply_config_def agents_get_id
      split: if_splits option.splits intro!: move_intros [OF change_agent [where org = "pr_organization_id pr"]])

lemma update_agent_moves:
  assumes "call = Update_agent pr i enabled pinned" "fleet_keyed db"
  shows "fleet_moves fr env call db (snd (update_agent env pr i enabled pinned db))"
  unfolding update_agent_def
  apply (rule transaction_moves)
  subgoal premises body for x db'
  proof -
    obtain a0 c where a0: "agents_get db (pr_organization_id pr) i = Some a0" "AGENT_WRITE \<in> pr_permissions pr" and
      audit: "fleet_audit env (pr_organization_id pr) (ce_fresh env 0) c (agents_update
        (case pinned of None \<Rightarrow> (case enabled of None \<Rightarrow> a0 | Some b \<Rightarrow> if b then agent_enable a0 else agent_disable a0)
         | Some v \<Rightarrow> pin_version (Some v) (case enabled of None \<Rightarrow> a0 | Some b \<Rightarrow> if b then agent_enable a0 else agent_disable a0)) db) = Inr db'"
      using body by (auto simp: Let_def res_bind_Inr)
    show ?thesis
      by (rule audit_after [OF audit], rule move_intros [OF change_agent [where org = "pr_organization_id pr"]])
        (use a0 agents_get_id [OF assms(2)] in \<open>auto simp: assms(1) enables_def agents_get_iff agent_enable_def agent_disable_def
            pin_version_def split: option.splits if_splits\<close>)
  qed
  done

section \<open>The sweep\<close>

definition demoted :: "datetime \<Rightarrow> agent \<Rightarrow> bool" where
  "demoted now a \<longleftrightarrow> ag_status (evaluate_liveness now a) \<noteq> ag_status a"

text \<open>The database after the agents with these ids have been looked at.\<close>

definition swept :: "datetime \<Rightarrow> uuid set \<Rightarrow> fleet_db \<Rightarrow> fleet_db" where
  "swept now ids db = db\<lparr>fd_agents :=
     map (\<lambda>(i, a). (i, if i \<in> ids then evaluate_liveness now a else a)) (fd_agents db)\<rparr>"

lemma evaluate_fields [simp]:
  "ag_id (evaluate_liveness now a) = ag_id a" "ag_organization_id (evaluate_liveness now a) = ag_organization_id a"
  "agent_key (evaluate_liveness now a) = agent_key a" "ag_fingerprint (evaluate_liveness now a) = ag_fingerprint a"
  by (auto simp: evaluate_liveness_def agent_key_def split: option.splits)

lemma not_demoted: "\<not> demoted now a \<Longrightarrow> evaluate_liveness now a = a"
  by (auto simp: demoted_def evaluate_liveness_def split: option.splits if_splits)

lemma keyed_swept: "keyed ag_id (fd_agents db) \<Longrightarrow> keyed ag_id (fd_agents (swept now ids db))"
  by (auto simp: keyed_def swept_def dict_ok_def comp_def case_prod_beta)

lemma map_value_cong: "(\<And>i r. (i, r) \<in> set d \<Longrightarrow> f i r = g i r) \<Longrightarrow>
    map (\<lambda>(i, a). (i, f i a)) d = map (\<lambda>(i, a). (i, g i a)) d"
  by (rule map_cong) auto

lemma swept_agents: "(\<And>i r. (i, r) \<in> set (fd_agents db) \<Longrightarrow> f i r = (if i \<in> ids then evaluate_liveness now r else r)) \<Longrightarrow>
    db\<lparr>fd_agents := map (\<lambda>(i, a). (i, f i a)) (fd_agents db)\<rparr> = swept now ids db"
  unfolding swept_def by (simp add: map_value_cong [of "fd_agents db" f "\<lambda>i r. if i \<in> ids then evaluate_liveness now r else r"])

lemma sweep_agent_swept:
  assumes "keyed ag_id (fd_agents db)" "dget (fd_agents db) (ag_id a) = Some a" "ag_id a \<notin> ids"
  shows "sweep_agent now a (n, swept now ids db)
    = (n + (if demoted now a then 1 else 0), swept now (insert (ag_id a) ids) db)"
proof (cases "demoted now a")
  case False
  have "(if i \<in> ids then evaluate_liveness now r else r) = (if i \<in> insert (ag_id a) ids then evaluate_liveness now r else r)"
    if "(i, r) \<in> set (fd_agents db)" for i r
  proof (cases "i = ag_id a")
    case eq: True
    then have "r = a" using conjunct1 [OF keyed_row [OF assms(1) that]] assms(2) by simp
    then show ?thesis using not_demoted [OF False] by simp
  qed simp
  from swept_agents [where f = "\<lambda>i r. if i \<in> ids then evaluate_liveness now r else r", OF this]
  have "swept now ids db = swept now (insert (ag_id a) ids) db" by (simp add: swept_def)
  with False show ?thesis by (simp add: sweep_agent_def demoted_def)
next
  case True
  let ?b = "evaluate_liveness now a" and ?d = "swept now ids db"
  have row: "dget (fd_agents ?d) (ag_id ?b) = Some a"
    using assms(2,3) by (simp add: swept_def dget_map_value)
  have b: "a\<lparr>ag_environment_id := ag_environment_id ?b, ag_hostname := ag_hostname ?b,
               ag_agent_version := ag_agent_version ?b, ag_runtime_version := ag_runtime_version ?b,
               ag_status := ag_status ?b, ag_config_version := ag_config_version ?b,
               ag_cpu_overhead_pct := ag_cpu_overhead_pct ?b, ag_memory_mb := ag_memory_mb ?b,
               ag_events_sent := ag_events_sent ?b, ag_events_dropped := ag_events_dropped ?b,
               ag_health := ag_health ?b, ag_pinned_version := ag_pinned_version ?b,
               ag_last_seen_at := ag_last_seen_at ?b\<rparr> = ?b"
    by (auto simp: evaluate_liveness_def split: option.splits)
  have "dict_ok (fd_agents ?d)" using keyed_swept [OF assms(1)] by (simp add: keyed_def)
  then have put: "dput (ag_id ?b) ?b (fd_agents ?d) = map (\<lambda>(i, r). (i, if i = ag_id ?b then ?b else r)) (fd_agents ?d)"
    by (rule dput_as_map [OF _ row])
  have "agents_update ?b ?d = ?d\<lparr>fd_agents := dput (ag_id ?b) ?b (fd_agents ?d)\<rparr>"
    unfolding agents_update_def row option.case b ..
  also have "\<dots> = swept now (insert (ag_id a) ids) db"
  proof -
    have "(if i = ag_id ?b then ?b else if i \<in> ids then evaluate_liveness now r else r)
        = (if i \<in> insert (ag_id a) ids then evaluate_liveness now r else r)" if "(i, r) \<in> set (fd_agents db)" for i r
    proof (cases "i = ag_id a")
      case eq: True
      then have "r = a" using conjunct1 [OF keyed_row [OF assms(1) that]] assms(2) by simp
      with eq show ?thesis by simp
    qed simp
    then have eq: "db\<lparr>fd_agents := map (\<lambda>(i, r). (i, if i = ag_id ?b then ?b else if i \<in> ids then evaluate_liveness now r else r)) (fd_agents db)\<rparr>
        = swept now (insert (ag_id a) ids) db" by (rule swept_agents)
    show ?thesis unfolding put eq [symmetric] by (simp add: swept_def comp_def case_prod_beta)
  qed
  finally have "agents_update ?b ?d = swept now (insert (ag_id a) ids) db" .
  with True show ?thesis by (simp add: sweep_agent_def demoted_def)
qed

lemma sweep_page_swept:
  assumes "keyed ag_id (fd_agents db)" "\<forall>a \<in> set xs. dget (fd_agents db) (ag_id a) = Some a"
    "distinct (map ag_id xs)" "ag_id ` set xs \<inter> ids = {}"
  shows "foldl (\<lambda>s a. sweep_agent now a s) (n, swept now ids db) xs
    = (n + length (filter (demoted now) xs), swept now (ids \<union> ag_id ` set xs) db)"
  using assms(2-4)
proof (induction xs arbitrary: n ids)
  case (Cons a xs)
  have "foldl (\<lambda>s a. sweep_agent now a s) (n, swept now ids db) (a # xs)
    = foldl (\<lambda>s a. sweep_agent now a s) (n + (if demoted now a then 1 else 0), swept now (insert (ag_id a) ids) db) xs"
    using Cons.prems by (simp add: sweep_agent_swept [OF assms(1)])
  also have "\<dots> = (n + (if demoted now a then 1 else 0) + length (filter (demoted now) xs),
      swept now (insert (ag_id a) ids \<union> ag_id ` set xs) db)"
    by (rule Cons.IH) (use Cons.prems in auto)
  finally show ?case by (simp add: insert_commute)
qed simp

lemma sort_key_map: "sort_key key (map f xs) = map f (sort_key (\<lambda>x. key (f x)) xs)"
proof -
  have "insort_key key (f x) (map f ys) = map f (insort_key (\<lambda>x. key (f x)) x ys)" for x ys
    by (induction ys) auto
  then show ?thesis by (induction xs) (simp_all add: sort_key_def)
qed

lemma scoped_swept: "keyed ag_id (fd_agents db) \<Longrightarrow> scoped_agents (swept now ids db) org
    = map (\<lambda>a. if ag_id a \<in> ids then evaluate_liveness now a else a) (scoped_agents db org)"
proof -
  assume keyed: "keyed ag_id (fd_agents db)"
  have "map snd (fd_agents (swept now ids db)) = map (\<lambda>a. if ag_id a \<in> ids then evaluate_liveness now a else a) (map snd (fd_agents db))"
    using keyed by (auto simp: swept_def keyed_def)
  then show ?thesis by (simp add: scoped_agents_def filter_map comp_def if_distrib cong: if_cong)
qed

lemma distinct_scoped: "keyed ag_id (fd_agents db) \<Longrightarrow> distinct (map ag_id (scoped_agents db org))"
proof -
  assume keyed: "keyed ag_id (fd_agents db)"
  then have ids: "map ag_id (map snd (fd_agents db)) = map fst (fd_agents db)" by (auto simp: keyed_def)
  have "distinct (map ag_id (map snd (fd_agents db)))" unfolding ids using keyed by (simp add: keyed_def dict_ok_def)
  then show ?thesis unfolding scoped_agents_def by (rule distinct_map_filter)
qed

lemma sweep_pages_from:
  assumes keyed: "keyed ag_id (fd_agents db)"
    and fits: "\<forall>a \<in> set (scoped_agents db org). time_fits cu (agent_key a)"
  defines "L \<equiv> sort_key agent_key (scoped_agents db org)"
  assumes "k \<le> length L" "length L - k < n"
  shows "sweep_pages cu now org n (keyset.cursor_at (time_cursor cu agent_key) L k) (m, swept now (ag_id ` set (take k L)) db)
    = Some (Inr (m + length (filter (demoted now) (drop k L)), swept now (ag_id ` set L) db))"
  using assms(4,5)
proof (induction n arbitrary: k m)
  case (Suc n)
  let ?ids = "ag_id ` set (take k L)"
  let ?ev = "\<lambda>a. if ag_id a \<in> ?ids then evaluate_liveness now a else a"
  let ?D = "swept now ?ids db"
  let ?page = "take 200 (drop k L)"
  have dist: "distinct (map ag_id L)" using distinct_scoped [OF keyed] by (simp add: L_def distinct_map)
  have rows: "scoped_agents ?D org = map ?ev (scoped_agents db org)" by (rule scoped_swept [OF keyed])
  have key: "agent_key (?ev a) = agent_key a" for a by simp
  have L': "sort_key agent_key (scoped_agents ?D org) = map ?ev L" unfolding rows sort_key_map key by (simp add: L_def)
  have cursor: "keyset.cursor_at (time_cursor cu agent_key) (map ?ev L) j = keyset.cursor_at (time_cursor cu agent_key) L j"
    if "j \<le> length L" for j
    using that by (simp add: time_pages.cursor_at_def time_cursor_def)
  have fresh: "ag_id a \<notin> ?ids" if "a \<in> set (drop k L)" for a
  proof
    assume "ag_id a \<in> ?ids"
    then have "ag_id a \<in> set (take k (map ag_id L))" by (simp add: take_map)
    moreover have "ag_id a \<in> set (drop k (map ag_id L))" using that by (simp add: drop_map)
    ultimately show False using set_take_disj_set_drop_if_distinct [OF dist, of k k] by blast
  qed
  have drop: "drop k (map ?ev L) = drop k L" unfolding drop_map by (rule map_idI) (simp add: fresh)
  have "distinct (map agent_key (scoped_agents ?D org))"
    using distinct_scoped [OF keyed, of org] unfolding rows map_map comp_def key by (auto simp: distinct_map inj_on_def agent_key_def)
  moreover have "\<forall>a \<in> set (scoped_agents ?D org). time_fits cu (agent_key a)"
    using fits unfolding rows by auto
  moreover have "k \<le> length (scoped_agents ?D org)" unfolding rows using Suc.prems(1) by (simp add: L_def)
  ultimately have page: "agents_list_all cu 200 None org ?D (keyset.cursor_at (time_cursor cu agent_key) L k)
      = Inr (?page, if length L - k > 200 then keyset.cursor_at (time_cursor cu agent_key) L (k + 200) else None)"
    using time_pages.page_after [of 200 agent_key "scoped_agents ?D org" cu k] cursor Suc.prems(1)
    unfolding L' drop by (simp add: agents_list_all_def)
  have "foldl (\<lambda>s a. sweep_agent now a s) (m, ?D) ?page
      = (m + length (filter (demoted now) ?page), swept now (?ids \<union> ag_id ` set ?page) db)"
  proof (rule sweep_page_swept [OF keyed])
    show "distinct (map ag_id ?page)" using dist by (simp add: take_map [symmetric] drop_map [symmetric])
    show "ag_id ` set ?page \<inter> ?ids = {}" using fresh by (auto dest: in_set_takeD)
    show "\<forall>a \<in> set ?page. dget (fd_agents db) (ag_id a) = Some a"
    proof
      fix a assume "a \<in> set ?page"
      then have "a \<in> set L" by (meson in_set_dropD in_set_takeD)
      then show "dget (fd_agents db) (ag_id a) = Some a"
        using keyed_row [OF keyed] by (auto simp: L_def scoped_agents_def)
    qed
  qed
  moreover have "?ids \<union> ag_id ` set ?page = ag_id ` set (take (k + 200) L)"
    by (simp add: take_add image_Un [symmetric])
  ultimately have fold: "foldl (\<lambda>s a. sweep_agent now a s) (m, ?D) ?page
      = (m + length (filter (demoted now) ?page), swept now (ag_id ` set (take (k + 200) L)) db)" by simp
  show ?case
  proof (cases "length L - k > 200")
    case True
    have "drop k L = ?page @ drop (k + 200) L" by (metis add.commute append_take_drop_id drop_drop)
    then have "length (filter (demoted now) (drop k L)) = length (filter (demoted now) ?page) + length (filter (demoted now) (drop (k + 200) L))"
      by (metis filter_append length_append)
    moreover have "keyset.cursor_at (time_cursor cu agent_key) L (k + 200) \<noteq> None" by (simp add: time_pages.cursor_at_def)
    ultimately show ?thesis
      using True Suc.prems Suc.IH [of "k + 200" "m + length (filter (demoted now) ?page)"] page fold
      by (auto simp: add.assoc split: option.splits)
  next
    case False
    then show ?thesis using page fold by simp
  qed
qed simp

lemma agents_page:
  assumes "agents_list_all cu limit status org db cursor = Inr (page, next_cursor)" "keyed ag_id (fd_agents db)"
  shows "distinct (map ag_id page) \<and> (\<forall>a \<in> set page. dget (fd_agents db) (ag_id a) = Some a \<and> ag_organization_id a = org)"
proof -
  obtain p where page: "page = take limit (sort_key agent_key (filter p (scoped_agents db org)))"
    using assms(1) by (auto simp: agents_list_all_def keyset_page_def Let_def res_bind_Inr min_def)
  have "distinct (map ag_id (filter p (scoped_agents db org)))"
    by (rule distinct_map_filter [OF distinct_scoped [OF assms(2)]])
  then have "distinct (map ag_id (sort_key agent_key (filter p (scoped_agents db org))))" by (simp add: distinct_map)
  then have "distinct (map ag_id page)" unfolding page take_map [symmetric] by (rule distinct_take)
  moreover have "set page \<subseteq> set (scoped_agents db org)" unfolding page by (auto dest: in_set_takeD)
  ultimately show ?thesis using keyed_row [OF assms(2)] by (fastforce simp: scoped_agents_def)
qed

lemma sweep_agent_moves:
  assumes "fleet_moves fr env call db (snd st)" "agents_get (snd st) org (ag_id a) = Some a"
  shows "fleet_moves fr env call db (snd (sweep_agent (ce_now env) a st))"
proof -
  obtain n d where st: "st = (n, d)" by (cases st)
  let ?c = "evaluate_liveness (ce_now env) a"
  have "ag_id ?c = ag_id a" "ag_environment_id ?c = ag_environment_id a" "ag_status a = DISABLED \<Longrightarrow> ag_status ?c = DISABLED"
    by (auto simp: evaluate_liveness_def split: option.splits)
  then have "fleet_move fr env call d (agents_update ?c d)"
    using assms(2) by (intro change_agent [where org = org and a = a]) (auto simp: st)
  then show ?thesis using assms(1) by (auto simp: sweep_agent_def st Let_def intro: moves_step)
qed

lemma sweep_page_moves:
  assumes "keyed ag_id (fd_agents db)" "distinct (map ag_id xs)"
    "\<forall>a \<in> set xs. dget (fd_agents db) (ag_id a) = Some a \<and> ag_organization_id a = org"
  shows "fleet_moves fr env call db (snd (foldl (\<lambda>s a. sweep_agent (ce_now env) a s) (n, db) xs))"
  using assms(2,3)
proof (induction xs rule: rev_induct)
  case (snoc a xs)
  let ?now = "ce_now env"
  have db: "swept ?now {} db = db" by (simp add: swept_def)
  have st: "foldl (\<lambda>s a. sweep_agent ?now a s) (n, db) xs = (n + length (filter (demoted ?now) xs), swept ?now (ag_id ` set xs) db)"
    using sweep_page_swept [OF assms(1), of xs "{}" ?now n] snoc.prems unfolding db by simp
  have "agents_get (swept ?now (ag_id ` set xs) db) org (ag_id a) = Some a"
    using snoc.prems by (auto simp: agents_get_iff swept_def dget_map_value)
  then show ?case using sweep_agent_moves [of fr env call db "(n + length (filter (demoted ?now) xs), swept ?now (ag_id ` set xs) db)" org a]
      snoc st by simp
qed simp

lemma sweep_pages_moves:
  "sweep_pages cu (ce_now env) org fuel cursor st = Some (Inr st') \<Longrightarrow> fleet_keyed db \<Longrightarrow>
     fleet_moves fr env call db (snd st) \<Longrightarrow> fleet_moves fr env call db (snd st')"
proof (induction cu "ce_now env" org fuel cursor st rule: sweep_pages.induct)
  case (2 cu org n cursor st)
  obtain m d where st: "st = (m, d)" by (cases st)
  obtain page c where page: "agents_list_all cu 200 None org d cursor = Inr (page, c)"
    using 2(2) by (auto simp: st split: sum.splits prod.splits)
  let ?st = "foldl (\<lambda>s a. sweep_agent (ce_now env) a s) (m, d) page"
  have "fleet_keyed d" using moves_keyed [OF 2(4) 2(3)] by (simp add: st)
  then have keyed: "keyed ag_id (fd_agents d)" by (simp add: fleet_keyed_def)
  from agents_page [OF page this] have "fleet_moves fr env call d (snd ?st)" by (intro sweep_page_moves [OF keyed]) auto
  then have m: "fleet_moves fr env call db (snd ?st)" using 2(4) by (simp add: st rtranclp_trans)
  show ?case
  proof (cases c)
    case None
    with 2(2) page m show ?thesis by (simp add: st)
  next
    case (Some c')
    with 2(2) page have next_page: "sweep_pages cu (ce_now env) org n (Some c') ?st = Some (Inr st')" by (simp add: st Let_def)
    from 2(1) [of "(page, c)" page c ?st c'] page Some next_page 2(3) m show ?thesis by (simp add: st)
  qed
qed simp

lemma sweep_moves:
  assumes "fleet_keyed db"
  shows "fleet_moves fr env call db (case sweep_offline_agents cu env fuel s db of None \<Rightarrow> db | Some r \<Rightarrow> snd r)"
proof -
  have run: "fleet_moves fr env call db (snd (in_transaction db r))"
    if "sweep_pages cu (ce_now env) org fuel None (0, db) = Some r" for r org
    by (rule transaction_moves) (use sweep_pages_moves [OF _ assms] that in fastforce)
  show ?thesis
    by (auto simp: sweep_offline_agents_def run split: sum.splits option.splits)
qed

lemma perform_moves: "fleet_keyed db \<Longrightarrow> (fr \<Longrightarrow> fleet_fresh env db) \<Longrightarrow> fleet_moves fr env call db (perform env call db)"
  by (cases call) (auto intro: create_application_moves update_application_moves delete_application_moves
      create_environment_moves change_mode_moves register_agent_moves heartbeat_moves update_agent_moves
      sweep_moves simp del: in_transaction_simps)

end
