(* ===== verification/FleetGuards.thy ===== *)
theory FleetGuards
  imports FleetProps
begin

text \<open>
  The guarantees of the fleet over any run of operations: production blocks only after a soak, a
  disabled agent stays shut out, the tables stay consistent and within the licence.
\<close>

definition fleet_run :: "(control_env \<times> fleet_call) list \<Rightarrow> fleet_db \<Rightarrow> fleet_db" where
  "fleet_run calls db = foldl (\<lambda>d (env, call). perform env call d) db calls"

lemma fleet_run_simps [simp]:
  "fleet_run [] db = db"
  "fleet_run (calls @ [(env, call)]) db = perform env call (fleet_run calls db)"
  by (simp_all add: fleet_run_def)

lemma run_keyed: "fleet_keyed db \<Longrightarrow> fleet_keyed (fleet_run calls db)"
proof (induction calls rule: rev_induct)
  case (snoc c calls)
  then show ?case using moves_keyed [OF perform_moves [where fr = False]] by (cases c) simp
qed simp

lemma dget_set: "dget d k = Some v \<Longrightarrow> (k, v) \<in> set d"
  by (simp add: dget_def map_of_SomeD)

text \<open>What holds at the start of a call and is kept by its moves holds after the call.\<close>

lemma moves_keep:
  assumes "fleet_moves fr env call db db'" "P db" "fleet_keyed db"
    and "\<And>d d'. fleet_move fr env call d d' \<Longrightarrow> fleet_keyed d \<Longrightarrow> P d \<Longrightarrow> P d'"
  shows "P db'"
proof -
  from assms(1) have "P db' \<and> fleet_keyed db'"
    by (induction rule: rtranclp_induct) (use assms move_keyed in auto)
  then show ?thesis ..
qed

section \<open>Blocking\<close>

text \<open>Call \<open>m\<close> of the run switched environment \<open>i\<close> into \<open>mode\<close> at time \<open>t\<close>, with the permission to.\<close>

definition switched :: "(control_env \<times> fleet_call) list \<Rightarrow> nat \<Rightarrow> uuid \<Rightarrow> protection_mode \<Rightarrow> datetime \<Rightarrow> bool" where
  "switched calls m i mode t \<longleftrightarrow> m < length calls \<and> ce_now (fst (calls ! m)) = t \<and>
     (\<exists>pr. snd (calls ! m) = Change_protection_mode pr i mode \<and> POLICY_WRITE \<in> pr_permissions pr)"

definition row_recorded :: "(control_env \<times> fleet_call) list \<Rightarrow> uuid \<Rightarrow> app_environment \<Rightarrow> bool" where
  "row_recorded calls i e \<longleftrightarrow>
     (\<forall>t. ev_soak_completed_at e = Some t \<longrightarrow> (\<exists>m. switched calls m i MODE_MONITOR (t - days 14)))
     \<and> (ev_kind e = PRODUCTION_ENV \<and> ev_protection_mode e = MODE_BLOCK \<longrightarrow>
          (\<exists>m n t t'. m < n \<and> switched calls m i MODE_MONITOR t \<and> switched calls n i MODE_BLOCK t' \<and> t + days 14 \<le> t'))"

definition soak_recorded :: "(control_env \<times> fleet_call) list \<Rightarrow> fleet_db \<Rightarrow> bool" where
  "soak_recorded calls db \<longleftrightarrow> (\<forall>(i, e) \<in> set (fd_environments db). row_recorded calls i e)"

lemma row_recorded_cong: "ev_kind e' = ev_kind e \<Longrightarrow> ev_protection_mode e' = ev_protection_mode e \<Longrightarrow>
    ev_soak_completed_at e' = ev_soak_completed_at e \<Longrightarrow> row_recorded calls i e' = row_recorded calls i e"
  by (simp add: row_recorded_def)

lemma row_recorded_new: "row_recorded calls i (new_environment j org app kind facing)"
  by (simp add: row_recorded_def new_environment_def)

lemma switched_append: "switched calls m i mode t \<Longrightarrow> switched (calls @ later) m i mode t"
  by (auto simp: switched_def nth_append)

lemma switched_last: "switched (calls @ [(env, Change_protection_mode pr i mode)]) (length calls) i mode' t \<longleftrightarrow>
    mode' = mode \<and> ce_now env = t \<and> POLICY_WRITE \<in> pr_permissions pr"
  by (auto simp: switched_def nth_append)

lemma row_extend: "row_recorded calls i e \<Longrightarrow> row_recorded (calls @ later) i e"
  unfolding row_recorded_def by (meson switched_append)

lemma soak_extend: "soak_recorded calls db \<Longrightarrow> soak_recorded (calls @ later) db"
  by (auto simp: soak_recorded_def intro: row_extend)

lemma switched_before:
  assumes "switched (calls @ [(env, Change_protection_mode pr j mode)]) m i mode' t" "mode' \<noteq> mode"
  shows "m < length calls"
  using assms by (auto simp: switched_def nth_append less_Suc_eq split: if_splits)

lemma soak_move:
  assumes "fleet_move fr env call db db'" "fleet_keyed db" "soak_recorded (calls @ [(env, call)]) db"
  shows "soak_recorded (calls @ [(env, call)]) db'"
  using assms
proof (induction rule: fleet_move.induct)
  case (set_mode pr i mode db e e')
  let ?H = "calls @ [(env, call)]"
  have row: "dget (fd_environments db) i = Some e" using set_mode(3) by (simp add: environments_get_iff)
  have id: "ev_id e = i" and old: "(i, e) \<in> set (fd_environments db)"
    using keyed_get [OF _ row] set_mode(6) by (auto simp: fleet_keyed_def)
  have e': "ev_id e' = i" "ev_kind e' = ev_kind e" "ev_protection_mode e' = mode"
    "ev_soak_completed_at e' = (if mode = MODE_MONITOR \<and> ev_protection_mode e \<noteq> MODE_MONITOR
       then Some (ce_now env + days 14) else ev_soak_completed_at e)"
    using set_mode(4) id by (auto simp: set_protection_mode_def REQUIRED_SOAK_DAYS_def split: if_splits)
  have now: "switched ?H (length calls) i mode (ce_now env)"
    using set_mode(1,2) by (simp add: switched_last)
  have rec: "row_recorded ?H i e" using old set_mode(7) by (auto simp: soak_recorded_def)
  have inv: "row_recorded ?H i e'"
    unfolding row_recorded_def
  proof (intro conjI allI impI)
    fix t assume "ev_soak_completed_at e' = Some t"
    then show "\<exists>m. switched ?H m i MODE_MONITOR (t - days 14)"
      using e'(4) now rec by (auto simp: row_recorded_def split: if_splits)
  next
    assume block: "ev_kind e' = PRODUCTION_ENV \<and> ev_protection_mode e' = MODE_BLOCK"
    then have "mode = MODE_BLOCK" "soak_satisfied (ce_now env) e" using set_mode(4) e'
      by (auto simp: set_protection_mode_def split: if_splits)
    then obtain t where t: "ev_soak_completed_at e = Some t" "t \<le> ce_now env" by (auto simp: soak_satisfied_def split: option.splits)
    then obtain m where m: "switched ?H m i MODE_MONITOR (t - days 14)" using rec by (auto simp: row_recorded_def)
    have "m < length calls" using switched_before m set_mode(1) \<open>mode = MODE_BLOCK\<close> by blast
    with m now t(2) \<open>mode = MODE_BLOCK\<close>
    show "\<exists>m n t t'. m < n \<and> switched ?H m i MODE_MONITOR t \<and> switched ?H n i MODE_BLOCK t' \<and> t + days 14 \<le> t'"
      by (intro exI [of _ m] exI [of _ "length calls"] exI [of _ "t - days 14"] exI [of _ "ce_now env"]) auto
  qed
  show ?case
  proof (cases "environments_update (ce_db_now env) e' db = db")
    case False
    then have "fd_environments (environments_update (ce_db_now env) e' db) = dput i (e\<lparr>ev_internet_facing := ev_internet_facing e',
        ev_protection_mode := ev_protection_mode e', ev_soak_completed_at := ev_soak_completed_at e',
        ev_updated_at := Some (ce_db_now env)\<rparr>) (fd_environments db)"
      using row e'(1) by (auto simp: environments_update_def Let_def split: if_splits)
    moreover have "row_recorded ?H i (e\<lparr>ev_internet_facing := ev_internet_facing e',
        ev_protection_mode := ev_protection_mode e', ev_soak_completed_at := ev_soak_completed_at e',
        ev_updated_at := Some (ce_db_now env)\<rparr>)"
      by (rule iffD2 [OF row_recorded_cong inv]) (simp_all add: e'(2))
    ultimately show ?thesis using set_mode(7) by (auto simp: soak_recorded_def dest!: dput_row)
  qed (use set_mode(7) in simp)
next
  case (new_environment i db org app a kind facing db')
  have "row_recorded (calls @ [(env, call)]) i (new_environment i org app kind facing\<lparr>ev_created_at := Some (ce_db_now env), ev_updated_at := Some (ce_db_now env)\<rparr>)"
    by (rule iffD2 [OF row_recorded_cong row_recorded_new]) simp_all
  moreover have "ev_id (InventoryEntity.new_environment i org app kind facing) = i" by (simp add: new_environment_def)
  ultimately show ?case using new_environment(3,5) by (auto simp: soak_recorded_def environments_add_Inr dest!: dput_row)
qed (auto simp: soak_recorded_def fleet_table_defs Let_def split: option.splits)

lemma run_recorded: "fleet_keyed db \<Longrightarrow> fd_environments db = [] \<Longrightarrow> soak_recorded calls (fleet_run calls db)"
proof (induction calls rule: rev_induct)
  case (snoc c calls)
  obtain env call where c: "c = (env, call)" by (cases c)
  let ?db = "fleet_run calls db"
  have "soak_recorded (calls @ [c]) (perform env call ?db)"
    by (rule moves_keep [OF perform_moves [where fr = False]]) (use snoc run_keyed soak_extend soak_move in \<open>auto simp: c\<close>)
  then show ?case by (simp add: c)
qed (simp add: soak_recorded_def)

text \<open>
  C33. Production starts to block only after a soak: whatever operations run on a new installation, a
  production environment that is blocking was switched to monitor mode by one call with the permission
  to write policies, and to block by a later one, at least fourteen days after the first. (The fourteen
  days run from the switch; nothing keeps the environment in monitor mode meanwhile.)
\<close>

theorem production_blocks_only_after_soak:
  assumes "fleet_keyed db" "fd_environments db = []"
    and "dget (fd_environments (fleet_run calls db)) i = Some e"
    and "ev_kind e = PRODUCTION_ENV" "ev_protection_mode e = MODE_BLOCK"
  shows "\<exists>m n t t'. m < n \<and> switched calls m i MODE_MONITOR t \<and> switched calls n i MODE_BLOCK t' \<and> t + days 14 \<le> t'"
  using run_recorded [OF assms(1,2), of calls] dget_set [OF assms(3)] assms(4,5)
  by (auto simp: soak_recorded_def row_recorded_def)

text \<open>
  The soak clock also runs while protection is off: an environment that entered monitor mode may leave it
  at once and block fourteen days later.
\<close>

lemma soak_runs_while_off:
  assumes "ev_protection_mode e = MODE_OFF" "t + days 14 \<le> t'"
  shows "\<exists>e1 e2 e3. set_protection_mode MODE_MONITOR t e = Inr e1 \<and> set_protection_mode MODE_OFF t e1 = Inr e2
    \<and> set_protection_mode MODE_BLOCK t' e2 = Inr e3 \<and> ev_protection_mode e3 = MODE_BLOCK"
  using assms by (simp add: set_protection_mode_def Let_def soak_satisfied_def REQUIRED_SOAK_DAYS_def)

section \<open>Disabled agents\<close>

text \<open>The agent is gone, or still belongs to the organization and is disabled.\<close>

definition shut_out :: "uuid \<Rightarrow> uuid \<Rightarrow> str \<Rightarrow> fleet_db \<Rightarrow> bool" where
  "shut_out org i fp db \<longleftrightarrow> (case dget (fd_agents db) i of None \<Rightarrow> True
     | Some a \<Rightarrow> ag_organization_id a = org \<and> ag_fingerprint a = fp \<and> ag_status a = DISABLED)"

lemma dget_filter: "dict_ok d \<Longrightarrow> dget (filter p d) k = (case dget d k of None \<Rightarrow> None | Some v \<Rightarrow> if p (k, v) then Some v else None)"
  unfolding dget_def dict_ok_def by (induction d) (auto split: option.splits simp: map_of_eq_None_iff dest: map_of_SomeD)

lemma shut_out_move:
  assumes "fleet_move fr env call db db'" "fleet_keyed db" "shut_out org i fp db" "i \<notin> range (ce_fresh env)"
    and "\<And>a. ag_id a = i \<Longrightarrow> ag_organization_id a = org \<Longrightarrow> ag_fingerprint a = fp \<Longrightarrow> \<not> enables call a"
  shows "shut_out org i fp db'"
  using assms
proof (induction rule: fleet_move.induct)
  case (drop_application pr j db)
  then have "dict_ok (fd_agents db)" by (auto simp: fleet_keyed_def keyed_def)
  with drop_application(4) show ?case
    by (auto simp: shut_out_def applications_delete_def Let_def dget_filter split: option.splits)
next
  case (change_agent db org' b a)
  have a: "dget (fd_agents db) (ag_id b) = Some a" using change_agent(1) by (simp add: agents_get_iff)
  then have id: "ag_id a = ag_id b" using keyed_get change_agent(4) by (fastforce simp: fleet_keyed_def)
  show ?case
  proof (cases "ag_id b = i")
    case True
    with a change_agent(5) have "ag_organization_id a = org" "ag_fingerprint a = fp" "ag_status a = DISABLED"
      by (auto simp: shut_out_def)
    moreover from this True id have "ag_status b = DISABLED" using change_agent(3,7) by blast
    ultimately show ?thesis using a True by (simp add: shut_out_def agents_update_def dget_dput)
  next
    case False
    with a change_agent(5) show ?thesis by (simp add: shut_out_def agents_update_def dget_dput)
  qed
qed (auto simp: shut_out_def fleet_table_defs Let_def dget_dput split: option.splits)


section \<open>Consistent tables within the licence\<close>

definition unique :: "('r \<Rightarrow> 'k) \<Rightarrow> (uuid, 'r) dict \<Rightarrow> bool" where
  "unique f d \<longleftrightarrow> (\<forall>(i, r) \<in> set d. \<forall>(j, s) \<in> set d. f r = f s \<longrightarrow> i = j)"

text \<open>
  Fingerprints, environments of an application and slugs of an organization are unique, and every agent
  reports from an environment, and every environment belongs to an application, of its organization.
\<close>

definition fleet_sound :: "fleet_db \<Rightarrow> bool" where
  "fleet_sound db \<longleftrightarrow> fleet_keyed db
     \<and> unique ag_fingerprint (fd_agents db)
     \<and> unique (\<lambda>e. (ev_application_id e, ev_kind e)) (fd_environments db)
     \<and> unique (\<lambda>a. (ap_organization_id a, ap_slug a)) (fd_applications db)
     \<and> (\<forall>(i, e) \<in> set (fd_environments db). \<exists>a. dget (fd_applications db) (ev_application_id e) = Some a
           \<and> ap_organization_id a = ev_organization_id e)
     \<and> (\<forall>(i, g) \<in> set (fd_agents db). \<exists>e. dget (fd_environments db) (ag_environment_id g) = Some e
           \<and> ev_organization_id e = ag_organization_id g)"

lemma unique_dput: "unique f d \<Longrightarrow> \<forall>(i, r) \<in> set d. f r \<noteq> f v \<Longrightarrow> unique f (dput k v d)"
  by (fastforce simp: unique_def dest!: dput_row)

lemma uniqueD: "unique f d \<Longrightarrow> (i, x) \<in> set d \<Longrightarrow> (j, y) \<in> set d \<Longrightarrow> f x = f y \<Longrightarrow> i = j"
  unfolding unique_def by blast

lemma unique_update:
  assumes "unique f d" "dget d k = Some r" "f v = f r"
  shows "unique f (dput k v d)"
  unfolding unique_def
proof clarify
  fix i x j y assume x: "(i, x) \<in> set (dput k v d)" and y: "(j, y) \<in> set (dput k v d)" and eq: "f x = f y"
  have "\<exists>z. (l, z) \<in> set d \<and> f z = f w" if "(l, w) \<in> set (dput k v d)" for l w
    using dput_row [OF that] dget_set [OF assms(2)] assms(3) by auto
  from this [OF x] this [OF y] obtain z z' where z: "(i, z) \<in> set d" "f z = f x" "(j, z') \<in> set d" "f z' = f y" by blast
  show "i = j" by (rule uniqueD [OF assms(1) z(1,3)]) (simp add: z eq)
qed

lemma unique_filter: "unique f d \<Longrightarrow> unique f (filter p d)"
  by (auto simp: unique_def)

text \<open>A row of one table that refers to a row of another of the same organization.\<close>

definition refers :: "('r \<Rightarrow> uuid) \<Rightarrow> ('r \<Rightarrow> uuid) \<Rightarrow> ('s \<Rightarrow> uuid) \<Rightarrow> (uuid, 'r) dict \<Rightarrow> (uuid, 's) dict \<Rightarrow> bool" where
  "refers ref org org' d d' \<longleftrightarrow> (\<forall>(i, r) \<in> set d. \<exists>s. dget d' (ref r) = Some s \<and> org' s = org r)"

lemma fleet_sound_refers: "fleet_sound db \<longleftrightarrow> fleet_keyed db
     \<and> unique ag_fingerprint (fd_agents db)
     \<and> unique (\<lambda>e. (ev_application_id e, ev_kind e)) (fd_environments db)
     \<and> unique (\<lambda>a. (ap_organization_id a, ap_slug a)) (fd_applications db)
     \<and> refers ev_application_id ev_organization_id ap_organization_id (fd_environments db) (fd_applications db)
     \<and> refers ag_environment_id ag_organization_id ev_organization_id (fd_agents db) (fd_environments db)"
  by (simp add: fleet_sound_def refers_def)

lemma refers_new: "refers f o1 o2 d d' \<Longrightarrow> k \<notin> fst ` set d' \<Longrightarrow> refers f o1 o2 d (dput k v d')"
  by (fastforce simp: refers_def dget_dput dest: dget_Some_key)

lemma refers_update: "refers f o1 o2 d d' \<Longrightarrow> dget d' k = Some r \<Longrightarrow> o2 v = o2 r \<Longrightarrow> refers f o1 o2 d (dput k v d')"
  by (fastforce simp: refers_def dget_dput)

lemma refers_dput: "refers f o1 o2 d d' \<Longrightarrow> dget d' (f v) = Some s \<Longrightarrow> o2 s = o1 v \<Longrightarrow> refers f o1 o2 (dput k v d) d'"
  by (auto simp: refers_def dest!: dput_row)

lemma refers_row: "refers f o1 o2 d d' \<Longrightarrow> dget d k = Some r \<Longrightarrow> \<exists>s. dget d' (f r) = Some s \<and> o2 s = o1 r"
  by (auto simp: refers_def dest!: dget_set)

lemma refers_keep: "refers f o1 o2 d d' \<Longrightarrow> dget d k = Some r \<Longrightarrow> f v = f r \<Longrightarrow> o1 v = o1 r \<Longrightarrow> refers f o1 o2 (dput k v d) d'"
  by (metis refers_dput refers_row)

lemma sound_drop:
  assumes "fleet_sound db" shows "fleet_sound (applications_delete org i db)"
proof (cases "applications_get db org i")
  case (Some a)
  let ?E = "fd_environments db" and ?E' = "filter (\<lambda>(_, e). ev_application_id e \<noteq> i) (fd_environments db)"
  let ?gone = "fst ` set (filter (\<lambda>(_, e). ev_application_id e = i) ?E)"
  let ?A' = "filter (\<lambda>(_, g). ag_environment_id g \<notin> ?gone) (fd_agents db)"
  have del: "applications_delete org i db = db\<lparr>fd_applications := ddel i (fd_applications db), fd_environments := ?E', fd_agents := ?A'\<rparr>"
    using Some by (simp add: applications_delete_def Let_def)
  have E: "keyed ev_id ?E" using assms by (simp add: fleet_sound_def fleet_keyed_def)
  have "refers ev_application_id ev_organization_id ap_organization_id ?E' (ddel i (fd_applications db))"
    using assms by (auto simp: fleet_sound_refers refers_def dget_ddel)
  moreover have "refers ag_environment_id ag_organization_id ev_organization_id ?A' ?E'"
    unfolding refers_def
  proof clarify
    fix j g assume g: "(j, g) \<in> set ?A'"
    then obtain e where e: "dget ?E (ag_environment_id g) = Some e" "ev_organization_id e = ag_organization_id g"
      using assms by (auto simp: fleet_sound_def)
    with g have "ev_application_id e \<noteq> i" by (force dest: dget_set)
    then show "\<exists>s. dget ?E' (ag_environment_id g) = Some s \<and> ev_organization_id s = ag_organization_id g"
      using E e by (simp add: dget_filter keyed_def)
  qed
  ultimately show ?thesis using assms
    by (auto simp: fleet_sound_refers del fleet_keyed_def ddel_def intro: unique_filter)
qed (use assms in \<open>simp add: applications_delete_def\<close>)

lemma by_slug_free:
  assumes "applications_get_by_slug db org sl = None" "(i, a) \<in> set (fd_applications db)"
  shows "(ap_organization_id a, ap_slug a) \<noteq> (org, sl)"
  using assms by (force simp: applications_get_by_slug_def scoped_applications_def find_None_iff)

lemma sound_move:
  assumes "fleet_move True env call db db'" "fleet_sound db"
  shows "fleet_sound db'"
  using assms
proof (induction rule: fleet_move.induct)
  case (audit org i c db db')
  then show ?case by (auto simp: fleet_audit_Inr fleet_sound_def fleet_keyed_def)
next
  case (new_application a db org u)
  then show ?case
    using by_slug_free [OF new_application(2)]
    by (auto simp: fleet_sound_refers applications_add_def fleet_keyed_def intro!: unique_dput refers_new)
next
  case (change_application db a)
  then show ?case
    by (auto simp: fleet_sound_refers applications_update_def fleet_keyed_def Let_def
        intro: unique_update refers_update split: option.splits)
next
  case (drop_application pr i db)
  then show ?case by (intro sound_drop)
next
  case (new_environment i db org app a kind facing db')
  then show ?case
    by (auto simp: fleet_sound_refers environments_add_Inr fleet_keyed_def new_environment_def applications_get_def
        intro!: unique_dput refers_new refers_dput split: option.splits if_splits)
next
  case (set_mode pr i mode db e e')
  then show ?case
    by (auto simp: fleet_sound_refers environments_update_def fleet_keyed_def Let_def
        intro: unique_update refers_update refers_keep split: option.splits)
next
  case (new_agent a db org u db')
  then show ?case
    by (auto simp: fleet_sound_refers agents_add_Inr fleet_keyed_def environments_get_iff
        intro!: unique_dput refers_dput)
next
  case (change_agent db org b a)
  then have a: "dget (fd_agents db) (ag_id b) = Some a" "ag_organization_id a = org" by (simp_all add: agents_get_iff)
  let ?v = "a\<lparr>ag_environment_id := ag_environment_id b, ag_hostname := ag_hostname b,
               ag_agent_version := ag_agent_version b, ag_runtime_version := ag_runtime_version b,
               ag_status := ag_status b, ag_config_version := ag_config_version b,
               ag_cpu_overhead_pct := ag_cpu_overhead_pct b, ag_memory_mb := ag_memory_mb b,
               ag_events_sent := ag_events_sent b, ag_events_dropped := ag_events_dropped b,
               ag_health := ag_health b, ag_pinned_version := ag_pinned_version b,
               ag_last_seen_at := ag_last_seen_at b\<rparr>"
  have upd: "agents_update b db = db\<lparr>fd_agents := dput (ag_id b) ?v (fd_agents db)\<rparr>"
    by (simp add: agents_update_def a(1))
  have A: "refers ag_environment_id ag_organization_id ev_organization_id (fd_agents db) (fd_environments db)"
    using change_agent(4) by (simp add: fleet_sound_refers)
  have "refers ag_environment_id ag_organization_id ev_organization_id (dput (ag_id b) ?v (fd_agents db)) (fd_environments db)"
  proof (cases "ag_environment_id b = ag_environment_id a")
    case True
    then show ?thesis by (intro refers_keep [OF A a(1)]) simp_all
  next
    case False
    with change_agent(2) obtain e where "environments_get db org (ag_environment_id b) = Some e" by auto
    then show ?thesis using a(2) by (intro refers_dput [OF A]) (auto simp: environments_get_iff)
  qed
  moreover have "keyed ag_id (dput (ag_id b) ?v (fd_agents db))" "unique ag_fingerprint (dput (ag_id b) ?v (fd_agents db))"
    using change_agent(4) a(1) by (auto simp: fleet_sound_refers fleet_keyed_def intro: unique_update)
  ultimately show ?case using change_agent(4) by (simp add: upd fleet_sound_refers fleet_keyed_def)
qed

lemma count_dput: "length (filter p (map snd (dput k v d))) \<le> length (filter p (map snd d)) + (if p v then 1 else 0)"
  by (induction k v d rule: dput.induct) auto

lemma count_update: "dget d k = Some r \<Longrightarrow> p v = p r \<Longrightarrow> length (filter p (map snd (dput k v d))) = length (filter p (map snd d))"
  unfolding dget_def by (induction k v d rule: dput.induct) (auto split: if_splits)

lemmas count_rows = count_update [unfolded filter_map length_map]

lemma count_filter: "length (filter p (map snd (filter q d))) \<le> length (filter p (map snd d))"
  by (induction d) auto

lemma applications_count_add: "applications_count (applications_add t a db) org
    \<le> applications_count db org + (if ap_organization_id a = org then 1 else 0)"
  using count_dput [of "\<lambda>a. ap_organization_id a = org" "ap_id a" "a\<lparr>ap_created_at := Some t, ap_updated_at := Some t\<rparr>" "fd_applications db"]
  by (simp add: applications_count_def scoped_applications_def applications_add_def)

lemma agents_count_add: "agents_add t a db = Inr db' \<Longrightarrow>
    agents_count db' org \<le> agents_count db org + (if ag_organization_id a = org then 1 else 0)"
  using count_dput [of "\<lambda>a. ag_organization_id a = org" "ag_id a" "a\<lparr>ag_created_at := Some t\<rparr>" "fd_agents db"]
  by (simp add: agents_count_def scoped_agents_def agents_add_Inr)

text \<open>The licence of an organization and its use, when it started with \<open>n\<close> applications and \<open>m\<close> agents.\<close>

definition licensed :: "uuid \<Rightarrow> license \<Rightarrow> nat \<Rightarrow> nat \<Rightarrow> fleet_db \<Rightarrow> bool" where
  "licensed org l n m db \<longleftrightarrow> licenses_get_for_organization (fd_core db) org = Some l
     \<and> (0 \<le> li_max_applications l \<longrightarrow> int (applications_count db org) \<le> max (int n) (li_max_applications l))
     \<and> (0 \<le> li_max_agents l \<longrightarrow> int (agents_count db org) \<le> max (int m) (li_max_agents l))"

lemma licensed_move:
  assumes "fleet_move fr env call db db'" "licensed org l n m db"
  shows "licensed org l n m db'"
  using assms
proof (induction rule: fleet_move.induct)
  case (audit org' i c db db')
  then show ?case
    by (auto simp: fleet_audit_Inr licensed_def applications_count_def agents_count_def scoped_applications_def
        scoped_agents_def licenses_get_for_organization_def dest!: record_audit_Inr)
next
  case (new_application a db org' u)
  have "int (applications_count (applications_add (ce_db_now env) a db) org) \<le> max (int n) (li_max_applications l)"
    if "0 \<le> li_max_applications l"
  proof (cases "org' = org")
    case True
    with new_application(4,5) that have "int (applications_count db org) < li_max_applications l"
      by (auto simp: licensed_def check_license_def check_applications_def check_limit_def)
    then show ?thesis using applications_count_add [of "ce_db_now env" a db org] by (auto split: if_splits)
  next
    case False
    then have "applications_count (applications_add (ce_db_now env) a db) org \<le> applications_count db org"
      using new_application(3) applications_count_add [of "ce_db_now env" a db org] by simp
    moreover have "int (applications_count db org) \<le> max (int n) (li_max_applications l)"
      using that new_application(5) by (simp add: licensed_def)
    ultimately show ?thesis by linarith
  qed
  then show ?case using new_application(5) by (simp add: licensed_def applications_add_def agents_count_def scoped_agents_def)
next
  case (change_application db a)
  then show ?case
    by (auto simp: licensed_def applications_update_def Let_def applications_count_def scoped_applications_def agents_count_def
        scoped_agents_def count_rows filter_map split: option.splits)
next
  case (drop_application pr i db)
  have "applications_count (applications_delete (pr_organization_id pr) i db) org \<le> applications_count db org"
    "agents_count (applications_delete (pr_organization_id pr) i db) org \<le> agents_count db org"
    using count_filter by (auto simp: applications_delete_def Let_def applications_count_def scoped_applications_def
        agents_count_def scoped_agents_def ddel_def split: option.splits)
  moreover have "fd_core (applications_delete (pr_organization_id pr) i db) = fd_core db"
    by (simp add: applications_delete_def Let_def split: option.split)
  ultimately show ?case using drop_application(3) by (auto simp: licensed_def)
next
  case (new_agent a db org' u db')
  then have db': "db' = db\<lparr>fd_agents := dput (ag_id a) (a\<lparr>ag_created_at := Some (ce_db_now env)\<rparr>) (fd_agents db)\<rparr>"
    by (simp add: agents_add_Inr)
  have "int (agents_count db' org) \<le> max (int m) (li_max_agents l)" if "0 \<le> li_max_agents l"
  proof (cases "org' = org")
    case True
    with new_agent(5,7) that have "int (agents_count db org) < li_max_agents l"
      by (auto simp: licensed_def check_license_def check_agents_def check_limit_def)
    then show ?thesis using agents_count_add [OF new_agent(6), of org] by (auto split: if_splits)
  next
    case False
    then have "agents_count db' org \<le> agents_count db org"
      using new_agent(2) agents_count_add [OF new_agent(6), of org] by simp
    moreover have "int (agents_count db org) \<le> max (int m) (li_max_agents l)"
      using that new_agent(7) by (simp add: licensed_def)
    ultimately show ?thesis by linarith
  qed
  then show ?case using new_agent(7) by (simp add: licensed_def db' applications_count_def scoped_applications_def)
next
  case (change_agent db org' b a)
  then show ?case
    by (auto simp: licensed_def agents_update_def agents_count_def scoped_agents_def count_rows filter_map
        applications_count_def scoped_applications_def split: option.splits)
qed (auto simp: licensed_def environments_add_Inr environments_update_def Let_def applications_count_def agents_count_def
    scoped_applications_def scoped_agents_def split: option.splits)

text \<open>Every call of the run draws new ids.\<close>

definition run_fresh :: "(control_env \<times> fleet_call) list \<Rightarrow> fleet_db \<Rightarrow> bool" where
  "run_fresh calls db \<longleftrightarrow> (\<forall>n < length calls. fleet_fresh (fst (calls ! n)) (fleet_run (take n calls) db))"

lemma run_fresh_snoc: "run_fresh (calls @ [c]) db \<longleftrightarrow> run_fresh calls db \<and> fleet_fresh (fst c) (fleet_run calls db)"
  by (auto simp: run_fresh_def nth_append less_Suc_eq)

lemma run_within: "fleet_keyed db \<Longrightarrow> licensed org l n m db \<Longrightarrow> licensed org l n m (fleet_run calls db)"
proof (induction calls rule: rev_induct)
  case (snoc c calls)
  obtain env call where c: "c = (env, call)" by (cases c)
  have "licensed org l n m (perform env call (fleet_run calls db))"
    by (rule moves_keep [OF perform_moves [where fr = False]]) (use snoc run_keyed licensed_move in auto)
  then show ?case by (simp add: c)
qed simp

lemma run_sound: "fleet_sound db \<Longrightarrow> run_fresh calls db \<Longrightarrow> fleet_sound (fleet_run calls db)"
proof (induction calls rule: rev_induct)
  case (snoc c calls)
  obtain env call where c: "c = (env, call)" by (cases c)
  from snoc have s: "fleet_sound (fleet_run calls db)" "fleet_fresh env (fleet_run calls db)" by (auto simp: run_fresh_snoc c)
  then have k: "fleet_keyed (fleet_run calls db)" by (simp add: fleet_sound_def)
  have "fleet_sound (perform env call (fleet_run calls db))"
    by (rule moves_keep [OF perform_moves [where fr = True, OF k s(2)]]) (use s(1) k sound_move in auto)
  then show ?case by (simp add: c)
qed simp

text \<open>
  C34. The fleet stays consistent and within its licence: over any run of operations that draw new ids,
  fingerprints, the environments of an application and the slugs of an organization stay unique, and
  rows refer to rows of their own organization, so that every agent keeps resolving to the context of an
  application of its organization, which is what the finding pipeline asks for; and no organization
  gets more applications or agents than its licence allows, or than it had.
\<close>

theorem fleet_stays_consistent_and_licensed:
  assumes "fleet_sound db" "run_fresh calls db"
  defines "db' \<equiv> fleet_run calls db"
  shows "fleet_sound db'
    \<and> (\<forall>org i. agents_get db' org i \<noteq> None \<longrightarrow> (\<exists>c a. agent_context_of db' org i = Some c
          \<and> applications_get db' org (ac_application_id c) = Some a))
    \<and> (\<forall>org l. licenses_get_for_organization (fd_core db) org = Some l \<longrightarrow>
          licenses_get_for_organization (fd_core db') org = Some l
          \<and> (0 \<le> li_max_applications l \<longrightarrow>
               int (applications_count db' org) \<le> max (int (applications_count db org)) (li_max_applications l))
          \<and> (0 \<le> li_max_agents l \<longrightarrow>
               int (agents_count db' org) \<le> max (int (agents_count db org)) (li_max_agents l)))"
proof (intro conjI allI impI)
  show sound: "fleet_sound db'" unfolding db'_def by (rule run_sound [OF assms(1,2)])
  fix org l assume "licenses_get_for_organization (fd_core db) org = Some l"
  then have "licensed org l (applications_count db org) (agents_count db org) db" by (simp add: licensed_def)
  with assms(1) have "licensed org l (applications_count db org) (agents_count db org) db'"
    unfolding db'_def by (intro run_within) (simp_all add: fleet_sound_def)
  then show "licenses_get_for_organization (fd_core db') org = Some l"
    "0 \<le> li_max_applications l \<Longrightarrow> int (applications_count db' org) \<le> max (int (applications_count db org)) (li_max_applications l)"
    "0 \<le> li_max_agents l \<Longrightarrow> int (agents_count db' org) \<le> max (int (agents_count db org)) (li_max_agents l)"
    by (simp_all add: licensed_def)
next
  fix org i assume "agents_get db' org i \<noteq> None"
  then obtain g where g: "agents_get db' org i = Some g" by auto
  have sound: "fleet_sound db'" unfolding db'_def by (rule run_sound [OF assms(1,2)])
  obtain e where e: "dget (fd_environments db') (ag_environment_id g) = Some e" "ev_organization_id e = org"
    using g sound by (fastforce simp: fleet_sound_refers agents_get_iff dest: refers_row)
  obtain a where a: "dget (fd_applications db') (ev_application_id e) = Some a" "ap_organization_id a = org"
    using e sound by (fastforce simp: fleet_sound_refers dest: refers_row)
  have "ap_id a = ev_application_id e" using sound a by (auto simp: fleet_sound_def fleet_keyed_def dest: keyed_get)
  then show "\<exists>c a. agent_context_of db' org i = Some c \<and> applications_get db' org (ac_application_id c) = Some a"
    using g e a by (simp add: agent_context_of_def applications_get_def)
qed

end
