(* ===== verification/FleetReports.thy ===== *)
theory FleetReports
  imports FleetGuards SignInProps
begin

text \<open>
  Registration and what an agent can do after it; a sample installation on which the guarantees of the
  fleet are applied.
\<close>

section \<open>Registration\<close>

lemma register_result:
  assumes "register_agent deps env pr name kind facts db = (Inr r, db')" "fleet_keyed db"
  shows "AGENT_WRITE \<in> pr_permissions pr
    \<and> ar_agent_token r = codec_issue_agent deps (ys_id (ar_agent r)) (pr_organization_id pr) AGENT_TOKEN_TTL_SECONDS (ce_now env)
    \<and> (\<exists>a. agents_get db' (pr_organization_id pr) (ys_id (ar_agent r)) = Some a
          \<and> ag_fingerprint a = strip (af_fingerprint facts) \<and> ag_status a \<noteq> DISABLED)
    \<and> (\<forall>a0. agents_get_by_fingerprint db (pr_organization_id pr) (strip (af_fingerprint facts)) = Some a0 \<longrightarrow>
          ys_id (ar_agent r) = ag_id a0 \<and> agents_count db' (pr_organization_id pr) = agents_count db (pr_organization_id pr))"
proof -
  let ?org = "pr_organization_id pr" and ?fp = "strip (af_fingerprint facts)"
  obtain app db1 e db2 a where
    may: "AGENT_WRITE \<in> pr_permissions pr" and
    app: "ensure_application env pr name (af_language facts) db = Inr (app, db1)" and
    e: "ensure_environment env pr app kind db1 = Inr (e, db2)" and
    a: "(case agents_get_by_fingerprint db2 ?org ?fp of
        None \<Rightarrow> enrol_agent env pr app e facts db2
      | Some a0 \<Rightarrow> let a = refresh_agent env e facts a0 in Inr (a, agents_update a db2)) = Inr (a, db')" and
    r: "ys_id (ar_agent r) = ag_id a" "ar_agent_token r = codec_issue_agent deps (ag_id a) ?org AGENT_TOKEN_TTL_SECONDS (ce_now env)"
    using assms(1)
    by (auto simp: register_agent_def in_transaction_def Let_def res_bind_Inr summarize_agent_def split: sum.splits)
  have m1: "fleet_moves False env (Sweep_agents undefined 0 []) db db1" "applications_get db1 ?org (ap_id app) \<noteq> None" "fd_agents db1 = fd_agents db"
    using ensure_application_moves [OF app assms(2), of False] by auto
  have k1: "fleet_keyed db1" by (rule moves_keyed [OF m1(1) assms(2)])
  have m2: "fleet_moves False env (Sweep_agents undefined 0 []) db1 db2" "fd_agents db2 = fd_agents db"
    using ensure_environment_moves [OF e m1(2) k1, of False] m1(3) by auto
  have k2: "fleet_keyed db2" by (rule moves_keyed [OF m2(1) k1])
  have same: "agents_get_by_fingerprint db2 ?org ?fp = agents_get_by_fingerprint db ?org ?fp"
    using m2(2) by (simp add: agents_get_by_fingerprint_def scoped_agents_def)
  show ?thesis
  proof (cases "agents_get_by_fingerprint db2 ?org ?fp")
    case None
    with a obtain v rt lang cfg t db3 c where
      new: "new_agent (ce_fresh env 3) ?org (ev_id e) ?fp (af_hostname facts) v rt lang cfg t = Inr a" and
      add: "agents_add (ce_db_now env) a db2 = Inr db3" and
      audit: "fleet_audit env ?org (ce_fresh env 4) c db3 = Inr db'"
      by (auto simp: enrol_agent_def Let_def res_bind_Inr)
    have "agents_get db' ?org (ag_id a) = Some (a\<lparr>ag_created_at := Some (ce_db_now env)\<rparr>)"
      using audit add new_agent_fields [OF new] by (auto simp: fleet_audit_Inr agents_add_Inr agents_get_iff dget_dput)
    moreover have "ag_status a = REGISTERED" using new by (auto simp: new_agent_def Let_def split: if_splits)
    ultimately show ?thesis using None same may r new_agent_fields [OF new] by simp
  next
    case (Some a0)
    let ?a = "refresh_agent env e facts a0"
    from Some a have a': "a = ?a" "db' = agents_update ?a db2" by (auto simp: Let_def)
    from by_fingerprint [OF k2 Some] have row: "ag_fingerprint a0 = ?fp" "agents_get db2 ?org (ag_id a0) = Some a0" by auto
    have "ag_status ?a \<noteq> DISABLED" "ag_id ?a = ag_id a0" by (simp_all add: refresh_agent_fields)
    then have get: "\<exists>b. agents_get db' ?org (ag_id a) = Some b \<and> ag_fingerprint b = ?fp \<and> ag_status b \<noteq> DISABLED"
      using row by (auto simp: a' agents_get_iff agents_update_def dget_dput)
    have "agents_count db' ?org = agents_count db2 ?org"
      using row(2) \<open>ag_id ?a = ag_id a0\<close>
      by (auto simp: a' agents_count_def scoped_agents_def agents_update_def agents_get_iff count_rows filter_map)
    then have "agents_count db' ?org = agents_count db ?org" using m2(2) by (simp add: agents_count_def scoped_agents_def)
    then show ?thesis using get Some same may r a'(1) \<open>ag_id ?a = ag_id a0\<close> by simp
  qed
qed

text \<open>The token library reads back an agent token, and both ids are UUIDs.\<close>

definition agent_token_reads :: "auth_deps \<Rightarrow> uuid \<Rightarrow> uuid \<Rightarrow> bool" where
  "agent_token_reads deps i org \<longleftrightarrow> (\<forall>ttl now. \<exists>claims.
     codec_decode deps (codec_issue_agent deps i org ttl now) AGENT_TOKEN_AUDIENCE = Inr claims
     \<and> jget claims ''purpose'' = JStr ''agent'' \<and> claim_uuid claims ''sub'' = Inr i \<and> claim_uuid claims ''org'' = Inr org)"

text \<open>
  A registered agent can report, and registers only once: when registration succeeds, the token it
  returns resolves to the agent of that fingerprint, whose heartbeats are accepted from then on; and
  registering the same fingerprint again in the organization, from any application, environment or host
  and by any caller, is answered with the same agent and adds none.
\<close>

theorem registered_agent_reports:
  assumes "fleet_sound db" "fleet_fresh env db"
    and "register_agent deps env pr name kind facts db = (Inr r, db')"
    and "agent_token_reads deps (ys_id (ar_agent r)) (pr_organization_id pr)"
  shows "(\<exists>p. resolve_agent_principal deps (ar_agent_token r) ctx db' = Inr p
      \<and> pr_agent_id p = Some (ys_id (ar_agent r)) \<and> pr_organization_id p = pr_organization_id pr
      \<and> (\<forall>env2 hb. \<exists>s db2. record_heartbeat env2 p hb db' = (Inr s, db2) \<and> ys_id s = ys_id (ar_agent r)
            \<and> ys_fingerprint s = strip (af_fingerprint facts)
            \<and> ys_status s = (if reports_degraded hb then ''DEGRADED'' else ''ONLINE'')))
    \<and> (\<forall>deps2 env2 pr2 name2 kind2 facts2 r2 db2.
          register_agent deps2 env2 pr2 name2 kind2 facts2 db' = (Inr r2, db2)
          \<and> pr_organization_id pr2 = pr_organization_id pr \<and> strip (af_fingerprint facts2) = strip (af_fingerprint facts)
          \<longrightarrow> ys_id (ar_agent r2) = ys_id (ar_agent r)
            \<and> agents_count db2 (pr_organization_id pr) = agents_count db' (pr_organization_id pr))"
proof (intro conjI allI impI)
  let ?org = "pr_organization_id pr" and ?i = "ys_id (ar_agent r)"
  have keyed: "fleet_keyed db" using assms(1) by (simp add: fleet_sound_def)
  have "fleet_moves True env (Register_agent deps pr name kind facts) db db'"
    using register_agent_moves [OF refl keyed assms(2)] assms(3) by (metis snd_conv)
  then have sound: "fleet_sound db'"
    by (rule moves_keep) (use assms(1) keyed sound_move in auto)
  then have keyed': "fleet_keyed db'" by (simp add: fleet_sound_def)
  obtain a where tok: "ar_agent_token r = codec_issue_agent deps ?i ?org AGENT_TOKEN_TTL_SECONDS (ce_now env)"
    and a: "agents_get db' ?org ?i = Some a" "ag_fingerprint a = strip (af_fingerprint facts)" "ag_status a \<noteq> DISABLED"
    using register_result [OF assms(3) keyed] by auto
  define p where "p = \<lparr>pr_kind = ACTOR_AGENT, pr_organization_id = ?org, pr_permissions = {}, pr_user_id = None,
           pr_session_id = None, pr_api_key_id = None, pr_agent_id = Some ?i, pr_membership_id = None,
           pr_label = ''agent:'' @ ag_hostname a, pr_mfa_satisfied = True, pr_is_platform_admin = False,
           pr_is_owner = False, pr_context = ctx\<rparr>"
  obtain claims where "codec_decode deps (codec_issue_agent deps ?i ?org AGENT_TOKEN_TTL_SECONDS (ce_now env)) AGENT_TOKEN_AUDIENCE = Inr claims"
    "jget claims ''purpose'' = JStr ''agent''" "claim_uuid claims ''sub'' = Inr ?i" "claim_uuid claims ''org'' = Inr ?org"
    using assms(4) unfolding agent_token_reads_def by blast
  then have "resolve_agent_principal deps (ar_agent_token r) ctx db' = Inr p"
    using a by (simp add: tok resolve_agent_principal_def dom_res_def p_def)
  moreover have "\<exists>s db2. record_heartbeat env2 p hb db' = (Inr s, db2) \<and> ys_id s = ?i
            \<and> ys_fingerprint s = strip (af_fingerprint facts)
            \<and> ys_status s = (if reports_degraded hb then ''DEGRADED'' else ''ONLINE'')" for env2 hb
    using a agents_get_id [OF keyed' a(1)]
    by (auto simp: record_heartbeat_def p_def own_agent_def expect_def agent_heartbeat_def dom_res_def Let_def
        summarize_agent_def apply_config_def split: option.splits)
  ultimately show "\<exists>p. resolve_agent_principal deps (ar_agent_token r) ctx db' = Inr p
      \<and> pr_agent_id p = Some ?i \<and> pr_organization_id p = ?org
      \<and> (\<forall>env2 hb. \<exists>s db2. record_heartbeat env2 p hb db' = (Inr s, db2) \<and> ys_id s = ?i
            \<and> ys_fingerprint s = strip (af_fingerprint facts)
            \<and> ys_status s = (if reports_degraded hb then ''DEGRADED'' else ''ONLINE''))"
    by (intro exI [of _ p]) (simp add: p_def)
  fix deps2 env2 pr2 name2 kind2 facts2 r2 db2
  assume again: "register_agent deps2 env2 pr2 name2 kind2 facts2 db' = (Inr r2, db2)
    \<and> pr_organization_id pr2 = ?org \<and> strip (af_fingerprint facts2) = strip (af_fingerprint facts)"
  have "a \<in> set (scoped_agents db' ?org)" using a(1) by (force simp: scoped_agents_def agents_get_iff dest: dget_set)
  then obtain b where b: "agents_get_by_fingerprint db' ?org (strip (af_fingerprint facts)) = Some b"
    using a(2) by (cases "agents_get_by_fingerprint db' ?org (strip (af_fingerprint facts))")
      (auto simp: agents_get_by_fingerprint_def find_None_iff)
  from by_fingerprint [OF keyed' b] a sound have "ag_id b = ?i"
    by (auto simp: fleet_sound_def agents_get_iff intro: uniqueD dest!: dget_set)
  then show "ys_id (ar_agent r2) = ?i" "agents_count db2 ?org = agents_count db' ?org"
    using register_result [of deps2 env2 pr2 name2 kind2 facts2 db' r2 db2] again keyed' b by simp_all
qed

text \<open>No setting of an organization takes a key off the list of what an agent redacts.\<close>

lemma default_keys_always_redacted:
  "get_agent_configuration rp fl pr db = Inr c \<Longrightarrow> set DEFAULT_REDACT_KEYS \<subseteq> set (gc_redact_keys c)"
  by (auto simp: get_agent_configuration_def Let_def res_bind_Inr)

section \<open>The sweep\<close>

text \<open>
  The sweep ends and does what it says: with more turns of its loop than the organization has agents,
  it returns the number of agents it demoted, and leaves a database in which every agent of the
  organization that reported last more than ninety seconds ago and is not disabled is offline, and
  nothing else has changed, although it updates the rows it is paging over.
\<close>

theorem sweep_demotes_exactly_the_silent:
  assumes "slug s = Inr sl" "organizations_get_by_slug (fd_core db) sl = Some o1"
    and "keyed ag_id (fd_agents db)"
    and "\<forall>a \<in> set (scoped_agents db (og_id o1)). time_fits cu (agent_key a)"
    and "length (scoped_agents db (og_id o1)) < fuel"
  shows "sweep_offline_agents cu env fuel s db = Some
    (Inr (length (filter (demoted (ce_now env)) (scoped_agents db (og_id o1)))),
     db\<lparr>fd_agents := map (\<lambda>(i, a). (i,
        if ag_organization_id a = og_id o1 \<and> ag_status a \<noteq> DISABLED
           \<and> (\<exists>t. ag_last_seen_at a = Some t \<and> ce_now env - t > seconds 90)
        then a\<lparr>ag_status := OFFLINE\<rparr> else a)) (fd_agents db)\<rparr>)"
proof -
  let ?L = "sort_key agent_key (scoped_agents db (og_id o1))" and ?now = "ce_now env"
  have pages: "sweep_pages cu ?now (og_id o1) fuel None (0, db)
      = Some (Inr (length (filter (demoted ?now) ?L), swept ?now (ag_id ` set ?L) db))"
    using sweep_pages_from [OF assms(3,4), of 0 fuel ?now 0] assms(5)
    by (simp add: time_pages.cursor_at_def swept_def)
  have count: "length (filter (demoted ?now) ?L) = length (filter (demoted ?now) (scoped_agents db (og_id o1)))"
    by (metis filter_sort length_sort)
  have "(if ag_organization_id a = og_id o1 \<and> ag_status a \<noteq> DISABLED
           \<and> (\<exists>t. ag_last_seen_at a = Some t \<and> ?now - t > seconds 90)
        then a\<lparr>ag_status := OFFLINE\<rparr> else a) = (if i \<in> ag_id ` set ?L then evaluate_liveness ?now a else a)"
    if "(i, a) \<in> set (fd_agents db)" for i a
  proof -
    have row: "dget (fd_agents db) i = Some a" "ag_id a = i" using keyed_row [OF assms(3) that] by auto
    have "i \<in> ag_id ` set ?L \<longleftrightarrow> ag_organization_id a = og_id o1"
    proof
      assume "i \<in> ag_id ` set ?L"
      then obtain j b where b: "(j, b) \<in> set (fd_agents db)" "ag_organization_id b = og_id o1" "ag_id b = i"
        by (auto simp: scoped_agents_def)
      with keyed_row [OF assms(3) b(1)] row show "ag_organization_id a = og_id o1" by simp
    next
      assume "ag_organization_id a = og_id o1"
      with that row(2) show "i \<in> ag_id ` set ?L" by (force simp: scoped_agents_def)
    qed
    then show ?thesis by (auto simp: evaluate_liveness_def OFFLINE_AFTER_SECONDS_def split: option.splits)
  qed
  then have "db\<lparr>fd_agents := map (\<lambda>(i, a). (i,
        if ag_organization_id a = og_id o1 \<and> ag_status a \<noteq> DISABLED
           \<and> (\<exists>t. ag_last_seen_at a = Some t \<and> ?now - t > seconds 90)
        then a\<lparr>ag_status := OFFLINE\<rparr> else a)) (fd_agents db)\<rparr> = swept ?now (ag_id ` set ?L) db"
    by (rule swept_agents)
  then show ?thesis using assms(1,2) pages count by (simp add: sweep_offline_agents_def dom_res_def expect_def)
qed

section \<open>A sample installation\<close>

definition fleet_env :: "datetime \<Rightarrow> char \<Rightarrow> control_env" where
  "fleet_env now c = (sample_control_env [c])\<lparr>ce_now := now, ce_db_now := now,
     ce_fresh := (\<lambda>n. if n = 3 then sample_id c else c # replicate n CHR ''x'')\<rparr>"

definition sample_fleet :: fleet_db where
  "sample_fleet = \<lparr>fd_core = sample_account_db
       \<lparr>db_licenses := [(''l1'', license_for_tier ''l1'' (sample_id CHR ''2'') BUSINESS None)]\<rparr>,
     fd_applications = [], fd_environments = [], fd_agents = []\<rparr>"

definition fleet_owner :: principal where
  "fleet_owner = for_membership (membership_to_domain sample_account_db
     ((sample_row ''m1'' (sample_id CHR ''1'') [''r1''] MACTIVE)\<lparr>mr_organization_id := sample_id CHR ''2''\<rparr>)) None ''ann'' True False empty_context"

definition agent_codec :: auth_deps where
  "agent_codec = sample_deps
     \<lparr>ad_encode := (\<lambda>claims. (case jget claims ''sub'' of JStr t \<Rightarrow> t | _ \<Rightarrow> []) @ (case jget claims ''org'' of JStr t \<Rightarrow> t | _ \<Rightarrow> [])),
      ad_decode := (\<lambda>t aud. Some [(''sub'', JStr (take 36 t)), (''org'', JStr (drop 36 t)), (''purpose'', JStr ''agent'')])\<rparr>"

definition shop_agent :: agent_facts where
  "shop_agent = \<lparr>af_fingerprint = ''host-1'', af_hostname = ''h'', af_agent_version = ''1'', af_runtime_version = ''21'', af_language = JAVA\<rparr>"

definition soak_run :: "(control_env \<times> fleet_call) list" where
  "soak_run =
     [(fleet_env 0 CHR ''a'', Register_agent agent_codec fleet_owner ''shop'' PRODUCTION_ENV shop_agent),
      (fleet_env (seconds 10) CHR ''b'', Change_protection_mode fleet_owner ''axx'' MODE_OFF),
      (fleet_env (seconds 20) CHR ''c'', Change_protection_mode fleet_owner ''axx'' MODE_MONITOR),
      (fleet_env (seconds 20 + days 14) CHR ''d'', Change_protection_mode fleet_owner ''axx'' MODE_BLOCK)]"

theorem production_blocks_only_after_soak_witness:
  "\<exists>m n t t'. m < n \<and> switched soak_run m ''axx'' MODE_MONITOR t \<and> switched soak_run n ''axx'' MODE_BLOCK t' \<and> t + days 14 \<le> t'"
proof -
  have "map_option (\<lambda>e. (ev_kind e, ev_protection_mode e)) (dget (fd_environments (fleet_run soak_run sample_fleet)) ''axx'')
      = Some (PRODUCTION_ENV, MODE_BLOCK)"
    by code_simp
  then obtain e where e: "dget (fd_environments (fleet_run soak_run sample_fleet)) ''axx'' = Some e"
    "ev_kind e = PRODUCTION_ENV" "ev_protection_mode e = MODE_BLOCK" by auto
  have "fleet_keyed sample_fleet" "fd_environments sample_fleet = []" by (simp_all add: sample_fleet_def fleet_keyed_def keyed_def)
  from production_blocks_only_after_soak [OF this e] show ?thesis .
qed

lemma sample_fleet_sound: "fleet_sound sample_fleet"
  by (simp add: sample_fleet_def fleet_sound_def fleet_keyed_def keyed_def unique_def)

lemma fleet_env_fresh:
  assumes "c \<noteq> CHR ''0''" "\<forall>k \<in> fst ` set (fd_applications db) \<union> fst ` set (fd_environments db) \<union> fst ` set (fd_agents db).
     k \<noteq> sample_id c \<and> hd k \<noteq> c"
  shows "fleet_fresh (fleet_env now c) db"
proof -
  have zero: "hd (sample_id c) = CHR ''0''" by (simp add: sample_id_def)
  have "inj (ce_fresh (fleet_env now c))"
  proof (rule injI)
    fix n m assume eq: "ce_fresh (fleet_env now c) n = ce_fresh (fleet_env now c) m"
    have "c # replicate k x \<noteq> sample_id c" for k x using zero assms(1) by (metis list.sel(1))
    with eq show "n = m" unfolding fleet_env_def by (auto split: if_splits dest: sym)
  qed
  moreover have "range (ce_fresh (fleet_env now c)) \<subseteq> insert (sample_id c) {k. hd k = c}" by (auto simp: fleet_env_def)
  ultimately show ?thesis using assms(2) unfolding fleet_fresh_def by blast
qed

definition licensed_run :: "(control_env \<times> fleet_call) list" where
  "licensed_run =
     [(fleet_env 0 CHR ''a'', Register_agent agent_codec fleet_owner ''shop'' PRODUCTION_ENV shop_agent),
      (fleet_env 0 CHR ''b'', Register_agent agent_codec fleet_owner ''cart'' STAGING_ENV (shop_agent\<lparr>af_fingerprint := ''host-2''\<rparr>))]"

theorem fleet_stays_consistent_and_licensed_witness:
  "agents_count (fleet_run licensed_run sample_fleet) (sample_id CHR ''2'') = 2
   \<and> map_option ac_application_id (agent_context_of (fleet_run licensed_run sample_fleet) (sample_id CHR ''2'') (sample_id CHR ''b'')) = Some ''b''
   \<and> fleet_sound (fleet_run licensed_run sample_fleet)"
proof -
  have one: "map fst (fd_applications (fleet_run (take 1 licensed_run) sample_fleet)) = [''a'']"
    "map fst (fd_environments (fleet_run (take 1 licensed_run) sample_fleet)) = [''axx'']"
    "map fst (fd_agents (fleet_run (take 1 licensed_run) sample_fleet)) = [sample_id CHR ''a'']" by code_simp+
  have "fleet_fresh (fleet_env 0 CHR ''a'') sample_fleet" by (rule fleet_env_fresh) (simp_all add: sample_fleet_def)
  moreover have "fleet_fresh (fleet_env 0 CHR ''b'') (fleet_run (take 1 licensed_run) sample_fleet)"
    by (rule fleet_env_fresh) (simp_all only: set_map [symmetric] one, simp_all add: sample_id_def)
  ultimately have "run_fresh licensed_run sample_fleet"
    by (auto simp: run_fresh_def licensed_run_def nth_Cons' less_Suc_eq)
  from fleet_stays_consistent_and_licensed [OF sample_fleet_sound this]
  have "fleet_sound (fleet_run licensed_run sample_fleet)" by (rule conjunct1)
  moreover have "agents_count (fleet_run licensed_run sample_fleet) (sample_id CHR ''2'') = 2"
    "map_option ac_application_id (agent_context_of (fleet_run licensed_run sample_fleet) (sample_id CHR ''2'') (sample_id CHR ''b'')) = Some ''b''"
    by code_simp+
  ultimately show ?thesis by blast
qed

definition agent_credential :: principal where
  "agent_credential = \<lparr>pr_kind = ACTOR_AGENT, pr_organization_id = sample_id CHR ''2'', pr_permissions = {}, pr_user_id = None,
     pr_session_id = None, pr_api_key_id = None, pr_agent_id = Some (sample_id CHR ''a''), pr_membership_id = None,
     pr_label = ''agent:h'', pr_mfa_satisfied = True, pr_is_platform_admin = False, pr_is_owner = False, pr_context = empty_context\<rparr>"

definition quiet_heartbeat :: heartbeat where
  "quiet_heartbeat = \<lparr>hb_cpu_overhead_pct = None, hb_memory_mb = None, hb_events_sent = 3, hb_events_dropped = 0, hb_health = None\<rparr>"

definition one_agent :: fleet_db where
  "one_agent = fleet_run [(fleet_env 9 CHR ''a'', Register_agent agent_codec fleet_owner ''shop'' PRODUCTION_ENV shop_agent)] sample_fleet"

lemma one_agent_keyed: "fleet_keyed one_agent"
  unfolding one_agent_def by (rule run_keyed) (simp add: sample_fleet_def fleet_keyed_def keyed_def)

lemma sample_token: "codec_decode agent_codec (sample_id CHR ''a'' @ sample_id CHR ''2'') AGENT_TOKEN_AUDIENCE
    = Inr [(''sub'', JStr (sample_id CHR ''a'')), (''org'', JStr (sample_id CHR ''2'')), (''purpose'', JStr ''agent'')]"
  by (simp add: codec_decode_def agent_codec_def expect_def sample_id_def)

lemma sample_claims:
  defines "claims \<equiv> [(''sub'', JStr (sample_id CHR ''a'')), (''org'', JStr (sample_id CHR ''2'')), (''purpose'', JStr ''agent'')]"
  shows "jget claims ''purpose'' = JStr ''agent''" "claim_uuid claims ''sub'' = Inr (sample_id CHR ''a'')"
    "claim_uuid claims ''org'' = Inr (sample_id CHR ''2'')"
  unfolding claims_def by code_simp+


theorem registered_agent_reports_witness:
  "\<exists>r. fst (register_agent agent_codec (fleet_env 9 CHR ''a'') fleet_owner ''shop'' PRODUCTION_ENV shop_agent sample_fleet) = Inr r
     \<and> (\<exists>p s. resolve_agent_principal agent_codec (ar_agent_token r) empty_context one_agent = Inr p
          \<and> fst (record_heartbeat (fleet_env 20 CHR ''b'') p quiet_heartbeat one_agent) = Inr s
          \<and> ys_id s = sample_id CHR ''a'' \<and> ys_status s = ''ONLINE'')"
proof -
  have "\<not> isl (fst (register_agent agent_codec (fleet_env 9 CHR ''a'') fleet_owner ''shop'' PRODUCTION_ENV shop_agent sample_fleet))
    \<and> ys_id (ar_agent (projr (fst (register_agent agent_codec (fleet_env 9 CHR ''a'') fleet_owner ''shop'' PRODUCTION_ENV shop_agent sample_fleet))))
        = sample_id CHR ''a''" by code_simp
  then obtain r where fst: "fst (register_agent agent_codec (fleet_env 9 CHR ''a'') fleet_owner ''shop'' PRODUCTION_ENV shop_agent sample_fleet) = Inr r"
    and i: "ys_id (ar_agent r) = sample_id CHR ''a''" by (auto simp: isl_def split: sum.splits) (metis sum.exhaust_sel)
  then have reg: "register_agent agent_codec (fleet_env 9 CHR ''a'') fleet_owner ''shop'' PRODUCTION_ENV shop_agent sample_fleet = (Inr r, one_agent)"
    by (simp add: one_agent_def fleet_run_def prod_eq_iff)
  have org: "pr_organization_id fleet_owner = sample_id CHR ''2''" by code_simp
  have fresh: "fleet_fresh (fleet_env 9 CHR ''a'') sample_fleet" by (rule fleet_env_fresh) (simp_all add: sample_fleet_def)
  have "uuid_of (sample_id CHR ''a'') = Some (sample_id CHR ''a'')" "uuid_of (sample_id CHR ''2'') = Some (sample_id CHR ''2'')" by code_simp+
  then have "agent_token_reads agent_codec (ys_id (ar_agent r)) (pr_organization_id fleet_owner)"
    unfolding i org agent_token_reads_def
    by (simp add: codec_decode_def codec_issue_agent_def agent_codec_def expect_def jget_def dget_def claim_uuid_def sample_id_def)
  from registered_agent_reports [OF sample_fleet_sound fresh reg this, of empty_context]
  obtain p where p: "resolve_agent_principal agent_codec (ar_agent_token r) empty_context one_agent = Inr p"
    "\<forall>env2 hb. \<exists>s db2. record_heartbeat env2 p hb one_agent = (Inr s, db2) \<and> ys_id s = ys_id (ar_agent r)
       \<and> ys_fingerprint s = strip (af_fingerprint shop_agent)
       \<and> ys_status s = (if reports_degraded hb then ''DEGRADED'' else ''ONLINE'')" by blast
  have "\<not> reports_degraded quiet_heartbeat" by (simp add: reports_degraded_def quiet_heartbeat_def)
  with p fst i show ?thesis by (metis fst_conv)
qed

theorem sweep_demotes_exactly_the_silent_witness:
  "\<exists>db'. sweep_offline_agents page_env (fleet_env (seconds 200) CHR ''c'') 2 ''acme''
      (fleet_run [(fleet_env 20 CHR ''b'', Record_heartbeat agent_credential quiet_heartbeat)] one_agent) = Some (Inr 1, db')"
proof -
  let ?db = "fleet_run [(fleet_env 20 CHR ''b'', Record_heartbeat agent_credential quiet_heartbeat)] one_agent"
  have keyed: "keyed ag_id (fd_agents ?db)" using run_keyed [OF one_agent_keyed] by (simp add: fleet_keyed_def)
  have s: "slug ''acme'' = Inr ''acme''" by code_simp
  have o1: "organizations_get_by_slug (fd_core ?db) ''acme'' = Some sample_organization" by code_simp
  have org: "og_id sample_organization = sample_id CHR ''2''" by (simp add: sample_organization_def)
  have key: "map agent_key (scoped_agents ?db (sample_id CHR ''2'')) = [(9, sample_id CHR ''a'')]" by code_simp
  then have len: "length (scoped_agents ?db (og_id sample_organization)) < 2" unfolding org by (metis length_map length_Cons list.size(3) lessI One_nat_def Suc_1)
  have "agent_key ` set (scoped_agents ?db (sample_id CHR ''2'')) = {(9, sample_id CHR ''a'')}" by (metis key list.set_map set_simps)
  moreover have "time_fits page_env (9, sample_id CHR ''a'')"
  proof -
    have "uuid_of (sample_id CHR ''a'') = Some (sample_id CHR ''a'')" by code_simp
    then show ?thesis by (simp add: time_fits_def cursor_reads_def page_env_def jget_def dget_def startswith_def)
  qed
  ultimately have fits: "\<forall>a \<in> set (scoped_agents ?db (og_id sample_organization)). time_fits page_env (agent_key a)"
    unfolding org by (metis imageI singletonD)
  have "length (filter (demoted (ce_now (fleet_env (seconds 200) CHR ''c''))) (scoped_agents ?db (og_id sample_organization))) = 1"
    unfolding org by code_simp
  with sweep_demotes_exactly_the_silent [OF s o1 keyed fits len, of "fleet_env (seconds 200) CHR ''c''"] show ?thesis by simp
qed

end
