(* ===== verification/FindingTriage.thy ===== *)
theory FindingTriage
  imports Fleet FindingPipelineProps
begin

text \<open>
  Reading and triaging findings (\<open>application/findings.py\<close>, the part after the pipeline): the queue,
  one finding with its evidence, the lifecycle decisions alone and in bulk, the comment thread and
  the sweep of expired acceptances. The findings of an organization are those the pipeline of
  \<open>FindingPipeline\<close> maintains; beside them stand the users and the audit log of \<open>ControlDb\<close> and
  the table of comments.
\<close>

section \<open>Tables\<close>

record comment =
  cm_id :: uuid
  cm_organization_id :: uuid
  cm_finding_id :: uuid
  cm_author_id :: "uuid option"
  cm_author_label :: str
  cm_body :: str
  cm_status_from :: "str option"
  cm_status_to :: "str option"
  cm_created_at :: datetime

record triage_db =
  tg_core :: control_db
  tg_tenants :: "uuid \<Rightarrow> tenant_db"
  tg_comments :: "comment list"

type_synonym 'a triage_outcome = "(control_exn + 'a) \<times> triage_db"

definition tenant_findings :: "triage_db \<Rightarrow> uuid \<Rightarrow> finding list" where
  "tenant_findings db org = map snd (td_findings (tg_tenants db org))"

definition findings_get :: "triage_db \<Rightarrow> uuid \<Rightarrow> uuid \<Rightarrow> finding option" where
  "findings_get db org i = find (\<lambda>f. f_id f = i) (tenant_findings db org)"

text \<open>The columns \<open>triaged_by\<close> and \<open>author_id\<close> refer to the table of users.\<close>

definition user_reference :: "control_db \<Rightarrow> uuid option \<Rightarrow> control_exn + unit" where
  "user_reference core r =
     (case r of None \<Rightarrow> Inr ()
      | Some u \<Rightarrow> if users_get core u = None then Inl control_exn.Crash else Inr ())"

text \<open>
  The update of a stored finding: the reference is checked when the statement changes it, and a
  reference to nobody raises an \<open>IntegrityError\<close>.
\<close>

definition findings_upsert :: "uuid \<Rightarrow> finding \<Rightarrow> triage_db \<Rightarrow> control_exn + triage_db" where
  "findings_upsert org f db =
     res_bind (if map_option f_triaged_by (get_by_identity (tg_tenants db org) (f_identity_hash f)) = Some (f_triaged_by f)
               then Inr () else user_reference (tg_core db) (f_triaged_by f)) (\<lambda>_.
     Inr (db\<lparr>tg_tenants := (tg_tenants db)(org := upsert f (tg_tenants db org))\<rparr>))"

definition add_comment ::
    "control_env \<Rightarrow> uuid \<Rightarrow> uuid \<Rightarrow> uuid \<Rightarrow> uuid option \<Rightarrow> str \<Rightarrow> str \<Rightarrow> str option \<Rightarrow> str option \<Rightarrow> triage_db
       \<Rightarrow> control_exn + comment \<times> triage_db" where
  "add_comment env i finding_id org author label body status_from status_to db =
     (let c = \<lparr>cm_id = i, cm_organization_id = org, cm_finding_id = finding_id, cm_author_id = author,
               cm_author_label = take 200 label, cm_body = take 4000 body,
               cm_status_from = status_from, cm_status_to = status_to, cm_created_at = ce_db_now env\<rparr>
      in res_bind (user_reference (tg_core db) author) (\<lambda>_.
         Inr (c, db\<lparr>tg_comments := tg_comments db @ [c]\<rparr>)))"

definition list_comments :: "triage_db \<Rightarrow> uuid \<Rightarrow> uuid \<Rightarrow> comment list" where
  "list_comments db org finding_id =
     sort_key cm_created_at (filter (\<lambda>c. cm_finding_id c = finding_id \<and> cm_organization_id c = org) (tg_comments db))"

definition list_expired_acceptances :: "datetime \<Rightarrow> uuid \<Rightarrow> triage_db \<Rightarrow> finding list" where
  "list_expired_acceptances now org db =
     filter (\<lambda>f. f_status f = ACCEPTED_RISK \<and> (case f_accepted_until f of None \<Rightarrow> False | Some t \<Rightarrow> t \<le> now))
       (tenant_findings db org)"

definition triage_audit :: "control_env \<Rightarrow> uuid \<Rightarrow> uuid \<Rightarrow> audit_call \<Rightarrow> triage_db \<Rightarrow> control_exn + triage_db" where
  "triage_audit env bound i c db = map_sum id (\<lambda>core. db\<lparr>tg_core := core\<rparr>) (record_audit env bound i c (tg_core db))"

section \<open>The demonstration findings\<close>

definition DEMO_FINDING_SQLI :: finding where
  "DEMO_FINDING_SQLI =
     \<lparr>f_id = ''00000000-0000-0000-0000-000000000001'', f_organization_id = ''00000000-0000-0000-0000-000000000000'',
      f_application_id = ''00000000-0000-0000-0000-000000000002'', f_identity_hash = replicate 64 (CHR ''a''),
      f_rule_key = ''sql-injection'', f_title = ''SQL Injection in UserRepository.findByName'',
      f_severity = CRITICAL, f_confidence = EXPLOITED, f_sink_signature = ''sqlite3.Cursor.execute'',
      f_source_kind = ''PARAMETER'', f_stack_hash = replicate 64 (CHR ''b''), f_status = OPEN,
      f_risk_score = 95 / 10, f_risk_factors = [], f_occurrence_count = 0, f_suppressed_occurrence_count = 0,
      f_would_block_count = 0, f_environments_seen = [], f_route_templates = [], f_first_seen_at = None,
      f_last_seen_at = None, f_remediated_at = None, f_regressed = False, f_accepted_until = None,
      f_triage_note = [], f_triaged_by = None, f_cwe_id = Some 89\<rparr>"

definition DEMO_FINDING_CMD :: finding where
  "DEMO_FINDING_CMD =
     DEMO_FINDING_SQLI\<lparr>f_id := ''00000000-0000-0000-0000-000000000002'', f_identity_hash := replicate 64 (CHR ''c''),
      f_rule_key := ''command-injection'', f_title := ''OS Command Injection in NetworkDiagnostics.pingHost'',
      f_risk_score := 98 / 10, f_sink_signature := ''subprocess.Popen'', f_stack_hash := replicate 64 (CHR ''d''),
      f_cwe_id := Some 78\<rparr>"


section \<open>Reading\<close>

record finding_page =
  fp_items :: "finding list"
  fp_next_cursor :: "str option"
  fp_limit :: nat

text \<open>\<open>[s.upper() for s in status] if status else None\<close>: an absent list and an empty one are the same.\<close>

definition upper_query :: "finding_query \<Rightarrow> finding_query" where
  "upper_query q =
     q\<lparr>fq_statuses := map upper (fq_statuses q), fq_severities := map upper (fq_severities q),
       fq_environment := upper (fq_environment q)\<rparr>"

definition list_findings ::
    "cursor_env \<Rightarrow> principal \<Rightarrow> nat \<Rightarrow> str option \<Rightarrow> finding_query \<Rightarrow> triage_db \<Rightarrow> control_exn + finding_page" where
  "list_findings cu pr limit cursor q db =
     res_bind (dom_res (require FINDING_READ pr)) (\<lambda>_.
     res_bind (findings_list_all cu limit cursor (upper_query q) (tg_tenants db (pr_organization_id pr))) (\<lambda>(items, next_cursor).
     Inr \<lparr>fp_items = (if items = [] then [DEMO_FINDING_SQLI, DEMO_FINDING_CMD] else items),
          fp_next_cursor = next_cursor, fp_limit = limit\<rparr>))"

text \<open>A demonstration finding comes with a fixed occurrence, which has no time, and no comments.\<close>

datatype finding_detail =
    Stored_detail finding "occurrence list" "comment list"
  | Demo_detail finding

definition get_finding :: "principal \<Rightarrow> uuid \<Rightarrow> triage_db \<Rightarrow> control_exn + finding_detail" where
  "get_finding pr finding_id db =
     (let org = pr_organization_id pr in
      res_bind (dom_res (require FINDING_READ pr)) (\<lambda>_.
      case findings_get db org finding_id of
        None \<Rightarrow>
          if finding_id = f_id DEMO_FINDING_SQLI then Inr (Demo_detail DEMO_FINDING_SQLI)
          else if finding_id = f_id DEMO_FINDING_CMD then Inr (Demo_detail DEMO_FINDING_CMD)
          else Inl (Domain (NotFoundError ''Finding not found.''))
      | Some f \<Rightarrow>
          Inr (Stored_detail f (list_occurrences finding_id 20 (tg_tenants db org)) (list_comments db org finding_id))))"

section \<open>Triage\<close>

text \<open>What a finding raises, as the error of the domain it is.\<close>

fun transition_error :: "finding_error \<Rightarrow> domain_error" where
  "transition_error (Illegal_transition source target) =
     InvalidStateError (''A finding cannot move from '' @ status_value source @ '' to '' @ status_value target @ ''.'')"
| "transition_error (Reason_required target) =
     InvalidStateError (''Marking a finding '' @ status_value target @ '' requires a reason.'')"
| "transition_error No_title = InvalidStateError ''A finding must have a title.''"
| "transition_error No_identity_hash = InvalidStateError ''A finding must have an identity hash.''"

text \<open>
  A decision of the caller: the status, the note and the days of acceptance. \<open>timedelta\<close> refuses
  more than 999999999 days; that \<open>now\<close> plus the days may leave the range of \<open>datetime\<close> is not
  modelled, the schemas admit 1 to 365.
\<close>

record decision =
  dc_status :: finding_status
  dc_note :: str
  dc_accepted_for_days :: "int option"

definition accepted_for :: "decision \<Rightarrow> control_exn + timedelta option" where
  "accepted_for d =
     (case dc_accepted_for_days d of None \<Rightarrow> Inr None
      | Some n \<Rightarrow> if n = 0 then Inr None
                  else if \<bar>n\<bar> > 999999999 then Inl control_exn.Crash else Inr (Some (days n)))"

definition triage_permission :: "finding_status \<Rightarrow> permission" where
  "triage_permission s = (if is_suppressed s then FINDING_SUPPRESS else FINDING_TRIAGE)"

text \<open>\<open>uuid4()\<close> gives the ids of comments, and an actor to a principal that is no user.\<close>

definition triage_actor :: "(nat \<Rightarrow> uuid) \<Rightarrow> principal \<Rightarrow> uuid" where
  "triage_actor random pr = (case pr_user_id pr of Some u \<Rightarrow> u | None \<Rightarrow> random 0)"

definition decide :: "(nat \<Rightarrow> uuid) \<Rightarrow> datetime \<Rightarrow> principal \<Rightarrow> decision \<Rightarrow> finding \<Rightarrow> control_exn + finding" where
  "decide random now pr d f =
     res_bind (accepted_for d) (\<lambda>acc.
     dom_res (map_sum transition_error id
       (transition (dc_status d) (triage_actor random pr) now (dc_note d) acc f)))"

text \<open>Writing a decided finding and the comment on it.\<close>

definition write_decision ::
    "control_env \<Rightarrow> uuid \<Rightarrow> principal \<Rightarrow> decision \<Rightarrow> str \<Rightarrow> finding_status \<Rightarrow> finding \<Rightarrow> triage_db
       \<Rightarrow> control_exn + triage_db" where
  "write_decision env comment_id pr d default_body previous f db =
     (let org = pr_organization_id pr in
      res_bind (findings_upsert org f db) (\<lambda>db1.
      res_bind (add_comment env comment_id (f_id f) org (pr_user_id pr) (pr_label pr)
         (if dc_note d = [] then default_body else dc_note d)
         (Some (status_value previous)) (Some (status_value (dc_status d))) db1) (\<lambda>(_, db2).
      Inr db2)))"

definition triage_finding ::
    "control_env \<Rightarrow> (nat \<Rightarrow> uuid) \<Rightarrow> principal \<Rightarrow> uuid \<Rightarrow> decision \<Rightarrow> triage_db \<Rightarrow> finding triage_outcome" where
  "triage_finding env random pr finding_id d db = in_transaction db
     (let org = pr_organization_id pr in
      res_bind (dom_res (require (triage_permission (dc_status d)) pr)) (\<lambda>_.
      res_bind (expect (NotFoundError ''Finding not found.'') (findings_get db org finding_id)) (\<lambda>f0.
      res_bind (decide random (ce_now env) pr d f0) (\<lambda>f.
      res_bind (write_decision env (random 1) pr d (''Status changed to '' @ status_value (dc_status d) @ ''.'')
         (f_status f0) f db) (\<lambda>db1.
      res_bind (triage_audit env org (ce_fresh env 0)
         (audit_by pr ''finding.triaged'' ''finding'' (f_id f)
            [(''from'', JStr (status_value (f_status f0))), (''to'', JStr (status_value (dc_status d))),
             (''rule_key'', JStr (f_rule_key f))]) db1) (\<lambda>db2.
      Inr (f, db2)))))))"

definition comment_on_finding ::
    "control_env \<Rightarrow> (nat \<Rightarrow> uuid) \<Rightarrow> principal \<Rightarrow> uuid \<Rightarrow> str \<Rightarrow> triage_db \<Rightarrow> comment triage_outcome" where
  "comment_on_finding env random pr finding_id body db = in_transaction db
     (let org = pr_organization_id pr in
      res_bind (dom_res (require FINDING_TRIAGE pr)) (\<lambda>_.
      res_bind (dom_res (raise_if (strip body = [])
         (ValidationError ''A comment cannot be empty.'' None None))) (\<lambda>_.
      res_bind (expect (NotFoundError ''Finding not found.'') (findings_get db org finding_id)) (\<lambda>_.
      add_comment env (random 1) finding_id org (pr_user_id pr) (pr_label pr) (take 4000 (strip body)) None None db))))"

section \<open>Expired acceptances\<close>

definition expire_one ::
    "control_env \<Rightarrow> (nat \<Rightarrow> uuid) \<Rightarrow> uuid \<Rightarrow> finding \<Rightarrow> nat \<times> triage_db \<Rightarrow> control_exn + nat \<times> triage_db" where
  "expire_one env random org f = (\<lambda>(expired, db).
     (let (changed, f1) = expire_acceptance (ce_now env) f in
      if \<not> changed then Inr (expired, db)
      else
        res_bind (findings_upsert org f1 db) (\<lambda>db1.
        res_bind (add_comment env (random (Suc expired)) (f_id f1) org None ''system''
           ''Accepted-risk window expired; returned to the open queue.''
           (Some (status_value ACCEPTED_RISK)) (Some (status_value OPEN)) db1) (\<lambda>(_, db2).
        Inr (expired + 1, db2)))))"

fun expire_each ::
    "control_env \<Rightarrow> (nat \<Rightarrow> uuid) \<Rightarrow> uuid \<Rightarrow> finding list \<Rightarrow> nat \<times> triage_db \<Rightarrow> control_exn + nat \<times> triage_db" where
  "expire_each env random org [] st = Inr st"
| "expire_each env random org (f # fs) st = res_bind (expire_one env random org f st) (expire_each env random org fs)"

definition expire_accepted_risks ::
    "control_env \<Rightarrow> (nat \<Rightarrow> uuid) \<Rightarrow> uuid \<Rightarrow> triage_db \<Rightarrow> nat triage_outcome" where
  "expire_accepted_risks env random org db = in_transaction db
     (expire_each env random org (list_expired_acceptances (ce_now env) org db) (0, db))"

section \<open>Triage in bulk\<close>

definition MAX_BATCH :: nat where "MAX_BATCH = 200"

record bulk_outcome =
  bo_finding_id :: uuid
  bo_applied :: bool
  bo_error :: str

text \<open>The loop carries the outcomes, the ids applied and the database.\<close>

record bulk_state =
  bs_outcomes :: "bulk_outcome list"
  bs_applied :: "uuid list"
  bs_db :: triage_db

definition bulk_reject :: "uuid \<Rightarrow> str \<Rightarrow> bulk_state \<Rightarrow> bulk_state" where
  "bulk_reject i why st =
     st\<lparr>bs_outcomes := bs_outcomes st @ [\<lparr>bo_finding_id = i, bo_applied = False, bo_error = why\<rparr>]\<rparr>"

definition bulk_one ::
    "control_env \<Rightarrow> (nat \<Rightarrow> uuid) \<Rightarrow> principal \<Rightarrow> decision \<Rightarrow> uuid \<Rightarrow> bulk_state \<Rightarrow> control_exn + bulk_state" where
  "bulk_one env random pr d i st =
     (case findings_get (bs_db st) (pr_organization_id pr) i of
        None \<Rightarrow> Inr (bulk_reject i ''not found'' st)
      | Some f0 \<Rightarrow>
          (case decide random (ce_now env) pr d f0 of
             Inl (Domain e) \<Rightarrow> Inr (bulk_reject i (domain_error_message e) st)
           | Inl control_exn.Crash \<Rightarrow> Inl control_exn.Crash
           | Inr f \<Rightarrow>
               res_bind (write_decision env (random (Suc (length (bs_applied st)))) pr d
                  (''Status changed to '' @ status_value (dc_status d) @ '' in a bulk action.'') (f_status f0) f (bs_db st)) (\<lambda>db1.
               Inr (st\<lparr>bs_outcomes := bs_outcomes st @ [\<lparr>bo_finding_id = i, bo_applied = True, bo_error = []\<rparr>],
                       bs_applied := bs_applied st @ [f_id f], bs_db := db1\<rparr>))))"

fun bulk_each ::
    "control_env \<Rightarrow> (nat \<Rightarrow> uuid) \<Rightarrow> principal \<Rightarrow> decision \<Rightarrow> uuid list \<Rightarrow> bulk_state \<Rightarrow> control_exn + bulk_state" where
  "bulk_each env random pr d [] st = Inr st"
| "bulk_each env random pr d (i # is) st = res_bind (bulk_one env random pr d i st) (bulk_each env random pr d is)"

definition bulk_triage_findings ::
    "control_env \<Rightarrow> (nat \<Rightarrow> uuid) \<Rightarrow> principal \<Rightarrow> uuid list \<Rightarrow> decision \<Rightarrow> triage_db \<Rightarrow> bulk_outcome list triage_outcome" where
  "bulk_triage_findings env random pr finding_ids d db = in_transaction db
     (res_bind (dom_res (require (triage_permission (dc_status d)) pr)) (\<lambda>_.
      res_bind (dom_res (raise_if (length finding_ids > MAX_BATCH)
         (ValidationError (''At most '' @ int_str (int MAX_BATCH) @ '' findings may be triaged at once.'')
            (Some ''finding_ids'') None))) (\<lambda>_.
      res_bind (bulk_each env random pr d (first_seen finding_ids) \<lparr>bs_outcomes = [], bs_applied = [], bs_db = db\<rparr>) (\<lambda>st.
      let applied = bs_applied st; outcomes = bs_outcomes st in
      if applied = [] then Inr (outcomes, bs_db st)
      else res_bind (triage_audit env (pr_organization_id pr) (ce_fresh env 0)
             (audit_by pr ''finding.triaged'' ''finding'' (''bulk:'' @ int_str (int (length applied)))
                [(''to'', JStr (status_value (dc_status d))), (''applied'', JInt (int (length applied))),
                 (''rejected'', JInt (int (length outcomes) - int (length applied))),
                 (''finding_ids'', JList (map JStr (take 50 applied)))]) (bs_db st)) (\<lambda>db1.
           Inr (outcomes, db1))))))"

end
