(* ===== verification/TriageProps.thy ===== *)
theory TriageProps
  imports FindingTriage RbacProps
begin

text \<open>
  What triage guarantees: the bulk operation decides each finding as the single one would, in one
  transaction with one audit entry; a change of status needs the permission, a suppression a reason,
  and both leave their trace; the sweep returns exactly the lapsed acceptances; and an API key
  cannot change a status at all.
\<close>

section \<open>Bulk triage against triage one by one\<close>

text \<open>The single decision on every finding in turn, whatever the answers.\<close>

definition triage_each ::
    "control_env \<Rightarrow> (nat \<Rightarrow> uuid) \<Rightarrow> principal \<Rightarrow> decision \<Rightarrow> uuid list \<Rightarrow> triage_db \<Rightarrow> triage_db" where
  "triage_each env random pr d ids db = fold (\<lambda>i s. snd (triage_finding env random pr i d s)) ids db"

text \<open>Databases that differ at most in the audit log and in the ids and bodies of comments.\<close>

definition comment_trace :: "comment \<Rightarrow> comment" where
  "comment_trace c = c\<lparr>cm_id := [], cm_body := []\<rparr>"

definition same_decisions :: "triage_db \<Rightarrow> triage_db \<Rightarrow> bool" where
  "same_decisions s t \<longleftrightarrow> tg_tenants s = tg_tenants t \<and> db_users (tg_core s) = db_users (tg_core t)
     \<and> map comment_trace (tg_comments s) = map comment_trace (tg_comments t)"

lemma same_decisions_refl [simp]: "same_decisions s s"
  by (simp add: same_decisions_def)

lemma user_reference_cong:
  "db_users (tg_core s) = db_users (tg_core t) \<Longrightarrow> user_reference (tg_core s) r = user_reference (tg_core t) r"
  by (simp add: user_reference_def users_get_def cong: option.case_cong)

lemma user_reference_Inr:
  "user_reference core r = Inr u \<longleftrightarrow> (\<forall>k. r = Some k \<longrightarrow> users_get core k \<noteq> None)"
  by (auto simp: user_reference_def split: option.splits)

lemma findings_upsert_Inr:
  "findings_upsert org f db = Inr db' \<Longrightarrow> db' = db\<lparr>tg_tenants := (tg_tenants db)(org := upsert f (tg_tenants db org))\<rparr>"
  by (auto simp: findings_upsert_def res_bind_Inr)

lemma add_comment_Inr:
  "add_comment env i fid org author label body sf st db = Inr (c, db') \<Longrightarrow>
     db' = db\<lparr>tg_comments := tg_comments db @ [c]\<rparr> \<and> cm_organization_id c = org \<and> cm_finding_id c = fid
     \<and> cm_author_id c = author \<and> cm_body c = take 4000 body \<and> cm_status_from c = sf \<and> cm_status_to c = st"
  by (auto simp: add_comment_def res_bind_Inr Let_def)

lemma write_decision_Inr:
  assumes "write_decision env i pr d body previous f db = Inr db'"
  obtains c where "db' = db\<lparr>tg_tenants := (tg_tenants db)(pr_organization_id pr := upsert f (tg_tenants db (pr_organization_id pr))),
      tg_comments := tg_comments db @ [c]\<rparr>"
    "cm_organization_id c = pr_organization_id pr" "cm_finding_id c = f_id f" "cm_author_id c = pr_user_id pr"
    "cm_body c = take 4000 (if dc_note d = [] then body else dc_note d)"
    "cm_status_from c = Some (status_value previous)" "cm_status_to c = Some (status_value (dc_status d))"
proof -
  from assms obtain db1 c where
    "findings_upsert (pr_organization_id pr) f db = Inr db1"
    "add_comment env i (f_id f) (pr_organization_id pr) (pr_user_id pr) (pr_label pr)
       (if dc_note d = [] then body else dc_note d) (Some (status_value previous)) (Some (status_value (dc_status d))) db1
       = Inr (c, db')"
    by (auto simp: write_decision_def res_bind_Inr Let_def)
  from findings_upsert_Inr [OF this(1)] add_comment_Inr [OF this(2)] show thesis by (intro that [of c]) simp_all
qed

lemma write_decision_same:
  assumes "same_decisions s t" "write_decision env i pr d body previous f s = Inr s1"
  shows "\<exists>t1. write_decision env j pr d body' previous f t = Inr t1 \<and> same_decisions s1 t1"
  using assms
  by (auto simp: write_decision_def findings_upsert_def add_comment_def Let_def same_decisions_def comment_trace_def
      res_bind_def user_reference_def users_get_def split: option.splits if_splits)

lemma triage_audit_same:
  obtains t' where "triage_audit env org i (audit_by pr a rt rid md) t = Inr t'" "same_decisions t' t"
    "length (db_audit (tg_core t')) = Suc (length (db_audit (tg_core t)))"
  by (auto simp: triage_audit_def record_audit_def audit_record_def audit_by_def audit_append_def Let_def
      same_decisions_def)

lemma findings_get_cong: "tg_tenants s = tg_tenants t \<Longrightarrow> findings_get s org i = findings_get t org i"
  by (simp add: findings_get_def tenant_findings_def)

text \<open>What the single decision does, once the caller may decide.\<close>

lemma triage_finding_cases:
  assumes "triage_permission (dc_status d) \<in> pr_permissions pr"
  shows "findings_get s (pr_organization_id pr) i = None \<Longrightarrow>
      triage_finding env random pr i d s = (Inl (Domain (NotFoundError ''Finding not found.'')), s)"
    and "findings_get s (pr_organization_id pr) i = Some f0 \<Longrightarrow> decide random (ce_now env) pr d f0 = Inl e \<Longrightarrow>
      triage_finding env random pr i d s = (Inl e, s)"
    and "findings_get s (pr_organization_id pr) i = Some f0 \<Longrightarrow> decide random (ce_now env) pr d f0 = Inr f \<Longrightarrow>
      write_decision env (random 1) pr d (''Status changed to '' @ status_value (dc_status d) @ ''.'') (f_status f0) f s = Inr s1 \<Longrightarrow>
      \<exists>s2. triage_finding env random pr i d s = (Inr f, s2) \<and> same_decisions s2 s1"
proof -
  note unf = triage_finding_def Let_def require_def expect_def dom_res_def
  show "findings_get s (pr_organization_id pr) i = None \<Longrightarrow>
      triage_finding env random pr i d s = (Inl (Domain (NotFoundError ''Finding not found.'')), s)"
    using assms by (simp add: unf)
  show "findings_get s (pr_organization_id pr) i = Some f0 \<Longrightarrow> decide random (ce_now env) pr d f0 = Inl e \<Longrightarrow>
      triage_finding env random pr i d s = (Inl e, s)"
    using assms by (simp add: unf)
  assume a: "findings_get s (pr_organization_id pr) i = Some f0" "decide random (ce_now env) pr d f0 = Inr f"
    "write_decision env (random 1) pr d (''Status changed to '' @ status_value (dc_status d) @ ''.'') (f_status f0) f s = Inr s1"
  obtain s2 where "triage_audit env (pr_organization_id pr) (ce_fresh env 0)
         (audit_by pr ''finding.triaged'' ''finding'' (f_id f)
            [(''from'', JStr (status_value (f_status f0))), (''to'', JStr (status_value (dc_status d))),
             (''rule_key'', JStr (f_rule_key f))]) s1 = Inr s2" "same_decisions s2 s1"
    by (rule triage_audit_same)
  with assms a show "\<exists>s2. triage_finding env random pr i d s = (Inr f, s2) \<and> same_decisions s2 s1"
    by (simp add: unf)
qed

lemma same_decisions_trans: "same_decisions r s \<Longrightarrow> same_decisions s t \<Longrightarrow> same_decisions r t"
  by (simp add: same_decisions_def)

lemma same_decisions_sym: "same_decisions s t \<Longrightarrow> same_decisions t s"
  by (simp add: same_decisions_def)

text \<open>The bulk operation's step and the single decision, from databases with the same decisions.\<close>

definition single_applies :: "control_env \<Rightarrow> (nat \<Rightarrow> uuid) \<Rightarrow> principal \<Rightarrow> decision \<Rightarrow> uuid \<Rightarrow> triage_db \<Rightarrow> bool" where
  "single_applies env random pr d i s \<longleftrightarrow> (\<exists>f. fst (triage_finding env random pr i d s) = Inr f)"

lemma bulk_one_single:
  assumes one: "bulk_one env random pr d i st = Inr st'" and same: "same_decisions (bs_db st) s"
    and may: "triage_permission (dc_status d) \<in> pr_permissions pr"
  shows "same_decisions (bs_db st') (snd (triage_finding env random pr i d s)) \<and> tg_core (bs_db st') = tg_core (bs_db st)
    \<and> (\<exists>oc. bs_outcomes st' = bs_outcomes st @ [oc] \<and> bo_finding_id oc = i
          \<and> (bo_applied oc \<longleftrightarrow> single_applies env random pr d i s)
          \<and> (bs_applied st' = [] \<longleftrightarrow> bs_applied st = [] \<and> \<not> bo_applied oc))"
proof -
  let ?org = "pr_organization_id pr"
  have get: "findings_get s ?org i = findings_get (bs_db st) ?org i"
    using same by (intro findings_get_cong) (simp add: same_decisions_def)
  note single = triage_finding_cases [OF may]
  show ?thesis
  proof (cases "findings_get (bs_db st) ?org i")
    case None
    with one have "st' = bulk_reject i ''not found'' st" by (simp add: bulk_one_def)
    then show ?thesis using single(1) None get same by (simp add: bulk_reject_def single_applies_def)
  next
    case (Some f0)
    show ?thesis
    proof (cases "decide random (ce_now env) pr d f0")
      case (Inl e)
      with one Some obtain why where "st' = bulk_reject i why st"
        by (auto simp: bulk_one_def split: control_exn.splits)
      then show ?thesis using single(2) [OF _ Inl] Some get same by (simp add: bulk_reject_def single_applies_def)
    next
      case (Inr f)
      with one Some obtain db1 where db1: "write_decision env (random (Suc (length (bs_applied st)))) pr d
                  (''Status changed to '' @ status_value (dc_status d) @ '' in a bulk action.'') (f_status f0) f (bs_db st) = Inr db1"
        and st': "st' = st\<lparr>bs_outcomes := bs_outcomes st @ [\<lparr>bo_finding_id = i, bo_applied = True, bo_error = []\<rparr>],
                       bs_applied := bs_applied st @ [f_id f], bs_db := db1\<rparr>"
        by (auto simp: bulk_one_def res_bind_Inr)
      obtain s1 where s1: "write_decision env (random 1) pr d (''Status changed to '' @ status_value (dc_status d) @ ''.'')
          (f_status f0) f s = Inr s1" "same_decisions db1 s1"
        using write_decision_same [OF same db1] by blast
      obtain s2 where "triage_finding env random pr i d s = (Inr f, s2)" "same_decisions s2 s1"
        using single(3) [OF _ Inr s1(1)] Some get by auto
      moreover from this s1(2) have "same_decisions db1 s2"
        using same_decisions_sym same_decisions_trans by blast
      moreover have "tg_core db1 = tg_core (bs_db st)"
        using db1 by (elim write_decision_Inr) simp
      ultimately show ?thesis by (simp add: st' single_applies_def)
    qed
  qed
qed

lemma bulk_each_single:
  assumes "bulk_each env random pr d ids st = Inr st'" "same_decisions (bs_db st) s"
    "triage_permission (dc_status d) \<in> pr_permissions pr"
  shows "same_decisions (bs_db st') (triage_each env random pr d ids s) \<and> tg_core (bs_db st') = tg_core (bs_db st)
    \<and> (\<exists>os. bs_outcomes st' = bs_outcomes st @ os \<and> map bo_finding_id os = ids
          \<and> (bs_applied st' = [] \<longleftrightarrow> bs_applied st = [] \<and> \<not> (\<exists>oc \<in> set os. bo_applied oc))
          \<and> (\<forall>k < length ids. bo_applied (os ! k)
                \<longleftrightarrow> single_applies env random pr d (ids ! k) (triage_each env random pr d (take k ids) s)))"
  using assms(1,2)
proof (induction ids arbitrary: st s)
  case Nil
  then show ?case by (simp add: triage_each_def)
next
  case (Cons i ids)
  from Cons.prems(1) obtain st1 where st1: "bulk_one env random pr d i st = Inr st1"
    and rest: "bulk_each env random pr d ids st1 = Inr st'"
    by (auto simp: res_bind_Inr)
  let ?s1 = "snd (triage_finding env random pr i d s)"
  from bulk_one_single [OF st1 Cons.prems(2) assms(3)]
  obtain oc where one: "same_decisions (bs_db st1) ?s1" "tg_core (bs_db st1) = tg_core (bs_db st)"
    "bs_outcomes st1 = bs_outcomes st @ [oc]" "bo_finding_id oc = i"
    "bo_applied oc \<longleftrightarrow> single_applies env random pr d i s"
    "bs_applied st1 = [] \<longleftrightarrow> bs_applied st = [] \<and> \<not> bo_applied oc" by auto
  from Cons.IH [OF rest one(1)] obtain os where os: "same_decisions (bs_db st') (triage_each env random pr d ids ?s1)"
    "tg_core (bs_db st') = tg_core (bs_db st1)" "bs_outcomes st' = bs_outcomes st1 @ os" "map bo_finding_id os = ids"
    "bs_applied st' = [] \<longleftrightarrow> bs_applied st1 = [] \<and> \<not> (\<exists>oc \<in> set os. bo_applied oc)"
    "\<forall>k < length ids. bo_applied (os ! k) \<longleftrightarrow> single_applies env random pr d (ids ! k) (triage_each env random pr d (take k ids) ?s1)"
    by auto
  have step: "triage_each env random pr d (i # js) s = triage_each env random pr d js ?s1" for js
    by (simp add: triage_each_def)
  have "bo_applied ((oc # os) ! k) \<longleftrightarrow>
      single_applies env random pr d ((i # ids) ! k) (triage_each env random pr d (take k (i # ids)) s)"
    if "k < length (i # ids)" for k
    using that os(6) one(5) by (cases k) (simp_all add: step, simp add: triage_each_def)
  with one os show ?case by (auto simp: step intro!: exI [of _ "oc # os"])
qed

lemma triage_audit_Inr:
  assumes "triage_audit env org i (audit_by pr a rt rid md) t = Inr t'"
  shows "same_decisions t' t" "length (db_audit (tg_core t')) = Suc (length (db_audit (tg_core t)))"
    "tg_tenants t' = tg_tenants t" "tg_comments t' = tg_comments t"
  using assms
  by (auto simp: triage_audit_def record_audit_def audit_record_def audit_by_def audit_append_def Let_def
      same_decisions_def)

lemma bulk_triage_Inr:
  assumes "bulk_triage_findings env random pr ids d db = (Inr outcomes, db')"
  shows "\<exists>st. triage_permission (dc_status d) \<in> pr_permissions pr
    \<and> bulk_each env random pr d (first_seen ids) \<lparr>bs_outcomes = [], bs_applied = [], bs_db = db\<rparr> = Inr st
    \<and> outcomes = bs_outcomes st \<and> same_decisions db' (bs_db st)
    \<and> length (db_audit (tg_core db')) = length (db_audit (tg_core (bs_db st))) + (if bs_applied st = [] then 0 else 1)
    \<and> tg_comments db' = tg_comments (bs_db st)"
proof -
  from assms obtain st where st: "triage_permission (dc_status d) \<in> pr_permissions pr"
    "bulk_each env random pr d (first_seen ids) \<lparr>bs_outcomes = [], bs_applied = [], bs_db = db\<rparr> = Inr st"
    "outcomes = bs_outcomes st"
    and cases: "bs_applied st = [] \<and> db' = bs_db st
      \<or> bs_applied st \<noteq> [] \<and> (\<exists>a md. triage_audit env (pr_organization_id pr) (ce_fresh env 0)
              (audit_by pr ''finding.triaged'' ''finding'' a md) (bs_db st) = Inr db')"
    by (auto simp: bulk_triage_findings_def in_transaction_def res_bind_Inr Let_def split: sum.splits if_splits)
  from cases triage_audit_Inr have "same_decisions db' (bs_db st) \<and>
      length (db_audit (tg_core db')) = length (db_audit (tg_core (bs_db st))) + (if bs_applied st = [] then 0 else 1)
      \<and> tg_comments db' = tg_comments (bs_db st)" by auto
  with st show ?thesis by blast
qed

text \<open>
  C32. Triage in bulk is the single decision on each of the findings in the order given: it leaves
  the findings and the trace of status changes that deciding one by one leaves, and reports for each
  finding whether the single decision would have been applied at its turn. The log grows by one
  entry when something was applied, and not otherwise.
\<close>

theorem bulk_triage_is_triage_of_each:
  assumes "bulk_triage_findings env random pr ids d db = (Inr outcomes, db')"
  shows "same_decisions db' (triage_each env random pr d (first_seen ids) db)
    \<and> map bo_finding_id outcomes = first_seen ids
    \<and> (\<forall>k < length (first_seen ids). bo_applied (outcomes ! k) \<longleftrightarrow>
          single_applies env random pr d (first_seen ids ! k) (triage_each env random pr d (take k (first_seen ids)) db))
    \<and> length (db_audit (tg_core db'))
        = length (db_audit (tg_core db)) + (if \<exists>oc \<in> set outcomes. bo_applied oc then 1 else 0)"
proof -
  obtain st where may: "triage_permission (dc_status d) \<in> pr_permissions pr"
    and st: "bulk_each env random pr d (first_seen ids) \<lparr>bs_outcomes = [], bs_applied = [], bs_db = db\<rparr> = Inr st"
    and eq: "outcomes = bs_outcomes st"
    and log: "same_decisions db' (bs_db st)" "length (db_audit (tg_core db'))
      = length (db_audit (tg_core (bs_db st))) + (if bs_applied st = [] then 0 else 1)"
    using bulk_triage_Inr [OF assms] by blast
  show ?thesis
    using bulk_each_single [OF st _ may, of db] log eq same_decisions_trans by auto
qed

section \<open>Every change of status is explained\<close>

datatype triage_call =
    Triage control_env "nat \<Rightarrow> uuid" principal uuid decision
  | Bulk_triage control_env "nat \<Rightarrow> uuid" principal "uuid list" decision
  | Comment_on control_env "nat \<Rightarrow> uuid" principal uuid str
  | Expire control_env "nat \<Rightarrow> uuid" uuid

fun triage_perform :: "triage_call \<Rightarrow> triage_db \<Rightarrow> triage_db" where
  "triage_perform (Triage env random pr i d) db = snd (triage_finding env random pr i d db)"
| "triage_perform (Bulk_triage env random pr ids d) db = snd (bulk_triage_findings env random pr ids d db)"
| "triage_perform (Comment_on env random pr i body) db = snd (comment_on_finding env random pr i body db)"
| "triage_perform (Expire env random org) db = snd (expire_accepted_risks env random org db)"

definition triage_run :: "triage_call list \<Rightarrow> triage_db \<Rightarrow> triage_db" where
  "triage_run calls db = fold triage_perform calls db"

text \<open>Findings are stored under their identity, and no two have the same id.\<close>

definition findings_keyed :: "triage_db \<Rightarrow> bool" where
  "findings_keyed db \<longleftrightarrow> (\<forall>org. dict_ok (td_findings (tg_tenants db org))
     \<and> (\<forall>(k, f) \<in> set (td_findings (tg_tenants db org)). f_identity_hash f = k)
     \<and> distinct (map f_id (tenant_findings db org)))"

text \<open>The changes of status that comments on a finding tell of, and what they lead to.\<close>

definition status_trail :: "uuid \<Rightarrow> uuid \<Rightarrow> comment list \<Rightarrow> (str \<times> str) list" where
  "status_trail org i cs =
     map (\<lambda>c. (the (cm_status_from c), the (cm_status_to c)))
       (filter (\<lambda>c. cm_organization_id c = org \<and> cm_finding_id c = i \<and> cm_status_to c \<noteq> None) cs)"

fun leads :: "str \<Rightarrow> (str \<times> str) list \<Rightarrow> str \<Rightarrow> bool" where
  "leads s [] t = (s = t)"
| "leads s ((a, b) # ps) t = (a = s \<and> leads b ps t)"

text \<open>A call that may suppress findings of an organization, with the reason it gives.\<close>

fun suppresses :: "uuid \<Rightarrow> finding_status \<Rightarrow> str \<Rightarrow> uuid \<Rightarrow> triage_call \<Rightarrow> bool" where
  "suppresses org s note actor (Triage env random pr i d) =
     (pr_organization_id pr = org \<and> FINDING_SUPPRESS \<in> pr_permissions pr \<and> dc_status d = s
      \<and> strip (dc_note d) \<noteq> [] \<and> note = take 2000 (strip (dc_note d)) \<and> actor = triage_actor random pr)"
| "suppresses org s note actor (Bulk_triage env random pr ids d) =
     (pr_organization_id pr = org \<and> FINDING_SUPPRESS \<in> pr_permissions pr \<and> dc_status d = s
      \<and> strip (dc_note d) \<noteq> [] \<and> note = take 2000 (strip (dc_note d)) \<and> actor = triage_actor random pr)"
| "suppresses org s note actor (Comment_on env random pr i body) = False"
| "suppresses org s note actor (Expire env random o1) = False"

definition suppression_kept :: "uuid \<Rightarrow> triage_call set \<Rightarrow> finding \<Rightarrow> finding \<Rightarrow> bool" where
  "suppression_kept org calls f0 f \<longleftrightarrow> (is_suppressed (f_status f) \<longrightarrow>
     (f_status f, f_triage_note f, f_triaged_by f) = (f_status f0, f_triage_note f0, f_triaged_by f0)
     \<or> (\<exists>c \<in> calls. \<exists>actor. f_triaged_by f = Some actor \<and> suppresses org (f_status f) (f_triage_note f) actor c))"

definition explained :: "triage_call set \<Rightarrow> triage_db \<Rightarrow> triage_db \<Rightarrow> bool" where
  "explained calls db db' \<longleftrightarrow> findings_keyed db' \<and> (\<exists>new. tg_comments db' = tg_comments db @ new
     \<and> (\<forall>org i f0. findings_get db org i = Some f0 \<longrightarrow> (\<exists>f. findings_get db' org i = Some f
           \<and> leads (status_value (f_status f0)) (status_trail org i new) (status_value (f_status f))
           \<and> suppression_kept org calls f0 f)))"

lemma leads_append: "leads s ps t \<Longrightarrow> leads t qs u \<Longrightarrow> leads s (ps @ qs) u"
  by (induction s ps t rule: leads.induct) auto

lemma suppression_kept_trans:
  "suppression_kept org calls f0 f \<Longrightarrow> suppression_kept org calls' f g \<Longrightarrow> suppression_kept org (calls \<union> calls') f0 g"
  unfolding suppression_kept_def by (metis (no_types, lifting) UnCI prod.inject)

lemma explained_refl: "findings_keyed db \<Longrightarrow> explained calls db db"
  by (auto simp: explained_def status_trail_def suppression_kept_def)

lemma explained_trans:
  assumes "explained calls db db1" "explained calls' db1 db2"
  shows "explained (calls \<union> calls') db db2"
proof -
  from assms(1) obtain new where new: "tg_comments db1 = tg_comments db @ new"
    "\<And>org i f0. findings_get db org i = Some f0 \<Longrightarrow> \<exists>f. findings_get db1 org i = Some f
           \<and> leads (status_value (f_status f0)) (status_trail org i new) (status_value (f_status f))
           \<and> suppression_kept org calls f0 f"
    by (auto simp: explained_def)
  from assms(2) obtain new' where new': "findings_keyed db2" "tg_comments db2 = tg_comments db1 @ new'"
    "\<And>org i f0. findings_get db1 org i = Some f0 \<Longrightarrow> \<exists>f. findings_get db2 org i = Some f
           \<and> leads (status_value (f_status f0)) (status_trail org i new') (status_value (f_status f))
           \<and> suppression_kept org calls' f0 f"
    by (auto simp: explained_def)
  have "\<exists>f. findings_get db2 org i = Some f
       \<and> leads (status_value (f_status f0)) (status_trail org i (new @ new')) (status_value (f_status f))
       \<and> suppression_kept org (calls \<union> calls') f0 f" if start: "findings_get db org i = Some f0" for org i f0
  proof -
    obtain f where f: "findings_get db1 org i = Some f"
      "leads (status_value (f_status f0)) (status_trail org i new) (status_value (f_status f))" "suppression_kept org calls f0 f"
      using new(2) [OF start] by blast
    obtain g where "findings_get db2 org i = Some g"
      "leads (status_value (f_status f)) (status_trail org i new') (status_value (f_status g))" "suppression_kept org calls' f g"
      using new'(3) [OF f(1)] by blast
    with f leads_append suppression_kept_trans show ?thesis by (auto simp: status_trail_def)
  qed
  with new(1) new'(1,2) show ?thesis unfolding explained_def by (intro conjI exI [of _ "new @ new'"]) auto
qed

section \<open>One write of a finding\<close>

lemma findings_get_iff:
  assumes "findings_keyed db"
  shows "findings_get db org i = Some f \<longleftrightarrow> dget (td_findings (tg_tenants db org)) (f_identity_hash f) = Some f \<and> f_id f = i"
proof -
  let ?d = "td_findings (tg_tenants db org)"
  from assms have ok: "dict_ok ?d" and keyed: "\<forall>(k, f) \<in> set ?d. f_identity_hash f = k"
    and ids: "distinct (map f_id (tenant_findings db org))"
    by (auto simp: findings_keyed_def)
  have stored: "f \<in> set (tenant_findings db org) \<longleftrightarrow> dget ?d (f_identity_hash f) = Some f" for f
    using keyed map_of_eq_Some_iff [of ?d] ok by (force simp: tenant_findings_def dget_def dict_ok_def)
  have "findings_get db org i = Some f \<longleftrightarrow> f \<in> set (tenant_findings db org) \<and> f_id f = i"
  proof
    assume "findings_get db org i = Some f"
    then show "f \<in> set (tenant_findings db org) \<and> f_id f = i"
      by (auto simp: findings_get_def find_Some_iff)
  next
    assume f: "f \<in> set (tenant_findings db org) \<and> f_id f = i"
    then obtain g where g: "findings_get db org i = Some g" by (cases "findings_get db org i") (auto simp: findings_get_def find_None_iff)
    then have "g \<in> set (tenant_findings db org)" "f_id g = i" by (auto simp: findings_get_def find_Some_iff)
    with f ids have "g = f" by (auto simp: distinct_map inj_on_def)
    with g show "findings_get db org i = Some f" by simp
  qed
  with stored show ?thesis by simp
qed

text \<open>The new database of a write that leaves everything but one finding.\<close>

lemma write_keyed:
  assumes "findings_keyed db" "findings_get db org i = Some f0" "f_id f = i" "f_identity_hash f = f_identity_hash f0"
    "tg_tenants db' = (tg_tenants db)(org := upsert f (tg_tenants db org))"
  shows "findings_keyed db'" and "findings_get db' o1 j = (if o1 = org \<and> j = i then Some f else findings_get db o1 j)"
proof -
  let ?d = "td_findings (tg_tenants db org)"
  from assms(1) have ok: "dict_ok ?d" and keyed: "\<forall>(k, f) \<in> set ?d. f_identity_hash f = k"
    and ids: "distinct (map f_id (map snd ?d))"
    by (auto simp: findings_keyed_def tenant_findings_def)
  from assms(1,2) have stored: "dget ?d (f_identity_hash f) = Some f0" and i: "f_id f0 = i"
    by (simp_all add: findings_get_iff assms(4))
  have d': "td_findings (tg_tenants db' org) = map (\<lambda>(k, g). (k, if k = f_identity_hash f then f else g)) ?d"
    using dput_as_map [OF ok stored, of f] by (simp add: assms(5) upsert_def)
  have same: "(if k = f_identity_hash f then f_id f else f_id g) = f_id g" if "(k, g) \<in> set ?d" for k g
  proof -
    have "dget ?d k = Some g" using that ok by (simp add: dget_def dict_ok_def)
    with stored i assms(3) show ?thesis by auto
  qed
  have "map f_id (tenant_findings db' org) = map f_id (map snd ?d)"
    using same by (force simp: tenant_findings_def d')
  moreover have "map fst (td_findings (tg_tenants db' org)) = map fst ?d"
    by (simp add: d' case_prod_unfold)
  moreover have "\<forall>(k, g) \<in> set (td_findings (tg_tenants db' org)). f_identity_hash g = k"
    using keyed by (auto simp: d')
  ultimately have "dict_ok (td_findings (tg_tenants db' o1)) \<and> (\<forall>(k, f) \<in> set (td_findings (tg_tenants db' o1)). f_identity_hash f = k)
     \<and> distinct (map f_id (tenant_findings db' o1))" for o1
    using assms(1) ok ids assms(5) by (cases "o1 = org") (simp_all add: findings_keyed_def dict_ok_def tenant_findings_def)
  then show keyed': "findings_keyed db'" by (simp add: findings_keyed_def)
  show "findings_get db' o1 j = (if o1 = org \<and> j = i then Some f else findings_get db o1 j)"
  proof (cases "o1 = org")
    case False
    with assms(5) show ?thesis by (simp add: findings_get_def tenant_findings_def)
  next
    case True
    have put: "td_findings (tg_tenants db' org) = dput (f_identity_hash f) f ?d" by (simp add: assms(5) upsert_def)
    show ?thesis
    proof (cases "j = i")
      case True
      with \<open>o1 = org\<close> show ?thesis
        using assms(3) by (simp add: findings_get_iff [OF keyed'] put dget_dput)
    next
      case False
      have "findings_get db' org j = Some g \<longleftrightarrow> findings_get db org j = Some g" for g
        using False stored i assms(3)
        by (auto simp: findings_get_iff [OF keyed'] findings_get_iff [OF assms(1)] put dget_dput)
      then have "findings_get db' org j = findings_get db org j" by (metis not_None_eq)
      with True False show ?thesis by simp
    qed
  qed
qed

lemma write_explained:
  assumes "findings_keyed db" "findings_get db org i = Some f0" "f_id f = i" "f_identity_hash f = f_identity_hash f0"
    "tg_tenants db' = (tg_tenants db)(org := upsert f (tg_tenants db org))"
    "tg_comments db' = tg_comments db @ [c]" "cm_organization_id c = org" "cm_finding_id c = i"
    "cm_status_from c = Some (status_value (f_status f0))" "cm_status_to c = Some (status_value (f_status f))"
    "suppression_kept org calls f0 f"
  shows "explained calls db db'"
proof -
  note w = write_keyed [OF assms(1-5)]
  have "\<exists>g. findings_get db' o1 j = Some g \<and> leads (status_value (f_status g0)) (status_trail o1 j [c]) (status_value (f_status g))
           \<and> suppression_kept o1 calls g0 g" if g0: "findings_get db o1 j = Some g0" for o1 j g0
  proof (cases "o1 = org \<and> j = i")
    case True
    with g0 assms(2) have "g0 = f0" by simp
    with True assms(6-11) show ?thesis by (simp add: w(2) status_trail_def)
  next
    case False
    with g0 assms(6-8) show ?thesis by (auto simp: w(2) status_trail_def suppression_kept_def)
  qed
  with w(1) assms(6) show ?thesis unfolding explained_def by (intro conjI exI [of _ "[c]"]) auto
qed

section \<open>Each operation\<close>

lemma decide_Inr:
  assumes "decide random now pr d f0 = Inr f"
  shows "f_id f = f_id f0" "f_identity_hash f = f_identity_hash f0" "f_status f = dc_status d"
    "f = f0 \<or> f_triaged_by f = Some (triage_actor random pr) \<and> f_triage_note f = take 2000 (strip (dc_note d))
       \<and> (is_suppressed (dc_status d) \<longrightarrow> strip (dc_note d) \<noteq> [])"
proof -
  from assms obtain acc where "transition (dc_status d) (triage_actor random pr) now (dc_note d) acc f0 = Inr f"
    by (auto simp: decide_def res_bind_Inr map_error_Inr)
  then show "f_id f = f_id f0" "f_identity_hash f = f_identity_hash f0" "f_status f = dc_status d"
    "f = f0 \<or> f_triaged_by f = Some (triage_actor random pr) \<and> f_triage_note f = take 2000 (strip (dc_note d))
       \<and> (is_suppressed (dc_status d) \<longrightarrow> strip (dc_note d) \<noteq> [])"
    by (auto simp: transition_def split: if_splits)
qed

lemma decision_kept:
  assumes "decide random now pr d f0 = Inr f" "triage_permission (dc_status d) \<in> pr_permissions pr"
    "c = Triage env random pr i d \<or> c = Bulk_triage env random pr ids d"
  shows "suppression_kept (pr_organization_id pr) {c} f0 f"
  using decide_Inr [OF assms(1)] assms(2,3)
  by (auto simp: suppression_kept_def triage_permission_def)

lemma write_decision_explained:
  assumes "findings_keyed db" "findings_get db (pr_organization_id pr) i = Some f0"
    "decide random now pr d f0 = Inr f" "write_decision env k pr d body (f_status f0) f db = Inr db1"
    "suppression_kept (pr_organization_id pr) calls f0 f" "tg_tenants db' = tg_tenants db1" "tg_comments db' = tg_comments db1"
  shows "explained calls db db'"
proof -
  note f = decide_Inr [OF assms(3)]
  have i: "f_id f0 = i" using assms(1,2) by (simp add: findings_get_iff)
  from assms(4) obtain c where "db1 = db\<lparr>tg_tenants := (tg_tenants db)(pr_organization_id pr := upsert f (tg_tenants db (pr_organization_id pr))),
      tg_comments := tg_comments db @ [c]\<rparr>" "cm_organization_id c = pr_organization_id pr" "cm_finding_id c = f_id f"
    "cm_status_from c = Some (status_value (f_status f0))" "cm_status_to c = Some (status_value (dc_status d))"
    by (rule write_decision_Inr)
  with f i assms(5-7) show ?thesis
    by (intro write_explained [OF assms(1,2), of f db' c]) simp_all
qed

lemma in_transaction_explained:
  "findings_keyed db \<Longrightarrow> (\<And>x db'. r = Inr (x, db') \<Longrightarrow> explained calls db db') \<Longrightarrow> explained calls db (snd (in_transaction db r))"
  using explained_refl by (rule in_transaction_rule)

lemma triage_explained:
  assumes "findings_keyed db"
  shows "explained {Triage env random pr i d} db (snd (triage_finding env random pr i d db))"
  unfolding triage_finding_def
proof (intro in_transaction_explained [OF assms], goal_cases)
  case (1 f db2)
  then obtain f0 db1 where may: "triage_permission (dc_status d) \<in> pr_permissions pr"
    and f0: "findings_get db (pr_organization_id pr) i = Some f0" and f: "decide random (ce_now env) pr d f0 = Inr f"
    and db1: "write_decision env (random 1) pr d (''Status changed to '' @ status_value (dc_status d) @ ''.'') (f_status f0) f db = Inr db1"
    and log: "\<exists>a md. triage_audit env (pr_organization_id pr) (ce_fresh env 0) (audit_by pr ''finding.triaged'' ''finding'' a md) db1 = Inr db2"
    by (auto simp: Let_def res_bind_Inr)
  from log have "tg_tenants db2 = tg_tenants db1" "tg_comments db2 = tg_comments db1"
    by (auto dest: triage_audit_Inr)
  with decision_kept [OF f may] show ?case
    by (intro write_decision_explained [OF assms f0 f db1]) auto
qed

lemma bulk_explained:
  assumes "triage_permission (dc_status d) \<in> pr_permissions pr"
  shows "findings_keyed (bs_db st) \<Longrightarrow> bulk_each env random pr d is st = Inr st' \<Longrightarrow>
    explained {Bulk_triage env random pr ids d} (bs_db st) (bs_db st')"
proof (induction "is" arbitrary: st)
  case Nil
  then show ?case by (simp add: explained_refl)
next
  case (Cons i "is")
  then obtain st1 where one: "bulk_one env random pr d i st = Inr st1" and rest: "bulk_each env random pr d is st1 = Inr st'"
    by (auto simp: res_bind_Inr)
  have "explained {Bulk_triage env random pr ids d} (bs_db st) (bs_db st1)"
  proof (cases "bs_db st1 = bs_db st")
    case True
    with Cons.prems(1) show ?thesis by (simp add: explained_refl)
  next
    case False
    with one obtain f0 f k body where "findings_get (bs_db st) (pr_organization_id pr) i = Some f0"
      and f: "decide random (ce_now env) pr d f0 = Inr f"
      and "write_decision env k pr d body (f_status f0) f (bs_db st) = Inr (bs_db st1)"
      by (auto simp: bulk_one_def bulk_reject_def res_bind_Inr split: option.splits sum.splits control_exn.splits)
    with decision_kept [OF f assms] show ?thesis
      by (intro write_decision_explained [OF Cons.prems(1)]) auto
  qed
  moreover from this have "findings_keyed (bs_db st1)" by (simp add: explained_def)
  ultimately show ?case using explained_trans Cons.IH [OF _ rest] by fastforce
qed

text \<open>The sweep: each lapsed acceptance is written back open, and nothing stops the loop.\<close>

abbreviation lapsed :: "datetime \<Rightarrow> finding \<Rightarrow> bool" where
  "lapsed now f \<equiv> f_status f = ACCEPTED_RISK \<and> (case f_accepted_until f of None \<Rightarrow> False | Some t \<Rightarrow> t \<le> now)"

lemma expire_lapsed:
  "expire_acceptance now f = (if lapsed now f then (True, f\<lparr>f_status := OPEN, f_accepted_until := None\<rparr>) else (False, f))"
  by (auto simp: expire_acceptance_def split: option.splits)

lemma stored_get: "findings_keyed db \<Longrightarrow> f \<in> set (tenant_findings db org) \<longleftrightarrow> findings_get db org (f_id f) = Some f"
proof
  assume keyed: "findings_keyed db" and f: "f \<in> set (tenant_findings db org)"
  then obtain k where "(k, f) \<in> set (td_findings (tg_tenants db org))" by (auto simp: tenant_findings_def)
  with keyed have "dget (td_findings (tg_tenants db org)) (f_identity_hash f) = Some f"
    by (auto simp: findings_keyed_def dget_def dict_ok_def)
  with keyed show "findings_get db org (f_id f) = Some f" by (simp add: findings_get_iff)
qed (auto simp: findings_get_def find_Some_iff)

lemma expire_one_lapsed:
  assumes "findings_keyed db" "findings_get db org (f_id f) = Some f" "lapsed (ce_now env) f"
  shows "\<exists>db'. expire_one env random org f (n, db) = Inr (n + 1, db') \<and> explained calls db db' \<and> tg_core db' = tg_core db
    \<and> (\<forall>o1 j. findings_get db' o1 j
          = (if o1 = org \<and> j = f_id f then Some (snd (expire_acceptance (ce_now env) f)) else findings_get db o1 j))"
proof -
  let ?f1 = "f\<lparr>f_status := OPEN, f_accepted_until := None\<rparr>"
  let ?c = "\<lparr>cm_id = random (Suc n), cm_organization_id = org, cm_finding_id = f_id f, cm_author_id = None,
     cm_author_label = take 200 ''system'', cm_body = take 4000 ''Accepted-risk window expired; returned to the open queue.'',
     cm_status_from = Some (status_value ACCEPTED_RISK), cm_status_to = Some (status_value OPEN), cm_created_at = ce_db_now env\<rparr>"
  let ?db = "db\<lparr>tg_tenants := (tg_tenants db)(org := upsert ?f1 (tg_tenants db org)), tg_comments := tg_comments db @ [?c]\<rparr>"
  have "get_by_identity (tg_tenants db org) (f_identity_hash f) = Some f"
    using assms(1,2) by (simp add: get_by_identity_def findings_get_iff)
  then have run: "expire_one env random org f (n, db) = Inr (n + 1, ?db)"
    using assms(3) by (simp add: expire_one_def expire_lapsed findings_upsert_def add_comment_def user_reference_def Let_def)
  moreover have "explained calls db ?db"
    using assms(3) by (intro write_explained [OF assms(1,2), of ?f1 _ ?c]) (simp_all add: suppression_kept_def is_suppressed_def)
  moreover have "findings_get ?db o1 j = (if o1 = org \<and> j = f_id f then Some ?f1 else findings_get db o1 j)" for o1 j
    by (rule write_keyed(2) [OF assms(1,2)]) simp_all
  ultimately show ?thesis using assms(3) by (auto simp: expire_lapsed)
qed

lemma expire_each_lapsed:
  assumes "findings_keyed db" "\<forall>f \<in> set fs. findings_get db org (f_id f) = Some f \<and> lapsed (ce_now env) f"
    "distinct (map f_id fs)"
  shows "\<exists>db'. expire_each env random org fs (n, db) = Inr (n + length fs, db') \<and> explained calls db db'
    \<and> (\<forall>o1 j. findings_get db' o1 j = (if o1 = org \<and> j \<in> f_id ` set fs
          then map_option (\<lambda>f. snd (expire_acceptance (ce_now env) f)) (findings_get db o1 j) else findings_get db o1 j))"
  using assms
proof (induction fs arbitrary: n db)
  case Nil
  then show ?case by (simp add: explained_refl)
next
  case (Cons f fs)
  then obtain db1 where db1: "expire_one env random org f (n, db) = Inr (n + 1, db1)" "explained calls db db1"
    and get1: "\<And>o1 j. findings_get db1 o1 j
          = (if o1 = org \<and> j = f_id f then Some (snd (expire_acceptance (ce_now env) f)) else findings_get db o1 j)"
    using expire_one_lapsed [of db org f env random n calls] by auto
  have keyed1: "findings_keyed db1" using db1(2) by (simp add: explained_def)
  have rest: "\<forall>g \<in> set fs. findings_get db1 org (f_id g) = Some g \<and> lapsed (ce_now env) g"
  proof
    fix g assume g: "g \<in> set fs"
    with Cons.prems(3) have "f_id g \<noteq> f_id f" by (metis distinct.simps(2) imageI list.map(2) set_map)
    with g Cons.prems(2) show "findings_get db1 org (f_id g) = Some g \<and> lapsed (ce_now env) g" by (simp add: get1)
  qed
  obtain db2 where db2: "expire_each env random org fs (n + 1, db1) = Inr (n + 1 + length fs, db2)" "explained calls db1 db2"
    and get2: "\<And>o1 j. findings_get db2 o1 j = (if o1 = org \<and> j \<in> f_id ` set fs
          then map_option (\<lambda>f. snd (expire_acceptance (ce_now env) f)) (findings_get db1 o1 j) else findings_get db1 o1 j)"
    using Cons.IH [OF keyed1 rest] Cons.prems(3) by fastforce
  have "findings_get db2 o1 j = (if o1 = org \<and> j \<in> f_id ` set (f # fs)
          then map_option (\<lambda>f. snd (expire_acceptance (ce_now env) f)) (findings_get db o1 j) else findings_get db o1 j)" for o1 j
  proof (cases "j = f_id f")
    case True
    with Cons.prems(2,3) show ?thesis by (simp add: get1 get2)
  next
    case False
    then show ?thesis by (simp add: get1 get2)
  qed
  moreover have "explained calls db db2" using explained_trans [OF db1(2) db2(2)] by simp
  ultimately show ?case using db1(1) db2(1) by auto
qed

lemma expired_list:
  assumes "findings_keyed db"
  shows "f \<in> set (list_expired_acceptances now org db) \<longleftrightarrow> findings_get db org (f_id f) = Some f \<and> lapsed now f"
    and "distinct (map f_id (list_expired_acceptances now org db))"
proof -
  show "f \<in> set (list_expired_acceptances now org db) \<longleftrightarrow> findings_get db org (f_id f) = Some f \<and> lapsed now f"
    using stored_get [OF assms] by (auto simp: list_expired_acceptances_def)
  show "distinct (map f_id (list_expired_acceptances now org db))"
    using assms by (simp add: findings_keyed_def list_expired_acceptances_def distinct_map_filter)
qed

lemma expire_run:
  assumes "findings_keyed db"
  obtains db' where "expire_accepted_risks env random org db
      = (Inr (length (list_expired_acceptances (ce_now env) org db)), db')" "explained {Expire env random org} db db'"
    "\<And>o1 j. findings_get db' o1 j = (if o1 = org
        then map_option (\<lambda>f. snd (expire_acceptance (ce_now env) f)) (findings_get db o1 j) else findings_get db o1 j)"
proof -
  let ?fs = "list_expired_acceptances (ce_now env) org db"
  obtain db' where db': "expire_each env random org ?fs (0, db) = Inr (length ?fs, db')" "explained {Expire env random org} db db'"
    and get: "\<And>o1 j. findings_get db' o1 j = (if o1 = org \<and> j \<in> f_id ` set ?fs
          then map_option (\<lambda>f. snd (expire_acceptance (ce_now env) f)) (findings_get db o1 j) else findings_get db o1 j)"
    using expire_each_lapsed [OF assms, of ?fs org env random 0 "{Expire env random org}"] expired_list [OF assms] by auto
  have "findings_get db' o1 j = (if o1 = org
        then map_option (\<lambda>f. snd (expire_acceptance (ce_now env) f)) (findings_get db o1 j) else findings_get db o1 j)" for o1 j
  proof (cases "findings_get db o1 j")
    case None
    then show ?thesis using get [of o1 j] by (cases "o1 = org") simp_all
  next
    case (Some f)
    then have "f_id f = j" using assms by (simp add: findings_get_iff)
    moreover have "snd (expire_acceptance (ce_now env) f) = f" if "\<not> lapsed (ce_now env) f"
      using that by (simp only: expire_lapsed if_False snd_conv)
    moreover have "j \<in> f_id ` set ?fs" if "lapsed (ce_now env) f" "o1 = org"
      using that Some \<open>f_id f = j\<close> expired_list(1) [OF assms] by force
    ultimately show ?thesis using Some by (cases "lapsed (ce_now env) f") (auto simp: get)
  qed
  with db' show thesis by (intro that [of db']) (simp_all add: expire_accepted_risks_def)
qed

lemma comment_explained:
  assumes "findings_keyed db"
  shows "explained calls db (snd (comment_on_finding env random pr i body db))"
  unfolding comment_on_finding_def
proof (intro in_transaction_explained [OF assms], goal_cases)
  case (1 c db')
  then have "add_comment env (random 1) i (pr_organization_id pr) (pr_user_id pr) (pr_label pr)
      (take 4000 (strip body)) None None db = Inr (c, db')"
    by (auto simp: Let_def res_bind_Inr)
  then have "db' = db\<lparr>tg_comments := tg_comments db @ [c]\<rparr>" "cm_status_to c = None"
    by (auto dest: add_comment_Inr)
  with assms show ?case
    by (auto simp: explained_def findings_keyed_def findings_get_def tenant_findings_def status_trail_def suppression_kept_def)
qed

lemma perform_explained:
  assumes "findings_keyed db"
  shows "explained {call} db (triage_perform call db)"
proof (cases call)
  case (Bulk_triage env random pr ids d)
  show ?thesis
  proof (cases "bulk_triage_findings env random pr ids d db")
    case (Pair r db')
    show ?thesis
    proof (cases r)
      case (Inl e)
      with Pair have "db' = db" by (auto simp: bulk_triage_findings_def in_transaction_def split: sum.splits)
      with Pair Bulk_triage assms show ?thesis by (simp add: explained_refl)
    next
      case (Inr outcomes)
      with Pair obtain st where may: "triage_permission (dc_status d) \<in> pr_permissions pr"
        and st: "bulk_each env random pr d (first_seen ids) \<lparr>bs_outcomes = [], bs_applied = [], bs_db = db\<rparr> = Inr st"
        and log: "same_decisions db' (bs_db st)" "tg_comments db' = tg_comments (bs_db st)"
        using bulk_triage_Inr [of env random pr ids d db outcomes db'] by auto
      have "tg_tenants db' = tg_tenants (bs_db st)" using log(1) by (simp add: same_decisions_def)
      then have "explained {call} db db' = explained {call} db (bs_db st)"
        using log(2) by (simp add: explained_def findings_keyed_def findings_get_def tenant_findings_def)
      with bulk_explained [OF may _ st, of ids] assms Bulk_triage Pair show ?thesis by simp
    qed
  qed
next
  case (Expire env random org)
  then show ?thesis using expire_run [OF assms, of env random org] by (metis snd_conv triage_perform.simps(4))
qed (simp_all add: assms triage_explained comment_explained)

lemma run_explained:
  assumes "findings_keyed db"
  shows "explained (set calls) db (triage_run calls db)"
  using assms
proof (induction calls arbitrary: db)
  case Nil
  then show ?case by (simp add: triage_run_def explained_refl)
next
  case (Cons c calls)
  have "explained {c} db (triage_perform c db)" by (rule perform_explained [OF Cons.prems])
  moreover from this have "findings_keyed (triage_perform c db)" by (simp add: explained_def)
  ultimately show ?case
    using explained_trans [OF _ Cons.IH, of "{c}" db "triage_perform c db"] by (simp add: triage_run_def)
qed

text \<open>
  C31. Over any sequence of decisions, bulk decisions, comments and sweeps, succeeding or failing:
  no finding is lost, the comments written on a finding tell every change of its status in order,
  from the status it had to the status it has, and a finding that ends up suppressed either was so
  for the same reason before, or some caller of its organization with the permission to suppress
  gave the non-blank reason that now stands on it.
\<close>

theorem status_changes_are_explained:
  assumes "findings_keyed db" "findings_get db org i = Some f0"
  shows "\<exists>f new. findings_get (triage_run calls db) org i = Some f
    \<and> tg_comments (triage_run calls db) = tg_comments db @ new
    \<and> leads (status_value (f_status f0)) (status_trail org i new) (status_value (f_status f))
    \<and> (is_suppressed (f_status f) \<longrightarrow>
         (f_status f, f_triage_note f, f_triaged_by f) = (f_status f0, f_triage_note f0, f_triaged_by f0)
         \<or> (\<exists>c \<in> set calls. \<exists>actor. f_triaged_by f = Some actor \<and> suppresses org (f_status f) (f_triage_note f) actor c))"
  using run_explained [OF assms(1), of calls] assms(2) unfolding explained_def suppression_kept_def by metis

text \<open>
  The sweep of an organization always succeeds: it returns the number of its accepted risks
  whose window has closed, leaves none of them accepted, returns exactly these to the open queue and
  changes no other finding of any organization.
\<close>

theorem expiry_reopens_exactly_the_lapsed:
  assumes "findings_keyed db"
  shows "\<exists>db'. expire_accepted_risks env random org db
        = (Inr (length (list_expired_acceptances (ce_now env) org db)), db')
    \<and> list_expired_acceptances (ce_now env) org db' = []
    \<and> (\<forall>o1 i. findings_get db' o1 i =
          (case findings_get db o1 i of None \<Rightarrow> None
           | Some f \<Rightarrow> Some (if o1 = org \<and> f \<in> set (list_expired_acceptances (ce_now env) org db)
                             then f\<lparr>f_status := OPEN, f_accepted_until := None\<rparr> else f)))"
proof -
  obtain db' where db': "expire_accepted_risks env random org db
      = (Inr (length (list_expired_acceptances (ce_now env) org db)), db')" "explained {Expire env random org} db db'"
    and get: "\<And>o1 j. findings_get db' o1 j = (if o1 = org
        then map_option (\<lambda>f. snd (expire_acceptance (ce_now env) f)) (findings_get db o1 j) else findings_get db o1 j)"
    by (rule expire_run [OF assms, of env random org]) blast
  have keyed: "findings_keyed db'" using db'(2) by (simp add: explained_def)
  have "f \<notin> set (list_expired_acceptances (ce_now env) org db')" for f
  proof
    assume "f \<in> set (list_expired_acceptances (ce_now env) org db')"
    then have "findings_get db' org (f_id f) = Some f" "lapsed (ce_now env) f" by (simp_all add: expired_list [OF keyed])
    moreover from this(1) obtain g where "f = snd (expire_acceptance (ce_now env) g)" by (auto simp: get)
    ultimately show False by (cases "lapsed (ce_now env) g") (auto simp: expire_lapsed)
  qed
  then have "list_expired_acceptances (ce_now env) org db' = []" by (meson last_in_set)
  moreover have "findings_get db' o1 i =
          (case findings_get db o1 i of None \<Rightarrow> None
           | Some f \<Rightarrow> Some (if o1 = org \<and> f \<in> set (list_expired_acceptances (ce_now env) org db)
                             then f\<lparr>f_status := OPEN, f_accepted_until := None\<rparr> else f))" for o1 i
  proof (cases "findings_get db o1 i")
    case (Some f)
    moreover from this have "f_id f = i" using assms by (simp add: findings_get_iff)
    ultimately show ?thesis
      unfolding get expired_list(1) [OF assms] by (auto simp: expire_lapsed)
  qed (auto simp: get)
  ultimately show ?thesis using db'(1) by blast
qed

section \<open>API keys\<close>

text \<open>
  A principal that is no user gets a drawn id as the actor, and the column that takes it refers to
  the table of users: the write of a decided finding fails.
\<close>

lemma key_decides_nothing:
  assumes "findings_keyed db" "pr_user_id pr = None" "users_get (tg_core db) (random 0) = None"
    "findings_get db (pr_organization_id pr) i = Some f0" "f_triaged_by f0 \<noteq> Some (random 0)"
    "decide random now pr d f0 = Inr f"
  shows "write_decision env k pr d body previous f db = (if f_status f0 \<noteq> dc_status d then Inl control_exn.Crash
    else Inr (db\<lparr>tg_comments := tg_comments db @ [\<lparr>cm_id = k, cm_organization_id = pr_organization_id pr,
       cm_finding_id = i, cm_author_id = None, cm_author_label = take 200 (pr_label pr),
       cm_body = take 4000 (if dc_note d = [] then body else dc_note d), cm_status_from = Some (status_value previous),
       cm_status_to = Some (status_value (dc_status d)), cm_created_at = ce_db_now env\<rparr>]\<rparr>))"
proof -
  let ?org = "pr_organization_id pr"
  have stored: "get_by_identity (tg_tenants db ?org) (f_identity_hash f0) = Some f0" and i: "f_id f0 = i"
    using assms(1,4) by (simp_all add: get_by_identity_def findings_get_iff)
  note f = decide_Inr [OF assms(6)]
  show ?thesis
  proof (cases "f_status f0 = dc_status d")
    case True
    then have "f = f0" using assms(6)
      by (auto simp: decide_def res_bind_Inr map_error_Inr transition_def split: if_splits)
    moreover have "dput (f_identity_hash f0) f0 (td_findings (tg_tenants db ?org)) = td_findings (tg_tenants db ?org)"
      using assms(1) stored by (intro dput_same) (simp_all add: findings_keyed_def get_by_identity_def)
    then have "(tg_tenants db)(?org := upsert f0 (tg_tenants db ?org)) = tg_tenants db"
      by (simp add: upsert_def)
    ultimately show ?thesis using True stored i assms(2)
      by (simp add: write_decision_def findings_upsert_def add_comment_def user_reference_def Let_def)
  next
    case False
    with f have "f_triaged_by f = Some (random 0)" using assms(2) by (auto simp: triage_actor_def)
    with False stored f(2) assms(3,5) show ?thesis
      by (simp add: write_decision_def findings_upsert_def user_reference_def Let_def)
  qed
qed

lemma key_bulk_crashes:
  assumes "findings_keyed db" "pr_user_id pr = None" "users_get (tg_core db) (random 0) = None"
    "\<forall>g \<in> set (tenant_findings db (pr_organization_id pr)). f_triaged_by g \<noteq> Some (random 0)"
    "findings_get db (pr_organization_id pr) i = Some f0" "decide random (ce_now env) pr d f0 = Inr f" "f_status f0 \<noteq> dc_status d"
  shows "i \<in> set is \<Longrightarrow> tg_tenants (bs_db st) = tg_tenants db \<Longrightarrow> tg_core (bs_db st) = tg_core db \<Longrightarrow>
    bulk_each env random pr d is st = Inl control_exn.Crash"
proof (induction "is" arbitrary: st)
  case (Cons j js)
  let ?org = "pr_organization_id pr"
  have keyed: "findings_keyed (bs_db st)"
    using assms(1) Cons.prems(2) by (simp add: findings_keyed_def tenant_findings_def)
  have get: "findings_get (bs_db st) ?org k = findings_get db ?org k" for k
    using Cons.prems(2) by (rule findings_get_cong)
  have acc: "accepted_for d = Inr acc" if "decide random (ce_now env) pr d f0 = Inr f" "accepted_for d = Inr acc" for acc
    using that by simp
  show ?case
  proof (cases "findings_get db ?org j")
    case None
    with Cons assms(5) show ?thesis by (auto simp: bulk_one_def get bulk_reject_def)
  next
    case (Some g0)
    then have g0: "f_triaged_by g0 \<noteq> Some (random 0)"
      using assms(4) stored_get [OF assms(1)] findings_get_iff [OF assms(1)] by metis
    show ?thesis
    proof (cases "decide random (ce_now env) pr d g0")
      case (Inl e)
      with Some assms(5,6) have "j \<noteq> i" by auto
      with Cons show ?thesis using Inl Some by (cases e) (simp_all add: bulk_one_def get bulk_reject_def)
    next
      case (Inr g)
      note w = key_decides_nothing [OF keyed assms(2) _ _ g0 Inr]
      show ?thesis
      proof (cases "f_status g0 = dc_status d")
        case True
        with Some assms(5,7) have "j \<noteq> i" by auto
        with True Cons w [of j env] show ?thesis
          using Inr Some assms(3) by (simp add: bulk_one_def get)
      next
        case False
        with w [of j env] show ?thesis
          using Inr Some assms(3) Cons.prems(3) by (simp add: bulk_one_def get)
      qed
    qed
  qed
qed simp

text \<open>
  An API key with every permission cannot change the status of a finding: the decision ends in
  a server error and nothing is written, and one such finding in a bulk request undoes the whole
  request. (The ids drawn for actors are not ids of users, and no finding names one.)
\<close>

theorem api_key_cannot_decide:
  assumes "findings_keyed db" "pr_user_id pr = None" "users_get (tg_core db) (random 0) = None"
    "\<forall>g \<in> set (tenant_findings db (pr_organization_id pr)). f_triaged_by g \<noteq> Some (random 0)"
    "findings_get db (pr_organization_id pr) i = Some f0" "decide random (ce_now env) pr d f0 = Inr f"
    "f_status f0 \<noteq> dc_status d" "triage_permission (dc_status d) \<in> pr_permissions pr"
  shows "triage_finding env random pr i d db = (Inl control_exn.Crash, db)
    \<and> (i \<in> set ids \<longrightarrow> length ids \<le> MAX_BATCH \<longrightarrow>
          bulk_triage_findings env random pr ids d db = (Inl control_exn.Crash, db))"
proof
  have "f_triaged_by f0 \<noteq> Some (random 0)"
    using assms(4,5) stored_get [OF assms(1)] findings_get_iff [OF assms(1)] by metis
  from key_decides_nothing [OF assms(1-3,5) this assms(6)] assms(5-8)
  show "triage_finding env random pr i d db = (Inl control_exn.Crash, db)"
    by (simp add: triage_finding_def Let_def expect_def dom_res_def require_def)
next
  show "i \<in> set ids \<longrightarrow> length ids \<le> MAX_BATCH \<longrightarrow>
          bulk_triage_findings env random pr ids d db = (Inl control_exn.Crash, db)"
    using key_bulk_crashes [OF assms(1-7), of "first_seen ids" "\<lparr>bs_outcomes = [], bs_applied = [], bs_db = db\<rparr>"] assms(8)
    by (simp add: bulk_triage_findings_def dom_res_def require_def)
qed

section \<open>Samples\<close>

definition triage_sample :: triage_db where
  "triage_sample =
     \<lparr>tg_core = sample_db,
      tg_tenants = (\<lambda>_. \<lparr>td_agents = [],
        td_findings = [(''h'', sample_finding), (''k'', sample_finding\<lparr>f_id := ''g'', f_identity_hash := ''k'',
                                                  f_status := ACCEPTED_RISK, f_accepted_until := Some 4\<rparr>)],
        td_occurrences = []\<rparr>),
      tg_comments = []\<rparr>"

definition sample_decision :: decision where
  "sample_decision = \<lparr>dc_status = FALSE_POSITIVE, dc_note = ''test data'', dc_accepted_for_days = None\<rparr>"

definition sample_random :: "nat \<Rightarrow> uuid" where "sample_random n = CHR ''c'' # replicate n (CHR ''1'')"

lemma triage_sample_keyed: "findings_keyed triage_sample"
proof -
  have "f_id sample_finding = ''f''" "f_identity_hash sample_finding = ''h''" by code_simp+
  then show ?thesis by (simp add: findings_keyed_def triage_sample_def dict_ok_def tenant_findings_def)
qed

theorem bulk_triage_is_triage_of_each_witness:
  "\<exists>outcomes db'. bulk_triage_findings (sample_control_env ''x'') sample_random sample_admin [''f'', ''q'', ''g'', ''f'']
      sample_decision triage_sample = (Inr outcomes, db')
    \<and> map bo_finding_id outcomes = [''f'', ''q'', ''g''] \<and> map bo_applied outcomes = [True, False, False]
    \<and> length (db_audit (tg_core db')) = 1"
proof -
  let ?run = "bulk_triage_findings (sample_control_env ''x'') sample_random sample_admin [''f'', ''q'', ''g'', ''f'']
      sample_decision triage_sample"
  have "case fst ?run of Inr os \<Rightarrow> map bo_applied os = [True, False, False] | Inl e \<Rightarrow> False" by code_simp
  then obtain outcomes db' where run: "?run = (Inr outcomes, db')" "map bo_applied outcomes = [True, False, False]"
    by (cases ?run) (auto split: sum.splits)
  have "first_seen [''f'', ''q'', ''g'', ''f''] = [''f'', ''q'', ''g'']" "db_audit (tg_core triage_sample) = []" by code_simp+
  moreover have "\<exists>oc \<in> set outcomes. bo_applied oc" using run(2) by (cases outcomes) auto
  ultimately show ?thesis using bulk_triage_is_triage_of_each [OF run(1)] run by auto
qed

theorem status_changes_are_explained_witness:
  "\<exists>f new. findings_get (triage_run [Triage (sample_control_env ''x'') sample_random sample_admin ''f'' sample_decision] triage_sample)
        ''o1'' ''f'' = Some f
    \<and> leads ''OPEN'' (status_trail ''o1'' ''f'' new) (status_value (f_status f)) \<and> f_status f = FALSE_POSITIVE"
proof -
  let ?run = "triage_run [Triage (sample_control_env ''x'') sample_random sample_admin ''f'' sample_decision] triage_sample"
  have "findings_get triage_sample ''o1'' ''f'' = Some sample_finding" "status_value (f_status sample_finding) = ''OPEN''"
    by code_simp+
  moreover have "map_option f_status (findings_get ?run ''o1'' ''f'') = Some FALSE_POSITIVE" by code_simp
  ultimately show ?thesis
    using status_changes_are_explained [OF triage_sample_keyed, of "''o1''" "''f''" sample_finding
        "[Triage (sample_control_env ''x'') sample_random sample_admin ''f'' sample_decision]"] by auto
qed

theorem expiry_reopens_exactly_the_lapsed_witness:
  "fst (expire_accepted_risks (sample_control_env ''x'') sample_random ''o1'' triage_sample) = Inr 1"
proof -
  have "length (list_expired_acceptances (ce_now (sample_control_env ''x'')) ''o1'' triage_sample) = 1" by code_simp
  then show ?thesis
    using expiry_reopens_exactly_the_lapsed [OF triage_sample_keyed, of "sample_control_env ''x''" sample_random "''o1''"] by auto
qed

definition sample_key :: principal where
  "sample_key = sample_admin\<lparr>pr_user_id := None\<rparr>"

theorem api_key_cannot_decide_witness:
  "triage_finding (sample_control_env ''x'') sample_random sample_key ''f'' sample_decision triage_sample
     = (Inl control_exn.Crash, triage_sample)"
proof -
  have "pr_organization_id sample_key = ''o1''" "pr_user_id sample_key = None"
    "users_get (tg_core triage_sample) (sample_random 0) = None"
    "map f_triaged_by (tenant_findings triage_sample ''o1'') = [None, None]"
    "findings_get triage_sample ''o1'' ''f'' = Some sample_finding" "f_status sample_finding = OPEN"
    "dc_status sample_decision = FALSE_POSITIVE"
    "triage_permission (dc_status sample_decision) \<in> pr_permissions sample_key"
    by code_simp+
  moreover obtain f where "decide sample_random (ce_now (sample_control_env ''x'')) sample_key sample_decision sample_finding = Inr f"
  proof -
    have "case decide sample_random (ce_now (sample_control_env ''x'')) sample_key sample_decision sample_finding of
        Inr f \<Rightarrow> True | Inl e \<Rightarrow> False" by code_simp
    with that show thesis by (auto split: sum.splits)
  qed
  moreover from calculation(4) have "\<forall>g \<in> set (tenant_findings triage_sample ''o1''). f_triaged_by g \<noteq> Some (sample_random 0)"
    by (auto simp: map_eq_Cons_conv)
  ultimately show ?thesis
    using api_key_cannot_decide [OF triage_sample_keyed, of sample_key sample_random "''f''" sample_finding
        "sample_control_env ''x''" sample_decision f "[]"] by auto
qed

end
