(* ===== verification/ApiKeys.thy ===== *)
theory ApiKeys
  imports AuthProps RbacProps
begin

text \<open>
  Issuing, listing and revoking API keys (\<open>application/api_keys.py\<close>), and what holds of them over
  time: a key works from its issue to its revocation or expiry, and no chain of callers, keys among
  them, gives a key a permission none of the callers held.
\<close>

section \<open>Operations\<close>

definition KEY_ALPHABET :: str where
  "KEY_ALPHABET = ''abcdefghijklmnopqrstuvwxyzABCDEFGHIJKLMNOPQRSTUVWXYZ0123456789''"

definition PREFIX_LENGTH :: nat where "PREFIX_LENGTH = 12"
definition SECRET_LENGTH :: nat where "SECRET_LENGTH = 43"
definition MAX_TTL_DAYS :: int where "MAX_TTL_DAYS = 730"

text \<open>\<open>"".join(secrets.choice(alphabet) for _ in range(n))\<close>; \<open>choice i\<close> is the \<open>i\<close>-th character drawn.\<close>

definition draw :: "(nat \<Rightarrow> char) \<Rightarrow> nat \<Rightarrow> nat \<Rightarrow> str" where
  "draw choice start n = map choice [start ..< start + n]"

record key_summary =
  ks_id :: uuid
  ks_name :: str
  ks_prefix :: str
  ks_permissions :: "str list"
  ks_created_at :: "datetime option"
  ks_expires_at :: "datetime option"
  ks_last_used_at :: "datetime option"
  ks_revoked_at :: "datetime option"

definition summarize_key :: "api_key \<Rightarrow> key_summary" where
  "summarize_key k =
     \<lparr>ks_id = ak_id k, ks_name = ak_name k, ks_prefix = ak_prefix k, ks_permissions = sorted_values (ak_permissions k),
      ks_created_at = ak_created_at k, ks_expires_at = ak_expires_at k, ks_last_used_at = ak_last_used_at k,
      ks_revoked_at = ak_revoked_at k\<rparr>"

record key_issued =
  ki_summary :: key_summary
  ki_plaintext_key :: str

text \<open>Newest first; a row has the database's time of creation.\<close>

definition api_keys_list_all :: "control_db \<Rightarrow> uuid \<Rightarrow> api_key list" where
  "api_keys_list_all db org =
     sort_key (\<lambda>k. - the (ak_created_at k)) (filter (\<lambda>k. ak_organization_id k = org) (map snd (db_api_keys db)))"

text \<open>The insert, under the unique constraint on prefixes and the reference to the creator.\<close>

definition api_keys_add :: "datetime \<Rightarrow> api_key \<Rightarrow> control_db \<Rightarrow> control_exn + control_db" where
  "api_keys_add db_now k db =
     (if api_keys_get_by_prefix db (ak_prefix k) \<noteq> None
         \<or> (case ak_created_by k of None \<Rightarrow> False | Some u \<Rightarrow> users_get db u = None) then Inl control_exn.Crash
      else Inr (api_keys_put (k\<lparr>ak_created_at := Some db_now\<rparr>) db))"

text \<open>The update of the columns a key may change.\<close>

definition api_keys_update :: "api_key \<Rightarrow> control_db \<Rightarrow> control_db" where
  "api_keys_update k db =
     (case dget (db_api_keys db) (ak_id k) of None \<Rightarrow> db
      | Some row \<Rightarrow> api_keys_put (row\<lparr>ak_name := ak_name k, ak_permissions := ak_permissions k,
           ak_expires_at := ak_expires_at k, ak_revoked_at := ak_revoked_at k, ak_last_used_at := ak_last_used_at k\<rparr>) db)"

definition list_api_keys :: "principal \<Rightarrow> control_db \<Rightarrow> control_exn + key_summary list" where
  "list_api_keys pr db =
     res_bind (dom_res (require SETTINGS_WRITE pr)) (\<lambda>_.
     Inr (map summarize_key (api_keys_list_all db (pr_organization_id pr))))"

definition create_api_key ::
    "auth_deps \<Rightarrow> control_env \<Rightarrow> (nat \<Rightarrow> char) \<Rightarrow> principal \<Rightarrow> str \<Rightarrow> str list \<Rightarrow> int option \<Rightarrow> control_db
       \<Rightarrow> key_issued outcome" where
  "create_api_key deps env choice pr name permissions expires_in_days db = in_transaction db
     (let org = pr_organization_id pr; now = ce_now env in
      res_bind (dom_res (require SETTINGS_WRITE pr)) (\<lambda>_.
      res_bind (dom_res (parse_permissions permissions)) (\<lambda>parsed.
      res_bind (dom_res (raise_if (parsed = {})
         (ValidationError ''An API key must carry at least one permission.'' (Some ''permissions'') None))) (\<lambda>_.
      res_bind (dom_res (assert_can_grant parsed pr)) (\<lambda>_.
      res_bind (dom_res (raise_if (case expires_in_days of None \<Rightarrow> False | Some n \<Rightarrow> \<not> (1 \<le> n \<and> n \<le> MAX_TTL_DAYS))
         (ValidationError (''Expiry must be between 1 and '' @ int_str MAX_TTL_DAYS @ '' days.'')
            (Some ''expires_in_days'') None))) (\<lambda>_.
      res_bind (dom_res (api_key_prefix (draw choice 0 PREFIX_LENGTH))) (\<lambda>pfx.
      let secret = draw choice PREFIX_LENGTH SECRET_LENGTH in
      res_bind (dom_res (new_api_key (ce_fresh env 0) org name pfx (ad_hash deps secret) parsed (pr_user_id pr)
         (map_option (\<lambda>n. now + days n) expires_in_days) (Some now))) (\<lambda>k.
      res_bind (api_keys_add (ce_db_now env) k db) (\<lambda>db1.
      res_bind (record_audit env org (ce_fresh env 1)
         (audit_by pr ''api_key.created'' ''api_key'' (ak_id k)
            [(''name'', JStr (ak_name k)), (''prefix'', JStr pfx), (''permissions'', JList (map JStr (sorted_values parsed))),
             (''expires_at'', opt_json (map_option (ce_isotime env) (ak_expires_at k)))]) db1) (\<lambda>db2.
      Inr (\<lparr>ki_summary = summarize_key k, ki_plaintext_key = ''ak_'' @ pfx @ ''.'' @ secret\<rparr>, db2)))))))))))"

definition revoke_api_key :: "control_env \<Rightarrow> principal \<Rightarrow> uuid \<Rightarrow> control_db \<Rightarrow> unit outcome" where
  "revoke_api_key env pr i db = in_transaction db
     (let org = pr_organization_id pr in
      res_bind (dom_res (require SETTINGS_WRITE pr)) (\<lambda>_.
      res_bind (expect (NotFoundError ''ApiKey'') (api_keys_get db org i)) (\<lambda>k0.
      let k = api_key_revoke (ce_now env) k0 in
      res_bind (record_audit env org (ce_fresh env 0)
         (audit_by pr ''api_key.revoked'' ''api_key'' (ak_id k)
            [(''name'', JStr (ak_name k)), (''prefix'', JStr (ak_prefix k))]) (api_keys_update k db)) (\<lambda>db1.
      Inr ((), db1)))))"

section \<open>Runs of callers\<close>

text \<open>
  A caller is a member, whose principal some access token gave, or the holder of a key, whose
  principal comes from resolving the key in the database of the moment.
\<close>

datatype key_caller = Member principal | Holder auth_deps control_env str request_context

datatype key_request =
    Create_key auth_deps control_env "nat \<Rightarrow> char" str "str list" "int option"
  | Revoke_key control_env uuid
  | Use_key

fun caller_principal :: "key_caller \<Rightarrow> control_db \<Rightarrow> principal outcome" where
  "caller_principal (Member pr) db = (Inr pr, db)"
| "caller_principal (Holder deps env presented ctx) db = resolve_api_key_principal deps env presented ctx db"

fun key_answer :: "principal \<Rightarrow> key_request \<Rightarrow> control_db \<Rightarrow> control_db" where
  "key_answer pr (Create_key deps env choice name permissions ttl) db =
     snd (create_api_key deps env choice pr name permissions ttl db)"
| "key_answer pr (Revoke_key env i) db = snd (revoke_api_key env pr i db)"
| "key_answer pr Use_key db = db"

definition key_call :: "key_caller \<times> key_request \<Rightarrow> control_db \<Rightarrow> control_db" where
  "key_call c db = (case caller_principal (fst c) db of (Inl e, db1) \<Rightarrow> db1 | (Inr pr, db1) \<Rightarrow> key_answer pr (snd c) db1)"

definition key_run :: "(key_caller \<times> key_request) list \<Rightarrow> control_db \<Rightarrow> control_db" where
  "key_run calls db = fold key_call calls db"

text \<open>Rows are stored under their id, and prefixes are unique.\<close>

definition keys_ok :: "control_db \<Rightarrow> bool" where
  "keys_ok db \<longleftrightarrow> dict_ok (db_api_keys db) \<and> (\<forall>(i, k) \<in> set (db_api_keys db). ak_id k = i)
     \<and> distinct (map (\<lambda>(i, k). ak_prefix k) (db_api_keys db))"

text \<open>The ids drawn for new keys are not ids of keys.\<close>

fun key_ids_new :: "(key_caller \<times> key_request) list \<Rightarrow> control_db \<Rightarrow> bool" where
  "key_ids_new [] db = True"
| "key_ids_new (c # cs) db =
     ((case snd c of Create_key deps env choice name permissions ttl \<Rightarrow> dget (db_api_keys db) (ce_fresh env 0) = None | _ \<Rightarrow> True)
      \<and> key_ids_new cs (key_call c db))"

section \<open>What a request does to the table of keys\<close>

text \<open>A key over time: it may be used and revoked, and stays revoked.\<close>

definition aged :: "api_key \<Rightarrow> api_key \<Rightarrow> bool" where
  "aged k k' \<longleftrightarrow> ak_id k' = ak_id k \<and> ak_organization_id k' = ak_organization_id k \<and> ak_name k' = ak_name k
     \<and> ak_prefix k' = ak_prefix k \<and> ak_secret_hash k' = ak_secret_hash k \<and> ak_permissions k' = ak_permissions k
     \<and> ak_created_by k' = ak_created_by k \<and> ak_expires_at k' = ak_expires_at k \<and> ak_created_at k' = ak_created_at k
     \<and> (ak_revoked_at k \<noteq> None \<longrightarrow> ak_revoked_at k' = ak_revoked_at k)"

lemma aged_refl [simp]: "aged k k"
  by (simp add: aged_def)

lemma aged_trans: "aged k k' \<Longrightarrow> aged k' k'' \<Longrightarrow> aged k k''"
  by (auto simp: aged_def)

text \<open>
  One request: stored keys age, and at most one is new, which a caller of its organization with at
  least its permissions created. A key is revoked by a request to revoke it only.
\<close>

definition key_effect :: "(principal \<Rightarrow> bool) \<Rightarrow> (uuid \<Rightarrow> bool) \<Rightarrow> control_db \<Rightarrow> control_db \<Rightarrow> bool" where
  "key_effect creator revokes db db' \<longleftrightarrow> keys_ok db'
     \<and> db_organizations db' = db_organizations db
     \<and> (\<forall>i k. dget (db_api_keys db) i = Some k \<longrightarrow> (\<exists>k'. dget (db_api_keys db') i = Some k' \<and> aged k k'
            \<and> (revokes i \<or> ak_revoked_at k' = ak_revoked_at k)))
     \<and> (\<forall>i k'. dget (db_api_keys db) i = None \<longrightarrow> dget (db_api_keys db') i = Some k' \<longrightarrow>
          (\<exists>pr. creator pr \<and> ak_organization_id k' = pr_organization_id pr \<and> ak_permissions k' \<subseteq> pr_permissions pr))"

lemma key_effect_old:
  "key_effect creator revokes db db' \<Longrightarrow> dget (db_api_keys db) i = Some k \<Longrightarrow>
     \<exists>k'. dget (db_api_keys db') i = Some k' \<and> aged k k' \<and> (revokes i \<or> ak_revoked_at k' = ak_revoked_at k)"
  by (simp add: key_effect_def)

lemma key_effect_new:
  "key_effect creator revokes db db' \<Longrightarrow> dget (db_api_keys db) i = None \<Longrightarrow> dget (db_api_keys db') i = Some k \<Longrightarrow>
     \<exists>pr. creator pr \<and> ak_organization_id k = pr_organization_id pr \<and> ak_permissions k \<subseteq> pr_permissions pr"
  by (simp add: key_effect_def)

lemma key_effect_refl: "keys_ok db \<Longrightarrow> db_api_keys db' = db_api_keys db \<Longrightarrow> db_organizations db' = db_organizations db
    \<Longrightarrow> key_effect creator revokes db db'"
  by (auto simp: key_effect_def keys_ok_def)

lemma key_effect_trans:
  assumes "key_effect creator revokes db db1" "key_effect creator revokes db1 db2"
  shows "key_effect creator revokes db db2"
proof -
  have old: "\<exists>k'. dget (db_api_keys db2) i = Some k' \<and> aged k k' \<and> (revokes i \<or> ak_revoked_at k' = ak_revoked_at k)"
    if k: "dget (db_api_keys db) i = Some k" for i k
  proof -
    obtain k1 where k1: "dget (db_api_keys db1) i = Some k1" "aged k k1" "revokes i \<or> ak_revoked_at k1 = ak_revoked_at k"
      using key_effect_old [OF assms(1) k] by blast
    obtain k2 where "dget (db_api_keys db2) i = Some k2" "aged k1 k2" "revokes i \<or> ak_revoked_at k2 = ak_revoked_at k1"
      using key_effect_old [OF assms(2) k1(1)] by blast
    with k1 aged_trans show ?thesis by metis
  qed
  have new: "\<exists>pr. creator pr \<and> ak_organization_id k = pr_organization_id pr \<and> ak_permissions k \<subseteq> pr_permissions pr"
    if none: "dget (db_api_keys db) i = None" and k: "dget (db_api_keys db2) i = Some k" for i k
  proof (cases "dget (db_api_keys db1) i")
    case None
    with key_effect_new [OF assms(2)] k show ?thesis by blast
  next
    case (Some k1)
    obtain k2 where "dget (db_api_keys db2) i = Some k2" "aged k1 k2"
      using key_effect_old [OF assms(2) Some] by blast
    with k have "aged k1 k" by simp
    moreover obtain pr where "creator pr" "ak_organization_id k1 = pr_organization_id pr" "ak_permissions k1 \<subseteq> pr_permissions pr"
      using key_effect_new [OF assms(1) none Some] by blast
    ultimately show ?thesis unfolding aged_def by metis
  qed
  from assms have "keys_ok db2" "db_organizations db2 = db_organizations db" by (simp_all add: key_effect_def)
  with old new show ?thesis unfolding key_effect_def by blast
qed

lemma map_rows_ok:
  assumes "keys_ok db" "\<And>i k. ak_id (f i k) = ak_id k \<and> ak_prefix (f i k) = ak_prefix k"
    "db_api_keys db' = map (\<lambda>(i, k). (i, f i k)) (db_api_keys db)"
  shows "keys_ok db'"
  using assms by (auto simp: keys_ok_def dict_ok_def comp_def case_prod_unfold)

lemma touch_effect:
  assumes "keys_ok db"
  shows "key_effect creator revokes db (api_keys_touch i now db)"
proof -
  let ?f = "\<lambda>k a. if k = i then api_key_touch now a else a"
  have rows: "db_api_keys (api_keys_touch i now db) = map (\<lambda>(k, a). (k, ?f k a)) (db_api_keys db)"
    by (simp add: api_keys_touch_def)
  have "keys_ok (api_keys_touch i now db)"
    by (rule map_rows_ok [OF assms _ rows]) (simp add: api_key_touch_def)
  then show ?thesis
    unfolding key_effect_def rows dget_map_value by (auto simp: api_keys_touch_def api_key_touch_def aged_def)
qed

lemma update_effect:
  assumes "keys_ok db" "dget (db_api_keys db) i = Some k" "revokes i" "aged k k'"
  shows "key_effect creator revokes db (api_keys_update k' db)"
proof -
  have id: "ak_id k = i" "ak_id k' = i"
    using assms(1,2,4) unfolding aged_def by (auto simp: keys_ok_def dget_def dict_ok_def dest: map_of_SomeD)
  have row: "k\<lparr>ak_name := ak_name k', ak_permissions := ak_permissions k', ak_expires_at := ak_expires_at k',
      ak_revoked_at := ak_revoked_at k', ak_last_used_at := ak_last_used_at k'\<rparr> = k'"
    using assms(4) unfolding aged_def by (intro api_key.equality) auto
  have upd: "api_keys_update k' db = api_keys_put k' db"
    using assms(2) id row by (simp add: api_keys_update_def)
  let ?f = "\<lambda>j a. if j = i then k' else a"
  have "dict_ok (db_api_keys db)" using assms(1) by (simp add: keys_ok_def)
  then have rows: "db_api_keys (api_keys_put k' db) = map (\<lambda>(j, a). (j, ?f j a)) (db_api_keys db)"
    using dput_as_map assms(2) id by (simp add: api_keys_put_def)
  have same: "a = k" if "(i, a) \<in> set (db_api_keys db)" for a
    using that assms(2) \<open>dict_ok (db_api_keys db)\<close> by (simp add: dget_def dict_ok_def)
  have eq: "map (\<lambda>(j, a). ak_prefix (?f j a)) (db_api_keys db) = map (\<lambda>(j, a). ak_prefix a) (db_api_keys db)"
    using same assms(4) by (intro map_cong) (auto simp: aged_def)
  have "distinct (map (\<lambda>(j, a). ak_prefix (?f j a)) (db_api_keys db))"
    unfolding eq using assms(1) by (simp add: keys_ok_def)
  moreover have "dict_ok (db_api_keys (api_keys_put k' db)) \<and> (\<forall>(j, a) \<in> set (db_api_keys (api_keys_put k' db)). ak_id a = j)"
    using assms(1) id unfolding keys_ok_def rows by (auto simp: dict_ok_def comp_def case_prod_unfold)
  ultimately have "keys_ok (api_keys_put k' db)"
    unfolding keys_ok_def rows by (simp add: comp_def case_prod_unfold)
  then show ?thesis
    using assms(2-4) unfolding upd key_effect_def rows dget_map_value by (auto simp: api_keys_put_def)
qed

lemma distinct_prefix_dput:
  "p \<notin> (\<lambda>(i, k). ak_prefix k) ` set d \<Longrightarrow> dget d i = None \<Longrightarrow> ak_prefix k = p \<Longrightarrow>
     distinct (map (\<lambda>(i, k). ak_prefix k) d) \<Longrightarrow> distinct (map (\<lambda>(i, k). ak_prefix k) (dput i k d))"
proof -
  assume a: "p \<notin> (\<lambda>(i, k). ak_prefix k) ` set d" "dget d i = None" "ak_prefix k = p" "distinct (map (\<lambda>(i, k). ak_prefix k) d)"
  from a(2) have "dput i k d = d @ [(i, k)]"
    by (induction i k d rule: dput.induct) (auto simp: dget_def split: if_splits)
  with a show ?thesis by auto
qed

lemma add_effect:
  assumes "keys_ok db" "api_keys_add db_now k db = Inr db'" "dget (db_api_keys db) (ak_id k) = None"
    "creator pr" "ak_organization_id k = pr_organization_id pr" "ak_permissions k \<subseteq> pr_permissions pr"
  shows "key_effect creator revokes db db'" "dget (db_api_keys db') (ak_id k) = Some (k\<lparr>ak_created_at := Some db_now\<rparr>)"
proof -
  let ?k = "k\<lparr>ak_created_at := Some db_now\<rparr>"
  from assms(2) have free: "api_keys_get_by_prefix db (ak_prefix k) = None"
    and db': "db' = db\<lparr>db_api_keys := dput (ak_id k) ?k (db_api_keys db)\<rparr>"
    by (auto simp: api_keys_add_def api_keys_put_def split: if_splits)
  from free have "ak_prefix k \<notin> (\<lambda>(i, k). ak_prefix k) ` set (db_api_keys db)"
    by (force simp: api_keys_get_by_prefix_def find_None_iff)
  with assms(1,3) have "keys_ok db'"
    using distinct_prefix_dput [of "ak_prefix k" "db_api_keys db" "ak_id k" ?k]
    set_dput_subset [of "ak_id k" ?k "db_api_keys db"]
    by (auto simp: keys_ok_def db')
  with assms(3-6) show "key_effect creator revokes db db'"
    by (auto simp: key_effect_def db' dget_dput)
  show "dget (db_api_keys db') (ak_id k) = Some ?k" by (simp add: db' dget_dput)
qed

lemma create_Inr:
  assumes "create_api_key deps env choice pr name permissions ttl db = (Inr issued, db')"
  obtains parsed pfx k db1 rows where "parse_permissions permissions = Inr parsed" "parsed \<subseteq> pr_permissions pr"
    "api_key_prefix (draw choice 0 PREFIX_LENGTH) = Inr pfx"
    "new_api_key (ce_fresh env 0) (pr_organization_id pr) name pfx (ad_hash deps (draw choice PREFIX_LENGTH SECRET_LENGTH))
         parsed (pr_user_id pr) (map_option (\<lambda>n. ce_now env + days n) ttl) (Some (ce_now env)) = Inr k"
    "api_keys_add (ce_db_now env) k db = Inr db1" "db' = db1\<lparr>db_audit := rows\<rparr>"
    "issued = \<lparr>ki_summary = summarize_key k,
       ki_plaintext_key = ''ak_'' @ pfx @ ''.'' @ draw choice PREFIX_LENGTH SECRET_LENGTH\<rparr>"
proof -
  have "\<exists>parsed pfx k db1 rows. parse_permissions permissions = Inr parsed \<and> parsed \<subseteq> pr_permissions pr
    \<and> api_key_prefix (draw choice 0 PREFIX_LENGTH) = Inr pfx
    \<and> new_api_key (ce_fresh env 0) (pr_organization_id pr) name pfx (ad_hash deps (draw choice PREFIX_LENGTH SECRET_LENGTH))
         parsed (pr_user_id pr) (map_option (\<lambda>n. ce_now env + days n) ttl) (Some (ce_now env)) = Inr k
    \<and> api_keys_add (ce_db_now env) k db = Inr db1 \<and> db' = db1\<lparr>db_audit := rows\<rparr>
    \<and> issued = \<lparr>ki_summary = summarize_key k,
       ki_plaintext_key = ''ak_'' @ pfx @ ''.'' @ draw choice PREFIX_LENGTH SECRET_LENGTH\<rparr>"
    using assms unfolding create_api_key_def in_transaction_def Let_def
    by (clarsimp simp: res_bind_Inr split: sum.splits) (fastforce dest!: record_audit_Inr)
  with that show thesis by blast
qed

lemma create_effect:
  assumes "keys_ok db" "dget (db_api_keys db) (ce_fresh env 0) = None" "creator pr"
  shows "key_effect creator revokes db (snd (create_api_key deps env choice pr name permissions ttl db))"
proof (cases "create_api_key deps env choice pr name permissions ttl db")
  case (Pair r db')
  show ?thesis
  proof (cases r)
    case (Inl e)
    with Pair have "db' = db" by (auto simp: create_api_key_def in_transaction_def split: sum.splits)
    with Pair show ?thesis using key_effect_refl [OF assms(1), of db] by simp
  next
    case (Inr issued)
    with Pair obtain parsed pfx k db1 rows where "parsed \<subseteq> pr_permissions pr"
      and k: "new_api_key (ce_fresh env 0) (pr_organization_id pr) name pfx (ad_hash deps (draw choice PREFIX_LENGTH SECRET_LENGTH))
         parsed (pr_user_id pr) (map_option (\<lambda>n. ce_now env + days n) ttl) (Some (ce_now env)) = Inr k"
      and add: "api_keys_add (ce_db_now env) k db = Inr db1" and log: "db' = db1\<lparr>db_audit := rows\<rparr>"
      using create_Inr by metis
    moreover from k have "ak_id k = ce_fresh env 0" "ak_organization_id k = pr_organization_id pr" "ak_permissions k = parsed"
      by (auto simp: new_api_key_def split: if_splits)
    ultimately have "key_effect creator revokes db db1"
      using assms by (intro add_effect(1) [OF assms(1) add, of creator pr]) auto
    with log Pair show ?thesis by (auto simp: key_effect_def keys_ok_def)
  qed
qed

lemma revoke_Inr:
  assumes "revoke_api_key env pr i db = (Inr (), db')"
  shows "\<exists>k rows. dget (db_api_keys db) i = Some k \<and> ak_organization_id k = pr_organization_id pr
    \<and> db' = (api_keys_update (api_key_revoke (ce_now env) k) db)\<lparr>db_audit := rows\<rparr>"
  using assms
  by (auto simp: revoke_api_key_def in_transaction_def Let_def res_bind_Inr api_keys_get_def
      split: sum.splits option.splits if_splits dest!: record_audit_Inr)

lemma revoke_aged: "aged k (api_key_revoke now k)"
  by (simp add: aged_def api_key_revoke_def)

lemma revoke_effect:
  assumes "keys_ok db" "revokes i"
  shows "key_effect creator revokes db (snd (revoke_api_key env pr i db))"
proof (cases "revoke_api_key env pr i db")
  case (Pair r db')
  show ?thesis
  proof (cases r)
    case (Inl e)
    with Pair have "db' = db" by (auto simp: revoke_api_key_def in_transaction_def split: sum.splits)
    with Pair show ?thesis using key_effect_refl [OF assms(1), of db] by simp
  next
    case (Inr u)
    with Pair revoke_Inr [of env pr i db db'] obtain k rows where "dget (db_api_keys db) i = Some k"
      "db' = (api_keys_update (api_key_revoke (ce_now env) k) db)\<lparr>db_audit := rows\<rparr>" by auto
    with update_effect [OF assms(1) this(1), of revokes "api_key_revoke (ce_now env) k" creator] assms(2) revoke_aged Pair
    show ?thesis by (auto simp: key_effect_def keys_ok_def)
  qed
qed

lemma resolve_effect:
  assumes "keys_ok db"
  shows "key_effect creator revokes db (snd (resolve_api_key_principal deps env presented ctx db))"
  using touch_effect [OF assms] key_effect_refl [OF assms, of db]
  by (auto simp: resolve_api_key_principal_def with_uow_def split: prod.splits sum.splits option.splits if_splits)

text \<open>The principal of a caller that a request is answered for.\<close>

lemma key_call_effect:
  assumes "keys_ok db" "key_ids_new [c] db" "\<And>pr db1. caller_principal (fst c) db = (Inr pr, db1) \<Longrightarrow> creator pr"
    "\<And>env i. snd c = Revoke_key env i \<Longrightarrow> revokes i"
  shows "key_effect creator revokes db (key_call c db)"
proof -
  obtain r db1 where caller: "caller_principal (fst c) db = (r, db1)" by fastforce
  have first: "key_effect creator revokes db db1"
    using resolve_effect [OF assms(1)] key_effect_refl [OF assms(1), of db] caller
    by (cases "fst c") (auto, metis snd_conv)
  show ?thesis
  proof (cases r)
    case (Inl e)
    with first caller show ?thesis by (simp add: key_call_def)
  next
    case (Inr pr)
    have ok: "keys_ok db1" using first by (simp add: key_effect_def)
    have fresh: "dget (db_api_keys db1) j = None" if "dget (db_api_keys db) j = None" for j
      using that caller
      by (cases "fst c") (auto simp: resolve_api_key_principal_def with_uow_def api_keys_touch_def dget_map_value
          split: prod.splits sum.splits option.splits if_splits)
    have "key_effect creator revokes db1 (key_answer pr (snd c) db1)"
    proof (cases "snd c")
      case (Create_key deps env choice name permissions ttl)
      with fresh assms(2,3) caller Inr show ?thesis by (simp add: create_effect [OF ok])
    next
      case (Revoke_key env i)
      with assms(4) show ?thesis by (simp add: revoke_effect [OF ok])
    next
      case Use_key
      with ok show ?thesis by (simp add: key_effect_refl)
    qed
    with first caller Inr key_effect_trans show ?thesis by (auto simp: key_call_def)
  qed
qed

lemma by_prefix_row: "api_keys_get_by_prefix db p = Some k \<Longrightarrow> \<exists>i. (i, k) \<in> set (db_api_keys db)"
  by (auto simp: api_keys_get_by_prefix_def dest: find_holds)

lemma resolve_Inr:
  assumes "resolve_api_key_principal deps env presented ctx db = (Inr pr, db')"
  shows "\<exists>i k. (i, k) \<in> set (db_api_keys db) \<and> pr_organization_id pr = ak_organization_id k \<and> pr_permissions pr = ak_permissions k"
proof -
  from assms obtain pfx k where "api_keys_get_by_prefix db pfx = Some k"
    "pr_organization_id pr = ak_organization_id k" "pr_permissions pr = ak_permissions k"
    by (auto simp: resolve_api_key_principal_def with_uow_def split: prod.splits sum.splits option.splits if_splits)
  with by_prefix_row show ?thesis by blast
qed

lemma keys_row: "keys_ok db \<Longrightarrow> (i, k) \<in> set (db_api_keys db) \<longleftrightarrow> dget (db_api_keys db) i = Some k"
  by (simp add: keys_ok_def dget_def dict_ok_def)

section \<open>Permissions\<close>

text \<open>
  C26. Whatever members and holders of keys create, use and revoke, one after another: no key of an
  organization carries a permission that neither a key of the organization carried at the start nor
  any of the members held. Creating keys with keys gains nothing.
\<close>

theorem api_key_chain_gains_nothing:
  assumes "keys_ok db" "key_ids_new calls db"
    and "\<forall>(caller, req) \<in> set calls. \<forall>pr. caller = Member pr \<longrightarrow> pr_organization_id pr = org \<longrightarrow> pr_permissions pr \<subseteq> P"
    and "\<forall>(i, k) \<in> set (db_api_keys db). ak_organization_id k = org \<longrightarrow> ak_permissions k \<subseteq> P"
  shows "\<forall>(i, k) \<in> set (db_api_keys (key_run calls db)). ak_organization_id k = org \<longrightarrow> ak_permissions k \<subseteq> P"
  using assms
proof (induction calls arbitrary: db)
  case Nil
  then show ?case by (simp add: key_run_def)
next
  case (Cons c calls)
  let ?creator = "\<lambda>pr :: principal. pr_organization_id pr = org \<longrightarrow> pr_permissions pr \<subseteq> P"
  have effect: "key_effect ?creator (\<lambda>_. True) db (key_call c db)"
  proof (rule key_call_effect [OF Cons.prems(1)])
    show "key_ids_new [c] db" using Cons.prems(2) by simp
    show "?creator pr" if "caller_principal (fst c) db = (Inr pr, db1)" for pr db1
    proof (cases "fst c")
      case (Member m)
      with that Cons.prems(3) show ?thesis by (cases c) auto
    next
      case (Holder deps env presented ctx)
      with that obtain i k where "(i, k) \<in> set (db_api_keys db)" "pr_organization_id pr = ak_organization_id k"
        "pr_permissions pr = ak_permissions k"
        using resolve_Inr [of deps env presented ctx db pr db1] by auto
      with Cons.prems(4) show ?thesis by auto
    qed
  qed simp
  have "\<forall>(i, k) \<in> set (db_api_keys (key_call c db)). ak_organization_id k = org \<longrightarrow> ak_permissions k \<subseteq> P"
  proof safe
    fix i k p
    assume k: "(i, k) \<in> set (db_api_keys (key_call c db))" "p \<in> ak_permissions k" "org = ak_organization_id k"
    have ok: "keys_ok (key_call c db)" using effect by (simp add: key_effect_def)
    show "p \<in> P"
    proof (cases "dget (db_api_keys db) i")
      case None
      have now: "dget (db_api_keys (key_call c db)) i = Some k" using k(1) keys_row [OF ok] by simp
      obtain pr :: principal where "?creator pr" "ak_organization_id k = pr_organization_id pr" "ak_permissions k \<subseteq> pr_permissions pr"
        using key_effect_new [OF effect None now] by blast
      with k(2,3) show ?thesis by auto
    next
      case (Some k0)
      with key_effect_old [OF effect Some] k(1) keys_row [OF ok] have "aged k0 k" by auto
      with k(2,3) Cons.prems(4) keys_row [OF Cons.prems(1)] Some show ?thesis by (auto simp: aged_def)
    qed
  qed
  moreover have "keys_ok (key_call c db)" using effect by (simp add: key_effect_def)
  ultimately show ?case using Cons by (simp add: key_run_def)
qed

section \<open>From issue to revocation\<close>

lemma run_effect:
  assumes "keys_ok db" "key_ids_new calls db" "\<forall>c \<in> set calls. \<forall>env i. snd c = Revoke_key env i \<longrightarrow> revokes i"
  shows "key_effect (\<lambda>_. True) revokes db (key_run calls db)"
  using assms
proof (induction calls arbitrary: db)
  case Nil
  then show ?case by (simp add: key_run_def key_effect_refl)
next
  case (Cons c calls)
  have step: "key_effect (\<lambda>_. True) revokes db (key_call c db)"
    using Cons.prems by (intro key_call_effect) simp_all
  then have "keys_ok (key_call c db)" by (simp add: key_effect_def)
  with Cons have "key_effect (\<lambda>_. True) revokes (key_call c db) (key_run calls (key_call c db))" by simp
  with step show ?case by (simp add: key_run_def key_effect_trans)
qed

lemma split_issued:
  assumes "\<forall>c \<in> set pfx. is_alnum c" "\<forall>c \<in> set secret. is_alnum c"
  shows "\<exists>sep. split_api_key (''ak_'' @ pfx @ ''.'' @ secret) = (pfx, sep, secret)"
proof -
  have "is_alnum c \<Longrightarrow> \<not> is_space c \<and> c \<noteq> CHR ''.''" for c
    by (auto simp: is_alnum_def is_digit_def is_lower_alpha_def is_upper_alpha_def is_space_def Let_def)
  moreover have "\<not> is_space (CHR ''a'')" "\<not> is_space (CHR ''k'')" "\<not> is_space (CHR ''_'')" "\<not> is_space (CHR ''.'')"
    by code_simp+
  ultimately have "strip (''ak_'' @ pfx @ ''.'' @ secret) = ''ak_'' @ pfx @ ''.'' @ secret" "\<forall>c \<in> set pfx. c \<noteq> CHR ''.''"
    using assms by (auto intro!: strip_no_space)
  moreover from this(2) have "takeWhile (\<lambda>d. d \<noteq> CHR ''.'') (pfx @ CHR ''.'' # secret) = pfx"
    "dropWhile (\<lambda>d. d \<noteq> CHR ''.'') (pfx @ CHR ''.'' # secret) = CHR ''.'' # secret" by simp_all
  ultimately show ?thesis by (simp add: split_api_key_def startswith_def partition_char_def)
qed

lemma by_prefix:
  assumes "keys_ok db" "dget (db_api_keys db) i = Some k"
  shows "api_keys_get_by_prefix db (ak_prefix k) = Some k"
proof -
  have k: "(i, k) \<in> set (db_api_keys db)" using assms keys_row by blast
  then obtain p where p: "find (\<lambda>(_, a). ak_prefix a = ak_prefix k) (db_api_keys db) = Some p"
    by (cases "find (\<lambda>(_, a). ak_prefix a = ak_prefix k) (db_api_keys db)") (auto simp: find_None_iff)
  from find_holds [OF p] have "p \<in> set (db_api_keys db)" "ak_prefix (snd p) = ak_prefix k" by auto
  moreover have "inj_on (\<lambda>(i, k). ak_prefix k) (set (db_api_keys db))"
    using assms(1) by (simp add: keys_ok_def distinct_map)
  ultimately have "p = (i, k)"
    using k by (intro inj_onD [of "\<lambda>(i, k). ak_prefix k" _ p "(i, k)"]) (simp_all add: case_prod_unfold)
  with p show ?thesis by (simp add: api_keys_get_by_prefix_def)
qed

text \<open>The principal of a key.\<close>

definition key_principal :: "api_key \<Rightarrow> request_context \<Rightarrow> principal" where
  "key_principal k ctx =
     \<lparr>pr_kind = ACTOR_API_KEY, pr_organization_id = ak_organization_id k, pr_permissions = ak_permissions k,
      pr_user_id = None, pr_session_id = None, pr_api_key_id = Some (ak_id k), pr_agent_id = None,
      pr_membership_id = None, pr_label = ''api-key:'' @ ak_name k, pr_mfa_satisfied = True,
      pr_is_platform_admin = False, pr_is_owner = False, pr_context = ctx\<rparr>"

lemma resolve_issued:
  assumes "keys_ok db" "dget (db_api_keys db) i = Some k" "api_key_prefix (ak_prefix k) = Inr (ak_prefix k)"
    "\<forall>c \<in> set secret. is_alnum c" "ad_verify deps secret (ak_secret_hash k)"
  shows "fst (resolve_api_key_principal deps env (''ak_'' @ ak_prefix k @ ''.'' @ secret) ctx db) =
    (if api_key_active (ce_now env) k \<and> (\<exists>o1. organizations_get db (ak_organization_id k) = Some o1 \<and> organization_active o1)
     then Inr (key_principal k ctx) else Inl invalid_credentials)"
proof -
  have "\<forall>c \<in> set (ak_prefix k). is_alnum c" using assms(3) by (auto simp: api_key_prefix_def split: if_splits)
  then obtain sep where "split_api_key (''ak_'' @ ak_prefix k @ ''.'' @ secret) = (ak_prefix k, sep, secret)"
    using split_issued assms(4) by blast
  then show ?thesis
    using assms by_prefix [OF assms(1,2)]
    by (simp add: resolve_api_key_principal_def key_principal_def split: option.splits)
qed

lemma keys_of_alphabet: "c \<in> set KEY_ALPHABET \<Longrightarrow> is_alnum c"
proof -
  have "list_all is_alnum KEY_ALPHABET" by code_simp
  then show "c \<in> set KEY_ALPHABET \<Longrightarrow> is_alnum c" by (simp add: list_all_iff)
qed

lemma keys_id: "keys_ok db \<Longrightarrow> dget (db_api_keys db) i = Some k \<Longrightarrow> ak_id k = i"
  using keys_row [of db i k] by (auto simp: keys_ok_def)

lemma key_ids_new_append:
  "key_ids_new (xs @ ys) d \<longleftrightarrow> key_ids_new xs d \<and> key_ids_new ys (key_run xs d)"
  by (induction xs arbitrary: d) (auto simp: key_run_def)

lemma revoked_for_good:
  assumes "keys_ok db" "fst (revoke_api_key e pr i db) = Inr ()" "key_ids_new calls (snd (revoke_api_key e pr i db))"
  shows "\<exists>k. dget (db_api_keys (key_run calls (snd (revoke_api_key e pr i db)))) i = Some k \<and> ak_revoked_at k \<noteq> None"
proof -
  let ?db = "snd (revoke_api_key e pr i db)"
  obtain r where "revoke_api_key e pr i db = (Inr (), r)" using assms(2) by (cases "revoke_api_key e pr i db") auto
  with revoke_Inr [OF this] obtain k rows where k: "dget (db_api_keys db) i = Some k"
    "?db = (api_keys_update (api_key_revoke (ce_now e) k) db)\<lparr>db_audit := rows\<rparr>" by auto
  have "ak_id k = i" by (rule keys_id [OF assms(1) k(1)])
  then have revoke: "ak_id (api_key_revoke (ce_now e) k) = i" "ak_revoked_at (api_key_revoke (ce_now e) k) \<noteq> None" "ak_id k = i"
    by (auto simp: api_key_revoke_def)
  obtain k1 where k1: "dget (db_api_keys ?db) i = Some k1" "ak_revoked_at k1 \<noteq> None"
    using revoke k(1) unfolding k(2) by (simp add: api_keys_update_def api_keys_put_def dget_dput)
  have ok: "keys_ok ?db" using revoke_effect [OF assms(1), of "\<lambda>_. True"] by (simp add: key_effect_def)
  have "key_effect (\<lambda>_. True) (\<lambda>_. True) ?db (key_run calls ?db)" by (rule run_effect [OF ok assms(3)]) simp
  with key_effect_old [OF this k1(1)] k1(2) show ?thesis by (auto simp: aged_def)
qed

lemma created_row:
  assumes "keys_ok db" "dget (db_api_keys db) (ce_fresh env 0) = None"
    and "create_api_key deps env choice pr name permissions ttl db = (Inr issued, db1)"
  obtains k where "keys_ok db1" "db_organizations db1 = db_organizations db"
    "dget (db_api_keys db1) (ce_fresh env 0) = Some k" "parse_permissions permissions = Inr (ak_permissions k)"
    "ak_organization_id k = pr_organization_id pr" "ak_expires_at k = map_option (\<lambda>n. ce_now env + days n) ttl"
    "ak_revoked_at k = None" "ak_secret_hash k = ad_hash deps (draw choice PREFIX_LENGTH SECRET_LENGTH)"
    "api_key_prefix (ak_prefix k) = Inr (ak_prefix k)"
    "ki_plaintext_key issued = ''ak_'' @ ak_prefix k @ ''.'' @ draw choice PREFIX_LENGTH SECRET_LENGTH"
proof -
  from create_Inr [OF assms(3)] obtain parsed pfx k0 db0 rows where parsed: "parse_permissions permissions = Inr parsed"
    "parsed \<subseteq> pr_permissions pr" and pfx: "api_key_prefix (draw choice 0 PREFIX_LENGTH) = Inr pfx"
    and k0: "new_api_key (ce_fresh env 0) (pr_organization_id pr) name pfx (ad_hash deps (draw choice PREFIX_LENGTH SECRET_LENGTH))
         parsed (pr_user_id pr) (map_option (\<lambda>n. ce_now env + days n) ttl) (Some (ce_now env)) = Inr k0"
    and add: "api_keys_add (ce_db_now env) k0 db = Inr db0" and db1: "db1 = db0\<lparr>db_audit := rows\<rparr>"
    and issued: "ki_plaintext_key issued = ''ak_'' @ pfx @ ''.'' @ draw choice PREFIX_LENGTH SECRET_LENGTH"
    by (metis key_issued.select_convs(2))
  from k0 have f: "ak_id k0 = ce_fresh env 0" "ak_organization_id k0 = pr_organization_id pr" "ak_permissions k0 = parsed"
    "ak_prefix k0 = pfx" "ak_secret_hash k0 = ad_hash deps (draw choice PREFIX_LENGTH SECRET_LENGTH)"
    "ak_expires_at k0 = map_option (\<lambda>n. ce_now env + days n) ttl" "ak_revoked_at k0 = None"
    by (auto simp: new_api_key_def split: if_splits)
  have "key_effect (\<lambda>_. True) (\<lambda>_. False) db db0"
    "dget (db_api_keys db0) (ce_fresh env 0) = Some (k0\<lparr>ak_created_at := Some (ce_db_now env)\<rparr>)"
    using add_effect [OF assms(1) add, of "\<lambda>_. True" pr] assms(2) f parsed(2) by auto
  moreover have "api_key_prefix pfx = Inr pfx" using pfx by (auto simp: api_key_prefix_def split: if_splits)
  ultimately show thesis
    using f parsed(1) issued
    by (intro that [of "k0\<lparr>ak_created_at := Some (ce_db_now env)\<rparr>"]) (auto simp: db1 key_effect_def keys_ok_def)
qed

text \<open>
  C27. The plaintext key that creating a key returns works from then on: after any further requests
  of any callers it resolves to a principal of the creator's organization with exactly the requested
  permissions, as long as the key has neither expired nor been revoked and the organization is
  active, and is refused otherwise. Only a request to revoke it revokes it, and once such a request
  has succeeded the key is refused whatever follows. (The hash of a secret verifies it, and the
  characters are drawn from the alphabet.)
\<close>

theorem issued_api_key_works_until_revoked:
  assumes "keys_ok db" "dget (db_api_keys db) (ce_fresh env 0) = None"
    and "create_api_key deps env choice pr name permissions ttl db = (Inr issued, db1)"
    and "\<forall>s. ad_verify deps s (ad_hash deps s)" "\<forall>n. choice n \<in> set KEY_ALPHABET" "key_ids_new calls db1"
  shows "\<exists>k. dget (db_api_keys (key_run calls db1)) (ce_fresh env 0) = Some k
    \<and> parse_permissions permissions = Inr (ak_permissions k) \<and> ak_organization_id k = pr_organization_id pr
    \<and> ak_expires_at k = map_option (\<lambda>n. ce_now env + days n) ttl
    \<and> fst (resolve_api_key_principal deps env' (ki_plaintext_key issued) ctx (key_run calls db1)) =
        (if api_key_active (ce_now env') k
            \<and> (\<exists>o1. organizations_get db (pr_organization_id pr) = Some o1 \<and> organization_active o1)
         then Inr (key_principal k ctx) else Inl invalid_credentials)
    \<and> ((\<forall>c \<in> set calls. \<forall>e. snd c \<noteq> Revoke_key e (ce_fresh env 0)) \<longrightarrow> ak_revoked_at k = None)
    \<and> (\<forall>before e remover later. calls = before @ (Member remover, Revoke_key e (ce_fresh env 0)) # later
          \<longrightarrow> fst (revoke_api_key e remover (ce_fresh env 0) (key_run before db1)) = Inr ()
          \<longrightarrow> \<not> api_key_active (ce_now env') k)"
proof -
  let ?i = "ce_fresh env 0" and ?db = "key_run calls db1" and ?secret = "draw choice PREFIX_LENGTH SECRET_LENGTH"
  obtain k1 where ok1: "keys_ok db1" "db_organizations db1 = db_organizations db" and row1: "dget (db_api_keys db1) ?i = Some k1"
    and k1: "parse_permissions permissions = Inr (ak_permissions k1)" "ak_organization_id k1 = pr_organization_id pr"
      "ak_expires_at k1 = map_option (\<lambda>n. ce_now env + days n) ttl" "ak_revoked_at k1 = None"
      "ak_secret_hash k1 = ad_hash deps ?secret" "api_key_prefix (ak_prefix k1) = Inr (ak_prefix k1)"
      "ki_plaintext_key issued = ''ak_'' @ ak_prefix k1 @ ''.'' @ ?secret"
    using created_row [OF assms(1-3)] by metis
  let ?revokes = "\<lambda>i. \<exists>c \<in> set calls. \<exists>e. snd c = Revoke_key e i"
  have run: "key_effect (\<lambda>_. True) ?revokes db1 ?db" by (rule run_effect [OF ok1(1) assms(6)]) blast
  obtain k where k: "dget (db_api_keys ?db) ?i = Some k" "aged k1 k" "?revokes ?i \<or> ak_revoked_at k = ak_revoked_at k1"
    using key_effect_old [OF run row1] by blast
  have "\<forall>c \<in> set ?secret. is_alnum c" using assms(5) keys_of_alphabet by (auto simp: draw_def)
  moreover have "organizations_get ?db o1 = organizations_get db o1" for o1
    using run ok1(2) by (simp add: key_effect_def organizations_get_def)
  ultimately have resolve: "fst (resolve_api_key_principal deps env' (ki_plaintext_key issued) ctx ?db) =
        (if api_key_active (ce_now env') k
            \<and> (\<exists>o1. organizations_get db (pr_organization_id pr) = Some o1 \<and> organization_active o1)
         then Inr (key_principal k ctx) else Inl invalid_credentials)"
    using resolve_issued [of ?db ?i k ?secret deps env' ctx] run k(1,2) k1 assms(4) by (simp add: key_effect_def aged_def)
  have revoked: "\<not> api_key_active (ce_now env') k" if calls: "calls = before @ (Member remover, Revoke_key e ?i) # later"
    and gone: "fst (revoke_api_key e remover ?i (key_run before db1)) = Inr ()" for before e remover later
  proof -
    let ?dba = "key_run before db1"
    have "?db = key_run later (snd (revoke_api_key e remover ?i ?dba))" by (simp add: calls key_run_def key_call_def)
    moreover have new: "key_ids_new before db1" "key_ids_new later (snd (revoke_api_key e remover ?i ?dba))"
      using assms(6) by (simp_all add: calls key_ids_new_append key_call_def)
    have "keys_ok ?dba" using run_effect [OF ok1(1) new(1), of "\<lambda>_. True"] by (simp add: key_effect_def)
    ultimately show ?thesis using revoked_for_good [OF _ gone new(2)] k(1) by (auto simp: api_key_active_def)
  qed
  show ?thesis
    using k k1 resolve revoked by (intro exI [of _ k]) (auto simp: aged_def)
qed

section \<open>Samples\<close>

text \<open>A hash that marks the secret it was given, and characters drawn in the order of the alphabet.\<close>

definition key_deps :: auth_deps where
  "key_deps = sample_deps\<lparr>ad_verify := (\<lambda>s h. h = ''#'' @ s), ad_hash := (\<lambda>s. ''#'' @ s)\<rparr>"

definition key_choice :: "nat \<Rightarrow> char" where "key_choice n = KEY_ALPHABET ! (n mod 62)"

definition key_db :: control_db where
  "key_db = sample_db\<lparr>db_organizations := [(''o1'',
     \<lparr>og_id = ''o1'', og_name = ''Acme'', og_slug = ''acme'', og_status = ORG_ACTIVE, og_settings = [],
      og_deletion_scheduled_at = None\<rparr>)]\<rparr>"

lemma key_db_ok: "keys_ok key_db" "db_api_keys key_db = []"
  by (simp_all add: keys_ok_def key_db_def sample_db_def empty_db_def)

lemma key_choice_ok: "key_choice n \<in> set KEY_ALPHABET"
proof -
  have "length KEY_ALPHABET = 62" by code_simp
  then show ?thesis by (simp add: key_choice_def)
qed

theorem issued_api_key_works_until_revoked_witness:
  "\<exists>issued db1 k. create_api_key key_deps (sample_control_env ''x'') key_choice sample_admin ''ci'' [''settings:write''] (Some 30) key_db
       = (Inr issued, db1)
    \<and> fst (resolve_api_key_principal key_deps (sample_control_env ''x'') (ki_plaintext_key issued) empty_context db1)
       = Inr (key_principal k empty_context) \<and> ak_permissions k = {SETTINGS_WRITE}"
proof -
  let ?run = "create_api_key key_deps (sample_control_env ''x'') key_choice sample_admin ''ci'' [''settings:write''] (Some 30) key_db"
  have "case fst ?run of Inr issued \<Rightarrow> True | Inl e \<Rightarrow> False" by code_simp
  then obtain issued db1 where run: "?run = (Inr issued, db1)" by (cases ?run) (auto split: sum.splits)
  have "pr_organization_id sample_admin = ''o1''" "parse_permissions [''settings:write''] = Inr {SETTINGS_WRITE}" by code_simp+
  moreover have "\<exists>o1. organizations_get key_db ''o1'' = Some o1 \<and> organization_active o1"
    by (simp add: organizations_get_def key_db_def dget_def organization_active_def)
  moreover have "\<forall>s. ad_verify key_deps s (ad_hash key_deps s)" by (simp add: key_deps_def)
  moreover have "dget (db_api_keys key_db) (ce_fresh (sample_control_env ''x'') 0) = None"
    by (simp add: key_db_ok(2) dget_def)
  ultimately obtain k where "ak_permissions k = {SETTINGS_WRITE}" "ak_expires_at k = Some (ce_now (sample_control_env ''x'') + days 30)"
    "ak_revoked_at k = None"
    "fst (resolve_api_key_principal key_deps (sample_control_env ''x'') (ki_plaintext_key issued) empty_context db1)
       = (if api_key_active (ce_now (sample_control_env ''x'')) k then Inr (key_principal k empty_context) else Inl invalid_credentials)"
    using issued_api_key_works_until_revoked [OF key_db_ok(1) _ run, of "[]" "sample_control_env ''x''" empty_context]
      key_choice_ok by (fastforce simp: key_run_def)
  with run show ?thesis by (intro exI [of _ issued] exI [of _ db1] exI [of _ k]) (simp add: api_key_active_def days_def seconds_def)
qed

text \<open>The holder of a key that expires next day creates a key that never expires.\<close>

definition minting_calls :: "(key_caller \<times> key_request) list" where
  "minting_calls =
     [(Member sample_admin, Create_key key_deps (sample_control_env ''x'') key_choice ''ci'' [''settings:write''] (Some 1)),
      (Holder key_deps (sample_control_env ''y'') (''ak_'' @ draw key_choice 0 12 @ ''.'' @ draw key_choice 12 43) empty_context,
       Create_key key_deps (sample_control_env ''y'') (\<lambda>n. key_choice (n + 1)) ''forever'' [''settings:write''] None)]"

lemma expiring_key_creates_lasting_key:
  "map (\<lambda>(i, k). (ak_name k, ak_expires_at k)) (db_api_keys (key_run minting_calls key_db))
     = [(''ci'', Some (5 + days 1)), (''forever'', None)]"
  by code_simp

theorem api_key_chain_gains_nothing_witness:
  "(\<Union>(i, k) \<in> {r \<in> set (db_api_keys (key_run minting_calls key_db)). ak_organization_id (snd r) = ''o1''}. ak_permissions k)
     \<subseteq> pr_permissions sample_admin"
proof -
  have "dget (db_api_keys (key_call (hd minting_calls) key_db)) ''y'' = None" by code_simp
  then have "key_ids_new minting_calls key_db"
    by (simp add: minting_calls_def key_db_ok(2) sample_control_env_def) (simp add: dget_def)
  moreover have "\<forall>(caller, req) \<in> set minting_calls. \<forall>pr. caller = Member pr \<longrightarrow> pr_organization_id pr = ''o1''
      \<longrightarrow> pr_permissions pr \<subseteq> pr_permissions sample_admin" by (auto simp: minting_calls_def)
  ultimately have "\<forall>(i, k) \<in> set (db_api_keys (key_run minting_calls key_db)).
      ak_organization_id k = ''o1'' \<longrightarrow> ak_permissions k \<subseteq> pr_permissions sample_admin"
    by (intro api_key_chain_gains_nothing [OF key_db_ok(1)]) (simp_all add: key_db_ok(2))
  then show ?thesis by auto
qed

end
