(* ===== verification/Mfa.thy ===== *)
theory Mfa
  imports ApiKeys
begin

text \<open>
  Enrolling, confirming and disabling a second factor (\<open>application/mfa.py\<close>) with the check of
  \<open>infrastructure/security/totp.py\<close>, and what holds of the stored factors: a user who must present
  one has exactly one confirmed authenticator, and every recovery code works once.
\<close>

section \<open>Operations\<close>

text \<open>\<open>PyOtpTotpService.verify\<close>; \<open>otp\<close> is the comparison of \<open>pyotp\<close> with its window.\<close>

definition totp_verify :: "nat \<Rightarrow> (str \<Rightarrow> str \<Rightarrow> datetime \<Rightarrow> bool) \<Rightarrow> str \<Rightarrow> str \<Rightarrow> datetime \<Rightarrow> bool" where
  "totp_verify digits otp secret code now =
     (let candidate = replace_char (CHR '' '') [] (strip code) in
      if candidate = [] \<or> \<not> (\<forall>c \<in> set candidate. is_digit c) \<or> length candidate \<noteq> digits then False
      else otp secret candidate now)"

text \<open>What the operations are built with, beside the dependencies of sign-in.\<close>

record mfa_deps =
  md_auth :: auth_deps
  md_encrypt :: "str \<Rightarrow> str"
  md_generated_secret :: str
  md_provisioning_uri :: "str \<Rightarrow> str \<Rightarrow> str \<Rightarrow> str"
  md_policy :: mfa_policy
  md_issuer :: str

definition RECOVERY_ALPHABET :: str where
  "RECOVERY_ALPHABET = ''ABCDEFGHIJKLMNOPQRSTUVWXYZ0123456789''"

definition generate_recovery_code :: "(nat \<Rightarrow> char) \<Rightarrow> nat \<Rightarrow> str" where
  "generate_recovery_code choice start =
     (let raw = draw choice start 10 in take 5 raw @ ''-'' @ drop 5 raw)"

record mfa_enrolment =
  en_secret :: str
  en_provisioning_uri :: str
  en_recovery_codes :: "str list"

definition user_of :: "str \<Rightarrow> principal \<Rightarrow> control_exn + uuid" where
  "user_of verb pr =
     (case pr_user_id pr of None \<Rightarrow> Inl (Domain (InvalidStateError (''Only a user principal can '' @ verb @ '' a second factor.'')))
      | Some u \<Rightarrow> Inr u)"

text \<open>The user, once the password is checked again.\<close>

definition reauthenticated :: "auth_deps \<Rightarrow> uuid \<Rightarrow> str \<Rightarrow> control_db \<Rightarrow> control_exn + user" where
  "reauthenticated deps i password db =
     (case users_get db i of None \<Rightarrow> Inl (Domain (NotFoundError ''User''))
      | Some u \<Rightarrow> (case us_password_hash u of None \<Rightarrow> Inl (Domain (NotFoundError ''User''))
        | Some h \<Rightarrow> if ad_verify deps password h then Inr u
                    else Inl (Domain (AuthenticationError (Some ''The password is incorrect.'')))))"

text \<open>The rows of an enrolment: the unconfirmed authenticator, and a hash per recovery code.\<close>

definition enrolment_rows :: "mfa_deps \<Rightarrow> (nat \<Rightarrow> uuid) \<Rightarrow> uuid \<Rightarrow> str list \<Rightarrow> mfa_credential list" where
  "enrolment_rows md fresh i codes =
     \<lparr>mf_id = fresh 0, mf_user_id = i, mf_kind = TOTP, mf_secret_encrypted = md_encrypt md (md_generated_secret md),
      mf_confirmed = False, mf_consumed_at = None, mf_last_used_at = None\<rparr>
     # map (\<lambda>(k, code). \<lparr>mf_id = fresh (Suc k), mf_user_id = i, mf_kind = RECOVERY_CODE,
          mf_secret_encrypted = ad_hash (md_auth md) (normalize_recovery_code code),
          mf_confirmed = False, mf_consumed_at = None, mf_last_used_at = None\<rparr>) (zip [0 ..< length codes] codes)"

definition enrol_mfa ::
    "mfa_deps \<Rightarrow> control_env \<Rightarrow> (nat \<Rightarrow> char) \<Rightarrow> principal \<Rightarrow> str \<Rightarrow> control_db \<Rightarrow> mfa_enrolment outcome" where
  "enrol_mfa md env choice pr password db = in_transaction db
     (res_bind (user_of ''enrol'' pr) (\<lambda>i.
      res_bind (reauthenticated (md_auth md) i password db) (\<lambda>u.
      res_bind (dom_res (raise_if (us_mfa_enabled u) (InvalidStateError
         ''Multi-factor authentication is already enabled. Disable it first to re-enrol.''))) (\<lambda>_.
      let codes = map (\<lambda>k. generate_recovery_code choice (10 * k)) [0 ..< mp_recovery_code_count (md_policy md)];
          secret = md_generated_secret md
      in Inr (\<lparr>en_secret = secret, en_provisioning_uri = md_provisioning_uri md secret (us_email u) (md_issuer md),
               en_recovery_codes = codes\<rparr>,
              fold mfa_put (enrolment_rows md (ce_fresh env) i codes) (mfa_delete_for_user i db))))))"

definition confirm_mfa :: "mfa_deps \<Rightarrow> control_env \<Rightarrow> principal \<Rightarrow> str \<Rightarrow> control_db \<Rightarrow> unit outcome" where
  "confirm_mfa md env pr code db = in_transaction db
     (res_bind (user_of ''confirm'' pr) (\<lambda>i.
      res_bind (expect (NotFoundError ''User'') (users_get db i)) (\<lambda>u.
      res_bind (expect (InvalidStateError ''There is no pending enrolment to confirm.'') (get_totp db i (Some False))) (\<lambda>c.
      res_bind (dom_res (raise_if (\<not> ad_totp_verify (md_auth md) (ad_decrypt (md_auth md) (mf_secret_encrypted c)) (strip code) (ce_now env))
         InvalidMfaCodeError)) (\<lambda>_.
      res_bind (dom_res (mfa_confirm (ce_now env) c)) (\<lambda>c1.
      res_bind (record_audit env (pr_organization_id pr) (ce_fresh env 0) (audit_by pr ''auth.mfa_enrolled'' ''user'' i [])
         (users_put (user_enable_mfa u) (mfa_put c1 db))) (\<lambda>db1.
      Inr ((), db1))))))))"

definition disable_mfa :: "mfa_deps \<Rightarrow> control_env \<Rightarrow> principal \<Rightarrow> str \<Rightarrow> control_db \<Rightarrow> unit outcome" where
  "disable_mfa md env pr password db = in_transaction db
     (res_bind (user_of ''disable'' pr) (\<lambda>i.
      res_bind (reauthenticated (md_auth md) i password db) (\<lambda>u.
      res_bind (dom_res (raise_if (\<not> us_mfa_enabled u) (InvalidStateError ''Multi-factor authentication is not enabled.''))) (\<lambda>_.
      res_bind (dom_res (raise_if (mp_require_for_privileged_roles (md_policy md) \<and> is_privileged (pr_permissions pr))
         (InvalidStateError ''This organization requires multi-factor authentication for privileged roles.''))) (\<lambda>_.
      res_bind (record_audit env (pr_organization_id pr) (ce_fresh env 0) (audit_by pr ''auth.mfa_disabled'' ''user'' i [])
         (users_put (user_disable_mfa u) (mfa_delete_for_user i db))) (\<lambda>db1.
      Inr ((), db1)))))))"

section \<open>Who has to present a factor can\<close>

datatype mfa_call =
    Enrol mfa_deps control_env "nat \<Rightarrow> char" principal str
  | Confirm mfa_deps control_env principal str
  | Disable mfa_deps control_env principal str
  | Present auth_deps datetime uuid str

text \<open>What sign-in does with a code: a refused or failed check leaves the factors alone.\<close>

definition present_code :: "auth_deps \<Rightarrow> datetime \<Rightarrow> uuid \<Rightarrow> str \<Rightarrow> control_db \<Rightarrow> bool \<times> control_db" where
  "present_code deps now i code db = (case verify_code deps now i code db of Inl e \<Rightarrow> (False, db) | Inr r \<Rightarrow> r)"

fun mfa_perform :: "mfa_call \<Rightarrow> control_db \<Rightarrow> control_db" where
  "mfa_perform (Enrol md env choice pr password) db = snd (enrol_mfa md env choice pr password db)"
| "mfa_perform (Confirm md env pr code) db = snd (confirm_mfa md env pr code db)"
| "mfa_perform (Disable md env pr password) db = snd (disable_mfa md env pr password db)"
| "mfa_perform (Present deps now i code) db = snd (present_code deps now i code db)"

definition mfa_run :: "mfa_call list \<Rightarrow> control_db \<Rightarrow> control_db" where
  "mfa_run calls db = fold mfa_perform calls db"

text \<open>The ids an enrolment draws are new and differ.\<close>

definition factor_ids_new :: "mfa_deps \<Rightarrow> control_env \<Rightarrow> control_db \<Rightarrow> bool" where
  "factor_ids_new md env db \<longleftrightarrow>
     (let ids = map (ce_fresh env) [0 ..< Suc (mp_recovery_code_count (md_policy md))]
      in distinct ids \<and> set ids \<inter> fst ` set (db_mfa db) = {})"

fun mfa_ids_new :: "mfa_call list \<Rightarrow> control_db \<Rightarrow> bool" where
  "mfa_ids_new [] db = True"
| "mfa_ids_new (c # cs) db =
     ((case c of Enrol md env choice pr password \<Rightarrow> factor_ids_new md env db | _ \<Rightarrow> True) \<and> mfa_ids_new cs (mfa_perform c db))"

definition totps :: "control_db \<Rightarrow> uuid \<Rightarrow> mfa_credential list" where
  "totps db i = filter (\<lambda>c. mf_user_id c = i \<and> mf_kind c = TOTP) (map snd (db_mfa db))"

definition factors_ok :: "control_db \<Rightarrow> bool" where
  "factors_ok db \<longleftrightarrow> dict_ok (db_mfa db) \<and> (\<forall>(k, c) \<in> set (db_mfa db). mf_id c = k)
     \<and> (\<forall>(i, u) \<in> set (db_users db). us_id u = i)
     \<and> (\<forall>i u. users_get db i = Some u \<longrightarrow>
          length (totps db i) \<le> 1 \<and> (\<forall>c \<in> set (totps db i). mf_confirmed c = us_mfa_enabled u)
          \<and> (us_mfa_enabled u \<longrightarrow> totps db i \<noteq> []))"

lemma get_totp_find: "get_totp db i b = find (\<lambda>c. case b of None \<Rightarrow> True | Some v \<Rightarrow> mf_confirmed c = v) (totps db i)"
proof -
  have "map_option snd (find (\<lambda>(_, c). mf_user_id c = i \<and> mf_kind c = TOTP \<and> p c) d)
    = find p (filter (\<lambda>c. mf_user_id c = i \<and> mf_kind c = TOTP) (map snd d))" for p and d :: "(uuid, mfa_credential) dict"
    by (induction d) auto
  then show ?thesis by (simp add: get_totp_def totps_def)
qed

lemma fold_mfa_put:
  assumes "distinct (map mf_id cs)" "mf_id ` set cs \<inter> fst ` set (db_mfa db) = {}"
  shows "fold mfa_put cs db = db\<lparr>db_mfa := db_mfa db @ map (\<lambda>c. (mf_id c, c)) cs\<rparr>"
  using assms
proof (induction cs arbitrary: db)
  case (Cons c cs)
  have "dput (mf_id c) c (db_mfa db) = db_mfa db @ [(mf_id c, c)]"
    using Cons.prems(2) by (intro dput_new) auto
  then have put: "mfa_put c db = db\<lparr>db_mfa := db_mfa db @ [(mf_id c, c)]\<rparr>" by (simp add: mfa_put_def)
  show ?case using Cons.prems Cons.IH [of "mfa_put c db"] by (auto simp: put)
qed simp

lemma enrolment_ids:
  "map mf_id (enrolment_rows md fresh i codes) = map fresh [0 ..< Suc (length codes)]"
proof (rule nth_equalityI)
  fix k assume "k < length (map mf_id (enrolment_rows md fresh i codes))"
  then show "map mf_id (enrolment_rows md fresh i codes) ! k = map fresh [0 ..< Suc (length codes)] ! k"
    by (cases k) (auto simp: enrolment_rows_def simp del: upt_Suc)
qed (simp add: enrolment_rows_def)

lemma enrol_Inr:
  assumes "enrol_mfa md env choice pr password db = (Inr r, db')"
  obtains i u where "pr_user_id pr = Some i" "users_get db i = Some u" "\<not> us_mfa_enabled u"
    "en_recovery_codes r = map (\<lambda>k. generate_recovery_code choice (10 * k)) [0 ..< mp_recovery_code_count (md_policy md)]"
    "db' = fold mfa_put (enrolment_rows md (ce_fresh env) i (en_recovery_codes r)) (mfa_delete_for_user i db)"
  using assms
  by (auto simp: enrol_mfa_def user_of_def reauthenticated_def in_transaction_def Let_def res_bind_Inr
      split: sum.splits option.splits if_splits)

text \<open>The factors after an enrolment.\<close>

lemma enrolled_rows:
  assumes "factor_ids_new md env db" "length codes = mp_recovery_code_count (md_policy md)"
  shows "fold mfa_put (enrolment_rows md (ce_fresh env) i codes) (mfa_delete_for_user i db)
    = db\<lparr>db_mfa := filter (\<lambda>(_, c). mf_user_id c \<noteq> i) (db_mfa db)
                     @ map (\<lambda>c. (mf_id c, c)) (enrolment_rows md (ce_fresh env) i codes)\<rparr>"
proof -
  have ids: "map mf_id (enrolment_rows md (ce_fresh env) i codes)
      = map (ce_fresh env) [0 ..< Suc (mp_recovery_code_count (md_policy md))]"
    using enrolment_ids assms(2) by metis
  then have "distinct (map mf_id (enrolment_rows md (ce_fresh env) i codes))"
    "mf_id ` set (enrolment_rows md (ce_fresh env) i codes) \<inter> fst ` set (db_mfa db) = {}"
    using assms(1) by (simp_all add: factor_ids_new_def Let_def flip: set_map)
  then show ?thesis
    by (subst fold_mfa_put) (auto simp: mfa_delete_for_user_def)
qed

lemma totps_enrolled:
  assumes "db_mfa db' = filter (\<lambda>(_, c). mf_user_id c \<noteq> i) (db_mfa db) @ map (\<lambda>c. (mf_id c, c)) (enrolment_rows md fresh i codes)"
  shows "totps db' j = (if j = i then [hd (enrolment_rows md fresh i codes)] else totps db j)"
proof -
  have other: "filter (\<lambda>c. mf_user_id c = j \<and> mf_kind c = TOTP) (map snd (filter (\<lambda>(_, c). mf_user_id c \<noteq> i) d))
      = (if j = i then [] else filter (\<lambda>c. mf_user_id c = j \<and> mf_kind c = TOTP) (map snd d))" for d :: "(uuid, mfa_credential) dict"
    by (induction d) auto
  have "filter (\<lambda>c. mf_user_id c = j \<and> mf_kind c = TOTP) (enrolment_rows md fresh i codes)
      = (if j = i then [hd (enrolment_rows md fresh i codes)] else [])"
    by (auto simp: enrolment_rows_def filter_empty_conv)
  with other show ?thesis by (simp add: totps_def assms comp_def)
qed

lemma totps_deleted: "totps (mfa_delete_for_user i db) j = (if j = i then [] else totps db j)"
proof -
  have "filter (\<lambda>c. mf_user_id c = j \<and> mf_kind c = TOTP) (map snd (filter (\<lambda>(_, c). mf_user_id c \<noteq> i) d))
      = (if j = i then [] else filter (\<lambda>c. mf_user_id c = j \<and> mf_kind c = TOTP) (map snd d))" for d :: "(uuid, mfa_credential) dict"
    by (induction d) auto
  then show ?thesis by (simp add: totps_def mfa_delete_for_user_def)
qed

lemma totps_put:
  assumes "dict_ok (db_mfa db)" "\<forall>(k, c) \<in> set (db_mfa db). mf_id c = k" "(k, c) \<in> set (db_mfa db)"
    "mf_id c' = mf_id c" "mf_user_id c' = mf_user_id c" "mf_kind c' = mf_kind c"
  shows "totps (mfa_put c' db) j = map (\<lambda>d. if mf_id d = mf_id c then c' else d) (totps db j)"
proof -
  have k: "mf_id c' = k" and row: "dget (db_mfa db) k = Some c"
    using assms(1-4) by (auto simp: dget_def dict_ok_def)
  have d: "db_mfa (mfa_put c' db) = map (\<lambda>(i, d). (i, if i = k then c' else d)) (db_mfa db)"
    using dput_as_map [OF assms(1) row] by (simp add: mfa_put_def k)
  have same: "mf_user_id d = mf_user_id c \<and> mf_kind d = mf_kind c" if "(k, d) \<in> set (db_mfa db)" for d
    using that row assms(1) by (simp add: dget_def dict_ok_def)
  have "filter P (map snd (map (\<lambda>(i, d). (i, if i = k then c' else d)) xs))
      = map (\<lambda>d. if mf_id d = mf_id c then c' else d) (filter P (map snd xs))"
    if "set xs \<subseteq> set (db_mfa db)" "P = (\<lambda>d. mf_user_id d = j \<and> mf_kind d = TOTP)" for xs P
    using that
  proof (induction xs)
    case (Cons x xs)
    obtain l d where x: "x = (l, d)" "mf_id d = l" "(l, d) \<in> set (db_mfa db)" using Cons.prems assms(2) by (cases x) auto
    with Cons same [of d] assms(4-6) k show ?case by auto
  qed simp
  from this [of "db_mfa db"] show ?thesis unfolding totps_def d by simp
qed

lemma put_table:
  assumes "factors_ok db" "(k, c) \<in> set (db_mfa db)" "mf_id c' = mf_id c"
  shows "dict_ok (db_mfa (mfa_put c' db)) \<and> (\<forall>(k, c) \<in> set (db_mfa (mfa_put c' db)). mf_id c = k)"
  using assms set_dput_subset [of "mf_id c'" c' "db_mfa db"] by (auto simp: factors_ok_def mfa_put_def)

lemma find_totp:
  assumes "factors_ok db" "get_totp db i b = Some c"
  shows "(mf_id c, c) \<in> set (db_mfa db) \<and> mf_user_id c = i \<and> mf_kind c = TOTP \<and> (\<forall>v. b = Some v \<longrightarrow> mf_confirmed c = v)
    \<and> c \<in> set (totps db i)"
proof -
  have c: "c \<in> set (totps db i)" "case b of None \<Rightarrow> True | Some v \<Rightarrow> mf_confirmed c = v"
    using find_holds [of _ "totps db i" c] assms(2) by (auto simp: get_totp_find)
  with assms(1) show ?thesis by (auto simp: totps_def factors_ok_def split: option.splits)
qed

text \<open>Writing back a factor of the same kind and confirmation.\<close>

lemma factors_ok_put:
  assumes "factors_ok db" "(k, c) \<in> set (db_mfa db)" "mf_id c' = mf_id c" "mf_user_id c' = mf_user_id c"
    "mf_kind c' = mf_kind c" "mf_confirmed c' = mf_confirmed c"
  shows "factors_ok (mfa_put c' db)"
proof -
  have t: "totps (mfa_put c' db) j = map (\<lambda>d. if mf_id d = mf_id c then c' else d) (totps db j)" for j
    using assms by (intro totps_put) (auto simp: factors_ok_def)
  have same: "mf_confirmed d = mf_confirmed c" if "d \<in> set (totps db j)" "mf_id d = mf_id c" for d j
  proof -
    have "(mf_id c, d) \<in> set (db_mfa db)" "(mf_id c, c) \<in> set (db_mfa db)"
      using that assms(1,2) by (auto simp: totps_def factors_ok_def)
    moreover have "distinct (map fst (db_mfa db))" using assms(1) by (simp add: factors_ok_def dict_ok_def)
    ultimately have "d = c" using eq_key_imp_eq_value by metis
    then show ?thesis by simp
  qed
  have users: "users_get (mfa_put c' db) = users_get db" "db_users (mfa_put c' db) = db_users db"
    by (simp_all add: fun_eq_iff users_get_def mfa_put_def)
  have "(\<forall>d \<in> set (totps (mfa_put c' db) j). mf_confirmed d = b) \<longleftrightarrow> (\<forall>d \<in> set (totps db j). mf_confirmed d = b)" for j b
  proof -
    have "mf_confirmed (if mf_id d = mf_id c then c' else d) = mf_confirmed d" if "d \<in> set (totps db j)" for d
      using same [OF that] assms(6) by simp
    then show ?thesis by (simp add: t del: if_image_distrib)
  qed
  then show ?thesis
    using assms(1) put_table [OF assms(1-3)] unfolding factors_ok_def users by (simp add: t)
qed

lemma recovery_rows:
  assumes "factors_ok db" "c \<in> set (list_recovery_codes db i)"
  shows "(mf_id c, c) \<in> set (db_mfa db) \<and> mf_user_id c = i \<and> mf_kind c = RECOVERY_CODE \<and> mf_consumed_at c = None"
  using assms by (auto simp: list_recovery_codes_def factors_ok_def)

lemma try_codes:
  assumes "\<forall>c \<in> set cs. mf_kind c = RECOVERY_CODE \<and> mf_consumed_at c = None"
  shows "try_recovery_codes deps now cand cs db =
    (case find (\<lambda>c. ad_verify deps (normalize_recovery_code cand) (mf_secret_encrypted c)) cs of
       None \<Rightarrow> Inr (False, db)
     | Some c \<Rightarrow> Inr (True, mfa_put (c\<lparr>mf_consumed_at := Some now, mf_last_used_at := Some now\<rparr>) db))"
  using assms by (induction cs) (auto simp: mfa_usable_def mfa_consume_def dom_res_def)

lemma present_ok:
  assumes "factors_ok db"
  shows "factors_ok (snd (present_code deps now i code db))"
proof -
  have codes: "factors_ok (snd r)" if "try_recovery_codes deps now cand (list_recovery_codes db i) db = Inr r" for cand r
  proof -
    have "\<forall>c \<in> set (list_recovery_codes db i). mf_kind c = RECOVERY_CODE \<and> mf_consumed_at c = None"
      by (simp add: list_recovery_codes_def)
    note run = try_codes [OF this, of deps now cand db]
    show ?thesis
    proof (cases "find (\<lambda>c. ad_verify deps (normalize_recovery_code cand) (mf_secret_encrypted c)) (list_recovery_codes db i)")
      case None
      with run that assms show ?thesis by auto
    next
      case (Some c)
      then have "(mf_id c, c) \<in> set (db_mfa db)" using recovery_rows [OF assms] find_holds by fastforce
      from factors_ok_put [OF assms this] run that Some show ?thesis by auto
    qed
  qed
  show ?thesis
  proof (cases "verify_code deps now i code db")
    case (Inr r)
    have "factors_ok (mfa_put (c\<lparr>mf_last_used_at := Some now\<rparr>) db)" if "get_totp db i (Some True) = Some c" for c
      using factors_ok_put [OF assms conjunct1 [OF find_totp [OF assms that]]] by simp
    with Inr have "factors_ok (snd r)"
      using codes assms by (auto simp: verify_code_def Let_def split: if_splits option.splits)
    with Inr show ?thesis by (simp add: present_code_def)
  qed (simp add: present_code_def assms)
qed

lemma user_mfa_simps [simp]:
  "us_id (user_enable_mfa u) = us_id u" "us_mfa_enabled (user_enable_mfa u)"
  "us_id (user_disable_mfa u) = us_id u" "\<not> us_mfa_enabled (user_disable_mfa u)"
  by (simp_all add: user_enable_mfa_def user_disable_mfa_def)

text \<open>A change of one user's row together with the factors of that user.\<close>

lemma factors_ok_user:
  assumes "factors_ok db" "users_get db i = Some u" "us_id u' = i"
    and "db_users db' = dput i u' (db_users db)"
    and "dict_ok (db_mfa db')" "\<forall>(k, c) \<in> set (db_mfa db'). mf_id c = k"
    and "\<And>j. j \<noteq> i \<Longrightarrow> totps db' j = totps db j"
    and "length (totps db' i) \<le> 1" "\<forall>c \<in> set (totps db' i). mf_confirmed c = us_mfa_enabled u'"
      "us_mfa_enabled u' \<longrightarrow> totps db' i \<noteq> []"
  shows "factors_ok db'"
proof -
  have get: "users_get db' j = (if j = i then Some u' else users_get db j)" for j
    by (simp add: users_get_def assms(4) dget_dput)
  have "\<forall>(j, v) \<in> set (db_users db'). us_id v = j"
    using assms(1,3) set_dput_subset [of i u' "db_users db"] by (auto simp: assms(4) factors_ok_def)
  with assms show ?thesis unfolding factors_ok_def get by auto
qed

lemma user_id: "factors_ok db \<Longrightarrow> users_get db i = Some u \<Longrightarrow> us_id u = i"
  by (auto simp: factors_ok_def users_get_def dget_def dest!: map_of_SomeD)

lemma factors_ok_audit: "factors_ok (db\<lparr>db_audit := entries\<rparr>) = factors_ok db"
  by (simp add: factors_ok_def users_get_def totps_def)

lemma filter_table:
  "factors_ok db \<Longrightarrow> dict_ok (filter P (db_mfa db)) \<and> (\<forall>(k, c) \<in> set (filter P (db_mfa db)). mf_id c = k)"
  by (auto simp: factors_ok_def dict_ok_def distinct_map_filter)

lemma enrol_ok:
  assumes "factors_ok db" "factor_ids_new md env db"
  shows "factors_ok (snd (enrol_mfa md env choice pr password db))"
proof (cases "enrol_mfa md env choice pr password db")
  case (Pair r db')
  show ?thesis
  proof (cases r)
    case (Inl e)
    with Pair assms(1) show ?thesis by (auto simp: enrol_mfa_def in_transaction_def split: sum.splits)
  next
    case (Inr en)
    from enrol_Inr [OF Pair [unfolded Inr]] obtain i u where u: "users_get db i = Some u" "\<not> us_mfa_enabled u"
      and codes: "length (en_recovery_codes en) = mp_recovery_code_count (md_policy md)"
      and db': "db' = fold mfa_put (enrolment_rows md (ce_fresh env) i (en_recovery_codes en)) (mfa_delete_for_user i db)"
      by (metis (no_types, lifting) diff_zero length_map length_upt)
    let ?new = "enrolment_rows md (ce_fresh env) i (en_recovery_codes en)"
    have rows: "db' = db\<lparr>db_mfa := filter (\<lambda>(_, c). mf_user_id c \<noteq> i) (db_mfa db) @ map (\<lambda>c. (mf_id c, c)) ?new\<rparr>"
      unfolding db' by (rule enrolled_rows [OF assms(2) codes])
    have t: "totps db' j = (if j = i then [hd ?new] else totps db j)" for j
      by (rule totps_enrolled) (simp add: rows)
    have ids: "map mf_id ?new = map (ce_fresh env) [0 ..< Suc (mp_recovery_code_count (md_policy md))]"
      using enrolment_ids codes by metis
    have "distinct (map mf_id ?new)" "set (map mf_id ?new) \<inter> fst ` set (db_mfa db) = {}"
      using assms(2) unfolding ids factor_ids_new_def Let_def by (simp_all del: upt_Suc)
    moreover have "map fst (db_mfa db') = map fst (filter (\<lambda>(_, c). mf_user_id c \<noteq> i) (db_mfa db)) @ map mf_id ?new"
      by (simp add: rows comp_def)
    moreover have "distinct (map fst (filter (\<lambda>(_, c). mf_user_id c \<noteq> i) (db_mfa db)))"
      using filter_table [OF assms(1)] by (simp add: dict_ok_def)
    ultimately have "dict_ok (db_mfa db')" unfolding dict_ok_def by auto
    moreover have "\<forall>(k, c) \<in> set (db_mfa db'). mf_id c = k"
      using assms(1) by (auto simp: rows factors_ok_def)
    moreover have "users_get db' = users_get db" "db_users db' = db_users db" by (simp_all add: rows fun_eq_iff users_get_def)
    moreover have "\<not> mf_confirmed (hd ?new)" by (simp add: enrolment_rows_def)
    ultimately have "factors_ok db'"
      using assms(1) u unfolding factors_ok_def by (auto simp: t)
    with Pair show ?thesis by simp
  qed
qed

lemma confirm_ok:
  assumes "factors_ok db"
  shows "factors_ok (snd (confirm_mfa md env pr code db))"
  unfolding confirm_mfa_def
proof (rule in_transaction_rule [where P = factors_ok, OF assms], goal_cases)
  case (1 x db')
  then obtain i u c rows' where u: "users_get db i = Some u" and c: "get_totp db i (Some False) = Some c"
    and db': "db' = (users_put (user_enable_mfa u) (mfa_put (c\<lparr>mf_confirmed := True, mf_last_used_at := Some (ce_now env)\<rparr>) db))\<lparr>db_audit := rows'\<rparr>"
    by (auto simp: res_bind_Inr user_of_def mfa_confirm_def split: option.splits if_splits dest!: record_audit_Inr)
  let ?c1 = "c\<lparr>mf_confirmed := True, mf_last_used_at := Some (ce_now env)\<rparr>"
  note f = find_totp [OF assms c]
  have "length (totps db i) \<le> 1" "\<not> us_mfa_enabled u" using assms u f by (auto simp: factors_ok_def)
  with f have one: "totps db i = [c]" by (cases "totps db i") auto
  have t: "totps (mfa_put ?c1 db) j = map (\<lambda>d. if mf_id d = mf_id c then ?c1 else d) (totps db j)" for j
    using assms f by (intro totps_put) (auto simp: factors_ok_def)
  have other: "totps (mfa_put ?c1 db) j = totps db j" if "j \<noteq> i" for j
  proof -
    have "mf_id d \<noteq> mf_id c" if "d \<in> set (totps db j)" for d
    proof
      assume "mf_id d = mf_id c"
      with that assms f have "(mf_id c, d) \<in> set (db_mfa db)" by (auto simp: totps_def factors_ok_def)
      moreover have "distinct (map fst (db_mfa db))" using assms by (simp add: factors_ok_def dict_ok_def)
      ultimately have "d = c" using f eq_key_imp_eq_value by metis
      with that \<open>j \<noteq> i\<close> f show False by (auto simp: totps_def)
    qed
    then show ?thesis unfolding t by (intro map_idI) auto
  qed
  have id: "us_id u = i" by (rule user_id [OF assms u])
  have parts: "db_users (users_put (user_enable_mfa u) (mfa_put ?c1 db)) = dput i (user_enable_mfa u) (db_users db)"
    "db_mfa (users_put (user_enable_mfa u) (mfa_put ?c1 db)) = db_mfa (mfa_put ?c1 db)"
    by (simp_all add: users_put_def mfa_put_def id)
  then have same: "totps (users_put (user_enable_mfa u) (mfa_put ?c1 db)) j = totps (mfa_put ?c1 db) j" for j
    by (simp add: totps_def)
  have "factors_ok (users_put (user_enable_mfa u) (mfa_put ?c1 db))"
    using put_table [OF assms conjunct1 [OF f], of ?c1]
    by (intro factors_ok_user [OF assms u, of "user_enable_mfa u"])
      (simp_all add: parts same other id, simp_all add: t one)
  then show ?case by (simp add: db' factors_ok_audit)
qed

lemma disable_ok:
  assumes "factors_ok db"
  shows "factors_ok (snd (disable_mfa md env pr password db))"
  unfolding disable_mfa_def
proof (rule in_transaction_rule [where P = factors_ok, OF assms], goal_cases)
  case (1 x db')
  then obtain i u rows' where u: "users_get db i = Some u"
    and db': "db' = (users_put (user_disable_mfa u) (mfa_delete_for_user i db))\<lparr>db_audit := rows'\<rparr>"
    by (auto simp: res_bind_Inr user_of_def reauthenticated_def split: option.splits if_splits dest!: record_audit_Inr)
  have id: "us_id u = i" by (rule user_id [OF assms u])
  let ?db = "users_put (user_disable_mfa u) (mfa_delete_for_user i db)"
  have parts: "db_users ?db = dput i (user_disable_mfa u) (db_users db)" "db_mfa ?db = filter (\<lambda>(_, c). mf_user_id c \<noteq> i) (db_mfa db)"
    by (simp_all add: users_put_def mfa_delete_for_user_def id)
  then have t: "totps ?db j = (if j = i then [] else totps db j)" for j
    using totps_deleted [of i db j] by (simp add: totps_def mfa_delete_for_user_def)
  have "factors_ok ?db"
    using filter_table [OF assms, of "\<lambda>(_, c). mf_user_id c \<noteq> i"]
    by (intro factors_ok_user [OF assms u, of "user_disable_mfa u"])
      (simp_all add: parts t id)
  then show ?case by (simp add: db' factors_ok_audit)
qed

text \<open>
  C28. Over any sequence of enrolments, confirmations, deactivations and codes presented at sign-in,
  whatever succeeds or fails: a user who has to present a second factor has exactly one
  authenticator and it is confirmed, so the account can be used; and no other user has a confirmed
  one, so an abandoned enrolment is never asked for.
\<close>

theorem second_factor_is_consistent:
  assumes "factors_ok db" "mfa_ids_new calls db" "users_get (mfa_run calls db) i = Some u"
  shows "(us_mfa_enabled u \<longleftrightarrow> get_totp (mfa_run calls db) i (Some True) \<noteq> None)
    \<and> length (totps (mfa_run calls db) i) \<le> 1
    \<and> (us_mfa_enabled u \<longrightarrow> get_totp (mfa_run calls db) i (Some False) = None)"
proof -
  have "factors_ok (mfa_run calls db)"
    using assms(1,2)
  proof (induction calls arbitrary: db)
    case (Cons c calls)
    have "factors_ok (mfa_perform c db)"
      using Cons.prems enrol_ok confirm_ok disable_ok present_ok by (cases c) simp_all
    with Cons show ?case by (simp add: mfa_run_def)
  qed (simp add: mfa_run_def)
  with assms(3) have t: "length (totps (mfa_run calls db) i) \<le> 1"
    "\<forall>c \<in> set (totps (mfa_run calls db) i). mf_confirmed c = us_mfa_enabled u"
    "us_mfa_enabled u \<longrightarrow> totps (mfa_run calls db) i \<noteq> []"
    by (auto simp: factors_ok_def)
  then show ?thesis
    by (cases "totps (mfa_run calls db) i") (auto simp: get_totp_find)
qed

section \<open>Recovery codes\<close>

text \<open>The answers to codes a user presents one after another, each with its time.\<close>

fun present_all :: "auth_deps \<Rightarrow> uuid \<Rightarrow> (datetime \<times> str) list \<Rightarrow> control_db \<Rightarrow> bool list" where
  "present_all deps i [] db = []"
| "present_all deps i ((now, t) # ps) db =
     (let (b, db1) = present_code deps now i t db in b # present_all deps i ps db1)"

text \<open>What a presented text is compared as.\<close>

definition presented_as :: "str \<Rightarrow> str" where
  "presented_as t = normalize_recovery_code (mfa_candidate t)"

lemma consumed_list:
  assumes "factors_ok db" "c \<in> set (list_recovery_codes db i)"
  shows "list_recovery_codes (mfa_put (c\<lparr>mf_consumed_at := Some now, mf_last_used_at := Some now\<rparr>) db) i
    = filter (\<lambda>d. mf_id d \<noteq> mf_id c) (list_recovery_codes db i)"
proof -
  let ?c1 = "c\<lparr>mf_consumed_at := Some now, mf_last_used_at := Some now\<rparr>"
  let ?P = "\<lambda>d. mf_user_id d = i \<and> mf_kind d = RECOVERY_CODE \<and> mf_consumed_at d = None"
  note c = recovery_rows [OF assms]
  have ok: "dict_ok (db_mfa db)" and keyed: "\<forall>(k, d) \<in> set (db_mfa db). mf_id d = k"
    using assms(1) by (auto simp: factors_ok_def)
  have row: "dget (db_mfa db) (mf_id c) = Some c" using c ok by (auto simp: dget_def dict_ok_def)
  have d: "db_mfa (mfa_put ?c1 db) = map (\<lambda>(k, d). (k, if k = mf_id c then ?c1 else d)) (db_mfa db)"
    using dput_as_map [OF ok row] by (simp add: mfa_put_def)
  have "filter ?P (map snd (map (\<lambda>(k, d). (k, if k = mf_id c then ?c1 else d)) xs))
      = filter (\<lambda>d. mf_id d \<noteq> mf_id c) (filter ?P (map snd xs))" if "set xs \<subseteq> set (db_mfa db)" for xs
    using that keyed by (induction xs) auto
  from this [of "db_mfa db"] show ?thesis unfolding list_recovery_codes_def d by simp
qed

text \<open>One code that is not one of the authenticator.\<close>

lemma present_recovery:
  assumes "factors_ok db" "\<forall>p q. ad_verify deps p (ad_hash deps q) \<longleftrightarrow> p = q"
    and codes: "set (map mf_secret_encrypted (list_recovery_codes db i)) = ad_hash deps ` S"
      "distinct (map mf_secret_encrypted (list_recovery_codes db i))" "[] \<notin> S"
    and no_totp: "\<forall>s. \<not> ad_totp_verify deps s (mfa_candidate t) now"
  shows "\<exists>db'. present_code deps now i t db = (presented_as t \<in> S, db') \<and> factors_ok db'
    \<and> set (map mf_secret_encrypted (list_recovery_codes db' i)) = ad_hash deps ` (S - {presented_as t})
    \<and> distinct (map mf_secret_encrypted (list_recovery_codes db' i))"
proof -
  let ?cs = "list_recovery_codes db i" and ?n = "presented_as t"
  have inj: "ad_hash deps p = ad_hash deps q \<longleftrightarrow> p = q" for p q using assms(2) by metis
  have ok': "factors_ok (snd (present_code deps now i t db))" by (rule present_ok [OF assms(1)])
  show ?thesis
  proof (cases "mfa_candidate t = []")
    case True
    then have "?n = []" by (simp add: presented_as_def) code_simp
    with True assms(1) codes show ?thesis
      by (auto simp: present_code_def verify_code_def)
  next
    case False
    have "verify_code deps now i t db = try_recovery_codes deps now (mfa_candidate t) ?cs db"
      using False no_totp by (simp add: verify_code_def Let_def split: option.splits)
    also have "\<dots> = (case find (\<lambda>c. ad_verify deps ?n (mf_secret_encrypted c)) ?cs of None \<Rightarrow> Inr (False, db)
       | Some c \<Rightarrow> Inr (True, mfa_put (c\<lparr>mf_consumed_at := Some now, mf_last_used_at := Some now\<rparr>) db))"
      unfolding presented_as_def by (rule try_codes) (simp add: list_recovery_codes_def)
    finally have run: "verify_code deps now i t db = \<dots>" .
    have hashes: "\<exists>q \<in> S. mf_secret_encrypted c = ad_hash deps q" if "c \<in> set ?cs" for c
      using that codes(1) by auto
    show ?thesis
    proof (cases "find (\<lambda>c. ad_verify deps ?n (mf_secret_encrypted c)) ?cs")
      case None
      have "?n \<notin> S"
      proof
        assume "?n \<in> S"
        then have "ad_hash deps ?n \<in> set (map mf_secret_encrypted ?cs)" unfolding codes(1) by simp
        then obtain c where "c \<in> set ?cs" "mf_secret_encrypted c = ad_hash deps ?n" by auto
        with None assms(2) show False by (auto simp: find_None_iff)
      qed
      with run None assms(1) codes show ?thesis by (simp add: present_code_def)
    next
      case (Some c)
      then have c: "c \<in> set ?cs" "ad_verify deps ?n (mf_secret_encrypted c)" using find_holds by fastforce+
      from hashes [OF c(1)] obtain q where q: "q \<in> S" "mf_secret_encrypted c = ad_hash deps q" by blast
      with c(2) assms(2) have "?n = q" by simp
      with q have n: "?n \<in> S" "mf_secret_encrypted c = ad_hash deps ?n" by simp_all
      let ?db = "mfa_put (c\<lparr>mf_consumed_at := Some now, mf_last_used_at := Some now\<rparr>) db"
      have same: "mf_id d = mf_id c \<longleftrightarrow> mf_secret_encrypted d = ad_hash deps ?n" if "d \<in> set ?cs" for d
      proof
        assume "mf_id d = mf_id c"
        with recovery_rows [OF assms(1)] that c(1) have "(mf_id c, d) \<in> set (db_mfa db)" "(mf_id c, c) \<in> set (db_mfa db)"
          by metis+
        moreover have "distinct (map fst (db_mfa db))" using assms(1) by (simp add: factors_ok_def dict_ok_def)
        ultimately have "d = c" using eq_key_imp_eq_value by metis
        with n(2) show "mf_secret_encrypted d = ad_hash deps ?n" by simp
      next
        assume "mf_secret_encrypted d = ad_hash deps ?n"
        with n(2) codes(2) that c(1) have "d = c" by (auto simp: distinct_map inj_on_def)
        then show "mf_id d = mf_id c" by simp
      qed
      have rest: "list_recovery_codes ?db i = filter (\<lambda>d. mf_secret_encrypted d \<noteq> ad_hash deps ?n) ?cs"
        unfolding consumed_list [OF assms(1) c(1)] using same by (intro filter_cong) auto
      have "set (map mf_secret_encrypted (list_recovery_codes ?db i))
          = set (map mf_secret_encrypted ?cs) - {ad_hash deps ?n}"
        unfolding rest by auto
      then have "set (map mf_secret_encrypted (list_recovery_codes ?db i)) = ad_hash deps ` (S - {?n})"
        unfolding codes(1) using inj by auto
      moreover have "distinct (map mf_secret_encrypted (list_recovery_codes ?db i))"
        unfolding rest using codes(2) by (rule distinct_map_filter)
      ultimately show ?thesis using run Some n(1) ok' by (simp add: present_code_def)
    qed
  qed
qed

lemma present_all_spec:
  assumes "factors_ok db" "\<forall>p q. ad_verify deps p (ad_hash deps q) \<longleftrightarrow> p = q"
    "set (map mf_secret_encrypted (list_recovery_codes db i)) = ad_hash deps ` S"
    "distinct (map mf_secret_encrypted (list_recovery_codes db i))" "[] \<notin> S"
    "\<forall>(now, t) \<in> set ps. \<forall>s. \<not> ad_totp_verify deps s (mfa_candidate t) now"
  shows "length (present_all deps i ps db) = length ps \<and> (\<forall>k < length ps. present_all deps i ps db ! k
    \<longleftrightarrow> presented_as (snd (ps ! k)) \<in> S - (presented_as \<circ> snd) ` set (take k ps))"
  using assms
proof (induction ps arbitrary: db S)
  case (Cons p ps)
  obtain now t where p: "p = (now, t)" by (cases p)
  from Cons.prems(6) have "\<forall>s. \<not> ad_totp_verify deps s (mfa_candidate t) now" by (simp add: p)
  from present_recovery [OF Cons.prems(1-5) this] obtain db' where
    db': "present_code deps now i t db = (presented_as t \<in> S, db')" "factors_ok db'"
    "set (map mf_secret_encrypted (list_recovery_codes db' i)) = ad_hash deps ` (S - {presented_as t})"
    "distinct (map mf_secret_encrypted (list_recovery_codes db' i))" by blast
  have IH: "length (present_all deps i ps db') = length ps \<and> (\<forall>k < length ps. present_all deps i ps db' ! k
    \<longleftrightarrow> presented_as (snd (ps ! k)) \<in> (S - {presented_as t}) - (presented_as \<circ> snd) ` set (take k ps))"
    using Cons.prems(2,5,6) by (intro Cons.IH db') auto
  show ?case
  proof (intro conjI allI impI)
    fix k assume "k < length (p # ps)"
    with IH show "present_all deps i (p # ps) db ! k \<longleftrightarrow>
        presented_as (snd ((p # ps) ! k)) \<in> S - (presented_as \<circ> snd) ` set (take k (p # ps))"
      by (cases k) (auto simp: p db'(1))
  qed (use IH in \<open>simp add: p db'(1)\<close>)
qed simp

lemma recovery_char:
  assumes "c \<in> set RECOVERY_ALPHABET"
  shows "\<not> is_space c \<and> c \<noteq> CHR '' '' \<and> c \<noteq> CHR ''-'' \<and> upper_char c = c"
proof -
  have "list_all (\<lambda>c. \<not> is_space c \<and> c \<noteq> CHR '' '' \<and> c \<noteq> CHR ''-'' \<and> upper_char c = c) RECOVERY_ALPHABET"
    by code_simp
  with assms show ?thesis by (simp add: list_all_iff)
qed

lemma replace_char_none: "c \<notin> set s \<Longrightarrow> replace_char c new s = s"
  by (induction s) (auto simp: replace_char_def)

lemma normalize_generated:
  assumes "\<forall>n. choice n \<in> set RECOVERY_ALPHABET"
  shows "normalize_recovery_code (generate_recovery_code choice start) = draw choice start 10"
proof -
  let ?raw = "draw choice start 10" and ?code = "generate_recovery_code choice start"
  have raw: "\<forall>c \<in> set ?raw. \<not> is_space c \<and> c \<noteq> CHR '' '' \<and> c \<noteq> CHR ''-'' \<and> upper_char c = c"
    using assms recovery_char by (auto simp: draw_def)
  then have parts: "\<forall>c \<in> set (take 5 ?raw) \<union> set (drop 5 ?raw). \<not> is_space c \<and> c \<noteq> CHR '' '' \<and> c \<noteq> CHR ''-''"
    by (meson UnE in_set_dropD in_set_takeD)
  have "\<not> is_space (CHR ''-'')" by code_simp
  with parts have "strip ?code = ?code" by (intro strip_no_space) (auto simp: generate_recovery_code_def Let_def)
  moreover have "replace_char (CHR '' '') [] ?code = ?code"
    using parts by (intro replace_char_none) (auto simp: generate_recovery_code_def Let_def)
  moreover have "replace_char (CHR ''-'') [] ?code = ?raw"
  proof -
    have "replace_char (CHR ''-'') [] (take 5 ?raw) = take 5 ?raw" "replace_char (CHR ''-'') [] (drop 5 ?raw) = drop 5 ?raw"
      using parts by (auto intro!: replace_char_none)
    then show ?thesis by (simp add: generate_recovery_code_def Let_def) (simp add: replace_char_def)
  qed
  moreover have "upper ?raw = ?raw" using raw by (simp add: upper_def map_idI)
  ultimately show ?thesis by (simp add: normalize_recovery_code_def)
qed

lemma enrolled_codes:
  assumes "enrol_mfa md env choice pr password db = (Inr en, db1)" "factor_ids_new md env db" "pr_user_id pr = Some i"
  shows "map mf_secret_encrypted (list_recovery_codes db1 i)
    = map (\<lambda>c. ad_hash (md_auth md) (normalize_recovery_code c)) (en_recovery_codes en)"
proof -
  from enrol_Inr [OF assms(1)] assms(3) obtain u where
    codes: "length (en_recovery_codes en) = mp_recovery_code_count (md_policy md)"
    and db1: "db1 = fold mfa_put (enrolment_rows md (ce_fresh env) i (en_recovery_codes en)) (mfa_delete_for_user i db)"
    by (metis (no_types, lifting) diff_zero length_map length_upt option.inject)
  let ?P = "\<lambda>c. mf_user_id c = i \<and> mf_kind c = RECOVERY_CODE \<and> mf_consumed_at c = None"
  let ?new = "enrolment_rows md (ce_fresh env) i (en_recovery_codes en)"
  have other: "filter ?P (map snd (filter (\<lambda>(_, c). mf_user_id c \<noteq> i) d)) = []" for d :: "(uuid, mfa_credential) dict"
    by (induction d) auto
  have "filter ?P (h # t) = t" if "filter ?P t = t" "\<not> ?P h" for h t using that by simp
  moreover have "filter ?P (tl ?new) = tl ?new" by (auto simp: enrolment_rows_def filter_id_conv)
  moreover have "\<not> ?P (hd ?new)" by (simp add: enrolment_rows_def)
  ultimately have "filter ?P (hd ?new # tl ?new) = tl ?new" by blast
  moreover have "hd ?new # tl ?new = ?new" by (simp add: enrolment_rows_def)
  ultimately have new: "filter ?P ?new = tl ?new" by simp
  have "list_recovery_codes db1 i = tl ?new"
    using new other by (simp add: db1 enrolled_rows [OF assms(2) codes] list_recovery_codes_def comp_def)
  moreover have "map (\<lambda>x. f (snd x)) (zip [0 ..< length cs] cs) = map f cs" for f :: "str \<Rightarrow> str" and cs
    by (intro nth_equalityI) auto
  ultimately show ?thesis by (simp add: enrolment_rows_def comp_def case_prod_unfold)
qed

lemma confirm_keeps_codes:
  assumes "factors_ok db" "confirm_mfa md env pr code db = (Inr (), db')"
  shows "list_recovery_codes db' i = list_recovery_codes db i"
proof -
  from assms(2) obtain j u c rows' where c: "get_totp db j (Some False) = Some c"
    and db': "db' = (users_put (user_enable_mfa u) (mfa_put (c\<lparr>mf_confirmed := True, mf_last_used_at := Some (ce_now env)\<rparr>) db))\<lparr>db_audit := rows'\<rparr>"
    by (auto simp: confirm_mfa_def in_transaction_def res_bind_Inr user_of_def mfa_confirm_def
        split: sum.splits option.splits if_splits dest!: record_audit_Inr)
  let ?c1 = "c\<lparr>mf_confirmed := True, mf_last_used_at := Some (ce_now env)\<rparr>"
  let ?P = "\<lambda>d. mf_user_id d = i \<and> mf_kind d = RECOVERY_CODE \<and> mf_consumed_at d = None"
  note f = find_totp [OF assms(1) c]
  have ok: "dict_ok (db_mfa db)" using assms(1) by (simp add: factors_ok_def)
  then have row: "dget (db_mfa db) (mf_id c) = Some c" using f by (auto simp: dget_def dict_ok_def)
  have same: "d = c" if "(mf_id c, d) \<in> set (db_mfa db)" for d
    using that row ok by (simp add: dget_def dict_ok_def)
  have "filter ?P (map snd (map (\<lambda>(k, d). (k, if k = mf_id c then ?c1 else d)) xs)) = filter ?P (map snd xs)"
    if "set xs \<subseteq> set (db_mfa db)" for xs
    using that
  proof (induction xs)
    case (Cons x xs)
    obtain k d where x: "x = (k, d)" by (cases x)
    show ?case
    proof (cases "k = mf_id c")
      case True
      with Cons.prems x have "d = c" by (intro same) simp
      with Cons True f show ?thesis by (simp add: x)
    next
      case False
      with Cons show ?thesis by (simp add: x)
    qed
  qed simp
  from this [of "db_mfa db"] show ?thesis
    using dput_as_map [OF ok row] by (simp add: db' list_recovery_codes_def users_put_def mfa_put_def)
qed

text \<open>
  Recovery codes work exactly once: after an enrolment that was confirmed, whatever texts the
  user presents one after another that are not codes of the authenticator, a text is accepted
  exactly when, but for case, spaces and dashes, it is one of the codes that the enrolment returned
  and was not presented before. (A hash verifies the text it was made from and no other; the drawn
  codes differ; their characters come from the alphabet.)
\<close>

theorem recovery_codes_work_once:
  assumes "factors_ok db" "factor_ids_new md env db" "pr_user_id pr = Some i"
    and "enrol_mfa md env choice pr password db = (Inr en, db1)" "confirm_mfa md env' pr code db1 = (Inr (), db2)"
    and "\<forall>p q. ad_verify (md_auth md) p (ad_hash (md_auth md) q) \<longleftrightarrow> p = q"
    and "\<forall>n. choice n \<in> set RECOVERY_ALPHABET" "distinct (map normalize_recovery_code (en_recovery_codes en))"
    and "\<forall>(now, t) \<in> set ps. \<forall>s. \<not> ad_totp_verify (md_auth md) s (mfa_candidate t) now"
  shows "length (en_recovery_codes en) = mp_recovery_code_count (md_policy md)
    \<and> (\<forall>k < length ps. present_all (md_auth md) i ps db2 ! k \<longleftrightarrow>
         presented_as (snd (ps ! k)) \<in> normalize_recovery_code ` set (en_recovery_codes en)
           - (presented_as \<circ> snd) ` set (take k ps))"
proof -
  have "factors_ok db1" using enrol_ok [OF assms(1,2)] assms(4) by (metis snd_conv)
  moreover from confirm_ok [OF this] assms(5) have ok2: "factors_ok db2" by (metis snd_conv)
  ultimately have hashes: "map mf_secret_encrypted (list_recovery_codes db2 i)
    = map (ad_hash (md_auth md)) (map normalize_recovery_code (en_recovery_codes en))"
    using enrolled_codes [OF assms(4,2,3)] confirm_keeps_codes [OF _ assms(5)] by simp
  have codes: "en_recovery_codes en = map (\<lambda>k. generate_recovery_code choice (10 * k)) [0 ..< mp_recovery_code_count (md_policy md)]"
    using enrol_Inr [OF assms(4)] by metis
  have blank: "[] \<notin> normalize_recovery_code ` set (en_recovery_codes en)"
    using normalize_generated [OF assms(7)] by (auto simp: codes draw_def)
  have "inj (ad_hash (md_auth md))" using assms(6) by (metis injI)
  then have distinct: "distinct (map mf_secret_encrypted (list_recovery_codes db2 i))"
    unfolding hashes distinct_map using assms(8) by (auto simp: distinct_map intro: inj_on_subset)
  have set_codes: "set (map mf_secret_encrypted (list_recovery_codes db2 i))
      = ad_hash (md_auth md) ` normalize_recovery_code ` set (en_recovery_codes en)"
    unfolding hashes by (simp add: image_image)
  show ?thesis
    using present_all_spec [OF ok2 assms(6) set_codes distinct blank assms(9)] by (simp add: codes)
qed

section \<open>Samples\<close>

definition mfa_sample_deps :: mfa_deps where
  "mfa_sample_deps =
     \<lparr>md_auth = key_deps\<lparr>ad_totp_verify := totp_verify 6 (\<lambda>s c t. c = ''123456''), ad_decrypt := id\<rparr>, md_encrypt = id,
      md_generated_secret = ''seed'', md_provisioning_uri = (\<lambda>s a i. s), md_policy = default_mfa_policy, md_issuer = ''Aegis''\<rparr>"

definition mfa_env :: control_env where
  "mfa_env = (sample_control_env ''x'')\<lparr>ce_fresh := (\<lambda>n. replicate n (CHR ''f''))\<rparr>"

definition mfa_choice :: "nat \<Rightarrow> char" where "mfa_choice n = RECOVERY_ALPHABET ! (((n mod 10) + n div 10) mod 36)"

definition mfa_sample_db :: control_db where
  "mfa_sample_db = sample_db\<lparr>db_users := [(''u3'', (new_user ''u3'' ''cy@x.io'' (Some ''#pw'') ''Cy'' USER_ACTIVE None))]\<rparr>"

definition mfa_sample_calls :: "mfa_call list" where
  "mfa_sample_calls = [Enrol mfa_sample_deps mfa_env mfa_choice sample_admin ''pw'', Confirm mfa_sample_deps mfa_env sample_admin ''123456'']"

lemma mfa_sample_ok: "factors_ok mfa_sample_db" "factor_ids_new mfa_sample_deps mfa_env mfa_sample_db"
proof -
  show "factors_ok mfa_sample_db"
    by (auto simp: factors_ok_def mfa_sample_db_def sample_db_def empty_db_def totps_def users_get_def dget_def new_user_def
        split: if_splits)
  have "distinct (map (ce_fresh mfa_env) [0 ..< Suc (mp_recovery_code_count (md_policy mfa_sample_deps))])" by code_simp
  then show "factor_ids_new mfa_sample_deps mfa_env mfa_sample_db"
    by (simp add: factor_ids_new_def mfa_sample_db_def sample_db_def empty_db_def)
qed

theorem second_factor_is_consistent_witness:
  "\<exists>u. users_get (mfa_run mfa_sample_calls mfa_sample_db) ''u3'' = Some u \<and> us_mfa_enabled u
     \<and> get_totp (mfa_run mfa_sample_calls mfa_sample_db) ''u3'' (Some True) \<noteq> None"
proof -
  let ?db = "mfa_run mfa_sample_calls mfa_sample_db"
  have "map_option us_mfa_enabled (users_get ?db ''u3'') = Some True" by code_simp
  then obtain u where u: "users_get ?db ''u3'' = Some u" "us_mfa_enabled u" by auto
  have "mfa_ids_new mfa_sample_calls mfa_sample_db"
    using mfa_sample_ok(2) by (simp add: mfa_sample_calls_def)
  from second_factor_is_consistent [OF mfa_sample_ok(1) this u(1)] u show ?thesis by blast
qed

theorem recovery_codes_work_once_witness:
  "\<exists>en db1 db2. enrol_mfa mfa_sample_deps mfa_env mfa_choice sample_admin ''pw'' mfa_sample_db = (Inr en, db1)
     \<and> confirm_mfa mfa_sample_deps mfa_env sample_admin ''123456'' db1 = (Inr (), db2)
     \<and> present_all (md_auth mfa_sample_deps) ''u3'' [(7, ''abcde-fghij''), (8, ''ABCDE FGHIJ''), (9, ''nothing'')] db2 = [True, False, False]"
proof -
  let ?enrol = "enrol_mfa mfa_sample_deps mfa_env mfa_choice sample_admin ''pw'' mfa_sample_db"
  let ?ps = "[(7, ''abcde-fghij''), (8, ''ABCDE FGHIJ''), (9, ''nothing'')] :: (datetime \<times> str) list"
  let ?confirm = "confirm_mfa mfa_sample_deps mfa_env sample_admin ''123456''"
  have "map_sum (\<lambda>_. ()) (\<lambda>_. ()) (fst ?enrol) = Inr ()" by code_simp
  then obtain en db1 where enrol: "?enrol = (Inr en, db1)"
    by (cases ?enrol; cases "fst ?enrol") auto
  have "fst (?confirm (snd ?enrol)) = Inr ()" by code_simp
  then obtain db2 where confirm: "?confirm db1 = (Inr (), db2)" using enrol by (cases "?confirm db1") simp
  note run = enrol confirm
  have "map_sum (\<lambda>_. ()) (\<lambda>en. distinct (map normalize_recovery_code (en_recovery_codes en))
      \<and> map (\<lambda>p. presented_as (snd p) \<in> set (map normalize_recovery_code (en_recovery_codes en))) ?ps = [True, True, False])
    (fst ?enrol) = Inr True" by code_simp
  then have codes: "distinct (map normalize_recovery_code (en_recovery_codes en))"
      "map (\<lambda>p. presented_as (snd p) \<in> set (map normalize_recovery_code (en_recovery_codes en))) ?ps = [True, True, False]"
    unfolding enrol by simp_all
  have user: "pr_user_id sample_admin = Some ''u3''" by code_simp
  have alphabet: "\<forall>n. mfa_choice n \<in> set RECOVERY_ALPHABET"
  proof -
    have "length RECOVERY_ALPHABET = 36" by code_simp
    then show ?thesis by (simp add: mfa_choice_def)
  qed
  have hash: "\<forall>p q. ad_verify (md_auth mfa_sample_deps) p (ad_hash (md_auth mfa_sample_deps) q) \<longleftrightarrow> p = q"
    by (auto simp: mfa_sample_deps_def key_deps_def)
  have totp: "\<forall>(now, t) \<in> set ?ps. \<forall>s. \<not> ad_totp_verify (md_auth mfa_sample_deps) s (mfa_candidate t) now"
  proof -
    have short: "\<forall>p \<in> set ?ps. length (replace_char (CHR '' '') [] (strip (mfa_candidate (snd p)))) \<noteq> 6" by code_simp
    show ?thesis
    proof (intro ballI)
      fix p assume "p \<in> set ?ps"
      note bspec [OF short this]
      then show "case p of (now, t) \<Rightarrow> \<forall>s. \<not> ad_totp_verify (md_auth mfa_sample_deps) s (mfa_candidate t) now"
        by (cases p) (auto simp: mfa_sample_deps_def totp_verify_def Let_def)
    qed
  qed
  have texts: "presented_as ''abcde-fghij'' = ''ABCDEFGHIJ''" "presented_as ''ABCDE FGHIJ'' = ''ABCDEFGHIJ''"
    "presented_as ''nothing'' = ''NOTHING''" by code_simp+
  note all = conjunct2 [OF recovery_codes_work_once [OF mfa_sample_ok user run hash alphabet codes(1) totp]]
  have len: "length (present_all (md_auth mfa_sample_deps) ''u3'' ?ps db2) = 3"
    by (simp add: Let_def case_prod_unfold)
  have "present_all (md_auth mfa_sample_deps) ''u3'' ?ps db2 = [True, False, False]"
    using all codes(2) len by (intro nth_equalityI) (auto simp: less_Suc_eq numeral_3_eq_3 texts)
  with run show ?thesis by blast
qed

end
