(* ===== verification/PythonTaint.thy ===== *)
theory PythonTaint
  imports PyStr
begin

text \<open>
  The taint engine and the sink checks of the Python runtime agent
  (\<open>aegis_python_agent/taint.py\<close> and \<open>sinks.py\<close>): request traces, the registry of tainted strings
  and what each check reports.
\<close>

section \<open>Objects\<close>

record taint_range =
  tr_start :: nat
  tr_end :: nat
  tr_source_kind :: str
  tr_source_name :: str

record taint_record =
  te_value :: str
  te_ranges :: "taint_range list"

text \<open>
  A string object: what \<open>id()\<close> gives for it, its text, and the record a \<open>TaintedString\<close> carries.
\<close>

record pystr =
  ps_id :: nat
  ps_text :: str
  ps_taint :: "taint_record option"

text \<open>
  An argument: a string, \<open>bytes\<close>, a list or tuple, an iterator that can be walked once, or an object
  that cannot be iterated.
\<close>

datatype pyval = Str pystr | Bytes str | Seq "pyval list" | Iter "pyval list" | Obj nat

record request_trace =
  rt_trace_id :: str
  rt_route :: str
  rt_method :: str
  rt_sources :: "(str \<times> str \<times> str) list"

text \<open>
  The module's variables: the registry, a dictionary in the order of insertion, and the trace of
  each execution context (thread or task).
\<close>

record taint_state =
  ts_registry :: "(nat, taint_record) dict"
  ts_traces :: "nat \<Rightarrow> request_trace option"

definition start_request_trace :: "nat \<Rightarrow> str \<Rightarrow> str \<Rightarrow> str \<Rightarrow> taint_state \<Rightarrow> taint_state" where
  "start_request_trace ctx trace_id route verb s =
     s\<lparr>ts_traces := (ts_traces s)(ctx := Some \<lparr>rt_trace_id = trace_id, rt_route = route, rt_method = verb, rt_sources = []\<rparr>)\<rparr>"

definition clear_request_trace :: "nat \<Rightarrow> taint_state \<Rightarrow> taint_state" where
  "clear_request_trace ctx s = s\<lparr>ts_traces := (ts_traces s)(ctx := None)\<rparr>"

definition mark_record :: "str \<Rightarrow> str \<Rightarrow> str \<Rightarrow> taint_record" where
  "mark_record text kind name =
     \<lparr>te_value = text, te_ranges = [\<lparr>tr_start = 0, tr_end = length text, tr_source_kind = kind, tr_source_name = name\<rparr>]\<rparr>"

text \<open>\<open>new\<close> is the \<open>id()\<close> of the wrapper that is made.\<close>

definition mark_tainted :: "nat \<Rightarrow> nat \<Rightarrow> pyval \<Rightarrow> str \<Rightarrow> str \<Rightarrow> taint_state \<Rightarrow> pyval \<times> taint_state" where
  "mark_tainted ctx new v kind name s =
     (case v of
        Str p \<Rightarrow>
          if ps_text p = [] then (v, s)
          else (let tr = mark_record (ps_text p) kind name in
            (Str \<lparr>ps_id = new, ps_text = ps_text p, ps_taint = Some tr\<rparr>,
             s\<lparr>ts_registry := dput new tr (dput (ps_id p) tr (ts_registry s)),
               ts_traces := (ts_traces s)(ctx := map_option
                 (\<lambda>t. t\<lparr>rt_sources := rt_sources t @ [(kind, name, take 100 (ps_text p))]\<rparr>) (ts_traces s ctx))\<rparr>))
      | _ \<Rightarrow> (v, s))"

definition latest :: "('k, 'v) dict \<Rightarrow> ('k, 'v) dict" where
  "latest d = drop (length d - 50) d"

definition is_tainted :: "nat \<Rightarrow> pystr \<Rightarrow> taint_state \<Rightarrow> taint_record option" where
  "is_tainted ctx p s =
     (case ps_taint p of Some r \<Rightarrow> Some r
      | None \<Rightarrow> (case dget (ts_registry s) (ps_id p) of Some r \<Rightarrow> Some r
        | None \<Rightarrow> (case ts_traces s ctx of
            None \<Rightarrow> None
          | Some t \<Rightarrow> map_option snd (find (\<lambda>(_, r). te_value r \<noteq> [] \<and> 3 \<le> length (te_value r)
              \<and> contains (te_value r) (ps_text p)) (latest (ts_registry s))))))"

section \<open>Sink checks\<close>

record sink_finding =
  sf_rule_key :: str
  sf_severity :: str
  sf_sink_signature :: str
  sf_source_kind :: str
  sf_sink_argument :: str
  sf_trace_id :: str

text \<open>
  \<open>sep.join(parts)\<close> gives back the only part when there is one and it is a plain string; otherwise
  it makes an object, whose \<open>id()\<close> is \<open>new\<close>.
\<close>

definition joined :: "nat \<Rightarrow> pystr list \<Rightarrow> pystr" where
  "joined new ps =
     (if length ps = 1 \<and> ps_taint (hd ps) = None then hd ps
      else \<lparr>ps_id = new, ps_text = join '' '' (map ps_text ps), ps_taint = None\<rparr>)"

fun all_strings :: "pyval list \<Rightarrow> pystr list option" where
  "all_strings [] = Some []"
| "all_strings (Str p # vs) = map_option (\<lambda>ps. p # ps) (all_strings vs)"
| "all_strings (_ # vs) = None"

text \<open>The text that is inspected; \<open>None\<close> when \<open>" ".join(val)\<close> raises.\<close>

fun inspected :: "nat \<Rightarrow> pyval \<Rightarrow> pystr option" where
  "inspected new (Str p) = Some p"
| "inspected new (Seq vs) = map_option (joined new) (all_strings vs)"
| "inspected new (Iter vs) = map_option (joined new) (all_strings vs)"
| "inspected new (Bytes b) = (if b = [] then Some (joined new []) else None)"
| "inspected new (Obj n) = None"

definition inspect_generic_sink ::
    "nat \<Rightarrow> nat \<Rightarrow> pyval \<Rightarrow> str \<Rightarrow> str \<Rightarrow> str \<Rightarrow> (str \<Rightarrow> bool) option \<Rightarrow> taint_state \<Rightarrow> sink_finding option" where
  "inspect_generic_sink ctx new val rule_key severity sink_signature trigger_condition s =
     (case inspected new val of
        None \<Rightarrow> None
      | Some p \<Rightarrow> (case is_tainted ctx p s of
          None \<Rightarrow> None
        | Some r \<Rightarrow>
            if (case trigger_condition of None \<Rightarrow> False | Some c \<Rightarrow> \<not> c (ps_text p)) then None
            else Some
              \<lparr>sf_rule_key = rule_key, sf_severity = severity, sf_sink_signature = sink_signature,
               sf_source_kind = (case te_ranges r of [] \<Rightarrow> ''PARAMETER'' | t # _ \<Rightarrow> tr_source_kind t),
               sf_sink_argument = take 2000 (ps_text p),
               sf_trace_id = (case ts_traces s ctx of None \<Rightarrow> ''unknown-trace'' | Some t \<Rightarrow> rt_trace_id t)\<rparr>))"

definition has_any :: "str list \<Rightarrow> str \<Rightarrow> bool" where
  "has_any parts text = list_ex (\<lambda>t. contains t text) parts"

definition check_sql_sink :: "nat \<Rightarrow> nat \<Rightarrow> pyval \<Rightarrow> str \<Rightarrow> taint_state \<Rightarrow> sink_finding option" where
  "check_sql_sink ctx new sql sig = inspect_generic_sink ctx new sql ''sql-injection'' ''CRITICAL'' sig None"

definition COMMAND_SEPARATORS :: "str list" where
  "COMMAND_SEPARATORS = ['';'', ''&'', ''|'', [CHR 0x60], ''$'', [CHR 10], ''>'', ''<'', [CHR 13], ''('', ''whoami'', ''id'']"

definition check_command_sink :: "nat \<Rightarrow> nat \<Rightarrow> pyval \<Rightarrow> str \<Rightarrow> taint_state \<Rightarrow> sink_finding option" where
  "check_command_sink ctx new cmd sig =
     inspect_generic_sink ctx new cmd ''command-injection'' ''CRITICAL'' sig (Some (has_any COMMAND_SEPARATORS))"

definition PICKLE_TOKENS :: "str list" where
  "PICKLE_TOKENS = [''cos'', ''posix'', ''nt'', ''system'', ''popen'', ''exec'', ''eval'', ''pickle'', ''reduce'', ''R.'']"

text \<open>
  \<open>data.decode("utf-8", errors="ignore")\<close>, and \<open>str(data)\<close> of what is neither a string nor bytes, are
  arguments of the definition; the latter may raise. A plain string is its own \<open>str()\<close>.
\<close>

record text_of =
  to_decode :: "str \<Rightarrow> str"
  to_str :: "pyval \<Rightarrow> str option"

definition plain :: "nat \<Rightarrow> str \<Rightarrow> pystr" where
  "plain new text = \<lparr>ps_id = new, ps_text = text, ps_taint = None\<rparr>"

fun str_of :: "text_of \<Rightarrow> nat \<Rightarrow> pyval \<Rightarrow> pystr option" where
  "str_of env new (Str p) = Some (if ps_taint p = None then p else plain new (ps_text p))"
| "str_of env new v = map_option (plain new) (to_str env v)"

definition decoded :: "text_of \<Rightarrow> nat \<Rightarrow> pyval \<Rightarrow> pystr option" where
  "decoded env new data = (case data of Bytes b \<Rightarrow> Some (plain new (to_decode env b)) | _ \<Rightarrow> str_of env new data)"

text \<open>The check of pickled data; a raising \<open>str(data)\<close> reports nothing to the hook around it.\<close>

definition check_deserialization_sink ::
    "text_of \<Rightarrow> nat \<Rightarrow> nat \<Rightarrow> pyval \<Rightarrow> str \<Rightarrow> taint_state \<Rightarrow> sink_finding option" where
  "check_deserialization_sink env ctx new data sig s =
     (case decoded env new data of None \<Rightarrow> None
      | Some p \<Rightarrow> inspect_generic_sink ctx new (Str p) ''unsafe-deserialization'' ''CRITICAL'' sig
           (Some (has_any PICKLE_TOKENS)) s)"

definition check_xxe_sink :: "nat \<Rightarrow> nat \<Rightarrow> pyval \<Rightarrow> str \<Rightarrow> taint_state \<Rightarrow> sink_finding option" where
  "check_xxe_sink ctx new xml sig = inspect_generic_sink ctx new xml ''xxe'' ''CRITICAL'' sig
     (Some (\<lambda>x. contains ''<!ENTITY'' (upper x) \<or> contains ''<!DOCTYPE'' (upper x) \<or> contains ''SYSTEM'' (upper x)))"

definition check_path_traversal_sink :: "nat \<Rightarrow> nat \<Rightarrow> pyval \<Rightarrow> str \<Rightarrow> taint_state \<Rightarrow> sink_finding option" where
  "check_path_traversal_sink ctx new path sig = inspect_generic_sink ctx new path ''path-traversal'' ''HIGH'' sig
     (Some (\<lambda>p. contains ''..'' p \<or> startswith p ''/'' \<or> contains [CHR 0x5C] p))"

definition check_xss_sink :: "nat \<Rightarrow> nat \<Rightarrow> pyval \<Rightarrow> str \<Rightarrow> taint_state \<Rightarrow> sink_finding option" where
  "check_xss_sink ctx new content sig = inspect_generic_sink ctx new content ''reflected-xss'' ''HIGH'' sig
     (Some (\<lambda>c. has_any [''<script'', ''javascript:'', ''onerror=''] (lower c)))"

definition INTERNAL_HOSTS :: "str list" where
  "INTERNAL_HOSTS = [''169.254.'', ''127.0.0.1'', ''localhost'', ''10.'', ''192.168.'', ''172.'', ''metadata'', ''0.0.0.0'',
     ''internal'', ''::1'']"

definition check_ssrf_sink :: "nat \<Rightarrow> nat \<Rightarrow> pyval \<Rightarrow> str \<Rightarrow> taint_state \<Rightarrow> sink_finding option" where
  "check_ssrf_sink ctx new url sig = inspect_generic_sink ctx new url ''ssrf'' ''HIGH'' sig
     (Some (\<lambda>u. (startswith u ''http://'' \<or> startswith u ''https://'') \<and> has_any INTERNAL_HOSTS (lower u)))"

definition check_open_redirect_sink :: "nat \<Rightarrow> nat \<Rightarrow> pyval \<Rightarrow> str \<Rightarrow> taint_state \<Rightarrow> sink_finding option" where
  "check_open_redirect_sink ctx new url sig = inspect_generic_sink ctx new url ''open-redirect'' ''MEDIUM'' sig
     (Some (\<lambda>u. startswith u ''http://'' \<or> startswith u ''https://'' \<or> startswith u ''//''))"

definition check_header_injection_sink :: "nat \<Rightarrow> nat \<Rightarrow> pyval \<Rightarrow> str \<Rightarrow> taint_state \<Rightarrow> sink_finding option" where
  "check_header_injection_sink ctx new header sig = inspect_generic_sink ctx new header ''header-injection'' ''MEDIUM'' sig
     (Some (\<lambda>h. contains [CHR 13] h \<or> contains [CHR 10] h \<or> contains ''%0d'' (lower h) \<or> contains ''%0a'' (lower h)))"

definition check_log_injection_sink :: "nat \<Rightarrow> nat \<Rightarrow> pyval \<Rightarrow> str \<Rightarrow> taint_state \<Rightarrow> sink_finding option" where
  "check_log_injection_sink ctx new msg sig = inspect_generic_sink ctx new msg ''log-injection'' ''MEDIUM'' sig
     (Some (\<lambda>m. contains [CHR 10] m \<or> contains [CHR 13] m \<or> contains ''%0a'' (lower m) \<or> contains ''%0d'' (lower m)))"

end
