(* ===== verification/PythonAgent.thy ===== *)
theory PythonAgent
  imports PythonTaint
begin

text \<open>
  The Python runtime agent and its hooks (\<open>aegis_python_agent/agent.py\<close>, \<open>hooking.py\<close>): requests
  taint their parameters, wrappers inspect what reaches \<open>sqlite3\<close>, \<open>subprocess\<close> and \<open>pickle\<close>, and
  block it when told to.
\<close>

section \<open>The agent\<close>

record py_agent =
  pa_agent_id :: str
  pa_organization_id :: str
  pa_gateway_url :: str
  pa_protection_mode :: str
  pa_event_buffer :: "sink_finding list"
  pa_running :: bool

text \<open>
  A connection or cursor that the application holds: the real object, known by a number, or a proxy
  around one with the agent it reports to. A connection proxy also has the attributes that were
  assigned to it.
\<close>

datatype conn_obj = Raw_conn nat | Conn_proxy nat nat "(str, pyval) dict"
datatype cur_obj = Raw_cur nat | Cur_proxy nat nat

text \<open>
  The process: taint, agents, for each replaced function the agent of the installed wrapper, and
  the connections and cursors obtained so far.
\<close>

record py_process =
  pp_taint :: taint_state
  pp_agents :: "py_agent list"
  pp_connect :: "nat option"
  pp_popen :: "nat option"
  pp_loads :: "nat option"
  pp_conns :: "conn_obj list"
  pp_curs :: "cur_obj list"

definition new_py_agent :: "str \<Rightarrow> str \<Rightarrow> str \<Rightarrow> str \<Rightarrow> py_agent" where
  "new_py_agent agent_id organization_id gateway_url protection_mode =
     \<lparr>pa_agent_id = agent_id, pa_organization_id = organization_id, pa_gateway_url = gateway_url,
      pa_protection_mode = upper protection_mode, pa_event_buffer = [], pa_running = False\<rparr>"

definition hook_sqlite3 :: "nat \<Rightarrow> py_process \<Rightarrow> py_process" where "hook_sqlite3 a p = p\<lparr>pp_connect := Some a\<rparr>"
definition hook_subprocess :: "nat \<Rightarrow> py_process \<Rightarrow> py_process" where "hook_subprocess a p = p\<lparr>pp_popen := Some a\<rparr>"
definition hook_pickle :: "nat \<Rightarrow> py_process \<Rightarrow> py_process" where "hook_pickle a p = p\<lparr>pp_loads := Some a\<rparr>"

definition hook_all_sinks :: "nat \<Rightarrow> py_process \<Rightarrow> py_process" where
  "hook_all_sinks a p = hook_pickle a (hook_subprocess a (hook_sqlite3 a p))"

text \<open>\<open>uuids\<close> are the identifiers used when none is given.\<close>

definition agent_start :: "str \<times> str \<Rightarrow> str \<Rightarrow> str \<Rightarrow> str \<Rightarrow> str \<Rightarrow> bool \<Rightarrow> py_process \<Rightarrow> py_process" where
  "agent_start uuids agent_id organization_id gateway_url protection_mode auto_instrument p =
     (let agent = (new_py_agent (if agent_id = [] then fst uuids else agent_id)
                    (if organization_id = [] then snd uuids else organization_id) gateway_url protection_mode)\<lparr>pa_running := True\<rparr>;
          p1 = p\<lparr>pp_agents := pp_agents p @ [agent]\<rparr>
      in if auto_instrument then hook_all_sinks (length (pp_agents p)) p1 else p1)"

definition on_agent :: "nat \<Rightarrow> (py_agent \<Rightarrow> py_agent) \<Rightarrow> py_process \<Rightarrow> py_process" where
  "on_agent a f p = p\<lparr>pp_agents := (pp_agents p)[a := f (pp_agents p ! a)]\<rparr>"

definition set_agent_mode :: "nat \<Rightarrow> str \<Rightarrow> py_process \<Rightarrow> py_process" where
  "set_agent_mode a mode = on_agent a (\<lambda>g. g\<lparr>pa_protection_mode := upper mode\<rparr>)"

text \<open>
  The parameters of a request, each marked with the \<open>id()\<close> of its wrapper, which is dropped;
  \<open>hexes\<close> is the text of the random part of the trace's id.
\<close>

fun mark_parameters :: "nat \<Rightarrow> (nat \<times> str \<times> pyval) list \<Rightarrow> taint_state \<Rightarrow> taint_state" where
  "mark_parameters ctx [] s = s"
| "mark_parameters ctx ((new, key, v) # ps) s =
     mark_parameters ctx ps (snd (mark_tainted ctx new v ''PARAMETER'' key s))"

definition wrap_request ::
    "nat \<Rightarrow> str \<Rightarrow> str \<Rightarrow> str \<Rightarrow> (nat \<times> str \<times> pyval) list \<Rightarrow> py_process \<Rightarrow> str \<times> py_process" where
  "wrap_request ctx hexes route verb params p =
     (let trace_id = ''py-trace-'' @ take 12 hexes
      in (trace_id, p\<lparr>pp_taint := mark_parameters ctx params (start_request_trace ctx trace_id route verb (pp_taint p))\<rparr>))"

definition buffer_event :: "nat \<Rightarrow> sink_finding \<Rightarrow> py_process \<Rightarrow> py_process" where
  "buffer_event a f = on_agent a (\<lambda>g. g\<lparr>pa_event_buffer := pa_event_buffer g @ [f]\<rparr>)"

definition inspect_query :: "nat \<Rightarrow> nat \<Rightarrow> nat \<Rightarrow> pyval \<Rightarrow> py_process \<Rightarrow> sink_finding option \<times> py_process" where
  "inspect_query a ctx new sql p =
     (case check_sql_sink ctx new sql ''sqlite3.Cursor.execute'' (pp_taint p) of
        None \<Rightarrow> (None, p)
      | Some f \<Rightarrow> (Some f, buffer_event a f p))"

definition finish_request :: "nat \<Rightarrow> py_process \<Rightarrow> py_process" where
  "finish_request ctx p = p\<lparr>pp_taint := clear_request_trace ctx (pp_taint p)\<rparr>"

section \<open>The functions that are replaced\<close>

text \<open>
  What the wrappers call in the end: the original functions and methods, as one function
  \<open>real call world\<close> over the state of everything outside. Connections and cursors are answered by
  their number. \<open>extra\<close> are the arguments that are handed on as they are.
\<close>

datatype real_call =
    Real_connect pyval
  | Real_cursor nat
  | Real_execute nat pyval pyval
  | Real_executemany nat pyval pyval
  | Real_executescript nat pyval
  | Real_fetchone nat
  | Real_fetchall nat
  | Real_fetchmany nat nat
  | Real_iter nat
  | Real_cur_attr nat str
  | Real_commit nat
  | Real_rollback nat
  | Real_close nat
  | Real_exit nat pyval
  | Real_conn_attr nat str
  | Real_set_conn_attr nat str pyval
  | Real_popen pyval pyval
  | Real_loads pyval pyval

datatype real_answer = Made nat | Value pyval

text \<open>An exception of the code below, or \<open>AegisSecurityBlockException\<close> with its rule and sink.\<close>

datatype py_exn = Raised str | Blocked str str str

type_synonym 'w ran = "(py_exn + real_answer) \<times> py_process \<times> 'w"
type_synonym 'w real = "real_call \<Rightarrow> 'w \<Rightarrow> (py_exn + real_answer) \<times> 'w"

section \<open>Hooks\<close>

text \<open>What inspection leaves of the argument: joining walks an iterator to its end.\<close>

fun after_join :: "pyval \<Rightarrow> pyval" where
  "after_join (Iter vs) = Iter []"
| "after_join v = v"

fun one_shot :: "pyval \<Rightarrow> bool" where
  "one_shot (Iter vs) = True"
| "one_shot v = False"

text \<open>
  The part the three hooks share: record a finding, and refuse the call in blocking mode. The
  argument is cut for the log in between, which raises for an iterator; the hook then lets it pass.
\<close>

definition report :: "nat \<Rightarrow> sink_finding option \<Rightarrow> pyval \<Rightarrow> py_exn \<Rightarrow> py_process \<Rightarrow> py_exn option \<times> py_process" where
  "report a finding arg exn p =
     (case finding of None \<Rightarrow> (None, p)
      | Some f \<Rightarrow> (let p1 = buffer_event a f p
          in (if \<not> one_shot arg \<and> pa_protection_mode (pp_agents p ! a) = ''BLOCK'' then Some exn else None, p1)))"

definition sql_block :: py_exn where
  "sql_block = Blocked ''Aegis ADR Block: Blocked SQL Injection attack vector.'' ''sql-injection'' ''sqlite3.Cursor.execute''"

definition command_block :: py_exn where
  "command_block = Blocked ''Aegis ADR Block: Blocked OS Command Injection attack vector.'' ''command-injection'' ''subprocess.Popen''"

definition pickle_block :: py_exn where
  "pickle_block = Blocked ''Aegis ADR Block: Blocked Unsafe Deserialization attack vector.'' ''unsafe-deserialization'' ''pickle.loads''"

text \<open>\<open>SqliteCursorProxy.execute\<close> of a cursor that reports to agent \<open>a\<close>.\<close>

definition proxy_execute ::
    "'w real \<Rightarrow> nat \<Rightarrow> nat \<Rightarrow> nat \<Rightarrow> nat \<Rightarrow> pyval \<Rightarrow> pyval \<Rightarrow> py_process \<times> 'w \<Rightarrow> 'w ran" where
  "proxy_execute real ctx new n a sql extra = (\<lambda>(p, w).
     case report a (check_sql_sink ctx new sql ''sqlite3.Cursor.execute'' (pp_taint p)) sql sql_block p of
       (Some e, p1) \<Rightarrow> (Inl e, p1, w)
     | (None, p1) \<Rightarrow> (let (r, w1) = real (Real_execute n (after_join sql) extra) w in (r, p1, w1)))"

text \<open>
  The command of \<open>wrapped_popen\<close>, \<open>" ".join(str(a) for a in args)\<close> unless it is a string, and what
  is left of the arguments once it has been made or has raised.
\<close>

fun texts_of :: "text_of \<Rightarrow> nat \<Rightarrow> pyval list \<Rightarrow> pystr list option \<times> pyval list" where
  "texts_of env new [] = (Some [], [])"
| "texts_of env new (v # vs) =
     (case str_of env new v of
        None \<Rightarrow> (None, vs)
      | Some p \<Rightarrow> (case texts_of env new vs of (r, rest) \<Rightarrow> (map_option (\<lambda>ps. p # ps) r, rest)))"

definition byte_texts :: "nat \<Rightarrow> str \<Rightarrow> pystr list" where
  "byte_texts new b = map (\<lambda>c. plain new (nat_digits (of_char c))) b"

definition popen_command :: "text_of \<Rightarrow> nat \<Rightarrow> pyval \<Rightarrow> pystr option \<times> pyval" where
  "popen_command env new args =
     (case args of
        Str p \<Rightarrow> (Some p, args)
      | Bytes b \<Rightarrow> (Some (joined new (byte_texts new b)), args)
      | Seq vs \<Rightarrow> (map_option (joined new) (fst (texts_of env new vs)), args)
      | Iter vs \<Rightarrow> (case texts_of env new vs of (r, rest) \<Rightarrow> (map_option (joined new) r, Iter rest))
      | Obj n \<Rightarrow> (None, args))"

definition hooked_popen ::
    "text_of \<Rightarrow> 'w real \<Rightarrow> nat \<Rightarrow> nat \<Rightarrow> nat \<Rightarrow> pyval \<Rightarrow> pyval \<Rightarrow> py_process \<times> 'w \<Rightarrow> 'w ran" where
  "hooked_popen env real ctx new a args extra = (\<lambda>(p, w).
     case popen_command env new args of (cmd, args1) \<Rightarrow>
       (case report a (case cmd of None \<Rightarrow> None | Some c \<Rightarrow> check_command_sink ctx new (Str c) ''subprocess.Popen'' (pp_taint p))
               (Str (the cmd)) command_block p of
          (Some e, p1) \<Rightarrow> (Inl e, p1, w)
        | (None, p1) \<Rightarrow> (let (r, w1) = real (Real_popen args1 extra) w in (r, p1, w1))))"

definition hooked_loads ::
    "text_of \<Rightarrow> 'w real \<Rightarrow> nat \<Rightarrow> nat \<Rightarrow> nat \<Rightarrow> pyval \<Rightarrow> pyval \<Rightarrow> py_process \<times> 'w \<Rightarrow> 'w ran" where
  "hooked_loads env real ctx new a data extra = (\<lambda>(p, w).
     case report a (case decoded env new data of None \<Rightarrow> None
                    | Some t \<Rightarrow> check_deserialization_sink env ctx new (Str t) ''pickle.loads'' (pp_taint p))
            (Str (the (decoded env new data))) pickle_block p of
       (Some e, p1) \<Rightarrow> (Inl e, p1, w)
     | (None, p1) \<Rightarrow> (let (r, w1) = real (Real_loads data extra) w in (r, p1, w1)))"

section \<open>What an application does\<close>

text \<open>
  The calls of an application. Connections and cursors are named by their position among those it
  has obtained. \<open>Conn_exit\<close> is the end of a \<open>with\<close> block, which tests the answer only: false from
  the connection and from the proxy.
\<close>

datatype app_call =
    Connect pyval
  | Open_cursor nat
  | Conn_execute nat pyval pyval
  | Cur_execute nat pyval pyval
  | Cur_executemany nat pyval pyval
  | Cur_executescript nat pyval
  | Cur_fetchone nat
  | Cur_fetchall nat
  | Cur_fetchmany nat nat
  | Cur_iter nat
  | Cur_attr nat str
  | Conn_commit nat
  | Conn_rollback nat
  | Conn_close nat
  | Conn_exit nat pyval
  | Conn_attr nat str
  | Set_conn_attr nat str pyval
  | Popen pyval pyval
  | Loads pyval pyval

text \<open>An object that was made is kept as \<open>f\<close> of its number.\<close>

definition keep_cur :: "(nat \<Rightarrow> cur_obj) \<Rightarrow> 'w ran \<Rightarrow> 'w ran" where
  "keep_cur f = (\<lambda>(r, p, w). (r, case r of Inr (Made n) \<Rightarrow> p\<lparr>pp_curs := pp_curs p @ [f n]\<rparr> | _ \<Rightarrow> p, w))"

definition keep_conn :: "(nat \<Rightarrow> conn_obj) \<Rightarrow> 'w ran \<Rightarrow> 'w ran" where
  "keep_conn f = (\<lambda>(r, p, w). (r, case r of Inr (Made n) \<Rightarrow> p\<lparr>pp_conns := pp_conns p @ [f n]\<rparr> | _ \<Rightarrow> p, w))"

text \<open>\<open>sqlite3.connect\<close>, original or replaced.\<close>

definition py_connect :: "'w real \<Rightarrow> pyval \<Rightarrow> py_process \<times> 'w \<Rightarrow> 'w ran" where
  "py_connect real args = (\<lambda>(p, w). keep_conn (case pp_connect p of None \<Rightarrow> Raw_conn | Some a \<Rightarrow> (\<lambda>n. Conn_proxy n a []))
     (let (r, w1) = real (Real_connect args) w in (r, p, w1)))"

definition absent :: "py_exn" where "absent = Raised ''IndexError''"

text \<open>A method that a proxy hands on and that answers no object of the model.\<close>

definition hand_on :: "'w real \<Rightarrow> real_call \<Rightarrow> py_process \<times> 'w \<Rightarrow> 'w ran" where
  "hand_on real c = (\<lambda>(p, w). let (r, w1) = real c w in (r, p, w1))"

fun raw_conn :: "conn_obj \<Rightarrow> nat" where
  "raw_conn (Raw_conn n) = n"
| "raw_conn (Conn_proxy n a attrs) = n"

fun raw_cur :: "cur_obj \<Rightarrow> nat" where
  "raw_cur (Raw_cur n) = n"
| "raw_cur (Cur_proxy n a) = n"

text \<open>\<open>conn.cursor()\<close>: a proxy gives a proxy.\<close>

fun cursor_of :: "conn_obj \<Rightarrow> nat \<Rightarrow> cur_obj" where
  "cursor_of (Raw_conn c) n = Raw_cur n"
| "cursor_of (Conn_proxy c a attrs) n = Cur_proxy n a"

text \<open>\<open>cur.execute\<close>; either kind of cursor gives back the real one.\<close>

fun cur_execute :: "'w real \<Rightarrow> nat \<Rightarrow> nat \<Rightarrow> cur_obj \<Rightarrow> pyval \<Rightarrow> pyval \<Rightarrow> py_process \<times> 'w \<Rightarrow> 'w ran" where
  "cur_execute real ctx new (Raw_cur n) sql extra s = hand_on real (Real_execute n sql extra) s"
| "cur_execute real ctx new (Cur_proxy n a) sql extra s = proxy_execute real ctx new n a sql extra s"

text \<open>
  \<open>conn.execute\<close>: a new cursor that executes the statement and is given back. (What the proxy does
  is what \<open>sqlite3\<close> documents of a connection.)
\<close>

definition conn_execute :: "'w real \<Rightarrow> nat \<Rightarrow> nat \<Rightarrow> conn_obj \<Rightarrow> pyval \<Rightarrow> pyval \<Rightarrow> py_process \<times> 'w \<Rightarrow> 'w ran" where
  "conn_execute real ctx new c sql extra s =
     (case hand_on real (Real_cursor (raw_conn c)) s of
        (Inr (Made n), s1) \<Rightarrow>
          (case cur_execute real ctx new (cursor_of c n) sql extra s1 of
             (Inl e, s2) \<Rightarrow> (Inl e, s2)
           | (Inr _, s2) \<Rightarrow> keep_cur (cursor_of c) (Inr (Made n), s2))
      | r \<Rightarrow> r)"

fun conn_attr :: "'w real \<Rightarrow> conn_obj \<Rightarrow> str \<Rightarrow> py_process \<times> 'w \<Rightarrow> 'w ran" where
  "conn_attr real (Raw_conn n) name s = hand_on real (Real_conn_attr n name) s"
| "conn_attr real (Conn_proxy n a attrs) name s =
     (case dget attrs name of Some v \<Rightarrow> (Inr (Value v), s) | None \<Rightarrow> hand_on real (Real_conn_attr n name) s)"

text \<open>Assigning an attribute of a proxy assigns it to the proxy: the class forwards reading only.\<close>

definition set_conn_attr :: "'w real \<Rightarrow> nat \<Rightarrow> str \<Rightarrow> pyval \<Rightarrow> py_process \<times> 'w \<Rightarrow> 'w ran" where
  "set_conn_attr real c name v = (\<lambda>(p, w).
     case pp_conns p ! c of
       Raw_conn n \<Rightarrow> hand_on real (Real_set_conn_attr n name v) (p, w)
     | Conn_proxy n a attrs \<Rightarrow> (Inr (Value v), p\<lparr>pp_conns := (pp_conns p)[c := Conn_proxy n a (dput name v attrs)]\<rparr>, w))"

definition py_popen :: "text_of \<Rightarrow> 'w real \<Rightarrow> nat \<Rightarrow> nat \<Rightarrow> pyval \<Rightarrow> pyval \<Rightarrow> py_process \<times> 'w \<Rightarrow> 'w ran" where
  "py_popen env real ctx new args extra s =
     (case pp_popen (fst s) of None \<Rightarrow> hand_on real (Real_popen args extra) s
      | Some a \<Rightarrow> hooked_popen env real ctx new a args extra s)"

definition py_loads :: "text_of \<Rightarrow> 'w real \<Rightarrow> nat \<Rightarrow> nat \<Rightarrow> pyval \<Rightarrow> pyval \<Rightarrow> py_process \<times> 'w \<Rightarrow> 'w ran" where
  "py_loads env real ctx new data extra s =
     (case pp_loads (fst s) of None \<Rightarrow> hand_on real (Real_loads data extra) s
      | Some a \<Rightarrow> hooked_loads env real ctx new a data extra s)"

text \<open>The connection or cursor of a call, when the application has it.\<close>

definition on_conn :: "nat \<Rightarrow> (conn_obj \<Rightarrow> 'w ran) \<Rightarrow> py_process \<times> 'w \<Rightarrow> 'w ran" where
  "on_conn c f s = (if c < length (pp_conns (fst s)) then f (pp_conns (fst s) ! c) else (Inl absent, s))"

definition on_cur :: "nat \<Rightarrow> (cur_obj \<Rightarrow> 'w ran) \<Rightarrow> py_process \<times> 'w \<Rightarrow> 'w ran" where
  "on_cur k f s = (if k < length (pp_curs (fst s)) then f (pp_curs (fst s) ! k) else (Inl absent, s))"

fun app_step :: "text_of \<Rightarrow> 'w real \<Rightarrow> nat \<Rightarrow> nat \<Rightarrow> app_call \<Rightarrow> py_process \<times> 'w \<Rightarrow> 'w ran" where
  "app_step env real ctx new (Connect args) s = py_connect real args s"
| "app_step env real ctx new (Open_cursor c) s =
     on_conn c (\<lambda>o1. keep_cur (cursor_of o1) (hand_on real (Real_cursor (raw_conn o1)) s)) s"
| "app_step env real ctx new (Conn_execute c sql extra) s = on_conn c (\<lambda>o1. conn_execute real ctx new o1 sql extra s) s"
| "app_step env real ctx new (Cur_execute k sql extra) s =
     on_cur k (\<lambda>o1. keep_cur Raw_cur (cur_execute real ctx new o1 sql extra s)) s"
| "app_step env real ctx new (Cur_executemany k sql rows) s =
     on_cur k (\<lambda>o1. keep_cur Raw_cur (hand_on real (Real_executemany (raw_cur o1) sql rows) s)) s"
| "app_step env real ctx new (Cur_executescript k sql) s =
     on_cur k (\<lambda>o1. keep_cur Raw_cur (hand_on real (Real_executescript (raw_cur o1) sql) s)) s"
| "app_step env real ctx new (Cur_fetchone k) s = on_cur k (\<lambda>o1. hand_on real (Real_fetchone (raw_cur o1)) s) s"
| "app_step env real ctx new (Cur_fetchall k) s = on_cur k (\<lambda>o1. hand_on real (Real_fetchall (raw_cur o1)) s) s"
| "app_step env real ctx new (Cur_fetchmany k n) s = on_cur k (\<lambda>o1. hand_on real (Real_fetchmany (raw_cur o1) n) s) s"
| "app_step env real ctx new (Cur_iter k) s = on_cur k (\<lambda>o1. hand_on real (Real_iter (raw_cur o1)) s) s"
| "app_step env real ctx new (Cur_attr k name) s = on_cur k (\<lambda>o1. hand_on real (Real_cur_attr (raw_cur o1) name) s) s"
| "app_step env real ctx new (Conn_commit c) s = on_conn c (\<lambda>o1. hand_on real (Real_commit (raw_conn o1)) s) s"
| "app_step env real ctx new (Conn_rollback c) s = on_conn c (\<lambda>o1. hand_on real (Real_rollback (raw_conn o1)) s) s"
| "app_step env real ctx new (Conn_close c) s = on_conn c (\<lambda>o1. hand_on real (Real_close (raw_conn o1)) s) s"
| "app_step env real ctx new (Conn_exit c exc) s = on_conn c (\<lambda>o1. hand_on real (Real_exit (raw_conn o1) exc) s) s"
| "app_step env real ctx new (Conn_attr c name) s = on_conn c (\<lambda>o1. conn_attr real o1 name s) s"
| "app_step env real ctx new (Set_conn_attr c name v) s = on_conn c (\<lambda>o1. set_conn_attr real c name v s) s"
| "app_step env real ctx new (Popen args extra) s = py_popen env real ctx new args extra s"
| "app_step env real ctx new (Loads data extra) s = py_loads env real ctx new data extra s"

text \<open>
  The steps of a process: calls of the application, and what the request handling and the operator
  do with the agent.
\<close>

datatype process_step =
    App nat nat app_call
  | Wrap_request nat str str str "(nat \<times> str \<times> pyval) list"
  | Finish_request nat
  | Mark_tainted nat nat pyval str str
  | Inspect_query nat nat nat pyval
  | Set_mode nat str
  | Start_agent "str \<times> str" str str str str bool

fun py_step :: "text_of \<Rightarrow> 'w real \<Rightarrow> process_step \<Rightarrow> py_process \<times> 'w \<Rightarrow> (py_exn + real_answer) list \<times> py_process \<times> 'w" where
  "py_step env real (App ctx new c) s = (case app_step env real ctx new c s of (r, s1) \<Rightarrow> ([r], s1))"
| "py_step env real (Wrap_request ctx hexes route verb params) s = ([], snd (wrap_request ctx hexes route verb params (fst s)), snd s)"
| "py_step env real (Finish_request ctx) s = ([], finish_request ctx (fst s), snd s)"
| "py_step env real (Mark_tainted ctx new v kind name) s =
     ([], (fst s)\<lparr>pp_taint := snd (mark_tainted ctx new v kind name (pp_taint (fst s)))\<rparr>, snd s)"
| "py_step env real (Inspect_query a ctx new sql) s = ([], snd (inspect_query a ctx new sql (fst s)), snd s)"
| "py_step env real (Set_mode a mode) s = ([], set_agent_mode a mode (fst s), snd s)"
| "py_step env real (Start_agent uuids i org url mode auto) s = ([], agent_start uuids i org url mode auto (fst s), snd s)"

text \<open>What the application sees of a run, and the state after it.\<close>

fun py_run :: "text_of \<Rightarrow> 'w real \<Rightarrow> process_step list \<Rightarrow> py_process \<times> 'w \<Rightarrow> (py_exn + real_answer) list \<times> py_process \<times> 'w" where
  "py_run env real [] s = ([], s)"
| "py_run env real (c # cs) s =
     (case py_step env real c s of (r, s1) \<Rightarrow> (case py_run env real cs s1 of (rs, s2) \<Rightarrow> (r @ rs, s2)))"

end
