(* ===== verification/PythonAgentProps.thy ===== *)
theory PythonAgentProps
  imports PythonAgent
begin

text \<open>
  What the hooks of the Python agent do to an application: in monitoring mode they are invisible, and
  in blocking mode the input of a request is kept from the sinks. The lemmas at the end show where
  that stops.
\<close>

section \<open>Monitoring\<close>

fun agent_valid :: "nat \<Rightarrow> conn_obj \<Rightarrow> bool" where
  "agent_valid n (Raw_conn c) = True"
| "agent_valid n (Conn_proxy c a attrs) = (a < n \<and> attrs = [])"

fun cur_valid :: "nat \<Rightarrow> cur_obj \<Rightarrow> bool" where
  "cur_valid n (Raw_cur c) = True"
| "cur_valid n (Cur_proxy c a) = (a < n)"

text \<open>No agent blocks; wrappers and proxies report to agents; no attribute was assigned to a proxy.\<close>

definition monitoring :: "py_process \<Rightarrow> bool" where
  "monitoring p \<longleftrightarrow> (\<forall>g \<in> set (pp_agents p). pa_protection_mode g \<noteq> ''BLOCK'')
     \<and> (\<forall>a \<in> set_option (pp_connect p) \<union> set_option (pp_popen p) \<union> set_option (pp_loads p). a < length (pp_agents p))
     \<and> (\<forall>c \<in> set (pp_conns p). agent_valid (length (pp_agents p)) c)
     \<and> (\<forall>c \<in> set (pp_curs p). cur_valid (length (pp_agents p)) c)"

definition bare_agent :: "py_agent \<Rightarrow> py_agent" where
  "bare_agent g = g\<lparr>pa_event_buffer := []\<rparr>"

text \<open>The process without hooks: original functions, real connections and cursors.\<close>

definition unhooked :: "py_process \<Rightarrow> py_process" where
  "unhooked p = p\<lparr>pp_agents := map bare_agent (pp_agents p), pp_connect := None, pp_popen := None, pp_loads := None,
     pp_conns := map (Raw_conn \<circ> raw_conn) (pp_conns p), pp_curs := map (Raw_cur \<circ> raw_cur) (pp_curs p)\<rparr>"

fun bare_step :: "process_step \<Rightarrow> process_step" where
  "bare_step (Start_agent uuids i org url mode auto) = Start_agent uuids i org url mode False"
| "bare_step c = c"

text \<open>
  The steps for which the hooks are invisible: blocking is not switched on, no attribute is assigned
  to a connection, and no inspected argument is an iterator.
\<close>

fun harmless_call :: "app_call \<Rightarrow> bool" where
  "harmless_call (Set_conn_attr c name v) = False"
| "harmless_call (Conn_execute c sql extra) = (\<not> one_shot sql)"
| "harmless_call (Cur_execute k sql extra) = (\<not> one_shot sql)"
| "harmless_call (Popen args extra) = (\<not> one_shot args)"
| "harmless_call c = True"

fun harmless :: "process_step \<Rightarrow> bool" where
  "harmless (App ctx new c) = harmless_call c"
| "harmless (Set_mode a mode) = (upper mode \<noteq> ''BLOCK'')"
| "harmless (Start_agent uuids i org url mode auto) = (upper mode \<noteq> ''BLOCK'')"
| "harmless c = True"

text \<open>A monitored process and one without hooks that agree on everything else.\<close>

definition alike :: "py_process \<Rightarrow> py_process \<Rightarrow> bool" where
  "alike p q \<longleftrightarrow> monitoring p \<and> pp_taint q = pp_taint p \<and> map bare_agent (pp_agents q) = map bare_agent (pp_agents p)
     \<and> pp_connect q = None \<and> pp_popen q = None \<and> pp_loads q = None
     \<and> pp_conns q = map (Raw_conn \<circ> raw_conn) (pp_conns p) \<and> pp_curs q = map (Raw_cur \<circ> raw_cur) (pp_curs p)"

definition agree :: "'r \<times> py_process \<times> 'w \<Rightarrow> 'r \<times> py_process \<times> 'w \<Rightarrow> bool" where
  "agree x y \<longleftrightarrow> fst x = fst y \<and> snd (snd x) = snd (snd y) \<and> alike (fst (snd x)) (fst (snd y))"

lemma alike_unhooked: "monitoring p \<Longrightarrow> alike p (unhooked p)"
  by (simp add: alike_def unhooked_def bare_agent_def comp_def)

lemma agree_hand_on: "alike p q \<Longrightarrow> agree (hand_on real c (p, w)) (hand_on real c (q, w))"
  by (simp add: agree_def hand_on_def split: prod.split)

lemma keep_cur_agents [simp]: "pp_agents (fst (snd (keep_cur f x))) = pp_agents (fst (snd x))"
  by (auto simp: keep_cur_def split: prod.split sum.split real_answer.split)

lemma agree_keep_cur:
  assumes "agree x y" "\<And>n. raw_cur (f n) = n" "\<And>n. cur_valid (length (pp_agents (fst (snd x)))) (f n)" "g = Raw_cur"
  shows "agree (keep_cur f x) (keep_cur g y)"
  using assms
  by (auto simp: agree_def keep_cur_def alike_def monitoring_def split: prod.splits sum.splits real_answer.splits)

lemma agree_keep_conn:
  assumes "agree x y" "\<And>n. raw_conn (f n) = n" "\<And>n. agent_valid (length (pp_agents (fst (snd x)))) (f n)" "g = Raw_conn"
  shows "agree (keep_conn f x) (keep_conn g y)"
  using assms
  by (auto simp: agree_def keep_conn_def alike_def monitoring_def split: prod.splits sum.splits real_answer.splits)

lemma on_agent_alike:
  assumes "alike p q" "a < length (pp_agents p)" "\<And>g. bare_agent (f g) = bare_agent g"
  shows "alike (on_agent a f p) q"
proof -
  have mode: "pa_protection_mode (f g) = pa_protection_mode g" for g
    using arg_cong [OF assms(3), of pa_protection_mode g] by (simp add: bare_agent_def)
  have "map bare_agent ((pp_agents p)[a := f (pp_agents p ! a)]) = map bare_agent (pp_agents p)"
    using assms(2,3) by (simp add: map_update list_update_same_conv)
  moreover have "pa_protection_mode g \<noteq> ''BLOCK''" if "g \<in> set ((pp_agents p)[a := f (pp_agents p ! a)])" for g
    using set_update_subset_insert [of "pp_agents p" a "f (pp_agents p ! a)"] that assms(1,2) mode
    by (auto simp: alike_def monitoring_def)
  ultimately show ?thesis
    using assms(1) by (simp add: alike_def monitoring_def on_agent_def)
qed

text \<open>Reporting lets a monitored call pass.\<close>

lemma report_alike:
  assumes "alike p q" "a < length (pp_agents p)"
  shows "fst (report a f arg e p) = None \<and> alike (snd (report a f arg e p)) q"
proof -
  have "pp_agents p ! a \<in> set (pp_agents p)" using assms(2) by simp
  then have "pa_protection_mode (pp_agents p ! a) \<noteq> ''BLOCK''" using assms(1) by (auto simp: alike_def monitoring_def)
  then show ?thesis
    using on_agent_alike [OF assms] assms(1) by (auto simp: report_def buffer_event_def bare_agent_def Let_def split: option.split)
qed

lemma after_join_same: "\<not> one_shot v \<Longrightarrow> after_join v = v"
  by (cases v) auto

lemma popen_args_same: "\<not> one_shot v \<Longrightarrow> snd (popen_command env new v) = v"
  by (cases v) (auto simp: popen_command_def)

lemma cur_execute_agree:
  assumes "alike p q" "cur_valid (length (pp_agents p)) o1" "\<not> one_shot sql"
  shows "agree (cur_execute real ctx new o1 sql extra (p, w)) (hand_on real (Real_execute (raw_cur o1) sql extra) (q, w))"
proof (cases o1)
  case (Raw_cur n)
  then show ?thesis using agree_hand_on [OF assms(1)] by simp
next
  case (Cur_proxy n a)
  define r where "r = report a (check_sql_sink ctx new sql ''sqlite3.Cursor.execute'' (pp_taint p)) sql sql_block p"
  have "fst r = None" "alike (snd r) q"
    using report_alike [OF assms(1)] assms(2) Cur_proxy by (simp_all add: r_def)
  then show ?thesis
    using after_join_same [OF assms(3)]
    by (cases r) (auto simp: Cur_proxy proxy_execute_def hand_on_def agree_def r_def [symmetric] split: prod.split)
qed

lemma cur_execute_agents:
  "length (pp_agents (fst (snd (cur_execute real ctx new o1 sql extra s)))) = length (pp_agents (fst s))"
  by (cases o1; cases s)
    (auto simp: hand_on_def proxy_execute_def report_def buffer_event_def on_agent_def Let_def split: prod.split option.split)

lemma popen_agree:
  assumes "alike p q" "\<not> one_shot args"
  shows "agree (py_popen env real ctx new args extra (p, w)) (hand_on real (Real_popen args extra) (q, w))"
proof (cases "pp_popen p")
  case None
  then show ?thesis using agree_hand_on [OF assms(1)] by (simp add: py_popen_def)
next
  case (Some a)
  obtain cmd where cmd: "popen_command env new args = (cmd, args)"
    using popen_args_same [OF assms(2), of env new] by (cases "popen_command env new args") auto
  define r where "r = report a (case cmd of None \<Rightarrow> None
      | Some c \<Rightarrow> check_command_sink ctx new (Str c) ''subprocess.Popen'' (pp_taint p)) (Str (the cmd)) command_block p"
  have "a < length (pp_agents p)" using assms(1) Some by (simp add: alike_def monitoring_def)
  then have "fst r = None" "alike (snd r) q" using report_alike [OF assms(1)] by (simp_all add: r_def)
  then show ?thesis
    using Some cmd
    by (cases r) (auto simp: py_popen_def hooked_popen_def hand_on_def agree_def r_def [symmetric] split: prod.split)
qed

lemma loads_agree:
  assumes "alike p q"
  shows "agree (py_loads env real ctx new data extra (p, w)) (hand_on real (Real_loads data extra) (q, w))"
proof (cases "pp_loads p")
  case None
  then show ?thesis using agree_hand_on [OF assms(1)] by (simp add: py_loads_def)
next
  case (Some a)
  define r where "r = report a (case decoded env new data of None \<Rightarrow> None
      | Some t \<Rightarrow> check_deserialization_sink env ctx new (Str t) ''pickle.loads'' (pp_taint p)) (Str (the (decoded env new data))) pickle_block p"
  have "a < length (pp_agents p)" using assms(1) Some by (simp add: alike_def monitoring_def)
  then have "fst r = None" "alike (snd r) q" using report_alike [OF assms(1)] by (simp_all add: r_def)
  then show ?thesis
    using Some by (cases r) (auto simp: py_loads_def hooked_loads_def hand_on_def agree_def r_def [symmetric] split: prod.split)
qed

lemma cursor_of_valid: "agent_valid n o1 \<Longrightarrow> cur_valid n (cursor_of o1 m)"
  by (cases o1) auto

lemma raw_cursor_of [simp]: "raw_cur (cursor_of o1 m) = m" "cursor_of (Raw_conn c) = Raw_cur"
  by (cases o1) (auto simp: fun_eq_iff)

lemma conn_execute_agree:
  assumes "alike p q" "agent_valid (length (pp_agents p)) o1" "\<not> one_shot sql"
  shows "agree (conn_execute real ctx new o1 sql extra (p, w)) (conn_execute real ctx new (Raw_conn (raw_conn o1)) sql extra (q, w))"
proof (cases "real (Real_cursor (raw_conn o1)) w")
  case (Pair r w1)
  show ?thesis
  proof (cases "\<exists>n. r = Inr (Made n)")
    case True
    then obtain n where r: "r = Inr (Made n)" ..
    let ?x = "cur_execute real ctx new (cursor_of o1 n) sql extra (p, w1)"
    let ?y = "hand_on real (Real_execute n sql extra) (q, w1)"
    have agree: "agree ?x ?y"
      using cur_execute_agree [OF assms(1) cursor_of_valid [OF assms(2)] assms(3), of real ctx new n] by simp
    have "length (pp_agents (fst (snd ?x))) = length (pp_agents p)" by (simp add: cur_execute_agents)
    then have "agree (keep_cur (cursor_of o1) (Inr (Made n), snd ?x)) (keep_cur Raw_cur (Inr (Made n), snd ?y))"
      using agree cursor_of_valid [OF assms(2)] by (intro agree_keep_cur) (auto simp: agree_def)
    with agree show ?thesis
      by (auto simp: conn_execute_def hand_on_def Pair r agree_def split: prod.splits sum.splits)
  next
    case False
    then show ?thesis
      using assms(1) by (auto simp: conn_execute_def hand_on_def Pair agree_def split: sum.split real_answer.split)
  qed
qed

lemma agree_on_conn:
  assumes "alike p q" "\<And>o1. o1 \<in> set (pp_conns p) \<Longrightarrow> agent_valid (length (pp_agents p)) o1 \<Longrightarrow> agree (f o1) (g (Raw_conn (raw_conn o1)))"
  shows "agree (on_conn c f (p, w)) (on_conn c g (q, w))"
proof (cases "c < length (pp_conns p)")
  case True
  then have "pp_conns p ! c \<in> set (pp_conns p)" by simp
  moreover from this have "agent_valid (length (pp_agents p)) (pp_conns p ! c)" using assms(1) by (simp add: alike_def monitoring_def)
  ultimately show ?thesis using True assms by (simp add: on_conn_def alike_def)
next
  case False
  with assms(1) show ?thesis by (simp add: on_conn_def agree_def alike_def)
qed

lemma agree_on_cur:
  assumes "alike p q" "\<And>o1. cur_valid (length (pp_agents p)) o1 \<Longrightarrow> agree (f o1) (g (Raw_cur (raw_cur o1)))"
  shows "agree (on_cur k f (p, w)) (on_cur k g (q, w))"
proof (cases "k < length (pp_curs p)")
  case True
  then have "cur_valid (length (pp_agents p)) (pp_curs p ! k)" using assms(1) by (simp add: alike_def monitoring_def)
  then show ?thesis using True assms by (simp add: on_cur_def alike_def)
next
  case False
  with assms(1) show ?thesis by (simp add: on_cur_def agree_def alike_def)
qed

lemma py_connect_agree: "alike p q \<Longrightarrow> agree (py_connect real args (p, w)) (py_connect real args (q, w))"
proof -
  assume a: "alike p q"
  have "agree (keep_conn (case pp_connect p of None \<Rightarrow> Raw_conn | Some b \<Rightarrow> (\<lambda>n. Conn_proxy n b [])) (hand_on real (Real_connect args) (p, w)))
      (keep_conn Raw_conn (hand_on real (Real_connect args) (q, w)))"
    using a by (intro agree_keep_conn agree_hand_on)
      (auto simp: alike_def monitoring_def hand_on_def split: option.split prod.split)
  with a show ?thesis by (simp add: py_connect_def hand_on_def alike_def)
qed

lemma app_step_agree:
  assumes "alike p q" "harmless_call c"
  shows "agree (app_step env real ctx new c (p, w)) (app_step env real ctx new c (q, w))"
proof -
  note [simp] = agree_hand_on [OF assms(1)]
  have hand: "length (pp_agents (fst (snd (hand_on real rc (p, w))))) = length (pp_agents p)" for rc
    by (simp add: hand_on_def split: prod.split)
  show ?thesis
  proof (cases c)
    case (Connect args)
    then show ?thesis using py_connect_agree [OF assms(1)] by simp
  next
    case (Open_cursor k)
    have "agree (keep_cur (cursor_of o1) (hand_on real (Real_cursor (raw_conn o1)) (p, w)))
        (keep_cur (cursor_of (Raw_conn (raw_conn o1))) (hand_on real (Real_cursor (raw_conn (Raw_conn (raw_conn o1)))) (q, w)))"
      if "agent_valid (length (pp_agents p)) o1" for o1
      using that by (intro agree_keep_cur) (simp_all add: hand cursor_of_valid)
    then show ?thesis using Open_cursor by (simp add: agree_on_conn [OF assms(1)])
  next
    case (Conn_execute k sql extra)
    then show ?thesis
      using assms by (auto intro!: agree_on_conn conn_execute_agree)
  next
    case (Cur_execute k sql extra)
    have "agree (keep_cur Raw_cur (cur_execute real ctx new o1 sql extra (p, w)))
        (keep_cur Raw_cur (cur_execute real ctx new (Raw_cur (raw_cur o1)) sql extra (q, w)))"
      if "cur_valid (length (pp_agents p)) o1" for o1
      using that assms Cur_execute cur_execute_agree [OF assms(1) that] by (intro agree_keep_cur) simp_all
    then show ?thesis using Cur_execute by (simp add: agree_on_cur [OF assms(1)])
  next
    case (Popen args extra)
    then show ?thesis using assms popen_agree [OF assms(1)] by (simp add: py_popen_def [of _ _ _ _ _ _ "(q, w)"] alike_def)
  next
    case (Loads data extra)
    then show ?thesis using assms loads_agree [OF assms(1)] by (simp add: py_loads_def [of _ _ _ _ _ _ "(q, w)"] alike_def)
  next
    case (Conn_attr k name)
    have "agree (conn_attr real o1 name (p, w)) (conn_attr real (Raw_conn (raw_conn o1)) name (q, w))"
      if "agent_valid (length (pp_agents p)) o1" for o1
      using that by (cases o1) (auto simp: dget_def)
    then show ?thesis using Conn_attr by (simp add: agree_on_conn [OF assms(1)])
  next
    case (Set_conn_attr k name v)
    then show ?thesis using assms(2) by simp
  qed (simp_all add: agree_on_conn [OF assms(1)] agree_on_cur [OF assms(1)] agree_keep_cur)
qed

lemma taint_alike: "alike p q \<Longrightarrow> alike (p\<lparr>pp_taint := t\<rparr>) (q\<lparr>pp_taint := t\<rparr>)"
  by (simp add: alike_def monitoring_def)

lemma alike_sym_agent:
  assumes "alike p q" "\<And>g. bare_agent (f g) = bare_agent g"
  shows "alike p (on_agent a f q)"
proof -
  have "map bare_agent ((pp_agents q)[a := f (pp_agents q ! a)]) = map bare_agent (pp_agents q)"
  proof (cases "a < length (pp_agents q)")
    case True
    then show ?thesis using assms(2) by (simp add: map_update list_update_same_conv)
  qed (simp add: list_update_beyond)
  with assms(1) show ?thesis by (simp add: alike_def on_agent_def)
qed

lemma on_both_alike:
  assumes "alike p q" "\<And>g. bare_agent (f g) = f (bare_agent g)" "\<And>g. pa_protection_mode (f g) \<noteq> ''BLOCK''"
  shows "alike (on_agent a f p) (on_agent a f q)"
proof (cases "a < length (pp_agents p)")
  case True
  have len: "length (pp_agents q) = length (pp_agents p)" using assms(1) by (metis alike_def length_map)
  have "bare_agent (pp_agents q ! a) = bare_agent (pp_agents p ! a)"
  proof -
    have "map bare_agent (pp_agents q) ! a = map bare_agent (pp_agents p) ! a" using assms(1) by (simp add: alike_def)
    with True len show ?thesis by simp
  qed
  with assms(1,2) have "map bare_agent ((pp_agents q)[a := f (pp_agents q ! a)]) = map bare_agent ((pp_agents p)[a := f (pp_agents p ! a)])"
    by (simp add: map_update alike_def)
  moreover have "pa_protection_mode g \<noteq> ''BLOCK''" if "g \<in> set ((pp_agents p)[a := f (pp_agents p ! a)])" for g
    using set_update_subset_insert [of "pp_agents p" a "f (pp_agents p ! a)"] that assms
    by (auto simp: alike_def monitoring_def)
  ultimately show ?thesis using assms(1) by (simp add: alike_def monitoring_def on_agent_def)
next
  case False
  moreover have "length (pp_agents q) = length (pp_agents p)" using assms(1) by (metis alike_def length_map)
  ultimately show ?thesis using assms(1) by (simp add: on_agent_def list_update_beyond)
qed

lemma start_alike:
  assumes "alike p q" "upper mode \<noteq> ''BLOCK''"
  shows "alike (agent_start uuids i org url mode auto p) (agent_start uuids i org url mode False q)"
proof -
  have "agent_valid n o1 \<Longrightarrow> agent_valid (Suc n) o1" "cur_valid n o2 \<Longrightarrow> cur_valid (Suc n) o2" for n o1 o2
    by (cases o1; simp) (cases o2; simp)
  with assms show ?thesis
    by (auto simp: agent_start_def Let_def alike_def monitoring_def hook_all_sinks_def hook_sqlite3_def hook_subprocess_def
        hook_pickle_def new_py_agent_def less_Suc_eq)
qed

lemma inspect_alike:
  assumes "alike p q"
  shows "alike (snd (inspect_query a ctx new sql p)) (snd (inspect_query a ctx new sql q))"
proof -
  have b: "bare_agent (g\<lparr>pa_event_buffer := pa_event_buffer g @ [f]\<rparr>) = bare_agent g" for g f by (simp add: bare_agent_def)
  have "alike (buffer_event a f p) (buffer_event a f q)" for f
  proof (cases "a < length (pp_agents p)")
    case True
    show ?thesis unfolding buffer_event_def
      by (rule alike_sym_agent [OF on_agent_alike [OF assms True] b]) (rule b)+
  next
    case False
    then have "buffer_event a f p = p" by (simp add: buffer_event_def on_agent_def list_update_beyond)
    then show ?thesis using alike_sym_agent [OF assms b] by (simp add: buffer_event_def)
  qed
  with assms show ?thesis by (simp add: inspect_query_def alike_def [of p q] split: option.split)
qed

lemma py_step_agree:
  assumes "alike p q" "harmless c"
  shows "agree (py_step env real c (p, w)) (py_step env real (bare_step c) (q, w))"
proof (cases c)
  case (App ctx new a)
  with assms have "agree (app_step env real ctx new a (p, w)) (app_step env real ctx new a (q, w))"
    by (intro app_step_agree) simp_all
  then show ?thesis by (auto simp: App agree_def split: prod.split)
next
  case (Inspect_query a ctx new sql)
  then show ?thesis using inspect_alike [OF assms(1)] by (simp add: agree_def)
next
  case (Set_mode a mode)
  with assms have "alike (set_agent_mode a mode p) (set_agent_mode a mode q)"
    unfolding set_agent_mode_def by (intro on_both_alike) (simp_all add: bare_agent_def)
  then show ?thesis by (simp add: Set_mode agree_def)
next
  case (Start_agent uuids i org url mode auto)
  with assms start_alike [OF assms(1)] show ?thesis by (simp add: agree_def)
next
  case (Wrap_request ctx hexes route verb params)
  then show ?thesis
    using assms(1) by (simp add: agree_def wrap_request_def Let_def alike_def monitoring_def)
next
  case (Finish_request ctx)
  then show ?thesis using assms(1) by (simp add: agree_def finish_request_def alike_def monitoring_def)
next
  case (Mark_tainted ctx new v kind name)
  then show ?thesis using assms(1) by (simp add: agree_def alike_def monitoring_def)
qed


section \<open>Blocking\<close>

text \<open>The text stands in the registry with fewer than \<open>n\<close> entries after it, under the object's id.\<close>

definition recent :: "nat \<Rightarrow> nat \<Rightarrow> str \<Rightarrow> (nat, taint_record) dict \<Rightarrow> bool" where
  "recent n i text d \<longleftrightarrow> (\<exists>xs r ys. d = xs @ (i, r) # ys \<and> te_value r = text \<and> length ys < n)"

lemma dput_append: "dput k v (xs @ ys) = (if k \<in> fst ` set xs then dput k v xs @ ys else xs @ dput k v ys)"
proof (induction xs)
  case (Cons x xs)
  then show ?case by (cases x) (auto split: if_splits)
qed simp

lemma recent_dput:
  assumes "recent n i text d" "j = i \<Longrightarrow> te_value v = text"
  shows "recent (Suc n) i text (dput j v d)"
proof -
  obtain xs r ys where d: "d = xs @ (i, r) # ys" "te_value r = text" "length ys < n" using assms(1) by (auto simp: recent_def)
  consider "j \<in> fst ` set xs" | "j \<notin> fst ` set xs" "j = i" | "j \<notin> fst ` set xs" "j \<noteq> i" by blast
  then show ?thesis
  proof cases
    case 1
    then have "dput j v d = dput j v xs @ (i, r) # ys" by (simp add: d dput_append)
    with d show ?thesis unfolding recent_def by (metis less_Suc_eq)
  next
    case 2
    then have "dput j v d = xs @ (i, v) # ys" by (simp add: d dput_append)
    with d 2 assms(2) show ?thesis unfolding recent_def by (metis less_Suc_eq)
  next
    case 3
    then have "dput j v d = xs @ (i, r) # dput j v ys" by (simp add: d dput_append)
    moreover have "length (dput j v ys) < Suc n" using d by (simp add: length_dput)
    ultimately show ?thesis using d unfolding recent_def by blast
  qed
qed

lemma recent_new: "i \<notin> fst ` set d \<Longrightarrow> recent 1 i (te_value v) (dput i v d)"
  by (auto simp: recent_def dput_new)

lemma recent_mono: "recent n i text d \<Longrightarrow> n \<le> m \<Longrightarrow> recent m i text d"
  unfolding recent_def by (elim exE conjE) (intro exI conjI, assumption+, simp)

lemma tainted_by_text:
  assumes "recent n i text (ts_registry s)" "n \<le> 50" "3 \<le> length text" "contains text (ps_text q)" "ts_traces s ctx \<noteq> None"
  shows "is_tainted ctx q s \<noteq> None"
proof -
  obtain xs r ys where d: "ts_registry s = xs @ (i, r) # ys" "te_value r = text" "length ys < n"
    using assms(1) by (auto simp: recent_def)
  have "(i, r) \<in> set (latest (ts_registry s))"
    using d assms(2) by (simp add: latest_def)
  moreover from assms(3) have "text \<noteq> []" by auto
  ultimately have "find (\<lambda>(_, r). te_value r \<noteq> [] \<and> 3 \<le> length (te_value r) \<and> contains (te_value r) (ps_text q))
      (latest (ts_registry s)) \<noteq> None"
    using d(2) assms(3,4) by (auto simp: find_None_iff)
  with assms(5) show ?thesis by (auto simp: is_tainted_def split: option.split)
qed

text \<open>What a step marks: the id of the wrapper and the object.\<close>

fun marks :: "process_step \<Rightarrow> (nat \<times> pyval) list" where
  "marks (Wrap_request ctx hexes route verb params) = map (\<lambda>(new, key, v). (new, v)) params"
| "marks (Mark_tainted ctx new v kind name) = [(new, v)]"
| "marks c = []"

text \<open>Objects are told apart by their id, and wrappers are new objects.\<close>

definition apart :: "pystr \<Rightarrow> nat \<times> pyval \<Rightarrow> bool" where
  "apart v m \<longleftrightarrow> fst m \<noteq> ps_id v \<and> (\<forall>q. snd m = Str q \<longrightarrow> ps_id q = ps_id v \<longrightarrow> ps_text q = ps_text v)"

fun within_request :: "nat \<Rightarrow> process_step \<Rightarrow> bool" where
  "within_request ctx (Wrap_request c hexes route verb params) = (c \<noteq> ctx)"
| "within_request ctx (Finish_request c) = (c \<noteq> ctx)"
| "within_request ctx c = True"

lemma mark_recent:
  assumes "recent n (ps_id v) (ps_text v) (ts_registry s)" "apart v (new, u)"
  shows "recent (n + 2) (ps_id v) (ps_text v) (ts_registry (snd (mark_tainted ctx new u kind name s)))"
proof (cases u)
  case (Str q)
  show ?thesis
  proof (cases "ps_text q = []")
    case False
    have "recent (Suc (Suc n)) (ps_id v) (ps_text v)
        (dput new (mark_record (ps_text q) kind name) (dput (ps_id q) (mark_record (ps_text q) kind name) (ts_registry s)))"
      using assms Str by (intro recent_dput) (auto simp: apart_def mark_record_def)
    with False Str show ?thesis by (simp add: mark_tainted_def Let_def)
  qed (use recent_mono [OF assms(1)] Str in \<open>simp add: mark_tainted_def\<close>)
qed (use recent_mono [OF assms(1)] in \<open>simp_all add: mark_tainted_def\<close>)

definition trace_id_at :: "nat \<Rightarrow> taint_state \<Rightarrow> str option" where
  "trace_id_at ctx s = map_option rt_trace_id (ts_traces s ctx)"

lemma mark_trace: "trace_id_at ctx (snd (mark_tainted c new u kind name s)) = trace_id_at ctx s"
  by (cases u) (auto simp: mark_tainted_def trace_id_at_def Let_def option.map_comp comp_def)

lemma parameters_trace: "trace_id_at ctx (mark_parameters c params s) = trace_id_at ctx s"
  by (induction params arbitrary: s) (auto simp: mark_trace)

lemma parameters_recent:
  assumes "recent n (ps_id v) (ps_text v) (ts_registry s)" "\<forall>(new, key, u) \<in> set params. apart v (new, u)"
  shows "recent (n + 2 * length params) (ps_id v) (ps_text v) (ts_registry (mark_parameters ctx params s))"
  using assms
proof (induction params arbitrary: s n)
  case (Cons x params)
  obtain new key u where x: "x = (new, key, u)" by (metis prod_cases3)
  have "recent (n + 2) (ps_id v) (ps_text v) (ts_registry (snd (mark_tainted ctx new u ''PARAMETER'' key s)))"
    using Cons.prems x by (intro mark_recent) auto
  from Cons.IH [OF this] Cons.prems show ?case by (simp add: x)
qed simp

text \<open>Calls of the application leave the taint alone.\<close>

lemma on_agent_taint [simp]: "pp_taint (on_agent a f p) = pp_taint p"
  by (simp add: on_agent_def)

lemma hand_on_taint [simp]: "pp_taint (fst (snd (hand_on real c s))) = pp_taint (fst s)"
  by (cases s) (simp add: hand_on_def split: prod.split)

lemma keep_taint [simp]:
  "pp_taint (fst (snd (keep_cur f x))) = pp_taint (fst (snd x))" "pp_taint (fst (snd (keep_conn g x))) = pp_taint (fst (snd x))"
  by (auto simp: keep_cur_def keep_conn_def split: prod.split sum.split real_answer.split)

lemma report_taint [simp]: "pp_taint (snd (report a f arg e p)) = pp_taint p"
  by (simp add: report_def buffer_event_def Let_def split: option.split)

lemma report_taint': "report a f arg e p = (r, p1) \<Longrightarrow> pp_taint p1 = pp_taint p"
  using report_taint [of a f arg e p] by simp

lemma cur_execute_taint [simp]: "pp_taint (fst (snd (cur_execute real ctx new o1 sql extra s))) = pp_taint (fst s)"
  by (cases o1; cases s)
    (auto simp: proxy_execute_def split: prod.split option.split dest: report_taint')

lemma conn_execute_taint [simp]: "pp_taint (fst (snd (conn_execute real ctx new o1 sql extra s))) = pp_taint (fst s)"
proof -
  obtain r s1 where h: "hand_on real (Real_cursor (raw_conn o1)) s = (r, s1)" by (meson prod.exhaust)
  then have t: "pp_taint (fst s1) = pp_taint (fst s)" using hand_on_taint [of real "Real_cursor (raw_conn o1)" s] by simp
  have "pp_taint (fst s2) = pp_taint (fst s1)" if "cur_execute real ctx new (cursor_of o1 n) sql extra s1 = (r2, s2)" for n r2 s2
    using cur_execute_taint [of real ctx new "cursor_of o1 n" sql extra s1] that by simp
  with h t show ?thesis by (auto simp: conn_execute_def split: sum.split real_answer.split prod.split)
qed

lemma hooks_taint [simp]:
  "pp_taint (fst (snd (py_popen env real ctx new args extra s))) = pp_taint (fst s)"
  "pp_taint (fst (snd (py_loads env real ctx new data extra s))) = pp_taint (fst s)"
  by (cases s; auto simp: py_popen_def py_loads_def hooked_popen_def hooked_loads_def split: prod.split option.split
      dest: report_taint')+

lemma py_connect_taint [simp]: "pp_taint (fst (snd (py_connect real args s))) = pp_taint (fst s)"
  by (cases s) (simp add: py_connect_def Let_def split: prod.split)

lemma app_taint: "pp_taint (fst (snd (app_step env real ctx new c s))) = pp_taint (fst s)"
proof (cases c)
  case (Conn_attr k name)
  have "pp_taint (fst (snd (conn_attr real o1 name s))) = pp_taint (fst s)" for o1
    by (cases o1) (auto split: option.split)
  then show ?thesis by (simp add: Conn_attr on_conn_def)
next
  case (Set_conn_attr k name v)
  have "pp_taint (fst (snd (set_conn_attr real k name v s))) = pp_taint (fst s)"
    by (cases s) (auto simp: set_conn_attr_def split: conn_obj.split)
  then show ?thesis by (simp add: Set_conn_attr on_conn_def)
qed (simp_all add: on_conn_def on_cur_def)

lemma step_recent:
  assumes "recent n (ps_id v) (ps_text v) (ts_registry (pp_taint (fst s)))" "\<forall>m \<in> set (marks c). apart v m"
  shows "recent (n + 2 * length (marks c)) (ps_id v) (ps_text v) (ts_registry (pp_taint (fst (snd (py_step env real c s)))))"
proof (cases c)
  case (App ctx new a)
  with assms(1) app_taint [of env real ctx new a s] show ?thesis by (auto split: prod.split)
next
  case (Wrap_request ctx hexes route verb params)
  with assms have "recent (n + 2 * length params) (ps_id v) (ps_text v)
      (ts_registry (mark_parameters ctx params (start_request_trace ctx (''py-trace-'' @ take 12 hexes) route verb (pp_taint (fst s)))))"
    by (intro parameters_recent) (auto simp: start_request_trace_def)
  with Wrap_request show ?thesis by (simp add: wrap_request_def Let_def)
next
  case (Mark_tainted ctx new u kind name)
  with assms mark_recent [OF assms(1)] show ?thesis by simp
next
  case (Inspect_query a ctx new sql)
  with assms(1) show ?thesis by (simp add: inspect_query_def buffer_event_def split: option.split)
qed (use assms(1) in \<open>simp_all add: finish_request_def clear_request_trace_def set_agent_mode_def agent_start_def hook_all_sinks_def
    hook_pickle_def hook_subprocess_def hook_sqlite3_def Let_def\<close>)

lemma step_trace:
  assumes "within_request ctx c"
  shows "trace_id_at ctx (pp_taint (fst (snd (py_step env real c s)))) = trace_id_at ctx (pp_taint (fst s))"
proof (cases c)
  case (App c1 new a)
  with app_taint [of env real c1 new a s] show ?thesis by (auto split: prod.split)
next
  case (Wrap_request c1 hexes route verb params)
  with assms show ?thesis
    by (simp add: wrap_request_def Let_def parameters_trace) (simp add: trace_id_at_def start_request_trace_def)
next
  case (Mark_tainted c1 new u kind name)
  then show ?thesis by (simp add: mark_trace)
next
  case (Inspect_query a c1 new sql)
  then show ?thesis by (simp add: inspect_query_def buffer_event_def split: option.split)
qed (use assms in \<open>simp_all add: finish_request_def clear_request_trace_def set_agent_mode_def agent_start_def hook_all_sinks_def
    hook_pickle_def hook_subprocess_def hook_sqlite3_def Let_def trace_id_at_def\<close>)

lemma run_recent:
  assumes "recent n (ps_id v) (ps_text v) (ts_registry (pp_taint (fst s)))" "\<forall>c \<in> set cs. \<forall>m \<in> set (marks c). apart v m"
    "\<forall>c \<in> set cs. within_request ctx c"
  shows "recent (n + 2 * length (concat (map marks cs))) (ps_id v) (ps_text v) (ts_registry (pp_taint (fst (snd (py_run env real cs s)))))
    \<and> trace_id_at ctx (pp_taint (fst (snd (py_run env real cs s)))) = trace_id_at ctx (pp_taint (fst s))"
  using assms
proof (induction cs arbitrary: s n)
  case (Cons c cs)
  obtain r s1 where run: "py_step env real c s = (r, s1)" by (meson prod.exhaust)
  have "recent (n + 2 * length (marks c)) (ps_id v) (ps_text v) (ts_registry (pp_taint (fst s1)))"
    using step_recent [OF Cons.prems(1), of c env real] Cons.prems(2) run by simp
  note Cons.IH [OF this]
  moreover have "trace_id_at ctx (pp_taint (fst s1)) = trace_id_at ctx (pp_taint (fst s))"
    using step_trace [of ctx c env real s] Cons.prems(3) run by simp
  ultimately show ?case using Cons.prems by (auto simp: run algebra_simps split: prod.split)
qed simp

lemma parameter_recent:
  assumes "(new0, key0, Str v) \<in> set params" "ps_text v \<noteq> []" "ps_id v \<notin> fst ` set (ts_registry s)"
    "\<forall>(new, key, u) \<in> set params. apart v (new, u)"
  shows "recent (2 * length params) (ps_id v) (ps_text v) (ts_registry (mark_parameters ctx params s))"
  using assms
proof (induction params arbitrary: s)
  case (Cons x params)
  obtain new key u where x: "x = (new, key, u)" by (metis prod_cases3)
  then have apart: "apart v (new, u)" using Cons.prems(4) by simp
  let ?s = "snd (mark_tainted ctx new u ''PARAMETER'' key s)"
  show ?case
  proof (cases "\<exists>q. u = Str q \<and> ps_id q = ps_id v")
    case True
    then obtain q where same: "u = Str q" "ps_id q = ps_id v" by blast
    moreover from same apart have "ps_text q = ps_text v" by (simp add: apart_def)
    ultimately have q: "u = Str q" "ps_id q = ps_id v" "ps_text q = ps_text v" by simp_all
    define r where "r = mark_record (ps_text q) ''PARAMETER'' key"
    have r: "te_value r = ps_text v" by (simp add: r_def mark_record_def q(3))
    have "recent (Suc 1) (ps_id v) (ps_text v) (dput new r (dput (ps_id v) r (ts_registry s)))"
      using recent_new [OF Cons.prems(3), of r] r by (intro recent_dput) simp_all
    then have "recent 2 (ps_id v) (ps_text v) (ts_registry ?s)"
      using q Cons.prems(2) by (simp add: mark_tainted_def r_def Let_def numeral_2_eq_2)
    from parameters_recent [OF this, of params ctx] Cons.prems(4) show ?thesis by (auto simp: x)
  next
    case False
    with Cons.prems(1) x have "(new0, key0, Str v) \<in> set params" by auto
    moreover have "ps_id v \<notin> fst ` set (ts_registry ?s)"
      using False Cons.prems(3) apart
      by (cases u) (auto simp: mark_tainted_def Let_def apart_def set_keys_dput)
    ultimately have "recent (2 * length params) (ps_id v) (ps_text v) (ts_registry (mark_parameters ctx params ?s))"
      using Cons.IH Cons.prems by simp
    then show ?thesis using recent_mono [of "2 * length params" "ps_id v"] by (simp add: x)
  qed
qed simp

lemma inspect_flagged:
  assumes "is_tainted ctx q s \<noteq> None" "trace_id_at ctx s = Some t" "case trigger of None \<Rightarrow> True | Some c \<Rightarrow> c (ps_text q)"
  shows "\<exists>f. inspect_generic_sink ctx new (Str q) rule severity sig trigger s = Some f \<and> sf_trace_id f = t \<and> sf_rule_key f = rule"
  using assms by (auto simp: inspect_generic_sink_def trace_id_at_def split: option.splits)

lemma str_of_Str: "decoded env new (Str q) = Some (if ps_taint q = None then q else plain new (ps_text q))"
  by (simp add: decoded_def)

lemma decoded_plain: "decoded env new data = Some t \<Longrightarrow> ps_taint t = None"
  by (cases data) (auto simp: decoded_def plain_def split: if_splits)

text \<open>A finding in blocking mode stops each of the three calls.\<close>

lemma blocked_calls:
  assumes "pa_protection_mode (pp_agents p ! a) = ''BLOCK''"
  shows "check_sql_sink ctx new (Str stmt) ''sqlite3.Cursor.execute'' (pp_taint p) = Some f \<Longrightarrow> k < length (pp_curs p) \<Longrightarrow>
      pp_curs p ! k = Cur_proxy n a \<Longrightarrow>
      app_step env real ctx new (Cur_execute k (Str stmt) extra) (p, w) = (Inl sql_block, buffer_event a f p, w)"
    and "popen_command env new args = (Some cmd, rest) \<Longrightarrow> pp_popen p = Some a \<Longrightarrow>
      check_command_sink ctx new (Str cmd) ''subprocess.Popen'' (pp_taint p) = Some f \<Longrightarrow>
      app_step env real ctx new (Popen args extra) (p, w) = (Inl command_block, buffer_event a f p, w)"
    and "decoded env new data = Some t \<Longrightarrow> pp_loads p = Some a \<Longrightarrow>
      check_deserialization_sink env ctx new (Str t) ''pickle.loads'' (pp_taint p) = Some f \<Longrightarrow>
      app_step env real ctx new (Loads data extra) (p, w) = (Inl pickle_block, buffer_event a f p, w)"
  using assms
  by (auto simp: on_cur_def proxy_execute_def report_def keep_cur_def py_popen_def hooked_popen_def py_loads_def hooked_loads_def Let_def)

text \<open>The parameter is still tainted, and the request still known, after the steps that follow.\<close>

lemma request_input_is_tainted:
  assumes "(new0, key, Str v) \<in> set params" "3 \<le> length (ps_text v)" "ps_id v \<notin> fst ` set (ts_registry (pp_taint p))"
    and "\<forall>c \<in> set (Wrap_request ctx hexes route verb params # later). \<forall>m \<in> set (marks c). apart v m"
    and "length params + length (concat (map marks later)) \<le> 25" "\<forall>c \<in> set later. within_request ctx c"
    and "snd (py_run env real (Wrap_request ctx hexes route verb params # later) (p, w)) = (p1, w1)"
  shows "trace_id_at ctx (pp_taint p1) = Some (''py-trace-'' @ take 12 hexes)"
    and "contains (ps_text v) (ps_text q) \<Longrightarrow> is_tainted ctx q (pp_taint p1) \<noteq> None"
proof -
  define p0 where "p0 = snd (wrap_request ctx hexes route verb params p)"
  have "\<forall>(new, key, u) \<in> set params. apart v (new, u)" using assms(4) by auto
  moreover have "ps_text v \<noteq> []" using assms(2) by auto
  ultimately have "recent (2 * length params) (ps_id v) (ps_text v) (ts_registry (pp_taint p0))"
    using parameter_recent [OF assms(1)] assms(3) by (simp add: p0_def wrap_request_def Let_def start_request_trace_def)
  moreover have "trace_id_at ctx (pp_taint p0) = Some (''py-trace-'' @ take 12 hexes)"
    by (simp add: p0_def wrap_request_def Let_def parameters_trace) (simp add: trace_id_at_def start_request_trace_def)
  moreover have "snd (py_run env real later (p0, w)) = (p1, w1)"
    using assms(7) by (simp add: p0_def split: prod.splits)
  ultimately have rec: "recent (2 * length params + 2 * length (concat (map marks later))) (ps_id v) (ps_text v) (ts_registry (pp_taint p1))"
    and trace: "trace_id_at ctx (pp_taint p1) = Some (''py-trace-'' @ take 12 hexes)"
    using run_recent [of "2 * length params" v "(p0, w)" later ctx env real] assms(4,6) by simp_all
  show "trace_id_at ctx (pp_taint p1) = Some (''py-trace-'' @ take 12 hexes)" by (rule trace)
  show "is_tainted ctx q (pp_taint p1) \<noteq> None" if "contains (ps_text v) (ps_text q)"
    using tainted_by_text [OF rec _ assms(2) that] assms(5) trace by (auto simp: trace_id_at_def)
qed


section \<open>Samples\<close>

text \<open>An outside world that records the calls.\<close>

fun logged :: "real_call list real" where
  "logged (Real_connect args) w = (Inr (Made 0), w @ [Real_connect args])"
| "logged (Real_cursor n) w = (Inr (Made 1), w @ [Real_cursor n])"
| "logged (Real_execute n sql extra) w = (Inr (Made n), w @ [Real_execute n sql extra])"
| "logged c w = (Inr (Value (Obj 0)), w @ [c])"

definition ascii_texts :: text_of where
  "ascii_texts = \<lparr>to_decode = filter (\<lambda>c. (of_char c :: nat) < 128), to_str = (\<lambda>v. Some ''object'')\<rparr>"

definition started :: "str \<Rightarrow> py_process" where
  "started mode = agent_start (''agent'', ''org'') [] [] ''http://localhost:8081'' mode True
     \<lparr>pp_taint = \<lparr>ts_registry = [], ts_traces = (\<lambda>_. None)\<rparr>, pp_agents = [], pp_connect = None, pp_popen = None,
      pp_loads = None, pp_conns = [], pp_curs = []\<rparr>"

definition connected :: "str \<Rightarrow> py_process \<times> real_call list" where
  "connected mode = snd (py_run ascii_texts logged [App 0 0 (Connect (Obj 1)), App 0 0 (Open_cursor 0)] (started mode, []))"

definition parameter :: pystr where "parameter = plain 7 ''1 OR 1=1''"
definition harmless_sql :: pyval where "harmless_sql = Str (plain 20 ''SELECT 1'')"
definition attack_sql :: pyval where "attack_sql = Str (plain 21 ''SELECT * FROM t WHERE a = 1 OR 1=1'')"

definition request :: process_step where
  "request = Wrap_request 0 ''0123456789abcdef'' ''/items'' ''GET'' [(8, ''q'', Str parameter)]"

definition monitored_steps :: "process_step list" where
  "monitored_steps = [App 0 0 (Connect (Obj 1)), App 0 0 (Open_cursor 0), request, App 0 0 (Cur_execute 0 attack_sql (Obj 2)),
     App 0 9 (Popen (Seq [Str (plain 22 ''ls''), Str parameter]) (Obj 3)), Finish_request 0]"



section \<open>Where protection stops\<close>

text \<open>
  The cursor that \<open>execute\<close> gives back is the real one, and \<open>executescript\<close> and \<open>executemany\<close> are not
  inspected: in blocking mode the attack reaches the database through each.
\<close>

lemma chained_execute_escapes:
  "snd (snd (py_run ascii_texts logged [App 0 0 (Cur_execute 0 harmless_sql (Obj 2)), request, App 0 0 (Cur_execute 1 attack_sql (Obj 2))]
     (connected ''BLOCK''))) = [Real_connect (Obj 1), Real_cursor 0, Real_execute 1 harmless_sql (Obj 2), Real_execute 1 attack_sql (Obj 2)]"
  by code_simp

lemma script_escapes:
  "last (snd (snd (py_run ascii_texts logged [request, App 0 0 (Cur_executescript 0 attack_sql)] (connected ''BLOCK''))))
     = Real_executescript 1 attack_sql"
  "last (snd (snd (py_run ascii_texts logged [request, App 0 0 (Cur_executemany 0 attack_sql (Obj 2))] (connected ''BLOCK''))))
     = Real_executemany 1 attack_sql (Obj 2)"
  by code_simp+

text \<open>
  The bound of 25 is sharp: after the attack come 25 more parameters in the same request, and the
  statement passes.
\<close>

definition padding :: "nat \<Rightarrow> nat \<times> str \<times> pyval" where
  "padding n = (n, ''x'', Str (plain (25 + n) ''pad''))"

lemma padding_hides_the_attack:
  "last (snd (snd (py_run ascii_texts logged
       [Wrap_request 0 ''0123456789abcdef'' ''/items'' ''GET'' ((8, ''q'', Str parameter) # map padding [30 ..< 55]),
        App 0 0 (Cur_execute 0 (Str (plain 21 ''1 OR 1=1'')) (Obj 2))] (connected ''BLOCK''))))
     = Real_execute 1 (Str (plain 21 ''1 OR 1=1'')) (Obj 2)"
  by code_simp

text \<open>
  A wrapper is dropped once it is made, and its id stays in the registry: an unrelated string at the
  same address counts as tainted, outside of any request too, and blocks.
\<close>

lemma reused_address_blocks:
  "fst (app_step ascii_texts logged 0 0 (Cur_execute 0 (Str (plain 8 ''SELECT 1'')) (Obj 2))
     (snd (py_run ascii_texts logged [request, Finish_request 0] (connected ''BLOCK'')))) = Inl sql_block"
  by code_simp

text \<open>What an earlier request sent is looked for in a later one.\<close>

lemma taint_outlives_its_request:
  "fst (app_step ascii_texts logged 1 0 (Cur_execute 0 attack_sql (Obj 2))
     (snd (py_run ascii_texts logged [request, Finish_request 0, Wrap_request 1 ''ffffffffffff'' ''/'' ''GET'' []] (connected ''BLOCK''))))
     = Inl sql_block"
  by code_simp

text \<open>The registry only grows.\<close>

lemma registry_grows:
  "length (ts_registry (pp_taint (fst s))) \<le> length (ts_registry (pp_taint (fst (snd (py_step env real c s)))))"
proof -
  have mark: "length (ts_registry s) \<le> length (ts_registry (snd (mark_tainted ctx new u kind name s)))" for ctx new u kind name s
    by (cases u) (auto simp: mark_tainted_def Let_def length_dput)
  have marks: "length (ts_registry s) \<le> length (ts_registry (mark_parameters ctx params s))" for ctx params s
  proof (induction params arbitrary: s)
    case (Cons x params)
    then show ?case by (cases x) (auto intro: order_trans [OF mark])
  qed simp
  show ?thesis
  proof (cases c)
    case (App ctx new a)
    with app_taint [of env real ctx new a s] show ?thesis by (auto split: prod.split)
  next
    case (Wrap_request ctx hexes route verb params)
    then show ?thesis
      using marks [of "start_request_trace ctx (''py-trace-'' @ take 12 hexes) route verb (pp_taint (fst s))" ctx params]
      by (simp add: wrap_request_def Let_def start_request_trace_def)
  next
    case (Mark_tainted ctx new u kind name)
    with mark show ?thesis by simp
  next
    case (Inspect_query a ctx new sql)
    then show ?thesis by (simp add: inspect_query_def buffer_event_def split: option.split)
  qed (simp_all add: finish_request_def clear_request_trace_def set_agent_mode_def agent_start_def hook_all_sinks_def
      hook_pickle_def hook_subprocess_def hook_sqlite3_def Let_def)
qed

text \<open>
  An attribute assigned to a proxied connection never reaches it, and an inspected iterator reaches
  the process exhausted.
\<close>

lemma attribute_stays_on_the_proxy:
  "snd (snd (py_run ascii_texts logged [App 0 0 (Set_conn_attr 0 ''row_factory'' (Obj 5))] (connected ''MONITOR'')))
     = [Real_connect (Obj 1), Real_cursor 0]"
  by code_simp

lemma iterator_arrives_exhausted:
  "last (snd (snd (py_run ascii_texts logged [App 0 0 (Popen (Iter [Str (plain 30 ''ls'')]) (Obj 3))] (connected ''MONITOR''))))
     = Real_popen (Iter []) (Obj 3)"
  by code_simp

end
