(* ===== verification/RuleCatalogue.thy ===== *)
theory RuleCatalogue
  imports Fleet
begin

text \<open>
  The detection rule catalogue: signed bundles, what a deployment accepts, what an organization has
  switched off (\<open>domain/entities/rules.py\<close>, \<open>application/rules.py\<close>,
  \<open>infrastructure/security/bundle_signing.py\<close> and the two repositories).
\<close>

section \<open>Canonical JSON\<close>

text \<open>
  \<open>json.dumps(value, sort_keys=True, separators=(",", ":"), ensure_ascii=False)\<close>; \<open>fl\<close> is the text of
  a float, which no bundle contains. A character below the blank without a short escape is written
  with four hexadecimal digits.
\<close>

definition json_escape :: "char \<Rightarrow> str" where
  "json_escape c =
     (let n = (of_char c :: nat) in
      if n = 34 then [CHR 0x5C, c] else if n = 92 then [CHR 0x5C, c]
      else if n = 8 then [CHR 0x5C, CHR ''b''] else if n = 9 then [CHR 0x5C, CHR ''t'']
      else if n = 10 then [CHR 0x5C, CHR ''n''] else if n = 12 then [CHR 0x5C, CHR ''f'']
      else if n = 13 then [CHR 0x5C, CHR ''r'']
      else if n < 32 then [CHR 0x5C, CHR ''u''] @ hex_text 4 n else [c])"

definition json_string :: "str \<Rightarrow> str" where
  "json_string s = [CHR 0x22] @ concat (map json_escape s) @ [CHR 0x22]"

fun json_text :: "(pyfloat \<Rightarrow> str) \<Rightarrow> json \<Rightarrow> str" where
  "json_text fl JNull = ''null''"
| "json_text fl (JBool b) = (if b then ''true'' else ''false'')"
| "json_text fl (JInt i) = int_str i"
| "json_text fl (JFloat f) = fl f"
| "json_text fl (JStr s) = json_string s"
| "json_text fl (JList xs) = ''['' @ join '','' (map (json_text fl) xs) @ '']''"
| "json_text fl (JObj d) = ''{'' @ join '',''
     (map snd (sort_key fst (map (\<lambda>(k, v). (k, json_string k @ '':'' @ json_text fl v)) d))) @ ''}''"

section \<open>Rules and bundles\<close>

record rule =
  ru_key :: str
  ru_title :: str
  ru_severity :: severity
  ru_cwe_id :: "int option"
  ru_description :: str
  ru_remediation :: str

definition new_rule :: "str \<Rightarrow> str \<Rightarrow> severity \<Rightarrow> int option \<Rightarrow> str \<Rightarrow> str \<Rightarrow> domain_error + rule" where
  "new_rule key title severity cwe description remediation =
     (if strip key = [] then Inl (ValidationError ''A rule must have a key.'' (Some ''key'') None)
      else if key \<noteq> lower (strip key)
      then Inl (ValidationError ''A rule key must be lower-case and trimmed.'' (Some ''key'') None)
      else Inr \<lparr>ru_key = key, ru_title = title, ru_severity = severity, ru_cwe_id = cwe,
                ru_description = description, ru_remediation = remediation\<rparr>)"

definition rule_to_canonical :: "rule \<Rightarrow> json" where
  "rule_to_canonical r = JObj
     [(''key'', JStr (ru_key r)), (''title'', JStr (ru_title r)), (''severity'', JStr (severity_value (ru_severity r))),
      (''cwe_id'', case ru_cwe_id r of None \<Rightarrow> JNull | Some n \<Rightarrow> JInt n),
      (''description'', JStr (ru_description r)), (''remediation'', JStr (ru_remediation r))]"

text \<open>
  What reading a bundle uses of the standard library: \<open>json.loads\<close> of the decoded bytes (\<open>None\<close> when
  either raises), the \<open>repr\<close> of a JSON value, and \<open>isoformat\<close> with its inverse on points of time,
  which have an offset from UTC unless they are naive. Text is ASCII, so encoding is the identity.
\<close>

type_synonym stamp = "datetime \<times> timedelta option"

record bundle_codec =
  bc_loads :: "str \<Rightarrow> json option"
  bc_repr :: "json \<Rightarrow> str"
  bc_isoformat :: "stamp \<Rightarrow> str"
  bc_fromisoformat :: "str \<Rightarrow> stamp option"
  bc_float :: "pyfloat \<Rightarrow> str"

text \<open>\<open>int(x)\<close>; \<open>None\<close> when it raises.\<close>

fun py_int_of :: "json \<Rightarrow> int option" where
  "py_int_of (JInt i) = Some i"
| "py_int_of (JBool b) = Some (if b then 1 else 0)"
| "py_int_of (JFloat (Fin q)) = Some (if 0 \<le> q then \<lfloor>q\<rfloor> else \<lceil>q\<rceil>)"
| "py_int_of (JStr s) = py_int s"
| "py_int_of _ = None"

text \<open>A subscript that raises \<open>KeyError\<close> or \<open>TypeError\<close>, and any other error that is not of the domain.\<close>

definition present :: "'a option \<Rightarrow> control_exn + 'a" where
  "present x = (case x of None \<Rightarrow> Inl control_exn.Crash | Some v \<Rightarrow> Inr v)"

definition subscript :: "json \<Rightarrow> str \<Rightarrow> control_exn + json" where
  "subscript j k = (case j of JObj d \<Rightarrow> present (dget d k) | _ \<Rightarrow> Inl control_exn.Crash)"

definition get_default :: "json \<Rightarrow> str \<Rightarrow> json \<Rightarrow> json" where
  "get_default j k dflt = (case j of JObj d \<Rightarrow> jget_or d k dflt | _ \<Rightarrow> dflt)"

definition severity_of :: "str \<Rightarrow> severity option" where
  "severity_of s = find (\<lambda>v. severity_value v = s) [INFO, LOW, MEDIUM, HIGH, CRITICAL]"

definition rule_from_canonical :: "bundle_codec \<Rightarrow> json \<Rightarrow> control_exn + rule" where
  "rule_from_canonical bc raw =
     (let str_at = (\<lambda>k dflt. py_str (bc_repr bc) (get_default raw k (JStr dflt))) in
      res_bind (subscript raw ''key'') (\<lambda>key.
      res_bind (present (severity_of (str_at ''severity'' ''MEDIUM''))) (\<lambda>sev.
      res_bind (case get_default raw ''cwe_id'' JNull of JNull \<Rightarrow> Inr None | j \<Rightarrow> map_sum id Some (present (py_int_of j))) (\<lambda>cwe.
      dom_res (new_rule (py_str (bc_repr bc) key) (str_at ''title'' []) sev cwe (str_at ''description'' []) (str_at ''remediation'' []))))))"

record rule_bundle =
  rb_version :: int
  rb_rules :: "rule list"
  rb_published_at :: stamp

definition new_rule_bundle :: "int \<Rightarrow> rule list \<Rightarrow> stamp \<Rightarrow> domain_error + rule_bundle" where
  "new_rule_bundle version rules published_at =
     (if version < 0 then Inl (ValidationError ''A bundle version may not be negative.'' (Some ''version'') None)
      else if \<not> distinct (map ru_key rules)
      then Inl (ValidationError ''A bundle may not repeat a rule key.'' (Some ''rules'') None)
      else Inr \<lparr>rb_version = version, rb_rules = rules, rb_published_at = published_at\<rparr>)"

definition canonical_bytes :: "bundle_codec \<Rightarrow> rule_bundle \<Rightarrow> str" where
  "canonical_bytes bc b = json_text (bc_float bc) (JObj
     [(''version'', JInt (rb_version b)), (''published_at'', JStr (bc_isoformat bc (rb_published_at b))),
      (''rules'', JList (map rule_to_canonical (sort_key ru_key (rb_rules b))))])"

fun rules_from :: "bundle_codec \<Rightarrow> json list \<Rightarrow> control_exn + rule list" where
  "rules_from bc [] = Inr []"
| "rules_from bc (j # js) = res_bind (rule_from_canonical bc j) (\<lambda>r. res_bind (rules_from bc js) (\<lambda>rs. Inr (r # rs)))"

text \<open>The values that \<open>for item in x\<close> goes through: the characters of a string and the keys of an object.\<close>

definition items_of :: "json \<Rightarrow> json list option" where
  "items_of j = (case j of JList xs \<Rightarrow> Some xs | JStr s \<Rightarrow> Some (map (\<lambda>c. JStr [c]) s) | JObj d \<Rightarrow> Some (map (\<lambda>(k, v). JStr k) d)
     | _ \<Rightarrow> None)"

definition from_canonical_bytes :: "bundle_codec \<Rightarrow> str \<Rightarrow> control_exn + rule_bundle" where
  "from_canonical_bytes bc raw =
     res_bind (present (bc_loads bc raw)) (\<lambda>document.
     res_bind (subscript document ''version'') (\<lambda>v.
     res_bind (present (py_int_of v)) (\<lambda>version.
     res_bind (subscript document ''rules'') (\<lambda>rs.
     res_bind (present (items_of rs)) (\<lambda>items.
     res_bind (rules_from bc items) (\<lambda>rules.
     res_bind (subscript document ''published_at'') (\<lambda>t.
     res_bind (present (bc_fromisoformat bc (py_str (bc_repr bc) t))) (\<lambda>published_at.
     dom_res (new_rule_bundle version rules published_at)))))))))"

definition bundle_rule :: "rule_bundle \<Rightarrow> str \<Rightarrow> rule option" where
  "bundle_rule b key = find (\<lambda>r. ru_key r = key) (rb_rules b)"

text \<open>\<open>verify message signature\<close> is false when the callable raises.\<close>

definition accept_bundle ::
    "bundle_codec \<Rightarrow> rule_bundle \<Rightarrow> str \<Rightarrow> (str \<Rightarrow> str \<Rightarrow> bool) \<Rightarrow> int option \<Rightarrow> domain_error + rule_bundle" where
  "accept_bundle bc candidate signature verify installed_version =
     res_bind (raise_if (\<not> verify (canonical_bytes bc candidate) signature)
        (InvalidStateError ''The rule bundle's signature is not valid.'')) (\<lambda>_.
     case installed_version of
       None \<Rightarrow> Inr candidate
     | Some n \<Rightarrow> res_bind (raise_if (rb_version candidate \<le> n)
          (InvalidStateError (''Bundle version '' @ int_str (rb_version candidate) @ '' is not newer than the installed version ''
             @ int_str n @ ''.''))) (\<lambda>_. Inr candidate))"

text \<open>
  \<open>verifier_for\<close>: no verifier without a usable key. \<open>parse\<close> decodes the key, \<open>check\<close> is the
  signature check of the library.
\<close>

definition verifier_for :: "(str \<Rightarrow> 'k option) \<Rightarrow> ('k \<Rightarrow> str \<Rightarrow> str \<Rightarrow> bool) \<Rightarrow> str \<Rightarrow> str + (str \<Rightarrow> str \<Rightarrow> bool)" where
  "verifier_for parse check public_key_b64 =
     (let raw = strip public_key_b64 in
      if raw = [] then Inl ''No rule-signing public key is configured; bundles cannot be verified.''
      else (case parse raw of None \<Rightarrow> Inl ''The rule-signing public key is not usable.''
            | Some k \<Rightarrow> Inr (check k)))"

section \<open>The compiled catalogue\<close>

definition BUILTIN_BUNDLE_VERSION :: int where "BUILTIN_BUNDLE_VERSION = 0"

definition BUILTIN_RULES :: "(str \<times> str \<times> severity \<times> int \<times> str) list" where
  "BUILTIN_RULES =
     [(''sql-injection'', ''SQL injection'', CRITICAL, 89,
       ''Untrusted input reaches a SQL statement without being bound as a parameter.''),
      (''command-injection'', ''OS command injection'', CRITICAL, 78,
       ''Untrusted input reaches an operating-system command.''),
      (''unsafe-deserialization'', ''Unsafe deserialization'', CRITICAL, 502,
       ''An attacker-controlled stream reaches a native deserializer.''),
      (''xxe'', ''XML External Entity (XXE) injection'', CRITICAL, 611,
       ''Untrusted XML reaches a parser without external entity or DTD processing disabled.''),
      (''path-traversal'', ''Path traversal'', HIGH, 22,
       ''Untrusted input reaches a filesystem path without being confined to a base directory.''),
      (''reflected-xss'', ''Reflected cross-site scripting'', HIGH, 79,
       ''Untrusted input reaches the response body without contextual escaping.''),
      (''ssrf'', ''Server-side request forgery'', HIGH, 918,
       ''Untrusted input decides the destination of an outbound request.''),
      (''ldap-injection'', ''LDAP injection'', HIGH, 90,
       ''Untrusted input reaches an LDAP search filter.''),
      (''xpath-injection'', ''XPath injection'', HIGH, 643,
       ''Untrusted input reaches an XPath expression.''),
      (''open-redirect'', ''Open redirect'', MEDIUM, 601,
       ''Untrusted input decides a redirect destination.''),
      (''header-injection'', ''HTTP header injection'', MEDIUM, 113,
       ''Untrusted input reaches a response header name or value.''),
      (''log-injection'', ''Log injection'', MEDIUM, 117,
       ''Untrusted input reaches a log record without newline neutralization.'')]"

definition builtin_catalogue :: "stamp \<Rightarrow> rule_bundle" where
  "builtin_catalogue published_at =
     \<lparr>rb_version = BUILTIN_BUNDLE_VERSION,
      rb_rules = map (\<lambda>(key, title, sev, cwe, description).
        \<lparr>ru_key = key, ru_title = title, ru_severity = sev, ru_cwe_id = Some cwe, ru_description = description, ru_remediation = []\<rparr>)
        BUILTIN_RULES,
      rb_published_at = published_at\<rparr>"

text \<open>29 July 2026, midnight UTC.\<close>

definition CATALOGUE_PUBLISHED_AT :: stamp where "CATALOGUE_PUBLISHED_AT = (seconds 1785283200, Some 0)"

section \<open>What an organization has switched off\<close>

record tenant_rule_settings =
  rs_organization_id :: uuid
  rs_disabled :: "(str, str) dict"
  rs_id :: uuid
  rs_updated_at :: "datetime option"

definition MAX_DISABLED :: nat where "MAX_DISABLED = 64"

definition disable_rule :: "str \<Rightarrow> str \<Rightarrow> tenant_rule_settings \<Rightarrow> domain_error + tenant_rule_settings" where
  "disable_rule key reason s =
     (if strip reason = [] then Inl (InvalidStateError ''Disabling a rule requires a reason.'')
      else if dget (rs_disabled s) key = None \<and> MAX_DISABLED \<le> length (rs_disabled s)
      then Inl (InvalidStateError (''At most '' @ nat_digits MAX_DISABLED @ '' rules may be disabled for one organization.''))
      else Inr (s\<lparr>rs_disabled := dput key (take 500 (strip reason)) (rs_disabled s)\<rparr>))"

definition enable_rule :: "str \<Rightarrow> tenant_rule_settings \<Rightarrow> tenant_rule_settings" where
  "enable_rule key s = s\<lparr>rs_disabled := ddel key (rs_disabled s)\<rparr>"

definition rule_is_enabled :: "str \<Rightarrow> tenant_rule_settings \<Rightarrow> bool" where
  "rule_is_enabled key s \<longleftrightarrow> dget (rs_disabled s) key = None"

definition effective_rules :: "rule_bundle \<Rightarrow> tenant_rule_settings \<Rightarrow> rule list" where
  "effective_rules b s = filter (\<lambda>r. rule_is_enabled (ru_key r) s) (rb_rules b)"

section \<open>Tables\<close>

record bundle_row =
  br_version :: int
  br_canonical_bytes :: str
  br_signature :: str
  br_published_at :: stamp

record rule_db =
  rd_core :: control_db
  rd_settings :: "(uuid, tenant_rule_settings) dict"
  rd_bundles :: "bundle_row list"

text \<open>The settings of the bound organization; \<open>i\<close> is the id of those of an organization that has none.\<close>

definition rule_settings_get :: "rule_db \<Rightarrow> uuid \<Rightarrow> uuid \<Rightarrow> tenant_rule_settings" where
  "rule_settings_get db org i =
     (case dget (rd_settings db) org of
        None \<Rightarrow> \<lparr>rs_organization_id = org, rs_disabled = [], rs_id = i, rs_updated_at = None\<rparr>
      | Some s \<Rightarrow> s)"

definition rule_settings_save :: "uuid \<Rightarrow> datetime \<Rightarrow> tenant_rule_settings \<Rightarrow> rule_db \<Rightarrow> rule_db" where
  "rule_settings_save org db_now s db =
     db\<lparr>rd_settings := dput org
       (case dget (rd_settings db) org of
          None \<Rightarrow> s\<lparr>rs_updated_at := Some db_now\<rparr>
        | Some row \<Rightarrow> if rs_disabled row = rs_disabled s then row
            else row\<lparr>rs_disabled := rs_disabled s, rs_updated_at := Some db_now\<rparr>)
       (rd_settings db)\<rparr>"

text \<open>The row of the highest version.\<close>

definition newest_bundle :: "rule_db \<Rightarrow> bundle_row option" where
  "newest_bundle db = (case sort_key (\<lambda>r. - br_version r) (rd_bundles db) of [] \<Rightarrow> None | r # _ \<Rightarrow> Some r)"

definition rule_bundles_current :: "bundle_codec \<Rightarrow> rule_db \<Rightarrow> control_exn + rule_bundle option" where
  "rule_bundles_current bc db =
     (case newest_bundle db of None \<Rightarrow> Inr None
      | Some r \<Rightarrow> map_sum id Some (from_canonical_bytes bc (br_canonical_bytes r)))"

definition installed_version :: "rule_db \<Rightarrow> int option" where
  "installed_version db =
     (case rd_bundles db of [] \<Rightarrow> None | r # rs \<Rightarrow> Some (foldl (\<lambda>m b. max m (br_version b)) (br_version r) rs))"

text \<open>The insert: the column is a 32-bit integer, and versions are unique.\<close>

definition install_bundle :: "bundle_codec \<Rightarrow> rule_bundle \<Rightarrow> str \<Rightarrow> rule_db \<Rightarrow> control_exn + rule_db" where
  "install_bundle bc b signature db =
     (if 2 ^ 31 \<le> rb_version b \<or> rb_version b \<in> br_version ` set (rd_bundles db) then Inl control_exn.Crash
      else Inr (db\<lparr>rd_bundles := rd_bundles db @
        [\<lparr>br_version = rb_version b, br_canonical_bytes = canonical_bytes bc b, br_signature = signature,
          br_published_at = rb_published_at b\<rparr>]\<rparr>))"

section \<open>Use cases\<close>

record rule_view =
  rv_rule :: rule
  rv_enabled :: bool
  rv_disabled_reason :: str

definition rule_view_of :: "tenant_rule_settings \<Rightarrow> rule \<Rightarrow> rule_view" where
  "rule_view_of s r =
     \<lparr>rv_rule = r, rv_enabled = rule_is_enabled (ru_key r) s,
      rv_disabled_reason = (case dget (rs_disabled s) (ru_key r) of None \<Rightarrow> [] | Some why \<Rightarrow> why)\<rparr>"

definition catalogue_in_force :: "bundle_codec \<Rightarrow> rule_db \<Rightarrow> control_exn + rule_bundle" where
  "catalogue_in_force bc db =
     map_sum id (\<lambda>installed. case installed of None \<Rightarrow> builtin_catalogue CATALOGUE_PUBLISHED_AT | Some b \<Rightarrow> b)
       (rule_bundles_current bc db)"

definition list_rules :: "bundle_codec \<Rightarrow> control_env \<Rightarrow> principal \<Rightarrow> rule_db \<Rightarrow> control_exn + rule_view list" where
  "list_rules bc env pr db =
     res_bind (dom_res (require POLICY_READ pr)) (\<lambda>_.
     res_bind (catalogue_in_force bc db) (\<lambda>catalogue.
     Inr (map (rule_view_of (rule_settings_get db (pr_organization_id pr) (ce_fresh env 0)))
       (sort_key (\<lambda>r. - base_score (ru_severity r)) (sort_key ru_key (rb_rules catalogue))))))"

definition set_rule_enabled ::
    "bundle_codec \<Rightarrow> control_env \<Rightarrow> principal \<Rightarrow> str \<Rightarrow> bool \<Rightarrow> str \<Rightarrow> rule_db \<Rightarrow> (control_exn + rule_view) \<times> rule_db" where
  "set_rule_enabled bc env pr rule_key enabled reason db = in_transaction db
     (let org = pr_organization_id pr in
      res_bind (dom_res (require POLICY_WRITE pr)) (\<lambda>_.
      res_bind (catalogue_in_force bc db) (\<lambda>catalogue.
      res_bind (expect (NotFoundError (''No rule named '' @ bc_repr bc (JStr rule_key) @ ''.''))
         (bundle_rule catalogue (lower (strip rule_key)))) (\<lambda>r.
      let s0 = rule_settings_get db org (ce_fresh env 0) in
      res_bind (if enabled then Inr (enable_rule (ru_key r) s0) else dom_res (disable_rule (ru_key r) reason s0)) (\<lambda>s.
      let db1 = rule_settings_save org (ce_db_now env) s db in
      res_bind (record_audit env org (ce_fresh env 1)
         (audit_by pr ''rule.toggled'' ''rule'' (ru_key r)
            [(''enabled'', JBool enabled), (''reason'', JStr (take 500 (strip reason))),
             (''severity'', JStr (severity_value (ru_severity r)))]) (rd_core db1)) (\<lambda>core.
      Inr (rule_view_of s r, db1\<lparr>rd_core := core\<rparr>)))))))"

definition publish_rule_bundle ::
    "bundle_codec \<Rightarrow> (str \<Rightarrow> str \<Rightarrow> bool) \<Rightarrow> str \<Rightarrow> str \<Rightarrow> rule_db \<Rightarrow> (control_exn + rule_bundle) \<times> rule_db" where
  "publish_rule_bundle bc verify raw signature db = in_transaction db
     (res_bind (from_canonical_bytes bc raw) (\<lambda>candidate.
      res_bind (dom_res (raise_if (canonical_bytes bc candidate \<noteq> raw)
         (InvalidStateError ''The bundle is not in canonical form; re-encode it before signing.''))) (\<lambda>_.
      res_bind (dom_res (accept_bundle bc candidate signature verify (installed_version db))) (\<lambda>accepted.
      res_bind (install_bundle bc accepted signature db) (\<lambda>db1.
      Inr (accepted, db1))))))"

text \<open>What the operator's command does: no verifier, no publication.\<close>

definition publish_rules ::
    "bundle_codec \<Rightarrow> (str \<Rightarrow> 'k option) \<Rightarrow> ('k \<Rightarrow> str \<Rightarrow> str \<Rightarrow> bool) \<Rightarrow> str \<Rightarrow> str \<Rightarrow> str \<Rightarrow> rule_db
       \<Rightarrow> (control_exn + rule_bundle) \<times> rule_db" where
  "publish_rules bc parse check public_key raw signature db =
     (case verifier_for parse check public_key of
        Inl _ \<Rightarrow> (Inl control_exn.Crash, db)
      | Inr verify \<Rightarrow> publish_rule_bundle bc verify raw signature db)"

end
