(* ===== verification/RuleProps.thy ===== *)
theory RuleProps
  imports RuleCatalogue RbacProps
begin

text \<open>
  What holds of the rule catalogue over time: published bundles are signed and never roll back, and
  what an organization switched off stays off until it decides otherwise.
\<close>

section \<open>Runs\<close>

datatype rule_call =
    Publish str str
  | Toggle control_env principal str bool str

fun rule_perform :: "bundle_codec \<Rightarrow> (str \<Rightarrow> str \<Rightarrow> bool) \<Rightarrow> rule_call \<Rightarrow> rule_db \<Rightarrow> rule_db" where
  "rule_perform bc verify (Publish raw signature) db = snd (publish_rule_bundle bc verify raw signature db)"
| "rule_perform bc verify (Toggle env pr key enabled reason) db = snd (set_rule_enabled bc env pr key enabled reason db)"

definition rule_run :: "bundle_codec \<Rightarrow> (str \<Rightarrow> str \<Rightarrow> bool) \<Rightarrow> rule_call list \<Rightarrow> rule_db \<Rightarrow> rule_db" where
  "rule_run bc verify calls db = fold (rule_perform bc verify) calls db"

lemma rule_run_simps [simp]:
  "rule_run bc verify [] db = db"
  "rule_run bc verify (c # calls) db = rule_run bc verify calls (rule_perform bc verify c db)"
  by (simp_all add: rule_run_def)

section \<open>Bundles\<close>

text \<open>
  The stored bundles: versions increase in the order of installation, and each row holds the bytes of
  a bundle in canonical form with a signature that verifies.
\<close>

definition row_sound :: "bundle_codec \<Rightarrow> (str \<Rightarrow> str \<Rightarrow> bool) \<Rightarrow> bundle_row \<Rightarrow> bool" where
  "row_sound bc verify r \<longleftrightarrow> verify (br_canonical_bytes r) (br_signature r)
     \<and> (\<exists>b. from_canonical_bytes bc (br_canonical_bytes r) = Inr b \<and> canonical_bytes bc b = br_canonical_bytes r
            \<and> rb_version b = br_version r)"

definition bundles_sound :: "bundle_codec \<Rightarrow> (str \<Rightarrow> str \<Rightarrow> bool) \<Rightarrow> rule_db \<Rightarrow> bool" where
  "bundles_sound bc verify db \<longleftrightarrow> sorted_wrt (<) (map br_version (rd_bundles db)) \<and> (\<forall>r \<in> set (rd_bundles db). row_sound bc verify r)"

lemma foldl_max_sorted:
  "sorted_wrt (<) (m # map br_version rs) \<Longrightarrow>
     foldl (\<lambda>m b. max m (br_version b)) m rs = (if rs = [] then m else br_version (last rs))"
  by (induction rs arbitrary: m) auto

lemma installed_sorted:
  assumes "sorted_wrt (<) (map br_version (rd_bundles db))"
  shows "installed_version db = (if rd_bundles db = [] then None else Some (br_version (last (rd_bundles db))))"
proof (cases "rd_bundles db")
  case (Cons r rows)
  with assms foldl_max_sorted [of "br_version r" rows] show ?thesis by (simp add: installed_version_def)
qed (simp add: installed_version_def)

lemma newest_sorted:
  assumes "sorted_wrt (<) (map br_version (rd_bundles db))"
  shows "newest_bundle db = (if rd_bundles db = [] then None else Some (last (rd_bundles db)))"
proof -
  have "sort_key (\<lambda>r. - br_version r) rows = rev rows" if "sorted_wrt (<) (map br_version rows)" for rows
    using that
  proof (induction rows)
    case (Cons r rows)
    then have "sort_key (\<lambda>r. - br_version r) rows = rev rows" by simp
    moreover have "insort_key (\<lambda>r. - br_version r) r xs = xs @ [r]" if "\<forall>x \<in> set xs. br_version r < br_version x" for xs
      using that by (induction xs) auto
    ultimately show ?case using Cons.prems by simp
  qed simp
  from this [OF assms] show ?thesis
    by (cases "rd_bundles db" rule: rev_cases) (auto simp: newest_bundle_def)
qed

lemma publish_Inr:
  assumes "publish_rule_bundle bc verify raw signature db = (Inr b, db')"
  shows "from_canonical_bytes bc raw = Inr b \<and> canonical_bytes bc b = raw \<and> verify raw signature
    \<and> (\<forall>n. installed_version db = Some n \<longrightarrow> n < rb_version b)
    \<and> db' = db\<lparr>rd_bundles := rd_bundles db @ [\<lparr>br_version = rb_version b, br_canonical_bytes = raw, br_signature = signature,
          br_published_at = rb_published_at b\<rparr>]\<rparr>"
  using assms
  by (auto simp: publish_rule_bundle_def in_transaction_def res_bind_Inr accept_bundle_def install_bundle_def
      split: sum.splits option.splits if_splits)

lemma publish_Inl: "publish_rule_bundle bc verify raw signature db = (Inl e, db') \<Longrightarrow> db' = db"
  by (auto simp: publish_rule_bundle_def in_transaction_def split: sum.splits)

lemma set_rule_Inr:
  assumes "set_rule_enabled bc env pr key enabled reason db = (Inr v, db')"
  obtains r s rows catalogue where "catalogue_in_force bc db = Inr catalogue" "bundle_rule catalogue (lower (strip key)) = Some r"
    "(if enabled then Inr (enable_rule (ru_key r) (rule_settings_get db (pr_organization_id pr) (ce_fresh env 0)))
      else disable_rule (ru_key r) reason (rule_settings_get db (pr_organization_id pr) (ce_fresh env 0))) = Inr s"
    "v = rule_view_of s r"
    "db' = (rule_settings_save (pr_organization_id pr) (ce_db_now env) s db)\<lparr>rd_core := rows\<rparr>"
proof -
  have "\<exists>r s rows catalogue. catalogue_in_force bc db = Inr catalogue \<and> bundle_rule catalogue (lower (strip key)) = Some r
    \<and> (if enabled then Inr (enable_rule (ru_key r) (rule_settings_get db (pr_organization_id pr) (ce_fresh env 0)))
       else disable_rule (ru_key r) reason (rule_settings_get db (pr_organization_id pr) (ce_fresh env 0))) = Inr s
    \<and> v = rule_view_of s r \<and> db' = (rule_settings_save (pr_organization_id pr) (ce_db_now env) s db)\<lparr>rd_core := rows\<rparr>"
    using assms unfolding set_rule_enabled_def in_transaction_def Let_def
    by (cases enabled; clarsimp simp: res_bind_Inr split: sum.splits; blast)
  with that show thesis by blast
qed

lemma set_rule_Inl: "set_rule_enabled bc env pr key enabled reason db = (Inl e, db') \<Longrightarrow> db' = db"
  by (auto simp: set_rule_enabled_def in_transaction_def split: sum.splits)

lemma toggle_bundles [simp]: "rd_bundles (snd (set_rule_enabled bc env pr key enabled reason db)) = rd_bundles db"
proof (cases "set_rule_enabled bc env pr key enabled reason db")
  case (Pair r db')
  then show ?thesis
    by (cases r) (auto elim!: set_rule_Inr dest!: set_rule_Inl simp: rule_settings_save_def)
qed

lemma publish_settings [simp]: "rd_settings (snd (publish_rule_bundle bc verify raw signature db)) = rd_settings db"
proof (cases "publish_rule_bundle bc verify raw signature db")
  case (Pair r db')
  then show ?thesis by (cases r) (auto dest!: publish_Inr publish_Inl)
qed

lemma publish_sound:
  assumes "bundles_sound bc verify db"
  shows "bundles_sound bc verify (snd (publish_rule_bundle bc verify raw signature db))
    \<and> (\<exists>new. rd_bundles (snd (publish_rule_bundle bc verify raw signature db)) = rd_bundles db @ new)"
proof (cases "publish_rule_bundle bc verify raw signature db")
  case (Pair r db')
  show ?thesis
  proof (cases r)
    case (Inr b)
    with Pair have p: "publish_rule_bundle bc verify raw signature db = (Inr b, db')" by simp
    note f = publish_Inr [OF this]
    have sorted: "sorted_wrt (<) (map br_version (rd_bundles db))" using assms by (simp add: bundles_sound_def)
    have "br_version x < rb_version b" if "x \<in> set (rd_bundles db)" for x
    proof -
      have "br_version x \<le> br_version (last (rd_bundles db))"
        using that sorted by (cases "rd_bundles db" rule: rev_cases) (auto simp: sorted_wrt_append less_imp_le)
      moreover have "br_version (last (rd_bundles db)) < rb_version b"
        using f installed_sorted [OF sorted] that by (auto split: if_splits)
      ultimately show ?thesis by simp
    qed
    with f assms show ?thesis by (auto simp: p bundles_sound_def row_sound_def sorted_wrt_append)
  next
    case (Inl e)
    with Pair assms publish_Inl show ?thesis by fastforce
  qed
qed

lemma catalogue_run_sound:
  assumes "bundles_sound bc verify db"
  shows "bundles_sound bc verify (rule_run bc verify calls db) \<and> (\<exists>new. rd_bundles (rule_run bc verify calls db) = rd_bundles db @ new)"
  using assms
proof (induction calls arbitrary: db)
  case (Cons c calls)
  have "bundles_sound bc verify (rule_perform bc verify c db)
    \<and> (\<exists>new. rd_bundles (rule_perform bc verify c db) = rd_bundles db @ new)"
  proof (cases c)
    case (Publish raw signature)
    then show ?thesis using publish_sound [OF Cons.prems] by simp
  next
    case (Toggle env pr key enabled reason)
    then show ?thesis using Cons.prems by (simp add: bundles_sound_def)
  qed
  then obtain new where step: "bundles_sound bc verify (rule_perform bc verify c db)"
    "rd_bundles (rule_perform bc verify c db) = rd_bundles db @ new" by blast
  obtain later where "bundles_sound bc verify (rule_run bc verify calls (rule_perform bc verify c db))"
    "rd_bundles (rule_run bc verify calls (rule_perform bc verify c db)) = (rd_bundles db @ new) @ later"
    using Cons.IH [OF step(1)] unfolding step(2) by blast
  then show ?case by simp
qed simp

lemma current_sound:
  assumes "bundles_sound bc verify db" "rd_bundles db \<noteq> []"
  shows "\<exists>b. rule_bundles_current bc db = Inr (Some b) \<and> canonical_bytes bc b = br_canonical_bytes (last (rd_bundles db))
    \<and> rb_version b = br_version (last (rd_bundles db))"
proof -
  have "row_sound bc verify (last (rd_bundles db))" "newest_bundle db = Some (last (rd_bundles db))"
    using assms newest_sorted [of db] by (simp_all add: bundles_sound_def)
  then show ?thesis by (auto simp: row_sound_def rule_bundles_current_def)
qed

text \<open>A bundle that is not newer than an installed one is refused.\<close>

lemma rollback_refused:
  assumes "bundles_sound bc verify db" "r \<in> set (rd_bundles db)" "from_canonical_bytes bc raw = Inr b" "rb_version b \<le> br_version r"
  shows "\<exists>e. publish_rule_bundle bc verify raw signature db = (Inl (Domain (InvalidStateError e)), db)"
proof -
  have sorted: "sorted_wrt (<) (map br_version (rd_bundles db))" using assms(1) by (simp add: bundles_sound_def)
  have "br_version r \<le> br_version (last (rd_bundles db))"
    using assms(2) sorted by (cases "rd_bundles db" rule: rev_cases) (auto simp: sorted_wrt_append less_imp_le)
  moreover have "installed_version db = Some (br_version (last (rd_bundles db)))"
    using installed_sorted [OF sorted] assms(2) by auto
  ultimately show ?thesis
    using assms(3,4) by (auto simp: publish_rule_bundle_def accept_bundle_def in_transaction_def dom_res_def raise_if_def res_bind_def)
qed

text \<open>
  C29. The catalogue is signed and never rolls back. Whatever is presented for publication and
  whatever organizations switch on and off in between: installed bundles are never changed or
  removed and their versions strictly increase; the bytes stored with each are, to the last byte,
  those its signature was verified over; the catalogue in force is the bundle those bytes of the
  newest row encode; and a bundle whose version is not above that of every installed one is refused,
  signed or not, and leaves everything as it is.
\<close>

theorem catalogue_is_signed_and_never_rolls_back:
  assumes "bundles_sound bc verify db"
  shows "(\<exists>new. rd_bundles (rule_run bc verify calls db) = rd_bundles db @ new)
    \<and> sorted_wrt (<) (map br_version (rd_bundles (rule_run bc verify calls db)))
    \<and> (\<forall>r \<in> set (rd_bundles (rule_run bc verify calls db)). verify (br_canonical_bytes r) (br_signature r))
    \<and> (rd_bundles (rule_run bc verify calls db) \<noteq> [] \<longrightarrow> (\<exists>b. catalogue_in_force bc (rule_run bc verify calls db) = Inr b
          \<and> canonical_bytes bc b = br_canonical_bytes (last (rd_bundles (rule_run bc verify calls db)))))
    \<and> (\<forall>raw signature b r. from_canonical_bytes bc raw = Inr b \<longrightarrow> r \<in> set (rd_bundles (rule_run bc verify calls db))
          \<longrightarrow> rb_version b \<le> br_version r
          \<longrightarrow> (\<exists>e. publish_rule_bundle bc verify raw signature (rule_run bc verify calls db)
                  = (Inl (Domain (InvalidStateError e)), rule_run bc verify calls db)))"
proof -
  let ?db = "rule_run bc verify calls db"
  have sound: "bundles_sound bc verify ?db" and grown: "\<exists>new. rd_bundles ?db = rd_bundles db @ new"
    using catalogue_run_sound [OF assms] by blast+
  have "\<exists>b. catalogue_in_force bc ?db = Inr b \<and> canonical_bytes bc b = br_canonical_bytes (last (rd_bundles ?db))"
    if "rd_bundles ?db \<noteq> []"
    using current_sound [OF sound that] by (auto simp: catalogue_in_force_def)
  with sound grown rollback_refused [OF sound] show ?thesis by (auto simp: bundles_sound_def row_sound_def)
qed

section \<open>Switches\<close>

text \<open>The reason for which an organization has switched a rule off.\<close>

definition optout :: "rule_db \<Rightarrow> uuid \<Rightarrow> str \<Rightarrow> str option" where
  "optout db org key = (case dget (rd_settings db) org of None \<Rightarrow> None | Some s \<Rightarrow> dget (rs_disabled s) key)"

text \<open>The successful decisions of a run, in order: whose, on which rule, and the reason if it is off.\<close>

fun decisions :: "bundle_codec \<Rightarrow> (str \<Rightarrow> str \<Rightarrow> bool) \<Rightarrow> rule_call list \<Rightarrow> rule_db \<Rightarrow> (uuid \<times> str \<times> str option) list" where
  "decisions bc verify [] db = []"
| "decisions bc verify (c # calls) db =
     (case c of
        Publish raw signature \<Rightarrow> []
      | Toggle env pr key enabled reason \<Rightarrow>
          (case fst (set_rule_enabled bc env pr key enabled reason db) of
             Inl e \<Rightarrow> []
           | Inr v \<Rightarrow> [(pr_organization_id pr, ru_key (rv_rule v), if enabled then None else Some (take 500 (strip reason)))]))
     @ decisions bc verify calls (rule_perform bc verify c db)"

definition settings_within :: "rule_db \<Rightarrow> bool" where
  "settings_within db \<longleftrightarrow> (\<forall>(org, s) \<in> set (rd_settings db). length (rs_disabled s) \<le> MAX_DISABLED
     \<and> (\<forall>(key, why) \<in> set (rs_disabled s). why \<noteq> []))"

lemma optout_get: "optout db org key = dget (rs_disabled (rule_settings_get db org i)) key"
  by (simp add: optout_def rule_settings_get_def dget_def split: option.split)

lemma saved_disabled:
  "optout (rule_settings_save org t s db) o1 k = (if o1 = org then dget (rs_disabled s) k else optout db o1 k)"
  by (auto simp: optout_def rule_settings_save_def dget_dput split: option.split)

lemma toggle_optout:
  assumes "set_rule_enabled bc env pr key enabled reason db = (Inr v, db')"
  shows "optout db' o1 k = (if o1 = pr_organization_id pr \<and> k = ru_key (rv_rule v)
    then (if enabled then None else Some (take 500 (strip reason))) else optout db o1 k)"
proof -
  obtain r :: rule and s rows where s: "(if enabled then Inr (enable_rule (ru_key r) (rule_settings_get db (pr_organization_id pr) (ce_fresh env 0)))
      else disable_rule (ru_key r) reason (rule_settings_get db (pr_organization_id pr) (ce_fresh env 0))) = Inr s"
    and v: "v = rule_view_of s r"
    and db': "db' = (rule_settings_save (pr_organization_id pr) (ce_db_now env) s db)\<lparr>rd_core := rows\<rparr>"
    by (rule set_rule_Inr [OF assms]) (rule that)
  have "optout db' o1 k = optout (rule_settings_save (pr_organization_id pr) (ce_db_now env) s db) o1 k"
    by (simp add: db' optout_def)
  moreover have "dget (rs_disabled s) k = (if k = ru_key r then (if enabled then None else Some (take 500 (strip reason)))
      else optout db (pr_organization_id pr) k)"
  proof (cases enabled)
    case True
    with s show ?thesis
      by (auto simp: enable_rule_def dget_ddel optout_get [of db "pr_organization_id pr" k "ce_fresh env 0"])
  next
    case False
    with s show ?thesis
      by (auto simp: disable_rule_def dget_dput optout_get [of db "pr_organization_id pr" k "ce_fresh env 0"] split: if_splits)
  qed
  ultimately show ?thesis by (cases "k = ru_key r") (simp_all add: saved_disabled v rule_view_of_def)
qed

lemma within_get:
  assumes "settings_within db"
  shows "length (rs_disabled (rule_settings_get db org i)) \<le> MAX_DISABLED
    \<and> (\<forall>(key, why) \<in> set (rs_disabled (rule_settings_get db org i)). why \<noteq> [])"
proof (cases "dget (rd_settings db) org")
  case (Some s)
  then have "(org, s) \<in> set (rd_settings db)" by (simp add: dget_def map_of_SomeD)
  with assms Some show ?thesis by (auto simp: settings_within_def rule_settings_get_def)
qed (simp add: rule_settings_get_def)

lemma within_reason: "settings_within db \<Longrightarrow> optout db org key = Some why \<Longrightarrow> why \<noteq> []"
  using within_get [of db org "[]"] optout_get [of db org key "[]"] by (auto simp: dget_def dest!: map_of_SomeD)

lemma toggle_within:
  assumes "settings_within db" "set_rule_enabled bc env pr key enabled reason db = (Inr v, db')"
  shows "settings_within db'"
proof -
  let ?org = "pr_organization_id pr"
  obtain r :: rule and s rows where s: "(if enabled then Inr (enable_rule (ru_key r) (rule_settings_get db ?org (ce_fresh env 0)))
      else disable_rule (ru_key r) reason (rule_settings_get db ?org (ce_fresh env 0))) = Inr s"
    and db': "db' = (rule_settings_save ?org (ce_db_now env) s db)\<lparr>rd_core := rows\<rparr>"
    by (rule set_rule_Inr [OF assms(2)]) (rule that)
  define s0 where "s0 = rule_settings_get db ?org (ce_fresh env 0)"
  have s0: "length (rs_disabled s0) \<le> MAX_DISABLED" "\<forall>(key, why) \<in> set (rs_disabled s0). why \<noteq> []"
    using within_get [OF assms(1)] by (simp_all add: s0_def)
  have "length (rs_disabled s) \<le> MAX_DISABLED \<and> (\<forall>(key, why) \<in> set (rs_disabled s). why \<noteq> [])"
  proof (cases enabled)
    case True
    with s have "rs_disabled s = ddel (ru_key r) (rs_disabled s0)" by (auto simp: enable_rule_def s0_def)
    with s0 show ?thesis by (auto simp: ddel_def intro: order_trans [OF length_filter_le])
  next
    case False
    with s have d: "rs_disabled s = dput (ru_key r) (take 500 (strip reason)) (rs_disabled s0)" "strip reason \<noteq> []"
      "dget (rs_disabled s0) (ru_key r) \<noteq> None \<or> length (rs_disabled s0) < MAX_DISABLED"
      by (auto simp: disable_rule_def s0_def split: if_splits)
    then have "length (rs_disabled s) \<le> MAX_DISABLED" using s0(1) by (auto simp: length_dput dget_None split: if_splits)
    moreover have "\<forall>(key, why) \<in> set (rs_disabled s). why \<noteq> []"
      using set_dput_subset [of "ru_key r" "take 500 (strip reason)" "rs_disabled s0"] s0(2) d by auto
    ultimately show ?thesis ..
  qed
  moreover have "\<forall>(o1, t) \<in> set (rd_settings db'). (o1, t) \<in> set (rd_settings db) \<or> rs_disabled t = rs_disabled s"
  proof -
    have rows: "(o1, t) \<in> set (rd_settings db) \<or> rs_disabled t = rs_disabled s"
      if "(o1, t) \<in> set (dput ?org u (rd_settings db))" "rs_disabled u = rs_disabled s" for o1 t u
      using set_dput_subset [of ?org u "rd_settings db"] that by auto
    show ?thesis
      by (auto simp: db' rule_settings_save_def split: option.splits if_splits dest: rows)
  qed
  ultimately show ?thesis using assms(1) by (fastforce simp: settings_within_def)
qed

lemma perform_switches:
  "optout (rule_run bc verify calls db) o1 k = (let d = filter (\<lambda>(p, q, _). p = o1 \<and> q = k) (decisions bc verify calls db)
     in if d = [] then optout db o1 k else snd (snd (last d)))"
proof (induction calls arbitrary: db)
  case (Cons c calls)
  show ?case
  proof (cases c)
    case (Publish raw signature)
    have "optout (snd (publish_rule_bundle bc verify raw signature db)) o1 k = optout db o1 k" by (simp add: optout_def)
    with Cons [of "rule_perform bc verify c db"] show ?thesis by (simp add: Publish Let_def)
  next
    case (Toggle env pr key enabled reason)
    obtain r db' where run: "set_rule_enabled bc env pr key enabled reason db = (r, db')" by (meson prod.exhaust)
    show ?thesis
    proof (cases r)
      case (Inl e)
      with run set_rule_Inl have "db' = db" by blast
      with Cons [of db] run Inl show ?thesis by (simp add: Toggle)
    next
      case (Inr v)
      with run have "set_rule_enabled bc env pr key enabled reason db = (Inr v, db')" by simp
      from toggle_optout [OF this, of o1 k] Cons [of db'] show ?thesis
        by (auto simp: Toggle run Inr Let_def)
    qed
  qed
qed simp

lemma settings_run_within: "settings_within db \<Longrightarrow> settings_within (rule_run bc verify calls db)"
proof (induction calls arbitrary: db)
  case (Cons c calls)
  have "settings_within (rule_perform bc verify c db)"
  proof (cases c)
    case (Publish raw signature)
    with Cons.prems show ?thesis by (simp add: settings_within_def)
  next
    case (Toggle env pr key enabled reason)
    show ?thesis
    proof (cases "set_rule_enabled bc env pr key enabled reason db")
      case (Pair r db')
      then show ?thesis
        using Cons.prems toggle_within set_rule_Inl by (cases r) (fastforce simp: Toggle)+
    qed
  qed
  with Cons.IH show ?case by simp
qed simp

text \<open>
  C30. A switch holds until its organization changes it. After any publications and any attempts of
  anybody to switch rules, the list an organization sees is the whole catalogue in force, worst
  severity first, and each rule in it is off exactly when the last successful decision of that
  organization on that rule switched it off (as it was before, if there was none), with the reason
  given then; no decision of another organization and no new catalogue changes that, and at most 64
  rules are off, each with a reason.
\<close>

theorem switches_hold_until_changed:
  assumes "settings_within db" "list_rules bc env pr (rule_run bc verify calls db) = Inr views"
  shows "(\<exists>catalogue. catalogue_in_force bc (rule_run bc verify calls db) = Inr catalogue
        \<and> mset (map rv_rule views) = mset (rb_rules catalogue))
    \<and> sorted_wrt (\<lambda>v w. base_score (ru_severity (rv_rule w)) \<le> base_score (ru_severity (rv_rule v))) views
    \<and> (\<forall>v \<in> set views.
        let own = filter (\<lambda>(org, key, _). org = pr_organization_id pr \<and> key = ru_key (rv_rule v)) (decisions bc verify calls db);
            off = (if own = [] then optout db (pr_organization_id pr) (ru_key (rv_rule v)) else snd (snd (last own)))
        in rv_enabled v = (off = None) \<and> rv_disabled_reason v = (case off of None \<Rightarrow> [] | Some why \<Rightarrow> why)
           \<and> (\<not> rv_enabled v \<longrightarrow> rv_disabled_reason v \<noteq> []))
    \<and> length (rs_disabled (rule_settings_get (rule_run bc verify calls db) (pr_organization_id pr) (ce_fresh env 0))) \<le> 64"
proof -
  let ?db = "rule_run bc verify calls db" and ?org = "pr_organization_id pr"
  obtain catalogue where c: "catalogue_in_force bc ?db = Inr catalogue"
    and views: "views = map (rule_view_of (rule_settings_get ?db ?org (ce_fresh env 0)))
       (sort_key (\<lambda>r. - base_score (ru_severity r)) (sort_key ru_key (rb_rules catalogue)))"
    using assms(2) by (auto simp: list_rules_def res_bind_Inr)
  have "mset (map rv_rule views) = mset (rb_rules catalogue)"
    by (simp add: views comp_def rule_view_of_def)
  moreover have "sorted_wrt (\<lambda>v w. base_score (ru_severity (rv_rule w)) \<le> base_score (ru_severity (rv_rule v))) views"
    using sorted_sort_key [of "\<lambda>r. - base_score (ru_severity r)" "sort_key ru_key (rb_rules catalogue)"]
    by (simp add: views sorted_wrt_map rule_view_of_def)
  moreover have within: "settings_within ?db" by (rule settings_run_within [OF assms(1)])
  have off: "rv_enabled v = (optout ?db ?org (ru_key (rv_rule v)) = None)
      \<and> rv_disabled_reason v = (case optout ?db ?org (ru_key (rv_rule v)) of None \<Rightarrow> [] | Some why \<Rightarrow> why)" if "v \<in> set views" for v
    using that optout_get [of ?db ?org _ "ce_fresh env 0"] by (auto simp: views rule_view_of_def rule_is_enabled_def)
  have reason: "\<not> rv_enabled v \<longrightarrow> rv_disabled_reason v \<noteq> []" if "v \<in> set views" for v
    using off [OF that] within_reason [OF within, of ?org "ru_key (rv_rule v)"] by auto
  ultimately show ?thesis
    using c off reason conjunct1 [OF within_get [OF within]] unfolding perform_switches by (simp add: Let_def MAX_DISABLED_def)
qed

section \<open>The compiled catalogue\<close>

text \<open>The compiled catalogue satisfies what the constructors of rules and bundles demand.\<close>

lemma builtin_catalogue_is_valid:
  "list_all (\<lambda>r. new_rule (ru_key r) (ru_title r) (ru_severity r) (ru_cwe_id r) (ru_description r) (ru_remediation r) = Inr r)
     (rb_rules (builtin_catalogue t))"
  "new_rule_bundle (rb_version (builtin_catalogue t)) (rb_rules (builtin_catalogue t)) t = Inr (builtin_catalogue t)"
proof -
  have "list_all (\<lambda>r. new_rule (ru_key r) (ru_title r) (ru_severity r) (ru_cwe_id r) (ru_description r) (ru_remediation r) = Inr r)
     (rb_rules (builtin_catalogue CATALOGUE_PUBLISHED_AT))" "distinct (map ru_key (rb_rules (builtin_catalogue CATALOGUE_PUBLISHED_AT)))"
    by code_simp+
  then show "list_all (\<lambda>r. new_rule (ru_key r) (ru_title r) (ru_severity r) (ru_cwe_id r) (ru_description r) (ru_remediation r) = Inr r)
     (rb_rules (builtin_catalogue t))"
    "new_rule_bundle (rb_version (builtin_catalogue t)) (rb_rules (builtin_catalogue t)) t = Inr (builtin_catalogue t)"
    by (simp_all add: builtin_catalogue_def new_rule_bundle_def BUILTIN_BUNDLE_VERSION_def)
qed

section \<open>Samples\<close>

definition bundle_document :: "int \<Rightarrow> json" where
  "bundle_document v = JObj [(''published_at'', JStr ''5''),
     (''rules'', JList [rule_to_canonical \<lparr>ru_key = ''xxe'', ru_title = ''XXE'', ru_severity = HIGH, ru_cwe_id = Some 611,
        ru_description = [], ru_remediation = []\<rparr>]), (''version'', JInt v)]"

definition bundle_bytes :: "int \<Rightarrow> str" where "bundle_bytes v = json_text (\<lambda>_. []) (bundle_document v)"

text \<open>A codec that reads the bundles of versions 0 to 2, and signatures that repeat the message.\<close>

definition sample_codec_bundles :: bundle_codec where
  "sample_codec_bundles =
     \<lparr>bc_loads = (\<lambda>raw. map_option bundle_document (find (\<lambda>v. bundle_bytes v = raw) [0, 1, 2])),
      bc_repr = (\<lambda>j. case j of JStr s \<Rightarrow> s | _ \<Rightarrow> []), bc_isoformat = (\<lambda>t. int_str (fst t)),
      bc_fromisoformat = (\<lambda>s. map_option (\<lambda>n. (n, Some 0)) (py_int s)), bc_float = (\<lambda>_. [])\<rparr>"

definition sample_verify :: "str \<Rightarrow> str \<Rightarrow> bool" where "sample_verify m s \<longleftrightarrow> s = ''signed:'' @ m"

definition empty_rules :: rule_db where "empty_rules = \<lparr>rd_core = empty_db, rd_settings = [], rd_bundles = []\<rparr>"

definition publications :: "rule_call list" where
  "publications = [Publish (bundle_bytes 1) (''signed:'' @ bundle_bytes 1), Publish (bundle_bytes 2) ''forged'',
     Publish (bundle_bytes 2) (''signed:'' @ bundle_bytes 2)]"

theorem catalogue_is_signed_and_never_rolls_back_witness:
  "map br_version (rd_bundles (rule_run sample_codec_bundles sample_verify publications empty_rules)) = [1, 2]
    \<and> (\<exists>e. publish_rule_bundle sample_codec_bundles sample_verify (bundle_bytes 1) (''signed:'' @ bundle_bytes 1)
          (rule_run sample_codec_bundles sample_verify publications empty_rules)
        = (Inl (Domain (InvalidStateError e)), rule_run sample_codec_bundles sample_verify publications empty_rules))"
proof -
  let ?db = "rule_run sample_codec_bundles sample_verify publications empty_rules"
  have "bundles_sound sample_codec_bundles sample_verify empty_rules" by (simp add: bundles_sound_def empty_rules_def)
  note holds = catalogue_is_signed_and_never_rolls_back [OF this, of publications]
  have versions: "map br_version (rd_bundles ?db) = [1, 2]" by code_simp
  then obtain r where "r \<in> set (rd_bundles ?db)" "br_version r = 1" by (cases "rd_bundles ?db") auto
  moreover have "map_sum (\<lambda>_. ()) rb_version (from_canonical_bytes sample_codec_bundles (bundle_bytes 1)) = Inr 1" by code_simp
  then obtain b where "from_canonical_bytes sample_codec_bundles (bundle_bytes 1) = Inr b" "rb_version b = 1"
    by (cases "from_canonical_bytes sample_codec_bundles (bundle_bytes 1)") auto
  ultimately show ?thesis using holds versions by (metis order_refl)
qed

lemma version_zero_is_installed:
  "map br_version (rd_bundles (snd (publish_rule_bundle sample_codec_bundles sample_verify (bundle_bytes 0) (''signed:'' @ bundle_bytes 0)
     empty_rules))) = [0]"
  by code_simp

definition switch_calls :: "rule_call list" where
  "switch_calls = [Toggle (sample_control_env ''x'') sample_admin '' XXE '' False ''  accepted by the board '',
     Publish (bundle_bytes 1) (''signed:'' @ bundle_bytes 1)]"

theorem switches_hold_until_changed_witness:
  "\<exists>views. list_rules sample_codec_bundles (sample_control_env ''x'') sample_admin
       (rule_run sample_codec_bundles sample_verify switch_calls empty_rules) = Inr views
     \<and> map rv_enabled views = [False] \<and> map rv_disabled_reason views = [''accepted by the board'']"
proof -
  let ?db = "rule_run sample_codec_bundles sample_verify switch_calls empty_rules"
  have within: "settings_within empty_rules" by (simp add: settings_within_def empty_rules_def)
  have "map_sum (\<lambda>_. ()) (map (ru_key \<circ> rv_rule))
      (list_rules sample_codec_bundles (sample_control_env ''x'') sample_admin ?db) = Inr [''xxe'']" by code_simp
  then obtain views where views: "list_rules sample_codec_bundles (sample_control_env ''x'') sample_admin ?db = Inr views"
    "map (ru_key \<circ> rv_rule) views = [''xxe'']"
    by (cases "list_rules sample_codec_bundles (sample_control_env ''x'') sample_admin ?db") auto
  have decided: "decisions sample_codec_bundles sample_verify switch_calls empty_rules
      = [(pr_organization_id sample_admin, ''xxe'', Some ''accepted by the board'')]" by code_simp
  have "\<not> rv_enabled v \<and> rv_disabled_reason v = ''accepted by the board''" if "v \<in> set views" for v
  proof -
    have "ru_key (rv_rule v) = ''xxe''" using that views(2) by auto
    with switches_hold_until_changed [OF within views(1)] that show ?thesis by (simp add: decided Let_def)
  qed
  moreover obtain v where "views = [v]" using views(2) by (cases views) auto
  ultimately show ?thesis using views(1) by simp
qed

end
