(* ===== verification/RowMapping.thy ===== *)
theory RowMapping
  imports Mfa ApiKeys FindingTriage RuleCatalogue
begin

text \<open>
  The persistence records of \<open>infrastructure/db/models.py\<close> and their translation to and from the
  entities (\<open>infrastructure/db/mappers.py\<close>). A row is a record with the columns of its table; what a
  column declares (\<open>String(n)\<close>, \<open>Integer\<close>, \<open>Numeric(p, s)\<close>, the \<open>CHECK\<close> and the unique constraints) is
  the predicate \<open>..._row_ok\<close> or \<open>..._table_ok\<close> of the table, which is what PostgreSQL enforces when a
  statement is flushed. \<open>inet\<close>, whether PostgreSQL reads a text as an address, is a parameter. Indexes,
  foreign keys and row-level security are left out.

  \<open>..._to_domain\<close> raises like the source: a \<open>ValueError\<close> of an enumeration is \<open>Crash\<close>, a value object
  that rejects its text a domain error, and so does the constructor of an entity (\<open>__post_init__\<close>),
  which runs again on every load. Entities of the model carry the fields the program reads;
  columns that only fill fields nobody reads (\<open>User.created_at\<close>, \<open>MfaCredential.label\<close> and their like)
  are part of the row and stop there.
\<close>

section \<open>Columns\<close>

definition varchar :: "nat \<Rightarrow> str \<Rightarrow> bool" where
  "varchar n s \<longleftrightarrow> length s \<le> n"

definition opt_col :: "('a \<Rightarrow> bool) \<Rightarrow> 'a option \<Rightarrow> bool" where
  "opt_col p x = (case x of None \<Rightarrow> True | Some v \<Rightarrow> p v)"

definition int4 :: "int \<Rightarrow> bool" where
  "int4 n \<longleftrightarrow> - (2 ^ 31) \<le> n \<and> n < 2 ^ 31"

text \<open>\<open>Numeric(p, s)\<close>: at most \<open>p - s\<close> digits before the point once rounded to \<open>s\<close> behind it.\<close>

definition numeric :: "nat \<Rightarrow> nat \<Rightarrow> rat \<Rightarrow> bool" where
  "numeric p s x \<longleftrightarrow> \<bar>round (x * 10 ^ s)\<bar> < 10 ^ p"

text \<open>\<open>_enum_check\<close>.\<close>

definition enum_check :: "str list \<Rightarrow> str \<Rightarrow> bool" where
  "enum_check values v \<longleftrightarrow> v \<in> set values"

definition unique_on :: "('r \<Rightarrow> 'k) \<Rightarrow> 'r list \<Rightarrow> bool" where
  "unique_on f tab \<longleftrightarrow> distinct (map f tab)"

text \<open>\<open>Enum(raw)\<close>: the member whose value it is.\<close>

definition enum_member :: "('a \<Rightarrow> str) \<Rightarrow> 'a list \<Rightarrow> str \<Rightarrow> control_exn + 'a" where
  "enum_member value_of members raw =
     (case find (\<lambda>m. value_of m = raw) members of None \<Rightarrow> Inl control_exn.Crash | Some m \<Rightarrow> Inr m)"

lemma find_unique: "x \<in> set xs \<Longrightarrow> inj_on f (set xs) \<Longrightarrow> find (\<lambda>m. f m = f x) xs = Some x"
  by (induction xs) (auto simp: inj_on_def)

lemma enum_member_value: "x \<in> set xs \<Longrightarrow> inj_on f (set xs) \<Longrightarrow> enum_member f xs (f x) = Inr x"
  by (simp add: enum_member_def find_unique)

lemma enum_member_sound: "enum_member f xs raw = Inr x \<Longrightarrow> f x = raw"
  by (auto simp: enum_member_def find_Some_iff split: option.splits)

text \<open>\<open>TimestampMixin\<close>: both columns are written by the database.\<close>

record timestamps =
  ts_created_at :: datetime
  ts_updated_at :: datetime

text \<open>An \<open>UPDATE\<close> is only issued for a row that changed; \<open>onupdate=func.now()\<close> goes with it.\<close>

definition on_update :: "datetime \<Rightarrow> 'a timestamps_scheme \<Rightarrow> 'a timestamps_scheme \<Rightarrow> 'a timestamps_scheme" where
  "on_update now old new = (if new = old then old else new\<lparr>ts_updated_at := now\<rparr>)"

definition ORG_STATUSES :: "str list" where "ORG_STATUSES = [''ACTIVE'', ''SUSPENDED'', ''PENDING_DELETION'']"
definition USER_STATUSES :: "str list" where "USER_STATUSES = [''ACTIVE'', ''INVITED'', ''DISABLED'']"
definition MEMBERSHIP_STATUSES :: "str list" where "MEMBERSHIP_STATUSES = [''ACTIVE'', ''INVITED'', ''SUSPENDED'']"
definition MFA_KINDS :: "str list" where "MFA_KINDS = [''TOTP'', ''RECOVERY_CODE'']"
definition LICENSE_TIERS :: "str list" where "LICENSE_TIERS = [''TRIAL'', ''TEAM'', ''BUSINESS'', ''ENTERPRISE'']"
definition LANGUAGES :: "str list" where "LANGUAGES = [''JAVA'', ''DOTNET'', ''NODE'', ''PYTHON'', ''GO'']"
definition CRITICALITIES :: "str list" where "CRITICALITIES = [''LOW'', ''MEDIUM'', ''HIGH'', ''CRITICAL'']"
definition ENVIRONMENT_KINDS :: "str list" where "ENVIRONMENT_KINDS = [''DEVELOPMENT'', ''QA'', ''STAGING'', ''PRODUCTION'']"
definition PROTECTION_MODES :: "str list" where "PROTECTION_MODES = [''OFF'', ''MONITOR'', ''BLOCK'']"
definition AGENT_STATUSES :: "str list" where "AGENT_STATUSES = [''REGISTERED'', ''ONLINE'', ''DEGRADED'', ''OFFLINE'', ''DISABLED'']"
definition AUDIT_OUTCOMES :: "str list" where "AUDIT_OUTCOMES = [''SUCCESS'', ''FAILURE'', ''DENIED'']"
definition ACTOR_TYPES :: "str list" where "ACTOR_TYPES = [''USER'', ''API_KEY'', ''AGENT'', ''SYSTEM'']"
definition FINDING_STATUSES :: "str list" where "FINDING_STATUSES = [''OPEN'', ''CONFIRMED'', ''REMEDIATED'', ''FALSE_POSITIVE'', ''ACCEPTED_RISK'']"
definition SEVERITIES :: "str list" where "SEVERITIES = [''INFO'', ''LOW'', ''MEDIUM'', ''HIGH'', ''CRITICAL'']"
definition CONFIDENCES :: "str list" where "CONFIDENCES = [''SUSPECTED'', ''CONFIRMED'', ''EXPLOITED'']"

fun organization_status_value :: "organization_status \<Rightarrow> str" where
  "organization_status_value ORG_ACTIVE = ''ACTIVE''"
| "organization_status_value ORG_SUSPENDED = ''SUSPENDED''"
| "organization_status_value ORG_PENDING_DELETION = ''PENDING_DELETION''"

fun user_status_value :: "user_status \<Rightarrow> str" where
  "user_status_value USER_ACTIVE = ''ACTIVE''"
| "user_status_value USER_INVITED = ''INVITED''"
| "user_status_value USER_DISABLED = ''DISABLED''"

fun mfa_kind_value :: "mfa_kind \<Rightarrow> str" where
  "mfa_kind_value TOTP = ''TOTP''"
| "mfa_kind_value RECOVERY_CODE = ''RECOVERY_CODE''"

definition organization_status_of :: "str \<Rightarrow> control_exn + organization_status" where
  "organization_status_of = enum_member organization_status_value [ORG_ACTIVE, ORG_SUSPENDED, ORG_PENDING_DELETION]"
definition user_status_of :: "str \<Rightarrow> control_exn + user_status" where
  "user_status_of = enum_member user_status_value [USER_ACTIVE, USER_INVITED, USER_DISABLED]"
definition mfa_kind_of :: "str \<Rightarrow> control_exn + mfa_kind" where
  "mfa_kind_of = enum_member mfa_kind_value [TOTP, RECOVERY_CODE]"
definition license_tier_of :: "str \<Rightarrow> control_exn + license_tier" where
  "license_tier_of = enum_member license_tier_value [TRIAL, TEAM, BUSINESS, ENTERPRISE]"
definition membership_status_of :: "str \<Rightarrow> control_exn + membership_status" where
  "membership_status_of = enum_member membership_status_value [MACTIVE, MINVITED, MSUSPENDED]"
definition language_of :: "str \<Rightarrow> control_exn + language" where
  "language_of = enum_member language_value [JAVA, DOTNET, NODE, PYTHON, GO]"
definition criticality_of :: "str \<Rightarrow> control_exn + criticality" where
  "criticality_of = enum_member criticality_value [LOW_CRIT, MEDIUM_CRIT, HIGH_CRIT, CRITICAL_CRIT]"
definition environment_kind_of :: "str \<Rightarrow> control_exn + environment_kind" where
  "environment_kind_of = enum_member environment_value [DEVELOPMENT_ENV, QA_ENV, STAGING_ENV, PRODUCTION_ENV]"
definition protection_mode_of :: "str \<Rightarrow> control_exn + protection_mode" where
  "protection_mode_of = enum_member mode_value [MODE_OFF, MODE_MONITOR, MODE_BLOCK]"
definition agent_status_of :: "str \<Rightarrow> control_exn + agent_status" where
  "agent_status_of = enum_member agent_status_value [REGISTERED, ONLINE, DEGRADED, OFFLINE, DISABLED]"
definition actor_type_of :: "str \<Rightarrow> control_exn + actor_type" where
  "actor_type_of = enum_member actor_type_value [ACTOR_USER, ACTOR_API_KEY, ACTOR_AGENT, ACTOR_SYSTEM]"
definition audit_outcome_of :: "str \<Rightarrow> control_exn + audit_outcome" where
  "audit_outcome_of = enum_member audit_outcome_value [AUDIT_SUCCESS, AUDIT_FAILURE, AUDIT_DENIED]"
definition finding_status_of :: "str \<Rightarrow> control_exn + finding_status" where
  "finding_status_of = enum_member status_value [OPEN, CONFIRMED, REMEDIATED, FALSE_POSITIVE, ACCEPTED_RISK]"
definition severity_member :: "str \<Rightarrow> control_exn + severity" where
  "severity_member = enum_member severity_value [INFO, LOW, MEDIUM, HIGH, CRITICAL]"
definition confidence_member :: "str \<Rightarrow> control_exn + confidence" where
  "confidence_member = enum_member confidence_value [SUSPECTED, CONFIRMED_FLOW, EXPLOITED]"

lemmas enum_defs = organization_status_of_def user_status_of_def mfa_kind_of_def license_tier_of_def
  membership_status_of_def language_of_def criticality_of_def environment_kind_of_def protection_mode_of_def
  agent_status_of_def actor_type_of_def audit_outcome_of_def finding_status_of_def severity_member_def
  confidence_member_def

lemma enum_values [simp]:
  "organization_status_of (organization_status_value os) = Inr os"
  "user_status_of (user_status_value us) = Inr us"
  "mfa_kind_of (mfa_kind_value k) = Inr k"
  "license_tier_of (license_tier_value t) = Inr t"
  "membership_status_of (membership_status_value ms) = Inr ms"
  "language_of (language_value l) = Inr l"
  "criticality_of (criticality_value c) = Inr c"
  "environment_kind_of (environment_value e) = Inr e"
  "protection_mode_of (mode_value m) = Inr m"
  "agent_status_of (agent_status_value ast) = Inr ast"
  "actor_type_of (actor_type_value a) = Inr a"
  "audit_outcome_of (audit_outcome_value ao) = Inr ao"
  "finding_status_of (status_value fs) = Inr fs"
  "severity_member (severity_value sv) = Inr sv"
  "confidence_member (confidence_value cf) = Inr cf"
                apply (cases os; simp add: enum_defs enum_member_def)
               apply (cases us; simp add: enum_defs enum_member_def)
              apply (cases k; simp add: enum_defs enum_member_def)
             apply (cases t; simp add: enum_defs enum_member_def)
            apply (cases ms; simp add: enum_defs enum_member_def)
           apply (cases l; simp add: enum_defs enum_member_def)
          apply (cases c; simp add: enum_defs enum_member_def)
         apply (cases e; simp add: enum_defs enum_member_def)
        apply (cases m; simp add: enum_defs enum_member_def)
       apply (cases ast; simp add: enum_defs enum_member_def)
      apply (cases a; simp add: enum_defs enum_member_def)
     apply (cases ao; simp add: enum_defs enum_member_def)
    apply (cases fs; simp add: enum_defs enum_member_def)
   apply (cases sv; simp add: enum_defs enum_member_def)
  apply (cases cf; simp add: enum_defs enum_member_def)
  done

section \<open>Organizations and licences\<close>

record organization_row = timestamps +
  ogr_id :: uuid
  ogr_name :: str
  ogr_slug :: str
  ogr_status :: str
  ogr_settings :: obj
  ogr_deletion_scheduled_at :: "datetime option"

definition organization_row_ok :: "organization_row \<Rightarrow> bool" where
  "organization_row_ok r \<longleftrightarrow>
     varchar 200 (ogr_name r) \<and> varchar 63 (ogr_slug r) \<and> varchar 20 (ogr_status r)
     \<and> enum_check ORG_STATUSES (ogr_status r)"

definition organizations_table_ok :: "organization_row list \<Rightarrow> bool" where
  "organizations_table_ok tab \<longleftrightarrow>
     (\<forall>r \<in> set tab. organization_row_ok r) \<and> unique_on ogr_id tab \<and> unique_on ogr_slug tab"

definition organization_to_domain :: "organization_row \<Rightarrow> control_exn + organization" where
  "organization_to_domain r =
     res_bind (dom_res (slug (ogr_slug r))) (\<lambda>sl.
     res_bind (organization_status_of (ogr_status r)) (\<lambda>status.
     res_bind (dom_res (new_organization (ogr_id r) (ogr_name r) sl)) (\<lambda>e.
       Inr (e\<lparr>og_status := status, og_settings := ogr_settings r,
              og_deletion_scheduled_at := ogr_deletion_scheduled_at r\<rparr>))))"

definition organization_to_record :: "datetime \<Rightarrow> organization \<Rightarrow> organization_row" where
  "organization_to_record now e =
     \<lparr>ts_created_at = now, ts_updated_at = now, ogr_id = og_id e, ogr_name = og_name e, ogr_slug = og_slug e,
      ogr_status = organization_status_value (og_status e), ogr_settings = og_settings e,
      ogr_deletion_scheduled_at = og_deletion_scheduled_at e\<rparr>"

definition apply_organization :: "organization_row \<Rightarrow> organization \<Rightarrow> organization_row" where
  "apply_organization r e =
     r\<lparr>ogr_name := og_name e, ogr_status := organization_status_value (og_status e),
       ogr_settings := og_settings e, ogr_deletion_scheduled_at := og_deletion_scheduled_at e\<rparr>"

record license_row = timestamps +
  lir_id :: uuid
  lir_organization_id :: uuid
  lir_tier :: str
  lir_max_applications :: int
  lir_max_agents :: int
  lir_max_users :: int
  lir_ai_enabled :: bool
  lir_protection_enabled :: bool
  lir_valid_until :: "datetime option"

definition license_row_ok :: "license_row \<Rightarrow> bool" where
  "license_row_ok r \<longleftrightarrow>
     varchar 20 (lir_tier r) \<and> enum_check LICENSE_TIERS (lir_tier r) \<and> int4 (lir_max_applications r)
     \<and> int4 (lir_max_agents r) \<and> int4 (lir_max_users r)"

definition licenses_table_ok :: "license_row list \<Rightarrow> bool" where
  "licenses_table_ok tab \<longleftrightarrow>
     (\<forall>r \<in> set tab. license_row_ok r) \<and> unique_on lir_id tab \<and> unique_on lir_organization_id tab"

definition license_to_domain :: "license_row \<Rightarrow> control_exn + license" where
  "license_to_domain r =
     res_bind (license_tier_of (lir_tier r)) (\<lambda>tier.
       Inr \<lparr>li_id = lir_id r, li_organization_id = lir_organization_id r, li_tier = tier,
            li_max_applications = lir_max_applications r, li_max_agents = lir_max_agents r,
            li_max_users = lir_max_users r, li_ai_enabled = lir_ai_enabled r,
            li_protection_enabled = lir_protection_enabled r, li_valid_until = lir_valid_until r\<rparr>)"

definition license_to_record :: "datetime \<Rightarrow> license \<Rightarrow> license_row" where
  "license_to_record now e =
     \<lparr>ts_created_at = now, ts_updated_at = now, lir_id = li_id e, lir_organization_id = li_organization_id e,
      lir_tier = license_tier_value (li_tier e), lir_max_applications = li_max_applications e,
      lir_max_agents = li_max_agents e, lir_max_users = li_max_users e, lir_ai_enabled = li_ai_enabled e,
      lir_protection_enabled = li_protection_enabled e, lir_valid_until = li_valid_until e\<rparr>"

section \<open>Users and second factors\<close>

record user_row = timestamps +
  usr_id :: uuid
  usr_email :: str
  usr_password_hash :: "str option"
  usr_full_name :: str
  usr_status :: str
  usr_is_platform_admin :: bool
  usr_mfa_enabled :: bool
  usr_failed_login_count :: int
  usr_locked_until :: "datetime option"
  usr_password_changed_at :: "datetime option"
  usr_last_login_at :: "datetime option"

definition user_row_ok :: "user_row \<Rightarrow> bool" where
  "user_row_ok r \<longleftrightarrow>
     varchar 200 (usr_full_name r) \<and> varchar 20 (usr_status r) \<and> enum_check USER_STATUSES (usr_status r)
     \<and> int4 (usr_failed_login_count r) \<and> 0 \<le> usr_failed_login_count r"

text \<open>The column \<open>email\<close> is \<open>CITEXT\<close>: it compares without regard to case.\<close>

definition users_table_ok :: "user_row list \<Rightarrow> bool" where
  "users_table_ok tab \<longleftrightarrow>
     (\<forall>r \<in> set tab. user_row_ok r) \<and> unique_on usr_id tab \<and> unique_on (lower \<circ> usr_email) tab"

text \<open>A password hash that is the empty text is falsy, so it reads as none.\<close>

definition user_to_domain :: "(str \<Rightarrow> str) \<Rightarrow> user_row \<Rightarrow> control_exn + user" where
  "user_to_domain nfkc r =
     res_bind (dom_res (email_address nfkc (usr_email r))) (\<lambda>email.
     res_bind (case usr_password_hash r of
         None \<Rightarrow> Inr None
       | Some h \<Rightarrow> if h = [] then Inr None
                  else res_bind (dom_res (password_hash h)) (\<lambda>v. Inr (Some v))) (\<lambda>hash.
     res_bind (user_status_of (usr_status r)) (\<lambda>status.
       Inr ((new_user (usr_id r) email hash (usr_full_name r) status (usr_password_changed_at r))
              \<lparr>us_is_platform_admin := usr_is_platform_admin r, us_mfa_enabled := usr_mfa_enabled r,
               us_failed_login_count := nat (usr_failed_login_count r), us_locked_until := usr_locked_until r,
               us_last_login_at := usr_last_login_at r\<rparr>))))"

definition apply_user :: "user_row \<Rightarrow> user \<Rightarrow> user_row" where
  "apply_user r e =
     r\<lparr>usr_email := us_email e, usr_password_hash := us_password_hash e, usr_full_name := us_full_name e,
       usr_status := user_status_value (us_status e), usr_is_platform_admin := us_is_platform_admin e,
       usr_mfa_enabled := us_mfa_enabled e, usr_failed_login_count := int (us_failed_login_count e),
       usr_locked_until := us_locked_until e, usr_password_changed_at := us_password_changed_at e,
       usr_last_login_at := us_last_login_at e\<rparr>"

definition user_to_record :: "datetime \<Rightarrow> user \<Rightarrow> user_row" where
  "user_to_record now e =
     \<lparr>ts_created_at = now, ts_updated_at = now, usr_id = us_id e, usr_email = us_email e,
      usr_password_hash = us_password_hash e, usr_full_name = us_full_name e,
      usr_status = user_status_value (us_status e), usr_is_platform_admin = us_is_platform_admin e,
      usr_mfa_enabled = us_mfa_enabled e, usr_failed_login_count = int (us_failed_login_count e),
      usr_locked_until = us_locked_until e, usr_password_changed_at = us_password_changed_at e,
      usr_last_login_at = us_last_login_at e\<rparr>"

record mfa_row = timestamps +
  mfr_id :: uuid
  mfr_user_id :: uuid
  mfr_kind :: str
  mfr_secret_encrypted :: str
  mfr_confirmed :: bool
  mfr_consumed_at :: "datetime option"
  mfr_last_used_at :: "datetime option"
  mfr_label :: "str option"

definition mfa_row_ok :: "mfa_row \<Rightarrow> bool" where
  "mfa_row_ok r \<longleftrightarrow>
     varchar 20 (mfr_kind r) \<and> enum_check MFA_KINDS (mfr_kind r) \<and> opt_col (varchar 100) (mfr_label r)"

definition mfa_to_domain :: "mfa_row \<Rightarrow> control_exn + mfa_credential" where
  "mfa_to_domain r =
     res_bind (mfa_kind_of (mfr_kind r)) (\<lambda>kind.
       Inr \<lparr>mf_id = mfr_id r, mf_user_id = mfr_user_id r, mf_kind = kind,
            mf_secret_encrypted = mfr_secret_encrypted r, mf_confirmed = mfr_confirmed r,
            mf_consumed_at = mfr_consumed_at r, mf_last_used_at = mfr_last_used_at r\<rparr>)"

definition mfa_to_record :: "datetime \<Rightarrow> str option \<Rightarrow> mfa_credential \<Rightarrow> mfa_row" where
  "mfa_to_record now label e =
     \<lparr>ts_created_at = now, ts_updated_at = now, mfr_id = mf_id e, mfr_user_id = mf_user_id e,
      mfr_kind = mfa_kind_value (mf_kind e), mfr_secret_encrypted = mf_secret_encrypted e,
      mfr_confirmed = mf_confirmed e, mfr_consumed_at = mf_consumed_at e, mfr_last_used_at = mf_last_used_at e,
      mfr_label = label\<rparr>"

definition apply_mfa :: "mfa_row \<Rightarrow> mfa_credential \<Rightarrow> mfa_row" where
  "apply_mfa r e =
     r\<lparr>mfr_confirmed := mf_confirmed e, mfr_consumed_at := mf_consumed_at e, mfr_last_used_at := mf_last_used_at e\<rparr>"

section \<open>Roles and memberships\<close>

text \<open>\<open>_permissions\<close>: what the catalogue no longer knows is dropped.\<close>

definition stored_permissions :: "str list \<Rightarrow> permission set" where
  "stored_permissions raw = set (List.map_filter parse_permission raw)"

record role_row = timestamps +
  ror_id :: uuid
  ror_organization_id :: uuid
  ror_name :: str
  ror_description :: str
  ror_is_system :: bool
  ror_permissions :: "str list"

definition role_row_ok :: "role_row \<Rightarrow> bool" where
  "role_row_ok r \<longleftrightarrow> varchar 80 (ror_name r) \<and> varchar 500 (ror_description r)"

definition roles_table_ok :: "role_row list \<Rightarrow> bool" where
  "roles_table_ok tab \<longleftrightarrow>
     (\<forall>r \<in> set tab. role_row_ok r) \<and> unique_on ror_id tab \<and> unique_on (\<lambda>r. (ror_organization_id r, ror_name r)) tab"

definition role_to_domain :: "role_row \<Rightarrow> control_exn + role" where
  "role_to_domain r =
     dom_res (new_role (ror_id r) (ror_organization_id r) (ror_name r) (stored_permissions (ror_permissions r))
                (ror_description r) (ror_is_system r))"

definition role_to_record :: "datetime \<Rightarrow> role \<Rightarrow> role_row" where
  "role_to_record now e =
     \<lparr>ts_created_at = now, ts_updated_at = now, ror_id = ro_id e, ror_organization_id = ro_organization_id e,
      ror_name = ro_name e, ror_description = ro_description e, ror_is_system = ro_is_system e,
      ror_permissions = sorted_values (ro_permissions e)\<rparr>"

definition apply_role :: "role_row \<Rightarrow> role \<Rightarrow> role_row" where
  "apply_role r e =
     r\<lparr>ror_name := ro_name e, ror_description := ro_description e,
       ror_permissions := sorted_values (ro_permissions e)\<rparr>"

text \<open>
  \<open>mbr_roles\<close> is the relationship over the table \<open>membership_roles\<close>, ordered by name; it is read
  with the row and never written through it.
\<close>

record membership_record = timestamps +
  mbr_id :: uuid
  mbr_organization_id :: uuid
  mbr_user_id :: uuid
  mbr_status :: str
  mbr_invited_by :: "uuid option"
  mbr_joined_at :: "datetime option"
  mbr_roles :: "role_row list"

definition membership_row_ok :: "membership_record \<Rightarrow> bool" where
  "membership_row_ok r \<longleftrightarrow> varchar 20 (mbr_status r) \<and> enum_check MEMBERSHIP_STATUSES (mbr_status r)"

definition memberships_table_ok :: "membership_record list \<Rightarrow> bool" where
  "memberships_table_ok tab \<longleftrightarrow>
     (\<forall>r \<in> set tab. membership_row_ok r) \<and> unique_on mbr_id tab \<and> unique_on (\<lambda>r. (mbr_organization_id r, mbr_user_id r)) tab"

fun collect_res :: "('a \<Rightarrow> 'e + 'b) \<Rightarrow> 'a list \<Rightarrow> 'e + 'b list" where
  "collect_res f [] = Inr []"
| "collect_res f (x # xs) = res_bind (f x) (\<lambda>y. res_bind (collect_res f xs) (\<lambda>ys. Inr (y # ys)))"

definition membership_row_to_domain :: "membership_record \<Rightarrow> control_exn + membership" where
  "membership_row_to_domain r =
     res_bind (collect_res role_to_domain (mbr_roles r)) (\<lambda>roles.
     res_bind (membership_status_of (mbr_status r)) (\<lambda>status.
     dom_res (new_membership (mbr_id r) (mbr_organization_id r) (mbr_user_id r) roles status
                (mbr_invited_by r) (mbr_joined_at r))))"

definition membership_row_to_record :: "datetime \<Rightarrow> membership \<Rightarrow> membership_record" where
  "membership_row_to_record now e =
     \<lparr>ts_created_at = now, ts_updated_at = now, mbr_id = me_id e, mbr_organization_id = me_organization_id e,
      mbr_user_id = me_user_id e, mbr_status = membership_status_value (me_status e),
      mbr_invited_by = me_invited_by e, mbr_joined_at = me_joined_at e, mbr_roles = []\<rparr>"

text \<open>\<open>session.refresh(record, ["roles"])\<close> after the rows of \<open>membership_roles\<close> are written.\<close>

definition refresh_roles :: "role_row list \<Rightarrow> uuid list \<Rightarrow> membership_record \<Rightarrow> membership_record" where
  "refresh_roles tab ids r = r\<lparr>mbr_roles := sort_key ror_name (filter (\<lambda>x. ror_id x \<in> set ids) tab)\<rparr>"

section \<open>Sessions and API keys\<close>

record session_row = timestamps +
  ser_id :: uuid
  ser_user_id :: uuid
  ser_organization_id :: uuid
  ser_family_id :: uuid
  ser_refresh_token_hash :: str
  ser_user_agent :: str
  ser_ip_address :: "str option"
  ser_expires_at :: datetime
  ser_rotated_at :: "datetime option"
  ser_revoked_at :: "datetime option"
  ser_revoked_reason :: "str option"
  ser_replaced_by_id :: "uuid option"

definition session_row_ok :: "(str \<Rightarrow> bool) \<Rightarrow> session_row \<Rightarrow> bool" where
  "session_row_ok inet r \<longleftrightarrow>
     varchar 64 (ser_refresh_token_hash r) \<and> varchar 400 (ser_user_agent r) \<and> opt_col inet (ser_ip_address r)
     \<and> opt_col (varchar 80) (ser_revoked_reason r)"

definition sessions_table_ok :: "(str \<Rightarrow> bool) \<Rightarrow> session_row list \<Rightarrow> bool" where
  "sessions_table_ok inet tab \<longleftrightarrow>
     (\<forall>r \<in> set tab. session_row_ok inet r) \<and> unique_on ser_id tab \<and> unique_on ser_refresh_token_hash tab"

definition session_to_domain :: "session_row \<Rightarrow> control_exn + session" where
  "session_to_domain r =
     res_bind (dom_res (token_hash (ser_refresh_token_hash r))) (\<lambda>h.
       Inr \<lparr>se_id = ser_id r, se_user_id = ser_user_id r, se_organization_id = ser_organization_id r,
            se_family_id = ser_family_id r, se_refresh_token_hash = h, se_expires_at = ser_expires_at r,
            se_user_agent = ser_user_agent r, se_ip_address = ser_ip_address r,
            se_rotated_at = ser_rotated_at r, se_revoked_at = ser_revoked_at r,
            se_revoked_reason = ser_revoked_reason r, se_replaced_by_id = ser_replaced_by_id r,
            se_created_at = Some (ts_created_at r)\<rparr>)"

definition session_to_record :: "datetime \<Rightarrow> session \<Rightarrow> session_row" where
  "session_to_record now e =
     \<lparr>ts_created_at = now, ts_updated_at = now, ser_id = se_id e, ser_user_id = se_user_id e,
      ser_organization_id = se_organization_id e, ser_family_id = se_family_id e,
      ser_refresh_token_hash = se_refresh_token_hash e, ser_user_agent = se_user_agent e,
      ser_ip_address = se_ip_address e, ser_expires_at = se_expires_at e, ser_rotated_at = se_rotated_at e,
      ser_revoked_at = se_revoked_at e, ser_revoked_reason = se_revoked_reason e,
      ser_replaced_by_id = se_replaced_by_id e\<rparr>"

definition apply_session :: "session_row \<Rightarrow> session \<Rightarrow> session_row" where
  "apply_session r e =
     r\<lparr>ser_rotated_at := se_rotated_at e, ser_revoked_at := se_revoked_at e,
       ser_revoked_reason := se_revoked_reason e, ser_replaced_by_id := se_replaced_by_id e\<rparr>"

record api_key_row = timestamps +
  akr_id :: uuid
  akr_organization_id :: uuid
  akr_name :: str
  akr_prefix :: str
  akr_secret_hash :: str
  akr_permissions :: "str list"
  akr_created_by :: "uuid option"
  akr_expires_at :: "datetime option"
  akr_revoked_at :: "datetime option"
  akr_last_used_at :: "datetime option"

definition api_key_row_ok :: "api_key_row \<Rightarrow> bool" where
  "api_key_row_ok r \<longleftrightarrow> varchar 120 (akr_name r) \<and> varchar 12 (akr_prefix r)"

definition api_keys_table_ok :: "api_key_row list \<Rightarrow> bool" where
  "api_keys_table_ok tab \<longleftrightarrow> (\<forall>r \<in> set tab. api_key_row_ok r) \<and> unique_on akr_id tab \<and> unique_on akr_prefix tab"

definition api_key_to_domain :: "api_key_row \<Rightarrow> control_exn + api_key" where
  "api_key_to_domain r =
     res_bind (dom_res (api_key_prefix (akr_prefix r))) (\<lambda>prefix.
     res_bind (dom_res (new_api_key (akr_id r) (akr_organization_id r) (akr_name r) prefix (akr_secret_hash r)
         (stored_permissions (akr_permissions r)) (akr_created_by r) (akr_expires_at r) (Some (ts_created_at r)))) (\<lambda>k.
       Inr (k\<lparr>ak_revoked_at := akr_revoked_at r, ak_last_used_at := akr_last_used_at r\<rparr>)))"

definition api_key_to_record :: "datetime \<Rightarrow> api_key \<Rightarrow> api_key_row" where
  "api_key_to_record now e =
     \<lparr>ts_created_at = now, ts_updated_at = now, akr_id = ak_id e, akr_organization_id = ak_organization_id e,
      akr_name = ak_name e, akr_prefix = ak_prefix e, akr_secret_hash = ak_secret_hash e,
      akr_permissions = sorted_values (ak_permissions e), akr_created_by = ak_created_by e,
      akr_expires_at = ak_expires_at e, akr_revoked_at = ak_revoked_at e, akr_last_used_at = ak_last_used_at e\<rparr>"

definition apply_api_key :: "api_key_row \<Rightarrow> api_key \<Rightarrow> api_key_row" where
  "apply_api_key r e =
     r\<lparr>akr_name := ak_name e, akr_permissions := sorted_values (ak_permissions e),
       akr_expires_at := ak_expires_at e, akr_revoked_at := ak_revoked_at e, akr_last_used_at := ak_last_used_at e\<rparr>"

end
