(* ===== verification/RowMappingFleet.thy ===== *)
theory RowMappingFleet
  imports RowMapping
begin

text \<open>
  The rest of \<open>mappers.py\<close> and \<open>models.py\<close>: applications, environments and agents, the audit log,
  findings with their occurrences and comments, and the rule settings of an organization.
\<close>

section \<open>Inventory\<close>

record application_row = timestamps +
  apr_id :: uuid
  apr_organization_id :: uuid
  apr_name :: str
  apr_slug :: str
  apr_language :: str
  apr_criticality :: str
  apr_tags :: "str list"
  apr_repository_url :: "str option"
  apr_description :: str

definition application_row_ok :: "application_row \<Rightarrow> bool" where
  "application_row_ok r \<longleftrightarrow>
     varchar 120 (apr_name r) \<and> varchar 63 (apr_slug r) \<and> varchar 10 (apr_language r)
     \<and> varchar 10 (apr_criticality r) \<and> opt_col (varchar 500) (apr_repository_url r)
     \<and> varchar 1000 (apr_description r) \<and> enum_check LANGUAGES (apr_language r)
     \<and> enum_check CRITICALITIES (apr_criticality r)"

definition applications_table_ok :: "application_row list \<Rightarrow> bool" where
  "applications_table_ok tab \<longleftrightarrow>
     (\<forall>r \<in> set tab. application_row_ok r) \<and> unique_on apr_id tab \<and> unique_on (\<lambda>r. (apr_organization_id r, apr_slug r)) tab"

definition application_to_domain :: "application_row \<Rightarrow> control_exn + application" where
  "application_to_domain r =
     res_bind (dom_res (slug (apr_slug r))) (\<lambda>sl.
     res_bind (language_of (apr_language r)) (\<lambda>lang.
     res_bind (criticality_of (apr_criticality r)) (\<lambda>crit.
     res_bind (dom_res (new_application (apr_id r) (apr_organization_id r) (apr_name r) sl lang crit (apr_tags r)
         (apr_repository_url r) (apr_description r))) (\<lambda>e.
       Inr (e\<lparr>ap_created_at := Some (ts_created_at r), ap_updated_at := Some (ts_updated_at r)\<rparr>)))))"

definition application_to_record :: "datetime \<Rightarrow> application \<Rightarrow> application_row" where
  "application_to_record now e =
     \<lparr>ts_created_at = now, ts_updated_at = now, apr_id = ap_id e, apr_organization_id = ap_organization_id e,
      apr_name = ap_name e, apr_slug = ap_slug e, apr_language = language_value (ap_language e),
      apr_criticality = criticality_value (ap_criticality e), apr_tags = ap_tags e,
      apr_repository_url = ap_repository_url e, apr_description = ap_description e\<rparr>"

definition apply_application :: "application_row \<Rightarrow> application \<Rightarrow> application_row" where
  "apply_application r e =
     r\<lparr>apr_name := ap_name e, apr_criticality := criticality_value (ap_criticality e), apr_tags := ap_tags e,
       apr_repository_url := ap_repository_url e, apr_description := ap_description e\<rparr>"

record environment_row = timestamps +
  evr_id :: uuid
  evr_organization_id :: uuid
  evr_application_id :: uuid
  evr_kind :: str
  evr_internet_facing :: bool
  evr_protection_mode :: str
  evr_soak_completed_at :: "datetime option"

definition environment_row_ok :: "environment_row \<Rightarrow> bool" where
  "environment_row_ok r \<longleftrightarrow>
     varchar 20 (evr_kind r) \<and> varchar 10 (evr_protection_mode r) \<and> enum_check ENVIRONMENT_KINDS (evr_kind r)
     \<and> enum_check PROTECTION_MODES (evr_protection_mode r)"

definition environments_table_ok :: "environment_row list \<Rightarrow> bool" where
  "environments_table_ok tab \<longleftrightarrow>
     (\<forall>r \<in> set tab. environment_row_ok r) \<and> unique_on evr_id tab \<and> unique_on (\<lambda>r. (evr_application_id r, evr_kind r)) tab"

definition environment_to_domain :: "environment_row \<Rightarrow> control_exn + app_environment" where
  "environment_to_domain r =
     res_bind (environment_kind_of (evr_kind r)) (\<lambda>kind.
     res_bind (protection_mode_of (evr_protection_mode r)) (\<lambda>mode.
       Inr \<lparr>ev_id = evr_id r, ev_organization_id = evr_organization_id r, ev_application_id = evr_application_id r,
            ev_kind = kind, ev_internet_facing = evr_internet_facing r, ev_protection_mode = mode,
            ev_soak_completed_at = evr_soak_completed_at r, ev_created_at = Some (ts_created_at r),
            ev_updated_at = Some (ts_updated_at r)\<rparr>))"

definition environment_to_record :: "datetime \<Rightarrow> app_environment \<Rightarrow> environment_row" where
  "environment_to_record now e =
     \<lparr>ts_created_at = now, ts_updated_at = now, evr_id = ev_id e, evr_organization_id = ev_organization_id e,
      evr_application_id = ev_application_id e, evr_kind = environment_value (ev_kind e),
      evr_internet_facing = ev_internet_facing e, evr_protection_mode = mode_value (ev_protection_mode e),
      evr_soak_completed_at = ev_soak_completed_at e\<rparr>"

definition apply_environment :: "environment_row \<Rightarrow> app_environment \<Rightarrow> environment_row" where
  "apply_environment r e =
     r\<lparr>evr_internet_facing := ev_internet_facing e, evr_protection_mode := mode_value (ev_protection_mode e),
       evr_soak_completed_at := ev_soak_completed_at e\<rparr>"

section \<open>Agents\<close>

record agent_row = timestamps +
  agr_id :: uuid
  agr_organization_id :: uuid
  agr_environment_id :: uuid
  agr_fingerprint :: str
  agr_hostname :: str
  agr_language :: str
  agr_agent_version :: str
  agr_runtime_version :: str
  agr_status :: str
  agr_config_version :: str
  agr_cpu_overhead_pct :: "rat option"
  agr_memory_mb :: "int option"
  agr_events_sent :: int
  agr_events_dropped :: int
  agr_health :: obj
  agr_pinned_version :: "str option"
  agr_last_seen_at :: "datetime option"

definition agent_row_ok :: "agent_row \<Rightarrow> bool" where
  "agent_row_ok r \<longleftrightarrow>
     varchar 128 (agr_fingerprint r) \<and> varchar 255 (agr_hostname r) \<and> varchar 10 (agr_language r)
     \<and> varchar 40 (agr_agent_version r) \<and> varchar 80 (agr_runtime_version r) \<and> varchar 20 (agr_status r)
     \<and> varchar 80 (agr_config_version r) \<and> opt_col (numeric 5 2) (agr_cpu_overhead_pct r)
     \<and> opt_col int4 (agr_memory_mb r) \<and> int4 (agr_events_sent r) \<and> int4 (agr_events_dropped r)
     \<and> opt_col (varchar 40) (agr_pinned_version r) \<and> enum_check AGENT_STATUSES (agr_status r)
     \<and> enum_check LANGUAGES (agr_language r)"

definition agents_table_ok :: "agent_row list \<Rightarrow> bool" where
  "agents_table_ok tab \<longleftrightarrow> (\<forall>r \<in> set tab. agent_row_ok r) \<and> unique_on agr_id tab \<and> unique_on agr_fingerprint tab"

definition agent_to_domain :: "agent_row \<Rightarrow> control_exn + agent" where
  "agent_to_domain r =
     res_bind (language_of (agr_language r)) (\<lambda>lang.
     res_bind (agent_status_of (agr_status r)) (\<lambda>status.
     res_bind (dom_res (new_agent (agr_id r) (agr_organization_id r) (agr_environment_id r) (agr_fingerprint r)
         (agr_hostname r) (agr_agent_version r) (agr_runtime_version r) lang (agr_config_version r)
         (Some (ts_created_at r)))) (\<lambda>e.
       Inr (e\<lparr>ag_status := status, ag_cpu_overhead_pct := agr_cpu_overhead_pct r, ag_memory_mb := agr_memory_mb r,
              ag_events_sent := agr_events_sent r, ag_events_dropped := agr_events_dropped r,
              ag_health := agr_health r, ag_pinned_version := agr_pinned_version r,
              ag_last_seen_at := agr_last_seen_at r\<rparr>))))"

definition agent_to_record :: "datetime \<Rightarrow> agent \<Rightarrow> agent_row" where
  "agent_to_record now e =
     \<lparr>ts_created_at = now, ts_updated_at = now, agr_id = ag_id e, agr_organization_id = ag_organization_id e,
      agr_environment_id = ag_environment_id e, agr_fingerprint = ag_fingerprint e, agr_hostname = ag_hostname e,
      agr_language = language_value (ag_language e), agr_agent_version = ag_agent_version e,
      agr_runtime_version = ag_runtime_version e, agr_status = agent_status_value (ag_status e),
      agr_config_version = ag_config_version e, agr_cpu_overhead_pct = ag_cpu_overhead_pct e,
      agr_memory_mb = ag_memory_mb e, agr_events_sent = ag_events_sent e, agr_events_dropped = ag_events_dropped e,
      agr_health = ag_health e, agr_pinned_version = ag_pinned_version e, agr_last_seen_at = ag_last_seen_at e\<rparr>"

definition apply_agent :: "agent_row \<Rightarrow> agent \<Rightarrow> agent_row" where
  "apply_agent r e =
     r\<lparr>agr_environment_id := ag_environment_id e, agr_hostname := ag_hostname e,
       agr_agent_version := ag_agent_version e, agr_runtime_version := ag_runtime_version e,
       agr_status := agent_status_value (ag_status e), agr_config_version := ag_config_version e,
       agr_cpu_overhead_pct := ag_cpu_overhead_pct e, agr_memory_mb := ag_memory_mb e,
       agr_events_sent := ag_events_sent e, agr_events_dropped := ag_events_dropped e,
       agr_health := ag_health e, agr_pinned_version := ag_pinned_version e,
       agr_last_seen_at := ag_last_seen_at e\<rparr>"

section \<open>The audit log\<close>

record audit_row =
  aur_id :: uuid
  aur_organization_id :: uuid
  aur_sequence :: int
  aur_action :: str
  aur_actor_type :: str
  aur_actor_user_id :: "uuid option"
  aur_actor_label :: str
  aur_resource_type :: str
  aur_resource_id :: str
  aur_outcome :: str
  aur_ip_address :: "str option"
  aur_user_agent :: str
  aur_request_id :: str
  aur_metadata :: obj
  aur_previous_hash :: str
  aur_entry_hash :: str
  aur_occurred_at :: datetime

definition audit_row_ok :: "(str \<Rightarrow> bool) \<Rightarrow> audit_row \<Rightarrow> bool" where
  "audit_row_ok inet r \<longleftrightarrow>
     int4 (aur_sequence r) \<and> varchar 100 (aur_action r) \<and> varchar 20 (aur_actor_type r)
     \<and> varchar 200 (aur_actor_label r) \<and> varchar 60 (aur_resource_type r) \<and> varchar 80 (aur_resource_id r)
     \<and> varchar 10 (aur_outcome r) \<and> opt_col inet (aur_ip_address r) \<and> varchar 400 (aur_user_agent r)
     \<and> varchar 64 (aur_request_id r) \<and> varchar 64 (aur_previous_hash r) \<and> varchar 64 (aur_entry_hash r)
     \<and> enum_check AUDIT_OUTCOMES (aur_outcome r) \<and> enum_check ACTOR_TYPES (aur_actor_type r)"

definition audit_table_ok :: "(str \<Rightarrow> bool) \<Rightarrow> audit_row list \<Rightarrow> bool" where
  "audit_table_ok inet tab \<longleftrightarrow>
     (\<forall>r \<in> set tab. audit_row_ok inet r) \<and> unique_on aur_id tab \<and> unique_on (\<lambda>r. (aur_organization_id r, aur_sequence r)) tab"

definition audit_to_domain :: "audit_row \<Rightarrow> control_exn + audit_event" where
  "audit_to_domain r =
     res_bind (actor_type_of (aur_actor_type r)) (\<lambda>actor.
     res_bind (audit_outcome_of (aur_outcome r)) (\<lambda>outcome.
       Inr \<lparr>ae_id = aur_id r, ae_organization_id = aur_organization_id r, ae_action = aur_action r,
            ae_actor_type = actor, ae_actor_user_id = aur_actor_user_id r, ae_actor_label = aur_actor_label r,
            ae_resource_type = aur_resource_type r, ae_resource_id = aur_resource_id r, ae_outcome = outcome,
            ae_ip_address = aur_ip_address r, ae_user_agent = aur_user_agent r, ae_request_id = aur_request_id r,
            ae_metadata = aur_metadata r, ae_previous_hash = aur_previous_hash r, ae_entry_hash = aur_entry_hash r,
            ae_occurred_at = Some (aur_occurred_at r), ae_sequence = aur_sequence r\<rparr>))"

text \<open>An event that is not sealed has no time; the \<open>ValueError\<close> is \<open>Crash\<close>.\<close>

definition audit_to_record :: "audit_event \<Rightarrow> control_exn + audit_row" where
  "audit_to_record e =
     (case ae_occurred_at e of
        None \<Rightarrow> Inl control_exn.Crash
      | Some t \<Rightarrow>
          Inr \<lparr>aur_id = ae_id e, aur_organization_id = ae_organization_id e, aur_sequence = ae_sequence e,
               aur_action = ae_action e, aur_actor_type = actor_type_value (ae_actor_type e),
               aur_actor_user_id = ae_actor_user_id e, aur_actor_label = ae_actor_label e,
               aur_resource_type = ae_resource_type e, aur_resource_id = ae_resource_id e,
               aur_outcome = audit_outcome_value (ae_outcome e), aur_ip_address = ae_ip_address e,
               aur_user_agent = ae_user_agent e, aur_request_id = ae_request_id e,
               aur_metadata = ae_metadata e, aur_previous_hash = ae_previous_hash e,
               aur_entry_hash = ae_entry_hash e, aur_occurred_at = t\<rparr>)"

section \<open>Findings\<close>

text \<open>The JSON objects of the columns \<open>risk_factors\<close>, \<open>tainted_ranges\<close> and \<open>stack_frames\<close>.\<close>

record factor_doc =
  fd_name :: str
  fd_delta :: rat
  fd_reason :: str

record range_doc =
  rg_start :: int
  rg_length :: int
  rg_source :: str
  rg_source_name :: str

record frame_doc =
  fr_declaring_class :: str
  fr_method_name :: str
  fr_line_number :: int
  fr_application_code :: bool

definition round3 :: "rat \<Rightarrow> rat" where "round3 x = of_int (round_even (1000 * x)) / 1000"

definition factor_to_doc :: "factor \<Rightarrow> factor_doc" where
  "factor_to_doc f = (case f of (name, delta, reason) \<Rightarrow> \<lparr>fd_name = name, fd_delta = round3 delta, fd_reason = reason\<rparr>)"

definition factor_of_doc :: "factor_doc \<Rightarrow> factor" where
  "factor_of_doc d = (fd_name d, fd_delta d, fd_reason d)"

record finding_row = timestamps +
  fir_id :: uuid
  fir_organization_id :: uuid
  fir_application_id :: uuid
  fir_identity_hash :: str
  fir_rule_key :: str
  fir_title :: str
  fir_severity :: str
  fir_confidence :: str
  fir_sink_signature :: str
  fir_source_kind :: str
  fir_stack_hash :: str
  fir_status :: str
  fir_risk_score :: rat
  fir_risk_factors :: "factor_doc list"
  fir_occurrence_count :: int
  fir_suppressed_occurrence_count :: int
  fir_would_block_count :: int
  fir_environments_seen :: "str list"
  fir_route_templates :: "str list"
  fir_first_seen_at :: "datetime option"
  fir_last_seen_at :: "datetime option"
  fir_remediated_at :: "datetime option"
  fir_regressed :: bool
  fir_accepted_until :: "datetime option"
  fir_triage_note :: str
  fir_triaged_by :: "uuid option"
  fir_cwe_id :: "int option"

definition finding_row_ok :: "finding_row \<Rightarrow> bool" where
  "finding_row_ok r \<longleftrightarrow>
     varchar 64 (fir_identity_hash r) \<and> varchar 60 (fir_rule_key r) \<and> varchar 200 (fir_title r)
     \<and> varchar 10 (fir_severity r) \<and> varchar 10 (fir_confidence r) \<and> varchar 400 (fir_sink_signature r)
     \<and> varchar 20 (fir_source_kind r) \<and> varchar 64 (fir_stack_hash r) \<and> varchar 20 (fir_status r)
     \<and> numeric 4 2 (fir_risk_score r) \<and> int4 (fir_occurrence_count r) \<and> int4 (fir_suppressed_occurrence_count r)
     \<and> int4 (fir_would_block_count r) \<and> varchar 2000 (fir_triage_note r) \<and> opt_col int4 (fir_cwe_id r)
     \<and> enum_check FINDING_STATUSES (fir_status r) \<and> enum_check SEVERITIES (fir_severity r)
     \<and> enum_check CONFIDENCES (fir_confidence r)"

definition findings_table_ok :: "finding_row list \<Rightarrow> bool" where
  "findings_table_ok tab \<longleftrightarrow>
     (\<forall>r \<in> set tab. finding_row_ok r) \<and> unique_on fir_id tab \<and> unique_on (\<lambda>r. (fir_organization_id r, fir_identity_hash r)) tab"

definition finding_to_domain :: "finding_row \<Rightarrow> control_exn + finding" where
  "finding_to_domain r =
     res_bind (severity_member (fir_severity r)) (\<lambda>sev.
     res_bind (confidence_member (fir_confidence r)) (\<lambda>conf.
     res_bind (finding_status_of (fir_status r)) (\<lambda>status.
     res_bind (map_sum (\<lambda>e. Domain (transition_error e)) id
         (new_finding (fir_id r) (fir_organization_id r) (fir_application_id r) (fir_identity_hash r) (fir_rule_key r)
            (fir_title r) sev conf (fir_sink_signature r) (fir_source_kind r) (fir_stack_hash r) (fir_cwe_id r))) (\<lambda>e.
       Inr (e\<lparr>f_status := status, f_risk_score := fir_risk_score r,
              f_risk_factors := map factor_of_doc (fir_risk_factors r),
              f_occurrence_count := nat (fir_occurrence_count r),
              f_suppressed_occurrence_count := nat (fir_suppressed_occurrence_count r),
              f_would_block_count := nat (fir_would_block_count r), f_environments_seen := fir_environments_seen r,
              f_route_templates := fir_route_templates r, f_first_seen_at := fir_first_seen_at r,
              f_last_seen_at := fir_last_seen_at r, f_remediated_at := fir_remediated_at r,
              f_regressed := fir_regressed r, f_accepted_until := fir_accepted_until r,
              f_triage_note := fir_triage_note r, f_triaged_by := fir_triaged_by r\<rparr>)))))"

text \<open>\<open>apply_finding_to_record\<close>: everything but what the row is.\<close>

definition apply_finding :: "finding \<Rightarrow> finding_row \<Rightarrow> finding_row" where
  "apply_finding e r =
     r\<lparr>fir_title := f_title e, fir_severity := severity_value (f_severity e),
       fir_confidence := confidence_value (f_confidence e), fir_status := status_value (f_status e),
       fir_risk_score := f_risk_score e, fir_risk_factors := map factor_to_doc (f_risk_factors e),
       fir_occurrence_count := int (f_occurrence_count e),
       fir_suppressed_occurrence_count := int (f_suppressed_occurrence_count e),
       fir_would_block_count := int (f_would_block_count e), fir_environments_seen := f_environments_seen e,
       fir_route_templates := f_route_templates e, fir_first_seen_at := f_first_seen_at e,
       fir_last_seen_at := f_last_seen_at e, fir_remediated_at := f_remediated_at e,
       fir_regressed := f_regressed e, fir_accepted_until := f_accepted_until e,
       fir_triage_note := f_triage_note e, fir_triaged_by := f_triaged_by e\<rparr>"

text \<open>The columns a new row has before \<open>apply_finding_to_record\<close> fills them in.\<close>

definition finding_to_record :: "datetime \<Rightarrow> finding \<Rightarrow> finding_row" where
  "finding_to_record now e =
     apply_finding e
       \<lparr>ts_created_at = now, ts_updated_at = now, fir_id = f_id e, fir_organization_id = f_organization_id e,
        fir_application_id = f_application_id e, fir_identity_hash = f_identity_hash e,
        fir_rule_key = f_rule_key e, fir_title = [], fir_severity = [], fir_confidence = [],
        fir_sink_signature = f_sink_signature e, fir_source_kind = f_source_kind e,
        fir_stack_hash = f_stack_hash e, fir_status = ''OPEN'', fir_risk_score = 0, fir_risk_factors = [],
        fir_occurrence_count = 0, fir_suppressed_occurrence_count = 0, fir_would_block_count = 0,
        fir_environments_seen = [], fir_route_templates = [], fir_first_seen_at = None,
        fir_last_seen_at = None, fir_remediated_at = None, fir_regressed = False,
        fir_accepted_until = None, fir_triage_note = [], fir_triaged_by = None, fir_cwe_id = f_cwe_id e\<rparr>"

record occurrence_row =
  ocr_id :: uuid
  ocr_organization_id :: uuid
  ocr_finding_id :: uuid
  ocr_environment :: str
  ocr_trace_id :: str
  ocr_request_method :: str
  ocr_request_path :: str
  ocr_route_template :: str
  ocr_sink_argument :: str
  ocr_tainted_ranges :: "range_doc list"
  ocr_stack_frames :: "frame_doc list"
  ocr_remote_address :: "str option"
  ocr_attack_detected :: bool
  ocr_observed_at :: datetime
  ocr_created_at :: datetime

definition occurrence_row_ok :: "(str \<Rightarrow> bool) \<Rightarrow> occurrence_row \<Rightarrow> bool" where
  "occurrence_row_ok inet r \<longleftrightarrow>
     varchar 20 (ocr_environment r) \<and> varchar 64 (ocr_trace_id r) \<and> varchar 10 (ocr_request_method r)
     \<and> varchar 500 (ocr_request_path r) \<and> varchar 500 (ocr_route_template r) \<and> opt_col inet (ocr_remote_address r)"

definition occurrence_to_domain :: "occurrence_row \<Rightarrow> occurrence" where
  "occurrence_to_domain r =
     \<lparr>oc_finding_id = ocr_finding_id r, oc_environment = ocr_environment r, oc_trace_id = ocr_trace_id r,
      oc_request_method = ocr_request_method r, oc_request_path = ocr_request_path r,
      oc_route_template = ocr_route_template r, oc_sink_argument = ocr_sink_argument r,
      oc_tainted_ranges = map (\<lambda>d. (rg_start d, rg_length d, rg_source d, rg_source_name d)) (ocr_tainted_ranges r),
      oc_stack_frames =
        map (\<lambda>d. (fr_declaring_class d, fr_method_name d, fr_line_number d, fr_application_code d)) (ocr_stack_frames r),
      oc_remote_address = (case ocr_remote_address r of None \<Rightarrow> [] | Some a \<Rightarrow> a),
      oc_attack_detected = ocr_attack_detected r, oc_observed_at = ocr_observed_at r\<rparr>"

definition occurrence_to_record :: "datetime \<Rightarrow> uuid \<Rightarrow> uuid \<Rightarrow> occurrence \<Rightarrow> occurrence_row" where
  "occurrence_to_record now i org e =
     \<lparr>ocr_id = i, ocr_organization_id = org, ocr_finding_id = oc_finding_id e, ocr_environment = oc_environment e,
      ocr_trace_id = oc_trace_id e, ocr_request_method = oc_request_method e, ocr_request_path = oc_request_path e,
      ocr_route_template = oc_route_template e, ocr_sink_argument = oc_sink_argument e,
      ocr_tainted_ranges =
        map (\<lambda>(s, l, source, name). \<lparr>rg_start = s, rg_length = l, rg_source = source, rg_source_name = name\<rparr>)
          (oc_tainted_ranges e),
      ocr_stack_frames =
        map (\<lambda>(c, m, line, is_app). \<lparr>fr_declaring_class = c, fr_method_name = m, fr_line_number = line,
                                     fr_application_code = is_app\<rparr>) (oc_stack_frames e),
      ocr_remote_address = (if oc_remote_address e = [] then None else Some (oc_remote_address e)),
      ocr_attack_detected = oc_attack_detected e, ocr_observed_at = oc_observed_at e, ocr_created_at = now\<rparr>"

definition comment_row_ok :: "comment \<Rightarrow> bool" where
  "comment_row_ok c \<longleftrightarrow>
     varchar 200 (cm_author_label c) \<and> varchar 4000 (cm_body c) \<and> opt_col (varchar 20) (cm_status_from c)
     \<and> opt_col (varchar 20) (cm_status_to c)"

section \<open>Rule settings\<close>

record rule_settings_row = timestamps +
  rsr_id :: uuid
  rsr_organization_id :: uuid
  rsr_disabled :: "(str, str) dict"

definition rule_settings_to_domain :: "rule_settings_row \<Rightarrow> tenant_rule_settings" where
  "rule_settings_to_domain r =
     \<lparr>rs_organization_id = rsr_organization_id r, rs_disabled = rsr_disabled r, rs_id = rsr_id r,
      rs_updated_at = Some (ts_updated_at r)\<rparr>"

definition rule_settings_to_record :: "datetime \<Rightarrow> tenant_rule_settings \<Rightarrow> rule_settings_row" where
  "rule_settings_to_record now e =
     \<lparr>ts_created_at = now, ts_updated_at = now, rsr_id = rs_id e, rsr_organization_id = rs_organization_id e,
      rsr_disabled = rs_disabled e\<rparr>"

text \<open>The branch of \<open>SqlRuleSettingsRepository.save\<close> that updates.\<close>

definition apply_rule_settings :: "rule_settings_row \<Rightarrow> tenant_rule_settings \<Rightarrow> rule_settings_row" where
  "apply_rule_settings r e = r\<lparr>rsr_disabled := rs_disabled e\<rparr>"

end
