(* ===== verification/RowProps.thy ===== *)
theory RowProps
  imports RowMappingFleet
begin

text \<open>
  What the persistence mapping guarantees. \<open>row_mapper\<close> is the interface every pair of mappers meets:
  a row that was inserted loads as the entity it was made from, a row that was written over loads as
  the entity written, provided that entity is of the same row (an update leaves the identity columns
  alone), both up to what the database itself writes or rounds. A table of such rows then behaves as
  the dictionary of entities the use cases are modelled on.
\<close>

section \<open>Tables of rows\<close>

text \<open>The repositories' insert-or-update: a row is looked up by its key, made or written over.\<close>

definition store_row ::
    "('e \<Rightarrow> 'r) \<Rightarrow> ('r \<Rightarrow> 'e \<Rightarrow> 'r) \<Rightarrow> ('e \<Rightarrow> 'k) \<Rightarrow> 'e \<Rightarrow> ('k, 'r) dict \<Rightarrow> ('k, 'r) dict" where
  "store_row insert_row write_row key e tab =
     (case dget tab (key e) of
        None \<Rightarrow> dput (key e) (insert_row e) tab
      | Some r \<Rightarrow> dput (key e) (write_row r e) tab)"

definition loads_as :: "('r \<Rightarrow> control_exn + 'e) \<Rightarrow> ('e \<Rightarrow> 'v) \<Rightarrow> 'r \<Rightarrow> 'e \<Rightarrow> bool" where
  "loads_as load view r e \<longleftrightarrow> (case load r of Inl _ \<Rightarrow> False | Inr e' \<Rightarrow> view e' = view e)"

definition represents :: "('r \<Rightarrow> control_exn + 'e) \<Rightarrow> ('e \<Rightarrow> 'v) \<Rightarrow> ('k, 'r) dict \<Rightarrow> ('k, 'e) dict \<Rightarrow> bool" where
  "represents load view tab es \<longleftrightarrow> list_all2 (\<lambda>(k, r) (k', e). k = k' \<and> loads_as load view r e) tab es"

lemma loads_as_iff: "loads_as load view r e \<longleftrightarrow> (\<exists>e'. load r = Inr e' \<and> view e' = view e)"
  by (cases "load r") (auto simp: loads_as_def)

lemma represents_Nil [simp]: "represents load view [] []"
  by (simp add: represents_def)

lemma represents_dget:
  assumes "represents load view tab es"
  shows "rel_option (loads_as load view) (dget tab k) (dget es k)"
  using assms unfolding represents_def dget_def by (induction rule: list_all2_induct) (auto split: prod.splits)

lemma represents_dput:
  assumes "represents load view tab es" "loads_as load view r e"
  shows "represents load view (dput k r tab) (dput k e es)"
  using assms(1) unfolding represents_def
  by (induction rule: list_all2_induct) (auto simp: assms(2))

text \<open>
  \<open>same_row e0 e\<close>: the entities agree on the columns an update leaves alone. \<open>view\<close> forgets what the
  database writes or rounds.
\<close>

locale row_mapper =
  fixes load :: "'r \<Rightarrow> control_exn + 'e"
    and insert_row :: "datetime \<Rightarrow> 'e \<Rightarrow> 'r"
    and write_row :: "datetime \<Rightarrow> 'r \<Rightarrow> 'e \<Rightarrow> 'r"
    and key :: "'e \<Rightarrow> 'k"
    and valid :: "'e \<Rightarrow> bool"
    and same_row :: "'e \<Rightarrow> 'e \<Rightarrow> bool"
    and view :: "'e \<Rightarrow> 'v"
  assumes inserted: "valid e \<Longrightarrow> loads_as load view (insert_row now e) e"
    and written: "load r = Inr e0 \<Longrightarrow> same_row e0 e \<Longrightarrow> valid e \<Longrightarrow> loads_as load view (write_row now r e) e"
    and same_row_view: "view e1 = view e2 \<Longrightarrow> same_row e1 e = same_row e2 e"
begin

lemma store_represents:
  assumes "represents load view tab es" "valid e"
    and "\<And>e0. dget es (key e) = Some e0 \<Longrightarrow> same_row e0 e"
  shows "represents load view (store_row (insert_row now) (write_row now) key e tab) (dput (key e) e es)"
proof (cases "dget tab (key e)")
  case None
  with assms(1,2) show ?thesis by (simp add: store_row_def represents_dput inserted)
next
  case (Some r)
  with represents_dget [OF assms(1), of "key e"] obtain e0
    where e0: "dget es (key e) = Some e0" "loads_as load view r e0" by (auto simp: option_rel_Some1)
  then obtain e1 where e1: "load r = Inr e1" "view e1 = view e0" by (auto simp: loads_as_iff)
  with assms(3) [OF e0(1)] same_row_view have "same_row e1 e" by blast
  then have "loads_as load view (write_row now r e) e" using written e1(1) assms(2) by blast
  with assms(1) Some show ?thesis by (simp add: store_row_def represents_dput)
qed

text \<open>A run of stores; \<open>admissible\<close> says that each entity is valid and of the row it replaces.\<close>

primrec admissible :: "(datetime \<times> 'e) list \<Rightarrow> ('k, 'e) dict \<Rightarrow> bool" where
  "admissible [] es \<longleftrightarrow> True"
| "admissible (x # xs) es \<longleftrightarrow>
     valid (snd x) \<and> (\<forall>e0. dget es (key (snd x)) = Some e0 \<longrightarrow> same_row e0 (snd x))
     \<and> admissible xs (dput (key (snd x)) (snd x) es)"

lemma stores_represent:
  "represents load view tab es \<Longrightarrow> admissible xs es \<Longrightarrow>
   represents load view (fold (\<lambda>(now, e). store_row (insert_row now) (write_row now) key e) xs tab)
     (fold (\<lambda>(now, e). dput (key e) e) xs es)"
proof (induction xs arbitrary: tab es)
  case (Cons x xs)
  obtain now e where x: "x = (now, e)" by (cases x)
  with Cons.prems have "represents load view (store_row (insert_row now) (write_row now) key e tab) (dput (key e) e es)"
    by (auto intro!: store_represents)
  with Cons x show ?case by simp
qed simp

end

text \<open>The time of an update is a column no entity is made of, so it is enough to look at \<open>apply_...\<close>.\<close>

lemma row_mapperI:
  assumes "\<And>now r e. map_sum id view (load (write_row now r e)) = map_sum id view (load (apply_row r e))"
    and "\<And>now e. valid e \<Longrightarrow> loads_as load view (insert_row now e) e"
    and "\<And>r e0 e. load r = Inr e0 \<Longrightarrow> same_row e0 e \<Longrightarrow> valid e \<Longrightarrow> loads_as load view (apply_row r e) e"
    and "\<And>e1 e2 e. view e1 = view e2 \<Longrightarrow> same_row e1 e = same_row e2 e"
  shows "row_mapper load insert_row write_row valid same_row view"
proof
  show "loads_as load view (write_row now r e) e"
    if "load r = Inr e0" "same_row e0 e" "valid e" for now r e0 e
    using assms(3) [OF that] assms(1) [of now r e]
    by (cases "load (write_row now r e)"; cases "load (apply_row r e)") (auto simp: loads_as_def)
qed (fact assms(2) assms(4))+

section \<open>The mappers\<close>

text \<open>What \<open>strip()\<close> and a slice leave as it is.\<close>

definition trimmed :: "nat \<Rightarrow> str \<Rightarrow> bool" where
  "trimmed n s \<longleftrightarrow> strip s = s \<and> length s \<le> n"

definition valid_organization :: "organization \<Rightarrow> bool" where
  "valid_organization e \<longleftrightarrow> slug (og_slug e) = Inr (og_slug e) \<and> trimmed 200 (og_name e) \<and> og_name e \<noteq> []"

definition same_organization :: "organization \<Rightarrow> organization \<Rightarrow> bool" where
  "same_organization e0 e \<longleftrightarrow> og_id e0 = og_id e \<and> og_slug e0 = og_slug e"

definition write_organization :: "datetime \<Rightarrow> organization_row \<Rightarrow> organization \<Rightarrow> organization_row" where
  "write_organization now r e = on_update now r (apply_organization r e)"

lemma trimmed_simps [simp]:
  "trimmed n s \<Longrightarrow> strip s = s" "trimmed n s \<Longrightarrow> take n s = s" "trimmed n s \<Longrightarrow> \<not> n < length s"
  by (auto simp: trimmed_def)

lemma dom_res_simps [simp]: "dom_res (Inr x) = Inr x" "dom_res (Inl e) = Inl (Domain e)"
  by (auto simp: dom_res_def)

lemma on_update_columns [simp]: "ts_created_at (on_update now r r') = (if r' = r then ts_created_at r else ts_created_at r')"
  by (simp add: on_update_def)

lemma load_write_organization: "map_sum id id (organization_to_domain (write_organization now r e)) = map_sum id id (organization_to_domain (apply_organization r e))"
  by (simp add: write_organization_def on_update_def organization_to_domain_def)

lemmas organization_row_defs = organization_to_domain_def organization_to_record_def 
  apply_organization_def valid_organization_def same_organization_def new_organization_def Let_def

interpretation organization_rows: row_mapper organization_to_domain organization_to_record write_organization
    og_id valid_organization same_organization id
  by (rule row_mapperI [where apply_row = apply_organization], rule load_write_organization) (auto simp: loads_as_iff organization_row_defs result_iffs split: if_splits)

definition same_license :: "license \<Rightarrow> license \<Rightarrow> bool" where "same_license e0 e \<longleftrightarrow> e0 = e"

text \<open>Licences are added and never updated.\<close>

interpretation license_rows: row_mapper license_to_domain license_to_record "\<lambda>now r e. r" li_id "\<lambda>e. True" same_license id
  by unfold_locales (auto simp: loads_as_iff license_to_domain_def license_to_record_def same_license_def)

definition valid_user :: "(str \<Rightarrow> str) \<Rightarrow> user \<Rightarrow> bool" where
  "valid_user nfkc e \<longleftrightarrow>
     email_address nfkc (us_email e) = Inr (us_email e) \<and> trimmed 200 (us_full_name e)
     \<and> (case us_password_hash e of None \<Rightarrow> True | Some h \<Rightarrow> password_hash h = Inr h)"

definition same_user :: "user \<Rightarrow> user \<Rightarrow> bool" where "same_user e0 e \<longleftrightarrow> us_id e0 = us_id e"

definition write_user :: "datetime \<Rightarrow> user_row \<Rightarrow> user \<Rightarrow> user_row" where
  "write_user now r e = on_update now r (apply_user r e)"

lemma load_write_user: "map_sum id id (user_to_domain nfkc (write_user now r e)) = map_sum id id (user_to_domain nfkc (apply_user r e))"
  by (simp add: write_user_def on_update_def user_to_domain_def)

lemmas user_row_defs = user_to_domain_def user_to_record_def apply_user_def
  valid_user_def same_user_def new_user_def

lemma password_hash_kept: "password_hash h = Inr h \<Longrightarrow> h \<noteq> []"
  by (auto simp: password_hash_def)

interpretation user_rows: row_mapper "user_to_domain nfkc" user_to_record write_user us_id "valid_user nfkc" same_user id for nfkc
  by (rule row_mapperI [where apply_row = apply_user], rule load_write_user) (auto simp: loads_as_iff user_row_defs result_iffs split: if_splits option.splits dest: password_hash_kept)

definition same_mfa :: "mfa_credential \<Rightarrow> mfa_credential \<Rightarrow> bool" where
  "same_mfa e0 e \<longleftrightarrow>
     mf_id e0 = mf_id e \<and> mf_user_id e0 = mf_user_id e \<and> mf_kind e0 = mf_kind e
     \<and> mf_secret_encrypted e0 = mf_secret_encrypted e"

definition write_mfa :: "datetime \<Rightarrow> mfa_row \<Rightarrow> mfa_credential \<Rightarrow> mfa_row" where
  "write_mfa now r e = on_update now r (apply_mfa r e)"

lemma load_write_mfa: "map_sum id id (mfa_to_domain (write_mfa now r e)) = map_sum id id (mfa_to_domain (apply_mfa r e))"
  by (simp add: write_mfa_def on_update_def mfa_to_domain_def)

lemmas mfa_row_defs = mfa_to_domain_def mfa_to_record_def apply_mfa_def same_mfa_def

interpretation mfa_rows: row_mapper mfa_to_domain "\<lambda>now. mfa_to_record now lbl" write_mfa mf_id "\<lambda>e. True" same_mfa id for lbl
  by (rule row_mapperI [where apply_row = apply_mfa], rule load_write_mfa) (auto simp: loads_as_iff mfa_row_defs result_iffs split: if_splits)

definition named :: "nat \<Rightarrow> str \<Rightarrow> bool" where "named n s \<longleftrightarrow> trimmed n s \<and> s \<noteq> []"

definition valid_role :: "role \<Rightarrow> bool" where "valid_role e \<longleftrightarrow> named 80 (ro_name e)"

definition same_role :: "role \<Rightarrow> role \<Rightarrow> bool" where
  "same_role e0 e \<longleftrightarrow>
     ro_id e0 = ro_id e \<and> ro_organization_id e0 = ro_organization_id e \<and> ro_is_system e0 = ro_is_system e"

text \<open>No permission of the catalogue is lost, and their order is no information.\<close>

lemma finite_permissions: "finite (ps :: permission set)"
proof (rule finite_subset)
  show "ps \<subseteq> set ALL_PERMISSIONS"
  proof
    fix p :: permission show "p \<in> set ALL_PERMISSIONS" by (cases p) (simp_all add: ALL_PERMISSIONS_def)
  qed
qed simp

lemma stored_permissions_values [simp]: "stored_permissions (sorted_values ps) = ps"
  by (force simp: stored_permissions_def sorted_values_def map_filter_def finite_permissions)

definition write_role :: "datetime \<Rightarrow> role_row \<Rightarrow> role \<Rightarrow> role_row" where
  "write_role now r e = on_update now r (apply_role r e)"

lemma load_write_role: "map_sum id id (role_to_domain (write_role now r e)) = map_sum id id (role_to_domain (apply_role r e))"
  by (simp add: write_role_def on_update_def role_to_domain_def)

lemmas role_row_defs = role_to_domain_def role_to_record_def apply_role_def valid_role_def named_def same_role_def new_role_def Let_def

interpretation role_rows: row_mapper role_to_domain role_to_record write_role
    ro_id valid_role same_role id
  by (rule row_mapperI [where apply_row = apply_role], rule load_write_role)
    (auto simp: loads_as_iff role_row_defs result_iffs split: if_splits)

definition valid_session :: "session \<Rightarrow> bool" where
  "valid_session e \<longleftrightarrow> token_hash (se_refresh_token_hash e) = Inr (se_refresh_token_hash e)"

text \<open>The device a session was opened from is kept; only its fate is updated.\<close>

definition same_session :: "session \<Rightarrow> session \<Rightarrow> bool" where
  "same_session e0 e \<longleftrightarrow>
     se_id e0 = se_id e \<and> se_user_id e0 = se_user_id e \<and> se_organization_id e0 = se_organization_id e
     \<and> se_family_id e0 = se_family_id e \<and> se_refresh_token_hash e0 = se_refresh_token_hash e
     \<and> se_expires_at e0 = se_expires_at e \<and> se_user_agent e0 = se_user_agent e
     \<and> se_ip_address e0 = se_ip_address e"

definition session_view :: "session \<Rightarrow> session" where "session_view e = e\<lparr>se_created_at := None\<rparr>"

lemma session_view_eq: "session_view a = session_view b \<Longrightarrow> same_session a e = same_session b e"
  by (cases a; cases b) (auto simp: session_view_def same_session_def)

definition write_session :: "datetime \<Rightarrow> session_row \<Rightarrow> session \<Rightarrow> session_row" where
  "write_session now r e = on_update now r (apply_session r e)"

lemma load_write_session: "map_sum id session_view (session_to_domain (write_session now r e)) = map_sum id session_view (session_to_domain (apply_session r e))"
  by (simp add: write_session_def on_update_def session_to_domain_def)

lemmas session_row_defs = session_to_domain_def session_to_record_def apply_session_def valid_session_def same_session_def session_view_def

interpretation session_rows: row_mapper session_to_domain session_to_record write_session
    se_id valid_session same_session session_view
  by (rule row_mapperI [where apply_row = apply_session], rule load_write_session)
    (auto simp: loads_as_iff session_row_defs result_iffs split: if_splits; fail | erule session_view_eq)+

definition valid_api_key :: "api_key \<Rightarrow> bool" where
  "valid_api_key e \<longleftrightarrow> api_key_prefix (ak_prefix e) = Inr (ak_prefix e) \<and> named 120 (ak_name e)"

definition same_api_key :: "api_key \<Rightarrow> api_key \<Rightarrow> bool" where
  "same_api_key e0 e \<longleftrightarrow>
     ak_id e0 = ak_id e \<and> ak_organization_id e0 = ak_organization_id e \<and> ak_prefix e0 = ak_prefix e
     \<and> ak_secret_hash e0 = ak_secret_hash e \<and> ak_created_by e0 = ak_created_by e"

definition api_key_view :: "api_key \<Rightarrow> api_key" where "api_key_view e = e\<lparr>ak_created_at := None\<rparr>"

lemma api_key_view_eq: "api_key_view a = api_key_view b \<Longrightarrow> same_api_key a e = same_api_key b e"
  by (cases a; cases b) (auto simp: api_key_view_def same_api_key_def)

definition write_api_key :: "datetime \<Rightarrow> api_key_row \<Rightarrow> api_key \<Rightarrow> api_key_row" where
  "write_api_key now r e = on_update now r (apply_api_key r e)"

lemma load_write_api_key: "map_sum id api_key_view (api_key_to_domain (write_api_key now r e)) = map_sum id api_key_view (api_key_to_domain (apply_api_key r e))"
  by (simp add: write_api_key_def on_update_def api_key_to_domain_def)

lemmas api_key_row_defs = api_key_to_domain_def api_key_to_record_def apply_api_key_def valid_api_key_def named_def same_api_key_def api_key_view_def new_api_key_def

interpretation api_key_rows: row_mapper api_key_to_domain api_key_to_record write_api_key
    ak_id valid_api_key same_api_key api_key_view
  by (rule row_mapperI [where apply_row = apply_api_key], rule load_write_api_key)
    (auto simp: loads_as_iff api_key_row_defs result_iffs split: if_splits; fail | erule api_key_view_eq)+

definition valid_application :: "application \<Rightarrow> bool" where
  "valid_application e \<longleftrightarrow>
     slug (ap_slug e) = Inr (ap_slug e) \<and> named 120 (ap_name e) \<and> trimmed 1000 (ap_description e)"

definition same_application :: "application \<Rightarrow> application \<Rightarrow> bool" where
  "same_application e0 e \<longleftrightarrow>
     ap_id e0 = ap_id e \<and> ap_organization_id e0 = ap_organization_id e \<and> ap_slug e0 = ap_slug e
     \<and> ap_language e0 = ap_language e"

definition application_view :: "application \<Rightarrow> application" where
  "application_view e = e\<lparr>ap_created_at := None, ap_updated_at := None\<rparr>"

lemma application_view_eq: "application_view a = application_view b \<Longrightarrow> same_application a e = same_application b e"
  by (cases a; cases b) (auto simp: application_view_def same_application_def)

definition write_application :: "datetime \<Rightarrow> application_row \<Rightarrow> application \<Rightarrow> application_row" where
  "write_application now r e = on_update now r (apply_application r e)"

lemma load_write_application: "map_sum id application_view (application_to_domain (write_application now r e)) = map_sum id application_view (application_to_domain (apply_application r e))"
  by (auto simp: write_application_def on_update_def application_to_domain_def application_view_def res_bind_def split: sum.splits)

lemmas application_row_defs = application_to_domain_def application_to_record_def apply_application_def valid_application_def named_def same_application_def application_view_def new_application_def Let_def

interpretation application_rows: row_mapper application_to_domain application_to_record write_application
    ap_id valid_application same_application application_view
  by (rule row_mapperI [where apply_row = apply_application], rule load_write_application)
    (auto simp: loads_as_iff application_row_defs result_iffs split: if_splits; fail | erule application_view_eq)+

definition same_environment :: "app_environment \<Rightarrow> app_environment \<Rightarrow> bool" where
  "same_environment e0 e \<longleftrightarrow>
     ev_id e0 = ev_id e \<and> ev_organization_id e0 = ev_organization_id e
     \<and> ev_application_id e0 = ev_application_id e \<and> ev_kind e0 = ev_kind e"

definition environment_view :: "app_environment \<Rightarrow> app_environment" where
  "environment_view e = e\<lparr>ev_created_at := None, ev_updated_at := None\<rparr>"

lemma environment_view_eq: "environment_view a = environment_view b \<Longrightarrow> same_environment a e = same_environment b e"
  by (cases a; cases b) (auto simp: environment_view_def same_environment_def)

definition write_environment :: "datetime \<Rightarrow> environment_row \<Rightarrow> app_environment \<Rightarrow> environment_row" where
  "write_environment now r e = on_update now r (apply_environment r e)"

lemma load_write_environment: "map_sum id environment_view (environment_to_domain (write_environment now r e)) = map_sum id environment_view (environment_to_domain (apply_environment r e))"
  by (auto simp: write_environment_def on_update_def environment_to_domain_def environment_view_def res_bind_def split: sum.splits)

lemmas environment_row_defs = environment_to_domain_def environment_to_record_def apply_environment_def same_environment_def environment_view_def

interpretation environment_rows: row_mapper environment_to_domain environment_to_record write_environment
    ev_id "\<lambda>e. True" same_environment environment_view
  by (rule row_mapperI [where apply_row = apply_environment], rule load_write_environment)
    (auto simp: loads_as_iff environment_row_defs result_iffs split: if_splits; fail | erule environment_view_eq)+

text \<open>What a later transaction reads from a \<open>Numeric(p, s)\<close> column.\<close>

definition quantize :: "nat \<Rightarrow> rat \<Rightarrow> rat" where "quantize s x = of_int (round (x * 10 ^ s)) / 10 ^ s"

lemma quantize_idem [simp]: "quantize s (quantize s x) = quantize s x"
  by (simp add: quantize_def)

definition stored_agent :: "agent_row \<Rightarrow> agent_row" where
  "stored_agent r = r\<lparr>agr_cpu_overhead_pct := map_option (quantize 2) (agr_cpu_overhead_pct r)\<rparr>"

definition insert_agent :: "datetime \<Rightarrow> agent \<Rightarrow> agent_row" where
  "insert_agent now e = stored_agent (agent_to_record now e)"

definition change_agent :: "agent_row \<Rightarrow> agent \<Rightarrow> agent_row" where
  "change_agent r e = stored_agent (apply_agent r e)"

definition valid_agent :: "agent \<Rightarrow> bool" where
  "valid_agent e \<longleftrightarrow>
     strip (ag_fingerprint e) = ag_fingerprint e \<and> ag_fingerprint e \<noteq> [] \<and> ag_hostname e \<noteq> []
     \<and> length (ag_hostname e) \<le> 255"

definition same_agent :: "agent \<Rightarrow> agent \<Rightarrow> bool" where
  "same_agent e0 e \<longleftrightarrow>
     ag_id e0 = ag_id e \<and> ag_organization_id e0 = ag_organization_id e \<and> ag_fingerprint e0 = ag_fingerprint e
     \<and> ag_language e0 = ag_language e"

definition agent_view :: "agent \<Rightarrow> agent" where
  "agent_view e = e\<lparr>ag_created_at := None, ag_cpu_overhead_pct := map_option (quantize 2) (ag_cpu_overhead_pct e)\<rparr>"

lemma agent_view_eq: "agent_view a = agent_view b \<Longrightarrow> same_agent a e = same_agent b e"
  by (cases a; cases b) (auto simp: agent_view_def same_agent_def)

definition write_agent :: "datetime \<Rightarrow> agent_row \<Rightarrow> agent \<Rightarrow> agent_row" where
  "write_agent now r e = on_update now r (change_agent r e)"

lemma load_write_agent: "map_sum id agent_view (agent_to_domain (write_agent now r e)) = map_sum id agent_view (agent_to_domain (change_agent r e))"
  by (simp add: write_agent_def on_update_def agent_to_domain_def agent_view_def)

lemmas agent_row_defs = agent_to_domain_def agent_to_record_def apply_agent_def insert_agent_def change_agent_def stored_agent_def valid_agent_def same_agent_def agent_view_def new_agent_def Let_def option.map_comp comp_def

interpretation agent_rows: row_mapper agent_to_domain insert_agent write_agent
    ag_id valid_agent same_agent agent_view
  by (rule row_mapperI [where apply_row = change_agent], rule load_write_agent)
    (auto simp: loads_as_iff agent_row_defs result_iffs split: if_splits; fail | erule agent_view_eq)+

text \<open>The score is a \<open>Numeric(4, 2)\<close>, the contributions behind it are rounded to three places when they are written.\<close>

definition stored_finding :: "finding_row \<Rightarrow> finding_row" where
  "stored_finding r = r\<lparr>fir_risk_score := quantize 2 (fir_risk_score r)\<rparr>"

definition insert_finding :: "datetime \<Rightarrow> finding \<Rightarrow> finding_row" where
  "insert_finding now e = stored_finding (finding_to_record now e)"

definition change_finding :: "finding_row \<Rightarrow> finding \<Rightarrow> finding_row" where
  "change_finding r e = stored_finding (apply_finding e r)"

definition valid_finding :: "finding \<Rightarrow> bool" where
  "valid_finding e \<longleftrightarrow> named 200 (f_title e) \<and> f_identity_hash e \<noteq> []"

definition same_finding :: "finding \<Rightarrow> finding \<Rightarrow> bool" where
  "same_finding e0 e \<longleftrightarrow>
     f_id e0 = f_id e \<and> f_organization_id e0 = f_organization_id e \<and> f_application_id e0 = f_application_id e
     \<and> f_identity_hash e0 = f_identity_hash e \<and> f_rule_key e0 = f_rule_key e
     \<and> f_sink_signature e0 = f_sink_signature e \<and> f_source_kind e0 = f_source_kind e
     \<and> f_stack_hash e0 = f_stack_hash e \<and> f_cwe_id e0 = f_cwe_id e"

definition rounded_factor :: "factor \<Rightarrow> factor" where
  "rounded_factor f = (case f of (name, delta, reason) \<Rightarrow> (name, round3 delta, reason))"

definition finding_view :: "finding \<Rightarrow> finding" where
  "finding_view e =
     e\<lparr>f_risk_score := quantize 2 (f_risk_score e), f_risk_factors := map rounded_factor (f_risk_factors e)\<rparr>"

lemma round3_idem [simp]: "round3 (round3 x) = round3 x"
  by (simp add: round3_def)

lemma factor_docs [simp]: "factor_of_doc (factor_to_doc f) = rounded_factor f" "rounded_factor (rounded_factor f) = rounded_factor f"
  by (auto simp: factor_of_doc_def factor_to_doc_def rounded_factor_def split: prod.splits)

lemma finding_view_eq: "finding_view a = finding_view b \<Longrightarrow> same_finding a e = same_finding b e"
  by (cases a; cases b) (auto simp: finding_view_def same_finding_def)

definition write_finding :: "datetime \<Rightarrow> finding_row \<Rightarrow> finding \<Rightarrow> finding_row" where
  "write_finding now r e = on_update now r (change_finding r e)"

lemma load_write_finding:
  "map_sum id finding_view (finding_to_domain (write_finding now r e))
     = map_sum id finding_view (finding_to_domain (change_finding r e))"
  by (simp add: write_finding_def on_update_def finding_to_domain_def)

lemmas finding_row_defs = finding_to_domain_def finding_to_record_def apply_finding_def insert_finding_def
  change_finding_def stored_finding_def valid_finding_def named_def same_finding_def finding_view_def
  new_finding_def Let_def

interpretation finding_rows: row_mapper finding_to_domain insert_finding write_finding
    f_identity_hash valid_finding same_finding finding_view
  by (rule row_mapperI [where apply_row = change_finding], rule load_write_finding)
    (auto simp: loads_as_iff finding_row_defs result_iffs split: if_splits; fail | erule finding_view_eq)+

definition same_rule_settings :: "tenant_rule_settings \<Rightarrow> tenant_rule_settings \<Rightarrow> bool" where
  "same_rule_settings e0 e \<longleftrightarrow> rs_id e0 = rs_id e \<and> rs_organization_id e0 = rs_organization_id e"

definition rule_settings_view :: "tenant_rule_settings \<Rightarrow> tenant_rule_settings" where
  "rule_settings_view e = e\<lparr>rs_updated_at := None\<rparr>"

lemma rule_settings_view_eq: "rule_settings_view a = rule_settings_view b \<Longrightarrow> same_rule_settings a e = same_rule_settings b e"
  by (cases a; cases b) (auto simp: rule_settings_view_def same_rule_settings_def)

definition write_rule_settings :: "datetime \<Rightarrow> rule_settings_row \<Rightarrow> tenant_rule_settings \<Rightarrow> rule_settings_row" where
  "write_rule_settings now r e = on_update now r (apply_rule_settings r e)"

lemma load_write_rule_settings:
  "map_sum id rule_settings_view (Inr (rule_settings_to_domain (write_rule_settings now r e)))
     = map_sum id rule_settings_view (Inr (rule_settings_to_domain (apply_rule_settings r e)))"
  by (simp add: write_rule_settings_def on_update_def rule_settings_to_domain_def rule_settings_view_def)

interpretation rule_settings_rows: row_mapper "\<lambda>r. Inr (rule_settings_to_domain r)" rule_settings_to_record write_rule_settings
    rs_organization_id "\<lambda>e. True" same_rule_settings rule_settings_view
  by (rule row_mapperI [where apply_row = apply_rule_settings], rule load_write_rule_settings)
    (auto simp: loads_as_iff rule_settings_to_domain_def rule_settings_to_record_def apply_rule_settings_def
       same_rule_settings_def rule_settings_view_def; fail | erule rule_settings_view_eq)+

section \<open>Rows that are only inserted\<close>

lemma occurrence_round_trip: "occurrence_to_domain (occurrence_to_record now i org e) = e"
  by (cases e) (auto simp: occurrence_to_domain_def occurrence_to_record_def comp_def split_def)

lemma audit_round_trip: "ae_occurred_at e \<noteq> None \<Longrightarrow> res_bind (audit_to_record e) audit_to_domain = Inr e"
  by (cases e) (auto simp: audit_to_record_def audit_to_domain_def)

lemma audit_record_sound: "audit_to_record e = Inr r \<Longrightarrow> audit_to_domain r = Inr e"
  by (cases e) (auto simp: audit_to_record_def audit_to_domain_def split: option.splits)

section \<open>The table of findings\<close>

definition sql_findings_upsert :: "datetime \<Rightarrow> finding \<Rightarrow> (str, finding_row) dict \<Rightarrow> (str, finding_row) dict" where
  "sql_findings_upsert now f tab = store_row (insert_finding now) (write_finding now) f_identity_hash f tab"

definition sql_findings_get :: "(str, finding_row) dict \<Rightarrow> str \<Rightarrow> control_exn + finding option" where
  "sql_findings_get tab identity =
     (case dget tab identity of None \<Rightarrow> Inr None | Some r \<Rightarrow> map_sum id Some (finding_to_domain r))"

lemma finding_step_row: "finding_step f g \<Longrightarrow> same_finding f g \<and> f_title g = f_title f"
  by (induction rule: finding_step.induct)
    (auto simp: same_finding_def record_occurrence_def note_sighting_def record_would_block_def rescore_def
       transition_def expire_acceptance_def Let_def split: if_splits option.splits)

lemma finding_steps_row: "finding_step\<^sup>*\<^sup>* f g \<Longrightarrow> same_finding f g \<and> f_title g = f_title f"
  by (induction rule: rtranclp_induct) (auto simp: same_finding_def dest!: finding_step_row)

text \<open>
  A run of stores as the pipeline and the triage make them: a finding without title or identity is
  never made, and one that is stored already only moves along its lifecycle.
\<close>

fun lifecycle :: "(datetime \<times> finding) list \<Rightarrow> tenant_db \<Rightarrow> bool" where
  "lifecycle [] db \<longleftrightarrow> True"
| "lifecycle ((now, f) # xs) db \<longleftrightarrow>
     (case get_by_identity db (f_identity_hash f) of None \<Rightarrow> valid_finding f
      | Some f0 \<Rightarrow> valid_finding f0 \<and> finding_step\<^sup>*\<^sup>* f0 f) \<and> lifecycle xs (upsert f db)"

definition store_findings :: "(datetime \<times> finding) list \<Rightarrow> tenant_db \<Rightarrow> tenant_db" where
  "store_findings xs db = fold (\<lambda>(now, f). upsert f) xs db"

definition sql_store_findings :: "(datetime \<times> finding) list \<Rightarrow> (str, finding_row) dict \<Rightarrow> (str, finding_row) dict" where
  "sql_store_findings xs tab = fold (\<lambda>(now, f). sql_findings_upsert now f) xs tab"

lemma lifecycle_admissible: "lifecycle xs db \<Longrightarrow> finding_rows.admissible xs (td_findings db)"
proof (induction xs arbitrary: db)
  case (Cons x xs)
  obtain now f where x: "x = (now, f)" by (cases x)
  have "valid_finding f \<and> (\<forall>f0. dget (td_findings db) (f_identity_hash f) = Some f0 \<longrightarrow> same_finding f0 f)"
  proof (cases "get_by_identity db (f_identity_hash f)")
    case (Some f0)
    with Cons.prems x have f0: "valid_finding f0" "finding_step\<^sup>*\<^sup>* f0 f" by auto
    from finding_steps_row [OF f0(2)] f0(1) have "same_finding f0 f" "valid_finding f"
      by (auto simp: valid_finding_def same_finding_def)
    with Some show ?thesis by (auto simp: get_by_identity_def)
  qed (use Cons.prems x in \<open>auto simp: get_by_identity_def\<close>)
  moreover have "td_findings (upsert f db) = dput (f_identity_hash f) f (td_findings db)" by (simp add: upsert_def)
  ultimately show ?case using Cons.IH [of "upsert f db"] Cons.prems x by simp
qed simp

lemma store_findings_dict: "td_findings (store_findings xs db) = fold (\<lambda>(now, e). dput (f_identity_hash e) e) xs (td_findings db)"
  unfolding store_findings_def by (induction xs arbitrary: db) (auto simp: upsert_def)

text \<open>What an update never touches.\<close>

definition fixed_columns :: "finding_row \<Rightarrow> datetime \<times> uuid \<times> uuid \<times> uuid \<times> str \<times> str \<times> str \<times> str \<times> str" where
  "fixed_columns r =
     (ts_created_at r, fir_id r, fir_organization_id r, fir_application_id r, fir_identity_hash r, fir_rule_key r,
      fir_sink_signature r, fir_source_kind r, fir_stack_hash r)"

lemma write_finding_fixed: "fixed_columns (write_finding now r f) = fixed_columns r"
  by (simp add: fixed_columns_def write_finding_def on_update_def change_finding_def stored_finding_def apply_finding_def)

lemma upsert_fixed:
  "dget tab k = Some r \<Longrightarrow> \<exists>r'. dget (sql_findings_upsert now f tab) k = Some r' \<and> fixed_columns r' = fixed_columns r"
  by (auto simp: sql_findings_upsert_def store_row_def dget_dput write_finding_fixed split: option.splits)

lemma store_findings_fixed:
  "dget tab k = Some r \<Longrightarrow> \<exists>r'. dget (sql_store_findings xs tab) k = Some r' \<and> fixed_columns r' = fixed_columns r"
proof (induction xs arbitrary: tab r)
  case (Cons x xs)
  obtain now f where x: "x = (now, f)" by (cases x)
  from upsert_fixed [OF Cons.prems, of now f] obtain r1
    where r1: "dget (sql_findings_upsert now f tab) k = Some r1" "fixed_columns r1 = fixed_columns r" by blast
  from Cons.IH [OF r1(1)] r1(2) show ?case by (auto simp: x sql_store_findings_def)
qed (simp add: sql_store_findings_def)

text \<open>
  C5. The table of findings follows the findings of the model: over any run of stores in which a
  finding that exists only moves along its lifecycle, every identity the model holds a finding under
  loads from the table as that finding (its score and the contributions behind it rounded as the
  columns round them), an identity the model does not hold loads as nothing, and no update ever
  moves the id, the organization, the identity, the rule, the sink or the creation time of a row.
\<close>
theorem finding_rows_follow_the_findings:
  assumes "represents finding_to_domain finding_view tab (td_findings db)" "lifecycle xs db"
  shows "represents finding_to_domain finding_view (sql_store_findings xs tab) (td_findings (store_findings xs db)) \<and>
    (\<forall>k. case get_by_identity (store_findings xs db) k of
           None \<Rightarrow> sql_findings_get (sql_store_findings xs tab) k = Inr None
         | Some f \<Rightarrow> \<exists>f'. sql_findings_get (sql_store_findings xs tab) k = Inr (Some f') \<and> finding_view f' = finding_view f) \<and>
    (\<forall>k r. dget tab k = Some r \<longrightarrow>
       (\<exists>r'. dget (sql_store_findings xs tab) k = Some r' \<and> fixed_columns r' = fixed_columns r))"
proof -
  have rep: "represents finding_to_domain finding_view (sql_store_findings xs tab) (td_findings (store_findings xs db))"
    unfolding store_findings_dict sql_store_findings_def sql_findings_upsert_def
    by (rule finding_rows.stores_represent [OF assms(1) lifecycle_admissible [OF assms(2)]])
  have "case get_by_identity (store_findings xs db) k of
           None \<Rightarrow> sql_findings_get (sql_store_findings xs tab) k = Inr None
         | Some f \<Rightarrow> \<exists>f'. sql_findings_get (sql_store_findings xs tab) k = Inr (Some f') \<and> finding_view f' = finding_view f" for k
    using represents_dget [OF rep, of k]
    by (auto simp: get_by_identity_def sql_findings_get_def loads_as_iff elim!: option.rel_cases)
  with rep store_findings_fixed show ?thesis by blast
qed

theorem finding_rows_follow_the_findings_witness:
  "represents finding_to_domain finding_view
     (sql_store_findings [(1, sample_finding), (2, snd (record_occurrence sample_sighting sample_finding))] [])
     (td_findings (store_findings [(1, sample_finding), (2, snd (record_occurrence sample_sighting sample_finding))]
        \<lparr>td_agents = [], td_findings = [], td_occurrences = []\<rparr>))"
proof -
  let ?db = "\<lparr>td_agents = [], td_findings = [], td_occurrences = []\<rparr> :: tenant_db"
  have facts: "f_identity_hash sample_finding = ''h''" "f_title sample_finding = ''SQL injection''"
    by code_simp+
  have "strip ''SQL injection'' = ''SQL injection''" by code_simp
  then have valid: "valid_finding sample_finding"
    by (simp add: valid_finding_def named_def trimmed_def facts)
  have step: "finding_step\<^sup>*\<^sup>* sample_finding (snd (record_occurrence sample_sighting sample_finding))"
    by (intro r_into_rtranclp finding_step.seen)
  from finding_steps_row [OF step] have same: "f_identity_hash (snd (record_occurrence sample_sighting sample_finding)) = ''h''"
    by (simp add: same_finding_def facts)
  have "lifecycle [(1, sample_finding), (2, snd (record_occurrence sample_sighting sample_finding))] ?db"
    using valid step by (simp add: get_by_identity_def upsert_def dget_def facts same)
  from finding_rows_follow_the_findings [OF _ this, of "[]"] show ?thesis by simp
qed

section \<open>Entities come back\<close>

text \<open>A mapping keeps an entity when what it inserts or writes over a row of it loads as the entity.\<close>

definition keeps ::
    "('r \<Rightarrow> control_exn + 'e) \<Rightarrow> (datetime \<Rightarrow> 'e \<Rightarrow> 'r) \<Rightarrow> (datetime \<Rightarrow> 'r \<Rightarrow> 'e \<Rightarrow> 'r) \<Rightarrow> ('e \<Rightarrow> 'e \<Rightarrow> bool) \<Rightarrow> ('e \<Rightarrow> 'v) \<Rightarrow> 'e \<Rightarrow> bool" where
  "keeps load insert_row write_row same view e \<longleftrightarrow>
     (\<forall>now. loads_as load view (insert_row now e) e) \<and>
     (\<forall>now r e0. load r = Inr e0 \<longrightarrow> same e0 e \<longrightarrow> loads_as load view (write_row now r e) e)"

context row_mapper
begin

lemma keeps_valid: "valid e \<Longrightarrow> keeps load insert_row write_row same_row view e"
  using inserted written by (auto simp: keeps_def)

end



text \<open>
  A constructor is not the identity on what it made: a name cut at its limit may end in a blank,
  which the next load strips, so such a key comes back under another name.
\<close>

lemma cut_name_changes_on_load:
  "\<exists>k. new_api_key ''k'' ''o'' (replicate 119 (CHR ''a'') @ '' b'') ''abcdefghijkl'' ''$'' {} None None None = Inr k \<and>
     \<not> loads_as api_key_to_domain api_key_view (api_key_to_record 0 k) k"
proof -
  have "new_api_key ''k'' ''o'' (replicate 119 (CHR ''a'') @ '' b'') ''abcdefghijkl'' ''$'' {} None None None
      = Inr \<lparr>ak_id = ''k'', ak_organization_id = ''o'', ak_name = replicate 119 (CHR ''a'') @ '' '', ak_prefix = ''abcdefghijkl'',
          ak_secret_hash = ''$'', ak_permissions = {}, ak_created_by = None, ak_expires_at = None,
          ak_revoked_at = None, ak_last_used_at = None, ak_created_at = None\<rparr>"
    by code_simp
  moreover have "api_key_prefix ''abcdefghijkl'' = Inr ''abcdefghijkl''" by code_simp
  moreover have "take 120 (strip (replicate 119 (CHR ''a'') @ '' '')) = replicate 119 (CHR ''a'')" by code_simp
  ultimately show ?thesis
    by (auto simp: loads_as_def api_key_to_domain_def api_key_to_record_def new_api_key_def api_key_view_def)
qed

end
