(* ===== verification/HttpGuards.thy ===== *)
theory HttpGuards
  imports Fleet SignInProps
begin

text \<open>
  The edge of the control plane (\<open>interfaces/http/dependencies.py\<close>, \<open>middleware.py\<close> and the parts of
  \<open>config.py\<close> they read): the request id and client address of a request, the context the use cases
  record, the credential that becomes a principal, the route guards, the refresh token, and the
  headers of a response. A request is what Starlette hands over: its headers by lower-case name (the
  first of equal names), the peer, the query and the cookies. Logging and metrics are left out.
\<close>

section \<open>Configuration\<close>

datatype deployment = ENV_LOCAL | ENV_TEST | ENV_DEVELOPMENT | ENV_STAGING | ENV_PRODUCTION

definition runs_in_production :: "deployment \<Rightarrow> bool" where
  "runs_in_production d \<longleftrightarrow> d = ENV_STAGING \<or> d = ENV_PRODUCTION"

text \<open>The default of \<open>Settings.environment\<close>.\<close>

definition DEFAULT_ENVIRONMENT :: deployment where "DEFAULT_ENVIRONMENT = ENV_LOCAL"

definition API_INSECURE_DEFAULTS :: "str list" where
  "API_INSECURE_DEFAULTS =
     [[], ''change-me'', ''changeme'', ''secret'', ''change-me-a-64-byte-random-value-for-local-development-only'']"

record secret_settings =
  ss_environment :: deployment
  ss_debug :: bool
  ss_jwt_algorithm :: str
  ss_jwt_secret :: str
  ss_jwt_private_key :: str
  ss_jwt_public_key :: str
  ss_secret_encryption_key :: str
  ss_cors_origins :: "str list"

text \<open>\<open>_validate_secrets\<close>: the message of the \<open>ValueError\<close>, or the settings; \<open>fresh\<close> is \<open>token_urlsafe(64)\<close>.\<close>

definition validate_api_secrets :: "str \<Rightarrow> secret_settings \<Rightarrow> str + secret_settings" where
  "validate_api_secrets fresh s =
     (let weak = lower (strip (ss_jwt_secret s)) \<in> set API_INSECURE_DEFAULTS in
      if runs_in_production (ss_environment s) then
        res_bind (if startswith (ss_jwt_algorithm s) ''HS'' then
            res_bind (raise_if weak ''AEGIS_JWT_SECRET must be set to a strong random value outside local use.'') (\<lambda>_.
            raise_if (length (ss_jwt_secret s) < 32) ''AEGIS_JWT_SECRET must be at least 32 characters.'')
          else raise_if (ss_jwt_private_key s = [] \<or> ss_jwt_public_key s = [])
            ''Asymmetric JWT algorithms require AEGIS_JWT_PRIVATE_KEY and AEGIS_JWT_PUBLIC_KEY.'') (\<lambda>_.
        res_bind (raise_if (ss_secret_encryption_key s = [])
          ''AEGIS_SECRET_ENCRYPTION_KEY must be set so MFA secrets are encrypted at rest.'') (\<lambda>_.
        res_bind (raise_if (ss_debug s) ''Debug mode must not be enabled outside development.'') (\<lambda>_.
        res_bind (raise_if (''*'' \<in> set (ss_cors_origins s))
          ''A wildcard CORS origin is not permitted outside development.'') (\<lambda>_.
        Inr s))))
      else Inr (if weak then s\<lparr>ss_jwt_secret := fresh\<rparr> else s))"

section \<open>Requests\<close>

record http_request =
  hq_headers :: "(str, str) dict"
  hq_client :: "str option"
  hq_query :: "(str, str) dict"
  hq_cookies :: "(str, str) dict"

definition header :: "http_request \<Rightarrow> str \<Rightarrow> str option" where
  "header q name = dget (hq_headers q) name"

text \<open>\<open>fresh\<close> is \<open>uuid4().hex\<close>.\<close>

definition request_id_of :: "str \<Rightarrow> http_request \<Rightarrow> str" where
  "request_id_of fresh q =
     (case header q ''x-request-id'' of None \<Rightarrow> fresh | Some i \<Rightarrow> if i = [] then fresh else i)"

definition client_ip_from_scope :: "http_request \<Rightarrow> str option" where
  "client_ip_from_scope q =
     (case header q ''x-forwarded-for'' of
        None \<Rightarrow> hq_client q
      | Some f \<Rightarrow> if f = [] then hq_client q else Some (strip (hd (split_on (CHR '','') f))))"

definition get_request_context :: "str \<Rightarrow> http_request \<Rightarrow> request_context" where
  "get_request_context fresh q =
     \<lparr>rc_request_id = request_id_of fresh q, rc_ip_address = client_ip_from_scope q,
      rc_user_agent = take 400 (case header q ''user-agent'' of None \<Rightarrow> [] | Some ua \<Rightarrow> ua)\<rparr>"

section \<open>Credentials\<close>

definition credential_required :: domain_error where
  "credential_required = AuthenticationError (Some ''An Authorization: Bearer credential is required.'')"

definition bearer :: "str option \<Rightarrow> domain_error + str" where
  "bearer authorization =
     (case authorization of
        None \<Rightarrow> Inl credential_required
      | Some a \<Rightarrow>
          if a = [] \<or> \<not> startswith (lower a) ''bearer '' then Inl credential_required
          else (let token = strip (drop 7 a) in if token = [] then Inl credential_required else Inr token))"

text \<open>\<open>authorization or (f"Bearer {token}" if token else None)\<close>.\<close>

definition effective_authorization :: "http_request \<Rightarrow> str option" where
  "effective_authorization q =
     (case header q ''authorization'' of
        Some a \<Rightarrow> if a \<noteq> [] then Some a
                  else (case dget (hq_query q) ''token'' of Some t \<Rightarrow> if t = [] then None else Some (''Bearer '' @ t) | None \<Rightarrow> None)
      | None \<Rightarrow> (case dget (hq_query q) ''token'' of Some t \<Rightarrow> if t = [] then None else Some (''Bearer '' @ t) | None \<Rightarrow> None))"

definition endswith :: "str \<Rightarrow> str \<Rightarrow> bool" where
  "endswith s t \<longleftrightarrow> length t \<le> length s \<and> drop (length s - length t) s = t"

definition DEV_USER_ID :: uuid where "DEV_USER_ID = ''00000000-0000-0000-0000-000000000001''"
definition DEV_ORGANIZATION_ID :: uuid where "DEV_ORGANIZATION_ID = ''00000000-0000-0000-0000-000000000000''"

definition no_context :: request_context where
  "no_context = \<lparr>rc_request_id = [], rc_ip_address = None, rc_user_agent = []\<rparr>"

definition dev_principal :: principal where
  "dev_principal =
     \<lparr>pr_kind = ACTOR_USER, pr_organization_id = DEV_ORGANIZATION_ID, pr_permissions = set ALL_PERMISSIONS,
      pr_user_id = Some DEV_USER_ID, pr_session_id = None, pr_api_key_id = None, pr_agent_id = None,
      pr_membership_id = None, pr_label = [], pr_mfa_satisfied = False, pr_is_platform_admin = False,
      pr_is_owner = False, pr_context = no_context\<rparr>"

definition current_principal ::
    "deployment \<Rightarrow> auth_deps \<Rightarrow> control_env \<Rightarrow> str \<Rightarrow> http_request \<Rightarrow> control_db \<Rightarrow> principal Auth.outcome" where
  "current_principal d deps env fresh q db =
     (let auth = effective_authorization q; ctx = get_request_context fresh q in
      if d = ENV_LOCAL \<and> (auth = None \<or> (case auth of None \<Rightarrow> False | Some a \<Rightarrow> endswith a ''dev-token''))
      then (Inr dev_principal, db)
      else case bearer auth of
          Inl e \<Rightarrow> (Inl (Domain e), db)
        | Inr raw \<Rightarrow>
            if startswith raw ''ak_'' then resolve_api_key_principal deps env raw ctx db
            else (resolve_user_principal deps env raw ctx db, db))"

definition is_user :: "principal \<Rightarrow> bool" where "is_user pr \<longleftrightarrow> pr_kind pr = ACTOR_USER"

definition current_user_principal :: "principal \<Rightarrow> domain_error + principal" where
  "current_user_principal pr =
     (if is_user pr then Inr pr
      else Inl (PermissionDeniedError (Some ''This endpoint is only available to signed-in users.'')))"

definition current_agent ::
    "auth_deps \<Rightarrow> str \<Rightarrow> http_request \<Rightarrow> fleet_db \<Rightarrow> control_exn + principal" where
  "current_agent deps fresh q db =
     res_bind (dom_res (bearer (header q ''authorization''))) (\<lambda>token.
       resolve_agent_principal deps token (get_request_context fresh q) db)"

fun requires :: "permission list \<Rightarrow> principal \<Rightarrow> domain_error + principal" where
  "requires [] pr = Inr pr"
| "requires (p # ps) pr = res_bind (require p pr) (\<lambda>_. requires ps pr)"

definition read_refresh_token :: "http_request \<Rightarrow> str option \<Rightarrow> domain_error + str" where
  "read_refresh_token q body_token =
     (case (case dget (hq_cookies q) ''aegis_refresh'' of
              Some c \<Rightarrow> if c = [] then body_token else Some c | None \<Rightarrow> body_token) of
        None \<Rightarrow> Inl (TokenError (Some ''A refresh token is required.''))
      | Some t \<Rightarrow> if t = [] then Inl (TokenError (Some ''A refresh token is required.'')) else Inr t)"

section \<open>Responses\<close>

definition BASE_HEADERS :: "(str, str) dict" where
  "BASE_HEADERS =
     [(''x-content-type-options'', ''nosniff''), (''x-frame-options'', ''DENY''),
      (''referrer-policy'', ''no-referrer''),
      (''content-security-policy'',
       ''default-src '' @ [CHR 0x27] @ ''none'' @ [CHR 0x27] @ ''; frame-ancestors '' @ [CHR 0x27] @ ''none'' @ [CHR 0x27]
         @ ''; base-uri '' @ [CHR 0x27] @ ''none'' @ [CHR 0x27] @ ''; form-action '' @ [CHR 0x27] @ ''none'' @ [CHR 0x27]),
      (''permissions-policy'', ''geolocation=(), microphone=(), camera=(), payment=()''),
      (''cross-origin-resource-policy'', ''same-origin''), (''cache-control'', ''no-store'')]"

definition hardening_headers :: "bool \<Rightarrow> (str, str) dict" where
  "hardening_headers hsts =
     (if hsts then dput ''strict-transport-security'' ''max-age=63072000; includeSubDomains; preload'' BASE_HEADERS
      else BASE_HEADERS)"

text \<open>A header the handler has set is left alone.\<close>

definition set_default :: "str \<times> str \<Rightarrow> (str, str) dict \<Rightarrow> (str, str) dict" where
  "set_default h headers = (if dget headers (fst h) = None then headers @ [h] else headers)"

definition security_headers :: "bool \<Rightarrow> (str, str) dict \<Rightarrow> (str, str) dict" where
  "security_headers hsts headers = fold set_default (hardening_headers hsts) headers"

definition request_id_header :: "str \<Rightarrow> (str, str) dict \<Rightarrow> (str, str) dict" where
  "request_id_header request_id headers = dput ''x-request-id'' request_id headers"

text \<open>What leaves the application for what a handler answered: the request id is the outer layer.\<close>

definition respond :: "deployment \<Rightarrow> str \<Rightarrow> http_request \<Rightarrow> (str, str) dict \<Rightarrow> (str, str) dict" where
  "respond d fresh q headers =
     request_id_header (request_id_of fresh q) (security_headers (runs_in_production d) headers)"

section \<open>Which door a credential opens\<close>

lemma membership_for_user:
  "memberships_get_for_user db org user_id = Some m \<Longrightarrow> me_organization_id m = org \<and> me_user_id m = user_id"
  by (auto simp: memberships_get_for_user_def membership_to_domain_def scoped_memberships_def dest!: find_holds)

text \<open>A session the token names is one of the store that is not revoked.\<close>

definition session_stands :: "control_db \<Rightarrow> uuid option \<Rightarrow> bool" where
  "session_stands db sid \<longleftrightarrow>
     (case sid of None \<Rightarrow> True
      | Some i \<Rightarrow> (case sessions_get db i of None \<Rightarrow> False | Some s \<Rightarrow> se_revoked_at s = None))"

lemma resolve_user_Inr:
  assumes "resolve_user_principal deps env token ctx db = Inr pr"
  obtains claims user_id u m where "codec_decode deps token USER_AUDIENCE = Inr claims"
    "users_get db user_id = Some u" "user_active u" "\<not> user_locked (ce_now env) u"
    "active_membership db (pr_organization_id pr) user_id = Inr m" "session_stands db (pr_session_id pr)"
    "\<exists>o1. organizations_get db (pr_organization_id pr) = Some o1 \<and> organization_active o1"
    "pr_kind pr = ACTOR_USER" "pr_user_id pr = Some user_id" "pr_agent_id pr = None"
    "pr_permissions pr = membership_permissions m" "pr_context pr = ctx"
proof -
  from assms obtain claims user_id org sid where step: "codec_decode deps token USER_AUDIENCE = Inr claims"
    and rest: "(case users_get db user_id of
       None \<Rightarrow> Inl invalid_credentials
     | Some u \<Rightarrow>
         if \<not> user_active u \<or> user_locked (ce_now env) u then Inl invalid_credentials
         else
           res_bind (case sid of None \<Rightarrow> Inr ()
             | Some sid \<Rightarrow> (case sessions_get db sid of
                 None \<Rightarrow> Inl (Domain (TokenError (Some ''This session has been revoked.'')))
               | Some s \<Rightarrow> if se_revoked_at s \<noteq> None
                   then Inl (Domain (TokenError (Some ''This session has been revoked.''))) else Inr ())) (\<lambda>_.
           res_bind (case organizations_get db org of None \<Rightarrow> Inl invalid_credentials
             | Some o1 \<Rightarrow> if organization_active o1 then Inr () else Inl invalid_credentials) (\<lambda>_.
           res_bind (active_membership db org user_id) (\<lambda>m.
           Inr (for_membership m sid (us_email u) (truthy (jget claims ''mfa''))
                  (us_is_platform_admin u) ctx))))) = Inr pr"
    unfolding resolve_user_principal_def res_bind_Inr by blast
  from rest obtain u where u: "users_get db user_id = Some u" "user_active u" "\<not> user_locked (ce_now env) u"
    by (auto split: option.splits if_splits)
  with rest obtain m o1 where m: "active_membership db org user_id = Inr m" "organizations_get db org = Some o1"
      "organization_active o1" "session_stands db sid"
    and pr: "pr = for_membership m sid (us_email u) (truthy (jget claims ''mfa'')) (us_is_platform_admin u) ctx"
    by (auto simp: res_bind_Inr session_stands_def split: option.splits if_splits)
  from m(1) have "me_organization_id m = org" "me_user_id m = user_id"
    by (auto simp: active_membership_def dest: membership_for_user split: option.splits if_splits)
  with step u m pr show thesis by (intro that) (auto simp: for_membership_def)
qed

lemma resolve_key_Inr:
  assumes "resolve_api_key_principal deps env presented ctx db = (Inr pr, db')"
  obtains pfx k where "api_key_prefix (fst (split_api_key presented)) = Inr pfx" "api_keys_get_by_prefix db pfx = Some k"
    "api_key_active (ce_now env) k" "ad_verify deps (snd (snd (split_api_key presented))) (ak_secret_hash k)"
    "\<exists>o1. organizations_get db (ak_organization_id k) = Some o1 \<and> organization_active o1"
    "pr_kind pr = ACTOR_API_KEY" "pr_user_id pr = None" "pr_agent_id pr = None" "pr_permissions pr = ak_permissions k"
    "pr_organization_id pr = ak_organization_id k" "pr_context pr = ctx" "db' = api_keys_touch (ak_id k) (ce_now env) db"
  using assms
  by (auto simp: resolve_api_key_principal_def with_uow_def split: prod.splits sum.splits option.splits if_splits)

lemma resolve_agent_Inr:
  assumes "resolve_agent_principal deps token ctx db = Inr pr"
  obtains claims agent_id org a where "codec_decode deps token AGENT_TOKEN_AUDIENCE = Inr claims"
    "jget claims ''purpose'' = JStr ''agent''" "agents_get db org agent_id = Some a" "ag_status a \<noteq> DISABLED"
    "pr_kind pr = ACTOR_AGENT" "pr_permissions pr = {}" "pr_user_id pr = None" "pr_agent_id pr = Some agent_id"
    "pr_organization_id pr = org" "pr_context pr = ctx"
  using assms unfolding resolve_agent_principal_def by (auto simp: res_bind_Inr split: option.splits if_splits)

lemma requires_Inr: "requires ps pr = Inr pr' \<longleftrightarrow> set ps \<subseteq> pr_permissions pr \<and> pr' = pr"
  by (induction ps) (auto simp: res_bind_Inr require_def)

text \<open>A token is one audience's only, and what looks like an API key is no token.\<close>

definition audiences_separate :: "auth_deps \<Rightarrow> bool" where
  "audiences_separate deps \<longleftrightarrow>
     (\<forall>t. (ad_decode deps t USER_AUDIENCE = None \<or> ad_decode deps t AGENT_TOKEN_AUDIENCE = None)
        \<and> (startswith t ''ak_'' \<longrightarrow> ad_decode deps t AGENT_TOKEN_AUDIENCE = None))"

text \<open>
  The principal of a user: an active, unlocked user of the store whose membership in an active
  organization is active, holding exactly the permissions that membership has now.
\<close>

definition user_principal_of :: "control_env \<Rightarrow> control_db \<Rightarrow> principal \<Rightarrow> bool" where
  "user_principal_of env db pr \<longleftrightarrow>
     pr_kind pr = ACTOR_USER \<and> session_stands db (pr_session_id pr) \<and>
     (\<exists>user_id u m o1. pr_user_id pr = Some user_id \<and> users_get db user_id = Some u \<and> user_active u \<and>
        \<not> user_locked (ce_now env) u \<and> active_membership db (pr_organization_id pr) user_id = Inr m \<and>
        pr_permissions pr = membership_permissions m \<and>
        organizations_get db (pr_organization_id pr) = Some o1 \<and> organization_active o1)"

definition key_principal_of :: "control_env \<Rightarrow> control_db \<Rightarrow> principal \<Rightarrow> bool" where
  "key_principal_of env db pr \<longleftrightarrow>
     pr_kind pr = ACTOR_API_KEY \<and> pr_user_id pr = None \<and>
     (\<exists>k o1 pfx. api_keys_get_by_prefix db pfx = Some k \<and> api_key_active (ce_now env) k \<and>
        pr_permissions pr = ak_permissions k \<and> pr_organization_id pr = ak_organization_id k \<and>
        organizations_get db (ak_organization_id k) = Some o1 \<and> organization_active o1)"

lemma current_principal_Inr:
  assumes "d \<noteq> ENV_LOCAL" "current_principal d deps env fresh q db = (Inr pr, db')"
  obtains raw where "bearer (effective_authorization q) = Inr raw"
    "if startswith raw ''ak_'' then resolve_api_key_principal deps env raw (get_request_context fresh q) db = (Inr pr, db')
     else resolve_user_principal deps env raw (get_request_context fresh q) db = Inr pr \<and> db' = db"
  using assms by (auto simp: current_principal_def Let_def split: sum.splits if_splits)

lemma resolved_principal:
  assumes "d \<noteq> ENV_LOCAL" "current_principal d deps env fresh q db = (Inr pr, db')"
  shows "pr_agent_id pr = None \<and> pr_context pr = get_request_context fresh q \<and>
      (user_principal_of env db pr \<and> db' = db \<and> current_user_principal pr = Inr pr \<or>
       key_principal_of env db pr \<and> (\<exists>e. current_user_principal pr = Inl e) \<and> db_users db' = db_users db)"
proof -
  from current_principal_Inr [OF assms] obtain raw where raw:
    "if startswith raw ''ak_'' then resolve_api_key_principal deps env raw (get_request_context fresh q) db = (Inr pr, db')
     else resolve_user_principal deps env raw (get_request_context fresh q) db = Inr pr \<and> db' = db" by blast
  show ?thesis
  proof (cases "startswith raw ''ak_''")
    case True
    with raw have "resolve_api_key_principal deps env raw (get_request_context fresh q) db = (Inr pr, db')" by simp
    then show ?thesis
      by (rule resolve_key_Inr) (auto simp: key_principal_of_def current_user_principal_def is_user_def api_keys_touch_def)
  next
    case False
    with raw have "resolve_user_principal deps env raw (get_request_context fresh q) db = Inr pr" "db' = db" by auto
    from this(1) show ?thesis
      by (rule resolve_user_Inr) (use \<open>db' = db\<close> in \<open>auto simp: user_principal_of_def current_user_principal_def is_user_def\<close>)
  qed
qed

text \<open>
  C21. Outside the local environment a credential opens its own door and nothing else: whatever
  resolves is either the access token of an active user, acting with the permissions their membership
  has at this moment and changing nothing, or an active API key of an active organization with the
  key's own permissions and no user behind it, so that a route for signed-in users refuses it; an
  agent credential never resolves here. What \<open>current_agent\<close> admits is a registered agent that is not
  disabled, without a single permission: every route that requires one, and every route for users,
  refuses it. And no request passes both doors, when the token library separates audiences.
\<close>
theorem credentials_open_their_own_door:
  assumes "d \<noteq> ENV_LOCAL"
  shows "(\<forall>pr db'. current_principal d deps env fresh q db = (Inr pr, db') \<longrightarrow>
      pr_agent_id pr = None \<and> pr_context pr = get_request_context fresh q \<and>
      (user_principal_of env db pr \<and> db' = db \<and> current_user_principal pr = Inr pr \<or>
       key_principal_of env db pr \<and> (\<exists>e. current_user_principal pr = Inl e) \<and> db_users db' = db_users db)) \<and>
    (\<forall>pr. current_agent deps fresh q fdb = Inr pr \<longrightarrow>
      (\<exists>a i. agents_get fdb (pr_organization_id pr) i = Some a \<and> ag_status a \<noteq> DISABLED \<and> pr_agent_id pr = Some i) \<and>
      pr_permissions pr = {} \<and> (\<forall>p ps. \<exists>e. requires (p # ps) pr = Inl e) \<and> (\<exists>e. current_user_principal pr = Inl e)) \<and>
    (audiences_separate deps \<longrightarrow> (\<forall>pr. current_agent deps fresh q fdb = Inr pr \<longrightarrow>
      (\<exists>e. fst (current_principal d deps env fresh q db) = Inl e)))"
proof (intro conjI allI impI)
  fix pr db' assume ok: "current_principal d deps env fresh q db = (Inr pr, db')"
  from resolved_principal [OF assms ok]
  show "pr_agent_id pr = None" "pr_context pr = get_request_context fresh q"
    "user_principal_of env db pr \<and> db' = db \<and> current_user_principal pr = Inr pr \<or>
       key_principal_of env db pr \<and> (\<exists>e. current_user_principal pr = Inl e) \<and> db_users db' = db_users db" by auto
next
  fix pr assume "current_agent deps fresh q fdb = Inr pr"
  then obtain token where "resolve_agent_principal deps token (get_request_context fresh q) fdb = Inr pr"
    by (auto simp: current_agent_def res_bind_Inr)
  from resolve_agent_Inr [OF this] obtain agent_id a where a: "agents_get fdb (pr_organization_id pr) agent_id = Some a"
      "ag_status a \<noteq> DISABLED" "pr_agent_id pr = Some agent_id" "pr_kind pr = ACTOR_AGENT" "pr_permissions pr = {}"
    by metis
  then show "\<exists>a i. agents_get fdb (pr_organization_id pr) i = Some a \<and> ag_status a \<noteq> DISABLED \<and> pr_agent_id pr = Some i"
    "pr_permissions pr = {}" "\<exists>e. current_user_principal pr = Inl e"
    by (auto simp: current_user_principal_def is_user_def)
  show "\<exists>e. requires (p # ps) pr = Inl e" for p ps using a(5) by (simp add: require_def)
next
  fix pr assume sep: "audiences_separate deps" and "current_agent deps fresh q fdb = Inr pr"
  then obtain token where token: "bearer (header q ''authorization'') = Inr token"
      "resolve_agent_principal deps token (get_request_context fresh q) fdb = Inr pr"
    by (auto simp: current_agent_def res_bind_Inr)
  from resolve_agent_Inr [OF token(2)] have "ad_decode deps token AGENT_TOKEN_AUDIENCE \<noteq> None"
    by (auto simp: codec_decode_def)
  with sep have shut: "ad_decode deps token USER_AUDIENCE = None" "\<not> startswith token ''ak_''"
    by (auto simp: audiences_separate_def)
  from token(1) have "effective_authorization q = header q ''authorization''"
    by (auto simp: bearer_def effective_authorization_def split: option.splits if_splits)
  with token(1) shut assms show "\<exists>e. fst (current_principal d deps env fresh q db) = Inl e"
    by (simp add: current_principal_def Let_def resolve_user_principal_def codec_decode_def expect_def)
qed

definition door_deps :: auth_deps where
  "door_deps = sample_deps
     \<lparr>ad_decode := (\<lambda>t a. if t = ''jwt'' \<and> a = USER_AUDIENCE
        then Some [(''sub'', JStr (sample_id CHR ''1'')), (''org'', JStr (sample_id CHR ''2'')), (''mfa'', JBool True)] else None)\<rparr>"

definition door_request :: http_request where
  "door_request = \<lparr>hq_headers = [(''authorization'', ''Bearer jwt''), (''x-forwarded-for'', ''10.0.0.7, 10.0.0.1'')],
     hq_client = None, hq_query = [], hq_cookies = []\<rparr>"

theorem credentials_open_their_own_door_witness:
  "case fst (current_principal ENV_PRODUCTION door_deps (sample_control_env ''x'') ''rid'' door_request sample_account_db) of
     Inl e \<Rightarrow> False
   | Inr pr \<Rightarrow> user_principal_of (sample_control_env ''x'') sample_account_db pr \<and> rc_ip_address (pr_context pr) = Some ''10.0.0.7''"
proof -
  let ?r = "current_principal ENV_PRODUCTION door_deps (sample_control_env ''x'') ''rid'' door_request sample_account_db"
  have kind: "map_sum (\<lambda>e. ()) pr_kind (fst ?r) = Inr ACTOR_USER" by code_simp
  have ip: "rc_ip_address (get_request_context ''rid'' door_request) = Some ''10.0.0.7''" by code_simp
  obtain pr db' where r: "?r = (Inr pr, db')" "pr_kind pr = ACTOR_USER"
    using kind by (cases ?r; cases "fst ?r") auto
  have "ENV_PRODUCTION \<noteq> ENV_LOCAL" by simp
  from credentials_open_their_own_door [OF this, of door_deps "sample_control_env ''x''" "''rid''" door_request sample_account_db
      "\<lparr>fd_core = sample_account_db, fd_applications = [], fd_environments = [], fd_agents = []\<rparr>"] r ip
  show ?thesis by (auto simp: key_principal_of_def)
qed

text \<open>
  In the local environment, which is the default, a request without credential is a user with every
  permission there is, whoever sends it.
\<close>

lemma local_door_stands_open:
  assumes "header q ''authorization'' = None" "dget (hq_query q) ''token'' = None"
  shows "current_principal DEFAULT_ENVIRONMENT deps env fresh q db = (Inr dev_principal, db)"
    "requires ps dev_principal = Inr dev_principal" "current_user_principal dev_principal = Inr dev_principal"
proof -
  have "p \<in> set ALL_PERMISSIONS" for p by (cases p) (simp_all add: ALL_PERMISSIONS_def)
  then show "requires ps dev_principal = Inr dev_principal" by (auto simp: requires_Inr dev_principal_def)
qed (use assms in \<open>simp_all add: current_principal_def effective_authorization_def DEFAULT_ENVIRONMENT_def
      current_user_principal_def dev_principal_def is_user_def\<close>)

section \<open>Headers of a response\<close>

lemma set_default_dget: "dget (set_default h headers) k =
    (case dget headers k of Some v \<Rightarrow> Some v | None \<Rightarrow> if k = fst h then Some (snd h) else None)"
  by (cases h) (auto simp: set_default_def dget_def map_add_def split: option.splits)

lemma security_headers_dget: "dict_ok hs \<Longrightarrow>
    dget (fold set_default hs headers) k = (case dget headers k of Some v \<Rightarrow> Some v | None \<Rightarrow> dget hs k)"
proof (induction hs arbitrary: headers)
  case (Cons h hs)
  then have "fst h \<notin> fst ` set hs" "dict_ok hs" by (auto simp: dict_ok_def)
  then have "dget hs (fst h) = None" by (simp add: dget_None)
  moreover have "dget (h # hs) k = (if k = fst h then Some (snd h) else dget hs k)" by (cases h) (simp add: dget_def)
  moreover have "dget (fold set_default (h # hs) headers) k
      = (case dget (set_default h headers) k of Some v \<Rightarrow> Some v | None \<Rightarrow> dget hs k)"
    using Cons.IH [OF \<open>dict_ok hs\<close>] by simp
  ultimately show ?case by (auto simp: set_default_dget split: option.splits)
qed (simp add: dget_def split: option.splits)

text \<open>
  Whatever the handler answers, the response carries the request's id and every hardening header, the
  handler's own value where it set one.
\<close>

lemma response_is_hardened:
  "dget (respond d fresh q headers) ''x-request-id'' = Some (request_id_of fresh q)"
  "k \<noteq> ''x-request-id'' \<Longrightarrow> dget (respond d fresh q headers) k =
     (case dget headers k of Some v \<Rightarrow> Some v | None \<Rightarrow> dget (hardening_headers (runs_in_production d)) k)"
proof -
  have "dict_ok (hardening_headers h)" for h by (cases h) (simp_all add: hardening_headers_def BASE_HEADERS_def dict_ok_def)
  then show "k \<noteq> ''x-request-id'' \<Longrightarrow> dget (respond d fresh q headers) k =
     (case dget headers k of Some v \<Rightarrow> Some v | None \<Rightarrow> dget (hardening_headers (runs_in_production d)) k)"
    by (simp add: respond_def request_id_header_def security_headers_def dget_dput security_headers_dget)
qed (simp add: respond_def request_id_header_def dget_dput)

end
