(* ===== verification/SchemaProps.thy ===== *)
theory SchemaProps
  imports RowProps HttpGuards
begin

text \<open>
  What the columns accept of what the use cases write. On PostgreSQL a value that does not fit its
  column fails the statement that carries it; nobody catches that error, so the unit of work rolls
  back everything the request had done. The audit log records texts of the request and of the user
  without cutting them to their columns, and so a request can take back its own consequences.
\<close>

section \<open>Flushing\<close>

definition audit_accepted :: "(str \<Rightarrow> bool) \<Rightarrow> audit_event \<Rightarrow> bool" where
  "audit_accepted inet e \<longleftrightarrow> (case audit_to_record e of Inl _ \<Rightarrow> False | Inr r \<Rightarrow> audit_row_ok inet r)"

text \<open>
  An operation on the model's tables, run against PostgreSQL: when an entry of the audit log or a
  session it wrote does not fit its columns, the flush raises and the transaction is rolled back.
\<close>

definition on_postgres :: "(str \<Rightarrow> bool) \<Rightarrow> control_db \<Rightarrow> 'a Auth.outcome \<Rightarrow> 'a Auth.outcome" where
  "on_postgres inet db out =
     (if (\<forall>e \<in> set (drop (length (db_audit db)) (db_audit (snd out))). audit_accepted inet e)
         \<and> (\<forall>(i, s) \<in> set (db_sessions (snd out)).
              (i, s) \<in> set (db_sessions db) \<or> session_row_ok inet (session_to_record 0 s))
      then out else (Inl control_exn.Crash, db))"

text \<open>What an entry must be to fit.\<close>

definition recordable :: "(str \<Rightarrow> bool) \<Rightarrow> audit_event \<Rightarrow> bool" where
  "recordable inet e \<longleftrightarrow>
     length (ae_request_id e) \<le> 64 \<and> length (ae_actor_label e) \<le> 200 \<and> length (ae_user_agent e) \<le> 400
     \<and> (case ae_ip_address e of None \<Rightarrow> True | Some t \<Rightarrow> inet t)"

lemma audit_accepted_iff:
  "audit_accepted inet e \<longleftrightarrow>
     ae_occurred_at e \<noteq> None \<and> recordable inet e \<and> int4 (ae_sequence e) \<and> length (ae_action e) \<le> 100
     \<and> length (ae_resource_type e) \<le> 60 \<and> length (ae_resource_id e) \<le> 80
     \<and> length (ae_previous_hash e) \<le> 64 \<and> length (ae_entry_hash e) \<le> 64"
proof -
  have "varchar 20 (actor_type_value a)" "enum_check ACTOR_TYPES (actor_type_value a)" for a
    by (cases a; simp add: varchar_def enum_check_def ACTOR_TYPES_def)+
  moreover have "varchar 10 (audit_outcome_value q)" "enum_check AUDIT_OUTCOMES (audit_outcome_value q)" for q
    by (cases q; simp add: varchar_def enum_check_def AUDIT_OUTCOMES_def)+
  ultimately show ?thesis
    by (auto simp: audit_accepted_def audit_to_record_def audit_row_ok_def recordable_def varchar_def opt_col_def
        split: option.splits)
qed

lemma recorded_for_user:
  assumes "record_audit env b i (audit_for_user org uid label action rt rid outcome ip ua req md) db = Inr db'"
  obtains e where "db_audit db' = db_audit db @ [e]" "ae_request_id e = req" "ae_actor_label e = label"
    "ae_ip_address e = or_opt ip None"
  using assms
  by (auto simp: record_audit_def audit_record_def audit_append_def audit_for_user_def audit_entry_def seal_def Let_def
      or_str_def or_opt_def split: option.splits)

text \<open>A request whose entries about a user cannot be written.\<close>

definition unrecordable :: "(str \<Rightarrow> bool) \<Rightarrow> user \<Rightarrow> request_context \<Rightarrow> bool" where
  "unrecordable inet u ctx \<longleftrightarrow>
     64 < length (rc_request_id ctx) \<or> 200 < length (us_email u)
     \<or> (case rc_ip_address ctx of None \<Rightarrow> False | Some t \<Rightarrow> t \<noteq> [] \<and> \<not> inet t)"

lemma unrecordable_entry:
  assumes "unrecordable inet u ctx" "ae_request_id e = rc_request_id ctx" "ae_actor_label e = us_email u"
    "ae_ip_address e = or_opt (rc_ip_address ctx) None"
  shows "\<not> audit_accepted inet e"
  using assms by (auto simp: unrecordable_def audit_accepted_iff recordable_def or_opt_def split: option.splits)

lemma record_audit_appends: "record_audit env b i c db = Inr db' \<Longrightarrow> \<exists>e. db_audit db' = db_audit db @ [e]"
  by (auto simp: record_audit_def audit_record_def audit_append_def Let_def split: option.splits)

lemma failed_sign_in_entry:
  assumes "active_organizations_for_user db (us_id u) = [o1]" "audit_failure env u None ctx db = Inr db'"
  obtains e es where "db_audit db' = db_audit db @ e # es" "ae_request_id e = rc_request_id ctx"
    "ae_actor_label e = us_email u" "ae_ip_address e = or_opt (rc_ip_address ctx) None"
proof -
  let ?c = "audit_for_user (og_id o1) (us_id u) (us_email u) ''auth.login_failed'' ''user'' (us_id u)
     AUDIT_FAILURE (rc_ip_address ctx) (rc_user_agent ctx) (rc_request_id ctx)
     [(''failed_login_count'', JInt (int (us_failed_login_count u)))]"
  from assms obtain db1 where first: "record_audit env (og_id o1) (ce_fresh env 0) ?c db = Inr db1"
    and rest: "db' = db1 \<or> (\<exists>c. record_audit env (og_id o1) (ce_fresh env 1) c db1 = Inr db')"
    by (auto simp: audit_failure_def Let_def res_bind_Inr split: if_splits)
  from rest obtain es where es: "db_audit db' = db_audit db1 @ es"
    using record_audit_appends by (metis append.right_neutral)
  from recorded_for_user [OF first] obtain e where "db_audit db1 = db_audit db @ [e]" "ae_request_id e = rc_request_id ctx"
    "ae_actor_label e = us_email u" "ae_ip_address e = or_opt (rc_ip_address ctx) None" .
  with es show thesis by (intro that) auto
qed

section \<open>What a request can take back\<close>

text \<open>Sign-in attempts one after the other, each a request of its own.\<close>

fun postgres_attempts ::
    "(str \<Rightarrow> bool) \<Rightarrow> auth_deps \<Rightarrow> str \<Rightarrow> attempt list \<Rightarrow> control_db
       \<Rightarrow> (control_exn + authentication_result) list \<times> control_db" where
  "postgres_attempts inet deps email [] db = ([], db)"
| "postgres_attempts inet deps email ((env, pw, sl, ctx) # as) db =
     (let (r, db1) = on_postgres inet db (authenticate_user deps env email pw sl ctx db);
          (rs, db2) = postgres_attempts inet deps email as db1
      in (r # rs, db2))"

lemma rolled_back:
  assumes "out = (r, db')" "db_audit db' = db_audit db @ e # es" "\<not> audit_accepted inet e"
  shows "on_postgres inet db out = (Inl control_exn.Crash, db)"
  using assms by (simp add: on_postgres_def)

lemma wrong_password_rolled_back:
  assumes "email_address (ce_nfkc env) email = Inr a" "users_get_by_email db a = Some u" "us_password_hash u = Some h"
    and "\<not> ad_verify deps pw h" "user_active u" "us_locked_until u = None"
    and "active_organizations_for_user db (us_id u) = [o1]" "unrecordable inet u ctx"
  shows "on_postgres inet db (authenticate_user deps env email pw None ctx db) = (Inl control_exn.Crash, db)"
proof -
  let ?u1 = "record_failed_login (ce_now env) (ad_lockout_policy deps) u"
  obtain db' where db': "audit_failure env ?u1 None ctx (users_put ?u1 db) = Inr db'" using audit_failure_total by blast
  have orgs: "active_organizations_for_user (users_put ?u1 db) (us_id ?u1) = [o1]"
    using assms(7) by (simp add: active_organizations_for_user_def users_put_def scoped_memberships_def
        memberships_get_for_user_def)
  from failed_sign_in_entry [OF orgs db'] obtain e es where e: "db_audit db' = db_audit (users_put ?u1 db) @ e # es"
      "ae_request_id e = rc_request_id ctx" "ae_actor_label e = us_email ?u1" "ae_ip_address e = or_opt (rc_ip_address ctx) None" .
  then have "\<not> audit_accepted inet e" using assms(8) by (intro unrecordable_entry [of inet u ctx]) auto
  moreover have "authenticate_user deps env email pw None ctx db = (Inl invalid_credentials, db')"
    using assms(1-6) db' active_unlocked [of u] by (simp add: authenticate_user_def Let_def dom_res_def)
  moreover have "db_audit db' = db_audit db @ e # es" using e(1) by (simp add: users_put_def)
  ultimately show ?thesis by (blast intro: rolled_back)
qed

lemma reuse_rolled_back:
  assumes "sessions_get_by_token_hash db (ad_token_hash deps token) = Some s" "se_revoked_at s = None" "session_rotated s"
    and "\<not> within_rotation_grace (ce_now env) (tp_rotation_grace_seconds (ad_token_policy deps)) s"
    and "64 < length (rc_request_id ctx)"
  shows "on_postgres inet db (refresh_session deps env token ctx db) = (Inl control_exn.Crash, db)"
proof -
  obtain n db1 where rev: "revoke_family (se_family_id s) (ce_now env) REUSE_REVOCATION_REASON db = (n, db1)" by fastforce
  obtain db' where db': "handle_reuse env s ctx db = Inr db'" using handle_reuse_total by blast
  with rev obtain md la where rec: "record_audit env (se_organization_id s) (ce_fresh env 0)
      (audit_for_user (se_organization_id s) (se_user_id s) la
         ''security.token_reuse'' ''session'' (se_id s) AUDIT_DENIED (rc_ip_address ctx) (rc_user_agent ctx)
         (rc_request_id ctx) md) db1 = Inr db'"
    by (auto simp: handle_reuse_def)
  from recorded_for_user [OF rec] obtain e where e: "db_audit db' = db_audit db1 @ [e]" "ae_request_id e = rc_request_id ctx" .
  have "db_audit db1 = db_audit db" using rev by (auto simp: revoke_family_def revoke_where_def)
  moreover have "\<not> audit_accepted inet e" using e(2) assms(5) by (simp add: audit_accepted_iff recordable_def)
  moreover have "refresh_session deps env token ctx db = (Inl (Domain TokenReuseError), db')"
    using assms(1-4) db' by (simp add: refresh_session_def Let_def)
  ultimately show ?thesis using e(1) by (intro rolled_back) auto
qed



section \<open>What fits and what does not\<close>

lemma enum_columns:
  "varchar 20 (organization_status_value x1)" "enum_check ORG_STATUSES (organization_status_value x1)"
  "varchar 20 (user_status_value x2)" "enum_check USER_STATUSES (user_status_value x2)"
  "varchar 10 (language_value x3)" "enum_check LANGUAGES (language_value x3)"
  "varchar 10 (criticality_value x4)" "enum_check CRITICALITIES (criticality_value x4)"
  "varchar 20 (agent_status_value x5)" "enum_check AGENT_STATUSES (agent_status_value x5)"
  "varchar 20 (environment_value x6)" "enum_check ENVIRONMENT_KINDS (environment_value x6)"
  "varchar 10 (mode_value x7)" "enum_check PROTECTION_MODES (mode_value x7)"
  "varchar 20 (membership_status_value x8)" "enum_check MEMBERSHIP_STATUSES (membership_status_value x8)"
  unfolding varchar_def enum_check_def ORG_STATUSES_def USER_STATUSES_def LANGUAGES_def CRITICALITIES_def
    AGENT_STATUSES_def ENVIRONMENT_KINDS_def PROTECTION_MODES_def MEMBERSHIP_STATUSES_def
  by ((cases x1; simp)+,
      (cases x2; simp)+,
      (cases x3; simp)+,
      (cases x4; simp)+,
      (cases x5; simp)+,
      (cases x6; simp)+,
      (cases x7; simp)+,
      (cases x8; simp)+)

text \<open>What the constructors make fits its columns.\<close>

lemma new_organization_fits:
  "new_organization i name sl = Inr e \<Longrightarrow> length sl \<le> 63 \<Longrightarrow> organization_row_ok (organization_to_record now e)"
  by (auto simp: new_organization_def Let_def organization_row_ok_def organization_to_record_def enum_columns varchar_def
      ORG_STATUSES_def enum_check_def split: if_splits)

lemma new_role_fits:
  "new_role i org name ps descr sys = Inr e \<Longrightarrow> length descr \<le> 500 \<Longrightarrow> role_row_ok (role_to_record now e)"
  by (auto simp: new_role_def Let_def role_row_ok_def role_to_record_def varchar_def split: if_splits)

lemma session_start_fits:
  assumes "length token = 64" "\<And>t. ip = Some t \<Longrightarrow> inet t"
  shows "session_row_ok inet (session_to_record now (session_start i user org token ttl t0 ua ip))"
  using assms by (auto simp: session_row_ok_def session_to_record_def session_start_def varchar_def opt_col_def split: option.splits)

lemma new_api_key_fits:
  "new_api_key i org name pfx h ps creator expiry cr = Inr e \<Longrightarrow> length pfx = 12 \<Longrightarrow> api_key_row_ok (api_key_to_record now e)"
  by (auto simp: new_api_key_def api_key_row_ok_def api_key_to_record_def varchar_def split: if_splits)

lemma new_application_fits:
  "new_application i org name sl lang crit tags url descr = Inr e \<Longrightarrow> length sl \<le> 63 \<Longrightarrow>
     (\<And>u. url = Some u \<Longrightarrow> length u \<le> 500) \<Longrightarrow> application_row_ok (application_to_record now e)"
  by (auto simp: new_application_def Let_def application_row_ok_def application_to_record_def enum_columns opt_col_def
      split: if_splits option.splits) (auto simp: varchar_def)

lemma updated_columns [simp]:
  "ogr_name (on_update now ro ro') = ogr_name ro'" "agr_events_sent (on_update now ra ra') = agr_events_sent ra'"
  by (simp_all add: on_update_def)

text \<open>
  A name that \<open>rename\<close> accepts need not fit: the limit of 200 characters is checked at creation only,
  and where the columns have no limit such an organization can no longer be loaded.
\<close>

lemma renamed_organization_is_lost:
  assumes "organization_rename name e = Inr e'" "200 < length (strip name)"
  shows "\<not> organization_row_ok (write_organization now r e')" "\<exists>x. organization_to_domain (apply_organization r e') = Inl x"
proof -
  from assms have n: "og_name e' = strip name" by (auto simp: organization_rename_def Let_def split: if_splits)
  with assms(2) show "\<not> organization_row_ok (write_organization now r e')"
    by (simp add: organization_row_ok_def varchar_def write_organization_def apply_organization_def)
  have "new_organization i (strip name) sl = Inl (InvalidStateError ''An organization name may be at most 200 characters.'')" for i sl
    using assms(2) by (auto simp: new_organization_def Let_def)
  then show "\<exists>x. organization_to_domain (apply_organization r e') = Inl x"
    by (auto simp: organization_to_domain_def apply_organization_def n res_bind_def split: sum.splits)
qed

text \<open>
  The counters of an agent only grow and their columns hold 32 bits: the heartbeat that would carry
  one past \<open>2 ^ 31\<close> is refused by the database, and so is every later one that reports as much.
\<close>

lemma busy_agent_falls_silent:
  assumes "agent_heartbeat now hb a = Inr a'" "2 ^ 31 \<le> ag_events_sent a + hb_events_sent hb"
  shows "\<not> agent_row_ok (write_agent t r a')"
proof -
  have "ag_events_sent a' = ag_events_sent a + max 0 (hb_events_sent hb)"
    using assms(1) by (auto simp: agent_heartbeat_def split: if_splits)
  with assms(2) have "\<not> int4 (ag_events_sent a')" by (auto simp: int4_def)
  then show ?thesis
    by (simp add: agent_row_ok_def write_agent_def change_agent_def stored_agent_def apply_agent_def)
qed

text \<open>
  The kind of a source and the address of a client are taken from the event as they come; a finding
  or an occurrence with a longer kind or no address of the network fails its batch.
\<close>

lemma unfitting_events:
  "20 < length (f_source_kind f) \<Longrightarrow> \<not> finding_row_ok (insert_finding now f)"
  "oc_remote_address oc \<noteq> [] \<Longrightarrow> \<not> inet (oc_remote_address oc) \<Longrightarrow> \<not> occurrence_row_ok inet (occurrence_to_record now i org oc)"
  by (auto simp: finding_row_ok_def insert_finding_def stored_finding_def finding_to_record_def apply_finding_def varchar_def
      occurrence_row_ok_def occurrence_to_record_def opt_col_def)

end
