(* ===== verification/Compliance.thy ===== *)
theory Compliance
  imports SarifExport
begin

text \<open>
  The compliance report (\<open>application/reporting.py\<close>): open findings mapped to the controls of a
  framework, a score, and the report as JSON or as the text \<open>csv.writer\<close> makes of it. \<open>isoformat\<close> is
  a parameter.
\<close>

definition FRAMEWORK_MAPPINGS :: "(str, (str, str) dict) dict" where
  "FRAMEWORK_MAPPINGS =
     [
      (''sql-injection'',
       [(''pci_dss'', ''6.2.4 - Software development & injection flaws''),
        (''soc_2'', ''CC6.6 - Boundary protection & application firewalls''),
        (''iso_27001'', ''A.8.28 - Secure coding principles''),
        (''nist_800_53'', ''SI-10 - Information Input Validation''),
        (''owasp_asvs'', ''V5.3 - Output Encoding and Injection Prevention'')]),
      (''command-injection'',
       [(''pci_dss'', ''6.2.4 - System command injection prevention''),
        (''soc_2'', ''CC6.1 - Logical access security controls''),
        (''iso_27001'', ''A.8.28 - Secure coding principles''),
        (''nist_800_53'', ''SI-10 - Input Sanitization''),
        (''owasp_asvs'', ''V5.2 - Command Execution Prevention'')]),
      (''path-traversal'',
       [(''pci_dss'', ''6.2.4 - Unrestricted file upload & access control''),
        (''soc_2'', ''CC6.1 - System boundary isolation''),
        (''iso_27001'', ''A.8.12 - Data leakage prevention''),
        (''nist_800_53'', ''AC-3 - Access Enforcement''),
        (''owasp_asvs'', ''V12.1 - File Operation Security'')]),
      (''unsafe-deserialization'',
       [(''pci_dss'', ''6.2.4 - Malicious object deserialization''),
        (''soc_2'', ''CC6.8 - Software integrity controls''),
        (''iso_27001'', ''A.8.28 - Secure coding''),
        (''nist_800_53'', ''SI-16 - Memory Protection''),
        (''owasp_asvs'', ''V5.5 - Deserialization Security'')]),
      (''xxe'',
       [(''pci_dss'', ''6.2.4 - XML external entity prevention''),
        (''soc_2'', ''CC6.6 - Application security testing''),
        (''iso_27001'', ''A.8.28 - Secure coding''),
        (''nist_800_53'', ''SI-10 - XML Input Parsing''),
        (''owasp_asvs'', ''V5.5 - XML Parser Configuration'')]),
      (''reflected-xss'',
       [(''pci_dss'', ''6.2.4 - Cross-site scripting (XSS) prevention''),
        (''soc_2'', ''CC6.6 - Web application firewalls & output encoding''),
        (''iso_27001'', ''A.8.28 - Secure coding''),
        (''nist_800_53'', ''SI-10 - Output Sanitization''),
        (''owasp_asvs'', ''V5.3 - Output Encoding & Context Escaping'')]),
      (''ssrf'',
       [(''pci_dss'', ''6.2.4 - Server-side request forgery prevention''),
        (''soc_2'', ''CC6.6 - Network boundary security''),
        (''iso_27001'', ''A.8.20 - Network security management''),
        (''nist_800_53'', ''SC-7 - Boundary Protection''),
        (''owasp_asvs'', ''V12.6 - SSRF Protection'')])]"

definition framework_map :: "str \<Rightarrow> (str, str) dict" where
  "framework_map rule_key = (case dget FRAMEWORK_MAPPINGS rule_key of None \<Rightarrow> [] | Some m \<Rightarrow> m)"

definition control_of :: "str \<Rightarrow> str \<Rightarrow> str" where
  "control_of framework rule_key =
     (case dget (framework_map rule_key) (lower framework) of None \<Rightarrow> ''General Application Security'' | Some c \<Rightarrow> c)"

record control_mapping =
  cy_finding_id :: uuid
  cy_rule_key :: str
  cy_severity :: str
  cy_sink_signature :: str
  cy_control :: str
  cy_status :: str

definition mapping_of :: "str \<Rightarrow> finding \<Rightarrow> control_mapping" where
  "mapping_of framework f =
     \<lparr>cy_finding_id = f_id f, cy_rule_key = f_rule_key f, cy_severity = severity_value (f_severity f),
      cy_sink_signature = f_sink_signature f, cy_control = control_of framework (f_rule_key f),
      cy_status = status_value (f_status f)\<rparr>"

text \<open>\<open>round(max(0.0, 100.0 - gaps * 5.0), 1)\<close>: whole numbers, so the rounding changes nothing.\<close>

definition compliance_score :: "nat \<Rightarrow> rat" where
  "compliance_score gaps = max 0 (100 - of_nat gaps * 5)"

section \<open>CSV\<close>

abbreviation dquote :: char where "dquote \<equiv> CHR 0x22"
abbreviation comma :: char where "comma \<equiv> CHR '',''"

text \<open>
  \<open>csv.writer\<close> of the dialect \<open>excel\<close>: a field with a comma, a quote or a character of the line end is
  quoted, with its quotes doubled; rows end in CR LF. (Rows here have more than one field.)
\<close>

definition csv_special :: "char \<Rightarrow> bool" where
  "csv_special c \<longleftrightarrow> c = comma \<or> c = dquote \<or> c = creturn \<or> c = newline"

definition csv_field :: "str \<Rightarrow> str" where
  "csv_field s =
     (if \<exists>c \<in> set s. csv_special c then [dquote] @ replace_char dquote [dquote, dquote] s @ [dquote] else s)"

definition csv_row :: "str list \<Rightarrow> str" where
  "csv_row fs = join [comma] (map csv_field fs) @ [creturn, newline]"

definition csv_text :: "str list list \<Rightarrow> str" where "csv_text rs = concat (map csv_row rs)"

definition csv_header :: "str list" where
  "csv_header = [''Finding ID'', ''Rule Key'', ''Severity'', ''Sink Signature'', ''Compliance Control'', ''Status'']"

definition csv_line :: "control_mapping \<Rightarrow> str list" where
  "csv_line m = [cy_finding_id m, cy_rule_key m, cy_severity m, cy_sink_signature m, cy_control m, cy_status m]"

section \<open>The report\<close>

record compliance_report =
  cr_organization_id :: uuid
  cr_framework :: str
  cr_generated_at :: str
  cr_total_findings_evaluated :: nat
  cr_open_gaps_count :: nat
  cr_compliance_score :: rat
  cr_control_mappings :: "control_mapping list"

definition generate_compliance_report ::
    "cursor_env \<Rightarrow> (datetime \<Rightarrow> str) \<Rightarrow> datetime \<Rightarrow> principal \<Rightarrow> str \<Rightarrow> uuid option \<Rightarrow> str \<Rightarrow> tenant_db
       \<Rightarrow> control_exn + (compliance_report + str) \<times> str" where
  "generate_compliance_report cu isoformat now pr framework application_id fmt db =
     res_bind (dom_res (require REPORT_READ pr)) (\<lambda>_.
     res_bind (findings_list_all cu 1000 None (export_query [''OPEN'', ''CONFIRMED''] application_id) db) (\<lambda>(fs, _).
       let mappings = map (mapping_of framework) fs; gaps = length fs in
       if lower fmt = ''csv'' then Inr (Inr (csv_text (csv_header # map csv_line mappings)), ''text/csv'')
       else Inr (Inl \<lparr>cr_organization_id = pr_organization_id pr, cr_framework = upper framework,
              cr_generated_at = isoformat now, cr_total_findings_evaluated = length fs, cr_open_gaps_count = gaps,
              cr_compliance_score = compliance_score gaps, cr_control_mappings = mappings\<rparr>, ''application/json'')))"

section \<open>Reading the text back\<close>

text \<open>A reader of the dialect: the flag says that it is inside quotes.\<close>

fun csv_rows :: "bool \<Rightarrow> str \<Rightarrow> str list \<Rightarrow> str \<Rightarrow> str list list option" where
  "csv_rows True fld row [] = None"
| "csv_rows True fld row (c # s) =
     (if c = dquote then
        (case s of [] \<Rightarrow> csv_rows False fld row [] | d # s' \<Rightarrow>
           if d = dquote then csv_rows True (fld @ [dquote]) row s' else csv_rows False fld row s)
      else csv_rows True (fld @ [c]) row s)"
| "csv_rows False fld row [] = (if row = [] \<and> fld = [] then Some [] else Some [row @ [fld]])"
| "csv_rows False fld row (c # s) =
     (if c = comma then csv_rows False [] (row @ [fld]) s
      else if c = creturn \<and> s \<noteq> [] \<and> hd s = newline then map_option (\<lambda>rs. (row @ [fld]) # rs) (csv_rows False [] [] (tl s))
      else if c = dquote \<and> fld = [] then csv_rows True [] row s
      else csv_rows False (fld @ [c]) row s)"

definition parse_csv :: "str \<Rightarrow> str list list option" where "parse_csv s = csv_rows False [] [] s"

lemma csv_rows_quoted:
  assumes "t = [] \<or> hd t \<noteq> dquote"
  shows "csv_rows True fld row (replace_char dquote [dquote, dquote] s @ dquote # t) = csv_rows False (fld @ s) row t"
proof (induction s arbitrary: fld)
  case Nil
  from assms show ?case by (cases t) (auto simp: replace_char_def)
next
  case (Cons c s)
  then show ?case by (cases "c = dquote") (simp_all add: replace_char_def)
qed

lemma csv_rows_bare:
  "\<forall>c \<in> set s. \<not> csv_special c \<Longrightarrow> csv_rows False fld row (s @ t) = csv_rows False (fld @ s) row t"
  by (induction s arbitrary: fld) (auto simp: csv_special_def)

lemma csv_rows_field:
  assumes "t = [] \<or> hd t \<noteq> dquote"
  shows "csv_rows False [] row (csv_field s @ t) = csv_rows False s row t"
  using csv_rows_quoted [OF assms, of "[]" row s] csv_rows_bare [of s "[]" row t]
  by (auto simp: csv_field_def)

lemma csv_rows_row:
  "fs \<noteq> [] \<Longrightarrow> csv_rows False [] row (csv_row fs @ t) = map_option (\<lambda>rs. (row @ fs) # rs) (csv_rows False [] [] t)"
proof (induction fs arbitrary: row)
  case (Cons f fs)
  show ?case
  proof (cases fs)
    case Nil
    then show ?thesis using csv_rows_field [of "creturn # newline # t" row f] by (simp add: csv_row_def)
  next
    case (Cons g gs)
    then have "csv_row (f # fs) @ t = csv_field f @ comma # (csv_row fs @ t)" by (simp add: csv_row_def)
    then show ?thesis using csv_rows_field [of "comma # (csv_row fs @ t)" row f] Cons.IH [of "row @ [f]"] Cons by simp
  qed
qed simp

lemma parse_csv_text: "\<forall>r \<in> set rs. r \<noteq> [] \<Longrightarrow> parse_csv (csv_text rs) = Some rs"
proof (induction rs)
  case (Cons r rs)
  then show ?case using csv_rows_row [of r "[]" "csv_text rs"] by (simp add: parse_csv_def csv_text_def)
qed (simp add: parse_csv_def csv_text_def)

section \<open>What a report says\<close>

text \<open>The gaps of the store: what a report is meant to list.\<close>

definition open_gaps :: "uuid option \<Rightarrow> tenant_db \<Rightarrow> finding list" where
  "open_gaps application_id db =
     queue (\<lambda>f. f_status f \<in> {OPEN, CONFIRMED} \<and> (case application_id of None \<Rightarrow> True | Some i \<Rightarrow> f_application_id f = i)) db"

lemma gap_status: "status_value s \<in> {''OPEN'', ''CONFIRMED''} \<longleftrightarrow> s \<in> {OPEN, CONFIRMED}"
  by (cases s) simp_all

lemma gap_query:
  "query_matches (export_query [''OPEN'', ''CONFIRMED''] i) f \<longleftrightarrow>
     f_status f \<in> {OPEN, CONFIRMED} \<and> (case i of None \<Rightarrow> True | Some i \<Rightarrow> f_application_id f = i)"
  using gap_status [of "f_status f"] by (simp add: query_matches_def export_query_def)

lemma reported_findings:
  "map_sum id fst (findings_list_all cu 1000 None (export_query [''OPEN'', ''CONFIRMED''] i) db)
     = Inr (take 1000 (open_gaps i db))"
  by (auto simp: findings_list_all_def res_bind_def Let_def gap_query open_gaps_def min_def)

lemma generate_compliance_report_eq:
  "generate_compliance_report cu isoformat now pr framework i fmt db =
     res_bind (dom_res (require REPORT_READ pr)) (\<lambda>_.
     let fs = take 1000 (open_gaps i db) in
     if lower fmt = ''csv''
     then Inr (Inr (csv_text (csv_header # map (csv_line \<circ> mapping_of framework) fs)), ''text/csv'')
     else Inr (Inl \<lparr>cr_organization_id = pr_organization_id pr, cr_framework = upper framework,
              cr_generated_at = isoformat now, cr_total_findings_evaluated = length fs, cr_open_gaps_count = length fs,
              cr_compliance_score = compliance_score (length fs), cr_control_mappings = map (mapping_of framework) fs\<rparr>,
            ''application/json''))"
proof -
  obtain after where fs: "findings_list_all cu 1000 None (export_query [''OPEN'', ''CONFIRMED''] i) db
      = Inr (take 1000 (open_gaps i db), after)"
    using reported_findings [of cu i db]
    by (cases "findings_list_all cu 1000 None (export_query [''OPEN'', ''CONFIRMED''] i) db") auto
  have bind: "res_bind (Inr x) g = g x" for x :: "finding list \<times> str option" and g by (simp add: res_bind_def)
  show ?thesis unfolding generate_compliance_report_def fs bind Let_def by (simp add: comp_def del: length_take)
qed

lemma compliance_score_full: "compliance_score n = 100 \<longleftrightarrow> n = 0"
  by (auto simp: compliance_score_def max_def)

text \<open>
  C39. A compliance report says what the store holds. For a caller who may read reports, the CSV text, read
  back by any reader of the dialect, is the header and one row per finding listed, whatever commas,
  quotes or line breaks the sinks contain; the JSON report lists the same findings in the same order;
  the findings listed are the first 1000 of the queue of open and confirmed findings of the organization
  (and application, when one is given); and the score is 100 exactly when there is none, and falls by
  five for each, down to 0. A caller without the permission gets neither.
\<close>

theorem compliance_report_round_trip:
  assumes "lower fmt = ''csv''" "lower fmt' \<noteq> ''csv''"
    and "REPORT_READ \<in> pr_permissions pr" "REPORT_READ \<notin> pr_permissions outsider"
  shows "(\<exists>csv_out report. generate_compliance_report cu isoformat now pr framework i fmt db = Inr (Inr csv_out, ''text/csv'')
    \<and> generate_compliance_report cu isoformat now pr framework i fmt' db = Inr (Inl report, ''application/json'')
    \<and> parse_csv csv_out = Some (csv_header # map csv_line (cr_control_mappings report))
    \<and> cr_control_mappings report = map (mapping_of framework) (take 1000 (open_gaps i db))
    \<and> cr_compliance_score report = max 0 (100 - 5 * of_nat (length (take 1000 (open_gaps i db))))
    \<and> (cr_compliance_score report = 100 \<longleftrightarrow> open_gaps i db = []))
    \<and> generate_compliance_report cu isoformat now outsider framework i fmt'' db
        = Inl (Domain (PermissionDeniedError (Some (permission_value REPORT_READ))))"
proof -
  define fs where "fs = take 1000 (open_gaps i db)"
  have ne: "\<forall>r \<in> set (csv_header # map (csv_line \<circ> mapping_of framework) fs). r \<noteq> []"
    by (auto simp: csv_header_def csv_line_def)
  have score: "compliance_score (length fs) = max 0 (100 - 5 * of_nat (length fs))" by (simp add: compliance_score_def mult.commute)
  have full: "compliance_score (length fs) = 100 \<longleftrightarrow> open_gaps i db = []" 
    by (cases "open_gaps i db") (simp_all add: compliance_score_full fs_def)
  have csv: "generate_compliance_report cu isoformat now pr framework i fmt db
      = Inr (Inr (csv_text (csv_header # map (csv_line \<circ> mapping_of framework) fs)), ''text/csv'')"
    using assms by (simp add: generate_compliance_report_eq Let_def res_bind_def require_def raise_if_def fs_def dom_res_def)
  define report where "report = \<lparr>cr_organization_id = pr_organization_id pr, cr_framework = upper framework,
    cr_generated_at = isoformat now, cr_total_findings_evaluated = length fs, cr_open_gaps_count = length fs,
    cr_compliance_score = compliance_score (length fs), cr_control_mappings = map (mapping_of framework) fs\<rparr>"
  have json: "generate_compliance_report cu isoformat now pr framework i fmt' db = Inr (Inl report, ''application/json'')"
    using assms by (simp add: generate_compliance_report_eq Let_def res_bind_def require_def raise_if_def fs_def report_def dom_res_def)
  have out: "generate_compliance_report cu isoformat now outsider framework i fmt'' db
      = Inl (Domain (PermissionDeniedError (Some (permission_value REPORT_READ))))"
    using assms by (simp add: generate_compliance_report_eq res_bind_def require_def raise_if_def dom_res_def)
  have "cr_control_mappings report = map (mapping_of framework) fs" "cr_compliance_score report = compliance_score (length fs)"
    by (simp_all add: report_def)
  then show ?thesis using csv json out parse_csv_text [OF ne] score full unfolding fs_def by auto
qed

section \<open>A sample report\<close>

definition report_reader :: "permission set \<Rightarrow> principal" where
  "report_reader ps =
     \<lparr>pr_kind = ACTOR_USER, pr_organization_id = ''o'', pr_permissions = ps, pr_user_id = Some ''u'',
      pr_session_id = None, pr_api_key_id = None, pr_agent_id = None, pr_membership_id = None, pr_label = ''ann'',
      pr_mfa_satisfied = True, pr_is_platform_admin = False, pr_is_owner = False, pr_context = empty_context\<rparr>"

lemma page_gaps: "length (open_gaps None page_db) = 3"
proof -
  have "f_status sample_finding = OPEN" by code_simp
  then show ?thesis by (simp add: open_gaps_def queue_def page_db_def page_finding_def)
qed

theorem compliance_report_round_trip_witness:
  "\<exists>report. generate_compliance_report page_env (\<lambda>t. ''now'') 9 (report_reader {REPORT_READ}) ''PCI_DSS'' None ''json'' page_db
      = Inr (Inl report, ''application/json'')
    \<and> length (cr_control_mappings report) = 3 \<and> cr_compliance_score report = 85"
proof -
  have len: "length (take 1000 (open_gaps None page_db)) = 3" by (simp add: page_gaps)
  have csv: "lower ''CSV'' = ''csv''" "lower ''json'' \<noteq> ''csv''" by code_simp+
  have may: "REPORT_READ \<in> pr_permissions (report_reader {REPORT_READ})" "REPORT_READ \<notin> pr_permissions (report_reader {})"
    by (simp_all add: report_reader_def)
  obtain csv_out report where
      "generate_compliance_report page_env (\<lambda>t. ''now'') 9 (report_reader {REPORT_READ}) ''PCI_DSS'' None ''json'' page_db
        = Inr (Inl report, ''application/json'')"
      "cr_control_mappings report = map (mapping_of ''PCI_DSS'') (take 1000 (open_gaps None page_db))"
      "cr_compliance_score report = max 0 (100 - 5 * of_nat (length (take 1000 (open_gaps None page_db))))"
    using compliance_report_round_trip [OF csv may, of page_env "\<lambda>t. ''now''" 9 "''PCI_DSS''" None page_db] by blast
  then show ?thesis using len by simp
qed

end
