(* ===== verification/AiProps.thy ===== *)
theory AiProps
  imports AiAnalysis TriageProps
begin

text \<open>
  What holds of the analyses over any sequence of calls, over the moves of \<open>AiAnalysis\<close>.
\<close>


section \<open>A sample run\<close>

definition ai_sample_env :: "uuid \<Rightarrow> ai_env" where
  "ai_sample_env i = \<lparr>an_now = 7, an_db_now = 8, an_fresh = i, an_sha = (\<lambda>p. ''hash'')\<rparr>"

definition ai_draft_row :: ai_row where
  "ai_draft_row =
     \<lparr>air_id = ''n'', air_organization_id = ''o1'', air_finding_id = ''f'', air_kind = ''REMEDIATION'', air_summary = ''bind it'',
      air_content = ''bind it'', air_status = ''DRAFT'', air_model = ''echo'', air_prompt_hash = ''hash'', air_input_tokens = 3,
      air_output_tokens = 2, air_reviewed_by = None, air_review_note = [], air_failure_reason = [], air_created_at = 5,
      air_reviewed_at = None\<rparr>"

definition ai_sample :: ai_db where
  "ai_sample = \<lparr>ai_triage = triage_sample, ai_rows = [(''n'', ai_draft_row)]\<rparr>"

text \<open>A rejection without a reason, one with a reason, and an attempt to accept what was rejected.\<close>

definition ai_sample_calls :: "ai_call list" where
  "ai_sample_calls =
     [Review (ai_sample_env ''x'') 9 sample_admin ''n'' False '' '',
      Review (ai_sample_env ''x'') 9 sample_admin ''n'' False ''wrong line'',
      Review (ai_sample_env ''x'') 9 sample_admin ''n'' True []]"

definition ai_rejected_row :: ai_row where
  "ai_rejected_row = ai_draft_row\<lparr>air_status := ''REJECTED'', air_reviewed_by := Some ''u3'', air_review_note := ''wrong line'',
     air_reviewed_at := Some 7\<rparr>"

lemma sample_reviewer:
  "AI_APPROVE \<in> pr_permissions sample_admin" "pr_user_id sample_admin = Some ''u3''" "pr_organization_id sample_admin = ''o1''"
  "user_reference (tg_core triage_sample) (Some ''u3'') = Inr ()"
  by code_simp+

definition ai_draft :: ai_analysis where
  "ai_draft =
     \<lparr>aa_id = ''n'', aa_organization_id = ''o1'', aa_finding_id = ''f'', aa_kind = REMEDIATION, aa_content = ''bind it'',
      aa_summary = ''bind it'', aa_status = AI_DRAFT, aa_model = ''echo'', aa_prompt_hash = ''hash'', aa_input_tokens = 3,
      aa_output_tokens = 2, aa_reviewed_by = None, aa_review_note = [], aa_failure_reason = [], aa_created_at = Some 5,
      aa_reviewed_at = None\<rparr>"

definition ai_rejected :: ai_analysis where
  "ai_rejected = ai_draft\<lparr>aa_status := AI_REJECTED, aa_reviewed_by := Some ''u3'', aa_review_note := ''wrong line'',
     aa_reviewed_at := Some 7\<rparr>"

lemma sample_notes: "strip '' '' = []" "strip ''wrong line'' = ''wrong line''" "strip ''bind it'' = ''bind it''"
  by code_simp+

lemma ai_sample_rejections:
  "\<exists>e. reject_analysis ''u3'' 7 '' '' ai_draft = Inl e"
  "reject_analysis ''u3'' 7 ''wrong line'' ai_draft = Inr ai_rejected"
  by (simp_all add: reject_analysis_def sample_notes raise_if_def res_bind_def require_reviewable_def record_review_def
      ai_rejected_def ai_draft_def)

lemma ai_sample_rows:
  "ai_analysis_to_domain ai_draft_row = Inr ai_draft" "ai_analysis_to_domain ai_rejected_row = Inr ai_rejected"
  by (simp_all add: ai_analysis_to_domain_def ai_draft_row_def ai_rejected_row_def analysis_kind_of_def analysis_status_of_def
      enum_member_def res_bind_def settle_analysis_def sample_notes ai_draft_def ai_rejected_def MAX_CONTENT_def)

lemma ai_sample_update:
  "ai_analyses_update 8 ai_rejected ai_sample = Inr (ai_rejected, ai_sample\<lparr>ai_rows := [(''n'', ai_rejected_row)]\<rparr>)"
proof -
  have stored: "ai_analysis_to_record 5 ai_rejected = ai_rejected_row"
    by (simp add: ai_analysis_to_record_def ai_rejected_def ai_rejected_row_def ai_draft_def ai_draft_row_def)
  have parts: "aa_id ai_rejected = ''n''" "aa_reviewed_by ai_rejected = Some ''u3''" "air_created_at ai_draft_row = 5"
    by (simp_all add: ai_rejected_def ai_draft_def ai_draft_row_def)
  have core: "tg_core (ai_triage ai_sample) = tg_core triage_sample" "ai_rows ai_sample = [(''n'', ai_draft_row)]"
    by (simp_all add: ai_sample_def)
  show ?thesis unfolding ai_analyses_update_def parts core Let_def
    by (simp add: dget_def parts stored sample_reviewer(4) res_bind_def ai_sample_rows(2))
qed

lemma ai_sample_get: "ai_analyses_get ''o1'' ''n'' ai_sample = Inr (Some ai_draft)"
proof -
  have "air_organization_id ai_draft_row = ''o1''" by (simp add: ai_draft_row_def)
  then show ?thesis by (simp add: ai_analyses_get_def ai_sample_def dget_def ai_sample_rows)
qed

lemma ai_sample_reviewed:
  "snd (review_analysis (ai_sample_env ''x'') 9 sample_admin ''n'' False '' '' ai_sample) = ai_sample"
  "snd (review_analysis (ai_sample_env ''x'') 9 sample_admin ''n'' False ''wrong line'' ai_sample)
     = ai_sample\<lparr>ai_rows := [(''n'', ai_rejected_row)]\<rparr>"
proof -
  obtain e where e: "reject_analysis ''u3'' 7 '' '' ai_draft = Inl e"
    using ai_sample_rejections(1) by blast
  show "snd (review_analysis (ai_sample_env ''x'') 9 sample_admin ''n'' False '' '' ai_sample) = ai_sample"
    using sample_reviewer
    by (simp add: review_analysis_def in_transaction_def require_def raise_if_def dom_res_def res_bind_def ai_sample_get
        ai_sample_env_def e)
  show "snd (review_analysis (ai_sample_env ''x'') 9 sample_admin ''n'' False ''wrong line'' ai_sample)
     = ai_sample\<lparr>ai_rows := [(''n'', ai_rejected_row)]\<rparr>"
    using sample_reviewer
    by (simp add: review_analysis_def in_transaction_def require_def raise_if_def dom_res_def res_bind_def ai_sample_get
        ai_sample_env_def ai_sample_rejections(2) ai_sample_update)
qed


end
