(* ===== verification/HttpSchemas.thy ===== *)
theory HttpSchemas
  imports HttpGuards Mfa ApiKeys FindingTriage RuleCatalogue AiAnalysis
begin

text \<open>
  The bodies of requests (\<open>interfaces/http/schemas.py\<close>): which fields a body has, what each may hold, and
  the value a handler sees. Every text is trimmed before its length is checked, unknown fields are
  refused, and an absent field takes its default. How pydantic reads a number, a flag, an identifier or
  an email address out of a JSON value is a parameter; texts and lists are read from texts and lists
  only.
\<close>

section \<open>Fields\<close>

record schema_reader =
  sr_trim :: "str \<Rightarrow> str"
  sr_int :: "json \<Rightarrow> int option"
  sr_bool :: "json \<Rightarrow> bool option"
  sr_float :: "json \<Rightarrow> rat option" \<comment> \<open>no field admits a number that is not finite\<close>
  sr_uuid :: "json \<Rightarrow> uuid option"
  sr_email :: "str \<Rightarrow> str option"

type_synonym 'a reader = "json \<Rightarrow> 'a option"

definition text_field :: "schema_reader \<Rightarrow> nat \<Rightarrow> nat option \<Rightarrow> str reader" where
  "text_field sr lo hi j =
     (case j of
        JStr s \<Rightarrow> let t = sr_trim sr s in
          if lo \<le> length t \<and> (case hi of None \<Rightarrow> True | Some n \<Rightarrow> length t \<le> n) then Some t else None
      | _ \<Rightarrow> None)"

definition nullable :: "'a reader \<Rightarrow> 'a option reader" where
  "nullable read j = (if j = JNull then Some None else map_option Some (read j))"

definition ranged :: "('a \<Rightarrow> bool) \<Rightarrow> 'a reader \<Rightarrow> 'a reader" where
  "ranged ok read j = (case read j of None \<Rightarrow> None | Some x \<Rightarrow> if ok x then Some x else None)"

fun all_read :: "'a option list \<Rightarrow> 'a list option" where
  "all_read [] = Some []"
| "all_read (None # xs) = None"
| "all_read (Some x # xs) = map_option (Cons x) (all_read xs)"

definition list_field :: "'a reader \<Rightarrow> nat \<Rightarrow> nat option \<Rightarrow> 'a list reader" where
  "list_field read lo hi j =
     (case j of
        JList xs \<Rightarrow> if lo \<le> length xs \<and> (case hi of None \<Rightarrow> True | Some n \<Rightarrow> length xs \<le> n) then all_read (map read xs) else None
      | _ \<Rightarrow> None)"

text \<open>\<open>dict[str, object]\<close>: the keys are texts of the model too, and trimmed.\<close>

definition object_field :: "schema_reader \<Rightarrow> obj reader" where
  "object_field sr j =
     (case j of JObj d \<Rightarrow> Some (foldl (\<lambda>acc (k, v). dput (sr_trim sr k) v acc) [] d) | _ \<Rightarrow> None)"

text \<open>A choice among texts, and an enumeration by its values.\<close>

definition choice_field :: "('a \<Rightarrow> str) \<Rightarrow> 'a list \<Rightarrow> 'a reader" where
  "choice_field value_of xs j = (case j of JStr s \<Rightarrow> find (\<lambda>x. value_of x = s) xs | _ \<Rightarrow> None)"

definition email_field :: "schema_reader \<Rightarrow> str reader" where
  "email_field sr j = (case j of JStr s \<Rightarrow> sr_email sr (sr_trim sr s) | _ \<Rightarrow> None)"

definition required :: "obj \<Rightarrow> str \<Rightarrow> 'a reader \<Rightarrow> 'a option" where
  "required d k read = Option.bind (dget d k) read"

definition optional :: "obj \<Rightarrow> str \<Rightarrow> 'a \<Rightarrow> 'a reader \<Rightarrow> 'a option" where
  "optional d k preset read = (case dget d k of None \<Rightarrow> Some preset | Some j \<Rightarrow> read j)"

text \<open>A body: an object without fields the schema does not know (\<open>extra="forbid"\<close>).\<close>

definition schema :: "str list \<Rightarrow> (obj \<Rightarrow> 'a option) \<Rightarrow> json \<Rightarrow> 'a option" where
  "schema known read j =
     (case j of JObj d \<Rightarrow> if fst ` set d \<subseteq> set known then read d else None | _ \<Rightarrow> None)"

abbreviation opt_bind :: "'a option \<Rightarrow> ('a \<Rightarrow> 'b option) \<Rightarrow> 'b option" where "opt_bind \<equiv> Option.bind"

section \<open>Authentication\<close>

definition password_field :: "schema_reader \<Rightarrow> str reader" where
  "password_field sr = text_field sr 8 (Some 256)"

record register_request =
  rq_organization_name :: str
  rq_email :: str
  rq_password :: str
  rq_full_name :: str

definition RegisterRequest :: "schema_reader \<Rightarrow> json \<Rightarrow> register_request option" where
  "RegisterRequest sr = schema [''organization_name'', ''email'', ''password'', ''full_name''] (\<lambda>d.
     opt_bind (required d ''organization_name'' (text_field sr 1 (Some 200))) (\<lambda>n.
     opt_bind (required d ''email'' (email_field sr)) (\<lambda>e.
     opt_bind (required d ''password'' (password_field sr)) (\<lambda>p.
     opt_bind (optional d ''full_name'' [] (text_field sr 0 (Some 200))) (\<lambda>f.
     Some \<lparr>rq_organization_name = n, rq_email = e, rq_password = p, rq_full_name = f\<rparr>)))))"

record login_request =
  lq_email :: str
  lq_password :: str
  lq_organization_slug :: "str option"

definition LoginRequest :: "schema_reader \<Rightarrow> json \<Rightarrow> login_request option" where
  "LoginRequest sr = schema [''email'', ''password'', ''organization_slug''] (\<lambda>d.
     opt_bind (required d ''email'' (email_field sr)) (\<lambda>e.
     opt_bind (required d ''password'' (password_field sr)) (\<lambda>p.
     opt_bind (optional d ''organization_slug'' None (nullable (text_field sr 0 (Some 63)))) (\<lambda>s.
     Some \<lparr>lq_email = e, lq_password = p, lq_organization_slug = s\<rparr>))))"

definition MfaVerifyRequest :: "schema_reader \<Rightarrow> json \<Rightarrow> (str \<times> str) option" where
  "MfaVerifyRequest sr = schema [''challenge_token'', ''code''] (\<lambda>d.
     opt_bind (required d ''challenge_token'' (text_field sr 1 None)) (\<lambda>t.
     opt_bind (required d ''code'' (text_field sr 4 (Some 20))) (\<lambda>c. Some (t, c))))"

definition RefreshRequest :: "schema_reader \<Rightarrow> json \<Rightarrow> str option option" where
  "RefreshRequest sr = schema [''refresh_token''] (\<lambda>d. optional d ''refresh_token'' None (nullable (text_field sr 0 None)))"

definition ChangePasswordRequest :: "schema_reader \<Rightarrow> json \<Rightarrow> (str \<times> str) option" where
  "ChangePasswordRequest sr = schema [''current_password'', ''new_password''] (\<lambda>d.
     opt_bind (required d ''current_password'' (password_field sr)) (\<lambda>c.
     opt_bind (required d ''new_password'' (password_field sr)) (\<lambda>n. Some (c, n))))"

text \<open>\<open>MfaEnrolRequest\<close> and \<open>MfaDisableRequest\<close> ask for the password again.\<close>

definition MfaEnrolRequest :: "schema_reader \<Rightarrow> json \<Rightarrow> str option" where
  "MfaEnrolRequest sr = schema [''password''] (\<lambda>d. required d ''password'' (password_field sr))"

definition MfaDisableRequest :: "schema_reader \<Rightarrow> json \<Rightarrow> str option" where
  "MfaDisableRequest sr = schema [''password''] (\<lambda>d. required d ''password'' (password_field sr))"

definition MfaConfirmRequest :: "schema_reader \<Rightarrow> json \<Rightarrow> str option" where
  "MfaConfirmRequest sr = schema [''code''] (\<lambda>d. required d ''code'' (text_field sr 4 (Some 10)))"

section \<open>Organization and members\<close>

definition UpdateOrganizationRequest :: "schema_reader \<Rightarrow> json \<Rightarrow> (str option \<times> obj option) option" where
  "UpdateOrganizationRequest sr = schema [''name'', ''settings''] (\<lambda>d.
     opt_bind (optional d ''name'' None (nullable (text_field sr 1 (Some 200)))) (\<lambda>n.
     opt_bind (optional d ''settings'' None (nullable (object_field sr))) (\<lambda>s. Some (n, s))))"

record invite_request =
  iq_email :: str
  iq_full_name :: str
  iq_role_ids :: "uuid list"

definition InviteMemberRequest :: "schema_reader \<Rightarrow> json \<Rightarrow> invite_request option" where
  "InviteMemberRequest sr = schema [''email'', ''full_name'', ''role_ids''] (\<lambda>d.
     opt_bind (required d ''email'' (email_field sr)) (\<lambda>e.
     opt_bind (optional d ''full_name'' [] (text_field sr 0 (Some 200))) (\<lambda>f.
     opt_bind (required d ''role_ids'' (list_field (sr_uuid sr) 1 None)) (\<lambda>rs.
     Some \<lparr>iq_email = e, iq_full_name = f, iq_role_ids = rs\<rparr>))))"

definition UpdateMemberRequest :: "schema_reader \<Rightarrow> json \<Rightarrow> uuid list option" where
  "UpdateMemberRequest sr = schema [''role_ids''] (\<lambda>d. required d ''role_ids'' (list_field (sr_uuid sr) 1 None))"

record role_request =
  oq_name :: str
  oq_description :: str
  oq_permissions :: "str list"

definition CreateRoleRequest :: "schema_reader \<Rightarrow> json \<Rightarrow> role_request option" where
  "CreateRoleRequest sr = schema [''name'', ''description'', ''permissions''] (\<lambda>d.
     opt_bind (required d ''name'' (text_field sr 1 (Some 80))) (\<lambda>n.
     opt_bind (optional d ''description'' [] (text_field sr 0 (Some 500))) (\<lambda>t.
     opt_bind (required d ''permissions'' (list_field (text_field sr 0 None) 1 None)) (\<lambda>ps.
     Some \<lparr>oq_name = n, oq_description = t, oq_permissions = ps\<rparr>))))"

definition UpdateRoleRequest :: "schema_reader \<Rightarrow> json \<Rightarrow> (str option \<times> str option \<times> str list option) option" where
  "UpdateRoleRequest sr = schema [''name'', ''description'', ''permissions''] (\<lambda>d.
     opt_bind (optional d ''name'' None (nullable (text_field sr 1 (Some 80)))) (\<lambda>n.
     opt_bind (optional d ''description'' None (nullable (text_field sr 0 (Some 500)))) (\<lambda>t.
     opt_bind (optional d ''permissions'' None (nullable (list_field (text_field sr 0 None) 0 None))) (\<lambda>ps.
     Some (n, t, ps)))))"

section \<open>Analyses and keys\<close>

definition AnalyzeFindingRequest :: "json \<Rightarrow> analysis_kind option" where
  "AnalyzeFindingRequest = schema [''kind''] (\<lambda>d.
     optional d ''kind'' ROOT_CAUSE (choice_field analysis_kind_value [ROOT_CAUSE, REMEDIATION, TRIAGE_ASSESSMENT]))"

definition ReviewAnalysisRequest :: "schema_reader \<Rightarrow> json \<Rightarrow> (bool \<times> str) option" where
  "ReviewAnalysisRequest sr = schema [''accept'', ''note''] (\<lambda>d.
     opt_bind (required d ''accept'' (sr_bool sr)) (\<lambda>a.
     opt_bind (optional d ''note'' [] (text_field sr 0 None)) (\<lambda>n. Some (a, n))))"

record create_key_request =
  kq_name :: str
  kq_permissions :: "str list"
  kq_expires_in_days :: "int option"

definition CreateApiKeyRequest :: "schema_reader \<Rightarrow> json \<Rightarrow> create_key_request option" where
  "CreateApiKeyRequest sr = schema [''name'', ''permissions'', ''expires_in_days''] (\<lambda>d.
     opt_bind (required d ''name'' (text_field sr 1 (Some 120))) (\<lambda>n.
     opt_bind (required d ''permissions'' (list_field (text_field sr 0 None) 1 None)) (\<lambda>ps.
     opt_bind (optional d ''expires_in_days'' (Some 90) (nullable (ranged (\<lambda>x. 1 \<le> x \<and> x \<le> 730) (sr_int sr)))) (\<lambda>e.
     Some \<lparr>kq_name = n, kq_permissions = ps, kq_expires_in_days = e\<rparr>))))"

section \<open>Inventory and agents\<close>

definition language_field :: "language reader" where
  "language_field = choice_field language_value [JAVA, DOTNET, NODE, PYTHON, GO]"

definition criticality_field :: "criticality reader" where
  "criticality_field = choice_field criticality_value [LOW_CRIT, MEDIUM_CRIT, HIGH_CRIT, CRITICAL_CRIT]"

definition environment_field :: "environment_kind reader" where
  "environment_field = choice_field environment_value [DEVELOPMENT_ENV, QA_ENV, STAGING_ENV, PRODUCTION_ENV]"

definition mode_field :: "protection_mode reader" where
  "mode_field = choice_field mode_value [MODE_OFF, MODE_MONITOR, MODE_BLOCK]"

text \<open>\<open>EnvironmentSpec\<close> and \<open>CreateEnvironmentRequest\<close> have the same fields.\<close>

definition EnvironmentSpec :: "schema_reader \<Rightarrow> json \<Rightarrow> (environment_kind \<times> bool) option" where
  "EnvironmentSpec sr = schema [''kind'', ''internet_facing''] (\<lambda>d.
     opt_bind (required d ''kind'' environment_field) (\<lambda>k.
     opt_bind (optional d ''internet_facing'' False (sr_bool sr)) (\<lambda>f. Some (k, f))))"

definition CreateEnvironmentRequest :: "schema_reader \<Rightarrow> json \<Rightarrow> (environment_kind \<times> bool) option" where
  "CreateEnvironmentRequest sr = schema [''kind'', ''internet_facing''] (\<lambda>d.
     opt_bind (required d ''kind'' environment_field) (\<lambda>k.
     opt_bind (optional d ''internet_facing'' False (sr_bool sr)) (\<lambda>f. Some (k, f))))"

record application_request =
  pq_name :: str
  pq_language :: language
  pq_criticality :: criticality
  pq_tags :: "str list"
  pq_repository_url :: "str option"
  pq_description :: str
  pq_environments :: "(environment_kind \<times> bool) list"

definition CreateApplicationRequest :: "schema_reader \<Rightarrow> json \<Rightarrow> application_request option" where
  "CreateApplicationRequest sr = schema
     [''name'', ''language'', ''criticality'', ''tags'', ''repository_url'', ''description'', ''environments''] (\<lambda>d.
     opt_bind (required d ''name'' (text_field sr 1 (Some 120))) (\<lambda>n.
     opt_bind (required d ''language'' language_field) (\<lambda>l.
     opt_bind (optional d ''criticality'' MEDIUM_CRIT criticality_field) (\<lambda>c.
     opt_bind (optional d ''tags'' [] (list_field (text_field sr 0 None) 0 (Some 20))) (\<lambda>ts.
     opt_bind (optional d ''repository_url'' None (nullable (text_field sr 0 (Some 500)))) (\<lambda>u.
     opt_bind (optional d ''description'' [] (text_field sr 0 (Some 1000))) (\<lambda>t.
     opt_bind (optional d ''environments'' [] (list_field (EnvironmentSpec sr) 0 None)) (\<lambda>es.
     Some \<lparr>pq_name = n, pq_language = l, pq_criticality = c, pq_tags = ts, pq_repository_url = u, pq_description = t,
           pq_environments = es\<rparr>))))))))"

record application_changes =
  uq_name :: "str option"
  uq_criticality :: "criticality option"
  uq_tags :: "str list option"
  uq_repository_url :: "str option"
  uq_description :: "str option"

definition UpdateApplicationRequest :: "schema_reader \<Rightarrow> json \<Rightarrow> application_changes option" where
  "UpdateApplicationRequest sr = schema [''name'', ''criticality'', ''tags'', ''repository_url'', ''description''] (\<lambda>d.
     opt_bind (optional d ''name'' None (nullable (text_field sr 1 (Some 120)))) (\<lambda>n.
     opt_bind (optional d ''criticality'' None (nullable criticality_field)) (\<lambda>c.
     opt_bind (optional d ''tags'' None (nullable (list_field (text_field sr 0 None) 0 (Some 20)))) (\<lambda>ts.
     opt_bind (optional d ''repository_url'' None (nullable (text_field sr 0 (Some 500)))) (\<lambda>u.
     opt_bind (optional d ''description'' None (nullable (text_field sr 0 (Some 1000)))) (\<lambda>t.
     Some \<lparr>uq_name = n, uq_criticality = c, uq_tags = ts, uq_repository_url = u, uq_description = t\<rparr>))))))"

definition SetProtectionModeRequest :: "json \<Rightarrow> protection_mode option" where
  "SetProtectionModeRequest = schema [''mode''] (\<lambda>d. required d ''mode'' mode_field)"

record agent_request =
  gq_application_name :: str
  gq_environment :: environment_kind
  gq_facts :: agent_facts

definition AgentRegisterRequest :: "schema_reader \<Rightarrow> json \<Rightarrow> agent_request option" where
  "AgentRegisterRequest sr = schema
     [''application_name'', ''environment'', ''language'', ''fingerprint'', ''hostname'', ''agent_version'', ''runtime_version''] (\<lambda>d.
     opt_bind (required d ''application_name'' (text_field sr 1 (Some 120))) (\<lambda>n.
     opt_bind (required d ''environment'' environment_field) (\<lambda>k.
     opt_bind (required d ''language'' language_field) (\<lambda>l.
     opt_bind (required d ''fingerprint'' (text_field sr 8 (Some 128))) (\<lambda>fp.
     opt_bind (optional d ''hostname'' ''unknown'' (text_field sr 0 (Some 255))) (\<lambda>h.
     opt_bind (required d ''agent_version'' (text_field sr 1 (Some 40))) (\<lambda>v.
     opt_bind (optional d ''runtime_version'' [] (text_field sr 0 (Some 80))) (\<lambda>rv.
     Some \<lparr>gq_application_name = n, gq_environment = k,
           gq_facts = \<lparr>af_fingerprint = fp, af_hostname = h, af_agent_version = v, af_runtime_version = rv, af_language = l\<rparr>\<rparr>))))))))"

text \<open>An empty \<open>health\<close> is handed on as none.\<close>

definition AgentHeartbeatRequest :: "schema_reader \<Rightarrow> json \<Rightarrow> heartbeat option" where
  "AgentHeartbeatRequest sr = schema [''cpu_overhead_pct'', ''memory_mb'', ''events_sent'', ''events_dropped'', ''health''] (\<lambda>d.
     opt_bind (optional d ''cpu_overhead_pct'' None (nullable (ranged (\<lambda>x. 0 \<le> x \<and> x \<le> 100) (sr_float sr)))) (\<lambda>c.
     opt_bind (optional d ''memory_mb'' None (nullable (ranged (\<lambda>x. 0 \<le> x) (sr_int sr)))) (\<lambda>m.
     opt_bind (optional d ''events_sent'' 0 (ranged (\<lambda>x. 0 \<le> x) (sr_int sr))) (\<lambda>s.
     opt_bind (optional d ''events_dropped'' 0 (ranged (\<lambda>x. 0 \<le> x) (sr_int sr))) (\<lambda>x.
     opt_bind (optional d ''health'' None (nullable (object_field sr))) (\<lambda>h.
     Some \<lparr>hb_cpu_overhead_pct = c, hb_memory_mb = m, hb_events_sent = s, hb_events_dropped = x,
           hb_health = (if h = Some [] then None else h)\<rparr>))))))"

definition UpdateAgentRequest :: "schema_reader \<Rightarrow> json \<Rightarrow> (bool option \<times> str option) option" where
  "UpdateAgentRequest sr = schema [''enabled'', ''pinned_version''] (\<lambda>d.
     opt_bind (optional d ''enabled'' None (nullable (sr_bool sr))) (\<lambda>e.
     opt_bind (optional d ''pinned_version'' None (nullable (text_field sr 0 (Some 40)))) (\<lambda>v. Some (e, v))))"

section \<open>Triage and rules\<close>

definition status_choice :: "finding_status reader" where
  "status_choice = choice_field status_value [OPEN, CONFIRMED, REMEDIATED, FALSE_POSITIVE, ACCEPTED_RISK]"

definition days_choice :: "schema_reader \<Rightarrow> int option reader" where
  "days_choice sr = nullable (ranged (\<lambda>x. 1 \<le> x \<and> x \<le> 365) (sr_int sr))"

definition TriageRequest :: "schema_reader \<Rightarrow> json \<Rightarrow> decision option" where
  "TriageRequest sr = schema [''status'', ''note'', ''accepted_for_days''] (\<lambda>d.
     opt_bind (required d ''status'' status_choice) (\<lambda>s.
     opt_bind (optional d ''note'' [] (text_field sr 0 (Some 2000))) (\<lambda>n.
     opt_bind (optional d ''accepted_for_days'' None (days_choice sr)) (\<lambda>a.
     Some \<lparr>dc_status = s, dc_note = n, dc_accepted_for_days = a\<rparr>))))"

definition BulkTriageRequest :: "schema_reader \<Rightarrow> json \<Rightarrow> (uuid list \<times> decision) option" where
  "BulkTriageRequest sr = schema [''finding_ids'', ''status'', ''note'', ''accepted_for_days''] (\<lambda>d.
     opt_bind (required d ''finding_ids'' (list_field (sr_uuid sr) 1 (Some 200))) (\<lambda>is.
     opt_bind (required d ''status'' status_choice) (\<lambda>s.
     opt_bind (optional d ''note'' [] (text_field sr 0 (Some 2000))) (\<lambda>n.
     opt_bind (optional d ''accepted_for_days'' None (days_choice sr)) (\<lambda>a.
     Some (is, \<lparr>dc_status = s, dc_note = n, dc_accepted_for_days = a\<rparr>))))))"

definition FindingCommentRequest :: "schema_reader \<Rightarrow> json \<Rightarrow> str option" where
  "FindingCommentRequest sr = schema [''body''] (\<lambda>d. required d ''body'' (text_field sr 1 (Some 4000)))"

definition RuleToggleRequest :: "schema_reader \<Rightarrow> json \<Rightarrow> (bool \<times> str) option" where
  "RuleToggleRequest sr = schema [''enabled'', ''reason''] (\<lambda>d.
     opt_bind (required d ''enabled'' (sr_bool sr)) (\<lambda>e.
     opt_bind (optional d ''reason'' [] (text_field sr 0 (Some 500))) (\<lambda>r. Some (e, r))))"

section \<open>What a read field satisfies\<close>

lemma text_field_Some:
  "text_field sr lo hi j = Some t \<Longrightarrow> lo \<le> length t \<and> (hi = None \<or> (\<exists>n. hi = Some n \<and> length t \<le> n)) \<and> (\<exists>s. j = JStr s \<and> t = sr_trim sr s)"
  by (auto simp: text_field_def Let_def split: json.splits if_splits option.splits)

lemma ranged_Some: "ranged ok read j = Some x \<Longrightarrow> ok x"
  by (auto simp: ranged_def split: option.splits if_splits)

lemma nullable_ranged: "nullable (ranged ok read) j = Some (Some x) \<Longrightarrow> ok x"
  by (auto simp: nullable_def dest: ranged_Some split: if_splits)

lemma all_read_length: "all_read xs = Some ys \<Longrightarrow> length ys = length xs"
  by (induction xs arbitrary: ys rule: all_read.induct) auto

lemma list_field_Some:
  "list_field read lo hi j = Some xs \<Longrightarrow> lo \<le> length xs \<and> (hi = None \<or> (\<exists>n. hi = Some n \<and> length xs \<le> n))"
  by (auto simp: list_field_def split: json.splits if_splits option.splits dest: all_read_length)

lemma schema_Some: "schema known read j = Some x \<Longrightarrow> \<exists>d. j = JObj d \<and> fst ` set d \<subseteq> set known \<and> read d = Some x"
  by (auto simp: schema_def split: json.splits if_splits)

lemma required_Some: "required d k read = Some x \<longleftrightarrow> (\<exists>j. dget d k = Some j \<and> read j = Some x)"
  by (auto simp: required_def bind_eq_Some_conv)

lemma optional_Some: "optional d k e read = Some x \<longleftrightarrow> (dget d k = None \<and> x = e) \<or> (\<exists>j. dget d k = Some j \<and> read j = Some x)"
  by (auto simp: optional_def split: option.splits)

end
