(* ===== verification/Reading.thy ===== *)
theory Reading
  imports Rbac AuthSessions Pagination
begin

text \<open>
  Reading members and the audit log page by page: \<open>ListMembers\<close> of \<open>application/rbac.py\<close>,
  \<open>application/audit.py\<close> and the queries behind them. Reading the audit log is itself recorded. And
  \<open>DescribeCurrentPrincipal\<close> of \<open>application/auth.py\<close>: what a signed-in user is told of itself.
\<close>

section \<open>Members\<close>

text \<open>\<open>created\<close> is the \<open>created_at\<close> of a row, which nothing else reads.\<close>

definition memberships_list_all ::
    "cursor_env \<Rightarrow> (uuid \<Rightarrow> datetime) \<Rightarrow> nat \<Rightarrow> uuid \<Rightarrow> control_db \<Rightarrow> str option \<Rightarrow> control_exn + membership list \<times> str option" where
  "memberships_list_all cu created limit org db cursor =
     (let key = (\<lambda>m. (created (mr_id m), mr_id m)) in
      map_sum id (\<lambda>(ms, c). (map (membership_to_domain db) ms, c))
        (keyset_page key (time_cursor cu key) (after_time cu key) limit (scoped_memberships db org) cursor))"

definition list_members ::
    "cursor_env \<Rightarrow> (uuid \<Rightarrow> datetime) \<Rightarrow> principal \<Rightarrow> nat \<Rightarrow> str option \<Rightarrow> control_db
       \<Rightarrow> control_exn + member_summary list \<times> str option" where
  "list_members cu created pr limit cursor db =
     res_bind (dom_res (require ORG_READ pr)) (\<lambda>_.
     map_sum id (\<lambda>(ms, c). (concat (map (\<lambda>m. case users_get db (me_user_id m) of None \<Rightarrow> [] | Some u \<Rightarrow> [summarize_member m u]) ms), c))
       (memberships_list_all cu created limit (pr_organization_id pr) db cursor))"

section \<open>The audit log\<close>

record event_summary =
  vs_id :: uuid
  vs_sequence :: int
  vs_action :: str
  vs_actor_type :: str
  vs_actor_user_id :: "uuid option"
  vs_actor_label :: str
  vs_resource_type :: str
  vs_resource_id :: str
  vs_outcome :: str
  vs_ip_address :: "str option"
  vs_request_id :: str
  vs_metadata :: obj
  vs_occurred_at :: "datetime option"

definition summarize_event :: "audit_event \<Rightarrow> event_summary" where
  "summarize_event e =
     \<lparr>vs_id = ae_id e, vs_sequence = ae_sequence e, vs_action = ae_action e,
      vs_actor_type = actor_type_value (ae_actor_type e), vs_actor_user_id = ae_actor_user_id e,
      vs_actor_label = ae_actor_label e, vs_resource_type = ae_resource_type e, vs_resource_id = ae_resource_id e,
      vs_outcome = audit_outcome_value (ae_outcome e), vs_ip_address = ae_ip_address e,
      vs_request_id = ae_request_id e, vs_metadata = ae_metadata e, vs_occurred_at = ae_occurred_at e\<rparr>"

record audit_query =
  aq_action :: "str option"
  aq_actor_user_id :: "uuid option"
  aq_occurred_after :: "datetime option"

definition audit_matches :: "audit_query \<Rightarrow> audit_event \<Rightarrow> bool" where
  "audit_matches q e \<longleftrightarrow>
     (aq_action q = None \<or> aq_action q = Some [] \<or> aq_action q = Some (ae_action e))
     \<and> (aq_actor_user_id q = None \<or> aq_actor_user_id q = ae_actor_user_id e)
     \<and> (case aq_occurred_after q of None \<Rightarrow> True | Some t \<Rightarrow> t < the (ae_occurred_at e))"

text \<open>Newest first; a stored entry has a time.\<close>

abbreviation event_key :: "audit_event \<Rightarrow> datetime \<times> uuid" where
  "event_key e \<equiv> (the (ae_occurred_at e), ae_id e)"

definition audit_list_all ::
    "cursor_env \<Rightarrow> nat \<Rightarrow> audit_query \<Rightarrow> uuid \<Rightarrow> control_db \<Rightarrow> str option \<Rightarrow> control_exn + audit_event list \<times> str option" where
  "audit_list_all cu limit q org db cursor =
     res_bind (case cursor of None \<Rightarrow> Inr (\<lambda>e. True)
               | Some c \<Rightarrow> if c = [] then Inr (\<lambda>e. True) else map_sum id (\<lambda>p e. event_key e < p) (decode_cursor cu c)) (\<lambda>before.
     let found = take (limit + 1) (rev (sort_key event_key
                   (filter (\<lambda>e. audit_matches q e \<and> before e) (scoped_events org (db_audit db)))));
         page = take limit found in
     Inr (page, if length found > limit \<and> page \<noteq> []
                then Some (encode_cursor cu (fst (event_key (last page))) (snd (event_key (last page)))) else None))"

definition list_audit_events ::
    "cursor_env \<Rightarrow> control_env \<Rightarrow> principal \<Rightarrow> nat \<Rightarrow> str option \<Rightarrow> audit_query \<Rightarrow> control_db
       \<Rightarrow> (control_exn + event_summary list \<times> str option) \<times> control_db" where
  "list_audit_events cu env pr limit cursor q db = in_transaction db
     (let org = pr_organization_id pr in
      res_bind (dom_res (require AUDIT_READ pr)) (\<lambda>_.
      res_bind (audit_list_all cu limit q org db cursor) (\<lambda>(events, next_cursor).
      res_bind (record_audit env org (ce_fresh env 0)
         (audit_by pr ''audit.read'' ''audit'' []
            [(''filters'', JObj [(''action'', opt_json (aq_action q)),
                                 (''actor_user_id'', JStr (case aq_actor_user_id q of None \<Rightarrow> [] | Some u \<Rightarrow> u))])]) db) (\<lambda>db1.
      Inr ((map summarize_event events, next_cursor), db1)))))"

definition verify_audit_chain ::
    "control_env \<Rightarrow> principal \<Rightarrow> nat option \<Rightarrow> control_db \<Rightarrow> control_exn + bool \<times> nat \<times> int option" where
  "verify_audit_chain env pr limit db =
     res_bind (dom_res (require AUDIT_READ pr)) (\<lambda>_.
     Inr (verify_chain (ce_digest env) (ce_isotime env) (pr_organization_id pr) limit (db_audit db)))"

section \<open>The current principal\<close>

record principal_view =
  pv_user :: user
  pv_organization :: organization
  pv_roles :: "role_summary list"
  pv_permissions :: "str list"
  pv_session_id :: "uuid option"

definition describe_current_principal :: "principal \<Rightarrow> control_db \<Rightarrow> control_exn + principal_view" where
  "describe_current_principal pr db =
     (case pr_user_id pr of
        None \<Rightarrow> Inl (Domain (InvalidStateError ''This endpoint is only available to user principals.''))
      | Some i \<Rightarrow>
          (case (users_get db i, organizations_get db (pr_organization_id pr)) of
             (Some u, Some o1) \<Rightarrow>
               Inr \<lparr>pv_user = u, pv_organization = o1,
                    pv_roles = (case memberships_get_for_user db (pr_organization_id pr) i of None \<Rightarrow> []
                                | Some m \<Rightarrow> map summarize_role (me_roles m)),
                    pv_permissions = sorted_values (pr_permissions pr), pv_session_id = pr_session_id pr\<rparr>
           | _ \<Rightarrow> Inl (Domain (NotFoundError ''User''))))"

section \<open>What a reading leaves behind\<close>

text \<open>A page of the log is written down as a new entry of the reader, and the entries there were stay.\<close>

lemma reading_is_recorded:
  assumes "list_audit_events cu env pr limit cursor q db = (Inr (page, c), db')"
  shows "AUDIT_READ \<in> pr_permissions pr"
    and "\<exists>e. db' = db\<lparr>db_audit := db_audit db @ [e]\<rparr> \<and> ae_action e = ''audit.read''
           \<and> ae_organization_id e = pr_organization_id pr \<and> ae_actor_user_id e = pr_user_id pr"
  using assms
  by (auto simp: list_audit_events_def in_transaction_def res_bind_def Let_def record_audit_def audit_record_def audit_by_def
      audit_append_def audit_entry_def seal_def split: sum.splits option.splits if_splits)

end
