(* ===== verification/HttpResponses.thy ===== *)
theory HttpResponses
  imports HttpSchemas Reading
begin

text \<open>
  The bodies of answers (\<open>interfaces/http/schemas.py\<close>), as the JSON they become. Answers are schemas
  like requests, so their texts are trimmed too. \<open>wt_time\<close> writes a time, \<open>wt_trim\<close> is the trimming.
\<close>

record response_writer =
  wt_trim :: "str \<Rightarrow> str"
  wt_time :: "datetime \<Rightarrow> str"

definition jtext :: "response_writer \<Rightarrow> str \<Rightarrow> json" where "jtext w s = JStr (wt_trim w s)"

definition jopt :: "('a \<Rightarrow> json) \<Rightarrow> 'a option \<Rightarrow> json" where
  "jopt f x = (case x of None \<Rightarrow> JNull | Some y \<Rightarrow> f y)"

abbreviation jtime :: "response_writer \<Rightarrow> datetime option \<Rightarrow> json" where
  "jtime w \<equiv> jopt (\<lambda>t. JStr (wt_time w t))"

abbreviation jid :: "uuid \<Rightarrow> json" where "jid \<equiv> JStr"

definition jtexts :: "response_writer \<Rightarrow> str list \<Rightarrow> json" where "jtexts w xs = JList (map (jtext w) xs)"

text \<open>\<open>dict[str, object]\<close>.\<close>

definition jobject :: "response_writer \<Rightarrow> obj \<Rightarrow> json" where
  "jobject w d = JObj (foldl (\<lambda>acc (k, v). dput (wt_trim w k) v acc) [] d)"

text \<open>\<open>PageResponse.of\<close>.\<close>

definition PageResponse :: "response_writer \<Rightarrow> nat \<Rightarrow> json list \<Rightarrow> str option \<Rightarrow> json" where
  "PageResponse w limit items next_cursor =
     JObj [(''items'', JList items),
           (''page'', JObj [(''next_cursor'', jopt (jtext w) next_cursor), (''has_more'', JBool (next_cursor \<noteq> None)),
                            (''limit'', JInt (int limit))])]"

section \<open>Authentication\<close>

definition TokenResponse :: "response_writer \<Rightarrow> bool \<Rightarrow> token_pair \<Rightarrow> json" where
  "TokenResponse w include_refresh t =
     JObj [(''access_token'', jtext w (tk_access_token t)), (''token_type'', JStr ''Bearer''),
           (''expires_at'', JStr (wt_time w (tk_access_token_expires_at t))),
           (''refresh_token'', if include_refresh then jtext w (tk_refresh_token t) else JNull),
           (''refresh_expires_at'', if include_refresh then JStr (wt_time w (tk_refresh_token_expires_at t)) else JNull),
           (''session_id'', jid (tk_session_id t))]"

definition MfaChallengeResponse :: "response_writer \<Rightarrow> mfa_challenge \<Rightarrow> json" where
  "MfaChallengeResponse w c =
     JObj [(''mfa_required'', JBool True), (''challenge_token'', jtext w (mc_challenge_token c)),
           (''expires_at'', JStr (wt_time w (mc_expires_at c))), (''methods'', jtexts w (mc_methods c))]"

definition OrganizationResponse :: "response_writer \<Rightarrow> organization \<Rightarrow> json" where
  "OrganizationResponse w o1 =
     JObj [(''id'', jid (og_id o1)), (''name'', jtext w (og_name o1)), (''slug'', jtext w (og_slug o1)),
           (''status'', jtext w (organization_status_value (og_status o1)))]"

definition RoleResponse :: "response_writer \<Rightarrow> role_summary \<Rightarrow> json" where
  "RoleResponse w r =
     JObj [(''id'', jid (role_summary.rs_id r)), (''name'', jtext w (role_summary.rs_name r)), (''description'', jtext w (role_summary.rs_description r)),
           (''is_system'', JBool (role_summary.rs_is_system r)), (''permissions'', jtexts w (role_summary.rs_permissions r))]"

definition RegistrationResponse :: "response_writer \<Rightarrow> registration_result \<Rightarrow> json" where
  "RegistrationResponse w r =
     JObj [(''organization'', OrganizationResponse w (rr_organization r)), (''user_id'', jid (rr_user_id r)),
           (''email'', jtext w (rr_email r)), (''tokens'', TokenResponse w False (rr_tokens r))]"

definition MfaEnrolResponse :: "response_writer \<Rightarrow> mfa_enrolment \<Rightarrow> json" where
  "MfaEnrolResponse w e =
     JObj [(''secret'', jtext w (en_secret e)), (''provisioning_uri'', jtext w (en_provisioning_uri e)),
           (''recovery_codes'', jtexts w (en_recovery_codes e))]"

definition LogoutResponse :: "nat \<Rightarrow> json" where
  "LogoutResponse n = JObj [(''sessions_revoked'', JInt (int n))]"

section \<open>Members, roles and permissions\<close>

definition MemberResponse :: "response_writer \<Rightarrow> member_summary \<Rightarrow> json" where
  "MemberResponse w m =
     JObj [(''membership_id'', jid (ms_membership_id m)), (''user_id'', jid (ms_user_id m)),
           (''email'', jtext w (ms_email m)), (''full_name'', jtext w (ms_full_name m)), (''status'', jtext w (ms_status m)),
           (''roles'', JList (map (RoleResponse w) (ms_roles m))), (''permissions'', jtexts w (ms_permissions m)),
           (''joined_at'', jtime w (ms_joined_at m)), (''last_login_at'', jtime w (ms_last_login_at m))]"

text \<open>One entry of the catalogue; \<open>str.partition(":")\<close> splits at the first colon.\<close>

definition PermissionCatalogueEntry :: "response_writer \<Rightarrow> permission \<Rightarrow> json" where
  "PermissionCatalogueEntry w p =
     (let v = permission_value p; resource = takeWhile (\<lambda>c. c \<noteq> CHR '':'') v in
      JObj [(''value'', jtext w v), (''resource'', jtext w resource),
            (''action'', jtext w (drop (Suc (length resource)) v)), (''privileged'', JBool (p \<in> PRIVILEGED_PERMISSIONS))])"

definition CurrentPrincipalResponse :: "response_writer \<Rightarrow> principal_view \<Rightarrow> json" where
  "CurrentPrincipalResponse w v =
     (let u = pv_user v in
      JObj [(''user_id'', jid (us_id u)), (''email'', jtext w (us_email u)), (''full_name'', jtext w (us_full_name u)),
            (''mfa_enabled'', JBool (us_mfa_enabled u)), (''is_platform_admin'', JBool (us_is_platform_admin u)),
            (''organization'', OrganizationResponse w (pv_organization v)),
            (''roles'', JList (map (RoleResponse w) (pv_roles v))), (''permissions'', jtexts w (pv_permissions v)),
            (''session_id'', jopt jid (pv_session_id v))])"

section \<open>Analyses, keys and rules\<close>

definition AiAnalysisResponse :: "response_writer \<Rightarrow> ai_analysis \<Rightarrow> json" where
  "AiAnalysisResponse w a =
     JObj [(''id'', jid (aa_id a)), (''organization_id'', jid (aa_organization_id a)), (''finding_id'', jid (aa_finding_id a)),
           (''kind'', jtext w (analysis_kind_value (aa_kind a))), (''summary'', jtext w (aa_summary a)),
           (''content'', jtext w (aa_content a)), (''status'', jtext w (analysis_status_value (aa_status a))),
           (''model'', jtext w (aa_model a)), (''prompt_hash'', jtext w (aa_prompt_hash a)),
           (''input_tokens'', JInt (aa_input_tokens a)), (''output_tokens'', JInt (aa_output_tokens a)),
           (''reviewed_by'', jopt jid (aa_reviewed_by a)), (''review_note'', jtext w (aa_review_note a)),
           (''failure_reason'', jtext w (aa_failure_reason a)), (''created_at'', jtime w (aa_created_at a)),
           (''reviewed_at'', jtime w (aa_reviewed_at a))]"

definition ApiKeyResponse :: "response_writer \<Rightarrow> key_summary \<Rightarrow> json" where
  "ApiKeyResponse w k =
     JObj [(''id'', jid (ks_id k)), (''name'', jtext w (ks_name k)), (''prefix'', jtext w (ks_prefix k)),
           (''permissions'', jtexts w (ks_permissions k)), (''created_at'', jtime w (ks_created_at k)),
           (''expires_at'', jtime w (ks_expires_at k)), (''last_used_at'', jtime w (ks_last_used_at k)),
           (''revoked_at'', jtime w (ks_revoked_at k)), (''is_active'', JBool (ks_revoked_at k = None))]"

definition ApiKeyIssuedResponse :: "response_writer \<Rightarrow> key_issued \<Rightarrow> json" where
  "ApiKeyIssuedResponse w k =
     JObj [(''api_key'', ApiKeyResponse w (ki_summary k)), (''secret'', jtext w (ki_plaintext_key k))]"

definition RuleResponse :: "response_writer \<Rightarrow> rule_view \<Rightarrow> json" where
  "RuleResponse w v =
     (let r = rv_rule v in
      JObj [(''key'', jtext w (ru_key r)), (''title'', jtext w (ru_title r)), (''severity'', jtext w (severity_value (ru_severity r))),
            (''cwe_id'', jopt JInt (ru_cwe_id r)), (''description'', jtext w (ru_description r)),
            (''remediation'', jtext w (ru_remediation r)), (''enabled'', JBool (rv_enabled v)),
            (''disabled_reason'', jtext w (rv_disabled_reason v))])"

section \<open>Inventory and agents\<close>

definition EnvironmentResponse :: "response_writer \<Rightarrow> environment_summary \<Rightarrow> json" where
  "EnvironmentResponse w e =
     JObj [(''id'', jid (es_id e)), (''application_id'', jid (es_application_id e)), (''kind'', jtext w (es_kind e)),
           (''internet_facing'', JBool (es_internet_facing e)), (''protection_mode'', jtext w (es_protection_mode e)),
           (''created_at'', jtime w (es_created_at e))]"

definition ApplicationResponse :: "response_writer \<Rightarrow> application_summary \<Rightarrow> json" where
  "ApplicationResponse w a =
     JObj [(''id'', jid (as_id a)), (''name'', jtext w (as_name a)), (''slug'', jtext w (as_slug a)),
           (''language'', jtext w (as_language a)), (''criticality'', jtext w (as_criticality a)),
           (''tags'', jtexts w (as_tags a)), (''repository_url'', jopt (jtext w) (as_repository_url a)),
           (''description'', jtext w (as_description a)), (''created_at'', jtime w (as_created_at a)),
           (''environments'', JList (map (EnvironmentResponse w) (as_environments a)))]"

definition AgentResponse :: "response_writer \<Rightarrow> agent_summary \<Rightarrow> json" where
  "AgentResponse w a =
     JObj [(''id'', jid (ys_id a)), (''application_environment_id'', jid (ys_environment_id a)),
           (''fingerprint'', jtext w (ys_fingerprint a)), (''hostname'', jtext w (ys_hostname a)),
           (''language'', jtext w (ys_language a)), (''agent_version'', jtext w (ys_agent_version a)),
           (''runtime_version'', jtext w (ys_runtime_version a)), (''status'', jtext w (ys_status a)),
           (''config_version'', jtext w (ys_config_version a)),
           (''cpu_overhead_pct'', jopt (\<lambda>x. JFloat (Fin x)) (ys_cpu_overhead_pct a)), (''memory_mb'', jopt JInt (ys_memory_mb a)),
           (''events_sent'', JInt (ys_events_sent a)), (''events_dropped'', JInt (ys_events_dropped a)),
           (''pinned_version'', jopt (jtext w) (ys_pinned_version a)), (''last_seen_at'', jtime w (ys_last_seen_at a)),
           (''created_at'', jtime w (ys_created_at a))]"

definition AgentRegistrationResponse :: "response_writer \<Rightarrow> agent_registration \<Rightarrow> json" where
  "AgentRegistrationResponse w r =
     JObj [(''agent'', AgentResponse w (ar_agent r)), (''agent_token'', jtext w (ar_agent_token r)),
           (''agent_token_expires_at'', JStr (wt_time w (ar_agent_token_expires_at r))),
           (''config_version'', jtext w (ar_config_version r)),
           (''heartbeat_interval_seconds'', JInt (ar_heartbeat_interval_seconds r))]"

text \<open>The rules of a tenant's settings must be texts here; anything else fails the answer.\<close>

definition AgentConfigurationResponse :: "response_writer \<Rightarrow> agent_configuration \<Rightarrow> json option" where
  "AgentConfigurationResponse w c =
     (if \<forall>x \<in> set (gc_enabled_rules c). (case x of JStr s \<Rightarrow> True | _ \<Rightarrow> False) then
        Some (JObj [(''config_version'', jtext w (gc_config_version c)), (''protection_mode'', jtext w (gc_protection_mode c)),
           (''capture_request_body'', jtext w (gc_capture_request_body c)), (''max_value_length'', JInt (gc_max_value_length c)),
           (''redact_keys'', jtexts w (gc_redact_keys c)), (''cpu_budget_pct'', JFloat (gc_cpu_budget_pct c)),
           (''enabled_rules'', JList (map (\<lambda>x. case x of JStr s \<Rightarrow> jtext w s | _ \<Rightarrow> JNull) (gc_enabled_rules c))),
           (''heartbeat_interval_seconds'', JInt (gc_heartbeat_interval_seconds c))])
      else None)"

section \<open>The audit log\<close>

definition AuditEventResponse :: "response_writer \<Rightarrow> event_summary \<Rightarrow> json" where
  "AuditEventResponse w e =
     JObj [(''id'', jid (vs_id e)), (''sequence'', JInt (vs_sequence e)), (''action'', jtext w (vs_action e)),
           (''actor_type'', jtext w (vs_actor_type e)), (''actor_user_id'', jopt jid (vs_actor_user_id e)),
           (''actor_label'', jtext w (vs_actor_label e)), (''resource_type'', jtext w (vs_resource_type e)),
           (''resource_id'', jtext w (vs_resource_id e)), (''outcome'', jtext w (vs_outcome e)),
           (''ip_address'', jopt (jtext w) (vs_ip_address e)), (''request_id'', jtext w (vs_request_id e)),
           (''metadata'', jobject w (vs_metadata e)), (''occurred_at'', jtime w (vs_occurred_at e))]"

definition ChainVerificationResponse :: "bool \<times> nat \<times> int option \<Rightarrow> json" where
  "ChainVerificationResponse r =
     (case r of (intact, checked, broken) \<Rightarrow>
        JObj [(''intact'', JBool intact), (''entries_checked'', JInt (int checked)), (''first_broken_sequence'', jopt JInt broken)])"

section \<open>Findings\<close>

definition RiskFactorResponse :: "response_writer \<Rightarrow> factor \<Rightarrow> json" where
  "RiskFactorResponse w f =
     (case f of (name, delta, reason) \<Rightarrow>
        JObj [(''name'', jtext w name), (''delta'', JFloat (Fin delta)), (''reason'', jtext w reason)])"

definition finding_fields :: "response_writer \<Rightarrow> finding \<Rightarrow> (str \<times> json) list" where
  "finding_fields w f =
     [(''id'', jid (f_id f)), (''application_id'', jid (f_application_id f)), (''rule_key'', jtext w (f_rule_key f)),
      (''title'', jtext w (f_title f)), (''severity'', jtext w (severity_value (f_severity f))),
      (''confidence'', jtext w (confidence_value (f_confidence f))), (''status'', jtext w (status_value (f_status f))),
      (''risk_score'', JFloat (Fin (f_risk_score f))), (''risk_factors'', JList (map (RiskFactorResponse w) (f_risk_factors f))),
      (''occurrence_count'', JInt (int (f_occurrence_count f))),
      (''suppressed_occurrence_count'', JInt (int (f_suppressed_occurrence_count f))),
      (''would_block_count'', JInt (int (f_would_block_count f))), (''environments_seen'', jtexts w (f_environments_seen f)),
      (''route_templates'', jtexts w (f_route_templates f)), (''sink_signature'', jtext w (f_sink_signature f)),
      (''source_kind'', jtext w (f_source_kind f)), (''cwe_id'', jopt JInt (f_cwe_id f)), (''regressed'', JBool (f_regressed f)),
      (''first_seen_at'', jtime w (f_first_seen_at f)), (''last_seen_at'', jtime w (f_last_seen_at f)),
      (''accepted_until'', jtime w (f_accepted_until f)), (''triage_note'', jtext w (f_triage_note f))]"

definition FindingResponse :: "response_writer \<Rightarrow> finding \<Rightarrow> json" where
  "FindingResponse w f = JObj (finding_fields w f)"

definition TaintRangeResponse :: "response_writer \<Rightarrow> int \<times> int \<times> str \<times> str \<Rightarrow> json" where
  "TaintRangeResponse w r =
     (case r of (s, n, source, name) \<Rightarrow>
        JObj [(''start'', JInt s), (''length'', JInt n), (''source'', jtext w source), (''source_name'', jtext w name)])"

definition StackFrameResponse :: "response_writer \<Rightarrow> str \<times> str \<times> int \<times> bool \<Rightarrow> json" where
  "StackFrameResponse w fr =
     (case fr of (c, m, line, is_app) \<Rightarrow>
        JObj [(''declaring_class'', jtext w c), (''method_name'', jtext w m), (''line_number'', JInt line),
              (''application_code'', JBool is_app)])"

text \<open>An occurrence comes with the id of its row; the demonstration ones have no time.\<close>

definition OccurrenceResponse :: "response_writer \<Rightarrow> uuid \<times> occurrence \<times> datetime option \<Rightarrow> json" where
  "OccurrenceResponse w x =
     (case x of (i, oc, at_time) \<Rightarrow>
        JObj [(''id'', jid i), (''environment'', jtext w (oc_environment oc)), (''trace_id'', jtext w (oc_trace_id oc)),
              (''request_method'', jtext w (oc_request_method oc)), (''request_path'', jtext w (oc_request_path oc)),
              (''route_template'', jtext w (oc_route_template oc)), (''sink_argument'', jtext w (oc_sink_argument oc)),
              (''tainted_ranges'', JList (map (TaintRangeResponse w) (oc_tainted_ranges oc))),
              (''stack_frames'', JList (map (StackFrameResponse w) (oc_stack_frames oc))),
              (''remote_address'', jtext w (oc_remote_address oc)), (''attack_detected'', JBool (oc_attack_detected oc)),
              (''observed_at'', jtime w at_time)])"

definition FindingCommentResponse :: "response_writer \<Rightarrow> comment \<Rightarrow> json" where
  "FindingCommentResponse w c =
     JObj [(''id'', jid (cm_id c)), (''author_id'', jopt jid (cm_author_id c)), (''author_label'', jtext w (cm_author_label c)),
           (''body'', jtext w (cm_body c)), (''status_from'', jopt (jtext w) (cm_status_from c)),
           (''status_to'', jopt (jtext w) (cm_status_to c)), (''created_at'', JStr (wt_time w (cm_created_at c)))]"

definition FindingDetailResponse ::
    "response_writer \<Rightarrow> finding \<Rightarrow> (uuid \<times> occurrence \<times> datetime option) list \<Rightarrow> comment list \<Rightarrow> json" where
  "FindingDetailResponse w f ocs cms =
     JObj (finding_fields w f @ [(''occurrences'', JList (map (OccurrenceResponse w) ocs)),
                                 (''comments'', JList (map (FindingCommentResponse w) cms))])"

definition BulkTriageOutcomeResponse :: "response_writer \<Rightarrow> bulk_outcome \<Rightarrow> json" where
  "BulkTriageOutcomeResponse w x =
     JObj [(''finding_id'', jid (bo_finding_id x)), (''applied'', JBool (bo_applied x)), (''error'', jtext w (bo_error x))]"

definition BulkTriageResponse :: "response_writer \<Rightarrow> bulk_outcome list \<Rightarrow> json" where
  "BulkTriageResponse w xs =
     JObj [(''applied'', JInt (int (length (filter bo_applied xs)))),
           (''rejected'', JInt (int (length (filter (\<lambda>x. \<not> bo_applied x) xs)))),
           (''outcomes'', JList (map (BulkTriageOutcomeResponse w) xs))]"

text \<open>
  Trimming moves the evidence under its marks: the ranges of an occurrence count characters of the
  argument as it was captured, the answer shows it without its first blanks.
\<close>

lemma evidence_shown_is_shifted:
  assumes "oc_sink_argument oc = '' '' @ v" "wt_trim w = strip" "strip v = v" "v \<noteq> []"
    and "oc_tainted_ranges oc = [(1, int (length v), source, name)]"
  shows "\<exists>fields. OccurrenceResponse w (i, oc, t) = JObj fields \<and> jget fields ''sink_argument'' = JStr v
    \<and> jget fields ''tainted_ranges'' = JList [JObj [(''start'', JInt 1), (''length'', JInt (int (length v))),
         (''source'', JStr (strip source)), (''source_name'', JStr (strip name))]]"
proof -
  have "strip ('' '' @ v) = v" using assms(3) by (simp add: strip_def strip_by_def is_space_def)
  then show ?thesis using assms
    by (simp add: OccurrenceResponse_def jget_def dget_def jtext_def TaintRangeResponse_def)
qed

end
