(* ===== verification/Protection.thy ===== *)
theory Protection
  imports AccessEntity InventoryEntity
begin

text \<open>
  Protection policies of applications (\<open>domain/entities/protection.py\<close>, \<open>application/protection.py\<close>):
  modes and the soak before blocking. \<open>hours_text\<close> writes a number of hours with one digit. The use case
  keeps nothing: each call starts from a new policy.
\<close>

definition SOAK_DURATION_HOURS :: int where "SOAK_DURATION_HOURS = 336"

record protection_policy =
  pp_id :: uuid
  pp_organization_id :: uuid
  pp_application_id :: uuid
  pp_mode :: protection_mode
  pp_soak_started_at :: datetime
  pp_would_block_count :: nat
  pp_created_at :: datetime
  pp_updated_at :: datetime

definition create_policy :: "uuid \<Rightarrow> uuid \<Rightarrow> uuid \<Rightarrow> protection_mode \<Rightarrow> datetime \<Rightarrow> protection_policy" where
  "create_policy fresh org app mode now =
     \<lparr>pp_id = fresh, pp_organization_id = org, pp_application_id = app, pp_mode = mode, pp_soak_started_at = now,
      pp_would_block_count = 0, pp_created_at = now, pp_updated_at = now\<rparr>"

abbreviation hours_span :: "int \<Rightarrow> int" where "hours_span n \<equiv> n * 3600000000"

definition transition_to :: "(int \<Rightarrow> str) \<Rightarrow> protection_mode \<Rightarrow> datetime \<Rightarrow> protection_policy \<Rightarrow> domain_error + protection_policy" where
  "transition_to hours_text new_mode now p =
     res_bind (raise_if (new_mode = MODE_BLOCK \<and> pp_mode p = MODE_OFF)
       (InvalidStateError ''Cannot transition directly from OFF to BLOCK. Enable MONITOR mode first for a 24h soak.'')) (\<lambda>_.
     res_bind (let elapsed = now - pp_soak_started_at p in
       raise_if (new_mode = MODE_BLOCK \<and> pp_mode p = MODE_MONITOR \<and> elapsed < hours_span SOAK_DURATION_HOURS)
         (InvalidStateError (''Cannot transition to BLOCK mode. Soak period incomplete (''
            @ hours_text (hours_span SOAK_DURATION_HOURS - elapsed) @ ''h remaining).''))) (\<lambda>_.
     let p1 = (if new_mode = MODE_MONITOR \<and> pp_mode p \<noteq> MODE_MONITOR then p\<lparr>pp_soak_started_at := now\<rparr> else p) in
     Inr (p1\<lparr>pp_mode := new_mode, pp_updated_at := now\<rparr>)))"

definition policy_record_would_block :: "protection_policy \<Rightarrow> protection_policy" where
  "policy_record_would_block p = p\<lparr>pp_would_block_count := pp_would_block_count p + 1\<rparr>"

definition get_policy :: "uuid \<Rightarrow> datetime \<Rightarrow> principal \<Rightarrow> uuid \<Rightarrow> domain_error + protection_policy" where
  "get_policy fresh now pr app =
     res_bind (require APP_READ pr) (\<lambda>_. Inr (create_policy fresh (pr_organization_id pr) app MODE_MONITOR now))"

text \<open>\<open>now\<close> is read before the policy is made, at \<open>later\<close>.\<close>

definition update_policy_mode ::
    "(int \<Rightarrow> str) \<Rightarrow> uuid \<Rightarrow> datetime \<Rightarrow> datetime \<Rightarrow> principal \<Rightarrow> uuid \<Rightarrow> protection_mode \<Rightarrow> domain_error + protection_policy" where
  "update_policy_mode hours_text fresh now later pr app new_mode =
     res_bind (require APP_WRITE pr) (\<lambda>_.
     res_bind (get_policy fresh later pr app) (transition_to hours_text new_mode now))"

section \<open>Runs of a policy\<close>

text \<open>The entity by itself keeps its promise: a policy that blocks has monitored for the whole soak without a pause.\<close>

inductive policy_step :: "datetime \<times> protection_policy \<Rightarrow> datetime \<times> protection_policy \<Rightarrow> bool" where
  wait: "t \<le> t' \<Longrightarrow> policy_step (t, p) (t', p)"
| move: "transition_to hours_text m t p = Inr p' \<Longrightarrow> policy_step (t, p) (t, p')"
| seen: "policy_step (t, p) (t, policy_record_would_block p)"

inductive_cases policy_stepE: "policy_step s s'"

definition policy_ok :: "datetime \<times> protection_policy \<Rightarrow> bool" where
  "policy_ok s \<longleftrightarrow> pp_soak_started_at (snd s) \<le> fst s
     \<and> (pp_mode (snd s) = MODE_BLOCK \<longrightarrow> hours_span SOAK_DURATION_HOURS \<le> fst s - pp_soak_started_at (snd s))"

lemma transition_to_Inr:
  assumes "transition_to hours_text m t p = Inr p'"
  shows "pp_mode p' = m" "m = MODE_BLOCK \<Longrightarrow> pp_mode p = MODE_BLOCK \<or> hours_span SOAK_DURATION_HOURS \<le> t - pp_soak_started_at p"
    "m = MODE_BLOCK \<Longrightarrow> pp_soak_started_at p' = pp_soak_started_at p"
    "pp_soak_started_at p' = pp_soak_started_at p \<or> pp_soak_started_at p' = t"
  using assms by (cases "pp_mode p"; auto simp: transition_to_def raise_if_def res_bind_def Let_def split: if_splits)+

lemma policy_step_ok: "policy_step s s' \<Longrightarrow> policy_ok s \<Longrightarrow> policy_ok s'"
proof (erule policy_stepE)
  fix hours_text m t p p'
  assume s: "s = (t, p)" "s' = (t, p')" and tr: "transition_to hours_text m t p = Inr p'" and "policy_ok s"
  then show "policy_ok s'" using transition_to_Inr [OF tr] by (auto simp: policy_ok_def)
qed (auto simp: policy_ok_def policy_record_would_block_def)

lemma blocking_policy_has_soaked:
  "policy_step\<^sup>*\<^sup>* (now, create_policy i org app MODE_MONITOR now) (t, p) \<Longrightarrow> pp_mode p = MODE_BLOCK \<Longrightarrow>
     hours_span SOAK_DURATION_HOURS \<le> t - pp_soak_started_at p"
proof -
  assume run: "policy_step\<^sup>*\<^sup>* (now, create_policy i org app MODE_MONITOR now) (t, p)" and block: "pp_mode p = MODE_BLOCK"
  have "policy_ok (t, p)"
    using run by (induction rule: rtranclp_induct) (auto simp: policy_ok_def create_policy_def dest: policy_step_ok)
  then show ?thesis using block by (simp add: policy_ok_def)
qed

text \<open>The use case never gets there: no application can be set to block, however long it was monitored.\<close>

lemma policies_never_block:
  assumes "now \<le> later"
  shows "\<exists>e. update_policy_mode hours_text fresh now later pr app MODE_BLOCK = Inl e"
  using assms
  by (auto simp: update_policy_mode_def get_policy_def create_policy_def transition_to_def res_bind_def raise_if_def
      SOAK_DURATION_HOURS_def split: sum.splits)

end
