(* ===== verification/HttpRoutes.thy ===== *)
theory HttpRoutes
  imports HttpResponses Protection
begin

text \<open>
  The routes of the control plane (\<open>interfaces/http/routers/\<close>): each one's guards, the body or the query
  it reads, the use case it calls and the answer it makes of the result. Which route a request belongs
  to is the framework's; a handler is given the principal its dependencies resolved (\<open>HttpGuards\<close>) and
  the JSON of the body. Guards come before the body, as dependencies do.
\<close>

section \<open>Answers\<close>

record cookie =
  ck_name :: str
  ck_value :: str
  ck_max_age :: int
  ck_http_only :: bool
  ck_secure :: bool
  ck_same_site :: str
  ck_path :: str

text \<open>A body that does not validate is a 422; an error goes to the handlers of \<open>DomainErrors\<close>.\<close>

datatype handled =
    Unprocessable
  | Failed control_exn
  | Answered int "json option" "cookie list"

record http_env =
  he_reader :: schema_reader
  he_writer :: response_writer
  he_control :: control_env
  he_auth :: auth_deps
  he_mfa :: mfa_deps
  he_cursors :: cursor_env
  he_choice :: "nat \<Rightarrow> char"
  he_random :: "nat \<Rightarrow> uuid"
  he_deployment :: deployment
  he_allow_signup :: bool
  he_refresh_ttl_seconds :: int
  he_max_page_size :: nat
  he_max_tags :: nat
  he_version :: str

definition answer :: "int \<Rightarrow> ('a \<Rightarrow> json) \<Rightarrow> (control_exn + 'a) \<times> 'd \<Rightarrow> handled \<times> 'd" where
  "answer status body out =
     (case out of (Inl e, db) \<Rightarrow> (Failed e, db) | (Inr x, db) \<Rightarrow> (Answered status (Some (body x)) [], db))"

text \<open>204: no body.\<close>

definition no_content :: "(control_exn + 'a) \<times> 'd \<Rightarrow> handled \<times> 'd" where
  "no_content out = (case out of (Inl e, db) \<Rightarrow> (Failed e, db) | (Inr x, db) \<Rightarrow> (Answered 204 None [], db))"

definition with_body :: "'a option \<Rightarrow> 'd \<Rightarrow> ('a \<Rightarrow> handled \<times> 'd) \<Rightarrow> handled \<times> 'd" where
  "with_body parsed db handle = (case parsed of None \<Rightarrow> (Unprocessable, db) | Some x \<Rightarrow> handle x)"

definition guarded :: "permission list \<Rightarrow> principal \<Rightarrow> 'd \<Rightarrow> handled \<times> 'd \<Rightarrow> handled \<times> 'd" where
  "guarded ps pr db handle = (case requires ps pr of Inl e \<Rightarrow> (Failed (Domain e), db) | Inr _ \<Rightarrow> handle)"

definition user_only :: "principal \<Rightarrow> 'd \<Rightarrow> handled \<times> 'd \<Rightarrow> handled \<times> 'd" where
  "user_only pr db handle = (case current_user_principal pr of Inl e \<Rightarrow> (Failed (Domain e), db) | Inr _ \<Rightarrow> handle)"

text \<open>\<open>Query(ge=1, le=200)\<close>, and \<open>min(limit, settings.max_page_size)\<close>.\<close>

definition page_limit :: "http_env \<Rightarrow> int \<Rightarrow> nat option" where
  "page_limit he limit = (if 1 \<le> limit \<and> limit \<le> 200 then Some (min (nat limit) (he_max_page_size he)) else None)"

section \<open>Authentication (\<open>routers/auth.py\<close>)\<close>

definition set_refresh_cookie :: "http_env \<Rightarrow> str \<Rightarrow> cookie" where
  "set_refresh_cookie he token =
     \<lparr>ck_name = ''aegis_refresh'', ck_value = token, ck_max_age = he_refresh_ttl_seconds he, ck_http_only = True,
      ck_secure = runs_in_production (he_deployment he), ck_same_site = ''strict'', ck_path = ''/api/v1/auth''\<rparr>"

definition clear_refresh_cookie :: cookie where
  "clear_refresh_cookie =
     \<lparr>ck_name = ''aegis_refresh'', ck_value = [], ck_max_age = 0, ck_http_only = False, ck_secure = False,
      ck_same_site = ''lax'', ck_path = ''/api/v1/auth''\<rparr>"

definition register_route :: "http_env \<Rightarrow> request_context \<Rightarrow> license_tier \<Rightarrow> json \<Rightarrow> control_db \<Rightarrow> handled \<times> control_db" where
  "register_route he ctx tier body db = with_body (RegisterRequest (he_reader he) body) db (\<lambda>q.
     case register_organization (he_auth he) (he_control he) (he_allow_signup he) (rq_organization_name q) (rq_email q)
            (rq_password q) (rq_full_name q) ctx tier db of
       (Inl e, db1) \<Rightarrow> (Failed e, db1)
     | (Inr r, db1) \<Rightarrow> (Answered 201 (Some (RegistrationResponse (he_writer he) r))
                          [set_refresh_cookie he (tk_refresh_token (rr_tokens r))], db1))"

definition login_route :: "http_env \<Rightarrow> request_context \<Rightarrow> json \<Rightarrow> control_db \<Rightarrow> handled \<times> control_db" where
  "login_route he ctx body db = with_body (LoginRequest (he_reader he) body) db (\<lambda>q.
     case authenticate_user (he_auth he) (he_control he) (lq_email q) (lq_password q) (lq_organization_slug q) ctx db of
       (Inl e, db1) \<Rightarrow> (Failed e, db1)
     | (Inr (Challenge c), db1) \<Rightarrow> (Answered 200 (Some (MfaChallengeResponse (he_writer he) c)) [], db1)
     | (Inr (Tokens t), db1) \<Rightarrow> (Answered 200 (Some (TokenResponse (he_writer he) False t))
                                  [set_refresh_cookie he (tk_refresh_token t)], db1))"

definition verify_mfa_route :: "http_env \<Rightarrow> request_context \<Rightarrow> json \<Rightarrow> control_db \<Rightarrow> handled \<times> control_db" where
  "verify_mfa_route he ctx body db = with_body (MfaVerifyRequest (he_reader he) body) db (\<lambda>(token, code).
     case complete_mfa_challenge (he_auth he) (he_control he) token code ctx db of
       (Inl e, db1) \<Rightarrow> (Failed e, db1)
     | (Inr t, db1) \<Rightarrow> (Answered 200 (Some (TokenResponse (he_writer he) False t)) [set_refresh_cookie he (tk_refresh_token t)], db1))"

definition refresh_route :: "http_env \<Rightarrow> http_request \<Rightarrow> request_context \<Rightarrow> json \<Rightarrow> control_db \<Rightarrow> handled \<times> control_db" where
  "refresh_route he q ctx body db = with_body (RefreshRequest (he_reader he) body) db (\<lambda>body_token.
     case read_refresh_token q body_token of
       Inl e \<Rightarrow> (Failed (Domain e), db)
     | Inr token \<Rightarrow>
         (case refresh_session (he_auth he) (he_control he) token ctx db of
            (Inl e, db1) \<Rightarrow> (Failed e, db1)
          | (Inr t, db1) \<Rightarrow> (Answered 200 (Some (TokenResponse (he_writer he) False t))
               (if tk_refresh_token t = [] then [] else [set_refresh_cookie he (tk_refresh_token t)]), db1)))"

definition logout_route :: "http_env \<Rightarrow> bool \<Rightarrow> principal \<Rightarrow> control_db \<Rightarrow> handled \<times> control_db" where
  "logout_route he all_sessions pr db = user_only pr db
     (case revoke_session (he_control he) pr all_sessions db of
        (Inl e, db1) \<Rightarrow> (Failed e, db1)
      | (Inr n, db1) \<Rightarrow> (Answered 200 (Some (LogoutResponse n)) [clear_refresh_cookie], db1))"

definition change_password_route :: "http_env \<Rightarrow> principal \<Rightarrow> json \<Rightarrow> control_db \<Rightarrow> handled \<times> control_db" where
  "change_password_route he pr body db = user_only pr db
     (with_body (ChangePasswordRequest (he_reader he) body) db (\<lambda>(current_password, new_password).
        answer 200 LogoutResponse (change_password (he_auth he) (he_control he) pr current_password new_password db)))"

definition me_route :: "http_env \<Rightarrow> principal \<Rightarrow> control_db \<Rightarrow> handled \<times> control_db" where
  "me_route he pr db = user_only pr db
     (answer 200 (CurrentPrincipalResponse (he_writer he)) (describe_current_principal pr db, db))"

definition enrol_mfa_route :: "http_env \<Rightarrow> principal \<Rightarrow> json \<Rightarrow> control_db \<Rightarrow> handled \<times> control_db" where
  "enrol_mfa_route he pr body db = user_only pr db
     (with_body (MfaEnrolRequest (he_reader he) body) db (\<lambda>password.
        answer 200 (MfaEnrolResponse (he_writer he)) (enrol_mfa (he_mfa he) (he_control he) (he_choice he) pr password db)))"

definition confirm_mfa_route :: "http_env \<Rightarrow> principal \<Rightarrow> json \<Rightarrow> control_db \<Rightarrow> handled \<times> control_db" where
  "confirm_mfa_route he pr body db = user_only pr db
     (with_body (MfaConfirmRequest (he_reader he) body) db (\<lambda>code.
        no_content (confirm_mfa (he_mfa he) (he_control he) pr code db)))"

definition disable_mfa_route :: "http_env \<Rightarrow> principal \<Rightarrow> json \<Rightarrow> control_db \<Rightarrow> handled \<times> control_db" where
  "disable_mfa_route he pr body db = user_only pr db
     (with_body (MfaDisableRequest (he_reader he) body) db (\<lambda>password.
        no_content (disable_mfa (he_mfa he) (he_control he) pr password db)))"

section \<open>Organization, members and roles (\<open>routers/organizations.py\<close>)\<close>

definition get_current_organization_route :: "http_env \<Rightarrow> principal \<Rightarrow> control_db \<Rightarrow> handled \<times> control_db" where
  "get_current_organization_route he pr db =
     answer 200 (OrganizationResponse (he_writer he)) (get_organization pr db, db)"

definition update_current_organization_route ::
    "http_env \<Rightarrow> principal \<Rightarrow> json \<Rightarrow> control_db \<Rightarrow> handled \<times> control_db" where
  "update_current_organization_route he pr body db = with_body (UpdateOrganizationRequest (he_reader he) body) db (\<lambda>(name, settings).
     answer 200 (OrganizationResponse (he_writer he)) (update_organization (he_control he) pr name settings db))"

definition list_members_route ::
    "http_env \<Rightarrow> (uuid \<Rightarrow> datetime) \<Rightarrow> principal \<Rightarrow> int \<Rightarrow> str option \<Rightarrow> control_db \<Rightarrow> handled \<times> control_db" where
  "list_members_route he created pr limit cursor db = with_body (page_limit he limit) db (\<lambda>n.
     answer 200 (\<lambda>(ms, c). PageResponse (he_writer he) n (map (MemberResponse (he_writer he)) ms) c)
       (list_members (he_cursors he) created pr n cursor db, db))"

definition invite_member_route :: "http_env \<Rightarrow> principal \<Rightarrow> json \<Rightarrow> control_db \<Rightarrow> handled \<times> control_db" where
  "invite_member_route he pr body db = guarded [USER_INVITE] pr db (with_body (InviteMemberRequest (he_reader he) body) db (\<lambda>q.
     answer 201 (MemberResponse (he_writer he)) (invite_member (he_control he) pr (iq_email q) (iq_full_name q) (iq_role_ids q) db)))"

definition update_member_route :: "http_env \<Rightarrow> principal \<Rightarrow> uuid \<Rightarrow> json \<Rightarrow> control_db \<Rightarrow> handled \<times> control_db" where
  "update_member_route he pr i body db = guarded [ROLE_WRITE] pr db (with_body (UpdateMemberRequest (he_reader he) body) db (\<lambda>role_ids.
     answer 200 (MemberResponse (he_writer he)) (update_member_roles (he_control he) pr i role_ids db)))"

definition remove_member_route :: "http_env \<Rightarrow> principal \<Rightarrow> uuid \<Rightarrow> control_db \<Rightarrow> handled \<times> control_db" where
  "remove_member_route he pr i db = guarded [USER_REMOVE] pr db (no_content (remove_member (he_control he) pr i db))"

definition list_roles_route :: "http_env \<Rightarrow> principal \<Rightarrow> control_db \<Rightarrow> handled \<times> control_db" where
  "list_roles_route he pr db =
     answer 200 (\<lambda>rs. JList (map (RoleResponse (he_writer he)) rs)) (list_roles pr db, db)"

definition create_role_route :: "http_env \<Rightarrow> principal \<Rightarrow> json \<Rightarrow> control_db \<Rightarrow> handled \<times> control_db" where
  "create_role_route he pr body db = guarded [ROLE_WRITE] pr db (with_body (CreateRoleRequest (he_reader he) body) db (\<lambda>q.
     answer 201 (RoleResponse (he_writer he)) (create_role (he_control he) pr (oq_name q) (oq_description q) (oq_permissions q) db)))"

definition update_role_route :: "http_env \<Rightarrow> principal \<Rightarrow> uuid \<Rightarrow> json \<Rightarrow> control_db \<Rightarrow> handled \<times> control_db" where
  "update_role_route he pr i body db = guarded [ROLE_WRITE] pr db (with_body (UpdateRoleRequest (he_reader he) body) db (\<lambda>(name, description, permissions).
     answer 200 (RoleResponse (he_writer he)) (update_role (he_control he) pr i name description permissions db)))"

definition delete_role_route :: "http_env \<Rightarrow> principal \<Rightarrow> uuid \<Rightarrow> control_db \<Rightarrow> handled \<times> control_db" where
  "delete_role_route he pr i db = guarded [ROLE_WRITE] pr db (no_content (delete_role (he_control he) pr i db))"

definition list_permissions_route :: "http_env \<Rightarrow> control_db \<Rightarrow> handled \<times> control_db" where
  "list_permissions_route he db =
     (Answered 200 (Some (JList (map (PermissionCatalogueEntry (he_writer he)) ALL_PERMISSIONS))) [], db)"

section \<open>API keys and the audit log (\<open>routers/api_keys.py\<close>, \<open>routers/audit.py\<close>)\<close>

definition list_api_keys_route :: "http_env \<Rightarrow> principal \<Rightarrow> control_db \<Rightarrow> handled \<times> control_db" where
  "list_api_keys_route he pr db = guarded [SETTINGS_WRITE] pr db
     (answer 200 (\<lambda>ks. JList (map (ApiKeyResponse (he_writer he)) ks)) (list_api_keys pr db, db))"

definition create_api_key_route :: "http_env \<Rightarrow> principal \<Rightarrow> json \<Rightarrow> control_db \<Rightarrow> handled \<times> control_db" where
  "create_api_key_route he pr body db = guarded [SETTINGS_WRITE] pr db (with_body (CreateApiKeyRequest (he_reader he) body) db (\<lambda>q.
     answer 201 (ApiKeyIssuedResponse (he_writer he))
       (create_api_key (he_auth he) (he_control he) (he_choice he) pr (kq_name q) (kq_permissions q) (kq_expires_in_days q) db)))"

definition revoke_api_key_route :: "http_env \<Rightarrow> principal \<Rightarrow> uuid \<Rightarrow> control_db \<Rightarrow> handled \<times> control_db" where
  "revoke_api_key_route he pr i db = guarded [SETTINGS_WRITE] pr db (no_content (revoke_api_key (he_control he) pr i db))"

definition list_audit_events_route ::
    "http_env \<Rightarrow> principal \<Rightarrow> int \<Rightarrow> str option \<Rightarrow> audit_query \<Rightarrow> control_db \<Rightarrow> handled \<times> control_db" where
  "list_audit_events_route he pr limit cursor q db = guarded [AUDIT_READ] pr db
     (with_body (if (case aq_action q of None \<Rightarrow> True | Some a \<Rightarrow> length a \<le> 100) then page_limit he limit else None) db (\<lambda>n.
        answer 200 (\<lambda>(es, c). PageResponse (he_writer he) n (map (AuditEventResponse (he_writer he)) es) c)
          (list_audit_events (he_cursors he) (he_control he) pr n cursor q db)))"

definition verify_chain_route :: "http_env \<Rightarrow> principal \<Rightarrow> int option \<Rightarrow> control_db \<Rightarrow> handled \<times> control_db" where
  "verify_chain_route he pr limit db = guarded [AUDIT_READ] pr db
     (with_body (case limit of None \<Rightarrow> Some None | Some n \<Rightarrow> if 1 \<le> n \<and> n \<le> 100000 then Some (Some (nat n)) else None) db (\<lambda>n.
        answer 200 ChainVerificationResponse (verify_audit_chain (he_control he) pr n db, db)))"

end
