(* ===== verification/HttpRoutesFleet.thy ===== *)
theory HttpRoutesFleet
  imports HttpRoutes
begin

text \<open>
  The rest of the routes: applications and environments, agents, findings, analyses, exports, the
  compliance report, protection policies and rules.
\<close>

section \<open>Applications and environments (\<open>routers/applications.py\<close>)\<close>

definition list_applications_route ::
    "http_env \<Rightarrow> principal \<Rightarrow> int \<Rightarrow> str option \<Rightarrow> str option \<Rightarrow> str list \<Rightarrow> fleet_db \<Rightarrow> handled \<times> fleet_db" where
  "list_applications_route he pr limit cursor search tags db =
     with_body (if (case search of None \<Rightarrow> True | Some s \<Rightarrow> length s \<le> 120) then page_limit he limit else None) db (\<lambda>n.
       answer 200 (\<lambda>(as, c). PageResponse (he_writer he) n (map (ApplicationResponse (he_writer he)) as) c)
         (list_applications (he_cursors he) pr n cursor (case search of None \<Rightarrow> [] | Some s \<Rightarrow> s) tags db, db))"

definition create_application_route :: "http_env \<Rightarrow> principal \<Rightarrow> json \<Rightarrow> fleet_db \<Rightarrow> handled \<times> fleet_db" where
  "create_application_route he pr body db = guarded [APP_WRITE] pr db
     (with_body (CreateApplicationRequest (he_reader he) body) db (\<lambda>q.
        answer 201 (ApplicationResponse (he_writer he))
          (create_application (he_control he) (he_max_tags he) pr (pq_name q) (pq_language q) (pq_criticality q) (pq_tags q)
             (pq_repository_url q) (pq_description q) (pq_environments q) db)))"

definition get_application_route :: "http_env \<Rightarrow> principal \<Rightarrow> uuid \<Rightarrow> fleet_db \<Rightarrow> handled \<times> fleet_db" where
  "get_application_route he pr i db = answer 200 (ApplicationResponse (he_writer he)) (get_application pr i db, db)"

definition update_application_route :: "http_env \<Rightarrow> principal \<Rightarrow> uuid \<Rightarrow> json \<Rightarrow> fleet_db \<Rightarrow> handled \<times> fleet_db" where
  "update_application_route he pr i body db = guarded [APP_WRITE] pr db
     (with_body (UpdateApplicationRequest (he_reader he) body) db (\<lambda>q.
        answer 200 (ApplicationResponse (he_writer he))
          (update_application (he_control he) (he_max_tags he) pr i (uq_name q) (uq_criticality q) (uq_tags q)
             (uq_repository_url q) (uq_description q) db)))"

definition delete_application_route :: "http_env \<Rightarrow> principal \<Rightarrow> uuid \<Rightarrow> fleet_db \<Rightarrow> handled \<times> fleet_db" where
  "delete_application_route he pr i db = guarded [APP_DELETE] pr db (no_content (delete_application (he_control he) pr i db))"

definition list_environments_route :: "http_env \<Rightarrow> principal \<Rightarrow> uuid \<Rightarrow> fleet_db \<Rightarrow> handled \<times> fleet_db" where
  "list_environments_route he pr i db =
     answer 200 (\<lambda>es. JList (map (EnvironmentResponse (he_writer he)) es)) (list_environments pr i db, db)"

definition create_environment_route :: "http_env \<Rightarrow> principal \<Rightarrow> uuid \<Rightarrow> json \<Rightarrow> fleet_db \<Rightarrow> handled \<times> fleet_db" where
  "create_environment_route he pr i body db = guarded [APP_WRITE] pr db
     (with_body (CreateEnvironmentRequest (he_reader he) body) db (\<lambda>(kind, internet_facing).
        answer 201 (EnvironmentResponse (he_writer he)) (create_environment (he_control he) pr i kind internet_facing db)))"

definition set_protection_mode_route :: "http_env \<Rightarrow> principal \<Rightarrow> uuid \<Rightarrow> json \<Rightarrow> fleet_db \<Rightarrow> handled \<times> fleet_db" where
  "set_protection_mode_route he pr i body db = guarded [POLICY_WRITE] pr db
     (with_body (SetProtectionModeRequest body) db (\<lambda>mode.
        answer 200 (EnvironmentResponse (he_writer he)) (change_protection_mode (he_control he) pr i mode db)))"

section \<open>Agents (\<open>routers/agents.py\<close>)\<close>

definition register_agent_route :: "http_env \<Rightarrow> principal \<Rightarrow> json \<Rightarrow> fleet_db \<Rightarrow> handled \<times> fleet_db" where
  "register_agent_route he pr body db = guarded [AGENT_WRITE] pr db
     (with_body (AgentRegisterRequest (he_reader he) body) db (\<lambda>q.
        answer 201 (AgentRegistrationResponse (he_writer he))
          (register_agent (he_auth he) (he_control he) pr (gq_application_name q) (gq_environment q) (gq_facts q) db)))"

text \<open>The principal of the next two is the agent's (\<open>current_agent\<close>).\<close>

definition heartbeat_route :: "http_env \<Rightarrow> principal \<Rightarrow> json \<Rightarrow> fleet_db \<Rightarrow> handled \<times> fleet_db" where
  "heartbeat_route he pr body db = with_body (AgentHeartbeatRequest (he_reader he) body) db (\<lambda>hb.
     answer 200 (AgentResponse (he_writer he)) (record_heartbeat (he_control he) pr hb db))"

definition get_config_route ::
    "http_env \<Rightarrow> (json \<Rightarrow> str) \<Rightarrow> (json \<Rightarrow> pyfloat option) \<Rightarrow> principal \<Rightarrow> fleet_db \<Rightarrow> handled \<times> fleet_db" where
  "get_config_route he rp fl pr db =
     (case get_agent_configuration rp fl pr db of
        Inl e \<Rightarrow> (Failed e, db)
      | Inr c \<Rightarrow> (case AgentConfigurationResponse (he_writer he) c of
                    None \<Rightarrow> (Failed control_exn.Crash, db) | Some j \<Rightarrow> (Answered 200 (Some j) [], db)))"

definition list_agents_route ::
    "http_env \<Rightarrow> principal \<Rightarrow> int \<Rightarrow> str option \<Rightarrow> str option \<Rightarrow> fleet_db \<Rightarrow> handled \<times> fleet_db" where
  "list_agents_route he pr limit cursor status db = with_body (page_limit he limit) db (\<lambda>n.
     answer 200 (\<lambda>(as, c). PageResponse (he_writer he) n (map (AgentResponse (he_writer he)) as) c)
       (list_agents (he_cursors he) pr n cursor status db, db))"

definition get_agent_route :: "http_env \<Rightarrow> principal \<Rightarrow> uuid \<Rightarrow> fleet_db \<Rightarrow> handled \<times> fleet_db" where
  "get_agent_route he pr i db = answer 200 (AgentResponse (he_writer he)) (get_agent pr i db, db)"

definition update_agent_route :: "http_env \<Rightarrow> principal \<Rightarrow> uuid \<Rightarrow> json \<Rightarrow> fleet_db \<Rightarrow> handled \<times> fleet_db" where
  "update_agent_route he pr i body db = guarded [AGENT_WRITE] pr db
     (with_body (UpdateAgentRequest (he_reader he) body) db (\<lambda>(enabled, pinned_version).
        answer 200 (AgentResponse (he_writer he)) (update_agent (he_control he) pr i enabled pinned_version db)))"

section \<open>Findings (\<open>routers/findings.py\<close>)\<close>

text \<open>The filters of the queue; absent ones are empty.\<close>

definition findings_query_ok :: "finding_query \<Rightarrow> bool" where
  "findings_query_ok q \<longleftrightarrow> length (fq_rule_key q) \<le> 60 \<and> length (fq_environment q) \<le> 20 \<and> length (fq_search q) \<le> 200"

definition list_findings_route ::
    "http_env \<Rightarrow> principal \<Rightarrow> int \<Rightarrow> str option \<Rightarrow> finding_query \<Rightarrow> triage_db \<Rightarrow> handled \<times> triage_db" where
  "list_findings_route he pr limit cursor q db = guarded [FINDING_READ] pr db
     (with_body (if findings_query_ok q then page_limit he limit else None) db (\<lambda>n.
        answer 200 (\<lambda>p. PageResponse (he_writer he) n (map (FindingResponse (he_writer he)) (fp_items p)) (fp_next_cursor p))
          (list_findings (he_cursors he) pr n cursor q db, db)))"

text \<open>\<open>fixed1\<close> writes a score with one digit, \<open>tool_uri\<close> is the address the exporter names.\<close>

definition export_sarif_route ::
    "http_env \<Rightarrow> (rat \<Rightarrow> str) \<Rightarrow> str \<Rightarrow> principal \<Rightarrow> uuid option \<Rightarrow> triage_db \<Rightarrow> handled \<times> triage_db" where
  "export_sarif_route he fixed1 tool_uri pr application_id db = guarded [FINDING_READ] pr db
     (answer 200 id (export_as_sarif (he_cursors he) fixed1 (he_version he) tool_uri pr application_id
                       (tg_tenants db (pr_organization_id pr)), db))"

text \<open>Text bodies are texts here.\<close>

definition export_siem_route ::
    "http_env \<Rightarrow> (datetime \<Rightarrow> int) \<Rightarrow> principal \<Rightarrow> str \<Rightarrow> uuid option \<Rightarrow> triage_db \<Rightarrow> handled \<times> triage_db" where
  "export_siem_route he millis pr fmt application_id db = guarded [FINDING_READ] pr db
     (with_body (if fmt \<in> {''ocsf'', ''cef''} then Some () else None) db (\<lambda>_.
        answer 200 (\<lambda>(payload, media). case payload of Inl j \<Rightarrow> j | Inr t \<Rightarrow> JStr t)
          (export_for_siem (he_cursors he) millis (he_version he) pr fmt application_id (tg_tenants db (pr_organization_id pr)), db)))"

definition bulk_triage_route :: "http_env \<Rightarrow> principal \<Rightarrow> json \<Rightarrow> triage_db \<Rightarrow> handled \<times> triage_db" where
  "bulk_triage_route he pr body db = guarded [FINDING_READ] pr db
     (with_body (BulkTriageRequest (he_reader he) body) db (\<lambda>(finding_ids, d).
        answer 200 (BulkTriageResponse (he_writer he))
          (bulk_triage_findings (he_control he) (he_random he) pr finding_ids d db)))"

text \<open>The demonstration findings come with an occurrence of their own.\<close>

definition DEMO_OCCURRENCE_SQLI :: "uuid \<times> occurrence \<times> datetime option" where
  "DEMO_OCCURRENCE_SQLI =
     (''00000000-0000-0000-0000-000000000011'',
      \<lparr>oc_finding_id = ''00000000-0000-0000-0000-000000000001'', oc_environment = ''PRODUCTION'',
       oc_trace_id = ''py-trace-7254ce20bd3d'', oc_request_method = ''GET'', oc_request_path = ''/api/users/search'',
       oc_route_template = ''/api/users/search'',
       oc_sink_argument = ''SELECT id, username, role FROM users WHERE username = '' @ [CHR 0x27] @ ''admin'' @ [CHR 0x27]
         @ '' OR '' @ [CHR 0x27] @ ''1'' @ [CHR 0x27] @ ''='' @ [CHR 0x27] @ ''1'',
       oc_tainted_ranges = [(46, 17, ''SOURCE_KIND_PARAMETER'', ''name'')],
       oc_stack_frames = [(''tests.vulnerable_app.app'', ''search_users'', 42, True), (''sqlite3.Cursor'', ''execute'', 0, False)],
       oc_remote_address = ''203.0.113.7'', oc_attack_detected = True, oc_observed_at = 0\<rparr>, None)"

definition DEMO_OCCURRENCE_CMD :: "uuid \<times> occurrence \<times> datetime option" where
  "DEMO_OCCURRENCE_CMD =
     (''00000000-0000-0000-0000-000000000012'',
      \<lparr>oc_finding_id = ''00000000-0000-0000-0000-000000000002'', oc_environment = ''PRODUCTION'',
       oc_trace_id = ''py-trace-5c77e70bb729'', oc_request_method = ''GET'', oc_request_path = ''/api/system/ping'',
       oc_route_template = ''/api/system/ping'', oc_sink_argument = ''ping -c 1 127.0.0.1; whoami'',
       oc_tainted_ranges = [(10, 19, ''SOURCE_KIND_PARAMETER'', ''host'')],
       oc_stack_frames = [(''tests.vulnerable_app.app'', ''ping_host'', 75, True), (''subprocess'', ''Popen'', 0, False)],
       oc_remote_address = ''203.0.113.7'', oc_attack_detected = True, oc_observed_at = 0\<rparr>, None)"

text \<open>\<open>row_id\<close> is the id of an occurrence's row.\<close>

definition get_finding_route ::
    "http_env \<Rightarrow> (occurrence \<Rightarrow> uuid) \<Rightarrow> principal \<Rightarrow> uuid \<Rightarrow> triage_db \<Rightarrow> handled \<times> triage_db" where
  "get_finding_route he row_id pr i db = guarded [FINDING_READ] pr db
     (answer 200 (\<lambda>d. case d of
          Stored_detail f ocs cms \<Rightarrow>
            FindingDetailResponse (he_writer he) f (map (\<lambda>oc. (row_id oc, oc, Some (oc_observed_at oc))) ocs) cms
        | Demo_detail f \<Rightarrow>
            FindingDetailResponse (he_writer he) f
              [if f_id f = f_id DEMO_FINDING_SQLI then DEMO_OCCURRENCE_SQLI else DEMO_OCCURRENCE_CMD] [])
       (get_finding pr i db, db))"

definition triage_finding_route :: "http_env \<Rightarrow> principal \<Rightarrow> uuid \<Rightarrow> json \<Rightarrow> triage_db \<Rightarrow> handled \<times> triage_db" where
  "triage_finding_route he pr i body db = guarded [FINDING_READ] pr db
     (with_body (TriageRequest (he_reader he) body) db (\<lambda>d.
        answer 200 (FindingResponse (he_writer he)) (triage_finding (he_control he) (he_random he) pr i d db)))"

definition comment_on_finding_route :: "http_env \<Rightarrow> principal \<Rightarrow> uuid \<Rightarrow> json \<Rightarrow> triage_db \<Rightarrow> handled \<times> triage_db" where
  "comment_on_finding_route he pr i body db = guarded [FINDING_READ] pr db
     (with_body (FindingCommentRequest (he_reader he) body) db (\<lambda>text_body.
        answer 201 (FindingCommentResponse (he_writer he))
          (comment_on_finding (he_control he) (he_random he) pr i text_body db)))"

section \<open>Analyses (\<open>routers/ai.py\<close>)\<close>

text \<open>The model behind the route is the deterministic stand-in.\<close>

definition analyze_finding_route :: "http_env \<Rightarrow> ai_env \<Rightarrow> principal \<Rightarrow> uuid \<Rightarrow> json \<Rightarrow> ai_db \<Rightarrow> handled \<times> ai_db" where
  "analyze_finding_route he env pr i body db = guarded [FINDING_READ] pr db
     (with_body (AnalyzeFindingRequest body) db (\<lambda>kind.
        answer 201 (AiAnalysisResponse (he_writer he)) (analyse_finding (echo_model [] None) env pr i kind db)))"

definition review_analysis_route ::
    "http_env \<Rightarrow> ai_env \<Rightarrow> datetime \<Rightarrow> principal \<Rightarrow> uuid \<Rightarrow> json \<Rightarrow> ai_db \<Rightarrow> handled \<times> ai_db" where
  "review_analysis_route he env payload_now pr i body db = guarded [FINDING_READ] pr db
     (with_body (ReviewAnalysisRequest (he_reader he) body) db (\<lambda>(accept, note).
        answer 200 (AiAnalysisResponse (he_writer he)) (review_analysis env payload_now pr i accept note db)))"

section \<open>Reports and exports (\<open>routers/reporting.py\<close>, \<open>routers/export.py\<close>)\<close>

definition report_json :: "compliance_report \<Rightarrow> json" where
  "report_json r =
     JObj [(''organization_id'', JStr (cr_organization_id r)), (''framework'', JStr (cr_framework r)),
           (''generated_at'', JStr (cr_generated_at r)), (''total_findings_evaluated'', JInt (int (cr_total_findings_evaluated r))),
           (''open_gaps_count'', JInt (int (cr_open_gaps_count r))), (''compliance_score'', JFloat (Fin (cr_compliance_score r))),
           (''control_mappings'', JList (map (\<lambda>m. JObj
              [(''finding_id'', JStr (cy_finding_id m)), (''rule_key'', JStr (cy_rule_key m)), (''severity'', JStr (cy_severity m)),
               (''sink_signature'', JStr (cy_sink_signature m)), (''control'', JStr (cy_control m)), (''status'', JStr (cy_status m))])
              (cr_control_mappings r)))]"

definition compliance_report_route ::
    "http_env \<Rightarrow> (datetime \<Rightarrow> str) \<Rightarrow> principal \<Rightarrow> str \<Rightarrow> str \<Rightarrow> uuid option \<Rightarrow> triage_db \<Rightarrow> handled \<times> triage_db" where
  "compliance_report_route he isoformat pr framework fmt application_id db = guarded [FINDING_READ] pr db
     (with_body (if framework \<in> {''pci_dss'', ''soc_2'', ''iso_27001'', ''nist_800_53'', ''owasp_asvs''} \<and> fmt \<in> {''json'', ''csv''}
                 then Some () else None) db (\<lambda>_.
        answer 200 (\<lambda>(payload, media). case payload of Inl r \<Rightarrow> report_json r | Inr t \<Rightarrow> JStr t)
          (generate_compliance_report (he_cursors he) isoformat (ce_now (he_control he)) pr framework application_id fmt
             (tg_tenants db (pr_organization_id pr)), db)))"

text \<open>The three routes of the second exporter differ in the format only.\<close>

definition export_route ::
    "http_env \<Rightarrow> (rat \<Rightarrow> str) \<Rightarrow> (finding \<Rightarrow> datetime option) \<Rightarrow> principal \<Rightarrow> str \<Rightarrow> uuid option \<Rightarrow> triage_db \<Rightarrow> handled \<times> triage_db" where
  "export_route he float_str created_at pr fmt application_id db =
     answer 200 (\<lambda>(payload, media). case payload of Inl j \<Rightarrow> j | Inr t \<Rightarrow> JStr t)
       (export_findings (he_cursors he) float_str created_at (ce_now (he_control he)) pr fmt application_id
          (tg_tenants db (pr_organization_id pr)), db)"

section \<open>Protection policies and rules (\<open>routers/protection.py\<close>, \<open>routers/rules.py\<close>)\<close>

definition ProtectionPolicyResponse :: "(datetime \<Rightarrow> str) \<Rightarrow> protection_policy \<Rightarrow> json" where
  "ProtectionPolicyResponse isoformat p =
     JObj [(''application_id'', JStr (pp_application_id p)), (''mode'', JStr (mode_value (pp_mode p))),
           (''soak_started_at'', JStr (isoformat (pp_soak_started_at p))), (''would_block_count'', JInt (int (pp_would_block_count p)))]"

definition get_policy_route ::
    "http_env \<Rightarrow> (datetime \<Rightarrow> str) \<Rightarrow> principal \<Rightarrow> uuid \<Rightarrow> fleet_db \<Rightarrow> handled \<times> fleet_db" where
  "get_policy_route he isoformat pr app db =
     answer 200 (ProtectionPolicyResponse isoformat)
       (dom_res (get_policy (ce_fresh (he_control he) 0) (ce_now (he_control he)) pr app), db)"

text \<open>This body is no \<open>Schema\<close>: other fields are ignored. \<open>later\<close> is the second reading of the clock.\<close>

definition UpdateProtectionModeRequest :: "json \<Rightarrow> protection_mode option" where
  "UpdateProtectionModeRequest j = (case j of JObj d \<Rightarrow> required d ''mode'' mode_field | _ \<Rightarrow> None)"

definition update_policy_route ::
    "http_env \<Rightarrow> (datetime \<Rightarrow> str) \<Rightarrow> (int \<Rightarrow> str) \<Rightarrow> datetime \<Rightarrow> principal \<Rightarrow> uuid \<Rightarrow> json \<Rightarrow> fleet_db \<Rightarrow> handled \<times> fleet_db" where
  "update_policy_route he isoformat hours_text later pr app body db = with_body (UpdateProtectionModeRequest body) db (\<lambda>mode.
     answer 200 (ProtectionPolicyResponse isoformat)
       (dom_res (update_policy_mode hours_text (ce_fresh (he_control he) 0) (ce_now (he_control he)) later pr app mode), db))"

definition list_rules_route :: "http_env \<Rightarrow> bundle_codec \<Rightarrow> principal \<Rightarrow> rule_db \<Rightarrow> handled \<times> rule_db" where
  "list_rules_route he bc pr db = guarded [POLICY_READ] pr db
     (answer 200 (\<lambda>vs. JList (map (RuleResponse (he_writer he)) vs)) (list_rules bc (he_control he) pr db, db))"

definition set_rule_enabled_route :: "http_env \<Rightarrow> bundle_codec \<Rightarrow> principal \<Rightarrow> str \<Rightarrow> json \<Rightarrow> rule_db \<Rightarrow> handled \<times> rule_db" where
  "set_rule_enabled_route he bc pr rule_key body db = guarded [POLICY_READ] pr db
     (with_body (RuleToggleRequest (he_reader he) body) db (\<lambda>(enabled, reason).
        answer 200 (RuleResponse (he_writer he)) (set_rule_enabled bc (he_control he) pr rule_key enabled reason db)))"

end
