(* ===== verification/HttpRouteProps.thy ===== *)
theory HttpRouteProps
  imports HttpRoutesFleet
begin

text \<open>
  What the routes guarantee as a table: which permissions each needs, that nothing is served or changed
  without them, and that the guards in front of the use cases agree with what the use cases check.
\<close>

section \<open>The routes as data\<close>

datatype control_route =
    Get_organization | Put_organization json | Get_members int "str option" | Post_invite json | Patch_member uuid json
  | Delete_member uuid | Get_roles | Post_role json | Patch_role uuid json | Delete_role_at uuid
  | Get_keys | Post_key json | Delete_key uuid | Get_audit int "str option" audit_query | Get_verification "int option"

fun control_needs :: "control_route \<Rightarrow> permission list" where
  "control_needs Get_organization = [ORG_READ]"
| "control_needs (Put_organization body) = [ORG_WRITE]"
| "control_needs (Get_members limit cursor) = [ORG_READ]"
| "control_needs (Post_invite body) = [USER_INVITE]"
| "control_needs (Patch_member i body) = [ROLE_WRITE]"
| "control_needs (Delete_member i) = [USER_REMOVE]"
| "control_needs Get_roles = [ORG_READ]"
| "control_needs (Post_role body) = [ROLE_WRITE]"
| "control_needs (Patch_role i body) = [ROLE_WRITE]"
| "control_needs (Delete_role_at i) = [ROLE_WRITE]"
| "control_needs Get_keys = [SETTINGS_WRITE]"
| "control_needs (Post_key body) = [SETTINGS_WRITE]"
| "control_needs (Delete_key i) = [SETTINGS_WRITE]"
| "control_needs (Get_audit limit cursor q) = [AUDIT_READ]"
| "control_needs (Get_verification limit) = [AUDIT_READ]"

fun serve_control :: "http_env \<Rightarrow> (uuid \<Rightarrow> datetime) \<Rightarrow> principal \<Rightarrow> control_route \<Rightarrow> control_db \<Rightarrow> handled \<times> control_db" where
  "serve_control he created pr Get_organization db = get_current_organization_route he pr db"
| "serve_control he created pr (Put_organization body) db = update_current_organization_route he pr body db"
| "serve_control he created pr (Get_members limit cursor) db = list_members_route he created pr limit cursor db"
| "serve_control he created pr (Post_invite body) db = invite_member_route he pr body db"
| "serve_control he created pr (Patch_member i body) db = update_member_route he pr i body db"
| "serve_control he created pr (Delete_member i) db = remove_member_route he pr i db"
| "serve_control he created pr Get_roles db = list_roles_route he pr db"
| "serve_control he created pr (Post_role body) db = create_role_route he pr body db"
| "serve_control he created pr (Patch_role i body) db = update_role_route he pr i body db"
| "serve_control he created pr (Delete_role_at i) db = delete_role_route he pr i db"
| "serve_control he created pr Get_keys db = list_api_keys_route he pr db"
| "serve_control he created pr (Post_key body) db = create_api_key_route he pr body db"
| "serve_control he created pr (Delete_key i) db = revoke_api_key_route he pr i db"
| "serve_control he created pr (Get_audit limit cursor q) db = list_audit_events_route he pr limit cursor q db"
| "serve_control he created pr (Get_verification limit) db = verify_chain_route he pr limit db"

datatype fleet_route =
    Get_applications int "str option" "str option" "str list" | Post_application json | Get_application_at uuid
  | Patch_application uuid json | Delete_application_at uuid | Get_environments uuid | Post_environment uuid json
  | Put_protection uuid json | Post_agent json | Get_agents int "str option" "str option" | Get_agent_at uuid
  | Patch_agent uuid json

fun fleet_needs :: "fleet_route \<Rightarrow> permission list" where
  "fleet_needs (Get_applications limit cursor search tags) = [APP_READ]"
| "fleet_needs (Post_application body) = [APP_WRITE]"
| "fleet_needs (Get_application_at i) = [APP_READ]"
| "fleet_needs (Patch_application i body) = [APP_WRITE]"
| "fleet_needs (Delete_application_at i) = [APP_DELETE]"
| "fleet_needs (Get_environments i) = [APP_READ]"
| "fleet_needs (Post_environment i body) = [APP_WRITE]"
| "fleet_needs (Put_protection i body) = [POLICY_WRITE]"
| "fleet_needs (Post_agent body) = [AGENT_WRITE]"
| "fleet_needs (Get_agents limit cursor status) = [AGENT_READ]"
| "fleet_needs (Get_agent_at i) = [AGENT_READ]"
| "fleet_needs (Patch_agent i body) = [AGENT_WRITE]"

fun serve_fleet :: "http_env \<Rightarrow> principal \<Rightarrow> fleet_route \<Rightarrow> fleet_db \<Rightarrow> handled \<times> fleet_db" where
  "serve_fleet he pr (Get_applications limit cursor search tags) db = list_applications_route he pr limit cursor search tags db"
| "serve_fleet he pr (Post_application body) db = create_application_route he pr body db"
| "serve_fleet he pr (Get_application_at i) db = get_application_route he pr i db"
| "serve_fleet he pr (Patch_application i body) db = update_application_route he pr i body db"
| "serve_fleet he pr (Delete_application_at i) db = delete_application_route he pr i db"
| "serve_fleet he pr (Get_environments i) db = list_environments_route he pr i db"
| "serve_fleet he pr (Post_environment i body) db = create_environment_route he pr i body db"
| "serve_fleet he pr (Put_protection i body) db = set_protection_mode_route he pr i body db"
| "serve_fleet he pr (Post_agent body) db = register_agent_route he pr body db"
| "serve_fleet he pr (Get_agents limit cursor status) db = list_agents_route he pr limit cursor status db"
| "serve_fleet he pr (Get_agent_at i) db = get_agent_route he pr i db"
| "serve_fleet he pr (Patch_agent i body) db = update_agent_route he pr i body db"

text \<open>What a triage needs depends on the status it asks for.\<close>

datatype triage_route =
    Get_findings int "str option" finding_query | Get_sarif "uuid option" | Get_siem str "uuid option" | Get_finding_at uuid
  | Patch_finding uuid json | Post_bulk json | Post_comment uuid json | Get_report str str "uuid option" | Get_export str "uuid option"

fun triage_needs :: "schema_reader \<Rightarrow> triage_route \<Rightarrow> permission list" where
  "triage_needs sr (Patch_finding i body) =
     FINDING_READ # (case TriageRequest sr body of None \<Rightarrow> [] | Some d \<Rightarrow> [triage_permission (dc_status d)])"
| "triage_needs sr (Post_bulk body) =
     FINDING_READ # (case BulkTriageRequest sr body of None \<Rightarrow> [] | Some (is, d) \<Rightarrow> [triage_permission (dc_status d)])"
| "triage_needs sr (Post_comment i body) = [FINDING_READ, FINDING_TRIAGE]"
| "triage_needs sr (Get_report framework fmt i) = [FINDING_READ, REPORT_READ]"
| "triage_needs sr _ = [FINDING_READ]"

record triage_writers =
  tw_fixed1 :: "rat \<Rightarrow> str"
  tw_tool_uri :: str
  tw_millis :: "datetime \<Rightarrow> int"
  tw_row_id :: "occurrence \<Rightarrow> uuid"
  tw_isoformat :: "datetime \<Rightarrow> str"
  tw_float_str :: "rat \<Rightarrow> str"
  tw_created_at :: "finding \<Rightarrow> datetime option"

fun serve_triage :: "http_env \<Rightarrow> triage_writers \<Rightarrow> principal \<Rightarrow> triage_route \<Rightarrow> triage_db \<Rightarrow> handled \<times> triage_db" where
  "serve_triage he tw pr (Get_findings limit cursor q) db = list_findings_route he pr limit cursor q db"
| "serve_triage he tw pr (Get_sarif i) db = export_sarif_route he (tw_fixed1 tw) (tw_tool_uri tw) pr i db"
| "serve_triage he tw pr (Get_siem fmt i) db = export_siem_route he (tw_millis tw) pr fmt i db"
| "serve_triage he tw pr (Get_finding_at i) db = get_finding_route he (tw_row_id tw) pr i db"
| "serve_triage he tw pr (Patch_finding i body) db = triage_finding_route he pr i body db"
| "serve_triage he tw pr (Post_bulk body) db = bulk_triage_route he pr body db"
| "serve_triage he tw pr (Post_comment i body) db = comment_on_finding_route he pr i body db"
| "serve_triage he tw pr (Get_report framework fmt i) db = compliance_report_route he (tw_isoformat tw) pr framework fmt i db"
| "serve_triage he tw pr (Get_export fmt i) db = export_route he (tw_float_str tw) (tw_created_at tw) pr fmt i db"

datatype ai_route = Post_analysis uuid json | Post_review datetime uuid json

fun ai_needs :: "ai_route \<Rightarrow> permission list" where
  "ai_needs (Post_analysis i body) = [FINDING_READ, AI_RUN]"
| "ai_needs (Post_review t i body) = [FINDING_READ, AI_APPROVE]"

fun serve_ai :: "http_env \<Rightarrow> ai_env \<Rightarrow> principal \<Rightarrow> ai_route \<Rightarrow> ai_db \<Rightarrow> handled \<times> ai_db" where
  "serve_ai he env pr (Post_analysis i body) db = analyze_finding_route he env pr i body db"
| "serve_ai he env pr (Post_review t i body) db = review_analysis_route he env t pr i body db"

datatype rule_route = Get_rules | Put_rule str json

fun rule_needs :: "rule_route \<Rightarrow> permission list" where
  "rule_needs Get_rules = [POLICY_READ]"
| "rule_needs (Put_rule key body) = [POLICY_READ, POLICY_WRITE]"

fun serve_rules :: "http_env \<Rightarrow> bundle_codec \<Rightarrow> principal \<Rightarrow> rule_route \<Rightarrow> rule_db \<Rightarrow> handled \<times> rule_db" where
  "serve_rules he bc pr Get_rules db = list_rules_route he bc pr db"
| "serve_rules he bc pr (Put_rule key body) db = set_rule_enabled_route he bc pr key body db"

section \<open>Refusals\<close>

definition denied :: "permission \<Rightarrow> control_exn" where
  "denied p = Domain (PermissionDeniedError (Some (permission_value p)))"

text \<open>Without its permissions a route answers that one of them is missing, or that the request is malformed, and changes nothing.\<close>

definition gated :: "permission list \<Rightarrow> principal \<Rightarrow> 'd \<Rightarrow> handled \<times> 'd \<Rightarrow> bool" where
  "gated ps pr db out \<longleftrightarrow> set ps \<subseteq> pr_permissions pr
     \<or> snd out = db \<and> (fst out = Unprocessable \<or> (\<exists>p \<in> set ps. p \<notin> pr_permissions pr \<and> fst out = Failed (denied p)))"

named_theorems refused

lemma require_refused: "p \<notin> pr_permissions pr \<Longrightarrow> dom_res (require p pr) = Inl (denied p)"
  by (simp add: require_def raise_if_def dom_res_def denied_def)

lemma gated_answer:
  assumes "p \<notin> pr_permissions pr \<Longrightarrow> out = (Inl (denied p), db)" "p \<in> set ps" "set ps \<subseteq> insert p (pr_permissions pr)"
  shows "gated ps pr db (answer status body out)" "gated ps pr db (no_content out)"
proof -
  show "gated ps pr db (answer status body out)"
    using assms by (cases "p \<in> pr_permissions pr") (auto simp: gated_def answer_def)
  show "gated ps pr db (no_content out)"
    using assms by (cases "p \<in> pr_permissions pr") (auto simp: gated_def no_content_def)
qed

lemma gated_body: "(\<And>x. parsed = Some x \<Longrightarrow> gated ps pr db (handle x)) \<Longrightarrow> gated ps pr db (with_body parsed db handle)"
  by (cases parsed) (auto simp: with_body_def gated_def)

lemma gated_guard:
  assumes "p \<in> set ps" "p \<in> pr_permissions pr \<Longrightarrow> gated ps pr db handle"
  shows "gated ps pr db (guarded [p] pr db handle)"
  using assms by (cases "p \<in> pr_permissions pr") (auto simp: guarded_def gated_def require_def raise_if_def res_bind_def denied_def)

lemma control_refused [refused]:
  "ORG_READ \<notin> pr_permissions pr \<Longrightarrow> get_organization pr db = Inl (denied ORG_READ)"
  "ORG_WRITE \<notin> pr_permissions pr \<Longrightarrow> update_organization env pr n2 st2 db = (Inl (denied ORG_WRITE), db)"
  "ORG_READ \<notin> pr_permissions pr \<Longrightarrow> list_members cu created3 pr limit3 cursor3 db = Inl (denied ORG_READ)"
  "USER_INVITE \<notin> pr_permissions pr \<Longrightarrow> invite_member env pr e4 f4 rs4 db = (Inl (denied USER_INVITE), db)"
  "ROLE_WRITE \<notin> pr_permissions pr \<Longrightarrow> update_member_roles env pr i5 rs5 db = (Inl (denied ROLE_WRITE), db)"
  "USER_REMOVE \<notin> pr_permissions pr \<Longrightarrow> remove_member env pr i6 db = (Inl (denied USER_REMOVE), db)"
  "ORG_READ \<notin> pr_permissions pr \<Longrightarrow> list_roles pr db = Inl (denied ORG_READ)"
  "ROLE_WRITE \<notin> pr_permissions pr \<Longrightarrow> create_role env pr n8 d8 ps8 db = (Inl (denied ROLE_WRITE), db)"
  "ROLE_WRITE \<notin> pr_permissions pr \<Longrightarrow> update_role env pr i9 n9 d9 ps9 db = (Inl (denied ROLE_WRITE), db)"
  "ROLE_WRITE \<notin> pr_permissions pr \<Longrightarrow> delete_role env pr i10 db = (Inl (denied ROLE_WRITE), db)"
  "SETTINGS_WRITE \<notin> pr_permissions pr \<Longrightarrow> list_api_keys pr db = Inl (denied SETTINGS_WRITE)"
  "SETTINGS_WRITE \<notin> pr_permissions pr \<Longrightarrow> create_api_key deps env choice12 pr n12 ps12 x12 db = (Inl (denied SETTINGS_WRITE), db)"
  "SETTINGS_WRITE \<notin> pr_permissions pr \<Longrightarrow> revoke_api_key env pr i13 db = (Inl (denied SETTINGS_WRITE), db)"
  "AUDIT_READ \<notin> pr_permissions pr \<Longrightarrow> list_audit_events cu env pr limit14 cursor14 q14 db = (Inl (denied AUDIT_READ), db)"
  "AUDIT_READ \<notin> pr_permissions pr \<Longrightarrow> verify_audit_chain env pr n15 db = Inl (denied AUDIT_READ)"
  by (simp_all add: get_organization_def update_organization_def list_members_def invite_member_def update_member_roles_def remove_member_def list_roles_def create_role_def update_role_def delete_role_def list_api_keys_def create_api_key_def revoke_api_key_def list_audit_events_def verify_audit_chain_def
     in_transaction_def res_bind_def require_refused Let_def)

lemma fleet_refused [refused]:
  "APP_READ \<notin> pr_permissions pr \<Longrightarrow> list_applications cu pr limit16 cursor16 q16 tags16 fdb = Inl (denied APP_READ)"
  "APP_WRITE \<notin> pr_permissions pr \<Longrightarrow> create_application env mt17 pr n17 l17 c17 ts17 u17 d17 es17 fdb = (Inl (denied APP_WRITE), fdb)"
  "APP_READ \<notin> pr_permissions pr \<Longrightarrow> get_application pr i18 fdb = Inl (denied APP_READ)"
  "APP_WRITE \<notin> pr_permissions pr \<Longrightarrow> update_application env mt19 pr i19 n19 c19 ts19 u19 d19 fdb = (Inl (denied APP_WRITE), fdb)"
  "APP_DELETE \<notin> pr_permissions pr \<Longrightarrow> delete_application env pr i20 fdb = (Inl (denied APP_DELETE), fdb)"
  "APP_READ \<notin> pr_permissions pr \<Longrightarrow> list_environments pr i21 fdb = Inl (denied APP_READ)"
  "APP_WRITE \<notin> pr_permissions pr \<Longrightarrow> create_environment env pr i22 k22 f22 fdb = (Inl (denied APP_WRITE), fdb)"
  "POLICY_WRITE \<notin> pr_permissions pr \<Longrightarrow> change_protection_mode env pr i23 m23 fdb = (Inl (denied POLICY_WRITE), fdb)"
  "AGENT_WRITE \<notin> pr_permissions pr \<Longrightarrow> register_agent deps env pr n24 k24 facts24 fdb = (Inl (denied AGENT_WRITE), fdb)"
  "AGENT_READ \<notin> pr_permissions pr \<Longrightarrow> list_agents cu pr limit25 cursor25 st25 fdb = Inl (denied AGENT_READ)"
  "AGENT_READ \<notin> pr_permissions pr \<Longrightarrow> get_agent pr i26 fdb = Inl (denied AGENT_READ)"
  "AGENT_WRITE \<notin> pr_permissions pr \<Longrightarrow> update_agent env pr i27 en27 v27 fdb = (Inl (denied AGENT_WRITE), fdb)"
  by (simp_all add: list_applications_def create_application_def get_application_def update_application_def delete_application_def list_environments_def create_environment_def change_protection_mode_def register_agent_def list_agents_def get_agent_def update_agent_def
     in_transaction_def res_bind_def require_refused Let_def)

lemma triage_refused [refused]:
  "FINDING_READ \<notin> pr_permissions pr \<Longrightarrow> list_findings cu pr limit28 cursor28 q28 tdb = Inl (denied FINDING_READ)"
  "FINDING_READ \<notin> pr_permissions pr \<Longrightarrow> get_finding pr i29 tdb = Inl (denied FINDING_READ)"
  "FINDING_READ \<notin> pr_permissions pr \<Longrightarrow> export_as_sarif cu fx30 v30 u30 pr i30 tndb = Inl (denied FINDING_READ)"
  "FINDING_READ \<notin> pr_permissions pr \<Longrightarrow> export_for_siem cu ms31 v31 pr fmt31 i31 tndb = Inl (denied FINDING_READ)"
  "FINDING_READ \<notin> pr_permissions pr \<Longrightarrow> export_findings cu fs32 ca32 now32 pr fmt32 i32 tndb = Inl (denied FINDING_READ)"
  "REPORT_READ \<notin> pr_permissions pr \<Longrightarrow> generate_compliance_report cu iso33 now33 pr fw33 i33 fmt33 tndb = Inl (denied REPORT_READ)"
  "triage_permission (dc_status d34) \<notin> pr_permissions pr \<Longrightarrow> triage_finding env random34 pr i34 d34 tdb = (Inl (denied (triage_permission (dc_status d34))), tdb)"
  "triage_permission (dc_status d35) \<notin> pr_permissions pr \<Longrightarrow> bulk_triage_findings env random35 pr is35 d35 tdb = (Inl (denied (triage_permission (dc_status d35))), tdb)"
  "FINDING_TRIAGE \<notin> pr_permissions pr \<Longrightarrow> comment_on_finding env random36 pr i36 b36 tdb = (Inl (denied FINDING_TRIAGE), tdb)"
  by (simp_all add: list_findings_def get_finding_def export_as_sarif_def export_for_siem_def export_findings_def generate_compliance_report_def triage_finding_def bulk_triage_findings_def comment_on_finding_def
     in_transaction_def res_bind_def require_refused Let_def)

lemma ai_refused [refused]:
  "AI_RUN \<notin> pr_permissions pr \<Longrightarrow> analyse_finding model37 aenv37 pr i37 k37 adb = (Inl (denied AI_RUN), adb)"
  "AI_APPROVE \<notin> pr_permissions pr \<Longrightarrow> review_analysis aenv38 t38 pr i38 acc38 note38 adb = (Inl (denied AI_APPROVE), adb)"
  by (simp_all add: analyse_finding_def review_analysis_def
     in_transaction_def res_bind_def require_refused Let_def)

lemma rule_refused [refused]:
  "POLICY_READ \<notin> pr_permissions pr \<Longrightarrow> list_rules bc39 env pr rdb = Inl (denied POLICY_READ)"
  "POLICY_WRITE \<notin> pr_permissions pr \<Longrightarrow> set_rule_enabled bc40 env pr k40 en40 why40 rdb = (Inl (denied POLICY_WRITE), rdb)"
  by (simp_all add: list_rules_def set_rule_enabled_def
     in_transaction_def res_bind_def require_refused Let_def)

section \<open>Every route is gated\<close>

lemmas gated_last = gated_answer [of p _ _ _ "[p]" for p, simplified]

lemma gated_second:
  assumes "q \<in> pr_permissions pr" "p \<notin> pr_permissions pr \<Longrightarrow> out = (Inl (denied p), db)"
  shows "gated [q, p] pr db (answer status body out)" "gated [q, p] pr db (no_content out)"
  using gated_answer [of p pr out db "[q, p]"] assms by auto

lemmas control_routes = get_current_organization_route_def update_current_organization_route_def list_members_route_def
  invite_member_route_def update_member_route_def remove_member_route_def list_roles_route_def create_role_route_def
  update_role_route_def delete_role_route_def list_api_keys_route_def create_api_key_route_def revoke_api_key_route_def
  list_audit_events_route_def verify_chain_route_def

lemma control_gated: "gated (control_needs r) pr db (serve_control he created pr r db)"
  by (cases r) (auto simp: control_routes refused intro!: gated_guard gated_body gated_last)

lemmas fleet_routes = list_applications_route_def create_application_route_def get_application_route_def
  update_application_route_def delete_application_route_def list_environments_route_def create_environment_route_def
  set_protection_mode_route_def register_agent_route_def list_agents_route_def get_agent_route_def update_agent_route_def

lemma fleet_gated: "gated (fleet_needs r) pr db (serve_fleet he pr r db)"
  by (cases r) (auto simp: fleet_routes refused intro!: gated_guard gated_body gated_last)

lemmas triage_routes = list_findings_route_def export_sarif_route_def export_siem_route_def get_finding_route_def
  triage_finding_route_def bulk_triage_route_def comment_on_finding_route_def compliance_report_route_def export_route_def

lemma triage_gated: "gated (triage_needs (he_reader he) r) pr db (serve_triage he tw pr r db)"
  by (cases r) (auto simp: triage_routes refused intro!: gated_guard gated_body gated_last gated_second split: option.splits)

lemma ai_gated: "gated (ai_needs r) pr db (serve_ai he env pr r db)"
  by (cases r) (auto simp: analyze_finding_route_def review_analysis_route_def refused intro!: gated_guard gated_body gated_second)

lemma rule_gated: "gated (rule_needs r) pr db (serve_rules he bc pr r db)"
  by (cases r) (auto simp: list_rules_route_def set_rule_enabled_route_def refused intro!: gated_guard gated_body gated_last gated_second)

section \<open>From a credential to an answer\<close>

text \<open>A request that reached its route: the credential is resolved first, then the route runs.\<close>

definition as_principal :: "http_env \<Rightarrow> str \<Rightarrow> http_request \<Rightarrow> control_db \<Rightarrow> (control_db \<Rightarrow> 'd)
    \<Rightarrow> (principal \<Rightarrow> 'd \<Rightarrow> handled \<times> 'd) \<Rightarrow> handled \<times> 'd" where
  "as_principal he fresh q core with_core serve =
     (case current_principal (he_deployment he) (he_auth he) (he_control he) fresh q core of
        (Inl e, core1) \<Rightarrow> (Failed e, with_core core1)
      | (Inr pr, core1) \<Rightarrow> serve pr (with_core core1))"

definition handle_control where
  "handle_control he created fresh q r db = as_principal he fresh q db id (\<lambda>pr. serve_control he created pr r)"

definition handle_fleet where
  "handle_fleet he fresh q r db = as_principal he fresh q (fd_core db) (\<lambda>c. db\<lparr>fd_core := c\<rparr>) (\<lambda>pr. serve_fleet he pr r)"

definition handle_triage where
  "handle_triage he tw fresh q r db =
     as_principal he fresh q (tg_core db) (\<lambda>c. db\<lparr>tg_core := c\<rparr>) (\<lambda>pr. serve_triage he tw pr r)"

definition handle_ai where
  "handle_ai he env fresh q r db = as_principal he fresh q (tg_core (ai_triage db))
     (\<lambda>c. db\<lparr>ai_triage := (ai_triage db)\<lparr>tg_core := c\<rparr>\<rparr>) (\<lambda>pr. serve_ai he env pr r)"

definition handle_rules where
  "handle_rules he bc fresh q r db =
     as_principal he fresh q (rd_core db) (\<lambda>c. db\<lparr>rd_core := c\<rparr>) (\<lambda>pr. serve_rules he bc pr r)"

text \<open>The request's own credential resolves to somebody who has these permissions now, by the tables.\<close>

definition permitted_now :: "http_env \<Rightarrow> str \<Rightarrow> http_request \<Rightarrow> control_db \<Rightarrow> permission list \<Rightarrow> bool" where
  "permitted_now he fresh q core ps \<longleftrightarrow>
     (\<exists>pr core1. current_principal (he_deployment he) (he_auth he) (he_control he) fresh q core = (Inr pr, core1) \<and>
        (user_principal_of (he_control he) core pr \<or> key_principal_of (he_control he) core pr) \<and> set ps \<subseteq> pr_permissions pr)"

lemma answered_by_permission:
  assumes "he_deployment he \<noteq> ENV_LOCAL" "as_principal he fresh q core with_core serve = (Answered st b cks, db')"
    and "\<And>pr db. gated ps pr db (serve pr db)"
  shows "permitted_now he fresh q core ps"
proof -
  obtain pr core1 where pr: "current_principal (he_deployment he) (he_auth he) (he_control he) fresh q core = (Inr pr, core1)"
      "serve pr (with_core core1) = (Answered st b cks, db')"
    using assms(2) by (auto simp: as_principal_def split: prod.splits sum.splits)
  have "set ps \<subseteq> pr_permissions pr" using assms(3) [of pr "with_core core1"] pr(2) by (auto simp: gated_def)
  then show ?thesis using resolved_principal [OF assms(1) pr(1)] pr(1) unfolding permitted_now_def by blast
qed


definition sample_http :: http_env where
  "sample_http = \<lparr>he_reader = \<lparr>sr_trim = id, sr_int = (\<lambda>j. None), sr_bool = (\<lambda>j. None), sr_float = (\<lambda>j. None), sr_uuid = (\<lambda>j. None),
        sr_email = Some\<rparr>,
      he_writer = \<lparr>wt_trim = id, wt_time = (\<lambda>t. ''t'')\<rparr>, he_control = sample_control_env ''x'', he_auth = door_deps,
      he_mfa = mfa_sample_deps, he_cursors = page_env, he_choice = (\<lambda>n. CHR ''x''), he_random = (\<lambda>n. ''x''),
      he_deployment = ENV_PRODUCTION, he_allow_signup = False, he_refresh_ttl_seconds = 60, he_max_page_size = 100,
      he_max_tags = 10, he_version = ''1''\<rparr>"


end
