(* ===== verification/HttpBodies.thy ===== *)
theory HttpBodies
  imports HttpSchemas
begin

text \<open>
  The two layers that check what a client sends agree: what a schema accepts the entities take whole,
  without refusing it for its shape and without cutting it.
\<close>

section \<open>Texts both layers trim alike\<close>

text \<open>
  \<open>strip()\<close> takes the separators 28 to 31 for white space, pydantic's trim does not. Beside them the two
  agree on ASCII.
\<close>

definition plain_text :: "str \<Rightarrow> bool" where
  "plain_text s \<longleftrightarrow> (\<forall>c \<in> set s. (of_char c :: nat) < 128 \<and> of_char c \<notin> {28 .. 31 :: nat})"

definition plain_body :: "json \<Rightarrow> bool" where
  "plain_body j = (case j of JObj d \<Rightarrow> (\<forall>(k, v) \<in> set d. case v of JStr s \<Rightarrow> plain_text s | _ \<Rightarrow> True) | _ \<Rightarrow> True)"

definition trims_plain_texts :: "schema_reader \<Rightarrow> bool" where
  "trims_plain_texts sr \<longleftrightarrow> (\<forall>s. plain_text s \<longrightarrow> sr_trim sr s = strip s)"

text \<open>A text as the entities want it: nothing to strip, nothing to cut.\<close>

definition kept :: "nat \<Rightarrow> nat \<Rightarrow> str \<Rightarrow> bool" where
  "kept lo hi t \<longleftrightarrow> strip t = t \<and> lo \<le> length t \<and> length t \<le> hi"

lemma keptD: "kept lo hi t \<Longrightarrow> strip t = t" "kept lo hi t \<Longrightarrow> take hi t = t" "kept (Suc lo) hi t \<Longrightarrow> t \<noteq> []"
    "kept lo hi t \<Longrightarrow> length t \<le> hi" "kept lo hi t \<Longrightarrow> lo \<le> length t"
  by (auto simp: kept_def)

lemma kept_Nil [simp]: "kept 0 hi []"
  by (simp add: kept_def)

definition read_plainly :: "schema_reader \<Rightarrow> json \<Rightarrow> bool" where
  "read_plainly sr j \<longleftrightarrow> trims_plain_texts sr \<and> plain_body j"

lemma field_kept:
  assumes "read_plainly sr (JObj d)" "dget d k = Some v" "text_field sr lo (Some hi) v = Some t"
  shows "kept lo hi t"
proof -
  obtain s where s: "v = JStr s" "t = sr_trim sr s" "lo \<le> length t" "length t \<le> hi"
    using text_field_Some [OF assms(3)] by auto
  have "(k, v) \<in> set d" using assms(2) by (simp add: dget_def map_of_SomeD)
  then have "plain_text s" using assms(1) s(1) by (fastforce simp: read_plainly_def plain_body_def)
  then show ?thesis using assms(1) s by (simp add: read_plainly_def trims_plain_texts_def kept_def)
qed

lemma required_kept: "required d k (text_field sr lo (Some hi)) = Some t \<Longrightarrow> read_plainly sr (JObj d) \<Longrightarrow> kept lo hi t"
  by (auto simp: required_Some intro: field_kept)

lemma optional_kept:
  "optional d k e (text_field sr lo (Some hi)) = Some t \<Longrightarrow> read_plainly sr (JObj d) \<Longrightarrow> kept lo hi e \<Longrightarrow> kept lo hi t"
  by (auto simp: optional_Some intro: field_kept)

lemma nullable_kept:
  "optional d k None (nullable (text_field sr lo (Some hi))) = Some (Some t) \<Longrightarrow> read_plainly sr (JObj d) \<Longrightarrow> kept lo hi t"
  by (auto simp: optional_Some nullable_def intro: field_kept split: if_splits)

lemmas body_fields = bind_eq_Some_conv required_kept optional_kept nullable_kept

section \<open>One lemma for each body\<close>

lemma role_body_kept:
  assumes "read_plainly sr j" "CreateRoleRequest sr j = Some q"
  shows "new_role i org (oq_name q) ps (oq_description q) sys
       = Inr \<lparr>ro_id = i, ro_organization_id = org, ro_name = oq_name q, ro_permissions = ps,
              ro_description = oq_description q, ro_is_system = sys\<rparr>"
    "oq_permissions q \<noteq> []"
proof -
  have "kept 1 80 (oq_name q) \<and> oq_permissions q \<noteq> []"
    using assms(1) schema_Some [OF assms(2) [unfolded CreateRoleRequest_def]]
    by (auto simp: bind_eq_Some_conv required_Some [of _ "''permissions''"] dest!: required_kept [of _ "''name''"] list_field_Some)
  then show "new_role i org (oq_name q) ps (oq_description q) sys
       = Inr \<lparr>ro_id = i, ro_organization_id = org, ro_name = oq_name q, ro_permissions = ps,
              ro_description = oq_description q, ro_is_system = sys\<rparr>" "oq_permissions q \<noteq> []"
    by (auto simp: new_role_def kept_def Let_def)
qed

lemma role_changes_kept:
  assumes "read_plainly sr j" "UpdateRoleRequest sr j = Some (name, description, ps)" "\<not> ro_is_system r"
  shows "role_update name description None r
       = Inr (r\<lparr>ro_name := (case name of None \<Rightarrow> ro_name r | Some n \<Rightarrow> n),
                ro_description := (case description of None \<Rightarrow> ro_description r | Some t \<Rightarrow> t)\<rparr>)"
proof -
  have "(\<forall>n. name = Some n \<longrightarrow> kept 1 80 n) \<and> (\<forall>t. description = Some t \<longrightarrow> kept 0 500 t)"
    using assms(1) schema_Some [OF assms(2) [unfolded UpdateRoleRequest_def]]
    by (auto simp: bind_eq_Some_conv dest: nullable_kept)
  then show ?thesis using assms(3)
    by (auto simp: role_update_def assert_mutable_def raise_if_def kept_def Let_def split: option.splits)
qed

lemma organization_changes_kept:
  assumes "read_plainly sr j" "UpdateOrganizationRequest sr j = Some (Some name, settings)"
  shows "organization_rename name o1 = Inr (o1\<lparr>og_name := name\<rparr>)" "length name \<le> 200"
proof -
  have "kept 1 200 name"
    using assms(1) schema_Some [OF assms(2) [unfolded UpdateOrganizationRequest_def]]
    by (auto simp: bind_eq_Some_conv dest: nullable_kept)
  then show "organization_rename name o1 = Inr (o1\<lparr>og_name := name\<rparr>)" "length name \<le> 200"
    by (auto simp: organization_rename_def kept_def Let_def)
qed

lemma registration_body_kept:
  assumes "read_plainly sr j" "RegisterRequest sr j = Some q"
  shows "map_sum id og_name (new_organization i (strip (rq_organization_name q)) sl) = Inr (rq_organization_name q)"
    "us_full_name (new_user i email pw (rq_full_name q) st t) = rq_full_name q"
    "kept 8 256 (rq_password q)"
proof -
  have "kept 1 200 (rq_organization_name q) \<and> kept 0 200 (rq_full_name q) \<and> kept 8 256 (rq_password q)"
    using assms(1) schema_Some [OF assms(2) [unfolded RegisterRequest_def]]
    by (auto simp: bind_eq_Some_conv password_field_def dest: required_kept optional_kept)
  then show "map_sum id og_name (new_organization i (strip (rq_organization_name q)) sl) = Inr (rq_organization_name q)"
    "us_full_name (new_user i email pw (rq_full_name q) st t) = rq_full_name q" "kept 8 256 (rq_password q)"
    by (auto simp: new_organization_def new_user_def kept_def Let_def)
qed

lemma invitation_body_kept:
  assumes "read_plainly sr j" "InviteMemberRequest sr j = Some q"
  shows "us_full_name (new_user i email pw (iq_full_name q) st t) = iq_full_name q" "iq_role_ids q \<noteq> []"
proof -
  have "kept 0 200 (iq_full_name q) \<and> iq_role_ids q \<noteq> []"
    using assms(1) schema_Some [OF assms(2) [unfolded InviteMemberRequest_def]]
    by (auto simp: bind_eq_Some_conv required_Some [of _ "''role_ids''"] dest!: optional_kept list_field_Some)
  then show "us_full_name (new_user i email pw (iq_full_name q) st t) = iq_full_name q" "iq_role_ids q \<noteq> []"
    by (auto simp: new_user_def kept_def)
qed

lemma key_body_kept:
  assumes "read_plainly sr j" "CreateApiKeyRequest sr j = Some q"
  shows "map_sum id ak_name (new_api_key i org (kq_name q) pfx h ps u e t) = Inr (kq_name q)"
    "kq_permissions q \<noteq> []" "\<forall>n. kq_expires_in_days q = Some n \<longrightarrow> 1 \<le> n \<and> n \<le> MAX_TTL_DAYS"
proof -
  have "kept 1 120 (kq_name q) \<and> kq_permissions q \<noteq> [] \<and> (\<forall>n. kq_expires_in_days q = Some n \<longrightarrow> 1 \<le> n \<and> n \<le> MAX_TTL_DAYS)"
    using assms(1) schema_Some [OF assms(2) [unfolded CreateApiKeyRequest_def]]
    by (auto simp: bind_eq_Some_conv required_Some [of _ "''permissions''"] optional_Some MAX_TTL_DAYS_def
        dest!: required_kept [of _ "''name''"] list_field_Some nullable_ranged)
  then show "map_sum id ak_name (new_api_key i org (kq_name q) pfx h ps u e t) = Inr (kq_name q)"
    "kq_permissions q \<noteq> []" "\<forall>n. kq_expires_in_days q = Some n \<longrightarrow> 1 \<le> n \<and> n \<le> MAX_TTL_DAYS"
    by (auto simp: new_api_key_def kept_def)
qed

lemma application_body_kept:
  assumes "read_plainly sr j" "CreateApplicationRequest sr j = Some q"
  shows "map_sum id (\<lambda>a. (ap_name a, ap_description a)) (new_application i org (pq_name q) sl lang crit ts url (pq_description q))
       = Inr (pq_name q, pq_description q)"
    "\<forall>u. pq_repository_url q = Some u \<longrightarrow> kept 0 500 u" "length (pq_tags q) \<le> 20"
proof -
  have "kept 1 120 (pq_name q) \<and> kept 0 1000 (pq_description q) \<and> (\<forall>u. pq_repository_url q = Some u \<longrightarrow> kept 0 500 u)
      \<and> length (pq_tags q) \<le> 20"
    using assms(1) schema_Some [OF assms(2) [unfolded CreateApplicationRequest_def]]
    by (auto simp: bind_eq_Some_conv optional_Some [of _ "''tags''"]
        dest!: required_kept [of _ "''name''"] optional_kept [of _ "''description''"] nullable_kept list_field_Some)
  then show "map_sum id (\<lambda>a. (ap_name a, ap_description a)) (new_application i org (pq_name q) sl lang crit ts url (pq_description q))
       = Inr (pq_name q, pq_description q)"
    "\<forall>u. pq_repository_url q = Some u \<longrightarrow> kept 0 500 u" "length (pq_tags q) \<le> 20"
    by (auto simp: new_application_def kept_def Let_def)
qed

text \<open>An empty address clears the one there is.\<close>

lemma application_changes_kept:
  assumes "read_plainly sr j" "UpdateApplicationRequest sr j = Some q"
  shows "application_update (uq_name q) crit None (uq_repository_url q) (uq_description q) m a0
       = Inr (let a1 = (case uq_name q of None \<Rightarrow> a0 | Some n \<Rightarrow> a0\<lparr>ap_name := n\<rparr>);
                  a2 = (case crit of None \<Rightarrow> a1 | Some c \<Rightarrow> a1\<lparr>ap_criticality := c\<rparr>);
                  a3 = (case uq_repository_url q of None \<Rightarrow> a2 | Some u \<Rightarrow> a2\<lparr>ap_repository_url := if u = [] then None else Some u\<rparr>)
              in case uq_description q of None \<Rightarrow> a3 | Some t \<Rightarrow> a3\<lparr>ap_description := t\<rparr>)"
proof -
  have "(\<forall>n. uq_name q = Some n \<longrightarrow> kept 1 120 n) \<and> (\<forall>u. uq_repository_url q = Some u \<longrightarrow> kept 0 500 u)
      \<and> (\<forall>t. uq_description q = Some t \<longrightarrow> kept 0 1000 t)"
    using assms(1) schema_Some [OF assms(2) [unfolded UpdateApplicationRequest_def]]
    by (auto simp: bind_eq_Some_conv dest: nullable_kept)
  then show ?thesis
    by (cases "uq_name q"; cases "uq_repository_url q"; cases "uq_description q")
       (auto simp: application_update_def trimmed_or_none_def kept_def Let_def)
qed

lemma agent_body_kept:
  assumes "read_plainly sr j" "AgentRegisterRequest sr j = Some q"
  shows "map_sum id (\<lambda>a. (ag_fingerprint a, ag_hostname a))
         (new_agent i org e (strip (af_fingerprint (gq_facts q))) (af_hostname (gq_facts q)) v rv lang cv t)
       = Inr (af_fingerprint (gq_facts q), if af_hostname (gq_facts q) = [] then ''unknown'' else af_hostname (gq_facts q))"
    "strip (af_fingerprint (gq_facts q)) \<noteq> []" "kept 1 120 (gq_application_name q)"
proof -
  have "kept 0 255 ''unknown''" by (simp add: kept_def) code_simp
  then have "kept 8 128 (af_fingerprint (gq_facts q)) \<and> kept 0 255 (af_hostname (gq_facts q)) \<and> kept 1 120 (gq_application_name q)"
    using assms(1) schema_Some [OF assms(2) [unfolded AgentRegisterRequest_def]]
    by (auto simp: bind_eq_Some_conv dest: required_kept optional_kept)
  then show "map_sum id (\<lambda>a. (ag_fingerprint a, ag_hostname a))
         (new_agent i org e (strip (af_fingerprint (gq_facts q))) (af_hostname (gq_facts q)) v rv lang cv t)
       = Inr (af_fingerprint (gq_facts q), if af_hostname (gq_facts q) = [] then ''unknown'' else af_hostname (gq_facts q))"
    "strip (af_fingerprint (gq_facts q)) \<noteq> []" "kept 1 120 (gq_application_name q)"
    by (auto simp: new_agent_def kept_def Let_def)
qed

text \<open>The period is of days \<open>timedelta\<close> takes, and the note is what the comment on the finding will say.\<close>

definition decision_kept :: "decision \<Rightarrow> bool" where
  "decision_kept d \<longleftrightarrow> kept 0 2000 (dc_note d) \<and> take 4000 (dc_note d) = dc_note d
     \<and> accepted_for d = Inr (map_option days (dc_accepted_for_days d))"

lemma decision_keptI:
  "kept 0 2000 (dc_note d) \<Longrightarrow> (\<forall>n. dc_accepted_for_days d = Some n \<longrightarrow> 1 \<le> n \<and> n \<le> 365) \<Longrightarrow> decision_kept d"
  by (auto simp: decision_kept_def kept_def accepted_for_def split: option.splits)

lemma days_choice_Some: "optional d k None (days_choice sr) = Some (Some n) \<Longrightarrow> 1 \<le> n \<and> n \<le> 365"
  unfolding days_choice_def by (auto simp: optional_Some dest!: nullable_ranged)

lemma triage_body_kept: "read_plainly sr j \<Longrightarrow> TriageRequest sr j = Some d \<Longrightarrow> decision_kept d"
  unfolding TriageRequest_def
  by (drule schema_Some) (auto simp: bind_eq_Some_conv intro!: decision_keptI dest: optional_kept days_choice_Some)

lemma bulk_body_kept:
  assumes "read_plainly sr j" "BulkTriageRequest sr j = Some (is, d)"
  shows "decision_kept d" "is \<noteq> []" "length is \<le> MAX_BATCH"
  using assms(1) schema_Some [OF assms(2) [unfolded BulkTriageRequest_def]]
  by (auto simp: bind_eq_Some_conv required_Some [of _ "''finding_ids''"] MAX_BATCH_def
      intro!: decision_keptI dest: optional_kept days_choice_Some dest!: list_field_Some)

lemma comment_body_kept:
  assumes "read_plainly sr j" "FindingCommentRequest sr j = Some b"
  shows "strip b \<noteq> []" "take 4000 (strip b) = b"
proof -
  have "kept 1 4000 b"
    using assms(1) schema_Some [OF assms(2) [unfolded FindingCommentRequest_def]] by (auto dest: required_kept)
  then show "strip b \<noteq> []" "take 4000 (strip b) = b" by (auto simp: kept_def)
qed

lemma toggle_body_kept:
  assumes "read_plainly sr j" "RuleToggleRequest sr j = Some (on, why)"
  shows "take 500 (strip why) = why"
proof -
  have "kept 0 500 why"
    using assms(1) schema_Some [OF assms(2) [unfolded RuleToggleRequest_def]]
    by (auto simp: bind_eq_Some_conv dest: optional_kept)
  then show ?thesis by (simp add: kept_def)
qed

section \<open>The two layers agree\<close>

lemmas bodies_kept = role_body_kept role_changes_kept organization_changes_kept registration_body_kept invitation_body_kept
  key_body_kept application_body_kept application_changes_kept agent_body_kept triage_body_kept bulk_body_kept
  comment_body_kept toggle_body_kept


definition plain_reader :: schema_reader where
  "plain_reader = \<lparr>sr_trim = strip, sr_int = (\<lambda>j. None), sr_bool = (\<lambda>j. None), sr_float = (\<lambda>j. None),
     sr_uuid = (\<lambda>j. None), sr_email = Some\<rparr>"

definition role_body :: json where
  "role_body = JObj [(''name'', JStr '' ops ''), (''permissions'', JList [JStr ''org:read''])]"


text \<open>A text of separators is where they part: the schema accepts it, and the entity strips it to nothing.\<close>

definition unicode_trim :: "str \<Rightarrow> str" where
  "unicode_trim = strip_by (\<lambda>c. c = CHR 0x20 \<or> CHR 0x09 \<le> c \<and> c \<le> CHR 0x0D)"

lemma separators_pass_the_schema_only:
  "text_field (plain_reader\<lparr>sr_trim := unicode_trim\<rparr>) 1 (Some 80) (JStr [CHR 0x1C]) = Some [CHR 0x1C]"
  "new_role i org [CHR 0x1C] ps t sys = Inl (InvalidStateError ''A role must have a name.'')"
proof -
  show "text_field (plain_reader\<lparr>sr_trim := unicode_trim\<rparr>) 1 (Some 80) (JStr [CHR 0x1C]) = Some [CHR 0x1C]" by code_simp
  have "strip [CHR 0x1C] = []" by code_simp
  then show "new_role i org [CHR 0x1C] ps t sys = Inl (InvalidStateError ''A role must have a name.'')" by (simp add: new_role_def)
qed

end
