(* ===== verification/Spec2Isabelle.thy ===== *)
theory Spec2Isabelle
  imports GatewayHttp WorkerLoop FindingPipelineProps ValueObjects DomainErrors Policies TenantEntity AccessEntity
    AuditChain ControlDb Rbac RbacProps Auth AuthSessions AuthProps SignInProps AccessProps
    FindingExport Pagination SarifExport FleetReports TriageProps ApiKeys Mfa PythonAgentProps RuleProps
    SchemaProps AiProps HttpRouteProps HttpBodies
begin

text \<open>
  A verification development for the Aegis IAST platform. Runtime agents inside applications watch
  requests reach dangerous calls and send events to an event gateway; the gateway checks, admits and
  publishes them to a stream; a worker consumes the stream and folds taint hits into findings; and a
  control plane serves, triages, exports and guards those findings, manages organizations, their members
  and their agents, and keeps an audit log. All of it is Python; the paths below are under \<open>src/\<close>.

  \<^bold>\<open>How code is read.\<close> A dataclass or row is a record, an enumeration a datatype with a \<open>_value\<close> function for
  its text, a \<open>str\<close> a character list whose characters have one byte, a \<open>dict\<close> an association list in
  insertion order (\<open>dget\<close>, \<open>dput\<close>, \<open>ddel\<close> of \<open>Prelude\<close>), an \<open>int\<close> an \<open>int\<close> or a \<open>nat\<close>, a number that the code
  rounds or adds up a rational. A function that may raise returns \<open>error + value\<close>; every raise and every
  early return is a branch. State is passed explicitly. A use case runs in a unit of work: its model
  computes the outcome and the new database, and \<open>in_transaction\<close> gives the old database back when the
  outcome is an error; where the code commits before it raises (failed sign-ins, reuse of a refresh
  token), the model returns the committed database with the error. \<open>control_exn.Crash\<close> is an exception no
  handler expects (an internal error to the client). Clocks, random identifiers, password hashing,
  signatures, digests, JSON text, Unicode normalization and address parsing are parameters, in records
  such as \<open>control_env\<close>, \<open>auth_deps\<close>, \<open>cursor_env\<close> and \<open>gateway_env\<close>; what a property needs of them is a
  hypothesis of its statement, met by a concrete instance in its witness.

  \<^bold>\<open>Shared ground.\<close> \<open>Prelude\<close>: results, dictionaries, counting, and the collections that carry the automation
  (\<open>dict_simps\<close>). \<open>PyStr\<close>: the string and byte operations the program uses. \<open>Json\<close>: decoded JSON.

  \<^bold>\<open>Agents\<close> (\<open>agents/runtime/python-agent\<close>). \<open>PythonTaint\<close>: \<open>taint.py\<close> and \<open>sinks.py\<close>, request traces, the
  registry of tainted strings and the sink checks. \<open>PythonAgent\<close>: \<open>agent.py\<close> and \<open>hooking.py\<close>, the wrapped
  functions and the modes. \<open>PythonAgentProps\<close>: in monitoring mode the hooks are invisible to the
  application; in blocking mode what a request brought in is stopped at the sinks.

  \<^bold>\<open>Gateway\<close> (\<open>apps/gateway\<close>). \<open>GatewayEvents\<close>: \<open>domain/events.py\<close>, the envelope and its validation.
  \<open>GatewayPorts\<close>: the contracts of \<open>domain/ports.py\<close>, as locales. \<open>GatewayQuota\<close>, \<open>GatewayDedup\<close>: the token
  bucket, shedding and the cache of seen ids (\<open>domain/quota.py\<close>, \<open>infrastructure/limits.py\<close>), each an
  interpretation of its port. \<open>GatewaySinks\<close>: \<open>infrastructure/sinks.py\<close>. \<open>GatewayIngest\<close> and
  \<open>GatewayIngestProps\<close>: \<open>application/ingest.py\<close>, proved once over the ports. \<open>GatewayReplica\<close>: a replica as
  \<open>build_container\<close> wires it, on which the facts of the ports meet. \<open>GatewayHttp\<close>: \<open>auth.py\<close>, \<open>config.py\<close>, the
  endpoint and its problem documents; whatever a batch claims, it is published under the verified tenant.

  \<^bold>\<open>Worker\<close> (\<open>apps/worker\<close>). \<open>WorkerSource\<close>: the file cursor and the tailing source (\<open>cursor.py\<close>,
  \<open>consumer.py\<close>): a line is read exactly once unless the file shrinks. \<open>WorkerLoop\<close>: \<open>main.py\<close> and the Kafka
  source; what is committed was folded. The loop runs on fuel, one unit per iteration of \<open>while True\<close>;
  statements hold for any amount and for every schedule of polls and faults.

  \<^bold>\<open>Findings\<close> (\<open>apps/api\<close>, as everything below). \<open>FindingEntity\<close>, \<open>FindingIdentity\<close>:
  \<open>domain/entities/findings.py\<close>, lifecycle as the step relation \<open>finding_step\<close>, risk, and the identity that
  makes sightings one finding. \<open>FindingPipeline\<close>, \<open>FindingPipelineProps\<close>: \<open>ProcessRuntimeEvents\<close> of
  \<open>application/findings.py\<close>; counters add up, tenants stay apart, a replay creates nothing. \<open>FindingTriage\<close>,
  \<open>TriageProps\<close>: the queue, triage, comments and the expiry sweep. \<open>Keyset\<close>, \<open>Pagination\<close>:
  \<open>infrastructure/db/pagination.py\<close>; the locale \<open>keyset\<close> says what a cursor must do, and following cursors
  visits each row once. The pages are counted on fuel; more than the number of rows is enough, which is
  proved. \<open>FindingExport\<close>, \<open>SarifExport\<close>: \<open>siem.py\<close>, \<open>sarif.py\<close>, \<open>export.py\<close>; a reader written against the
  CEF specification reads every line back. \<open>Compliance\<close>: \<open>reporting.py\<close>, the score and the CSV text with a
  reader of its dialect. \<open>AiAnalysis\<close>, \<open>AiProps\<close>: \<open>domain/entities/ai.py\<close>, \<open>application/ai.py\<close>,
  \<open>ai_orchestrator.py\<close>; an analysis binds nobody until somebody answers for it.

  \<^bold>\<open>Tenants, access and audit.\<close> \<open>DomainErrors\<close>: \<open>domain/errors.py\<close> and the problem documents of
  \<open>interfaces/http/errors.py\<close>. \<open>ValueObjects\<close>, \<open>Policies\<close>: \<open>value_objects.py\<close> (identifiers on words of their
  width), \<open>policies.py\<close>. \<open>TenantEntity\<close>, \<open>AccessEntity\<close>: organizations, licences, users, permissions,
  roles, memberships, sessions, keys, and the principal of \<open>context.py\<close>. \<open>AuditChain\<close>: \<open>entities/audit.py\<close>
  and \<open>audit_recorder.py\<close>; the head of a chain commits to its entries. \<open>ControlDb\<close>: the tables as the
  repositories and the unit of work show them. \<open>Rbac\<close>, \<open>RbacProps\<close>: \<open>rbac.py\<close>, which refines an abstract
  access-control system (\<open>acl_step\<close> on the map from memberships to permissions): authority only grows by
  what the caller holds, and an organization keeps an owner. \<open>ApiKeys\<close>, \<open>Mfa\<close>: \<open>api_keys.py\<close>, \<open>mfa.py\<close>.

  \<^bold>\<open>Signing in.\<close> \<open>Auth\<close>, \<open>AuthSessions\<close>: \<open>auth.py\<close>, \<open>tokens.py\<close>, \<open>dto.py\<close>. \<open>AuthProps\<close>: the invariant of the
  session table; reuse of a refresh token ends its family, and no revoked session revives. \<open>SignInProps\<close>:
  how many passwords can be tried in a span of time. \<open>AccessProps\<close>: a removed member is locked out at once.

  \<^bold>\<open>Fleet and rules.\<close> \<open>InventoryEntity\<close>, \<open>Fleet\<close>: \<open>inventory.py\<close>, \<open>agents.py\<close> and the sweep of
  \<open>operations.py\<close>. \<open>FleetProps\<close>: every operation is a sequence of moves, the invariants are proved once per
  move. \<open>FleetGuards\<close>, \<open>FleetReports\<close>: blocking in production needs a soak, a disabled agent stays out, the
  licence is kept, a registered agent can report. \<open>RuleCatalogue\<close>, \<open>RuleProps\<close>: \<open>entities/rules.py\<close>,
  \<open>rules.py\<close>, \<open>bundle_signing.py\<close>.

  \<^bold>\<open>Rows.\<close> \<open>RowMapping\<close>, \<open>RowMappingFleet\<close>: \<open>models.py\<close> and \<open>mappers.py\<close>, a record per table with what its
  columns accept. \<open>RowProps\<close>: the locale \<open>row_mapper\<close>, interpreted for every table, and the table of findings
  refining the dictionary the pipeline is modelled on. \<open>SchemaProps\<close>: what happens when a value does not
  fit its column.

  \<^bold>\<open>The edge.\<close> \<open>HttpGuards\<close>: \<open>dependencies.py\<close>, \<open>middleware.py\<close>, \<open>config.py\<close>: which principal a credential is.
  \<open>HttpSchemas\<close>: the request bodies of \<open>schemas.py\<close>, each a reader that gives a value or refuses.
  \<open>HttpResponses\<close>: the answers as JSON. \<open>HttpRoutes\<close>, \<open>HttpRoutesFleet\<close>: one definition per handler of
  \<open>routers/\<close>: guard, body, use case, answer. \<open>HttpRouteProps\<close>: the routes as a table with the permissions
  each needs; nobody else is answered or changes anything. \<open>HttpBodies\<close>: what the schemas accept the
  entities store whole. \<open>Reading\<close>: \<open>application/audit.py\<close>, the pages of members and of the audit log.
  \<open>Protection\<close>: \<open>protection.py\<close>, whose policies no call keeps and none of which ever blocks.

  \<^bold>\<open>Not modelled.\<close> The Java, Node and .NET agents and the dashboard are not Python. The migrations under
  \<open>alembic/\<close> build the schema that \<open>models.py\<close> declares; statements of SQL, locks and row-level security are
  the database's: a query is its result on the tables, one transaction runs at a time, and the tenant
  filter is the one the repositories write. Framework code (the routing of FastAPI,
  what pydantic reads out of a JSON value, SQLAlchemy's sessions, Kafka's client), cryptography (Argon2,
  AES-GCM, Ed25519, JWT) and the clock are parameters. Metrics, logging, tracing, the command line,
  \<open>container.py\<close>, the event broadcaster, the ClickHouse writer and the probes are wiring and input or
  output; \<open>scripts/\<close> and \<open>routers/benchmark.py\<close> make documents, demonstrations and measurements; \<open>ports.py\<close>
  declares the interfaces whose implementations are modelled.
\<close>

end
